(* ===== verification/Prelude.thy ===== *)
theory Prelude
  imports Main "HOL-Library.Word"
begin

unbundle bit_operations_syntax

text \<open>
  Shared material of the development: the machine types of the C and Rust sources, the result
  type in which every failing operation of the models returns, the bit view of byte buffers,
  and the lemmas on buffers, words and digit sums that several components use.
\<close>

subsection \<open>Machine types\<close>

type_synonym u8 = "8 word"
type_synonym u16 = "16 word"
type_synonym u32 = "32 word"
type_synonym u64 = "64 word"
type_synonym u128 = "128 word"

subsection \<open>Failures as values\<close>

text \<open>
  \<open>OutOfBounds\<close> is a memory access outside the buffer the program was given (undefined
  behaviour in C and in the unsafe parts of the Rust code); \<open>Assertion\<close> is a failed C
  \<open>assert\<close> or Rust \<open>assert!\<close>; \<open>Panic\<close> is any other Rust panic (an index
  out of range, an arithmetic overflow under overflow checks, an explicit \<open>panic!\<close>);
  \<open>Err\<close> is a value of the source's error type, returned to the caller.
\<close>

datatype failure = OutOfBounds | Assertion | Panic | Err

type_synonym 'a res = "failure + 'a"

fun res_bind :: "'a res \<Rightarrow> ('a \<Rightarrow> 'b res) \<Rightarrow> 'b res" where
  "res_bind (Inl e) f = Inl e"
| "res_bind (Inr x) f = f x"

definition require :: "failure \<Rightarrow> bool \<Rightarrow> unit res" where
  "require e b = (if b then Inr () else Inl e)"

lemma res_bind_Inr_iff:
  "res_bind m f = Inr y \<longleftrightarrow> (\<exists>x. m = Inr x \<and> f x = Inr y)"
  by (cases m) auto

fun mapM_res :: "('a \<Rightarrow> 'b res) \<Rightarrow> 'a list \<Rightarrow> 'b list res" where
  "mapM_res f [] = Inr []"
| "mapM_res f (x # xs) =
     res_bind (f x) (\<lambda>y. res_bind (mapM_res f xs) (\<lambda>ys. Inr (y # ys)))"

fun foldM_res :: "('s \<Rightarrow> 'a \<Rightarrow> 's res) \<Rightarrow> 's \<Rightarrow> 'a list \<Rightarrow> 's res" where
  "foldM_res f s [] = Inr s"
| "foldM_res f s (x # xs) = res_bind (f s x) (\<lambda>s'. foldM_res f s' xs)"

lemma mapM_res_total:
  "(\<And>x. x \<in> set xs \<Longrightarrow> f x = Inr (g x)) \<Longrightarrow> mapM_res f xs = Inr (map g xs)"
  by (induction xs) auto

lemma foldM_res_append:
  "foldM_res f s (xs @ ys) = res_bind (foldM_res f s xs) (\<lambda>s'. foldM_res f s' ys)"
proof (induction xs arbitrary: s)
  case (Cons x xs)
  then show ?case by (cases "f s x") simp_all
qed simp

lemma foldM_res_map: "foldM_res f s (map g xs) = foldM_res (\<lambda>s x. f s (g x)) s xs"
proof (induction xs arbitrary: s)
  case (Cons x xs)
  then show ?case by (cases "f s (g x)") simp_all
qed simp

text \<open>Running a loop body over \<open>0, \<dots>, n - 1\<close> keeps an indexed invariant.\<close>

lemma foldM_res_upt:
  assumes "P 0 s" and "\<And>i s. i < n \<Longrightarrow> P i s \<Longrightarrow> \<exists>s'. f s i = Inr s' \<and> P (Suc i) s'"
  shows "\<exists>s'. foldM_res f s [0..<n] = Inr s' \<and> P n s'"
  using assms(2)
proof (induction n)
  case 0
  with assms(1) show ?case by simp
next
  case (Suc n)
  then obtain s1 where s1: "foldM_res f s [0..<n] = Inr s1" "P n s1"
    by (meson less_SucI)
  moreover obtain s2 where "f s1 n = Inr s2" "P (Suc n) s2"
    using Suc.prems [of n s1] s1(2) by auto
  ultimately show ?case by (simp add: foldM_res_append)
qed

lemma require_True [simp]: "require e True = Inr ()"
  by (simp add: require_def)

lemma require_False [simp]: "require e False = Inl e"
  by (simp add: require_def)

subsection \<open>Checked machine arithmetic\<close>

text \<open>Rust's \<open>+\<close>, \<open>-\<close> and \<open>*\<close> on unsigned integers under overflow checks.\<close>

definition checked_add :: "'a :: len word \<Rightarrow> 'a word \<Rightarrow> 'a word res" where
  "checked_add a b = (if unat a + unat b < 2 ^ LENGTH('a) then Inr (a + b) else Inl Panic)"

definition checked_sub :: "'a :: len word \<Rightarrow> 'a word \<Rightarrow> 'a word res" where
  "checked_sub a b = (if b \<le> a then Inr (a - b) else Inl Panic)"

definition checked_mul :: "'a :: len word \<Rightarrow> 'a word \<Rightarrow> 'a word res" where
  "checked_mul a b = (if unat a * unat b < 2 ^ LENGTH('a) then Inr (a * b) else Inl Panic)"

lemma unat_of_nat_small: "n < 2 ^ LENGTH('a) \<Longrightarrow> unat (of_nat n :: 'a :: len word) = n"
  by (simp add: unat_of_nat)

lemma checked_add_of_nat:
  "m + n < 2 ^ LENGTH('a) \<Longrightarrow> checked_add (of_nat m) (of_nat n) = Inr (of_nat (m + n) :: 'a :: len word)"
  by (simp add: checked_add_def unat_of_nat_small)

lemma checked_sub_of_nat:
  "n \<le> m \<Longrightarrow> m < 2 ^ LENGTH('a) \<Longrightarrow>
   checked_sub (of_nat m) (of_nat n) = Inr (of_nat (m - n) :: 'a :: len word)"
  by (simp add: checked_sub_def word_le_nat_alt unat_of_nat_small of_nat_diff)

lemma checked_mul_of_nat:
  "m < 2 ^ LENGTH('a) \<Longrightarrow> n < 2 ^ LENGTH('a) \<Longrightarrow> m * n < 2 ^ LENGTH('a) \<Longrightarrow>
   checked_mul (of_nat m) (of_nat n) = Inr (of_nat (m * n) :: 'a :: len word)"
  by (simp add: checked_mul_def unat_of_nat_small)

lemma of_nat_le_iff_small:
  "m < 2 ^ LENGTH('a) \<Longrightarrow> n < 2 ^ LENGTH('a) \<Longrightarrow> (of_nat m :: 'a :: len word) \<le> of_nat n \<longleftrightarrow> m \<le> n"
  by (simp add: word_le_nat_alt unat_of_nat_small)

subsection \<open>Byte buffers\<close>

text \<open>Bit \<open>k\<close> of a byte buffer: bit \<open>k mod 8\<close> of byte \<open>k div 8\<close>.\<close>

definition buf_bit :: "u8 list \<Rightarrow> nat \<Rightarrow> bool" where
  "buf_bit b k = bit (b ! (k div 8)) (k mod 8)"

lemma buf_bit_byte: "k < 8 \<Longrightarrow> buf_bit b (8 * m + k) = bit (b ! m) k"
  by (simp add: buf_bit_def)

lemma buf_bit_row: "buf_bit b (8 * m + c) = bit (b ! (m + c div 8)) (c mod 8)"
  by (simp add: buf_bit_def)

lemma byte_eqI: "(\<And>k. k < 8 \<Longrightarrow> bit x k = bit y k) \<Longrightarrow> x = (y :: u8)"
  by (rule bit_word_eqI) simp

lemma buf_eqI:
  assumes "length a = length b" and "\<And>k. k < 8 * length b \<Longrightarrow> buf_bit a k = buf_bit b k"
  shows "a = b"
proof (rule nth_equalityI)
  fix m assume m: "m < length a"
  show "a ! m = b ! m"
  proof (rule byte_eqI)
    fix k :: nat assume k: "k < 8"
    with m assms(1) have "8 * m + k < 8 * length b" by simp
    from assms(2) [OF this] show "bit (a ! m) k = bit (b ! m) k"
      by (simp add: buf_bit_byte k)
  qed
qed (simp add: assms(1))

text \<open>
  A buffer under construction: the cells of \<open>S\<close> already hold what the finished buffer
  \<open>t\<close> holds. Storing a final value adds its cell and disturbs no other.
\<close>

definition agrees_on :: "'a list \<Rightarrow> nat set \<Rightarrow> 'a list \<Rightarrow> bool" where
  "agrees_on t S b \<longleftrightarrow> length b = length t \<and> (\<forall>m\<in>S. m < length t \<longrightarrow> b ! m = t ! m)"

lemma agrees_on_empty: "length b = length t \<Longrightarrow> agrees_on t {} b"
  by (simp add: agrees_on_def)

lemma agrees_on_length: "agrees_on t S b \<Longrightarrow> length b = length t"
  by (simp add: agrees_on_def)

lemma agrees_on_update:
  "agrees_on t S b \<Longrightarrow> v = t ! m \<Longrightarrow> agrees_on t (insert m S) (b[m := v])"
  by (simp add: agrees_on_def) (metis nth_list_update nth_list_update_neq)

lemma agrees_on_mono: "agrees_on t S b \<Longrightarrow> S' \<subseteq> S \<Longrightarrow> agrees_on t S' b"
  by (auto simp: agrees_on_def)

lemma agrees_on_all: "agrees_on t S b \<Longrightarrow> {..<length t} \<subseteq> S \<Longrightarrow> b = t"
  by (rule nth_equalityI) (auto simp: agrees_on_def)

end
