(* ===== verification/Transpose.thy ===== *)
theory Transpose
  imports Prelude
begin

unbundle bit_operations_syntax

text \<open>
  The C function \<open>sse_trans\<close> of \<open>ocelot/cbits/transpose.c\<close>: the bit-matrix
  transpose under the oblivious-transfer and VOLE extensions. Buffers are byte lists, every
  access outside of them is the failure \<open>OutOfBounds\<close>; row and column counters are 64-bit
  words with C's wrap-around; the 16-bit loads and stores are x86's (little-endian, unaligned
  allowed). The SSE intrinsics are written out on 128-bit words.
\<close>

subsection \<open>SSE registers\<close>

type_synonym m128 = u128

text \<open>A register from its bytes, byte 0 first; the \<open>set\<close> intrinsics take byte 15 first.\<close>

fun mm_of_bytes :: "u8 list \<Rightarrow> m128" where
  "mm_of_bytes [] = 0"
| "mm_of_bytes (b # bs) = ucast b OR push_bit 8 (mm_of_bytes bs)"

definition mm_set_epi8 :: "u8 list \<Rightarrow> m128" where
  "mm_set_epi8 es = mm_of_bytes (rev es)"

fun mm_of_halves :: "u16 list \<Rightarrow> m128" where
  "mm_of_halves [] = 0"
| "mm_of_halves (h # hs) = ucast h OR push_bit 16 (mm_of_halves hs)"

definition mm_set_epi16 :: "u16 list \<Rightarrow> m128" where
  "mm_set_epi16 es = mm_of_halves (rev es)"

text \<open>\<open>_mm_slli_epi64\<close> shifts the two 64-bit lanes separately.\<close>

definition mm_slli_epi64 :: "m128 \<Rightarrow> nat \<Rightarrow> m128" where
  "mm_slli_epi64 v k =
     push_bit 64 (push_bit k (drop_bit 64 v)) OR take_bit 64 (push_bit k (take_bit 64 v))"

text \<open>\<open>_mm_movemask_epi8\<close> collects the top bit of every byte into an \<open>int\<close>.\<close>

definition mm_movemask_epi8 :: "m128 \<Rightarrow> u32" where
  "mm_movemask_epi8 v = horner_sum of_bool 2 (map (\<lambda>j. bit v (8 * j + 7)) [0..<16])"

text \<open>The store \<open>tmp.b[j] = b\<close> through the union of a register and its 16 bytes.\<close>

definition mm_set_byte :: "m128 \<Rightarrow> nat \<Rightarrow> u8 \<Rightarrow> m128" where
  "mm_set_byte v j b = (v AND NOT (push_bit (8 * j) 255)) OR push_bit (8 * j) (ucast b)"

subsection \<open>Memory\<close>

definition rd8 :: "u8 list \<Rightarrow> u64 \<Rightarrow> u8 res" where
  "rd8 b i = (if unat i < length b then Inr (b ! unat i) else Inl OutOfBounds)"

definition rd16 :: "u8 list \<Rightarrow> u64 \<Rightarrow> u16 res" where
  "rd16 b i =
     (if unat i + 1 < length b
      then Inr (ucast (b ! unat i) OR push_bit 8 (ucast (b ! (unat i + 1))))
      else Inl OutOfBounds)"

definition wr8 :: "u8 list \<Rightarrow> u64 \<Rightarrow> u8 \<Rightarrow> u8 list res" where
  "wr8 b i v = (if unat i < length b then Inr (b[unat i := v]) else Inl OutOfBounds)"

definition wr16 :: "u8 list \<Rightarrow> u64 \<Rightarrow> u16 \<Rightarrow> u8 list res" where
  "wr16 b i v =
     (if unat i + 1 < length b
      then Inr (b[unat i := ucast v, unat i + 1 := ucast (drop_bit 8 v)])
      else Inl OutOfBounds)"

text \<open>The macros \<open>INP(x, y)\<close> and \<open>OUT(x, y)\<close>: the byte indices they stand for.\<close>

definition INP_at :: "u64 \<Rightarrow> u64 \<Rightarrow> u64 \<Rightarrow> u64" where
  "INP_at ncols x y = x * ncols div 8 + y div 8"

definition OUT_at :: "u64 \<Rightarrow> u64 \<Rightarrow> u64 \<Rightarrow> u64" where
  "OUT_at nrows x y = y * nrows div 8 + x div 8"

subsection \<open>The main body, 16x8 blocks\<close>

text \<open>\<open>for (i = 8; --i >= 0; vec = _mm_slli_epi64(vec, 1))\<close>, started with \<open>i = 8\<close>.\<close>

fun store_cols16 :: "u64 \<Rightarrow> u64 \<Rightarrow> u64 \<Rightarrow> nat \<Rightarrow> m128 \<Rightarrow> u8 list \<Rightarrow> u8 list res" where
  "store_cols16 nrows rr cc 0 vec out = Inr out"
| "store_cols16 nrows rr cc (Suc i) vec out =
     res_bind (wr16 out (OUT_at nrows rr (cc + of_nat i)) (ucast (mm_movemask_epi8 vec)))
       (\<lambda>out. store_cols16 nrows rr cc i (mm_slli_epi64 vec 1) out)"

definition block16 ::
  "u8 list \<Rightarrow> u64 \<Rightarrow> u64 \<Rightarrow> u64 \<Rightarrow> u64 \<Rightarrow> u8 list \<Rightarrow> u8 list res" where
  "block16 inp nrows ncols rr cc out =
     res_bind (mapM_res (\<lambda>k. rd8 inp (INP_at ncols (rr + of_nat k) cc)) (rev [0..<16]))
       (\<lambda>es. store_cols16 nrows rr cc 8 (mm_set_epi8 es) out)"

partial_function (option) main_cols ::
  "u8 list \<Rightarrow> u64 \<Rightarrow> u64 \<Rightarrow> u64 \<Rightarrow> u64 \<Rightarrow> u8 list \<Rightarrow> u8 list res option" where
  "main_cols inp nrows ncols rr cc out =
     (if cc < ncols
      then (case block16 inp nrows ncols rr cc out of
              Inl e \<Rightarrow> Some (Inl e)
            | Inr out' \<Rightarrow> main_cols inp nrows ncols rr (cc + 8) out')
      else Some (Inr out))"

text \<open>The outer loop returns the row counter it ends with: the code tests it next.\<close>

partial_function (option) main_rows ::
  "u8 list \<Rightarrow> u64 \<Rightarrow> u64 \<Rightarrow> u64 \<Rightarrow> u8 list \<Rightarrow> (u64 \<times> u8 list) res option" where
  "main_rows inp nrows ncols rr out =
     (if rr \<le> nrows - 16
      then Option.bind (main_cols inp nrows ncols rr 0 out)
             (\<lambda>r. case r of
                Inl e \<Rightarrow> Some (Inl e)
              | Inr out' \<Rightarrow> main_rows inp nrows ncols (rr + 16) out')
      else Some (Inr (rr, out)))"

subsection \<open>The remaining eight rows, pairs of 8x8 blocks\<close>

definition load_pair :: "u8 list \<Rightarrow> u64 \<Rightarrow> u64 \<Rightarrow> u64 \<Rightarrow> m128 \<Rightarrow> m128 res" where
  "load_pair inp ncols rr cc tmp =
     foldM_res (\<lambda>tmp i.
       res_bind (rd16 inp (INP_at ncols (rr + of_nat i) cc))
         (\<lambda>h. Inr (mm_set_byte (mm_set_byte tmp i (ucast h)) (i + 8) (ucast (drop_bit 8 h)))))
       tmp [0..<8]"

fun store_pair ::
  "u64 \<Rightarrow> u64 \<Rightarrow> u64 \<Rightarrow> nat \<Rightarrow> m128 \<Rightarrow> u8 list \<Rightarrow> (m128 \<times> u8 list) res" where
  "store_pair nrows rr cc 0 tmp out = Inr (tmp, out)"
| "store_pair nrows rr cc (Suc i) tmp out =
     (let h = mm_movemask_epi8 tmp in
      res_bind (wr8 out (OUT_at nrows rr (cc + of_nat i)) (ucast h))
        (\<lambda>out. res_bind (wr8 out (OUT_at nrows rr (cc + of_nat i + 8)) (ucast (drop_bit 8 h)))
          (\<lambda>out. store_pair nrows rr cc i (mm_slli_epi64 tmp 1) out)))"

partial_function (option) pair_cols ::
  "u8 list \<Rightarrow> u64 \<Rightarrow> u64 \<Rightarrow> u64 \<Rightarrow> u64 \<Rightarrow> m128 \<Rightarrow> u8 list \<Rightarrow> (u64 \<times> m128 \<times> u8 list) res option" where
  "pair_cols inp nrows ncols rr cc tmp out =
     (if cc \<le> ncols - 16
      then (case res_bind (load_pair inp ncols rr cc tmp)
                   (\<lambda>tmp. store_pair nrows rr cc 8 tmp out) of
              Inl e \<Rightarrow> Some (Inl e)
            | Inr (tmp', out') \<Rightarrow> pair_cols inp nrows ncols rr (cc + 16) tmp' out')
      else Some (Inr (cc, tmp, out)))"

text \<open>The variant with \<open>_mm_set_epi16\<close>; its register is local, so \<open>tmp\<close> is not touched.\<close>

definition load_epi16 :: "u8 list \<Rightarrow> u64 \<Rightarrow> u64 \<Rightarrow> u64 \<Rightarrow> m128 res" where
  "load_epi16 inp ncols rr cc =
     res_bind (mapM_res (\<lambda>k. rd16 inp (INP_at ncols (rr + of_nat k) cc)) (rev [0..<8]))
       (\<lambda>es. Inr (mm_set_epi16 es))"

partial_function (option) pair_cols_epi16 ::
  "u8 list \<Rightarrow> u64 \<Rightarrow> u64 \<Rightarrow> u64 \<Rightarrow> u64 \<Rightarrow> u8 list \<Rightarrow> (u64 \<times> u8 list) res option" where
  "pair_cols_epi16 inp nrows ncols rr cc out =
     (if cc \<le> ncols - 16
      then (case res_bind (load_epi16 inp ncols rr cc)
                   (\<lambda>vec. store_pair nrows rr cc 8 vec out) of
              Inl e \<Rightarrow> Some (Inl e)
            | Inr (_, out') \<Rightarrow> pair_cols_epi16 inp nrows ncols rr (cc + 16) out')
      else Some (Inr (cc, out)))"

subsection \<open>The last 8x8 block\<close>

definition load_last :: "u8 list \<Rightarrow> u64 \<Rightarrow> u64 \<Rightarrow> u64 \<Rightarrow> m128 \<Rightarrow> m128 res" where
  "load_last inp ncols rr cc tmp =
     foldM_res (\<lambda>tmp i.
       res_bind (rd8 inp (INP_at ncols (rr + of_nat i) cc)) (\<lambda>b. Inr (mm_set_byte tmp i b)))
       tmp [0..<8]"

fun store_last :: "u64 \<Rightarrow> u64 \<Rightarrow> u64 \<Rightarrow> nat \<Rightarrow> m128 \<Rightarrow> u8 list \<Rightarrow> u8 list res" where
  "store_last nrows rr cc 0 tmp out = Inr out"
| "store_last nrows rr cc (Suc i) tmp out =
     res_bind (wr8 out (OUT_at nrows rr (cc + of_nat i)) (ucast (mm_movemask_epi8 tmp)))
       (\<lambda>out. store_last nrows rr cc i (mm_slli_epi64 tmp 1) out)"

subsection \<open>The function\<close>

text \<open>
  \<open>tmp0\<close> is the indeterminate initial value of the union \<open>tmp\<close>. The result is \<open>None\<close> where
  a loop does not end, \<open>Some (Inl e)\<close> where the code fails, and otherwise the output buffer.
\<close>

definition last_cols ::
  "u8 list \<Rightarrow> u64 \<Rightarrow> u64 \<Rightarrow> u64 \<Rightarrow> u64 \<times> m128 \<times> u8 list \<Rightarrow> u8 list res" where
  "last_cols inp nrows ncols rr = (\<lambda>(cc, tmp, out).
     if cc = ncols then Inr out
     else res_bind (load_last inp ncols rr cc tmp) (\<lambda>tmp. store_last nrows rr cc 8 tmp out))"

definition after_rows ::
  "u8 list \<Rightarrow> u64 \<Rightarrow> u64 \<Rightarrow> u64 \<Rightarrow> m128 \<Rightarrow> u8 list \<Rightarrow> u8 list res option" where
  "after_rows inp nrows ncols rr tmp0 out =
     Option.bind
       (if (ncols mod 8 = 0 \<and> ncols mod 16 \<noteq> 0) \<or> (nrows mod 8 = 0 \<and> nrows mod 16 \<noteq> 0)
        then pair_cols inp nrows ncols rr 0 tmp0 out
        else map_option (map_sum id (\<lambda>(cc, out). (cc, tmp0, out)))
               (pair_cols_epi16 inp nrows ncols rr 0 out))
       (\<lambda>r. Some (res_bind r (last_cols inp nrows ncols rr)))"

definition sse_trans ::
  "m128 \<Rightarrow> u8 list \<Rightarrow> u8 list \<Rightarrow> u64 \<Rightarrow> u64 \<Rightarrow> u8 list res option" where
  "sse_trans tmp0 out inp nrows ncols =
     (if nrows mod 8 = 0 \<and> ncols mod 8 = 0
      then Option.bind (main_rows inp nrows ncols 0 out)
             (\<lambda>r. case r of
                Inl e \<Rightarrow> Some (Inl e)
              | Inr (rr, out) \<Rightarrow>
                  if rr = nrows then Some (Inr out)
                  else after_rows inp nrows ncols rr tmp0 out)
      else Some (Inl Assertion))"

end
