(* ===== verification/Transpose_Registers.thy ===== *)
theory Transpose_Registers
  imports Transpose
begin

unbundle bit_operations_syntax

text \<open>
  The SSE intrinsics by their bits, and the sliding register of the store loops.
\<close>

lemma bit_mm_of_bytes:
  "length bs \<le> 16 \<Longrightarrow>
   bit (mm_of_bytes bs) n \<longleftrightarrow> n < 8 * length bs \<and> bit (bs ! (n div 8)) (n mod 8)"
proof (induction bs arbitrary: n)
  case (Cons b bs)
  show ?case
  proof (cases "n < 8")
    case True
    then show ?thesis by (simp add: bit_simps)
  next
    case False
    then have n: "n div 8 = Suc ((n - 8) div 8)" "n mod 8 = (n - 8) mod 8"
      by (simp_all add: le_div_geq le_mod_geq)
    have "\<not> bit (ucast b :: m128) n"
      using False by (auto simp: bit_simps dest: bit_imp_le_length)
    then show ?thesis
      using False Cons.prems n by (auto simp: bit_simps Cons.IH)
  qed
qed simp

lemma bit_mm_slli_epi64:
  assumes n: "n < 128" and k: "k \<le> n mod 64"
  shows "bit (mm_slli_epi64 v k) n = bit v (n - k)"
proof (cases "n < 64")
  case True
  with n k show ?thesis by (auto simp: mm_slli_epi64_def bit_simps)
next
  case False
  with n have "n mod 64 = n - 64" by (simp add: mod_if)
  with k False have k': "64 + k \<le> n" "64 + (n - (64 + k)) = n - k" by simp_all
  have "\<not> n - k < 64" using k' by simp
  with n k' False show ?thesis
    by (auto simp: mm_slli_epi64_def bit_simps)
qed

lemma bit_mm_movemask_epi8:
  "bit (mm_movemask_epi8 v) j \<longleftrightarrow> j < 16 \<and> bit v (8 * j + 7)"
  unfolding mm_movemask_epi8_def by (auto simp: bit_horner_sum_bit_word_iff)

lemma bit_mm_set_byte:
  assumes n: "n < 128"
  shows "bit (mm_set_byte v j b) n = (if n div 8 = j then bit b (n mod 8) else bit v n)"
proof -
  have 255: "(255 :: m128) = mask 8" by (simp add: mask_eq_exp_minus_1)
  have m: "bit (push_bit (8 * j) (255 :: m128)) n \<longleftrightarrow> n div 8 = j"
    unfolding 255 using n by (auto simp: bit_simps)
  have "bit (push_bit (8 * j) (ucast b :: m128)) n \<longleftrightarrow> 8 * j \<le> n \<and> bit b (n - 8 * j)"
    using n by (auto simp: bit_simps)
  also have "\<dots> \<longleftrightarrow> n div 8 = j \<and> bit b (n mod 8)"
  proof (cases "8 * j \<le> n \<and> n - 8 * j < 8")
    case True
    define k where "k = n - 8 * j"
    from True have "n = 8 * j + k" "k < 8" by (simp_all add: k_def)
    then have "n div 8 = j" "n mod 8 = n - 8 * j" by simp_all
    with True show ?thesis by simp
  next
    case False
    then show ?thesis by (auto dest: bit_imp_le_length)
  qed
  finally have b: "bit (push_bit (8 * j) (ucast b :: m128)) n \<longleftrightarrow> n div 8 = j \<and> bit b (n mod 8)" .
  show ?thesis
    using n by (simp add: mm_set_byte_def bit_or_iff bit_and_iff bit_not_iff m b)
qed

text \<open>
  The register while the store loop runs: with \<open>i\<close> columns left, byte \<open>j\<close> (of the first \<open>J\<close>)
  has the bits \<open>src j 0, \<dots>, src j (i - 1)\<close> at its top. Bits that spill over from the byte
  below never reach that part.
\<close>

definition shifted :: "nat \<Rightarrow> (nat \<Rightarrow> nat \<Rightarrow> bool) \<Rightarrow> nat \<Rightarrow> m128 \<Rightarrow> bool" where
  "shifted J src i v \<longleftrightarrow> (\<forall>j<J. \<forall>q<i. bit v (8 * j + (q + 8 - i)) = src j q)"

lemma shifted_movemask:
  assumes s: "shifted J src (Suc i) v" and j: "j < J" and J: "J \<le> 16"
  shows "bit (mm_movemask_epi8 v) j = src j i"
proof -
  have "i + 8 - Suc i = 7" by simp
  with s j have "bit v (8 * j + 7) = src j i" unfolding shifted_def by (metis lessI)
  with j J show ?thesis by (simp add: bit_mm_movemask_epi8)
qed

lemma shifted_slli:
  assumes s: "shifted J src (Suc i) v" and i: "i < 8" and J: "J \<le> 16"
  shows "shifted J src i (mm_slli_epi64 v 1)"
  unfolding shifted_def
proof (intro allI impI)
  fix j q assume j: "j < J" and q: "q < i"
  define r where "r = q + 8 - i"
  have r: "1 \<le> r" "r < 8" "r - 1 = q + 8 - Suc i" using q i by (simp_all add: r_def)
  have n: "8 * j + r < 128" "8 * j + r - 1 = 8 * j + (r - 1)" using j r J by simp_all
  have "(8 * j + r) mod 64 mod 8 = r" using r by (simp add: mod_mod_cancel)
  then have "1 \<le> (8 * j + r) mod 64" using r(1) by (cases "(8 * j + r) mod 64 = 0") simp_all
  then have "bit (mm_slli_epi64 v 1) (8 * j + r) = bit v (8 * j + r - 1)"
    using n(1) by (rule bit_mm_slli_epi64 [rotated])
  also have "\<dots> = src j q"
    using s j q unfolding shifted_def n(2) r(3) by simp
  finally show "bit (mm_slli_epi64 v 1) (8 * j + (q + 8 - i)) = src j q"
    by (simp add: r_def)
qed

lemma shifted_start: "shifted J (\<lambda>j q. bit v (8 * j + q)) 8 v"
  by (simp add: shifted_def)

end
