(* ===== verification/Transpose_Correct.thy ===== *)
theory Transpose_Correct
  imports Transpose_Registers
begin

unbundle bit_operations_syntax

text \<open>
  What the loops of \<open>sse_trans\<close> store. Dimensions are \<open>nrows = 8 * R\<close>, \<open>ncols = 8 * C\<close>.
\<close>

subsection \<open>The transposed buffer\<close>

definition tbyte :: "nat \<Rightarrow> u8 list \<Rightarrow> nat \<Rightarrow> nat \<Rightarrow> u8" where
  "tbyte C inp b c = horner_sum of_bool 2 (map (\<lambda>k. buf_bit inp ((8 * b + k) * (8 * C) + c)) [0..<8])"

definition tspec :: "nat \<Rightarrow> nat \<Rightarrow> u8 list \<Rightarrow> u8 list" where
  "tspec R C inp = map (\<lambda>m. tbyte C inp (m mod R) (m div R)) [0..<8 * C * R]"

lemma bit_tbyte:
  assumes "k < 8"
  shows "bit (tbyte C inp b c) k = bit (inp ! ((8 * b + k) * C + c div 8)) (c mod 8)"
proof -
  have e: "(8 * b + k) * (8 * C) + c = 8 * ((8 * b + k) * C) + c" by simp
  have "buf_bit inp ((8 * b + k) * (8 * C) + c) =
      bit (inp ! ((8 * b + k) * C + c div 8)) (c mod 8)"
    unfolding e by (rule buf_bit_row)
  with assms show ?thesis by (simp add: tbyte_def bit_horner_sum_bit_word_iff)
qed

lemma length_tspec [simp]: "length (tspec R C inp) = 8 * C * R"
  by (simp add: tspec_def)

lemma cell_less: "c < m \<Longrightarrow> b < R \<Longrightarrow> c * R + b < m * (R :: nat)"
  by (metis add.commute add_less_cancel_left less_le_trans mult_Suc Suc_leI mult_le_mono1)

lemma nth_tspec: "c < 8 * C \<Longrightarrow> b < R \<Longrightarrow> tspec R C inp ! (c * R + b) = tbyte C inp b c"
  using cell_less [of c "8 * C" b R] by (simp add: tspec_def)

definition cellset :: "nat \<Rightarrow> nat set \<Rightarrow> nat set \<Rightarrow> nat set" where
  "cellset R B X = {c * R + b | c b. c \<in> X \<and> b \<in> B}"

lemma cellset_Un_cols: "cellset R B (X \<union> Y) = cellset R B X \<union> cellset R B Y"
  by (auto simp: cellset_def)

lemma cellset_Un_rows: "cellset R (A \<union> B) X = cellset R A X \<union> cellset R B X"
  by (auto simp: cellset_def)

lemma cellset_empty [simp]: "cellset R {} X = {}" "cellset R B {} = {}"
  by (auto simp: cellset_def)

lemma cellset_all: "0 < R \<Longrightarrow> {..<m * R} \<subseteq> cellset R {..<R} {..<m}"
proof
  fix x assume "0 < R" "x \<in> {..<m * R}"
  then have "x div R < m" "x mod R < R" "x = x div R * R + x mod R"
    by (simp_all add: less_mult_imp_div_less)
  then show "x \<in> cellset R {..<R} {..<m}" unfolding cellset_def by blast
qed

subsection \<open>Index arithmetic without overflow\<close>

definition fits :: "nat \<Rightarrow> nat \<Rightarrow> bool" where
  "fits R C \<longleftrightarrow> 0 < R \<and> 0 < C \<and> 8 * R * (8 * C) < 2 ^ 64"

lemma fitsD:
  assumes "fits R C"
  shows "8 * R < 2 ^ 64" "8 * C < 2 ^ 64"
  using assms le_less_trans [of "8 * R" "8 * R * (8 * C)"] le_less_trans [of "8 * C" "8 * R * (8 * C)"]
  by (auto simp: fits_def)

lemma fits_prod: "fits R C \<Longrightarrow> r < 8 * R \<Longrightarrow> r * (8 * C) < 2 ^ 64"
  unfolding fits_def by (meson le_less_trans less_imp_le mult_le_mono1)

lemma fits_commute: "fits R C = fits C R"
  by (simp add: fits_def ac_simps)

lemma unat_of_nat64: "n < 2 ^ 64 \<Longrightarrow> unat (of_nat n :: u64) = n"
  by (simp add: unat_of_nat)

lemma unat_INP_at:
  assumes f: "fits R C" and r: "r < 8 * R" and c: "c < 8 * C"
  shows "unat (INP_at (of_nat (8 * C)) (of_nat r) (of_nat c)) = r * C + c div 8"
proof -
  have p: "r * (8 * C) < 2 ^ 64" by (rule fits_prod [OF f r])
  have sm: "unat (of_nat r * of_nat (8 * C) :: u64) = r * (8 * C)"
    using p unat_of_nat64 [OF p] by (simp only: of_nat_mult)
  have sc: "unat (of_nat c :: u64) = c" using fitsD(2) [OF f] c by (intro unat_of_nat64) simp
  have "r * (8 * C) div 8 = r * C" by simp
  moreover have "r * C + c div 8 \<le> r * (8 * C) + c" by (rule add_mono) simp_all
  then have "r * C + c div 8 < 2 ^ 64"
    using cell_less [OF r c] f unfolding fits_def by linarith
  ultimately show ?thesis
    unfolding INP_at_def unat_word_ariths(1) unat_div_distrib sm sc by simp
qed

lemma unat_OUT_at:
  assumes f: "fits R C" and r: "r < 8 * R" and c: "c < 8 * C"
  shows "unat (OUT_at (of_nat (8 * R)) (of_nat r) (of_nat c)) = c * R + r div 8"
  using unat_INP_at [of C R c r] assms by (simp add: INP_at_def OUT_at_def fits_commute)

subsection \<open>The store loops\<close>

text \<open>
  Each store loop writes, for the columns \<open>i - 1\<close> down to \<open>0\<close>, the bytes its register holds
  at the top of its bytes; if these are the target's, the target's cells are filled in.
\<close>

lemma store_cols16_agrees:
  assumes "agrees_on t S out" and "shifted 16 src i vec" and "i \<le> 8"
    and "\<And>q. q < i \<Longrightarrow> unat (OUT_at nrows rr (cc + of_nat q)) = p q"
    and "\<And>q. q < i \<Longrightarrow> p q + 1 < length t"
    and "\<And>q k. q < i \<Longrightarrow> k < 8 \<Longrightarrow> bit (t ! p q) k = src k q"
    and "\<And>q k. q < i \<Longrightarrow> k < 8 \<Longrightarrow> bit (t ! (p q + 1)) k = src (8 + k) q"
  shows "\<exists>out'. store_cols16 nrows rr cc i vec out = Inr out' \<and>
     agrees_on t (S \<union> (\<Union>q<i. {p q, p q + 1})) out'"
  using assms
proof (induction i arbitrary: S vec out)
  case 0
  then show ?case by simp
next
  case (Suc i)
  note sh = shifted_movemask [OF Suc.prems(2)]
  let ?h = "ucast (mm_movemask_epi8 vec) :: u16"
  have lo: "ucast ?h = t ! p i"
    by (rule byte_eqI) (simp add: bit_simps sh Suc.prems(6))
  have hi: "ucast (drop_bit 8 ?h) = t ! (p i + 1)"
    by (rule byte_eqI) (simp add: bit_simps sh Suc.prems(7) [simplified])
  let ?out = "out[p i := t ! p i, p i + 1 := t ! (p i + 1)]"
  have w: "wr16 out (OUT_at nrows rr (cc + of_nat i)) ?h = Inr ?out"
    using Suc.prems(5) [of i] agrees_on_length [OF Suc.prems(1)]
    by (simp add: wr16_def Suc.prems(4) lo hi)
  have ag: "agrees_on t (insert (p i + 1) (insert (p i) S)) ?out"
    by (intro agrees_on_update Suc.prems(1) refl)
  have "\<exists>out'. store_cols16 nrows rr cc i (mm_slli_epi64 vec 1) ?out = Inr out' \<and>
      agrees_on t (insert (p i + 1) (insert (p i) S) \<union> (\<Union>q<i. {p q, p q + 1})) out'"
    by (rule Suc.IH [OF ag shifted_slli [OF Suc.prems(2)]]) (use Suc.prems(3-7) in simp_all)
  then show ?case
    by (simp add: w lessThan_Suc Un_assoc insert_commute)
qed

lemma store_pair_agrees:
  assumes "agrees_on t S out" and "shifted 16 src i tmp" and "i \<le> 8"
    and "\<And>q. q < i \<Longrightarrow> unat (OUT_at nrows rr (cc + of_nat q)) = p q"
    and "\<And>q. q < i \<Longrightarrow> unat (OUT_at nrows rr (cc + of_nat q + 8)) = p' q"
    and "\<And>q. q < i \<Longrightarrow> p q < length t \<and> p' q < length t"
    and "\<And>q k. q < i \<Longrightarrow> k < 8 \<Longrightarrow> bit (t ! p q) k = src k q"
    and "\<And>q k. q < i \<Longrightarrow> k < 8 \<Longrightarrow> bit (t ! p' q) k = src (8 + k) q"
  shows "\<exists>tmp' out'. store_pair nrows rr cc i tmp out = Inr (tmp', out') \<and>
     agrees_on t (S \<union> (\<Union>q<i. {p q, p' q})) out'"
  using assms
proof (induction i arbitrary: S tmp out)
  case 0
  then show ?case by simp
next
  case (Suc i)
  note sh = shifted_movemask [OF Suc.prems(2)]
  let ?h = "mm_movemask_epi8 tmp"
  have lo: "ucast ?h = t ! p i"
    by (rule byte_eqI) (simp add: bit_simps sh Suc.prems(7))
  have hi: "ucast (drop_bit 8 ?h) = t ! p' i"
    by (rule byte_eqI) (simp add: bit_simps sh Suc.prems(8))
  let ?out = "out[p i := t ! p i, p' i := t ! p' i]"
  have ag: "agrees_on t (insert (p' i) (insert (p i) S)) ?out"
    by (intro agrees_on_update Suc.prems(1) refl)
  have "\<exists>tmp' out'. store_pair nrows rr cc i (mm_slli_epi64 tmp 1) ?out = Inr (tmp', out') \<and>
      agrees_on t (insert (p' i) (insert (p i) S) \<union> (\<Union>q<i. {p q, p' q})) out'"
    by (rule Suc.IH [OF ag shifted_slli [OF Suc.prems(2)]]) (use Suc.prems(3-8) in simp_all)
  then show ?case
    using Suc.prems(6) [of i] agrees_on_length [OF Suc.prems(1)]
    by (simp add: wr8_def Suc.prems(4,5) lo hi Let_def lessThan_Suc Un_assoc insert_commute)
qed

lemma store_last_agrees:
  assumes "agrees_on t S out" and "shifted 8 src i tmp" and "i \<le> 8"
    and "\<And>q. q < i \<Longrightarrow> unat (OUT_at nrows rr (cc + of_nat q)) = p q"
    and "\<And>q. q < i \<Longrightarrow> p q < length t"
    and "\<And>q k. q < i \<Longrightarrow> k < 8 \<Longrightarrow> bit (t ! p q) k = src k q"
  shows "\<exists>out'. store_last nrows rr cc i tmp out = Inr out' \<and>
     agrees_on t (S \<union> (\<Union>q<i. {p q})) out'"
  using assms
proof (induction i arbitrary: S tmp out)
  case 0
  then show ?case by simp
next
  case (Suc i)
  have lo: "ucast (mm_movemask_epi8 tmp) = t ! p i"
    by (rule byte_eqI) (simp add: bit_simps shifted_movemask [OF Suc.prems(2)] Suc.prems(6))
  have ag: "agrees_on t (insert (p i) S) (out[p i := t ! p i])"
    by (intro agrees_on_update Suc.prems(1) refl)
  have "\<exists>out'. store_last nrows rr cc i (mm_slli_epi64 tmp 1) (out[p i := t ! p i]) = Inr out' \<and>
      agrees_on t (insert (p i) S \<union> (\<Union>q<i. {p q})) out'"
    by (rule Suc.IH [OF ag shifted_slli [OF Suc.prems(2)]]) (use Suc.prems(3-6) in simp_all)
  then show ?case
    using Suc.prems(5) [of i] agrees_on_length [OF Suc.prems(1)]
    by (simp add: wr8_def Suc.prems(4) lo lessThan_Suc Un_assoc insert_commute)
qed

subsection \<open>The main body\<close>

lemma shifted_mm_of_bytes:
  assumes "length bs = J" and "J \<le> 16" and "\<And>j q. j < J \<Longrightarrow> q < 8 \<Longrightarrow> bit (bs ! j) q = src j q"
  shows "shifted J src 8 (mm_of_bytes bs)"
  using assms by (simp add: shifted_def bit_mm_of_bytes)

lemma rd8_INP:
  assumes f: "fits R C" and len: "length inp = 8 * R * C" and r: "r < 8 * R" and a: "a < C"
  shows "rd8 inp (INP_at (of_nat (8 * C)) (of_nat r) (of_nat (8 * a))) = Inr (inp ! (r * C + a))"
proof -
  have "unat (INP_at (of_nat (8 * C)) (of_nat r) (of_nat (8 * a))) = r * C + a"
    using unat_INP_at [OF f r, of "8 * a"] a by simp
  moreover have "r * C + a < length inp" using cell_less [OF r a] len by simp
  ultimately show ?thesis by (simp only: rd8_def if_True)
qed

lemma OUT_cell:
  assumes f: "fits R C" and b: "b < R" and c: "c < 8 * C"
  shows "unat (OUT_at (of_nat (8 * R)) (of_nat (8 * b)) (of_nat c)) = c * R + b"
  using unat_OUT_at [OF f _ c, of "8 * b"] b by simp

lemma bit_tspec:
  assumes "c < 8 * C" and "b < R" and "k < 8"
  shows "bit (tspec R C inp ! (c * R + b)) k = bit (inp ! ((8 * b + k) * C + c div 8)) (c mod 8)"
  using assms by (simp add: nth_tspec bit_tbyte)

lemma bit_tspec_block:
  assumes "a < C" and "q < 8" and "b < R" and "k < 8"
  shows "bit (tspec R C inp ! ((8 * a + q) * R + b)) k = bit (inp ! ((8 * b + k) * C + a)) q"
  using assms bit_tspec [of "8 * a + q" C b R k inp] by simp

lemma cellset_block:
  "cellset R B {8 * a..<8 * a + 8} = (\<Union>q<8. (\<lambda>b. (8 * a + q) * R + b) ` B)"
proof -
  have "{8 * a..<8 * a + 8} = (\<lambda>q. 8 * a + q) ` {..<8}"
    by (auto simp: image_iff) (metis add_diff_inverse_nat less_diff_conv2 not_less lessThan_iff add.commute)
  then show ?thesis by (auto simp: cellset_def)
qed

lemma block16_agrees:
  assumes f: "fits R C" and len: "length inp = 8 * R * C" and b: "b + 1 < R" and a: "a < C"
    and ag: "agrees_on (tspec R C inp) S out"
  shows "\<exists>out'. block16 inp (of_nat (8 * R)) (of_nat (8 * C)) (of_nat (8 * b)) (of_nat (8 * a)) out = Inr out'
     \<and> agrees_on (tspec R C inp) (S \<union> cellset R {b, b + 1} {8 * a..<8 * a + 8}) out'"
proof -
  let ?g = "\<lambda>k. inp ! ((8 * b + k) * C + a)"
  have ld: "mapM_res (\<lambda>k. rd8 inp (INP_at (of_nat (8 * C)) (of_nat (8 * b) + of_nat k) (of_nat (8 * a))))
      (rev [0..<16]) = Inr (map ?g (rev [0..<16]))"
  proof (rule mapM_res_total)
    fix k assume "k \<in> set (rev [0..<16::nat])"
    then have "8 * b + k < 8 * R" using b by simp
    from rd8_INP [OF f len this a]
    show "rd8 inp (INP_at (of_nat (8 * C)) (of_nat (8 * b) + of_nat k) (of_nat (8 * a))) = Inr (?g k)"
      by (simp only: of_nat_add)
  qed
  have reg: "mm_set_epi8 (map ?g (rev [0..<16])) = mm_of_bytes (map ?g [0..<16])"
    by (simp only: mm_set_epi8_def rev_map rev_rev_ident)
  have sh: "shifted 16 (\<lambda>j q. bit (?g j) q) 8 (mm_of_bytes (map ?g [0..<16]))"
    by (rule shifted_mm_of_bytes) simp_all
  let ?p = "\<lambda>q. (8 * a + q) * R + b"
  have "\<exists>out'. store_cols16 (of_nat (8 * R)) (of_nat (8 * b)) (of_nat (8 * a)) 8
      (mm_of_bytes (map ?g [0..<16])) out = Inr out' \<and>
      agrees_on (tspec R C inp) (S \<union> (\<Union>q<8. {?p q, ?p q + 1})) out'"
  proof (rule store_cols16_agrees [OF ag sh])
    fix q :: nat assume q: "q < 8"
    with a have c: "8 * a + q < 8 * C" by simp
    show "unat (OUT_at (of_nat (8 * R)) (of_nat (8 * b)) (of_nat (8 * a) + of_nat q)) = ?p q"
      using OUT_cell [OF f _ c, of b] b by (simp only: of_nat_add)
    show "?p q + 1 < length (tspec R C inp)"
      using cell_less [OF c, of "b + 1" R] b by simp
    fix k :: nat assume k: "k < 8"
    show "bit (tspec R C inp ! ?p q) k = bit (?g k) q"
      using bit_tspec_block [OF a q _ k] b by simp
    show "bit (tspec R C inp ! (?p q + 1)) k = bit (?g (8 + k)) q"
      using bit_tspec_block [OF a q b k, of inp] by (simp add: add.assoc ac_simps)
  qed simp
  moreover have "cellset R {b, b + 1} {8 * a..<8 * a + 8} = (\<Union>q<8. {?p q, ?p q + 1})"
    by (simp add: cellset_block)
  ultimately show ?thesis
    unfolding block16_def ld reg [symmetric] by simp
qed

lemma word64_less_iff:
  "m < 2 ^ 64 \<Longrightarrow> n < 2 ^ 64 \<Longrightarrow> (of_nat m :: u64) < of_nat n \<longleftrightarrow> m < n"
  by (simp only: word_less_nat_alt unat_of_nat64)

lemma word64_le_iff:
  "m < 2 ^ 64 \<Longrightarrow> n < 2 ^ 64 \<Longrightarrow> (of_nat m :: u64) \<le> of_nat n \<longleftrightarrow> m \<le> n"
  by (simp only: word_le_nat_alt unat_of_nat64)

lemma word64_eq_iff:
  "m < 2 ^ 64 \<Longrightarrow> n < 2 ^ 64 \<Longrightarrow> (of_nat m :: u64) = of_nat n \<longleftrightarrow> m = n"
  by (metis unat_of_nat64)

lemma of_nat_step: "of_nat (8 * a) + 8 = (of_nat (8 * Suc a) :: u64)"
  "of_nat (8 * a) + 16 = (of_nat (8 * (a + 2)) :: u64)"
  by simp_all

lemma main_cols_agrees:
  assumes f: "fits R C" and len: "length inp = 8 * R * C" and b: "b + 1 < R"
    and "a \<le> C" and "agrees_on (tspec R C inp) S out"
  shows "\<exists>out'. main_cols inp (of_nat (8 * R)) (of_nat (8 * C)) (of_nat (8 * b)) (of_nat (8 * a)) out
       = Some (Inr out') \<and>
     agrees_on (tspec R C inp) (S \<union> cellset R {b, b + 1} {8 * a..<8 * C}) out'"
  using assms(4,5)
proof (induction "C - a" arbitrary: a S out)
  case 0
  then have [simp]: "a = C" by simp
  from 0 show ?case by (simp add: main_cols.simps)
next
  case (Suc n)
  then have a: "a < C" and le: "Suc a \<le> C" by simp_all
  note C64 = fitsD(2) [OF f]
  have guard: "(of_nat (8 * a) :: u64) < of_nat (8 * C)"
    using a C64 by (subst word64_less_iff) simp_all
  obtain out1 where o1:
    "block16 inp (of_nat (8 * R)) (of_nat (8 * C)) (of_nat (8 * b)) (of_nat (8 * a)) out = Inr out1"
    "agrees_on (tspec R C inp) (S \<union> cellset R {b, b + 1} {8 * a..<8 * a + 8}) out1"
    using block16_agrees [OF f len b a Suc.prems(2)] by blast
  have "n = C - Suc a" using Suc.hyps(2) by simp
  from Suc.hyps(1) [OF this le o1(2)] obtain out2 where o2:
    "main_cols inp (of_nat (8 * R)) (of_nat (8 * C)) (of_nat (8 * b)) (of_nat (8 * Suc a)) out1
       = Some (Inr out2)"
    "agrees_on (tspec R C inp) (S \<union> cellset R {b, b + 1} {8 * a..<8 * a + 8}
       \<union> cellset R {b, b + 1} {8 * Suc a..<8 * C}) out2"
    by blast
  have "{8 * a..<8 * a + 8} \<union> {8 * Suc a..<8 * C} = {8 * a..<8 * C}" using a by auto
  then have "cellset R {b, b + 1} {8 * a..<8 * a + 8} \<union> cellset R {b, b + 1} {8 * Suc a..<8 * C}
      = cellset R {b, b + 1} {8 * a..<8 * C}"
    by (simp only: cellset_Un_cols [symmetric])
  with o2(2) have "agrees_on (tspec R C inp) (S \<union> cellset R {b, b + 1} {8 * a..<8 * C}) out2"
    by (simp only: Un_assoc)
  moreover have "main_cols inp (of_nat (8 * R)) (of_nat (8 * C)) (of_nat (8 * b)) (of_nat (8 * a)) out
      = Some (Inr out2)"
    by (subst main_cols.simps) (simp only: guard o1(1) sum.case if_True of_nat_step o2(1))
  ultimately show ?case by blast
qed

text \<open>The outer loop stops at the last multiple of 16 rows.\<close>

lemma main_rows_agrees:
  assumes f: "fits R C" and len: "length inp = 8 * R * C" and R: "2 \<le> R"
    and "b \<le> R" and "even b" and "agrees_on (tspec R C inp) (cellset R {..<b} {..<8 * C}) out"
  shows "\<exists>out'. main_rows inp (of_nat (8 * R)) (of_nat (8 * C)) (of_nat (8 * b)) out
       = Some (Inr (of_nat (8 * (R - R mod 2)), out')) \<and>
     agrees_on (tspec R C inp) (cellset R {..<R - R mod 2} {..<8 * C}) out'"
  using assms(4-)
proof (induction "R - b" arbitrary: b out rule: less_induct)
  case less
  note R64 = fitsD(1) [OF f]
  have sub: "(of_nat (8 * R) - 16 :: u64) = of_nat (8 * (R - 2))"
    using R by (simp add: of_nat_diff right_diff_distrib')
  have guard: "(of_nat (8 * b) :: u64) \<le> of_nat (8 * R) - 16 \<longleftrightarrow> b \<le> R - 2"
    unfolding sub using less.prems(1) R64 by (subst word64_le_iff) simp_all
  show ?case
  proof (cases "b \<le> R - 2")
    case False
    with less.prems(1,2) R have b: "b = R - R mod 2" by presburger
    have "main_rows inp (of_nat (8 * R)) (of_nat (8 * C)) (of_nat (8 * b)) out
        = Some (Inr (of_nat (8 * b), out))"
      by (subst main_rows.simps) (simp only: guard False if_False)
    with less.prems(3) show ?thesis unfolding b by blast
  next
    case True
    with R have b: "b + 1 < R" by simp
    obtain out1 where o1:
      "main_cols inp (of_nat (8 * R)) (of_nat (8 * C)) (of_nat (8 * b)) (of_nat (8 * 0)) out = Some (Inr out1)"
      "agrees_on (tspec R C inp)
        (cellset R {..<b} {..<8 * C} \<union> cellset R {b, b + 1} {8 * 0..<8 * C}) out1"
      using main_cols_agrees [OF f len b _ less.prems(3), of 0] by blast
    have "{..<b} \<union> {b, b + 1} = {..<b + 2}" by auto
    with o1(2) have "agrees_on (tspec R C inp) (cellset R {..<b + 2} {..<8 * C}) out1"
      by (simp add: cellset_Un_rows [symmetric] atLeast0LessThan)
    moreover have "R - (b + 2) < R - b" "b + 2 \<le> R" "even (b + 2)" using b less.prems by simp_all
    ultimately obtain out2 where o2:
      "main_rows inp (of_nat (8 * R)) (of_nat (8 * C)) (of_nat (8 * (b + 2))) out1
         = Some (Inr (of_nat (8 * (R - R mod 2)), out2))"
      "agrees_on (tspec R C inp) (cellset R {..<R - R mod 2} {..<8 * C}) out2"
      using less.hyps [of "b + 2" out1] by blast
    have o0: "main_cols inp (of_nat (8 * R)) (of_nat (8 * C)) (of_nat (8 * b)) 0 out = Some (Inr out1)"
      using o1(1) by (simp only: mult_0_right semiring_1_class.of_nat_0)
    have "main_rows inp (of_nat (8 * R)) (of_nat (8 * C)) (of_nat (8 * b)) out
        = Some (Inr (of_nat (8 * (R - R mod 2)), out2))"
      by (subst main_rows.simps)
        (simp only: guard True if_True o0 bind.bind_lunit sum.case of_nat_step o2(1))
    with o2(2) show ?thesis by blast
  qed
qed

subsection \<open>The remaining rows\<close>

lemma rd16_INP:
  assumes f: "fits R C" and len: "length inp = 8 * R * C" and r: "r < 8 * R" and a: "a + 1 < C"
  shows "\<exists>h. rd16 inp (INP_at (of_nat (8 * C)) (of_nat r) (of_nat (8 * a))) = Inr h \<and>
     ucast h = inp ! (r * C + a) \<and> ucast (drop_bit 8 h) = inp ! (r * C + a + 1)"
proof -
  let ?i = "r * C + a"
  let ?h = "ucast (inp ! ?i) OR push_bit 8 (ucast (inp ! (?i + 1))) :: u16"
  have i: "unat (INP_at (of_nat (8 * C)) (of_nat r) (of_nat (8 * a))) = ?i"
    using unat_INP_at [OF f r, of "8 * a"] a by simp
  have "?i + 1 < length inp" using cell_less [OF r a] len by simp
  then have "rd16 inp (INP_at (of_nat (8 * C)) (of_nat r) (of_nat (8 * a))) = Inr ?h"
    by (simp only: rd16_def i if_True)
  moreover have "ucast ?h = inp ! ?i"
    by (rule byte_eqI) (simp add: bit_simps)
  moreover have "ucast (drop_bit 8 ?h) = inp ! (?i + 1)"
    by (rule byte_eqI) (auto simp: bit_simps dest: bit_imp_le_length)
  ultimately show ?thesis by blast
qed

text \<open>The source bits of a pair of blocks: rows of the left block, then of the right one.\<close>

definition pair_src :: "nat \<Rightarrow> u8 list \<Rightarrow> nat \<Rightarrow> nat \<Rightarrow> nat \<Rightarrow> nat \<Rightarrow> bool" where
  "pair_src C inp b a j q =
     (if j < 8 then bit (inp ! ((8 * b + j) * C + a)) q
      else bit (inp ! ((8 * b + (j - 8)) * C + a + 1)) q)"

lemma bit_mm_set_byte_at:
  "m < 16 \<Longrightarrow> q < 8 \<Longrightarrow>
   bit (mm_set_byte v j b) (8 * m + q) = (if m = j then bit b q else bit v (8 * m + q))"
  by (simp add: bit_mm_set_byte)

lemma load_pair_shifted:
  assumes f: "fits R C" and len: "length inp = 8 * R * C" and b: "b < R" and a: "a + 1 < C"
  shows "\<exists>tmp'. load_pair inp (of_nat (8 * C)) (of_nat (8 * b)) (of_nat (8 * a)) tmp = Inr tmp' \<and>
     shifted 16 (pair_src C inp b a) 8 tmp'"
proof -
  let ?P = "\<lambda>i tmp :: m128. \<forall>m<16. m < i \<or> 8 \<le> m \<and> m < i + 8 \<longrightarrow>
     (\<forall>q<8. bit tmp (8 * m + q) = pair_src C inp b a m q)"
  have "\<exists>tmp'. load_pair inp (of_nat (8 * C)) (of_nat (8 * b)) (of_nat (8 * a)) tmp = Inr tmp' \<and> ?P 8 tmp'"
    unfolding load_pair_def
  proof (rule foldM_res_upt [where P = ?P])
    fix i :: nat and tmp :: m128 assume i: "i < 8" and P: "?P i tmp"
    have r: "8 * b + i < 8 * R" using b i by simp
    obtain h where h: "rd16 inp (INP_at (of_nat (8 * C)) (of_nat (8 * b) + of_nat i) (of_nat (8 * a))) = Inr h"
      "ucast h = inp ! ((8 * b + i) * C + a)" "ucast (drop_bit 8 h) = inp ! ((8 * b + i) * C + a + 1)"
      using rd16_INP [OF f len r a] by (auto simp only: of_nat_add)
    let ?t = "mm_set_byte (mm_set_byte tmp i (ucast h)) (i + 8) (ucast (drop_bit 8 h))"
    have "?P (Suc i) ?t"
      using P i by (auto simp: bit_mm_set_byte_at less_Suc_eq pair_src_def h(2,3))
    with h(1) show "\<exists>s'. res_bind (rd16 inp (INP_at (of_nat (8 * C)) (of_nat (8 * b) + of_nat i) (of_nat (8 * a))))
        (\<lambda>h. Inr (mm_set_byte (mm_set_byte tmp i (ucast h)) (i + 8) (ucast (drop_bit 8 h)))) = Inr s'
        \<and> ?P (Suc i) s'"
      by (simp only: res_bind.simps) blast
  qed auto
  then obtain tmp' where t: "load_pair inp (of_nat (8 * C)) (of_nat (8 * b)) (of_nat (8 * a)) tmp = Inr tmp'"
    and P: "?P 8 tmp'" by blast
  from P have "shifted 16 (pair_src C inp b a) 8 tmp'" by (auto simp: shifted_def)
  with t show ?thesis by blast
qed

lemma store_pair_cells:
  assumes f: "fits R C" and b: "b < R" and a: "a + 1 < C"
    and sh: "shifted 16 (pair_src C inp b a) 8 tmp" and ag: "agrees_on (tspec R C inp) S out"
  shows "\<exists>tmp' out'. store_pair (of_nat (8 * R)) (of_nat (8 * b)) (of_nat (8 * a)) 8 tmp out
       = Inr (tmp', out') \<and>
     agrees_on (tspec R C inp) (S \<union> cellset R {b} {8 * a..<8 * (a + 2)}) out'"
proof -
  let ?p = "\<lambda>q. (8 * a + q) * R + b" and ?p' = "\<lambda>q. (8 * (a + 1) + q) * R + b"
  have "\<exists>tmp' out'. store_pair (of_nat (8 * R)) (of_nat (8 * b)) (of_nat (8 * a)) 8 tmp out
       = Inr (tmp', out') \<and> agrees_on (tspec R C inp) (S \<union> (\<Union>q<8. {?p q, ?p' q})) out'"
  proof (rule store_pair_agrees [OF ag sh])
    fix q :: nat assume q: "q < 8"
    with a have c: "8 * a + q < 8 * C" and c': "8 * (a + 1) + q < 8 * C" by simp_all
    show "unat (OUT_at (of_nat (8 * R)) (of_nat (8 * b)) (of_nat (8 * a) + of_nat q)) = ?p q"
      using OUT_cell [OF f b c] by (simp only: of_nat_add)
    have e: "of_nat (8 * a) + of_nat q + 8 = (of_nat (8 * (a + 1) + q) :: u64)" by simp
    show "unat (OUT_at (of_nat (8 * R)) (of_nat (8 * b)) (of_nat (8 * a) + of_nat q + 8)) = ?p' q"
      unfolding e by (rule OUT_cell [OF f b c'])
    show "?p q < length (tspec R C inp) \<and> ?p' q < length (tspec R C inp)"
      using cell_less [OF c b] cell_less [OF c' b] by simp
    fix k :: nat assume k: "k < 8"
    show "bit (tspec R C inp ! ?p q) k = pair_src C inp b a k q"
      using bit_tspec_block [OF _ q b k, of a C inp] a k by (simp add: pair_src_def)
    show "bit (tspec R C inp ! ?p' q) k = pair_src C inp b a (8 + k) q"
      using bit_tspec_block [OF a q b k, of inp] by (simp add: pair_src_def)
  qed simp
  moreover have "{8 * a..<8 * (a + 2)} = {8 * a..<8 * a + 8} \<union> {8 * (a + 1)..<8 * (a + 1) + 8}"
    by auto
  then have "cellset R {b} {8 * a..<8 * (a + 2)} = (\<Union>q<8. {?p q, ?p' q})"
    by (simp only: cellset_Un_cols cellset_block) blast
  ultimately show ?thesis by simp
qed

lemma pair_cols_agrees:
  assumes f: "fits R C" and len: "length inp = 8 * R * C" and b: "b < R" and C: "2 \<le> C"
    and "a \<le> C" and "even a" and "agrees_on (tspec R C inp) (S \<union> cellset R {b} {..<8 * a}) out"
  shows "\<exists>tmp' out'. pair_cols inp (of_nat (8 * R)) (of_nat (8 * C)) (of_nat (8 * b)) (of_nat (8 * a)) tmp out
       = Some (Inr (of_nat (8 * (C - C mod 2)), tmp', out')) \<and>
     agrees_on (tspec R C inp) (S \<union> cellset R {b} {..<8 * (C - C mod 2)}) out'"
  using assms(5-)
proof (induction "C - a" arbitrary: a tmp out rule: less_induct)
  case less
  have sub: "(of_nat (8 * C) - 16 :: u64) = of_nat (8 * (C - 2))"
    using C by (simp add: of_nat_diff right_diff_distrib')
  have guard: "(of_nat (8 * a) :: u64) \<le> of_nat (8 * C) - 16 \<longleftrightarrow> a \<le> C - 2"
    unfolding sub using less.prems(1) fitsD(2) [OF f] by (subst word64_le_iff) simp_all
  show ?case
  proof (cases "a \<le> C - 2")
    case False
    with less.prems(1,2) C have a: "a = C - C mod 2" by presburger
    have "pair_cols inp (of_nat (8 * R)) (of_nat (8 * C)) (of_nat (8 * b)) (of_nat (8 * a)) tmp out
        = Some (Inr (of_nat (8 * a), tmp, out))"
      by (subst pair_cols.simps) (simp only: guard False if_False)
    with less.prems(3) show ?thesis unfolding a by blast
  next
    case True
    with C have a: "a + 1 < C" by simp
    obtain tmp1 where t1: "load_pair inp (of_nat (8 * C)) (of_nat (8 * b)) (of_nat (8 * a)) tmp = Inr tmp1"
      "shifted 16 (pair_src C inp b a) 8 tmp1"
      using load_pair_shifted [OF f len b a] by blast
    obtain tmp2 out2 where o2:
      "store_pair (of_nat (8 * R)) (of_nat (8 * b)) (of_nat (8 * a)) 8 tmp1 out = Inr (tmp2, out2)"
      "agrees_on (tspec R C inp)
        (S \<union> cellset R {b} {..<8 * a} \<union> cellset R {b} {8 * a..<8 * (a + 2)}) out2"
      using store_pair_cells [OF f b a t1(2) less.prems(3)] by blast
    have "{..<8 * a} \<union> {8 * a..<8 * (a + 2)} = {..<8 * (a + 2)}" by auto
    with o2(2) have "agrees_on (tspec R C inp) (S \<union> cellset R {b} {..<8 * (a + 2)}) out2"
      by (simp only: Un_assoc cellset_Un_cols [symmetric])
    moreover have "C - (a + 2) < C - a" "a + 2 \<le> C" "even (a + 2)" using a less.prems by simp_all
    ultimately obtain tmp3 out3 where o3:
      "pair_cols inp (of_nat (8 * R)) (of_nat (8 * C)) (of_nat (8 * b)) (of_nat (8 * (a + 2))) tmp2 out2
         = Some (Inr (of_nat (8 * (C - C mod 2)), tmp3, out3))"
      "agrees_on (tspec R C inp) (S \<union> cellset R {b} {..<8 * (C - C mod 2)}) out3"
      using less.hyps [of "a + 2" out2 tmp2] by blast
    have "pair_cols inp (of_nat (8 * R)) (of_nat (8 * C)) (of_nat (8 * b)) (of_nat (8 * a)) tmp out
         = Some (Inr (of_nat (8 * (C - C mod 2)), tmp3, out3))"
      by (subst pair_cols.simps)
        (simp only: guard True if_True t1(1) res_bind.simps o2(1) sum.case prod.case of_nat_step o3(1))
    with o3(2) show ?thesis by blast
  qed
qed

lemma load_last_shifted:
  assumes f: "fits R C" and len: "length inp = 8 * R * C" and b: "b < R" and a: "a < C"
  shows "\<exists>tmp'. load_last inp (of_nat (8 * C)) (of_nat (8 * b)) (of_nat (8 * a)) tmp = Inr tmp' \<and>
     shifted 8 (\<lambda>j q. bit (inp ! ((8 * b + j) * C + a)) q) 8 tmp'"
proof -
  let ?P = "\<lambda>i tmp :: m128. \<forall>m<i. \<forall>q<8. bit tmp (8 * m + q) = bit (inp ! ((8 * b + m) * C + a)) q"
  have "\<exists>tmp'. load_last inp (of_nat (8 * C)) (of_nat (8 * b)) (of_nat (8 * a)) tmp = Inr tmp' \<and> ?P 8 tmp'"
    unfolding load_last_def
  proof (rule foldM_res_upt [where P = ?P])
    fix i :: nat and tmp :: m128 assume i: "i < 8" and P: "?P i tmp"
    have r: "8 * b + i < 8 * R" using b i by simp
    have h: "rd8 inp (INP_at (of_nat (8 * C)) (of_nat (8 * b) + of_nat i) (of_nat (8 * a)))
        = Inr (inp ! ((8 * b + i) * C + a))"
      using rd8_INP [OF f len r a] by (simp only: of_nat_add)
    have "?P (Suc i) (mm_set_byte tmp i (inp ! ((8 * b + i) * C + a)))"
      using P i by (auto simp: bit_mm_set_byte_at less_Suc_eq)
    with h show "\<exists>s'. res_bind (rd8 inp (INP_at (of_nat (8 * C)) (of_nat (8 * b) + of_nat i) (of_nat (8 * a))))
        (\<lambda>b. Inr (mm_set_byte tmp i b)) = Inr s' \<and> ?P (Suc i) s'"
      by (simp only: res_bind.simps) blast
  qed auto
  then show ?thesis by (simp add: shifted_def)
qed

lemma store_last_cells:
  assumes f: "fits R C" and b: "b < R" and a: "a < C"
    and sh: "shifted 8 (\<lambda>j q. bit (inp ! ((8 * b + j) * C + a)) q) 8 tmp"
    and ag: "agrees_on (tspec R C inp) S out"
  shows "\<exists>out'. store_last (of_nat (8 * R)) (of_nat (8 * b)) (of_nat (8 * a)) 8 tmp out = Inr out' \<and>
     agrees_on (tspec R C inp) (S \<union> cellset R {b} {8 * a..<8 * a + 8}) out'"
proof -
  let ?p = "\<lambda>q. (8 * a + q) * R + b"
  have "\<exists>out'. store_last (of_nat (8 * R)) (of_nat (8 * b)) (of_nat (8 * a)) 8 tmp out = Inr out' \<and>
     agrees_on (tspec R C inp) (S \<union> (\<Union>q<8. {?p q})) out'"
  proof (rule store_last_agrees [OF ag sh])
    fix q :: nat assume q: "q < 8"
    with a have c: "8 * a + q < 8 * C" by simp
    show "unat (OUT_at (of_nat (8 * R)) (of_nat (8 * b)) (of_nat (8 * a) + of_nat q)) = ?p q"
      using OUT_cell [OF f b c] by (simp only: of_nat_add)
    show "?p q < length (tspec R C inp)" using cell_less [OF c b] by simp
    fix k :: nat assume "k < 8"
    then show "bit (tspec R C inp ! ?p q) k = bit (inp ! ((8 * b + k) * C + a)) q"
      by (rule bit_tspec_block [OF a q b])
  qed simp
  then show ?thesis by (simp add: cellset_block)
qed

lemma of_nat_mod_pow2:
  assumes "n < 2 ^ 64"
  shows "(of_nat n :: u64) mod 8 = 0 \<longleftrightarrow> n mod 8 = 0" "(of_nat n :: u64) mod 16 = 0 \<longleftrightarrow> n mod 16 = 0"
  using assms by (simp_all add: word_eq_iff_unsigned [where 'a = nat] unat_mod_distrib unat_of_nat64)

text \<open>The start of \<open>sse_trans\<close>: the rows handled by the main body.\<close>

lemma sse_trans_enter:
  assumes f: "fits R C" and len: "length inp = 8 * R * C" "length out = 8 * C * R" and R: "2 \<le> R"
  shows "\<exists>out1. agrees_on (tspec R C inp) (cellset R {..<R - R mod 2} {..<8 * C}) out1 \<and>
     sse_trans tmp0 out inp (of_nat (8 * R)) (of_nat (8 * C)) =
       (if R - R mod 2 = R then Some (Inr out1)
        else after_rows inp (of_nat (8 * R)) (of_nat (8 * C)) (of_nat (8 * (R - R mod 2))) tmp0 out1)"
proof -
  note f64 = fitsD [OF f] and m64 = of_nat_mod_pow2 [OF fitsD(1) [OF f]] of_nat_mod_pow2 [OF fitsD(2) [OF f]]
  have "agrees_on (tspec R C inp) (cellset R {..<0} {..<8 * C}) out"
    using len(2) by (simp add: agrees_on_empty)
  from main_rows_agrees [OF f len(1) R _ _ this] obtain out1 where
    m: "main_rows inp (of_nat (8 * R)) (of_nat (8 * C)) (of_nat (8 * 0)) out
       = Some (Inr (of_nat (8 * (R - R mod 2)), out1))"
    and ag: "agrees_on (tspec R C inp) (cellset R {..<R - R mod 2} {..<8 * C}) out1"
    by auto
  then show ?thesis
    using f64 by (intro exI [of _ out1]) (simp add: sse_trans_def m64 word64_eq_iff del: of_nat_mult)
qed

lemma finished:
  assumes "0 < R" and "agrees_on (tspec R C inp) (cellset R {..<R} {..<8 * C}) b"
  shows "b = tspec R C inp"
  using assms(2) by (rule agrees_on_all) (simp add: cellset_all [OF assms(1)])

lemma cellset_last_row:
  "0 < R \<Longrightarrow> cellset R {..<R - 1} X \<union> cellset R {R - 1} X = cellset R {..<R} X"
proof -
  assume "0 < R"
  then have "{..<R - 1} \<union> {R - 1} = {..<R}" by auto
  then show ?thesis by (simp only: cellset_Un_rows [symmetric])
qed

text \<open>The last column byte, if the pairs left one.\<close>

lemma last_block_finishes:
  assumes f: "fits R C" and len: "length inp = 8 * R * C" and b: "R - 1 < R" and c: "C - 1 < C"
    and ag: "agrees_on (tspec R C inp)
       (cellset R {..<R - 1} {..<8 * C} \<union> cellset R {R - 1} {..<8 * (C - 1)}) out"
  shows "res_bind (load_last inp (of_nat (8 * C)) (of_nat (8 * (R - 1))) (of_nat (8 * (C - 1))) tmp)
      (\<lambda>tmp. store_last (of_nat (8 * R)) (of_nat (8 * (R - 1))) (of_nat (8 * (C - 1))) 8 tmp out)
    = Inr (tspec R C inp)"
proof -
  obtain tmp2 where t: "load_last inp (of_nat (8 * C)) (of_nat (8 * (R - 1))) (of_nat (8 * (C - 1))) tmp = Inr tmp2"
    and sh: "shifted 8 (\<lambda>j q. bit (inp ! ((8 * (R - 1) + j) * C + (C - 1))) q) 8 tmp2"
    using load_last_shifted [OF f len b c] by blast
  obtain out3 where o3:
    "store_last (of_nat (8 * R)) (of_nat (8 * (R - 1))) (of_nat (8 * (C - 1))) 8 tmp2 out = Inr out3"
    "agrees_on (tspec R C inp) (cellset R {..<R - 1} {..<8 * C} \<union> cellset R {R - 1} {..<8 * (C - 1)}
       \<union> cellset R {R - 1} {8 * (C - 1)..<8 * (C - 1) + 8}) out3"
    using store_last_cells [OF f b c sh ag] by blast
  have cols: "{..<8 * (C - 1)} \<union> {8 * (C - 1)..<8 * (C - 1) + 8} = {..<8 * C}" using c by auto
  have R0: "0 < R" using b by simp
  have "out3 = tspec R C inp"
    using o3(2) unfolding Un_assoc cellset_Un_cols [symmetric] cols cellset_last_row [OF R0]
    by (rule finished [OF R0])
  with t o3(1) show ?thesis by (simp only: res_bind.simps)
qed

lemma after_rows_finishes:
  assumes f: "fits R C" and len: "length inp = 8 * R * C" and R: "odd R" and C: "2 \<le> C"
    and ag: "agrees_on (tspec R C inp) (cellset R {..<R - 1} {..<8 * C}) out"
  shows "after_rows inp (of_nat (8 * R)) (of_nat (8 * C)) (of_nat (8 * (R - 1))) tmp0 out
    = Some (Inr (tspec R C inp))"
proof -
  let ?c = "C - C mod 2"
  have R0: "0 < R" and b: "R - 1 < R" and odd: "(8 * R) mod 16 \<noteq> 0" using R by presburger+
  obtain tmp' out2 where p:
    "pair_cols inp (of_nat (8 * R)) (of_nat (8 * C)) (of_nat (8 * (R - 1))) (of_nat (8 * 0)) tmp0 out
       = Some (Inr (of_nat (8 * ?c), tmp', out2))"
    and ag2: "agrees_on (tspec R C inp)
      (cellset R {..<R - 1} {..<8 * C} \<union> cellset R {R - 1} {..<8 * ?c}) out2"
    using pair_cols_agrees [OF f len b C, of 0 "cellset R {..<R - 1} {..<8 * C}" out tmp0] ag by auto
  have branch: "(of_nat (8 * R) :: u64) mod 8 = 0 \<and> (of_nat (8 * R) :: u64) mod 16 \<noteq> 0"
    using odd by (simp only: of_nat_mod_pow2 [OF fitsD(1) [OF f]]) simp
  have rest: "after_rows inp (of_nat (8 * R)) (of_nat (8 * C)) (of_nat (8 * (R - 1))) tmp0 out =
      Some (if (of_nat (8 * ?c) :: u64) = of_nat (8 * C) then Inr out2
        else res_bind (load_last inp (of_nat (8 * C)) (of_nat (8 * (R - 1))) (of_nat (8 * ?c)) tmp')
          (\<lambda>tmp. store_last (of_nat (8 * R)) (of_nat (8 * (R - 1))) (of_nat (8 * ?c)) 8 tmp out2))"
    using p branch
    by (simp only: after_rows_def last_cols_def if_True bind.bind_lunit res_bind.simps prod.case mult_0_right
        semiring_1_class.of_nat_0 simp_thms)
  show ?thesis
  proof (cases "even C")
    case True
    then have "out2 = tspec R C inp"
      using ag2 cellset_last_row [OF R0] by (intro finished [OF R0]) simp
    with True rest show ?thesis by simp
  next
    case False
    then have c: "?c = C - 1" "C - 1 < C" using C by presburger+
    have "(of_nat (8 * ?c) :: u64) \<noteq> of_nat (8 * C)"
      using c fitsD(2) [OF f] by (subst word64_eq_iff) simp_all
    with rest last_block_finishes [OF f len b c(2)] ag2 show ?thesis
      by (simp only: c if_False)
  qed
qed

text \<open>
  The function on well-formed inputs. With an odd number of row bytes the remainder needs two
  column bytes at least: \<open>ncols - 16\<close> must not wrap.
\<close>

lemma sse_trans_tspec:
  assumes f: "fits R C" and len: "length inp = 8 * R * C" "length out = 8 * C * R" and R: "2 \<le> R"
    and C: "even R \<or> 2 \<le> C"
  shows "sse_trans tmp0 out inp (of_nat (8 * R)) (of_nat (8 * C)) = Some (Inr (tspec R C inp))"
proof -
  have R0: "0 < R" using R by simp
  obtain out1 where ag: "agrees_on (tspec R C inp) (cellset R {..<R - R mod 2} {..<8 * C}) out1"
    and enter: "sse_trans tmp0 out inp (of_nat (8 * R)) (of_nat (8 * C)) =
       (if R - R mod 2 = R then Some (Inr out1)
        else after_rows inp (of_nat (8 * R)) (of_nat (8 * C)) (of_nat (8 * (R - R mod 2))) tmp0 out1)"
    using sse_trans_enter [OF f len R] by blast
  show ?thesis
  proof (cases "even R")
    case True
    with ag enter show ?thesis by (simp add: finished [OF R0])
  next
    case False
    then have "R - R mod 2 = R - 1" "R - 1 \<noteq> R" using R0 by presburger+
    with enter ag after_rows_finishes [OF f len(1) False] C False show ?thesis by simp
  qed
qed

subsection \<open>Reads outside the input\<close>

text \<open>
  A remainder of eight rows of a single column byte: \<open>ncols - 16\<close> wraps, the pair loop is
  entered and its last 16-bit load crosses the end of the input.
\<close>

lemma load_pair_crosses_end:
  assumes f: "fits R 1" and len: "length inp = 8 * R"
  shows "load_pair inp (of_nat 8) (of_nat (8 * (R - 1))) 0 tmp = Inl OutOfBounds"
proof -
  have R0: "0 < R" using f by (simp add: fits_def)
  have idx: "unat (INP_at (of_nat 8) (of_nat (8 * (R - 1)) + of_nat i) 0) = 8 * (R - 1) + i" if "i < 8" for i
    using unat_INP_at [OF f, of "8 * (R - 1) + i" 0] that R0 by (simp only: of_nat_add) simp
  have e: "8 * (R - 1) + 7 + 1 = length inp" using len R0 by simp
  let ?rd = "\<lambda>i. rd16 inp (INP_at (of_nat 8) (of_nat (8 * (R - 1)) + of_nat i) 0)"
  have ok: "\<exists>h. ?rd i = Inr h" if "i < 7" for i
    unfolding rd16_def using idx [of i] that e by (simp only: if_True) simp
  have bad: "?rd 7 = Inl OutOfBounds"
    unfolding rd16_def using idx [of 7] e by simp
  let ?f = "\<lambda>tmp i. res_bind (?rd i)
      (\<lambda>h. Inr (mm_set_byte (mm_set_byte tmp i (ucast h)) (i + 8) (ucast (drop_bit 8 h))))"
  have "\<exists>t. foldM_res ?f tmp [0..<7] = Inr t \<and> True"
  proof (rule foldM_res_upt [where P = "\<lambda>_ _. True"])
    fix i :: nat and t :: m128 assume "i < 7"
    with ok obtain h where "?rd i = Inr h" by blast
    then show "\<exists>t'. ?f t i = Inr t' \<and> True" by simp
  qed simp
  moreover have "[0..<8] = [0..<7] @ [7::nat]" by (simp add: upt_rec)
  ultimately show ?thesis
    unfolding load_pair_def using bad by (auto simp only: foldM_res_append res_bind.simps foldM_res.simps)
qed

lemma after_rows_narrow:
  assumes f: "fits R 1" and len: "length inp = 8 * R"
  shows "after_rows inp (of_nat (8 * R)) (of_nat 8) (of_nat (8 * (R - 1))) tmp0 out
    = Some (Inl OutOfBounds)"
proof -
  have "(0 :: u64) \<le> of_nat 8 - 16" by simp
  then have "pair_cols inp (of_nat (8 * R)) (of_nat 8) (of_nat (8 * (R - 1))) 0 tmp0 out
      = Some (Inl OutOfBounds)"
    by (subst pair_cols.simps)
      (simp only: if_True load_pair_crosses_end [OF f len] res_bind.simps sum.case)
  moreover have "(of_nat 8 :: u64) mod 8 = 0 \<and> (of_nat 8 :: u64) mod 16 \<noteq> 0" by simp
  ultimately show ?thesis
    by (simp only: after_rows_def simp_thms if_True bind.bind_lunit res_bind.simps)
qed

text \<open>The first load of the main body is from row 15: an input that ends before it.\<close>

lemma sse_trans_short_input:
  assumes f: "fits R C" and R: "2 \<le> R" and len: "length inp \<le> 15 * C"
  shows "sse_trans tmp0 out inp (of_nat (8 * R)) (of_nat (8 * C)) = Some (Inl OutOfBounds)"
proof -
  have C: "0 < C" using f by (simp add: fits_def)
  have m64: "(of_nat (8 * n) :: u64) mod 8 = 0" if "8 * n < 2 ^ 64" for n
    by (simp only: of_nat_mod_pow2 [OF that]) simp
  have "unat (INP_at (of_nat (8 * C)) (of_nat 15) (of_nat 0)) = 15 * C + 0 div 8"
    using C R by (intro unat_INP_at [OF f]) simp_all
  then have "rd8 inp (INP_at (of_nat (8 * C)) (0 + of_nat 15) 0) = Inl OutOfBounds"
    using len by (simp add: rd8_def del: of_nat_mult)
  moreover have "rev [0..<16] = 15 # rev [0..<15::nat]" by (simp add: upt_rec)
  ultimately have blk: "block16 inp (of_nat (8 * R)) (of_nat (8 * C)) 0 0 out = Inl OutOfBounds"
    by (simp only: block16_def mapM_res.simps res_bind.simps)
  have "(0 :: u64) < of_nat (8 * C)"
    using word64_less_iff [of 0 "8 * C"] fitsD(2) [OF f] C by simp
  then have "main_cols inp (of_nat (8 * R)) (of_nat (8 * C)) 0 0 out = Some (Inl OutOfBounds)"
    by (subst main_cols.simps) (simp only: if_True blk sum.case)
  then have "main_rows inp (of_nat (8 * R)) (of_nat (8 * C)) 0 out = Some (Inl OutOfBounds)"
    by (subst main_rows.simps) (simp only: word_zero_le if_True bind.bind_lunit sum.case)
  then show ?thesis
    unfolding sse_trans_def m64 [OF fitsD(1) [OF f]] m64 [OF fitsD(2) [OF f]] by simp
qed

subsection \<open>The variant with 16-bit elements is never reached\<close>

text \<open>Both counters are multiples of 16 as long as the row count is.\<close>

definition rows16 :: "u64 \<Rightarrow> u64 \<Rightarrow> bool" where
  "rows16 nrows rr \<longleftrightarrow> unat nrows mod 16 = 0 \<and> unat rr mod 16 = 0 \<and> (rr \<le> nrows \<or> nrows = 0)"

lemma unat_less64: "unat (w :: u64) < 2 ^ 64"
  using unsigned_less [of w, where ?'a = nat] by simp

lemma rows16_step:
  assumes "rows16 nrows rr" and "rr \<le> nrows - 16"
  shows "rows16 nrows (rr + 16)"
proof (cases "nrows = 0")
  case True
  have "unat (rr + 16) mod 16 = (unat rr + 16) mod 2 ^ 64 mod 16"
    by (simp add: unat_word_ariths(1))
  also have "\<dots> = (unat rr + 16) mod 16" by (rule mod_mod_cancel) simp
  finally show ?thesis using assms(1) True by (simp add: rows16_def)
next
  case False
  with assms(1) have n: "unat nrows mod 16 = 0" "unat rr mod 16 = 0" "unat nrows \<noteq> 0"
    by (auto simp: rows16_def unat_eq_0)
  then have "16 \<le> unat nrows" by presburger
  then have sub: "unat (nrows - 16) = unat nrows - 16" by (simp add: unat_sub word_le_nat_alt)
  then have le: "unat rr + 16 \<le> unat nrows"
    using assms(2) \<open>16 \<le> unat nrows\<close> by (simp add: word_le_nat_alt)
  then have "unat (rr + 16) = unat rr + 16"
    using unat_less64 [of nrows] by (simp add: unat_word_ariths(1))
  with le n show ?thesis by (simp add: rows16_def word_le_nat_alt)
qed

lemma rows16_exit:
  assumes "rows16 nrows rr" and "\<not> rr \<le> nrows - 16"
  shows "rr = nrows"
proof (cases "nrows = 0")
  case True
  have "(- 16 :: u64) = of_nat (2 ^ 64 - 16)" by simp
  then have "unat (- 16 :: u64) = 2 ^ 64 - 16" by simp
  with True assms unat_less64 [of rr] have "2 ^ 64 - 16 < unat rr" "unat rr < 2 ^ 64" "unat rr mod 16 = 0"
    by (simp_all add: rows16_def word_le_nat_alt)
  moreover from this obtain b where "unat rr = 16 * b" by (metis mod_0_imp_dvd dvd_def)
  ultimately have "1152921504606846975 < b" "b < 1152921504606846976" by simp_all
  then have False by simp
  then show ?thesis ..
next
  case False
  with assms(1) have n: "unat nrows mod 16 = 0" "unat rr mod 16 = 0" "unat nrows \<noteq> 0" "unat rr \<le> unat nrows"
    by (auto simp: rows16_def unat_eq_0 word_le_nat_alt)
  then have "16 \<le> unat nrows" by presburger
  then have "unat (nrows - 16) = unat nrows - 16" by (simp add: unat_sub word_le_nat_alt)
  with assms(2) have "unat nrows - 16 < unat rr" by (simp add: word_le_nat_alt)
  moreover obtain a b where "unat nrows = 16 * a" "unat rr = 16 * b"
    using n(1,2) by (metis mod_0_imp_dvd dvd_def)
  ultimately have "unat rr = unat nrows" using n(4) by simp
  then show ?thesis by (rule unsigned_word_eqI)
qed

lemma main_rows_exit:
  assumes "main_rows inp nrows ncols rr out = Some (Inr (rr', out'))" and "rows16 nrows rr"
  shows "rr' = nrows"
proof -
  let ?P = "\<lambda>(inp :: u8 list) nrows (ncols :: u64) rr (out :: u8 list) (y :: (u64 \<times> u8 list) res).
      \<forall>rr' out'. y = Inr (rr', out') \<longrightarrow> rows16 nrows rr \<longrightarrow> rr' = nrows"
  have "?P inp nrows ncols rr out (Inr (rr', out'))"
  proof (rule main_rows.raw_induct [where P = ?P, OF _ assms(1)])
    fix f :: "u8 list \<Rightarrow> u64 \<Rightarrow> u64 \<Rightarrow> u64 \<Rightarrow> u8 list \<Rightarrow> (u64 \<times> u8 list) res option"
    fix inp nrows ncols rr out y
    assume IH: "\<And>inp nrows ncols rr out y. f inp nrows ncols rr out = Some y \<Longrightarrow> ?P inp nrows ncols rr out y"
      and eq: "(if rr \<le> nrows - 16
        then Option.bind (main_cols inp nrows ncols rr 0 out)
               (\<lambda>r. case r of Inl e \<Rightarrow> Some (Inl e) | Inr out' \<Rightarrow> f inp nrows ncols (rr + 16) out')
        else Some (Inr (rr, out))) = Some y"
    show "?P inp nrows ncols rr out y"
    proof (cases "rr \<le> nrows - 16")
      case True
      then have step: "rows16 nrows rr \<Longrightarrow> rows16 nrows (rr + 16)" using rows16_step by blast
      from True eq obtain r where r: "main_cols inp nrows ncols rr 0 out = Some r"
        "(case r of Inl e \<Rightarrow> Some (Inl e) | Inr out' \<Rightarrow> f inp nrows ncols (rr + 16) out') = Some y"
        by (auto simp: bind_eq_Some_conv)
      with IH step show ?thesis by (cases r) auto
    next
      case False
      with eq show ?thesis by (auto dest: rows16_exit)
    qed
  qed
  with assms(2) show ?thesis by blast
qed

end
