(* ===== verification/Ocelot_Utils.thy ===== *)
theory Ocelot_Utils
  imports Transpose_Correct
begin

unbundle bit_operations_syntax

text \<open>
  \<open>ocelot/src/utils.rs\<close>: the portable transpose (compiled where the target is not x86-64),
  the wrappers of \<open>sse_trans\<close> (compiled where it is), and the packing of bit vectors.
  \<open>usize\<close> values are naturals below \<open>2 ^ 64\<close>; a product that does not fit panics (the
  workspace's dev and test profiles enable overflow checks).
\<close>

subsection \<open>The portable transpose\<close>

definition get_bit :: "u8 list \<Rightarrow> nat \<Rightarrow> u8 res" where
  "get_bit src i =
     (if i div 8 < length src
      then (let byte = src ! (i div 8); bit_pos = i mod 8 in
            Inr (of_bool (byte AND push_bit bit_pos 1 \<noteq> 0)))
      else Inl Panic)"

definition set_bit_at :: "u8 list \<Rightarrow> nat \<Rightarrow> u8 \<Rightarrow> u8 list res" where
  "set_bit_at dst i b =
     (let bit_pos = i mod 8 in
      if i div 8 < length dst
      then Inr (dst[i div 8 := (if b = 1 then dst ! (i div 8) OR push_bit bit_pos 1
                                else dst ! (i div 8) AND NOT (push_bit bit_pos 1))])
      else Inl Panic)"

definition transpose_naive_inplace :: "u8 list \<Rightarrow> u8 list \<Rightarrow> nat \<Rightarrow> u8 list res" where
  "transpose_naive_inplace dst src m =
     (if m = 0 then Inl Panic
      else if length src mod m \<noteq> 0 then Inl Assertion
      else (let l = length src * 8; n = l div m in
            foldM_res (\<lambda>dst i.
              res_bind (get_bit src i)
                (\<lambda>b. let row = i div m; col = i mod m in set_bit_at dst (col * n + row) b))
              dst [0..<l]))"

definition usize_mul :: "nat \<Rightarrow> nat \<Rightarrow> nat res" where
  "usize_mul a b = (if a * b < 2 ^ 64 then Inr (a * b) else Inl Panic)"

definition transpose_naive :: "u8 list \<Rightarrow> nat \<Rightarrow> nat \<Rightarrow> u8 list res" where
  "transpose_naive input nrows ncols =
     (if nrows mod 8 \<noteq> 0 then Inl Assertion
      else if ncols mod 8 \<noteq> 0 then Inl Assertion
      else res_bind (usize_mul nrows ncols) (\<lambda>n.
        if n \<noteq> length input * 8 then Inl Assertion
        else transpose_naive_inplace (replicate (n div 8) 0) input ncols))"

subsection \<open>The wrappers of the C function\<close>

text \<open>\<open>_transpose\<close>: three assertions, then the foreign call.\<close>

definition x86_transpose ::
  "m128 \<Rightarrow> u8 list \<Rightarrow> u8 list \<Rightarrow> nat \<Rightarrow> nat \<Rightarrow> u8 list res option" where
  "x86_transpose tmp0 out inp nrows ncols =
     (if \<not> 16 \<le> nrows then Some (Inl Assertion)
      else if nrows mod 8 \<noteq> 0 then Some (Inl Assertion)
      else if ncols mod 8 \<noteq> 0 then Some (Inl Assertion)
      else sse_trans tmp0 out inp (of_nat nrows) (of_nat ncols))"

definition utils_transpose :: "m128 \<Rightarrow> u8 list \<Rightarrow> nat \<Rightarrow> nat \<Rightarrow> u8 list res option" where
  "utils_transpose tmp0 m nrows ncols =
     (case usize_mul nrows ncols of
        Inl e \<Rightarrow> Some (Inl e)
      | Inr n \<Rightarrow> x86_transpose tmp0 (replicate (n div 8) 0) m nrows ncols)"

definition transpose_pre_allocated ::
  "m128 \<Rightarrow> u8 list \<Rightarrow> u8 list \<Rightarrow> nat \<Rightarrow> nat \<Rightarrow> u8 list res option" where
  "transpose_pre_allocated tmp0 m dst nrows ncols =
     (case usize_mul nrows ncols of
        Inl e \<Rightarrow> Some (Inl e)
      | Inr n \<Rightarrow>
          if length dst \<noteq> n div 8 then Some (Inl Assertion)
          else if length m \<noteq> n div 8 then Some (Inl Assertion)
          else x86_transpose tmp0 dst m nrows ncols)"

subsection \<open>Bit vectors\<close>

definition boolvec_to_u8vec :: "bool list \<Rightarrow> u8 list res" where
  "boolvec_to_u8vec bv =
     (let offset = (if length bv mod 8 = 0 then 0 else 1) in
      foldM_res (\<lambda>v (i, b).
        if i div 8 < length v
        then Inr (v[i div 8 := v ! (i div 8) OR push_bit (i mod 8) (of_bool b)])
        else Inl Panic)
        (replicate (length bv div 8 + offset) 0) (List.enumerate 0 bv))"

definition u8vec_to_boolvec :: "u8 list \<Rightarrow> bool list" where
  "u8vec_to_boolvec v = concat (map (\<lambda>byte. map (\<lambda>i. push_bit i 1 AND byte \<noteq> 0) [0..<8]) v)"

subsection \<open>The portable transpose computes the transposed buffer\<close>

lemma and_push_bit_1: "(x :: 'a :: len word) AND push_bit k 1 \<noteq> 0 \<longleftrightarrow> bit x k"
proof -
  have "x AND push_bit k 1 = (if bit x k then push_bit k 1 else 0)"
    by (rule bit_word_eqI) (auto simp: bit_simps)
  moreover have "bit x k \<Longrightarrow> push_bit k (1 :: 'a word) \<noteq> 0"
    using bit_imp_le_length [of x k] by (simp add: push_bit_eq_mult)
  ultimately show ?thesis by auto
qed

lemma and_2_power: "(x :: 'a :: len word) AND 2 ^ k = 0 \<longleftrightarrow> \<not> bit x k"
  "2 ^ k AND (x :: 'a :: len word) = 0 \<longleftrightarrow> \<not> bit x k"
  using and_push_bit_1 [of x k] by (auto simp: ac_simps)

lemma get_bit_ok:
  "i < 8 * length src \<Longrightarrow> get_bit src i = Inr (of_bool (buf_bit src i))"
  by (auto simp: get_bit_def buf_bit_def and_2_power Let_def)

lemma set_bit_at_ok:
  assumes "i < 8 * length dst"
  shows "\<exists>dst'. set_bit_at dst i (of_bool b) = Inr dst' \<and> length dst' = length dst \<and>
     (\<forall>k. k < 8 * length dst \<longrightarrow> buf_bit dst' k = (if k = i then b else buf_bit dst k))"
proof -
  let ?x = "dst ! (i div 8)"
  let ?y = "if b then ?x OR push_bit (i mod 8) 1 else ?x AND NOT (push_bit (i mod 8) 1)"
  have i: "i div 8 < length dst" using assms by (simp add: less_mult_imp_div_less)
  have y: "bit ?y k = (if k = i mod 8 then b else bit ?x k)" if "k < 8" for k
    using that by (auto simp: bit_simps)
  have "buf_bit (dst[i div 8 := ?y]) k = (if k = i then b else buf_bit dst k)"
    if "k < 8 * length dst" for k
  proof (cases "k div 8 = i div 8")
    case True
    then have "k = i \<longleftrightarrow> k mod 8 = i mod 8" by (metis div_mult_mod_eq)
    with True i y [of "k mod 8"] show ?thesis by (simp add: buf_bit_def)
  next
    case False
    then have "k \<noteq> i" by auto
    with False show ?thesis by (simp add: buf_bit_def)
  qed
  then show ?thesis
    using i by (intro exI [of _ "dst[i div 8 := ?y]"]) (simp add: set_bit_at_def Let_def)
qed

lemma buf_bit_tspec:
  assumes c: "c < 8 * C" and r: "r < 8 * R"
  shows "buf_bit (tspec R C inp) (c * (8 * R) + r) = buf_bit inp (r * (8 * C) + c)"
proof -
  have "c * (8 * R) + r = 8 * (c * R + r div 8) + r mod 8" by simp
  then have "buf_bit (tspec R C inp) (c * (8 * R) + r) = bit (tspec R C inp ! (c * R + r div 8)) (r mod 8)"
    by (simp only: buf_bit_byte mod_less_divisor)
  also have "\<dots> = bit (inp ! (r * C + c div 8)) (c mod 8)"
    using bit_tspec [OF c, of "r div 8" R "r mod 8" inp] r by simp
  also have "\<dots> = buf_bit inp (8 * (r * C) + c)" by (simp add: buf_bit_row)
  finally show ?thesis by (simp add: ac_simps)
qed

text \<open>Where bit \<open>i\<close> of a buffer with rows of \<open>m\<close> bits goes when it has \<open>n\<close> rows.\<close>

definition transposed_pos :: "nat \<Rightarrow> nat \<Rightarrow> nat \<Rightarrow> nat" where
  "transposed_pos n m i = (i mod m) * n + i div m"

lemma transposed_pos_less: "i < n * m \<Longrightarrow> transposed_pos n m i < m * n"
  unfolding transposed_pos_def
  by (rule cell_less) (cases "m = 0", auto simp: less_mult_imp_div_less mult.commute)

lemma transposed_pos_inverse: "i < n * m \<Longrightarrow> transposed_pos m n (transposed_pos n m i) = i"
  using less_mult_imp_div_less [of i n m] by (simp add: transposed_pos_def)

lemma transposed_pos_inj:
  "i < n * m \<Longrightarrow> j < n * m \<Longrightarrow> transposed_pos n m i = transposed_pos n m j \<Longrightarrow> i = j"
  by (metis transposed_pos_inverse)

lemma naive_loop:
  assumes "n * m = 8 * length src" and "length dst = length src"
  shows "\<exists>dst'. foldM_res (\<lambda>dst i.
       res_bind (get_bit src i) (\<lambda>b. let row = i div m; col = i mod m in set_bit_at dst (col * n + row) b))
       dst [0..<n * m] = Inr dst' \<and>
     length dst' = length src \<and> (\<forall>i<n * m. buf_bit dst' (transposed_pos n m i) = buf_bit src i)"
proof (rule foldM_res_upt [where P = "\<lambda>k d. length d = length src \<and>
     (\<forall>i<k. buf_bit d (transposed_pos n m i) = buf_bit src i)"])
  fix i d assume i: "i < n * m"
    and P: "length d = length src \<and> (\<forall>j<i. buf_bit d (transposed_pos n m j) = buf_bit src j)"
  have p: "transposed_pos n m j < 8 * length d" if "j < n * m" for j
    using transposed_pos_less [OF that] assms(1) P by (simp add: mult.commute)
  obtain d' where d: "set_bit_at d (transposed_pos n m i) (of_bool (buf_bit src i)) = Inr d'"
    "length d' = length d"
    "\<forall>k. k < 8 * length d \<longrightarrow> buf_bit d' k = (if k = transposed_pos n m i then buf_bit src i else buf_bit d k)"
    using set_bit_at_ok [OF p [OF i]] by blast
  have "buf_bit d' (transposed_pos n m j) = buf_bit src j" if "j < Suc i" for j
    using d(3) P p [of j] transposed_pos_inj [of i n m j] that i by (cases "j = i") auto
  with d(1,2) P get_bit_ok [of i src] i assms(1)
  show "\<exists>d'. res_bind (get_bit src i) (\<lambda>b. let row = i div m; col = i mod m in set_bit_at d (col * n + row) b) = Inr d' \<and>
    length d' = length src \<and> (\<forall>j<Suc i. buf_bit d' (transposed_pos n m j) = buf_bit src j)"
    by (simp add: transposed_pos_def)
qed (simp add: assms(2))

lemma transpose_naive_tspec:
  assumes f: "fits R C" and len: "length inp = 8 * R * C"
  shows "transpose_naive inp (8 * R) (8 * C) = Inr (tspec R C inp)"
proof -
  let ?n = "8 * R" and ?m = "8 * C"
  have nm: "?n * ?m = 8 * length inp" using len by simp
  have 0: "0 < ?m" "0 < C" using f by (simp_all add: fits_def)
  have d: "length inp * 8 div ?m = ?n" "length inp mod ?m = 0" "length inp * 8 = ?n * ?m"
    using 0 len by simp_all
  obtain dst where dst: "transpose_naive_inplace (replicate (length inp) 0) inp ?m = Inr dst"
    "length dst = length inp" "\<forall>i<?n * ?m. buf_bit dst (transposed_pos ?n ?m i) = buf_bit inp i"
    using naive_loop [OF nm, of "replicate (length inp) 0"] 0 unfolding transpose_naive_inplace_def d Let_def
    by auto
  have "dst = tspec R C inp"
  proof (rule buf_eqI)
    fix k assume "k < 8 * length (tspec R C inp)"
    then have k: "k < ?m * ?n" by simp
    let ?i = "transposed_pos ?m ?n k"
    have i: "?i < ?n * ?m" by (rule transposed_pos_less [OF k])
    have "buf_bit dst k = buf_bit inp ?i"
      using dst(3) i transposed_pos_inverse [OF k] by metis
    moreover have "k div ?n < ?m" "k mod ?n < ?n" using k by (auto simp: less_mult_imp_div_less intro!: mod_less_divisor gr0I)
    then have "buf_bit (tspec R C inp) k = buf_bit inp ?i"
      using buf_bit_tspec [of "k div ?n" C "k mod ?n" R inp] by (simp only: transposed_pos_def div_mult_mod_eq)
    ultimately show "buf_bit dst k = buf_bit (tspec R C inp) k" by simp
  qed (simp add: dst(2) len)
  moreover have "usize_mul ?n ?m = Inr (length inp * 8)"
    using f len by (simp add: usize_mul_def fits_def ac_simps)
  ultimately show ?thesis
    using dst(1) by (simp add: transpose_naive_def)
qed

subsection \<open>The wrappers\<close>

lemma utils_transpose_tspec:
  assumes f: "fits R C" and len: "length m = 8 * R * C" and R: "2 \<le> R" and C: "even R \<or> 2 \<le> C"
  shows "utils_transpose tmp0 m (8 * R) (8 * C) = Some (Inr (tspec R C m))"
proof -
  have "usize_mul (8 * R) (8 * C) = Inr (length m * 8)"
    using f len by (simp add: usize_mul_def fits_def ac_simps)
  moreover have "sse_trans tmp0 (replicate (length m) 0) m (of_nat (8 * R)) (of_nat (8 * C))
      = Some (Inr (tspec R C m))"
    using len by (intro sse_trans_tspec [OF f len _ R C]) simp
  ultimately show ?thesis
    using R by (simp add: utils_transpose_def x86_transpose_def del: of_nat_mult)
qed

lemma tspec_tspec:
  assumes "length m = 8 * R * C" and "0 < R" and "0 < C"
  shows "tspec C R (tspec R C m) = m"
proof (rule buf_eqI)
  fix k assume "k < 8 * length m"
  then have k: "k < (8 * R) * (8 * C)" using assms(1) by simp
  then have b: "k div (8 * C) < 8 * R" "k mod (8 * C) < 8 * C"
    using assms(3) by (auto simp: less_mult_imp_div_less)
  have e: "k div (8 * C) * (8 * C) + k mod (8 * C) = k" by (rule div_mult_mod_eq)
  from buf_bit_tspec [OF b(1) b(2), of "tspec R C m"] buf_bit_tspec [OF b(2) b(1), of m]
  show "buf_bit (tspec C R (tspec R C m)) k = buf_bit m k" by (simp only: e)
qed (simp add: assms(1))

text \<open>Dimensions as the callers give them.\<close>

definition bit_matrix :: "u8 list \<Rightarrow> nat \<Rightarrow> nat \<Rightarrow> bool" where
  "bit_matrix m nrows ncols \<longleftrightarrow> nrows mod 8 = 0 \<and> ncols mod 8 = 0 \<and> 0 < nrows \<and> 0 < ncols \<and>
     nrows * ncols < 2 ^ 64 \<and> length m * 8 = nrows * ncols"

lemma bit_matrixE:
  assumes "bit_matrix m nrows ncols"
  obtains R C where "nrows = 8 * R" "ncols = 8 * C" "fits R C" "length m = 8 * R * C"
proof
  show "nrows = 8 * (nrows div 8)" "ncols = 8 * (ncols div 8)"
    using assms by (auto simp: bit_matrix_def)
  with assms show "fits (nrows div 8) (ncols div 8)" by (auto simp: bit_matrix_def fits_def)
  from assms show "length m = 8 * (nrows div 8) * (ncols div 8)"
    by (auto simp: bit_matrix_def elim!: dvdE simp flip: dvd_eq_mod_eq_0)
qed

text \<open>
  C1. On every bit matrix of at least 16 rows whose dimensions are multiples of 8, with at
  least 16 columns unless the rows come in full blocks of 16, the SSE code behind
  \<open>utils::transpose\<close> terminates without leaving its buffers, returns exactly what the portable
  \<open>transpose_naive\<close> returns, and bit \<open>(r, c)\<close> of the input is bit \<open>(c, r)\<close> of the output.
\<close>

theorem transpose_correct:
  assumes "bit_matrix m nrows ncols" and "16 \<le> nrows" and "nrows mod 16 = 0 \<or> 16 \<le> ncols"
  shows "utils_transpose tmp0 m nrows ncols = Some (transpose_naive m nrows ncols) \<and>
     (\<exists>out. transpose_naive m nrows ncols = Inr out \<and> length out = length m \<and>
        (\<forall>r<nrows. \<forall>c<ncols. buf_bit out (c * nrows + r) = buf_bit m (r * ncols + c)))"
proof -
  obtain R C where d: "nrows = 8 * R" "ncols = 8 * C" and f: "fits R C" and len: "length m = 8 * R * C"
    using assms(1) by (rule bit_matrixE)
  have "2 \<le> R" "even R \<or> 2 \<le> C" using assms(2,3) d by presburger+
  then show ?thesis
    unfolding d utils_transpose_tspec [OF f len] transpose_naive_tspec [OF f len]
    by (simp add: utils_transpose_tspec [OF f len] buf_bit_tspec len)
qed

text \<open>Instance with every part of the code: two row blocks, a remainder, an odd column byte.\<close>

definition matrix_24_24 :: "u8 list" where
  "matrix_24_24 = map (\<lambda>k. of_nat (37 * k + 11)) [0..<72]"

theorem transpose_correct_witness:
  "utils_transpose 0 matrix_24_24 24 24 = Some (transpose_naive matrix_24_24 24 24)"
  using transpose_correct [of matrix_24_24 24 24 0]
  by (simp add: bit_matrix_def matrix_24_24_def)

text \<open>
  Transposing twice gives the matrix back (the crate's own unit test, for every matrix the
  SSE code accepts in both directions).
\<close>

theorem transpose_involution:
  assumes "bit_matrix m nrows ncols" and "16 \<le> nrows" and "16 \<le> ncols"
  shows "\<exists>t. utils_transpose tmp0 m nrows ncols = Some (Inr t) \<and>
     utils_transpose tmp1 t ncols nrows = Some (Inr m)"
proof -
  obtain R C where d: "nrows = 8 * R" "ncols = 8 * C" and f: "fits R C" and len: "length m = 8 * R * C"
    using assms(1) by (rule bit_matrixE)
  have RC: "2 \<le> R" "2 \<le> C" using assms(2,3) d by simp_all
  have f': "fits C R" using f by (simp add: fits_commute)
  have "utils_transpose tmp0 m nrows ncols = Some (Inr (tspec R C m))"
    unfolding d using RC by (intro utils_transpose_tspec [OF f len]) simp_all
  moreover have "utils_transpose tmp1 (tspec R C m) ncols nrows = Some (Inr (tspec C R (tspec R C m)))"
    unfolding d using RC by (intro utils_transpose_tspec [OF f']) simp_all
  moreover have "tspec C R (tspec R C m) = m" using len RC by (intro tspec_tspec) simp_all
  ultimately show ?thesis by simp
qed

theorem transpose_involution_witness:
  "\<exists>t. utils_transpose 0 matrix_24_24 24 24 = Some (Inr t) \<and>
     utils_transpose 7 t 24 24 = Some (Inr matrix_24_24)"
  by (rule transpose_involution) (simp_all add: bit_matrix_def matrix_24_24_def)

text \<open>
  C2. The wrapper's assertions do not ask for 16 columns. With eight columns and eight rows
  left over after the blocks of 16, \<open>ncols - 16\<close> wraps around, the pair loop is entered, and its
  last load reads past the end of the input.
\<close>

theorem transpose_narrow_out_of_bounds:
  assumes "bit_matrix m nrows 8" and "16 \<le> nrows" and "nrows mod 16 = 8"
  shows "utils_transpose tmp0 m nrows 8 = Some (Inl OutOfBounds)"
proof -
  obtain R C where d: "nrows = 8 * R" "8 = 8 * C" and f: "fits R C" and len: "length m = 8 * R * C"
    using assms(1) by (rule bit_matrixE)
  have C: "C = 1" and R: "2 \<le> R" "odd R" using assms(2,3) d by presburger+
  then have R': "R - R mod 2 = R - 1" "R - 1 \<noteq> R" by presburger+
  have f1: "fits R 1" and len1: "length m = 8 * R * 1" using f len C by simp_all
  have "usize_mul (8 * R) 8 = Inr (length m * 8)"
    using f1 len1 by (simp add: usize_mul_def fits_def)
  moreover have "sse_trans tmp0 (replicate (length m) 0) m (of_nat (8 * R)) (of_nat (8 * 1))
      = Some (Inl OutOfBounds)"
    using sse_trans_enter [OF f1 len1 _ R(1), of "replicate (length m) 0" tmp0] R' len1
      after_rows_narrow [OF f1, of m tmp0] by auto
  ultimately show ?thesis
    unfolding d(1) using R by (simp add: utils_transpose_def x86_transpose_def del: of_nat_mult)
qed

theorem transpose_narrow_out_of_bounds_witness:
  "utils_transpose 0 (replicate 24 255) 24 8 = Some (Inl OutOfBounds)"
  by (rule transpose_narrow_out_of_bounds) (simp_all add: bit_matrix_def)

text \<open>
  \<open>utils::transpose\<close> is a safe function and does not compare the length of its input with
  the dimensions: an input that ends before row 15 is read out of bounds, where the
  preallocated variant stops at its assertion.
\<close>

theorem transpose_short_input:
  assumes "nrows mod 8 = 0" and "ncols mod 8 = 0" and "16 \<le> nrows" and "0 < ncols"
    and "nrows * ncols < 2 ^ 64" and "8 * length m \<le> 15 * ncols"
  shows "utils_transpose tmp0 m nrows ncols = Some (Inl OutOfBounds) \<and>
     (length dst = nrows * ncols div 8 \<longrightarrow>
        transpose_pre_allocated tmp0 m dst nrows ncols = Some (Inl Assertion))"
proof -
  obtain R C where d: "nrows = 8 * R" "ncols = 8 * C"
    using assms(1,2) by (auto simp: mod_0_imp_dvd elim!: dvdE)
  have RC: "2 \<le> R" "0 < C" and f: "fits R C" and len: "length m \<le> 15 * C"
    using assms d by (auto simp: fits_def)
  have u: "usize_mul (8 * R) (8 * C) = Inr (8 * R * (8 * C))"
    using f by (simp add: usize_mul_def fits_def)
  have "length m < 16 * C" using len RC(2) by simp
  also have "\<dots> \<le> 8 * R * C" using RC(1) by simp
  finally have "length m \<noteq> 8 * R * (8 * C) div 8" by (simp add: ac_simps)
  with u sse_trans_short_input [OF f RC(1) len] RC(1) show ?thesis
    unfolding d
    by (simp add: utils_transpose_def transpose_pre_allocated_def x86_transpose_def del: of_nat_mult)
qed

theorem transpose_short_input_witness:
  "utils_transpose 0 [1, 2, 3] 16 8 = Some (Inl OutOfBounds) \<and>
   transpose_pre_allocated 0 [1, 2, 3] (replicate 16 0) 16 8 = Some (Inl Assertion)"
  using transpose_short_input [of 16 8 "[1, 2, 3]" 0 "replicate 16 0"] by simp

text \<open>
  The variant of the remainder that builds its register from 16-bit elements is dead code:
  whatever the buffers and the dimensions, when \<open>sse_trans\<close> gets past its first return the
  remainder is handled by the byte variant.
\<close>

theorem epi16_variant_unreachable:
  assumes "nrows mod 8 = 0" and "main_rows inp nrows ncols 0 out = Some (Inr (rr, out'))"
    and "rr \<noteq> nrows"
  shows "after_rows inp nrows ncols rr tmp0 out' =
     Option.bind (pair_cols inp nrows ncols rr 0 tmp0 out')
       (\<lambda>r. Some (res_bind r (last_cols inp nrows ncols rr)))"
proof -
  have "nrows mod 16 \<noteq> 0"
  proof
    assume "nrows mod 16 = 0"
    then have "unat (nrows mod 16) = 0" by simp
    then have "rows16 nrows 0" by (simp add: rows16_def unat_mod_distrib)
    with main_rows_exit [OF assms(2)] assms(3) show False by blast
  qed
  with assms(1) show ?thesis by (simp add: after_rows_def)
qed

theorem epi16_variant_unreachable_witness:
  "\<exists>rr out'. main_rows (replicate 48 9) 24 16 0 (replicate 48 0) = Some (Inr (rr, out')) \<and>
     after_rows (replicate 48 9) 24 16 rr 0 out' =
       Option.bind (pair_cols (replicate 48 9) 24 16 rr 0 0 out')
         (\<lambda>r. Some (res_bind r (last_cols (replicate 48 9) 24 16 rr)))"
proof -
  have "agrees_on (tspec 3 2 (replicate 48 9)) (cellset 3 {..<0} {..<8 * 2}) (replicate 48 0)"
    by (simp add: agrees_on_empty)
  then obtain out' where m:
    "main_rows (replicate 48 9) 24 16 0 (replicate 48 0) = Some (Inr (16, out'))"
    using main_rows_agrees [of 3 2 "replicate 48 9" 0 "replicate 48 0"] by (auto simp: fits_def)
  have "after_rows (replicate 48 9) 24 16 16 0 out' =
      Option.bind (pair_cols (replicate 48 9) 24 16 16 0 0 out')
         (\<lambda>r. Some (res_bind r (last_cols (replicate 48 9) 24 16 16)))"
    by (rule epi16_variant_unreachable [OF _ m]) simp_all
  with m show ?thesis by blast
qed

subsection \<open>Bit vectors\<close>

lemma nth_concat_bytes:
  assumes "\<And>x. length (f x) = 8" and "k < 8 * length xs"
  shows "concat (map f xs) ! k = f (xs ! (k div 8)) ! (k mod 8)"
  using assms(2)
proof (induction xs arbitrary: k)
  case (Cons x xs)
  show ?case
  proof (cases "k < 8")
    case False
    then have "k div 8 = Suc ((k - 8) div 8)" "k mod 8 = (k - 8) mod 8"
      by (simp_all add: le_div_geq le_mod_geq)
    with False Cons assms(1) show ?thesis by (simp add: nth_append)
  qed (simp add: nth_append assms(1))
qed simp

lemma length_u8vec_to_boolvec [simp]: "length (u8vec_to_boolvec v) = 8 * length v"
  by (induction v) (simp_all add: u8vec_to_boolvec_def)

lemma nth_u8vec_to_boolvec: "k < 8 * length v \<Longrightarrow> u8vec_to_boolvec v ! k = buf_bit v k"
  unfolding u8vec_to_boolvec_def by (subst nth_concat_bytes) (simp_all add: buf_bit_def and_2_power)

lemma enumerate_0: "List.enumerate 0 bv = map (\<lambda>i. (i, bv ! i)) [0..<length bv]"
  by (rule nth_equalityI) (simp_all add: nth_enumerate_eq)

text \<open>Rounding up to whole bytes.\<close>

lemma ceil8: "(n + 7) div 8 = n div 8 + (if n mod 8 = 0 then 0 else 1 :: nat)"
proof -
  obtain a r where n: "n = 8 * a + r" "r < 8"
    using that [of "n div 8" "n mod 8"] by simp
  show ?thesis
  proof (cases r)
    case (Suc r')
    then have e: "8 * a + r + 7 = 8 * (a + 1) + r'" by simp
    have "(8 * a + r + 7) div 8 = a + 1" unfolding e using n(2) Suc by simp
    with n Suc show ?thesis by simp
  qed (simp add: n)
qed

lemma pad8: "8 * ((n + 7) div 8) = n + (8 - n mod 8) mod (8 :: nat)"
proof -
  obtain a r where n: "n = 8 * a + r" "r < 8"
    using that [of "n div 8" "n mod 8"] by simp
  then show ?thesis by (cases "r = 0") (simp_all add: ceil8)
qed

lemma boolvec_to_u8vec_bits:
  "\<exists>v. boolvec_to_u8vec bv = Inr v \<and> length v = (length bv + 7) div 8 \<and>
     (\<forall>k<8 * length v. buf_bit v k \<longleftrightarrow> k < length bv \<and> bv ! k)"
proof -
  let ?L = "length bv div 8 + (if length bv mod 8 = 0 then 0 else 1)"
  let ?f = "\<lambda>v :: u8 list. \<lambda>i. if i div 8 < length v
     then Inr (v[i div 8 := v ! (i div 8) OR push_bit (i mod 8) (of_bool (bv ! i))]) else Inl Panic"
  have L: "?L = (length bv + 7) div 8" by (simp add: ceil8)
  have cover: "length bv \<le> 8 * ?L" unfolding L pad8 by simp
  let ?P = "\<lambda>i v :: u8 list. length v = ?L \<and> (\<forall>k<8 * ?L. buf_bit v k \<longleftrightarrow> k < i \<and> bv ! k)"
  have "\<exists>v. foldM_res ?f (replicate ?L 0) [0..<length bv] = Inr v \<and> ?P (length bv) v"
  proof (rule foldM_res_upt [where P = ?P])
    fix i v assume i: "i < length bv" and P: "?P i v"
    let ?v = "v[i div 8 := v ! (i div 8) OR push_bit (i mod 8) (of_bool (bv ! i))]"
    have b: "i div 8 < length v" using i cover P by (simp add: less_mult_imp_div_less)
    have "buf_bit ?v k \<longleftrightarrow> k < Suc i \<and> bv ! k" if k: "k < 8 * ?L" for k
    proof (cases "k div 8 = i div 8")
      case True
      then have "k mod 8 = i mod 8 \<longleftrightarrow> k = i" by (metis div_mult_mod_eq)
      moreover have "buf_bit ?v k \<longleftrightarrow> buf_bit v k \<or> k mod 8 = i mod 8 \<and> bv ! i"
        using True b by (auto simp: buf_bit_def bit_simps)
      ultimately show ?thesis using P k by (auto simp: less_Suc_eq)
    next
      case False
      then have "buf_bit ?v k = buf_bit v k" "k \<noteq> i" by (auto simp: buf_bit_def)
      then show ?thesis using P k by (auto simp: less_Suc_eq)
    qed
    with b P show "\<exists>v'. ?f v i = Inr v' \<and> ?P (Suc i) v'"
      by (intro exI [of _ ?v] conjI) (simp_all only: if_True length_list_update, blast)
  qed (simp add: buf_bit_def)
  then obtain v where v: "foldM_res ?f (replicate ?L 0) [0..<length bv] = Inr v" "?P (length bv) v"
    by blast
  have "boolvec_to_u8vec bv = Inr v"
    using v(1) unfolding boolvec_to_u8vec_def Let_def enumerate_0 foldM_res_map prod.case .
  with v(2) L show ?thesis by auto
qed

text \<open>
  Packing a bit vector never indexes out of range; unpacking the bytes gives the bits back,
  padded with \<open>False\<close> to a whole number of bytes; packing the bits of a byte vector gives the
  bytes back.
\<close>

theorem boolvec_roundtrip:
  "(\<exists>v. boolvec_to_u8vec bv = Inr v \<and>
      u8vec_to_boolvec v = bv @ replicate ((8 - length bv mod 8) mod 8) False) \<and>
   boolvec_to_u8vec (u8vec_to_boolvec w) = Inr w"
proof
  obtain v where v: "boolvec_to_u8vec bv = Inr v" "length v = (length bv + 7) div 8"
    "\<forall>k<8 * length v. buf_bit v k \<longleftrightarrow> k < length bv \<and> bv ! k"
    using boolvec_to_u8vec_bits [of bv] by blast
  define p where "p = (8 - length bv mod 8) mod 8"
  have "8 * length v = length bv + p" unfolding v(2) p_def by (rule pad8)
  with v(3) have "u8vec_to_boolvec v = bv @ replicate p False"
    by (intro nth_equalityI) (auto simp: nth_u8vec_to_boolvec nth_append)
  then have "u8vec_to_boolvec v = bv @ replicate ((8 - length bv mod 8) mod 8) False"
    by (simp only: p_def)
  with v(1) show "\<exists>v. boolvec_to_u8vec bv = Inr v \<and>
      u8vec_to_boolvec v = bv @ replicate ((8 - length bv mod 8) mod 8) False" by blast
next
  obtain v where v: "boolvec_to_u8vec (u8vec_to_boolvec w) = Inr v" "length v = (8 * length w + 7) div 8"
    "\<forall>k<8 * length v. buf_bit v k \<longleftrightarrow> k < 8 * length w \<and> u8vec_to_boolvec w ! k"
    using boolvec_to_u8vec_bits [of "u8vec_to_boolvec w"] by auto
  have "(8 * length w + 7) div 8 = length w" by (simp add: ceil8)
  with v have "v = w" by (intro buf_eqI) (auto simp: nth_u8vec_to_boolvec)
  with v(1) show "boolvec_to_u8vec (u8vec_to_boolvec w) = Inr w" by simp
qed

end
