(* ===== verification/Digits.thy ===== *)
theory Digits
  imports Prelude
begin

text \<open>
  Base-\<open>q\<close> digits, least significant first, as the lookup tables, \<open>util.rs\<close> and
  \<open>wire.rs\<close> of the garbling library use them, and a linear-time check that a table of 256
  rows holds the digits of \<open>x * w\<close> in row \<open>x\<close>.
\<close>

subsection \<open>Digits and their value\<close>

fun digits :: "nat \<Rightarrow> nat \<Rightarrow> nat \<Rightarrow> nat list" where
  "digits q 0 x = []"
| "digits q (Suc n) x = x mod q # digits q n (x div q)"

fun dval :: "nat \<Rightarrow> nat list \<Rightarrow> nat" where
  "dval q [] = 0"
| "dval q (d # ds) = d + q * dval q ds"

definition is_digits :: "nat \<Rightarrow> nat list \<Rightarrow> bool" where
  "is_digits q ds \<longleftrightarrow> (\<forall>d\<in>set ds. d < q)"

lemma is_digits_simps [simp]:
  "is_digits q []" "is_digits q (d # ds) \<longleftrightarrow> d < q \<and> is_digits q ds"
  by (auto simp: is_digits_def)

lemma length_digits [simp]: "length (digits q n x) = n"
  by (induction n arbitrary: x) auto

lemma is_digits_digits [simp]: "0 < q \<Longrightarrow> is_digits q (digits q n x)"
  by (induction n arbitrary: x) auto

lemma dval_digits: "0 < q \<Longrightarrow> dval q (digits q n x) = x mod q ^ n"
proof (induction n arbitrary: x)
  case (Suc n)
  then show ?case by (simp add: mod_mult2_eq)
qed simp

lemma dval_less: "is_digits q ds \<Longrightarrow> dval q ds < q ^ length ds"
proof (induction ds)
  case (Cons d ds)
  then have "Suc (dval q ds) \<le> q ^ length ds" by simp
  then have "q * Suc (dval q ds) \<le> q * q ^ length ds" by (rule mult_le_mono2)
  with Cons.prems show ?case by simp
qed simp

lemma digits_dval: "is_digits q ds \<Longrightarrow> digits q (length ds) (dval q ds) = ds"
  by (induction ds) auto

lemma digits_unique:
  "is_digits q ds \<Longrightarrow> dval q ds mod q ^ length ds = x mod q ^ length ds \<Longrightarrow> digits q (length ds) x = ds"
proof (induction ds arbitrary: x)
  case (Cons d ds)
  then have d: "d < q" "0 < q" "is_digits q ds" by auto
  from Cons.prems(2) have e: "(d + q * dval q ds) mod (q * q ^ length ds) = x mod (q * q ^ length ds)"
    by simp
  have "x mod q = d" using arg_cong [OF e, of "\<lambda>y. y mod q"] d by (simp add: mod_mult2_eq)
  moreover have "dval q ds mod q ^ length ds = (x div q) mod q ^ length ds"
    using arg_cong [OF e, of "\<lambda>y. y div q"] d by (simp add: mod_mult2_eq)
  ultimately show ?case using Cons.IH [OF d(3)] by simp
qed simp

lemma digits_mod: "digits q n (x mod q ^ n) = digits q n x" if "0 < q"
  by (metis digits_unique dval_digits is_digits_digits length_digits mod_mod_trivial that)

lemma take_digits: "m \<le> n \<Longrightarrow> take m (digits q n x) = digits q m x"
proof (induction m arbitrary: n x)
  case (Suc m)
  then show ?case by (cases n) auto
qed simp

lemma digits_inj: "0 < q \<Longrightarrow> digits q n x = digits q n y \<longleftrightarrow> x mod q ^ n = y mod q ^ n"
  by (metis digits_mod dval_digits)

subsection \<open>Checking a table row by row\<close>

text \<open>
  Table entries are C integer constants. A table is checked by addition: row \<open>x + 1\<close> must be
  row \<open>x\<close> plus row \<open>1\<close> in base \<open>q\<close>, with no carry out of the last digit. Tables are
  written and checked in 16 blocks of 16 rows.
\<close>

fun add_check :: "int \<Rightarrow> int \<Rightarrow> int list \<Rightarrow> int list \<Rightarrow> int list \<Rightarrow> bool" where
  "add_check q c (a # as) (b # bs) (r # rs) =
     (let s = a + b + c in
      if s < q then r = s \<and> add_check q 0 as bs rs else r + q = s \<and> add_check q 1 as bs rs)"
| "add_check q c [] [] [] = (c = 0)"
| "add_check q c _ _ _ = False"

fun chain_check :: "int \<Rightarrow> int list \<Rightarrow> int list list \<Rightarrow> bool" where
  "chain_check q one (r # s # rs) = (add_check q 0 r one s \<and> chain_check q one (s # rs))"
| "chain_check q one _ = True"

fun ival :: "int \<Rightarrow> int list \<Rightarrow> int" where
  "ival q [] = 0"
| "ival q (d # ds) = d + q * ival q ds"

definition first_check :: "int \<Rightarrow> nat \<Rightarrow> int \<Rightarrow> int list \<Rightarrow> int list list \<Rightarrow> bool" where
  "first_check q n w one b \<longleftrightarrow>
     length b = 16 \<and> hd b = replicate n 0 \<and> list_all (\<lambda>d. 0 \<le> d \<and> d < q) one \<and> ival q one = w \<and>
     chain_check q one b"

text \<open>A further block continues the last row \<open>p\<close> of the one before.\<close>

definition next_check :: "int \<Rightarrow> int list \<Rightarrow> int list \<Rightarrow> int list list \<Rightarrow> bool" where
  "next_check q one p b \<longleftrightarrow> length b = 16 \<and> chain_check q one (p # b)"

definition idigits :: "int \<Rightarrow> int list \<Rightarrow> bool" where
  "idigits q ds \<longleftrightarrow> (\<forall>d\<in>set ds. 0 \<le> d \<and> d < q)"

lemma add_check_sound:
  "add_check q c as bs rs \<Longrightarrow> idigits q as \<Longrightarrow> idigits q bs \<Longrightarrow> c = 0 \<or> c = 1 \<Longrightarrow>
   idigits q rs \<and> length rs = length as \<and> ival q rs = ival q as + ival q bs + c"
proof (induction q c as bs rs rule: add_check.induct)
  case (1 q c a as b bs r rs)
  from "1.prems" have ab: "0 \<le> a" "a < q" "0 \<le> b" "b < q" "idigits q as" "idigits q bs"
    by (auto simp: idigits_def)
  show ?case
  proof (cases "a + b + c < q")
    case True
    with "1.prems"(1) have r: "r = a + b + c" "add_check q 0 as bs rs" by (simp_all add: Let_def)
    have IH: "idigits q rs" "length rs = length as" "ival q rs = ival q as + ival q bs + 0"
      using "1.IH"(1) [OF refl True r(2) ab(5,6)] by simp_all
    have "0 \<le> r" "r < q" using r(1) ab True "1.prems"(4) by auto
    then show ?thesis using IH r(1) by (simp add: idigits_def distrib_left)
  next
    case False
    with "1.prems"(1) have r: "r = a + b + c - q" "add_check q 1 as bs rs" by (auto simp: Let_def)
    have IH: "idigits q rs" "length rs = length as" "ival q rs = ival q as + ival q bs + 1"
      using "1.IH"(2) [OF refl False r(2) ab(5,6)] by simp_all
    have "0 \<le> r" "r < q" using r(1) ab False "1.prems"(4) by auto
    then show ?thesis using IH r(1) by (simp add: idigits_def distrib_left)
  qed
qed auto

lemma chain_check_sound:
  assumes "idigits q one"
  shows "chain_check q one (r # rows) \<Longrightarrow> idigits q r \<Longrightarrow> x < Suc (length rows) \<Longrightarrow>
   idigits q ((r # rows) ! x) \<and> length ((r # rows) ! x) = length r \<and>
   ival q ((r # rows) ! x) = ival q r + int x * ival q one"
proof (induction rows arbitrary: r x)
  case (Cons s rows)
  have s: "idigits q s" "length s = length r" "ival q s = ival q r + ival q one"
    using add_check_sound [of q 0 r one s] Cons.prems(1,2) assms by auto
  show ?case
  proof (cases x)
    case (Suc y)
    with Cons.IH [of s y] Cons.prems s show ?thesis by (simp add: algebra_simps)
  qed (use Cons.prems in simp)
qed simp

lemma ival_dval: "idigits (int q) ds \<Longrightarrow> ival (int q) ds = int (dval q (map nat ds))"
  by (induction ds) (auto simp: idigits_def)

text \<open>Row \<open>x\<close> of the 256 rows holds the \<open>n\<close> base-\<open>q\<close> digits of \<open>x * w\<close>.\<close>

definition holds_rows :: "nat \<Rightarrow> nat \<Rightarrow> nat \<Rightarrow> int list list \<Rightarrow> bool" where
  "holds_rows q n w T \<longleftrightarrow> length T = 256 \<and> list_all (\<lambda>x. T ! x = map int (digits q n (x * w))) [0..<256]"

lemma holds_rows_iff:
  "holds_rows q n w T \<longleftrightarrow> length T = 256 \<and> (\<forall>x<256. T ! x = map int (digits q n (x * w)))"
  by (auto simp: holds_rows_def list_all_iff)

lemma idigits_row:
  assumes "idigits (int q) r" and "ival (int q) r = int v"
  shows "r = map int (digits q (length r) v)"
proof -
  have "int (dval q (map nat r)) = int v" using assms by (simp add: ival_dval)
  then have v: "dval q (map nat r) = v" by (simp only: of_nat_eq_iff)
  have "is_digits q (map nat r)" using assms(1) by (auto simp: idigits_def is_digits_def)
  from digits_dval [OF this] have "digits q (length r) v = map nat r" by (simp add: v)
  moreover have "map int (map nat r) = r" using assms(1) by (auto simp: idigits_def intro: map_idI)
  ultimately show ?thesis by simp
qed

definition rows_from :: "(nat \<Rightarrow> 'a) \<Rightarrow> nat \<Rightarrow> nat \<Rightarrow> 'a list \<Rightarrow> bool" where
  "rows_from f k m T \<longleftrightarrow> length T = m \<and> (\<forall>i<m. T ! i = f (k + i))"

lemma rows_from_append:
  assumes "rows_from f k m a" and "rows_from f (k + m) n b"
  shows "rows_from f k (m + n) (a @ b)"
proof -
  have "(a @ b) ! i = f (k + i)" if "i < m + n" for i
  proof (cases "i < m")
    case False
    then have "b ! (i - m) = f (k + m + (i - m))" "k + m + (i - m) = k + i"
      using assms(2) that by (simp_all add: rows_from_def)
    with False assms(1) show ?thesis by (simp add: rows_from_def nth_append)
  qed (use assms(1) in \<open>simp add: rows_from_def nth_append\<close>)
  with assms show ?thesis by (simp add: rows_from_def)
qed

definition rowv :: "nat \<Rightarrow> nat \<Rightarrow> nat \<Rightarrow> nat \<Rightarrow> int list" where
  "rowv q n w x = map int (digits q n (x * w))"

text \<open>A chain that starts from the row of \<open>k\<close> holds the rows from \<open>k\<close> on.\<close>

lemma chain_check_rows:
  assumes q: "0 < q" and one: "idigits (int q) one" "ival (int q) one = int w"
    and r: "length r = n" "idigits (int q) r" "ival (int q) r = int (k * w)"
    and chk: "chain_check (int q) one (r # rows)" and i: "i < Suc (length rows)"
  shows "(r # rows) ! i = rowv q n w (k + i)"
    and "length ((r # rows) ! i) = n" "idigits (int q) ((r # rows) ! i)"
      "ival (int q) ((r # rows) ! i) = int ((k + i) * w)"
proof -
  show row: "length ((r # rows) ! i) = n" "idigits (int q) ((r # rows) ! i)"
      "ival (int q) ((r # rows) ! i) = int ((k + i) * w)"
    using chain_check_sound [OF one(1) chk r(2) i] r one(2) by (simp_all add: distrib_right)
  show "(r # rows) ! i = rowv q n w (k + i)"
    using idigits_row [OF row(2,3)] row(1) by (simp add: rowv_def)
qed

definition good_block :: "nat \<Rightarrow> nat \<Rightarrow> nat \<Rightarrow> int list \<Rightarrow> nat \<Rightarrow> int list list \<Rightarrow> bool" where
  "good_block q n w one k b \<longleftrightarrow>
     0 < q \<and> idigits (int q) one \<and> ival (int q) one = int w \<and> rows_from (rowv q n w) k 16 b \<and>
     length (last b) = n \<and> idigits (int q) (last b) \<and> ival (int q) (last b) = int ((k + 15) * w)"

lemma first_check_good:
  assumes chk: "first_check (int q) n (int w) one b" and q: "0 < q"
  shows "good_block q n w one 0 b"
proof -
  obtain r rs where b: "b = r # rs" using chk by (cases b) (auto simp: first_check_def)
  have one: "idigits (int q) one" "ival (int q) one = int w" "length rs = 15" "r = replicate n 0"
    using chk by (auto simp: first_check_def idigits_def list_all_iff b)
  have "ival (int q) (replicate m 0) = 0" for m by (induction m) auto
  then have r: "length r = n" "idigits (int q) r" "ival (int q) r = int (0 * w)"
    using q by (auto simp: one(4) idigits_def)
  have c: "chain_check (int q) one (r # rs)" using chk unfolding first_check_def b by blast
  note rows = chain_check_rows [OF q one(1,2) r c]
  have "last b = (r # rs) ! 15" using one(3) by (subst last_conv_nth) (simp_all add: b)
  then show ?thesis
    using rows(1) rows(2-4) [of 15] one q by (simp add: good_block_def rows_from_def b)
qed

lemma next_check_good:
  assumes chk: "next_check (int q) one (last a) b" and a: "good_block q n w one k a"
  shows "good_block q n w one (k + 16) b"
proof -
  have l: "length b = 16" and c: "chain_check (int q) one (last a # b)" using chk by (simp_all add: next_check_def)
  have q: "0 < q" and one: "idigits (int q) one" "ival (int q) one = int w"
    and r: "length (last a) = n" "idigits (int q) (last a)" "ival (int q) (last a) = int ((k + 15) * w)"
    using a by (simp_all add: good_block_def)
  note rows = chain_check_rows [OF q one r c]
  have "last b = (last a # b) ! 16" using l by (subst last_conv_nth) auto
  moreover have "b ! i = rowv q n w (k + 16 + i)" if "i < 16" for i
    using rows(1) [of "Suc i"] that l by (simp add: ac_simps)
  ultimately show ?thesis
    using rows(2-4) [of 16] one q l by (simp add: good_block_def rows_from_def)
qed

text \<open>Sixteen checked blocks make a table.\<close>

lemma holds_rowsI:
  assumes q: "q' = int q" and w: "w' = int w" and q0: "0 < q"
    and b: "first_check q' n w' one b0" "next_check q' one (last b0) b1" "next_check q' one (last b1) b2"
      "next_check q' one (last b2) b3" "next_check q' one (last b3) b4" "next_check q' one (last b4) b5"
      "next_check q' one (last b5) b6" "next_check q' one (last b6) b7" "next_check q' one (last b7) b8"
      "next_check q' one (last b8) b9" "next_check q' one (last b9) b10" "next_check q' one (last b10) b11"
      "next_check q' one (last b11) b12" "next_check q' one (last b12) b13" "next_check q' one (last b13) b14"
      "next_check q' one (last b14) b15"
  shows "holds_rows q n w (b0 @ b1 @ b2 @ b3 @ b4 @ b5 @ b6 @ b7 @ b8 @ b9 @ b10 @ b11 @ b12 @ b13 @ b14 @ b15)"
proof -
  let ?g = "good_block q n w one"
  have g0: "?g 0 b0" using first_check_good [of q n w one b0] b(1) q w q0 by simp
  have nxt: "?g (k + 16) b" if "?g k a" "next_check q' one (last a) b" for a b k
    using next_check_good [of q one a b n w k] that q by simp
  note g1 = nxt [OF g0 b(2)] note g2 = nxt [OF g1 b(3)] note g3 = nxt [OF g2 b(4)]
  note g4 = nxt [OF g3 b(5)] note g5 = nxt [OF g4 b(6)] note g6 = nxt [OF g5 b(7)]
  note g7 = nxt [OF g6 b(8)] note g8 = nxt [OF g7 b(9)] note g9 = nxt [OF g8 b(10)]
  note g10 = nxt [OF g9 b(11)] note g11 = nxt [OF g10 b(12)] note g12 = nxt [OF g11 b(13)]
  note g13 = nxt [OF g12 b(14)] note g14 = nxt [OF g13 b(15)] note g15 = nxt [OF g14 b(16)]
  have rf: "rows_from (rowv q n w) k 16 b" if "?g k b" for k b using that by (simp add: good_block_def)
  have "rows_from (rowv q n w) 0 (16 + (16 + (16 + (16 + (16 + (16 + (16 + (16 + (16 + (16 + (16 + (16 + (16 + (16 + (16 + 16)))))))))))))))
      (b0 @ b1 @ b2 @ b3 @ b4 @ b5 @ b6 @ b7 @ b8 @ b9 @ b10 @ b11 @ b12 @ b13 @ b14 @ b15)"
    by (intro rows_from_append rf g0 g1 g2 g3 g4 g5 g6 g7 g8 g9 g10 g11 g12 g13 g14 g15)
  then show ?thesis by (simp add: rows_from_def holds_rows_iff rowv_def)
qed

end
