(* ===== verification/Base_Conversion.thy ===== *)
theory Base_Conversion
  imports Digits
begin

text \<open>
  \<open>fancy-garbling/base_conversion\<close>: the C side (\<open>cbits/lookup_tables.c\<close>: the digit
  counts and the two \<open>switch\<close> functions) and the Rust side that calls it through the foreign
  interface (\<open>src/lib.rs\<close>). A pointer to a table is the pair of its base and position; the
  contents of the constant tables are the argument \<open>rom\<close>, which \<open>Lookup_Tables\<close>
  instantiates with the tables of the file.
\<close>

subsection \<open>The C side\<close>

definition NDIGITS_BASE :: "(nat \<times> nat list) list" where
  "NDIGITS_BASE = [
    (5, [4, 7, 11, 14, 18, 21, 25, 28, 32, 35, 38, 42, 45, 49, 52, 56]),
    (6, [4, 7, 10, 13, 16, 19, 22, 25, 28, 31, 35, 38, 41, 44, 47, 50]),
    (7, [3, 6, 9, 12, 15, 18, 20, 23, 26, 29, 32, 35, 38, 40, 43, 46]),
    (8, [3, 6, 8, 11, 14, 16, 19, 22, 24, 27, 30, 32, 35, 38, 40, 43]),
    (9, [3, 6, 8, 11, 13, 16, 18, 21, 23, 26, 28, 31, 33, 36, 38, 41]),
    (10, [3, 5, 8, 10, 13, 15, 17, 20, 22, 25, 27, 29, 32, 34, 37, 39]),
    (11, [3, 5, 7, 10, 12, 14, 17, 19, 21, 24, 26, 28, 31, 33, 35, 37]),
    (12, [3, 5, 7, 9, 12, 14, 16, 18, 21, 23, 25, 27, 30, 32, 34, 36]),
    (13, [3, 5, 7, 9, 11, 13, 16, 18, 20, 22, 24, 26, 29, 31, 33, 35]),
    (14, [3, 5, 7, 9, 11, 13, 15, 17, 19, 22, 24, 26, 28, 30, 32, 34]),
    (15, [3, 5, 7, 9, 11, 13, 15, 17, 19, 21, 23, 25, 27, 29, 31, 33]),
    (16, [2, 4, 6, 8, 10, 12, 14, 16, 18, 20, 22, 24, 26, 28, 30, 32]),
    (17, [2, 4, 6, 8, 10, 12, 14, 16, 18, 20, 22, 24, 26, 28, 30, 32]),
    (18, [2, 4, 6, 8, 10, 12, 14, 16, 18, 20, 22, 24, 25, 27, 29, 31]),
    (19, [2, 4, 6, 8, 10, 12, 14, 16, 17, 19, 21, 23, 25, 27, 29, 31]),
    (20, [2, 4, 6, 8, 10, 12, 13, 15, 17, 19, 21, 23, 25, 26, 28, 30]),
    (21, [2, 4, 6, 8, 10, 11, 13, 15, 17, 19, 21, 22, 24, 26, 28, 30]),
    (22, [2, 4, 6, 8, 9, 11, 13, 15, 17, 18, 20, 22, 24, 26, 27, 29]),
    (23, [2, 4, 6, 8, 9, 11, 13, 15, 16, 18, 20, 22, 23, 25, 27, 29]),
    (24, [2, 4, 6, 7, 9, 11, 13, 14, 16, 18, 20, 21, 23, 25, 27, 28]),
    (25, [2, 4, 6, 7, 9, 11, 13, 14, 16, 18, 19, 21, 23, 25, 26, 28]),
    (26, [2, 4, 6, 7, 9, 11, 12, 14, 16, 18, 19, 21, 23, 24, 26, 28]),
    (27, [2, 4, 6, 7, 9, 11, 12, 14, 16, 17, 19, 21, 22, 24, 26, 27]),
    (28, [2, 4, 5, 7, 9, 10, 12, 14, 15, 17, 19, 20, 22, 24, 25, 27]),
    (29, [2, 4, 5, 7, 9, 10, 12, 14, 15, 17, 19, 20, 22, 24, 25, 27]),
    (30, [2, 4, 5, 7, 9, 10, 12, 14, 15, 17, 18, 20, 22, 23, 25, 27]),
    (31, [2, 4, 5, 7, 9, 10, 12, 13, 15, 17, 18, 20, 21, 23, 25, 26]),
    (32, [2, 4, 5, 7, 8, 10, 12, 13, 15, 16, 18, 20, 21, 23, 24, 26]),
    (33, [2, 4, 5, 7, 8, 10, 12, 13, 15, 16, 18, 20, 21, 23, 24, 26]),
    (34, [2, 4, 5, 7, 8, 10, 12, 13, 15, 16, 18, 19, 21, 23, 24, 26]),
    (35, [2, 4, 5, 7, 8, 10, 11, 13, 15, 16, 18, 19, 21, 22, 24, 25]),
    (36, [2, 4, 5, 7, 8, 10, 11, 13, 14, 16, 18, 19, 21, 22, 24, 25]),
    (37, [2, 4, 5, 7, 8, 10, 11, 13, 14, 16, 17, 19, 20, 22, 24, 25]),
    (38, [2, 4, 5, 7, 8, 10, 11, 13, 14, 16, 17, 19, 20, 22, 23, 25]),
    (39, [2, 4, 5, 7, 8, 10, 11, 13, 14, 16, 17, 19, 20, 22, 23, 25]),
    (40, [2, 4, 5, 7, 8, 10, 11, 13, 14, 16, 17, 19, 20, 22, 23, 25]),
    (41, [2, 3, 5, 6, 8, 9, 11, 12, 14, 15, 17, 18, 20, 21, 23, 24]),
    (42, [2, 3, 5, 6, 8, 9, 11, 12, 14, 15, 17, 18, 20, 21, 23, 24]),
    (43, [2, 3, 5, 6, 8, 9, 11, 12, 14, 15, 17, 18, 20, 21, 23, 24]),
    (44, [2, 3, 5, 6, 8, 9, 11, 12, 14, 15, 17, 18, 20, 21, 22, 24]),
    (45, [2, 3, 5, 6, 8, 9, 11, 12, 14, 15, 17, 18, 19, 21, 22, 24]),
    (46, [2, 3, 5, 6, 8, 9, 11, 12, 14, 15, 16, 18, 19, 21, 22, 24]),
    (47, [2, 3, 5, 6, 8, 9, 11, 12, 13, 15, 16, 18, 19, 21, 22, 24]),
    (48, [2, 3, 5, 6, 8, 9, 11, 12, 13, 15, 16, 18, 19, 21, 22, 23]),
    (49, [2, 3, 5, 6, 8, 9, 10, 12, 13, 15, 16, 18, 19, 20, 22, 23]),
    (50, [2, 3, 5, 6, 8, 9, 10, 12, 13, 15, 16, 18, 19, 20, 22, 23]),
    (51, [2, 3, 5, 6, 8, 9, 10, 12, 13, 15, 16, 17, 19, 20, 22, 23]),
    (52, [2, 3, 5, 6, 8, 9, 10, 12, 13, 15, 16, 17, 19, 20, 22, 23]),
    (53, [2, 3, 5, 6, 7, 9, 10, 12, 13, 14, 16, 17, 19, 20, 21, 23]),
    (54, [2, 3, 5, 6, 7, 9, 10, 12, 13, 14, 16, 17, 19, 20, 21, 23]),
    (55, [2, 3, 5, 6, 7, 9, 10, 12, 13, 14, 16, 17, 18, 20, 21, 23]),
    (56, [2, 3, 5, 6, 7, 9, 10, 12, 13, 14, 16, 17, 18, 20, 21, 23]),
    (57, [2, 3, 5, 6, 7, 9, 10, 11, 13, 14, 16, 17, 18, 20, 21, 22]),
    (58, [2, 3, 5, 6, 7, 9, 10, 11, 13, 14, 16, 17, 18, 20, 21, 22]),
    (59, [2, 3, 5, 6, 7, 9, 10, 11, 13, 14, 15, 17, 18, 20, 21, 22]),
    (60, [2, 3, 5, 6, 7, 9, 10, 11, 13, 14, 15, 17, 18, 19, 21, 22]),
    (61, [2, 3, 5, 6, 7, 9, 10, 11, 13, 14, 15, 17, 18, 19, 21, 22]),
    (62, [2, 3, 5, 6, 7, 9, 10, 11, 13, 14, 15, 17, 18, 19, 21, 22]),
    (63, [2, 3, 5, 6, 7, 9, 10, 11, 13, 14, 15, 17, 18, 19, 21, 22]),
    (64, [2, 3, 4, 6, 7, 8, 10, 11, 12, 14, 15, 16, 18, 19, 20, 22]),
    (65, [2, 3, 4, 6, 7, 8, 10, 11, 12, 14, 15, 16, 18, 19, 20, 22]),
    (66, [2, 3, 4, 6, 7, 8, 10, 11, 12, 14, 15, 16, 18, 19, 20, 22]),
    (67, [2, 3, 4, 6, 7, 8, 10, 11, 12, 14, 15, 16, 18, 19, 20, 22]),
    (68, [2, 3, 4, 6, 7, 8, 10, 11, 12, 14, 15, 16, 18, 19, 20, 22]),
    (69, [2, 3, 4, 6, 7, 8, 10, 11, 12, 14, 15, 16, 18, 19, 20, 21]),
    (70, [2, 3, 4, 6, 7, 8, 10, 11, 12, 14, 15, 16, 17, 19, 20, 21]),
    (71, [2, 3, 4, 6, 7, 8, 10, 11, 12, 14, 15, 16, 17, 19, 20, 21]),
    (72, [2, 3, 4, 6, 7, 8, 10, 11, 12, 13, 15, 16, 17, 19, 20, 21]),
    (73, [2, 3, 4, 6, 7, 8, 10, 11, 12, 13, 15, 16, 17, 19, 20, 21]),
    (74, [2, 3, 4, 6, 7, 8, 10, 11, 12, 13, 15, 16, 17, 19, 20, 21]),
    (75, [2, 3, 4, 6, 7, 8, 9, 11, 12, 13, 15, 16, 17, 18, 20, 21]),
    (76, [2, 3, 4, 6, 7, 8, 9, 11, 12, 13, 15, 16, 17, 18, 20, 21]),
    (77, [2, 3, 4, 6, 7, 8, 9, 11, 12, 13, 15, 16, 17, 18, 20, 21]),
    (78, [2, 3, 4, 6, 7, 8, 9, 11, 12, 13, 14, 16, 17, 18, 20, 21]),
    (79, [2, 3, 4, 6, 7, 8, 9, 11, 12, 13, 14, 16, 17, 18, 20, 21]),
    (80, [2, 3, 4, 6, 7, 8, 9, 11, 12, 13, 14, 16, 17, 18, 19, 21]),
    (81, [2, 3, 4, 6, 7, 8, 9, 11, 12, 13, 14, 16, 17, 18, 19, 21]),
    (82, [2, 3, 4, 6, 7, 8, 9, 11, 12, 13, 14, 16, 17, 18, 19, 21]),
    (83, [2, 3, 4, 6, 7, 8, 9, 11, 12, 13, 14, 16, 17, 18, 19, 21]),
    (84, [2, 3, 4, 6, 7, 8, 9, 11, 12, 13, 14, 16, 17, 18, 19, 21]),
    (85, [2, 3, 4, 5, 7, 8, 9, 10, 12, 13, 14, 15, 17, 18, 19, 20]),
    (86, [2, 3, 4, 5, 7, 8, 9, 10, 12, 13, 14, 15, 17, 18, 19, 20]),
    (87, [2, 3, 4, 5, 7, 8, 9, 10, 12, 13, 14, 15, 17, 18, 19, 20]),
    (88, [2, 3, 4, 5, 7, 8, 9, 10, 12, 13, 14, 15, 17, 18, 19, 20]),
    (89, [2, 3, 4, 5, 7, 8, 9, 10, 12, 13, 14, 15, 17, 18, 19, 20]),
    (90, [2, 3, 4, 5, 7, 8, 9, 10, 12, 13, 14, 15, 17, 18, 19, 20]),
    (91, [2, 3, 4, 5, 7, 8, 9, 10, 12, 13, 14, 15, 16, 18, 19, 20]),
    (92, [2, 3, 4, 5, 7, 8, 9, 10, 12, 13, 14, 15, 16, 18, 19, 20]),
    (93, [2, 3, 4, 5, 7, 8, 9, 10, 12, 13, 14, 15, 16, 18, 19, 20]),
    (94, [2, 3, 4, 5, 7, 8, 9, 10, 11, 13, 14, 15, 16, 18, 19, 20]),
    (95, [2, 3, 4, 5, 7, 8, 9, 10, 11, 13, 14, 15, 16, 18, 19, 20]),
    (96, [2, 3, 4, 5, 7, 8, 9, 10, 11, 13, 14, 15, 16, 18, 19, 20]),
    (97, [2, 3, 4, 5, 7, 8, 9, 10, 11, 13, 14, 15, 16, 17, 19, 20]),
    (98, [2, 3, 4, 5, 7, 8, 9, 10, 11, 13, 14, 15, 16, 17, 19, 20]),
    (99, [2, 3, 4, 5, 7, 8, 9, 10, 11, 13, 14, 15, 16, 17, 19, 20]),
    (100, [2, 3, 4, 5, 7, 8, 9, 10, 11, 13, 14, 15, 16, 17, 19, 20]),
    (101, [2, 3, 4, 5, 7, 8, 9, 10, 11, 13, 14, 15, 16, 17, 19, 20]),
    (102, [2, 3, 4, 5, 6, 8, 9, 10, 11, 12, 14, 15, 16, 17, 18, 20]),
    (103, [2, 3, 4, 5, 6, 8, 9, 10, 11, 12, 14, 15, 16, 17, 18, 20]),
    (104, [2, 3, 4, 5, 6, 8, 9, 10, 11, 12, 14, 15, 16, 17, 18, 20]),
    (105, [2, 3, 4, 5, 6, 8, 9, 10, 11, 12, 14, 15, 16, 17, 18, 20]),
    (106, [2, 3, 4, 5, 6, 8, 9, 10, 11, 12, 14, 15, 16, 17, 18, 20]),
    (107, [2, 3, 4, 5, 6, 8, 9, 10, 11, 12, 14, 15, 16, 17, 18, 19]),
    (108, [2, 3, 4, 5, 6, 8, 9, 10, 11, 12, 14, 15, 16, 17, 18, 19]),
    (109, [2, 3, 4, 5, 6, 8, 9, 10, 11, 12, 14, 15, 16, 17, 18, 19]),
    (110, [2, 3, 4, 5, 6, 8, 9, 10, 11, 12, 13, 15, 16, 17, 18, 19]),
    (111, [2, 3, 4, 5, 6, 8, 9, 10, 11, 12, 13, 15, 16, 17, 18, 19]),
    (112, [2, 3, 4, 5, 6, 8, 9, 10, 11, 12, 13, 15, 16, 17, 18, 19]),
    (113, [2, 3, 4, 5, 6, 8, 9, 10, 11, 12, 13, 15, 16, 17, 18, 19])]"

definition c_num_digits :: "u16 \<Rightarrow> u64 \<Rightarrow> u16 res" where
  "c_num_digits base pos =
     (case map_of NDIGITS_BASE (unat base) of
        Some arr \<Rightarrow> if unat pos < length arr then Inr (of_nat (arr ! unat pos)) else Inl OutOfBounds
      | None \<Rightarrow> Inr 0)"

datatype table_ptr = NULL | BASE_POS nat nat

text \<open>The array \<open>BASEb\<close> of the 16 table addresses of base \<open>b\<close>.\<close>

definition BASE_array :: "nat \<Rightarrow> table_ptr list" where
  "BASE_array b = map (BASE_POS b) [0..<16]"

definition c_get_table :: "u16 \<Rightarrow> u64 \<Rightarrow> table_ptr res" where
  "c_get_table base pos =
     (if 5 \<le> unat base \<and> unat base \<le> 113
      then (if unat pos < length (BASE_array (unat base))
            then Inr (BASE_array (unat base) ! unat pos) else Inl OutOfBounds)
      else Inr NULL)"

text \<open>The read-only data: the 256 rows of each table, laid out one after the other.\<close>

type_synonym rom = "nat \<Rightarrow> nat \<Rightarrow> int list list"

definition table_memory :: "rom \<Rightarrow> nat \<Rightarrow> nat \<Rightarrow> u16 list" where
  "table_memory rom b p = concat (map (map of_int) (rom b p))"

subsection \<open>The Rust side\<close>

text \<open>
  The foreign declaration gives \<open>c_num_digits\<close> the return type \<open>usize\<close> where the C function
  returns \<open>uint16_t\<close>; the model takes the zero-extended value.
\<close>

definition lookup_digits_mod_at_position :: "rom \<Rightarrow> u8 \<Rightarrow> u16 \<Rightarrow> nat \<Rightarrow> u16 list res" where
  "lookup_digits_mod_at_position rom x q pos =
     res_bind (c_get_table q (of_nat pos)) (\<lambda>tab.
     res_bind (c_num_digits q (of_nat pos)) (\<lambda>n.
       let len = unat n in
       case tab of
         NULL \<Rightarrow> Inl OutOfBounds
       | BASE_POS b p \<Rightarrow>
           let mem = table_memory rom b p; off = len * unat x in
           if off + len \<le> length mem then Inr (take len (drop off mem)) else Inl OutOfBounds))"

definition lookup_defined_for_mod :: "u16 \<Rightarrow> bool res" where
  "lookup_defined_for_mod q = res_bind (c_num_digits q 0) (\<lambda>n. Inr (0 < unat n))"

subsection \<open>The digit counts\<close>

definition ndigits :: "nat \<Rightarrow> nat \<Rightarrow> nat" where
  "ndigits q p = the (map_of NDIGITS_BASE q) ! p"

text \<open>
  Every entry is the number of base-\<open>q\<close> digits of the largest value a row can hold,
  \<open>255 * 256 ^ p\<close>.
\<close>

fun advance :: "int \<Rightarrow> int \<Rightarrow> nat \<Rightarrow> int \<Rightarrow> int \<Rightarrow> int \<times> int" where
  "advance q w 0 n P = (n, P)"
| "advance q w (Suc k) n P = (if P \<le> w then advance q w k (n + 1) (P * q) else (n, P))"

fun count_check :: "int \<Rightarrow> int \<Rightarrow> int \<Rightarrow> int \<Rightarrow> nat list \<Rightarrow> bool" where
  "count_check q w n P [] = True"
| "count_check q w n P (m # ms) =
     (case advance q w 4 n P of (n', P') \<Rightarrow>
        int m = n' \<and> w < P' \<and> count_check q (256 * w) n' P' ms)"

lemma NDIGITS_keys: "map fst NDIGITS_BASE = [5..<114]"
  by code_simp

lemma NDIGITS_lengths: "list_all (\<lambda>(q, arr). length arr = 16) NDIGITS_BASE"
  by code_simp

lemma NDIGITS_counts: "list_all (\<lambda>(q, arr). count_check (int q) 255 1 (int q) arr) NDIGITS_BASE"
  by code_simp

lemma advance_sound:
  assumes "advance q w k n P = (n', P')" and "P = q ^ nat n" and "1 \<le> n" and "q ^ (nat n - 1) \<le> w"
  shows "P' = q ^ nat n' \<and> n \<le> n' \<and> q ^ (nat n' - 1) \<le> w"
  using assms
proof (induction q w k n P rule: advance.induct)
  case (2 q w k n P)
  show ?case
  proof (cases "P \<le> w")
    case True
    have s: "nat (n + 1) = Suc (nat n)" using "2.prems"(3) by simp
    have "P' = q ^ nat n' \<and> n + 1 \<le> n' \<and> q ^ (nat n' - 1) \<le> w"
      using "2.prems" True by (intro "2.IH") (simp_all add: s)
    then show ?thesis by simp
  next
    case False
    with "2.prems" show ?thesis by auto
  qed
qed simp

lemma count_check_sound:
  assumes "count_check q w n P ms" and "P = q ^ nat n" and "1 \<le> n" and "q ^ (nat n - 1) \<le> w" and "0 \<le> w"
  shows "(\<forall>p<length ms. n \<le> int (ms ! p) \<and> q ^ (ms ! p - 1) \<le> w * 256 ^ p \<and> w * 256 ^ p < q ^ (ms ! p)) \<and>
     sorted ms"
  using assms
proof (induction q w n P ms rule: count_check.induct)
  case (2 q w n P m ms)
  obtain n' P' where a: "advance q w 4 n P = (n', P')" by fastforce
  with "2.prems" have m: "int m = n'" "w < P'" "count_check q (256 * w) n' P' ms" by auto
  have m': "P' = q ^ nat n'" "n \<le> n'" "q ^ (nat n' - 1) \<le> w" "nat n' = m"
    using advance_sound [OF a] "2.prems" m(1) by auto
  have w: "w \<le> 256 * w" using "2.prems" by simp
  have IH: "(\<forall>p<length ms. n' \<le> int (ms ! p) \<and> q ^ (ms ! p - 1) \<le> 256 * w * 256 ^ p \<and>
      256 * w * 256 ^ p < q ^ (ms ! p)) \<and> sorted ms"
    using "2.IH" [OF a [symmetric] m(3)] m' "2.prems" w by fastforce
  have "n \<le> int ((m # ms) ! p) \<and> q ^ ((m # ms) ! p - 1) \<le> w * 256 ^ p \<and> w * 256 ^ p < q ^ ((m # ms) ! p)"
    if "p < length (m # ms)" for p
    using IH that m m' by (cases p) (auto simp: ac_simps)
  moreover have "m \<le> x" if "x \<in> set ms" for x
    using IH that m(1) by (auto simp: in_set_conv_nth)
  ultimately show ?case using IH by auto
qed simp_all

text \<open>Base \<open>q\<close> has entries exactly for \<open>5 \<le> q \<le> 113\<close>.\<close>

lemma NDIGITS_lookup:
  "map_of NDIGITS_BASE q = (if 5 \<le> q \<and> q \<le> 113 then Some (the (map_of NDIGITS_BASE q)) else None)"
proof -
  have "fst ` set NDIGITS_BASE = {5..<114}"
    using arg_cong [OF NDIGITS_keys, of set] by (simp only: set_map set_upt)
  then have "map_of NDIGITS_BASE q = None \<longleftrightarrow> \<not> (5 \<le> q \<and> q \<le> 113)"
    by (auto simp: map_of_eq_None_iff)
  then show ?thesis by (cases "map_of NDIGITS_BASE q") auto
qed

lemma NDIGITS_entry:
  assumes "5 \<le> q" and "q \<le> 113"
  shows "length (the (map_of NDIGITS_BASE q)) = 16"
    and "p < 16 \<Longrightarrow> 1 \<le> ndigits q p"
    and "p < 16 \<Longrightarrow> q ^ (ndigits q p - 1) \<le> 255 * 256 ^ p"
    and "p < 16 \<Longrightarrow> 255 * 256 ^ p < q ^ ndigits q p"
    and "p \<le> p' \<Longrightarrow> p' < 16 \<Longrightarrow> ndigits q p \<le> ndigits q p'"
proof -
  obtain arr where arr: "map_of NDIGITS_BASE q = Some arr"
    using NDIGITS_lookup [of q] assms by simp
  then have mem: "(q, arr) \<in> set NDIGITS_BASE" by (rule map_of_SomeD)
  have len: "length arr = 16" using NDIGITS_lengths mem by (auto simp: list_all_iff)
  have "count_check (int q) 255 1 (int q) arr" using NDIGITS_counts mem by (auto simp: list_all_iff)
  then have chk: "(\<forall>p<length arr. 1 \<le> int (arr ! p) \<and> int q ^ (arr ! p - 1) \<le> 255 * 256 ^ p \<and>
      255 * 256 ^ p < int q ^ (arr ! p)) \<and> sorted arr"
    by (rule count_check_sound) simp_all
  show "length (the (map_of NDIGITS_BASE q)) = 16" using arr len by simp
  have nd: "ndigits q p = arr ! p" for p by (simp add: ndigits_def arr)
  show "p \<le> p' \<Longrightarrow> p' < 16 \<Longrightarrow> ndigits q p \<le> ndigits q p'"
    using chk len by (simp add: nd sorted_nth_mono)
  assume p: "p < 16"
  with chk len have c: "1 \<le> int (arr ! p)" "int q ^ (arr ! p - 1) \<le> 255 * 256 ^ p" "255 * 256 ^ p < int q ^ (arr ! p)"
    by auto
  from c(1) show "1 \<le> ndigits q p" by (simp add: nd)
  from c(2) have "int (q ^ (arr ! p - 1)) \<le> int (255 * 256 ^ p)" by simp
  then show "q ^ (ndigits q p - 1) \<le> 255 * 256 ^ p" unfolding nd by (simp only: of_nat_le_iff)
  from c(3) have "int (255 * 256 ^ p) < int (q ^ (arr ! p))" by simp
  then show "255 * 256 ^ p < q ^ ndigits q p" unfolding nd by (simp only: of_nat_less_iff)
qed

lemma c_num_digits_eq:
  assumes "p < 16"
  shows "c_num_digits q (of_nat p) =
     Inr (if 5 \<le> unat q \<and> unat q \<le> 113 then of_nat (ndigits (unat q) p) else 0)"
proof -
  have "unat (of_nat p :: u64) = p" using assms by (simp add: unat_of_nat)
  then show ?thesis
    using NDIGITS_entry(1) [of "unat q"] assms
    by (subst c_num_digits_def, subst NDIGITS_lookup) (simp add: ndigits_def)
qed

lemma ndigits_less_60:
  assumes "5 \<le> q" and "q \<le> 113" and "p < 16"
  shows "ndigits q p < 60"
proof (rule ccontr)
  assume "\<not> ndigits q p < 60"
  then have "(5 :: nat) ^ 59 \<le> 5 ^ (ndigits q p - 1)" by (intro power_increasing) auto
  also have "\<dots> \<le> q ^ (ndigits q p - 1)" using assms(1) by (rule power_mono) simp
  also have "\<dots> \<le> 255 * 256 ^ p" by (rule NDIGITS_entry(3) [OF assms])
  also have "\<dots> \<le> 255 * 256 ^ 15"
    by (rule mult_le_mono2, rule power_increasing) (use assms(3) in simp_all)
  finally show False by simp
qed

subsection \<open>Reading a row\<close>

lemma nth_row_concat:
  "(\<And>r. r \<in> set rows \<Longrightarrow> length r = n) \<Longrightarrow> x < length rows \<Longrightarrow>
   take n (drop (n * x) (concat rows)) = rows ! x \<and> n * x + n \<le> length (concat rows)"
proof (induction rows arbitrary: x)
  case (Cons r rows)
  show ?case
  proof (cases x)
    case (Suc y)
    with Cons.IH [of y] Cons.prems show ?thesis by simp
  qed (use Cons.prems in simp)
qed simp

text \<open>A table of base \<open>q\<close> at position \<open>p\<close>: row \<open>x\<close> of its 256 rows holds the digits of \<open>x * 256 ^ p\<close>.\<close>

definition table_ok :: "nat \<Rightarrow> nat \<Rightarrow> int list list \<Rightarrow> bool" where
  "table_ok q p T \<longleftrightarrow> holds_rows q (ndigits q p) (256 ^ p) T"

lemma table_ok_iff:
  "table_ok q p T \<longleftrightarrow> length T = 256 \<and> (\<forall>x<256. T ! x = map int (digits q (ndigits q p) (x * 256 ^ p)))"
  by (simp add: table_ok_def holds_rows_iff)

lemma table_memory_row:
  assumes ok: "table_ok q p (rom q p)" and x: "x < 256"
  defines "n \<equiv> ndigits q p"
  shows "n * x + n \<le> length (table_memory rom q p) \<and>
     take n (drop (n * x) (table_memory rom q p)) = map of_nat (digits q n (x * 256 ^ p))"
proof -
  let ?T = "rom q p"
  let ?rows = "map (map of_int) ?T :: u16 list list"
  have T: "length ?T = 256" "\<forall>x<256. ?T ! x = map int (digits q n (x * 256 ^ p))"
    using ok by (simp_all add: table_ok_iff n_def)
  have "length r = n" if "r \<in> set ?rows" for r
    using that T by (auto simp: in_set_conv_nth)
  from nth_row_concat [of ?rows, OF this, of x] x T
  show ?thesis by (simp add: table_memory_def comp_def)
qed

lemma lookup_digits_ok:
  assumes ok: "table_ok (unat q) p (rom (unat q) p)"
    and q: "5 \<le> unat q" "unat q \<le> 113" and p: "p < 16"
  shows "lookup_digits_mod_at_position rom x q p =
     Inr (map of_nat (digits (unat q) (ndigits (unat q) p) (unat x * 256 ^ p)))"
proof -
  have up: "unat (of_nat p :: u64) = p" using p by (simp add: unat_of_nat)
  have un: "unat (of_nat (ndigits (unat q) p) :: u16) = ndigits (unat q) p"
    using ndigits_less_60 [OF q p] by (simp add: unat_of_nat)
  have tab: "c_get_table q (of_nat p) = Inr (BASE_POS (unat q) p)"
    using q p by (simp add: c_get_table_def BASE_array_def up)
  have "unat x < 256" using unsigned_less [of x, where ?'a = nat] by simp
  from table_memory_row [where rom = rom, OF ok this] q show ?thesis
    by (simp add: lookup_digits_mod_at_position_def tab c_num_digits_eq [OF p] un)
qed

text \<open>
  The digit counts of all 109 bases: entry \<open>pos\<close> of base \<open>q\<close> is exactly the number of
  base-\<open>q\<close> digits of the largest row value \<open>255 * 256 ^ pos\<close>, the last position has the
  longest rows, and \<open>lookup_defined_for_mod\<close> holds exactly for \<open>5, \<dots>, 113\<close>.
\<close>

theorem num_digits_exact:
  "lookup_defined_for_mod q = Inr (5 \<le> unat q \<and> unat q \<le> 113) \<and>
   (5 \<le> unat q \<and> unat q \<le> 113 \<and> pos < 16 \<longrightarrow>
     (\<exists>n m. c_num_digits q (of_nat pos) = Inr n \<and> c_num_digits q 15 = Inr m \<and> n \<le> m \<and>
        0 < unat n \<and> unat q ^ (unat n - 1) \<le> 255 * 256 ^ pos \<and> 255 * 256 ^ pos < unat q ^ unat n))"
proof -
  have def: "lookup_defined_for_mod q = Inr (5 \<le> unat q \<and> unat q \<le> 113)"
    using c_num_digits_eq [of 0 q] NDIGITS_entry(2) [of "unat q" 0] ndigits_less_60 [of "unat q" 0]
    by (auto simp: lookup_defined_for_mod_def unat_of_nat)
  have "\<exists>n m. c_num_digits q (of_nat pos) = Inr n \<and> c_num_digits q 15 = Inr m \<and> n \<le> m \<and>
      0 < unat n \<and> unat q ^ (unat n - 1) \<le> 255 * 256 ^ pos \<and> 255 * 256 ^ pos < unat q ^ unat n"
    if q: "5 \<le> unat q" "unat q \<le> 113" and p: "pos < 16"
  proof -
    let ?n = "ndigits (unat q) pos" and ?m = "ndigits (unat q) 15"
    have u: "unat (of_nat ?n :: u16) = ?n" "unat (of_nat ?m :: u16) = ?m"
      using ndigits_less_60 [OF q p] ndigits_less_60 [OF q, of 15] by (simp_all add: unat_of_nat)
    have "?n \<le> ?m" using NDIGITS_entry(5) [OF q, of pos 15] p by simp
    then have "(of_nat ?n :: u16) \<le> of_nat ?m" by (simp add: word_le_nat_alt u)
    moreover have "c_num_digits q 15 = Inr (of_nat ?m)" using c_num_digits_eq [of 15 q] q by simp
    ultimately show ?thesis
      using c_num_digits_eq [OF p, of q] NDIGITS_entry(2-4) [OF q p] q u by auto
  qed
  with def show ?thesis by blast
qed

theorem num_digits_exact_witness:
  "\<exists>n m. c_num_digits 97 7 = Inr n \<and> c_num_digits 97 15 = Inr m \<and> n \<le> m \<and>
     0 < unat n \<and> 97 ^ (unat n - 1) \<le> (255 * 256 ^ 7 :: nat) \<and> 255 * 256 ^ 7 < (97 :: nat) ^ unat n"
  using num_digits_exact [of 97 7] by simp

end
