(* ===== verification/Radix.thy ===== *)
theory Radix
  imports Digits
begin

text \<open>
  The mixed-radix and bit conversions of \<open>fancy-garbling/src/util.rs\<close>. \<open>u128\<close> and \<open>u16\<close>
  values are words; additions, subtractions and products are checked, as under the workspace's
  dev and test profiles, and \<open>debug_assert!\<close> is live.
\<close>

subsection \<open>Addition of base-q digits\<close>

text \<open>The second \<open>while\<close>: the carry runs into the digits that \<open>ys\<close> does not have.\<close>

fun carry_digits :: "u16 \<Rightarrow> u16 \<Rightarrow> u16 list \<Rightarrow> u16 list res" where
  "carry_digits q c [] = Inr []"
| "carry_digits q c (x # xs) =
     res_bind (checked_add x c) (\<lambda>s.
       if q \<le> s then res_bind (carry_digits q c xs) (\<lambda>r. Inr ((s - q) # r))
       else Inr (s # xs))"

text \<open>The first \<open>while\<close>, over the digits of \<open>ys\<close>.\<close>

fun add_digits :: "u16 \<Rightarrow> u16 \<Rightarrow> u16 list \<Rightarrow> u16 list \<Rightarrow> u16 list res" where
  "add_digits q c xs [] = carry_digits q c xs"
| "add_digits q c [] (y # ys) = Inl Panic"
| "add_digits q c (x # xs) (y # ys) =
     res_bind (checked_add y c) (\<lambda>t.
     res_bind (checked_add x t) (\<lambda>s.
       let c = of_bool (q \<le> s) in
       res_bind (checked_mul c q) (\<lambda>m.
       res_bind (checked_sub s m) (\<lambda>d.
       res_bind (add_digits q c xs ys) (\<lambda>r. Inr (d # r))))))"

definition base_q_add_eq :: "u16 list \<Rightarrow> u16 list \<Rightarrow> u16 \<Rightarrow> u16 list res" where
  "base_q_add_eq xs ys q =
     (if length ys \<le> length xs then add_digits q 0 xs ys else Inl Assertion)"

subsection \<open>Mixed radix\<close>

fun as_mixed_radix :: "u128 \<Rightarrow> u16 list \<Rightarrow> u16 list res" where
  "as_mixed_radix x [] = Inr []"
| "as_mixed_radix x (m # ms) =
     (if ucast m \<le> x
      then (if m = 0 then Inl Panic
            else (let d = x mod ucast m in
                  res_bind (as_mixed_radix ((x - d) div ucast m) ms) (\<lambda>r. Inr (ucast d # r))))
      else res_bind (as_mixed_radix 0 ms) (\<lambda>r. Inr (ucast x # r)))"

definition as_base_q :: "u128 \<Rightarrow> u16 \<Rightarrow> nat \<Rightarrow> u16 list res" where
  "as_base_q x q n = as_mixed_radix x (replicate n q)"

text \<open>
  How many digits fit. The last branch computes in \<open>f64\<close>: the logarithm of a 16-bit integer is
  at least \<open>2e-5\<close> away from the next integer unless it is one, so its ceiling is the exact one.
\<close>

definition ceil_log2 :: "nat \<Rightarrow> nat" where
  "ceil_log2 m =
     (if m \<le> 1024 then 10 else if m \<le> 2048 then 11 else if m \<le> 4096 then 12 else
      if m \<le> 8192 then 13 else if m \<le> 16384 then 14 else if m \<le> 32768 then 15 else 16)"

definition digits_per_u128 :: "u16 \<Rightarrow> nat res" where
  "digits_per_u128 modulus =
     (if modulus = 0 then Inl Assertion
      else if modulus = 1 then Inl Assertion
      else if modulus = 2 then Inr 128
      else if modulus \<le> 4 then Inr 64
      else if modulus \<le> 8 then Inr 42
      else if modulus \<le> 16 then Inr 32
      else if modulus \<le> 32 then Inr 25
      else if modulus \<le> 64 then Inr 21
      else if modulus \<le> 128 then Inr 18
      else if modulus \<le> 256 then Inr 16
      else if modulus \<le> 512 then Inr 14
      else Inr (128 div ceil_log2 (unat modulus)))"

definition as_base_q_u128 :: "u128 \<Rightarrow> u16 \<Rightarrow> u16 list res" where
  "as_base_q_u128 x q = res_bind (digits_per_u128 q) (\<lambda>n. as_base_q x q n)"

text \<open>One step of the two reading loops: multiply without overflow, then add.\<close>

definition mul_add :: "u128 \<Rightarrow> u16 \<Rightarrow> u16 \<Rightarrow> u128 res" where
  "mul_add x q d =
     (if unat x * unat q < 2 ^ 128 then checked_add (x * ucast q) (ucast d) else Inl Assertion)"

definition from_base_q :: "u16 list \<Rightarrow> u16 \<Rightarrow> u128 res" where
  "from_base_q ds q = foldM_res (\<lambda>x d. mul_add x q d) 0 (rev ds)"

definition from_mixed_radix :: "u16 list \<Rightarrow> u16 list \<Rightarrow> u128 res" where
  "from_mixed_radix ds radii =
     foldM_res (\<lambda>x (d, q). mul_add x q d) 0 (rev (zip ds radii))"

subsection \<open>Bits\<close>

fun u128_to_bits :: "u128 \<Rightarrow> nat \<Rightarrow> u16 list" where
  "u128_to_bits y 0 = []"
| "u128_to_bits y (Suc n) = (let b = y AND 1 in ucast b # u128_to_bits ((y - b) div 2) n)"

definition u128_from_bits :: "u16 list \<Rightarrow> u128 res" where
  "u128_from_bits bs =
     res_bind (foldM_res (\<lambda>x b. res_bind (checked_add x (ucast b)) (\<lambda>x. checked_mul x 2)) 0 (rev (drop 1 bs)))
       (\<lambda>x. case bs of [] \<Rightarrow> Inl Panic | b # _ \<Rightarrow> checked_add x (ucast b))"


subsection \<open>Addition is addition\<close>

lemma digits_cons: "x = r + q * y \<Longrightarrow> r < q \<Longrightarrow> digits q (length (a # as)) x = r # digits q (length as) y"
  by simp

lemma of_nat_u16_less: "n < q \<Longrightarrow> q < 65536 \<Longrightarrow> unat (of_nat n :: u16) = n"
  by (simp add: unat_of_nat)

lemma carry_digits_zero: "is_digits q as \<Longrightarrow> q \<le> 65535 \<Longrightarrow>
   carry_digits (of_nat q) 0 (map of_nat as) = Inr (map of_nat as)"
proof (cases as)
  case (Cons a as')
  assume "is_digits q as" "q \<le> 65535"
  with Cons have a: "a < q" "q \<le> 65535" by auto
  then have "\<not> (of_nat q :: u16) \<le> of_nat a" by (simp add: of_nat_le_iff_small)
  with Cons a show ?thesis by (simp add: checked_add_def unat_of_nat)
qed simp

lemma carry_digits_correct:
  "is_digits q as \<Longrightarrow> 2 \<le> q \<Longrightarrow> q \<le> 65535 \<Longrightarrow> c \<le> 1 \<Longrightarrow>
   carry_digits (of_nat q) (of_nat c) (map of_nat as) =
     Inr (map of_nat (digits q (length as) (dval q as + c)))"
proof (induction as arbitrary: c)
  case (Cons a as)
  then have a: "a < q" "is_digits q as" by auto
  have s: "checked_add (of_nat a :: u16) (of_nat c) = Inr (of_nat (a + c))"
    using a(1) Cons.prems by (intro checked_add_of_nat) simp
  show ?case
  proof (cases "q \<le> a + c")
    case True
    with a(1) Cons.prems(4) have ac: "a + c = q" "c = 1" by auto
    have le: "(of_nat q :: u16) \<le> of_nat (a + c)" by (simp add: ac(1))
    have "carry_digits (of_nat q) (of_nat c) (map of_nat as) =
        Inr (map of_nat (digits q (length as) (dval q as + 1)))"
      using Cons.IH [of c] Cons.prems a ac(2) by simp
    moreover have "dval q (a # as) + c = q * (dval q as + 1)" using ac(1) by simp
    then have "digits q (length (a # as)) (dval q (a # as) + c) = 0 # digits q (length as) (dval q as + 1)"
      using Cons.prems(2) by (simp only: list.size add_0_right add_Suc_right digits.simps) simp
    ultimately show ?thesis
      by (simp del: of_nat_add digits.simps dval.simps add: s le) (simp add: ac(1))
  next
    case False
    then have nle: "\<not> (of_nat q :: u16) \<le> of_nat (a + c)"
      using Cons.prems by (subst of_nat_le_iff_small) auto
    have "digits q (length (a # as)) (dval q (a # as) + c) = (a + c) # digits q (length as) (dval q as)"
      by (rule digits_cons) (use False in simp_all)
    also have "digits q (length as) (dval q as) = as" by (rule digits_dval) (fact a(2))
    finally have "digits q (length (a # as)) (dval q (a # as) + c) = (a + c) # as" .
    then show ?thesis by (simp del: of_nat_add digits.simps add: s nle)
  qed
qed simp

lemma add_digits_correct:
  "is_digits q as \<Longrightarrow> is_digits q bs \<Longrightarrow> length bs \<le> length as \<Longrightarrow> 2 \<le> q \<Longrightarrow> 2 * q \<le> 65536 \<Longrightarrow> c \<le> 1 \<Longrightarrow>
   add_digits (of_nat q) (of_nat c) (map of_nat as) (map of_nat bs) =
     Inr (map of_nat (digits q (length as) (dval q as + dval q bs + c)))"
proof (induction bs arbitrary: as c)
  case Nil
  then show ?case by (simp add: carry_digits_correct)
next
  case (Cons b bs)
  then obtain a as' where as: "as = a # as'" by (cases as) auto
  with Cons.prems have ab: "a < q" "b < q" "is_digits q as'" "is_digits q bs" "length bs \<le> length as'"
    by auto
  let ?k = "of_bool (q \<le> a + b + c) :: nat"
  have t: "checked_add (of_nat b :: u16) (of_nat c) = Inr (of_nat (b + c))"
    using ab Cons.prems by (intro checked_add_of_nat) simp
  have s: "checked_add (of_nat a :: u16) (of_nat (b + c)) = Inr (of_nat (a + (b + c)))"
    using ab Cons.prems by (intro checked_add_of_nat) simp
  have "q < 2 ^ 16 \<and> a + (b + c) < 2 ^ 16" using ab(1,2) Cons.prems(5,6) by simp
  then have le: "(of_nat q :: u16) \<le> of_nat (a + (b + c)) \<longleftrightarrow> q \<le> a + b + c"
    using of_nat_le_iff_small [where ?'a = 16, of q "a + (b + c)"] by (simp del: of_nat_add add: add.assoc)
  have m: "checked_mul (of_nat ?k :: u16) (of_nat q) = Inr (of_nat (?k * q))"
    using Cons.prems by (intro checked_mul_of_nat) auto
  have d: "checked_sub (of_nat (a + (b + c)) :: u16) (of_nat (?k * q)) = Inr (of_nat (a + (b + c) - ?k * q))"
    using ab Cons.prems by (intro checked_sub_of_nat) auto
  have IH: "add_digits (of_nat q) (of_nat ?k) (map of_nat as') (map of_nat bs) =
      Inr (map of_nat (digits q (length as') (dval q as' + dval q bs + ?k)))"
    using Cons.IH [OF ab(3-5) Cons.prems(4,5), of ?k] by simp
  have sum: "dval q as + dval q (b # bs) + c =
      (a + (b + c) - ?k * q) + q * (dval q as' + dval q bs + ?k)"
    by (simp add: as algebra_simps)
  have lt: "a + (b + c) - ?k * q < q" using ab Cons.prems(6) by auto
  have "digits q (length as) (dval q as + dval q (b # bs) + c) =
      (a + (b + c) - ?k * q) # digits q (length as') (dval q as' + dval q bs + ?k)"
    unfolding sum unfolding as by (rule digits_cons [OF refl lt])
  moreover have "(of_bool ((of_nat q :: u16) \<le> of_nat (a + (b + c))) :: u16) = of_nat ?k"
    unfolding le by simp
  ultimately show ?case
    unfolding as list.map add_digits.simps t res_bind.simps s Let_def
    by (simp del: of_nat_add of_nat_mult of_nat_of_bool digits.simps dval.simps add: m d IH as)
qed

lemma base_q_add_eq_digits:
  assumes "is_digits q as" and "is_digits q bs" and "length bs \<le> length as" and "2 \<le> q" and "2 * q \<le> 65536"
  shows "base_q_add_eq (map of_nat as) (map of_nat bs) (of_nat q) =
     Inr (map of_nat (digits q (length as) (dval q as + dval q bs)))"
  using add_digits_correct [OF assms, of 0] assms(3) by (simp add: base_q_add_eq_def)


subsection \<open>Mixed radix conversions\<close>

fun mdigits :: "nat list \<Rightarrow> nat \<Rightarrow> nat list" where
  "mdigits [] x = []"
| "mdigits (m # ms) x = x mod m # mdigits ms (x div m)"

fun mval :: "(nat \<times> nat) list \<Rightarrow> nat" where
  "mval [] = 0"
| "mval ((d, m) # ps) = d + m * mval ps"

lemma length_mdigits [simp]: "length (mdigits ms x) = length ms"
  by (induction ms arbitrary: x) auto

lemma mdigits_less: "0 \<notin> set ms \<Longrightarrow> list_all2 (<) (mdigits ms x) ms"
  by (induction ms arbitrary: x) auto

lemma mdigits_replicate: "mdigits (replicate n q) x = digits q n x"
  by (induction n arbitrary: x) auto

lemma mval_mdigits: "0 \<notin> set ms \<Longrightarrow> mval (zip (mdigits ms x) ms) = x mod prod_list ms"
  by (induction ms arbitrary: x) (auto simp: mod_mult2_eq)

lemma mdigits_mval: "list_all2 (<) ds ms \<Longrightarrow> mdigits ms (mval (zip ds ms)) = ds"
  by (induction ds ms rule: list_all2_induct) auto

lemma mval_less: "list_all2 (<) ds ms \<Longrightarrow> mval (zip ds ms) < prod_list ms"
proof (induction ds ms rule: list_all2_induct)
  case (Cons d ds m ms)
  then have "m * Suc (mval (zip ds ms)) \<le> m * prod_list ms" by (intro mult_le_mono2) simp
  with Cons.hyps show ?case by simp
qed simp

lemma unat_u16_u128 [simp]: "unat (ucast (x :: u16) :: u128) = unat x"
  using unsigned_less [of x, where ?'a = nat] by (simp add: unsigned_ucast_eq take_bit_nat_eq_self_iff)

lemma ucast_u128_u16: "(ucast (x :: u128) :: u16) = of_nat (unat x)"
  by simp

lemma ucast_of_nat_u16_u128: "d < 65536 \<Longrightarrow> (ucast (of_nat d :: u16) :: u128) = of_nat d"
  by (simp add: word_unat_eq_iff unat_of_nat)

lemma as_mixed_radix_digits:
  "0 \<notin> set ms \<Longrightarrow> as_mixed_radix x ms = Inr (map of_nat (mdigits (map unat ms) (unat x)))"
proof (induction x ms rule: as_mixed_radix.induct)
  case (2 x m ms)
  have m: "m \<noteq> 0" "0 < unat m" "unat m < 65536"
    using "2.prems" unsigned_less [of m, where ?'a = nat] by (auto simp: unat_gt_0)
  show ?case
  proof (cases "ucast m \<le> x")
    case True
    let ?d = "x mod ucast m"
    have d: "unat ?d = unat x mod unat m" by (simp add: unat_mod_distrib)
    have le: "?d \<le> x" by (simp add: word_le_nat_alt d)
    have "unat ((x - ?d) div ucast m) = (unat x - unat x mod unat m) div unat m"
      by (simp add: unat_div_distrib unat_sub [OF le] d)
    then have u: "unat ((x - ?d) div ucast m) = unat x div unat m"
      by (simp add: minus_mod_eq_mult_div m)
    have "(ucast ?d :: u16) = of_nat (unat x mod unat m)" by (simp only: ucast_u128_u16 d)
    note dig = this
    have IH: "as_mixed_radix ((x - ?d) div ucast m) ms =
        Inr (map of_nat (mdigits (map unat ms) (unat x div unat m)))"
      using "2.IH"(1) [OF True m(1) refl] "2.prems" unfolding u by simp
    have "as_mixed_radix x (m # ms) =
        res_bind (as_mixed_radix ((x - ?d) div ucast m) ms) (\<lambda>r. Inr (ucast ?d # r))"
      using True m(1) by (subst as_mixed_radix.simps(2)) (simp only: if_True if_False Let_def)
    also have "\<dots> = Inr (map of_nat (mdigits (map unat (m # ms)) (unat x)))"
      unfolding IH dig by simp
    finally show ?thesis .
  next
    case False
    then have lt: "unat x < unat m" by (simp add: word_le_nat_alt)
    have "as_mixed_radix 0 ms = Inr (map of_nat (mdigits (map unat ms) 0))"
      using "2.IH"(2) [OF False] "2.prems" by simp
    then have "as_mixed_radix x (m # ms) = Inr (ucast x # map of_nat (mdigits (map unat ms) 0))"
      using False by simp
    then show ?thesis unfolding ucast_u128_u16 using lt by simp
  qed
qed simp

lemma mul_add_of_nat:
  assumes "v < 2 ^ 128" and "v * unat q + unat d < 2 ^ 128"
  shows "mul_add (of_nat v) q d = Inr (of_nat (unat d + unat q * v))"
proof -
  have v: "unat (of_nat v :: u128) = v" using assms(1) by (simp add: unat_of_nat)
  have e: "(of_nat v :: u128) * ucast q = of_nat (v * unat q)" "(ucast d :: u128) = of_nat (unat d)"
    by simp_all
  have "checked_add (of_nat (v * unat q) :: u128) (of_nat (unat d)) = Inr (of_nat (v * unat q + unat d))"
    using assms(2) by (intro checked_add_of_nat) simp
  moreover have "v * unat q < 2 ^ 128" using assms(2) by linarith
  ultimately show ?thesis
    by (simp only: mul_add_def v e if_True add.commute [of "unat d"] mult.commute [of "unat q"])
qed

lemma read_digits:
  assumes "list_all2 (<) (map unat ds) (map unat qs)" and "prod_list (map unat qs) \<le> 2 ^ 128"
  shows "from_mixed_radix ds qs = Inr (of_nat (mval (zip (map unat ds) (map unat qs))))"
proof -
  have "foldM_res (\<lambda>x (d, q). mul_add x q d) 0 (rev (zip ds qs)) =
      Inr (of_nat (mval (zip (map unat ds) (map unat qs))))"
    using assms
  proof (induction "map unat ds" "map unat qs" arbitrary: ds qs rule: list_all2_induct)
    case (Cons d' ds' q' qs')
    then obtain d ds1 q qs1 where eq: "ds = d # ds1" "qs = q # qs1" "d' = unat d" "q' = unat q"
      "ds' = map unat ds1" "qs' = map unat qs1" by (auto simp: Cons_eq_map_conv)
    let ?v = "mval (zip (map unat ds1) (map unat qs1))"
    have lt: "?v < prod_list (map unat qs1)" using Cons.hyps eq by (intro mval_less) simp
    have q: "0 < unat q" using Cons.hyps eq by auto
    have "unat q * Suc ?v \<le> unat q * prod_list (map unat qs1)" using lt by (intro mult_le_mono2) simp
    with Cons.hyps Cons.prems eq have b: "?v * unat q + unat d < 2 ^ 128" by (simp add: ac_simps)
    have "prod_list (map unat qs1) \<le> unat q * prod_list (map unat qs1)" using q by simp
    also have "\<dots> \<le> 2 ^ 128" using Cons.prems eq by simp
    finally have p: "prod_list (map unat qs1) \<le> 2 ^ 128" .
    with lt have v: "?v < 2 ^ 128" by (rule order_less_le_trans)
    from Cons.hyps(3) [OF eq(5,6) p] show ?case
      by (simp add: eq foldM_res_append mul_add_of_nat [OF v b] del: of_nat_add of_nat_mult)
  qed simp
  then show ?thesis by (simp add: from_mixed_radix_def)
qed

lemma from_base_q_mixed: "from_base_q ds q = from_mixed_radix ds (replicate (length ds) q)"
proof -
  have "zip ds (replicate (length ds) q) = map (\<lambda>d. (d, q)) ds" by (induction ds) auto
  then show ?thesis by (simp add: from_base_q_def from_mixed_radix_def rev_map foldM_res_map)
qed


subsection \<open>How many digits fit\<close>

text \<open>The width of a digit in bits, \<open>\<lceil>log2 q\<rceil>\<close>, for the moduli of 16 bits.\<close>

definition digit_width :: "nat \<Rightarrow> nat" where
  "digit_width q =
     (if q \<le> 2 then 1 else if q \<le> 4 then 2 else if q \<le> 8 then 3 else if q \<le> 16 then 4 else
      if q \<le> 32 then 5 else if q \<le> 64 then 6 else if q \<le> 128 then 7 else if q \<le> 256 then 8 else
      if q \<le> 512 then 9 else ceil_log2 q)"

lemma digit_width_bounds:
  assumes "2 \<le> q" and "q < 65536"
  shows "1 \<le> digit_width q" "digit_width q \<le> 16" "2 ^ (digit_width q - 1) < q" "q \<le> 2 ^ digit_width q"
  using assms by (simp_all add: digit_width_def ceil_log2_def)

lemma unat_u16_less: "unat (q :: u16) < 65536"
  using unsigned_less [of q, where ?'a = nat] by simp

lemma digits_per_u128_width:
  assumes "2 \<le> unat q"
  shows "digits_per_u128 q = Inr (128 div digit_width (unat q))"
proof -
  have w: "q \<noteq> 0" "q \<noteq> 1" "q = 2 \<longleftrightarrow> unat q \<le> 2" "q \<le> 4 \<longleftrightarrow> unat q \<le> 4" "q \<le> 8 \<longleftrightarrow> unat q \<le> 8"
    "q \<le> 16 \<longleftrightarrow> unat q \<le> 16" "q \<le> 32 \<longleftrightarrow> unat q \<le> 32" "q \<le> 64 \<longleftrightarrow> unat q \<le> 64"
    "q \<le> 128 \<longleftrightarrow> unat q \<le> 128" "q \<le> 256 \<longleftrightarrow> unat q \<le> 256" "q \<le> 512 \<longleftrightarrow> unat q \<le> 512"
    using assms by (auto simp: word_le_nat_alt word_unat_eq_iff)
  show ?thesis by (simp only: digits_per_u128_def digit_width_def w if_False) simp
qed

lemma power_width_le:
  assumes "unat (q :: u16) \<le> 2 ^ k" and "1 \<le> k"
  shows "unat q ^ (128 div k) \<le> 2 ^ 128"
proof -
  have "unat q ^ (128 div k) \<le> (2 ^ k) ^ (128 div k)" by (rule power_mono) (use assms in simp_all)
  also have "\<dots> = 2 ^ (k * (128 div k))" by (simp add: power_mult)
  also have "\<dots> \<le> 2 ^ 128" by (rule power_increasing) simp_all
  finally show ?thesis .
qed

lemma digits_per_u128_fits:
  assumes "2 \<le> unat q" and "digits_per_u128 q = Inr n"
  shows "unat q ^ n \<le> 2 ^ 128" and "8 \<le> n" and "n \<le> 128"
proof -
  note b = digit_width_bounds [OF assms(1) unat_u16_less]
  have n: "n = 128 div digit_width (unat q)" using digits_per_u128_width [OF assms(1)] assms(2) by simp
  show "unat q ^ n \<le> 2 ^ 128" using power_width_le [OF b(4,1)] n by simp
  have "128 div 16 \<le> 128 div digit_width (unat q)" by (rule div_le_mono2) (use b in simp_all)
  with n show "8 \<le> n" "n \<le> 128" by simp_all
qed

subsection \<open>Bits\<close>

lemma and_one_u128: "(y :: u128) AND 1 = of_bool (bit y 0)"
  by (rule bit_word_eqI) (auto simp: bit_simps)

lemma u128_shift: "(y - (y AND 1)) div 2 = drop_bit 1 (y :: u128)"
proof -
  have m: "y AND 1 = y mod 2" by (simp add: and_one_eq)
  have u: "unat (y mod 2) = unat y mod 2" by (simp add: unat_mod_distrib)
  have "y mod 2 \<le> y" by (simp add: word_le_nat_alt u)
  then have "unat ((y - y mod 2) div 2) = (unat y - unat y mod 2) div 2"
    by (simp add: unat_div_distrib unat_sub u)
  also have "\<dots> = unat y div 2" by (simp add: minus_mod_eq_mult_div)
  finally have "unat ((y - y mod 2) div 2) = unat (drop_bit 1 y)"
    by (simp add: drop_bit_Suc unat_div_distrib)
  then show ?thesis by (simp add: m word_unat_eq_iff)
qed

lemma u128_to_bits_nth:
  "u128_to_bits y n = map (\<lambda>i. of_bool (bit y i)) [0..<n]"
proof (induction n arbitrary: y)
  case (Suc n)
  have "map (\<lambda>i. of_bool (bit (drop_bit 1 y) i)) [0..<n] = map (\<lambda>i. of_bool (bit y i) :: u16) [1..<Suc n]"
    by (simp add: bit_simps map_Suc_upt [symmetric] comp_def del: upt_Suc)
  with Suc show ?case
    by (simp only: u128_to_bits.simps Let_def u128_shift) (simp add: and_one_u128 upt_conv_Cons del: upt_Suc)
qed simp


lemma u128_to_bits_digits: "u128_to_bits y n = map of_nat (digits 2 n (unat y))"
proof (induction n arbitrary: y)
  case (Suc n)
  have "unat (drop_bit 1 y) = unat y div 2" by (simp add: drop_bit_Suc unat_div_distrib)
  moreover have "(ucast (y AND 1) :: u16) = of_nat (unat y mod 2)"
    unfolding ucast_u128_u16 by (simp only: and_one_eq unat_mod_distrib) simp
  ultimately show ?case using Suc by (simp only: u128_to_bits.simps Let_def u128_shift) simp
qed simp

lemma u128_from_bits_dval:
  assumes "is_digits 2 bs" and "bs \<noteq> []" and "length bs \<le> 128"
  shows "u128_from_bits (map of_nat bs) = Inr (of_nat (dval 2 bs))"
proof -
  obtain b bs' where bs: "bs = b # bs'" using assms(2) by (cases bs) auto
  have loop: "foldM_res (\<lambda>x b. res_bind (checked_add x (ucast b)) (\<lambda>x. checked_mul x 2)) 0
      (rev (map of_nat ds :: u16 list)) = Inr (of_nat (2 * dval 2 ds) :: u128)"
    if "is_digits 2 ds" "length ds \<le> 127" for ds
    using that
  proof (induction ds)
    case (Cons d ds)
    then have d: "d < 2" "is_digits 2 ds" "length ds < 127" by auto
    have "dval 2 ds < 2 ^ length ds" using dval_less [OF d(2)] .
    also have "\<dots> \<le> 2 ^ 126" by (rule power_increasing) (use d in simp_all)
    finally have l: "dval 2 ds < 2 ^ 126" .
    have a: "checked_add (of_nat (2 * dval 2 ds) :: u128) (of_nat d) = Inr (of_nat (2 * dval 2 ds + d))"
      using l d by (intro checked_add_of_nat) simp
    have "checked_mul (of_nat (2 * dval 2 ds + d) :: u128) (of_nat 2) = Inr (of_nat ((2 * dval 2 ds + d) * 2))"
      using l d by (intro checked_mul_of_nat) simp_all
    moreover have "(2 :: u128) = of_nat 2" "(2 * dval 2 ds + d) * 2 = 2 * dval 2 (d # ds)" by simp_all
    ultimately have m: "checked_mul (of_nat (2 * dval 2 ds + d) :: u128) 2 = Inr (of_nat (2 * dval 2 (d # ds)))"
      by (simp only:)
    have IH: "foldM_res (\<lambda>x b. res_bind (checked_add x (ucast b)) (\<lambda>x. checked_mul x 2)) 0
        (rev (map of_nat ds :: u16 list)) = Inr (of_nat (2 * dval 2 ds) :: u128)" using Cons.IH d by simp
    have c: "(ucast (of_nat d :: u16) :: u128) = of_nat d" using d by (intro ucast_of_nat_u16_u128) simp
    show ?case
      by (simp only: list.map rev.simps foldM_res_append IH res_bind.simps foldM_res.simps c a m)
  qed simp
  have d: "b < 2" "is_digits 2 bs'" "length bs' \<le> 127" using assms bs by auto
  have "dval 2 bs' < 2 ^ length bs'" using dval_less [OF d(2)] .
  also have "\<dots> \<le> 2 ^ 127" by (rule power_increasing) (use d in simp_all)
  finally have l: "dval 2 bs' < 2 ^ 127" .
  have "checked_add (of_nat (2 * dval 2 bs') :: u128) (of_nat b) = Inr (of_nat (2 * dval 2 bs' + b))"
    using l d by (intro checked_add_of_nat) simp
  moreover have "(ucast (of_nat b :: u16) :: u128) = of_nat b" using d by (intro ucast_of_nat_u16_u128) simp
  ultimately show ?thesis
    using loop [OF d(2,3)] by (simp del: of_nat_add of_nat_mult add: bs u128_from_bits_def add.commute [of b])
qed


subsection \<open>Properties\<close>

definition wval :: "u16 \<Rightarrow> u16 list \<Rightarrow> nat" where
  "wval q ds = dval (unat q) (map unat ds)"

definition digits_below :: "u16 \<Rightarrow> u16 list \<Rightarrow> bool" where
  "digits_below q ds = list_all (\<lambda>d. d < q) ds"

lemma map_of_nat_unat [simp]: "map of_nat (map unat ds) = (ds :: 'a :: len word list)"
  by (induction ds) auto

lemma map_of_nat_comp_unat [simp]: "map (of_nat \<circ> unat) ds = (ds :: 'a :: len word list)"
  by (induction ds) auto

lemma digits_below_iff: "digits_below q ds \<longleftrightarrow> is_digits (unat q) (map unat ds)"
  by (simp add: digits_below_def is_digits_def list_all_iff word_less_nat_alt)

lemma map_unat_of_nat_digits:
  assumes "0 < q" and "q \<le> 65536"
  shows "map unat (map of_nat (digits q n x) :: u16 list) = digits q n x"
proof -
  have "unat (of_nat d :: u16) = d" if "d \<in> set (digits q n x)" for d
    using that is_digits_digits [OF assms(1), of n x] assms(2) by (auto simp: is_digits_def unat_of_nat)
  then show ?thesis by (simp add: map_idI)
qed

lemma digits_eq_Nil: "digits q n x = [] \<longleftrightarrow> n = 0"
  by (cases n) auto

lemma wval_digits:
  "0 < unat q \<Longrightarrow> wval q (map of_nat (digits (unat q) n x)) = x mod unat q ^ n"
  using map_unat_of_nat_digits [of "unat q" n x] unat_u16_less [of q] by (simp add: wval_def dval_digits)

lemma digits_below_digits: "0 < unat q \<Longrightarrow> digits_below q (map of_nat (digits (unat q) n x))"
  using map_unat_of_nat_digits [of "unat q" n x] unat_u16_less [of q] by (simp add: digits_below_iff)

text \<open>
  C4. \<open>base_q_add_eq\<close> adds: for operands with digits below \<open>q\<close> (and \<open>q\<close> small enough that the
  sum of two digits and a carry fits 16 bits), it returns, without a panic, digits below \<open>q\<close> whose
  value is the sum of the values, modulo \<open>q\<close> to the number of digits of \<open>xs\<close>.
\<close>

theorem base_q_add_correct:
  assumes "2 \<le> q" and "q \<le> 32768" and "digits_below q xs" and "digits_below q ys" and "length ys \<le> length xs"
  shows "\<exists>zs. base_q_add_eq xs ys q = Inr zs \<and> length zs = length xs \<and> digits_below q zs \<and>
     wval q zs = (wval q xs + wval q ys) mod unat q ^ length xs"
proof -
  have q: "2 \<le> unat q" "unat q \<le> 32768" using assms(1,2) by (simp_all add: word_le_nat_alt)
  have "base_q_add_eq (map of_nat (map unat xs)) (map of_nat (map unat ys)) (of_nat (unat q)) =
      Inr (map of_nat (digits (unat q) (length (map unat xs)) (wval q xs + wval q ys)))"
    unfolding wval_def using assms q by (intro base_q_add_eq_digits) (simp_all add: digits_below_iff)
  then show ?thesis using q by (simp del: map_map add: wval_digits digits_below_digits)
qed

theorem base_q_add_correct_witness:
  "\<exists>zs. base_q_add_eq [22, 22, 3] [1, 0] 23 = Inr zs \<and> length zs = 3 \<and> digits_below 23 zs \<and>
     wval 23 zs = (wval 23 [22, 22, 3] + wval 23 [1, 0]) mod 23 ^ 3"
  using base_q_add_correct [of 23 "[22, 22, 3]" "[1, 0]"] by (simp add: digits_below_def numeral_3_eq_3 [symmetric])

text \<open>
  Mixed radix. For radii whose product fits 128 bits, writing a number below the product
  and reading it back is the identity, and so is reading digits below their radii and writing
  the result.
\<close>

theorem mixed_radix_roundtrip:
  assumes "0 \<notin> set radii" and "prod_list (map unat radii) \<le> 2 ^ 128"
  shows "(unat x < prod_list (map unat radii) \<longrightarrow>
      (\<exists>ds. as_mixed_radix x radii = Inr ds \<and> list_all2 (<) ds radii \<and> from_mixed_radix ds radii = Inr x)) \<and>
    (list_all2 (<) ds radii \<longrightarrow>
      (\<exists>y. from_mixed_radix ds radii = Inr y \<and> as_mixed_radix y radii = Inr ds))"
proof -
  let ?ms = "map unat radii"
  have ms: "0 \<notin> set ?ms" using assms(1) by (auto simp: unsigned_eq_0_iff)
  have small: "map unat (map of_nat (mdigits ?ms n) :: u16 list) = mdigits ?ms n" for n
  proof (rule nth_equalityI)
    fix i assume "i < length (map unat (map of_nat (mdigits ?ms n) :: u16 list))"
    then have i: "i < length radii" by simp
    then have "mdigits ?ms n ! i < unat (radii ! i)"
      using list_all2_nthD [OF mdigits_less [OF ms], of i n] by simp
    with unat_u16_less [of "radii ! i"] have "mdigits ?ms n ! i < 65536" by linarith
    with i show "map unat (map of_nat (mdigits ?ms n) :: u16 list) ! i = mdigits ?ms n ! i"
      by (simp add: unat_of_nat)
  qed simp
  have lt_iff: "list_all2 (<) ds radii \<longleftrightarrow> list_all2 (<) (map unat ds) ?ms" for ds
    by (auto simp: list_all2_conv_all_nth word_less_nat_alt)
  have "\<exists>ds. as_mixed_radix x radii = Inr ds \<and> list_all2 (<) ds radii \<and> from_mixed_radix ds radii = Inr x"
    if x: "unat x < prod_list ?ms"
  proof -
    let ?ds = "map of_nat (mdigits ?ms (unat x)) :: u16 list"
    have l: "list_all2 (<) (map unat ?ds) ?ms" unfolding small by (rule mdigits_less [OF ms])
    have "from_mixed_radix ?ds radii = Inr (of_nat (unat x))"
      using read_digits [OF l assms(2)] x unfolding small by (simp add: mval_mdigits [OF ms])
    then show ?thesis using as_mixed_radix_digits [OF assms(1), of x] l by (auto simp: lt_iff)
  qed
  moreover have "\<exists>y. from_mixed_radix ds radii = Inr y \<and> as_mixed_radix y radii = Inr ds"
    if ds: "list_all2 (<) ds radii"
  proof -
    let ?v = "mval (zip (map unat ds) ?ms)"
    have l: "list_all2 (<) (map unat ds) ?ms" using ds by (simp add: lt_iff)
    have "?v < 2 ^ 128" using mval_less [OF l] assms(2) by (rule order_less_le_trans)
    then have v: "unat (of_nat ?v :: u128) = ?v" by (simp add: unat_of_nat)
    have "as_mixed_radix (of_nat ?v) radii = Inr (map of_nat (map unat ds))"
      unfolding as_mixed_radix_digits [OF assms(1)] v mdigits_mval [OF l] ..
    then show ?thesis using read_digits [OF l assms(2)] by simp
  qed
  ultimately show ?thesis by blast
qed

theorem mixed_radix_roundtrip_witness:
  "(\<exists>ds. as_mixed_radix 1000 [7, 11, 13] = Inr ds \<and> list_all2 (<) ds [7, 11, 13] \<and>
      from_mixed_radix ds [7, 11, 13] = Inr 1000) \<and>
   (\<exists>y. from_mixed_radix [6, 10, 12] [7, 11, 13] = Inr y \<and> as_mixed_radix y [7, 11, 13] = Inr [6, 10, 12])"
  using mixed_radix_roundtrip [of "[7, 11, 13]" 1000 "[6, 10, 12]"] by simp

text \<open>
  C5. Base \<open>q\<close> of a \<open>u128\<close>, for every modulus from 2 to 65535: the digit count is
  \<open>128 div \<lceil>log2 q\<rceil>\<close>, so \<open>q\<close> to that count fits 128 bits; the conversion returns that many
  digits below \<open>q\<close>, and reading them back, without overflow, gives the number modulo that power.
\<close>

theorem base_q_u128_roundtrip:
  assumes "2 \<le> q"
  shows "\<exists>k n ds. 2 ^ (k - 1) < unat q \<and> unat q \<le> 2 ^ k \<and> n = 128 div k \<and> unat q ^ n \<le> 2 ^ 128 \<and>
     digits_per_u128 q = Inr n \<and> as_base_q_u128 x q = Inr ds \<and> length ds = n \<and> digits_below q ds \<and>
     from_base_q ds q = Inr (of_nat (unat x mod unat q ^ n))"
proof -
  have q: "2 \<le> unat q" using assms by (simp add: word_le_nat_alt)
  note b = digit_width_bounds [OF q unat_u16_less]
  let ?n = "128 div digit_width (unat q)"
  let ?ds = "map of_nat (digits (unat q) ?n (unat x)) :: u16 list"
  have n: "digits_per_u128 q = Inr ?n" by (rule digits_per_u128_width [OF q])
  have fits: "unat q ^ ?n \<le> 2 ^ 128" by (rule digits_per_u128_fits [OF q n])
  have "0 \<notin> set (replicate ?n q)" using q by auto
  from as_mixed_radix_digits [OF this] have as: "as_base_q_u128 x q = Inr ?ds"
    by (simp add: as_base_q_u128_def n as_base_q_def mdigits_replicate)
  have u: "map unat ?ds = digits (unat q) ?n (unat x)"
    using q unat_u16_less [of q] by (intro map_unat_of_nat_digits) simp_all
  have m: "mval (zip (map unat ds) (replicate (length ds) (unat q))) = wval q ds" for ds
    by (induction ds) (simp_all add: wval_def)
  have "from_mixed_radix ?ds (replicate (length ?ds) q) =
      Inr (of_nat (mval (zip (map unat ?ds) (map unat (replicate (length ?ds) q)))))"
  proof (rule read_digits)
    show "list_all2 (<) (map unat ?ds) (map unat (replicate (length ?ds) q))"
      unfolding u using is_digits_digits [of "unat q" ?n "unat x"] q
      by (auto simp: is_digits_def list_all2_conv_all_nth)
    show "prod_list (map unat (replicate (length ?ds) q)) \<le> 2 ^ 128"
      using fits by simp
  qed
  then have "from_base_q ?ds q = Inr (of_nat (wval q ?ds))"
    unfolding from_base_q_mixed map_replicate m [symmetric] by simp
  then have "from_base_q ?ds q = Inr (of_nat (unat x mod unat q ^ ?n))"
    using q by (simp add: wval_digits)
  with b n fits as digits_below_digits [of q ?n "unat x"] q show ?thesis
    by (intro exI [of _ "digit_width (unat q)"] exI [of _ ?n] exI [of _ ?ds]) simp
qed

theorem base_q_u128_roundtrip_witness:
  "\<exists>k n ds. 2 ^ (k - 1) < (113 :: nat) \<and> 113 \<le> (2 :: nat) ^ k \<and> n = 128 div k \<and> (113 :: nat) ^ n \<le> 2 ^ 128 \<and>
     digits_per_u128 113 = Inr n \<and> as_base_q_u128 12345678901234567890 113 = Inr ds \<and> length ds = n \<and>
     digits_below 113 ds \<and> from_base_q ds 113 = Inr (of_nat (12345678901234567890 mod 113 ^ n))"
  using base_q_u128_roundtrip [of 113 12345678901234567890] by simp

text \<open>
  Bits: the 128 bits of a number read back to it, and any non-empty list of at most 128
  bits is the list of bits of the number it reads to.
\<close>

theorem u128_bits_roundtrip:
  "u128_from_bits (u128_to_bits x 128) = Inr x \<and>
   (digits_below 2 bs \<and> bs \<noteq> [] \<and> length bs \<le> 128 \<longrightarrow>
      (\<exists>y. u128_from_bits bs = Inr y \<and> u128_to_bits y (length bs) = bs))"
proof -
  have "u128_from_bits (u128_to_bits x 128) = Inr (of_nat (dval 2 (digits 2 128 (unat x))))"
    unfolding u128_to_bits_digits by (rule u128_from_bits_dval) (simp_all add: digits_eq_Nil)
  also have "dval 2 (digits 2 128 (unat x)) = unat x"
    using unsigned_less [of x, where ?'a = nat] by (simp add: dval_digits)
  finally have "u128_from_bits (u128_to_bits x 128) = Inr x" by simp
  moreover have "\<exists>y. u128_from_bits bs = Inr y \<and> u128_to_bits y (length bs) = bs"
    if b: "digits_below 2 bs" "bs \<noteq> []" "length bs \<le> 128"
  proof -
    have d: "is_digits 2 (map unat bs)" using b(1) by (simp add: digits_below_iff)
    have "dval 2 (map unat bs) < 2 ^ length bs" using dval_less [OF d] by simp
    also have "\<dots> \<le> 2 ^ 128" by (rule power_increasing) (use b in simp_all)
    finally have v: "unat (of_nat (dval 2 (map unat bs)) :: u128) = dval 2 (map unat bs)"
      by (simp add: unat_of_nat)
    have "u128_to_bits (of_nat (dval 2 (map unat bs))) (length bs) = map of_nat (map unat bs)"
      unfolding u128_to_bits_digits v using digits_dval [OF d] by simp
    moreover have "u128_from_bits (map of_nat (map unat bs)) = Inr (of_nat (dval 2 (map unat bs)))"
      by (rule u128_from_bits_dval) (use d b in simp_all)
    ultimately show ?thesis by simp
  qed
  ultimately show ?thesis by blast
qed

theorem u128_bits_roundtrip_witness:
  "\<exists>y. u128_from_bits [1, 0, 1] = Inr y \<and> u128_to_bits y 3 = [1, 0, 1]"
  using u128_bits_roundtrip [of 0 "[1, 0, 1]"] by (simp add: digits_below_def numeral_3_eq_3 [symmetric] del: u128_to_bits.simps)

end
