(* ===== verification/Wire.thy ===== *)
theory Wire
  imports Base_Conversion Unrank
begin

text \<open>
  Wire labels, \<open>fancy-garbling/src/wire.rs\<close>: the three representations and the enum over
  them, with the operations of \<open>WireLabel\<close>. A \<open>Block\<close> is its \<open>u128\<close>; random numbers are
  passed as a stream of values. The digit lookup of the foreign interface is the argument
  \<open>lk\<close> of the operations that reach it; the locale \<open>digit_lookup\<close> states what it promises and
  is interpreted on the tables of the file in \<open>Lookup_Tables\<close>.
\<close>

subsection \<open>Representations\<close>

record WireMod2 =
  m2_val :: u128

record WireMod3 =
  m3_lsb :: u64
  m3_msb :: u64

record WireModQ =
  mq_q :: u16
  mq_ds :: "u16 list"

datatype AllWire = Mod2 WireMod2 | Mod3 WireMod3 | ModN WireModQ

subsection \<open>Unpacking a block\<close>

definition block_bytes :: "u128 \<Rightarrow> u8 list" where
  "block_bytes b = map (\<lambda>i. ucast (drop_bit (8 * i) b)) [0..<16]"

definition from_block_lookup :: "(u8 \<Rightarrow> u16 \<Rightarrow> nat \<Rightarrow> u16 list res) \<Rightarrow> u128 \<Rightarrow> u16 \<Rightarrow> u16 list res" where
  "from_block_lookup lk inp q =
     res_bind (require Assertion (q < 256)) (\<lambda>_.
     res_bind (lookup_defined_for_mod q) (\<lambda>d.
     res_bind (require Assertion d) (\<lambda>_.
     res_bind (lk (block_bytes inp ! 15) q 15) (\<lambda>ds.
     res_bind (foldM_res (\<lambda>ds i.
         res_bind (lk (block_bytes inp ! i) q i) (\<lambda>cs. base_q_add_eq ds cs q)) ds [0..<15]) (\<lambda>ds.
     res_bind (digits_per_u128 q) (\<lambda>n. Inr (take n ds)))))))"

definition is_power_of_2 :: "u16 \<Rightarrow> bool res" where
  "is_power_of_2 x = res_bind (checked_sub x 1) (\<lambda>y. Inr (x AND y = 0))"

text \<open>The branch for powers of two splits the bits of the block.\<close>

definition split_digits :: "u128 \<Rightarrow> u16 \<Rightarrow> u16 list res" where
  "split_digits inp q =
     res_bind (digits_per_u128 q) (\<lambda>ndigits.
       let width = 128 div ndigits in
       let mask = push_bit width 1 - 1 in
       Inr (map (\<lambda>i. ucast (drop_bit (width * i) inp AND mask)) [0..<ndigits]))"

definition WireModQ_from_block :: "(u8 \<Rightarrow> u16 \<Rightarrow> nat \<Rightarrow> u16 list res) \<Rightarrow> u128 \<Rightarrow> u16 \<Rightarrow> WireModQ res" where
  "WireModQ_from_block lk inp q =
     (if q < 2 then Inl Panic else
      res_bind (is_power_of_2 q) (\<lambda>p2.
      res_bind
        (if p2 then split_digits inp q
         else if q \<le> 23 then unrank inp q
         else res_bind (lookup_defined_for_mod q) (\<lambda>d.
           if d then from_block_lookup lk inp q else unrank inp q))
        (\<lambda>ds. Inr \<lparr>mq_q = q, mq_ds = ds\<rparr>)))"

definition WireMod3_from_block :: "u128 \<Rightarrow> u16 \<Rightarrow> WireMod3 res" where
  "WireMod3_from_block inp q =
     (if q \<noteq> 3 then Inl Panic else
      let l = ucast inp; m = ucast (drop_bit 64 inp) in
      res_bind (require Assertion (l AND m = 0)) (\<lambda>_. Inr \<lparr>m3_lsb = l, m3_msb = m\<rparr>))"

definition WireMod2_from_block :: "u128 \<Rightarrow> u16 \<Rightarrow> WireMod2 res" where
  "WireMod2_from_block inp q = (if q \<noteq> 2 then Inl Panic else Inr \<lparr>m2_val = inp\<rparr>)"

definition AllWire_from_block :: "(u8 \<Rightarrow> u16 \<Rightarrow> nat \<Rightarrow> u16 list res) \<Rightarrow> u128 \<Rightarrow> u16 \<Rightarrow> AllWire res" where
  "AllWire_from_block lk inp q =
     (if q = 2 then res_bind (WireMod2_from_block inp q) (\<lambda>w. Inr (Mod2 w))
      else if q = 3 then res_bind (WireMod3_from_block inp q) (\<lambda>w. Inr (Mod3 w))
      else res_bind (WireModQ_from_block lk inp q) (\<lambda>w. Inr (ModN w)))"

text \<open>Packing digits below 3 into the two bit planes of a \<open>WireMod3\<close>.\<close>

definition pack_mod3 :: "u16 list \<Rightarrow> WireMod3" where
  "pack_mod3 vs =
     (let (l, m) = fold (\<lambda>(i, v) (l, m).
         (l OR push_bit i (ucast (v AND 1)), m OR push_bit i (ucast (drop_bit 1 v AND 1))))
         (zip [0..<length vs] vs) (0, 0)
      in \<lparr>m3_lsb = l, m3_msb = m\<rparr>)"

definition encode_block_mod3 :: "u128 \<Rightarrow> WireMod3 res" where
  "encode_block_mod3 block =
     res_bind (unrank block 3) (\<lambda>ds.
     res_bind (require Panic (64 \<le> length ds)) (\<lambda>_.
       let w = pack_mod3 (take 64 ds) in
       res_bind (require Assertion (m3_lsb w AND m3_msb w = 0)) (\<lambda>_. Inr w)))"

definition AllWire_hash_to_mod :: "(u8 \<Rightarrow> u16 \<Rightarrow> nat \<Rightarrow> u16 list res) \<Rightarrow> u128 \<Rightarrow> u16 \<Rightarrow> AllWire res" where
  "AllWire_hash_to_mod lk hash q =
     (if q = 3 then res_bind (encode_block_mod3 hash) (\<lambda>w. Inr (Mod3 w))
      else AllWire_from_block lk hash q)"

subsection \<open>Packing, digits and colour\<close>

text \<open>Every operation of the trait on the three types, then on the enum.\<close>

definition WireMod2_as_block :: "WireMod2 \<Rightarrow> u128 res" where
  "WireMod2_as_block x = Inr (m2_val x)"

definition WireMod3_as_block :: "WireMod3 \<Rightarrow> u128 res" where
  "WireMod3_as_block x = Inr (push_bit 64 (ucast (m3_msb x)) OR ucast (m3_lsb x))"

definition WireModQ_as_block :: "WireModQ \<Rightarrow> u128 res" where
  "WireModQ_as_block x = from_base_q (mq_ds x) (mq_q x)"

fun as_block :: "AllWire \<Rightarrow> u128 res" where
  "as_block (Mod2 x) = WireMod2_as_block x"
| "as_block (Mod3 x) = WireMod3_as_block x"
| "as_block (ModN x) = WireModQ_as_block x"

definition WireMod2_digits :: "WireMod2 \<Rightarrow> u16 list" where
  "WireMod2_digits x = map (\<lambda>i. ucast (drop_bit i (m2_val x)) AND 1) [0..<128]"

definition WireMod3_digits :: "WireMod3 \<Rightarrow> u16 list" where
  "WireMod3_digits x =
     map (\<lambda>i. (ucast (drop_bit i (m3_lsb x)) AND 1) AND
               push_bit 1 (ucast (drop_bit i (m3_msb x)) AND 1)) [0..<64]"

fun wire_digits :: "AllWire \<Rightarrow> u16 list" where
  "wire_digits (Mod2 x) = WireMod2_digits x"
| "wire_digits (Mod3 x) = WireMod3_digits x"
| "wire_digits (ModN x) = mq_ds x"

definition WireMod2_color :: "WireMod2 \<Rightarrow> u16 res" where
  "WireMod2_color x = Inr (ucast (m2_val x AND 1))"

definition WireMod3_color :: "WireMod3 \<Rightarrow> u16 res" where
  "WireMod3_color x =
     (let c = push_bit 1 (ucast (m3_msb x AND 1)) OR ucast (m3_lsb x AND 1) in
      res_bind (require Assertion (c \<noteq> 3)) (\<lambda>_. Inr c))"

definition WireModQ_color :: "WireModQ \<Rightarrow> u16 res" where
  "WireModQ_color x =
     (case mq_ds x of
        [] \<Rightarrow> Inl Panic
      | c # _ \<Rightarrow> res_bind (require Assertion (c < mq_q x)) (\<lambda>_. Inr c))"

fun color :: "AllWire \<Rightarrow> u16 res" where
  "color (Mod2 x) = WireMod2_color x"
| "color (Mod3 x) = WireMod3_color x"
| "color (ModN x) = WireModQ_color x"

fun wire_modulus :: "AllWire \<Rightarrow> u16" where
  "wire_modulus (Mod2 x) = 2"
| "wire_modulus (Mod3 x) = 3"
| "wire_modulus (ModN x) = mq_q x"

definition WireMod2_zero :: "u16 \<Rightarrow> WireMod2 res" where
  "WireMod2_zero q = (if q \<noteq> 2 then Inl Panic else Inr \<lparr>m2_val = 0\<rparr>)"

definition WireMod3_zero :: "u16 \<Rightarrow> WireMod3 res" where
  "WireMod3_zero q = (if q \<noteq> 3 then Inl Panic else Inr \<lparr>m3_lsb = 0, m3_msb = 0\<rparr>)"

definition WireModQ_zero :: "u16 \<Rightarrow> WireModQ res" where
  "WireModQ_zero q =
     (if q < 2 then Inl Panic
      else res_bind (digits_per_u128 q) (\<lambda>n. Inr \<lparr>mq_q = q, mq_ds = replicate n 0\<rparr>))"

definition wire_zero :: "u16 \<Rightarrow> AllWire res" where
  "wire_zero q =
     (if q = 2 then res_bind (WireMod2_zero q) (\<lambda>w. Inr (Mod2 w))
      else if q = 3 then res_bind (WireMod3_zero q) (\<lambda>w. Inr (Mod3 w))
      else res_bind (WireModQ_zero q) (\<lambda>w. Inr (ModN w)))"

subsection \<open>Arithmetic on labels\<close>

definition plus_mod2 :: "WireMod2 \<Rightarrow> WireMod2 \<Rightarrow> WireMod2" where
  "plus_mod2 x y = \<lparr>m2_val = m2_val x XOR m2_val y\<rparr>"

definition plus_mod3 :: "WireMod3 \<Rightarrow> WireMod3 \<Rightarrow> WireMod3" where
  "plus_mod3 x y =
     (let a1 = m3_lsb x; a2 = m3_msb x; b1 = m3_lsb y; b2 = m3_msb y;
          t = (a1 OR b2) XOR (a2 OR b1) in
      \<lparr>m3_lsb = (a2 OR b2) XOR t, m3_msb = (a1 OR b1) XOR t\<rparr>)"

definition plus_digit :: "u16 \<Rightarrow> u16 \<Rightarrow> u16 \<Rightarrow> u16 res" where
  "plus_digit q x y = res_bind (checked_add x y) (\<lambda>s. Inr (if s < q then s else s - q))"

definition plus_modq :: "WireModQ \<Rightarrow> WireModQ \<Rightarrow> WireModQ res" where
  "plus_modq x y =
     res_bind (require Assertion (length (mq_ds x) = length (mq_ds y))) (\<lambda>_.
     res_bind (mapM_res (\<lambda>(a, b). plus_digit (mq_q x) a b) (zip (mq_ds x) (mq_ds y))) (\<lambda>ds.
       Inr (x\<lparr>mq_ds := ds\<rparr>)))"

fun plus_eq :: "AllWire \<Rightarrow> AllWire \<Rightarrow> AllWire res" where
  "plus_eq (Mod2 x) (Mod2 y) = Inr (Mod2 (plus_mod2 x y))"
| "plus_eq (Mod3 x) (Mod3 y) = Inr (Mod3 (plus_mod3 x y))"
| "plus_eq (ModN x) (ModN y) = res_bind (plus_modq x y) (\<lambda>z. Inr (ModN z))"
| "plus_eq _ _ = Inl Panic"

definition negate_mod3 :: "WireMod3 \<Rightarrow> WireMod3" where
  "negate_mod3 x = \<lparr>m3_lsb = m3_msb x, m3_msb = m3_lsb x\<rparr>"

definition negate_digit :: "u16 \<Rightarrow> u16 \<Rightarrow> u16 res" where
  "negate_digit q d = (if 0 < d then checked_sub q d else Inr 0)"

definition negate_modq :: "WireModQ \<Rightarrow> WireModQ res" where
  "negate_modq x = res_bind (mapM_res (negate_digit (mq_q x)) (mq_ds x)) (\<lambda>ds. Inr (x\<lparr>mq_ds := ds\<rparr>))"

text \<open>Negation does nothing modulo 2.\<close>

fun negate_eq :: "AllWire \<Rightarrow> AllWire res" where
  "negate_eq (Mod2 x) = Inr (Mod2 x)"
| "negate_eq (Mod3 x) = Inr (Mod3 (negate_mod3 x))"
| "negate_eq (ModN x) = res_bind (negate_modq x) (\<lambda>z. Inr (ModN z))"

definition cmul_mod2 :: "u16 \<Rightarrow> WireMod2 \<Rightarrow> WireMod2" where
  "cmul_mod2 c x = (if c AND 1 = 0 then \<lparr>m2_val = 0\<rparr> else x)"

function cmul_mod3 :: "u16 \<Rightarrow> WireMod3 \<Rightarrow> WireMod3" where
  "cmul_mod3 c x =
     (if c = 0 then \<lparr>m3_lsb = 0, m3_msb = 0\<rparr>
      else if c = 1 then x
      else if c = 2 then \<lparr>m3_lsb = m3_msb x, m3_msb = m3_lsb x\<rparr>
      else cmul_mod3 (c mod 3) x)"
  by pat_completeness auto

definition cmul_digit :: "u16 \<Rightarrow> u16 \<Rightarrow> u16 \<Rightarrow> u16 res" where
  "cmul_digit q c d =
     res_bind (checked_mul (ucast d :: u32) (ucast c)) (\<lambda>p.
       if q = 0 then Inl Panic else Inr (ucast (p mod ucast q)))"

definition cmul_modq :: "u16 \<Rightarrow> WireModQ \<Rightarrow> WireModQ res" where
  "cmul_modq c x = res_bind (mapM_res (cmul_digit (mq_q x) c) (mq_ds x)) (\<lambda>ds. Inr (x\<lparr>mq_ds := ds\<rparr>))"

fun cmul_eq :: "u16 \<Rightarrow> AllWire \<Rightarrow> AllWire res" where
  "cmul_eq c (Mod2 x) = Inr (Mod2 (cmul_mod2 c x))"
| "cmul_eq c (Mod3 x) = Inr (Mod3 (cmul_mod3 c x))"
| "cmul_eq c (ModN x) = res_bind (cmul_modq c x) (\<lambda>z. Inr (ModN z))"

definition minus_eq :: "AllWire \<Rightarrow> AllWire \<Rightarrow> AllWire res" where
  "minus_eq x y = res_bind (negate_eq y) (\<lambda>z. plus_eq x z)"

subsection \<open>Random labels\<close>

text \<open>
  The generator is the stream of the values it returns: one block, 64 bytes, or one \<open>u16\<close>
  per digit.
\<close>

definition rand_mod2 :: "u128 \<Rightarrow> u16 \<Rightarrow> WireMod2 res" where
  "rand_mod2 rng q = (if q \<noteq> 2 then Inl Panic else Inr \<lparr>m2_val = rng\<rparr>)"

definition rand_delta_mod2 :: "u128 \<Rightarrow> u16 \<Rightarrow> WireMod2 res" where
  "rand_delta_mod2 rng q =
     (if q \<noteq> 2 then Inl Panic
      else res_bind (rand_mod2 rng q) (\<lambda>w. Inr (w\<lparr>m2_val := m2_val w OR 1\<rparr>)))"

definition rand_mod3 :: "(nat \<Rightarrow> u8) \<Rightarrow> u16 \<Rightarrow> WireMod3 res" where
  "rand_mod3 rng q =
     (if q \<noteq> 3 then Inl Panic else
      let w = pack_mod3 (map (\<lambda>i. ucast (rng i mod 3)) [0..<64]) in
      res_bind (require Assertion (m3_lsb w AND m3_msb w = 0)) (\<lambda>_. Inr w))"

definition rand_delta_mod3 :: "(nat \<Rightarrow> u8) \<Rightarrow> u16 \<Rightarrow> WireMod3 res" where
  "rand_delta_mod3 rng q =
     (if q \<noteq> 3 then Inl Panic else
      res_bind (rand_mod3 rng 3) (\<lambda>w.
        Inr (w\<lparr>m3_lsb := m3_lsb w OR 1, m3_msb := m3_msb w AND 0xFFFFFFFFFFFFFFFE\<rparr>)))"

definition rand_modq :: "(nat \<Rightarrow> u16) \<Rightarrow> u16 \<Rightarrow> WireModQ res" where
  "rand_modq rng q =
     (if q < 2 then Inl Panic else
      res_bind (digits_per_u128 q) (\<lambda>n. Inr \<lparr>mq_q = q, mq_ds = map (\<lambda>i. rng i mod q) [0..<n]\<rparr>))"

definition rand_delta_modq :: "(nat \<Rightarrow> u16) \<Rightarrow> u16 \<Rightarrow> WireModQ res" where
  "rand_delta_modq rng q =
     (if q < 2 then Inl Panic else
      res_bind (rand_modq rng q) (\<lambda>w.
        if mq_ds w = [] then Inl Panic else Inr (w\<lparr>mq_ds := (mq_ds w)[0 := 1]\<rparr>)))"

text \<open>The three generators as one, with a source for each representation.\<close>

definition AllWire_rand :: "u128 \<Rightarrow> (nat \<Rightarrow> u8) \<Rightarrow> (nat \<Rightarrow> u16) \<Rightarrow> u16 \<Rightarrow> AllWire res" where
  "AllWire_rand r2 r3 rq q =
     (if q = 2 then res_bind (rand_mod2 r2 q) (\<lambda>w. Inr (Mod2 w))
      else if q = 3 then res_bind (rand_mod3 r3 q) (\<lambda>w. Inr (Mod3 w))
      else res_bind (rand_modq rq q) (\<lambda>w. Inr (ModN w)))"

definition AllWire_rand_delta :: "u128 \<Rightarrow> (nat \<Rightarrow> u8) \<Rightarrow> (nat \<Rightarrow> u16) \<Rightarrow> u16 \<Rightarrow> AllWire res" where
  "AllWire_rand_delta r2 r3 rq q =
     (if q = 2 then res_bind (rand_delta_mod2 r2 q) (\<lambda>w. Inr (Mod2 w))
      else if q = 3 then res_bind (rand_delta_mod3 r3 q) (\<lambda>w. Inr (Mod3 w))
      else res_bind (rand_delta_modq rq q) (\<lambda>w. Inr (ModN w)))"

lemmas wire_ops =
  WireMod2_as_block_def WireMod3_as_block_def WireModQ_as_block_def
  WireMod2_digits_def WireMod3_digits_def WireMod2_color_def WireMod3_color_def WireModQ_color_def
  plus_mod2_def negate_mod3_def negate_modq_def cmul_mod2_def cmul_modq_def

lemmas wire_rand =
  AllWire_rand_def AllWire_rand_delta_def rand_delta_mod2_def rand_mod2_def rand_delta_mod3_def rand_mod3_def
  rand_delta_modq_def rand_modq_def

termination cmul_mod3
proof (relation "measure (\<lambda>(c, x). unat c)")
  fix c :: u16 and x :: WireMod3
  assume c: "c \<noteq> 0" "c \<noteq> 1" "c \<noteq> 2"
  have "unat c \<noteq> 0" "unat c \<noteq> 1" "unat c \<noteq> 2" using c by (auto simp: word_unat_eq_iff)
  then have "unat c mod 3 < unat c" using mod_less_divisor [of 3 "unat c"] by linarith
  then show "((c mod 3, x), (c, x)) \<in> measure (\<lambda>(c, x). unat c)" by (simp add: unat_mod_distrib)
qed simp

declare cmul_mod3.simps [simp del]

subsection \<open>The digits a label stands for\<close>

definition mod3_digit :: "WireMod3 \<Rightarrow> nat \<Rightarrow> nat" where
  "mod3_digit x i = of_bool (bit (m3_lsb x) i) + 2 * of_bool (bit (m3_msb x) i)"

definition labels :: "AllWire \<Rightarrow> nat list" where
  "labels w =
     (case w of
        Mod2 x \<Rightarrow> map (\<lambda>i. of_bool (bit (m2_val x) i)) [0..<128]
      | Mod3 x \<Rightarrow> map (mod3_digit x) [0..<64]
      | ModN x \<Rightarrow> map unat (mq_ds x))"

definition wf_wire :: "AllWire \<Rightarrow> bool" where
  "wf_wire w \<longleftrightarrow>
     (case w of
        Mod2 x \<Rightarrow> True
      | Mod3 x \<Rightarrow> m3_lsb x AND m3_msb x = 0
      | ModN x \<Rightarrow> 4 \<le> mq_q x \<and> digits_per_u128 (mq_q x) = Inr (length (mq_ds x)) \<and>
          digits_below (mq_q x) (mq_ds x))"

lemma planes_disjoint: "(l :: 'a :: len word) AND m = 0 \<longleftrightarrow> (\<forall>i. \<not> (bit l i \<and> bit m i))"
  by (auto simp: bit_eq_iff bit_simps dest: bit_imp_le_length)

lemma mod3_digit_less: "m3_lsb x AND m3_msb x = 0 \<Longrightarrow> mod3_digit x i < 3"
  unfolding planes_disjoint by (auto simp: mod3_digit_def)

subsection \<open>Addition, negation, scaling\<close>

lemma plus_mod3_digit:
  assumes "m3_lsb x AND m3_msb x = 0" and "m3_lsb y AND m3_msb y = 0" and "i < 64"
  shows "mod3_digit (plus_mod3 x y) i = (mod3_digit x i + mod3_digit y i) mod 3"
  using assms(1,2) unfolding planes_disjoint mod3_digit_def plus_mod3_def Let_def
  by (cases "bit (m3_lsb x) i"; cases "bit (m3_msb x) i"; cases "bit (m3_lsb y) i"; cases "bit (m3_msb y) i")
    (auto simp: bit_simps)

lemma plus_mod3_planes:
  assumes "m3_lsb x AND m3_msb x = 0" and "m3_lsb y AND m3_msb y = 0"
  shows "m3_lsb (plus_mod3 x y) AND m3_msb (plus_mod3 x y) = 0"
  using assms unfolding planes_disjoint plus_mod3_def Let_def by (auto simp: bit_simps)

lemma cmul_mod3_digit:
  "m3_lsb x AND m3_msb x = 0 \<Longrightarrow>
   m3_lsb (cmul_mod3 c x) AND m3_msb (cmul_mod3 c x) = 0 \<and>
   mod3_digit (cmul_mod3 c x) i = unat c * mod3_digit x i mod 3"
proof (induction c x rule: cmul_mod3.induct)
  case (1 c x)
  have d: "mod3_digit x i < 3" using mod3_digit_less [OF "1.prems"] .
  have swap: "mod3_digit \<lparr>m3_lsb = m3_msb x, m3_msb = m3_lsb x\<rparr> i = 2 * mod3_digit x i mod 3"
    using "1.prems" unfolding planes_disjoint
    by (cases "bit (m3_lsb x) i"; cases "bit (m3_msb x) i") (auto simp: mod3_digit_def)
  consider "c = 0" | "c = 1" | "c = 2" | "c \<noteq> 0 \<and> c \<noteq> 1 \<and> c \<noteq> 2" by blast
  then show ?case
  proof cases
    case 1
    then show ?thesis by (simp add: cmul_mod3.simps mod3_digit_def)
  next
    case 2
    with "1.prems" d show ?thesis by (simp add: cmul_mod3.simps)
  next
    case 3
    with "1.prems" swap show ?thesis by (simp add: cmul_mod3.simps and.commute)
  next
    case 4
    then have "cmul_mod3 c x = cmul_mod3 (c mod 3) x" by (subst cmul_mod3.simps) simp
    with "1.IH" 4 "1.prems" show ?thesis by (simp add: unat_mod_distrib mod_mult_left_eq)
  qed
qed

lemma plus_digit_correct:
  assumes "x < q" and "y < q" and "unat x + unat y < 2 ^ 16"
  shows "\<exists>z. plus_digit q x y = Inr z \<and> z < q \<and> unat z = (unat x + unat y) mod unat q"
proof -
  have u: "unat x < unat q" "unat y < unat q" "unat x + unat y < 2 ^ 16"
    using assms by (simp_all add: word_less_nat_alt)
  have s: "unat (x + y) = unat x + unat y"
    using u by (subst unat_word_ariths(1)) simp
  have a: "checked_add x y = Inr (x + y)" using u by (simp add: checked_add_def)
  show ?thesis
  proof (cases "x + y < q")
    case True
    then have "unat x + unat y < unat q" by (simp add: word_less_nat_alt s)
    with a True s show ?thesis by (simp add: plus_digit_def)
  next
    case False
    then have le: "q \<le> x + y" by simp
    then have d: "unat (x + y - q) = unat x + unat y - unat q" by (simp add: unat_sub s)
    moreover have "unat q \<le> unat x + unat y" using le by (simp add: word_le_nat_alt s)
    ultimately have "unat (x + y - q) = (unat x + unat y) mod unat q"
      using u by (simp add: le_mod_geq)
    moreover have "x + y - q < q" using u d by (simp add: word_less_nat_alt)
    ultimately show ?thesis using a False by (simp add: plus_digit_def)
  qed
qed

lemma plus_digit_overflow: "\<not> unat x + unat y < 2 ^ 16 \<Longrightarrow> plus_digit q x y = Inl Panic"
  by (simp add: plus_digit_def checked_add_def)

lemma negate_digit_correct:
  assumes "x < q"
  shows "\<exists>z. negate_digit q x = Inr z \<and> z < q \<and> (unat x + unat z) mod unat q = 0"
proof (cases "x = 0")
  case False
  have u: "unat x < unat q" using assms by (simp add: word_less_nat_alt)
  have x0: "0 < unat x" using False by (simp add: unat_gt_0)
  have "unat (q - x) = unat q - unat x" using assms by (simp add: unat_sub)
  with u x0 have "q - x < q" "(unat x + unat (q - x)) mod unat q = 0" by (simp_all add: word_less_nat_alt)
  with False assms show ?thesis by (simp add: negate_digit_def checked_sub_def word_gt_0)
qed (use assms in \<open>simp add: negate_digit_def\<close>)

lemma cmul_digit_correct:
  assumes "x < q"
  shows "\<exists>z. cmul_digit q c x = Inr z \<and> z < q \<and> unat z = unat c * unat x mod unat q"
proof -
  have q: "0 < unat q" "q \<noteq> 0" using assms by (auto simp: word_less_nat_alt)
  have u: "unat (ucast w :: u32) = unat w" for w :: u16
    using unat_u16_less [of w] by (simp add: unsigned_ucast_eq take_bit_nat_eq_self_iff)
  have "unat x * unat c \<le> 65535 * 65535"
    by (rule mult_le_mono) (use unat_u16_less [of x] unat_u16_less [of c] in simp_all)
  then have p: "unat x * unat c < 2 ^ 32" by simp
  let ?p = "(ucast x :: u32) * ucast c"
  have up: "unat ?p = unat x * unat c" using p by (subst unat_word_ariths(2)) (simp add: u)
  have m: "unat (?p mod ucast q) = unat x * unat c mod unat q" by (simp add: unat_mod_distrib up u)
  have lt: "unat x * unat c mod unat q < unat q" using q by simp
  have "unat (ucast (?p mod ucast q) :: u16) = unat x * unat c mod unat q"
    using lt unat_u16_less [of q] by (simp add: unsigned_ucast_eq m take_bit_nat_eq_self_iff)
  with lt q p show ?thesis
    by (simp add: cmul_digit_def checked_mul_def u word_less_nat_alt mult.commute)
qed


text \<open>A digit operation applied along a label.\<close>

lemma mapM_res_digits:
  assumes "\<And>x. x \<in> set xs \<Longrightarrow> \<exists>z. f x = Inr z \<and> z < q \<and> P x (unat z)"
  shows "\<exists>zs. mapM_res f xs = Inr zs \<and> length zs = length xs \<and> digits_below q zs \<and>
     (\<forall>i<length xs. P (xs ! i) (map unat zs ! i))"
  using assms
proof (induction xs)
  case (Cons x xs)
  obtain z where z: "f x = Inr z" "z < q" "P x (unat z)" using Cons.prems [of x] by auto
  have "\<exists>zs. mapM_res f xs = Inr zs \<and> length zs = length xs \<and> digits_below q zs \<and>
     (\<forall>i<length xs. P (xs ! i) (map unat zs ! i))"
    using Cons.prems by (intro Cons.IH) simp
  then obtain zs where zs: "mapM_res f xs = Inr zs" "length zs = length xs" "digits_below q zs"
    "\<forall>i<length xs. P (xs ! i) (map unat zs ! i)" by blast
  have "\<forall>i<length (x # xs). P ((x # xs) ! i) (map unat (z # zs) ! i)"
    using z zs by (simp add: nth_Cons split: nat.split)
  with z zs show ?case by (intro exI [of _ "z # zs"]) (simp add: digits_below_def)
qed (simp add: digits_below_def)

lemma mapM_res_panic:
  assumes "x \<in> set xs" and "f x = Inl Panic" and "\<And>x. x \<in> set xs \<Longrightarrow> f x = Inl Panic \<or> (\<exists>z. f x = Inr z)"
  shows "mapM_res f xs = Inl Panic"
  using assms
proof (induction xs)
  case (Cons y ys)
  show ?case
  proof (cases "f y")
    case (Inl e)
    then have "e = Panic" using Cons.prems(3) [of y] by auto
    then show ?thesis using Inl by simp
  next
    case (Inr z)
    then have "x \<in> set ys" using Cons.prems(1,2) by auto
    then show ?thesis using Cons Inr by simp
  qed
qed simp

text \<open>The digit sums of two labels fit 16 bits; modulo at most 32768 they always do.\<close>

definition sums_fit :: "AllWire \<Rightarrow> AllWire \<Rightarrow> bool" where
  "sums_fit x y \<longleftrightarrow> list_all (\<lambda>(a, b). a + b < 2 ^ 16) (zip (labels x) (labels y))"

definition same_kind :: "AllWire \<Rightarrow> AllWire \<Rightarrow> bool" where
  "same_kind x y \<longleftrightarrow>
     (case (x, y) of
        (Mod2 a, Mod2 b) \<Rightarrow> True
      | (Mod3 a, Mod3 b) \<Rightarrow> True
      | (ModN a, ModN b) \<Rightarrow> mq_q a = mq_q b
      | _ \<Rightarrow> False)"

lemma plus_modq_correct:
  assumes x: "wf_wire (ModN x)" and y: "wf_wire (ModN y)" and q: "mq_q x = mq_q y" and fit: "sums_fit (ModN x) (ModN y)"
  shows "\<exists>z. plus_modq x y = Inr z \<and> wf_wire (ModN z) \<and> mq_q z = mq_q x \<and>
     labels (ModN z) = map2 (\<lambda>a b. (a + b) mod unat (mq_q x)) (labels (ModN x)) (labels (ModN y))"
proof -
  have len: "length (mq_ds y) = length (mq_ds x)" using x y q by (simp add: wf_wire_def)
  have below: "\<forall>d\<in>set (mq_ds x). d < mq_q x" "\<forall>d\<in>set (mq_ds y). d < mq_q x"
    using x y q by (simp_all add: wf_wire_def digits_below_def list_all_iff)
  let ?P = "\<lambda>(a, b) z. z = (unat a + unat b) mod unat (mq_q x)"
  have "\<exists>z. (case p of (a, b) \<Rightarrow> plus_digit (mq_q x) a b) = Inr z \<and> z < mq_q x \<and> ?P p (unat z)"
    if "p \<in> set (zip (mq_ds x) (mq_ds y))" for p
  proof -
    obtain a b where ab: "p = (a, b)" by (cases p)
    with that have "a \<in> set (mq_ds x)" "b \<in> set (mq_ds y)" by (auto dest: set_zip_leftD set_zip_rightD)
    with ab below have p: "p = (a, b)" "a < mq_q x" "b < mq_q x" by auto
    have "unat a + unat b < 2 ^ 16"
      using fit that unfolding p(1) by (auto simp: sums_fit_def labels_def zip_map_map list_all_iff)
    from plus_digit_correct [OF p(2,3) this] show ?thesis by (simp add: p(1))
  qed
  from mapM_res_digits [of "zip (mq_ds x) (mq_ds y)" _ _ ?P, OF this] len
  obtain zs where zs: "mapM_res (\<lambda>(a, b). plus_digit (mq_q x) a b) (zip (mq_ds x) (mq_ds y)) = Inr zs"
    "length zs = length (mq_ds x)" "digits_below (mq_q x) zs"
    "\<forall>i<length (mq_ds x). unat (zs ! i) = (unat (mq_ds x ! i) + unat (mq_ds y ! i)) mod unat (mq_q x)"
    by auto
  have "map unat zs = map2 (\<lambda>a b. (a + b) mod unat (mq_q x)) (map unat (mq_ds x)) (map unat (mq_ds y))"
    by (rule nth_equalityI) (use zs len in simp_all)
  with zs x len show ?thesis
    by (intro exI [of _ "x\<lparr>mq_ds := zs\<rparr>"]) (simp add: plus_modq_def wf_wire_def labels_def)
qed

lemma plus_modq_overflow:
  assumes x: "wf_wire (ModN x)" and y: "wf_wire (ModN y)" and q: "mq_q x = mq_q y" and fit: "\<not> sums_fit (ModN x) (ModN y)"
  shows "plus_modq x y = Inl Panic"
proof -
  have len: "length (mq_ds x) = length (mq_ds y)" using x y q by (simp add: wf_wire_def)
  have below: "\<forall>d\<in>set (mq_ds x). d < mq_q x" "\<forall>d\<in>set (mq_ds y). d < mq_q x"
    using x y q by (simp_all add: wf_wire_def digits_below_def list_all_iff)
  obtain a b where ab: "(a, b) \<in> set (zip (mq_ds x) (mq_ds y))" "\<not> unat a + unat b < 2 ^ 16"
    using fit by (auto simp: sums_fit_def labels_def zip_map_map list_all_iff)
  have "mapM_res (\<lambda>(a, b). plus_digit (mq_q x) a b) (zip (mq_ds x) (mq_ds y)) = Inl Panic"
  proof (rule mapM_res_panic [OF ab(1)])
    show "(case (a, b) of (a, b) \<Rightarrow> plus_digit (mq_q x) a b) = Inl Panic" using plus_digit_overflow [OF ab(2)] by simp
    fix p assume p: "p \<in> set (zip (mq_ds x) (mq_ds y))"
    obtain u v where uv: "p = (u, v)" by (cases p)
    then have "u < mq_q x" "v < mq_q x" using p below by (auto dest: set_zip_leftD set_zip_rightD)
    then show "(case p of (a, b) \<Rightarrow> plus_digit (mq_q x) a b) = Inl Panic \<or> (\<exists>z. (case p of (a, b) \<Rightarrow> plus_digit (mq_q x) a b) = Inr z)"
      using plus_digit_correct [of u "mq_q x" v] plus_digit_overflow [of u v "mq_q x"] by (auto simp: uv)
  qed
  then show ?thesis using len by (simp add: plus_modq_def)
qed

lemma map_digit_correct:
  assumes x: "wf_wire (ModN x)"
    and f: "\<And>d. d < mq_q x \<Longrightarrow> \<exists>z. f d = Inr z \<and> z < mq_q x \<and> P (unat d) (unat z)"
  shows "\<exists>zs. mapM_res f (mq_ds x) = Inr zs \<and> wf_wire (ModN (x\<lparr>mq_ds := zs\<rparr>)) \<and>
     list_all2 P (labels (ModN x)) (map unat zs)"
proof -
  have "\<forall>d\<in>set (mq_ds x). d < mq_q x" using x by (simp add: wf_wire_def digits_below_def list_all_iff)
  then have "\<exists>zs. mapM_res f (mq_ds x) = Inr zs \<and> length zs = length (mq_ds x) \<and> digits_below (mq_q x) zs \<and>
     (\<forall>i<length (mq_ds x). P (unat (mq_ds x ! i)) (map unat zs ! i))"
    using f by (intro mapM_res_digits [where P = "\<lambda>d. P (unat d)"]) simp
  with x show ?thesis by (auto simp: wf_wire_def labels_def list_all2_conv_all_nth)
qed

lemma labels_below:
  assumes "wf_wire x" and "a \<in> set (labels x)"
  shows "a < unat (wire_modulus x)"
  using assms by (cases x) (auto simp: labels_def wf_wire_def mod3_digit_def digits_below_def list_all_iff word_less_nat_alt
      planes_disjoint bit_simps)

lemma small_sums_fit:
  assumes "wf_wire x" and "wf_wire y" and "wire_modulus x = wire_modulus y" and "wire_modulus x \<le> 32768"
  shows "sums_fit x y"
proof -
  have q: "unat (wire_modulus x) \<le> 32768" using assms(4) by (simp add: word_le_nat_alt)
  have "a + b < 2 ^ 16" if "(a, b) \<in> set (zip (labels x) (labels y))" for a b
  proof -
    have "a < unat (wire_modulus x)" "b < unat (wire_modulus x)"
      using labels_below [OF assms(1)] labels_below [OF assms(2)] assms(3) that by (auto dest: set_zip_leftD set_zip_rightD)
    then show ?thesis using q by simp
  qed
  then show ?thesis by (auto simp: sums_fit_def list_all_iff)
qed

lemma same_kind_modulus: "same_kind x y \<Longrightarrow> wire_modulus x = wire_modulus y"
  by (cases x; cases y) (simp_all add: same_kind_def)

lemma wire_arithmetic_fits:
  assumes "wf_wire x" and "wf_wire y" and "same_kind x y" and fit: "sums_fit x y"
  shows "\<exists>s n m. plus_eq x y = Inr s \<and> negate_eq x = Inr n \<and> cmul_eq c x = Inr m \<and>
     wf_wire s \<and> wf_wire n \<and> wf_wire m \<and> same_kind s x \<and> same_kind n x \<and> same_kind m x \<and>
     labels s = map2 (\<lambda>a b. (a + b) mod unat (wire_modulus x)) (labels x) (labels y) \<and>
     list_all2 (\<lambda>a b. (a + b) mod unat (wire_modulus x) = 0) (labels x) (labels n) \<and>
     labels m = map (\<lambda>a. unat c * a mod unat (wire_modulus x)) (labels x)"
proof (cases x)
  case (Mod2 a)
  with assms(3) obtain b where y: "y = Mod2 b" by (cases y) (auto simp: same_kind_def)
  have c: "c AND 1 = 0 \<longleftrightarrow> even (unat c)"
    by (simp add: and_one_eq even_iff_mod_2_eq_zero word_unat_eq_iff unat_mod_distrib)
  show ?thesis unfolding Mod2 y
    by (simp add: wire_ops wf_wire_def same_kind_def labels_def c list_all2_conv_all_nth bit_simps
        nth_equalityI)
      (auto intro!: nth_equalityI simp: bit_simps mod_2_eq_odd)
next
  case (Mod3 a)
  with assms(3) obtain b where y: "y = Mod3 b" by (cases y) (auto simp: same_kind_def)
  have d: "m3_lsb a AND m3_msb a = 0" "m3_lsb b AND m3_msb b = 0"
    using assms(1,2) by (simp_all add: Mod3 y wf_wire_def)
  have n: "(mod3_digit a i + mod3_digit (negate_mod3 a) i) mod 3 = 0" for i
    by (simp add: mod3_digit_def negate_mod3_def)
  have np: "m3_lsb (negate_mod3 a) AND m3_msb (negate_mod3 a) = 0" using d(1) by (simp add: negate_mod3_def and.commute)
  have s: "labels (Mod3 (plus_mod3 a b)) = map2 (\<lambda>u v. (u + v) mod 3) (labels x) (labels y)"
    by (rule nth_equalityI) (simp_all add: Mod3 y labels_def plus_mod3_digit d)
  have m: "labels (Mod3 (cmul_mod3 c a)) = map (\<lambda>u. unat c * u mod 3) (labels x)"
    using cmul_mod3_digit [OF d(1)] by (simp add: Mod3 labels_def)
  show ?thesis
    using s m n np d plus_mod3_planes [OF d] cmul_mod3_digit [OF d(1), of c 0]
    by (simp add: Mod3 y wf_wire_def same_kind_def list_all2_conv_all_nth)
      (simp add: labels_def)
next
  case (ModN a)
  with assms(3) obtain b where y: "y = ModN b" and q: "mq_q a = mq_q b" by (cases y) (auto simp: same_kind_def)
  have wf: "wf_wire (ModN a)" "wf_wire (ModN b)" and fits: "sums_fit (ModN a) (ModN b)"
    using assms by (simp_all add: ModN y)
  obtain z where z: "plus_modq a b = Inr z" "wf_wire (ModN z)" "mq_q z = mq_q a"
    "labels (ModN z) = map2 (\<lambda>a' b'. (a' + b') mod unat (mq_q a)) (labels (ModN a)) (labels (ModN b))"
    using plus_modq_correct [OF wf q fits] by blast
  obtain ns where n: "mapM_res (negate_digit (mq_q a)) (mq_ds a) = Inr ns" "wf_wire (ModN (a\<lparr>mq_ds := ns\<rparr>))"
    "list_all2 (\<lambda>u v. (u + v) mod unat (mq_q a) = 0) (labels (ModN a)) (map unat ns)"
    using map_digit_correct [OF wf(1), of "negate_digit (mq_q a)" "\<lambda>u v. (u + v) mod unat (mq_q a) = 0"]
      negate_digit_correct by blast
  obtain ms where m: "mapM_res (cmul_digit (mq_q a) c) (mq_ds a) = Inr ms" "wf_wire (ModN (a\<lparr>mq_ds := ms\<rparr>))"
    "list_all2 (\<lambda>u v. v = unat c * u mod unat (mq_q a)) (labels (ModN a)) (map unat ms)"
    using map_digit_correct [OF wf(1), of "cmul_digit (mq_q a) c" "\<lambda>u v. v = unat c * u mod unat (mq_q a)"]
      cmul_digit_correct by blast
  have "map unat ms = map (\<lambda>u. unat c * u mod unat (mq_q a)) (labels (ModN a))"
    using m(3) by (intro nth_equalityI) (auto simp: list_all2_conv_all_nth)
  then show ?thesis using z n m
    by (simp add: wire_ops ModN y same_kind_def) (simp add: labels_def)
qed

lemma neutral_label:
  assumes "wf_wire x"
  shows "\<exists>y. wf_wire y \<and> same_kind x y \<and> sums_fit x y"
proof (cases x)
  case (ModN a)
  let ?y = "ModN (a\<lparr>mq_ds := replicate (length (mq_ds a)) 0\<rparr>)"
  have "wf_wire ?y" using assms by (auto simp: ModN wf_wire_def digits_below_def list_all_iff word_less_nat_alt word_le_nat_alt)
  moreover have "sums_fit x ?y"
    using unat_u16_less by (auto simp: ModN sums_fit_def labels_def list_all_iff set_zip)
  ultimately show ?thesis by (intro exI [of _ ?y]) (simp add: ModN same_kind_def)
qed (use assms small_sums_fit [OF assms assms refl] in \<open>auto simp: same_kind_def intro!: exI [of _ x]\<close>)

text \<open>
  C7. On well-formed labels of one modulus, \<open>negate_eq\<close> and \<open>cmul_eq\<close> return, without a panic,
  well-formed labels of the same modulus whose digits are the digit-wise opposites and multiples
  modulo \<open>q\<close>. \<open>plus_eq\<close> returns the digit-wise sums when no two digits add up to 2^16 or more, which is
  always so for the moduli up to 32768; above that it panics exactly when some pair does, because the
  sum is taken in \<open>u16\<close> before the reduction. The bit-sliced arithmetic of \<open>WireMod3\<close> is covered like
  the two others.
\<close>

theorem wire_arithmetic:
  assumes "wf_wire x" and "wf_wire y" and "same_kind x y"
  shows "(\<exists>n. negate_eq x = Inr n \<and> wf_wire n \<and> same_kind n x \<and>
       list_all2 (\<lambda>a b. (a + b) mod unat (wire_modulus x) = 0) (labels x) (labels n)) \<and>
     (\<exists>m. cmul_eq c x = Inr m \<and> wf_wire m \<and> same_kind m x \<and>
       labels m = map (\<lambda>a. unat c * a mod unat (wire_modulus x)) (labels x)) \<and>
     (if sums_fit x y
      then \<exists>s. plus_eq x y = Inr s \<and> wf_wire s \<and> same_kind s x \<and>
        labels s = map2 (\<lambda>a b. (a + b) mod unat (wire_modulus x)) (labels x) (labels y)
      else plus_eq x y = Inl Panic \<and> 32768 < wire_modulus x)"
proof -
  obtain y0 where "wf_wire y0" "same_kind x y0" "sums_fit x y0" using neutral_label [OF assms(1)] by blast
  from wire_arithmetic_fits [OF assms(1) this, of c]
  have linear: "(\<exists>n. negate_eq x = Inr n \<and> wf_wire n \<and> same_kind n x \<and>
       list_all2 (\<lambda>a b. (a + b) mod unat (wire_modulus x) = 0) (labels x) (labels n)) \<and>
     (\<exists>m. cmul_eq c x = Inr m \<and> wf_wire m \<and> same_kind m x \<and>
       labels m = map (\<lambda>a. unat c * a mod unat (wire_modulus x)) (labels x))" by blast
  show ?thesis
  proof (cases "sums_fit x y")
    case True
    with linear wire_arithmetic_fits [OF assms True, of c] show ?thesis by auto
  next
    case False
    then have big: "32768 < wire_modulus x"
      using small_sums_fit [OF assms(1,2) same_kind_modulus [OF assms(3)]] not_le by blast
    then obtain a where x: "x = ModN a" by (cases x) simp_all
    with assms(3) obtain b where y: "y = ModN b" and q: "mq_q a = mq_q b" by (cases y) (auto simp: same_kind_def)
    have "plus_eq x y = Inl Panic"
      using plus_modq_overflow [of a b] assms(1,2) False q by (simp add: x y)
    with linear big False show ?thesis by auto
  qed
qed

theorem wire_arithmetic_witness:
  "(\<exists>s. plus_eq (Mod3 \<lparr>m3_lsb = 5, m3_msb = 2\<rparr>) (Mod3 \<lparr>m3_lsb = 4, m3_msb = 3\<rparr>) = Inr s \<and>
     labels s = map2 (\<lambda>a b. (a + b) mod 3) (labels (Mod3 \<lparr>m3_lsb = 5, m3_msb = 2\<rparr>)) (labels (Mod3 \<lparr>m3_lsb = 4, m3_msb = 3\<rparr>))) \<and>
   plus_eq (ModN \<lparr>mq_q = 65535, mq_ds = replicate 8 40000\<rparr>) (ModN \<lparr>mq_q = 65535, mq_ds = replicate 8 40000\<rparr>) = Inl Panic"
proof -
  let ?x = "Mod3 \<lparr>m3_lsb = 5, m3_msb = 2\<rparr>" and ?y = "Mod3 \<lparr>m3_lsb = 4, m3_msb = 3\<rparr>"
  let ?z = "ModN \<lparr>mq_q = 65535, mq_ds = replicate 8 40000\<rparr>"
  have xy: "wf_wire ?x" "wf_wire ?y" "same_kind ?x ?y" by (simp_all add: wf_wire_def same_kind_def)
  have fit: "sums_fit ?x ?y" by (rule small_sums_fit [OF xy(1,2)]) simp_all
  have z: "wf_wire ?z" "same_kind ?z ?z"
    by (simp_all add: wf_wire_def same_kind_def digits_per_u128_def ceil_log2_def digits_below_def list_all_iff)
  have "\<not> sums_fit ?z ?z" by (simp add: sums_fit_def labels_def list_all_iff)
  then show ?thesis using wire_arithmetic [OF xy, of 5] wire_arithmetic [OF z(1) z(1) z(2), of 5] fit by simp
qed


subsection \<open>The digit lookup as an interface\<close>

lemma block_bytes_nth: "i < 16 \<Longrightarrow> block_bytes b ! i = ucast (drop_bit (8 * i) b)"
  by (simp add: block_bytes_def)

lemma unat_block_byte: "i < 16 \<Longrightarrow> unat (block_bytes b ! i) = unat b div 256 ^ i mod 256"
  by (simp only: block_bytes_nth unsigned_ucast_eq take_bit_eq_mod unat_drop_bit_eq)
    (simp add: drop_bit_eq_div power_mult)

lemma digits_256_mod: "(x mod 256 ^ Suc n :: nat) = x mod 256 ^ n + (x div 256 ^ n mod 256) * 256 ^ n"
  by (simp only: power_Suc2 mod_mult2_eq) simp

text \<open>
  What \<open>_from_block_lookup\<close> relies on: the row of byte \<open>x\<close> at position \<open>pos\<close> holds the
  digits of \<open>x * 256 ^ pos\<close>, with room for the value; position 15 has the longest rows; and they
  are at least as long as a label.
\<close>

locale digit_lookup =
  fixes lk :: "u8 \<Rightarrow> u16 \<Rightarrow> nat \<Rightarrow> u16 list res" and q :: u16 and nd :: "nat \<Rightarrow> nat"
  assumes base: "5 \<le> unat q" "unat q \<le> 113"
    and row: "pos < 16 \<Longrightarrow> lk x q pos = Inr (map of_nat (digits (unat q) (nd pos) (unat x * 256 ^ pos)))"
    and room: "pos < 16 \<Longrightarrow> 255 * 256 ^ pos < unat q ^ nd pos"
    and longest: "pos < 16 \<Longrightarrow> nd pos \<le> nd 15"
    and covers: "digits_per_u128 q = Inr n \<Longrightarrow> n \<le> nd 15"
begin

lemma row_value:
  assumes "pos < 16"
  shows "dval (unat q) (digits (unat q) (nd pos) (unat (x :: u8) * 256 ^ pos)) = unat x * 256 ^ pos"
proof -
  have "unat x \<le> 255" using unsigned_less [of x, where ?'a = nat] by simp
  then have "unat x * 256 ^ pos \<le> 255 * 256 ^ pos" by (rule mult_le_mono1)
  also have "\<dots> < unat q ^ nd pos" by (rule room [OF assms])
  finally show ?thesis using base by (simp add: dval_digits)
qed

text \<open>Adding the rows of the bytes \<open>0, \<dots>, 14\<close> to the row of byte 15 adds up the block.\<close>

lemma accumulate:
  "\<exists>ds. foldM_res (\<lambda>ds i. res_bind (lk (block_bytes inp ! i) q i) (\<lambda>cs. base_q_add_eq ds cs q))
      (map of_nat (digits (unat q) (nd 15) (unat (block_bytes inp ! 15) * 256 ^ 15))) [0..<15] = Inr ds \<and>
    ds = map of_nat (digits (unat q) (nd 15) (unat (block_bytes inp ! 15) * 256 ^ 15 + unat inp mod 256 ^ 15))"
    (is "\<exists>ds. foldM_res ?f ?s [0..<15] = Inr ds \<and> _")
proof -
  let ?top = "unat (block_bytes inp ! 15) * 256 ^ 15"
  let ?P = "\<lambda>i ds. ds = (map of_nat (digits (unat q) (nd 15) (?top + unat inp mod 256 ^ i)) :: u16 list)"
  have "\<exists>ds'. ?f ds i = Inr ds' \<and> ?P (Suc i) ds'" if i: "i < 15" and ds: "?P i ds" for i ds
  proof -
    let ?b = "unat (block_bytes inp ! i)"
    let ?v = "?top + unat inp mod 256 ^ i"
    have i16: "i < 16" using i by simp
    have "base_q_add_eq ds (map of_nat (digits (unat q) (nd i) (?b * 256 ^ i))) (of_nat (unat q)) =
        Inr (map of_nat (digits (unat q) (length (digits (unat q) (nd 15) ?v))
          (dval (unat q) (digits (unat q) (nd 15) ?v) + dval (unat q) (digits (unat q) (nd i) (?b * 256 ^ i)))))"
      unfolding ds using base longest [OF i16] by (intro base_q_add_eq_digits) simp_all
    also have "dval (unat q) (digits (unat q) (nd i) (?b * 256 ^ i)) = ?b * 256 ^ i"
      by (rule row_value [OF i16])
    also have "digits (unat q) (length (digits (unat q) (nd 15) ?v)) (dval (unat q) (digits (unat q) (nd 15) ?v) + ?b * 256 ^ i) =
        digits (unat q) (nd 15) (?v + ?b * 256 ^ i)"
      using base by (simp add: digits_inj dval_digits mod_add_left_eq)
    also have "?v + ?b * 256 ^ i = ?top + unat inp mod 256 ^ Suc i"
      by (simp only: digits_256_mod unat_block_byte [OF i16] add.assoc)
    finally show ?thesis by (simp add: row [OF i16] del: power_Suc)
  qed
  from foldM_res_upt [where P = ?P and f = ?f, of ?s 15, OF _ this] show ?thesis by simp
qed

lemma from_block_lookup_digits:
  assumes n: "digits_per_u128 q = Inr n"
  shows "from_block_lookup lk inp q = Inr (map of_nat (digits (unat q) n (unat inp)))"
proof -
  have q: "q < 256" "lookup_defined_for_mod q = Inr True"
    using base c_num_digits_eq [of 0 q] NDIGITS_entry(2) [of "unat q" 0] ndigits_less_60 [of "unat q" 0]
    by (auto simp: word_less_nat_alt lookup_defined_for_mod_def unat_of_nat)
  have "unat inp < 256 ^ 16" using unsigned_less [of inp, where ?'a = nat] by simp
  then have "unat inp = unat inp mod 256 ^ Suc 15" by simp
  then have sum: "unat (block_bytes inp ! 15) * 256 ^ 15 + unat inp mod 256 ^ 15 = unat inp"
    by (simp only: digits_256_mod unat_block_byte)
  obtain ds where ds: "foldM_res (\<lambda>ds i. res_bind (lk (block_bytes inp ! i) q i) (\<lambda>cs. base_q_add_eq ds cs q))
      (map of_nat (digits (unat q) (nd 15) (unat (block_bytes inp ! 15) * 256 ^ 15))) [0..<15] = Inr ds"
    "ds = map of_nat (digits (unat q) (nd 15) (unat inp))"
    using accumulate [of inp] unfolding sum by blast
  have r: "lk (block_bytes inp ! 15) q 15 =
      Inr (map of_nat (digits (unat q) (nd 15) (unat (block_bytes inp ! 15) * 256 ^ 15)))"
    by (rule row) simp
  show ?thesis
    by (simp only: from_block_lookup_def q require_True res_bind.simps r ds(1) n)
      (simp add: ds(2) take_map take_digits covers [OF n])
qed

end

text \<open>The tables provide the interface, whenever they pass the check.\<close>

lemma NDIGITS_covers:
  assumes q: "5 \<le> unat q" "unat q \<le> 113" and n: "digits_per_u128 q = Inr n"
  shows "n \<le> ndigits (unat q) 15"
proof (rule ccontr)
  assume "\<not> n \<le> ndigits (unat q) 15"
  then have le: "ndigits (unat q) 15 \<le> n - 1" by simp
  have q2: "2 \<le> unat q" using q by simp
  note b = digit_width_bounds [OF q2 unat_u16_less]
  have w: "3 \<le> digit_width (unat q)" using q by (simp add: digit_width_def ceil_log2_def)
  have n': "n = 128 div digit_width (unat q)" using digits_per_u128_width [OF q2] n by simp
  have "digit_width (unat q) * (n - 1) = digit_width (unat q) * n - digit_width (unat q)"
    by (simp add: right_diff_distrib')
  moreover have "digit_width (unat q) * n \<le> 128" by (simp add: n')
  ultimately have e: "digit_width (unat q) * (n - 1) \<le> 125" using w by linarith
  have "255 * 256 ^ 15 < unat q ^ ndigits (unat q) 15" by (rule NDIGITS_entry(4) [OF q]) simp
  also have "\<dots> \<le> unat q ^ (n - 1)" by (rule power_increasing [OF le]) (use q in simp)
  also have "\<dots> \<le> (2 ^ digit_width (unat q)) ^ (n - 1)" by (rule power_mono) (use b in simp_all)
  also have "\<dots> = 2 ^ (digit_width (unat q) * (n - 1))" by (simp add: power_mult)
  also have "\<dots> \<le> 2 ^ 125" by (rule power_increasing [OF e]) simp
  finally show False by simp
qed

lemma tables_digit_lookup:
  assumes q: "5 \<le> unat q" "unat q \<le> 113"
    and ok: "\<And>pos. pos < 16 \<Longrightarrow> table_ok (unat q) pos (rom (unat q) pos)"
  shows "digit_lookup (lookup_digits_mod_at_position rom) q (ndigits (unat q))"
proof
  show "5 \<le> unat q" "unat q \<le> 113" by (fact q)+
  show "lookup_digits_mod_at_position rom x q pos =
      Inr (map of_nat (digits (unat q) (ndigits (unat q) pos) (unat x * 256 ^ pos)))" if "pos < 16" for x pos
    by (rule lookup_digits_ok [where rom = rom, OF ok [OF that] q that])
  show "255 * 256 ^ pos < unat q ^ ndigits (unat q) pos" if "pos < 16" for pos
    by (rule NDIGITS_entry(4) [OF q that])
  show "ndigits (unat q) pos \<le> ndigits (unat q) 15" if "pos < 16" for pos
    using NDIGITS_entry(5) [OF q, of pos 15] that by simp
  show "n \<le> ndigits (unat q) 15" if "digits_per_u128 q = Inr n" for n
    by (rule NDIGITS_covers [OF q that])
qed

subsection \<open>Powers of two\<close>

lemma bit_top:
  assumes "2 ^ k \<le> n" and "n < 2 ^ Suc k"
  shows "bit (n :: nat) k"
proof -
  have "n div 2 ^ k = 1" using assms by (intro div_nat_eqI) simp_all
  then show ?thesis by (simp add: bit_iff_odd)
qed

lemma is_power_of_2_iff:
  assumes q: "2 \<le> unat q"
  shows "is_power_of_2 q = Inr (unat q = 2 ^ digit_width (unat q))"
proof -
  let ?w = "digit_width (unat q)"
  note b = digit_width_bounds [OF q unat_u16_less]
  obtain k where k: "?w = Suc k" using b(1) by (cases ?w) auto
  have le: "1 \<le> q" using q by (simp add: word_le_nat_alt)
  have u: "unat (q - 1) = unat q - 1" using le by (simp add: unat_sub)
  have a: "unat (q AND (q - 1)) = unat q AND (unat q - 1)" by (simp add: unsigned_and_eq u)
  have "q AND (q - 1) = 0 \<longleftrightarrow> unat q = 2 ^ ?w"
  proof
    assume z: "q AND (q - 1) = 0"
    show "unat q = 2 ^ ?w"
    proof (rule ccontr)
      assume "unat q \<noteq> 2 ^ ?w"
      with b(4) have "unat q < 2 ^ Suc k" by (simp add: k)
      moreover from b(3) have "2 ^ k < unat q" by (simp add: k)
      ultimately have "bit (unat q) k" "bit (unat q - 1) k" by (auto intro!: bit_top)
      then have "bit (unat (q AND (q - 1))) k" by (simp add: a bit_simps)
      with z show False by simp
    qed
  next
    assume p: "unat q = 2 ^ ?w"
    have "(2 ^ ?w :: nat) AND (2 ^ ?w - 1) = 0"
      unfolding mask_eq_exp_minus_1 [symmetric] take_bit_eq_mask [symmetric] by (simp add: take_bit_eq_mod)
    with p have "unat q AND (unat q - 1) = 0" by simp
    with a show "q AND (q - 1) = 0" by (simp add: word_unat_eq_iff)
  qed
  then show ?thesis using le by (simp add: is_power_of_2_def checked_sub_def)
qed

lemma digits_nth: "i < n \<Longrightarrow> digits q n x ! i = x div q ^ i mod q"
proof (induction n arbitrary: x i)
  case (Suc n)
  then show ?case by (cases i) (simp_all add: div_mult2_eq)
qed simp

lemma digits_eq_map: "digits q n x = map (\<lambda>i. x div q ^ i mod q) [0..<n]"
  by (rule nth_equalityI) (simp_all add: digits_nth)

lemma split_digits_base:
  assumes n: "digits_per_u128 q = Inr n" and w: "128 div n \<le> 16"
  shows "split_digits inp q = Inr (map of_nat (digits (2 ^ (128 div n)) n (unat inp)))"
proof -
  let ?w = "128 div n"
  have "ucast (drop_bit (?w * i) inp AND (push_bit ?w 1 - 1)) = (of_nat (unat inp div (2 ^ ?w) ^ i mod 2 ^ ?w) :: u16)" for i
  proof -
    have "(push_bit ?w 1 - 1 :: u128) = mask ?w" by (simp add: mask_eq_exp_minus_1)
    then have "unat (drop_bit (?w * i) inp AND (push_bit ?w 1 - 1)) = take_bit ?w (drop_bit (?w * i) (unat inp))"
      using w by (simp add: take_bit_eq_mask [symmetric] unsigned_take_bit_eq unat_drop_bit_eq)
    also have "\<dots> = unat inp div (2 ^ ?w) ^ i mod 2 ^ ?w"
      by (simp add: take_bit_eq_mod drop_bit_eq_div power_mult)
    finally show ?thesis unfolding ucast_u128_u16 by simp
  qed
  then show ?thesis by (simp add: split_digits_def n Let_def digits_eq_map del: ucast_u128_u16)
qed

text \<open>The width the branch computes is the width of a digit, except for 13 and 15.\<close>

lemma split_width:
  assumes "1 \<le> w" and "w \<le> (16 :: nat)" and "w \<noteq> 13" and "w \<noteq> 15"
  shows "128 div (128 div w) = w"
proof -
  have "list_all (\<lambda>w. w = 13 \<or> w = 15 \<or> 128 div (128 div w) = w) [1..<17]" by code_simp
  moreover have "w \<in> set [1..<17]" using assms by simp
  ultimately show ?thesis using assms(3,4) unfolding list_all_iff by blast
qed


subsection \<open>Blocks and labels\<close>

definition tables_for :: "(nat \<Rightarrow> nat \<Rightarrow> int list list) \<Rightarrow> nat \<Rightarrow> bool" where
  "tables_for rom q \<longleftrightarrow> list_all (\<lambda>pos. table_ok q pos (rom q pos)) [0..<16]"

lemma lookup_defined: "lookup_defined_for_mod q = Inr (5 \<le> unat q \<and> unat q \<le> 113)"
  using c_num_digits_eq [of 0 q] NDIGITS_entry(2) [of "unat q" 0] ndigits_less_60 [of "unat q" 0]
  by (auto simp: lookup_defined_for_mod_def unat_of_nat)

text \<open>The moduli for which the three branches agree with the plain conversion.\<close>

definition regular_modulus :: "(nat \<Rightarrow> nat \<Rightarrow> int list list) \<Rightarrow> u16 \<Rightarrow> bool" where
  "regular_modulus rom q \<longleftrightarrow>
     q \<noteq> 8192 \<and> q \<noteq> 32768 \<and>
     (24 \<le> q \<and> q \<le> 113 \<and> is_power_of_2 q = Inr False \<longrightarrow> tables_for rom (unat q))"

lemma from_block_digits:
  assumes q: "2 \<le> unat q" and reg: "regular_modulus rom q" and n: "digits_per_u128 q = Inr n"
  shows "WireModQ_from_block (lookup_digits_mod_at_position rom) inp q =
     Inr \<lparr>mq_q = q, mq_ds = map of_nat (digits (unat q) n (unat inp))\<rparr>"
proof -
  let ?lk = "lookup_digits_mod_at_position rom" and ?w = "digit_width (unat q)"
  let ?ds = "Inr (map of_nat (digits (unat q) n (unat inp))) :: u16 list res"
  note b = digit_width_bounds [OF q unat_u16_less]
  have nw: "n = 128 div ?w" using digits_per_u128_width [OF q] n by simp
  have q2: "\<not> q < 2" using q by (simp add: word_less_nat_alt)
  have split: "split_digits inp q = ?ds" if p: "unat q = 2 ^ ?w"
  proof -
    have "?w \<noteq> 13"
    proof
      assume "?w = 13"
      with p have "unat q = unat (8192 :: u16)" by simp
      with reg show False by (simp add: regular_modulus_def word_unat_eq_iff)
    qed
    moreover have "?w \<noteq> 15"
    proof
      assume "?w = 15"
      with p have "unat q = unat (32768 :: u16)" by simp
      with reg show False by (simp add: regular_modulus_def word_unat_eq_iff)
    qed
    ultimately have w: "128 div n = ?w" unfolding nw using b by (intro split_width) simp_all
    have "split_digits inp q = Inr (map of_nat (digits (2 ^ (128 div n)) n (unat inp)))"
      by (rule split_digits_base [OF n]) (use w b in simp)
    then show ?thesis by (simp only: w p [symmetric])
  qed
  have un: "unrank inp q = ?ds" if "unat q \<noteq> 2 ^ ?w"
    by (rule unrank_digits [OF q n power_less_u128 [OF q n that]])
  have lk: "from_block_lookup ?lk inp q = ?ds"
    if p: "unat q \<noteq> 2 ^ ?w" and r: "\<not> q \<le> 23" "5 \<le> unat q \<and> unat q \<le> 113"
  proof -
    have "24 \<le> q" "q \<le> 113" using r by (simp_all add: word_le_nat_alt)
    then have "tables_for rom (unat q)"
      using reg p is_power_of_2_iff [OF q] by (simp add: regular_modulus_def)
    then have "table_ok (unat q) pos (rom (unat q) pos)" if "pos < 16" for pos
      using that by (simp add: tables_for_def list_all_iff)
    then have "digit_lookup ?lk q (ndigits (unat q))" using r(2) by (intro tables_digit_lookup) simp_all
    from digit_lookup.from_block_lookup_digits [OF this n] show ?thesis .
  qed
  show ?thesis
    using split un lk q2 by (simp add: WireModQ_from_block_def is_power_of_2_iff [OF q] lookup_defined)
qed


lemma labels_ModN: "labels (ModN w) = map unat (mq_ds w)"
  by (simp add: labels_def)

lemma from_base_q_value:
  assumes q: "2 \<le> unat q" and n: "digits_per_u128 q = Inr (length ds)" and below: "digits_below q ds"
  shows "from_base_q ds q = Inr (of_nat (wval q ds))" and "wval q ds < 2 ^ 128"
proof -
  have m: "mval (zip (map unat ds) (replicate (length ds) (unat q))) = wval q ds"
    by (induction ds) (simp_all add: wval_def)
  have fits: "unat q ^ length ds \<le> 2 ^ 128" by (rule digits_per_u128_fits [OF q n])
  have "from_mixed_radix ds (replicate (length ds) q) =
      Inr (of_nat (mval (zip (map unat ds) (map unat (replicate (length ds) q)))))"
  proof (rule read_digits)
    show "list_all2 (<) (map unat ds) (map unat (replicate (length ds) q))"
      using below by (auto simp: digits_below_def list_all_iff list_all2_conv_all_nth word_less_nat_alt)
    show "prod_list (map unat (replicate (length ds) q)) \<le> 2 ^ 128" using fits by simp
  qed
  then show "from_base_q ds q = Inr (of_nat (wval q ds))" by (simp add: from_base_q_mixed m)
  have "wval q ds < unat q ^ length ds"
    using dval_less [of "unat q" "map unat ds"] below by (simp add: wval_def digits_below_iff)
  with fits show "wval q ds < 2 ^ 128" by linarith
qed

text \<open>
  C10. The moduli 8192 and 32768: the branch for powers of two reads digits of 14 and 16
  bits instead of 13 and 15, so a block whose value is the modulus unpacks to a label whose first
  digit is the modulus itself; \<open>color\<close> then fails its assertion.
\<close>

theorem from_block_wide_digits:
  assumes "q = 8192 \<or> q = 32768"
  shows "\<exists>w. AllWire_from_block lk (ucast q) q = Inr (ModN w) \<and> mq_q w = q \<and> \<not> digits_below q (mq_ds w) \<and>
     color (ModN w) = Inl Assertion"
proof -
  obtain n where n: "digits_per_u128 q = Inr n" "8 \<le> n" "unat q < 2 ^ (128 div n)" "128 div n \<le> 16"
    using assms by (auto simp: digits_per_u128_def ceil_log2_def)
  have p: "is_power_of_2 q = Inr True"
    using assms by (auto simp: is_power_of_2_def checked_sub_def)
  obtain k where k: "n = Suc k" using n(2) by (cases n) auto
  let ?ds = "map of_nat (digits (2 ^ (128 div n)) n (unat q)) :: u16 list"
  have ds: "split_digits (ucast q) q = Inr ?ds" using split_digits_base [OF n(1,4), of "ucast q"] by simp
  have hd: "?ds = q # map of_nat (digits (2 ^ (128 div n)) k (unat q div 2 ^ (128 div n)))"
    using n(3) by (simp add: k)
  have "AllWire_from_block lk (ucast q) q = Inr (ModN \<lparr>mq_q = q, mq_ds = ?ds\<rparr>)"
    using assms p ds by (auto simp: AllWire_from_block_def WireModQ_from_block_def)
  then show ?thesis unfolding hd by (simp add: wire_ops digits_below_def)
qed

theorem from_block_wide_digits_witness:
  "\<exists>w. AllWire_from_block (\<lambda>_ _ _. Inl Panic) 8192 8192 = Inr (ModN w) \<and> mq_q w = 8192 \<and>
     \<not> digits_below 8192 (mq_ds w) \<and> color (ModN w) = Inl Assertion"
  using from_block_wide_digits [of 8192 "\<lambda>_ _ _. Inl Panic"] by simp


subsection \<open>Digits, colours and random labels\<close>

lemma u16_bits_below_3:
  assumes "v < (3 :: u16)"
  shows "of_bool (bit v 0) + 2 * of_bool (bit v 1) = unat v" and "\<not> (bit v 0 \<and> bit v 1)"
proof -
  have "unat v < 3" using assms by (simp add: word_less_nat_alt)
  then have "v = 0 \<or> v = 1 \<or> v = 2" by (auto simp: word_unat_eq_iff)
  then show "of_bool (bit v 0) + 2 * of_bool (bit v 1) = unat v" and "\<not> (bit v 0 \<and> bit v 1)"
    by (auto simp: bit_simps)
qed

lemma pack_mod3_planes:
  "fold (\<lambda>(i, v) (l, m).
       (l OR push_bit i (ucast (v AND 1)), m OR push_bit i (ucast (drop_bit 1 v AND 1))))
     (zip [k..<k + length vs] (vs :: u16 list)) (l0, m0) = (l :: u64, m :: u64) \<Longrightarrow>
   i < 64 \<Longrightarrow>
   (bit l i \<longleftrightarrow> bit l0 i \<or> (k \<le> i \<and> i < k + length vs \<and> bit (vs ! (i - k)) 0)) \<and>
   (bit m i \<longleftrightarrow> bit m0 i \<or> (k \<le> i \<and> i < k + length vs \<and> bit (vs ! (i - k)) 1))"
proof (induction vs arbitrary: k l0 m0)
  case (Cons v vs)
  have upt: "[k..<k + length (v # vs)] = k # [Suc k..<Suc k + length vs]"
    by (simp add: upt_conv_Cons del: upt_Suc)
  have f: "fold (\<lambda>(i, v) (l, m).
       (l OR push_bit i (ucast (v AND 1)), m OR push_bit i (ucast (drop_bit 1 v AND 1))))
     (zip [Suc k..<Suc k + length vs] vs)
     (l0 OR push_bit k (ucast (v AND 1)), m0 OR push_bit k (ucast (drop_bit 1 v AND 1))) = (l, m)"
    using Cons.prems(1) unfolding upt by simp
  have b: "bit (push_bit k (ucast (v AND 1)) :: u64) i \<longleftrightarrow> i = k \<and> bit v 0"
    "bit (push_bit k (ucast (drop_bit 1 v AND 1)) :: u64) i \<longleftrightarrow> i = k \<and> bit v 1"
    using Cons.prems(2) by (auto simp: bit_simps)
  have "i < Suc k + length vs \<longleftrightarrow> i < k + length (v # vs)" by simp
  with Cons.IH [OF f Cons.prems(2), unfolded bit_or_iff b] show ?case
    by (cases "i = k") (auto simp: nth_Cons' Suc_le_eq)
qed auto

lemma pack_mod3_labels:
  assumes "length vs = 64" and "list_all (\<lambda>v. v < 3) vs"
  shows "labels (Mod3 (pack_mod3 vs)) = map unat vs" and "m3_lsb (pack_mod3 vs) AND m3_msb (pack_mod3 vs) = 0"
proof -
  obtain l m where lm: "fold (\<lambda>(i, v) (l, m).
       (l OR push_bit i (ucast (v AND 1)), m OR push_bit i (ucast (drop_bit 1 v AND 1))))
     (zip [0..<0 + length vs] vs) (0, 0) = (l :: u64, m :: u64)" by fastforce
  then have p: "pack_mod3 vs = \<lparr>m3_lsb = l, m3_msb = m\<rparr>" by (simp add: pack_mod3_def)
  have bits: "bit l i \<longleftrightarrow> bit (vs ! i) 0" "bit m i \<longleftrightarrow> bit (vs ! i) 1" if "i < 64" for i
    using pack_mod3_planes [OF lm that] that assms(1) by simp_all
  have small: "vs ! i < 3" if "i < 64" for i using that assms by (simp add: list_all_length)
  show "labels (Mod3 (pack_mod3 vs)) = map unat vs"
  proof (rule nth_equalityI)
    fix i assume "i < length (labels (Mod3 (pack_mod3 vs)))"
    then have i: "i < 64" by (simp add: labels_def)
    then show "labels (Mod3 (pack_mod3 vs)) ! i = map unat vs ! i"
      using u16_bits_below_3(1) [OF small [OF i]] assms(1) by (simp add: labels_def p mod3_digit_def bits)
  qed (simp add: labels_def assms(1))
  show "m3_lsb (pack_mod3 vs) AND m3_msb (pack_mod3 vs) = 0"
    unfolding planes_disjoint p
  proof (intro allI notI)
    fix i assume b: "bit (m3_lsb \<lparr>m3_lsb = l, m3_msb = m\<rparr>) i \<and> bit (m3_msb \<lparr>m3_lsb = l, m3_msb = m\<rparr>) i"
    then have "bit l i" by simp
    from bit_imp_le_length [OF this] have "i < 64" by simp
    with b bits u16_bits_below_3(2) [OF small, of i] show False by auto
  qed
qed

text \<open>
  C11. What \<open>digits\<close> returns: the digits of the label for \<open>WireMod2\<close> and \<open>WireModQ\<close>, but 64
  zeros for every \<open>WireMod3\<close>, since the two bits of a digit are combined with \<open>&\<close>.
\<close>

theorem wire_digits_spec:
  "wire_digits w = (case w of Mod3 _ \<Rightarrow> replicate 64 0 | _ \<Rightarrow> map of_nat (labels w))"
proof (cases w)
  case (Mod2 x)
  have "(ucast (drop_bit i (m2_val x)) AND 1 :: u16) = of_bool (bit (m2_val x) i)" for i
    by (rule bit_word_eqI) (auto simp: bit_simps)
  with Mod2 show ?thesis by (simp add: wire_ops labels_def)
next
  case (Mod3 x)
  have "((ucast (drop_bit i (m3_lsb x)) AND 1) AND push_bit 1 (ucast (drop_bit i (m3_msb x)) AND 1) :: u16) = 0" for i
    by (rule bit_word_eqI) (auto simp: bit_simps)
  with Mod3 show ?thesis by (simp add: wire_ops map_replicate_const)
qed (simp add: wire_ops labels_def)

text \<open>
  Hashing into \<open>\<int>\<^sub>3\<close>: for every block, \<open>encode_block_mod3\<close> passes its assertion and the
  label it builds is well-formed and has the 64 low base-3 digits of the block.
\<close>

theorem encode_block_mod3_correct:
  "\<exists>w. encode_block_mod3 block = Inr w \<and> wf_wire (Mod3 w) \<and> labels (Mod3 w) = digits 3 64 (unat block)"
proof -
  have n: "digits_per_u128 3 = Inr 64" by (simp add: digits_per_u128_def)
  have "(3 :: nat) ^ 64 < 2 ^ 128" by simp
  then have u: "unrank block 3 = Inr (map of_nat (digits 3 64 (unat block)))"
    using unrank_digits [OF _ n] by simp
  let ?ds = "map of_nat (digits 3 64 (unat block)) :: u16 list"
  have m: "map unat ?ds = digits 3 64 (unat block)" by (rule map_unat_of_nat_digits) simp_all
  have "digits_below 3 ?ds" using digits_below_digits [of 3 64 "unat block"] by simp
  then have "list_all (\<lambda>v. v < 3) ?ds" by (simp add: digits_below_def)
  from pack_mod3_labels [OF _ this]
  have "labels (Mod3 (pack_mod3 ?ds)) = map unat ?ds" "m3_lsb (pack_mod3 ?ds) AND m3_msb (pack_mod3 ?ds) = 0"
    by simp_all
  then show ?thesis unfolding m by (simp add: encode_block_mod3_def u Let_def wf_wire_def del: list.map)
qed

lemma modulus_cases:
  assumes "2 \<le> q"
  obtains "q = (2 :: u16)" | "q = 3" | "4 \<le> q"
proof -
  have "unat q = 2 \<or> unat q = 3 \<or> 4 \<le> unat q" using assms by (simp add: word_le_nat_alt) arith
  then show ?thesis using that by (auto simp: word_unat_eq_iff word_le_nat_alt)
qed

lemma rand_delta_wf:
  assumes "2 \<le> q"
  shows "\<exists>w. AllWire_rand_delta r2 r3 rq q = Inr w \<and> wf_wire w \<and> wire_modulus w = q \<and> color w = Inr 1 \<and>
     hd (labels w) = 1"
proof -
  have hd64: "hd (map f [0..<64]) = f 0" "hd (map f [0..<128]) = f 0" for f :: "nat \<Rightarrow> nat"
    by (simp_all add: upt_conv_Cons)
  from assms show ?thesis
  proof (cases rule: modulus_cases)
    case 1
    have "(r2 OR 1) AND 1 = (1 :: u128)" by (rule bit_word_eqI) (auto simp: bit_simps)
    moreover have "bit (r2 OR 1) 0" by (simp add: bit_simps)
    ultimately show ?thesis using 1
      by (simp add: wire_rand wf_wire_def  wire_ops labels_def hd64)
  next
    case 2
    let ?vs = "map (\<lambda>i. ucast (r3 i mod 3)) [0..<64] :: u16 list"
    have "list_all (\<lambda>v. v < 3) ?vs"
      by (auto simp: list_all_iff word_less_nat_alt unsigned_ucast_eq unat_mod_distrib take_bit_eq_mod)
    from pack_mod3_labels [OF _ this] have d: "m3_lsb (pack_mod3 ?vs) AND m3_msb (pack_mod3 ?vs) = 0" by simp
    define w where "w = \<lparr>m3_lsb = m3_lsb (pack_mod3 ?vs) OR 1, m3_msb = m3_msb (pack_mod3 ?vs) AND 0xFFFFFFFFFFFFFFFE\<rparr>"
    have mask: "(0xFFFFFFFFFFFFFFFE :: u64) = NOT 1" by simp
    have b0: "bit (m3_lsb w) 0" "\<not> bit (m3_msb w) 0" by (simp_all add: w_def mask bit_simps)
    have disj: "m3_lsb w AND m3_msb w = 0"
      using d unfolding planes_disjoint w_def mask by (auto simp: bit_simps)
    have one: "m3_lsb w AND 1 = 1" "m3_msb w AND 1 = 0"
      using b0 by (simp_all add: and_one_eq mod_2_eq_odd bit_0)
    have "rand_delta_mod3 r3 3 = Inr w"
      using d by (simp add: wire_rand w_def Let_def)
    with 2 disj one b0 show ?thesis
      by (simp add: AllWire_rand_delta_def wf_wire_def  wire_ops Let_def labels_def hd64 mod3_digit_def)
  next
    case 3
    then have q: "2 \<le> unat q" "\<not> q < 2" "q \<noteq> 2" "q \<noteq> 3" "1 < q" by (auto simp: word_le_nat_alt word_less_nat_alt)
    obtain n where n: "digits_per_u128 q = Inr n" using digits_per_u128_width [OF q(1)] by blast
    obtain k where k: "n = Suc k" using digits_per_u128_fits(2) [OF q(1) n] by (cases n) auto
    let ?ds = "(map (\<lambda>i. rq i mod q) [0..<n])[0 := 1]"
    have "rq i mod q < q" for i using q by (simp add: word_less_nat_alt unat_mod_distrib)
    then have "\<forall>d\<in>set (map (\<lambda>i. rq i mod q) [0..<n]). d < q" by auto
    then have below: "digits_below q ?ds"
      using q(5) set_update_subset_insert [of "map (\<lambda>i. rq i mod q) [0..<n]" 0 1]
      by (auto simp: digits_below_def list_all_iff)
    have cons: "?ds = 1 # tl ?ds" by (simp add: k upt_conv_Cons del: upt_Suc)
    have "rand_delta_modq rq q = Inr \<lparr>mq_q = q, mq_ds = ?ds\<rparr>"
      using q n by (simp add: wire_rand k)
    moreover have "color (ModN \<lparr>mq_q = q, mq_ds = ?ds\<rparr>) = Inr 1"
      by (subst cons) (simp add: wire_ops q(5))
    moreover have "hd (labels (ModN \<lparr>mq_q = q, mq_ds = ?ds\<rparr>)) = 1"
      by (subst cons) (simp add: labels_def)
    ultimately show ?thesis using 3 q n below
      by (simp add: AllWire_rand_delta_def wf_wire_def)
  qed
qed

lemma rand_wf:
  assumes "2 \<le> q"
  shows "\<exists>w. AllWire_rand r2 r3 rq q = Inr w \<and> wf_wire w \<and> wire_modulus w = q"
  using assms
proof (cases rule: modulus_cases)
  case 1
  then show ?thesis by (simp add: wire_rand wf_wire_def)
next
  case 2
  let ?vs = "map (\<lambda>i. ucast (r3 i mod 3)) [0..<64] :: u16 list"
  have "list_all (\<lambda>v. v < 3) ?vs"
    by (auto simp: list_all_iff word_less_nat_alt unsigned_ucast_eq unat_mod_distrib take_bit_eq_mod)
  from pack_mod3_labels [OF _ this] 2 show ?thesis by (simp add: wire_rand wf_wire_def Let_def)
next
  case 3
  then have q: "2 \<le> unat q" "\<not> q < 2" "q \<noteq> 2" "q \<noteq> 3" by (auto simp: word_le_nat_alt word_less_nat_alt)
  obtain n where n: "digits_per_u128 q = Inr n" using digits_per_u128_width [OF q(1)] by blast
  have "rq i mod q < q" for i using q(1) by (simp add: word_less_nat_alt unat_mod_distrib)
  with 3 q n show ?thesis by (simp add: wire_rand wf_wire_def digits_below_def list_all_iff)
qed

lemma mod3_zero: "mod3_digit \<lparr>m3_lsb = 0, m3_msb = 0\<rparr> = (\<lambda>i. 0)"
  by (rule ext) (simp add: mod3_digit_def)

lemma zero_wf:
  assumes "2 \<le> q"
  shows "\<exists>w. wire_zero q = Inr w \<and> wf_wire w \<and> wire_modulus w = q \<and> labels w = replicate (length (labels w)) 0"
  using assms
proof (cases rule: modulus_cases)
  case 3
  then have q: "2 \<le> unat q" "\<not> q < 2" "q \<noteq> 2" "q \<noteq> 3" "0 < q" by (auto simp: word_le_nat_alt word_less_nat_alt)
  obtain n where n: "digits_per_u128 q = Inr n" using digits_per_u128_width [OF q(1)] by blast
  with 3 q show ?thesis
    by (simp add: wire_zero_def WireModQ_zero_def wf_wire_def digits_below_def list_all_iff labels_def)
qed (simp_all add: wire_zero_def WireMod2_zero_def WireMod3_zero_def wf_wire_def labels_def
    mod3_zero map_replicate_const)

text \<open>
  Fresh labels: for every modulus from 2 up and every output of the generator, \<open>zero\<close>,
  \<open>rand\<close> and \<open>rand_delta\<close> return well-formed labels of that modulus; the digits of the first
  are 0, and the colour digit of the last is 1.
\<close>

theorem fresh_labels_correct:
  assumes "2 \<le> q"
  shows "\<exists>z r w. wire_zero q = Inr z \<and> AllWire_rand r2 r3 rq q = Inr r \<and> AllWire_rand_delta r2 r3 rq q = Inr w \<and>
     list_all wf_wire [z, r, w] \<and> map wire_modulus [z, r, w] = [q, q, q] \<and>
     labels z = replicate (length (labels z)) 0 \<and> color w = Inr 1 \<and> hd (labels w) = 1"
  using zero_wf [OF assms] rand_wf [OF assms, of r2 r3 rq] rand_delta_wf [OF assms, of r2 r3 rq] by auto

theorem fresh_labels_correct_witness:
  "\<exists>z r w. wire_zero 113 = Inr z \<and> AllWire_rand 0 (\<lambda>_. 255) (\<lambda>_. 65535) 113 = Inr r \<and>
     AllWire_rand_delta 0 (\<lambda>_. 255) (\<lambda>_. 65535) 113 = Inr w \<and>
     list_all wf_wire [z, r, w] \<and> map wire_modulus [z, r, w] = [113, 113, 113] \<and>
     labels z = replicate (length (labels z)) 0 \<and> color w = Inr 1 \<and> hd (labels w) = 1"
  by (rule fresh_labels_correct) simp

end
