(* ===== verification/Table_Base29_Low.thy ===== *)
theory Table_Base29_Low
  imports Digits
begin

text \<open>
  The arrays \<open>BASE29_POS0\<close> to \<open>BASE29_POS10\<close> of
  \<open>fancy-garbling/base_conversion/cbits/lookup_tables.c\<close>, row for row as the file has them (in
  blocks of 16 rows), and for each the check that row \<open>x\<close> holds the base-29 digits of
  \<open>x * 256 ^ pos\<close>.
\<close>

definition BASE29_POS0 :: "int list list" where
  "BASE29_POS0 =
    [[0,0], [1,0], [2,0], [3,0], [4,0], [5,0], [6,0], [7,0], [8,0], [9,0], [10,0], [11,0], [12,0], [13,0], [14,0],
     [15,0]] @
    [[16,0], [17,0], [18,0], [19,0], [20,0], [21,0], [22,0], [23,0], [24,0], [25,0], [26,0], [27,0], [28,0], [0,1],
     [1,1], [2,1]] @
    [[3,1], [4,1], [5,1], [6,1], [7,1], [8,1], [9,1], [10,1], [11,1], [12,1], [13,1], [14,1], [15,1], [16,1], [17,1],
     [18,1]] @
    [[19,1], [20,1], [21,1], [22,1], [23,1], [24,1], [25,1], [26,1], [27,1], [28,1], [0,2], [1,2], [2,2], [3,2],
     [4,2], [5,2]] @
    [[6,2], [7,2], [8,2], [9,2], [10,2], [11,2], [12,2], [13,2], [14,2], [15,2], [16,2], [17,2], [18,2], [19,2],
     [20,2], [21,2]] @
    [[22,2], [23,2], [24,2], [25,2], [26,2], [27,2], [28,2], [0,3], [1,3], [2,3], [3,3], [4,3], [5,3], [6,3], [7,3],
     [8,3]] @
    [[9,3], [10,3], [11,3], [12,3], [13,3], [14,3], [15,3], [16,3], [17,3], [18,3], [19,3], [20,3], [21,3], [22,3],
     [23,3], [24,3]] @
    [[25,3], [26,3], [27,3], [28,3], [0,4], [1,4], [2,4], [3,4], [4,4], [5,4], [6,4], [7,4], [8,4], [9,4], [10,4],
     [11,4]] @
    [[12,4], [13,4], [14,4], [15,4], [16,4], [17,4], [18,4], [19,4], [20,4], [21,4], [22,4], [23,4], [24,4], [25,4],
     [26,4], [27,4]] @
    [[28,4], [0,5], [1,5], [2,5], [3,5], [4,5], [5,5], [6,5], [7,5], [8,5], [9,5], [10,5], [11,5], [12,5], [13,5],
     [14,5]] @
    [[15,5], [16,5], [17,5], [18,5], [19,5], [20,5], [21,5], [22,5], [23,5], [24,5], [25,5], [26,5], [27,5], [28,5],
     [0,6], [1,6]] @
    [[2,6], [3,6], [4,6], [5,6], [6,6], [7,6], [8,6], [9,6], [10,6], [11,6], [12,6], [13,6], [14,6], [15,6], [16,6],
     [17,6]] @
    [[18,6], [19,6], [20,6], [21,6], [22,6], [23,6], [24,6], [25,6], [26,6], [27,6], [28,6], [0,7], [1,7], [2,7],
     [3,7], [4,7]] @
    [[5,7], [6,7], [7,7], [8,7], [9,7], [10,7], [11,7], [12,7], [13,7], [14,7], [15,7], [16,7], [17,7], [18,7],
     [19,7], [20,7]] @
    [[21,7], [22,7], [23,7], [24,7], [25,7], [26,7], [27,7], [28,7], [0,8], [1,8], [2,8], [3,8], [4,8], [5,8], [6,8],
     [7,8]] @
    [[8,8], [9,8], [10,8], [11,8], [12,8], [13,8], [14,8], [15,8], [16,8], [17,8], [18,8], [19,8], [20,8], [21,8],
     [22,8], [23,8]]"

definition BASE29_POS1 :: "int list list" where
  "BASE29_POS1 =
    [[0,0,0,0], [24,8,0,0], [19,17,0,0], [14,26,0,0], [9,6,1,0], [4,15,1,0], [28,23,1,0], [23,3,2,0], [18,12,2,0],
     [13,21,2,0], [8,1,3,0], [3,10,3,0], [27,18,3,0], [22,27,3,0], [17,7,4,0], [12,16,4,0]] @
    [[7,25,4,0], [2,5,5,0], [26,13,5,0], [21,22,5,0], [16,2,6,0], [11,11,6,0], [6,20,6,0], [1,0,7,0], [25,8,7,0],
     [20,17,7,0], [15,26,7,0], [10,6,8,0], [5,15,8,0], [0,24,8,0], [24,3,9,0], [19,12,9,0]] @
    [[14,21,9,0], [9,1,10,0], [4,10,10,0], [28,18,10,0], [23,27,10,0], [18,7,11,0], [13,16,11,0], [8,25,11,0],
     [3,5,12,0], [27,13,12,0], [22,22,12,0], [17,2,13,0], [12,11,13,0], [7,20,13,0], [2,0,14,0], [26,8,14,0]] @
    [[21,17,14,0], [16,26,14,0], [11,6,15,0], [6,15,15,0], [1,24,15,0], [25,3,16,0], [20,12,16,0], [15,21,16,0],
     [10,1,17,0], [5,10,17,0], [0,19,17,0], [24,27,17,0], [19,7,18,0], [14,16,18,0], [9,25,18,0], [4,5,19,0]] @
    [[28,13,19,0], [23,22,19,0], [18,2,20,0], [13,11,20,0], [8,20,20,0], [3,0,21,0], [27,8,21,0], [22,17,21,0],
     [17,26,21,0], [12,6,22,0], [7,15,22,0], [2,24,22,0], [26,3,23,0], [21,12,23,0], [16,21,23,0], [11,1,24,0]] @
    [[6,10,24,0], [1,19,24,0], [25,27,24,0], [20,7,25,0], [15,16,25,0], [10,25,25,0], [5,5,26,0], [0,14,26,0],
     [24,22,26,0], [19,2,27,0], [14,11,27,0], [9,20,27,0], [4,0,28,0], [28,8,28,0], [23,17,28,0], [18,26,28,0]] @
    [[13,6,0,1], [8,15,0,1], [3,24,0,1], [27,3,1,1], [22,12,1,1], [17,21,1,1], [12,1,2,1], [7,10,2,1], [2,19,2,1],
     [26,27,2,1], [21,7,3,1], [16,16,3,1], [11,25,3,1], [6,5,4,1], [1,14,4,1], [25,22,4,1]] @
    [[20,2,5,1], [15,11,5,1], [10,20,5,1], [5,0,6,1], [0,9,6,1], [24,17,6,1], [19,26,6,1], [14,6,7,1], [9,15,7,1],
     [4,24,7,1], [28,3,8,1], [23,12,8,1], [18,21,8,1], [13,1,9,1], [8,10,9,1], [3,19,9,1]] @
    [[27,27,9,1], [22,7,10,1], [17,16,10,1], [12,25,10,1], [7,5,11,1], [2,14,11,1], [26,22,11,1], [21,2,12,1],
     [16,11,12,1], [11,20,12,1], [6,0,13,1], [1,9,13,1], [25,17,13,1], [20,26,13,1], [15,6,14,1], [10,15,14,1]] @
    [[5,24,14,1], [0,4,15,1], [24,12,15,1], [19,21,15,1], [14,1,16,1], [9,10,16,1], [4,19,16,1], [28,27,16,1],
     [23,7,17,1], [18,16,17,1], [13,25,17,1], [8,5,18,1], [3,14,18,1], [27,22,18,1], [22,2,19,1], [17,11,19,1]] @
    [[12,20,19,1], [7,0,20,1], [2,9,20,1], [26,17,20,1], [21,26,20,1], [16,6,21,1], [11,15,21,1], [6,24,21,1],
     [1,4,22,1], [25,12,22,1], [20,21,22,1], [15,1,23,1], [10,10,23,1], [5,19,23,1], [0,28,23,1], [24,7,24,1]] @
    [[19,16,24,1], [14,25,24,1], [9,5,25,1], [4,14,25,1], [28,22,25,1], [23,2,26,1], [18,11,26,1], [13,20,26,1],
     [8,0,27,1], [3,9,27,1], [27,17,27,1], [22,26,27,1], [17,6,28,1], [12,15,28,1], [7,24,28,1], [2,4,0,2]] @
    [[26,12,0,2], [21,21,0,2], [16,1,1,2], [11,10,1,2], [6,19,1,2], [1,28,1,2], [25,7,2,2], [20,16,2,2], [15,25,2,2],
     [10,5,3,2], [5,14,3,2], [0,23,3,2], [24,2,4,2], [19,11,4,2], [14,20,4,2], [9,0,5,2]] @
    [[4,9,5,2], [28,17,5,2], [23,26,5,2], [18,6,6,2], [13,15,6,2], [8,24,6,2], [3,4,7,2], [27,12,7,2], [22,21,7,2],
     [17,1,8,2], [12,10,8,2], [7,19,8,2], [2,28,8,2], [26,7,9,2], [21,16,9,2], [16,25,9,2]] @
    [[11,5,10,2], [6,14,10,2], [1,23,10,2], [25,2,11,2], [20,11,11,2], [15,20,11,2], [10,0,12,2], [5,9,12,2],
     [0,18,12,2], [24,26,12,2], [19,6,13,2], [14,15,13,2], [9,24,13,2], [4,4,14,2], [28,12,14,2], [23,21,14,2]] @
    [[18,1,15,2], [13,10,15,2], [8,19,15,2], [3,28,15,2], [27,7,16,2], [22,16,16,2], [17,25,16,2], [12,5,17,2],
     [7,14,17,2], [2,23,17,2], [26,2,18,2], [21,11,18,2], [16,20,18,2], [11,0,19,2], [6,9,19,2], [1,18,19,2]]"

definition BASE29_POS2 :: "int list list" where
  "BASE29_POS2 =
    [[0,0,0,0,0], [25,26,19,2,0], [21,24,10,5,0], [17,22,1,8,0], [13,20,21,10,0], [9,18,12,13,0], [5,16,3,16,0],
     [1,14,23,18,0], [26,11,14,21,0], [22,9,5,24,0], [18,7,25,26,0], [14,5,16,0,1], [10,3,7,3,1], [6,1,27,5,1],
     [2,28,17,8,1], [27,25,8,11,1]] @
    [[23,23,28,13,1], [19,21,19,16,1], [15,19,10,19,1], [11,17,1,22,1], [7,15,21,24,1], [3,13,12,27,1], [28,10,3,1,2],
     [24,8,23,3,2], [20,6,14,6,2], [16,4,5,9,2], [12,2,25,11,2], [8,0,16,14,2], [4,27,6,17,2], [0,25,26,19,2],
     [25,22,17,22,2], [21,20,8,25,2]] @
    [[17,18,28,27,2], [13,16,19,1,3], [9,14,10,4,3], [5,12,1,7,3], [1,10,21,9,3], [26,7,12,12,3], [22,5,3,15,3],
     [18,3,23,17,3], [14,1,14,20,3], [10,28,4,23,3], [6,26,24,25,3], [2,24,15,28,3], [27,21,6,2,4], [23,19,26,4,4],
     [19,17,17,7,4], [15,15,8,10,4]] @
    [[11,13,28,12,4], [7,11,19,15,4], [3,9,10,18,4], [28,6,1,21,4], [24,4,21,23,4], [20,2,12,26,4], [16,0,3,0,5],
     [12,27,22,2,5], [8,25,13,5,5], [4,23,4,8,5], [0,21,24,10,5], [25,18,15,13,5], [21,16,6,16,5], [17,14,26,18,5],
     [13,12,17,21,5], [9,10,8,24,5]] @
    [[5,8,28,26,5], [1,6,19,0,6], [26,3,10,3,6], [22,1,1,6,6], [18,28,20,8,6], [14,26,11,11,6], [10,24,2,14,6],
     [6,22,22,16,6], [2,20,13,19,6], [27,17,4,22,6], [23,15,24,24,6], [19,13,15,27,6], [15,11,6,1,7], [11,9,26,3,7],
     [7,7,17,6,7], [3,5,8,9,7]] @
    [[28,2,28,11,7], [24,0,19,14,7], [20,27,9,17,7], [16,25,0,20,7], [12,23,20,22,7], [8,21,11,25,7], [4,19,2,28,7],
     [0,17,22,1,8], [25,14,13,4,8], [21,12,4,7,8], [17,10,24,9,8], [13,8,15,12,8], [9,6,6,15,8], [5,4,26,17,8],
     [1,2,17,20,8], [26,28,7,23,8]] @
    [[22,26,27,25,8], [18,24,18,28,8], [14,22,9,2,9], [10,20,0,5,9], [6,18,20,7,9], [2,16,11,10,9], [27,13,2,13,9],
     [23,11,22,15,9], [19,9,13,18,9], [15,7,4,21,9], [11,5,24,23,9], [7,3,15,26,9], [3,1,6,0,10], [28,27,25,2,10],
     [24,25,16,5,10], [20,23,7,8,10]] @
    [[16,21,27,10,10], [12,19,18,13,10], [8,17,9,16,10], [4,15,0,19,10], [0,13,20,21,10], [25,10,11,24,10],
     [21,8,2,27,10], [17,6,22,0,11], [13,4,13,3,11], [9,2,4,6,11], [5,0,24,8,11], [1,27,14,11,11], [26,24,5,14,11],
     [22,22,25,16,11], [18,20,16,19,11], [14,18,7,22,11]] @
    [[10,16,27,24,11], [6,14,18,27,11], [2,12,9,1,12], [27,9,0,4,12], [23,7,20,6,12], [19,5,11,9,12], [15,3,2,12,12],
     [11,1,22,14,12], [7,28,12,17,12], [3,26,3,20,12], [28,23,23,22,12], [24,21,14,25,12], [20,19,5,28,12],
     [16,17,25,1,13], [12,15,16,4,13], [8,13,7,7,13]] @
    [[4,11,27,9,13], [0,9,18,12,13], [25,6,9,15,13], [21,4,0,18,13], [17,2,20,20,13], [13,0,11,23,13], [9,27,1,26,13],
     [5,25,21,28,13], [1,23,12,2,14], [26,20,3,5,14], [22,18,23,7,14], [18,16,14,10,14], [14,14,5,13,14],
     [10,12,25,15,14], [6,10,16,18,14], [2,8,7,21,14]] @
    [[27,5,27,23,14], [23,3,18,26,14], [19,1,9,0,15], [15,28,28,2,15], [11,26,19,5,15], [7,24,10,8,15],
     [3,22,1,11,15], [28,19,21,13,15], [24,17,12,16,15], [20,15,3,19,15], [16,13,23,21,15], [12,11,14,24,15],
     [8,9,5,27,15], [4,7,25,0,16], [0,5,16,3,16], [25,2,7,6,16]] @
    [[21,0,27,8,16], [17,27,17,11,16], [13,25,8,14,16], [9,23,28,16,16], [5,21,19,19,16], [1,19,10,22,16],
     [26,16,1,25,16], [22,14,21,27,16], [18,12,12,1,17], [14,10,3,4,17], [10,8,23,6,17], [6,6,14,9,17], [2,4,5,12,17],
     [27,1,25,14,17], [23,28,15,17,17], [19,26,6,20,17]] @
    [[15,24,26,22,17], [11,22,17,25,17], [7,20,8,28,17], [3,18,28,1,18], [28,15,19,4,18], [24,13,10,7,18],
     [20,11,1,10,18], [16,9,21,12,18], [12,7,12,15,18], [8,5,3,18,18], [4,3,23,20,18], [0,1,14,23,18],
     [25,27,4,26,18], [21,25,24,28,18], [17,23,15,2,19], [13,21,6,5,19]] @
    [[9,19,26,7,19], [5,17,17,10,19], [1,15,8,13,19], [26,12,28,15,19], [22,10,19,18,19], [18,8,10,21,19],
     [14,6,1,24,19], [10,4,21,26,19], [6,2,12,0,20], [2,0,3,3,20], [27,26,22,5,20], [23,24,13,8,20], [19,22,4,11,20],
     [15,20,24,13,20], [11,18,15,16,20], [7,16,6,19,20]] @
    [[3,14,26,21,20], [28,11,17,24,20], [24,9,8,27,20], [20,7,28,0,21], [16,5,19,3,21], [12,3,10,6,21], [8,1,1,9,21],
     [4,28,20,11,21], [0,26,11,14,21], [25,23,2,17,21], [21,21,22,19,21], [17,19,13,22,21], [13,17,4,25,21],
     [9,15,24,27,21], [5,13,15,1,22], [1,11,6,4,22]] @
    [[26,8,26,6,22], [22,6,17,9,22], [18,4,8,12,22], [14,2,28,14,22], [10,0,19,17,22], [6,27,9,20,22], [2,25,0,23,22],
     [27,22,20,25,22], [23,20,11,28,22], [19,18,2,2,23], [15,16,22,4,23], [11,14,13,7,23], [7,12,4,10,23],
     [3,10,24,12,23], [28,7,15,15,23], [24,5,6,18,23]]"

definition BASE29_POS3 :: "int list list" where
  "BASE29_POS3 =
    [[0,0,0,0,0,0,0], [20,3,26,20,23,0,0], [11,7,23,12,18,1,0], [2,11,20,4,13,2,0], [22,14,17,25,7,3,0],
     [13,18,14,17,2,4,0], [4,22,11,9,26,4,0], [24,25,8,1,21,5,0], [15,0,6,22,15,6,0], [6,4,3,14,10,7,0],
     [26,7,0,6,5,8,0], [17,11,26,26,28,8,0], [8,15,23,18,23,9,0], [28,18,20,10,18,10,0], [19,22,17,2,13,11,0],
     [10,26,14,23,7,12,0]] @
    [[1,1,12,15,2,13,0], [21,4,9,7,26,13,0], [12,8,6,28,20,14,0], [3,12,3,20,15,15,0], [23,15,0,12,10,16,0],
     [14,19,26,3,5,17,0], [5,23,23,24,28,17,0], [25,26,20,16,23,18,0], [16,1,18,8,18,19,0], [7,5,15,0,13,20,0],
     [27,8,12,21,7,21,0], [18,12,9,13,2,22,0], [9,16,6,5,26,22,0], [0,20,3,26,20,23,0], [20,23,0,18,15,24,0],
     [11,27,26,9,10,25,0]] @
    [[2,2,24,1,5,26,0], [22,5,21,22,28,26,0], [13,9,18,14,23,27,0], [4,13,15,6,18,28,0], [24,16,12,27,12,0,1],
     [15,20,9,19,7,1,1], [6,24,6,11,2,2,1], [26,27,3,3,26,2,1], [17,2,1,24,20,3,1], [8,6,27,15,15,4,1],
     [28,9,24,7,10,5,1], [19,13,21,28,4,6,1], [10,17,18,20,28,6,1], [1,21,15,12,23,7,1], [21,24,12,4,18,8,1],
     [12,28,9,25,12,9,1]] @
    [[3,3,7,17,7,10,1], [23,6,4,9,2,11,1], [14,10,1,1,26,11,1], [5,14,27,21,20,12,1], [25,17,24,13,15,13,1],
     [16,21,21,5,10,14,1], [7,25,18,26,4,15,1], [27,28,15,18,28,15,1], [18,3,13,10,23,16,1], [9,7,10,2,18,17,1],
     [0,11,7,23,12,18,1], [20,14,4,15,7,19,1], [11,18,1,7,2,20,1], [2,22,27,27,25,20,1], [22,25,24,19,20,21,1],
     [13,0,22,11,15,22,1]] @
    [[4,4,19,3,10,23,1], [24,7,16,24,4,24,1], [15,11,13,16,28,24,1], [6,15,10,8,23,25,1], [26,18,7,0,18,26,1],
     [17,22,4,21,12,27,1], [8,26,1,13,7,28,1], [28,0,28,4,2,0,2], [19,4,25,25,25,0,2], [10,8,22,17,20,1,2],
     [1,12,19,9,15,2,2], [21,15,16,1,10,3,2], [12,19,13,22,4,4,2], [3,23,10,14,28,4,2], [23,26,7,6,23,5,2],
     [14,1,5,27,17,6,2]] @
    [[5,5,2,19,12,7,2], [25,8,28,10,7,8,2], [16,12,25,2,2,9,2], [7,16,22,23,25,9,2], [27,19,19,15,20,10,2],
     [18,23,16,7,15,11,2], [9,27,13,28,9,12,2], [0,2,11,20,4,13,2], [20,5,8,12,28,13,2], [11,9,5,4,23,14,2],
     [2,13,2,25,17,15,2], [22,16,28,16,12,16,2], [13,20,25,8,7,17,2], [4,24,22,0,2,18,2], [24,27,19,21,25,18,2],
     [15,2,17,13,20,19,2]] @
    [[6,6,14,5,15,20,2], [26,9,11,26,9,21,2], [17,13,8,18,4,22,2], [8,17,5,10,28,22,2], [28,20,2,2,23,23,2],
     [19,24,28,22,17,24,2], [10,28,25,14,12,25,2], [1,3,23,6,7,26,2], [21,6,20,27,1,27,2], [12,10,17,19,25,27,2],
     [3,14,14,11,20,28,2], [23,17,11,3,15,0,3], [14,21,8,24,9,1,3], [5,25,5,16,4,2,3], [25,28,2,8,28,2,3],
     [16,3,0,0,23,3,3]] @
    [[7,7,26,20,17,4,3], [27,10,23,12,12,5,3], [18,14,20,4,7,6,3], [9,18,17,25,1,7,3], [0,22,14,17,25,7,3],
     [20,25,11,9,20,8,3], [11,0,9,1,15,9,3], [2,4,6,22,9,10,3], [22,7,3,14,4,11,3], [13,11,0,6,28,11,3],
     [4,15,26,26,22,12,3], [24,18,23,18,17,13,3], [15,22,20,10,12,14,3], [6,26,17,2,7,15,3], [26,0,15,23,1,16,3],
     [17,4,12,15,25,16,3]] @
    [[8,8,9,7,20,17,3], [28,11,6,28,14,18,3], [19,15,3,20,9,19,3], [10,19,0,12,4,20,3], [1,23,26,3,28,20,3],
     [21,26,23,24,22,21,3], [12,1,21,16,17,22,3], [3,5,18,8,12,23,3], [23,8,15,0,7,24,3], [14,12,12,21,1,25,3],
     [5,16,9,13,25,25,3], [25,19,6,5,20,26,3], [16,23,3,26,14,27,3], [7,27,0,18,9,28,3], [27,1,27,9,4,0,4],
     [18,5,24,1,28,0,4]] @
    [[9,9,21,22,22,1,4], [0,13,18,14,17,2,4], [20,16,15,6,12,3,4], [11,20,12,27,6,4,4], [2,24,9,19,1,5,4],
     [22,27,6,11,25,5,4], [13,2,4,3,20,6,4], [4,6,1,24,14,7,4], [24,9,27,15,9,8,4], [15,13,24,7,4,9,4],
     [6,17,21,28,27,9,4], [26,20,18,20,22,10,4], [17,24,15,12,17,11,4], [8,28,12,4,12,12,4], [28,2,10,25,6,13,4],
     [19,6,7,17,1,14,4]] @
    [[10,10,4,9,25,14,4], [1,14,1,1,20,15,4], [21,17,27,21,14,16,4], [12,21,24,13,9,17,4], [3,25,21,5,4,18,4],
     [23,28,18,26,27,18,4], [14,3,16,18,22,19,4], [5,7,13,10,17,20,4], [25,10,10,2,12,21,4], [16,14,7,23,6,22,4],
     [7,18,4,15,1,23,4], [27,21,1,7,25,23,4], [18,25,27,27,19,24,4], [9,0,25,19,14,25,4], [0,4,22,11,9,26,4],
     [20,7,19,3,4,27,4]] @
    [[11,11,16,24,27,27,4], [2,15,13,16,22,28,4], [22,18,10,8,17,0,5], [13,22,7,0,12,1,5], [4,26,4,21,6,2,5],
     [24,0,2,13,1,3,5], [15,4,28,4,25,3,5], [6,8,25,25,19,4,5], [26,11,22,17,14,5,5], [17,15,19,9,9,6,5],
     [8,19,16,1,4,7,5], [28,22,13,22,27,7,5], [19,26,10,14,22,8,5], [10,1,8,6,17,9,5], [1,5,5,27,11,10,5],
     [21,8,2,19,6,11,5]] @
    [[12,12,28,10,1,12,5], [3,16,25,2,25,12,5], [23,19,22,23,19,13,5], [14,23,19,15,14,14,5], [5,27,16,7,9,15,5],
     [25,1,14,28,3,16,5], [16,5,11,20,27,16,5], [7,9,8,12,22,17,5], [27,12,5,4,17,18,5], [18,16,2,25,11,19,5],
     [9,20,28,16,6,20,5], [0,24,25,8,1,21,5], [20,27,22,0,25,21,5], [11,2,20,21,19,22,5], [2,6,17,13,14,23,5],
     [22,9,14,5,9,24,5]] @
    [[13,13,11,26,3,25,5], [4,17,8,18,27,25,5], [24,20,5,10,22,26,5], [15,24,2,2,17,27,5], [6,28,28,22,11,28,5],
     [26,2,26,14,6,0,6], [17,6,23,6,1,1,6], [8,10,20,27,24,1,6], [28,13,17,19,19,2,6], [19,17,14,11,14,3,6],
     [10,21,11,3,9,4,6], [1,25,8,24,3,5,6], [21,28,5,16,27,5,6], [12,3,3,8,22,6,6], [3,7,0,0,17,7,6],
     [23,10,26,20,11,8,6]] @
    [[14,14,23,12,6,9,6], [5,18,20,4,1,10,6], [25,21,17,25,24,10,6], [16,25,14,17,19,11,6], [7,0,12,9,14,12,6],
     [27,3,9,1,9,13,6], [18,7,6,22,3,14,6], [9,11,3,14,27,14,6], [0,15,0,6,22,15,6], [20,18,26,26,16,16,6],
     [11,22,23,18,11,17,6], [2,26,20,10,6,18,6], [22,0,18,2,1,19,6], [13,4,15,23,24,19,6], [4,8,12,15,19,20,6],
     [24,11,9,7,14,21,6]] @
    [[15,15,6,28,8,22,6], [6,19,3,20,3,23,6], [26,22,0,12,27,23,6], [17,26,26,3,22,24,6], [8,1,24,24,16,25,6],
     [28,4,21,16,11,26,6], [19,8,18,8,6,27,6], [10,12,15,0,1,28,6], [1,16,12,21,24,28,6], [21,19,9,13,19,0,7],
     [12,23,6,5,14,1,7], [3,27,3,26,8,2,7], [23,1,1,18,3,3,7], [14,5,27,9,27,3,7], [5,9,24,1,22,4,7],
     [25,12,21,22,16,5,7]]"

definition BASE29_POS4 :: "int list list" where
  "BASE29_POS4 =
    [[0,0,0,0,0,0,0,0,0], [16,16,18,14,11,6,7,0,0], [3,4,8,0,23,12,14,0,0], [19,20,26,14,5,19,21,0,0],
     [6,8,16,0,17,25,28,0,0], [22,24,5,15,28,2,7,1,0], [9,12,24,0,11,9,14,1,0], [25,28,13,15,22,15,21,1,0],
     [12,16,3,1,5,22,28,1,0], [28,3,22,15,16,28,6,2,0], [15,20,11,1,28,5,14,2,0], [2,8,1,16,10,12,21,2,0],
     [18,24,19,1,22,18,28,2,0], [5,12,9,16,4,25,6,3,0], [21,28,27,1,16,2,14,3,0], [8,16,17,16,27,8,21,3,0]] @
    [[24,3,7,2,10,15,28,3,0], [11,20,25,16,21,21,6,4,0], [27,7,15,2,4,28,13,4,0], [14,24,4,17,15,5,21,4,0],
     [1,12,23,2,27,11,28,4,0], [17,28,12,17,9,18,6,5,0], [4,16,2,3,21,24,13,5,0], [20,3,21,17,3,2,21,5,0],
     [7,20,10,3,15,8,28,5,0], [23,7,0,18,26,14,6,6,0], [10,24,18,3,9,21,13,6,0], [26,11,8,18,20,27,20,6,0],
     [13,28,26,3,3,5,28,6,0], [0,16,16,18,14,11,6,7,0], [16,3,6,4,26,17,13,7,0], [3,20,24,18,8,24,20,7,0]] @
    [[19,7,14,4,20,1,28,7,0], [6,24,3,19,2,8,6,8,0], [22,11,22,4,14,14,13,8,0], [9,28,11,19,25,20,20,8,0],
     [25,15,1,5,8,27,27,8,0], [12,3,20,19,19,4,6,9,0], [28,19,9,5,2,11,13,9,0], [15,7,28,19,13,17,20,9,0],
     [2,24,17,5,25,23,27,9,0], [18,11,7,20,7,1,6,10,0], [5,28,25,5,19,7,13,10,0], [21,15,15,20,1,14,20,10,0],
     [8,3,5,6,13,20,27,10,0], [24,19,23,20,24,26,5,11,0], [11,7,13,6,7,4,13,11,0], [27,23,2,21,18,10,20,11,0]] @
    [[14,11,21,6,1,17,27,11,0], [1,28,10,21,12,23,5,12,0], [17,15,0,7,24,0,13,12,0], [4,3,19,21,6,7,20,12,0],
     [20,19,8,7,18,13,27,12,0], [7,7,27,21,0,20,5,13,0], [23,23,16,7,12,26,12,13,0], [10,11,6,22,23,3,20,13,0],
     [26,27,24,7,6,10,27,13,0], [13,15,14,22,17,16,5,14,0], [0,3,4,8,0,23,12,14,0], [16,19,22,22,11,0,20,14,0],
     [3,7,12,8,23,6,27,14,0], [19,23,1,23,5,13,5,15,0], [6,11,20,8,17,19,12,15,0], [22,27,9,23,28,25,19,15,0]] @
    [[9,15,28,8,11,3,27,15,0], [25,2,18,23,22,9,5,16,0], [12,19,7,9,5,16,12,16,0], [28,6,26,23,16,22,19,16,0],
     [15,23,15,9,28,28,26,16,0], [2,11,5,24,10,6,5,17,0], [18,27,23,9,22,12,12,17,0], [5,15,13,24,4,19,19,17,0],
     [21,2,3,10,16,25,26,17,0], [8,19,21,24,27,2,5,18,0], [24,6,11,10,10,9,12,18,0], [11,23,0,25,21,15,19,18,0],
     [27,10,19,10,4,22,26,18,0], [14,27,8,25,15,28,4,19,0], [1,15,27,10,27,5,12,19,0], [17,2,17,25,9,12,19,19,0]] @
    [[4,19,6,11,21,18,26,19,0], [20,6,25,25,3,25,4,20,0], [7,23,14,11,15,2,12,20,0], [23,10,4,26,26,8,19,20,0],
     [10,27,22,11,9,15,26,20,0], [26,14,12,26,20,21,4,21,0], [13,2,2,12,3,28,11,21,0], [0,19,20,26,14,5,19,21,0],
     [16,6,10,12,26,11,26,21,0], [3,23,28,26,8,18,4,22,0], [19,10,18,12,20,24,11,22,0], [6,27,7,27,2,2,19,22,0],
     [22,14,26,12,14,8,26,22,0], [9,2,16,27,25,14,4,23,0], [25,18,5,13,8,21,11,23,0], [12,6,24,27,19,27,18,23,0]] @
    [[28,22,13,13,2,5,26,23,0], [15,10,3,28,13,11,4,24,0], [2,27,21,13,25,17,11,24,0], [18,14,11,28,7,24,18,24,0],
     [5,2,1,14,19,1,26,24,0], [21,18,19,28,1,8,4,25,0], [8,6,9,14,13,14,11,25,0], [24,22,27,28,24,20,18,25,0],
     [11,10,17,14,7,27,25,25,0], [27,26,6,0,19,4,4,26,0], [14,14,25,14,1,11,11,26,0], [1,2,15,0,13,17,18,26,0],
     [17,18,4,15,24,23,25,26,0], [4,6,23,0,7,1,4,27,0], [20,22,12,15,18,7,11,27,0], [7,10,2,1,1,14,18,27,0]] @
    [[23,26,20,15,12,20,25,27,0], [10,14,10,1,24,26,3,28,0], [26,1,0,16,6,4,11,28,0], [13,18,18,1,18,10,18,28,0],
     [0,6,8,16,0,17,25,28,0], [16,22,26,1,12,23,3,0,1], [3,10,16,16,23,0,11,0,1], [19,26,5,2,6,7,18,0,1],
     [6,14,24,16,17,13,25,0,1], [22,1,14,2,0,20,3,1,1], [9,18,3,17,11,26,10,1,1], [25,5,22,2,23,3,18,1,1],
     [12,22,11,17,5,10,25,1,1], [28,9,1,3,17,16,3,2,1], [15,26,19,17,28,22,10,2,1], [2,14,9,3,11,0,18,2,1]] @
    [[18,1,28,17,22,6,25,2,1], [5,18,17,3,5,13,3,3,1], [21,5,7,18,16,19,10,3,1], [8,22,25,3,28,25,17,3,1],
     [24,9,15,18,10,3,25,3,1], [11,26,4,4,22,9,3,4,1], [27,13,23,18,4,16,10,4,1], [14,1,13,4,16,22,17,4,1],
     [1,18,2,19,27,28,24,4,1], [17,5,21,4,10,6,3,5,1], [4,22,10,19,21,12,10,5,1], [20,9,0,5,4,19,17,5,1],
     [7,26,18,19,15,25,24,5,1], [23,13,8,5,27,2,3,6,1], [10,1,27,19,9,9,10,6,1], [26,17,16,5,21,15,17,6,1]] @
    [[13,5,6,20,3,22,24,6,1], [0,22,24,5,15,28,2,7,1], [16,9,14,20,26,5,10,7,1], [3,26,3,6,9,12,17,7,1],
     [19,13,22,20,20,18,24,7,1], [6,1,12,6,3,25,2,8,1], [22,17,1,21,14,2,10,8,1], [9,5,20,6,26,8,17,8,1],
     [25,21,9,21,8,15,24,8,1], [12,9,28,6,20,21,2,9,1], [28,25,17,21,2,28,9,9,1], [15,13,7,7,14,5,17,9,1],
     [2,1,26,21,25,11,24,9,1], [18,17,15,7,8,18,2,10,1], [5,5,5,22,19,24,9,10,1], [21,21,23,7,2,2,17,10,1]] @
    [[8,9,13,22,13,8,24,10,1], [24,25,2,8,25,14,2,11,1], [11,13,21,22,7,21,9,11,1], [27,0,11,8,19,27,16,11,1],
     [14,17,0,23,1,5,24,11,1], [1,5,19,8,13,11,2,12,1], [17,21,8,23,24,17,9,12,1], [4,9,27,8,7,24,16,12,1],
     [20,25,16,23,18,1,24,12,1], [7,13,6,9,1,8,2,13,1], [23,0,25,23,12,14,9,13,1], [10,17,14,9,24,20,16,13,1],
     [26,4,4,24,6,27,23,13,1], [13,21,22,9,18,4,2,14,1], [0,9,12,24,0,11,9,14,1], [16,25,1,10,12,17,16,14,1]] @
    [[3,13,20,24,23,23,23,14,1], [19,0,10,10,6,1,2,15,1], [6,17,28,24,17,7,9,15,1], [22,4,18,10,0,14,16,15,1],
     [9,21,7,25,11,20,23,15,1], [25,8,26,10,23,26,1,16,1], [12,25,15,25,5,4,9,16,1], [28,12,5,11,17,10,16,16,1],
     [15,0,24,25,28,16,23,16,1], [2,17,13,11,11,23,1,17,1], [18,4,3,26,22,0,9,17,1], [5,21,21,11,5,7,16,17,1],
     [21,8,11,26,16,13,23,17,1], [8,25,0,12,28,19,1,18,1], [24,12,19,26,10,26,8,18,1], [11,0,9,12,22,3,16,18,1]] @
    [[27,16,27,26,4,10,23,18,1], [14,4,17,12,16,16,1,19,1], [1,21,6,27,27,22,8,19,1], [17,8,25,12,10,0,16,19,1],
     [4,25,14,27,21,6,23,19,1], [20,12,4,13,4,13,1,20,1], [7,0,23,27,15,19,8,20,1], [23,16,12,13,27,25,15,20,1],
     [10,4,2,28,9,3,23,20,1], [26,20,20,13,21,9,1,21,1], [13,8,10,28,3,16,8,21,1], [0,25,28,13,15,22,15,21,1],
     [16,12,18,28,26,28,22,21,1], [3,0,8,14,9,6,1,22,1], [19,16,26,28,20,12,8,22,1], [6,4,16,14,3,19,15,22,1]] @
    [[22,20,5,0,15,25,22,22,1], [9,8,24,14,26,2,1,23,1], [25,24,13,0,9,9,8,23,1], [12,12,3,15,20,15,15,23,1],
     [28,28,21,0,3,22,22,23,1], [15,16,11,15,14,28,0,24,1], [2,4,1,1,26,5,8,24,1], [18,20,19,15,8,12,15,24,1],
     [5,8,9,1,20,18,22,24,1], [21,24,27,15,2,25,0,25,1], [8,12,17,1,14,2,8,25,1], [24,28,6,16,25,8,15,25,1],
     [11,16,25,1,8,15,22,25,1], [27,3,15,16,19,21,0,26,1], [14,20,4,2,2,28,7,26,1], [1,8,23,16,13,5,15,26,1]] @
    [[17,24,12,2,25,11,22,26,1], [4,12,2,17,7,18,0,27,1], [20,28,20,2,19,24,7,27,1], [7,16,10,17,1,2,15,27,1],
     [23,3,0,3,13,8,22,27,1], [10,20,18,17,24,14,0,28,1], [26,7,8,3,7,21,7,28,1], [13,24,26,17,18,27,14,28,1],
     [0,12,16,3,1,5,22,28,1], [16,28,5,18,12,11,0,0,2], [3,16,24,3,24,17,7,0,2], [19,3,14,18,6,24,14,0,2],
     [6,20,3,4,18,1,22,0,2], [22,7,22,18,0,8,0,1,2], [9,24,11,4,12,14,7,1,2], [25,11,1,19,23,20,14,1,2]] @
    [[12,28,19,4,6,27,21,1,2], [28,15,9,19,17,4,0,2,2], [15,3,28,4,0,11,7,2,2], [2,20,17,19,11,17,14,2,2],
     [18,7,7,5,23,23,21,2,2], [5,24,25,19,5,1,0,3,2], [21,11,15,5,17,7,7,3,2], [8,28,4,20,28,13,14,3,2],
     [24,15,23,5,11,20,21,3,2], [11,3,13,20,22,26,28,3,2], [27,19,2,6,5,4,7,4,2], [14,7,21,20,16,10,14,4,2],
     [1,24,10,6,28,16,21,4,2], [17,11,0,21,10,23,28,4,2], [4,28,18,6,22,0,7,5,2], [20,15,8,21,4,7,14,5,2]]"

definition BASE29_POS5 :: "int list list" where
  "BASE29_POS5 =
    [[0,0,0,0,0,0,0,0,0,0], [7,3,27,6,16,13,21,5,2,0], [14,6,25,13,3,27,13,11,4,0], [21,9,23,20,19,11,6,17,6,0],
     [28,12,21,27,6,25,27,22,8,0], [6,16,19,5,23,9,20,28,10,0], [13,19,17,12,10,23,12,5,13,0],
     [20,22,15,19,26,7,5,11,15,0], [27,25,13,26,13,21,26,16,17,0], [5,0,12,4,1,6,19,22,19,0],
     [12,3,10,11,17,19,11,28,21,0], [19,6,8,18,4,4,4,5,24,0], [26,9,6,25,20,17,25,10,26,0], [4,13,4,3,8,2,18,16,28,0],
     [11,16,2,10,24,15,10,22,1,1], [18,19,0,17,11,0,3,28,3,1]] @
    [[25,22,27,23,27,13,24,4,6,1], [3,26,25,1,15,27,16,10,8,1], [10,0,24,8,2,12,9,16,10,1],
     [17,3,22,15,18,25,1,22,12,1], [24,6,20,22,5,10,23,27,14,1], [2,10,18,0,22,23,15,4,17,1],
     [9,13,16,7,9,8,8,10,19,1], [16,16,14,14,25,21,0,16,21,1], [23,19,12,21,12,6,22,21,23,1],
     [1,23,10,28,28,19,14,27,25,1], [8,26,8,6,16,4,7,4,28,1], [15,0,7,13,3,18,28,9,1,2], [22,3,5,20,19,2,21,15,3,2],
     [0,7,3,27,6,16,13,21,5,2], [7,10,1,5,23,0,6,27,7,2], [14,13,28,11,10,14,27,3,10,2]] @
    [[21,16,26,18,26,27,19,9,12,2], [28,19,24,25,13,12,12,15,14,2], [6,23,22,3,1,26,4,21,16,2],
     [13,26,20,10,17,10,26,26,18,2], [20,0,19,17,4,24,18,3,21,2], [27,3,17,24,20,8,11,9,23,2],
     [5,7,15,2,8,22,3,15,25,2], [12,10,13,9,24,6,25,20,27,2], [19,13,11,16,11,20,17,26,0,3],
     [26,16,9,23,27,4,10,3,3,3], [4,20,7,1,15,18,2,9,5,3], [11,23,5,8,2,3,24,14,7,3], [18,26,3,15,18,16,16,20,9,3],
     [25,0,2,22,5,1,9,26,11,3], [3,4,0,0,22,14,1,3,14,3], [10,7,27,6,9,28,22,8,16,3]] @
    [[17,10,25,13,25,12,15,14,18,3], [24,13,23,20,12,26,7,20,20,3], [2,17,21,27,28,10,0,26,22,3],
     [9,20,19,5,16,24,21,2,25,3], [16,23,17,12,3,9,14,8,27,3], [23,26,15,19,19,22,6,14,0,4],
     [1,1,14,26,6,7,28,19,2,4], [8,4,12,4,23,20,20,25,4,4], [15,7,10,11,10,5,13,2,7,4], [22,10,8,18,26,18,5,8,9,4],
     [0,14,6,25,13,3,27,13,11,4], [7,17,4,3,1,17,19,19,13,4], [14,20,2,10,17,1,12,25,15,4],
     [21,23,0,17,4,15,4,2,18,4], [28,26,27,23,20,28,25,7,20,4], [6,1,26,1,8,13,18,13,22,4]] @
    [[13,4,24,8,24,26,10,19,24,4], [20,7,22,15,11,11,3,25,26,4], [27,10,20,22,27,24,24,1,0,5],
     [5,14,18,0,15,9,17,7,2,5], [12,17,16,7,2,23,9,13,4,5], [19,20,14,14,18,7,2,19,6,5], [26,23,12,21,5,21,23,24,8,5],
     [4,27,10,28,21,5,16,1,11,5], [11,1,9,6,9,19,8,7,13,5], [18,4,7,13,25,3,1,13,15,5], [25,7,5,20,12,17,22,18,17,5],
     [3,11,3,27,28,1,15,24,19,5], [10,14,1,5,16,15,7,1,22,5], [17,17,28,11,3,0,0,7,24,5],
     [24,20,26,18,19,13,21,12,26,5], [2,24,24,25,6,27,13,18,28,5]] @
    [[9,27,22,3,23,11,6,24,1,6], [16,1,21,10,10,25,27,0,4,6], [23,4,19,17,26,9,20,6,6,6], [1,8,17,24,13,23,12,12,8,6],
     [8,11,15,2,1,8,5,18,10,6], [15,14,13,9,17,21,26,23,12,6], [22,17,11,16,4,6,19,0,15,6],
     [0,21,9,23,20,19,11,6,17,6], [7,24,7,1,8,4,4,12,19,6], [14,27,5,8,24,17,25,17,21,6], [21,1,4,15,11,2,18,23,23,6],
     [28,4,2,22,27,15,10,0,26,6], [6,8,0,0,15,0,3,6,28,6], [13,11,27,6,2,14,24,11,1,7], [20,14,25,13,18,27,16,17,3,7],
     [27,17,23,20,5,12,9,23,5,7]] @
    [[5,21,21,27,21,25,1,0,8,7], [12,24,19,5,9,10,23,5,10,7], [19,27,17,12,25,23,15,11,12,7],
     [26,1,16,19,12,8,8,17,14,7], [4,5,14,26,28,21,0,23,16,7], [11,8,12,4,16,6,22,28,18,7],
     [18,11,10,11,3,20,14,5,21,7], [25,14,8,18,19,4,7,11,23,7], [3,18,6,25,6,18,28,16,25,7],
     [10,21,4,3,23,2,21,22,27,7], [17,24,2,10,10,16,13,28,0,8], [24,27,0,17,26,0,6,5,3,8],
     [2,2,28,23,13,14,27,10,5,8], [9,5,26,1,1,28,19,16,7,8], [16,8,24,8,17,12,12,22,9,8],
     [23,11,22,15,4,26,4,28,11,8]] @
    [[1,15,20,22,20,10,26,4,14,8], [8,18,18,0,8,24,18,10,16,8], [15,21,16,7,24,8,11,16,18,8],
     [22,24,14,14,11,22,3,22,20,8], [0,28,12,21,27,6,25,27,22,8], [7,2,11,28,14,20,17,4,25,8],
     [14,5,9,6,2,5,10,10,27,8], [21,8,7,13,18,18,2,16,0,9], [28,11,5,20,5,3,24,21,2,9], [6,15,3,27,21,16,16,27,4,9],
     [13,18,1,5,9,1,9,4,7,9], [20,21,28,11,25,14,1,10,9,9], [27,24,26,18,12,28,22,15,11,9],
     [5,28,24,25,28,12,15,21,13,9], [12,2,23,3,16,26,7,27,15,9], [19,5,21,10,3,11,0,4,18,9]] @
    [[26,8,19,17,19,24,21,9,20,9], [4,12,17,24,6,9,14,15,22,9], [11,15,15,2,23,22,6,21,24,9],
     [18,18,13,9,10,7,28,26,26,9], [25,21,11,16,26,20,20,3,0,10], [3,25,9,23,13,5,13,9,2,10],
     [10,28,7,1,1,19,5,15,4,10], [17,2,6,8,17,3,27,20,6,10], [24,5,4,15,4,17,19,26,8,10], [2,9,2,22,20,1,12,3,11,10],
     [9,12,0,0,8,15,4,9,13,10], [16,15,27,6,24,28,25,14,15,10], [23,18,25,13,11,13,18,20,17,10],
     [1,22,23,20,27,26,10,26,19,10], [8,25,21,27,14,11,3,3,22,10], [15,28,19,5,2,25,24,8,24,10]] @
    [[22,2,18,12,18,9,17,14,26,10], [0,6,16,19,5,23,9,20,28,10], [7,9,14,26,21,7,2,26,1,11],
     [14,12,12,4,9,21,23,2,4,11], [21,15,10,11,25,5,16,8,6,11], [28,18,8,18,12,19,8,14,8,11],
     [6,22,6,25,28,3,1,20,10,11], [13,25,4,3,16,17,22,25,12,11], [20,28,2,10,3,2,15,2,15,11],
     [27,2,1,17,19,15,7,8,17,11], [5,6,28,23,6,0,0,14,19,11], [12,9,26,1,23,13,21,19,21,11],
     [19,12,24,8,10,27,13,25,23,11], [26,15,22,15,26,11,6,2,26,11], [4,19,20,22,13,25,27,7,28,11],
     [11,22,18,0,1,10,20,13,1,12]] @
    [[18,25,16,7,17,23,12,19,3,12], [25,28,14,14,4,8,5,25,5,12], [3,3,13,21,20,21,26,1,8,12],
     [10,6,11,28,7,6,19,7,10,12], [17,9,9,6,24,19,11,13,12,12], [24,12,7,13,11,4,4,19,14,12],
     [2,16,5,20,27,17,25,24,16,12], [9,19,3,27,14,2,18,1,19,12], [16,22,1,5,2,16,10,7,21,12],
     [23,25,28,11,18,0,3,13,23,12], [1,0,27,18,5,14,24,18,25,12], [8,3,25,25,21,27,16,24,27,12],
     [15,6,23,3,9,12,9,1,1,13], [22,9,21,10,25,25,1,7,3,13], [0,13,19,17,12,10,23,12,5,13],
     [7,16,17,24,28,23,15,18,7,13]] @
    [[14,19,15,2,16,8,8,24,9,13], [21,22,13,9,3,22,0,1,12,13], [28,25,11,16,19,6,22,6,14,13],
     [6,0,10,23,6,20,14,12,16,13], [13,3,8,1,23,4,7,18,18,13], [20,6,6,8,10,18,28,23,20,13],
     [27,9,4,15,26,2,21,0,23,13], [5,13,2,22,13,16,13,6,25,13], [12,16,0,0,1,1,6,12,27,13],
     [19,19,27,6,17,14,27,17,0,14], [26,22,25,13,4,28,19,23,2,14], [4,26,23,20,20,12,12,0,5,14],
     [11,0,22,27,7,26,4,6,7,14], [18,3,20,5,24,10,26,11,9,14], [25,6,18,12,11,24,18,17,11,14],
     [3,10,16,19,27,8,11,23,13,14]] @
    [[10,13,14,26,14,22,3,0,16,14], [17,16,12,4,2,7,25,5,18,14], [24,19,10,11,18,20,17,11,20,14],
     [2,23,8,18,5,5,10,17,22,14], [9,26,6,25,21,18,2,23,24,14], [16,0,5,3,9,3,24,28,26,14],
     [23,3,3,10,25,16,16,5,0,15], [1,7,1,17,12,1,9,11,2,15], [8,10,28,23,28,14,1,17,4,15],
     [15,13,26,1,16,28,22,22,6,15], [22,16,24,8,3,13,15,28,8,15], [0,20,22,15,19,26,7,5,11,15],
     [7,23,20,22,6,11,0,11,13,15], [14,26,18,0,23,24,21,16,15,15], [21,0,17,7,10,9,14,22,17,15],
     [28,3,15,14,26,22,6,28,19,15]] @
    [[6,7,13,21,13,7,28,4,22,15], [13,10,11,28,0,21,20,10,24,15], [20,13,9,6,17,5,13,16,26,15],
     [27,16,7,13,4,19,5,22,28,15], [5,20,5,20,20,3,27,27,1,16], [12,23,3,27,7,17,19,4,4,16],
     [19,26,1,5,24,1,12,10,6,16], [26,0,0,12,11,15,4,16,8,16], [4,4,27,18,27,28,25,21,10,16],
     [11,7,25,25,14,13,18,27,12,16], [18,10,23,3,2,27,10,4,15,16], [25,13,21,10,18,11,3,10,17,16],
     [3,17,19,17,5,25,24,15,19,16], [10,20,17,24,21,9,17,21,21,16], [17,23,15,2,9,23,9,27,23,16],
     [24,26,13,9,25,7,2,4,26,16]] @
    [[2,1,12,16,12,21,23,9,28,16], [9,4,10,23,28,5,16,15,1,17], [16,7,8,1,16,19,8,21,3,17], [23,10,6,8,3,4,1,27,5,17],
     [1,14,4,15,19,17,22,3,8,17], [8,17,2,22,6,2,15,9,10,17], [15,20,0,0,23,15,7,15,12,17],
     [22,23,27,6,10,0,0,21,14,17], [0,27,25,13,26,13,21,26,16,17], [7,1,24,20,13,27,13,3,19,17],
     [14,4,22,27,0,12,6,9,21,17], [21,7,20,5,17,25,27,14,23,17], [28,10,18,12,4,10,20,20,25,17],
     [6,14,16,19,20,23,12,26,27,17], [13,17,14,26,7,8,5,3,1,18], [20,20,12,4,24,21,26,8,3,18]] @
    [[27,23,10,11,11,6,19,14,5,18], [5,27,8,18,27,19,11,20,7,18], [12,1,7,25,14,4,4,26,9,18],
     [19,4,5,3,2,18,25,2,12,18], [26,7,3,10,18,2,18,8,14,18], [4,11,1,17,5,16,10,14,16,18],
     [11,14,28,23,21,0,3,20,18,18], [18,17,26,1,9,14,24,25,20,18], [25,20,24,8,25,27,16,2,23,18],
     [3,24,22,15,12,12,9,8,25,18], [10,27,20,22,28,25,1,14,27,18], [17,1,19,0,16,10,23,19,0,19],
     [24,4,17,7,3,24,15,25,2,19], [2,8,15,14,19,8,8,2,5,19], [9,11,13,21,6,22,0,8,7,19],
     [16,14,11,28,22,6,22,13,9,19]]"

definition BASE29_POS6 :: "int list list" where
  "BASE29_POS6 =
    [[0,0,0,0,0,0,0,0,0,0,0,0], [23,17,9,6,10,20,14,19,11,19,0,0], [17,6,19,12,20,11,0,10,23,9,1,0],
     [11,24,28,18,1,3,15,0,6,0,2,0], [5,13,9,25,11,23,0,20,17,19,2,0], [28,1,19,2,22,14,15,10,0,10,3,0],
     [22,19,28,8,3,6,1,1,12,0,4,0], [16,8,9,15,13,26,15,20,23,19,4,0], [10,26,18,21,23,17,1,11,6,10,5,0],
     [4,15,28,27,4,9,16,1,18,0,6,0], [27,3,9,5,15,0,2,21,0,20,6,0], [21,21,18,11,25,20,16,11,12,10,7,0],
     [15,10,28,17,6,12,2,2,24,0,8,0], [9,28,8,24,16,3,17,21,6,20,8,0], [3,17,18,1,27,23,2,12,18,10,9,0],
     [26,5,28,7,8,15,17,2,1,1,10,0]] @
    [[20,23,8,14,18,6,3,22,12,20,10,0], [14,12,18,20,28,26,17,12,24,10,11,0], [8,1,28,26,9,18,3,3,7,1,12,0],
     [2,19,8,4,20,9,18,22,18,20,12,0], [25,7,18,10,1,1,4,13,1,11,13,0], [19,25,27,16,11,21,18,3,13,1,14,0],
     [13,14,8,23,21,12,4,23,24,20,14,0], [7,3,18,0,3,4,19,13,7,11,15,0], [1,21,27,6,13,24,4,4,19,1,16,0],
     [24,9,8,13,23,15,19,23,1,21,16,0], [18,27,17,19,4,7,5,14,13,11,17,0], [12,16,27,25,14,27,19,4,25,1,18,0],
     [6,5,8,3,25,18,5,24,7,21,18,0], [0,23,17,9,6,10,20,14,19,11,19,0], [23,11,27,15,16,1,6,5,2,2,20,0],
     [17,0,8,22,26,21,20,24,13,21,20,0]] @
    [[11,18,17,28,7,13,6,15,25,11,21,0], [5,7,27,5,18,4,21,5,8,2,22,0], [28,24,7,12,28,24,6,25,19,21,22,0],
     [22,13,17,18,9,16,21,15,2,12,23,0], [16,2,27,24,19,7,7,6,14,2,24,0], [10,20,7,2,1,28,21,25,25,21,24,0],
     [4,9,17,8,11,19,7,16,8,12,25,0], [27,26,26,14,21,10,22,6,20,2,26,0], [21,15,7,21,2,2,8,26,2,22,26,0],
     [15,4,17,27,12,22,22,16,14,12,27,0], [9,22,26,4,23,13,8,7,26,2,28,0], [3,11,7,11,4,5,23,26,8,22,28,0],
     [26,28,16,17,14,25,8,17,20,12,0,1], [20,17,26,23,24,16,23,7,3,3,1,1], [14,6,7,1,6,8,9,27,14,22,1,1],
     [8,24,16,7,16,28,23,17,26,12,2,1]] @
    [[2,13,26,13,26,19,9,8,9,3,3,1], [25,1,7,20,7,11,24,27,20,22,3,1], [19,19,16,26,17,2,10,18,3,13,4,1],
     [13,8,26,3,28,22,24,8,15,3,5,1], [7,26,6,10,9,14,10,28,26,22,5,1], [1,15,16,16,19,5,25,18,9,13,6,1],
     [24,3,26,22,0,26,10,9,21,3,7,1], [18,21,6,0,11,17,25,28,3,23,7,1], [12,10,16,6,21,8,11,19,15,13,8,1],
     [6,28,25,12,2,0,26,9,27,3,9,1], [0,17,6,19,12,20,11,0,10,23,9,1], [23,5,16,25,22,11,26,19,21,13,10,1],
     [17,23,25,2,4,3,12,10,4,4,11,1], [11,12,6,9,14,23,26,0,16,23,11,1], [5,1,16,15,24,14,12,20,27,13,12,1],
     [28,18,25,21,5,6,27,10,10,4,13,1]] @
    [[22,7,6,28,15,26,12,1,22,23,13,1], [16,25,15,5,26,17,27,20,4,14,14,1], [10,14,25,11,7,9,13,11,16,4,15,1],
     [4,3,6,18,17,0,28,1,28,23,15,1], [27,20,15,24,27,20,13,21,10,14,16,1], [21,9,25,1,9,12,28,11,22,4,17,1],
     [15,27,5,8,19,3,14,2,5,24,17,1], [9,16,15,14,0,24,28,21,16,14,18,1], [3,5,25,20,10,15,14,12,28,4,19,1],
     [26,22,5,27,20,6,0,3,11,24,19,1], [20,11,15,4,2,27,14,22,22,14,20,1], [14,0,25,10,12,18,0,13,5,5,21,1],
     [8,18,5,17,22,9,15,3,17,24,21,1], [2,7,15,23,3,1,1,23,28,14,22,1], [25,24,24,0,14,21,15,13,11,5,23,1],
     [19,13,5,7,24,12,1,4,23,24,23,1]] @
    [[13,2,15,13,5,4,16,23,5,15,24,1], [7,20,24,19,15,24,1,14,17,5,25,1], [1,9,5,26,25,15,16,4,0,25,25,1],
     [24,26,14,3,7,7,2,24,11,15,26,1], [18,15,24,9,17,27,16,14,23,5,27,1], [12,4,5,16,27,18,2,5,6,25,27,1],
     [6,22,14,22,8,10,17,24,17,15,28,1], [0,11,24,28,18,1,3,15,0,6,0,2], [23,28,4,6,0,22,17,5,12,25,0,2],
     [17,17,14,12,10,13,3,25,23,15,1,2], [11,6,24,18,20,4,18,15,6,6,2,2], [5,24,4,25,1,25,3,6,18,25,2,2],
     [28,12,14,2,12,16,18,25,0,16,3,2], [22,1,24,8,22,7,4,16,12,6,4,2], [16,19,4,15,3,28,18,6,24,25,4,2],
     [10,8,14,21,13,19,4,26,6,16,5,2]] @
    [[4,26,23,27,23,10,19,16,18,6,6,2], [27,14,4,5,5,2,5,7,1,26,6,2], [21,3,14,11,15,22,19,26,12,16,7,2],
     [15,21,23,17,25,13,5,17,24,6,8,2], [9,10,4,24,6,5,20,7,7,26,8,2], [3,28,13,1,17,25,5,27,18,16,9,2],
     [26,16,23,7,27,16,20,17,1,7,10,2], [20,5,4,14,8,8,6,8,13,26,10,2], [14,23,13,20,18,28,20,27,24,16,11,2],
     [8,12,23,26,28,19,6,18,7,7,12,2], [2,1,4,4,10,11,21,8,19,26,12,2], [25,18,13,10,20,2,7,28,1,17,13,2],
     [19,7,23,16,1,23,21,18,13,7,14,2], [13,25,3,23,11,14,7,9,25,26,14,2], [7,14,13,0,22,5,22,28,7,17,15,2],
     [1,3,23,6,3,26,7,19,19,7,16,2]] @
    [[24,20,3,13,13,17,22,9,2,27,16,2], [18,9,13,19,23,8,8,0,14,17,17,2], [12,27,22,25,4,0,23,19,25,7,18,2],
     [6,16,3,3,15,20,8,10,8,27,18,2], [0,5,13,9,25,11,23,0,20,17,19,2], [23,22,22,15,6,3,9,20,2,8,20,2],
     [17,11,3,22,16,23,23,10,14,27,20,2], [11,0,13,28,26,14,9,1,26,17,21,2], [5,18,22,5,8,6,24,20,8,8,22,2],
     [28,6,3,12,18,26,9,11,20,27,22,2], [22,24,12,18,28,17,24,1,3,18,23,2], [16,13,22,24,9,9,10,21,14,8,24,2],
     [10,2,3,2,20,0,25,11,26,27,24,2], [4,20,12,8,1,21,10,2,9,18,25,2], [27,8,22,14,11,12,25,21,20,8,26,2],
     [21,26,2,21,21,3,11,12,3,28,26,2]] @
    [[15,15,12,27,2,24,25,2,15,18,27,2], [9,4,22,4,13,15,11,22,26,8,28,2], [3,22,2,11,23,6,26,12,9,28,28,2],
     [26,10,12,17,4,27,11,3,21,18,0,3], [20,28,21,23,14,18,26,22,3,9,1,3], [14,17,2,1,25,9,12,13,15,28,1,3],
     [8,6,12,7,6,1,27,3,27,18,2,3], [2,24,21,13,16,21,12,23,9,9,3,3], [25,12,2,20,26,12,27,13,21,28,3,3],
     [19,1,12,26,7,4,13,4,4,19,4,3], [13,19,21,3,18,24,27,23,15,9,5,3], [7,8,2,10,28,15,13,14,27,28,5,3],
     [1,26,11,16,9,7,28,4,10,19,6,3], [24,14,21,22,19,27,13,24,21,9,7,3], [18,3,2,0,1,19,28,14,4,0,8,3],
     [12,21,11,6,11,10,14,5,16,19,8,3]] @
    [[6,10,21,12,21,1,0,25,27,9,9,3], [0,28,1,19,2,22,14,15,10,0,10,3], [23,16,11,25,12,13,0,6,22,19,10,3],
     [17,5,21,2,23,4,15,25,4,10,11,3], [11,23,1,9,4,25,0,16,16,0,12,3], [5,12,11,15,14,16,15,6,28,19,12,3],
     [28,0,21,21,24,7,1,26,10,10,13,3], [22,18,1,28,5,28,15,16,22,0,14,3], [16,7,11,5,16,19,1,7,5,20,14,3],
     [10,25,20,11,26,10,16,26,16,10,15,3], [4,14,1,18,7,2,2,17,28,0,16,3], [27,2,11,24,17,22,16,7,11,20,16,3],
     [21,20,20,1,28,13,2,27,22,10,17,3], [15,9,1,8,9,5,17,17,5,1,18,3], [9,27,10,14,19,25,2,8,17,20,18,3],
     [3,16,20,20,0,17,17,27,28,10,19,3]] @
    [[26,4,1,27,10,8,3,18,11,1,20,3], [20,22,10,4,21,28,17,8,23,20,20,3], [14,11,20,10,2,20,3,28,5,11,21,3],
     [8,0,1,17,12,11,18,18,17,1,22,3], [2,18,10,23,22,2,4,9,0,21,22,3], [25,6,20,0,4,23,18,28,11,11,23,3],
     [19,24,0,7,14,14,4,19,23,1,24,3], [13,13,10,13,24,5,19,9,6,21,24,3], [7,2,20,19,5,26,4,0,18,11,25,3],
     [1,20,0,26,15,17,19,19,0,2,26,3], [24,8,10,3,26,8,5,10,12,21,26,3], [18,26,19,9,7,0,20,0,24,11,27,3],
     [12,15,0,16,17,20,5,20,6,2,28,3], [6,4,10,22,27,11,20,10,18,21,28,3], [0,22,19,28,8,3,6,1,1,12,0,4],
     [23,10,0,6,19,23,20,20,12,2,1,4]] @
    [[17,28,9,12,0,15,6,11,24,21,1,4], [11,17,19,18,10,6,21,1,7,12,2,4], [5,6,0,25,20,26,6,21,18,2,3,4],
     [28,23,9,2,2,18,21,11,1,22,3,4], [22,12,19,8,12,9,7,2,13,12,4,4], [16,1,0,15,22,0,22,21,24,2,5,4],
     [10,19,9,21,3,21,7,12,7,22,5,4], [4,8,19,27,13,12,22,2,19,12,6,4], [27,25,28,4,24,3,8,22,1,3,7,4],
     [21,14,9,11,5,24,22,12,13,22,7,4], [15,3,19,17,15,15,8,3,25,12,8,4], [9,21,28,23,25,6,23,22,7,3,9,4],
     [3,10,9,1,7,27,8,13,19,22,9,4], [26,27,18,7,17,18,23,3,2,13,10,4], [20,16,28,13,27,9,9,23,13,3,11,4],
     [14,5,9,20,8,1,24,13,25,22,11,4]] @
    [[8,23,18,26,18,21,9,4,8,13,12,4], [2,12,28,3,0,13,24,23,19,3,13,4], [25,0,9,10,10,4,10,14,2,23,13,4],
     [19,18,18,16,20,24,24,4,14,13,14,4], [13,7,28,22,1,16,10,24,25,3,15,4], [7,25,8,0,12,7,25,14,8,23,15,4],
     [1,14,18,6,22,27,10,5,20,13,16,4], [24,2,28,12,3,19,25,24,2,4,17,4], [18,20,8,19,13,10,11,15,14,23,17,4],
     [12,9,18,25,23,1,26,5,26,13,18,4], [6,27,27,2,5,22,11,25,8,4,19,4], [0,16,8,9,15,13,26,15,20,23,19,4],
     [23,4,18,15,25,4,12,6,3,14,20,4], [17,22,27,21,6,25,26,25,14,4,21,4], [11,11,8,28,16,16,12,16,26,23,21,4],
     [5,0,18,5,27,7,27,6,9,14,22,4]] @
    [[28,17,27,11,8,28,12,26,20,4,23,4], [22,6,8,18,18,19,27,16,3,24,23,4], [16,24,17,24,28,10,13,7,15,14,24,4],
     [10,13,27,1,10,2,28,26,26,4,25,4], [4,2,8,8,20,22,13,17,9,24,25,4], [27,19,17,14,1,14,28,7,21,14,26,4],
     [21,8,27,20,11,5,14,27,3,5,27,4], [15,26,7,27,21,25,28,17,15,24,27,4], [9,15,17,4,3,17,14,8,27,14,28,4],
     [3,4,27,10,13,8,0,28,9,5,0,5], [26,21,7,17,23,28,14,18,21,24,0,5], [20,10,17,23,4,20,0,9,4,15,1,5],
     [14,28,26,0,15,11,15,28,15,5,2,5], [8,17,7,7,25,2,1,19,27,24,2,5], [2,6,17,13,6,23,15,9,10,15,3,5],
     [25,23,26,19,16,14,1,0,22,5,4,5]] @
    [[19,12,7,26,26,5,16,19,4,25,4,5], [13,1,17,3,8,26,1,10,16,15,5,5], [7,19,26,9,18,17,16,0,28,5,6,5],
     [1,8,7,16,28,8,2,20,10,25,6,5], [24,25,16,22,9,0,17,10,22,15,7,5], [18,14,26,28,19,20,2,1,5,6,8,5],
     [12,3,7,6,1,12,17,20,16,25,8,5], [6,21,16,12,11,3,3,11,28,15,9,5], [0,10,26,18,21,23,17,1,11,6,10,5],
     [23,27,6,25,2,15,3,21,22,25,10,5], [17,16,16,2,13,6,18,11,5,16,11,5], [11,5,26,8,23,26,3,2,17,6,12,5],
     [5,23,6,15,4,18,18,21,28,25,12,5], [28,11,16,21,14,9,4,12,11,16,13,5], [22,0,26,27,24,0,19,2,23,6,14,5],
     [16,18,6,5,6,21,4,22,5,26,14,5]] @
    [[10,7,16,11,16,12,19,12,17,16,15,5], [4,25,25,17,26,3,5,3,0,7,16,5], [27,13,6,24,7,24,19,22,11,26,16,5],
     [21,2,16,1,18,15,5,13,23,16,17,5], [15,20,25,7,28,6,20,3,6,7,18,5], [9,9,6,14,9,27,5,23,17,26,18,5],
     [3,27,15,20,19,18,20,13,0,17,19,5], [26,15,25,26,0,10,6,4,12,7,20,5], [20,4,6,4,11,1,21,23,23,26,20,5],
     [14,22,15,10,21,21,6,14,6,17,21,5], [8,11,25,16,2,13,21,4,18,7,22,5], [2,0,6,23,12,4,7,24,0,27,22,5],
     [25,17,15,0,23,24,21,14,12,17,23,5], [19,6,25,6,4,16,7,5,24,7,24,5], [13,24,5,13,14,7,22,24,6,27,24,5],
     [7,13,15,19,24,27,7,15,18,17,25,5]]"

definition BASE29_POS7 :: "int list list" where
  "BASE29_POS7 =
    [[0,0,0,0,0,0,0,0,0,0,0,0,0,0], [1,2,25,25,5,19,22,5,1,8,26,5,0,0], [2,4,21,22,11,9,16,11,2,16,23,11,0,0],
     [3,6,17,19,17,28,9,17,3,24,20,17,0,0], [4,8,13,16,23,18,3,23,4,3,18,23,0,0], [5,10,9,13,0,9,26,28,5,11,15,0,1,0],
     [6,12,5,10,6,28,19,5,7,19,12,6,1,0], [7,14,1,7,12,18,13,11,8,27,9,12,1,0], [8,16,26,3,18,8,7,17,9,6,7,18,1,0],
     [9,18,22,0,24,27,0,23,10,14,4,24,1,0], [10,20,18,26,0,18,23,28,11,22,1,1,2,0],
     [11,22,14,23,6,8,17,5,13,1,28,6,2,0], [12,24,10,20,12,27,10,11,14,9,25,12,2,0],
     [13,26,6,17,18,17,4,17,15,17,22,18,2,0], [14,28,2,14,24,7,27,22,16,25,19,24,2,0],
     [15,1,28,10,1,27,20,28,17,4,17,1,3,0]] @
    [[16,3,24,7,7,17,14,5,19,12,14,7,3,0], [17,5,20,4,13,7,8,11,20,20,11,13,3,0],
     [18,7,16,1,19,26,1,17,21,28,8,19,3,0], [19,9,12,27,24,16,24,22,22,7,6,25,3,0],
     [20,11,8,24,1,7,18,28,23,15,3,2,4,0], [21,13,4,21,7,26,11,5,25,23,0,8,4,0],
     [22,15,0,18,13,16,5,11,26,2,27,13,4,0], [23,17,25,14,19,6,28,16,27,10,24,19,4,0],
     [24,19,21,11,25,25,21,22,28,18,21,25,4,0], [25,21,17,8,2,16,15,28,0,27,18,2,5,0],
     [26,23,13,5,8,6,9,5,2,6,16,8,5,0], [27,25,9,2,14,25,2,11,3,14,13,14,5,0],
     [28,27,5,28,19,15,25,16,4,22,10,20,5,0], [0,1,2,25,25,5,19,22,5,1,8,26,5,0], [1,3,27,21,2,25,12,28,6,9,5,3,6,0],
     [2,5,23,18,8,15,6,5,8,17,2,9,6,0]] @
    [[3,7,19,15,14,5,0,11,9,25,28,14,6,0], [4,9,15,12,20,24,22,16,10,4,26,20,6,0],
     [5,11,11,9,26,14,16,22,11,12,23,26,6,0], [6,13,7,6,3,5,10,28,12,20,20,3,7,0], [7,15,3,3,9,24,3,5,14,28,17,9,7,0],
     [8,17,28,28,14,14,26,10,15,7,15,15,7,0], [9,19,24,25,20,4,20,16,16,15,12,21,7,0],
     [10,21,20,22,26,23,13,22,17,23,9,27,7,0], [11,23,16,19,3,14,7,28,18,2,7,4,8,0],
     [12,25,12,16,9,4,1,5,20,10,4,10,8,0], [13,27,8,13,15,23,23,10,21,18,1,16,8,0],
     [14,0,5,10,21,13,17,16,22,26,27,21,8,0], [15,2,1,7,27,3,11,22,23,5,25,27,8,0],
     [16,4,26,3,4,23,4,28,24,13,22,4,9,0], [17,6,22,0,10,13,27,4,26,21,19,10,9,0],
     [18,8,18,26,15,3,21,10,27,0,17,16,9,0]] @
    [[19,10,14,23,21,22,14,16,28,8,14,22,9,0], [20,12,10,20,27,12,8,22,0,17,11,28,9,0],
     [21,14,6,17,4,3,2,28,1,25,8,5,10,0], [22,16,2,14,10,22,24,4,3,4,6,11,10,0],
     [23,18,27,10,16,12,18,10,4,12,3,17,10,0], [24,20,23,7,22,2,12,16,5,20,0,23,10,0],
     [25,22,19,4,28,21,5,22,6,28,26,28,10,0], [26,24,15,1,5,12,28,27,7,7,24,5,11,0],
     [27,26,11,27,10,2,22,4,9,15,21,11,11,0], [28,28,7,24,16,21,15,10,10,23,18,17,11,0],
     [0,2,4,21,22,11,9,16,11,2,16,23,11,0], [1,4,0,18,28,1,3,22,12,10,13,0,12,0],
     [2,6,25,14,5,21,25,27,13,18,10,6,12,0], [3,8,21,11,11,11,19,4,15,26,7,12,12,0],
     [4,10,17,8,17,1,13,10,16,5,5,18,12,0], [5,12,13,5,23,20,6,16,17,13,2,24,12,0]] @
    [[6,14,9,2,0,11,0,22,18,21,28,0,13,0], [7,16,5,28,5,1,23,27,19,0,26,6,13,0],
     [8,18,1,25,11,20,16,4,21,8,23,12,13,0], [9,20,26,21,17,10,10,10,22,16,20,18,13,0],
     [10,22,22,18,23,0,4,16,23,24,17,24,13,0], [11,24,18,15,0,20,26,21,24,3,15,1,14,0],
     [12,26,14,12,6,10,20,27,25,11,12,7,14,0], [13,28,10,9,12,0,14,4,27,19,9,13,14,0],
     [14,1,7,6,18,19,7,10,28,27,6,19,14,0], [15,3,3,3,24,9,1,16,0,7,4,25,14,0], [16,5,28,28,0,0,24,21,1,15,1,2,15,0],
     [17,7,24,25,6,19,17,27,2,23,27,7,15,0], [18,9,20,22,12,9,11,4,4,2,25,13,15,0],
     [19,11,16,19,18,28,4,10,5,10,22,19,15,0], [20,13,12,16,24,18,27,15,6,18,19,25,15,0],
     [21,15,8,13,1,9,21,21,7,26,16,2,16,0]] @
    [[22,17,4,10,7,28,14,27,8,5,14,8,16,0], [23,19,0,7,13,18,8,4,10,13,11,14,16,0],
     [24,21,25,3,19,8,2,10,11,21,8,20,16,0], [25,23,21,0,25,27,24,15,12,0,6,26,16,0],
     [26,25,17,26,1,18,18,21,13,8,3,3,17,0], [27,27,13,23,7,8,12,27,14,16,0,9,17,0],
     [28,0,10,20,13,27,5,4,16,24,26,14,17,0], [0,3,6,17,19,17,28,9,17,3,24,20,17,0],
     [1,5,2,14,25,7,22,15,18,11,21,26,17,0], [2,7,27,10,2,27,15,21,19,19,18,3,18,0],
     [3,9,23,7,8,17,9,27,20,27,15,9,18,0], [4,11,19,4,14,7,3,4,22,6,13,15,18,0],
     [5,13,15,1,20,26,25,9,23,14,10,21,18,0], [6,15,11,27,25,16,19,15,24,22,7,27,18,0],
     [7,17,7,24,2,7,13,21,25,1,5,4,19,0], [8,19,3,21,8,26,6,27,26,9,2,10,19,0]] @
    [[9,21,28,17,14,16,0,4,28,17,28,15,19,0], [10,23,24,14,20,6,23,9,0,26,25,21,19,0],
     [11,25,20,11,26,25,16,15,1,5,23,27,19,0], [12,27,16,8,3,16,10,21,2,13,20,4,20,0],
     [13,0,13,5,9,6,4,27,3,21,17,10,20,0], [14,2,9,2,15,25,26,3,5,0,15,16,20,0],
     [15,4,5,28,20,15,20,9,6,8,12,22,20,0], [16,6,1,25,26,5,14,15,7,16,9,28,20,0],
     [17,8,26,21,3,25,7,21,8,24,6,5,21,0], [18,10,22,18,9,15,1,27,9,3,4,11,21,0],
     [19,12,18,15,15,5,24,3,11,11,1,17,21,0], [20,14,14,12,21,24,17,9,12,19,27,22,21,0],
     [21,16,10,9,27,14,11,15,13,27,24,28,21,0], [22,18,6,6,4,5,5,21,14,6,22,5,22,0],
     [23,20,2,3,10,24,27,26,15,14,19,11,22,0], [24,22,27,28,15,14,21,3,17,22,16,17,22,0]] @
    [[25,24,23,25,21,4,15,9,18,1,14,23,22,0], [26,26,19,22,27,23,8,15,19,9,11,0,23,0],
     [27,28,15,19,4,14,2,21,20,17,8,6,23,0], [28,1,12,16,10,4,25,26,21,25,5,12,23,0],
     [0,4,8,13,16,23,18,3,23,4,3,18,23,0], [1,6,4,10,22,13,12,9,24,12,0,24,23,0], [2,8,0,7,28,3,6,15,25,20,26,0,24,0],
     [3,10,25,3,5,23,28,20,26,28,23,6,24,0], [4,12,21,0,11,13,22,26,27,7,21,12,24,0],
     [5,14,17,26,16,3,16,3,0,16,18,18,24,0], [6,16,13,23,22,22,9,9,1,24,15,24,24,0],
     [7,18,9,20,28,12,3,15,2,3,13,1,25,0], [8,20,5,17,5,3,26,20,3,11,10,7,25,0],
     [9,22,1,14,11,22,19,26,4,19,7,13,25,0], [10,24,26,10,17,12,13,3,6,27,4,19,25,0],
     [11,26,22,7,23,2,7,9,7,6,2,25,25,0]] @
    [[12,28,18,4,0,22,0,15,8,14,28,1,26,0], [13,1,15,1,6,12,23,20,9,22,25,7,26,0],
     [14,3,11,27,11,2,17,26,10,1,23,13,26,0], [15,5,7,24,17,21,10,3,12,9,20,19,26,0],
     [16,7,3,21,23,11,4,9,13,17,17,25,26,0], [17,9,28,17,0,2,27,14,14,25,14,2,27,0],
     [18,11,24,14,6,21,20,20,15,4,12,8,27,0], [19,13,20,11,12,11,14,26,16,12,9,14,27,0],
     [20,15,16,8,18,1,8,3,18,20,6,20,27,0], [21,17,12,5,24,20,1,9,19,28,3,26,27,0],
     [22,19,8,2,1,11,24,14,20,7,1,3,28,0], [23,21,4,28,6,1,18,20,21,15,27,8,28,0],
     [24,23,0,25,12,20,11,26,22,23,24,14,28,0], [25,25,25,21,18,10,5,3,24,2,22,20,28,0],
     [26,27,21,18,24,0,28,8,25,10,19,26,28,0], [27,0,18,15,1,20,21,14,26,18,16,3,0,1]] @
    [[28,2,14,12,7,10,15,20,27,26,13,9,0,1], [0,5,10,9,13,0,9,26,28,5,11,15,0,1], [1,7,6,6,19,19,2,3,1,14,8,21,0,1],
     [2,9,2,3,25,9,25,8,2,22,5,27,0,1], [3,11,27,28,1,0,19,14,3,1,3,4,1,1], [4,13,23,25,7,19,12,20,4,9,0,10,1,1],
     [5,15,19,22,13,9,6,26,5,17,26,15,1,1], [6,17,15,19,19,28,28,2,7,25,23,21,1,1],
     [7,19,11,16,25,18,22,8,8,4,21,27,1,1], [8,21,7,13,2,9,16,14,9,12,18,4,2,1],
     [9,23,3,10,8,28,9,20,10,20,15,10,2,1], [10,25,28,6,14,18,3,26,11,28,12,16,2,1],
     [11,27,24,3,20,8,26,2,13,7,10,22,2,1], [12,0,21,0,26,27,19,8,14,15,7,28,2,1],
     [13,2,17,26,2,18,13,14,15,23,4,5,3,1], [14,4,13,23,8,8,7,20,16,2,2,11,3,1]] @
    [[15,6,9,20,14,27,0,26,17,10,28,16,3,1], [16,8,5,17,20,17,23,2,19,18,25,22,3,1],
     [17,10,1,14,26,7,17,8,20,26,22,28,3,1], [18,12,26,10,3,27,10,14,21,5,20,5,4,1],
     [19,14,22,7,9,17,4,20,22,13,17,11,4,1], [20,16,18,4,15,7,27,25,23,21,14,17,4,1],
     [21,18,14,1,21,26,20,2,25,0,12,23,4,1], [22,20,10,27,26,16,14,8,26,8,9,0,5,1],
     [23,22,6,24,3,7,8,14,27,16,6,6,5,1], [24,24,2,21,9,26,1,20,28,24,3,12,5,1],
     [25,26,27,17,15,16,24,25,0,4,1,18,5,1], [26,28,23,14,21,6,18,2,2,12,27,23,5,1],
     [27,1,20,11,27,25,11,8,3,20,24,0,6,1], [28,3,16,8,4,16,5,14,4,28,21,6,6,1], [0,6,12,5,10,6,28,19,5,7,19,12,6,1],
     [1,8,8,2,16,25,21,25,6,15,16,18,6,1]] @
    [[2,10,4,28,21,15,15,2,8,23,13,24,6,1], [3,12,0,25,27,5,9,8,9,2,11,1,7,1], [4,14,25,21,4,25,2,14,10,10,8,7,7,1],
     [5,16,21,18,10,15,25,19,11,18,5,13,7,1], [6,18,17,15,16,5,19,25,12,26,2,19,7,1],
     [7,20,13,12,22,24,12,2,14,5,0,25,7,1], [8,22,9,9,28,14,6,8,15,13,26,1,8,1], [9,24,5,6,5,5,0,14,16,21,23,7,8,1],
     [10,26,1,3,11,24,22,19,17,0,21,13,8,1], [11,28,26,28,16,14,16,25,18,8,18,19,8,1],
     [12,1,23,25,22,4,10,2,20,16,15,25,8,1], [13,3,19,22,28,23,3,8,21,24,12,2,9,1],
     [14,5,15,19,5,14,26,13,22,3,10,8,9,1], [15,7,11,16,11,4,20,19,23,11,7,14,9,1],
     [16,9,7,13,17,23,13,25,24,19,4,20,9,1], [17,11,3,10,23,13,7,2,26,27,1,26,9,1]] @
    [[18,13,28,6,0,4,1,8,27,6,28,2,10,1], [19,15,24,3,6,23,23,13,28,14,25,8,10,1],
     [20,17,20,0,12,13,17,19,0,23,22,14,10,1], [21,19,16,26,17,3,11,25,1,2,20,20,10,1],
     [22,21,12,23,23,22,4,2,3,10,17,26,10,1], [23,23,8,20,0,13,27,7,4,18,14,3,11,1],
     [24,25,4,17,6,3,21,13,5,26,11,9,11,1], [25,27,0,14,12,22,14,19,6,5,9,15,11,1],
     [26,0,26,10,18,12,8,25,7,13,6,21,11,1], [27,2,22,7,24,2,2,2,9,21,3,27,11,1], [28,4,18,4,1,22,24,7,10,0,1,4,12,1],
     [0,7,14,1,7,12,18,13,11,8,27,9,12,1], [1,9,10,27,12,2,12,19,12,16,24,15,12,1],
     [2,11,6,24,18,21,5,25,13,24,21,21,12,1], [3,13,2,21,24,11,28,1,15,3,19,27,12,1],
     [4,15,27,17,1,2,22,7,16,11,16,4,13,1]] @
    [[5,17,23,14,7,21,15,13,17,19,13,10,13,1], [6,19,19,11,13,11,9,19,18,27,10,16,13,1],
     [7,21,15,8,19,1,3,25,19,6,8,22,13,1], [8,23,11,5,25,20,25,1,21,14,5,28,13,1],
     [9,25,7,2,2,11,19,7,22,22,2,5,14,1], [10,27,3,28,7,1,13,13,23,1,0,11,14,1],
     [11,0,0,25,13,20,6,19,24,9,26,16,14,1], [12,2,25,21,19,10,0,25,25,17,23,22,14,1],
     [13,4,21,18,25,0,23,1,27,25,20,28,14,1], [14,6,17,15,2,20,16,7,28,4,18,5,15,1],
     [15,8,13,12,8,10,10,13,0,13,15,11,15,1], [16,10,9,9,14,0,4,19,1,21,12,17,15,1],
     [17,12,5,6,20,19,26,24,2,0,10,23,15,1], [18,14,1,3,26,9,20,1,4,8,7,0,16,1], [19,16,26,28,2,0,14,7,5,16,4,6,16,1],
     [20,18,22,25,8,19,7,13,6,24,1,12,16,1]] @
    [[21,20,18,22,14,9,1,19,7,3,28,17,16,1], [22,22,14,19,20,28,23,24,8,11,25,23,16,1],
     [23,24,10,16,26,18,17,1,10,19,22,0,17,1], [24,26,6,13,3,9,11,7,11,27,19,6,17,1],
     [25,28,2,10,9,28,4,13,12,6,17,12,17,1], [26,1,28,6,15,18,27,18,13,14,14,18,17,1],
     [27,3,24,3,21,8,21,24,14,22,11,24,17,1], [28,5,20,0,27,27,14,1,16,1,9,1,18,1],
     [0,8,16,26,3,18,8,7,17,9,6,7,18,1], [1,10,12,23,9,8,2,13,18,17,3,13,18,1],
     [2,12,8,20,15,27,24,18,19,25,0,19,18,1], [3,14,4,17,21,17,18,24,20,4,27,24,18,1],
     [4,16,0,14,27,7,12,1,22,12,24,1,19,1], [5,18,25,10,4,27,5,7,23,20,21,7,19,1],
     [6,20,21,7,10,17,28,12,24,28,18,13,19,1], [7,22,17,4,16,7,22,18,25,7,16,19,19,1]] @
    [[8,24,13,1,22,26,15,24,26,15,13,25,19,1], [9,26,9,27,27,16,9,1,28,23,10,2,20,1],
     [10,28,5,24,4,7,3,7,0,3,8,8,20,1], [11,1,2,21,10,26,25,12,1,11,5,14,20,1],
     [12,3,27,17,16,16,19,18,2,19,2,20,20,1], [13,5,23,14,22,6,13,24,3,27,28,25,20,1],
     [14,7,19,11,28,25,6,1,5,6,26,2,21,1], [15,9,15,8,5,16,0,7,6,14,23,8,21,1],
     [16,11,11,5,11,6,23,12,7,22,20,14,21,1], [17,13,7,2,17,25,16,18,8,1,18,20,21,1],
     [18,15,3,28,22,15,10,24,9,9,15,26,21,1], [19,17,28,24,28,5,4,1,11,17,12,3,22,1],
     [20,19,24,21,5,25,26,6,12,25,9,9,22,1], [21,21,20,18,11,15,20,12,13,4,7,15,22,1],
     [22,23,16,15,17,5,14,18,14,12,4,21,22,1], [23,25,12,12,23,24,7,24,15,20,1,27,22,1]]"

definition BASE29_POS8 :: "int list list" where
  "BASE29_POS8 =
    [[0,0,0,0,0,0,0,0,0,0,0,0,0,0,0], [24,27,8,9,0,15,1,1,17,28,27,3,23,1,0], [19,26,17,18,0,1,3,2,5,28,26,7,17,3,0],
     [14,25,26,27,0,16,4,3,22,27,25,11,11,5,0], [9,24,6,8,1,2,6,4,10,27,24,15,5,7,0],
     [4,23,15,17,1,17,7,5,27,26,23,19,28,8,0], [28,21,24,26,1,3,9,6,15,26,22,23,22,10,0],
     [23,20,4,7,2,18,10,7,3,26,21,27,16,12,0], [18,19,13,16,2,4,12,8,20,25,20,2,11,14,0],
     [13,18,22,25,2,19,13,9,8,25,19,6,5,16,0], [8,17,2,6,3,5,15,10,25,24,18,10,28,17,0],
     [3,16,11,15,3,20,16,11,13,24,17,14,22,19,0], [27,14,20,24,3,6,18,12,1,24,16,18,16,21,0],
     [22,13,0,5,4,21,19,13,18,23,15,22,10,23,0], [17,12,9,14,4,7,21,14,6,23,14,26,4,25,0],
     [12,11,18,23,4,22,22,15,23,22,13,1,28,26,0]] @
    [[7,10,27,3,5,8,24,16,11,22,12,5,22,28,0], [2,9,7,13,5,23,25,17,28,21,11,9,16,1,1],
     [26,7,16,22,5,9,27,18,16,21,10,13,10,3,1], [21,6,25,2,6,24,28,19,4,21,9,17,4,5,1],
     [16,5,5,12,6,10,1,21,21,20,8,21,27,6,1], [11,4,14,21,6,25,2,22,9,20,7,25,21,8,1],
     [6,3,23,1,7,11,4,23,26,19,6,0,16,10,1], [1,2,3,11,7,26,5,24,14,19,5,4,10,12,1],
     [25,0,12,20,7,12,7,25,2,19,4,8,4,14,1], [20,28,20,0,8,27,8,26,19,18,3,12,27,15,1],
     [15,27,0,10,8,13,10,27,7,18,2,16,21,17,1], [10,26,9,19,8,28,11,28,24,17,1,20,15,19,1],
     [5,25,18,28,8,14,13,0,13,17,0,24,9,21,1], [0,24,27,8,9,0,15,1,1,17,28,27,3,23,1],
     [24,22,7,18,9,15,16,2,18,16,27,2,27,24,1], [19,21,16,27,9,1,18,3,6,16,26,6,21,26,1]] @
    [[14,20,25,7,10,16,19,4,23,15,25,10,15,28,1], [9,19,5,17,10,2,21,5,11,15,24,14,9,1,2],
     [4,18,14,26,10,17,22,6,28,14,23,18,3,3,2], [28,16,23,6,11,3,24,7,16,14,22,22,26,4,2],
     [23,15,3,16,11,18,25,8,4,14,21,26,20,6,2], [18,14,12,25,11,4,27,9,21,13,20,1,15,8,2],
     [13,13,21,5,12,19,28,10,9,13,19,5,9,10,2], [8,12,1,15,12,5,1,12,26,12,18,9,3,12,2],
     [3,11,10,24,12,20,2,13,14,12,17,13,26,13,2], [27,9,19,4,13,6,4,14,2,12,16,17,20,15,2],
     [22,8,28,13,13,21,5,15,19,11,15,21,14,17,2], [17,7,8,23,13,7,7,16,7,11,14,25,8,19,2],
     [12,6,17,3,14,22,8,17,24,10,13,0,3,21,2], [7,5,26,12,14,8,10,18,12,10,12,4,26,22,2],
     [2,4,6,22,14,23,11,19,0,10,11,8,20,24,2], [26,2,15,2,15,9,13,20,17,9,10,12,14,26,2]] @
    [[21,1,24,11,15,24,14,21,5,9,9,16,8,28,2], [16,0,4,21,15,10,16,22,22,8,8,20,2,1,3],
     [11,28,12,1,16,25,17,23,10,8,7,24,25,2,3], [6,27,21,10,16,11,19,24,27,7,6,28,19,4,3],
     [1,26,1,20,16,26,20,25,15,7,5,3,14,6,3], [25,24,10,0,17,12,22,26,3,7,4,7,8,8,3],
     [20,23,19,9,17,27,23,27,20,6,3,11,2,10,3], [15,22,28,18,17,13,25,28,8,6,2,15,25,11,3],
     [10,21,8,28,17,28,26,0,26,5,1,19,19,13,3], [5,20,17,8,18,14,28,1,14,5,0,23,13,15,3],
     [0,19,26,17,18,0,1,3,2,5,28,26,7,17,3], [24,17,6,27,18,15,2,4,19,4,27,1,2,19,3],
     [19,16,15,7,19,1,4,5,7,4,26,5,25,20,3], [14,15,24,16,19,16,5,6,24,3,25,9,19,22,3],
     [9,14,4,26,19,2,7,7,12,3,24,13,13,24,3], [4,13,13,6,20,17,8,8,0,3,23,17,7,26,3]] @
    [[28,11,22,15,20,3,10,9,17,2,22,21,1,28,3], [23,10,2,25,20,18,11,10,5,2,21,25,24,0,4],
     [18,9,11,5,21,4,13,11,22,1,20,0,19,2,4], [13,8,20,14,21,19,14,12,10,1,19,4,13,4,4],
     [8,7,0,24,21,5,16,13,27,0,18,8,7,6,4], [3,6,9,4,22,20,17,14,15,0,17,12,1,8,4],
     [27,4,18,13,22,6,19,15,3,0,16,16,24,9,4], [22,3,27,22,22,21,20,16,20,28,14,20,18,11,4],
     [17,2,7,3,23,7,22,17,8,28,13,24,12,13,4], [12,1,16,12,23,22,23,18,25,27,12,28,6,15,4],
     [7,0,25,21,23,8,25,19,13,27,11,3,1,17,4], [2,28,4,2,24,23,26,20,1,27,10,7,24,18,4],
     [26,26,13,11,24,9,28,21,18,26,9,11,18,20,4], [21,25,22,20,24,24,0,23,6,26,8,15,12,22,4],
     [16,24,2,1,25,10,2,24,23,25,7,19,6,24,4], [11,23,11,10,25,25,3,25,11,25,6,23,0,26,4]] @
    [[6,22,20,19,25,11,5,26,28,24,5,27,23,27,4], [1,21,0,0,26,26,6,27,16,24,4,2,18,0,5],
     [25,19,9,9,26,12,8,28,4,24,3,6,12,2,5], [20,18,18,18,26,27,9,0,22,23,2,10,6,4,5],
     [15,17,27,27,26,13,11,1,10,23,1,14,0,6,5], [10,16,7,8,27,28,12,2,27,22,0,18,23,7,5],
     [5,15,16,17,27,14,14,3,15,22,28,21,17,9,5], [0,14,25,26,27,0,16,4,3,22,27,25,11,11,5],
     [24,12,5,7,28,15,17,5,20,21,26,0,6,13,5], [19,11,14,16,28,1,19,6,8,21,25,4,0,15,5],
     [14,10,23,25,28,16,20,7,25,20,24,8,23,16,5], [9,9,3,6,0,3,22,8,13,20,23,12,17,18,5],
     [4,8,12,15,0,18,23,9,1,20,22,16,11,20,5], [28,6,21,24,0,4,25,10,18,19,21,20,5,22,5],
     [23,5,1,5,1,19,26,11,6,19,20,24,28,23,5], [18,4,10,14,1,5,28,12,23,18,19,28,22,25,5]] @
    [[13,3,19,23,1,20,0,14,11,18,18,3,17,27,5], [8,2,28,3,2,6,2,15,28,17,17,7,11,0,6],
     [3,1,8,13,2,21,3,16,16,17,16,11,5,2,6], [27,28,16,22,2,7,5,17,4,17,15,15,28,3,6],
     [22,27,25,2,3,22,6,18,21,16,14,19,22,5,6], [17,26,5,12,3,8,8,19,9,16,13,23,16,7,6],
     [12,25,14,21,3,23,9,20,26,15,12,27,10,9,6], [7,24,23,1,4,9,11,21,14,15,11,2,5,11,6],
     [2,23,3,11,4,24,12,22,2,15,10,6,28,12,6], [26,21,12,20,4,10,14,23,19,14,9,10,22,14,6],
     [21,20,21,0,5,25,15,24,7,14,8,14,16,16,6], [16,19,1,10,5,11,17,25,24,13,7,18,10,18,6],
     [11,18,10,19,5,26,18,26,12,13,6,22,4,20,6], [6,17,19,28,5,12,20,27,0,13,5,26,27,21,6],
     [1,16,28,8,6,27,21,28,17,12,4,1,22,23,6], [25,14,8,18,6,13,23,0,6,12,3,5,16,25,6]] @
    [[20,13,17,27,6,28,24,1,23,11,2,9,10,27,6], [15,12,26,7,7,14,26,2,11,11,1,13,4,0,7],
     [10,11,6,17,7,0,28,3,28,10,0,17,27,1,7], [5,10,15,26,7,15,0,5,16,10,28,20,21,3,7],
     [0,9,24,6,8,1,2,6,4,10,27,24,15,5,7], [24,7,4,16,8,16,3,7,21,9,26,28,9,7,7], [19,6,13,25,8,2,5,8,9,9,25,3,4,9,7],
     [14,5,22,5,9,17,6,9,26,8,24,7,27,10,7], [9,4,2,15,9,3,8,10,14,8,23,11,21,12,7],
     [4,3,11,24,9,18,9,11,2,8,22,15,15,14,7], [28,1,20,4,10,4,11,12,19,7,21,19,9,16,7],
     [23,0,0,14,10,19,12,13,7,7,20,23,3,18,7], [18,28,8,23,10,5,14,14,24,6,19,27,26,19,7],
     [13,27,17,3,11,20,15,15,12,6,18,2,21,21,7], [8,26,26,12,11,6,17,16,0,6,17,6,15,23,7],
     [3,25,6,22,11,21,18,17,17,5,16,10,9,25,7]] @
    [[27,23,15,2,12,7,20,18,5,5,15,14,3,27,7], [22,22,24,11,12,22,21,19,22,4,14,18,26,28,7],
     [17,21,4,21,12,8,23,20,10,4,13,22,20,1,8], [12,20,13,1,13,23,24,21,27,3,12,26,14,3,8],
     [7,19,22,10,13,9,26,22,15,3,11,1,9,5,8], [2,18,2,20,13,24,27,23,3,3,10,5,3,7,8],
     [26,16,11,0,14,10,0,25,20,2,9,9,26,8,8], [21,15,20,9,14,25,1,26,8,2,8,13,20,10,8],
     [16,14,0,19,14,11,3,27,25,1,7,17,14,12,8], [11,13,9,28,14,26,4,28,13,1,6,21,8,14,8],
     [6,12,18,8,15,12,6,0,2,1,5,25,2,16,8], [1,11,27,17,15,27,7,1,19,0,4,0,26,17,8],
     [25,9,7,27,15,13,9,2,7,0,3,4,20,19,8], [20,8,16,7,16,28,10,3,24,28,1,8,14,21,8],
     [15,7,25,16,16,14,12,4,12,28,0,12,8,23,8], [10,6,5,26,16,0,14,5,0,28,28,15,2,25,8]] @
    [[5,5,14,6,17,15,15,6,17,27,27,19,25,26,8], [0,4,23,15,17,1,17,7,5,27,26,23,19,28,8],
     [24,2,3,25,17,16,18,8,22,26,25,27,13,1,9], [19,1,12,5,18,2,20,9,10,26,24,2,8,3,9],
     [14,0,21,14,18,17,21,10,27,25,23,6,2,5,9], [9,28,0,24,18,3,23,11,15,25,22,10,25,6,9],
     [4,27,9,4,19,18,24,12,3,25,21,14,19,8,9], [28,25,18,13,19,4,26,13,20,24,20,18,13,10,9],
     [23,24,27,22,19,19,27,14,8,24,19,22,7,12,9], [18,23,7,3,20,5,0,16,25,23,18,26,1,14,9],
     [13,22,16,12,20,20,1,17,13,23,17,1,25,15,9], [8,21,25,21,20,6,3,18,1,23,16,5,19,17,9],
     [3,20,5,2,21,21,4,19,18,22,15,9,13,19,9], [27,18,14,11,21,7,6,20,6,22,14,13,7,21,9],
     [22,17,23,20,21,22,7,21,23,21,13,17,1,23,9], [17,16,3,1,22,8,9,22,11,21,12,21,24,24,9]] @
    [[12,15,12,10,22,23,10,23,28,20,11,25,18,26,9], [7,14,21,19,22,9,12,24,16,20,10,0,13,28,9],
     [2,13,1,0,23,24,13,25,4,20,9,4,7,1,10], [26,11,10,9,23,10,15,26,21,19,8,8,1,3,10],
     [21,10,19,18,23,25,16,27,9,19,7,12,24,4,10], [16,9,28,27,23,11,18,28,26,18,6,16,18,6,10],
     [11,8,8,8,24,26,19,0,15,18,5,20,12,8,10], [6,7,17,17,24,12,21,1,3,18,4,24,6,10,10],
     [1,6,26,26,24,27,22,2,20,17,3,28,0,12,10], [25,4,6,7,25,13,24,3,8,17,2,3,24,13,10],
     [20,3,15,16,25,28,25,4,25,16,1,7,18,15,10], [15,2,24,25,25,14,27,5,13,16,0,11,12,17,10],
     [10,1,4,6,26,0,0,7,1,16,28,14,6,19,10], [5,0,13,15,26,15,1,8,18,15,27,18,0,21,10],
     [0,28,21,24,26,1,3,9,6,15,26,22,23,22,10], [24,26,1,5,27,16,4,10,23,14,25,26,17,24,10]] @
    [[19,25,10,14,27,2,6,11,11,14,24,1,12,26,10], [14,24,19,23,27,17,7,12,28,13,23,5,6,28,10],
     [9,23,28,3,28,3,9,13,16,13,22,9,0,1,11], [4,22,8,13,28,18,10,14,4,13,21,13,23,2,11],
     [28,20,17,22,28,4,12,15,21,12,20,17,17,4,11], [23,19,26,2,0,20,13,16,9,12,19,21,11,6,11],
     [18,18,6,12,0,6,15,17,26,11,18,25,5,8,11], [13,17,15,21,0,21,16,18,14,11,17,0,0,10,11],
     [8,16,24,1,1,7,18,19,2,11,16,4,23,11,11], [3,15,4,11,1,22,19,20,19,10,15,8,17,13,11],
     [27,13,13,20,1,8,21,21,7,10,14,12,11,15,11], [22,12,22,0,2,23,22,22,24,9,13,16,5,17,11],
     [17,11,2,10,2,9,24,23,12,9,12,20,28,18,11], [12,10,11,19,2,24,25,24,0,9,11,24,22,20,11],
     [7,9,20,28,2,10,27,25,17,8,10,28,16,22,11], [2,8,0,9,3,25,28,26,5,8,9,3,11,24,11]] @
    [[26,6,9,18,3,11,1,28,22,7,8,7,5,26,11], [21,5,18,27,3,26,2,0,11,7,7,11,28,27,11],
     [16,4,27,7,4,12,4,1,28,6,6,15,22,0,12], [11,3,7,17,4,27,5,2,16,6,5,19,16,2,12],
     [6,2,16,26,4,13,7,3,4,6,4,23,10,4,12], [1,1,25,6,5,28,8,4,21,5,3,27,4,6,12],
     [25,28,4,16,5,14,10,5,9,5,2,2,28,7,12], [20,27,13,25,5,0,12,6,26,4,1,6,22,9,12],
     [15,26,22,5,6,15,13,7,14,4,0,10,16,11,12], [10,25,2,15,6,1,15,8,2,4,28,13,10,13,12],
     [5,24,11,24,6,16,16,9,19,3,27,17,4,15,12], [0,23,20,4,7,2,18,10,7,3,26,21,27,16,12],
     [24,21,0,14,7,17,19,11,24,2,25,25,21,18,12], [19,20,9,23,7,3,21,12,12,2,24,0,16,20,12],
     [14,19,18,3,8,18,22,13,0,2,23,4,10,22,12], [9,18,27,12,8,4,24,14,17,1,22,8,4,24,12]] @
    [[4,17,7,22,8,19,25,15,5,1,21,12,27,25,12], [28,15,16,2,9,5,27,16,22,0,20,16,21,27,12],
     [23,14,25,11,9,20,28,17,10,0,19,20,15,0,13], [18,13,5,21,9,6,1,19,27,28,17,24,9,2,13],
     [13,12,14,1,10,21,2,20,15,28,16,28,3,4,13], [8,11,23,10,10,7,4,21,3,28,15,3,27,5,13],
     [3,10,3,20,10,22,5,22,20,27,14,7,21,7,13], [27,8,12,0,11,8,7,23,8,27,13,11,15,9,13],
     [22,7,21,9,11,23,8,24,25,26,12,15,9,11,13], [17,6,1,19,11,9,10,25,13,26,11,19,3,13,13],
     [12,5,10,28,11,24,11,26,1,26,10,23,26,14,13], [7,4,19,8,12,10,13,27,18,25,9,27,20,16,13],
     [2,3,28,17,12,25,14,28,6,25,8,2,15,18,13], [26,1,8,27,12,11,16,0,24,24,7,6,9,20,13],
     [21,0,17,7,13,26,17,1,12,24,6,10,3,22,13], [16,28,25,16,13,12,19,2,0,24,5,14,26,23,13]] @
    [[11,27,5,26,13,27,20,3,17,23,4,18,20,25,13], [6,26,14,6,14,13,22,4,5,23,3,22,14,27,13],
     [1,25,23,15,14,28,23,5,22,22,2,26,8,0,14], [25,23,3,25,14,14,25,6,10,22,1,1,3,2,14],
     [20,22,12,5,15,0,27,7,27,21,0,5,26,3,14], [15,21,21,14,15,15,28,8,15,21,28,8,20,5,14],
     [10,20,1,24,15,1,1,10,3,21,27,12,14,7,14], [5,19,10,4,16,16,2,11,20,20,26,16,8,9,14],
     [0,18,19,13,16,2,4,12,8,20,25,20,2,11,14], [24,16,28,22,16,17,5,13,25,19,24,24,25,12,14],
     [19,15,8,3,17,3,7,14,13,19,23,28,19,14,14], [14,14,17,12,17,18,8,15,1,19,22,3,14,16,14],
     [9,13,26,21,17,4,10,16,18,18,21,7,8,18,14], [4,12,6,2,18,19,11,17,6,18,20,11,2,20,14],
     [28,10,15,11,18,5,13,18,23,17,19,15,25,21,14], [23,9,24,20,18,20,14,19,11,17,18,19,19,23,14]] @
    [[18,8,4,1,19,6,16,20,28,16,17,23,13,25,14], [13,7,13,10,19,21,17,21,16,16,16,27,7,27,14],
     [8,6,22,19,19,7,19,22,4,16,15,2,2,0,15], [3,5,2,0,20,22,20,23,21,15,14,6,25,1,15],
     [27,3,11,9,20,8,22,24,9,15,13,10,19,3,15], [22,2,20,18,20,23,23,25,26,14,12,14,13,5,15],
     [17,1,0,28,20,9,25,26,14,14,11,18,7,7,15], [12,0,9,8,21,24,26,27,2,14,10,22,1,9,15],
     [7,28,17,17,21,10,28,28,19,13,9,26,24,10,15], [2,27,26,26,21,25,0,1,8,13,8,1,19,12,15],
     [26,25,6,7,22,11,2,2,25,12,7,5,13,14,15], [21,24,15,16,22,26,3,3,13,12,6,9,7,16,15],
     [16,23,24,25,22,12,5,4,1,12,5,13,1,18,15], [11,22,4,6,23,27,6,5,18,11,4,17,24,19,15],
     [6,21,13,15,23,13,8,6,6,11,3,21,18,21,15], [1,20,22,24,23,28,9,7,23,10,2,25,12,23,15]]"

definition BASE29_POS9 :: "int list list" where
  "BASE29_POS9 =
    [[0,0,0,0,0,0,0,0,0,0,0,0,0,0,0,0,0], [25,18,2,5,24,14,11,8,11,10,1,0,7,25,15,0,0],
     [21,8,5,10,19,0,23,16,22,20,2,0,14,21,2,1,0], [17,27,7,15,14,15,5,25,4,2,4,0,21,17,18,1,0],
     [13,17,10,20,9,1,17,4,16,12,5,0,28,13,5,2,0], [9,7,13,25,4,16,28,12,27,22,6,0,6,10,21,2,0],
     [5,26,15,1,0,2,11,21,9,4,8,0,13,6,8,3,0], [1,16,18,6,24,16,22,0,21,14,9,0,20,2,24,3,0],
     [26,5,21,11,19,2,5,9,3,25,10,0,27,27,10,4,0], [22,24,23,16,14,17,16,17,14,6,12,0,5,24,26,4,0],
     [18,14,26,21,9,3,28,25,25,16,13,0,12,20,13,5,0], [14,4,0,27,4,18,10,5,8,27,14,0,19,16,0,6,0],
     [10,23,2,3,0,4,22,13,19,8,16,0,26,12,16,6,0], [6,13,5,8,24,18,4,22,1,19,17,0,4,9,3,7,0],
     [2,3,8,13,19,4,16,1,13,0,19,0,11,5,19,7,0], [27,21,10,18,14,19,27,9,24,10,20,0,18,1,6,8,0]] @
    [[23,11,13,23,9,5,10,18,6,21,21,0,25,26,21,8,0], [19,1,16,28,4,20,21,26,17,2,23,0,3,23,8,9,0],
     [15,20,18,4,0,6,4,6,0,13,24,0,10,19,24,9,0], [11,10,21,9,24,20,15,14,11,23,25,0,17,15,11,10,0],
     [7,0,24,14,19,6,27,22,22,4,27,0,24,11,27,10,0], [3,19,26,19,14,21,9,2,5,15,28,0,2,8,14,11,0],
     [28,8,0,25,9,7,21,10,16,25,0,1,9,4,1,12,0], [24,27,2,1,5,22,3,19,27,6,2,1,16,0,17,12,0],
     [20,17,5,6,0,8,15,27,9,17,3,1,23,25,3,13,0], [16,7,8,11,24,22,26,6,21,27,4,1,1,22,19,13,0],
     [12,26,10,16,19,8,9,15,3,9,6,1,8,18,6,14,0], [8,16,13,21,14,23,20,23,14,19,7,1,15,14,22,14,0],
     [4,6,16,26,9,9,3,3,26,0,9,1,22,10,9,15,0], [0,25,18,2,5,24,14,11,8,11,10,1,0,7,25,15,0],
     [25,14,21,7,0,10,26,19,19,21,11,1,7,3,12,16,0], [21,4,24,12,24,24,8,28,1,3,13,1,14,28,27,16,0]] @
    [[17,23,26,17,19,10,20,7,13,13,14,1,21,24,14,17,0], [13,13,0,23,14,25,2,16,24,23,15,1,28,20,1,18,0],
     [9,3,3,28,9,11,14,24,6,5,17,1,6,17,17,18,0], [5,22,5,4,5,26,25,3,18,15,18,1,13,13,4,19,0],
     [1,12,8,9,0,12,8,12,0,26,19,1,20,9,20,19,0], [26,1,11,14,24,26,19,20,11,7,21,1,27,5,7,20,0],
     [22,20,13,19,19,12,2,0,23,17,22,1,5,2,23,20,0], [18,10,16,24,14,27,13,8,5,28,23,1,12,27,9,21,0],
     [14,0,19,0,10,13,25,16,16,9,25,1,19,23,25,21,0], [10,19,21,5,5,28,7,25,27,19,26,1,26,19,12,22,0],
     [6,9,24,10,0,14,19,4,10,1,28,1,4,16,28,22,0], [2,28,26,15,24,28,1,13,21,11,0,2,11,12,15,23,0],
     [27,17,0,21,19,14,13,21,3,22,1,2,18,8,2,24,0], [23,7,3,26,14,0,25,0,15,3,3,2,25,4,18,24,0],
     [19,26,5,2,10,15,7,9,26,13,4,2,3,1,5,25,0], [15,16,8,7,5,1,19,17,8,24,5,2,10,26,20,25,0]] @
    [[11,6,11,12,0,16,1,26,19,5,7,2,17,22,7,26,0], [7,25,13,17,24,1,13,5,2,16,8,2,24,18,23,26,0],
     [3,15,16,22,19,16,24,13,13,26,9,2,2,15,10,27,0], [28,4,19,27,14,2,7,22,24,7,11,2,9,11,26,27,0],
     [24,23,21,3,10,17,18,1,7,18,12,2,16,7,13,28,0], [20,13,24,8,5,3,1,10,18,28,13,2,23,3,0,0,1],
     [16,3,27,13,0,18,12,18,0,10,15,2,1,0,16,0,1], [12,22,0,19,24,3,24,26,11,20,16,2,8,25,2,1,1],
     [8,12,3,24,19,18,6,6,23,1,18,2,15,21,18,1,1], [4,2,6,0,15,4,18,14,5,12,19,2,22,17,5,2,1],
     [0,21,8,5,10,19,0,23,16,22,20,2,0,14,21,2,1], [25,10,11,10,5,5,12,2,28,3,22,2,7,10,8,3,1],
     [21,0,14,15,0,20,23,10,10,14,23,2,14,6,24,3,1], [17,19,16,20,24,5,6,19,21,24,24,2,21,2,11,4,1],
     [13,9,19,25,19,20,17,27,3,6,26,2,28,27,26,4,1], [9,28,21,1,15,6,0,7,15,16,27,2,6,24,13,5,1]] @
    [[5,18,24,6,10,21,11,15,26,26,28,2,13,20,0,6,1], [1,8,27,11,5,7,23,23,8,8,1,3,20,16,16,6,1],
     [26,26,0,17,0,22,5,3,20,18,2,3,27,12,3,7,1], [22,16,3,22,24,7,17,11,2,0,4,3,5,9,19,7,1],
     [18,6,6,27,19,22,28,19,13,10,5,3,12,5,6,8,1], [14,25,8,3,15,8,11,28,24,20,6,3,19,1,22,8,1],
     [10,15,11,8,10,23,22,7,7,2,8,3,26,26,8,9,1], [6,5,14,13,5,9,5,16,18,12,9,3,4,23,24,9,1],
     [2,24,16,18,0,24,16,24,0,23,10,3,11,19,11,10,1], [27,13,19,23,24,9,28,3,12,4,12,3,18,15,27,10,1],
     [23,3,22,28,19,24,10,12,23,14,13,3,25,11,14,11,1], [19,22,24,4,15,10,22,20,5,25,14,3,3,8,1,12,1],
     [15,12,27,9,10,25,4,0,17,6,16,3,10,4,17,12,1], [11,2,1,15,5,11,16,8,28,16,17,3,17,0,4,13,1],
     [7,21,3,20,0,26,27,16,10,27,18,3,24,25,19,13,1], [3,11,6,25,24,11,10,25,21,8,20,3,2,22,6,14,1]] @
    [[28,0,9,1,20,26,21,4,4,19,21,3,9,18,22,14,1], [24,19,11,6,15,12,4,13,15,0,23,3,16,14,9,15,1],
     [20,9,14,11,10,27,15,21,26,10,24,3,23,10,25,15,1], [16,28,16,16,5,13,27,0,9,21,25,3,1,7,12,16,1],
     [12,18,19,21,0,28,9,9,20,2,27,3,8,3,28,16,1], [8,8,22,26,24,13,21,17,2,13,28,3,15,28,14,17,1],
     [4,27,24,2,20,28,3,26,13,23,0,4,22,24,1,18,1], [0,17,27,7,15,14,15,5,25,4,2,4,0,21,17,18,1],
     [25,6,1,13,10,0,27,13,7,15,3,4,7,17,4,19,1], [21,25,3,18,5,15,9,22,18,25,4,4,14,13,20,19,1],
     [17,15,6,23,0,1,21,1,1,7,6,4,21,9,7,20,1], [13,5,9,28,24,15,3,10,12,17,7,4,28,5,23,20,1],
     [9,24,11,4,20,1,15,18,23,27,8,4,6,2,10,21,1], [5,14,14,9,15,16,26,26,5,9,10,4,13,27,25,21,1],
     [1,4,17,14,10,2,9,6,17,19,11,4,20,23,12,22,1], [26,22,19,19,5,17,20,14,28,0,13,4,27,19,28,22,1]] @
    [[22,12,22,24,0,3,3,23,10,11,14,4,5,16,15,23,1], [18,2,25,0,25,17,14,2,22,21,15,4,12,12,2,24,1],
     [14,21,27,5,20,3,26,10,4,3,17,4,19,8,18,24,1], [10,11,1,11,15,18,8,19,15,13,18,4,26,4,5,25,1],
     [6,1,4,16,10,4,20,27,26,23,19,4,4,1,21,25,1], [2,20,6,21,5,19,2,7,9,5,21,4,11,26,7,26,1],
     [27,9,9,26,0,5,14,15,20,15,22,4,18,22,23,26,1], [23,28,11,2,25,19,25,23,2,26,23,4,25,18,10,27,1],
     [19,18,14,7,20,5,8,3,14,7,25,4,3,15,26,27,1], [15,8,17,12,15,20,19,11,25,17,26,4,10,11,13,28,1],
     [11,27,19,17,10,6,2,20,7,28,27,4,17,7,0,0,2], [7,17,22,22,5,21,13,28,18,9,0,5,24,3,16,0,2],
     [3,7,25,27,0,7,25,7,1,20,1,5,2,0,3,1,2], [28,25,27,3,25,21,7,16,12,1,3,5,9,25,18,1,2],
     [24,15,1,9,20,7,19,24,23,11,4,5,16,21,5,2,2], [20,5,4,14,15,22,1,4,6,22,5,5,23,17,21,2,2]] @
    [[16,24,6,19,10,8,13,12,17,3,7,5,1,14,8,3,2], [12,14,9,24,5,23,24,20,28,13,8,5,8,10,24,3,2],
     [8,4,12,0,1,9,7,0,11,24,9,5,15,6,11,4,2], [4,23,14,5,25,23,18,8,22,5,11,5,22,2,27,4,2],
     [0,13,17,10,20,9,1,17,4,16,12,5,0,28,13,5,2], [25,2,20,15,15,24,12,25,15,26,13,5,7,24,0,6,2],
     [21,21,22,20,10,10,24,4,27,7,15,5,14,20,16,6,2], [17,11,25,25,5,25,6,13,9,18,16,5,21,16,3,7,2],
     [13,1,28,1,1,11,18,21,20,28,17,5,28,12,19,7,2], [9,20,1,7,25,25,0,1,3,10,19,5,6,9,6,8,2],
     [5,10,4,12,20,11,12,9,14,20,20,5,13,5,22,8,2], [1,0,7,17,15,26,23,17,25,1,22,5,20,1,9,9,2],
     [26,18,9,22,10,12,6,26,7,12,23,5,27,26,24,9,2], [22,8,12,27,5,27,17,5,19,22,24,5,5,23,11,10,2],
     [18,27,14,3,1,13,0,14,1,4,26,5,12,19,27,10,2], [14,17,17,8,25,27,11,22,12,14,27,5,19,15,14,11,2]] @
    [[10,7,20,13,20,13,23,1,24,24,28,5,26,11,1,12,2], [6,26,22,18,15,28,5,10,6,6,1,6,4,8,17,12,2],
     [2,16,25,23,10,14,17,18,17,16,2,6,11,4,4,13,2], [27,5,28,28,5,0,0,27,28,26,3,6,18,0,20,13,2],
     [23,24,1,5,1,15,11,6,11,8,5,6,25,25,6,14,2], [19,14,4,10,25,0,23,14,22,18,6,6,3,22,22,14,2],
     [15,4,7,15,20,15,5,23,4,0,8,6,10,18,9,15,2], [11,23,9,20,15,1,17,2,16,10,9,6,17,14,25,15,2],
     [7,13,12,25,10,16,28,10,27,20,10,6,24,10,12,16,2], [3,3,15,1,6,2,11,19,9,2,12,6,2,7,28,16,2],
     [28,21,17,6,1,17,22,27,20,12,13,6,9,3,15,17,2], [24,11,20,11,25,2,5,7,3,23,14,6,16,28,1,18,2],
     [20,1,23,16,20,17,16,15,14,4,16,6,23,24,17,18,2], [16,20,25,21,15,3,28,23,25,14,17,6,1,21,4,19,2],
     [12,10,28,26,10,18,10,3,8,25,18,6,8,17,20,19,2], [8,0,2,3,6,4,22,11,19,6,20,6,15,13,7,20,2]] @
    [[4,19,4,8,1,19,4,20,1,17,21,6,22,9,23,20,2], [0,9,7,13,25,4,16,28,12,27,22,6,0,6,10,21,2],
     [25,27,9,18,20,19,27,7,24,8,24,6,7,2,26,21,2], [21,17,12,23,15,5,10,16,6,19,25,6,14,27,12,22,2],
     [17,7,15,28,10,20,21,24,17,0,27,6,21,23,28,22,2], [13,26,17,4,6,6,4,4,0,11,28,6,28,19,15,23,2],
     [9,16,20,9,1,21,15,12,11,21,0,7,6,16,2,24,2], [5,6,23,14,25,6,27,20,22,2,2,7,13,12,18,24,2],
     [1,25,25,19,20,21,9,0,5,13,3,7,20,8,5,25,2], [26,14,28,24,15,7,21,8,16,23,4,7,27,4,21,25,2],
     [22,4,2,1,11,22,3,17,27,4,6,7,5,1,8,26,2], [18,23,4,6,6,8,15,25,9,15,7,7,12,26,23,26,2],
     [14,13,7,11,1,23,26,4,21,25,8,7,19,22,10,27,2], [10,3,10,16,25,8,9,13,3,7,10,7,26,18,26,27,2],
     [6,22,12,21,20,23,20,21,14,17,11,7,4,15,13,28,2], [2,12,15,26,15,9,3,1,26,27,12,7,11,11,0,0,3]] @
    [[27,1,18,2,11,24,14,9,8,9,14,7,18,7,16,0,3], [23,20,20,7,6,10,26,17,19,19,15,7,25,3,3,1,3],
     [19,10,23,12,1,25,8,26,1,1,17,7,3,0,19,1,3], [15,0,26,17,25,10,20,5,13,11,18,7,10,25,5,2,3],
     [11,19,28,22,20,25,2,14,24,21,19,7,17,21,21,2,3], [7,9,2,28,15,11,14,22,6,3,21,7,24,17,8,3,3],
     [3,28,4,4,11,26,25,1,18,13,22,7,2,14,24,3,3], [28,17,7,9,6,12,8,10,0,24,23,7,9,10,11,4,3],
     [24,7,10,14,1,27,19,18,11,5,25,7,16,6,27,4,3], [20,26,12,19,25,12,2,27,22,15,26,7,23,2,14,5,3],
     [16,16,15,24,20,27,13,6,5,26,27,7,1,28,0,6,3], [12,6,18,0,16,13,25,14,16,7,0,8,8,24,16,6,3],
     [8,25,20,5,11,28,7,23,27,17,1,8,15,20,3,7,3], [4,15,23,10,6,14,19,2,10,28,2,8,22,16,19,7,3],
     [0,5,26,15,1,0,2,11,21,9,4,8,0,13,6,8,3], [25,23,28,20,25,14,13,19,3,20,5,8,7,9,22,8,3]] @
    [[21,13,2,26,20,0,25,27,14,1,7,8,14,5,9,9,3], [17,3,5,2,16,15,7,7,26,11,8,8,21,1,25,9,3],
     [13,22,7,7,11,1,19,15,8,22,9,8,28,26,11,10,3], [9,12,10,12,6,16,1,24,19,3,11,8,6,23,27,10,3],
     [5,2,13,17,1,2,13,3,2,14,12,8,13,19,14,11,3], [1,21,15,22,25,16,24,11,13,24,13,8,20,15,1,12,3],
     [26,10,18,27,20,2,7,20,24,5,15,8,27,11,17,12,3], [22,0,21,3,16,17,18,28,6,16,16,8,5,8,4,13,3],
     [18,19,23,8,11,3,1,8,18,26,17,8,12,4,20,13,3], [14,9,26,13,6,18,12,16,0,8,19,8,19,0,7,14,3],
     [10,28,28,18,1,4,24,24,11,18,20,8,26,25,22,14,3], [6,18,2,24,25,18,6,4,23,28,21,8,4,22,9,15,3],
     [2,8,5,0,21,4,18,12,5,10,23,8,11,18,25,15,3], [27,26,7,5,16,19,0,21,16,20,24,8,18,14,12,16,3],
     [23,16,10,10,11,5,12,0,28,1,26,8,25,10,28,16,3], [19,6,13,15,6,20,23,8,10,12,27,8,3,7,15,17,3]] @
    [[15,25,15,20,1,6,6,17,21,22,28,8,10,3,2,18,3], [11,15,18,25,25,20,17,25,3,4,1,9,17,28,17,18,3],
     [7,5,21,1,21,6,0,5,15,14,2,9,24,24,4,19,3], [3,24,23,6,16,21,11,13,26,24,3,9,2,21,20,19,3],
     [28,13,26,11,11,7,23,21,8,6,5,9,9,17,7,20,3], [24,3,0,17,6,22,5,1,20,16,6,9,16,13,23,20,3],
     [20,22,2,22,1,8,17,9,2,27,7,9,23,9,10,21,3], [16,12,5,27,25,22,28,17,13,8,9,9,1,6,26,21,3],
     [12,2,8,3,21,8,11,26,24,18,10,9,8,2,13,22,3], [8,21,10,8,16,23,22,5,7,0,12,9,15,27,28,22,3],
     [4,11,13,13,11,9,5,14,18,10,13,9,22,23,15,23,3], [0,1,16,18,6,24,16,22,0,21,14,9,0,20,2,24,3],
     [25,19,18,23,1,10,28,1,12,2,16,9,7,16,18,24,3], [21,9,21,28,25,24,10,10,23,12,17,9,14,12,5,25,3],
     [17,28,23,4,21,10,22,18,5,23,18,9,21,8,21,25,3], [13,18,26,9,16,25,4,27,16,4,20,9,28,4,8,26,3]] @
    [[9,8,0,15,11,11,16,6,28,14,21,9,6,1,24,26,3], [5,27,2,20,6,26,27,14,10,25,22,9,13,26,10,27,3],
     [1,17,5,25,1,12,10,23,21,6,24,9,20,22,26,27,3], [26,6,8,1,26,26,21,2,4,17,25,9,27,18,13,28,3],
     [22,25,10,6,21,12,4,11,15,27,26,9,5,15,0,0,4], [18,15,13,11,16,27,15,19,26,8,28,9,12,11,16,0,4],
     [14,5,16,16,11,13,27,27,8,19,0,10,19,7,3,1,4], [10,24,18,21,6,28,9,7,20,0,2,10,26,3,19,1,4],
     [6,14,21,26,1,14,21,15,2,11,3,10,4,0,6,2,4], [2,4,24,2,26,28,3,24,13,21,4,10,11,25,21,2,4],
     [27,22,26,7,21,14,15,3,25,2,6,10,18,21,8,3,4], [23,12,0,13,16,0,27,11,7,13,7,10,25,17,24,3,4],
     [19,2,3,18,11,15,9,20,18,23,8,10,3,14,11,4,4], [15,21,5,23,6,1,21,28,0,5,10,10,10,10,27,4,4],
     [11,11,8,28,1,16,3,8,12,15,11,10,17,6,14,5,4], [7,1,11,4,26,1,15,16,23,25,12,10,24,2,1,6,4]] @
    [[3,20,13,9,21,16,26,24,5,7,14,10,2,28,16,6,4], [28,9,16,14,16,2,9,4,17,17,15,10,9,24,3,7,4],
     [24,28,18,19,11,17,20,12,28,27,16,10,16,20,19,7,4], [20,18,21,24,6,3,3,21,10,9,18,10,23,16,6,8,4],
     [16,8,24,0,2,18,14,0,22,19,19,10,1,13,22,8,4], [12,27,26,5,26,3,26,8,4,1,21,10,8,9,9,9,4],
     [8,17,0,11,21,18,8,17,15,11,22,10,15,5,25,9,4], [4,7,3,16,16,4,20,25,26,21,23,10,22,1,12,10,4],
     [0,26,5,21,11,19,2,5,9,3,25,10,0,27,27,10,4], [25,15,8,26,6,5,14,13,20,13,26,10,7,23,14,11,4],
     [21,5,11,2,2,20,25,21,2,24,27,10,14,19,1,12,4], [17,24,13,7,26,5,8,1,14,5,0,11,21,15,17,12,4],
     [13,14,16,12,21,20,19,9,25,15,1,11,28,11,4,13,4], [9,4,19,17,16,6,2,18,7,26,2,11,6,8,20,13,4],
     [5,23,21,22,11,21,13,26,18,7,4,11,13,4,7,14,4], [1,13,24,27,6,7,25,5,1,18,5,11,20,0,23,14,4]] @
    [[26,2,27,3,2,22,7,14,12,28,6,11,27,25,9,15,4], [22,21,0,9,26,7,19,22,23,9,8,11,5,22,25,15,4],
     [18,11,3,14,21,22,1,2,6,20,9,11,12,18,12,16,4], [14,1,6,19,16,8,13,10,17,1,11,11,19,14,28,16,4],
     [10,20,8,24,11,23,24,18,28,11,12,11,26,10,15,17,4], [6,10,11,0,7,9,7,27,10,22,13,11,4,7,2,18,4],
     [2,0,14,5,2,24,18,6,22,3,15,11,11,3,18,18,4], [27,18,16,10,26,9,1,15,4,14,16,11,18,28,4,19,4],
     [23,8,19,15,21,24,12,23,15,24,17,11,25,24,20,19,4], [19,27,21,20,16,10,24,2,27,5,19,11,3,21,7,20,4],
     [15,17,24,25,11,25,6,11,9,16,20,11,10,17,23,20,4], [11,7,27,1,7,11,18,19,20,26,21,11,17,13,10,21,4],
     [7,26,0,7,2,26,0,28,2,8,23,11,24,9,26,21,4], [3,16,3,12,26,11,12,7,14,18,24,11,2,6,13,22,4],
     [28,5,6,17,21,26,23,15,25,28,25,11,9,2,0,23,4], [24,24,8,22,16,12,6,24,7,10,27,11,16,27,15,23,4]]"

definition BASE29_POS10 :: "int list list" where
  "BASE29_POS10 =
    [[0,0,0,0,0,0,0,0,0,0,0,0,0,0,0,0,0,0,0], [20,14,11,27,11,27,17,3,19,20,28,11,23,23,2,24,4,0,0],
     [11,0,23,25,23,25,6,7,9,12,28,23,17,18,5,19,9,0,0], [2,15,5,24,6,24,24,10,28,3,28,6,12,13,8,14,14,0,0],
     [22,0,17,22,18,22,13,14,18,24,27,18,6,8,11,9,19,0,0], [13,15,28,20,1,21,2,18,8,16,27,1,1,3,14,4,24,0,0],
     [4,1,11,19,13,19,20,21,27,7,27,13,24,26,16,28,28,0,0], [24,15,22,17,25,17,9,25,17,28,26,25,18,21,19,23,4,1,0],
     [15,1,5,16,8,16,27,28,7,20,26,8,13,16,22,18,9,1,0], [6,16,16,14,20,14,16,3,27,11,26,20,7,11,25,13,14,1,0],
     [26,1,28,12,3,13,5,7,17,3,26,3,2,6,28,8,19,1,0], [17,16,10,11,15,11,23,10,7,24,25,15,25,0,2,4,24,1,0],
     [8,2,22,9,27,9,12,14,26,15,25,27,19,24,4,28,28,1,0], [28,16,4,8,10,8,1,18,16,7,25,10,14,19,7,23,4,2,0],
     [19,2,16,6,22,6,19,21,6,28,24,22,8,14,10,18,9,2,0], [10,17,27,4,5,5,8,25,25,19,24,5,3,9,13,13,14,2,0]] @
    [[1,3,10,3,17,3,26,28,15,11,24,17,26,3,16,8,19,2,0], [21,17,21,1,0,2,15,3,6,3,24,0,21,27,18,3,24,2,0],
     [12,3,4,0,12,0,4,7,25,23,23,12,15,22,21,27,28,2,0], [3,18,15,27,23,27,21,10,15,15,23,24,9,17,24,22,4,3,0],
     [23,3,27,25,6,26,10,14,5,7,23,7,4,12,27,17,9,3,0], [14,18,9,24,18,24,28,17,24,27,22,19,27,6,1,13,14,3,0],
     [5,4,21,22,1,23,17,21,14,19,22,2,22,1,4,8,19,3,0], [25,18,3,21,13,21,6,25,4,11,22,14,16,25,6,3,24,3,0],
     [16,4,15,19,25,19,24,28,23,2,22,26,10,20,9,27,28,3,0], [7,19,26,17,8,18,13,3,14,23,21,9,5,15,12,22,4,4,0],
     [27,4,9,16,20,16,2,7,4,15,21,21,28,9,15,17,9,4,0], [18,19,20,14,3,15,20,10,23,6,21,4,23,4,18,12,14,4,0],
     [9,5,3,13,15,13,9,14,13,27,20,16,17,28,20,7,19,4,0], [0,20,14,11,27,11,27,17,3,19,20,28,11,23,23,2,24,4,0],
     [20,5,26,9,10,10,16,21,22,10,20,11,6,18,26,26,28,4,0], [11,20,8,8,22,8,5,25,12,2,20,23,0,13,0,22,4,5,0]] @
    [[2,6,20,6,5,7,23,28,2,23,19,6,24,7,3,17,9,5,0], [22,20,2,5,17,5,12,3,22,14,19,18,18,2,6,12,14,5,0],
     [13,6,14,3,0,4,1,7,12,6,19,1,13,26,8,7,19,5,0], [4,21,25,1,12,2,19,10,2,27,18,13,7,21,11,2,24,5,0],
     [24,6,8,0,24,0,8,14,21,18,18,25,1,16,14,26,28,5,0], [15,21,19,27,6,28,25,17,11,10,18,8,25,10,17,21,4,6,0],
     [6,7,2,26,18,26,14,21,1,2,18,20,19,5,20,16,9,6,0], [26,21,13,24,1,25,3,25,20,22,17,3,14,0,23,11,14,6,0],
     [17,7,25,22,13,23,21,28,10,14,17,15,8,24,25,6,19,6,0], [8,22,7,21,25,21,10,3,1,6,17,27,2,19,28,1,24,6,0],
     [28,7,19,19,8,20,28,6,20,26,16,10,26,13,2,26,28,6,0], [19,22,1,18,20,18,17,10,10,18,16,22,20,8,5,21,4,7,0],
     [10,8,13,16,3,17,6,14,0,10,16,5,15,3,8,16,9,7,0], [1,23,24,14,15,15,24,17,19,1,16,17,9,27,10,11,14,7,0],
     [21,8,7,13,27,13,13,21,9,22,15,0,4,22,13,6,19,7,0], [12,23,18,11,10,12,2,25,28,13,15,12,27,16,16,1,24,7,0]] @
    [[3,9,1,10,22,10,20,28,18,5,15,24,21,11,19,25,28,7,0], [23,23,12,8,5,9,9,3,9,26,14,7,16,6,22,20,4,8,0],
     [14,9,24,6,17,7,27,6,28,17,14,19,10,1,25,15,9,8,0], [5,24,6,5,0,6,16,10,18,9,14,2,5,25,27,10,14,8,0],
     [25,9,18,3,12,4,5,14,8,1,14,14,28,19,1,6,19,8,0], [16,24,0,2,24,2,23,17,27,21,13,26,22,14,4,1,24,8,0],
     [7,10,12,0,7,1,12,21,17,13,13,9,17,9,7,25,28,8,0], [27,24,23,27,18,28,0,25,7,5,13,21,11,4,10,20,4,9,0],
     [18,10,6,26,1,27,18,28,26,25,12,4,6,28,12,15,9,9,0], [9,25,17,24,13,25,7,3,17,17,12,16,0,23,15,10,14,9,0],
     [0,11,0,23,25,23,25,6,7,9,12,28,23,17,18,5,19,9,0], [20,25,11,21,8,22,14,10,26,0,12,11,18,12,21,0,24,9,0],
     [11,11,23,19,20,20,3,14,16,21,11,23,12,7,24,24,28,9,0], [2,26,5,18,3,19,21,17,6,13,11,6,7,2,27,19,4,10,0],
     [22,11,17,16,15,17,10,21,25,4,11,18,1,26,0,15,9,10,0], [13,26,28,14,27,15,28,24,15,25,10,1,25,20,3,10,14,10,0]] @
    [[4,12,11,13,10,14,17,28,5,17,10,13,19,15,6,5,19,10,0], [24,26,22,11,22,12,6,3,25,8,10,25,13,10,9,0,24,10,0],
     [15,12,5,10,5,11,24,6,15,0,10,8,8,5,12,24,28,10,0], [6,27,16,8,17,9,13,10,5,21,9,20,2,0,15,19,4,11,0],
     [26,12,28,6,0,8,2,14,24,12,9,3,26,23,17,14,9,11,0], [17,27,10,5,12,6,20,17,14,4,9,15,20,18,20,9,14,11,0],
     [8,13,22,3,24,4,9,21,4,25,8,27,14,13,23,4,19,11,0], [28,27,4,2,7,3,27,24,23,16,8,10,9,8,26,28,23,11,0],
     [19,13,16,0,19,1,16,28,13,8,8,22,3,3,0,24,28,11,0], [10,28,27,27,1,0,5,3,4,0,8,5,27,26,2,19,4,12,0],
     [1,14,10,26,13,27,22,6,23,20,7,17,21,21,5,14,9,12,0], [21,28,21,24,25,25,11,10,13,12,7,0,16,16,8,9,14,12,0],
     [12,14,4,23,8,24,0,14,3,4,7,12,10,11,11,4,19,12,0], [3,0,16,21,20,22,18,17,22,24,6,24,4,6,14,28,23,12,0],
     [23,14,27,19,3,21,7,21,12,16,6,7,28,0,17,23,28,12,0], [14,0,10,18,15,19,25,24,2,8,6,19,22,24,19,18,4,13,0]] @
    [[5,15,21,16,27,17,14,28,21,28,5,2,17,19,22,13,9,13,0], [25,0,4,15,10,16,3,3,12,20,5,14,11,14,25,8,14,13,0],
     [16,15,15,13,22,14,21,6,2,12,5,26,5,9,28,3,19,13,0], [7,1,27,11,5,13,10,10,21,3,5,9,0,4,2,28,23,13,0],
     [27,15,9,10,17,11,28,13,11,24,4,21,23,27,4,23,28,13,0], [18,1,21,8,0,10,17,17,1,16,4,4,18,22,7,18,4,14,0],
     [9,16,3,7,12,8,6,21,20,7,4,16,12,17,10,13,9,14,0], [0,2,15,5,24,6,24,24,10,28,3,28,6,12,13,8,14,14,0],
     [20,16,26,3,7,5,13,28,0,20,3,11,1,7,16,3,19,14,0], [11,2,9,2,19,3,2,3,20,11,3,23,24,1,19,27,23,14,0],
     [2,17,20,0,2,2,20,6,10,3,3,6,19,25,21,22,28,14,0], [22,2,3,28,13,0,9,10,0,24,2,18,13,20,24,17,4,15,0],
     [13,17,14,26,25,27,26,13,19,15,2,1,8,15,27,12,9,15,0], [4,3,26,24,8,26,15,17,9,7,2,13,2,10,1,8,14,15,0],
     [24,17,8,23,20,24,4,21,28,27,1,25,25,4,4,3,19,15,0], [15,3,20,21,3,23,22,24,18,19,1,8,20,28,6,27,23,15,0]] @
    [[6,18,2,20,15,21,11,28,8,11,1,20,14,23,9,22,28,15,0], [26,3,14,18,27,19,0,3,28,2,1,3,9,18,12,17,4,16,0],
     [17,18,25,16,10,18,18,6,18,23,0,15,3,13,15,12,9,16,0], [8,4,8,15,22,16,7,10,8,15,0,27,26,7,18,7,14,16,0],
     [28,18,19,13,5,15,25,13,27,6,0,10,21,2,21,2,19,16,0], [19,4,2,12,17,13,14,17,17,27,28,21,15,26,23,26,23,16,0],
     [10,19,13,10,0,12,3,21,7,19,28,4,10,21,26,21,28,16,0], [1,5,25,8,12,10,21,24,26,10,28,16,4,16,0,17,4,17,0],
     [21,19,7,7,24,8,10,28,16,2,28,28,27,10,3,12,9,17,0], [12,5,19,5,7,7,28,2,7,23,27,11,22,5,6,7,14,17,0],
     [3,20,1,4,19,5,17,6,26,14,27,23,16,0,9,2,19,17,0], [23,5,13,2,2,4,6,10,16,6,27,6,11,24,11,26,23,17,0],
     [14,20,24,0,14,2,24,13,6,27,26,18,5,19,14,21,28,17,0], [5,6,7,28,25,0,13,17,25,18,26,1,0,14,17,16,4,18,0],
     [25,20,18,26,8,28,1,21,15,10,26,13,23,8,20,11,9,18,0], [16,6,1,25,20,26,19,24,5,2,26,25,17,3,23,6,14,18,0]] @
    [[7,21,12,23,3,25,8,28,24,22,25,8,12,27,25,1,19,18,0], [27,6,24,21,15,23,26,2,15,14,25,20,6,22,28,25,23,18,0],
     [18,21,6,20,27,21,15,6,5,6,25,3,1,17,2,21,28,18,0], [9,7,18,18,10,20,4,10,24,26,24,15,24,11,5,16,4,19,0],
     [0,22,0,17,22,18,22,13,14,18,24,27,18,6,8,11,9,19,0], [20,7,12,15,5,17,11,17,4,10,24,10,13,1,11,6,14,19,0],
     [11,22,23,13,17,15,0,21,23,1,24,22,7,25,13,1,19,19,0], [2,8,6,12,0,14,18,24,13,22,23,5,2,20,16,25,23,19,0],
     [22,22,17,10,12,12,7,28,3,14,23,17,25,14,19,20,28,19,0], [13,8,0,9,24,10,25,2,23,5,23,0,20,9,22,15,4,20,0],
     [4,23,11,7,7,9,14,6,13,26,22,12,14,4,25,10,9,20,0], [24,8,23,5,19,7,3,10,3,18,22,24,8,28,27,5,14,20,0],
     [15,23,5,4,2,6,21,13,22,9,22,7,3,23,1,1,19,20,0], [6,9,17,2,14,4,10,17,12,1,22,19,26,17,4,25,23,20,0],
     [26,23,28,0,26,2,28,20,2,22,21,2,21,12,7,20,28,20,0], [17,9,11,28,8,1,17,24,21,13,21,14,15,7,10,15,4,21,0]] @
    [[8,24,22,26,20,28,5,28,11,5,21,26,9,2,13,10,9,21,0], [28,9,5,25,3,27,23,2,2,26,20,9,4,26,15,5,14,21,0],
     [19,24,16,23,15,25,12,6,21,17,20,21,27,20,18,0,19,21,0], [10,10,28,21,27,23,1,10,11,9,20,4,22,15,21,24,23,21,0],
     [1,25,10,20,10,22,19,13,1,1,20,16,16,10,24,19,28,21,0], [21,10,22,18,22,20,8,17,20,21,19,28,10,5,27,14,4,22,0],
     [12,25,4,17,5,19,26,20,10,13,19,11,5,0,1,10,9,22,0], [3,11,16,15,17,17,15,24,0,5,19,23,28,23,3,5,14,22,0],
     [23,25,27,13,0,16,4,28,19,25,18,6,23,18,6,0,19,22,0], [14,11,10,12,12,14,22,2,10,17,18,18,17,13,9,24,23,22,0],
     [5,26,21,10,24,12,11,6,0,9,18,1,12,8,12,19,28,22,0], [25,11,4,9,7,11,0,10,19,0,18,13,6,3,15,14,4,23,0],
     [16,26,15,7,19,9,18,13,9,21,17,25,0,27,17,9,9,23,0], [7,12,27,5,2,8,7,17,28,12,17,8,24,21,20,4,14,23,0],
     [27,26,9,4,14,6,25,20,18,4,17,20,18,16,23,28,18,23,0], [18,12,21,2,26,4,14,24,8,25,16,3,13,11,26,23,23,23,0]] @
    [[9,27,3,1,9,3,3,28,27,16,16,15,7,6,0,19,28,23,0], [0,13,15,28,20,1,21,2,18,8,16,27,1,1,3,14,4,24,0],
     [20,27,26,26,3,0,10,6,8,0,16,10,25,24,5,9,9,24,0], [11,13,9,25,15,27,27,9,27,20,15,22,19,19,8,4,14,24,0],
     [2,28,20,23,27,25,16,13,17,12,15,5,14,14,11,28,18,24,0], [22,13,3,22,10,24,5,17,7,4,15,17,8,9,14,23,23,24,0],
     [13,28,14,20,22,22,23,20,26,24,14,0,3,4,17,18,28,24,0], [4,14,26,18,5,21,12,24,16,16,14,12,26,27,19,13,4,25,0],
     [24,28,8,17,17,19,1,28,6,8,14,24,20,22,22,8,9,25,0], [15,14,20,15,0,18,19,2,26,28,13,7,15,17,25,3,14,25,0],
     [6,0,3,14,12,16,8,6,16,20,13,19,9,12,28,27,18,25,0], [26,14,14,12,24,14,26,9,6,12,13,2,4,7,2,23,23,25,0],
     [17,0,26,10,7,13,15,13,25,3,13,14,27,1,5,18,28,25,0], [8,15,8,9,19,11,4,17,15,24,12,26,21,25,7,13,4,26,0],
     [28,0,20,7,2,10,22,20,5,16,12,9,16,20,10,8,9,26,0], [19,15,2,6,14,8,11,24,24,7,12,21,10,15,13,3,14,26,0]] @
    [[10,1,14,4,26,6,0,28,14,28,11,4,5,10,16,27,18,26,0], [1,16,25,2,9,5,18,2,5,20,11,16,28,4,19,22,23,26,0],
     [21,1,8,1,21,3,7,6,24,11,11,28,22,28,21,17,28,26,0], [12,16,19,28,3,2,25,9,14,3,11,11,17,23,24,12,4,27,0],
     [3,2,2,27,15,0,14,13,4,24,10,23,11,18,27,7,9,27,0], [23,16,13,25,27,27,2,17,23,15,10,6,6,13,1,3,14,27,0],
     [14,2,25,23,10,26,20,20,13,7,10,18,0,8,4,27,18,27,0], [5,17,7,22,22,24,9,24,3,28,9,1,24,2,7,22,23,27,0],
     [25,2,19,20,5,23,27,27,22,19,9,13,18,26,9,17,28,27,0], [16,17,1,19,17,21,16,2,13,11,9,25,12,21,12,12,4,28,0],
     [7,3,13,17,0,20,5,6,3,3,9,8,7,16,15,7,9,28,0], [27,17,24,15,12,18,23,9,22,23,8,20,1,11,18,2,14,28,0],
     [18,3,7,14,24,16,12,13,12,15,8,3,25,5,21,26,18,28,0], [9,18,18,12,7,15,1,17,2,7,8,15,19,0,24,21,23,28,0],
     [0,4,1,11,19,13,19,20,21,27,7,27,13,24,26,16,28,28,0], [20,18,12,9,2,12,8,24,11,19,7,10,8,19,0,12,4,0,1]] @
    [[11,4,24,7,14,10,26,27,1,11,7,22,2,14,3,7,9,0,1], [2,19,6,6,26,8,15,2,21,2,7,5,26,8,6,2,14,0,1],
     [22,4,18,4,9,7,4,6,11,23,6,17,20,3,9,26,18,0,1], [13,19,0,3,21,5,22,9,1,15,6,0,15,27,11,21,23,0,1],
     [4,5,12,1,4,4,11,13,20,6,6,12,9,22,14,16,28,0,1], [24,19,23,28,15,2,0,17,10,27,5,24,3,17,17,11,4,1,1],
     [15,5,6,27,27,0,18,20,0,19,5,7,27,11,20,6,9,1,1], [6,20,17,25,10,28,6,24,19,10,5,19,21,6,23,1,14,1,1],
     [26,5,0,24,22,26,24,27,9,2,5,2,16,1,26,25,18,1,1], [17,20,11,22,5,25,13,2,0,23,4,14,10,25,28,20,23,1,1],
     [8,6,23,20,17,23,2,6,19,14,4,26,4,20,2,16,28,1,1], [28,20,5,19,0,22,20,9,9,6,4,9,28,14,5,11,4,2,1],
     [19,6,17,17,12,20,9,13,28,26,3,21,22,9,8,6,9,2,1], [10,21,28,15,24,18,27,16,18,18,3,4,17,4,11,1,14,2,1],
     [1,7,11,14,7,17,16,20,8,10,3,16,11,28,13,25,18,2,1], [21,21,22,12,19,15,5,24,27,1,3,28,5,23,16,20,23,2,1]] @
    [[12,7,5,11,2,14,23,27,17,22,2,11,0,18,19,15,28,2,1], [3,22,16,9,14,12,12,2,8,14,2,23,23,12,22,10,4,3,1],
     [23,7,28,7,26,10,1,6,27,5,2,6,18,7,25,5,9,3,1], [14,22,10,6,9,9,19,9,17,26,1,18,12,2,28,0,14,3,1],
     [5,8,22,4,21,7,8,13,7,18,1,1,7,26,1,25,18,3,1], [25,22,4,3,4,6,26,16,26,9,1,13,1,21,4,20,23,3,1],
     [16,8,16,1,16,4,15,20,16,1,1,25,24,15,7,15,28,3,1], [7,23,27,28,27,2,4,24,6,22,0,8,19,10,10,10,4,4,1],
     [27,8,10,27,10,1,22,27,25,13,0,20,13,5,13,5,9,4,1], [18,23,21,25,22,28,10,2,16,5,0,3,8,0,16,0,14,4,1],
     [9,9,4,24,5,27,28,5,6,26,28,14,2,24,18,24,18,4,1], [0,24,15,22,17,25,17,9,25,17,28,26,25,18,21,19,23,4,1],
     [20,9,27,20,0,24,6,13,15,9,28,9,20,13,24,14,28,4,1], [11,24,9,19,12,22,24,16,5,1,28,21,14,8,27,9,4,5,1],
     [2,10,21,17,24,20,13,20,24,21,27,4,9,3,1,5,9,5,1], [22,24,3,16,7,19,2,24,14,13,27,16,3,27,3,0,14,5,1]] @
    [[13,10,15,14,19,17,20,27,4,5,27,28,26,21,6,24,18,5,1], [4,25,26,12,2,16,9,2,24,25,26,11,21,16,9,19,23,5,1],
     [24,10,9,11,14,14,27,5,14,17,26,23,15,11,12,14,28,5,1], [15,25,20,9,26,12,16,9,4,9,26,6,10,6,15,9,4,6,1],
     [6,11,3,8,9,11,5,13,23,0,26,18,4,1,18,4,9,6,1], [26,25,14,6,21,9,23,16,13,21,25,1,28,24,20,28,13,6,1],
     [17,11,26,4,4,8,12,20,3,13,25,13,22,19,23,23,18,6,1], [8,26,8,3,16,6,1,24,22,4,25,25,16,14,26,18,23,6,1],
     [28,11,20,1,28,4,19,27,12,25,24,8,11,9,0,14,28,6,1], [19,26,2,0,11,3,8,2,3,17,24,20,5,4,3,9,4,7,1],
     [10,12,14,27,22,1,26,5,22,8,24,3,0,28,5,4,9,7,1], [1,27,25,25,5,0,15,9,12,0,24,15,23,22,8,28,13,7,1],
     [21,12,8,24,17,27,3,13,2,21,23,27,17,17,11,23,18,7,1], [12,27,19,22,0,26,21,16,21,12,23,10,12,12,14,18,23,7,1],
     [3,13,2,21,12,24,10,20,11,4,23,22,6,7,17,13,28,7,1], [23,27,13,19,24,22,28,23,1,25,22,5,1,2,20,8,4,8,1]] @
    [[14,13,25,17,7,21,17,27,20,16,22,17,24,25,22,3,9,8,1], [5,28,7,16,19,19,6,2,11,8,22,0,19,20,25,27,13,8,1],
     [25,13,19,14,2,18,24,5,1,0,22,12,13,15,28,22,18,8,1], [16,28,1,13,14,16,13,9,20,20,21,24,7,10,2,18,23,8,1],
     [7,14,13,11,26,14,2,13,10,12,21,7,2,5,5,13,28,8,1], [27,28,24,9,9,13,20,16,0,4,21,19,25,28,7,8,4,9,1],
     [18,14,7,8,21,11,9,20,19,24,20,2,20,23,10,3,9,9,1], [9,0,19,6,4,10,27,23,9,16,20,14,14,18,13,27,13,9,1],
     [0,15,1,5,16,8,16,27,28,7,20,26,8,13,16,22,18,9,1], [20,0,13,3,28,6,5,2,19,28,19,9,3,8,19,17,23,9,1],
     [11,15,24,1,11,5,23,5,9,20,19,21,26,2,22,12,28,9,1], [2,1,7,0,23,3,12,9,28,11,19,4,21,26,24,7,4,10,1],
     [22,15,18,27,5,2,1,13,18,3,19,16,15,21,27,2,9,10,1], [13,1,1,26,17,0,19,16,8,24,18,28,9,16,1,27,13,10,1],
     [4,16,12,24,0,28,7,20,27,15,18,11,4,11,4,22,18,10,1], [24,1,24,22,12,26,25,23,17,7,18,23,27,5,7,17,23,10,1]] @
    [[15,16,6,21,24,24,14,27,7,28,17,6,22,0,10,12,28,10,1], [6,2,18,19,7,23,3,2,27,19,17,18,16,24,12,7,4,11,1],
     [26,16,0,18,19,21,21,5,17,11,17,1,11,19,15,2,9,11,1], [17,2,12,16,2,20,10,9,7,3,17,13,5,14,18,26,13,11,1],
     [8,17,23,14,14,18,28,12,26,23,16,25,28,8,21,21,18,11,1], [28,2,6,13,26,16,17,16,16,15,16,8,23,3,24,16,23,11,1],
     [19,17,17,11,9,15,6,20,6,7,16,20,17,27,26,11,28,11,1], [10,3,0,10,21,13,24,23,25,27,15,3,12,22,0,7,4,12,1],
     [1,18,11,8,4,12,13,27,15,19,15,15,6,17,3,2,9,12,1], [21,3,23,6,16,10,2,2,6,11,15,27,0,12,6,26,13,12,1],
     [12,18,5,5,28,8,20,5,25,2,15,10,24,6,9,21,18,12,1], [3,4,17,3,11,7,9,9,15,23,14,22,18,1,12,16,23,12,1],
     [23,18,28,1,23,5,27,12,5,15,14,5,13,25,14,11,28,12,1], [14,4,11,0,6,4,16,16,24,6,14,17,7,20,17,6,4,13,1],
     [5,19,22,27,17,2,5,20,14,27,13,0,2,15,20,1,9,13,1], [25,4,5,26,0,1,23,23,4,19,13,12,25,9,23,25,13,13,1]]"

subsection \<open>Integrity\<close>

lemma BASE29_POS0_ok: "holds_rows 29 2 (256 ^ 0) BASE29_POS0"
  unfolding BASE29_POS0_def
  by (rule holds_rowsI [of 29 29 1 "256 ^ 0" _ "[1,0]"], simp, simp, simp, code_simp+)

lemma BASE29_POS1_ok: "holds_rows 29 4 (256 ^ 1) BASE29_POS1"
  unfolding BASE29_POS1_def
  by (rule holds_rowsI [of 29 29 256 "256 ^ 1" _ "[24,8,0,0]"], simp, simp, simp, code_simp+)

lemma BASE29_POS2_ok: "holds_rows 29 5 (256 ^ 2) BASE29_POS2"
  unfolding BASE29_POS2_def
  by (rule holds_rowsI [of 29 29 65536 "256 ^ 2" _ "[25,26,19,2,0]"], simp, simp, simp, code_simp+)

lemma BASE29_POS3_ok: "holds_rows 29 7 (256 ^ 3) BASE29_POS3"
  unfolding BASE29_POS3_def
  by (rule holds_rowsI [of 29 29 16777216 "256 ^ 3" _ "[20,3,26,20,23,0,0]"], simp, simp, simp, code_simp+)

lemma BASE29_POS4_ok: "holds_rows 29 9 (256 ^ 4) BASE29_POS4"
  unfolding BASE29_POS4_def
  by (rule holds_rowsI [of 29 29 4294967296 "256 ^ 4" _ "[16,16,18,14,11,6,7,0,0]"], simp, simp, simp, code_simp+)

lemma BASE29_POS5_ok: "holds_rows 29 10 (256 ^ 5) BASE29_POS5"
  unfolding BASE29_POS5_def
  by (rule holds_rowsI [of 29 29 1099511627776 "256 ^ 5" _ "[7,3,27,6,16,13,21,5,2,0]"], simp, simp, simp, code_simp+)

lemma BASE29_POS6_ok: "holds_rows 29 12 (256 ^ 6) BASE29_POS6"
  unfolding BASE29_POS6_def
  by (rule holds_rowsI [of 29 29 281474976710656 "256 ^ 6" _ "[23,17,9,6,10,20,14,19,11,19,0,0]"], simp, simp, simp, code_simp+)

lemma BASE29_POS7_ok: "holds_rows 29 14 (256 ^ 7) BASE29_POS7"
  unfolding BASE29_POS7_def
  by (rule holds_rowsI [of 29 29 72057594037927936 "256 ^ 7" _ "[1,2,25,25,5,19,22,5,1,8,26,5,0,0]"], simp, simp, simp, code_simp+)

lemma BASE29_POS8_ok: "holds_rows 29 15 (256 ^ 8) BASE29_POS8"
  unfolding BASE29_POS8_def
  by (rule holds_rowsI [of 29 29 18446744073709551616 "256 ^ 8" _ "[24,27,8,9,0,15,1,1,17,28,27,3,23,1,0]"], simp, simp, simp, code_simp+)

lemma BASE29_POS9_ok: "holds_rows 29 17 (256 ^ 9) BASE29_POS9"
  unfolding BASE29_POS9_def
  by (rule holds_rowsI [of 29 29 4722366482869645213696 "256 ^ 9" _ "[25,18,2,5,24,14,11,8,11,10,1,0,7,25,15,0,0]"], simp, simp, simp, code_simp+)

lemma BASE29_POS10_ok: "holds_rows 29 19 (256 ^ 10) BASE29_POS10"
  unfolding BASE29_POS10_def
  by (rule holds_rowsI [of 29 29 1208925819614629174706176 "256 ^ 10" _ "[20,14,11,27,11,27,17,3,19,20,28,11,23,23,2,24,4,0,0]"], simp, simp, simp, code_simp+)

end
