(* ===== verification/Table_Base31_High.thy ===== *)
theory Table_Base31_High
  imports Digits
begin

text \<open>
  The arrays \<open>BASE31_POS11\<close> to \<open>BASE31_POS15\<close> of
  \<open>fancy-garbling/base_conversion/cbits/lookup_tables.c\<close>, row for row as the file has them (in
  blocks of 16 rows), and for each the check that row \<open>x\<close> holds the base-31 digits of
  \<open>x * 256 ^ pos\<close>.
\<close>

definition BASE31_POS11 :: "int list list" where
  "BASE31_POS11 =
    [[0,0,0,0,0,0,0,0,0,0,0,0,0,0,0,0,0,0,0,0], [8,12,7,19,27,27,29,16,25,7,28,13,11,6,2,14,22,13,0,0],
     [16,24,14,7,24,24,28,2,20,15,25,27,22,12,4,28,13,27,0,0],
     [24,5,22,26,20,21,27,19,14,23,22,10,3,19,6,11,5,10,1,0], [1,18,29,14,17,18,26,5,9,0,20,24,14,25,8,25,27,23,1,0],
     [9,30,5,3,14,15,25,22,3,8,17,7,26,0,11,8,19,6,2,0], [17,11,13,22,10,12,24,8,29,15,14,21,6,7,13,22,10,20,2,0],
     [25,23,20,10,7,9,23,25,23,23,11,4,18,13,15,5,2,3,3,0], [2,5,28,29,3,6,22,11,18,0,9,18,29,19,17,19,24,16,3,0],
     [10,17,4,18,0,3,21,28,12,8,6,1,10,26,19,2,16,30,3,0], [18,29,11,6,28,30,19,14,7,16,3,15,21,1,22,16,7,13,4,0],
     [26,10,19,25,24,27,18,0,2,24,0,29,1,8,24,30,29,26,4,0], [3,23,26,13,21,24,17,17,27,0,29,11,13,14,26,13,21,9,5,0],
     [11,4,3,2,18,21,16,3,22,8,26,25,24,20,28,27,12,23,5,0], [19,16,10,21,14,18,15,20,16,16,23,8,5,27,30,10,4,6,6,0],
     [27,28,17,9,11,15,14,6,11,24,20,22,16,2,2,25,26,19,6,0]] @
    [[4,10,25,28,7,12,13,23,5,1,18,5,28,8,4,8,18,2,7,0], [12,22,1,17,4,9,12,9,0,9,15,19,8,15,6,22,9,16,7,0],
     [20,3,9,5,1,6,11,26,25,16,12,2,20,21,8,5,1,30,7,0], [28,15,16,24,28,2,10,12,20,24,9,16,0,28,10,19,23,12,8,0],
     [5,28,23,12,25,30,8,29,14,1,7,30,11,3,13,2,15,26,8,0], [13,9,0,1,22,27,7,15,9,9,4,13,23,9,15,16,6,9,9,0],
     [21,21,7,20,18,24,6,1,4,17,1,27,3,16,17,30,28,22,9,0], [29,2,15,8,15,21,5,18,29,24,29,9,15,22,19,13,20,5,10,0],
     [6,15,22,27,11,18,4,4,24,1,27,23,26,28,21,27,11,19,10,0], [14,27,29,15,8,15,3,21,18,9,24,6,7,4,24,10,3,2,11,0],
     [22,8,6,4,5,12,2,7,13,17,21,20,18,10,26,24,25,15,11,0], [30,20,13,23,1,9,1,24,7,25,18,3,30,16,28,7,17,29,11,0],
     [7,2,21,11,29,5,0,10,2,2,16,17,10,23,30,21,8,12,12,0], [15,14,28,30,25,2,30,26,27,9,13,0,22,29,1,5,0,26,12,0],
     [23,26,4,19,22,30,28,12,22,17,10,14,2,5,4,19,22,8,13,0], [0,8,12,7,19,27,27,29,16,25,7,28,13,11,6,2,14,22,13,0]] @
    [[8,20,19,26,15,24,26,15,11,2,5,11,25,17,8,16,5,5,14,0], [16,1,27,14,12,21,25,1,6,10,2,25,5,24,10,30,27,18,14,0],
     [24,13,3,3,9,18,24,18,0,18,30,7,17,30,12,13,19,1,15,0], [1,26,10,22,5,15,23,4,26,25,27,21,28,5,15,27,10,15,15,0],
     [9,7,18,10,2,12,22,21,20,2,25,4,9,12,17,10,2,29,15,0],
     [17,19,25,29,29,8,21,7,15,10,22,18,20,18,19,24,24,11,16,0],
     [25,0,2,18,26,5,20,24,9,18,19,1,1,25,21,7,16,25,16,0], [2,13,9,6,23,2,19,10,4,26,16,15,12,0,24,21,7,8,17,0],
     [10,25,16,25,19,30,17,27,29,2,14,29,23,6,26,4,30,21,17,0],
     [18,6,24,13,16,27,16,13,24,10,11,12,4,13,28,18,21,4,18,0],
     [26,18,0,2,13,24,15,30,18,18,8,26,15,19,30,1,13,18,18,0], [3,0,8,21,9,21,14,16,13,26,5,9,27,25,1,16,4,1,19,0],
     [11,12,15,9,6,18,13,2,8,3,3,23,7,1,4,30,26,14,19,0], [19,24,22,28,2,15,12,19,2,11,0,6,19,7,6,13,18,28,19,0],
     [27,5,30,16,30,11,11,5,28,18,28,19,30,13,8,27,9,11,20,0], [4,18,6,5,27,8,10,22,22,26,25,2,11,20,10,10,1,25,20,0]] @
    [[12,30,13,24,23,5,9,8,17,3,23,16,22,26,12,24,23,7,21,0], [20,11,21,12,20,2,8,25,11,11,20,30,2,2,15,7,15,21,21,0],
     [28,23,28,0,17,30,6,11,6,19,17,13,14,8,17,21,6,4,22,0], [5,5,5,20,13,27,5,28,0,27,14,27,25,14,19,4,29,17,22,0],
     [13,17,12,8,10,24,4,14,26,3,12,10,6,21,21,18,20,0,23,0], [21,29,19,27,6,21,3,0,21,11,9,24,17,27,23,1,12,14,23,0],
     [29,10,27,15,3,18,2,17,15,19,6,7,29,2,26,15,3,28,23,0], [6,23,3,4,0,15,1,3,10,27,3,21,9,9,28,29,25,10,24,0],
     [14,4,11,23,27,11,0,20,4,4,1,4,21,15,30,12,17,24,24,0], [22,16,18,11,24,8,30,5,30,11,29,17,1,22,1,27,8,7,25,0],
     [30,28,25,30,20,5,29,22,24,19,26,0,13,28,3,10,0,21,25,0], [7,10,2,19,17,2,28,8,19,27,23,14,24,3,6,24,22,3,26,0],
     [15,22,9,7,14,30,26,25,13,4,21,28,4,10,8,7,14,17,26,0], [23,3,17,26,10,27,25,11,8,12,18,11,16,16,10,21,5,0,27,0],
     [0,16,24,14,7,24,24,28,2,20,15,25,27,22,12,4,28,13,27,0], [8,28,0,3,4,21,23,14,28,27,12,8,8,29,14,18,19,27,27,0]] @
    [[16,9,8,22,0,18,22,0,23,4,10,22,19,4,17,1,11,10,28,0], [24,21,15,10,28,14,21,17,17,12,7,5,0,11,19,15,2,24,28,0],
     [1,3,23,29,24,11,20,3,12,20,4,19,11,17,21,29,24,6,29,0], [9,15,30,17,21,8,19,20,6,28,1,2,23,23,23,12,16,20,29,0],
     [17,27,6,6,18,5,18,6,1,5,30,15,3,30,25,26,7,3,30,0], [25,8,14,25,14,2,17,23,26,12,27,29,14,5,28,9,30,16,30,0],
     [2,21,21,13,11,30,15,9,21,20,24,12,26,11,30,23,21,30,30,0],
     [10,2,29,1,8,27,14,26,15,28,21,26,6,18,1,7,13,13,0,1], [18,14,5,21,4,24,13,12,10,5,19,9,18,24,3,21,4,27,0,1],
     [26,26,12,9,1,21,12,29,4,13,16,23,29,30,5,4,27,9,1,1], [3,8,20,28,28,17,11,15,30,20,13,6,10,6,8,18,18,23,1,1],
     [11,20,27,16,25,14,10,1,25,28,10,20,21,12,10,1,10,6,2,1], [19,1,4,5,22,11,9,18,19,5,8,3,2,19,12,15,1,20,2,1],
     [27,13,11,24,18,8,8,4,14,13,5,17,13,25,14,29,23,2,3,1], [4,26,18,12,15,5,7,21,8,21,2,0,25,0,17,12,15,16,3,1],
     [12,7,26,0,12,2,6,7,3,29,30,13,5,7,19,26,6,30,3,1]] @
    [[20,19,2,20,8,30,4,24,28,5,28,27,16,13,21,9,29,12,4,1], [28,0,10,8,5,27,3,10,23,13,25,10,28,19,23,23,20,26,4,1],
     [5,13,17,27,1,24,2,27,17,21,22,24,8,26,25,6,12,9,5,1], [13,25,24,15,29,20,1,13,12,29,19,7,20,1,28,20,3,23,5,1],
     [21,6,1,4,26,17,0,30,6,6,17,21,0,8,30,3,26,5,6,1], [29,18,8,23,22,14,30,15,1,14,14,4,12,14,1,18,17,19,6,1],
     [6,0,16,11,19,11,29,1,27,21,11,18,23,20,3,1,9,2,7,1], [14,12,23,30,15,8,28,18,21,29,8,1,4,27,5,15,0,16,7,1],
     [22,24,30,18,12,5,27,4,16,6,6,15,15,2,8,29,22,29,7,1], [30,5,7,7,9,2,26,21,10,14,3,29,26,8,10,12,14,12,8,1],
     [7,18,14,26,5,30,24,7,5,22,0,12,7,15,12,26,5,26,8,1], [15,30,21,14,2,27,23,24,30,29,28,25,18,21,14,9,28,8,9,1],
     [23,11,29,2,30,23,22,10,25,6,26,8,30,27,16,23,19,22,9,1],
     [0,24,5,22,26,20,21,27,19,14,23,22,10,3,19,6,11,5,10,1], [8,5,13,10,23,17,20,13,14,22,20,5,22,9,21,20,2,19,10,1],
     [16,17,20,29,19,14,19,30,8,30,17,19,2,16,23,3,25,1,11,1]] @
    [[24,29,27,17,16,11,18,16,3,7,15,2,14,22,25,17,16,15,11,1], [1,11,4,6,13,8,17,2,29,14,12,16,25,28,27,0,8,29,11,1],
     [9,23,11,25,9,5,16,19,23,22,9,30,5,4,30,14,30,11,12,1], [17,4,19,13,6,2,15,5,18,30,6,13,17,10,1,29,21,25,12,1],
     [25,16,26,1,3,30,13,22,12,7,4,27,28,16,3,12,13,8,13,1], [2,29,2,21,30,26,12,8,7,15,1,10,9,23,5,26,4,22,13,1],
     [10,10,10,9,27,23,11,25,1,23,29,23,20,29,7,9,27,4,14,1],
     [18,22,17,28,23,20,10,11,27,30,26,6,1,5,10,23,18,18,14,1],
     [26,3,25,16,20,17,9,28,21,7,24,20,12,11,12,6,10,1,15,1], [3,16,1,5,17,14,8,14,16,15,21,3,24,17,14,20,1,15,15,1],
     [11,28,8,24,13,11,7,0,11,23,18,17,4,24,16,3,24,28,15,1], [19,9,16,12,10,8,6,17,5,0,16,0,16,30,18,17,15,11,16,1],
     [27,21,23,0,7,5,5,3,0,8,13,14,27,5,21,0,7,25,16,1], [4,3,0,20,3,2,4,20,25,15,10,28,7,12,23,14,29,7,17,1],
     [12,15,7,8,0,30,2,6,20,23,7,11,19,18,25,28,20,21,17,1], [20,27,14,27,27,26,1,23,14,0,5,25,30,24,27,11,12,4,18,1]] @
    [[28,8,22,15,24,23,0,9,9,8,2,8,11,0,30,25,3,18,18,1], [5,21,29,3,21,20,30,25,3,16,30,21,22,6,1,9,26,0,19,1],
     [13,2,6,23,17,17,29,11,29,23,27,4,3,13,3,23,17,14,19,1],
     [21,14,13,11,14,14,28,28,23,0,25,18,14,19,5,6,9,28,19,1],
     [29,26,20,30,10,11,27,14,18,8,22,1,26,25,7,20,0,11,20,1], [6,8,28,18,7,8,26,0,13,16,19,15,6,1,10,3,23,24,20,1],
     [14,20,4,7,4,5,25,17,7,24,16,29,17,7,12,17,14,7,21,1], [22,1,12,26,0,2,24,3,2,1,14,12,29,13,14,0,6,21,21,1],
     [30,13,19,14,28,29,22,20,27,8,11,26,9,20,16,14,28,3,22,1],
     [7,26,26,2,25,26,21,6,22,16,8,9,21,26,18,28,19,17,22,1], [15,7,3,22,21,23,20,23,16,24,5,23,1,2,21,11,11,0,23,1],
     [23,19,10,10,18,20,19,9,11,1,3,6,13,8,23,25,2,14,23,1], [0,1,18,29,14,17,18,26,5,9,0,20,24,14,25,8,25,27,23,1],
     [8,13,25,17,11,14,17,12,0,17,28,2,5,21,27,22,16,10,24,1],
     [16,25,1,6,8,11,16,29,25,24,25,16,16,27,29,5,8,24,24,1], [24,6,9,25,4,8,15,15,20,1,23,30,27,2,1,20,30,6,25,1]] @
    [[1,19,16,13,1,5,14,1,15,9,20,13,8,9,3,3,22,20,25,1], [9,0,24,1,29,1,13,18,9,17,17,27,19,15,5,17,13,3,26,1],
     [17,12,0,21,25,29,11,4,4,25,14,10,0,22,7,0,5,17,26,1], [25,24,7,9,22,26,10,21,29,1,12,24,11,28,9,14,27,30,26,1],
     [2,6,15,28,18,23,9,7,24,9,9,7,23,3,12,28,18,13,27,1], [10,18,22,16,15,20,8,24,18,17,6,21,3,10,14,11,10,27,27,1],
     [18,30,29,4,12,17,7,10,13,25,3,4,15,16,16,25,1,10,28,1], [26,11,6,24,8,14,6,27,7,2,1,18,26,22,18,8,24,23,28,1],
     [3,24,13,12,5,11,5,13,2,10,29,0,7,29,20,22,15,6,29,1], [11,5,21,0,2,8,4,30,27,17,26,14,18,4,23,5,7,20,29,1],
     [19,17,28,19,29,4,3,16,22,25,23,28,29,10,25,19,29,2,30,1], [27,29,4,8,26,1,2,2,17,2,21,11,10,17,27,2,21,16,30,1],
     [4,11,12,27,22,29,0,19,11,10,18,25,21,23,29,16,12,30,30,1], [12,23,19,15,19,26,30,4,6,18,15,8,2,30,0,0,4,13,0,2],
     [20,4,27,3,16,23,29,21,0,26,12,22,13,5,3,14,26,26,0,2], [28,16,3,23,12,20,28,7,26,2,10,5,25,11,5,28,17,9,1,2]] @
    [[5,29,10,11,9,17,27,24,20,10,7,19,5,18,7,11,9,23,1,2], [13,10,18,30,5,14,26,10,15,18,4,2,17,24,9,25,0,6,2,2],
     [21,22,25,18,2,11,25,27,9,26,1,16,28,30,11,8,23,19,2,2], [29,3,2,7,30,7,24,13,4,3,30,29,8,6,14,22,14,2,3,2],
     [6,16,9,26,26,4,23,30,29,10,27,12,20,12,16,5,6,16,3,2],
     [14,28,16,14,23,1,22,16,24,18,24,26,0,19,18,19,28,29,3,2],
     [22,9,24,2,20,29,20,2,19,26,21,9,12,25,20,2,20,12,4,2], [30,21,0,22,16,26,19,19,13,3,19,23,23,0,23,16,11,26,4,2],
     [7,3,8,10,13,23,18,5,8,11,16,6,4,7,25,30,2,9,5,2], [15,15,15,29,9,20,17,22,2,19,13,20,15,13,27,13,25,22,5,2],
     [23,27,22,17,6,17,16,8,28,26,10,3,27,19,29,27,16,5,6,2], [0,9,30,5,3,14,15,25,22,3,8,17,7,26,0,11,8,19,6,2],
     [8,21,6,25,30,10,14,11,17,11,5,0,19,1,3,25,30,1,7,2], [16,2,14,13,27,7,13,28,11,19,2,14,30,7,5,8,22,15,7,2],
     [24,14,21,1,24,4,12,14,6,27,30,27,10,14,7,22,13,29,7,2], [1,27,28,20,20,1,11,0,1,4,28,10,22,20,9,5,5,12,8,2]] @
    [[9,8,5,9,17,29,9,17,26,11,25,24,2,27,11,19,27,25,8,2], [17,20,12,28,13,26,8,3,21,19,22,7,14,2,14,2,19,8,9,2],
     [25,1,20,16,10,23,7,20,15,27,19,21,25,8,16,16,10,22,9,2], [2,14,27,4,7,20,6,6,10,4,17,4,6,15,18,30,1,5,10,2],
     [10,26,3,24,3,17,5,23,4,12,14,18,17,21,20,13,24,18,10,2], [18,7,11,12,0,14,4,9,30,19,11,1,29,27,22,27,15,1,11,2],
     [26,19,18,0,28,10,3,26,24,27,8,15,9,3,25,10,7,15,11,2], [3,1,26,19,24,7,2,12,19,4,6,29,20,9,27,24,29,28,11,2],
     [11,13,2,8,21,4,1,29,13,12,3,12,1,16,29,7,21,11,12,2], [19,25,9,27,17,1,0,15,8,20,0,26,12,22,0,22,12,25,12,2],
     [27,6,17,15,14,29,29,0,3,28,28,8,24,28,2,5,4,8,13,2], [4,19,24,3,11,26,28,17,28,4,26,22,4,4,5,19,26,21,13,2],
     [12,0,1,23,7,23,27,3,23,12,23,5,16,10,7,2,18,4,14,2], [20,12,8,11,4,20,26,20,17,20,20,19,27,16,9,16,9,18,14,2],
     [28,24,15,30,0,17,25,6,12,28,17,2,8,23,11,30,0,1,15,2], [5,6,23,18,28,13,24,23,6,5,15,16,19,29,13,13,23,14,15,2]] @
    [[13,18,30,6,25,10,23,9,1,13,12,30,30,4,16,27,14,28,15,2],
     [21,30,6,26,21,7,22,26,26,20,9,13,11,11,18,10,6,11,16,2],
     [29,11,14,14,18,4,21,12,21,28,6,27,22,17,20,24,28,24,16,2], [6,24,21,2,15,1,20,29,15,5,4,10,3,24,22,7,20,7,17,2],
     [14,5,29,21,11,29,18,15,10,13,1,24,14,30,24,21,11,21,17,2], [22,17,5,10,8,26,17,1,5,21,29,6,26,5,27,4,3,4,18,2],
     [30,29,12,29,4,23,16,18,30,28,26,20,6,12,29,18,25,17,18,2], [7,11,20,17,1,20,15,4,25,5,24,3,18,18,0,2,17,0,19,2],
     [15,23,27,5,29,16,14,21,19,13,21,17,29,24,2,16,8,14,19,2],
     [23,4,4,25,25,13,13,7,14,21,18,0,10,0,5,30,30,27,19,2], [0,17,11,13,22,10,12,24,8,29,15,14,21,6,7,13,22,10,20,2],
     [8,29,18,1,19,7,11,10,3,6,13,28,1,13,9,27,13,24,20,2], [16,10,26,20,15,4,10,27,28,13,10,11,13,19,11,10,5,7,21,2],
     [24,22,2,9,12,1,9,13,23,21,7,25,24,25,13,24,27,20,21,2], [1,4,10,28,8,29,7,30,17,29,4,8,5,1,16,7,19,3,22,2],
     [9,16,17,16,5,26,6,16,12,6,2,22,16,7,18,21,10,17,22,2]] @
    [[17,28,24,4,2,23,5,2,7,14,30,4,28,13,20,4,2,0,23,2], [25,9,1,24,29,19,4,19,1,22,27,18,8,20,22,18,24,13,23,2],
     [2,22,8,12,26,16,3,5,27,29,24,1,20,26,24,1,16,27,23,2], [10,3,16,0,23,13,2,22,21,6,22,15,0,2,27,15,7,10,24,2],
     [18,15,23,19,19,10,1,8,16,14,19,29,11,8,29,29,29,23,24,2],
     [26,27,30,7,16,7,0,25,10,22,16,12,23,14,0,13,21,6,25,2], [3,9,7,27,12,4,30,10,5,30,13,26,3,21,2,27,12,20,25,2],
     [11,21,14,15,9,1,29,27,30,6,11,9,15,27,4,10,4,3,26,2], [19,2,22,3,6,29,27,13,25,14,8,23,26,2,7,24,26,16,26,2],
     [27,14,29,22,2,26,26,30,19,22,5,6,7,9,9,7,18,30,26,2], [4,27,5,11,30,22,25,16,14,30,2,20,18,15,11,21,9,13,27,2],
     [12,8,13,30,26,19,24,2,9,7,0,3,30,21,13,4,1,27,27,2], [20,20,20,18,23,16,23,19,3,15,28,16,10,28,15,18,23,9,28,2],
     [28,1,28,6,20,13,22,5,29,22,25,30,21,3,18,1,15,23,28,2], [5,14,4,26,16,10,21,22,23,30,22,13,2,10,20,15,6,6,29,2],
     [13,26,11,14,13,7,20,8,18,7,20,27,13,16,22,29,28,19,29,2]] @
    [[21,7,19,2,10,4,19,25,12,15,17,10,25,22,24,12,20,2,30,2],
     [29,19,26,21,6,1,18,11,7,23,14,24,5,29,26,26,11,16,30,2], [6,1,3,10,3,29,16,28,1,0,12,7,17,4,29,9,3,30,30,2],
     [14,13,10,29,30,25,15,14,27,7,9,21,28,10,0,24,25,12,0,3], [22,25,17,17,27,22,14,0,22,15,6,4,9,17,2,7,17,26,0,3],
     [30,6,25,5,24,19,13,17,16,23,3,18,20,23,4,21,8,9,1,3], [7,19,1,25,20,16,12,3,11,0,1,1,1,30,6,4,0,23,1,3],
     [15,0,9,13,17,13,11,20,5,8,29,14,12,5,9,18,22,5,2,3], [23,12,16,1,14,10,10,6,0,16,26,28,23,11,11,1,14,19,2,3],
     [0,25,23,20,10,7,9,23,25,23,23,11,4,18,13,15,5,2,3,3], [8,6,0,9,7,4,8,9,20,0,21,25,15,24,15,29,27,15,3,3],
     [16,18,7,28,3,1,7,26,14,8,18,8,27,30,17,12,19,29,3,3], [24,30,14,16,0,29,5,12,9,16,15,22,7,6,20,26,10,12,4,3],
     [1,12,22,4,28,25,4,29,3,24,12,5,19,12,22,9,2,26,4,3], [9,24,29,23,24,22,3,15,29,0,10,19,30,18,24,23,24,8,5,3],
     [17,5,6,12,21,19,2,1,24,8,7,2,11,25,26,6,16,22,5,3]] @
    [[25,17,13,0,18,16,1,18,18,16,4,16,22,0,29,20,7,5,6,3], [2,30,20,19,14,13,0,4,13,24,1,30,2,7,0,4,30,18,6,3],
     [10,11,28,7,11,10,30,20,7,1,30,12,14,13,2,18,21,1,7,3], [18,23,4,27,7,7,29,6,2,9,27,26,25,19,4,1,13,15,7,3],
     [26,4,12,15,4,4,28,23,27,16,24,9,6,26,6,15,4,29,7,3], [3,17,19,3,1,1,27,9,22,24,21,23,17,1,9,29,26,11,8,3],
     [11,29,26,22,28,28,25,26,16,1,19,6,29,7,11,12,18,25,8,3], [19,10,3,11,25,25,24,12,11,9,16,20,9,14,13,26,9,8,9,3],
     [27,22,10,30,21,22,23,29,5,17,13,3,21,20,15,9,1,22,9,3], [4,4,18,18,18,19,22,15,0,25,10,17,1,27,17,23,23,4,10,3],
     [12,16,25,6,15,16,21,1,26,1,8,0,13,2,20,6,15,18,10,3], [20,28,1,26,11,13,20,18,20,9,5,14,24,8,22,20,6,1,11,3],
     [28,9,9,14,8,10,19,4,15,17,2,28,4,15,24,3,29,14,11,3], [5,22,16,2,5,7,18,21,9,25,30,10,16,21,26,17,20,28,11,3],
     [13,3,24,21,1,4,17,7,4,2,28,24,27,27,28,0,12,11,12,3], [21,15,0,10,29,0,16,24,29,9,25,7,8,3,0,15,3,25,12,3]] @
    [[29,27,7,29,25,28,14,10,24,17,22,21,19,9,2,29,25,7,13,3],
     [6,9,15,17,22,25,13,27,18,25,19,4,0,16,4,12,17,21,13,3], [14,21,22,5,19,22,12,13,13,2,17,18,11,22,6,26,8,4,14,3],
     [22,2,30,24,15,19,11,30,7,10,14,1,23,28,8,9,0,18,14,3], [30,14,6,13,12,16,10,16,2,18,11,15,3,4,11,23,22,0,15,3],
     [7,27,13,1,9,13,9,2,28,25,8,29,14,10,13,6,14,14,15,3], [15,8,21,20,5,10,8,19,22,2,6,12,26,16,15,20,5,28,15,3],
     [23,20,28,8,2,7,7,5,17,10,3,26,6,23,17,3,28,10,16,3], [0,2,5,28,29,3,6,22,11,18,0,9,18,29,19,17,19,24,16,3],
     [8,14,12,16,26,0,5,8,6,26,28,22,29,4,22,0,11,7,17,3], [16,26,19,4,23,28,3,25,0,3,26,5,10,11,24,14,2,21,17,3],
     [24,7,27,23,19,25,2,11,26,10,23,19,21,17,26,28,24,3,18,3],
     [1,20,3,12,16,22,1,28,20,18,20,2,2,24,28,11,16,17,18,3], [9,1,11,0,13,19,0,14,15,26,17,16,13,30,30,25,7,0,19,3],
     [17,13,18,19,9,16,30,30,9,3,15,30,24,5,2,9,30,13,19,3], [25,25,25,7,6,13,29,16,4,11,12,13,5,12,4,23,21,27,19,3]]"

definition BASE31_POS12 :: "int list list" where
  "BASE31_POS12 =
    [[0,0,0,0,0,0,0,0,0,0,0,0,0,0,0,0,0,0,0,0,0], [2,7,2,27,2,10,28,2,30,18,9,27,16,18,6,6,13,10,20,3,0],
     [4,14,4,23,5,20,25,5,29,6,19,23,2,6,13,12,26,20,9,7,0],
     [6,21,6,19,8,30,22,8,28,25,28,19,19,24,19,18,8,0,30,10,0],
     [8,28,8,15,11,9,20,11,27,13,7,16,5,12,26,24,21,10,19,14,0],
     [10,4,11,11,14,19,17,14,26,1,17,12,22,30,1,0,4,21,8,18,0],
     [12,11,13,7,17,29,14,17,25,20,26,8,8,18,8,6,17,0,29,21,0],
     [14,18,15,3,20,8,12,20,24,8,5,5,25,5,15,12,30,10,18,25,0],
     [16,25,17,30,22,18,9,23,23,27,14,1,11,24,21,18,12,21,7,29,0],
     [18,1,20,26,25,28,6,26,22,15,24,28,27,11,28,24,25,0,28,1,1],
     [20,8,22,22,28,7,4,29,21,3,3,25,13,30,3,0,8,11,17,5,1],
     [22,15,24,18,0,18,1,1,21,22,12,21,30,17,10,6,21,21,6,9,1],
     [24,22,26,14,3,28,29,3,20,10,22,17,16,5,17,12,3,1,27,12,1],
     [26,29,28,10,6,7,27,6,19,29,0,14,2,24,23,18,16,11,16,16,1],
     [28,5,0,7,9,17,24,9,18,17,10,10,19,11,30,24,29,21,5,20,1],
     [30,12,2,3,12,27,21,12,17,5,20,6,5,30,5,0,12,1,26,23,1]] @
    [[1,20,4,30,14,6,19,15,16,24,29,2,22,17,12,6,25,11,15,27,1],
     [3,27,6,26,17,16,16,18,15,12,8,30,7,5,19,12,7,22,4,0,2],
     [5,3,9,22,20,26,13,21,14,0,18,26,24,23,25,18,20,1,25,3,2],
     [7,10,11,18,23,5,11,24,13,19,27,22,10,11,1,25,2,12,14,7,2],
     [9,17,13,14,26,15,8,27,12,7,6,19,27,29,7,0,16,22,3,11,2],
     [11,24,15,10,29,25,5,30,11,26,15,15,13,17,14,6,29,1,24,14,2],
     [13,0,18,6,1,5,3,2,11,14,25,11,30,4,21,12,11,12,13,18,2], [15,7,20,2,4,15,0,5,10,2,4,8,16,23,27,18,24,22,2,22,2],
     [17,14,22,29,6,25,28,7,9,21,13,4,2,11,3,25,6,2,23,25,2],
     [19,21,24,25,9,4,26,10,8,9,23,0,19,29,9,0,20,12,12,29,2],
     [21,28,26,21,12,14,23,13,7,28,1,28,4,17,16,6,2,23,1,2,3],
     [23,4,29,17,15,24,20,16,6,16,11,24,21,4,23,12,15,2,22,5,3],
     [25,11,0,14,18,3,18,19,5,4,21,20,7,23,29,18,28,12,11,9,3],
     [27,18,2,10,21,13,15,22,4,23,30,16,24,10,5,25,10,23,0,13,3],
     [29,25,4,6,24,23,12,25,3,11,9,13,10,29,11,0,24,2,21,16,3],
     [0,2,7,2,27,2,10,28,2,30,18,9,27,16,18,6,6,13,10,20,3]] @
    [[2,9,9,29,29,12,7,0,2,18,28,5,13,4,25,12,19,23,30,23,3], [4,16,11,25,1,23,4,3,1,6,7,2,30,22,0,19,1,3,20,27,3],
     [6,23,13,21,4,2,2,6,0,25,16,29,15,10,7,25,14,13,9,0,4],
     [8,30,15,17,7,12,30,8,30,12,26,25,1,29,13,0,28,23,29,3,4],
     [10,6,18,13,10,22,27,11,29,0,5,22,18,16,20,6,10,3,19,7,4],
     [12,13,20,9,13,1,25,14,28,19,14,18,4,4,27,12,23,13,8,11,4],
     [14,20,22,5,16,11,22,17,27,7,24,14,21,22,2,19,5,24,28,14,4],
     [16,27,24,1,19,21,19,20,26,26,2,11,7,10,9,25,18,3,18,18,4],
     [18,3,27,28,21,0,17,23,25,14,12,7,24,28,15,0,1,14,7,22,4],
     [20,10,29,24,24,10,14,26,24,2,22,3,10,16,22,6,14,24,27,25,4],
     [22,17,0,21,27,20,11,29,23,21,0,0,27,3,29,12,27,3,17,29,4],
     [24,24,2,17,30,30,8,1,23,9,10,27,12,22,4,19,9,14,6,2,5],
     [26,0,5,13,2,10,6,4,22,28,19,23,29,9,11,25,22,24,26,5,5], [28,7,7,9,5,20,3,7,21,16,29,19,15,28,17,0,5,4,16,9,5],
     [30,14,9,5,8,30,0,10,20,4,8,16,1,16,24,6,18,14,5,13,5],
     [1,22,11,1,11,9,29,12,19,23,17,12,18,3,0,13,0,25,25,16,5]] @
    [[3,29,13,28,13,19,26,15,18,11,27,8,4,22,6,19,13,4,15,20,5],
     [5,5,16,24,16,29,23,18,17,30,5,5,21,9,13,25,26,14,4,24,5],
     [7,12,18,20,19,8,21,21,16,18,15,1,7,28,19,0,9,25,24,27,5],
     [9,19,20,16,22,18,18,24,15,6,25,28,23,15,26,6,22,4,14,0,6],
     [11,26,22,12,25,28,15,27,14,25,3,25,9,3,2,13,4,15,3,4,6],
     [13,2,25,8,28,7,13,30,13,13,13,21,26,21,8,19,17,25,23,7,6],
     [15,9,27,4,0,18,10,2,13,1,23,17,12,9,15,25,30,4,13,11,6],
     [17,16,29,0,3,28,7,5,12,20,1,14,29,27,21,0,13,15,2,15,6],
     [19,23,0,28,5,7,5,8,11,8,11,10,15,15,28,6,26,25,22,18,6], [21,30,2,24,8,17,2,11,10,27,20,6,1,3,4,13,8,5,12,22,6],
     [23,6,5,20,11,27,30,13,9,15,30,2,18,21,10,19,21,15,1,26,6],
     [25,13,7,16,14,6,28,16,8,3,9,30,3,9,17,25,3,26,21,29,6],
     [27,20,9,12,17,16,25,19,7,22,18,26,20,27,23,0,17,5,11,2,7],
     [29,27,11,8,20,26,22,22,6,10,28,22,6,15,30,6,30,15,0,6,7],
     [0,4,14,4,23,5,20,25,5,29,6,19,23,2,6,13,12,26,20,9,7],
     [2,11,16,0,26,15,17,28,4,17,16,15,9,21,12,19,25,5,10,13,7]] @
    [[4,18,18,27,28,25,14,0,4,5,26,11,26,8,19,25,7,16,30,16,7],
     [6,25,20,23,0,5,12,3,3,24,4,8,12,27,25,0,21,26,19,20,7], [8,1,23,19,3,15,9,6,2,12,14,4,29,14,1,7,3,6,9,24,7],
     [10,8,25,15,6,25,6,9,1,0,24,0,15,2,8,13,16,16,29,27,7], [12,15,27,11,9,4,4,12,0,19,2,28,0,21,14,19,29,26,18,0,8],
     [14,22,29,7,12,14,1,15,30,6,12,24,17,8,21,25,11,6,8,4,8],
     [16,29,0,4,15,24,29,17,29,25,21,20,3,27,27,0,25,16,28,7,8],
     [18,5,3,0,18,3,27,20,28,13,0,17,20,14,3,7,7,27,17,11,8],
     [20,12,5,27,20,13,24,23,27,1,10,13,6,2,10,13,20,6,7,15,8],
     [22,19,7,23,23,23,21,26,26,20,19,9,23,20,16,19,2,17,27,18,8],
     [24,26,9,19,26,2,19,29,25,8,29,5,9,8,23,25,15,27,16,22,8],
     [26,2,12,15,29,12,16,1,25,27,7,2,26,26,29,0,29,6,6,26,8],
     [28,9,14,11,1,23,13,4,24,15,17,29,11,14,5,7,11,17,26,29,8],
     [30,16,16,7,4,2,11,7,23,3,27,25,28,1,12,13,24,27,15,2,9], [1,24,18,3,7,12,8,10,22,22,5,22,14,20,18,19,6,7,5,6,9],
     [3,0,21,30,9,22,5,13,21,10,15,18,0,8,25,25,19,17,25,9,9]] @
    [[5,7,23,26,12,1,3,16,20,29,24,14,17,26,0,1,2,28,14,13,9],
     [7,14,25,22,15,11,0,19,19,17,3,11,3,14,7,7,15,7,4,17,9],
     [9,21,27,18,18,21,28,21,18,5,13,7,20,1,14,13,28,17,24,20,9],
     [11,28,29,14,21,0,26,24,17,24,22,3,6,20,20,19,10,28,13,24,9],
     [13,4,1,11,24,10,23,27,16,12,1,0,23,7,27,25,23,7,3,28,9],
     [15,11,3,7,27,20,20,30,15,0,11,27,8,26,2,1,6,18,23,0,10],
     [17,18,5,3,30,30,17,2,15,19,20,23,25,13,9,7,19,28,12,4,10],
     [19,25,7,30,1,10,15,5,14,7,30,19,11,1,16,13,1,8,2,8,10],
     [21,1,10,26,4,20,12,8,13,26,8,16,28,19,22,19,14,18,22,11,10],
     [23,8,12,22,7,30,9,11,12,14,18,12,14,7,29,25,27,28,11,15,10],
     [25,15,14,18,10,9,7,14,11,2,28,8,0,26,4,1,10,8,1,19,10],
     [27,22,16,14,13,19,4,17,10,21,6,5,17,13,11,7,23,18,21,22,10],
     [29,29,18,10,16,29,1,20,9,9,16,1,3,1,18,13,5,29,10,26,10],
     [0,6,21,6,19,8,30,22,8,28,25,28,19,19,24,19,18,8,0,30,10],
     [2,13,23,2,22,18,27,25,7,16,4,25,5,7,0,26,0,19,20,2,11],
     [4,20,25,29,24,28,24,28,6,4,14,21,22,25,6,1,14,29,9,6,11]] @
    [[6,27,27,25,27,7,22,0,6,23,23,17,8,13,13,7,27,8,30,9,11],
     [8,3,30,21,30,17,19,3,5,11,2,14,25,0,20,13,9,19,19,13,11],
     [10,10,1,18,2,28,16,6,4,30,11,10,11,19,26,19,22,29,8,17,11],
     [12,17,3,14,5,7,14,9,3,18,21,6,28,6,2,26,4,9,29,20,11], [14,24,5,10,8,17,11,12,2,6,0,3,14,25,8,1,18,19,18,24,11],
     [16,0,8,6,11,27,8,15,1,25,9,30,30,12,15,7,0,30,7,28,11],
     [18,7,10,2,14,6,6,18,0,13,19,26,16,0,22,13,13,9,28,0,12],
     [20,14,12,29,16,16,3,21,30,0,29,22,2,19,28,19,26,19,17,4,12],
     [22,21,14,25,19,26,0,24,29,19,7,19,19,6,4,26,8,30,6,8,12],
     [24,28,16,21,22,5,29,26,28,7,17,15,5,25,10,1,22,9,27,11,12],
     [26,4,19,17,25,15,26,29,27,26,26,11,22,12,17,7,4,20,16,15,12],
     [28,11,21,13,28,25,23,1,27,14,5,8,8,0,24,13,17,30,5,19,12],
     [30,18,23,9,0,5,21,4,26,2,15,4,25,18,30,19,30,9,26,22,12],
     [1,26,25,5,3,15,18,7,25,21,24,0,11,6,6,26,12,20,15,26,12],
     [3,2,28,1,6,25,15,10,24,9,3,28,27,24,12,1,26,30,4,30,12],
     [5,9,30,28,8,4,13,13,23,28,12,24,13,12,19,7,8,10,25,2,13]] @
    [[7,16,1,25,11,14,10,16,22,16,22,20,30,30,25,13,21,20,14,6,13],
     [9,23,3,21,14,24,7,19,21,4,1,17,16,18,1,20,3,0,4,10,13],
     [11,30,5,17,17,3,5,22,20,23,10,13,2,6,8,26,16,10,24,13,13],
     [13,6,8,13,20,13,2,25,19,11,20,9,19,24,14,1,30,20,13,17,13],
     [15,13,10,9,23,23,30,27,18,30,29,5,5,12,21,7,12,0,3,21,13],
     [17,20,12,5,26,2,28,30,17,18,8,2,22,30,27,13,25,10,23,24,13],
     [19,27,14,1,29,12,25,2,17,6,18,29,7,18,3,20,7,21,12,28,13],
     [21,3,17,28,0,23,22,5,16,25,27,25,24,5,10,26,20,0,2,1,14],
     [23,10,19,24,3,2,20,8,15,13,6,22,10,24,16,1,3,11,22,4,14],
     [25,17,21,20,6,12,17,11,14,1,16,18,27,11,23,7,16,21,11,8,14],
     [27,24,23,16,9,22,14,14,13,20,25,14,13,30,29,13,29,0,1,12,14],
     [29,0,26,12,12,1,12,17,12,8,4,11,30,17,5,20,11,11,21,15,14],
     [0,8,28,8,15,11,9,20,11,27,13,7,16,5,12,26,24,21,10,19,14],
     [2,15,30,4,18,21,6,23,10,15,23,3,2,24,18,1,7,1,0,23,14], [4,22,1,1,21,0,4,26,9,3,2,0,19,11,25,7,20,11,20,26,14],
     [6,29,3,28,23,10,1,29,8,22,11,27,4,30,0,14,2,22,9,30,14]] @
    [[8,5,6,24,26,20,29,0,8,10,21,23,21,17,7,20,15,1,30,2,15],
     [10,12,8,20,29,30,26,3,7,29,30,19,7,5,14,26,28,11,19,6,15],
     [12,19,10,16,1,10,24,6,6,17,9,16,24,23,20,1,11,22,8,10,15],
     [14,26,12,12,4,20,21,9,5,5,19,12,10,11,27,7,24,1,29,13,15],
     [16,2,15,8,7,30,18,12,4,24,28,8,27,29,2,14,6,12,18,17,15],
     [18,9,17,4,10,9,16,15,3,12,7,5,13,17,9,20,19,22,7,21,15],
     [20,16,19,0,13,19,13,18,2,0,17,1,30,4,16,26,1,2,28,24,15],
     [22,23,21,27,15,29,10,21,1,19,26,28,15,23,22,1,15,12,17,28,15],
     [24,30,23,23,18,8,8,24,0,7,5,25,1,11,29,7,28,22,6,1,16],
     [26,6,26,19,21,18,5,27,30,25,14,21,18,29,4,14,10,2,27,4,16],
     [28,13,28,15,24,28,2,30,29,13,24,17,4,17,11,20,23,12,16,8,16],
     [30,20,30,11,27,7,0,2,29,1,3,14,21,4,18,26,5,23,5,12,16],
     [1,28,1,8,30,17,28,4,28,20,12,10,7,23,24,1,19,2,26,15,16], [3,4,4,4,2,28,25,7,27,8,22,6,24,10,0,8,1,13,15,19,16],
     [5,11,6,0,5,7,23,10,26,27,0,3,10,29,6,14,14,23,4,23,16],
     [7,18,8,27,7,17,20,13,25,15,10,30,26,16,13,20,27,2,25,26,16]] @
    [[9,25,10,23,10,27,17,16,24,3,20,26,12,4,20,26,9,13,14,30,16],
     [11,1,13,19,13,6,15,19,23,22,29,22,29,22,26,1,23,23,3,3,17],
     [13,8,15,15,16,16,12,22,22,10,8,19,15,10,2,8,5,3,24,6,17],
     [15,15,17,11,19,26,9,25,21,29,17,15,1,29,8,14,18,13,13,10,17],
     [17,22,19,7,22,5,7,28,20,17,27,11,18,16,15,20,0,24,2,14,17],
     [19,29,21,3,25,15,4,0,20,5,6,8,4,4,22,26,13,3,23,17,17],
     [21,5,24,30,27,25,1,3,19,24,15,4,21,22,28,1,27,13,12,21,17],
     [23,12,26,26,30,4,30,5,18,12,25,0,7,10,4,8,9,24,1,25,17],
     [25,19,28,22,2,15,27,8,17,0,4,28,23,28,10,14,22,3,22,28,17],
     [27,26,30,18,5,25,24,11,16,19,13,24,9,16,17,20,4,14,11,1,18],
     [29,2,2,15,8,4,22,14,15,7,23,20,26,3,24,26,17,24,0,5,18],
     [0,10,4,11,11,14,19,17,14,26,1,17,12,22,30,1,0,4,21,8,18],
     [2,17,6,7,14,24,16,20,13,14,11,13,29,9,6,8,13,14,10,12,18],
     [4,24,8,3,17,3,14,23,12,2,21,9,15,28,12,14,26,24,30,15,18],
     [6,0,11,30,19,13,11,26,11,21,30,5,1,16,19,20,8,4,20,19,18],
     [8,7,13,26,22,23,8,29,10,9,9,2,18,3,26,26,21,14,9,23,18]] @
    [[10,14,15,22,25,2,6,1,10,28,18,29,3,22,1,2,4,25,29,26,18],
     [12,21,17,18,28,12,3,4,9,16,28,25,20,9,8,8,17,4,19,30,18],
     [14,28,19,14,0,23,0,7,8,4,7,22,6,28,14,14,30,14,8,3,19],
     [16,4,22,10,3,2,29,9,7,23,16,18,23,15,21,20,12,25,28,6,19],
     [18,11,24,6,6,12,26,12,6,11,26,14,9,3,28,26,25,4,18,10,19],
     [20,18,26,2,9,22,23,15,5,30,4,11,26,21,3,2,8,15,7,14,19],
     [22,25,28,29,11,1,21,18,4,18,14,7,12,9,10,8,21,25,27,17,19],
     [24,1,0,26,14,11,18,21,3,6,24,3,29,27,16,14,3,5,17,21,19],
     [26,8,2,22,17,21,15,24,2,25,2,0,15,15,23,20,16,15,6,25,19],
     [28,15,4,18,20,0,13,27,1,13,12,27,0,3,30,26,29,25,26,28,19],
     [30,22,6,14,23,10,10,30,0,1,22,23,17,21,5,2,12,5,16,1,20], [1,30,8,10,26,20,7,2,0,20,0,20,3,9,12,8,25,15,5,5,20],
     [3,6,11,6,29,30,4,5,30,7,10,16,20,27,18,14,7,26,25,8,20],
     [5,13,13,2,1,10,2,8,29,26,19,12,6,15,25,20,20,5,15,12,20],
     [7,20,15,29,3,20,30,10,28,14,29,8,23,2,1,27,2,16,4,16,20],
     [9,27,17,25,6,30,27,13,27,2,8,5,9,21,7,2,16,26,24,19,20]] @
    [[11,3,20,21,9,9,25,16,26,21,17,1,26,8,14,8,29,5,14,23,20],
     [13,10,22,17,12,19,22,19,25,9,27,28,11,27,20,14,11,16,3,27,20],
     [15,17,24,13,15,29,19,22,24,28,5,25,28,14,27,20,24,26,23,30,20],
     [17,24,26,9,18,8,17,25,23,16,15,21,14,2,3,27,6,6,13,3,21],
     [19,0,29,5,21,18,14,28,22,4,25,17,0,21,9,2,20,16,2,7,21],
     [21,7,0,2,24,28,11,0,22,23,3,14,17,8,16,8,2,27,22,10,21],
     [23,14,2,29,26,7,9,3,21,11,13,10,3,27,22,14,15,6,12,14,21],
     [25,21,4,25,29,17,6,6,20,30,22,6,20,14,29,20,28,16,1,18,21],
     [27,28,6,21,1,28,3,9,19,18,1,3,6,2,5,27,10,27,21,21,21],
     [29,4,9,17,4,7,1,12,18,6,11,30,22,20,11,2,24,6,11,25,21],
     [0,12,11,13,7,17,29,14,17,25,20,26,8,8,18,8,6,17,0,29,21],
     [2,19,13,9,10,27,26,17,16,13,30,22,25,26,24,14,19,27,20,1,22],
     [4,26,15,5,13,6,24,20,15,1,9,19,11,14,0,21,1,7,10,5,22],
     [6,2,18,1,16,16,21,23,14,20,18,15,28,1,7,27,14,17,30,8,22],
     [8,9,20,28,18,26,18,26,13,8,28,11,14,20,13,2,28,27,19,12,22],
     [10,16,22,24,21,5,16,29,12,27,6,8,0,8,20,8,10,7,9,16,22]] @
    [[12,23,24,20,24,15,13,1,12,15,16,4,17,26,26,14,23,17,29,19,22],
     [14,30,26,16,27,25,10,4,11,3,26,0,3,14,2,21,5,28,18,23,22],
     [16,6,29,12,30,4,8,7,10,22,4,28,19,1,9,27,18,7,8,27,22],
     [18,13,0,9,2,15,5,10,9,10,14,24,5,20,15,2,1,18,28,30,22],
     [20,20,2,5,5,25,2,13,8,29,23,20,22,7,22,8,14,28,17,3,23], [22,27,4,1,8,4,0,16,7,17,2,17,8,26,28,14,27,7,7,7,23],
     [24,3,7,28,10,14,28,18,6,5,12,13,25,13,4,21,9,18,27,10,23],
     [26,10,9,24,13,24,25,21,5,24,21,9,11,1,11,27,22,28,16,14,23],
     [28,17,11,20,16,3,23,24,4,12,0,6,28,19,17,2,5,8,6,18,23],
     [30,24,13,16,19,13,20,27,3,0,10,2,14,7,24,8,18,18,26,21,23],
     [1,1,16,12,22,23,17,30,2,19,19,29,30,25,30,14,0,29,15,25,23],
     [3,8,18,8,25,2,15,2,2,7,29,25,16,13,6,21,13,8,5,29,23], [5,15,20,4,28,12,12,5,1,26,7,22,2,1,13,27,26,18,25,1,24],
     [7,22,22,0,0,23,9,8,0,14,17,18,19,19,19,2,9,29,14,5,24], [9,29,24,27,2,2,7,11,30,1,27,14,5,7,26,8,22,8,4,9,24],
     [11,5,27,23,5,12,4,14,29,20,5,11,22,25,1,15,4,19,24,12,24]] @
    [[13,12,29,19,8,22,1,17,28,8,15,7,8,13,8,21,17,29,13,16,24],
     [15,19,0,16,11,1,30,19,27,27,24,3,25,0,15,27,30,8,3,20,24],
     [17,26,2,12,14,11,27,22,26,15,3,0,11,19,21,2,13,19,23,23,24],
     [19,2,5,8,17,21,24,25,25,3,13,27,27,6,28,8,26,29,12,27,24],
     [21,9,7,4,20,0,22,28,24,22,22,23,13,25,3,15,8,9,2,0,25],
     [23,16,9,0,23,10,19,0,24,10,1,20,30,12,10,21,21,19,22,3,25],
     [25,23,11,27,25,20,16,3,23,29,10,16,16,0,17,27,3,30,11,7,25],
     [27,30,13,23,28,30,13,6,22,17,20,12,2,19,23,2,17,9,1,11,25],
     [29,6,16,19,0,10,11,9,21,5,30,8,19,6,30,8,30,19,21,14,25],
     [0,14,18,15,3,20,8,12,20,24,8,5,5,25,5,15,12,30,10,18,25],
     [2,21,20,11,6,30,5,15,19,12,18,1,22,12,12,21,25,9,0,22,25],
     [4,28,22,7,9,9,3,18,18,0,28,28,7,0,19,27,7,20,20,25,25],
     [6,4,25,3,12,19,0,21,17,19,6,25,24,18,25,2,21,30,9,29,25],
     [8,11,27,30,14,29,28,23,16,7,16,21,10,6,1,9,3,10,30,1,26],
     [10,18,29,26,17,8,26,26,15,26,25,17,27,24,7,15,16,20,19,5,26],
     [12,25,0,23,20,18,23,29,14,14,4,14,13,12,14,21,29,30,8,9,26]] @
    [[14,1,3,19,23,28,20,1,14,2,14,10,30,30,20,27,11,10,29,12,26],
     [16,8,5,15,26,7,18,4,13,21,23,6,16,18,27,2,25,20,18,16,26], [18,15,7,11,29,17,15,7,12,9,2,3,2,6,3,9,7,0,8,20,26],
     [20,22,9,7,1,28,12,10,11,28,11,30,18,24,9,15,20,10,28,23,26],
     [22,29,11,3,4,7,10,13,10,16,21,26,4,12,16,21,2,21,17,27,26],
     [24,5,14,30,6,17,7,16,9,4,0,23,21,30,22,27,15,0,7,0,27],
     [26,12,16,26,9,27,4,19,8,23,9,19,7,18,29,2,29,10,27,3,27],
     [28,19,18,22,12,6,2,22,7,11,19,15,24,5,5,9,11,21,16,7,27],
     [30,26,20,18,15,16,30,24,6,30,28,11,10,24,11,15,24,0,6,11,27],
     [1,3,23,14,18,26,27,27,5,18,7,8,27,11,18,21,6,11,26,14,27],
     [3,10,25,10,21,5,25,30,4,6,17,4,13,30,24,27,19,21,15,18,27],
     [5,17,27,6,24,15,22,2,4,25,26,0,30,17,0,3,2,1,5,22,27], [7,24,29,2,27,25,19,5,3,13,5,28,15,5,7,9,15,11,25,25,27],
     [9,0,1,30,29,4,17,8,2,1,15,24,1,24,13,15,28,21,14,29,27],
     [11,7,3,26,1,15,14,11,1,20,24,20,18,11,20,21,10,1,4,2,28],
     [13,14,5,22,4,25,11,14,0,8,3,17,4,30,26,27,23,11,24,5,28]] @
    [[15,21,7,18,7,4,9,17,30,26,12,13,21,17,2,3,6,22,13,9,28],
     [17,28,9,14,10,14,6,20,29,14,22,9,7,5,9,9,19,1,3,13,28],
     [19,4,12,10,13,24,3,23,28,2,1,6,24,23,15,15,1,12,23,16,28],
     [21,11,14,6,16,3,1,26,27,21,10,2,10,11,22,21,14,22,12,20,28],
     [23,18,16,2,19,13,29,28,26,9,20,29,26,29,28,27,27,1,2,24,28],
     [25,25,18,29,21,23,26,0,26,28,29,25,12,17,4,3,10,12,22,27,28],
     [27,1,21,25,24,2,24,3,25,16,8,22,29,4,11,9,23,22,11,0,29],
     [29,8,23,21,27,12,21,6,24,4,18,18,15,23,17,15,5,2,1,4,29],
     [0,16,25,17,30,22,18,9,23,23,27,14,1,11,24,21,18,12,21,7,29],
     [2,23,27,13,2,2,16,12,22,11,6,11,18,29,30,27,0,23,10,11,29],
     [4,30,29,9,5,12,13,15,21,30,15,7,4,17,6,3,14,2,0,15,29],
     [6,6,1,6,8,22,10,18,20,18,25,3,21,4,13,9,27,12,20,18,29], [8,13,3,2,11,1,8,21,19,6,4,0,7,23,19,15,9,23,9,22,29],
     [10,20,5,29,13,11,5,24,18,25,13,27,23,10,26,21,22,2,30,25,29],
     [12,27,7,25,16,21,2,27,17,13,23,23,9,29,1,28,4,13,19,29,29],
     [14,3,10,21,19,0,0,30,16,1,2,20,26,16,8,3,18,23,8,2,30]]"

definition BASE31_POS13 :: "int list list" where
  "BASE31_POS13 =
    [[0,0,0,0,0,0,0,0,0,0,0,0,0,0,0,0,0,0,0,0,0,0,0], [16,10,12,17,22,10,28,1,16,20,11,16,12,4,15,9,0,3,29,5,30,0,0],
     [1,21,24,3,14,21,25,3,1,10,23,1,25,8,30,18,0,6,27,11,29,1,0],
     [17,0,6,21,5,1,23,5,17,30,3,18,6,13,14,28,0,9,25,17,28,2,0],
     [2,11,18,7,28,11,20,7,2,20,15,3,19,17,29,6,1,12,23,23,27,3,0],
     [18,21,30,24,19,22,17,9,18,9,27,19,0,22,13,16,1,15,21,29,26,4,0],
     [3,1,12,11,11,2,15,11,3,30,7,5,13,26,28,25,1,18,19,4,26,5,0],
     [19,11,24,28,2,13,12,13,19,19,19,21,25,30,12,4,2,21,17,10,25,6,0],
     [4,22,5,15,25,23,9,15,4,9,0,7,7,4,28,13,2,24,15,16,24,7,0],
     [20,1,18,1,17,3,7,17,20,29,11,23,19,8,12,23,2,27,13,22,23,8,0],
     [5,12,30,18,8,14,4,19,5,19,23,8,1,13,27,1,3,30,11,28,22,9,0],
     [21,22,11,5,0,25,1,21,21,8,4,25,13,17,11,11,3,2,10,3,22,10,0],
     [6,2,24,22,22,4,30,22,6,29,15,10,26,21,26,20,3,5,8,9,21,11,0],
     [22,12,5,9,14,15,27,24,22,18,27,26,7,26,10,30,3,8,6,15,20,12,0],
     [7,23,17,26,5,26,24,26,7,8,8,12,20,30,25,8,4,11,4,21,19,13,0],
     [23,2,30,12,28,5,22,28,23,28,19,28,1,4,10,18,4,14,2,27,18,14,0]] @
    [[8,13,11,30,19,16,19,30,8,18,0,14,14,8,25,27,4,17,0,2,18,15,0],
     [24,23,23,16,11,27,16,1,25,7,12,30,26,12,9,6,5,20,29,7,17,16,0],
     [9,3,5,3,3,7,14,3,10,28,23,15,8,17,24,15,5,23,27,13,16,17,0],
     [25,13,17,20,25,17,11,5,26,17,4,1,21,21,8,25,5,26,25,19,15,18,0],
     [10,24,29,6,17,28,8,7,11,7,16,17,2,26,23,3,6,29,23,25,14,19,0],
     [26,3,11,24,8,8,6,9,27,27,27,2,15,30,7,13,6,1,22,0,14,20,0],
     [11,14,23,10,0,19,3,11,12,17,8,19,27,3,23,22,6,4,20,6,13,21,0],
     [27,24,4,28,22,29,0,13,28,6,20,4,9,8,7,1,7,7,18,12,12,22,0],
     [12,4,17,14,14,9,29,14,13,27,0,21,21,12,22,10,7,10,16,18,11,23,0],
     [28,14,29,0,6,20,26,16,29,16,12,6,3,17,6,20,7,13,14,24,10,24,0],
     [13,25,10,18,28,30,23,18,14,6,24,22,15,21,21,29,7,16,12,30,9,25,0],
     [29,4,23,4,20,10,21,20,30,26,4,8,28,25,5,8,8,19,10,5,9,26,0],
     [14,15,4,22,11,21,18,22,15,16,16,24,9,30,20,17,8,22,8,11,8,27,0],
     [30,25,16,8,3,1,16,24,0,6,28,9,22,3,5,27,8,25,6,17,7,28,0],
     [15,5,29,25,25,11,13,26,16,26,8,26,3,8,20,5,9,28,4,23,6,29,0],
     [0,16,10,12,17,22,10,28,1,16,20,11,16,12,4,15,9,0,3,29,5,30,0]] @
    [[16,26,22,29,8,2,8,30,17,5,1,28,28,16,19,24,9,3,1,4,5,0,1],
     [1,6,4,16,0,13,5,1,3,26,12,13,10,21,3,3,10,6,30,9,4,1,1],
     [17,16,16,2,23,23,2,3,19,15,24,29,22,25,18,12,10,9,28,15,3,2,1],
     [2,27,28,19,14,3,0,5,4,5,5,15,4,30,2,22,10,12,26,21,2,3,1],
     [18,6,10,6,6,14,28,6,20,25,16,0,17,3,18,0,11,15,24,27,1,4,1],
     [3,17,22,23,28,24,25,8,5,15,28,16,29,7,2,10,11,18,22,2,1,5,1],
     [19,27,3,10,20,4,23,10,21,4,9,2,11,12,17,19,11,21,20,8,0,6,1],
     [4,7,16,27,11,15,20,12,6,25,20,18,23,16,1,29,11,24,18,14,30,6,1],
     [20,17,28,13,3,26,17,14,22,14,1,4,5,21,16,7,12,27,16,20,29,7,1],
     [5,28,9,0,26,5,15,16,7,4,13,20,17,25,0,17,12,30,14,26,28,8,1],
     [21,7,22,17,17,16,12,18,23,24,24,5,30,29,15,26,12,2,13,1,28,9,1],
     [6,18,3,4,9,27,9,20,8,14,5,22,11,3,0,5,13,5,11,7,27,10,1],
     [22,28,15,21,0,7,7,22,24,3,17,7,24,7,15,14,13,8,9,13,26,11,1],
     [7,8,28,7,23,17,4,24,9,24,28,23,5,12,30,23,13,11,7,19,25,12,1],
     [23,18,9,25,14,28,1,26,25,13,9,9,18,16,14,2,14,14,5,25,24,13,1],
     [8,29,21,11,6,8,30,27,10,3,21,25,30,20,29,11,14,17,3,0,24,14,1]] @
    [[24,8,3,29,28,18,27,29,26,23,1,11,12,25,13,21,14,20,1,6,23,15,1],
     [9,19,15,15,20,29,24,0,12,13,13,27,24,29,28,30,14,23,30,11,22,16,1],
     [25,29,27,1,12,9,22,2,28,2,25,12,6,3,13,9,15,26,28,17,21,17,1],
     [10,9,9,19,3,20,19,4,13,23,5,29,18,7,28,18,15,29,26,23,20,18,1],
     [26,19,21,5,26,30,16,6,29,12,17,14,0,12,12,28,15,1,25,29,19,19,1],
     [11,30,2,23,17,10,14,8,14,2,29,30,12,16,27,6,16,4,23,4,19,20,1],
     [27,9,15,9,9,21,11,10,30,22,9,16,25,20,11,16,16,7,21,10,18,21,1],
     [12,20,27,26,0,1,9,12,15,12,21,1,7,25,26,25,16,10,19,16,17,22,1],
     [28,30,8,13,23,11,6,14,0,2,2,18,19,29,10,4,17,13,17,22,16,23,1],
     [13,10,21,30,14,22,3,16,16,22,13,3,1,3,26,13,17,16,15,28,15,24,1],
     [29,20,2,17,6,2,1,18,1,12,25,19,13,7,10,23,17,19,13,3,15,25,1],
     [14,0,15,3,29,12,29,19,17,1,6,5,26,11,25,1,18,22,11,9,14,26,1],
     [30,10,27,20,20,23,26,21,2,22,17,21,7,16,9,11,18,25,9,15,13,27,1],
     [15,21,8,7,12,3,24,23,18,11,29,6,20,20,24,20,18,28,7,21,12,28,1],
     [0,1,21,24,3,14,21,25,3,1,10,23,1,25,8,30,18,0,6,27,11,29,1],
     [16,11,2,11,26,24,18,27,19,21,21,8,14,29,23,8,19,3,4,2,11,30,1]] @
    [[1,22,14,28,17,4,16,29,4,11,2,25,26,2,8,18,19,6,2,8,10,0,2],
     [17,1,27,14,9,15,13,0,21,0,14,10,8,7,23,27,19,9,0,14,9,1,2],
     [2,12,8,1,1,26,10,2,6,21,25,26,20,11,7,6,20,12,29,19,8,2,2],
     [18,22,20,18,23,5,8,4,22,10,6,12,2,16,22,15,20,15,27,25,7,3,2],
     [3,2,2,5,15,16,5,6,7,0,18,28,14,20,6,25,20,18,25,0,7,4,2],
     [19,12,14,22,6,27,2,8,23,20,29,13,27,24,21,3,21,21,23,6,6,5,2],
     [4,23,26,8,29,6,0,10,8,10,10,30,8,29,5,13,21,24,21,12,5,6,2],
     [20,2,8,26,20,17,28,11,24,30,21,15,21,2,21,22,21,27,19,18,4,7,2],
     [5,13,20,12,12,28,25,13,9,20,2,1,3,7,5,1,22,30,17,24,3,8,2],
     [21,23,1,30,3,8,23,15,25,9,14,17,15,11,20,10,22,2,16,30,2,9,2],
     [6,3,14,16,26,18,20,17,10,30,25,2,28,15,4,20,22,5,14,5,2,10,2],
     [22,13,26,2,18,29,17,19,26,19,6,19,9,20,19,29,22,8,12,11,1,11,2],
     [7,24,7,20,9,9,15,21,11,9,18,4,22,24,3,8,23,11,10,17,0,12,2],
     [23,3,20,6,1,20,12,23,27,29,29,20,3,29,18,17,23,14,8,23,30,12,2],
     [8,14,1,24,23,30,9,25,12,19,10,6,16,2,3,27,23,17,6,29,29,13,2],
     [24,24,13,10,15,10,7,27,28,8,22,22,28,6,18,5,24,20,4,4,29,14,2]] @
    [[9,4,26,27,6,21,4,29,13,29,2,8,10,11,2,15,24,23,2,10,28,15,2],
     [25,14,7,14,29,0,2,0,30,18,14,24,22,15,17,24,24,26,0,16,27,16,2],
     [10,25,19,0,21,11,30,1,15,8,26,9,4,20,1,3,25,29,29,21,26,17,2],
     [26,4,1,18,12,22,27,3,0,29,6,26,16,24,16,12,25,1,28,27,25,18,2],
     [11,15,13,4,4,2,25,5,16,18,18,11,29,28,0,22,25,4,26,2,25,19,2],
     [27,25,25,21,26,12,22,7,1,8,30,27,10,2,16,0,26,7,24,8,24,20,2],
     [12,5,7,8,18,23,19,9,17,28,10,13,23,6,0,10,26,10,22,14,23,21,2],
     [28,15,19,25,9,3,17,11,2,18,22,29,4,11,15,19,26,13,20,20,22,22,2],
     [13,26,0,12,1,14,14,13,18,7,3,15,17,15,30,28,26,16,18,26,21,23,2],
     [29,5,13,29,23,24,11,15,3,28,14,0,30,19,14,7,27,19,16,1,21,24,2],
     [14,16,25,15,15,4,9,17,19,17,26,16,11,24,29,16,27,22,14,7,20,25,2],
     [30,26,6,2,7,15,6,19,4,7,7,2,24,28,13,26,27,25,12,13,19,26,2],
     [15,6,19,19,29,25,3,21,20,27,18,18,5,2,29,4,28,28,10,19,18,27,2],
     [0,17,0,6,21,5,1,23,5,17,30,3,18,6,13,14,28,0,9,25,17,28,2],
     [16,27,12,23,12,16,29,24,21,6,11,20,30,10,28,23,28,3,7,0,17,29,2],
     [1,7,25,9,4,27,26,26,6,27,22,5,12,15,12,2,29,6,5,6,16,30,2]] @
    [[17,17,6,27,26,6,24,28,22,16,3,22,24,19,27,11,29,9,3,12,15,0,3],
     [2,28,18,13,18,17,21,30,7,6,15,7,6,24,11,21,29,12,1,18,14,1,3],
     [18,7,0,0,10,28,18,1,24,26,26,23,18,28,26,30,29,15,30,23,13,2,3],
     [3,18,12,17,1,8,16,3,9,16,7,9,0,2,11,9,30,18,28,29,12,3,3],
     [19,28,24,3,24,18,13,5,25,5,19,25,12,6,26,18,30,21,26,4,12,4,3],
     [4,8,6,21,15,29,10,7,10,26,30,10,25,10,10,28,30,24,24,10,11,5,3],
     [20,18,18,7,7,9,8,9,26,15,11,27,6,15,25,6,0,28,22,16,10,6,3],
     [5,29,30,24,29,19,5,11,11,5,23,12,19,19,9,16,0,0,21,22,9,7,3],
     [21,8,12,11,21,30,2,13,27,25,3,29,0,24,24,25,0,3,19,28,8,8,3],
     [6,19,24,28,12,10,0,15,12,15,15,14,13,28,8,4,1,6,17,3,8,9,3],
     [22,29,5,15,4,21,28,16,28,4,27,30,25,1,24,13,1,9,15,9,7,10,3],
     [7,9,18,1,27,0,26,18,13,25,7,16,7,6,8,23,1,12,13,15,6,11,3],
     [23,19,30,18,18,11,23,20,29,14,19,1,20,10,23,1,2,15,11,21,5,12,3],
     [8,30,11,5,10,22,20,22,14,4,0,18,1,15,7,11,2,18,9,27,4,13,3],
     [24,9,24,22,1,2,18,24,30,24,11,3,14,19,22,20,2,21,7,2,4,14,3],
     [9,20,5,9,24,12,15,26,15,14,23,19,26,23,6,30,2,24,5,8,3,15,3]] @
    [[25,30,17,26,15,23,12,28,0,4,4,5,8,28,21,8,3,27,3,14,2,16,3],
     [10,10,30,12,7,3,10,30,16,24,15,21,20,1,6,18,3,30,1,20,1,17,3],
     [26,20,11,30,29,13,7,1,2,14,27,6,2,6,21,27,3,2,0,26,0,18,3],
     [11,0,24,16,21,24,4,3,18,3,8,23,14,10,5,6,4,5,29,0,0,19,3],
     [27,10,5,3,13,4,2,5,3,24,19,8,27,14,20,15,4,8,27,6,30,19,3],
     [12,21,17,20,4,15,30,6,19,13,0,25,8,19,4,25,4,11,25,12,29,20,3],
     [28,0,30,6,27,25,27,8,4,3,12,10,21,23,19,3,5,14,23,18,28,21,3],
     [13,11,11,24,18,5,25,10,20,23,23,26,2,28,3,13,5,17,21,24,27,22,3],
     [29,21,23,10,10,16,22,12,5,13,4,12,15,1,19,22,5,20,19,30,26,23,3],
     [14,1,5,28,1,27,19,14,21,2,16,28,27,5,3,1,6,23,17,5,26,24,3],
     [30,11,17,14,24,6,17,16,6,23,27,13,9,10,18,10,6,26,15,11,25,25,3],
     [15,22,29,0,16,17,14,18,22,12,8,30,21,14,2,20,6,29,13,17,24,26,3],
     [0,2,11,18,7,28,11,20,7,2,20,15,3,19,17,29,6,1,12,23,23,27,3],
     [16,12,23,4,30,7,9,22,23,22,0,1,16,23,1,8,7,4,10,29,22,28,3],
     [1,23,4,22,21,18,6,24,8,12,12,17,28,27,16,17,7,7,8,4,22,29,3],
     [17,2,17,8,13,29,3,26,24,1,24,2,10,1,1,27,7,10,6,10,21,30,3]] @
    [[2,13,29,25,4,9,1,28,9,22,4,19,22,5,16,5,8,13,4,16,20,0,4],
     [18,23,10,12,27,19,29,29,25,11,16,4,4,10,0,15,8,16,2,22,19,1,4],
     [3,3,23,29,18,30,26,0,11,1,28,20,16,14,15,24,8,19,0,28,18,2,4],
     [19,13,4,16,10,10,24,2,27,21,8,6,29,18,30,2,9,22,29,2,18,3,4],
     [4,24,16,2,2,21,21,4,12,11,20,22,10,23,14,12,9,25,27,8,17,4,4],
     [20,3,29,19,24,0,19,6,28,0,1,8,23,27,29,21,9,28,25,14,16,5,4],
     [5,14,10,6,16,11,16,8,13,21,12,24,4,1,14,0,10,0,24,20,15,6,4],
     [21,24,22,23,7,22,13,10,29,10,24,9,17,5,29,9,10,3,22,26,14,7,4],
     [6,4,4,10,30,1,11,12,14,0,5,26,29,9,13,19,10,6,20,1,14,8,4],
     [22,14,16,27,21,12,8,14,30,20,16,11,11,14,28,28,10,9,18,7,13,9,4],
     [7,25,28,13,13,23,5,16,15,10,28,27,23,18,12,7,11,12,16,13,12,10,4],
     [23,4,10,0,5,3,3,18,0,0,9,13,5,23,27,16,11,15,14,19,11,11,4],
     [8,15,22,17,27,13,0,20,16,20,20,29,17,27,11,26,11,18,12,25,10,12,4],
     [24,25,3,4,19,24,28,21,1,10,1,15,30,0,27,4,12,21,10,0,10,13,4],
     [9,5,16,21,10,4,26,23,17,30,12,0,12,5,11,14,12,24,8,6,9,14,4],
     [25,15,28,7,2,15,23,25,2,20,24,16,24,9,26,23,12,27,6,12,8,15,4]] @
    [[10,26,9,25,24,25,20,27,18,9,5,2,6,14,10,2,13,30,4,18,7,16,4],
     [26,5,22,11,16,5,18,29,3,30,16,18,18,18,25,11,13,2,3,24,6,17,4],
     [11,16,3,29,7,16,15,0,20,19,28,3,0,23,9,21,13,5,1,30,5,18,4],
     [27,26,15,15,30,26,12,2,5,9,9,20,12,27,24,30,13,8,30,4,5,19,4],
     [12,6,28,1,22,6,10,4,21,29,20,5,25,0,9,9,14,11,28,10,4,20,4],
     [28,16,9,19,13,17,7,6,6,19,1,22,6,5,24,18,14,14,26,16,3,21,4],
     [13,27,21,5,5,28,4,8,22,8,13,7,19,9,8,28,14,17,24,22,2,22,4],
     [29,6,3,23,27,7,2,10,7,29,24,23,0,14,23,6,15,20,22,28,1,23,4],
     [14,17,15,9,19,18,30,11,23,18,5,9,13,18,7,16,15,23,20,3,1,24,4],
     [30,27,27,26,10,29,27,13,8,8,17,25,25,22,22,25,15,26,18,9,0,25,4],
     [15,7,9,13,2,9,25,15,24,28,28,10,7,27,6,4,16,29,16,15,30,25,4],
     [0,18,21,30,24,19,22,17,9,18,9,27,19,0,22,13,16,1,15,21,29,26,4],
     [16,28,2,17,16,30,19,19,25,7,21,12,1,5,6,23,16,4,13,27,28,27,4],
     [1,8,15,3,8,10,17,21,10,28,1,29,13,9,21,1,17,7,11,2,28,28,4],
     [17,18,27,20,30,20,14,23,26,17,13,14,26,13,5,11,17,10,9,8,27,29,4],
     [2,29,8,7,22,0,12,25,11,7,25,30,7,18,20,20,17,13,7,14,26,30,4]] @
    [[18,8,21,24,13,11,9,27,27,27,5,16,20,22,4,30,17,16,5,20,25,0,5],
     [3,19,2,11,5,22,6,29,12,17,17,1,2,27,19,8,18,19,3,26,24,1,5],
     [19,29,14,28,27,1,4,0,29,6,29,17,14,0,4,18,18,22,1,1,24,2,5],
     [4,9,27,14,19,12,1,2,14,27,9,3,27,4,19,27,18,25,30,6,23,3,5],
     [20,19,8,1,11,23,29,3,30,16,21,19,8,9,3,6,19,28,28,12,22,4,5],
     [5,30,20,18,2,3,27,5,15,6,2,5,21,13,18,15,19,0,27,18,21,5,5],
     [21,9,2,5,25,13,24,7,0,27,13,21,2,18,2,25,19,3,25,24,20,6,5],
     [6,20,14,22,16,24,21,9,16,16,25,6,15,22,17,3,20,6,23,30,19,7,5],
     [22,30,26,8,8,4,19,11,1,6,6,23,27,26,1,13,20,9,21,5,19,8,5],
     [7,10,8,26,30,14,16,13,17,26,17,8,9,0,17,22,20,12,19,11,18,9,5],
     [23,20,20,12,22,25,13,15,2,16,29,24,21,4,1,1,21,15,17,17,17,10,5],
     [8,0,2,30,13,5,11,17,18,5,10,10,3,9,16,10,21,18,15,23,16,11,5],
     [24,10,14,16,5,16,8,19,3,26,21,26,15,13,0,20,21,21,13,29,15,12,5],
     [9,21,26,2,28,26,5,21,19,15,2,12,28,17,15,29,21,24,11,4,15,13,5],
     [25,0,8,20,19,6,3,23,4,5,14,28,9,22,30,7,22,27,9,10,14,14,5],
     [10,11,20,6,11,17,0,25,20,25,25,13,22,26,14,17,22,30,7,16,13,15,5]] @
    [[26,21,1,24,2,28,28,26,5,15,6,30,3,0,30,26,22,2,6,22,12,16,5],
     [11,1,14,10,25,7,26,28,21,4,18,15,16,4,14,5,23,5,4,28,11,17,5],
     [27,11,26,27,16,18,23,30,6,25,29,0,29,8,29,14,23,8,2,3,11,18,5],
     [12,22,7,14,8,29,20,1,23,14,10,17,10,13,13,24,23,11,0,9,10,19,5],
     [28,1,20,0,0,9,18,3,8,4,22,2,23,17,28,2,24,14,29,14,9,20,5],
     [13,12,1,18,22,19,15,5,24,24,2,19,4,22,12,12,24,17,27,20,8,21,5],
     [29,22,13,4,14,30,12,7,9,14,14,4,17,26,27,21,24,20,25,26,7,22,5],
     [14,2,26,21,5,10,10,9,25,3,26,20,29,30,11,0,25,23,23,1,7,23,5],
     [30,12,7,8,28,20,7,11,10,24,6,6,11,4,27,9,25,26,21,7,6,24,5],
     [15,23,19,25,19,0,5,13,26,13,18,22,23,8,11,19,25,29,19,13,5,25,5],
     [0,3,1,12,11,11,2,15,11,3,30,7,5,13,26,28,25,1,18,19,4,26,5],
     [16,13,13,29,2,22,30,16,27,23,10,24,17,17,10,7,26,4,16,25,3,27,5],
     [1,24,25,15,25,1,28,18,12,13,22,9,30,21,25,16,26,7,14,0,3,28,5],
     [17,3,7,2,17,12,25,20,28,2,3,26,11,26,9,26,26,10,12,6,2,29,5],
     [2,14,19,19,8,23,22,22,13,23,14,11,24,30,24,4,27,13,10,12,1,30,5],
     [18,24,0,6,0,3,20,24,29,12,26,27,5,4,9,14,27,16,8,18,0,0,6]] @
    [[3,4,13,23,22,13,17,26,14,2,7,13,18,8,24,23,27,19,6,24,30,0,6],
     [19,14,25,9,14,24,14,28,30,22,18,29,30,12,8,2,28,22,4,30,29,1,6],
     [4,25,6,27,5,4,12,30,15,12,30,14,12,17,23,11,28,25,2,5,29,2,6],
     [20,4,19,13,28,14,9,1,1,2,11,0,25,21,7,21,28,28,0,11,28,3,6],
     [5,15,0,0,20,25,6,3,17,22,22,16,6,26,22,30,28,0,30,16,27,4,6],
     [21,25,12,17,11,5,4,5,2,12,3,2,19,30,6,9,29,3,28,22,26,5,6],
     [6,5,25,3,3,16,1,7,18,1,15,18,0,4,22,18,29,6,26,28,25,6,6],
     [22,15,6,21,25,26,29,8,3,22,26,3,13,8,6,28,29,9,24,3,25,7,6],
     [7,26,18,7,17,6,27,10,19,11,7,20,25,12,21,6,30,12,22,9,24,8,6],
     [23,5,0,25,8,17,24,12,4,1,19,5,7,17,5,16,30,15,20,15,23,9,6],
     [8,16,12,11,0,28,21,14,20,21,30,21,19,21,20,25,30,18,18,21,22,10,6],
     [24,26,24,28,22,7,19,16,5,11,11,7,1,26,4,4,0,22,16,27,21,11,6],
     [9,6,6,15,14,18,16,18,21,0,23,23,13,30,19,13,0,25,14,2,21,12,6],
     [25,16,18,1,6,29,13,20,6,21,3,9,26,3,4,23,0,28,12,8,20,13,6],
     [10,27,30,18,28,8,11,22,22,10,15,25,7,8,19,1,1,0,11,14,19,14,6],
     [26,6,12,5,20,19,8,24,7,0,27,10,20,12,3,11,1,3,9,20,18,15,6]] @
    [[11,17,24,22,11,30,5,26,23,20,7,27,1,17,18,20,1,6,7,26,17,16,6],
     [27,27,5,9,3,10,3,28,8,10,19,12,14,21,2,30,1,9,5,1,17,17,6],
     [12,7,18,26,25,20,0,30,24,30,30,28,26,25,17,8,2,12,3,7,16,18,6],
     [28,17,30,12,17,0,29,0,10,20,11,14,8,30,1,18,2,15,1,13,15,19,6],
     [13,28,11,30,8,11,26,2,26,9,23,30,20,3,17,27,2,18,30,18,14,20,6],
     [29,7,24,16,0,22,23,4,11,30,3,16,2,8,1,6,3,21,28,24,13,21,6],
     [14,18,5,3,23,1,21,6,27,19,15,1,15,12,16,15,3,24,26,30,12,22,6],
     [30,28,17,20,14,12,18,8,12,9,27,17,27,16,0,25,3,27,24,5,12,23,6],
     [15,8,30,6,6,23,15,10,28,29,7,3,9,21,15,3,4,30,22,11,11,24,6],
     [0,19,11,24,28,2,13,12,13,19,19,19,21,25,30,12,4,2,21,17,10,25,6],
     [16,29,23,10,20,13,10,14,29,8,0,5,3,30,14,22,4,5,19,23,9,26,6],
     [1,9,5,28,11,24,7,16,14,29,11,21,15,3,30,0,5,8,17,29,8,27,6],
     [17,19,17,14,3,4,5,18,30,18,23,6,28,7,14,10,5,11,15,4,8,28,6],
     [2,30,29,0,26,14,2,20,15,8,4,23,9,12,29,19,5,14,13,10,7,29,6],
     [18,9,11,18,17,25,30,21,0,29,15,8,22,16,13,29,5,17,11,16,6,30,6],
     [3,20,23,4,9,5,28,23,16,18,27,24,3,21,28,7,6,20,9,22,5,0,7]] @
    [[19,30,4,22,0,16,25,25,1,8,8,10,16,25,12,17,6,23,7,28,4,1,7],
     [4,10,17,8,23,26,22,27,17,28,19,26,28,29,27,26,6,26,5,3,4,2,7],
     [20,20,29,25,14,6,20,29,2,18,0,12,10,3,12,5,7,29,3,9,3,3,7],
     [5,0,11,12,6,17,17,0,19,7,12,28,22,7,27,14,7,1,2,15,2,4,7],
     [21,10,23,29,28,27,14,2,4,28,23,13,4,12,11,24,7,4,0,21,1,5,7],
     [6,21,4,16,20,7,12,4,20,17,4,30,16,16,26,2,8,7,29,26,0,6,7],
     [22,0,17,2,12,18,9,6,5,7,16,15,29,20,10,12,8,10,27,1,0,7,7],
     [7,11,29,19,3,29,6,8,21,27,27,0,11,25,25,21,8,13,25,7,30,7,7],
     [23,21,10,6,26,8,4,10,6,17,8,17,23,29,9,0,9,16,23,13,29,8,7],
     [8,1,23,23,17,19,1,12,22,6,20,2,5,3,25,9,9,19,21,19,28,9,7],
     [24,11,4,10,9,30,29,13,7,27,0,19,17,7,9,19,9,22,19,25,27,10,7],
     [9,22,16,27,0,10,27,15,23,16,12,4,30,11,24,28,9,25,17,0,27,11,7],
     [25,1,29,13,23,20,24,17,8,6,24,20,11,16,8,7,10,28,15,6,26,12,7],
     [10,12,10,0,15,0,22,19,24,26,4,6,24,20,23,16,10,0,14,12,25,13,7],
     [26,22,22,17,6,11,19,21,9,16,16,22,5,25,7,26,10,3,12,18,24,14,7],
     [11,2,4,4,29,21,16,23,25,5,28,7,18,29,22,4,11,6,10,24,23,15,7]] @
    [[27,12,16,21,20,1,14,25,10,26,8,24,30,2,7,14,11,9,8,30,22,16,7],
     [12,23,28,7,12,12,11,27,26,15,20,9,12,7,22,23,11,12,6,5,22,17,7],
     [28,2,10,25,3,23,8,29,11,5,1,26,24,11,6,2,12,15,4,11,21,18,7],
     [13,13,22,11,26,2,6,0,28,25,12,11,6,16,21,11,12,18,2,17,20,19,7],
     [29,23,3,29,17,13,3,2,13,15,24,27,18,20,5,21,12,21,0,23,19,20,7],
     [14,3,16,15,9,24,0,4,29,4,5,13,0,25,20,30,12,24,29,28,18,21,7],
     [30,13,28,1,1,4,29,5,14,25,16,29,12,29,4,9,13,27,27,3,18,22,7],
     [15,24,9,19,23,14,26,7,30,14,28,14,25,2,20,18,13,30,25,9,17,23,7],
     [0,4,22,5,15,25,23,9,15,4,9,0,7,7,4,28,13,2,24,15,16,24,7],
     [16,14,3,23,6,5,21,11,0,25,20,16,19,11,19,6,14,5,22,21,15,25,7],
     [1,25,15,9,29,15,18,13,16,14,1,2,1,16,3,16,14,8,20,27,14,26,7],
     [17,4,28,26,20,26,15,15,1,4,13,18,13,20,18,25,14,11,18,2,14,27,7],
     [2,15,9,13,12,6,13,17,17,24,24,3,26,24,2,4,15,14,16,8,13,28,7],
     [18,25,21,30,3,17,10,19,2,14,5,20,7,29,17,13,15,17,14,14,12,29,7],
     [3,5,3,17,26,27,7,21,18,3,17,5,20,2,2,23,15,20,12,20,11,30,7],
     [19,15,15,3,18,7,5,23,3,24,28,21,1,7,17,1,16,23,10,26,10,0,8]]"

definition BASE31_POS14 :: "int list list" where
  "BASE31_POS14 =
    [[0,0,0,0,0,0,0,0,0,0,0,0,0,0,0,0,0,0,0,0,0,0,0,0,0],
     [4,26,27,20,9,18,2,25,19,13,9,7,14,11,1,11,16,26,8,1,10,1,8,0,0],
     [8,21,24,10,19,5,5,19,8,27,18,14,28,22,2,22,1,22,17,2,20,2,16,0,0],
     [12,16,21,0,29,23,7,13,28,9,28,21,11,3,4,2,18,17,26,3,30,3,24,0,0],
     [16,11,18,21,7,11,10,7,17,23,6,29,25,14,5,13,3,13,4,5,9,5,1,1,0],
     [20,6,15,11,17,29,12,1,6,6,16,5,9,26,6,24,19,8,13,6,19,6,9,1,0],
     [24,1,12,1,27,16,15,26,25,19,25,12,23,6,8,4,5,4,22,7,29,7,17,1,0],
     [28,27,8,22,5,4,18,20,14,2,4,20,6,18,9,15,21,30,30,8,8,9,25,1,0],
     [1,23,5,12,15,22,20,14,3,16,13,27,20,29,10,26,6,26,8,10,18,10,2,2,0],
     [5,18,2,2,25,9,23,8,23,29,22,3,4,10,12,6,23,21,17,11,28,11,10,2,0],
     [9,13,30,22,3,28,25,2,12,12,1,11,18,21,13,17,8,17,26,12,7,13,18,2,0],
     [13,8,27,12,13,15,28,27,0,26,10,18,1,2,15,28,24,12,4,14,17,14,26,2,0],
     [17,3,24,2,23,2,0,22,20,8,20,25,15,13,16,8,10,8,13,15,27,15,3,3,0],
     [21,29,20,23,1,21,2,16,9,22,29,1,30,24,17,19,26,3,22,16,6,17,11,3,0],
     [25,24,17,13,11,8,5,10,29,4,8,9,13,5,19,30,11,30,30,17,16,18,19,3,0],
     [29,19,14,3,21,26,7,4,18,18,17,16,27,16,20,10,28,25,8,19,26,19,27,3,0]] @
    [[2,15,11,24,30,13,10,29,6,1,27,23,10,28,21,21,13,21,17,20,5,21,4,4,0],
     [6,10,8,14,9,1,13,23,26,14,5,0,25,8,23,1,30,16,26,21,15,22,12,4,0],
     [10,5,5,4,19,19,15,17,15,28,14,7,8,20,24,12,15,12,4,23,25,23,20,4,0],
     [14,0,2,25,28,6,18,11,4,11,24,14,22,0,26,23,0,8,13,24,4,25,28,4,0],
     [18,26,29,14,7,25,20,5,24,24,2,22,5,12,27,3,17,3,22,25,14,26,5,5,0],
     [22,21,26,4,17,12,23,30,12,7,12,29,19,23,28,14,2,30,30,26,24,27,13,5,0],
     [26,16,23,25,26,30,25,24,1,21,21,5,3,4,30,25,18,25,8,28,3,29,21,5,0],
     [30,11,20,15,5,18,28,18,21,3,0,13,17,15,0,6,4,21,17,29,13,30,29,5,0],
     [3,7,17,5,15,5,0,13,10,17,9,20,0,27,1,17,20,16,26,30,23,0,7,6,0],
     [7,2,14,26,24,23,2,7,30,30,18,27,14,7,3,28,5,12,4,1,3,2,15,6,0],
     [11,28,10,16,3,11,5,1,19,13,28,3,29,18,4,8,22,7,13,2,13,3,23,6,0],
     [15,23,7,6,13,29,7,26,7,27,6,11,12,30,5,19,7,3,22,3,23,4,0,7,0],
     [19,18,4,27,22,16,10,20,27,9,16,18,26,10,7,30,23,29,30,4,2,6,8,7,0],
     [23,13,1,17,1,4,13,14,16,23,25,25,9,22,8,10,9,25,8,6,12,7,16,7,0],
     [27,8,29,6,11,22,15,8,5,6,4,2,24,2,10,21,25,20,17,7,22,8,24,7,0],
     [0,4,26,27,20,9,18,2,25,19,13,9,7,14,11,1,11,16,26,8,1,10,1,8,0]] @
    [[4,30,22,17,30,27,20,27,13,2,23,16,21,25,12,12,27,11,4,10,11,11,9,8,0],
     [8,25,19,7,9,15,23,21,2,16,1,24,4,6,14,23,12,7,13,11,21,12,17,8,0],
     [12,20,16,28,18,2,26,15,22,29,10,0,19,17,15,3,29,2,22,12,0,14,25,8,0],
     [16,15,13,18,28,20,28,9,11,12,20,7,2,29,16,14,14,29,30,13,10,15,2,9,0],
     [20,10,10,8,7,8,0,4,0,26,29,14,16,9,18,25,30,24,8,15,20,16,10,9,0],
     [24,5,7,29,16,26,2,29,19,8,8,22,30,20,19,5,16,20,17,16,30,17,18,9,0],
     [28,0,4,19,26,13,5,23,8,22,17,29,13,1,21,16,1,16,26,17,9,19,26,9,0],
     [1,27,0,9,5,1,8,17,28,4,27,5,28,12,22,27,17,11,4,19,19,20,3,10,0],
     [5,22,28,29,14,19,10,11,17,18,5,13,11,24,23,7,3,7,13,20,29,21,11,10,0],
     [9,17,25,19,24,6,13,5,6,1,15,20,25,4,25,18,19,2,22,21,8,23,19,10,0],
     [13,12,22,9,3,25,15,30,25,14,24,27,8,16,26,29,4,29,30,22,18,24,27,10,0],
     [17,7,19,30,12,12,18,24,14,28,2,4,23,27,27,9,21,24,8,24,28,25,4,11,0],
     [21,2,16,20,22,30,20,18,3,11,12,11,6,8,29,20,6,20,17,25,7,27,12,11,0],
     [25,28,12,10,1,18,23,12,23,24,21,18,20,19,30,0,23,15,26,26,17,28,20,11,0],
     [29,23,9,0,11,5,26,6,12,7,0,26,3,0,1,12,8,11,4,28,27,29,28,11,0],
     [2,19,6,21,20,23,28,0,1,21,9,2,18,11,2,23,24,6,13,29,6,0,6,12,0]] @
    [[6,14,3,11,30,10,0,26,20,3,19,9,1,23,3,3,10,2,22,30,16,1,14,12,0],
     [10,9,0,1,9,29,2,20,9,17,28,16,15,3,5,14,26,28,30,0,27,2,22,12,0],
     [14,4,28,21,18,16,5,14,29,30,6,24,29,14,6,25,11,24,8,2,6,4,30,12,0],
     [18,30,24,11,28,3,8,8,18,13,16,0,13,26,7,5,28,19,17,3,16,5,7,13,0],
     [22,25,21,1,7,22,10,2,7,27,25,7,27,6,9,16,13,15,26,4,26,6,15,13,0],
     [26,20,18,22,16,9,13,27,26,9,4,15,10,18,10,27,29,10,4,6,5,8,23,13,0],
     [30,15,15,12,26,27,15,21,15,23,13,22,24,29,11,7,15,6,13,7,15,9,0,14,0],
     [3,11,12,2,5,15,18,15,4,6,23,29,7,10,13,18,0,2,22,8,25,10,8,14,0],
     [7,6,9,23,14,2,21,9,24,19,1,6,22,21,14,29,16,28,30,9,4,12,16,14,0],
     [11,1,6,13,24,20,23,3,13,2,11,13,5,2,16,9,2,24,8,11,14,13,24,14,0],
     [15,27,2,3,3,8,26,28,1,16,20,20,19,13,17,20,18,19,17,12,24,14,1,15,0],
     [19,22,30,23,12,26,28,22,21,29,29,27,2,25,18,0,4,15,26,13,3,16,9,15,0],
     [23,17,27,13,22,13,0,17,10,12,8,4,17,5,20,11,20,10,4,15,13,17,17,15,0],
     [27,12,24,3,1,1,3,11,30,25,17,11,0,17,21,22,5,6,13,16,23,18,25,15,0],
     [0,8,21,24,10,19,5,5,19,8,27,18,14,28,22,2,22,1,22,17,2,20,2,16,0],
     [4,3,18,14,20,6,8,30,7,22,5,26,28,8,24,13,7,28,30,18,12,21,10,16,0]] @
    [[8,29,14,4,30,24,10,24,27,4,15,2,12,20,25,24,23,23,8,20,22,22,18,16,0],
     [12,24,11,25,8,12,13,18,16,18,24,9,26,0,27,4,9,19,17,21,1,24,26,16,0],
     [16,19,8,15,18,30,15,12,5,1,3,17,9,12,28,15,25,14,26,22,11,25,3,17,0],
     [20,14,5,5,28,17,18,6,25,14,12,24,23,23,29,26,10,10,4,24,21,26,11,17,0],
     [24,9,2,26,6,5,21,0,14,28,21,0,7,4,0,7,27,5,13,25,0,28,19,17,0],
     [28,4,30,15,16,23,23,25,2,11,0,8,21,15,1,18,12,1,22,26,10,29,27,17,0],
     [1,0,27,5,26,10,26,19,22,24,9,15,4,27,2,29,28,27,30,27,20,30,4,18,0],
     [5,26,23,26,4,29,28,13,11,7,19,22,18,7,4,9,14,23,8,29,30,0,13,18,0],
     [9,21,20,16,14,16,0,8,0,21,28,29,1,19,5,20,30,18,17,30,9,2,21,18,0],
     [13,16,17,6,24,3,3,2,20,3,7,6,16,30,6,0,16,14,26,0,20,3,29,18,0],
     [17,11,14,27,2,22,5,27,8,17,16,13,30,10,8,11,1,10,4,2,30,4,6,19,0],
     [21,6,11,17,12,9,8,21,28,30,25,20,13,22,9,22,17,5,13,3,9,6,14,19,0],
     [25,1,8,7,22,27,10,15,17,13,4,28,27,2,11,2,3,1,22,4,19,7,22,19,0],
     [29,27,4,28,0,15,13,9,6,27,13,4,11,14,12,13,19,27,30,5,29,8,30,19,0],
     [2,23,1,18,10,2,16,3,26,9,23,11,25,25,13,24,4,23,8,7,8,10,7,20,0],
     [6,18,29,7,20,20,18,28,14,23,1,19,8,6,15,4,21,18,17,8,18,11,15,20,0]] @
    [[10,13,26,28,29,7,21,22,3,6,11,26,22,17,16,15,6,14,26,9,28,12,23,20,0],
     [14,8,23,18,8,26,23,16,23,19,20,2,6,29,17,26,22,9,4,11,7,14,0,21,0],
     [18,3,20,8,18,13,26,10,12,2,30,9,20,9,19,6,8,5,13,12,17,15,8,21,0],
     [22,29,16,29,27,0,29,4,1,16,8,17,3,21,20,17,24,0,22,13,27,16,16,21,0],
     [26,24,13,19,6,19,0,30,20,29,17,24,17,1,22,28,9,27,30,14,6,18,24,21,0],
     [30,19,10,9,16,6,3,24,9,12,27,0,1,13,23,8,26,22,8,16,16,19,1,22,0],
     [3,15,7,30,25,24,5,18,29,25,5,8,15,24,24,19,11,18,17,17,26,20,9,22,0],
     [7,10,4,20,4,12,8,12,18,8,15,15,29,4,26,30,27,13,26,18,5,22,17,22,0],
     [11,5,1,10,14,30,10,6,7,22,24,22,12,16,27,10,13,9,4,20,15,23,25,22,0],
     [15,0,29,30,23,17,13,0,27,4,3,30,26,27,28,21,29,4,13,21,25,24,2,23,0],
     [19,26,25,20,2,5,16,25,15,18,12,6,10,8,30,1,15,0,22,22,4,26,10,23,0],
     [23,21,22,10,12,23,18,19,4,1,22,13,24,19,0,13,0,27,30,23,14,27,18,23,0],
     [27,16,19,0,22,10,21,13,24,14,0,21,7,0,2,24,16,22,8,25,24,28,26,23,0],
     [0,12,16,21,0,29,23,7,13,28,9,28,21,11,3,4,2,18,17,26,3,30,3,24,0],
     [4,7,13,11,10,16,26,1,2,11,19,4,5,23,4,15,18,13,26,27,13,0,12,24,0],
     [8,2,10,1,20,3,29,26,21,24,28,11,19,3,6,26,3,9,4,29,23,1,20,24,0]] @
    [[12,28,6,22,29,21,0,21,10,7,7,19,2,15,7,6,20,4,13,30,2,3,28,24,0],
     [16,23,3,12,8,9,3,15,30,20,16,26,16,26,8,17,5,0,22,0,13,4,5,25,0],
     [20,18,0,2,18,27,5,9,19,3,26,2,0,7,10,28,21,26,30,1,23,5,13,25,0],
     [24,13,28,22,27,14,8,3,8,17,4,10,14,18,11,8,7,22,8,3,2,7,21,25,0],
     [28,8,25,12,6,2,11,28,27,30,13,17,28,29,12,19,23,17,17,4,12,8,29,25,0],
     [1,4,22,2,16,20,13,22,16,13,23,24,11,10,14,30,8,13,26,5,22,9,6,26,0],
     [5,30,18,23,25,7,16,16,5,27,1,1,26,21,15,10,25,8,4,7,1,11,14,26,0],
     [9,25,15,13,4,26,18,10,25,9,11,8,9,2,17,21,10,4,13,8,11,12,22,26,0],
     [13,20,12,3,14,13,21,4,14,23,20,15,23,13,18,1,27,30,21,9,21,13,30,26,0],
     [17,15,9,24,23,0,24,29,2,6,30,22,6,25,19,12,12,26,30,10,0,15,7,27,0],
     [21,10,6,14,2,19,26,23,22,19,8,30,20,5,21,23,28,21,8,12,10,16,15,27,0],
     [25,5,3,4,12,6,29,17,11,2,18,6,4,17,22,3,14,17,17,13,20,17,23,27,0],
     [29,0,0,25,21,24,0,12,0,16,27,13,18,28,23,14,30,12,26,14,30,18,0,28,0],
     [2,27,27,14,0,12,3,6,20,29,5,21,1,9,25,25,15,8,4,16,9,20,8,28,0],
     [6,22,24,4,10,30,5,0,9,12,15,28,15,20,26,5,1,4,13,17,19,21,16,28,0],
     [10,17,21,25,19,17,8,25,28,25,24,4,30,0,28,16,17,30,21,18,29,22,24,28,0]] @
    [[14,12,18,15,29,4,11,19,17,8,3,12,13,12,29,27,2,26,30,19,8,24,1,29,0],
     [18,7,15,5,8,23,13,13,6,22,12,19,27,23,30,7,19,21,8,21,18,25,9,29,0],
     [22,2,12,26,17,10,16,7,26,4,22,26,10,4,1,19,4,17,17,22,28,26,17,29,0],
     [26,28,8,16,27,28,18,1,15,18,0,3,25,15,2,30,20,12,26,23,7,28,25,29,0],
     [30,23,5,6,6,16,21,26,3,1,10,10,8,27,3,10,6,8,4,25,17,29,2,30,0],
     [3,19,2,27,15,3,24,20,23,14,19,17,22,7,5,21,22,3,13,26,27,30,10,30,0],
     [7,14,30,16,25,21,26,14,12,28,28,24,5,19,6,1,8,30,21,27,6,1,19,30,0],
     [11,9,27,6,4,9,29,8,1,11,7,1,20,30,7,12,24,25,30,28,16,2,27,30,0],
     [15,4,24,27,13,27,0,3,21,24,16,8,3,11,9,23,9,21,8,30,26,3,4,0,1],
     [19,30,20,17,23,14,3,28,9,7,26,15,17,22,10,3,26,16,17,0,6,5,12,0,1],
     [23,25,17,7,2,2,6,22,29,20,4,23,0,3,12,14,11,12,26,1,16,6,20,0,1],
     [27,20,14,28,11,20,8,16,18,3,14,30,14,14,13,25,27,7,4,3,26,7,28,0,1],
     [0,16,11,18,21,7,11,10,7,17,23,6,29,25,14,5,13,3,13,4,5,9,5,1,1],
     [4,11,8,8,0,26,13,4,27,30,1,14,12,6,16,16,29,29,21,5,15,10,13,1,1],
     [8,6,5,29,9,13,16,29,15,13,11,21,26,17,17,27,14,25,30,6,25,11,21,1,1],
     [12,1,2,19,19,0,19,23,4,27,20,28,9,29,18,7,0,21,8,8,4,13,29,1,1]] @
    [[16,27,29,8,29,18,21,17,24,9,30,4,24,9,20,18,16,16,17,9,14,14,6,2,1],
     [20,22,26,29,7,6,24,11,13,23,8,12,7,21,21,29,1,12,26,10,24,15,14,2,1],
     [24,17,23,19,17,24,26,5,2,6,18,19,21,1,23,9,18,7,4,12,3,17,22,2,1],
     [28,12,20,9,27,11,29,30,21,19,27,26,4,13,24,20,3,3,13,13,13,18,30,2,1],
     [1,8,17,30,5,30,0,25,10,2,6,3,19,24,25,0,20,29,21,14,23,19,7,3,1],
     [5,3,14,20,15,17,3,19,30,15,15,10,2,5,27,11,5,25,30,15,2,21,15,3,1],
     [9,29,10,10,25,4,6,13,19,29,24,17,16,16,28,22,21,20,8,17,12,22,23,3,1],
     [13,24,7,0,4,23,8,7,8,12,3,25,30,27,29,2,7,16,17,18,22,23,0,4,1],
     [17,19,4,21,13,10,11,1,28,25,12,1,14,8,0,14,23,11,26,19,1,25,8,4,1],
     [21,14,1,11,23,28,13,26,16,8,22,8,28,19,1,25,8,7,4,21,11,26,16,4,1],
     [25,9,29,0,2,16,16,20,5,22,0,16,11,0,3,5,25,2,13,22,21,27,24,4,1],
     [29,4,26,21,11,3,19,14,25,4,10,23,25,11,4,16,10,29,21,23,0,29,1,5,1],
     [2,0,23,11,21,21,21,8,14,18,19,30,8,23,5,27,26,24,30,24,10,30,9,5,1],
     [6,26,19,1,0,9,24,2,3,1,29,6,23,3,7,7,12,20,8,26,20,0,18,5,1],
     [10,21,16,22,9,27,26,27,22,14,7,14,6,15,8,18,28,15,17,27,30,1,26,5,1],
     [14,16,13,12,19,14,29,21,11,28,16,21,20,26,9,29,13,11,26,28,9,3,3,6,1]] @
    [[18,11,10,2,29,1,1,16,0,11,26,28,3,7,11,9,30,6,4,30,19,4,11,6,1],
     [22,6,7,23,7,20,3,10,20,24,4,5,18,18,12,20,15,2,13,0,30,5,19,6,1],
     [26,1,4,13,17,7,6,4,9,7,14,12,1,30,13,0,1,29,21,1,9,7,27,6,1],
     [30,27,0,3,27,25,8,29,28,20,23,19,15,10,15,11,17,24,30,2,19,8,4,7,1],
     [3,23,28,23,5,13,11,23,17,3,2,27,29,21,16,22,2,20,8,4,29,9,12,7,1],
     [7,18,25,13,15,0,14,17,6,17,11,3,13,2,18,2,19,15,17,5,8,11,20,7,1],
     [11,13,22,3,25,18,16,11,26,30,20,10,27,13,19,13,4,11,26,6,18,12,28,7,1],
     [15,8,19,24,3,6,19,5,15,13,30,17,10,25,20,24,20,6,4,8,28,13,5,8,1],
     [19,3,16,14,13,24,21,30,3,27,8,25,24,5,22,4,6,2,13,9,7,15,13,8,1],
     [23,29,12,4,23,11,24,24,23,9,18,1,8,17,23,15,22,28,21,10,17,16,21,8,1],
     [27,24,9,25,1,30,26,18,12,23,27,8,22,28,24,26,7,24,30,11,27,17,29,8,1],
     [0,20,6,15,11,17,29,12,1,6,6,16,5,9,26,6,24,19,8,13,6,19,6,9,1],
     [4,15,3,5,21,4,1,7,21,19,15,23,19,20,27,17,9,15,17,14,16,20,14,9,1],
     [8,10,0,26,30,22,3,1,10,2,25,30,2,1,29,28,25,10,26,15,26,21,22,9,1],
     [12,5,28,15,9,10,6,26,29,15,3,7,17,12,30,8,11,6,4,17,5,23,30,9,1],
     [16,0,25,5,19,28,8,20,18,29,12,14,0,24,0,20,27,1,13,18,15,24,7,10,1]] @
    [[20,26,21,26,28,15,11,14,7,12,22,21,14,4,2,0,13,28,21,19,25,25,15,10,1],
     [24,21,18,16,7,3,14,8,27,25,0,29,28,15,3,11,29,23,30,20,4,27,23,10,1],
     [28,16,15,6,17,21,16,2,16,8,10,5,12,27,4,22,14,19,8,22,14,28,0,11,1],
     [1,12,12,27,26,8,19,27,4,22,19,12,26,7,6,2,0,15,17,23,24,29,8,11,1],
     [5,7,9,17,5,27,21,21,24,4,29,19,9,19,7,13,16,10,26,24,3,0,17,11,1],
     [9,2,6,7,15,14,24,15,13,18,7,27,23,30,8,24,1,6,4,26,13,1,25,11,1],
     [13,28,2,28,24,1,27,9,2,1,17,3,7,11,10,4,18,1,13,27,23,2,2,12,1],
     [17,23,30,17,3,20,29,3,22,14,26,10,21,22,11,15,3,28,21,28,2,4,10,12,1],
     [21,18,27,7,13,7,1,29,10,28,4,18,4,3,13,26,19,23,30,29,12,5,18,12,1],
     [25,13,24,28,22,25,3,23,30,10,14,25,18,14,14,6,5,19,8,0,23,6,26,12,1],
     [29,8,21,18,1,13,6,17,19,24,23,1,2,26,15,17,21,14,17,1,2,8,3,13,1],
     [2,4,18,8,11,0,9,11,8,7,2,9,16,6,17,28,6,10,26,2,12,9,11,13,1],
     [6,30,14,29,20,18,11,5,28,20,11,16,30,17,18,8,23,5,4,4,22,10,19,13,1],
     [10,25,11,19,30,5,14,30,16,3,21,23,13,29,19,19,8,1,13,5,1,12,27,13,1],
     [14,20,8,9,9,24,16,24,5,17,30,30,27,9,21,30,24,27,21,6,11,13,4,14,1],
     [18,15,5,30,18,11,19,18,25,30,8,7,11,21,22,10,10,23,30,7,21,14,12,14,1]] @
    [[22,10,2,20,28,29,21,12,14,13,18,14,25,1,24,21,26,18,8,9,0,16,20,14,1],
     [26,5,30,9,7,17,24,6,3,27,27,21,8,13,25,1,12,14,17,10,10,17,28,14,1],
     [30,0,27,30,16,4,27,0,23,9,6,29,22,24,26,12,28,9,26,11,20,18,5,15,1],
     [3,27,23,20,26,22,29,25,11,23,15,5,6,5,28,23,13,5,4,13,30,19,13,15,1],
     [7,22,20,10,5,10,1,20,0,6,25,12,20,16,29,3,30,0,13,14,9,21,21,15,1],
     [11,17,17,0,15,28,3,14,20,19,3,20,3,28,30,14,15,27,21,15,19,22,29,15,1],
     [15,12,14,21,24,15,6,8,9,2,13,27,17,8,1,26,0,23,30,16,29,23,6,16,1],
     [19,7,11,11,3,3,9,2,29,15,22,3,1,20,2,6,17,18,8,18,8,25,14,16,1],
     [23,2,8,1,13,21,11,27,17,29,0,11,15,0,4,17,2,14,17,19,18,26,22,16,1],
     [27,28,4,22,22,8,14,21,6,12,10,18,29,11,5,28,18,9,26,20,28,27,30,16,1],
     [0,24,1,12,1,27,16,15,26,25,19,25,12,23,6,8,4,5,4,22,7,29,7,17,1],
     [4,19,29,1,11,14,19,9,15,8,29,1,27,3,8,19,20,0,13,23,17,30,15,17,1],
     [8,14,26,22,20,1,22,3,4,22,7,9,10,15,9,30,5,27,21,24,27,0,24,17,1],
     [12,9,23,12,30,19,24,28,23,4,17,16,24,26,10,10,22,22,30,25,6,2,1,18,1],
     [16,4,20,2,9,7,27,22,12,18,26,23,7,7,12,21,7,18,8,27,16,3,9,18,1],
     [20,30,16,23,18,25,29,16,1,1,5,0,22,18,13,1,24,13,17,28,26,4,17,18,1]] @
    [[24,25,13,13,28,12,1,11,21,14,14,7,5,30,14,12,9,9,26,29,5,6,25,18,1],
     [28,20,10,3,7,0,4,5,10,28,23,14,19,10,16,23,25,4,4,0,16,7,2,19,1],
     [1,16,7,24,16,18,6,30,29,10,2,22,2,22,17,3,11,0,13,1,26,8,10,19,1],
     [5,11,4,14,26,5,9,24,18,24,11,29,16,2,19,14,27,26,21,2,5,10,18,19,1],
     [9,6,1,4,5,24,11,18,7,7,21,5,0,14,20,25,12,22,30,3,15,11,26,19,1],
     [13,1,29,24,14,11,14,12,27,20,30,12,14,25,21,5,29,17,8,5,25,12,3,20,1],
     [17,27,25,14,24,29,16,6,16,3,9,20,28,5,23,16,14,13,17,6,4,14,11,20,1],
     [21,22,22,4,3,17,19,0,5,17,18,27,11,17,24,27,30,8,26,7,14,15,19,20,1],
     [25,17,19,25,12,4,22,25,24,30,27,3,26,28,25,7,16,4,4,9,24,16,27,20,1],
     [29,12,16,15,22,22,24,19,13,13,6,11,9,9,27,18,1,0,13,10,3,18,4,21,1],
     [2,8,13,5,1,10,27,13,2,27,15,18,23,20,28,29,17,26,21,11,13,19,12,21,1],
     [6,3,10,26,10,28,29,7,22,9,25,25,6,1,30,9,3,22,30,12,23,20,20,21,1],
     [10,29,6,16,20,15,1,2,11,23,3,2,21,12,0,21,19,17,8,14,2,22,28,21,1],
     [14,24,3,6,30,2,4,27,30,5,13,9,4,24,1,1,5,13,17,15,12,23,5,22,1],
     [18,19,0,27,8,21,6,21,19,19,22,16,18,4,3,12,21,8,26,16,22,24,13,22,1],
     [22,14,28,16,18,8,9,15,8,2,1,24,1,16,4,23,6,4,4,18,1,26,21,22,1]] @
    [[26,9,25,6,28,26,11,9,28,15,10,0,16,27,5,3,23,30,12,19,11,27,29,22,1],
     [30,4,22,27,6,14,14,3,17,29,19,7,30,7,7,14,8,26,21,20,21,28,6,23,1],
     [3,0,19,17,16,1,17,28,5,12,29,14,13,19,8,25,24,21,30,21,0,30,14,23,1],
     [7,26,15,7,26,19,19,22,25,25,7,22,27,30,9,5,10,17,8,23,10,0,23,23,1],
     [11,21,12,28,4,7,22,16,14,8,17,29,10,11,11,16,26,12,17,24,20,1,0,24,1],
     [15,16,9,18,14,25,24,10,3,22,26,5,25,22,12,27,11,8,26,25,30,2,8,24,1],
     [19,11,6,8,24,12,27,4,23,4,5,13,8,3,14,7,28,3,4,27,9,4,16,24,1],
     [23,6,3,29,2,0,30,29,11,18,14,20,22,14,15,18,13,30,12,28,19,5,24,24,1],
     [27,1,0,19,12,18,1,24,0,1,24,27,5,26,16,29,29,25,21,29,29,6,1,25,1],
     [0,28,27,8,22,5,4,18,20,14,2,4,20,6,18,9,15,21,30,30,8,8,9,25,1],
     [4,23,24,29,0,24,6,12,9,28,11,11,3,18,19,20,0,17,8,1,19,9,17,25,1],
     [8,18,21,19,10,11,9,6,29,10,21,18,17,29,20,0,17,12,17,2,29,10,25,25,1],
     [12,13,18,9,20,29,11,0,18,24,30,25,0,10,22,11,2,8,26,3,8,12,2,26,1],
     [16,8,15,30,29,16,14,25,6,7,9,2,15,21,23,22,18,3,4,5,18,13,10,26,1],
     [20,3,12,20,8,4,17,19,26,20,18,9,29,1,25,2,4,30,12,6,28,14,18,26,1],
     [24,29,8,10,18,22,19,13,15,3,28,16,12,13,26,13,20,25,21,7,7,16,26,26,1]] @
    [[28,24,5,0,28,9,22,7,4,17,6,24,26,24,27,24,5,21,30,8,17,17,3,27,1],
     [1,20,2,21,6,28,24,1,24,30,15,0,10,5,29,4,22,16,8,10,27,18,11,27,1],
     [5,15,30,10,16,15,27,26,12,13,25,7,24,16,30,15,7,12,17,11,6,20,19,27,1],
     [9,10,27,0,26,2,30,20,1,27,3,15,7,28,0,27,23,7,26,12,16,21,27,27,1],
     [13,5,24,21,4,21,1,15,21,9,13,22,21,8,2,7,9,3,4,14,26,22,4,28,1],
     [17,0,21,11,14,8,4,9,10,23,22,29,4,20,3,18,25,29,12,15,5,24,12,28,1],
     [21,26,17,1,24,26,6,3,30,5,1,6,19,0,5,29,10,25,21,16,15,25,20,28,1],
     [25,21,14,22,2,14,9,28,18,19,10,13,2,12,6,9,27,20,30,17,25,26,28,28,1],
     [29,16,11,12,12,1,12,22,7,2,20,20,16,23,7,20,12,16,8,19,4,28,5,29,1],
     [2,12,8,2,22,19,14,16,27,15,29,27,30,3,9,0,29,11,17,20,14,29,13,29,1],
     [6,7,5,23,0,7,17,10,16,29,7,4,14,15,10,11,14,7,26,21,24,30,21,29,1],
     [10,2,2,13,10,25,19,4,5,12,17,11,28,26,11,22,30,2,4,23,3,1,30,29,1],
     [14,28,29,2,20,12,22,29,24,25,26,18,11,7,13,2,16,29,12,24,13,2,7,30,1],
     [18,23,26,23,29,30,24,23,13,8,5,26,25,18,14,13,1,25,21,25,23,3,15,30,1],
     [22,18,23,13,8,18,27,17,2,22,14,2,9,30,15,24,17,20,30,26,2,5,23,30,1],
     [26,13,20,3,18,5,30,11,22,4,24,9,23,10,17,4,3,16,8,28,12,6,0,0,2]] @
    [[30,8,17,24,27,23,1,6,11,18,2,17,6,22,18,15,19,11,17,29,22,7,8,0,2],
     [3,4,14,14,6,11,4,0,0,1,12,24,20,2,20,26,4,7,26,30,1,9,16,0,2],
     [7,30,10,4,16,29,6,25,19,14,21,0,4,14,21,6,21,2,4,1,12,10,24,0,2],
     [11,25,7,25,25,16,9,19,8,28,30,7,18,25,22,17,6,29,12,2,22,11,1,1,2],
     [15,20,4,15,4,4,12,13,28,10,9,15,1,6,24,28,22,24,21,3,1,13,9,1,2],
     [19,15,1,5,14,22,14,7,17,24,18,22,15,17,25,8,8,20,30,4,11,14,17,1,2],
     [23,10,29,25,23,9,17,1,6,7,28,29,29,28,26,19,24,15,8,6,21,15,25,1,2],
     [27,5,26,15,2,28,19,26,25,20,6,6,13,9,28,30,9,11,17,7,0,17,2,2,2],
     [0,1,23,5,12,15,22,20,14,3,16,13,27,20,29,10,26,6,26,8,10,18,10,2,2],
     [4,27,19,26,21,2,25,14,3,17,25,20,10,1,0,22,11,2,4,10,20,19,18,2,2],
     [8,22,16,16,0,21,27,8,23,30,3,28,24,12,1,2,28,28,12,11,30,20,26,2,2],
     [12,17,13,6,10,8,30,2,12,13,13,4,8,24,2,13,13,24,21,12,9,22,3,3,2],
     [16,12,10,27,19,26,1,28,0,27,22,11,22,4,4,24,29,19,30,13,19,23,11,3,2],
     [20,7,7,17,29,13,4,22,20,9,1,19,5,16,5,4,15,15,8,15,29,24,19,3,2],
     [24,2,4,7,8,1,7,16,9,23,10,26,19,27,6,15,0,11,17,16,8,26,27,3,2],
     [28,28,0,28,17,19,9,10,29,5,20,2,3,8,8,26,16,6,26,17,18,27,4,4,2]]"

definition BASE31_POS15 :: "int list list" where
  "BASE31_POS15 =
    [[0,0,0,0,0,0,0,0,0,0,0,0,0,0,0,0,0,0,0,0,0,0,0,0,0,0],
     [1,24,28,17,27,6,12,4,18,19,29,9,17,19,9,6,2,2,4,19,28,28,12,4,2,0],
     [2,17,26,4,24,13,24,8,5,8,28,19,3,8,19,12,4,4,8,7,26,26,25,8,4,0],
     [3,10,24,22,20,20,5,13,23,27,26,29,20,27,28,18,6,6,12,26,23,24,7,13,6,0],
     [4,3,22,9,17,27,17,17,10,16,25,8,7,16,7,25,8,8,16,14,21,22,20,17,8,0],
     [5,27,19,27,13,3,30,21,28,4,24,18,24,4,17,0,11,10,20,2,19,20,2,22,10,0],
     [6,20,17,14,10,10,11,26,15,24,22,28,10,24,26,6,13,12,24,21,16,18,15,26,12,0],
     [7,13,15,1,7,17,23,30,2,13,21,7,28,12,5,13,15,14,28,9,14,16,28,30,14,0],
     [8,6,13,19,3,24,4,4,21,1,20,17,14,1,15,19,17,16,1,29,11,14,10,4,17,0],
     [9,30,10,6,0,0,17,8,8,21,18,27,0,21,24,25,19,18,5,17,9,12,23,8,19,0],
     [10,23,8,24,27,6,29,12,26,9,17,6,18,9,3,1,22,20,9,5,7,10,5,13,21,0],
     [11,16,6,11,24,13,10,17,13,29,15,16,4,29,12,7,24,22,13,24,4,8,18,17,23,0],
     [12,9,4,29,20,20,22,21,0,18,14,26,21,17,22,13,26,24,17,12,2,6,0,22,25,0],
     [13,2,2,16,17,27,3,26,18,6,13,5,8,6,1,20,28,26,21,0,0,4,13,26,27,0],
     [14,26,30,2,14,3,16,30,5,26,11,15,25,25,10,26,30,28,25,19,28,1,26,30,29,0],
     [15,19,28,20,10,10,28,3,24,14,10,25,11,14,20,1,2,0,30,7,26,30,7,4,1,1]] @
    [[16,12,26,7,7,17,9,8,11,3,9,4,29,2,30,7,4,2,3,27,23,28,20,8,3,1],
     [17,5,24,25,3,24,21,12,29,22,7,14,15,22,8,14,6,4,7,15,21,26,2,13,5,1],
     [18,29,21,12,0,0,3,17,16,11,6,24,1,11,18,20,8,6,11,3,19,24,15,17,7,1],
     [19,22,19,30,27,6,15,21,3,0,5,3,19,30,27,26,10,8,15,22,16,22,28,21,9,1],
     [20,15,17,17,24,13,27,25,21,19,3,13,5,19,6,2,13,10,19,10,14,20,10,26,11,1],
     [21,8,15,4,21,20,8,30,8,8,2,23,22,7,16,8,15,12,23,29,11,18,23,30,13,1],
     [22,1,13,22,17,27,20,3,27,27,0,2,9,27,25,14,17,14,27,17,9,16,5,4,16,1],
     [23,25,10,9,14,3,2,8,14,16,30,11,26,15,4,21,19,16,0,6,7,14,18,8,18,1],
     [24,18,8,27,10,10,14,12,1,5,29,21,12,4,14,27,21,18,4,25,4,12,0,13,20,1],
     [25,11,6,14,7,17,26,16,19,24,27,0,30,23,23,2,24,20,8,13,2,10,13,17,22,1],
     [26,4,4,1,4,24,7,21,6,13,26,10,16,12,2,9,26,22,12,1,0,8,26,21,24,1],
     [27,28,1,19,0,0,20,25,24,1,25,20,2,1,12,15,28,24,16,20,28,5,8,26,26,1],
     [28,21,30,5,28,6,1,30,11,21,23,30,19,20,21,21,30,26,20,8,26,3,21,30,28,1],
     [29,14,28,23,24,13,13,3,30,9,22,9,6,9,0,28,1,29,24,27,23,1,3,4,0,2],
     [30,7,26,10,21,20,25,7,17,29,20,19,23,28,9,3,4,0,29,15,21,30,15,8,2,2],
     [0,1,24,28,17,27,6,12,4,18,19,29,9,17,19,9,6,2,2,4,19,28,28,12,4,2]] @
    [[1,25,21,15,14,3,19,16,22,6,18,8,27,5,29,15,8,4,6,23,16,26,10,17,6,2],
     [2,18,19,2,11,10,0,21,9,26,16,18,13,25,7,22,10,6,10,11,14,24,23,21,8,2],
     [3,11,17,20,7,17,12,25,27,14,15,28,30,13,17,28,12,8,14,30,11,22,5,26,10,2],
     [4,4,15,7,4,24,24,29,14,3,14,7,17,2,27,3,15,10,18,18,9,20,18,30,12,2],
     [5,28,12,25,0,0,6,3,2,23,12,17,3,22,5,10,17,12,22,6,7,18,0,4,15,2],
     [6,21,10,12,28,6,18,7,20,11,11,27,20,10,15,16,19,14,26,25,4,16,13,8,17,2],
     [7,14,8,30,24,13,30,11,7,0,10,6,7,30,24,22,21,16,30,13,2,14,26,12,19,2],
     [8,7,6,17,21,20,11,16,25,19,8,16,24,18,3,29,23,18,3,2,0,12,8,17,21,2],
     [9,0,4,4,18,27,23,20,12,8,7,26,10,7,13,4,26,20,7,21,28,9,21,21,23,2],
     [10,24,1,22,14,3,5,25,30,27,5,5,28,26,22,10,28,22,11,9,26,7,3,26,25,2],
     [11,17,30,8,11,10,17,29,17,16,4,15,14,15,1,17,30,24,15,28,23,5,16,30,27,2],
     [12,10,28,26,7,17,29,2,5,5,3,25,0,4,11,23,1,27,19,16,21,3,29,3,30,2],
     [13,3,26,13,4,24,10,7,23,24,1,4,18,23,20,29,3,29,23,4,19,1,11,8,1,3],
     [14,27,23,0,1,0,23,11,10,13,0,14,4,12,30,4,6,0,28,23,16,30,23,12,3,3],
     [15,20,21,18,28,6,4,16,28,1,30,23,21,0,9,11,8,2,1,12,14,28,5,17,5,3],
     [16,13,19,5,25,13,16,20,15,21,28,2,8,20,18,17,10,4,5,0,12,26,18,21,7,3]] @
    [[17,6,17,23,21,20,28,24,2,10,27,12,25,8,28,23,12,6,9,19,9,24,0,26,9,3],
     [18,30,14,10,18,27,9,29,20,29,25,22,11,28,6,30,14,8,13,7,7,22,13,30,11,3],
     [19,23,12,28,14,3,22,2,8,18,24,1,29,16,16,5,17,10,17,26,4,20,26,3,14,3],
     [20,16,10,15,11,10,3,7,26,6,23,11,15,5,26,11,19,12,21,14,2,18,8,8,16,3],
     [21,9,8,2,8,17,15,11,13,26,21,21,1,25,4,18,21,14,25,2,0,16,21,12,18,3],
     [22,2,6,20,4,24,27,15,0,15,20,0,19,13,14,24,23,16,29,21,28,13,3,17,20,3],
     [23,26,3,7,1,0,9,20,18,3,19,10,5,2,24,30,25,18,2,10,26,11,16,21,22,3],
     [24,19,1,25,28,6,21,24,5,23,17,20,22,21,2,6,28,20,6,29,23,9,29,25,24,3],
     [25,12,30,11,25,13,2,29,23,11,16,30,8,10,12,12,30,22,10,17,21,7,11,30,26,3],
     [26,5,28,29,21,20,14,2,11,0,15,9,26,29,21,18,1,25,14,5,19,5,24,3,29,3],
     [27,29,25,16,18,27,26,6,29,19,13,19,12,18,0,25,3,27,18,24,16,3,6,8,0,4],
     [28,22,23,3,15,3,8,11,16,8,12,29,29,6,10,0,6,29,22,12,14,1,19,12,2,4],
     [29,15,21,21,11,10,20,15,3,28,10,8,16,26,19,6,8,0,27,0,12,30,0,17,4,4],
     [30,8,19,8,8,17,1,20,21,16,9,18,2,15,29,12,10,2,0,20,9,28,13,21,6,4],
     [0,2,17,26,4,24,13,24,8,5,8,28,19,3,8,19,12,4,4,8,7,26,26,25,8,4],
     [1,26,14,13,1,0,26,28,26,24,6,7,6,23,17,25,14,6,8,27,4,24,8,30,10,4]] @
    [[2,19,12,0,29,6,7,2,14,13,5,17,23,11,27,0,17,8,12,15,2,22,21,3,13,4],
     [3,12,10,18,25,13,19,6,1,2,4,27,9,0,6,7,19,10,16,3,0,20,3,8,15,4],
     [4,5,8,5,22,20,0,11,19,21,2,6,27,19,15,13,21,12,20,22,28,17,16,12,17,4],
     [5,29,5,23,18,27,12,15,6,10,1,16,13,8,25,19,23,14,24,10,26,15,29,16,19,4],
     [6,22,3,10,15,3,25,19,24,29,30,25,30,27,3,26,25,16,28,29,23,13,11,21,21,4],
     [7,15,1,28,11,10,6,24,11,18,29,4,17,16,13,1,28,18,1,18,21,11,24,25,23,4],
     [8,8,30,14,8,17,18,28,29,6,28,14,3,5,23,7,30,20,5,6,19,9,6,30,25,4],
     [9,1,28,1,5,24,30,1,17,26,26,24,20,24,1,14,1,23,9,25,16,7,19,3,28,4],
     [10,25,25,19,1,0,12,6,4,15,25,3,7,13,11,20,3,25,13,13,14,5,1,8,30,4],
     [11,18,23,6,29,6,24,10,22,3,24,13,24,1,21,26,5,27,17,1,12,3,14,12,1,5],
     [12,11,21,24,25,13,5,15,9,23,22,23,10,21,30,1,8,29,21,20,9,1,27,16,3,5],
     [13,4,19,11,22,20,17,19,27,11,21,2,28,9,9,8,10,0,26,8,7,30,8,21,5,5],
     [14,28,16,29,18,27,29,23,14,0,20,12,14,29,18,14,12,2,30,27,4,28,21,25,7,5],
     [15,21,14,16,15,3,11,28,1,20,18,22,0,18,28,20,14,4,3,16,2,26,3,30,9,5],
     [16,14,12,3,12,10,23,1,20,8,17,1,18,6,7,27,16,6,7,4,0,24,16,3,12,5],
     [17,7,10,21,8,17,4,6,7,28,15,11,4,26,16,2,19,8,11,23,28,21,29,7,14,5]] @
    [[18,0,8,8,5,24,16,10,25,16,14,21,21,14,26,8,21,10,15,11,26,19,11,12,16,5],
     [19,24,5,26,1,0,29,14,12,5,13,0,8,3,5,15,23,12,19,30,23,17,24,16,18,5],
     [20,17,3,13,29,6,10,19,30,24,11,10,25,22,14,21,25,14,23,18,21,15,6,21,20,5],
     [21,10,1,0,26,13,22,23,17,13,10,20,11,11,24,27,27,16,27,6,19,13,19,25,22,5],
     [22,3,30,17,22,20,3,28,4,2,9,30,28,30,2,3,30,18,0,26,16,11,1,30,24,5],
     [23,27,27,4,19,27,15,1,23,21,7,9,15,19,12,9,1,21,4,14,14,9,14,3,27,5],
     [24,20,25,22,15,3,28,5,10,10,6,19,1,8,22,15,3,23,8,2,12,7,27,7,29,5],
     [25,13,23,9,12,10,9,10,28,29,4,29,18,27,0,22,5,25,12,21,9,5,9,12,0,6],
     [26,6,21,27,8,17,21,14,15,18,3,8,5,16,10,28,7,27,16,9,7,3,22,16,2,6],
     [27,30,18,14,5,24,2,19,2,7,2,18,22,4,20,3,10,29,20,28,4,1,4,21,4,6],
     [28,23,16,1,2,0,15,23,20,26,0,28,8,24,29,9,12,0,25,16,2,30,16,25,6,6],
     [29,16,14,19,29,6,27,27,7,15,30,6,26,12,8,16,14,2,29,4,0,28,29,29,8,6],
     [30,9,12,6,26,13,8,1,26,3,29,16,12,1,18,22,16,4,2,24,28,25,11,3,11,6],
     [0,3,10,24,22,20,20,5,13,23,27,26,29,20,27,28,18,6,6,12,26,23,24,7,13,6],
     [1,27,7,11,19,27,1,10,0,12,26,5,16,9,6,4,21,8,10,0,24,21,6,12,15,6],
     [2,20,5,29,15,3,14,14,18,0,25,15,2,29,15,10,23,10,14,19,21,19,19,16,17,6]] @
    [[3,13,3,16,12,10,26,18,5,20,23,25,19,17,25,16,25,12,18,7,19,17,1,21,19,6],
     [4,6,1,3,9,17,7,23,23,8,22,4,6,6,4,23,27,14,22,26,16,15,14,25,21,6],
     [5,30,29,20,5,24,19,27,10,28,20,14,23,25,13,29,29,16,26,14,14,13,27,29,23,6],
     [6,23,27,7,2,0,1,1,29,16,19,24,9,14,23,4,1,19,30,2,12,11,9,3,26,6],
     [7,16,25,25,29,6,13,5,16,5,18,3,27,2,2,11,3,21,3,22,9,9,22,7,28,6],
     [8,9,23,12,26,13,25,9,3,25,16,13,13,22,11,17,5,23,7,10,7,7,4,12,30,6],
     [9,2,21,30,22,20,6,14,21,13,15,23,30,10,21,23,7,25,11,29,4,5,17,16,1,7],
     [10,26,18,17,19,27,18,18,8,2,14,2,17,30,30,29,9,27,15,17,2,3,30,20,3,7],
     [11,19,16,4,16,3,0,23,26,21,12,12,3,19,9,5,12,29,19,5,0,1,12,25,5,7],
     [12,12,14,22,12,10,12,27,13,10,11,22,20,7,19,11,14,0,24,24,28,29,24,29,7,7],
     [13,5,12,9,9,17,24,0,1,30,9,1,7,27,28,17,16,2,28,12,26,27,6,3,10,7],
     [14,29,9,27,5,24,5,5,19,18,8,11,24,15,7,24,18,4,1,1,24,25,19,7,12,7],
     [15,22,7,14,2,0,18,9,6,7,7,21,10,4,17,30,20,6,5,20,21,23,1,12,14,7],
     [16,15,5,1,30,6,30,13,24,26,5,0,28,23,26,5,23,8,9,8,19,21,14,16,16,7],
     [17,8,3,19,26,13,11,18,11,15,4,10,14,12,5,12,25,10,13,27,16,19,27,20,18,7],
     [18,1,1,6,23,20,23,22,29,3,3,20,0,1,15,18,27,12,17,15,14,17,9,25,20,7]] @
    [[19,25,29,23,19,27,4,27,16,23,1,30,17,20,24,24,29,14,21,3,12,15,22,29,22,7],
     [20,18,27,10,16,3,17,0,4,12,0,9,4,9,3,0,1,17,25,22,9,13,4,3,25,7],
     [21,11,25,28,12,10,29,4,22,0,30,18,21,28,12,6,3,19,29,10,7,11,17,7,27,7],
     [22,4,23,15,9,17,10,9,9,20,28,28,7,17,22,12,5,21,2,30,4,9,30,11,29,7],
     [23,28,20,2,6,24,22,13,27,8,27,7,25,5,1,19,7,23,6,18,2,7,12,16,0,8],
     [24,21,18,20,2,0,4,18,14,28,25,17,11,25,10,25,9,25,10,6,0,5,25,20,2,8],
     [25,14,16,7,30,6,16,22,1,17,24,27,28,13,20,0,12,27,14,25,28,2,7,25,4,8],
     [26,7,14,25,26,13,28,26,19,5,23,6,15,2,30,6,14,29,18,13,26,0,20,29,6,8],
     [27,0,12,12,23,20,9,0,7,25,21,16,1,22,8,13,16,0,23,1,24,29,1,3,9,8],
     [28,24,9,30,19,27,21,4,25,13,20,26,18,10,18,19,18,2,27,20,21,27,14,7,11,8],
     [29,17,7,17,16,3,3,9,12,2,19,5,5,30,27,25,20,4,0,9,19,25,27,11,13,8],
     [30,10,5,4,13,10,15,13,30,21,17,15,22,18,6,1,23,6,4,28,16,23,9,16,15,8],
     [0,4,3,22,9,17,27,17,17,10,16,25,8,7,16,7,25,8,8,16,14,21,22,20,17,8],
     [1,28,0,9,6,24,8,22,4,30,14,4,26,26,25,13,27,10,12,4,12,19,4,25,19,8],
     [2,21,29,26,2,0,21,26,22,18,13,14,12,15,4,20,29,12,16,23,9,17,17,29,21,8],
     [3,14,27,13,30,6,2,0,10,7,12,24,29,3,14,26,0,15,20,11,7,15,30,2,24,8]] @
    [[4,7,25,0,27,13,14,4,28,26,10,3,16,23,23,1,3,17,24,30,4,13,12,7,26,8],
     [5,0,23,18,23,20,26,8,15,15,9,13,2,12,2,8,5,19,28,18,2,11,25,11,28,8],
     [6,24,20,5,20,27,7,13,2,4,8,23,19,0,12,14,7,21,1,7,0,9,7,16,30,8],
     [7,17,18,23,16,3,20,17,20,23,6,2,6,20,21,20,9,23,5,26,28,6,20,20,1,9],
     [8,10,16,10,13,10,1,22,7,12,5,12,23,8,0,27,11,25,9,14,26,4,2,25,3,9],
     [9,3,14,28,9,17,13,26,25,0,4,22,9,28,9,2,14,27,13,2,24,2,15,29,5,9],
     [10,27,11,15,6,24,25,30,12,20,2,1,27,16,19,8,16,29,17,21,21,0,28,2,8,9],
     [11,20,9,2,3,0,7,4,0,9,1,11,13,5,29,14,18,0,22,9,19,29,9,7,10,9],
     [12,13,7,20,30,6,19,8,18,28,30,20,30,24,7,21,20,2,26,28,16,27,22,11,12,9],
     [13,6,5,7,27,13,0,13,5,17,29,30,16,13,17,27,22,4,30,16,14,25,4,16,14,9],
     [14,30,2,25,23,20,12,17,23,5,28,9,3,2,27,2,25,6,3,5,12,23,17,20,16,9],
     [15,23,0,12,20,27,24,21,10,25,26,19,20,21,5,9,27,8,7,24,9,21,30,24,18,9],
     [16,16,29,29,16,3,6,26,28,13,25,29,6,10,15,15,29,10,11,12,7,19,12,29,20,9],
     [17,9,27,16,13,10,18,30,15,2,24,8,24,29,24,21,0,13,15,0,5,17,25,2,23,9],
     [18,2,25,3,10,17,30,3,3,22,22,18,10,18,3,28,2,15,19,19,2,15,7,7,25,9],
     [19,26,22,21,6,24,11,8,21,10,21,28,27,6,13,3,5,17,23,7,0,13,20,11,27,9]] @
    [[20,19,20,8,3,0,24,12,8,30,19,7,14,26,22,9,7,19,27,26,28,10,2,16,29,9],
     [21,12,18,26,30,6,5,17,26,18,18,17,0,15,1,16,9,21,0,15,26,8,15,20,0,10],
     [22,5,16,13,27,13,17,21,13,7,17,27,17,3,11,22,11,23,4,3,24,6,28,24,2,10],
     [23,29,13,0,24,20,29,25,0,27,15,6,4,23,20,28,13,25,8,22,21,4,10,29,4,10],
     [24,22,11,18,20,27,10,30,18,15,14,16,21,11,30,3,16,27,12,10,19,2,23,2,7,10],
     [25,15,9,5,17,3,23,3,6,4,13,26,7,0,9,10,18,29,16,29,16,0,5,7,9,10],
     [26,8,7,23,13,10,4,8,24,23,11,5,25,19,18,16,20,0,21,17,14,29,17,11,11,10],
     [27,1,5,10,10,17,16,12,11,12,10,15,11,8,28,22,22,2,25,5,12,27,30,15,13,10],
     [28,25,2,28,6,24,28,16,29,0,9,25,28,27,6,29,24,4,29,24,9,25,12,20,15,10],
     [29,18,0,15,3,0,10,21,16,20,7,4,15,16,16,4,27,6,2,13,7,23,25,24,17,10],
     [30,11,29,1,0,7,22,25,3,9,6,14,1,5,26,10,29,8,6,1,5,21,7,29,19,10],
     [0,5,27,19,27,13,3,30,21,28,4,24,18,24,4,17,0,11,10,20,2,19,20,2,22,10],
     [1,29,24,6,24,20,15,3,9,17,3,3,5,13,14,23,2,13,14,8,0,17,2,7,24,10],
     [2,22,22,24,20,27,27,7,27,5,2,13,22,1,24,29,4,15,18,27,28,14,15,11,26,10],
     [3,15,20,11,17,3,9,12,14,25,0,23,8,21,2,5,7,17,22,15,26,12,28,15,28,10],
     [4,8,18,29,13,10,21,16,1,14,30,1,26,9,12,11,9,19,26,3,24,10,10,20,30,10]] @
    [[5,1,16,16,10,17,2,21,19,2,29,11,12,29,21,17,11,21,30,22,21,8,23,24,1,11],
     [6,25,13,3,7,24,14,25,6,22,27,21,29,17,0,24,13,23,3,11,19,6,5,29,3,11],
     [7,18,11,21,3,0,27,29,24,10,26,0,16,6,10,30,15,25,7,30,16,4,18,2,6,11],
     [8,11,9,8,0,7,8,3,12,30,24,10,2,26,19,5,18,27,11,18,14,2,0,7,8,11],
     [9,4,7,26,27,13,20,7,30,18,23,20,19,14,29,11,20,29,15,6,12,0,13,11,10,11],
     [10,28,4,13,24,20,1,12,17,7,22,30,5,3,8,18,22,0,20,25,9,29,25,15,12,11],
     [11,21,2,0,21,27,13,16,4,27,20,9,23,22,17,24,24,2,24,13,7,27,7,20,14,11],
     [12,14,0,18,17,3,26,20,22,15,19,19,9,11,27,30,26,4,28,1,5,25,20,24,16,11],
     [13,7,29,4,14,10,7,25,9,4,18,29,26,30,5,6,29,6,1,21,2,23,2,29,18,11],
     [14,0,27,22,10,17,19,29,27,23,16,8,13,19,15,12,0,9,5,9,0,21,15,2,21,11],
     [15,24,24,9,7,24,0,3,15,12,15,18,30,7,25,18,2,11,9,28,28,18,28,6,23,11],
     [16,17,22,27,3,0,13,7,2,1,14,28,16,27,3,25,4,13,13,16,26,16,10,11,25,11],
     [17,10,20,14,0,7,25,11,20,20,12,7,3,16,13,0,7,15,17,4,24,14,23,15,27,11],
     [18,3,18,1,28,13,6,16,7,9,11,17,20,4,23,6,9,17,21,23,21,12,5,20,29,11],
     [19,27,15,19,24,20,18,20,25,28,9,27,6,24,1,13,11,19,25,11,19,10,18,24,0,12],
     [20,20,13,6,21,27,30,24,12,17,8,6,24,12,11,19,13,21,29,30,16,8,0,29,2,12]] @
    [[21,13,11,24,17,3,12,29,30,5,7,16,10,1,21,25,15,23,2,19,14,6,13,2,5,12],
     [22,6,9,11,14,10,24,2,18,25,5,26,27,20,30,0,18,25,6,7,12,4,26,6,7,12],
     [23,30,6,29,10,17,5,7,5,14,4,5,14,9,9,7,20,27,10,26,9,2,8,11,9,12],
     [24,23,4,16,7,24,17,11,23,2,3,15,0,29,18,13,22,29,14,14,7,0,21,15,11,12],
     [25,16,2,3,4,0,30,15,10,22,1,25,17,17,28,19,24,0,19,2,5,29,2,20,13,12],
     [26,9,0,21,0,7,11,20,28,10,0,4,4,6,7,26,26,2,23,21,2,27,15,24,15,12],
     [27,2,29,7,28,13,23,24,15,30,29,13,21,25,16,1,29,4,27,9,0,25,28,28,17,12],
     [28,26,26,25,24,20,4,29,2,19,28,23,7,14,26,7,0,7,0,29,28,22,10,2,20,12],
     [29,19,24,12,21,27,16,2,21,7,27,2,25,2,5,14,2,9,4,17,26,20,23,6,22,12],
     [30,12,22,30,17,3,29,6,8,27,25,12,11,22,14,20,4,11,8,5,24,18,5,11,24,12],
     [0,6,20,17,14,10,10,11,26,15,24,22,28,10,24,26,6,13,12,24,21,16,18,15,26,12],
     [1,30,17,4,11,17,22,15,13,4,23,1,15,30,2,2,9,15,16,12,19,14,0,20,28,12],
     [2,23,15,22,7,24,3,20,0,24,21,11,1,19,12,8,11,17,20,0,17,12,13,24,30,12],
     [3,16,13,9,4,0,16,24,18,12,20,21,18,7,22,14,13,19,24,19,14,10,26,28,1,13],
     [4,9,11,27,0,7,28,28,5,1,19,0,5,27,0,21,15,21,28,7,12,8,8,2,4,13],
     [5,2,9,14,28,13,9,2,24,20,17,10,22,15,10,27,17,23,1,27,9,6,21,6,6,13]] @
    [[6,26,6,1,25,20,21,6,11,9,16,20,8,4,20,2,20,25,5,15,7,4,3,11,8,13],
     [7,19,4,19,21,27,2,11,29,28,14,30,25,23,29,8,22,27,9,3,5,2,16,15,10,13],
     [8,12,2,6,18,3,15,15,16,17,13,9,12,12,8,15,24,29,13,22,2,0,29,19,12,13],
     [9,5,0,24,14,10,27,19,3,6,12,19,29,0,18,21,26,0,18,10,0,29,10,24,14,13],
     [10,29,28,10,11,17,8,24,21,25,10,29,15,20,27,27,28,2,22,29,28,26,23,28,16,13],
     [11,22,26,28,7,24,20,28,8,14,9,8,2,9,6,3,0,5,26,17,26,24,5,2,19,13],
     [12,15,24,15,4,0,2,2,27,2,8,18,19,28,15,9,2,7,30,5,24,22,18,6,21,13],
     [13,8,22,2,1,7,14,6,14,22,6,28,5,17,25,15,4,9,3,25,21,20,0,11,23,13],
     [14,1,20,20,28,13,26,10,1,11,5,7,23,5,4,22,6,11,7,13,19,18,13,15,25,13],
     [15,25,17,7,25,20,7,15,19,30,3,17,9,25,13,28,8,13,11,1,17,16,26,19,27,13],
     [16,18,15,25,21,27,19,19,6,19,2,27,26,13,23,3,11,15,15,20,14,14,8,24,29,13],
     [17,11,13,12,18,3,1,24,24,7,1,6,13,2,2,10,13,17,19,8,12,12,21,28,0,14],
     [18,4,11,30,14,10,13,28,11,27,30,15,30,21,11,16,15,19,23,27,9,10,3,2,3,14],
     [19,28,8,17,11,17,25,1,30,15,29,25,16,10,21,22,17,21,27,15,7,8,16,6,5,14],
     [20,21,6,4,8,24,6,6,17,4,28,4,3,30,30,28,19,23,0,4,5,6,29,10,7,14],
     [21,14,4,22,4,0,19,10,4,24,26,14,20,18,9,4,22,25,4,23,2,4,11,15,9,14]] @
    [[22,7,2,9,1,7,0,15,22,12,25,24,6,7,19,10,24,27,8,11,0,2,24,19,11,14],
     [23,0,0,27,28,13,12,19,9,1,24,3,24,26,28,16,26,29,12,30,28,30,5,24,13,14],
     [24,24,28,13,25,20,24,23,27,20,22,13,10,15,7,23,28,0,17,18,26,28,18,28,15,14],
     [25,17,26,0,22,27,5,28,14,9,21,23,27,3,17,29,30,2,21,6,24,26,0,2,18,14],
     [26,10,24,18,18,3,18,1,2,29,19,2,14,23,26,4,2,5,25,25,21,24,13,6,20,14],
     [27,3,22,5,15,10,30,5,20,17,18,12,0,12,5,11,4,7,29,13,19,22,26,10,22,14],
     [28,27,19,23,11,17,11,10,7,6,17,22,17,0,15,17,6,9,2,2,17,20,8,15,24,14],
     [29,20,17,10,8,24,23,14,25,25,15,1,4,20,24,23,8,11,6,21,14,18,21,19,26,14],
     [30,13,15,28,4,0,5,19,12,14,14,11,21,8,3,30,10,13,10,9,12,16,3,24,28,14],
     [0,7,13,15,1,7,17,23,30,2,13,21,7,28,12,5,13,15,14,28,9,14,16,28,30,14],
     [1,0,11,2,29,13,29,27,17,22,11,0,25,16,22,11,15,17,18,16,7,12,29,1,2,15],
     [2,24,8,20,25,20,10,1,5,11,10,10,11,5,1,18,17,19,22,4,5,10,11,6,4,15],
     [3,17,6,7,22,27,22,5,23,30,8,20,28,24,10,24,19,21,26,23,2,8,24,10,6,15],
     [4,10,4,25,18,3,4,10,10,19,7,30,14,13,20,30,21,23,30,11,0,6,6,15,8,15],
     [5,3,2,12,15,10,16,14,28,7,6,9,1,2,30,5,24,25,3,0,29,3,19,19,10,15],
     [6,27,30,29,11,17,28,18,15,27,4,19,18,21,8,12,26,27,7,19,26,1,1,24,12,15]] @
    [[7,20,28,16,8,24,9,23,2,16,3,29,4,10,18,18,28,29,11,7,24,30,13,28,14,15],
     [8,13,26,3,5,0,22,27,20,4,2,8,22,29,27,24,30,0,16,26,21,28,26,1,17,15],
     [9,6,24,21,1,7,3,1,8,24,0,18,8,18,6,0,2,3,20,14,19,26,8,6,19,15],
     [10,30,21,8,29,13,15,5,26,12,30,27,25,6,16,6,4,5,24,2,17,24,21,10,21,15],
     [11,23,19,26,25,20,27,9,13,1,29,6,12,26,25,12,6,7,28,21,14,22,3,15,23,15],
     [12,16,17,13,22,27,8,14,0,21,27,16,29,14,4,19,8,9,1,10,12,20,16,19,25,15],
     [13,9,15,0,19,3,21,18,18,9,26,26,15,3,14,25,10,11,5,29,9,18,29,23,27,15],
     [14,2,13,18,15,10,2,23,5,29,24,5,2,23,23,0,13,13,9,17,7,16,11,28,29,15],
     [15,26,10,5,12,17,14,27,23,17,23,15,19,11,2,7,15,15,13,5,5,14,24,1,1,16],
     [16,19,8,23,8,24,26,0,11,6,22,25,5,0,12,13,17,17,17,24,2,12,6,6,3,16],
     [17,12,6,10,5,0,8,5,29,25,20,4,23,19,21,19,19,19,21,12,0,10,19,10,5,16],
     [18,5,4,28,1,7,20,9,16,14,19,14,9,8,0,26,21,21,25,0,29,7,1,15,7,16],
     [19,29,1,15,29,13,1,14,3,3,18,24,26,27,9,1,24,23,29,19,26,5,14,19,9,16],
     [20,22,30,1,26,20,13,18,21,22,16,3,13,16,19,7,26,25,2,8,24,3,27,23,11,16],
     [21,15,28,19,22,27,25,22,8,11,15,13,30,4,29,13,28,27,6,27,21,1,9,28,13,16],
     [22,8,26,6,19,3,7,27,26,30,13,23,16,24,7,20,30,29,10,15,19,30,21,1,16,16]] @
    [[23,1,24,24,15,10,19,0,14,19,12,2,3,13,17,26,1,1,15,3,17,28,3,6,18,16],
     [24,25,21,11,12,17,0,5,1,8,11,12,20,1,27,1,4,3,19,22,14,26,16,10,20,16],
     [25,18,19,29,8,24,12,9,19,27,9,22,6,21,5,8,6,5,23,10,12,24,29,14,22,16],
     [26,11,17,16,5,0,25,13,6,16,8,1,24,9,15,14,8,7,27,29,9,22,11,19,24,16],
     [27,4,15,3,2,7,6,18,24,4,7,11,10,29,24,20,10,9,0,18,7,20,24,23,26,16],
     [28,28,12,21,29,13,18,22,11,24,5,21,27,17,3,27,12,11,4,6,5,18,6,28,28,16],
     [29,21,10,8,26,20,30,26,29,12,4,0,14,6,13,2,15,13,8,25,2,16,19,1,0,17],
     [30,14,8,26,22,27,11,0,17,1,3,10,0,26,22,8,17,15,12,13,0,14,1,6,2,17],
     [0,8,6,13,19,3,24,4,4,21,1,20,17,14,1,15,19,17,16,1,29,11,14,10,4,17],
     [1,1,4,0,16,10,5,9,22,9,0,30,3,3,11,21,21,19,20,20,26,9,27,14,6,17],
     [2,25,1,18,12,17,17,13,9,29,29,8,21,22,20,27,23,21,24,8,24,7,9,19,8,17],
     [3,18,30,4,9,24,29,17,27,17,28,18,7,11,30,2,26,23,28,27,21,5,22,23,10,17],
     [4,11,28,22,5,0,11,22,14,6,27,28,24,30,8,9,28,25,1,16,19,3,4,28,12,17],
     [5,4,26,9,2,7,23,26,1,26,25,7,11,19,18,15,30,27,5,4,17,1,17,1,15,17],
     [6,28,23,27,29,13,4,0,20,14,24,17,28,7,28,21,1,30,9,23,14,30,29,5,17,17],
     [7,21,21,14,26,20,16,4,7,3,23,27,14,27,6,28,3,1,14,11,12,28,11,10,19,17]]"

subsection \<open>Integrity\<close>

lemma BASE31_POS11_ok: "holds_rows 31 20 (256 ^ 11) BASE31_POS11"
  unfolding BASE31_POS11_def
  by (rule holds_rowsI [of 31 31 309485009821345068724781056 "256 ^ 11" _ "[8,12,7,19,27,27,29,16,25,7,28,13,11,6,2,14,22,13,0,0]"], simp, simp, simp, code_simp+)

lemma BASE31_POS12_ok: "holds_rows 31 21 (256 ^ 12) BASE31_POS12"
  unfolding BASE31_POS12_def
  by (rule holds_rowsI [of 31 31 79228162514264337593543950336 "256 ^ 12" _ "[2,7,2,27,2,10,28,2,30,18,9,27,16,18,6,6,13,10,20,3,0]"], simp, simp, simp, code_simp+)

lemma BASE31_POS13_ok: "holds_rows 31 23 (256 ^ 13) BASE31_POS13"
  unfolding BASE31_POS13_def
  by (rule holds_rowsI [of 31 31 20282409603651670423947251286016 "256 ^ 13" _ "[16,10,12,17,22,10,28,1,16,20,11,16,12,4,15,9,0,3,29,5,30,0,0]"], simp, simp, simp, code_simp+)

lemma BASE31_POS14_ok: "holds_rows 31 25 (256 ^ 14) BASE31_POS14"
  unfolding BASE31_POS14_def
  by (rule holds_rowsI [of 31 31 5192296858534827628530496329220096 "256 ^ 14" _ "[4,26,27,20,9,18,2,25,19,13,9,7,14,11,1,11,16,26,8,1,10,1,8,0,0]"], simp, simp, simp, code_simp+)

lemma BASE31_POS15_ok: "holds_rows 31 26 (256 ^ 15) BASE31_POS15"
  unfolding BASE31_POS15_def
  by (rule holds_rowsI [of 31 31 1329227995784915872903807060280344576 "256 ^ 15" _ "[1,24,28,17,27,6,12,4,18,19,29,9,17,19,9,6,2,2,4,19,28,28,12,4,2,0]"], simp, simp, simp, code_simp+)

end
