(* ===== verification/Table_Base37_Low.thy ===== *)
theory Table_Base37_Low
  imports Digits
begin

text \<open>
  The arrays \<open>BASE37_POS0\<close> to \<open>BASE37_POS10\<close> of
  \<open>fancy-garbling/base_conversion/cbits/lookup_tables.c\<close>, row for row as the file has them (in
  blocks of 16 rows), and for each the check that row \<open>x\<close> holds the base-37 digits of
  \<open>x * 256 ^ pos\<close>.
\<close>

definition BASE37_POS0 :: "int list list" where
  "BASE37_POS0 =
    [[0,0], [1,0], [2,0], [3,0], [4,0], [5,0], [6,0], [7,0], [8,0], [9,0], [10,0], [11,0], [12,0], [13,0], [14,0],
     [15,0]] @
    [[16,0], [17,0], [18,0], [19,0], [20,0], [21,0], [22,0], [23,0], [24,0], [25,0], [26,0], [27,0], [28,0], [29,0],
     [30,0], [31,0]] @
    [[32,0], [33,0], [34,0], [35,0], [36,0], [0,1], [1,1], [2,1], [3,1], [4,1], [5,1], [6,1], [7,1], [8,1], [9,1],
     [10,1]] @
    [[11,1], [12,1], [13,1], [14,1], [15,1], [16,1], [17,1], [18,1], [19,1], [20,1], [21,1], [22,1], [23,1], [24,1],
     [25,1], [26,1]] @
    [[27,1], [28,1], [29,1], [30,1], [31,1], [32,1], [33,1], [34,1], [35,1], [36,1], [0,2], [1,2], [2,2], [3,2],
     [4,2], [5,2]] @
    [[6,2], [7,2], [8,2], [9,2], [10,2], [11,2], [12,2], [13,2], [14,2], [15,2], [16,2], [17,2], [18,2], [19,2],
     [20,2], [21,2]] @
    [[22,2], [23,2], [24,2], [25,2], [26,2], [27,2], [28,2], [29,2], [30,2], [31,2], [32,2], [33,2], [34,2], [35,2],
     [36,2], [0,3]] @
    [[1,3], [2,3], [3,3], [4,3], [5,3], [6,3], [7,3], [8,3], [9,3], [10,3], [11,3], [12,3], [13,3], [14,3], [15,3],
     [16,3]] @
    [[17,3], [18,3], [19,3], [20,3], [21,3], [22,3], [23,3], [24,3], [25,3], [26,3], [27,3], [28,3], [29,3], [30,3],
     [31,3], [32,3]] @
    [[33,3], [34,3], [35,3], [36,3], [0,4], [1,4], [2,4], [3,4], [4,4], [5,4], [6,4], [7,4], [8,4], [9,4], [10,4],
     [11,4]] @
    [[12,4], [13,4], [14,4], [15,4], [16,4], [17,4], [18,4], [19,4], [20,4], [21,4], [22,4], [23,4], [24,4], [25,4],
     [26,4], [27,4]] @
    [[28,4], [29,4], [30,4], [31,4], [32,4], [33,4], [34,4], [35,4], [36,4], [0,5], [1,5], [2,5], [3,5], [4,5], [5,5],
     [6,5]] @
    [[7,5], [8,5], [9,5], [10,5], [11,5], [12,5], [13,5], [14,5], [15,5], [16,5], [17,5], [18,5], [19,5], [20,5],
     [21,5], [22,5]] @
    [[23,5], [24,5], [25,5], [26,5], [27,5], [28,5], [29,5], [30,5], [31,5], [32,5], [33,5], [34,5], [35,5], [36,5],
     [0,6], [1,6]] @
    [[2,6], [3,6], [4,6], [5,6], [6,6], [7,6], [8,6], [9,6], [10,6], [11,6], [12,6], [13,6], [14,6], [15,6], [16,6],
     [17,6]] @
    [[18,6], [19,6], [20,6], [21,6], [22,6], [23,6], [24,6], [25,6], [26,6], [27,6], [28,6], [29,6], [30,6], [31,6],
     [32,6], [33,6]]"

definition BASE37_POS1 :: "int list list" where
  "BASE37_POS1 =
    [[0,0,0,0], [34,6,0,0], [31,13,0,0], [28,20,0,0], [25,27,0,0], [22,34,0,0], [19,4,1,0], [16,11,1,0], [13,18,1,0],
     [10,25,1,0], [7,32,1,0], [4,2,2,0], [1,9,2,0], [35,15,2,0], [32,22,2,0], [29,29,2,0]] @
    [[26,36,2,0], [23,6,3,0], [20,13,3,0], [17,20,3,0], [14,27,3,0], [11,34,3,0], [8,4,4,0], [5,11,4,0], [2,18,4,0],
     [36,24,4,0], [33,31,4,0], [30,1,5,0], [27,8,5,0], [24,15,5,0], [21,22,5,0], [18,29,5,0]] @
    [[15,36,5,0], [12,6,6,0], [9,13,6,0], [6,20,6,0], [3,27,6,0], [0,34,6,0], [34,3,7,0], [31,10,7,0], [28,17,7,0],
     [25,24,7,0], [22,31,7,0], [19,1,8,0], [16,8,8,0], [13,15,8,0], [10,22,8,0], [7,29,8,0]] @
    [[4,36,8,0], [1,6,9,0], [35,12,9,0], [32,19,9,0], [29,26,9,0], [26,33,9,0], [23,3,10,0], [20,10,10,0],
     [17,17,10,0], [14,24,10,0], [11,31,10,0], [8,1,11,0], [5,8,11,0], [2,15,11,0], [36,21,11,0], [33,28,11,0]] @
    [[30,35,11,0], [27,5,12,0], [24,12,12,0], [21,19,12,0], [18,26,12,0], [15,33,12,0], [12,3,13,0], [9,10,13,0],
     [6,17,13,0], [3,24,13,0], [0,31,13,0], [34,0,14,0], [31,7,14,0], [28,14,14,0], [25,21,14,0], [22,28,14,0]] @
    [[19,35,14,0], [16,5,15,0], [13,12,15,0], [10,19,15,0], [7,26,15,0], [4,33,15,0], [1,3,16,0], [35,9,16,0],
     [32,16,16,0], [29,23,16,0], [26,30,16,0], [23,0,17,0], [20,7,17,0], [17,14,17,0], [14,21,17,0], [11,28,17,0]] @
    [[8,35,17,0], [5,5,18,0], [2,12,18,0], [36,18,18,0], [33,25,18,0], [30,32,18,0], [27,2,19,0], [24,9,19,0],
     [21,16,19,0], [18,23,19,0], [15,30,19,0], [12,0,20,0], [9,7,20,0], [6,14,20,0], [3,21,20,0], [0,28,20,0]] @
    [[34,34,20,0], [31,4,21,0], [28,11,21,0], [25,18,21,0], [22,25,21,0], [19,32,21,0], [16,2,22,0], [13,9,22,0],
     [10,16,22,0], [7,23,22,0], [4,30,22,0], [1,0,23,0], [35,6,23,0], [32,13,23,0], [29,20,23,0], [26,27,23,0]] @
    [[23,34,23,0], [20,4,24,0], [17,11,24,0], [14,18,24,0], [11,25,24,0], [8,32,24,0], [5,2,25,0], [2,9,25,0],
     [36,15,25,0], [33,22,25,0], [30,29,25,0], [27,36,25,0], [24,6,26,0], [21,13,26,0], [18,20,26,0], [15,27,26,0]] @
    [[12,34,26,0], [9,4,27,0], [6,11,27,0], [3,18,27,0], [0,25,27,0], [34,31,27,0], [31,1,28,0], [28,8,28,0],
     [25,15,28,0], [22,22,28,0], [19,29,28,0], [16,36,28,0], [13,6,29,0], [10,13,29,0], [7,20,29,0], [4,27,29,0]] @
    [[1,34,29,0], [35,3,30,0], [32,10,30,0], [29,17,30,0], [26,24,30,0], [23,31,30,0], [20,1,31,0], [17,8,31,0],
     [14,15,31,0], [11,22,31,0], [8,29,31,0], [5,36,31,0], [2,6,32,0], [36,12,32,0], [33,19,32,0], [30,26,32,0]] @
    [[27,33,32,0], [24,3,33,0], [21,10,33,0], [18,17,33,0], [15,24,33,0], [12,31,33,0], [9,1,34,0], [6,8,34,0],
     [3,15,34,0], [0,22,34,0], [34,28,34,0], [31,35,34,0], [28,5,35,0], [25,12,35,0], [22,19,35,0], [19,26,35,0]] @
    [[16,33,35,0], [13,3,36,0], [10,10,36,0], [7,17,36,0], [4,24,36,0], [1,31,36,0], [35,0,0,1], [32,7,0,1],
     [29,14,0,1], [26,21,0,1], [23,28,0,1], [20,35,0,1], [17,5,1,1], [14,12,1,1], [11,19,1,1], [8,26,1,1]] @
    [[5,33,1,1], [2,3,2,1], [36,9,2,1], [33,16,2,1], [30,23,2,1], [27,30,2,1], [24,0,3,1], [21,7,3,1], [18,14,3,1],
     [15,21,3,1], [12,28,3,1], [9,35,3,1], [6,5,4,1], [3,12,4,1], [0,19,4,1], [34,25,4,1]] @
    [[31,32,4,1], [28,2,5,1], [25,9,5,1], [22,16,5,1], [19,23,5,1], [16,30,5,1], [13,0,6,1], [10,7,6,1], [7,14,6,1],
     [4,21,6,1], [1,28,6,1], [35,34,6,1], [32,4,7,1], [29,11,7,1], [26,18,7,1], [23,25,7,1]] @
    [[20,32,7,1], [17,2,8,1], [14,9,8,1], [11,16,8,1], [8,23,8,1], [5,30,8,1], [2,0,9,1], [36,6,9,1], [33,13,9,1],
     [30,20,9,1], [27,27,9,1], [24,34,9,1], [21,4,10,1], [18,11,10,1], [15,18,10,1], [12,25,10,1]]"

definition BASE37_POS2 :: "int list list" where
  "BASE37_POS2 =
    [[0,0,0,0,0], [9,32,10,1,0], [18,27,21,2,0], [27,22,32,3,0], [36,17,6,5,0], [8,13,17,6,0], [17,8,28,7,0],
     [26,3,2,9,0], [35,35,12,10,0], [7,31,23,11,0], [16,26,34,12,0], [25,21,8,14,0], [34,16,19,15,0], [6,12,30,16,0],
     [15,7,4,18,0], [24,2,15,19,0]] @
    [[33,34,25,20,0], [5,30,36,21,0], [14,25,10,23,0], [23,20,21,24,0], [32,15,32,25,0], [4,11,6,27,0],
     [13,6,17,28,0], [22,1,28,29,0], [31,33,1,31,0], [3,29,12,32,0], [12,24,23,33,0], [21,19,34,34,0], [30,14,8,36,0],
     [2,10,19,0,1], [11,5,30,1,1], [20,0,4,3,1]] @
    [[29,32,14,4,1], [1,28,25,5,1], [10,23,36,6,1], [19,18,10,8,1], [28,13,21,9,1], [0,9,32,10,1], [9,4,6,12,1],
     [18,36,16,13,1], [27,31,27,14,1], [36,26,1,16,1], [8,22,12,17,1], [17,17,23,18,1], [26,12,34,19,1],
     [35,7,8,21,1], [7,3,19,22,1], [16,35,29,23,1]] @
    [[25,30,3,25,1], [34,25,14,26,1], [6,21,25,27,1], [15,16,36,28,1], [24,11,10,30,1], [33,6,21,31,1], [5,2,32,32,1],
     [14,34,5,34,1], [23,29,16,35,1], [32,24,27,36,1], [4,20,1,1,2], [13,15,12,2,2], [22,10,23,3,2], [31,5,34,4,2],
     [3,1,8,6,2], [12,33,18,7,2]] @
    [[21,28,29,8,2], [30,23,3,10,2], [2,19,14,11,2], [11,14,25,12,2], [20,9,36,13,2], [29,4,10,15,2], [1,0,21,16,2],
     [10,32,31,17,2], [19,27,5,19,2], [28,22,16,20,2], [0,18,27,21,2], [9,13,1,23,2], [18,8,12,24,2], [27,3,23,25,2],
     [36,35,33,26,2], [8,31,7,28,2]] @
    [[17,26,18,29,2], [26,21,29,30,2], [35,16,3,32,2], [7,12,14,33,2], [16,7,25,34,2], [25,2,36,35,2], [34,34,9,0,3],
     [6,30,20,1,3], [15,25,31,2,3], [24,20,5,4,3], [33,15,16,5,3], [5,11,27,6,3], [14,6,1,8,3], [23,1,12,9,3],
     [32,33,22,10,3], [4,29,33,11,3]] @
    [[13,24,7,13,3], [22,19,18,14,3], [31,14,29,15,3], [3,10,3,17,3], [12,5,14,18,3], [21,0,25,19,3], [30,32,35,20,3],
     [2,28,9,22,3], [11,23,20,23,3], [20,18,31,24,3], [29,13,5,26,3], [1,9,16,27,3], [10,4,27,28,3], [19,36,0,30,3],
     [28,31,11,31,3], [0,27,22,32,3]] @
    [[9,22,33,33,3], [18,17,7,35,3], [27,12,18,36,3], [36,7,29,0,4], [8,3,3,2,4], [17,35,13,3,4], [26,30,24,4,4],
     [35,25,35,5,4], [7,21,9,7,4], [16,16,20,8,4], [25,11,31,9,4], [34,6,5,11,4], [6,2,16,12,4], [15,34,26,13,4],
     [24,29,0,15,4], [33,24,11,16,4]] @
    [[5,20,22,17,4], [14,15,33,18,4], [23,10,7,20,4], [32,5,18,21,4], [4,1,29,22,4], [13,33,2,24,4], [22,28,13,25,4],
     [31,23,24,26,4], [3,19,35,27,4], [12,14,9,29,4], [21,9,20,30,4], [30,4,31,31,4], [2,0,5,33,4], [11,32,15,34,4],
     [20,27,26,35,4], [29,22,0,0,5]] @
    [[1,18,11,1,5], [10,13,22,2,5], [19,8,33,3,5], [28,3,7,5,5], [0,36,17,6,5], [9,31,28,7,5], [18,26,2,9,5],
     [27,21,13,10,5], [36,16,24,11,5], [8,12,35,12,5], [17,7,9,14,5], [26,2,20,15,5], [35,34,30,16,5], [7,30,4,18,5],
     [16,25,15,19,5], [25,20,26,20,5]] @
    [[34,15,0,22,5], [6,11,11,23,5], [15,6,22,24,5], [24,1,33,25,5], [33,33,6,27,5], [5,29,17,28,5], [14,24,28,29,5],
     [23,19,2,31,5], [32,14,13,32,5], [4,10,24,33,5], [13,5,35,34,5], [22,0,9,36,5], [31,32,19,0,6], [3,28,30,1,6],
     [12,23,4,3,6], [21,18,15,4,6]] @
    [[30,13,26,5,6], [2,9,0,7,6], [11,4,11,8,6], [20,36,21,9,6], [29,31,32,10,6], [1,27,6,12,6], [10,22,17,13,6],
     [19,17,28,14,6], [28,12,2,16,6], [0,8,13,17,6], [9,3,24,18,6], [18,35,34,19,6], [27,30,8,21,6], [36,25,19,22,6],
     [8,21,30,23,6], [17,16,4,25,6]] @
    [[26,11,15,26,6], [35,6,26,27,6], [7,2,0,29,6], [16,34,10,30,6], [25,29,21,31,6], [34,24,32,32,6], [6,20,6,34,6],
     [15,15,17,35,6], [24,10,28,36,6], [33,5,2,1,7], [5,1,13,2,7], [14,33,23,3,7], [23,28,34,4,7], [32,23,8,6,7],
     [4,19,19,7,7], [13,14,30,8,7]] @
    [[22,9,4,10,7], [31,4,15,11,7], [3,0,26,12,7], [12,32,36,13,7], [21,27,10,15,7], [30,22,21,16,7], [2,18,32,17,7],
     [11,13,6,19,7], [20,8,17,20,7], [29,3,28,21,7], [1,36,1,23,7], [10,31,12,24,7], [19,26,23,25,7], [28,21,34,26,7],
     [0,17,8,28,7], [9,12,19,29,7]] @
    [[18,7,30,30,7], [27,2,4,32,7], [36,34,14,33,7], [8,30,25,34,7], [17,25,36,35,7], [26,20,10,0,8], [35,15,21,1,8],
     [7,11,32,2,8], [16,6,6,4,8], [25,1,17,5,8], [34,33,27,6,8], [6,29,1,8,8], [15,24,12,9,8], [24,19,23,10,8],
     [33,14,34,11,8], [5,10,8,13,8]] @
    [[14,5,19,14,8], [23,0,30,15,8], [32,32,3,17,8], [4,28,14,18,8], [13,23,25,19,8], [22,18,36,20,8],
     [31,13,10,22,8], [3,9,21,23,8], [12,4,32,24,8], [21,36,5,26,8], [30,31,16,27,8], [2,27,27,28,8], [11,22,1,30,8],
     [20,17,12,31,8], [29,12,23,32,8], [1,8,34,33,8]]"

definition BASE37_POS3 :: "int list list" where
  "BASE37_POS3 =
    [[0,0,0,0,0,0,0], [10,3,8,35,8,0,0], [20,6,16,33,17,0,0], [30,9,24,31,26,0,0], [3,13,32,29,35,0,0],
     [13,16,3,28,7,1,0], [23,19,11,26,16,1,0], [33,22,19,24,25,1,0], [6,26,27,22,34,1,0], [16,29,35,20,6,2,0],
     [26,32,6,19,15,2,0], [36,35,14,17,24,2,0], [9,2,23,15,33,2,0], [19,5,31,13,5,3,0], [29,8,2,12,14,3,0],
     [2,12,10,10,23,3,0]] @
    [[12,15,18,8,32,3,0], [22,18,26,6,4,4,0], [32,21,34,4,13,4,0], [5,25,5,3,22,4,0], [15,28,13,1,31,4,0],
     [25,31,21,36,2,5,0], [35,34,29,34,11,5,0], [8,1,1,33,20,5,0], [18,4,9,31,29,5,0], [28,7,17,29,1,6,0],
     [1,11,25,27,10,6,0], [11,14,33,25,19,6,0], [21,17,4,24,28,6,0], [31,20,12,22,0,7,0], [4,24,20,20,9,7,0],
     [14,27,28,18,18,7,0]] @
    [[24,30,36,16,27,7,0], [34,33,7,15,36,7,0], [7,0,16,13,8,8,0], [17,3,24,11,17,8,0], [27,6,32,9,26,8,0],
     [0,10,3,8,35,8,0], [10,13,11,6,7,9,0], [20,16,19,4,16,9,0], [30,19,27,2,25,9,0], [3,23,35,0,34,9,0],
     [13,26,6,36,5,10,0], [23,29,14,34,14,10,0], [33,32,22,32,23,10,0], [6,36,30,30,32,10,0], [16,2,2,29,4,11,0],
     [26,5,10,27,13,11,0]] @
    [[36,8,18,25,22,11,0], [9,12,26,23,31,11,0], [19,15,34,21,3,12,0], [29,18,5,20,12,12,0], [2,22,13,18,21,12,0],
     [12,25,21,16,30,12,0], [22,28,29,14,2,13,0], [32,31,0,13,11,13,0], [5,35,8,11,20,13,0], [15,1,17,9,29,13,0],
     [25,4,25,7,1,14,0], [35,7,33,5,10,14,0], [8,11,4,4,19,14,0], [18,14,12,2,28,14,0], [28,17,20,0,0,15,0],
     [1,21,28,35,8,15,0]] @
    [[11,24,36,33,17,15,0], [21,27,7,32,26,15,0], [31,30,15,30,35,15,0], [4,34,23,28,7,16,0], [14,0,32,26,16,16,0],
     [24,3,3,25,25,16,0], [34,6,11,23,34,16,0], [7,10,19,21,6,17,0], [17,13,27,19,15,17,0], [27,16,35,17,24,17,0],
     [0,20,6,16,33,17,0], [10,23,14,14,5,18,0], [20,26,22,12,14,18,0], [30,29,30,10,23,18,0], [3,33,1,9,32,18,0],
     [13,36,9,7,4,19,0]] @
    [[23,2,18,5,13,19,0], [33,5,26,3,22,19,0], [6,9,34,1,31,19,0], [16,12,5,0,3,20,0], [26,15,13,35,11,20,0],
     [36,18,21,33,20,20,0], [9,22,29,31,29,20,0], [19,25,0,30,1,21,0], [29,28,8,28,10,21,0], [2,32,16,26,19,21,0],
     [12,35,24,24,28,21,0], [22,1,33,22,0,22,0], [32,4,4,21,9,22,0], [5,8,12,19,18,22,0], [15,11,20,17,27,22,0],
     [25,14,28,15,36,22,0]] @
    [[35,17,36,13,8,23,0], [8,21,7,12,17,23,0], [18,24,15,10,26,23,0], [28,27,23,8,35,23,0], [1,31,31,6,7,24,0],
     [11,34,2,5,16,24,0], [21,0,11,3,25,24,0], [31,3,19,1,34,24,0], [4,7,27,36,5,25,0], [14,10,35,34,14,25,0],
     [24,13,6,33,23,25,0], [34,16,14,31,32,25,0], [7,20,22,29,4,26,0], [17,23,30,27,13,26,0], [27,26,1,26,22,26,0],
     [0,30,9,24,31,26,0]] @
    [[10,33,17,22,3,27,0], [20,36,25,20,12,27,0], [30,2,34,18,21,27,0], [3,6,5,17,30,27,0], [13,9,13,15,2,28,0],
     [23,12,21,13,11,28,0], [33,15,29,11,20,28,0], [6,19,0,10,29,28,0], [16,22,8,8,1,29,0], [26,25,16,6,10,29,0],
     [36,28,24,4,19,29,0], [9,32,32,2,28,29,0], [19,35,3,1,0,30,0], [29,1,12,36,8,30,0], [2,5,20,34,17,30,0],
     [12,8,28,32,26,30,0]] @
    [[22,11,36,30,35,30,0], [32,14,7,29,7,31,0], [5,18,15,27,16,31,0], [15,21,23,25,25,31,0], [25,24,31,23,34,31,0],
     [35,27,2,22,6,32,0], [8,31,10,20,15,32,0], [18,34,18,18,24,32,0], [28,0,27,16,33,32,0], [1,4,35,14,5,33,0],
     [11,7,6,13,14,33,0], [21,10,14,11,23,33,0], [31,13,22,9,32,33,0], [4,17,30,7,4,34,0], [14,20,1,6,13,34,0],
     [24,23,9,4,22,34,0]] @
    [[34,26,17,2,31,34,0], [7,30,25,0,3,35,0], [17,33,33,35,11,35,0], [27,36,4,34,20,35,0], [0,3,13,32,29,35,0],
     [10,6,21,30,1,36,0], [20,9,29,28,10,36,0], [30,12,0,27,19,36,0], [3,16,8,25,28,36,0], [13,19,16,23,0,0,1],
     [23,22,24,21,9,0,1], [33,25,32,19,18,0,1], [6,29,3,18,27,0,1], [16,32,11,16,36,0,1], [26,35,19,14,8,1,1],
     [36,1,28,12,17,1,1]] @
    [[9,5,36,10,26,1,1], [19,8,7,9,35,1,1], [29,11,15,7,7,2,1], [2,15,23,5,16,2,1], [12,18,31,3,25,2,1],
     [22,21,2,2,34,2,1], [32,24,10,0,6,3,1], [5,28,18,35,14,3,1], [15,31,26,33,23,3,1], [25,34,34,31,32,3,1],
     [35,0,6,30,4,4,1], [8,4,14,28,13,4,1], [18,7,22,26,22,4,1], [28,10,30,24,31,4,1], [1,14,1,23,3,5,1],
     [11,17,9,21,12,5,1]] @
    [[21,20,17,19,21,5,1], [31,23,25,17,30,5,1], [4,27,33,15,2,6,1], [14,30,4,14,11,6,1], [24,33,12,12,20,6,1],
     [34,36,20,10,29,6,1], [7,3,29,8,1,7,1], [17,6,0,7,10,7,1], [27,9,8,5,19,7,1], [0,13,16,3,28,7,1],
     [10,16,24,1,0,8,1], [20,19,32,36,8,8,1], [30,22,3,35,17,8,1], [3,26,11,33,26,8,1], [13,29,19,31,35,8,1],
     [23,32,27,29,7,9,1]] @
    [[33,35,35,27,16,9,1], [6,2,7,26,25,9,1], [16,5,15,24,34,9,1], [26,8,23,22,6,10,1], [36,11,31,20,15,10,1],
     [9,15,2,19,24,10,1], [19,18,10,17,33,10,1], [29,21,18,15,5,11,1], [2,25,26,13,14,11,1], [12,28,34,11,23,11,1],
     [22,31,5,10,32,11,1], [32,34,13,8,4,12,1], [5,1,22,6,13,12,1], [15,4,30,4,22,12,1], [25,7,1,3,31,12,1],
     [35,10,9,1,3,13,1]] @
    [[8,14,17,36,11,13,1], [18,17,25,34,20,13,1], [28,20,33,32,29,13,1], [1,24,4,31,1,14,1], [11,27,12,29,10,14,1],
     [21,30,20,27,19,14,1], [31,33,28,25,28,14,1], [4,0,0,24,0,15,1], [14,3,8,22,9,15,1], [24,6,16,20,18,15,1],
     [34,9,24,18,27,15,1], [7,13,32,16,36,15,1], [17,16,3,15,8,16,1], [27,19,11,13,17,16,1], [0,23,19,11,26,16,1],
     [10,26,27,9,35,16,1]] @
    [[20,29,35,7,7,17,1], [30,32,6,6,16,17,1], [3,36,14,4,25,17,1], [13,2,23,2,34,17,1], [23,5,31,0,6,18,1],
     [33,8,2,36,14,18,1], [6,12,10,34,23,18,1], [16,15,18,32,32,18,1], [26,18,26,30,4,19,1], [36,21,34,28,13,19,1],
     [9,25,5,27,22,19,1], [19,28,13,25,31,19,1], [29,31,21,23,3,20,1], [2,35,29,21,12,20,1], [12,1,1,20,21,20,1],
     [22,4,9,18,30,20,1]] @
    [[32,7,17,16,2,21,1], [5,11,25,14,11,21,1], [15,14,33,12,20,21,1], [25,17,4,11,29,21,1], [35,20,12,9,1,22,1],
     [8,24,20,7,10,22,1], [18,27,28,5,19,22,1], [28,30,36,3,28,22,1], [1,34,7,2,0,23,1], [11,0,16,0,9,23,1],
     [21,3,24,35,17,23,1], [31,6,32,33,26,23,1], [4,10,3,32,35,23,1], [14,13,11,30,7,24,1], [24,16,19,28,16,24,1],
     [34,19,27,26,25,24,1]]"

definition BASE37_POS4 :: "int list list" where
  "BASE37_POS4 =
    [[0,0,0,0,0,0,0,0], [7,23,35,24,34,24,1,0], [14,9,34,12,32,12,3,0], [21,32,32,0,30,0,5,0],
     [28,18,31,25,27,25,6,0], [35,4,30,13,25,13,8,0], [5,28,28,1,23,1,10,0], [12,14,27,26,20,26,11,0],
     [19,0,26,14,18,14,13,0], [26,23,24,2,16,2,15,0], [33,9,23,27,13,27,16,0], [3,33,21,15,11,15,18,0],
     [10,19,20,3,9,3,20,0], [17,5,19,28,6,28,21,0], [24,28,17,16,4,16,23,0], [31,14,16,4,2,4,25,0]] @
    [[1,1,15,29,36,28,26,0], [8,24,13,17,34,16,28,0], [15,10,12,5,32,4,30,0], [22,33,10,30,29,29,31,0],
     [29,19,9,18,27,17,33,0], [36,5,8,6,25,5,35,0], [6,29,6,31,22,30,36,0], [13,15,5,19,20,18,1,1],
     [20,1,4,7,18,6,3,1], [27,24,2,32,15,31,4,1], [34,10,1,20,13,19,6,1], [4,34,36,7,11,7,8,1],
     [11,20,35,32,8,32,9,1], [18,6,34,20,6,20,11,1], [25,29,32,8,4,8,13,1], [32,15,31,33,1,33,14,1]] @
    [[2,2,30,21,36,20,16,1], [9,25,28,9,34,8,18,1], [16,11,27,34,31,33,19,1], [23,34,25,22,29,21,21,1],
     [30,20,24,10,27,9,23,1], [0,7,23,35,24,34,24,1], [7,30,21,23,22,22,26,1], [14,16,20,11,20,10,28,1],
     [21,2,19,36,17,35,29,1], [28,25,17,24,15,23,31,1], [35,11,16,12,13,11,33,1], [5,35,14,0,11,36,34,1],
     [12,21,13,25,8,24,36,1], [19,7,12,13,6,12,1,2], [26,30,10,1,4,0,3,2], [33,16,9,26,1,25,4,2]] @
    [[3,3,8,14,36,12,6,2], [10,26,6,2,34,0,8,2], [17,12,5,27,31,25,9,2], [24,35,3,15,29,13,11,2],
     [31,21,2,3,27,1,13,2], [1,8,1,28,24,26,14,2], [8,31,36,15,22,14,16,2], [15,17,35,3,20,2,18,2],
     [22,3,34,28,17,27,19,2], [29,26,32,16,15,15,21,2], [36,12,31,4,13,3,23,2], [6,36,29,29,10,28,24,2],
     [13,22,28,17,8,16,26,2], [20,8,27,5,6,4,28,2], [27,31,25,30,3,29,29,2], [34,17,24,18,1,17,31,2]] @
    [[4,4,23,6,36,4,33,2], [11,27,21,31,33,29,34,2], [18,13,20,19,31,17,36,2], [25,36,18,7,29,5,1,3],
     [32,22,17,32,26,30,2,3], [2,9,16,20,24,18,4,3], [9,32,14,8,22,6,6,3], [16,18,13,33,19,31,7,3],
     [23,4,12,21,17,19,9,3], [30,27,10,9,15,7,11,3], [0,14,9,34,12,32,12,3], [7,0,8,22,10,20,14,3],
     [14,23,6,10,8,8,16,3], [21,9,5,35,5,33,17,3], [28,32,3,23,3,21,19,3], [35,18,2,11,1,9,21,3]] @
    [[5,5,1,36,35,33,22,3], [12,28,36,23,33,21,24,3], [19,14,35,11,31,9,26,3], [26,0,34,36,28,34,27,3],
     [33,23,32,24,26,22,29,3], [3,10,31,12,24,10,31,3], [10,33,29,0,22,35,32,3], [17,19,28,25,19,23,34,3],
     [24,5,27,13,17,11,36,3], [31,28,25,1,15,36,0,4], [1,15,24,26,12,24,2,4], [8,1,23,14,10,12,4,4],
     [15,24,21,2,8,0,6,4], [22,10,20,27,5,25,7,4], [29,33,18,15,3,13,9,4], [36,19,17,3,1,1,11,4]] @
    [[6,6,16,28,35,25,12,4], [13,29,14,16,33,13,14,4], [20,15,13,4,31,1,16,4], [27,1,12,29,28,26,17,4],
     [34,24,10,17,26,14,19,4], [4,11,9,5,24,2,21,4], [11,34,7,30,21,27,22,4], [18,20,6,18,19,15,24,4],
     [25,6,5,6,17,3,26,4], [32,29,3,31,14,28,27,4], [2,16,2,19,12,16,29,4], [9,2,1,7,10,4,31,4],
     [16,25,36,31,7,29,32,4], [23,11,35,19,5,17,34,4], [30,34,33,7,3,5,36,4], [0,21,32,32,0,30,0,5]] @
    [[7,7,31,20,35,17,2,5], [14,30,29,8,33,5,4,5], [21,16,28,33,30,30,5,5], [28,2,27,21,28,18,7,5],
     [35,25,25,9,26,6,9,5], [5,12,24,34,23,31,10,5], [12,35,22,22,21,19,12,5], [19,21,21,10,19,7,14,5],
     [26,7,20,35,16,32,15,5], [33,30,18,23,14,20,17,5], [3,17,17,11,12,8,19,5], [10,3,16,36,9,33,20,5],
     [17,26,14,24,7,21,22,5], [24,12,13,12,5,9,24,5], [31,35,11,0,3,34,25,5], [1,22,10,25,0,22,27,5]] @
    [[8,8,9,13,35,9,29,5], [15,31,7,1,33,34,30,5], [22,17,6,26,30,22,32,5], [29,3,5,14,28,10,34,5],
     [36,26,3,2,26,35,35,5], [6,13,2,27,23,23,0,6], [13,36,0,15,21,11,2,6], [20,22,36,2,19,36,3,6],
     [27,8,35,27,16,24,5,6], [34,31,33,15,14,12,7,6], [4,18,32,3,12,0,9,6], [11,4,31,28,9,25,10,6],
     [18,27,29,16,7,13,12,6], [25,13,28,4,5,1,14,6], [32,36,26,29,2,26,15,6], [2,23,25,17,0,14,17,6]] @
    [[9,9,24,5,35,1,19,6], [16,32,22,30,32,26,20,6], [23,18,21,18,30,14,22,6], [30,4,20,6,28,2,24,6],
     [0,28,18,31,25,27,25,6], [7,14,17,19,23,15,27,6], [14,0,16,7,21,3,29,6], [21,23,14,32,18,28,30,6],
     [28,9,13,20,16,16,32,6], [35,32,11,8,14,4,34,6], [5,19,10,33,11,29,35,6], [12,5,9,21,9,17,0,7],
     [19,28,7,9,7,5,2,7], [26,14,6,34,4,30,3,7], [33,0,5,22,2,18,5,7], [3,24,3,10,0,6,7,7]] @
    [[10,10,2,35,34,30,8,7], [17,33,0,23,32,18,10,7], [24,19,36,10,30,6,12,7], [31,5,35,35,27,31,13,7],
     [1,29,33,23,25,19,15,7], [8,15,32,11,23,7,17,7], [15,1,31,36,20,32,18,7], [22,24,29,24,18,20,20,7],
     [29,10,28,12,16,8,22,7], [36,33,26,0,14,33,23,7], [6,20,25,25,11,21,25,7], [13,6,24,13,9,9,27,7],
     [20,29,22,1,7,34,28,7], [27,15,21,26,4,22,30,7], [34,1,20,14,2,10,32,7], [4,25,18,2,0,35,33,7]] @
    [[11,11,17,27,34,22,35,7], [18,34,15,15,32,10,0,8], [25,20,14,3,30,35,1,8], [32,6,13,28,27,23,3,8],
     [2,30,11,16,25,11,5,8], [9,16,10,4,23,36,6,8], [16,2,9,29,20,24,8,8], [23,25,7,17,18,12,10,8],
     [30,11,6,5,16,0,12,8], [0,35,4,30,13,25,13,8], [7,21,3,18,11,13,15,8], [14,7,2,6,9,1,17,8],
     [21,30,0,31,6,26,18,8], [28,16,36,18,4,14,20,8], [35,2,35,6,2,2,22,8], [5,26,33,31,36,26,23,8]] @
    [[12,12,32,19,34,14,25,8], [19,35,30,7,32,2,27,8], [26,21,29,32,29,27,28,8], [33,7,28,20,27,15,30,8],
     [3,31,26,8,25,3,32,8], [10,17,25,33,22,28,33,8], [17,3,24,21,20,16,35,8], [24,26,22,9,18,4,0,9],
     [31,12,21,34,15,29,1,9], [1,36,19,22,13,17,3,9], [8,22,18,10,11,5,5,9], [15,8,17,35,8,30,6,9],
     [22,31,15,23,6,18,8,9], [29,17,14,11,4,6,10,9], [36,3,13,36,1,31,11,9], [6,27,11,24,36,18,13,9]] @
    [[13,13,10,12,34,6,15,9], [20,36,8,0,32,31,16,9], [27,22,7,25,29,19,18,9], [34,8,6,13,27,7,20,9],
     [4,32,4,1,25,32,21,9], [11,18,3,26,22,20,23,9], [18,4,2,14,20,8,25,9], [25,27,0,2,18,33,26,9],
     [32,13,36,26,15,21,28,9], [2,0,35,14,13,9,30,9], [9,23,33,2,11,34,31,9], [16,9,32,27,8,22,33,9],
     [23,32,30,15,6,10,35,9], [30,18,29,3,4,35,36,9], [0,5,28,28,1,23,1,10], [7,28,26,16,36,10,3,10]] @
    [[14,14,25,4,34,35,4,10], [21,0,24,29,31,23,6,10], [28,23,22,17,29,11,8,10], [35,9,21,5,27,36,9,10],
     [5,33,19,30,24,24,11,10], [12,19,18,18,22,12,13,10], [19,5,17,6,20,0,15,10], [26,28,15,31,17,25,16,10],
     [33,14,14,19,15,13,18,10], [3,1,13,7,13,1,20,10], [10,24,11,32,10,26,21,10], [17,10,10,20,8,14,23,10],
     [24,33,8,8,6,2,25,10], [31,19,7,33,3,27,26,10], [1,6,6,21,1,15,28,10], [8,29,4,9,36,2,30,10]] @
    [[15,15,3,34,33,27,31,10], [22,1,2,22,31,15,33,10], [29,24,0,10,29,3,35,10], [36,10,36,34,26,28,36,10],
     [6,34,34,22,24,16,1,11], [13,20,33,10,22,4,3,11], [20,6,32,35,19,29,4,11], [27,29,30,23,17,17,6,11],
     [34,15,29,11,15,5,8,11], [4,2,28,36,12,30,9,11], [11,25,26,24,10,18,11,11], [18,11,25,12,8,6,13,11],
     [25,34,23,0,6,31,14,11], [32,20,22,25,3,19,16,11], [2,7,21,13,1,7,18,11], [9,30,19,1,36,31,19,11]]"

definition BASE37_POS5 :: "int list list" where
  "BASE37_POS5 =
    [[0,0,0,0,0,0,0,0,0,0], [16,16,18,26,33,19,21,11,0,0], [32,32,36,15,30,2,6,23,0,0], [11,12,18,5,27,22,27,34,0,0],
     [27,28,36,31,23,5,12,9,1,0], [6,8,18,21,20,25,33,20,1,0], [22,24,36,10,17,8,18,32,1,0], [1,4,18,0,14,28,2,7,2,0],
     [17,20,36,26,10,11,24,18,2,0], [33,36,17,16,7,31,8,30,2,0], [12,16,36,5,4,14,30,4,3,0],
     [28,32,17,32,0,34,14,16,3,0], [7,12,36,21,34,16,36,27,3,0], [23,28,17,11,31,36,20,2,4,0],
     [2,8,36,0,28,19,5,14,4,0], [18,24,17,27,24,2,27,25,4,0]] @
    [[34,3,36,16,21,22,11,0,5,0], [13,20,17,6,18,5,33,11,5,0], [29,36,35,32,14,25,17,23,5,0],
     [8,16,17,22,11,8,2,35,5,0], [24,32,35,11,8,28,23,9,6,0], [3,12,17,1,5,11,8,21,6,0], [19,28,35,27,1,31,29,32,6,0],
     [35,7,17,17,35,13,14,7,7,0], [14,24,35,6,32,33,35,18,7,0], [30,3,17,33,28,16,20,30,7,0],
     [9,20,35,22,25,36,4,5,8,0], [25,36,16,12,22,19,26,16,8,0], [4,16,35,1,19,2,11,28,8,0],
     [20,32,16,28,15,22,32,2,9,0], [36,11,35,17,12,5,17,14,9,0], [15,28,16,7,9,25,1,26,9,0]] @
    [[31,7,35,33,5,8,23,0,10,0], [10,24,16,23,2,28,7,12,10,0], [26,3,35,12,36,10,29,23,10,0],
     [5,20,16,2,33,30,13,35,10,0], [21,36,34,28,29,13,35,9,11,0], [0,16,16,18,26,33,19,21,11,0],
     [16,32,34,7,23,16,4,33,11,0], [32,11,16,34,19,36,25,7,12,0], [11,28,34,23,16,19,10,19,12,0],
     [27,7,16,13,13,2,32,30,12,0], [6,24,34,2,10,22,16,5,13,0], [22,3,16,29,6,5,1,17,13,0],
     [1,20,34,18,3,25,22,28,13,0], [17,36,15,8,0,8,7,3,14,0], [33,15,34,34,33,27,28,14,14,0],
     [12,32,15,24,30,10,13,26,14,0]] @
    [[28,11,34,13,27,30,34,0,15,0], [7,28,15,3,24,13,19,12,15,0], [23,7,34,29,20,33,3,24,15,0],
     [2,24,15,19,17,16,25,35,15,0], [18,3,34,8,14,36,9,10,16,0], [34,19,15,35,10,19,31,21,16,0],
     [13,36,33,24,7,2,16,33,16,0], [29,15,15,14,4,22,0,8,17,0], [8,32,33,3,1,5,22,19,17,0],
     [24,11,15,30,34,24,6,31,17,0], [3,28,33,19,31,7,28,5,18,0], [19,7,15,9,28,27,12,17,18,0],
     [35,23,33,35,24,10,34,28,18,0], [14,3,15,25,21,30,18,3,19,0], [30,19,33,14,18,13,3,15,19,0],
     [9,36,14,4,15,33,24,26,19,0]] @
    [[25,15,33,30,11,16,9,1,20,0], [4,32,14,20,8,36,30,12,20,0], [20,11,33,9,5,19,15,24,20,0],
     [36,27,14,36,1,2,0,36,20,0], [15,7,33,25,35,21,21,10,21,0], [31,23,14,15,32,4,6,22,21,0],
     [10,3,33,4,29,24,27,33,21,0], [26,19,14,31,25,7,12,8,22,0], [5,36,32,20,22,27,33,19,22,0],
     [21,15,14,10,19,10,18,31,22,0], [0,32,32,36,15,30,2,6,23,0], [16,11,14,26,12,13,24,17,23,0],
     [32,27,32,15,9,33,8,29,23,0], [11,7,14,5,6,16,30,3,24,0], [27,23,32,31,2,36,14,15,24,0],
     [6,3,14,21,36,18,36,26,24,0]] @
    [[22,19,32,10,33,1,21,1,25,0], [1,36,13,0,30,21,5,13,25,0], [17,15,32,26,26,4,27,24,25,0],
     [33,31,13,16,23,24,11,36,25,0], [12,11,32,5,20,7,33,10,26,0], [28,27,13,32,16,27,17,22,26,0],
     [7,7,32,21,13,10,2,34,26,0], [23,23,13,11,10,30,23,8,27,0], [2,3,32,0,7,13,8,20,27,0],
     [18,19,13,27,3,33,29,31,27,0], [34,35,31,16,0,16,14,6,28,0], [13,15,13,6,34,35,35,17,28,0],
     [29,31,31,32,30,18,20,29,28,0], [8,11,13,22,27,1,5,4,29,0], [24,27,31,11,24,21,26,15,29,0],
     [3,7,13,1,21,4,11,27,29,0]] @
    [[19,23,31,27,17,24,32,1,30,0], [35,2,13,17,14,7,17,13,30,0], [14,19,31,6,11,27,1,25,30,0],
     [30,35,12,33,7,10,23,36,30,0], [9,15,31,22,4,30,7,11,31,0], [25,31,12,12,1,13,29,22,31,0],
     [4,11,31,1,35,32,13,34,31,0], [20,27,12,28,31,15,35,8,32,0], [36,6,31,17,28,35,19,20,32,0],
     [15,23,12,7,25,18,4,32,32,0], [31,2,31,33,21,1,26,6,33,0], [10,19,12,23,18,21,10,18,33,0],
     [26,35,30,12,15,4,32,29,33,0], [5,15,12,2,12,24,16,4,34,0], [21,31,30,28,8,7,1,16,34,0],
     [0,11,12,18,5,27,22,27,34,0]] @
    [[16,27,30,7,2,10,7,2,35,0], [32,6,12,34,35,29,28,13,35,0], [11,23,30,23,32,12,13,25,35,0],
     [27,2,12,13,29,32,34,36,35,0], [6,19,30,2,26,15,19,11,36,0], [22,35,11,29,22,35,3,23,36,0],
     [1,15,30,18,19,18,25,34,36,0], [17,31,11,8,16,1,10,9,0,1], [33,10,30,34,12,21,31,20,0,1],
     [12,27,11,24,9,4,16,32,0,1], [28,6,30,13,6,24,0,7,1,1], [7,23,11,3,3,7,22,18,1,1], [23,2,30,29,36,26,6,30,1,1],
     [2,19,11,19,33,9,28,4,2,1], [18,35,29,8,30,29,12,16,2,1], [34,14,11,35,26,12,34,27,2,1]] @
    [[13,31,29,24,23,32,18,2,3,1], [29,10,11,14,20,15,3,14,3,1], [8,27,29,3,17,35,24,25,3,1],
     [24,6,11,30,13,18,9,0,4,1], [3,23,29,19,10,1,31,11,4,1], [19,2,11,9,7,21,15,23,4,1], [35,18,29,35,3,4,0,35,4,1],
     [14,35,10,25,0,24,21,9,5,1], [30,14,29,14,34,6,6,21,5,1], [9,31,10,4,31,26,27,32,5,1],
     [25,10,29,30,27,9,12,7,6,1], [4,27,10,20,24,29,33,18,6,1], [20,6,29,9,21,12,18,30,6,1],
     [36,22,10,36,17,32,2,5,7,1], [15,2,29,25,14,15,24,16,7,1], [31,18,10,15,11,35,8,28,7,1]] @
    [[10,35,28,4,8,18,30,2,8,1], [26,14,10,31,4,1,15,14,8,1], [5,31,28,20,1,21,36,25,8,1],
     [21,10,10,10,35,3,21,0,9,1], [0,27,28,36,31,23,5,12,9,1], [16,6,10,26,28,6,27,23,9,1],
     [32,22,28,15,25,26,11,35,9,1], [11,2,10,5,22,9,33,9,10,1], [27,18,28,31,18,29,17,21,10,1],
     [6,35,9,21,15,12,2,33,10,1], [22,14,28,10,12,32,23,7,11,1], [1,31,9,0,9,15,8,19,11,1],
     [17,10,28,26,5,35,29,30,11,1], [33,26,9,16,2,18,14,5,12,1], [12,6,28,5,36,0,36,16,12,1],
     [28,22,9,32,32,20,20,28,12,1]] @
    [[7,2,28,21,29,3,5,3,13,1], [23,18,9,11,26,23,26,14,13,1], [2,35,27,0,23,6,11,26,13,1],
     [18,14,9,27,19,26,32,0,14,1], [34,30,27,16,16,9,17,12,14,1], [13,10,9,6,13,29,1,24,14,1],
     [29,26,27,32,9,12,23,35,14,1], [8,6,9,22,6,32,7,10,15,1], [24,22,27,11,3,15,29,21,15,1],
     [3,2,9,1,0,35,13,33,15,1], [19,18,27,27,33,17,35,7,16,1], [35,34,8,17,30,0,20,19,16,1],
     [14,14,27,6,27,20,4,31,16,1], [30,30,8,33,23,3,26,5,17,1], [9,10,27,22,20,23,10,17,17,1],
     [25,26,8,12,17,6,32,28,17,1]] @
    [[4,6,27,1,14,26,16,3,18,1], [20,22,8,28,10,9,1,15,18,1], [36,1,27,17,7,29,22,26,18,1], [15,18,8,7,4,12,7,1,19,1],
     [31,34,26,33,0,32,28,12,19,1], [10,14,8,23,34,14,13,24,19,1], [26,30,26,12,31,34,34,35,19,1],
     [5,10,8,2,28,17,19,10,20,1], [21,26,26,28,24,0,4,22,20,1], [0,6,8,18,21,20,25,33,20,1],
     [16,22,26,7,18,3,10,8,21,1], [32,1,8,34,14,23,31,19,21,1], [11,18,26,23,11,6,16,31,21,1],
     [27,34,7,13,8,26,0,6,22,1], [6,14,26,2,5,9,22,17,22,1], [22,30,7,29,1,29,6,29,22,1]] @
    [[1,10,26,18,35,11,28,3,23,1], [17,26,7,8,32,31,12,15,23,1], [33,5,26,34,28,14,34,26,23,1],
     [12,22,7,24,25,34,18,1,24,1], [28,1,26,13,22,17,3,13,24,1], [7,18,7,3,19,0,25,24,24,1],
     [23,34,25,29,15,20,9,36,24,1], [2,14,7,19,12,3,31,10,25,1], [18,30,25,8,9,23,15,22,25,1],
     [34,9,7,35,5,6,0,34,25,1], [13,26,25,24,2,26,21,8,26,1], [29,5,7,14,36,8,6,20,26,1],
     [8,22,25,3,33,28,27,31,26,1], [24,1,7,30,29,11,12,6,27,1], [3,18,25,19,26,31,33,17,27,1],
     [19,34,6,9,23,14,18,29,27,1]] @
    [[35,13,25,35,19,34,2,4,28,1], [14,30,6,25,16,17,24,15,28,1], [30,9,25,14,13,0,9,27,28,1],
     [9,26,6,4,10,20,30,1,29,1], [25,5,25,30,6,3,15,13,29,1], [4,22,6,20,3,23,36,24,29,1], [20,1,25,9,0,6,21,36,29,1],
     [36,17,6,36,33,25,5,11,30,1], [15,34,24,25,30,8,27,22,30,1], [31,13,6,15,27,28,11,34,30,1],
     [10,30,24,4,24,11,33,8,31,1], [26,9,6,31,20,31,17,20,31,1], [5,26,24,20,17,14,2,32,31,1],
     [21,5,6,10,14,34,23,6,32,1], [0,22,24,36,10,17,8,18,32,1], [16,1,6,26,7,0,30,29,32,1]] @
    [[32,17,24,15,4,20,14,4,33,1], [11,34,5,5,1,3,36,15,33,1], [27,13,24,31,34,22,20,27,33,1],
     [6,30,5,21,31,5,5,2,34,1], [22,9,24,10,28,25,26,13,34,1], [1,26,5,0,25,8,11,25,34,1],
     [17,5,24,26,21,28,32,36,34,1], [33,21,5,16,18,11,17,11,35,1], [12,1,24,5,15,31,1,23,35,1],
     [28,17,5,32,11,14,23,34,35,1], [7,34,23,21,8,34,7,9,36,1], [23,13,5,11,5,17,29,20,36,1],
     [2,30,23,0,2,0,14,32,36,1], [18,9,5,27,35,19,35,6,0,2], [34,25,23,16,32,2,20,18,0,2], [13,5,5,6,29,22,4,30,0,2]] @
    [[29,21,23,32,25,5,26,4,1,2], [8,1,5,22,22,25,10,16,1,2], [24,17,23,11,19,8,32,27,1,2], [3,34,4,1,16,28,16,2,2,2],
     [19,13,23,27,12,11,1,14,2,2], [35,29,4,17,9,31,22,25,2,2], [14,9,23,6,6,14,7,0,3,2], [30,25,4,33,2,34,28,11,3,2],
     [9,5,23,22,36,16,13,23,3,2], [25,21,4,12,33,36,34,34,3,2], [4,1,23,1,30,19,19,9,4,2], [20,17,4,28,26,2,4,21,4,2],
     [36,33,22,17,23,22,25,32,4,2], [15,13,4,7,20,5,10,7,5,2], [31,29,22,33,16,25,31,18,5,2],
     [10,9,4,23,13,8,16,30,5,2]]"

definition BASE37_POS6 :: "int list list" where
  "BASE37_POS6 =
    [[0,0,0,0,0,0,0,0,0,0,0], [26,25,22,12,10,28,0,5,6,2,0], [15,14,8,25,20,19,1,10,12,4,0],
     [4,3,31,0,31,10,2,15,18,6,0], [30,28,16,13,4,2,3,20,24,8,0], [19,17,2,26,14,30,3,25,30,10,0],
     [8,6,25,1,25,21,4,30,36,12,0], [34,31,10,14,35,12,5,35,5,15,0], [23,20,33,26,8,4,6,3,12,17,0],
     [12,9,19,2,19,32,6,8,18,19,0], [1,35,4,15,29,23,7,13,24,21,0], [27,23,27,27,2,15,8,18,30,23,0],
     [16,12,13,3,13,6,9,23,36,25,0], [5,1,36,15,23,34,9,28,5,28,0], [31,26,21,28,33,25,10,33,11,30,0],
     [20,15,7,4,7,17,11,1,18,32,0]] @
    [[9,4,30,16,17,8,12,6,24,34,0], [35,29,15,29,27,36,12,11,30,36,0], [24,18,1,5,1,28,13,16,36,1,1],
     [13,7,24,17,11,19,14,21,5,4,1], [2,33,9,30,21,10,15,26,11,6,1], [28,21,32,5,32,1,16,31,17,8,1],
     [17,10,18,18,5,30,16,36,23,10,1], [6,36,3,31,15,21,17,4,30,12,1], [32,24,26,6,26,12,18,9,36,14,1],
     [21,13,12,19,36,3,19,14,5,17,1], [10,2,35,31,9,32,19,19,11,19,1], [36,27,20,7,20,23,20,24,17,21,1],
     [25,16,6,20,30,14,21,29,23,23,1], [14,5,29,32,3,6,22,34,29,25,1], [3,31,14,8,14,34,22,2,36,27,1],
     [29,19,0,21,24,25,23,7,5,30,1]] @
    [[18,8,23,33,34,16,24,12,11,32,1], [7,34,8,9,8,8,25,17,17,34,1], [33,22,31,21,18,36,25,22,23,36,1],
     [22,11,17,34,28,27,26,27,29,1,2], [11,0,3,10,2,19,27,32,35,3,2], [0,26,25,22,12,10,28,0,5,6,2],
     [26,14,11,35,22,1,29,5,11,8,2], [15,3,34,10,33,29,29,10,17,10,2], [4,29,19,23,6,21,30,15,23,12,2],
     [30,17,5,36,16,12,31,20,29,14,2], [19,6,28,11,27,3,32,25,35,16,2], [8,32,13,24,0,32,32,30,4,19,2],
     [34,20,36,36,10,23,33,35,10,21,2], [23,9,22,12,21,14,34,3,17,23,2], [12,35,7,25,31,5,35,8,23,25,2],
     [1,24,30,0,5,34,35,13,29,27,2]] @
    [[27,12,16,13,15,25,36,18,35,29,2], [16,1,2,26,25,16,0,24,4,32,2], [5,27,24,1,36,7,1,29,10,34,2],
     [31,15,10,14,9,36,1,34,16,36,2], [20,4,33,26,19,27,2,2,23,1,3], [9,30,18,2,30,18,3,7,29,3,3],
     [35,18,4,15,3,10,4,12,35,5,3], [24,7,27,27,13,1,5,17,4,8,3], [13,33,12,3,24,29,5,22,10,10,3],
     [2,22,35,15,34,20,6,27,16,12,3], [28,10,21,28,7,12,7,32,22,14,3], [17,36,6,4,18,3,8,0,29,16,3],
     [6,25,29,16,28,31,8,5,35,18,3], [32,13,15,29,1,23,9,10,4,21,3], [21,2,1,5,12,14,10,15,10,23,3],
     [10,28,23,17,22,5,11,20,16,25,3]] @
    [[36,16,9,30,32,33,11,25,22,27,3], [25,5,32,5,6,25,12,30,28,29,3], [14,31,17,18,16,16,13,35,34,31,3],
     [3,20,3,31,26,7,14,3,4,34,3], [29,8,26,6,0,36,14,8,10,36,3], [18,34,11,19,10,27,15,13,16,1,4],
     [7,23,34,31,20,18,16,18,22,3,4], [33,11,20,7,31,9,17,23,28,5,4], [22,0,6,20,4,1,18,28,34,7,4],
     [11,26,28,32,14,29,18,33,3,10,4], [0,15,14,8,25,20,19,1,10,12,4], [26,3,0,21,35,11,20,6,16,14,4],
     [15,29,22,33,8,3,21,11,22,16,4], [4,18,8,9,19,31,21,16,28,18,4], [30,6,31,21,29,22,22,21,34,20,4],
     [19,32,16,34,2,14,23,26,3,23,4]] @
    [[8,21,2,10,13,5,24,31,9,25,4], [34,9,25,22,23,33,24,36,15,27,4], [23,35,10,35,33,24,25,4,22,29,4],
     [12,24,33,10,7,16,26,9,28,31,4], [1,13,19,23,17,7,27,14,34,33,4], [27,1,5,36,27,35,27,19,3,36,4],
     [16,27,27,11,1,27,28,24,9,1,5], [5,16,13,24,11,18,29,29,15,3,5], [31,4,36,36,21,9,30,34,21,5,5],
     [20,30,21,12,32,0,31,2,28,7,5], [9,19,7,25,5,29,31,7,34,9,5], [35,7,30,0,16,20,32,12,3,12,5],
     [24,33,15,13,26,11,33,17,9,14,5], [13,22,1,26,36,2,34,22,15,16,5], [2,11,24,1,10,31,34,27,21,18,5],
     [28,36,9,14,20,22,35,32,27,20,5]] @
    [[17,25,32,26,30,13,36,0,34,22,5], [6,14,18,2,4,5,0,6,3,25,5], [32,2,4,15,14,33,0,11,9,27,5],
     [21,28,26,27,24,24,1,16,15,29,5], [10,17,12,3,35,15,2,21,21,31,5], [36,5,35,15,8,7,3,26,27,33,5],
     [25,31,20,28,18,35,3,31,33,35,5], [14,20,6,4,29,26,4,36,2,1,6], [3,9,29,16,2,18,5,4,9,3,6],
     [29,34,14,29,12,9,6,9,15,5,6], [18,23,0,5,23,0,7,14,21,7,6], [7,12,23,17,33,28,7,19,27,9,6],
     [33,0,9,30,6,20,8,24,33,11,6], [22,26,31,5,17,11,9,29,2,14,6], [11,15,17,18,27,2,10,34,8,16,6],
     [0,4,3,31,0,31,10,2,15,18,6]] @
    [[26,29,25,6,11,22,11,7,21,20,6], [15,18,11,19,21,13,12,12,27,22,6], [4,7,34,31,31,4,13,17,33,24,6],
     [30,32,19,7,5,33,13,22,2,27,6], [19,21,5,20,15,24,14,27,8,29,6], [8,10,28,32,25,15,15,32,14,31,6],
     [34,35,13,8,36,6,16,0,21,33,6], [23,24,36,20,9,35,16,5,27,35,6], [12,13,22,33,19,26,17,10,33,0,7],
     [1,2,8,9,30,17,18,15,2,3,7], [27,27,30,21,3,9,19,20,8,5,7], [16,16,16,34,13,0,20,25,14,7,7],
     [5,5,2,10,24,28,20,30,20,9,7], [31,30,24,22,34,19,21,35,26,11,7], [20,19,10,35,7,11,22,3,33,13,7],
     [9,8,33,10,18,2,23,8,2,16,7]] @
    [[35,33,18,23,28,30,23,13,8,18,7], [24,22,4,36,1,22,24,18,14,20,7], [13,11,27,11,12,13,25,23,20,22,7],
     [2,0,13,24,22,4,26,28,26,24,7], [28,25,35,36,32,32,26,33,32,26,7], [17,14,21,12,6,24,27,1,2,29,7],
     [6,3,7,25,16,15,28,6,8,31,7], [32,28,29,0,27,6,29,11,14,33,7], [21,17,15,13,0,35,29,16,20,35,7],
     [10,6,1,26,10,26,30,21,26,0,8], [36,31,23,1,21,17,31,26,32,2,8], [25,20,9,14,31,8,32,31,1,5,8],
     [14,9,32,26,4,0,33,36,7,7,8], [3,35,17,2,15,28,33,4,14,9,8], [29,23,3,15,25,19,34,9,20,11,8],
     [18,12,26,27,35,10,35,14,26,13,8]] @
    [[7,1,12,3,9,2,36,19,32,15,8], [33,26,34,15,19,30,36,24,1,18,8], [22,15,20,28,29,21,0,30,7,20,8],
     [11,4,6,4,3,13,1,35,13,22,8], [0,30,28,16,13,4,2,3,20,24,8], [26,18,14,29,23,32,2,8,26,26,8],
     [15,7,0,5,34,23,3,13,32,28,8], [4,33,22,17,7,15,4,18,1,31,8], [30,21,8,30,17,6,5,23,7,33,8],
     [19,10,31,5,28,34,5,28,13,35,8], [8,36,16,18,1,26,6,33,19,0,9], [34,24,2,31,11,17,7,1,26,2,9],
     [23,13,25,6,22,8,8,6,32,4,9], [12,2,11,19,32,36,8,11,1,7,9], [1,28,33,31,5,28,9,16,7,9,9],
     [27,16,19,7,16,19,10,21,13,11,9]] @
    [[16,5,5,20,26,10,11,26,19,13,9], [5,31,27,32,36,1,12,31,25,15,9], [31,19,13,8,10,30,12,36,31,17,9],
     [20,8,36,20,20,21,13,4,1,20,9], [9,34,21,33,30,12,14,9,7,22,9], [35,22,7,9,4,4,15,14,13,24,9],
     [24,11,30,21,14,32,15,19,19,26,9], [13,0,16,34,24,23,16,24,25,28,9], [2,26,1,10,35,14,17,29,31,30,9],
     [28,14,24,22,8,6,18,34,0,33,9], [17,3,10,35,18,34,18,2,7,35,9], [6,29,32,10,29,25,19,7,13,0,10],
     [32,17,18,23,2,17,20,12,19,2,10], [21,6,4,36,12,8,21,17,25,4,10], [10,32,26,11,23,36,21,22,31,6,10],
     [36,20,12,24,33,27,22,27,0,9,10]] @
    [[25,9,35,36,6,19,23,32,6,11,10], [14,35,20,12,17,10,24,0,13,13,10], [3,24,6,25,27,1,25,5,19,15,10],
     [29,12,29,0,1,30,25,10,25,17,10], [18,1,15,13,11,21,26,15,31,19,10], [7,27,0,26,21,12,27,20,0,22,10],
     [33,15,23,1,32,3,28,25,6,24,10], [22,4,9,14,5,32,28,30,12,26,10], [11,30,31,26,15,23,29,35,18,28,10],
     [0,19,17,2,26,14,30,3,25,30,10], [26,7,3,15,36,5,31,8,31,32,10], [15,33,25,27,9,34,31,13,0,35,10],
     [4,22,11,3,20,25,32,18,6,0,11], [30,10,34,15,30,16,33,23,12,2,11], [19,36,19,28,3,8,34,28,18,4,11],
     [8,25,5,4,14,36,34,33,24,6,11]] @
    [[34,13,28,16,24,27,35,1,31,8,11], [23,2,14,29,34,18,36,6,0,11,11], [12,28,36,4,8,10,0,12,6,13,11],
     [1,17,22,17,18,1,1,17,12,15,11], [27,5,8,30,28,29,1,22,18,17,11], [16,31,30,5,2,21,2,27,24,19,11],
     [5,20,16,18,12,12,3,32,30,21,11], [31,8,2,31,22,3,4,0,0,24,11], [20,34,24,6,33,31,4,5,6,26,11],
     [9,23,10,19,6,23,5,10,12,28,11], [35,11,33,31,16,14,6,15,18,30,11], [24,0,19,7,27,5,7,20,24,32,11],
     [13,26,4,20,0,34,7,25,30,34,11], [2,15,27,32,10,25,8,30,36,36,11], [28,3,13,8,21,16,9,35,5,2,12],
     [17,29,35,20,31,7,10,3,12,4,12]] @
    [[6,18,21,33,4,36,10,8,18,6,12], [32,6,7,9,15,27,11,13,24,8,12], [21,32,29,21,25,18,12,18,30,10,12],
     [10,21,15,34,35,9,13,23,36,12,12], [36,9,1,10,9,1,14,28,5,15,12], [25,35,23,22,19,29,14,33,11,17,12],
     [14,24,9,35,29,20,15,1,18,19,12], [3,13,32,10,3,12,16,6,24,21,12], [29,1,18,23,13,3,17,11,30,23,12],
     [18,27,3,36,23,31,17,16,36,25,12], [7,16,26,11,34,22,18,21,5,28,12], [33,4,12,24,7,14,19,26,11,30,12],
     [22,30,34,36,17,5,20,31,17,32,12], [11,19,20,12,28,33,20,36,23,34,12], [0,8,6,25,1,25,21,4,30,36,12],
     [26,33,28,0,12,16,22,9,36,1,13]] @
    [[15,22,14,13,22,7,23,14,5,4,13], [4,11,0,26,32,35,23,19,11,6,13], [30,36,22,1,6,27,24,24,17,8,13],
     [19,25,8,14,16,18,25,29,23,10,13], [8,14,31,26,26,9,26,34,29,12,13], [34,2,17,2,0,1,27,2,36,14,13],
     [23,28,2,15,10,29,27,7,5,17,13], [12,17,25,27,20,20,28,12,11,19,13], [1,6,11,3,31,11,29,17,17,21,13],
     [27,31,33,15,4,3,30,22,23,23,13], [16,20,19,28,14,31,30,27,29,25,13], [5,9,5,4,25,22,31,32,35,27,13],
     [31,34,27,16,35,13,32,0,5,30,13], [20,23,13,29,8,5,33,5,11,32,13], [9,12,36,4,19,33,33,10,17,34,13],
     [35,0,22,17,29,24,34,15,23,36,13]] @
    [[24,26,7,30,2,16,35,20,29,1,14], [13,15,30,5,13,7,36,25,35,3,14], [2,4,16,18,23,35,36,30,4,6,14],
     [28,29,1,31,33,26,0,36,10,8,14], [17,18,24,6,7,18,1,4,17,10,14], [6,7,10,19,17,9,2,9,23,12,14],
     [32,32,32,31,27,0,3,14,29,14,14], [21,21,18,7,1,29,3,19,35,16,14], [10,10,4,20,11,20,4,24,4,19,14],
     [36,35,26,32,21,11,5,29,10,21,14], [25,24,12,8,32,2,6,34,16,23,14], [14,13,35,20,5,31,6,2,23,25,14],
     [3,2,21,33,15,22,7,7,29,27,14], [29,27,6,9,26,13,8,12,35,29,14], [18,16,29,21,36,4,9,17,4,32,14],
     [7,5,15,34,9,33,9,22,10,34,14]]"

definition BASE37_POS7 :: "int list list" where
  "BASE37_POS7 =
    [[0,0,0,0,0,0,0,0,0,0,0,0,0], [33,30,0,10,20,24,10,27,16,36,14,0,0], [29,24,1,20,3,12,21,17,33,35,29,0,0],
     [25,18,2,30,23,36,31,7,13,35,7,1,0], [21,12,3,3,7,24,5,35,29,34,22,1,0], [17,6,4,13,27,11,16,25,9,34,0,2,0],
     [13,0,5,23,10,36,26,15,26,33,15,2,0], [9,31,5,33,30,23,0,6,6,33,30,2,0], [5,25,6,6,14,11,11,33,22,32,8,3,0],
     [1,19,7,16,34,35,21,23,2,32,23,3,0], [34,12,8,26,17,23,32,13,19,31,1,4,0], [30,6,9,36,0,11,6,4,36,30,16,4,0],
     [26,0,10,9,21,35,16,31,15,30,31,4,0], [22,31,10,19,4,23,27,21,32,29,9,5,0],
     [18,25,11,29,24,10,1,12,12,29,24,5,0], [14,19,12,2,8,35,11,2,29,28,2,6,0]] @
    [[10,13,13,12,28,22,22,29,8,28,17,6,0], [6,7,14,22,11,10,33,19,25,27,32,6,0], [2,1,15,32,31,34,6,10,5,27,10,7,0],
     [35,31,15,5,15,22,17,0,22,26,25,7,0], [31,25,16,15,35,9,28,27,1,26,3,8,0], [27,19,17,25,18,34,1,18,18,25,18,8,0],
     [23,13,18,35,1,22,12,8,35,24,33,8,0], [19,7,19,8,22,9,23,35,14,24,11,9,0], [15,1,20,18,5,34,33,25,31,23,26,9,0],
     [11,32,20,28,25,21,7,16,11,23,4,10,0], [7,26,21,1,9,9,18,6,28,22,19,10,0], [3,20,22,11,29,33,28,33,7,22,34,10,0],
     [36,13,23,21,12,21,2,24,24,21,12,11,0], [32,7,24,31,32,8,13,14,4,21,27,11,0],
     [28,1,25,4,16,33,23,4,21,20,5,12,0], [24,32,25,14,36,20,34,31,0,20,20,12,0]] @
    [[20,26,26,24,19,8,8,22,17,19,35,12,0], [16,20,27,34,2,33,18,12,34,18,13,13,0],
     [12,14,28,7,23,20,29,2,14,18,28,13,0], [8,8,29,17,6,8,3,30,30,17,6,14,0], [4,2,30,27,26,32,13,20,10,17,21,14,0],
     [0,33,30,0,10,20,24,10,27,16,36,14,0], [33,26,31,10,30,7,35,0,7,16,14,15,0],
     [29,20,32,20,13,32,8,28,23,15,29,15,0], [25,14,33,30,33,19,19,18,3,15,7,16,0],
     [21,8,34,3,17,7,30,8,20,14,22,16,0], [17,2,35,13,0,32,3,36,36,13,0,17,0],
     [13,33,35,23,20,19,14,26,16,13,15,17,0], [9,27,36,33,3,7,25,16,33,12,30,17,0],
     [5,21,0,7,24,31,35,6,13,12,8,18,0], [1,15,1,17,7,19,9,34,29,11,23,18,0], [34,8,2,27,27,6,20,24,9,11,1,19,0]] @
    [[30,2,3,0,11,31,30,14,26,10,16,19,0], [26,33,3,10,31,18,4,5,6,10,31,19,0], [22,27,4,20,14,6,15,32,22,9,9,20,0],
     [18,21,5,30,34,30,25,22,2,9,24,20,0], [14,15,6,3,18,18,36,12,19,8,2,21,0], [10,9,7,13,1,6,10,3,36,7,17,21,0],
     [6,3,8,23,21,30,20,30,15,7,32,21,0], [2,34,8,33,4,18,31,20,32,6,10,22,0], [35,27,9,6,25,5,5,11,12,6,25,22,0],
     [31,21,10,16,8,30,15,1,29,5,3,23,0], [27,15,11,26,28,17,26,28,8,5,18,23,0], [23,9,12,36,11,5,0,19,25,4,33,23,0],
     [19,3,13,9,32,29,10,9,5,4,11,24,0], [15,34,13,19,15,17,21,36,21,3,26,24,0], [11,28,14,29,35,4,32,26,1,3,4,25,0],
     [7,22,15,2,19,29,5,17,18,2,19,25,0]] @
    [[3,16,16,12,2,17,16,7,35,1,34,25,0], [36,9,17,22,22,4,27,34,14,1,12,26,0], [32,3,18,32,5,29,0,25,31,0,27,26,0],
     [28,34,18,5,26,16,11,15,11,0,5,27,0], [24,28,19,15,9,4,22,5,28,36,19,27,0],
     [20,22,20,25,29,28,32,32,7,36,34,27,0], [16,16,21,35,12,16,6,23,24,35,12,28,0],
     [12,10,22,8,33,3,17,13,4,35,27,28,0], [8,4,23,18,16,28,27,3,21,34,5,29,0], [4,35,23,28,36,15,1,31,0,34,20,29,0],
     [0,29,24,1,20,3,12,21,17,33,35,29,0], [33,22,25,11,3,28,22,11,34,32,13,30,0],
     [29,16,26,21,23,15,33,1,14,32,28,30,0], [25,10,27,31,6,3,7,29,30,31,6,31,0],
     [21,4,28,4,27,27,17,19,10,31,21,31,0], [17,35,28,14,10,15,28,9,27,30,36,31,0]] @
    [[13,29,29,24,30,2,2,0,7,30,14,32,0], [9,23,30,34,13,27,12,27,23,29,29,32,0], [5,17,31,7,34,14,23,17,3,29,7,33,0],
     [1,11,32,17,17,2,34,7,20,28,22,33,0], [34,4,33,27,0,27,7,35,36,27,0,34,0],
     [30,35,33,0,21,14,18,25,16,27,15,34,0], [26,29,34,10,4,2,29,15,33,26,30,34,0],
     [22,23,35,20,24,26,2,6,13,26,8,35,0], [18,17,36,30,7,14,13,33,29,25,23,35,0], [14,11,0,4,28,1,24,23,9,25,1,36,0],
     [10,5,1,14,11,26,34,13,26,24,16,36,0], [6,36,1,24,31,13,8,4,6,24,31,36,0], [2,30,2,34,14,1,19,31,22,23,9,0,1],
     [35,23,3,7,35,25,29,21,2,23,24,0,1], [31,17,4,17,18,13,3,12,19,22,2,1,1], [27,11,5,27,1,1,14,2,36,21,17,1,1]] @
    [[23,5,6,0,22,25,24,29,15,21,32,1,1], [19,36,6,10,5,13,35,19,32,20,10,2,1], [15,30,7,20,25,0,9,10,12,20,25,2,1],
     [11,24,8,30,8,25,19,0,29,19,3,3,1], [7,18,9,3,29,12,30,27,8,19,18,3,1], [3,12,10,13,12,0,4,18,25,18,33,3,1],
     [36,5,11,23,32,24,14,8,5,18,11,4,1], [32,36,11,33,15,12,25,35,21,17,26,4,1], [28,30,12,6,36,36,35,25,1,17,4,5,1],
     [24,24,13,16,19,24,9,16,18,16,19,5,1], [20,18,14,26,2,12,20,6,35,15,34,5,1],
     [16,12,15,36,22,36,30,33,14,15,12,6,1], [12,6,16,9,6,24,4,24,31,14,27,6,1], [8,0,17,19,26,11,15,14,11,14,5,7,1],
     [4,31,17,29,9,36,25,4,28,13,20,7,1], [0,25,18,2,30,23,36,31,7,13,35,7,1]] @
    [[33,18,19,12,13,11,10,22,24,12,13,8,1], [29,12,20,22,33,35,20,12,4,12,28,8,1],
     [25,6,21,32,16,23,31,2,21,11,6,9,1], [21,0,22,5,0,11,5,30,0,11,21,9,1], [17,31,22,15,20,35,15,20,17,10,36,9,1],
     [13,25,23,25,3,23,26,10,34,9,14,10,1], [9,19,24,35,23,10,0,1,14,9,29,10,1], [5,13,25,8,7,35,10,28,30,8,7,11,1],
     [1,7,26,18,27,22,21,18,10,8,22,11,1], [34,0,27,28,10,10,32,8,27,7,0,12,1], [30,31,27,1,31,34,5,36,6,7,15,12,1],
     [26,25,28,11,14,22,16,26,23,6,30,12,1], [22,19,29,21,34,9,27,16,3,6,8,13,1],
     [18,13,30,31,17,34,0,7,20,5,23,13,1], [14,7,31,4,1,22,11,34,36,4,1,14,1], [10,1,32,14,21,9,22,24,16,4,16,14,1]] @
    [[6,32,32,24,4,34,32,14,33,3,31,14,1], [2,26,33,34,24,21,6,5,13,3,9,15,1], [35,19,34,7,8,9,17,32,29,2,24,15,1],
     [31,13,35,17,28,33,27,22,9,2,2,16,1], [27,7,36,27,11,21,1,13,26,1,17,16,1], [23,1,0,1,32,8,12,3,6,1,32,16,1],
     [19,32,0,11,15,33,22,30,22,0,10,17,1], [15,26,1,21,35,20,33,20,2,0,25,17,1], [11,20,2,31,18,8,7,11,19,36,2,18,1],
     [7,14,3,4,2,33,17,1,36,35,17,18,1], [3,8,4,14,22,20,28,28,15,35,32,18,1], [36,1,5,24,5,8,2,19,32,34,10,19,1],
     [32,32,5,34,25,32,12,9,12,34,25,19,1], [28,26,6,7,9,20,23,36,28,33,3,20,1], [24,20,7,17,29,7,34,26,8,33,18,20,1],
     [20,14,8,27,12,32,7,17,25,32,33,20,1]] @
    [[16,8,9,0,33,19,18,7,5,32,11,21,1], [12,2,10,10,16,7,29,34,21,31,26,21,1], [8,33,10,20,36,31,2,25,1,31,4,22,1],
     [4,27,11,30,19,19,13,15,18,30,19,22,1], [0,21,12,3,3,7,24,5,35,29,34,22,1],
     [33,14,13,13,23,31,34,32,14,29,12,23,1], [29,8,14,23,6,19,8,23,31,28,27,23,1],
     [25,2,15,33,26,6,19,13,11,28,5,24,1], [21,33,15,6,10,31,29,3,28,27,20,24,1],
     [17,27,16,16,30,18,3,31,7,27,35,24,1], [13,21,17,26,13,6,14,21,24,26,13,25,1],
     [9,15,18,36,33,30,24,11,4,26,28,25,1], [5,9,19,9,17,18,35,1,21,25,6,26,1], [1,3,20,19,0,6,9,29,0,25,21,26,1],
     [34,33,20,29,20,30,19,19,17,24,36,26,1], [30,27,21,2,4,18,30,9,34,23,14,27,1]] @
    [[26,21,22,12,24,5,4,0,14,23,29,27,1], [22,15,23,22,7,30,14,27,30,22,7,28,1],
     [18,9,24,32,27,17,25,17,10,22,22,28,1], [14,3,25,5,11,5,36,7,27,21,0,29,1],
     [10,34,25,15,31,29,9,35,6,21,15,29,1], [6,28,26,25,14,17,20,25,23,20,30,29,1],
     [2,22,27,35,34,4,31,15,3,20,8,30,1], [35,15,28,8,18,29,4,6,20,19,23,30,1], [31,9,29,18,1,17,15,33,36,18,1,31,1],
     [27,3,30,28,21,4,26,23,16,18,16,31,1], [23,34,30,1,5,29,36,13,33,17,31,31,1],
     [19,28,31,11,25,16,10,4,13,17,9,32,1], [15,22,32,21,8,4,21,31,29,16,24,32,1],
     [11,16,33,31,28,28,31,21,9,16,2,33,1], [7,10,34,4,12,16,5,12,26,15,17,33,1], [3,4,35,14,32,3,16,2,6,15,32,33,1]] @
    [[36,34,35,24,15,28,26,29,22,14,10,34,1], [32,28,36,34,35,15,0,20,2,14,25,34,1],
     [28,22,0,8,19,3,11,10,19,13,3,35,1], [24,16,1,18,2,28,21,0,36,12,18,35,1],
     [20,10,2,28,22,15,32,27,15,12,33,35,1], [16,4,3,1,6,3,6,18,32,11,11,36,1], [12,35,3,11,26,27,16,8,12,11,26,36,1],
     [8,29,4,21,9,15,27,35,28,10,4,0,2], [4,23,5,31,29,2,1,26,8,10,19,0,2], [0,17,6,4,13,27,11,16,25,9,34,0,2],
     [33,10,7,14,33,14,22,6,5,9,12,1,2], [29,4,8,24,16,2,33,33,21,8,27,1,2], [25,35,8,34,36,26,6,24,1,8,5,2,2],
     [21,29,9,7,20,14,17,14,18,7,20,2,2], [17,23,10,17,3,2,28,4,35,6,35,2,2], [13,17,11,27,23,26,1,32,14,6,13,3,2]] @
    [[9,11,12,0,7,14,12,22,31,5,28,3,2], [5,5,13,10,27,1,23,12,11,5,6,4,2], [1,36,13,20,10,26,33,2,28,4,21,4,2],
     [34,29,14,30,30,13,7,30,7,4,36,4,2], [30,23,15,3,14,1,18,20,24,3,14,5,2], [26,17,16,13,34,25,28,10,4,3,29,5,2],
     [22,11,17,23,17,13,2,1,21,2,7,6,2], [18,5,18,33,0,1,13,28,0,2,22,6,2], [14,36,18,6,21,25,23,18,17,1,0,7,2],
     [10,30,19,16,4,13,34,8,34,0,15,7,2], [6,24,20,26,24,0,8,36,13,0,30,7,2], [2,18,21,36,7,25,18,26,30,36,7,8,2],
     [35,11,22,9,28,12,29,16,10,36,22,8,2], [31,5,23,19,11,0,3,7,27,35,0,9,2], [27,36,23,29,31,24,13,34,6,35,15,9,2],
     [23,30,24,2,15,12,24,24,23,34,30,9,2]] @
    [[19,24,25,12,35,36,34,14,3,34,8,10,2], [15,18,26,22,18,24,8,5,20,33,23,10,2],
     [11,12,27,32,1,12,19,32,36,32,1,11,2], [7,6,28,5,22,36,29,22,16,32,16,11,2], [3,0,29,15,5,24,3,13,33,31,31,11,2],
     [36,30,29,25,25,11,14,3,13,31,9,12,2], [32,24,30,35,8,36,24,30,29,30,24,12,2],
     [28,18,31,8,29,23,35,20,9,30,2,13,2], [24,12,32,18,12,11,9,11,26,29,17,13,2],
     [20,6,33,28,32,35,19,1,6,29,32,13,2], [16,0,34,1,16,23,30,28,22,28,10,14,2],
     [12,31,34,11,36,10,4,19,2,28,25,14,2], [8,25,35,21,19,35,14,9,19,27,3,15,2],
     [4,19,36,31,2,23,25,36,35,26,18,15,2], [0,13,0,5,23,10,36,26,15,26,33,15,2], [33,6,1,15,6,35,9,17,32,25,11,16,2]] @
    [[29,0,2,25,26,22,20,7,12,25,26,16,2], [25,31,2,35,9,10,31,34,28,24,4,17,2], [21,25,3,8,30,34,4,25,8,24,19,17,2],
     [17,19,4,18,13,22,15,15,25,23,34,17,2], [13,13,5,28,33,9,26,5,5,23,12,18,2], [9,7,6,1,17,34,36,32,21,22,27,18,2],
     [5,1,7,11,0,22,10,23,1,22,5,19,2], [1,32,7,21,20,9,21,13,18,21,20,19,2], [34,25,8,31,3,34,31,3,35,20,35,19,2],
     [30,19,9,4,24,21,5,31,14,20,13,20,2], [26,13,10,14,7,9,16,21,31,19,28,20,2],
     [22,7,11,24,27,33,26,11,11,19,6,21,2], [18,1,12,34,10,21,0,2,28,18,21,21,2],
     [14,32,12,7,31,8,11,29,7,18,36,21,2], [10,26,13,17,14,33,21,19,24,17,14,22,2],
     [6,20,14,27,34,20,32,9,4,17,29,22,2]] @
    [[2,14,15,0,18,8,6,0,21,16,7,23,2], [35,7,16,10,1,33,16,27,0,16,22,23,2], [31,1,17,20,21,20,27,17,17,15,0,24,2],
     [27,32,17,30,4,8,1,8,34,14,15,24,2], [23,26,18,3,25,32,11,35,13,14,30,24,2],
     [19,20,19,13,8,20,22,25,30,13,8,25,2], [15,14,20,23,28,7,33,15,10,13,23,25,2],
     [11,8,21,33,11,32,6,6,27,12,1,26,2], [7,2,22,6,32,19,17,33,6,12,16,26,2], [3,33,22,16,15,7,28,23,23,11,31,26,2],
     [36,26,23,26,35,31,1,14,3,11,9,27,2], [32,20,24,36,18,19,12,4,20,10,24,27,2], [28,14,25,9,2,7,23,31,36,9,2,28,2],
     [24,8,26,19,22,31,33,21,16,9,17,28,2], [20,2,27,29,5,19,7,12,33,8,32,28,2], [16,33,27,2,26,6,18,2,13,8,10,29,2]]"

definition BASE37_POS8 :: "int list list" where
  "BASE37_POS8 =
    [[0,0,0,0,0,0,0,0,0,0,0,0,0,0], [12,27,28,12,9,31,28,29,29,7,25,29,2,0],
     [24,17,20,25,18,25,20,22,22,15,13,22,5,0], [36,7,12,1,28,19,12,15,15,23,1,15,8,0],
     [11,35,3,14,0,14,4,8,8,31,26,7,11,0], [23,25,32,26,9,8,33,0,1,2,15,0,14,0],
     [35,15,24,2,19,2,25,30,30,9,3,30,16,0], [10,6,16,15,28,33,16,23,23,17,28,22,19,0],
     [22,33,7,28,0,28,8,16,16,25,16,15,22,0], [34,23,36,3,10,22,0,9,9,33,4,8,25,0],
     [9,14,28,16,19,16,29,1,2,4,30,0,28,0], [21,4,20,29,28,10,21,31,31,11,18,30,30,0],
     [33,31,11,5,1,5,13,24,24,19,6,23,33,0], [8,22,3,18,10,36,4,17,17,27,31,15,36,0],
     [20,12,32,30,19,30,33,9,10,35,19,8,2,1], [32,2,24,6,29,24,25,2,3,6,8,1,5,1]] @
    [[7,30,15,19,1,19,17,32,32,13,33,30,7,1], [19,20,7,32,10,13,9,25,25,21,21,23,10,1],
     [31,10,36,7,20,7,1,18,18,29,9,16,13,1], [6,1,28,20,29,1,30,10,11,0,35,8,16,1],
     [18,28,19,33,1,33,21,3,4,8,23,1,19,1], [30,18,11,9,11,27,13,33,33,15,11,31,21,1],
     [5,9,3,22,20,21,5,26,26,23,36,23,24,1], [17,36,31,34,29,15,34,18,19,31,24,16,27,1],
     [29,26,23,10,2,10,26,11,12,2,13,9,30,1], [4,17,15,23,11,4,18,4,5,10,1,2,33,1],
     [16,7,7,36,20,35,9,34,34,17,26,31,35,1], [28,34,35,11,30,29,1,27,27,25,14,24,1,2],
     [3,25,27,24,2,24,30,19,20,33,2,17,4,2], [15,15,19,0,12,18,22,12,13,4,28,9,7,2],
     [27,5,11,13,21,12,14,5,6,12,16,2,10,2], [2,33,2,26,30,6,6,35,35,19,4,32,12,2]] @
    [[14,23,31,1,3,1,35,27,28,27,29,24,15,2], [26,13,23,14,12,32,26,20,21,35,17,17,18,2],
     [1,4,15,27,21,26,18,13,14,6,6,10,21,2], [13,31,6,3,31,20,10,6,7,14,31,2,24,2],
     [25,21,35,15,3,15,2,36,36,21,19,32,26,2], [0,12,27,28,12,9,31,28,29,29,7,25,29,2],
     [12,2,19,4,22,3,23,21,22,0,33,17,32,2], [24,29,10,17,31,34,14,14,15,8,21,10,35,2],
     [36,19,2,30,3,29,6,7,8,16,9,3,1,3], [11,10,31,5,13,23,35,36,0,24,34,32,3,3],
     [23,0,23,18,22,17,27,29,30,31,22,25,6,3], [35,27,14,31,31,11,19,22,23,2,11,18,9,3],
     [10,18,6,7,4,6,11,15,16,10,36,10,12,3], [22,8,35,19,13,0,3,8,9,18,24,3,15,3],
     [34,35,26,32,22,31,31,0,2,26,12,33,17,3], [9,26,18,8,32,25,23,30,31,33,0,26,20,3]] @
    [[21,16,10,21,4,20,15,23,24,4,26,18,23,3], [33,6,2,34,13,14,7,16,17,12,14,11,26,3],
     [8,34,30,9,23,8,36,8,10,20,2,4,29,3], [20,24,22,22,32,2,28,1,3,28,27,33,31,3],
     [32,14,14,35,4,34,19,31,32,35,15,26,34,3], [7,5,6,11,14,28,11,24,25,6,4,19,0,4],
     [19,32,34,23,23,22,3,17,18,14,29,11,3,4], [31,22,26,36,32,16,32,9,11,22,17,4,6,4],
     [6,13,18,12,5,11,24,2,4,30,5,34,8,4], [18,3,10,25,14,5,16,32,33,0,31,26,11,4],
     [30,30,1,1,24,36,7,25,26,8,19,19,14,4], [5,21,30,13,33,30,36,17,19,16,7,12,17,4],
     [17,11,22,26,5,25,28,10,12,24,32,4,20,4], [29,1,14,2,15,19,20,3,5,32,20,34,22,4],
     [4,29,5,15,24,13,12,33,34,2,9,27,25,4], [16,19,34,27,33,7,4,26,27,10,34,19,28,4]] @
    [[28,9,26,3,6,2,33,18,20,18,22,12,31,4], [3,0,18,16,15,33,24,11,13,26,10,5,34,4],
     [15,27,9,29,24,27,16,4,6,34,35,34,36,4], [27,17,1,5,34,21,8,34,35,4,24,27,2,5],
     [2,8,30,17,6,16,0,27,28,12,12,20,5,5], [14,35,21,30,15,10,29,19,21,20,0,13,8,5],
     [26,25,13,6,25,4,21,12,14,28,25,5,11,5], [1,16,5,19,34,35,12,5,7,36,13,35,13,5],
     [13,6,34,31,6,30,4,35,36,6,2,28,16,5], [25,33,25,7,16,24,33,27,29,14,27,20,19,5],
     [0,24,17,20,25,18,25,20,22,22,15,13,22,5], [12,14,9,33,34,12,17,13,15,30,3,6,25,5],
     [24,4,1,9,7,7,9,6,8,1,29,35,27,5], [36,31,29,21,16,1,1,36,0,9,17,28,30,5],
     [11,22,21,34,25,32,29,28,30,16,5,21,33,5], [23,12,13,10,35,26,21,21,23,24,30,13,36,5]] @
    [[35,2,5,23,7,21,13,14,16,32,18,6,2,6], [10,30,33,35,16,15,5,7,9,3,7,36,4,6],
     [22,20,25,11,26,9,34,36,1,11,32,28,7,6], [34,10,17,24,35,3,26,29,31,18,20,21,10,6],
     [9,1,9,0,8,35,17,22,24,26,8,14,13,6], [21,28,0,13,17,29,9,15,17,34,33,6,16,6],
     [33,18,29,25,26,23,1,8,10,5,22,36,18,6], [8,9,21,1,36,17,30,0,3,13,10,29,21,6],
     [20,36,12,14,8,12,22,30,32,20,35,21,24,6], [32,26,4,27,17,6,14,23,25,28,23,14,27,6],
     [7,17,33,2,27,0,6,16,18,36,11,7,30,6], [19,7,25,15,36,31,34,8,11,7,0,0,33,6],
     [31,34,16,28,8,26,26,1,4,15,25,29,35,6], [6,25,8,4,18,20,18,31,33,22,13,22,1,7],
     [18,15,0,17,27,14,10,24,26,30,1,15,4,7], [30,5,29,29,36,8,2,17,19,1,27,7,7,7]] @
    [[5,33,20,5,9,3,31,9,12,9,15,0,10,7], [17,23,12,18,18,34,22,2,5,17,3,30,12,7],
     [29,13,4,31,27,28,14,32,34,24,28,22,15,7], [4,4,33,6,0,23,6,25,27,32,16,15,18,7],
     [16,31,24,19,9,17,35,17,20,3,5,8,21,7], [28,21,16,32,18,11,27,10,13,11,30,0,24,7],
     [3,12,8,8,28,5,19,3,6,19,18,30,26,7], [15,2,0,21,0,0,11,33,35,26,6,23,29,7],
     [27,29,28,33,9,31,2,26,28,34,31,15,32,7], [2,20,20,9,19,25,31,18,21,5,20,8,35,7],
     [14,10,12,22,28,19,23,11,14,13,8,1,1,8], [26,0,4,35,0,14,15,4,7,21,33,30,3,8],
     [1,28,32,10,10,8,7,34,36,28,21,23,6,8], [13,18,24,23,19,2,36,26,29,36,9,16,9,8],
     [25,8,16,36,28,33,27,19,22,7,35,8,12,8], [0,36,7,12,1,28,19,12,15,15,23,1,15,8]] @
    [[12,26,36,24,10,22,11,5,8,23,11,31,17,8], [24,16,28,0,20,16,3,35,0,31,36,23,20,8],
     [36,6,20,13,29,10,32,27,30,1,25,16,23,8], [11,34,11,26,1,5,24,20,23,9,13,9,26,8],
     [23,24,3,2,11,36,15,13,16,17,1,2,29,8], [35,14,32,14,20,30,7,6,9,25,26,31,31,8],
     [10,5,24,27,29,24,36,35,1,33,14,24,34,8], [22,32,15,3,2,19,28,28,31,3,3,17,0,9],
     [34,22,7,16,11,13,20,21,24,11,28,9,3,9], [9,13,36,28,20,7,12,14,17,19,16,2,6,9],
     [21,3,28,4,30,1,4,7,10,27,4,32,8,9], [33,30,19,17,2,33,32,36,2,35,29,24,11,9],
     [8,21,11,30,11,27,24,29,32,5,18,17,14,9], [20,11,3,6,21,21,16,22,25,13,6,10,17,9],
     [32,1,32,18,30,15,8,15,18,21,31,2,20,9], [7,29,23,31,2,10,0,8,11,29,19,32,22,9]] @
    [[19,19,15,7,12,4,29,0,4,0,8,25,25,9], [31,9,7,20,21,35,20,30,33,7,33,17,28,9],
     [6,0,36,32,30,29,12,23,26,15,21,10,31,9], [18,27,27,8,3,24,4,16,19,23,9,3,34,9],
     [30,17,19,21,12,18,33,8,12,31,34,32,36,9], [5,8,11,34,21,12,25,1,5,2,23,25,2,10],
     [17,35,2,10,31,6,17,31,34,9,11,18,5,10], [29,25,31,22,3,1,9,24,27,17,36,10,8,10],
     [4,16,23,35,12,32,0,17,20,25,24,3,11,10], [16,6,15,11,22,26,29,9,13,33,12,33,13,10],
     [28,33,6,24,31,20,21,2,6,4,1,26,16,10], [3,24,35,36,3,15,13,32,35,11,26,18,19,10],
     [15,14,27,12,13,9,5,25,28,19,14,11,22,10], [27,4,19,25,22,3,34,17,21,27,2,4,25,10],
     [2,32,10,1,32,34,25,10,14,35,27,33,27,10], [14,22,2,14,4,29,17,3,7,6,16,26,30,10]] @
    [[26,12,31,26,13,23,9,33,36,13,4,19,33,10], [1,3,23,2,23,17,1,26,29,21,29,11,36,10],
     [13,30,14,15,32,11,30,18,22,29,17,4,2,11], [25,20,6,28,4,6,22,11,15,0,6,34,4,11],
     [0,11,35,3,14,0,14,4,8,8,31,26,7,11], [12,1,27,16,23,31,5,34,0,16,19,19,10,11],
     [24,28,18,29,32,25,34,26,30,23,7,12,13,11], [36,18,10,5,5,20,26,19,23,31,32,4,16,11],
     [11,9,2,18,14,14,18,12,16,2,21,34,18,11], [23,36,30,30,23,8,10,5,9,10,9,27,21,11],
     [35,26,22,6,33,2,2,35,1,18,34,19,24,11], [10,17,14,19,5,34,30,27,31,25,22,12,27,11],
     [22,7,6,32,14,28,22,20,24,33,10,5,30,11], [34,34,34,7,24,22,14,13,17,4,36,34,32,11],
     [9,25,26,20,33,16,6,6,10,12,24,27,35,11], [21,15,18,33,5,11,35,35,2,20,12,20,1,12]] @
    [[33,5,10,9,15,5,27,28,32,27,0,13,4,12], [8,33,1,22,24,36,18,21,25,35,25,5,7,12],
     [20,23,30,34,33,30,10,14,18,6,14,35,9,12], [32,13,22,10,6,25,2,7,11,14,2,28,12,12],
     [7,4,14,23,15,19,31,36,3,22,27,20,15,12], [19,31,5,36,24,13,23,29,33,29,15,13,18,12],
     [31,21,34,11,34,7,15,22,26,0,4,6,21,12], [6,12,26,24,6,2,7,15,19,8,29,35,23,12],
     [18,2,18,0,16,33,35,7,12,16,17,28,26,12], [30,29,9,13,25,27,27,0,5,24,5,21,29,12],
     [5,20,1,26,34,21,19,30,34,31,30,13,32,12], [17,10,30,1,7,16,11,23,27,2,19,6,35,12],
     [29,0,22,14,16,10,3,16,20,10,7,36,0,13], [4,28,13,27,25,4,32,8,13,18,32,28,3,13],
     [16,18,5,3,35,35,23,1,6,26,20,21,6,13], [28,8,34,15,7,30,15,31,35,33,8,14,9,13]] @
    [[3,36,25,28,16,24,7,24,28,4,34,6,12,13], [15,26,17,4,26,18,36,16,21,12,22,36,14,13],
     [27,16,9,17,35,12,28,9,14,20,10,29,17,13], [2,7,1,30,7,7,20,2,7,28,35,21,20,13],
     [14,34,29,5,17,1,12,32,36,35,23,14,23,13], [26,24,21,18,26,32,3,25,29,6,12,7,26,13],
     [1,15,13,31,35,26,32,17,22,14,0,0,29,13], [13,5,5,7,8,21,24,10,15,22,25,29,31,13],
     [25,32,33,19,17,15,16,3,8,30,13,22,34,13], [0,23,25,32,26,9,8,33,0,1,2,15,0,14],
     [12,13,17,8,36,3,0,26,30,8,27,7,3,14], [24,3,9,21,8,35,28,18,23,16,15,0,6,14],
     [36,30,0,34,17,29,20,11,16,24,3,30,8,14], [11,21,29,9,27,23,12,4,9,32,28,22,11,14],
     [23,11,21,22,36,17,4,34,1,3,17,15,14,14], [35,1,13,35,8,12,33,26,31,10,5,8,17,14]] @
    [[10,29,4,11,18,6,25,19,24,18,30,0,20,14], [22,19,33,23,27,0,17,12,17,26,18,30,22,14],
     [34,9,25,36,36,31,8,5,10,34,6,23,25,14], [9,0,17,12,9,26,0,35,2,5,32,15,28,14],
     [21,27,8,25,18,20,29,27,32,12,20,8,31,14], [33,17,0,1,28,14,21,20,25,20,8,1,34,14],
     [8,8,29,13,0,9,13,13,18,28,33,30,36,14], [20,35,20,26,9,3,5,6,11,36,21,23,2,15],
     [32,25,12,2,19,34,33,35,3,7,10,16,5,15], [7,16,4,15,28,28,25,28,33,14,35,8,8,15],
     [19,6,33,27,0,23,17,21,26,22,23,1,11,15], [31,33,24,3,10,17,9,14,19,30,11,31,13,15],
     [6,24,16,16,19,11,1,7,12,1,0,24,16,15], [18,14,8,29,28,5,30,36,4,9,25,16,19,15],
     [30,4,0,5,1,0,22,29,34,16,13,9,22,15], [5,32,28,17,10,31,13,22,27,24,1,2,25,15]] @
    [[17,22,20,30,19,25,5,15,20,32,26,31,27,15], [29,12,12,6,29,19,34,7,13,3,15,24,30,15],
     [4,3,4,19,1,14,26,0,6,11,3,17,33,15], [16,30,32,31,10,8,18,30,35,18,28,9,36,15],
     [28,20,24,7,20,2,10,23,28,26,16,2,2,16], [3,11,16,20,29,33,1,16,21,34,4,32,4,16],
     [15,1,8,33,1,28,30,8,14,5,30,24,7,16], [27,28,36,8,11,22,22,1,7,13,18,17,10,16],
     [2,19,28,21,20,16,14,31,36,20,6,10,13,16], [14,9,20,34,29,10,6,24,29,28,31,2,16,16],
     [26,36,11,10,2,5,35,16,22,36,19,32,18,16], [1,27,3,23,11,36,26,9,15,7,8,25,21,16],
     [13,17,32,35,20,30,18,2,8,15,33,17,24,16], [25,7,24,11,30,24,10,32,0,23,21,10,27,16],
     [0,35,15,24,2,19,2,25,30,30,9,3,30,16], [12,25,7,0,12,13,31,17,23,1,35,32,32,16]] @
    [[24,15,36,12,21,7,23,10,16,9,23,25,35,16], [36,5,28,25,30,1,15,3,9,17,11,18,1,17],
     [11,33,19,1,3,33,6,33,1,25,36,10,4,17], [23,23,11,14,12,27,35,25,31,32,24,3,7,17],
     [35,13,3,27,21,21,27,18,24,3,13,33,9,17], [10,4,32,2,31,15,19,11,17,11,1,26,12,17],
     [22,31,23,15,3,10,11,4,10,19,26,18,15,17], [34,21,15,28,12,4,3,34,2,27,14,11,18,17],
     [9,12,7,4,22,35,31,26,32,34,2,4,21,17], [21,2,36,16,31,29,23,19,25,5,28,33,23,17],
     [33,29,27,29,3,24,15,12,18,13,16,26,26,17], [8,20,19,5,13,18,7,5,11,21,4,19,29,17],
     [20,10,11,18,22,12,36,34,3,29,29,11,32,17], [32,0,3,31,31,6,28,27,33,36,17,4,35,17],
     [7,28,31,6,4,1,20,20,26,7,6,34,0,18], [19,18,23,19,13,32,11,13,19,15,31,26,3,18]] @
    [[31,8,15,32,22,26,3,6,12,23,19,19,6,18], [6,36,6,8,32,20,32,35,4,31,7,12,9,18],
     [18,26,35,20,4,15,24,28,34,1,33,4,12,18], [30,16,27,33,13,9,16,21,27,9,21,34,14,18],
     [5,7,19,9,23,3,8,14,20,17,9,27,17,18], [17,34,10,22,32,34,36,6,13,25,34,19,20,18],
     [29,24,2,35,4,29,28,36,5,33,22,12,23,18], [4,15,31,10,14,23,20,29,35,3,11,5,26,18],
     [16,5,23,23,23,17,12,22,28,11,36,34,28,18], [28,32,14,36,32,11,4,15,21,19,24,27,31,18],
     [3,23,6,12,5,6,33,7,14,27,12,20,34,18], [15,13,35,24,14,0,25,0,7,35,0,13,0,19],
     [27,3,27,0,24,31,16,30,36,5,26,5,3,19], [2,31,18,13,33,25,8,23,29,13,14,35,5,19],
     [14,21,10,26,5,20,0,16,22,21,2,28,8,19], [26,11,2,2,15,14,29,8,15,29,27,20,11,19]]"

definition BASE37_POS9 :: "int list list" where
  "BASE37_POS9 =
    [[0,0,0,0,0,0,0,0,0,0,0,0,0,0,0,0], [1,2,31,14,24,8,21,1,8,0,16,13,14,19,0,0],
     [2,4,25,29,11,17,5,3,16,0,32,26,28,1,1,0], [3,6,19,7,36,25,26,4,24,0,11,3,6,21,1,0],
     [4,8,13,22,23,34,10,6,32,0,27,16,20,3,2,0], [5,10,7,0,11,6,32,7,3,1,6,30,34,22,2,0],
     [6,12,1,15,35,14,16,9,11,1,22,6,12,5,3,0], [7,14,32,29,22,23,0,11,19,1,1,20,26,24,3,0],
     [8,16,26,7,10,32,21,12,27,1,17,33,3,7,4,0], [9,18,20,22,34,3,6,14,35,1,33,9,18,26,4,0],
     [10,20,14,0,22,12,27,15,6,2,12,23,32,8,5,0], [11,22,8,15,9,21,11,17,14,2,28,36,9,28,5,0],
     [12,24,2,30,33,29,32,18,22,2,7,13,24,10,6,0], [13,26,33,7,21,1,17,20,30,2,23,26,1,30,6,0],
     [14,28,27,22,8,10,1,22,1,3,2,3,16,12,7,0], [15,30,21,0,33,18,22,23,9,3,18,16,30,31,7,0]] @
    [[16,32,15,15,20,27,6,25,17,3,34,29,7,14,8,0], [17,34,9,30,7,36,27,26,25,3,13,6,22,33,8,0],
     [18,36,3,8,32,7,12,28,33,3,29,19,36,15,9,0], [19,1,35,22,19,16,33,29,4,4,8,33,13,35,9,0],
     [20,3,29,0,7,25,17,31,12,4,24,9,28,17,10,0], [21,5,23,15,31,33,1,33,20,4,3,23,5,0,11,0],
     [22,7,17,30,18,5,23,34,28,4,19,36,19,19,11,0], [23,9,11,8,6,14,7,36,36,4,35,12,34,1,12,0],
     [24,11,5,23,30,22,28,0,8,5,14,26,11,21,12,0], [25,13,36,0,18,31,12,2,16,5,30,2,26,3,13,0],
     [26,15,30,15,5,3,34,3,24,5,9,16,3,23,13,0], [27,17,24,30,29,11,18,5,32,5,25,29,17,5,14,0],
     [28,19,18,8,17,20,2,7,3,6,4,6,32,24,14,0], [29,21,12,23,4,29,23,8,11,6,20,19,9,7,15,0],
     [30,23,6,1,29,0,8,10,19,6,36,32,23,26,15,0], [31,25,0,16,16,9,29,11,27,6,15,9,1,9,16,0]] @
    [[32,27,31,30,3,18,13,13,35,6,31,22,15,28,16,0], [33,29,25,8,28,26,34,14,6,7,10,36,29,10,17,0],
     [34,31,19,23,15,35,18,16,14,7,26,12,7,30,17,0], [35,33,13,1,3,7,3,18,22,7,5,26,21,12,18,0],
     [36,35,7,16,27,15,24,19,30,7,21,2,36,31,18,0], [0,1,2,31,14,24,8,21,1,8,0,16,13,14,19,0],
     [1,3,33,8,2,33,29,22,9,8,16,29,27,33,19,0], [2,5,27,23,26,4,14,24,17,8,32,5,5,16,20,0],
     [3,7,21,1,14,13,35,25,25,8,11,19,19,35,20,0], [4,9,15,16,1,22,19,27,33,8,27,32,33,17,21,0],
     [5,11,9,31,25,30,3,29,4,9,6,9,11,0,22,0], [6,13,3,9,13,2,25,30,12,9,22,22,25,19,22,0],
     [7,15,34,23,0,11,9,32,20,9,1,36,2,2,23,0], [8,17,28,1,25,19,30,33,28,9,17,12,17,21,23,0],
     [9,19,22,16,12,28,14,35,36,9,33,25,31,3,24,0], [10,21,16,31,36,36,35,36,7,10,12,2,9,23,24,0]] @
    [[11,23,10,9,24,8,20,1,16,10,28,15,23,5,25,0], [12,25,4,24,11,17,4,3,24,10,7,29,0,25,25,0],
     [13,27,35,1,36,25,25,4,32,10,23,5,15,7,26,0], [14,29,29,16,23,34,9,6,3,11,2,19,29,26,26,0],
     [15,31,23,31,10,6,31,7,11,11,18,32,6,9,27,0], [16,33,17,9,35,14,15,9,19,11,34,8,21,28,27,0],
     [17,35,11,24,22,23,36,10,27,11,13,22,35,10,28,0], [18,0,6,2,10,32,20,12,35,11,29,35,12,30,28,0],
     [19,2,0,17,34,3,5,14,6,12,8,12,27,12,29,0], [20,4,31,31,21,12,26,15,14,12,24,25,4,32,29,0],
     [21,6,25,9,9,21,10,17,22,12,3,2,19,14,30,0], [22,8,19,24,33,29,31,18,30,12,19,15,33,33,30,0],
     [23,10,13,2,21,1,16,20,1,13,35,28,10,16,31,0], [24,12,7,17,8,10,0,22,9,13,14,5,25,35,31,0],
     [25,14,1,32,32,18,21,23,17,13,30,18,2,18,32,0], [26,16,32,9,20,27,5,25,25,13,9,32,16,0,33,0]] @
    [[27,18,26,24,7,36,26,26,33,13,25,8,31,19,33,0], [28,20,20,2,32,7,11,28,4,14,4,22,8,2,34,0],
     [29,22,14,17,19,16,32,29,12,14,20,35,22,21,34,0], [30,24,8,32,6,25,16,31,20,14,36,11,0,4,35,0],
     [31,26,2,10,31,33,0,33,28,14,15,25,14,23,35,0], [32,28,33,24,18,5,22,34,36,14,31,1,29,5,36,0],
     [33,30,27,2,6,14,6,36,7,15,10,15,6,25,36,0], [34,32,21,17,30,22,27,0,16,15,26,28,20,7,0,1],
     [35,34,15,32,17,31,11,2,24,15,5,5,35,26,0,1], [36,36,9,10,5,3,33,3,32,15,21,18,12,9,1,1],
     [0,2,4,25,29,11,17,5,3,16,0,32,26,28,1,1], [1,4,35,2,17,20,1,7,11,16,16,8,4,11,2,1],
     [2,6,29,17,4,29,22,8,19,16,32,21,18,30,2,1], [3,8,23,32,28,0,7,10,27,16,11,35,32,12,3,1],
     [4,10,17,10,16,9,28,11,35,16,27,11,10,32,3,1], [5,12,11,25,3,18,12,13,6,17,6,25,24,14,4,1]] @
    [[6,14,5,3,28,26,33,14,14,17,22,1,2,34,4,1], [7,16,36,17,15,35,17,16,22,17,1,15,16,16,5,1],
     [8,18,30,32,2,7,2,18,30,17,17,28,30,35,5,1], [9,20,24,10,27,15,23,19,1,18,33,4,8,18,6,1],
     [10,22,18,25,14,24,7,21,9,18,12,18,22,0,7,1], [11,24,12,3,2,33,28,22,17,18,28,31,36,19,7,1],
     [12,26,6,18,26,4,13,24,25,18,7,8,14,2,8,1], [13,28,0,33,13,13,34,25,33,18,23,21,28,21,8,1],
     [14,30,31,10,1,22,18,27,4,19,2,35,5,4,9,1], [15,32,25,25,25,30,2,29,12,19,18,11,20,23,9,1],
     [16,34,19,3,13,2,24,30,20,19,34,24,34,5,10,1], [17,36,13,18,0,11,8,32,28,19,13,1,12,25,10,1],
     [18,1,8,33,24,19,29,33,36,19,29,14,26,7,11,1], [19,3,2,11,12,28,13,35,7,20,8,28,3,27,11,1],
     [20,5,33,25,36,36,34,36,15,20,24,4,18,9,12,1], [21,7,27,3,24,8,19,1,24,20,3,18,32,28,12,1]] @
    [[22,9,21,18,11,17,3,3,32,20,19,31,9,11,13,1], [23,11,15,33,35,25,24,4,3,21,35,7,24,30,13,1],
     [24,13,9,11,23,34,8,6,11,21,14,21,1,13,14,1], [25,15,3,26,10,6,30,7,19,21,30,34,15,32,14,1],
     [26,17,34,3,35,14,14,9,27,21,9,11,30,14,15,1], [27,19,28,18,22,23,35,10,35,21,25,24,7,34,15,1],
     [28,21,22,33,9,32,19,12,6,22,4,1,22,16,16,1], [29,23,16,11,34,3,4,14,14,22,20,14,36,35,16,1],
     [30,25,10,26,21,12,25,15,22,22,36,27,13,18,17,1], [31,27,4,4,9,21,9,17,30,22,15,4,28,0,18,1],
     [32,29,35,18,33,29,30,18,1,23,31,17,5,20,18,1], [33,31,29,33,20,1,15,20,9,23,10,31,19,2,19,1],
     [34,33,23,11,8,10,36,21,17,23,26,7,34,21,19,1], [35,35,17,26,32,18,20,23,25,23,5,21,11,4,20,1],
     [36,0,12,4,20,27,4,25,33,23,21,34,25,23,20,1], [0,3,6,19,7,36,25,26,4,24,0,11,3,6,21,1]] @
    [[1,5,0,34,31,7,10,28,12,24,16,24,17,25,21,1], [2,7,31,11,19,16,31,29,20,24,32,0,32,7,22,1],
     [3,9,25,26,6,25,15,31,28,24,11,14,9,27,22,1], [4,11,19,4,31,33,36,32,36,24,27,27,23,9,23,1],
     [5,13,13,19,18,5,21,34,7,25,6,4,1,29,23,1], [6,15,7,34,5,14,5,36,15,25,22,17,15,11,24,1],
     [7,17,1,12,30,22,26,0,24,25,1,31,29,30,24,1], [8,19,32,26,17,31,10,2,32,25,17,7,7,13,25,1],
     [9,21,26,4,5,3,32,3,3,26,33,20,21,32,25,1], [10,23,20,19,29,11,16,5,11,26,12,34,35,14,26,1],
     [11,25,14,34,16,20,0,7,19,26,28,10,13,34,26,1], [12,27,8,12,4,29,21,8,27,26,7,24,27,16,27,1],
     [13,29,2,27,28,0,6,10,35,26,23,0,5,36,27,1], [14,31,33,4,16,9,27,11,6,27,2,14,19,18,28,1],
     [15,33,27,19,3,18,11,13,14,27,18,27,33,0,29,1], [16,35,21,34,27,26,32,14,22,27,34,3,11,20,29,1]] @
    [[17,0,16,12,15,35,16,16,30,27,13,17,25,2,30,1], [18,2,10,27,2,7,1,18,1,28,29,30,2,22,30,1],
     [19,4,4,5,27,15,22,19,9,28,8,7,17,4,31,1], [20,6,35,19,14,24,6,21,17,28,24,20,31,23,31,1],
     [21,8,29,34,1,33,27,22,25,28,3,34,8,6,32,1], [22,10,23,12,26,4,12,24,33,28,19,10,23,25,32,1],
     [23,12,17,27,13,13,33,25,4,29,35,23,0,8,33,1], [24,14,11,5,1,22,17,27,12,29,14,0,15,27,33,1],
     [25,16,5,20,25,30,1,29,20,29,30,13,29,9,34,1], [26,18,36,34,12,2,23,30,28,29,9,27,6,29,34,1],
     [27,20,30,12,0,11,7,32,36,29,25,3,21,11,35,1], [28,22,24,27,24,19,28,33,7,30,4,17,35,30,35,1],
     [29,24,18,5,12,28,12,35,15,30,20,30,12,13,36,1], [30,26,12,20,36,36,33,36,23,30,36,6,27,32,36,1],
     [31,28,6,35,23,8,18,1,32,30,15,20,4,15,0,2], [32,30,0,13,11,17,2,3,3,31,31,33,18,34,0,2]] @
    [[33,32,31,27,35,25,23,4,11,31,10,10,33,16,1,2], [34,34,25,5,23,34,7,6,19,31,26,23,10,36,1,2],
     [35,36,19,20,10,6,29,7,27,31,5,0,25,18,2,2], [36,1,14,35,34,14,13,9,35,31,21,13,2,1,3,2],
     [0,4,8,13,22,23,34,10,6,32,0,27,16,20,3,2], [1,6,2,28,9,32,18,12,14,32,16,3,31,2,4,2],
     [2,8,33,5,34,3,3,14,22,32,32,16,8,22,4,2], [3,10,27,20,21,12,24,15,30,32,11,30,22,4,5,2],
     [4,12,21,35,8,21,8,17,1,33,27,6,0,24,5,2], [5,14,15,13,33,29,29,18,9,33,6,20,14,6,6,2],
     [6,16,9,28,20,1,14,20,17,33,22,33,28,25,6,2], [7,18,3,6,8,10,35,21,25,33,1,10,6,8,7,2],
     [8,20,34,20,32,18,19,23,33,33,17,23,20,27,7,2], [9,22,28,35,19,27,3,25,4,34,33,36,34,9,8,2],
     [10,24,22,13,7,36,24,26,12,34,12,13,12,29,8,2], [11,26,16,28,31,7,9,28,20,34,28,26,26,11,9,2]] @
    [[12,28,10,6,19,16,30,29,28,34,7,3,4,31,9,2], [13,30,4,21,6,25,14,31,36,34,23,16,18,13,10,2],
     [14,32,35,35,30,33,35,32,7,35,2,30,32,32,10,2], [15,34,29,13,18,5,20,34,15,35,18,6,10,15,11,2],
     [16,36,23,28,5,14,4,36,23,35,34,19,24,34,11,2], [17,1,18,6,30,22,25,0,32,35,13,33,1,17,12,2],
     [18,3,12,21,17,31,9,2,3,36,29,9,16,36,12,2], [19,5,6,36,4,3,31,3,11,36,8,23,30,18,13,2],
     [20,7,0,14,29,11,15,5,19,36,24,36,7,1,14,2], [21,9,31,28,16,20,36,6,27,36,3,13,22,20,14,2],
     [22,11,25,6,4,29,20,8,35,36,19,26,36,2,15,2], [23,13,19,21,28,0,5,10,6,0,36,2,14,22,15,2],
     [24,15,13,36,15,9,26,11,14,0,15,16,28,4,16,2], [25,17,7,14,3,18,10,13,22,0,31,29,5,24,16,2],
     [26,19,1,29,27,26,31,14,30,0,10,6,20,6,17,2], [27,21,32,6,15,35,15,16,1,1,26,19,34,25,17,2]] @
    [[28,23,26,21,2,7,0,18,9,1,5,33,11,8,18,2], [29,25,20,36,26,15,21,19,17,1,21,9,26,27,18,2],
     [30,27,14,14,14,24,5,21,25,1,0,23,3,10,19,2], [31,29,8,29,1,33,26,22,33,1,16,36,17,29,19,2],
     [32,31,2,7,26,4,11,24,4,2,32,12,32,11,20,2], [33,33,33,21,13,13,32,25,12,2,11,26,9,31,20,2],
     [34,35,27,36,0,22,16,27,20,2,27,2,24,13,21,2], [35,0,22,14,25,30,0,29,28,2,6,16,1,33,21,2],
     [36,2,16,29,12,2,22,30,36,2,22,29,15,15,22,2], [0,5,10,7,0,11,6,32,7,3,1,6,30,34,22,2],
     [1,7,4,22,24,19,27,33,15,3,17,19,7,17,23,2], [2,9,35,36,11,28,11,35,23,3,33,32,21,36,23,2],
     [3,11,29,14,36,36,32,36,31,3,12,9,36,18,24,2], [4,13,23,29,23,8,17,1,3,4,28,22,13,1,25,2],
     [5,15,17,7,11,17,1,3,11,4,7,36,27,20,25,2], [6,17,11,22,35,25,22,4,19,4,23,12,5,3,26,2]] @
    [[7,19,5,0,23,34,6,6,27,4,2,26,19,22,26,2], [8,21,36,14,10,6,28,7,35,4,18,2,34,4,27,2],
     [9,23,30,29,34,14,12,9,6,5,34,15,11,24,27,2], [10,25,24,7,22,23,33,10,14,5,13,29,25,6,28,2],
     [11,27,18,22,9,32,17,12,22,5,29,5,3,26,28,2], [12,29,12,0,34,3,2,14,30,5,8,19,17,8,29,2],
     [13,31,6,15,21,12,23,15,1,6,24,32,31,27,29,2], [14,33,0,30,8,21,7,17,9,6,3,9,9,10,30,2],
     [15,35,31,7,33,29,28,18,17,6,19,22,23,29,30,2], [16,0,26,22,20,1,13,20,25,6,35,35,0,12,31,2],
     [17,2,20,0,8,10,34,21,33,6,14,12,15,31,31,2], [18,4,14,15,32,18,18,23,4,7,30,25,29,13,32,2],
     [19,6,8,30,19,27,2,25,12,7,9,2,7,33,32,2], [20,8,2,8,7,36,23,26,20,7,25,15,21,15,33,2],
     [21,10,33,22,31,7,8,28,28,7,4,29,35,34,33,2], [22,12,27,0,19,16,29,29,36,7,20,5,13,17,34,2]] @
    [[23,14,21,15,6,25,13,31,7,8,36,18,27,36,34,2], [24,16,15,30,30,33,34,32,15,8,15,32,4,19,35,2],
     [25,18,9,8,18,5,19,34,23,8,31,8,19,1,36,2], [26,20,3,23,5,14,3,36,31,8,10,22,33,20,36,2],
     [27,22,34,0,30,22,24,0,3,9,26,35,10,3,0,3], [28,24,28,15,17,31,8,2,11,9,5,12,25,22,0,3],
     [29,26,22,30,4,3,30,3,19,9,21,25,2,5,1,3], [30,28,16,8,29,11,14,5,27,9,0,2,17,24,1,3],
     [31,30,10,23,16,20,35,6,35,9,16,15,31,6,2,3], [32,32,4,1,4,29,19,8,6,10,32,28,8,26,2,3],
     [33,34,35,15,28,0,4,10,14,10,11,5,23,8,3,3], [34,36,29,30,15,9,25,11,22,10,27,18,0,28,3,3],
     [35,1,24,8,3,18,9,13,30,10,6,32,14,10,4,3], [36,3,18,23,27,26,30,14,1,11,22,8,29,29,4,3],
     [0,6,12,1,15,35,14,16,9,11,1,22,6,12,5,3], [1,8,6,16,2,7,36,17,17,11,17,35,20,31,5,3]] @
    [[2,10,0,31,26,15,20,19,25,11,33,11,35,13,6,3], [3,12,31,8,14,24,4,21,33,11,12,25,12,33,6,3],
     [4,14,25,23,1,33,25,22,4,12,28,1,27,15,7,3], [5,16,19,1,26,4,10,24,12,12,7,15,4,35,7,3],
     [6,18,13,16,13,13,31,25,20,12,23,28,18,17,8,3], [7,20,7,31,0,22,15,27,28,12,2,5,33,36,8,3],
     [8,22,1,9,25,30,36,28,36,12,18,18,10,19,9,3], [9,24,32,23,12,2,21,30,7,13,34,31,24,1,10,3],
     [10,26,26,1,0,11,5,32,15,13,13,8,2,21,10,3], [11,28,20,16,24,19,26,33,23,13,29,21,16,3,11,3],
     [12,30,14,31,11,28,10,35,31,13,8,35,30,22,11,3], [13,32,8,9,36,36,31,36,2,14,24,11,8,5,12,3],
     [14,34,2,24,23,8,16,1,11,14,3,25,22,24,12,3], [15,36,33,1,11,17,0,3,19,14,19,1,0,7,13,3],
     [16,1,28,16,35,25,21,4,27,14,35,14,14,26,13,3], [17,3,22,31,22,34,5,6,35,14,14,28,28,8,14,3]] @
    [[18,5,16,9,10,6,27,7,6,15,30,4,6,28,14,3], [19,7,10,24,34,14,11,9,14,15,9,18,20,10,15,3],
     [20,9,4,2,22,23,32,10,22,15,25,31,34,29,15,3], [21,11,35,16,9,32,16,12,30,15,4,8,12,12,16,3],
     [22,13,29,31,33,3,1,14,1,16,20,21,26,31,16,3], [23,15,23,9,21,12,22,15,9,16,36,34,3,14,17,3],
     [24,17,17,24,8,21,6,17,17,16,15,11,18,33,17,3], [25,19,11,2,33,29,27,18,25,16,31,24,32,15,18,3],
     [26,21,5,17,20,1,12,20,33,16,10,1,10,35,18,3], [27,23,36,31,7,10,33,21,4,17,26,14,24,17,19,3],
     [28,25,30,9,32,18,17,23,12,17,5,28,1,0,20,3], [29,27,24,24,19,27,1,25,20,17,21,4,16,19,20,3],
     [30,29,18,2,7,36,22,26,28,17,0,18,30,1,21,3], [31,31,12,17,31,7,7,28,36,17,16,31,7,21,21,3],
     [32,33,6,32,18,16,28,29,7,18,32,7,22,3,22,3], [33,35,0,10,6,25,12,31,15,18,11,21,36,22,22,3]]"

definition BASE37_POS10 :: "int list list" where
  "BASE37_POS10 =
    [[0,0,0,0,0,0,0,0,0,0,0,0,0,0,0,0,0], [34,0,32,24,30,33,33,32,23,18,27,34,13,5,23,3,0],
     [31,1,27,12,24,30,30,28,10,0,18,32,27,10,9,7,0], [28,2,22,0,18,27,27,24,34,18,8,30,4,16,32,10,0],
     [25,3,17,25,11,24,24,20,21,0,36,27,18,21,18,14,0], [22,4,12,13,5,21,21,16,8,19,26,25,32,26,4,18,0],
     [19,5,7,1,36,17,18,12,32,0,17,23,9,32,27,21,0], [16,6,2,26,29,14,15,8,19,19,7,21,23,0,14,25,0],
     [13,7,34,13,23,11,12,4,6,1,35,18,0,6,0,29,0], [10,8,29,1,17,8,9,0,30,19,25,16,14,11,23,32,0],
     [7,9,24,26,10,5,6,33,16,1,16,14,28,16,9,36,0], [4,10,19,14,4,2,3,29,3,20,6,12,5,22,32,2,1],
     [1,11,14,2,35,35,36,24,27,1,34,9,19,27,18,6,1], [35,11,9,27,28,32,33,20,14,20,24,7,33,32,4,10,1],
     [32,12,4,15,22,29,30,16,1,2,15,5,10,1,28,13,1], [29,13,36,2,16,26,27,12,25,20,5,3,24,6,14,17,1]] @
    [[26,14,31,27,9,23,24,8,12,2,33,0,1,12,0,21,1], [23,15,26,15,3,20,21,4,36,20,23,35,14,17,23,24,1],
     [20,16,21,3,34,16,18,0,23,2,14,33,28,22,9,28,1], [17,17,16,28,27,13,15,33,9,21,4,31,5,28,32,31,1],
     [14,18,11,16,21,10,12,29,33,2,32,28,19,33,18,35,1], [11,19,6,4,15,7,9,25,20,21,22,26,33,1,5,2,2],
     [8,20,1,29,8,4,6,21,7,3,13,24,10,7,28,5,2], [5,21,33,16,2,1,3,17,31,21,3,22,24,12,14,9,2],
     [2,22,28,4,33,34,36,12,18,3,31,19,1,18,0,13,2], [36,22,23,29,26,31,33,8,5,22,21,17,15,23,23,16,2],
     [33,23,18,17,20,28,30,4,29,3,12,15,29,28,9,20,2], [30,24,13,5,14,25,27,0,16,22,2,13,6,34,32,23,2],
     [27,25,8,30,7,22,24,33,2,4,30,10,20,2,19,27,2], [24,26,3,18,1,19,21,29,26,22,20,8,34,7,5,31,2],
     [21,27,35,5,32,15,18,25,13,4,11,6,11,13,28,34,2], [18,28,30,30,25,12,15,21,0,23,1,4,25,18,14,1,3]] @
    [[15,29,25,18,19,9,12,17,24,4,29,1,2,24,0,5,3], [12,30,20,6,13,6,9,13,11,23,19,36,15,29,23,8,3],
     [9,31,15,31,6,3,6,9,35,4,10,34,29,34,9,12,3], [6,32,10,19,0,0,3,5,22,23,0,32,6,3,33,15,3],
     [3,33,5,7,31,33,36,0,9,5,28,29,20,8,19,19,3], [0,34,0,32,24,30,33,33,32,23,18,27,34,13,5,23,3],
     [34,34,32,19,18,27,30,29,19,5,9,25,11,19,28,26,3], [31,35,27,7,12,24,27,25,6,24,36,22,25,24,14,30,3],
     [28,36,22,32,5,21,24,21,30,5,27,20,2,30,0,34,3], [25,0,18,20,36,17,21,17,17,24,17,18,16,35,23,0,4],
     [22,1,13,8,30,14,18,13,4,6,8,16,30,3,10,4,4], [19,2,8,33,23,11,15,9,28,24,35,13,7,9,33,7,4],
     [16,3,3,21,17,8,12,5,15,6,26,11,21,14,19,11,4], [13,4,35,8,11,5,9,1,2,25,16,9,35,19,5,15,4],
     [10,5,30,33,4,2,6,34,25,6,7,7,12,25,28,18,4], [7,6,25,21,35,35,2,30,12,25,34,4,26,30,14,22,4]] @
    [[4,7,20,9,29,32,36,25,36,6,25,2,3,36,0,26,4], [1,8,15,34,22,29,33,21,23,25,15,0,17,4,24,29,4],
     [35,8,10,22,16,26,30,17,10,7,6,35,30,9,10,33,4], [32,9,5,10,10,23,27,13,34,25,33,32,7,15,33,36,4],
     [29,10,0,35,3,20,24,9,21,7,24,30,21,20,19,3,5], [26,11,32,22,34,16,21,5,8,26,14,28,35,25,5,7,5],
     [23,12,27,10,28,13,18,1,32,7,5,26,12,31,28,10,5], [20,13,22,35,21,10,15,34,18,26,32,23,26,36,14,14,5],
     [17,14,17,23,15,7,12,30,5,8,23,21,3,5,1,18,5], [14,15,12,11,9,4,9,26,29,26,13,19,17,10,24,21,5],
     [11,16,7,36,2,1,6,22,16,8,4,17,31,15,10,25,5], [8,17,2,24,33,34,2,18,3,27,31,14,8,21,33,28,5],
     [5,18,34,11,27,31,36,13,27,8,22,12,22,26,19,32,5], [2,19,29,36,20,28,33,9,14,27,12,10,36,31,5,36,5],
     [36,19,24,24,14,25,30,5,1,9,3,8,13,0,29,2,6], [33,20,19,12,8,22,27,1,25,27,30,5,27,5,15,6,6]] @
    [[30,21,14,0,2,19,24,34,11,9,21,3,4,11,1,10,6], [27,22,9,25,32,15,21,30,35,27,11,1,18,16,24,13,6],
     [24,23,4,13,26,12,18,26,22,9,2,36,31,21,10,17,6], [21,24,36,0,20,9,15,22,9,28,29,33,8,27,33,20,6],
     [18,25,31,25,13,6,12,18,33,9,20,31,22,32,19,24,6], [15,26,26,13,7,3,9,14,20,28,10,29,36,0,6,28,6],
     [12,27,21,1,1,0,6,10,7,10,1,27,13,6,29,31,6], [9,28,16,26,31,33,2,6,31,28,28,24,27,11,15,35,6],
     [6,29,11,14,25,30,36,1,18,10,19,22,4,17,1,2,7], [3,30,6,2,19,27,33,34,4,29,9,20,18,22,24,5,7],
     [0,31,1,27,12,24,30,30,28,10,0,18,32,27,10,9,7], [34,31,33,14,6,21,27,26,15,29,27,15,9,33,33,12,7],
     [31,32,28,2,0,18,24,22,2,11,18,13,23,1,20,16,7], [28,33,23,27,30,14,21,18,26,29,8,11,0,7,6,20,7],
     [25,34,18,15,24,11,18,14,13,11,36,8,14,12,29,23,7], [22,35,13,3,18,8,15,10,0,30,26,6,28,17,15,27,7]] @
    [[19,36,8,28,11,5,12,6,24,11,17,4,5,23,1,31,7], [16,0,4,16,5,2,9,2,11,30,7,2,19,28,24,34,7],
     [13,1,36,3,36,35,5,35,34,11,35,36,32,33,10,1,8], [10,2,31,28,29,32,2,31,21,30,25,34,9,2,34,4,8],
     [7,3,26,16,23,29,36,26,8,12,16,32,23,7,20,8,8], [4,4,21,4,17,26,33,22,32,30,6,30,0,13,6,12,8],
     [1,5,16,29,10,23,30,18,19,12,34,27,14,18,29,15,8], [35,5,11,17,4,20,27,14,6,31,24,25,28,23,15,19,8],
     [32,6,6,5,35,16,24,10,30,12,15,23,5,29,1,23,8], [29,7,1,30,28,13,21,6,17,31,5,21,19,34,24,26,8],
     [26,8,33,17,22,10,18,2,4,13,33,18,33,2,11,30,8], [23,9,28,5,16,7,15,35,27,31,23,16,10,8,34,33,8],
     [20,10,23,30,9,4,12,31,14,13,14,14,24,13,20,0,9], [17,11,18,18,3,1,9,27,1,32,4,12,1,19,6,4,9],
     [14,12,13,6,34,34,5,23,25,13,32,9,15,24,29,7,9], [11,13,8,31,27,31,2,19,12,32,22,7,29,29,15,11,9]] @
    [[8,14,3,19,21,28,36,14,36,13,13,5,6,35,1,15,9], [5,15,35,6,15,25,33,10,23,32,3,3,20,3,25,18,9],
     [2,16,30,31,8,22,30,6,10,14,31,0,34,8,11,22,9], [36,16,25,19,2,19,27,2,34,32,21,35,10,14,34,25,9],
     [33,17,20,7,33,15,24,35,20,14,12,33,24,19,20,29,9], [30,18,15,32,26,12,21,31,7,33,2,31,1,25,6,33,9],
     [27,19,10,20,20,9,18,27,31,14,30,28,15,30,29,36,9], [24,20,5,8,14,6,15,23,18,33,20,26,29,35,15,3,10],
     [21,21,0,33,7,3,12,19,5,15,11,24,6,4,2,7,10], [18,22,32,20,1,0,9,15,29,33,1,22,20,9,25,10,10],
     [15,23,27,8,32,33,5,11,16,15,29,19,34,14,11,14,10], [12,24,22,33,25,30,2,7,3,34,19,17,11,20,34,17,10],
     [9,25,17,21,19,27,36,2,27,15,10,15,25,25,20,21,10], [6,26,12,9,13,24,33,35,13,34,0,13,2,31,6,25,10],
     [3,27,7,34,6,21,30,31,0,16,28,10,16,36,29,28,10], [0,28,2,22,0,18,27,27,24,34,18,8,30,4,16,32,10]] @
    [[34,28,34,9,31,14,24,23,11,16,9,6,7,10,2,36,10], [31,29,29,34,24,11,21,19,35,34,36,3,21,15,25,2,11],
     [28,30,24,22,18,8,18,15,22,16,27,1,35,20,11,6,11], [25,31,19,10,12,5,15,11,9,35,17,36,11,26,34,9,11],
     [22,32,14,35,5,2,12,7,33,16,8,34,25,31,20,13,11], [19,33,9,23,36,35,8,3,20,35,35,31,2,0,7,17,11],
     [16,34,4,11,30,32,5,36,6,17,26,29,16,5,30,20,11], [13,35,36,35,23,29,2,32,30,35,16,27,30,10,16,24,11],
     [10,36,31,23,17,26,36,27,17,17,7,25,7,16,2,28,11], [7,0,27,11,11,23,33,23,4,36,34,22,21,21,25,31,11],
     [4,1,22,36,4,20,30,19,28,17,25,20,35,26,11,35,11], [1,2,17,24,35,16,27,15,15,36,15,18,12,32,34,1,12],
     [35,2,12,12,29,13,24,11,2,18,6,16,26,0,21,5,12], [32,3,7,0,23,10,21,7,26,36,33,13,3,6,7,9,12],
     [29,4,2,25,16,7,18,3,13,18,24,11,17,11,30,12,12], [26,5,34,12,10,4,15,36,36,36,14,9,31,16,16,16,12]] @
    [[23,6,29,0,4,1,12,32,23,18,5,7,8,22,2,20,12], [20,7,24,25,34,34,8,28,10,0,33,4,22,27,25,23,12],
     [17,8,19,13,28,31,5,24,34,18,23,2,36,32,11,27,12], [14,9,14,1,22,28,2,20,21,0,14,0,13,1,35,30,12],
     [11,10,9,26,15,25,36,15,8,19,4,35,26,6,21,34,12], [8,11,4,14,9,22,33,11,32,0,32,32,3,12,7,1,13],
     [5,12,36,1,3,19,30,7,19,19,22,30,17,17,30,4,13], [2,13,31,26,33,15,27,3,6,1,13,28,31,22,16,8,13],
     [36,13,26,14,27,12,24,36,29,19,3,26,8,28,2,12,13], [33,14,21,2,21,9,21,32,16,1,31,23,22,33,25,15,13],
     [30,15,16,27,14,6,18,28,3,20,21,21,36,1,12,19,13], [27,16,11,15,8,3,15,24,27,1,12,19,13,7,35,22,13],
     [24,17,6,3,2,0,12,20,14,20,2,17,27,12,21,26,13], [21,18,1,28,32,33,8,16,1,2,30,14,4,18,7,30,13],
     [18,19,33,15,26,30,5,12,25,20,20,12,18,23,30,33,13], [15,20,28,3,20,27,2,8,12,2,11,10,32,28,16,0,14]] @
    [[12,21,23,28,13,24,36,3,36,20,1,8,9,34,2,4,14], [9,22,18,16,7,21,33,36,22,2,29,5,23,2,26,7,14],
     [6,23,13,4,1,18,30,32,9,21,19,3,0,8,12,11,14], [3,24,8,29,31,14,27,28,33,2,10,1,14,13,35,14,14],
     [0,25,3,17,25,11,24,24,20,21,0,36,27,18,21,18,14], [34,25,35,4,19,8,21,20,7,3,28,33,4,24,7,22,14],
     [31,26,30,29,12,5,18,16,31,21,18,31,18,29,30,25,14], [28,27,25,17,6,2,15,12,18,3,9,29,32,34,16,29,14],
     [25,28,20,5,0,36,11,8,5,22,36,26,9,3,3,33,14], [22,29,15,30,30,32,8,4,29,3,27,24,23,8,26,36,14],
     [19,30,10,18,24,29,5,0,16,22,17,22,0,14,12,3,15], [16,31,5,6,18,26,2,33,2,4,8,20,14,19,35,6,15],
     [13,32,0,31,11,23,36,28,26,22,35,17,28,24,21,10,15], [10,33,32,18,5,20,33,24,13,4,26,15,5,30,7,14,15],
     [7,34,27,6,36,16,30,20,0,23,16,13,19,35,30,17,15], [4,35,22,31,29,13,27,16,24,4,7,11,33,3,17,21,15]] @
    [[1,36,17,19,23,10,24,12,11,23,34,8,10,9,3,25,15], [35,36,12,7,17,7,21,8,35,4,25,6,24,14,26,28,15],
     [32,0,8,32,10,4,18,4,22,23,15,4,1,20,12,32,15], [29,1,3,20,4,1,15,0,9,5,6,2,15,25,35,35,15],
     [26,2,35,7,35,34,11,33,32,23,33,36,28,30,21,2,16], [23,3,30,32,28,31,8,29,19,5,24,34,5,36,7,6,16],
     [20,4,25,20,22,28,5,25,6,24,14,32,19,4,31,9,16], [17,5,20,8,16,25,2,21,30,5,5,30,33,9,17,13,16],
     [14,6,15,33,9,22,36,16,17,24,32,27,10,15,3,17,16], [11,7,10,21,3,19,33,12,4,6,23,25,24,20,26,20,16],
     [8,8,5,9,34,15,30,8,28,24,13,23,1,26,12,24,16], [5,9,0,34,27,12,27,4,15,6,4,21,15,31,35,27,16],
     [2,10,32,21,21,9,24,0,2,25,31,18,29,36,21,31,16], [36,10,27,9,15,6,21,33,25,6,22,16,6,5,8,35,16],
     [33,11,22,34,8,3,18,29,12,25,12,14,20,10,31,1,17], [30,12,17,22,2,0,15,25,36,6,3,12,34,15,17,5,17]] @
    [[27,13,12,10,33,33,11,21,23,25,30,9,11,21,3,9,17], [24,14,7,35,26,30,8,17,10,7,21,7,25,26,26,12,17],
     [21,15,2,23,20,27,5,13,34,25,11,5,2,32,12,16,17], [18,16,34,10,14,24,2,9,21,7,2,3,16,0,36,19,17],
     [15,17,29,35,7,21,36,4,8,26,29,0,30,5,22,23,17], [12,18,24,23,1,18,33,0,32,7,20,35,6,11,8,27,17],
     [9,19,19,11,32,14,30,33,18,26,10,33,20,16,31,30,17], [6,20,14,36,25,11,27,29,5,8,1,31,34,21,17,34,17],
     [3,21,9,24,19,8,24,25,29,26,28,28,11,27,3,1,18], [0,22,4,12,13,5,21,21,16,8,19,26,25,32,26,4,18],
     [34,22,36,36,6,2,18,17,3,27,9,24,2,1,13,8,18], [31,23,31,24,0,36,14,13,27,8,0,22,16,6,36,11,18],
     [28,24,26,12,31,32,11,9,14,27,27,19,30,11,22,15,18], [25,25,21,0,25,29,8,5,1,9,18,17,7,17,8,19,18],
     [22,26,16,25,18,26,5,1,25,27,8,15,21,22,31,22,18], [19,27,11,13,12,23,2,34,11,9,36,12,35,27,17,26,18]] @
    [[16,28,6,1,6,20,36,29,35,27,26,10,12,33,3,30,18], [13,29,1,26,36,16,33,25,22,9,17,8,26,1,27,33,18],
     [10,30,33,13,30,13,30,21,9,28,7,6,3,7,13,0,19], [7,31,28,1,24,10,27,17,33,9,35,3,17,12,36,3,19],
     [4,32,23,26,17,7,24,13,20,28,25,1,31,17,22,7,19], [1,33,18,14,11,4,21,9,7,10,16,36,7,23,8,11,19],
     [35,33,13,2,5,1,18,5,31,28,6,34,21,28,31,14,19], [32,34,8,27,35,34,14,1,18,10,34,31,35,33,17,18,19],
     [29,35,3,15,29,31,11,34,4,29,24,29,12,2,4,22,19], [26,36,35,2,23,28,8,30,28,10,15,27,26,7,27,25,19],
     [23,0,31,27,16,25,5,26,15,29,5,25,3,13,13,29,19], [20,1,26,15,10,22,2,22,2,11,33,22,17,18,36,32,19],
     [17,2,21,3,4,19,36,17,26,29,23,20,31,23,22,36,19], [14,3,16,28,34,15,33,13,13,11,14,18,8,29,8,3,20],
     [11,4,11,16,28,12,30,9,0,30,4,16,22,34,31,6,20], [8,5,6,4,22,9,27,5,24,11,32,13,36,2,18,10,20]] @
    [[5,6,1,29,15,6,24,1,11,30,22,11,13,8,4,14,20], [2,7,33,16,9,3,21,34,34,11,13,9,27,13,27,17,20],
     [36,7,28,4,3,0,18,30,21,30,3,7,4,19,13,21,20], [33,8,23,29,33,33,14,26,8,12,31,4,18,24,36,24,20],
     [30,9,18,17,27,30,11,22,32,30,21,2,32,29,22,28,20], [27,10,13,5,21,27,8,18,19,12,12,0,9,35,8,32,20],
     [24,11,8,30,14,24,5,14,6,31,2,35,22,3,32,35,20], [21,12,3,18,8,21,2,10,30,12,30,32,36,8,18,2,21],
     [18,13,35,5,2,18,36,5,17,31,20,30,13,14,4,6,21], [15,14,30,30,32,14,33,1,4,13,11,28,27,19,27,9,21],
     [12,15,25,18,26,11,30,34,27,31,1,26,4,25,13,13,21], [9,16,20,6,20,8,27,30,14,13,29,23,18,30,36,16,21],
     [6,17,15,31,13,5,24,26,1,32,19,21,32,35,22,20,21], [3,18,10,19,7,2,21,22,25,13,10,19,9,4,9,24,21],
     [0,19,5,7,1,36,17,18,12,32,0,17,23,9,32,27,21], [34,19,0,32,31,32,14,14,36,13,28,14,0,15,18,31,21]] @
    [[31,20,32,19,25,29,11,10,23,32,18,12,14,20,4,35,21], [28,21,27,7,19,26,8,6,10,14,9,10,28,25,27,1,22],
     [25,22,22,32,12,23,5,2,34,32,36,7,5,31,13,5,22], [22,23,17,20,6,20,2,35,20,14,27,5,19,36,36,8,22],
     [19,24,12,8,0,17,36,30,7,33,17,3,33,4,23,12,22], [16,25,7,33,30,13,33,26,31,14,8,1,10,10,9,16,22],
     [13,26,2,21,24,10,30,22,18,33,35,35,23,15,32,19,22], [10,27,34,8,18,7,27,18,5,15,26,33,0,21,18,23,22],
     [7,28,29,33,11,4,24,14,29,33,16,31,14,26,4,27,22], [4,29,24,21,5,1,21,10,16,15,7,29,28,31,27,30,22],
     [1,30,19,9,36,34,17,6,3,34,34,26,5,0,14,34,22], [35,30,14,34,29,31,14,2,27,15,25,24,19,5,0,1,23],
     [32,31,9,22,23,28,11,35,13,34,15,22,33,10,23,4,23], [29,32,4,10,17,25,8,31,0,16,6,20,10,16,9,8,23],
     [26,33,36,34,10,22,5,27,24,34,33,17,24,21,32,11,23], [23,34,31,22,4,19,2,23,11,16,24,15,1,27,18,15,23]] @
    [[20,35,26,10,35,15,36,18,35,34,14,13,15,32,4,19,23], [17,36,21,35,28,12,33,14,22,16,5,11,29,0,28,22,23],
     [14,0,17,23,22,9,30,10,9,35,32,8,6,6,14,26,23], [11,1,12,11,16,6,27,6,33,16,23,6,20,11,0,30,23],
     [8,2,7,36,9,3,24,2,20,35,13,4,34,16,23,33,23], [5,3,2,24,3,0,21,35,6,17,4,2,11,22,9,0,24],
     [2,4,34,11,34,33,17,31,30,35,31,36,24,27,32,3,24], [36,4,29,36,27,30,14,27,17,17,22,34,1,33,18,7,24],
     [33,5,24,24,21,27,11,23,4,36,12,32,15,1,5,11,24], [30,6,19,12,15,24,8,19,28,17,3,30,29,6,28,14,24],
     [27,7,14,0,9,21,5,15,15,36,30,27,6,12,14,18,24], [24,8,9,25,2,18,2,11,2,18,21,25,20,17,0,22,24],
     [21,9,4,13,33,14,36,6,26,36,11,23,34,22,23,25,24], [18,10,36,0,27,11,33,2,13,18,2,21,11,28,9,29,24],
     [15,11,31,25,20,8,30,35,36,36,29,18,25,33,32,32,24], [12,12,26,13,14,5,27,31,23,18,20,16,2,2,19,36,24]]"

subsection \<open>Integrity\<close>

lemma BASE37_POS0_ok: "holds_rows 37 2 (256 ^ 0) BASE37_POS0"
  unfolding BASE37_POS0_def
  by (rule holds_rowsI [of 37 37 1 "256 ^ 0" _ "[1,0]"], simp, simp, simp, code_simp+)

lemma BASE37_POS1_ok: "holds_rows 37 4 (256 ^ 1) BASE37_POS1"
  unfolding BASE37_POS1_def
  by (rule holds_rowsI [of 37 37 256 "256 ^ 1" _ "[34,6,0,0]"], simp, simp, simp, code_simp+)

lemma BASE37_POS2_ok: "holds_rows 37 5 (256 ^ 2) BASE37_POS2"
  unfolding BASE37_POS2_def
  by (rule holds_rowsI [of 37 37 65536 "256 ^ 2" _ "[9,32,10,1,0]"], simp, simp, simp, code_simp+)

lemma BASE37_POS3_ok: "holds_rows 37 7 (256 ^ 3) BASE37_POS3"
  unfolding BASE37_POS3_def
  by (rule holds_rowsI [of 37 37 16777216 "256 ^ 3" _ "[10,3,8,35,8,0,0]"], simp, simp, simp, code_simp+)

lemma BASE37_POS4_ok: "holds_rows 37 8 (256 ^ 4) BASE37_POS4"
  unfolding BASE37_POS4_def
  by (rule holds_rowsI [of 37 37 4294967296 "256 ^ 4" _ "[7,23,35,24,34,24,1,0]"], simp, simp, simp, code_simp+)

lemma BASE37_POS5_ok: "holds_rows 37 10 (256 ^ 5) BASE37_POS5"
  unfolding BASE37_POS5_def
  by (rule holds_rowsI [of 37 37 1099511627776 "256 ^ 5" _ "[16,16,18,26,33,19,21,11,0,0]"], simp, simp, simp, code_simp+)

lemma BASE37_POS6_ok: "holds_rows 37 11 (256 ^ 6) BASE37_POS6"
  unfolding BASE37_POS6_def
  by (rule holds_rowsI [of 37 37 281474976710656 "256 ^ 6" _ "[26,25,22,12,10,28,0,5,6,2,0]"], simp, simp, simp, code_simp+)

lemma BASE37_POS7_ok: "holds_rows 37 13 (256 ^ 7) BASE37_POS7"
  unfolding BASE37_POS7_def
  by (rule holds_rowsI [of 37 37 72057594037927936 "256 ^ 7" _ "[33,30,0,10,20,24,10,27,16,36,14,0,0]"], simp, simp, simp, code_simp+)

lemma BASE37_POS8_ok: "holds_rows 37 14 (256 ^ 8) BASE37_POS8"
  unfolding BASE37_POS8_def
  by (rule holds_rowsI [of 37 37 18446744073709551616 "256 ^ 8" _ "[12,27,28,12,9,31,28,29,29,7,25,29,2,0]"], simp, simp, simp, code_simp+)

lemma BASE37_POS9_ok: "holds_rows 37 16 (256 ^ 9) BASE37_POS9"
  unfolding BASE37_POS9_def
  by (rule holds_rowsI [of 37 37 4722366482869645213696 "256 ^ 9" _ "[1,2,31,14,24,8,21,1,8,0,16,13,14,19,0,0]"], simp, simp, simp, code_simp+)

lemma BASE37_POS10_ok: "holds_rows 37 17 (256 ^ 10) BASE37_POS10"
  unfolding BASE37_POS10_def
  by (rule holds_rowsI [of 37 37 1208925819614629174706176 "256 ^ 10" _ "[34,0,32,24,30,33,33,32,23,18,27,34,13,5,23,3,0]"], simp, simp, simp, code_simp+)

end
