(* ===== verification/Table_Base37_High.thy ===== *)
theory Table_Base37_High
  imports Digits
begin

text \<open>
  The arrays \<open>BASE37_POS11\<close> to \<open>BASE37_POS15\<close> of
  \<open>fancy-garbling/base_conversion/cbits/lookup_tables.c\<close>, row for row as the file has them (in
  blocks of 16 rows), and for each the check that row \<open>x\<close> holds the base-37 digits of
  \<open>x * 256 ^ pos\<close>.
\<close>

definition BASE37_POS11 :: "int list list" where
  "BASE37_POS11 =
    [[0,0,0,0,0,0,0,0,0,0,0,0,0,0,0,0,0,0,0], [9,13,21,1,8,2,24,27,10,0,11,14,16,7,5,3,25,0,0],
     [18,26,5,3,16,4,11,18,21,0,22,28,32,14,10,6,13,1,0], [27,2,27,4,24,6,35,8,32,0,33,5,12,22,15,9,1,2,0],
     [36,15,11,6,32,8,22,36,5,1,7,20,28,29,20,12,26,2,0], [8,29,32,7,3,11,9,27,16,1,18,34,7,0,26,15,14,3,0],
     [17,5,17,9,11,13,33,17,27,1,29,11,24,7,31,18,2,4,0], [26,18,1,11,19,15,20,8,1,2,3,26,3,15,36,21,27,4,0],
     [35,31,22,12,27,17,7,36,11,2,14,3,20,22,4,25,15,5,0], [7,8,7,14,35,19,31,26,22,2,25,17,36,29,9,28,3,6,0],
     [16,21,28,15,6,22,18,17,33,2,36,31,15,0,15,31,28,6,0], [25,34,12,17,14,24,5,8,7,3,10,9,32,7,20,34,16,7,0],
     [34,10,34,18,22,26,29,35,17,3,21,23,11,15,25,0,5,8,0], [6,24,18,20,30,28,16,26,28,3,32,0,28,22,30,3,30,8,0],
     [15,0,3,22,1,31,3,17,2,4,6,15,7,30,35,6,18,9,0], [24,13,24,23,9,33,27,7,13,4,17,29,23,0,4,10,6,10,0]] @
    [[33,26,8,25,17,35,14,35,23,4,28,6,3,8,9,13,31,10,0], [5,3,30,26,25,0,2,26,34,4,2,21,19,15,14,16,19,11,0],
     [14,16,14,28,33,2,26,16,8,5,13,35,35,22,19,19,7,12,0], [23,29,35,29,4,5,13,7,19,5,24,12,15,30,24,22,32,12,0],
     [32,5,20,31,12,7,0,35,29,5,35,26,31,0,30,25,20,13,0], [4,19,4,33,20,9,24,25,3,6,9,4,11,8,35,28,8,14,0],
     [13,32,25,34,28,11,11,16,14,6,20,18,27,15,3,32,33,14,0], [22,8,10,36,36,13,35,6,25,6,31,32,6,23,8,35,21,15,0],
     [31,21,31,0,8,16,22,34,35,6,5,10,23,30,13,1,10,16,0], [3,35,15,2,16,18,9,25,9,7,16,24,2,1,19,4,35,16,0],
     [12,11,0,4,24,20,33,15,20,7,27,1,19,8,24,7,23,17,0], [21,24,21,5,32,22,20,6,31,7,1,16,35,15,29,10,11,18,0],
     [30,0,6,7,3,25,7,34,4,8,12,30,14,23,34,13,36,18,0], [2,14,27,8,11,27,31,24,15,8,23,7,31,30,2,17,24,19,0],
     [11,27,11,10,19,29,18,15,26,8,34,21,10,1,8,20,12,20,0], [20,3,33,11,27,31,5,6,0,9,8,36,26,8,13,23,0,21,0]] @
    [[29,16,17,13,35,33,29,33,10,9,19,13,6,16,18,26,25,21,0], [1,30,1,15,6,36,16,24,21,9,30,27,22,23,23,29,13,22,0],
     [10,6,23,16,14,1,4,15,32,9,4,5,2,31,28,32,1,23,0], [19,19,7,18,22,3,28,5,6,10,15,19,18,1,34,35,26,23,0],
     [28,32,28,19,30,5,15,33,16,10,26,33,34,8,2,2,15,24,0], [0,9,13,21,1,8,2,24,27,10,0,11,14,16,7,5,3,25,0],
     [9,22,34,22,9,10,26,14,1,11,11,25,30,23,12,8,28,25,0], [18,35,18,24,17,12,13,5,12,11,22,2,10,31,17,11,16,26,0],
     [27,11,3,26,25,14,0,33,22,11,33,16,26,1,23,14,4,27,0], [36,24,24,27,33,16,24,23,33,11,7,31,5,9,28,17,29,27,0],
     [8,1,9,29,4,19,11,14,7,12,18,8,22,16,33,20,17,28,0], [17,14,30,30,12,21,35,4,18,12,29,22,1,24,1,24,5,29,0],
     [26,27,14,32,20,23,22,32,28,12,3,0,18,31,6,27,30,29,0], [35,3,36,33,28,25,9,23,2,13,14,14,34,1,12,30,18,30,0],
     [7,17,20,35,36,27,33,13,13,13,25,28,13,9,17,33,6,31,0], [16,30,4,0,8,30,20,4,24,13,36,5,30,16,22,36,31,31,0]] @
    [[25,6,26,1,16,32,7,32,34,13,10,20,9,24,27,2,20,32,0], [34,19,10,3,24,34,31,22,8,14,21,34,25,31,32,5,8,33,0],
     [6,33,31,4,32,36,18,13,19,14,32,11,5,2,1,9,33,33,0], [15,9,16,6,3,2,6,4,30,14,6,26,21,9,6,12,21,34,0],
     [24,22,0,8,11,4,30,31,3,15,17,3,1,17,11,15,9,35,0], [33,35,21,9,19,6,17,22,14,15,28,17,17,24,16,18,34,35,0],
     [5,12,6,11,27,8,4,13,25,15,2,32,33,31,21,21,22,36,0], [14,25,27,12,35,10,28,3,36,15,13,9,13,2,27,24,10,0,1],
     [23,1,12,14,6,13,15,31,9,16,24,23,29,9,32,27,35,0,1], [32,14,33,15,14,15,2,22,20,16,35,0,9,17,0,31,23,1,1],
     [4,28,17,17,22,17,26,12,31,16,9,15,25,24,5,34,11,2,1], [13,4,2,19,30,19,13,3,5,17,20,29,4,32,10,0,0,3,1],
     [22,17,23,20,1,22,0,31,15,17,31,6,21,2,16,3,25,3,1], [31,30,7,22,9,24,24,21,26,17,5,21,0,10,21,6,13,4,1],
     [3,7,29,23,17,26,11,12,0,18,16,35,16,17,26,9,1,5,1], [12,20,13,25,25,28,35,2,11,18,27,12,33,24,31,12,26,5,1]] @
    [[21,33,34,26,33,30,22,30,21,18,1,27,12,32,36,15,14,6,1], [30,9,19,28,4,33,9,21,32,18,12,4,29,2,5,19,2,7,1],
     [2,23,3,30,12,35,33,11,6,19,23,18,8,10,10,22,27,7,1], [11,36,24,31,20,0,21,2,17,19,34,32,24,17,15,25,15,8,1],
     [20,12,9,33,28,2,8,30,27,19,8,10,4,25,20,28,3,9,1], [29,25,30,34,36,4,32,20,1,20,19,24,20,32,25,31,28,9,1],
     [1,2,15,36,7,7,19,11,12,20,30,1,0,3,31,34,16,10,1], [10,15,36,0,16,9,6,2,23,20,4,16,16,10,36,0,5,11,1],
     [19,28,20,2,24,11,30,29,33,20,15,30,32,17,4,4,30,11,1], [28,4,5,4,32,13,17,20,7,21,26,7,12,25,9,7,18,12,1],
     [0,18,26,5,3,16,4,11,18,21,0,22,28,32,14,10,6,13,1], [9,31,10,7,11,18,28,1,29,21,11,36,7,3,20,13,31,13,1],
     [18,7,32,8,19,20,15,29,2,22,22,13,24,10,25,16,19,14,1], [27,20,16,10,27,22,2,20,13,22,33,27,3,18,30,19,7,15,1],
     [36,33,0,12,35,24,26,10,24,22,7,5,20,25,35,22,32,15,1], [8,10,22,13,6,27,13,1,35,22,18,19,36,32,3,26,20,16,1]] @
    [[17,23,6,15,14,29,0,29,8,23,29,33,15,3,9,29,8,17,1], [26,36,27,16,22,31,24,19,19,23,3,11,32,10,14,32,33,17,1],
     [35,12,12,18,30,33,11,10,30,23,14,25,11,18,19,35,21,18,1], [7,26,33,19,1,36,35,0,4,24,25,2,28,25,24,1,10,19,1],
     [16,2,18,21,9,1,23,28,14,24,36,16,7,33,29,4,35,19,1], [25,15,2,23,17,3,10,19,25,24,10,31,23,3,35,7,23,20,1],
     [34,28,23,24,25,5,34,9,36,24,21,8,3,11,3,11,11,21,1], [6,5,8,26,33,7,21,0,10,25,32,22,19,18,8,14,36,21,1],
     [15,18,29,27,4,10,8,28,20,25,6,0,36,25,13,17,24,22,1], [24,31,13,29,12,12,32,18,31,25,17,14,15,33,18,20,12,23,1],
     [33,7,35,30,20,14,19,9,5,26,28,28,31,3,24,23,0,24,1], [5,21,19,32,28,16,6,0,16,26,2,6,11,11,29,26,25,24,1],
     [14,34,3,34,36,18,30,27,26,26,13,20,27,18,34,29,13,25,1], [23,10,25,35,7,21,17,18,0,27,24,34,6,26,2,33,1,26,1],
     [32,23,9,0,16,23,4,9,11,27,35,11,23,33,7,36,26,26,1], [4,0,31,1,24,25,28,36,21,27,9,26,2,4,13,2,15,27,1]] @
    [[13,13,15,3,32,27,15,27,32,27,20,3,19,11,18,5,3,28,1], [22,26,36,4,3,30,2,18,6,28,31,17,35,18,23,8,28,28,1],
     [31,2,21,6,11,32,26,8,17,28,5,32,14,26,28,11,16,29,1], [3,16,5,8,19,34,13,36,27,28,16,9,31,33,33,14,4,30,1],
     [12,29,26,9,27,36,0,27,1,29,27,23,10,4,2,18,29,30,1], [21,5,11,11,35,1,25,17,12,29,1,1,27,11,7,21,17,31,1],
     [30,18,32,12,6,4,12,8,23,29,12,15,6,19,12,24,5,32,1], [2,32,16,14,14,6,36,35,33,29,23,29,22,26,17,27,30,32,1],
     [11,8,1,16,22,8,23,26,7,30,34,6,2,34,22,30,18,33,1], [20,21,22,17,30,10,10,17,18,30,8,21,18,4,28,33,6,34,1],
     [29,34,6,19,1,13,34,7,29,30,19,35,34,11,33,36,31,34,1], [1,11,28,20,9,15,21,35,2,31,30,12,14,19,1,3,20,35,1],
     [10,24,12,22,17,17,8,26,13,31,4,27,30,26,6,6,8,36,1], [19,0,34,23,25,19,32,16,24,31,15,4,10,34,11,9,33,36,1],
     [28,13,18,25,33,21,19,7,35,31,26,18,26,4,17,12,21,0,2], [0,27,2,27,4,24,6,35,8,32,0,33,5,12,22,15,9,1,2]] @
    [[9,3,24,28,12,26,30,25,19,32,11,10,22,19,27,18,34,1,2], [18,16,8,30,20,28,17,16,30,32,22,24,1,27,32,21,22,2,2],
     [27,29,29,31,28,30,4,7,4,33,33,1,18,34,0,25,10,3,2], [36,5,14,33,36,32,28,34,14,33,7,16,34,4,6,28,35,3,2],
     [8,19,35,34,7,35,15,25,25,33,18,30,13,12,11,31,23,4,2], [17,32,19,36,15,0,3,16,36,33,29,7,30,19,16,34,11,5,2],
     [26,8,4,1,24,2,27,6,10,34,3,22,9,27,21,0,0,6,2], [35,21,25,2,32,4,14,34,20,34,14,36,25,34,26,3,25,6,2],
     [7,35,9,4,3,7,1,25,31,34,25,13,5,5,32,6,13,7,2], [16,11,31,5,11,9,25,15,5,35,36,27,21,12,0,10,1,8,2],
     [25,24,15,7,19,11,12,6,16,35,10,5,1,20,5,13,26,8,2], [34,0,0,9,27,13,36,33,26,35,21,19,17,27,10,16,14,9,2],
     [6,14,21,10,35,15,23,24,0,36,32,33,33,34,15,19,2,10,2], [15,27,5,12,6,18,10,15,11,36,6,11,13,5,21,22,27,10,2],
     [24,3,27,13,14,20,34,5,22,36,17,25,29,12,26,25,15,11,2], [33,16,11,15,22,22,21,33,32,36,28,2,9,20,31,28,3,12,2]] @
    [[5,30,32,16,30,24,8,24,6,0,3,17,25,27,36,31,28,12,2], [14,6,17,18,1,27,32,14,17,0,14,31,4,35,4,35,16,13,2],
     [23,19,1,20,9,29,19,5,28,0,25,8,21,5,10,1,5,14,2], [32,32,22,21,17,31,6,33,1,1,36,22,0,13,15,4,30,14,2],
     [4,9,7,23,25,33,30,23,12,1,10,0,17,20,20,7,18,15,2], [13,22,28,24,33,35,17,14,23,1,21,14,33,27,25,10,6,16,2],
     [22,35,12,26,4,1,5,5,34,1,32,28,12,35,30,13,31,16,2], [31,11,34,27,12,3,29,32,7,2,6,6,29,5,36,16,19,17,2],
     [3,25,18,29,20,5,16,23,18,2,17,20,8,13,4,20,7,18,2], [12,1,3,31,28,7,3,14,29,2,28,34,24,20,9,23,32,18,2],
     [21,14,24,32,36,9,27,4,3,3,2,12,4,28,14,26,20,19,2], [30,27,8,34,7,12,14,32,13,3,13,26,20,35,19,29,8,20,2],
     [2,4,30,35,15,14,1,23,24,3,24,3,0,6,25,32,33,20,2], [11,17,14,0,24,16,25,13,35,3,35,17,16,13,30,35,21,21,2],
     [20,30,35,1,32,18,12,4,9,4,9,32,32,20,35,1,10,22,2], [29,6,20,3,3,21,36,31,19,4,20,9,12,28,3,5,35,22,2]] @
    [[1,20,4,5,11,23,23,22,30,4,31,23,28,35,8,8,23,23,2], [10,33,25,6,19,25,10,13,4,5,5,1,8,6,14,11,11,24,2],
     [19,9,10,8,27,27,34,3,15,5,16,15,24,13,19,14,36,24,2], [28,22,31,9,35,29,21,31,25,5,27,29,3,21,24,17,24,25,2],
     [0,36,15,11,6,32,8,22,36,5,1,7,20,28,29,20,12,26,2], [9,12,0,13,14,34,32,12,10,6,12,21,36,35,34,23,0,27,2],
     [18,25,21,14,22,36,19,3,21,6,23,35,15,6,3,27,25,27,2], [27,1,6,16,30,1,7,31,31,6,34,12,32,13,8,30,13,28,2],
     [36,14,27,17,1,4,31,21,5,7,8,27,11,21,13,33,1,29,2], [8,28,11,19,9,6,18,12,16,7,19,4,28,28,18,36,26,29,2],
     [17,4,33,20,17,8,5,3,27,7,30,18,7,36,23,2,15,30,2], [26,17,17,22,25,10,29,30,0,8,4,33,23,6,29,5,3,31,2],
     [35,30,1,24,33,12,16,21,11,8,15,10,3,14,34,8,28,31,2], [7,7,23,25,4,15,3,12,22,8,26,24,19,21,2,12,16,32,2],
     [16,20,7,27,12,17,27,2,33,8,0,2,36,28,7,15,4,33,2], [25,33,28,28,20,19,14,30,6,9,11,16,15,36,12,18,29,33,2]] @
    [[34,9,13,30,28,21,1,21,17,9,22,30,31,6,18,21,17,34,2], [6,23,34,31,36,23,25,11,28,9,33,7,11,14,23,24,5,35,2],
     [15,36,18,33,7,26,12,2,2,10,7,22,27,21,28,27,30,35,2], [24,12,3,35,15,28,36,29,12,10,18,36,6,29,33,30,18,36,2],
     [33,25,24,36,23,30,23,20,23,10,29,13,23,36,1,34,6,0,3], [5,2,9,1,32,32,10,11,34,10,3,28,2,7,7,0,32,0,3],
     [14,15,30,2,3,35,34,1,8,11,14,5,19,14,12,3,20,1,3], [23,28,14,4,11,0,22,29,18,11,25,19,35,21,17,6,8,2,3],
     [32,4,36,5,19,2,9,20,29,11,36,33,14,29,22,9,33,2,3], [4,18,20,7,27,4,33,10,3,12,10,11,31,36,27,12,21,3,3],
     [13,31,4,9,35,6,20,1,14,12,21,25,10,7,33,15,9,4,3], [22,7,26,10,6,9,7,29,24,12,32,2,27,14,1,19,34,4,3],
     [31,20,10,12,14,11,31,19,35,12,6,17,6,22,6,22,22,5,3], [3,34,31,13,22,13,18,10,9,13,17,31,22,29,11,25,10,6,3],
     [12,10,16,15,30,15,5,1,20,13,28,8,2,0,17,28,35,6,3], [21,23,0,17,1,18,29,28,30,13,2,23,18,7,22,31,23,7,3]] @
    [[30,36,21,18,9,20,16,19,4,14,13,0,35,14,27,34,11,8,3], [2,13,6,20,17,22,3,10,15,14,24,14,14,22,32,0,0,9,3],
     [11,26,27,21,25,24,27,0,26,14,35,28,30,29,0,4,25,9,3], [20,2,12,23,33,26,14,28,36,14,9,6,10,0,6,7,13,10,3],
     [29,15,33,24,4,29,1,19,10,15,20,20,26,7,11,10,1,11,3], [1,29,17,26,12,31,25,9,21,15,31,34,5,15,16,13,26,11,3],
     [10,5,2,28,20,33,12,0,32,15,5,12,22,22,21,16,14,12,3], [19,18,23,29,28,35,36,27,5,16,16,26,1,30,26,19,2,13,3],
     [28,31,7,31,36,0,24,18,16,16,27,3,18,0,32,22,27,13,3], [0,8,29,32,7,3,11,9,27,16,1,18,34,7,0,26,15,14,3],
     [9,21,13,34,15,5,35,36,0,17,12,32,13,15,5,29,3,15,3], [18,34,34,35,23,7,22,27,11,17,23,9,30,22,10,32,28,15,3],
     [27,10,19,0,32,9,9,18,22,17,34,23,9,30,15,35,16,16,3], [36,23,3,2,3,12,33,8,33,17,8,1,26,0,21,1,5,17,3],
     [8,0,25,3,11,14,20,36,6,18,19,15,5,8,26,4,30,17,3], [17,13,9,5,19,16,7,27,17,18,30,29,21,15,31,7,18,18,3]] @
    [[26,26,30,6,27,18,31,17,28,18,4,7,1,23,36,10,6,19,3], [35,2,15,8,35,20,18,8,2,19,15,21,17,30,4,14,31,19,3],
     [7,16,36,9,6,23,5,36,12,19,26,35,33,0,10,17,19,20,3], [16,29,20,11,14,25,29,26,23,19,0,13,13,8,15,20,7,21,3],
     [25,5,5,13,22,27,16,17,34,19,11,27,29,15,20,23,32,21,3], [34,18,26,14,30,29,3,8,8,20,22,4,9,23,25,26,20,22,3],
     [6,32,10,16,1,32,27,35,18,20,33,18,25,30,30,29,8,23,3], [15,8,32,17,9,34,14,26,29,20,7,33,4,1,36,32,33,23,3],
     [24,21,16,19,17,36,1,17,3,21,18,10,21,8,4,36,21,24,3], [33,34,0,21,25,1,26,7,14,21,29,24,0,16,9,2,10,25,3],
     [5,11,22,22,33,3,13,35,24,21,3,2,17,23,14,5,35,25,3], [14,24,6,24,4,6,0,26,35,21,14,16,33,30,19,8,23,26,3],
     [23,0,28,25,12,8,24,16,9,22,25,30,12,1,25,11,11,27,3], [32,13,12,27,20,10,11,7,20,22,36,7,29,8,30,14,36,27,3],
     [4,27,33,28,28,12,35,34,30,22,10,22,8,16,35,17,24,28,3], [13,3,18,30,36,14,22,25,4,23,21,36,24,23,3,21,12,29,3]] @
    [[22,16,2,32,7,17,9,16,15,23,32,13,4,31,8,24,0,30,3], [31,29,23,33,15,19,33,6,26,23,6,28,20,1,14,27,25,30,3],
     [3,6,8,35,23,21,20,34,36,23,17,5,0,9,19,30,13,31,3], [12,19,29,36,31,23,7,25,10,24,28,19,16,16,24,33,1,32,3],
     [21,32,13,1,3,26,31,15,21,24,2,34,32,23,29,36,26,32,3], [30,8,35,2,11,28,18,6,32,24,13,11,12,31,34,2,15,33,3],
     [2,22,19,4,19,30,5,34,5,25,24,25,28,1,3,6,3,34,3], [11,35,3,6,27,32,29,24,16,25,35,2,8,9,8,9,28,34,3],
     [20,11,25,7,35,34,16,15,27,25,9,17,24,16,13,12,16,35,3], [29,24,9,9,6,0,4,6,1,26,20,31,3,24,18,15,4,36,3],
     [1,1,31,10,14,2,28,33,11,26,31,8,20,31,23,18,29,36,3], [10,14,15,12,22,4,15,24,22,26,5,23,36,1,29,21,17,0,4],
     [19,27,36,13,30,6,2,15,33,26,16,0,16,9,34,24,5,1,4], [28,3,21,15,1,9,26,5,7,27,27,14,32,16,2,28,30,1,4],
     [0,17,5,17,9,11,13,33,17,27,1,29,11,24,7,31,18,2,4], [9,30,26,18,17,13,0,24,28,27,12,6,28,31,12,34,6,3,4]] @
    [[18,6,11,20,25,15,24,14,2,28,23,20,7,2,18,0,32,3,4], [27,19,32,21,33,17,11,5,13,28,34,34,23,9,23,3,20,4,4],
     [36,32,16,23,4,20,35,32,23,28,8,12,3,17,28,6,8,5,4], [8,9,1,25,12,22,22,23,34,28,19,26,19,24,33,9,33,5,4],
     [17,22,22,26,20,24,9,14,8,29,30,3,36,31,1,13,21,6,4], [26,35,6,28,28,26,33,4,19,29,4,18,15,2,7,16,9,7,4],
     [35,11,28,29,36,28,20,32,29,29,15,32,31,9,12,19,34,7,4], [7,25,12,31,7,31,7,23,3,30,26,9,11,17,17,22,22,8,4],
     [16,1,34,32,15,33,31,13,14,30,0,24,27,24,22,25,10,9,4], [25,14,18,34,23,35,18,4,25,30,11,1,7,32,27,28,35,9,4],
     [34,27,2,36,31,0,6,32,35,30,22,15,23,2,33,31,23,10,4], [6,4,24,0,3,3,30,22,9,31,33,29,2,10,1,35,11,11,4],
     [15,17,8,2,11,5,17,13,20,31,7,7,19,17,6,1,0,12,4], [24,30,29,3,19,7,4,4,31,31,18,21,35,24,11,4,25,12,4],
     [33,6,14,5,27,9,28,31,4,32,29,35,14,32,16,7,13,13,4], [5,20,35,6,35,11,15,22,15,32,3,13,31,2,22,10,1,14,4]] @
    [[14,33,19,8,6,14,2,13,26,32,14,27,10,10,27,13,26,14,4], [23,9,4,10,14,16,26,3,0,33,25,4,27,17,32,16,14,15,4],
     [32,22,25,11,22,18,13,31,10,33,36,18,6,25,0,20,2,16,4], [4,36,9,13,30,20,0,22,21,33,10,33,22,32,5,23,27,16,4],
     [13,12,31,14,1,23,24,12,32,33,21,10,2,3,11,26,15,17,4], [22,25,15,16,9,25,11,3,6,34,32,24,18,10,16,29,3,18,4],
     [31,1,0,18,17,27,35,30,16,34,6,2,35,17,21,32,28,18,4], [3,15,21,19,25,29,22,21,27,34,17,16,14,25,26,35,16,19,4],
     [12,28,5,21,33,31,9,12,1,35,28,30,30,32,31,1,5,20,4], [21,4,27,22,4,34,33,2,12,35,2,8,10,3,0,5,30,20,4],
     [30,17,11,24,12,36,20,30,22,35,13,22,26,10,5,8,18,21,4], [2,31,32,25,20,1,8,21,33,35,24,36,5,18,10,11,6,22,4],
     [11,7,17,27,28,3,32,11,7,36,35,13,22,25,15,14,31,22,4], [20,20,1,29,36,5,19,2,18,36,9,28,1,33,20,17,19,23,4],
     [29,33,22,30,7,8,6,30,28,36,20,5,18,3,26,20,7,24,4], [1,10,7,32,15,10,30,20,2,0,32,19,34,10,31,23,32,24,4]]"

definition BASE37_POS12 :: "int list list" where
  "BASE37_POS12 =
    [[0,0,0,0,0,0,0,0,0,0,0,0,0,0,0,0,0,0,0,0], [10,23,28,33,23,12,17,11,13,0,6,34,13,18,36,26,20,25,4,0],
     [20,9,20,30,10,25,34,22,26,0,12,31,27,36,35,16,4,14,9,0], [30,32,11,27,34,0,15,34,2,1,18,28,4,18,35,6,25,2,14,0],
     [3,19,3,24,21,13,32,8,16,1,24,25,18,36,34,33,8,28,18,0],
     [13,5,32,20,8,26,12,20,29,1,30,22,32,17,34,23,29,16,23,0],
     [23,28,23,17,32,1,30,31,5,2,36,19,9,36,33,13,13,5,28,0],
     [33,14,15,14,19,14,10,6,19,2,5,17,23,17,33,3,34,30,32,0], [6,1,7,11,6,27,27,17,32,2,11,14,0,36,32,30,17,19,0,1],
     [16,24,35,7,30,2,8,29,8,3,17,11,14,17,32,20,1,8,5,1], [26,10,27,4,17,15,25,3,22,3,23,8,28,35,31,10,22,33,9,1],
     [36,33,18,1,4,28,5,15,35,3,29,5,5,17,31,0,6,22,14,1], [9,20,10,35,27,3,23,26,11,4,35,2,19,35,30,27,26,10,19,1],
     [19,6,2,32,14,16,3,1,25,4,4,0,33,16,30,17,10,36,23,1], [29,29,30,28,1,29,20,12,1,5,10,34,9,35,29,7,31,24,28,1],
     [2,16,22,25,25,4,1,24,14,5,16,31,23,16,29,34,14,13,33,1]] @
    [[12,2,14,22,12,17,18,35,27,5,22,28,0,35,28,24,35,1,1,2], [22,25,5,19,36,29,35,9,4,6,28,25,14,16,28,14,19,27,5,2],
     [32,11,34,15,23,5,16,21,17,6,34,22,28,34,27,4,3,16,10,2],
     [5,35,25,12,10,18,33,32,30,6,3,20,5,16,27,31,23,4,15,2], [15,21,17,9,34,30,13,7,7,7,9,17,19,34,26,21,7,30,19,2],
     [25,7,9,6,21,6,31,18,20,7,15,14,33,15,26,11,28,18,24,2], [35,30,0,3,8,19,11,30,33,7,21,11,10,34,25,1,12,7,29,2],
     [8,17,29,36,31,31,28,4,10,8,27,8,24,15,25,28,32,32,33,2], [18,3,21,33,18,7,9,16,23,8,33,5,1,34,24,18,16,21,1,3],
     [28,26,12,30,5,20,26,27,36,8,2,3,15,15,24,8,0,10,6,3], [1,13,4,27,29,32,6,2,13,9,8,0,29,33,23,35,20,35,10,3],
     [11,36,32,23,16,8,24,13,26,9,14,34,5,15,23,25,4,24,15,3],
     [21,22,24,20,3,21,4,25,2,10,20,31,19,33,22,15,25,12,20,3],
     [31,8,16,17,27,33,21,36,15,10,26,28,33,14,22,5,9,1,25,3],
     [4,32,7,14,14,9,2,11,29,10,32,25,10,33,21,32,29,26,29,3],
     [14,18,36,10,1,22,19,22,5,11,1,23,24,14,21,22,13,15,34,3]] @
    [[24,4,28,7,25,34,36,33,18,11,7,20,1,33,20,12,34,3,2,4], [34,27,19,4,12,10,17,8,32,11,13,17,15,14,20,2,18,29,6,4],
     [7,14,11,1,36,22,34,19,8,12,19,14,29,32,19,29,1,18,11,4],
     [17,0,3,35,22,35,14,31,21,12,25,11,6,14,19,19,22,6,16,4],
     [27,23,31,31,9,11,32,5,35,12,31,8,20,32,18,9,6,32,20,4],
     [0,10,23,28,33,23,12,17,11,13,0,6,34,13,18,36,26,20,25,4],
     [10,33,14,25,20,36,29,28,24,13,6,3,11,32,17,26,10,9,30,4],
     [20,19,6,22,7,12,10,3,1,14,12,0,25,13,17,16,31,34,34,4],
     [30,5,35,18,31,24,27,14,14,14,18,34,1,32,16,6,15,23,2,5],
     [3,29,26,15,18,0,8,26,27,14,24,31,15,13,16,33,35,11,7,5],
     [13,15,18,12,5,13,25,0,4,15,30,28,29,31,15,23,19,0,12,5],
     [23,1,10,9,29,25,5,12,17,15,36,25,6,13,15,13,3,26,16,5], [33,24,1,6,16,1,23,23,30,15,5,23,20,31,14,3,24,14,21,5],
     [6,11,30,2,3,14,3,35,6,16,11,20,34,12,14,30,7,3,26,5],
     [16,34,21,36,26,26,20,9,20,16,17,17,11,31,13,20,28,28,30,5],
     [26,20,13,33,13,2,1,21,33,16,23,14,25,12,13,10,12,17,35,5]] @
    [[36,6,5,30,0,15,18,32,9,17,29,11,2,31,12,0,33,5,3,6], [9,30,33,26,24,27,35,6,23,17,35,8,16,12,12,27,16,31,7,6],
     [19,16,25,23,11,3,16,18,36,17,4,6,30,30,11,17,0,20,12,6],
     [29,2,17,20,35,15,33,29,12,18,10,3,7,12,11,7,21,8,17,6], [2,26,8,17,22,28,13,4,26,18,16,0,21,30,10,34,4,34,21,6],
     [12,12,0,14,9,4,31,15,2,19,22,34,34,11,10,24,25,22,26,6],
     [22,35,28,10,33,16,11,27,15,19,28,31,11,30,9,14,9,11,31,6],
     [32,21,20,7,20,29,28,1,29,19,34,28,25,11,9,4,30,36,35,6], [5,8,12,4,7,5,9,13,5,20,3,26,2,30,8,31,13,25,3,7],
     [15,31,3,1,31,17,26,24,18,20,9,23,16,11,8,21,34,13,8,7],
     [25,17,32,34,17,30,6,36,31,20,15,20,30,29,7,11,18,2,13,7], [35,3,24,31,4,6,24,10,8,21,21,17,7,11,7,1,2,28,17,7],
     [8,27,15,28,28,18,4,22,21,21,27,14,21,29,6,28,22,16,22,7],
     [18,13,7,25,15,31,21,33,34,21,33,11,35,10,6,18,6,5,27,7], [28,36,35,21,2,7,2,8,11,22,2,9,12,29,5,8,27,30,31,7],
     [1,23,27,18,26,19,19,19,24,22,8,6,26,10,5,35,10,19,36,7]] @
    [[11,9,19,15,13,32,36,30,0,23,14,3,3,29,4,25,31,7,4,8], [21,32,10,12,0,8,17,5,14,23,20,0,17,10,4,15,15,33,8,8],
     [31,18,2,9,24,20,34,16,27,23,26,34,30,28,3,5,36,21,13,8], [4,5,31,5,11,33,14,28,3,24,32,31,7,10,3,32,19,10,18,8],
     [14,28,22,2,35,8,32,2,17,24,1,29,21,28,2,22,3,36,22,8],
     [24,14,14,36,21,21,12,14,30,24,7,26,35,9,2,12,24,24,27,8], [34,0,6,33,8,34,29,25,6,25,13,23,12,28,1,2,8,13,32,8],
     [7,24,34,29,32,9,10,0,20,25,19,20,26,9,1,29,28,1,0,9], [17,10,26,26,19,22,27,11,33,25,25,17,3,28,0,19,12,27,4,9],
     [27,33,17,23,6,35,7,23,9,26,31,14,17,9,0,9,33,15,9,9], [0,20,9,20,30,10,25,34,22,26,0,12,31,27,36,35,16,4,14,9],
     [10,6,1,17,17,23,5,9,36,26,6,9,8,9,36,25,0,30,18,9], [20,29,29,13,4,36,22,20,12,27,12,6,22,27,35,15,21,18,23,9],
     [30,15,21,10,28,11,3,32,25,27,18,3,36,8,35,5,5,7,28,9], [3,2,13,7,15,24,20,6,2,28,24,0,13,27,34,32,25,32,32,9],
     [13,25,4,4,2,0,1,18,15,28,30,34,26,8,34,22,9,21,0,10]] @
    [[23,11,33,0,26,12,18,29,28,28,36,31,3,27,33,12,30,9,5,10],
     [33,34,24,34,12,25,35,3,5,29,5,29,17,8,33,2,14,35,9,10],
     [6,21,16,31,36,0,16,15,18,29,11,26,31,26,32,29,34,23,14,10],
     [16,7,8,28,23,13,33,26,31,29,17,23,8,8,32,19,18,12,19,10],
     [26,30,36,24,10,26,13,1,8,30,23,20,22,26,31,9,2,1,24,10],
     [36,16,28,21,34,1,31,12,21,30,29,17,36,7,31,36,22,26,28,10],
     [9,3,20,18,21,14,11,24,34,30,35,14,13,26,30,26,6,15,33,10],
     [19,26,11,15,8,27,28,35,10,31,4,12,27,7,30,16,27,3,1,11], [29,12,3,12,32,2,9,10,24,31,10,9,4,26,29,6,11,29,5,11],
     [2,36,31,8,19,15,26,21,0,32,16,6,18,7,29,33,31,17,10,11],
     [12,22,23,5,6,28,6,33,13,32,22,3,32,25,28,23,15,6,15,11], [22,8,15,2,30,3,24,7,27,32,28,0,9,7,28,13,36,31,19,11],
     [32,31,6,36,16,16,4,19,3,33,34,34,22,25,27,3,20,20,24,11],
     [5,18,35,32,3,29,21,30,16,33,3,32,36,6,27,30,3,9,29,11],
     [15,4,27,29,27,4,2,5,30,33,9,29,13,25,26,20,24,34,33,11],
     [25,27,18,26,14,17,19,16,6,34,15,26,27,6,26,10,8,23,1,12]] @
    [[35,13,10,23,1,30,36,27,19,34,21,23,4,25,25,0,29,11,6,12],
     [8,0,2,20,25,5,17,2,33,34,27,20,18,6,25,27,12,0,11,12],
     [18,23,30,16,12,18,34,13,9,35,33,17,32,24,24,17,33,25,15,12],
     [28,9,22,13,36,30,14,25,22,35,2,15,9,6,24,7,17,14,20,12],
     [1,33,13,10,23,6,32,36,35,35,8,12,23,24,23,34,0,3,25,12],
     [11,19,5,7,10,19,12,11,12,36,14,9,0,6,23,24,21,28,29,12],
     [21,5,34,3,34,31,29,22,25,36,20,6,14,24,22,14,5,17,34,12], [31,28,25,0,21,7,10,34,1,0,27,3,28,5,22,4,26,5,2,13],
     [4,15,17,34,7,20,27,8,15,0,33,0,5,24,21,31,9,31,6,13], [14,1,9,31,31,32,7,20,28,0,2,35,18,5,21,21,30,19,11,13],
     [24,24,0,28,18,8,25,31,4,1,8,32,32,23,20,11,14,8,16,13], [34,10,29,24,5,21,5,6,18,1,14,29,9,5,20,1,35,33,20,13],
     [7,34,20,21,29,33,22,17,31,1,20,26,23,23,19,28,18,22,25,13],
     [17,20,12,18,16,9,3,29,7,2,26,23,0,5,19,18,2,11,30,13], [27,6,4,15,3,22,20,3,21,2,32,20,14,23,18,8,23,36,34,13],
     [0,30,32,11,27,34,0,15,34,2,1,18,28,4,18,35,6,25,2,14]] @
    [[10,16,24,8,14,10,18,26,10,3,7,15,5,23,17,25,27,13,7,14], [20,2,16,5,1,23,35,0,24,3,13,12,19,4,17,15,11,2,12,14],
     [30,25,7,2,25,35,15,12,0,4,19,9,33,22,16,5,32,27,16,14],
     [3,12,36,35,11,11,33,23,13,4,25,6,10,4,16,32,15,16,21,14],
     [13,35,27,32,35,23,13,35,26,4,31,3,24,22,15,22,36,4,26,14],
     [23,21,19,29,22,36,30,9,3,5,0,1,1,4,15,12,20,30,30,14], [33,7,11,26,9,12,11,21,16,5,6,35,14,22,14,2,4,19,35,14],
     [6,31,2,23,33,24,28,32,29,5,12,32,28,3,14,29,24,7,3,15], [16,17,31,19,20,0,9,7,6,6,18,29,5,22,13,19,8,33,7,15],
     [26,3,23,16,7,13,26,18,19,6,24,26,19,3,13,9,29,21,12,15],
     [36,26,14,13,31,25,6,30,32,6,30,23,33,21,12,36,12,10,17,15],
     [9,13,6,10,18,1,24,4,9,7,36,20,10,3,12,26,33,35,21,15], [19,36,34,6,5,14,4,16,22,7,5,18,24,21,11,16,17,24,26,15],
     [29,22,26,3,29,26,21,27,35,7,11,15,1,3,11,6,1,13,31,15], [2,9,18,0,16,2,2,2,12,8,17,12,15,21,10,33,21,1,36,15],
     [12,32,9,34,2,15,19,13,25,8,23,9,29,2,10,23,5,27,3,16]] @
    [[22,18,1,31,26,27,36,24,1,9,29,6,6,21,9,13,26,15,8,16], [32,4,30,27,13,3,17,36,14,9,35,3,20,2,9,3,10,4,13,16],
     [5,28,21,24,0,16,34,10,28,9,4,1,34,20,8,30,30,29,17,16],
     [15,14,13,21,24,28,14,22,4,10,10,35,10,2,8,20,14,18,22,16],
     [25,0,5,18,11,4,32,33,17,10,16,32,24,20,7,10,35,6,27,16],
     [35,23,33,14,35,16,12,8,31,10,22,29,1,2,7,0,19,32,31,16],
     [8,10,25,11,22,29,29,19,7,11,28,26,15,20,6,27,2,21,36,16],
     [18,33,16,8,9,5,10,31,20,11,34,23,29,1,6,17,23,9,4,17], [28,19,8,5,33,17,27,5,34,11,3,21,6,20,5,7,7,35,8,17],
     [1,6,0,2,20,30,7,17,10,12,9,18,20,1,5,34,27,23,13,17],
     [11,29,28,35,6,6,25,28,23,12,15,15,34,19,4,24,11,12,18,17],
     [21,15,20,32,30,18,5,3,0,13,21,12,11,1,4,14,32,0,23,17],
     [31,1,12,29,17,31,22,14,13,13,27,9,25,19,3,4,16,26,27,17], [4,25,3,26,4,7,3,26,26,13,33,6,2,1,3,31,36,14,32,17],
     [14,11,32,22,28,19,20,0,3,14,2,4,16,19,2,21,20,3,0,18], [24,34,23,19,15,32,0,12,16,14,8,1,30,0,2,11,4,29,4,18]] @
    [[34,20,15,16,2,8,18,23,29,14,14,35,6,19,1,1,25,17,9,18], [7,7,7,13,26,20,35,34,5,15,20,32,20,0,1,28,8,6,14,18],
     [17,30,35,9,13,33,15,9,19,15,26,29,34,18,0,18,29,31,18,18],
     [27,16,27,6,0,9,33,20,32,15,32,26,11,0,0,8,13,20,23,18], [0,3,19,3,24,21,13,32,8,16,1,24,25,18,36,34,33,8,28,18],
     [10,26,10,0,11,34,30,6,22,16,7,21,2,0,36,24,17,34,32,18],
     [20,12,2,34,34,9,11,18,35,16,13,18,16,18,35,14,1,23,0,19],
     [30,35,30,30,21,22,28,29,11,17,19,15,30,36,34,4,22,11,5,19],
     [3,22,22,27,8,35,8,4,25,17,25,12,7,18,34,31,5,0,10,19],
     [13,8,14,24,32,10,26,15,1,18,31,9,21,36,33,21,26,25,14,19],
     [23,31,5,21,19,23,6,27,14,18,0,7,35,17,33,11,10,14,19,19],
     [33,17,34,17,6,36,23,1,28,18,6,4,12,36,32,1,31,2,24,19],
     [6,4,26,14,30,11,4,13,4,19,12,1,26,17,32,28,14,28,28,19],
     [16,27,17,11,17,24,21,24,17,19,18,35,2,36,31,18,35,16,33,19],
     [26,13,9,8,4,0,2,36,30,19,24,32,16,17,31,8,19,5,1,20], [36,36,0,5,28,12,19,10,7,20,30,29,30,35,30,35,2,31,5,20]] @
    [[9,23,29,1,15,25,36,21,20,20,36,26,7,17,30,25,23,19,10,20],
     [19,9,21,35,1,1,17,33,33,20,5,24,21,35,29,15,7,8,15,20],
     [29,32,12,32,25,13,34,7,10,21,11,21,35,16,29,5,28,33,19,20],
     [2,19,4,29,12,26,14,19,23,21,17,18,12,35,28,32,11,22,24,20],
     [12,5,33,25,36,1,32,30,36,21,23,15,26,16,28,22,32,10,29,20],
     [22,28,24,22,23,14,12,5,13,22,29,12,3,35,27,12,16,36,33,20],
     [32,14,16,19,10,27,29,16,26,22,35,9,17,16,27,2,0,25,1,21], [5,1,8,16,34,2,10,28,2,23,4,7,31,34,26,29,20,13,6,21],
     [15,24,36,12,21,15,27,2,16,23,10,4,8,16,26,19,4,2,11,21],
     [25,10,28,9,8,28,7,14,29,23,16,1,22,34,25,9,25,27,15,21],
     [35,33,19,6,32,3,25,25,5,24,22,35,35,15,25,36,8,16,20,21],
     [8,20,11,3,19,16,5,0,19,24,28,32,12,34,24,26,29,4,25,21],
     [18,6,3,0,6,29,22,11,32,24,34,29,26,15,24,16,13,30,29,21],
     [28,29,31,33,29,4,3,23,8,25,3,27,3,34,23,6,34,18,34,21],
     [1,16,23,30,16,17,20,34,21,25,9,24,17,15,23,33,17,7,2,22],
     [11,2,15,27,3,30,0,9,35,25,15,21,31,33,22,23,1,33,6,22]] @
    [[21,25,6,24,27,5,18,20,11,26,21,18,8,15,22,13,22,21,11,22],
     [31,11,35,20,14,18,35,31,24,26,27,15,22,33,21,3,6,10,16,22],
     [4,35,26,17,1,31,15,6,1,27,33,12,36,14,21,30,26,35,20,22],
     [14,21,18,14,25,6,33,17,14,27,2,10,13,33,20,20,10,24,25,22],
     [24,7,10,11,12,19,13,29,27,27,8,7,27,14,20,10,31,12,30,22],
     [34,30,1,8,36,31,30,3,4,28,14,4,4,33,19,0,15,1,35,22], [7,17,30,4,23,7,11,15,17,28,20,1,18,14,19,27,35,26,2,23],
     [17,3,22,1,10,20,28,26,30,28,26,35,31,32,18,17,19,15,7,23],
     [27,26,13,35,33,32,8,1,7,29,32,32,8,14,18,7,3,4,12,23],
     [0,13,5,32,20,8,26,12,20,29,1,30,22,32,17,34,23,29,16,23],
     [10,36,33,28,7,21,6,24,33,29,7,27,36,13,17,24,7,18,21,23],
     [20,22,25,25,31,33,23,35,9,30,13,24,13,32,16,14,28,6,26,23],
     [30,8,17,22,18,9,4,10,23,30,19,21,27,13,16,4,12,32,30,23],
     [3,32,8,19,5,22,21,21,36,30,25,18,4,32,15,31,32,20,35,23],
     [13,18,0,16,29,34,1,33,12,31,31,15,18,13,15,21,16,9,3,24],
     [23,4,29,12,16,10,19,7,26,31,0,13,32,31,14,11,0,35,7,24]] @
    [[33,27,20,9,3,23,36,18,2,32,6,10,9,13,14,1,21,23,12,24],
     [6,14,12,6,27,35,16,30,15,32,12,7,23,31,13,28,4,12,17,24],
     [16,0,4,3,14,11,34,4,29,32,18,4,0,13,13,18,25,0,22,24], [26,23,32,36,0,24,14,16,5,33,24,1,14,31,12,8,9,26,26,24],
     [36,9,24,33,24,36,31,27,18,33,30,35,27,12,12,35,29,14,31,24],
     [9,33,15,30,11,12,12,2,32,33,36,32,4,31,11,25,13,3,36,24],
     [19,19,7,27,35,24,29,13,8,34,5,30,18,12,11,15,34,28,3,25],
     [29,5,36,23,22,0,10,25,21,34,11,27,32,30,10,5,18,17,8,25],
     [2,29,27,20,9,13,27,36,34,34,17,24,9,12,10,32,1,6,13,25],
     [12,15,19,17,33,25,7,11,11,35,23,21,23,30,9,22,22,31,17,25],
     [22,1,11,14,20,1,25,22,24,35,29,18,0,12,9,12,6,20,22,25], [32,24,2,11,7,14,5,34,0,36,35,15,14,30,8,2,27,8,27,25],
     [5,11,31,7,31,26,22,8,14,36,4,13,28,11,8,29,10,34,31,25],
     [15,34,22,4,18,2,3,20,27,36,10,10,5,30,7,19,31,22,36,25], [25,20,14,1,5,15,20,31,3,0,17,7,19,11,7,9,15,11,4,26],
     [35,6,6,35,28,27,0,6,17,0,23,4,33,29,6,36,35,36,8,26]] @
    [[8,30,34,31,15,3,18,17,30,0,29,1,10,11,6,26,19,25,13,26],
     [18,16,26,28,2,16,35,28,6,1,35,35,23,29,5,16,3,14,18,26], [28,2,18,25,26,28,15,3,20,1,4,33,0,11,5,6,24,2,23,26],
     [1,26,9,22,13,4,33,14,33,1,10,30,14,29,4,33,7,28,27,26],
     [11,12,1,19,0,17,13,26,9,2,16,27,28,10,4,23,28,16,32,26],
     [21,35,29,15,24,29,30,0,23,2,22,24,5,29,3,13,12,5,0,27],
     [31,21,21,12,11,5,11,12,36,2,28,21,19,10,3,3,33,30,4,27],
     [4,8,13,9,35,17,28,23,12,3,34,18,33,28,2,30,16,19,9,27], [14,31,4,6,22,30,8,35,25,3,3,16,10,10,2,20,0,8,14,27],
     [24,17,33,2,9,6,26,9,2,4,9,13,24,28,1,10,21,33,18,27], [34,3,25,36,32,18,6,21,15,4,15,10,1,10,1,0,5,22,23,27],
     [7,27,16,33,19,31,23,32,28,4,21,7,15,28,0,27,25,10,28,27], [17,13,8,30,6,7,4,7,5,5,27,4,29,9,0,17,9,36,32,27],
     [27,36,36,26,30,19,21,18,18,5,33,1,6,28,36,6,30,24,0,28],
     [0,23,28,23,17,32,1,30,31,5,2,36,19,9,36,33,13,13,5,28], [10,9,20,20,4,8,19,4,8,6,8,33,33,27,35,23,34,1,10,28]] @
    [[20,32,11,17,28,20,36,15,21,6,14,30,10,9,35,13,18,27,14,28],
     [30,18,3,14,15,33,16,27,34,6,20,27,24,27,34,3,2,16,19,28], [3,5,32,10,2,9,34,1,11,7,26,24,1,9,34,30,22,4,24,28],
     [13,28,23,7,26,21,14,13,24,7,32,21,15,27,33,20,6,30,28,28],
     [23,14,15,4,13,34,31,24,0,8,1,19,29,8,33,10,27,18,33,28], [33,0,7,1,0,10,12,36,13,8,7,16,6,27,32,0,11,7,1,29],
     [6,24,35,34,23,22,29,10,27,8,13,13,20,8,32,27,31,32,5,29],
     [16,10,27,31,10,35,9,22,3,9,19,10,34,26,31,17,15,21,10,29],
     [26,33,18,28,34,10,27,33,16,9,25,7,11,8,31,7,36,9,15,29],
     [36,19,10,25,21,23,7,8,30,9,31,4,25,26,30,34,19,35,19,29], [9,6,2,22,8,36,24,19,6,10,0,2,2,8,30,24,3,24,24,29],
     [19,29,30,18,32,11,5,31,19,10,6,36,15,26,29,14,24,12,29,29],
     [29,15,22,15,19,24,22,5,33,10,12,33,29,7,29,4,8,1,34,29], [2,2,14,12,6,0,3,17,9,11,18,30,6,26,28,31,28,26,1,30],
     [12,25,5,9,30,12,20,28,22,11,24,27,20,7,28,21,12,15,6,30],
     [22,11,34,5,17,25,0,3,36,11,30,24,34,25,27,11,33,3,11,30]] @
    [[32,34,25,2,4,1,18,14,12,12,36,21,11,7,27,1,17,29,15,30],
     [5,21,17,36,27,13,35,25,25,12,5,19,25,25,26,28,0,18,20,30],
     [15,7,9,33,14,26,15,0,2,13,11,16,2,7,26,18,21,6,25,30], [25,30,0,30,1,2,33,11,15,13,17,13,16,25,25,8,5,32,29,30],
     [35,16,29,26,25,14,13,23,28,13,23,10,30,6,25,35,25,20,34,30],
     [8,3,21,23,12,27,30,34,4,14,29,7,7,25,24,25,9,9,2,31], [18,26,12,20,36,2,11,9,18,14,35,4,21,6,24,15,30,34,6,31],
     [28,12,4,17,23,15,28,20,31,14,4,2,35,24,23,5,14,23,11,31],
     [1,36,32,13,10,28,8,32,7,15,10,36,11,6,23,32,34,11,16,31],
     [11,22,24,10,34,3,26,6,21,15,16,33,25,24,22,22,18,0,21,31],
     [21,8,16,7,21,16,6,18,34,15,22,30,2,6,22,12,2,26,25,31],
     [31,31,7,4,8,29,23,29,10,16,28,27,16,24,21,2,23,14,30,31], [4,18,36,0,32,4,4,4,24,16,34,24,30,5,21,29,6,3,35,31],
     [14,4,28,34,18,17,21,15,0,17,3,22,7,24,20,19,27,28,2,32],
     [24,27,19,31,5,30,1,27,13,17,9,19,21,5,20,9,11,17,7,32],
     [34,13,11,28,29,5,19,1,27,17,15,16,35,23,19,36,31,5,12,32]]"

definition BASE37_POS13 :: "int list list" where
  "BASE37_POS13 =
    [[0,0,0,0,0,0,0,0,0,0,0,0,0,0,0,0,0,0,0,0,0,0], [7,0,3,25,16,18,36,12,3,18,21,13,12,5,19,26,15,31,16,32,0,0],
     [14,0,6,13,33,36,35,25,6,36,5,27,24,10,1,16,31,25,33,27,1,0],
     [21,0,9,1,13,18,35,1,10,17,27,3,0,16,20,5,10,20,13,23,2,0],
     [28,0,12,26,29,36,34,14,13,35,11,17,12,21,2,32,25,14,30,18,3,0],
     [35,0,15,14,9,18,34,27,16,16,33,30,24,26,21,21,4,9,10,14,4,0],
     [5,1,18,2,26,36,33,3,20,34,17,7,0,32,3,11,20,3,27,9,5,0],
     [12,1,21,27,5,18,33,16,23,15,2,21,12,0,23,0,36,34,6,5,6,0],
     [19,1,24,15,22,36,32,29,26,33,23,34,24,5,5,27,14,29,23,0,7,0],
     [26,1,27,3,2,18,32,5,30,14,8,11,0,11,24,16,30,23,3,33,7,0],
     [33,1,30,28,18,36,31,18,33,32,29,24,12,16,6,6,9,18,20,28,8,0],
     [3,2,33,16,35,17,31,31,36,13,14,1,25,21,25,32,24,12,0,24,9,0],
     [10,2,36,4,15,36,30,7,3,32,35,14,0,27,7,22,3,7,17,19,10,0],
     [17,2,2,30,31,17,30,20,6,13,20,28,12,32,26,11,19,1,34,14,11,0],
     [24,2,5,18,11,36,29,33,9,31,4,5,25,0,9,1,35,32,13,10,12,0],
     [31,2,8,6,28,17,29,9,13,12,26,18,0,6,28,27,13,27,30,5,13,0]] @
    [[1,3,11,31,7,36,28,22,16,30,10,32,12,11,10,17,29,21,10,1,14,0],
     [8,3,14,19,24,17,28,35,19,11,32,8,25,16,29,6,8,16,27,33,14,0],
     [15,3,17,7,4,36,27,11,23,29,16,22,0,22,11,33,23,10,7,29,15,0],
     [22,3,20,32,20,17,27,24,26,10,1,36,12,27,30,22,2,5,24,24,16,0],
     [29,3,23,20,0,36,26,0,30,28,22,12,25,32,12,12,18,36,3,20,17,0],
     [36,3,26,8,17,17,26,13,33,9,7,26,0,1,32,1,34,30,20,15,18,0],
     [6,4,29,33,33,35,25,26,36,27,28,2,13,6,14,28,12,25,0,11,19,0],
     [13,4,32,21,13,17,25,2,3,9,13,16,25,11,33,17,28,19,17,6,20,0],
     [20,4,35,9,30,35,24,15,6,27,34,29,0,17,15,7,7,14,34,1,21,0],
     [27,4,1,35,9,17,24,28,9,8,19,6,13,22,34,33,22,8,14,34,21,0],
     [34,4,4,23,26,35,23,4,13,26,3,20,25,27,16,23,1,3,31,29,22,0],
     [4,5,7,11,6,17,23,17,16,7,25,33,0,33,35,12,17,34,10,25,23,0],
     [11,5,10,36,22,35,22,30,19,25,9,10,13,1,18,2,33,28,27,20,24,0],
     [18,5,13,24,2,17,22,6,23,6,31,23,25,6,0,29,11,23,7,16,25,0],
     [25,5,16,12,19,35,21,19,26,24,15,0,1,12,19,18,27,17,24,11,26,0],
     [32,5,19,0,36,16,21,32,29,5,0,14,13,17,1,8,6,12,4,7,27,0]] @
    [[2,6,22,25,15,35,20,8,33,23,21,27,25,22,20,34,21,6,21,2,28,0],
     [9,6,25,13,32,16,20,21,36,4,6,4,1,28,2,24,0,1,1,35,28,0],
     [16,6,28,1,12,35,19,34,2,23,27,17,13,33,21,13,16,32,17,30,29,0],
     [23,6,31,26,28,16,19,10,6,4,12,31,25,1,4,3,32,26,34,25,30,0],
     [30,6,34,14,8,35,18,23,9,22,33,7,1,7,23,29,10,21,14,21,31,0],
     [0,7,0,3,25,16,18,36,12,3,18,21,13,12,5,19,26,15,31,16,32,0],
     [7,7,3,28,4,35,17,12,16,21,2,35,25,17,24,8,5,10,11,12,33,0],
     [14,7,6,16,21,16,17,25,19,2,24,11,1,23,6,35,20,4,28,7,34,0],
     [21,7,9,4,1,35,16,1,23,20,8,25,13,28,25,24,36,35,7,3,35,0],
     [28,7,12,29,17,16,16,14,26,1,30,1,26,33,7,14,15,30,24,35,35,0],
     [35,7,15,17,34,34,15,27,29,19,14,15,1,2,27,3,31,24,4,31,36,0],
     [5,8,18,5,14,16,15,3,33,0,36,28,13,7,9,30,9,19,21,26,0,1],
     [12,8,21,30,30,34,14,16,36,18,20,5,26,12,28,19,25,13,1,22,1,1],
     [19,8,24,18,10,16,14,29,2,0,5,19,1,18,10,9,4,8,18,17,2,1],
     [26,8,27,6,27,34,13,5,6,18,26,32,13,23,29,35,19,2,35,12,3,1],
     [33,8,30,31,6,16,13,18,9,36,10,9,26,28,11,25,35,33,14,8,4,1]] @
    [[3,9,33,19,23,34,12,31,12,17,32,22,1,34,30,14,14,28,31,3,5,1],
     [10,9,36,7,3,16,12,7,16,35,16,36,13,2,13,4,30,22,11,36,5,1],
     [17,9,2,33,19,34,11,20,19,16,1,13,26,7,32,30,8,17,28,31,6,1],
     [24,9,5,21,36,15,11,33,22,34,22,26,1,13,14,20,24,11,8,27,7,1],
     [31,9,8,9,16,34,10,9,26,15,7,3,14,18,33,9,3,6,25,22,8,1],
     [1,10,11,34,32,15,10,22,29,33,28,16,26,23,15,36,18,0,5,18,9,1],
     [8,10,14,22,12,34,9,35,32,14,13,30,1,29,34,25,34,31,21,13,10,1],
     [15,10,17,10,29,15,9,11,36,32,34,6,14,34,16,15,13,26,1,9,11,1],
     [22,10,20,35,8,34,8,24,2,14,19,20,26,2,36,4,29,20,18,4,12,1],
     [29,10,23,23,25,15,8,0,6,32,3,34,1,8,18,31,7,15,35,36,12,1],
     [36,10,26,11,5,34,7,13,9,13,25,10,14,13,0,21,23,9,15,32,13,1],
     [6,11,29,36,21,15,7,26,12,31,9,24,26,18,19,10,2,4,32,27,14,1],
     [13,11,32,24,1,34,6,2,16,12,31,0,2,24,1,0,18,35,11,23,15,1],
     [20,11,35,12,18,15,6,15,19,30,15,14,14,29,20,26,33,29,28,18,16,1],
     [27,11,1,1,35,33,5,28,22,11,0,28,26,34,2,16,12,24,8,14,17,1],
     [34,11,4,26,14,15,5,4,26,29,21,4,2,3,22,5,28,18,25,9,18,1]] @
    [[4,12,7,14,31,33,4,17,29,10,6,18,14,8,4,32,6,13,5,5,19,1],
     [11,12,10,2,11,15,4,30,32,28,27,31,26,13,23,21,22,7,22,0,20,1],
     [18,12,13,27,27,33,3,6,36,9,12,8,2,19,5,11,1,2,2,33,20,1],
     [25,12,16,15,7,15,3,19,2,28,33,21,14,24,24,0,17,33,18,28,21,1],
     [32,12,19,3,24,33,2,32,5,9,18,35,26,29,6,27,32,27,35,23,22,1],
     [2,13,22,28,3,15,2,8,9,27,2,12,2,35,25,16,11,22,15,19,23,1],
     [9,13,25,16,20,33,1,21,12,8,24,25,14,3,8,6,27,16,32,14,24,1],
     [16,13,28,4,0,15,1,34,15,26,8,2,27,8,27,32,5,11,12,10,25,1],
     [23,13,31,29,16,33,0,10,19,7,30,15,2,14,9,22,21,5,29,5,26,1],
     [30,13,34,17,33,14,0,23,22,25,14,29,14,19,28,11,0,0,9,1,27,1],
     [0,14,0,6,13,33,36,35,25,6,36,5,27,24,10,1,16,31,25,33,27,1],
     [7,14,3,31,29,14,36,11,29,24,20,19,2,30,29,27,31,25,5,29,28,1],
     [14,14,6,19,9,33,35,24,32,5,5,33,14,35,11,17,10,20,22,24,29,1],
     [21,14,9,7,26,14,35,0,36,23,26,9,27,3,31,6,26,14,2,20,30,1],
     [28,14,12,32,5,33,34,13,2,5,11,23,2,9,13,33,4,9,19,15,31,1],
     [35,14,15,20,22,14,34,26,5,23,32,36,14,14,32,22,20,3,36,10,32,1]] @
    [[5,15,18,8,2,33,33,2,9,4,17,13,27,19,14,12,36,34,15,6,33,1],
     [12,15,21,33,18,14,33,15,12,22,1,27,2,25,33,1,15,29,32,1,34,1],
     [19,15,24,21,35,32,32,28,15,3,23,3,15,30,15,28,30,23,12,34,34,1],
     [26,15,27,9,15,14,32,4,19,21,7,17,27,35,34,17,9,18,29,29,35,1],
     [33,15,30,34,31,32,31,17,22,2,29,30,2,4,17,7,25,12,9,25,36,1],
     [3,16,33,22,11,14,31,30,25,20,13,7,15,9,36,33,3,7,26,20,0,2],
     [10,16,36,10,28,32,30,6,29,1,35,20,27,14,18,23,19,1,6,16,1,2],
     [17,16,2,36,7,14,30,19,32,19,19,34,2,20,0,13,35,32,22,11,2,2],
     [24,16,5,24,24,32,29,32,35,0,4,11,15,25,19,2,14,27,2,7,3,2],
     [31,16,8,12,4,14,29,8,2,19,25,24,27,30,1,29,29,21,19,2,4,2],
     [1,17,11,0,21,32,28,21,5,0,10,1,3,36,20,18,8,16,36,34,4,2],
     [8,17,14,25,0,14,28,34,8,18,31,14,15,4,3,8,24,10,16,30,5,2],
     [15,17,17,13,17,32,27,10,12,36,15,28,27,9,22,34,2,5,33,25,6,2],
     [22,17,20,1,34,13,27,23,15,17,0,5,3,15,4,24,18,36,12,21,7,2],
     [29,17,23,26,13,32,26,36,18,35,21,18,15,20,23,13,34,30,29,16,8,2],
     [36,17,26,14,30,13,26,12,22,16,6,32,27,25,5,3,13,25,9,12,9,2]] @
    [[6,18,29,2,10,32,25,25,25,34,27,8,3,31,24,29,28,19,26,7,10,2],
     [13,18,32,27,26,13,25,1,29,15,12,22,15,36,6,19,7,14,6,3,11,2],
     [20,18,35,15,6,32,24,14,32,33,33,35,27,4,26,8,23,8,23,35,11,2],
     [27,18,1,4,23,13,24,27,35,14,18,12,3,10,8,35,1,3,3,31,12,2],
     [34,18,4,29,2,32,23,3,2,33,2,26,15,15,27,24,17,34,19,26,13,2],
     [4,19,7,17,19,13,23,16,5,14,24,2,28,20,9,14,33,28,36,21,14,2],
     [11,19,10,5,36,31,22,29,8,32,8,16,3,26,28,3,12,23,16,17,15,2],
     [18,19,13,30,15,13,22,5,12,13,30,29,15,31,10,30,27,17,33,12,16,2],
     [25,19,16,18,32,31,21,18,15,31,14,6,28,36,29,19,6,12,13,8,17,2],
     [32,19,19,6,12,13,21,31,18,12,36,19,3,5,12,9,22,6,30,3,18,2],
     [2,20,22,31,28,31,20,7,22,30,20,33,15,10,31,35,0,1,10,36,18,2],
     [9,20,25,19,8,13,20,20,25,11,5,10,28,15,13,25,16,32,26,31,19,2],
     [16,20,28,7,25,31,19,33,28,29,26,23,3,21,32,14,32,26,6,27,20,2],
     [23,20,31,32,4,13,19,9,32,10,11,0,16,26,14,4,11,21,23,22,21,2],
     [30,20,34,20,21,31,18,22,35,28,32,13,28,31,33,30,26,15,3,18,22,2],
     [0,21,0,9,1,13,18,35,1,10,17,27,3,0,16,20,5,10,20,13,23,2]] @
    [[7,21,3,34,17,31,17,11,5,28,1,4,16,5,35,9,21,4,0,9,24,2],
     [14,21,6,22,34,12,17,24,8,9,23,17,28,10,17,36,36,35,16,4,25,2],
     [21,21,9,10,14,31,16,0,12,27,7,31,3,16,36,25,15,30,33,36,25,2],
     [28,21,12,35,30,12,16,13,15,8,29,7,16,21,18,15,31,24,13,32,26,2],
     [35,21,15,23,10,31,15,26,18,26,13,21,28,26,0,5,10,19,30,27,27,2],
     [5,22,18,11,27,12,15,2,22,7,35,34,3,32,19,31,25,13,10,23,28,2],
     [12,22,21,36,6,31,14,15,25,25,19,11,16,0,2,21,4,8,27,18,29,2],
     [19,22,24,24,23,12,14,28,28,6,4,25,28,5,21,10,20,2,7,14,30,2],
     [26,22,27,12,3,31,13,4,32,24,25,1,4,11,3,0,36,33,23,9,31,2],
     [33,22,30,0,20,12,13,17,35,5,10,15,16,16,22,26,14,28,3,5,32,2],
     [3,23,33,25,36,30,12,30,1,24,31,28,28,21,4,16,30,22,20,0,33,2],
     [10,23,36,13,16,12,12,6,5,5,16,5,4,27,23,5,9,17,0,33,33,2],
     [17,23,2,2,33,30,11,19,8,23,0,19,16,32,5,32,24,11,17,28,34,2],
     [24,23,5,27,12,12,11,32,11,4,22,32,28,0,25,21,3,6,34,23,35,2],
     [31,23,8,15,29,30,10,8,15,22,6,9,4,6,7,11,19,0,14,19,36,2],
     [1,24,11,3,9,12,10,21,18,3,28,22,16,11,26,0,35,31,30,14,0,3]] @
    [[8,24,14,28,25,30,9,34,21,21,12,36,28,16,8,27,13,26,10,10,1,3],
     [15,24,17,16,5,12,9,10,25,2,34,12,4,22,27,16,29,20,27,5,2,3],
     [22,24,20,4,22,30,8,23,28,20,18,26,16,27,9,6,8,15,7,1,3,3],
     [29,24,23,29,1,12,8,36,31,1,3,3,29,32,28,32,23,9,24,33,3,3],
     [36,24,26,17,18,30,7,12,35,19,24,16,4,1,11,22,2,4,4,29,4,3],
     [6,25,29,5,35,11,7,25,1,1,9,30,16,6,30,11,18,35,20,24,5,3],
     [13,25,32,30,14,30,6,1,5,19,30,6,29,11,12,1,34,29,0,20,6,3],
     [20,25,35,18,31,11,6,14,8,0,15,20,4,17,31,27,12,24,17,15,7,3],
     [27,25,1,7,11,30,5,27,11,18,36,33,16,22,13,17,28,18,34,10,8,3],
     [34,25,4,32,27,11,5,3,15,36,20,10,29,27,32,6,7,13,14,6,9,3],
     [4,26,7,20,7,30,4,16,18,17,5,24,4,33,14,33,22,7,31,1,10,3],
     [11,26,10,8,24,11,4,29,21,35,26,0,17,1,34,22,1,2,11,34,10,3],
     [18,26,13,33,3,30,3,5,25,16,11,14,29,6,16,12,17,33,27,29,11,3],
     [25,26,16,21,20,11,3,18,28,34,32,27,4,12,35,1,33,27,7,25,12,3],
     [32,26,19,9,0,30,2,31,31,15,17,4,17,17,17,28,11,22,24,20,13,3],
     [2,27,22,34,16,11,2,7,35,33,1,18,29,22,36,17,27,16,4,16,14,3]] @
    [[9,27,25,22,33,29,1,20,1,15,23,31,4,28,18,7,6,11,21,11,15,3],
     [16,27,28,10,13,11,1,33,4,33,7,8,17,33,0,34,21,5,1,7,16,3],
     [23,27,31,35,29,29,0,9,8,14,29,21,29,1,20,23,0,0,18,2,17,3],
     [30,27,34,23,9,11,0,22,11,32,13,35,4,7,2,13,16,31,34,34,17,3],
     [0,28,0,12,26,29,36,34,14,13,35,11,17,12,21,2,32,25,14,30,18,3],
     [7,28,3,0,6,11,36,10,18,31,19,25,29,17,3,29,10,20,31,25,19,3],
     [14,28,6,25,22,29,35,23,21,12,4,2,5,23,22,18,26,14,11,21,20,3],
     [21,28,9,13,2,11,35,36,24,30,25,15,17,28,4,8,5,9,28,16,21,3],
     [28,28,12,1,19,29,34,12,28,11,10,29,29,33,23,34,20,3,8,12,22,3],
     [35,28,15,26,35,10,34,25,31,29,31,5,5,2,6,24,36,34,24,7,23,3],
     [5,29,18,14,15,29,33,1,35,10,16,19,17,7,25,13,15,29,4,3,24,3],
     [12,29,21,2,32,10,33,14,1,29,0,33,29,12,7,3,31,23,21,35,24,3],
     [19,29,24,27,11,29,32,27,4,10,22,9,5,18,26,29,9,18,1,31,25,3],
     [26,29,27,15,28,10,32,3,8,28,6,23,17,23,8,19,25,12,18,26,26,3],
     [33,29,30,3,8,29,31,16,11,9,28,36,29,28,27,8,4,7,35,21,27,3],
     [3,30,33,28,24,10,31,29,14,27,12,13,5,34,9,35,19,1,15,17,28,3]] @
    [[10,30,36,16,4,29,30,5,18,8,34,26,17,2,29,24,35,32,31,12,29,3],
     [17,30,2,5,21,10,30,18,21,26,18,3,30,7,11,14,14,27,11,8,30,3],
     [24,30,5,30,0,29,29,31,24,7,3,17,5,13,30,3,30,21,28,3,31,3],
     [31,30,8,18,17,10,29,7,28,25,24,30,17,18,12,30,8,16,8,36,31,3],
     [1,31,11,6,34,28,28,20,31,6,9,7,30,23,31,19,24,10,25,31,32,3],
     [8,31,14,31,13,10,28,33,34,24,30,20,5,29,13,9,3,5,5,27,33,3],
     [15,31,17,19,30,28,27,9,1,6,15,34,17,34,32,35,18,36,21,22,34,3],
     [22,31,20,7,10,10,27,22,4,24,36,10,30,2,15,25,34,30,1,18,35,3],
     [29,31,23,32,26,28,26,35,7,5,21,24,5,8,34,14,13,25,18,13,36,3],
     [36,31,26,20,6,10,26,11,11,23,5,1,18,13,16,4,29,19,35,8,0,4],
     [6,32,29,8,23,28,25,24,14,4,27,14,30,18,35,30,7,14,15,4,1,4],
     [13,32,32,33,2,10,25,0,18,22,11,28,5,24,17,20,23,8,32,36,1,4],
     [20,32,35,21,19,28,24,13,21,3,33,4,18,29,36,9,2,3,12,32,2,4],
     [27,32,1,10,36,9,24,26,24,21,17,18,30,34,18,36,17,34,28,27,3,4],
     [34,32,4,35,15,28,23,2,28,2,2,32,5,3,1,26,33,28,8,23,4,4],
     [4,33,7,23,32,9,23,15,31,20,23,8,18,8,20,15,12,23,25,18,5,4]] @
    [[11,33,10,11,12,28,22,28,34,1,8,22,30,13,2,5,28,17,5,14,6,4],
     [18,33,13,36,28,9,22,4,1,20,29,35,5,19,21,31,6,12,22,9,7,4],
     [25,33,16,24,8,28,21,17,4,1,14,12,18,24,3,21,22,6,2,5,8,4],
     [32,33,19,12,25,9,21,30,7,19,35,25,30,29,22,10,1,1,19,0,9,4],
     [2,34,22,0,5,28,20,6,11,0,20,2,6,35,4,0,17,32,35,32,9,4],
     [9,34,25,25,21,9,20,19,14,18,4,16,18,3,24,26,32,26,15,28,10,4],
     [16,34,28,13,1,28,19,32,17,36,25,29,30,8,6,16,11,21,32,23,11,4],
     [23,34,31,1,18,9,19,8,21,17,10,6,6,14,25,5,27,15,12,19,12,4],
     [30,34,34,26,34,27,18,21,24,35,31,19,18,19,7,32,5,10,29,14,13,4],
     [0,35,0,15,14,9,18,34,27,16,16,33,30,24,26,21,21,4,9,10,14,4],
     [7,35,3,3,31,27,17,10,31,34,0,10,6,30,8,11,0,36,25,5,15,4],
     [14,35,6,28,10,9,17,23,34,15,22,23,18,35,27,0,16,30,5,1,16,4],
     [21,35,9,16,27,27,16,36,0,34,6,0,31,3,10,27,31,24,22,33,16,4],
     [28,35,12,4,7,9,16,12,4,15,28,13,6,9,29,16,10,19,2,29,17,4],
     [35,35,15,29,23,27,15,25,7,33,12,27,18,14,11,6,26,13,19,24,18,4],
     [5,36,18,17,3,9,15,1,11,14,34,3,31,19,30,32,4,8,36,19,19,4]] @
    [[12,36,21,5,20,27,14,14,14,32,18,17,6,25,12,22,20,2,16,15,20,4],
     [19,36,24,30,36,8,14,27,17,13,3,31,18,30,31,11,36,33,32,10,21,4],
     [26,36,27,18,16,27,13,3,21,31,24,7,31,35,13,1,15,28,12,6,22,4],
     [33,36,30,6,33,8,13,16,24,12,9,21,6,4,33,27,30,22,29,1,23,4],
     [3,0,34,31,12,27,12,29,27,30,30,34,18,9,15,17,9,17,9,34,23,4],
     [10,0,0,20,29,8,12,5,31,11,15,11,31,14,34,6,25,11,26,29,24,4],
     [17,0,3,8,9,27,11,18,34,29,36,24,6,20,16,33,3,6,6,25,25,4],
     [24,0,6,33,25,8,11,31,0,11,21,1,19,25,35,22,19,0,23,20,26,4],
     [31,0,9,21,5,27,10,7,4,29,5,15,31,30,17,12,35,31,2,16,27,4],
     [1,1,12,9,22,8,10,20,7,10,27,28,6,36,36,1,14,26,19,11,28,4],
     [8,1,15,34,1,27,9,33,10,28,11,5,19,4,19,28,29,20,36,6,29,4],
     [15,1,18,22,18,8,9,9,14,9,33,18,31,9,1,18,8,15,16,2,30,4],
     [22,1,21,10,35,26,8,22,17,27,17,32,6,15,20,7,24,9,33,34,30,4],
     [29,1,24,35,14,8,8,35,20,8,2,9,19,20,2,34,2,4,13,30,31,4],
     [36,1,27,23,31,26,7,11,24,26,23,22,31,25,21,23,18,35,29,25,32,4],
     [6,2,30,11,11,8,7,24,27,7,8,36,6,31,3,13,34,29,9,21,33,4]] @
    [[13,2,33,36,27,26,6,0,31,25,29,12,19,36,22,2,13,24,26,16,34,4],
     [20,2,36,24,7,8,6,13,34,6,14,26,31,4,5,29,28,18,6,12,35,4],
     [27,2,2,13,24,26,5,26,0,25,35,2,7,10,24,18,7,13,23,7,36,4], [34,2,5,1,4,8,5,2,4,6,20,16,19,15,6,8,23,7,3,3,0,5],
     [4,3,8,26,20,26,4,15,7,24,4,30,31,20,25,34,1,2,20,35,0,5],
     [11,3,11,14,0,8,4,28,10,5,26,6,7,26,7,24,17,33,36,30,1,5],
     [18,3,14,2,17,26,3,4,14,23,10,20,19,31,26,13,33,27,16,26,2,5],
     [25,3,17,27,33,7,3,17,17,4,32,33,31,36,8,3,12,22,33,21,3,5],
     [32,3,20,15,13,26,2,30,20,22,16,10,7,5,28,29,27,16,13,17,4,5],
     [2,4,23,3,30,7,2,6,24,3,1,24,19,10,10,19,6,11,30,12,5,5],
     [9,4,26,28,9,26,1,19,27,21,22,0,32,15,29,8,22,5,10,8,6,5],
     [16,4,29,16,26,7,1,32,30,2,7,14,7,21,11,35,0,0,27,3,7,5],
     [23,4,32,4,6,26,0,8,34,20,28,27,19,26,30,24,16,31,6,36,7,5],
     [30,4,35,29,22,7,0,21,0,2,13,4,32,31,12,14,32,25,23,31,8,5],
     [0,5,1,18,2,26,36,33,3,20,34,17,7,0,32,3,11,20,3,27,9,5],
     [7,5,4,6,19,7,36,9,7,1,19,31,19,5,14,30,26,14,20,22,10,5]] @
    [[14,5,7,31,35,25,35,22,10,19,3,8,32,10,33,19,5,9,0,18,11,5],
     [21,5,10,19,15,7,35,35,13,0,25,21,7,16,15,9,21,3,17,13,12,5],
     [28,5,13,7,32,25,34,11,17,18,9,35,19,21,34,35,36,34,33,8,13,5],
     [35,5,16,32,11,7,34,24,20,36,30,11,32,26,16,25,15,29,13,4,14,5],
     [5,6,19,20,28,25,33,0,24,17,15,25,7,32,35,14,31,23,30,36,14,5],
     [12,6,22,8,8,7,33,13,27,35,36,1,20,0,18,4,10,18,10,32,15,5],
     [19,6,25,33,24,25,32,26,30,16,21,15,32,5,0,31,25,12,27,27,16,5],
     [26,6,28,21,4,7,32,2,34,34,5,29,7,11,19,20,4,7,7,23,17,5],
     [33,6,31,9,21,25,31,15,0,16,27,5,20,16,1,10,20,1,24,18,18,5],
     [3,7,34,34,0,7,31,28,3,34,11,19,32,21,20,36,35,32,3,14,19,5],
     [10,7,0,23,17,25,30,4,7,15,33,32,7,27,2,26,14,27,20,9,20,5],
     [17,7,3,11,34,6,30,17,10,33,17,9,20,32,21,15,30,21,0,5,21,5],
     [24,7,6,36,13,25,29,30,13,14,2,23,32,0,4,5,9,16,17,0,22,5],
     [31,7,9,24,30,6,29,6,17,32,23,36,7,6,23,31,24,10,34,32,22,5],
     [1,8,12,12,10,25,28,19,20,13,8,13,20,11,5,21,3,5,14,28,23,5],
     [8,8,15,0,27,6,28,32,23,31,29,26,32,16,24,10,19,36,30,23,24,5]] @
    [[15,8,18,25,6,25,27,8,27,12,14,3,8,22,6,0,35,30,10,19,25,5],
     [22,8,21,13,23,6,27,21,30,30,35,16,20,27,25,26,13,25,27,14,26,5],
     [29,8,24,1,3,25,26,34,33,11,20,30,32,32,7,16,29,19,7,10,27,5],
     [36,8,27,26,19,6,26,10,0,30,4,7,8,1,27,5,8,14,24,5,28,5],
     [6,9,30,14,36,24,25,23,3,11,26,20,20,6,9,32,23,8,4,1,29,5],
     [13,9,33,2,16,6,25,36,6,29,10,34,32,11,28,21,2,3,21,33,29,5],
     [20,9,36,27,32,24,24,12,10,10,32,10,8,17,10,11,18,34,0,29,30,5],
     [27,9,2,16,12,6,24,25,13,28,16,24,20,22,29,0,34,28,17,24,31,5],
     [34,9,5,4,29,24,23,1,17,9,1,1,33,27,11,27,12,23,34,19,32,5],
     [4,10,8,29,8,6,23,14,20,27,22,14,8,33,30,16,28,17,14,15,33,5],
     [11,10,11,17,25,24,22,27,23,8,7,28,20,1,13,6,7,12,31,10,34,5],
     [18,10,14,5,5,6,22,3,27,26,28,4,33,6,32,32,22,6,11,6,35,5],
     [25,10,17,30,21,24,21,16,30,7,13,18,8,12,14,22,1,1,28,1,36,5],
     [32,10,20,18,1,6,21,29,33,25,34,31,20,17,33,11,17,32,7,34,36,5],
     [2,11,23,6,18,24,20,5,0,7,19,8,33,22,15,1,33,26,24,29,0,6],
     [9,11,26,31,34,5,20,18,3,25,3,22,8,28,34,27,11,21,4,25,1,6]]"

definition BASE37_POS14 :: "int list list" where
  "BASE37_POS14 =
    [[0,0,0,0,0,0,0,0,0,0,0,0,0,0,0,0,0,0,0,0,0,0,0,0],
     [16,11,29,19,14,24,19,31,6,6,25,35,20,33,16,17,27,15,21,20,2,6,0,0],
     [32,22,21,2,29,11,2,26,13,12,13,34,4,30,33,34,17,31,5,4,5,12,0,0],
     [11,34,13,22,6,36,21,20,20,18,1,33,25,26,13,15,8,10,27,24,7,18,0,0],
     [27,8,6,5,21,23,4,15,27,24,26,31,9,23,30,32,35,25,11,8,10,24,0,0],
     [6,20,35,24,35,10,24,9,34,30,14,30,30,19,10,13,26,4,33,28,12,30,0,0],
     [22,31,27,7,13,35,6,4,4,0,3,29,14,16,27,30,16,20,17,12,15,36,0,0],
     [1,6,20,27,27,22,26,35,10,6,28,27,35,12,7,11,7,36,1,33,17,5,1,0],
     [17,17,12,10,5,10,9,30,17,12,16,26,19,9,24,28,34,14,23,16,20,11,1,0],
     [33,28,4,30,19,34,28,24,24,18,4,25,3,6,4,9,25,30,7,0,23,17,1,0],
     [12,3,34,12,34,21,11,19,31,24,29,23,24,2,21,26,15,9,29,20,25,23,1,0],
     [28,14,26,32,11,9,31,13,1,31,17,22,8,36,0,7,6,25,13,4,28,29,1,0],
     [7,26,18,15,26,33,13,8,8,0,6,21,29,32,17,24,33,3,35,24,30,35,1,0],
     [23,0,11,35,3,21,33,2,15,6,31,19,13,29,34,4,24,19,19,8,33,4,2,0],
     [2,12,3,18,18,8,16,34,21,12,19,18,34,25,14,22,14,35,3,29,35,10,2,0],
     [18,23,32,0,33,32,35,28,28,18,7,17,18,22,31,2,5,14,25,12,1,17,2,0]] @
    [[34,34,24,20,10,20,18,23,35,24,32,15,2,19,11,20,32,29,9,33,3,23,2,0],
     [13,9,17,3,25,7,1,18,5,31,20,14,23,15,28,0,23,8,31,16,6,29,2,0],
     [29,20,9,23,2,32,20,12,12,0,9,13,7,12,8,18,13,24,15,0,9,35,2,0],
     [8,32,1,6,17,19,3,7,19,6,34,11,28,8,25,35,3,3,0,21,11,4,3,0],
     [24,6,31,25,31,6,23,1,26,12,22,10,12,5,5,16,31,18,21,4,14,10,3,0],
     [3,18,23,8,9,31,5,33,32,18,10,9,33,1,22,33,21,34,5,25,16,16,3,0],
     [19,29,15,28,23,18,25,27,2,25,35,7,17,35,1,14,12,13,27,8,19,22,3,0],
     [35,3,8,11,1,6,8,22,9,31,23,6,1,32,18,31,2,29,11,29,21,28,3,0],
     [14,15,0,31,15,30,27,16,16,0,12,5,22,28,35,11,30,7,33,12,24,34,3,0],
     [30,26,29,13,30,17,10,11,23,6,0,4,6,25,15,29,20,23,17,33,26,3,4,0],
     [9,1,22,33,7,5,30,5,30,12,25,2,27,21,32,9,11,2,2,17,29,9,4,0],
     [25,12,14,16,22,29,12,0,0,19,13,1,11,18,12,27,1,18,23,0,32,15,4,0],
     [4,24,6,36,36,16,32,31,6,25,1,0,32,14,29,7,29,33,7,21,34,21,4,0],
     [20,35,35,18,14,4,15,26,13,31,26,35,15,11,9,25,19,12,29,4,0,28,4,0],
     [36,9,28,1,29,28,34,20,20,0,15,34,36,7,26,5,10,28,13,25,2,34,4,0],
     [15,21,20,21,6,16,17,15,27,6,3,33,20,4,6,23,0,7,35,8,5,3,5,0]] @
    [[31,32,12,4,21,3,0,10,34,12,28,31,4,1,23,3,28,22,19,29,7,9,5,0],
     [10,7,5,24,35,27,19,4,4,19,16,30,25,34,2,21,18,1,4,13,10,15,5,0],
     [26,18,34,6,13,15,2,36,10,25,4,29,9,31,19,1,9,17,25,33,12,21,5,0],
     [5,30,26,26,27,2,22,30,17,31,29,27,30,27,36,18,36,32,9,17,15,27,5,0],
     [21,4,19,9,5,27,4,25,24,0,18,26,14,24,16,36,26,11,31,0,18,33,5,0],
     [0,16,11,29,19,14,24,19,31,6,6,25,35,20,33,16,17,27,15,21,20,2,6,0],
     [16,27,3,12,34,1,7,14,1,13,31,23,19,17,13,34,7,6,0,5,23,8,6,0],
     [32,1,33,31,11,26,26,8,8,19,19,22,3,14,30,14,35,21,21,25,25,14,6,0],
     [11,13,25,14,26,13,9,3,15,25,7,21,24,10,10,32,25,0,6,9,28,20,6,0],
     [27,24,17,34,3,1,29,34,21,31,32,19,8,7,27,12,16,16,27,29,30,26,6,0],
     [6,36,9,17,18,25,11,29,28,0,21,18,29,3,7,30,6,32,11,13,33,32,6,0],
     [22,10,2,0,33,12,31,23,35,6,9,17,13,0,24,10,34,10,33,33,35,1,7,0],
     [1,22,31,19,10,0,14,18,5,13,34,15,34,33,3,28,24,26,17,17,1,8,7,0],
     [17,33,23,2,25,24,33,12,12,19,22,14,18,30,20,8,15,5,2,1,4,14,7,0],
     [33,7,16,22,2,12,16,7,19,25,10,13,2,27,0,26,5,21,23,21,6,20,7,0],
     [12,19,8,5,17,36,35,1,26,31,35,11,23,23,17,6,33,36,7,5,9,26,7,0]] @
    [[28,30,0,25,31,23,18,33,32,0,24,10,7,20,34,23,23,15,29,25,11,32,7,0],
     [7,5,30,7,9,11,1,28,2,7,12,9,28,16,14,4,14,31,13,9,14,1,8,0],
     [23,16,22,27,23,35,20,22,9,13,0,8,12,13,31,21,4,10,35,29,16,7,8,0],
     [2,28,14,10,1,23,3,17,16,19,25,6,33,9,11,2,32,25,19,13,19,13,8,0],
     [18,2,7,30,15,10,23,11,23,25,13,5,17,6,28,19,22,4,4,34,21,19,8,0],
     [34,13,36,12,30,34,5,6,30,31,1,4,1,3,8,0,13,20,25,17,24,25,8,0],
     [13,25,28,32,7,22,25,0,0,1,27,2,22,36,24,17,3,36,9,1,27,31,8,0],
     [29,36,20,15,22,9,8,32,6,7,15,1,6,33,4,35,30,14,31,21,29,0,9,0],
     [8,11,13,35,36,33,27,26,13,13,3,0,27,29,21,15,21,30,15,5,32,6,9,0],
     [24,22,5,18,14,21,10,21,20,19,28,35,10,26,1,33,11,9,0,26,34,12,9,0],
     [3,34,34,0,29,8,30,15,27,25,16,34,31,22,18,13,2,25,21,9,0,19,9,0],
     [19,8,27,20,6,33,12,10,34,31,4,33,15,19,35,30,29,3,6,30,2,25,9,0],
     [35,19,19,3,21,20,32,4,4,1,30,31,36,15,15,11,20,19,27,13,5,31,9,0],
     [14,31,11,23,35,7,15,36,10,7,18,30,20,12,32,28,10,35,11,34,7,0,10,0],
     [30,5,4,6,13,32,34,30,17,13,6,29,4,9,12,9,1,14,33,17,10,6,10,0],
     [9,17,33,25,27,19,17,25,24,19,31,27,25,5,29,26,28,29,17,1,13,12,10,0]] @
    [[25,28,25,8,5,7,0,20,31,25,19,26,9,2,9,7,19,8,2,22,15,18,10,0],
     [4,3,18,28,19,31,19,14,1,32,7,25,30,35,25,24,9,24,23,5,18,24,10,0],
     [20,14,10,11,34,18,2,9,8,1,33,23,14,32,5,5,0,3,8,26,20,30,10,0],
     [36,25,2,31,11,6,22,3,15,7,21,22,35,28,22,22,27,18,29,9,23,36,10,0],
     [15,0,32,13,26,30,4,35,21,13,9,21,19,25,2,3,18,34,13,30,25,5,11,0],
     [31,11,24,33,3,18,24,29,28,19,34,19,3,22,19,20,8,13,35,13,28,11,11,0],
     [10,23,16,16,18,5,7,24,35,25,22,18,24,18,36,0,36,28,19,34,30,17,11,0],
     [26,34,8,36,32,29,26,18,5,32,10,17,8,15,16,18,26,7,4,18,33,23,11,0],
     [5,9,1,19,10,17,9,13,12,1,36,15,29,11,33,35,16,23,25,1,36,29,11,0],
     [21,20,30,1,25,4,29,7,19,7,24,14,13,8,13,16,7,2,10,22,1,36,11,0],
     [0,32,22,21,2,29,11,2,26,13,12,13,34,4,30,33,34,17,31,5,4,5,12,0],
     [16,6,15,4,17,16,31,33,32,19,0,12,18,1,10,14,25,33,15,26,6,11,12,0],
     [32,17,7,24,31,3,14,28,2,26,25,10,2,35,26,31,15,12,0,10,9,17,12,0],
     [11,29,36,6,9,28,33,22,9,32,13,9,23,31,6,12,6,28,21,30,11,23,12,0],
     [27,3,29,26,23,15,16,17,16,1,2,8,7,28,23,29,33,6,6,14,14,29,12,0],
     [6,15,21,9,1,3,36,11,23,7,27,6,28,24,3,10,24,22,27,34,16,35,12,0]] @
    [[22,26,13,29,15,27,18,6,30,13,15,5,12,21,20,27,14,1,12,18,19,4,13,0],
     [1,1,6,12,30,14,1,1,0,20,3,4,33,17,0,8,5,17,33,1,22,10,13,0],
     [17,12,35,31,7,2,21,32,6,26,28,2,17,14,17,25,32,32,17,22,24,16,13,0],
     [33,23,27,14,22,26,3,27,13,32,16,1,1,11,34,5,23,11,2,6,27,22,13,0],
     [12,35,19,34,36,13,23,21,20,1,5,0,22,7,14,23,13,27,23,26,29,28,13,0],
     [28,9,12,17,14,1,6,16,27,7,30,35,5,4,31,3,4,6,8,10,32,34,13,0],
     [7,21,4,0,29,25,25,10,34,13,18,34,26,0,11,21,31,21,29,30,34,3,14,0],
     [23,32,33,19,6,13,8,5,4,20,6,33,10,34,27,1,22,0,14,14,0,10,14,0],
     [2,7,26,2,21,0,28,36,10,26,31,31,31,30,7,19,12,16,35,34,2,16,14,0],
     [18,18,18,22,35,24,10,31,17,32,19,30,15,27,24,36,2,32,19,18,5,22,14,0],
     [34,29,10,5,13,12,30,25,24,1,8,29,36,23,4,17,30,10,4,2,8,28,14,0],
     [13,4,3,25,27,36,12,20,31,7,33,27,20,20,21,34,20,26,25,22,10,34,14,0],
     [29,15,32,7,5,24,32,14,1,14,21,26,4,17,1,15,11,5,10,6,13,3,15,0],
     [8,27,24,27,19,11,15,9,8,20,9,25,25,13,18,32,1,21,31,26,15,9,15,0],
     [24,1,17,10,34,35,34,3,15,26,34,23,9,10,35,12,29,36,15,10,18,15,15,0],
     [3,13,9,30,11,23,17,35,21,32,22,22,30,6,15,30,19,15,0,31,20,21,15,0]] @
    [[19,24,1,13,26,10,0,30,28,1,11,21,14,3,32,10,10,31,21,14,23,27,15,0],
     [35,35,30,32,3,35,19,24,35,7,36,19,35,36,11,28,0,10,6,35,25,33,15,0],
     [14,10,23,15,18,22,2,19,5,14,24,18,19,33,28,8,28,25,27,18,28,2,16,0],
     [30,21,15,35,32,9,22,13,12,20,12,17,3,30,8,26,18,4,12,2,31,8,16,0],
     [9,33,7,18,10,34,4,8,19,26,0,16,24,26,25,6,9,20,33,22,33,14,16,0],
     [25,7,0,1,25,21,24,2,26,32,25,14,8,23,5,24,36,35,17,6,36,20,16,0],
     [4,19,29,20,2,9,7,34,32,1,14,13,29,19,22,4,27,14,2,27,1,27,16,0],
     [20,30,21,3,17,33,26,28,2,8,2,12,13,16,2,22,17,30,23,10,4,33,16,0],
     [36,4,14,23,31,20,9,23,9,14,27,10,34,12,19,2,8,9,8,31,6,2,17,0],
     [15,16,6,6,9,8,29,17,16,20,15,9,18,9,36,19,35,24,29,14,9,8,17,0],
     [31,27,35,25,23,32,11,12,23,26,3,8,2,6,16,0,26,3,14,35,11,14,17,0],
     [10,2,28,8,1,20,31,6,30,32,28,6,23,2,33,17,16,19,35,18,14,20,17,0],
     [26,13,20,28,15,7,14,1,0,2,17,5,7,36,12,35,6,35,19,2,17,26,17,0],
     [5,25,12,11,30,31,33,32,6,8,5,4,28,32,29,15,34,13,4,23,19,32,17,0],
     [21,36,4,31,7,19,16,27,13,14,30,2,12,29,9,33,24,29,25,6,22,1,18,0],
     [0,11,34,13,22,6,36,21,20,20,18,1,33,25,26,13,15,8,10,27,24,7,18,0]] @
    [[16,22,26,33,36,30,18,16,27,26,6,0,17,22,6,31,5,24,31,10,27,13,18,0],
     [32,33,18,16,14,18,1,11,34,32,31,35,0,19,23,11,33,2,16,31,29,19,18,0],
     [11,8,11,36,28,5,21,5,4,2,20,34,21,15,3,29,23,18,0,15,32,25,18,0],
     [27,19,3,19,6,30,3,0,11,8,8,33,5,12,20,9,14,34,21,35,34,31,18,0],
     [6,31,32,1,21,17,23,31,17,14,33,31,26,8,0,27,4,13,6,19,0,1,19,0],
     [22,5,25,21,35,4,6,26,24,20,21,30,10,5,17,7,32,28,27,2,3,7,19,0],
     [1,17,17,4,13,29,25,20,31,26,9,29,31,1,34,24,22,7,12,23,5,13,19,0],
     [17,28,9,24,27,16,8,15,1,33,34,27,15,35,13,5,13,23,33,6,8,19,19,0],
     [33,2,2,7,5,4,28,9,8,2,23,26,36,31,30,22,3,2,18,27,10,25,19,0],
     [12,14,31,26,19,28,10,4,15,8,11,25,20,28,10,3,31,17,2,11,13,31,19,0],
     [28,25,23,9,34,15,30,35,21,14,36,23,4,25,27,20,21,33,23,31,15,0,20,0],
     [7,0,16,29,11,3,13,30,28,20,24,22,25,21,7,1,12,12,8,15,18,6,20,0],
     [23,11,8,12,26,27,32,24,35,26,12,21,9,18,24,18,2,28,29,35,20,12,20,0],
     [2,23,0,32,3,15,15,19,5,33,0,20,30,14,4,36,29,6,14,19,23,18,20,0],
     [18,34,29,14,18,2,35,13,12,2,26,18,14,11,21,16,20,22,35,2,26,24,20,0],
     [34,8,22,34,32,26,17,8,19,8,14,17,35,7,1,34,10,1,20,23,28,30,20,0]] @
    [[13,20,14,17,10,14,0,3,26,14,2,16,19,4,18,14,1,17,4,7,31,36,20,0],
     [29,31,6,0,25,1,20,34,32,20,27,14,3,1,35,31,28,32,25,27,33,5,21,0],
     [8,6,36,19,2,26,2,29,2,27,15,13,24,34,14,12,19,11,10,11,36,11,21,0],
     [24,17,28,2,17,13,22,23,9,33,3,12,8,31,31,29,9,27,31,31,1,18,21,0],
     [3,29,20,22,31,0,5,18,16,2,29,10,29,27,11,10,0,6,16,15,4,24,21,0],
     [19,3,13,5,9,25,24,12,23,8,17,9,13,24,28,27,27,21,0,36,6,30,21,0],
     [35,14,5,25,23,12,7,7,30,14,5,8,34,20,8,8,18,0,22,19,9,36,21,0],
     [14,26,34,7,1,0,27,1,0,21,30,6,18,17,25,25,8,16,6,3,12,5,22,0],
     [30,0,27,27,15,24,9,33,6,27,18,5,2,14,5,6,36,31,27,23,14,11,22,0],
     [9,12,19,10,30,11,29,27,13,33,6,4,23,10,22,23,26,10,12,7,17,17,22,0],
     [25,23,11,30,7,36,11,22,20,2,32,2,7,7,2,4,17,26,33,27,19,23,22,0],
     [4,35,3,13,22,23,31,16,27,8,20,1,28,3,19,21,7,5,18,11,22,29,22,0],
     [20,9,33,32,36,10,14,11,34,14,8,0,12,0,36,1,35,20,2,32,24,35,22,0],
     [36,20,25,15,14,35,33,5,4,21,33,35,32,33,15,19,25,36,23,15,27,4,23,0],
     [15,32,17,35,28,22,16,0,11,27,21,34,16,30,32,36,15,15,8,36,29,10,23,0],
     [31,6,10,18,6,10,36,31,17,33,9,33,0,27,12,17,6,31,29,19,32,16,23,0]] @
    [[10,18,2,1,21,34,18,26,24,2,35,31,21,23,29,34,33,9,14,3,35,22,23,0],
     [26,29,31,20,35,21,1,21,31,8,23,30,5,20,9,15,24,25,35,23,0,29,23,0],
     [5,4,24,3,13,9,21,15,1,15,11,29,26,16,26,32,14,4,20,7,3,35,23,0],
     [21,15,16,23,27,33,3,10,8,21,36,27,10,13,6,13,5,20,4,28,5,4,24,0],
     [0,27,8,6,5,21,23,4,15,27,24,26,31,9,23,30,32,35,25,11,8,10,24,0],
     [16,1,1,26,19,8,6,36,21,33,12,25,15,6,3,11,23,14,10,32,10,16,24,0],
     [32,12,30,8,34,32,25,30,28,2,1,24,36,2,20,28,13,30,31,15,13,22,24,0],
     [11,24,22,28,11,20,8,25,35,8,26,22,20,36,36,8,4,9,16,36,15,28,24,0],
     [27,35,14,11,26,7,28,19,5,15,14,21,4,33,16,26,31,24,0,20,18,34,24,0],
     [6,10,7,31,3,32,10,14,12,21,2,20,25,29,33,6,22,3,22,3,21,3,25,0],
     [22,21,36,13,18,19,30,8,19,27,27,18,9,26,13,24,12,19,6,24,23,9,25,0],
     [1,33,28,33,32,6,13,3,26,33,15,17,30,22,30,4,3,35,27,7,26,15,25,0],
     [17,7,21,16,10,31,32,34,32,2,4,16,14,19,10,22,30,13,12,28,28,21,25,0],
     [33,18,13,36,24,18,15,29,2,9,29,14,35,15,27,2,21,29,33,11,31,27,25,0],
     [12,30,5,19,2,6,35,23,9,15,17,13,19,12,7,20,11,8,18,32,33,33,25,0],
     [28,4,35,1,17,30,17,18,16,21,5,12,3,9,24,0,2,24,2,16,36,2,26,0]] @
    [[7,16,27,21,31,17,0,13,23,27,30,10,24,5,4,18,29,2,24,36,1,9,26,0],
     [23,27,19,4,9,5,20,7,30,33,18,9,8,2,21,35,19,18,8,20,4,15,26,0],
     [2,2,12,24,23,29,2,2,0,3,7,8,29,35,0,16,10,34,29,3,7,21,26,0],
     [18,13,4,7,1,17,22,33,6,9,32,6,13,32,17,33,0,13,14,24,9,27,26,0],
     [34,24,33,26,15,4,5,28,13,15,20,5,34,28,34,13,28,28,35,7,12,33,26,0],
     [13,36,25,9,30,28,24,22,20,21,8,4,18,25,14,31,18,7,20,28,14,2,27,0],
     [29,10,18,29,7,16,7,17,27,27,33,2,2,22,31,11,9,23,4,12,17,8,27,0],
     [8,22,10,12,22,3,27,11,34,33,21,1,23,18,11,29,36,1,26,32,19,14,27,0],
     [24,33,2,32,36,27,9,6,4,3,10,0,7,15,28,9,27,17,10,16,22,20,27,0],
     [3,8,32,14,14,15,29,0,11,9,35,35,27,11,8,27,17,33,31,36,24,26,27,0],
     [19,19,24,34,28,2,12,32,17,15,23,34,11,8,25,7,8,12,16,20,27,32,27,0],
     [35,30,16,17,6,27,31,26,24,21,11,33,32,4,5,25,35,27,0,4,30,1,28,0],
     [14,5,9,0,21,14,14,21,31,27,36,31,16,1,22,5,26,6,22,24,32,7,28,0],
     [30,16,1,20,35,1,34,15,1,34,24,30,0,35,1,23,16,22,6,8,35,13,28,0],
     [9,28,30,2,13,26,16,10,8,3,13,29,21,31,18,3,7,1,28,28,0,20,28,0],
     [25,2,23,22,27,13,36,4,15,9,1,28,5,28,35,20,34,16,12,12,3,26,28,0]] @
    [[4,14,15,5,5,1,19,36,21,15,26,26,26,24,15,1,25,32,33,32,5,32,28,0],
     [20,25,7,25,19,25,1,31,28,21,14,25,10,21,32,18,15,11,18,16,8,1,29,0],
     [36,36,36,7,34,12,21,25,35,27,2,24,31,17,12,36,5,27,2,0,11,7,29,0],
     [15,11,29,27,11,0,4,20,5,34,27,22,15,14,29,16,33,5,24,20,13,13,29,0],
     [31,22,21,10,26,24,23,14,12,3,16,21,36,10,9,34,23,21,8,4,16,19,29,0],
     [10,34,13,30,3,12,6,9,19,9,4,20,20,7,26,14,14,0,30,24,18,25,29,0],
     [26,8,6,13,18,36,25,3,26,15,29,18,4,4,6,32,4,16,14,8,21,31,29,0],
     [5,20,35,32,32,23,8,35,32,21,17,17,25,0,23,12,32,31,35,28,23,0,30,0],
     [21,31,27,15,10,11,28,29,2,28,5,16,9,34,2,30,22,10,20,12,26,6,30,0],
     [0,6,20,35,24,35,10,24,9,34,30,14,30,30,19,10,13,26,4,33,28,12,30,0],
     [16,17,12,18,2,23,30,18,16,3,19,13,14,27,36,27,3,5,26,16,31,18,30,0],
     [32,28,4,1,17,10,13,13,23,9,7,12,35,23,16,8,31,20,10,0,34,24,30,0],
     [11,3,34,20,31,34,32,7,30,15,32,10,19,20,33,25,21,36,31,20,36,30,30,0],
     [27,14,26,3,9,22,15,2,0,22,20,9,3,17,13,6,12,15,16,4,2,0,31,0],
     [6,26,18,23,23,9,35,33,6,28,8,8,24,13,30,23,2,31,0,25,4,6,31,0],
     [22,0,11,6,1,34,17,28,13,34,33,6,8,10,10,4,30,9,22,8,7,12,31,0]] @
    [[1,12,3,26,15,21,0,23,20,3,22,5,29,6,27,21,20,25,6,29,9,18,31,0],
     [17,23,32,8,30,8,20,17,27,9,10,4,13,3,7,2,11,4,28,12,12,24,31,0],
     [33,34,24,28,7,33,2,12,34,15,35,2,34,36,23,19,1,20,12,33,14,30,31,0],
     [12,9,17,11,22,20,22,6,4,22,23,1,18,33,3,0,29,35,33,16,17,36,31,0],
     [28,20,9,31,36,7,5,1,11,28,11,0,2,30,20,17,19,14,18,0,20,5,32,0],
     [7,32,1,14,14,32,24,32,17,34,36,35,22,26,0,35,9,30,2,21,22,11,32,0],
     [23,6,31,33,28,19,7,27,24,3,25,34,6,23,17,15,0,9,24,4,25,17,32,0],
     [2,18,23,16,6,7,27,21,31,9,13,33,27,19,34,32,27,24,8,25,27,23,32,0],
     [18,29,15,36,20,31,9,16,1,16,1,32,11,16,14,13,18,3,30,8,30,29,32,0],
     [34,3,8,19,35,18,29,10,8,22,26,30,32,12,31,30,8,19,14,29,32,35,32,0],
     [13,15,0,2,13,6,12,5,15,28,14,29,16,9,11,11,36,34,35,12,35,4,33,0],
     [29,26,29,21,27,30,31,36,21,34,2,28,0,6,28,28,26,13,20,33,0,11,33,0],
     [8,1,22,4,5,18,14,31,28,3,28,26,21,2,8,9,17,29,4,17,3,17,33,0],
     [24,12,14,24,19,5,34,25,35,9,16,25,5,36,24,26,7,8,26,0,6,23,33,0],
     [3,24,6,7,34,29,16,20,5,16,4,24,26,32,4,7,35,23,10,21,8,29,33,0],
     [19,35,35,26,11,17,36,14,12,22,29,22,10,29,21,24,25,2,32,4,11,35,33,0]] @
    [[35,9,28,9,26,4,19,9,19,28,17,21,31,25,1,5,16,18,16,25,13,4,34,0],
     [14,21,20,29,3,29,1,4,26,34,5,20,15,22,18,22,6,34,0,9,16,10,34,0],
     [30,32,12,12,18,16,21,35,32,3,31,18,36,18,35,2,34,12,22,29,18,16,34,0],
     [9,7,5,32,32,3,4,30,2,10,19,17,20,15,15,20,24,28,6,13,21,22,34,0],
     [25,18,34,14,10,28,23,24,9,16,7,16,4,12,32,0,15,7,28,33,23,28,34,0],
     [4,30,26,34,24,15,6,19,16,22,32,14,25,8,12,18,5,23,12,17,26,34,34,0],
     [20,4,19,17,2,3,26,13,23,28,20,13,9,5,29,35,32,1,34,0,29,3,35,0],
     [36,15,11,0,17,27,8,8,30,34,8,12,30,1,9,16,23,17,18,21,31,9,35,0],
     [15,27,3,20,31,14,28,2,0,4,34,10,14,35,25,33,13,33,2,5,34,15,35,0],
     [31,1,33,2,9,2,11,34,6,10,22,9,35,31,5,14,4,12,24,25,36,21,35,0],
     [10,13,25,22,23,26,30,28,13,16,10,8,19,28,22,31,31,27,8,9,2,28,35,0],
     [26,24,17,5,1,14,13,23,20,22,35,6,3,25,2,12,22,6,30,29,4,34,35,0],
     [5,36,9,25,15,1,33,17,27,28,23,5,24,21,19,29,12,22,14,13,7,3,36,0],
     [21,10,2,8,30,25,15,12,34,34,11,4,8,18,36,9,3,1,36,33,9,9,36,0],
     [0,22,31,27,7,13,35,6,4,4,0,3,29,14,16,27,30,16,20,17,12,15,36,0],
     [16,33,23,10,22,0,18,1,11,10,25,1,13,11,33,7,21,32,4,1,15,21,36,0]] @
    [[32,7,16,30,36,24,0,33,17,16,13,0,34,7,13,25,11,11,26,21,17,27,36,0],
     [11,19,8,13,14,12,20,27,24,22,1,36,17,4,30,5,2,27,10,5,20,33,36,0],
     [27,30,0,33,28,36,2,22,31,28,26,34,1,1,10,23,29,5,32,25,22,2,0,1],
     [6,5,30,15,6,24,22,16,1,35,14,33,22,34,26,3,20,21,16,9,25,8,0,1],
     [22,16,22,35,20,11,5,11,8,4,3,32,6,31,6,21,10,0,1,30,27,14,0,1],
     [1,28,14,18,35,35,24,5,15,10,28,30,27,27,23,1,1,16,22,13,30,20,0,1],
     [17,2,7,1,13,23,7,0,22,16,16,29,11,24,3,19,28,31,6,34,32,26,0,1],
     [33,13,36,20,27,10,27,31,28,22,4,28,32,20,20,36,18,10,28,17,35,32,0,1],
     [12,25,28,3,5,35,9,26,35,28,29,26,16,17,0,17,9,26,12,1,1,2,1,1],
     [28,36,20,23,19,22,29,20,5,35,17,25,0,14,17,34,36,4,34,21,3,8,1,1],
     [7,11,13,6,34,9,12,15,12,4,6,24,21,10,34,14,27,20,18,5,6,14,1,1],
     [23,22,5,26,11,34,31,9,19,10,31,22,5,7,14,32,17,36,2,26,8,20,1,1],
     [2,34,34,8,26,21,14,4,26,16,19,21,26,3,31,12,8,15,24,9,11,26,1,1],
     [18,8,27,28,3,9,34,35,32,22,7,20,10,0,11,30,35,30,8,30,13,32,1,1],
     [34,19,19,11,18,33,16,30,2,29,32,18,31,33,27,10,26,9,30,13,16,1,2,1],
     [13,31,11,31,32,20,36,24,9,35,20,17,15,30,7,28,16,25,14,34,18,7,2,1]] @
    [[29,5,4,14,10,8,19,19,16,4,9,16,36,26,24,8,7,4,36,17,21,13,2,1],
     [8,17,33,33,24,32,1,14,23,10,34,14,20,23,4,26,34,19,20,1,24,19,2,1],
     [24,28,25,16,2,20,21,8,30,16,22,13,4,20,21,6,25,35,4,22,26,25,2,1],
     [3,3,18,36,16,7,4,3,0,23,10,12,25,16,1,24,15,14,26,5,29,31,2,1],
     [19,14,10,19,31,31,23,34,6,29,35,10,9,13,18,4,6,30,10,26,31,0,3,1],
     [35,25,2,2,9,19,6,29,13,35,23,9,30,9,35,21,33,8,32,9,34,6,3,1],
     [14,0,32,21,23,6,26,23,20,4,12,8,14,6,15,2,24,24,16,30,36,12,3,1],
     [30,11,24,4,1,31,8,18,27,10,0,7,35,2,32,19,14,3,1,14,2,19,3,1],
     [9,23,16,24,15,18,28,12,34,16,25,5,19,36,11,0,5,19,22,34,4,25,3,1],
     [25,34,8,7,30,5,11,7,4,23,13,4,3,33,28,17,32,34,6,18,7,31,3,1],
     [4,9,1,27,7,30,30,1,11,29,1,3,24,29,8,35,22,13,28,1,10,0,4,1],
     [20,20,30,9,22,17,13,33,17,35,26,1,8,26,25,15,13,29,12,22,12,6,4,1],
     [36,31,22,29,36,4,33,27,24,4,15,0,29,22,5,33,3,8,34,5,15,12,4,1],
     [15,6,15,12,14,29,15,22,31,10,3,36,12,19,22,13,31,23,18,26,17,18,4,1],
     [31,17,7,32,28,16,35,16,1,17,28,34,33,15,2,31,21,2,3,10,20,24,4,1],
     [10,29,36,14,6,4,18,11,8,23,16,33,17,12,19,11,12,18,24,30,22,30,4,1]]"

definition BASE37_POS15 :: "int list list" where
  "BASE37_POS15 =
    [[0,0,0,0,0,0,0,0,0,0,0,0,0,0,0,0,0,0,0,0,0,0,0,0,0],
     [26,3,29,34,20,28,0,6,15,29,4,32,1,9,36,28,2,34,8,14,25,36,4,1,0],
     [15,7,21,32,4,20,1,12,30,21,9,27,3,18,35,20,5,31,17,28,13,36,9,2,0],
     [4,11,13,30,25,11,2,18,8,14,14,22,5,27,34,12,8,28,26,5,2,36,14,3,0],
     [30,14,5,28,9,3,3,24,23,6,19,17,7,36,33,4,11,25,35,19,27,35,19,4,0],
     [19,18,34,25,30,31,3,30,1,36,23,12,9,8,33,33,13,22,7,34,15,35,24,5,0],
     [8,22,26,23,14,23,4,36,16,28,28,7,11,17,32,25,16,19,16,11,4,35,29,6,0],
     [34,25,18,21,35,14,5,5,32,20,33,2,13,26,31,17,19,16,25,25,29,34,34,7,0],
     [23,29,10,19,19,6,6,11,10,13,1,35,14,35,30,9,22,13,34,2,18,34,2,9,0],
     [12,33,2,17,3,35,6,17,25,5,6,30,16,7,30,1,25,10,6,17,6,34,7,10,0],
     [1,0,32,14,24,26,7,23,3,35,10,25,18,16,29,30,27,7,15,31,31,33,12,11,0],
     [27,3,24,12,8,18,8,29,18,27,15,20,20,25,28,22,30,4,24,8,20,33,17,12,0],
     [16,7,16,10,29,9,9,35,33,19,20,15,22,34,27,14,33,1,33,22,8,33,22,13,0],
     [5,11,8,8,13,1,10,4,12,12,25,10,24,6,27,6,36,35,4,0,34,32,27,14,0],
     [31,14,0,6,34,29,10,10,27,4,30,5,26,15,26,35,1,33,13,14,22,32,32,15,0],
     [20,18,29,3,18,21,11,16,5,34,34,0,28,24,25,27,4,30,22,28,10,32,0,17,0]] @
    [[9,22,21,1,2,13,12,22,20,26,2,33,29,33,24,19,7,27,31,5,36,31,5,18,0],
     [35,25,13,36,22,4,13,28,35,18,7,28,31,5,24,11,10,24,3,20,24,31,10,19,0],
     [24,29,5,34,6,33,13,34,13,11,12,23,33,14,23,3,13,21,12,34,12,31,15,20,0],
     [13,33,34,31,27,24,14,3,29,3,17,18,35,23,22,32,15,18,21,11,1,31,20,21,0],
     [2,0,27,29,11,16,15,9,7,33,21,13,0,33,21,24,18,15,30,25,26,30,25,22,0],
     [28,3,19,27,32,7,16,15,22,25,26,8,2,5,21,16,21,12,2,3,15,30,30,23,0],
     [17,7,11,25,16,36,16,21,0,18,31,3,4,14,20,8,24,9,11,17,3,30,35,24,0],
     [6,11,3,23,0,28,17,27,15,10,36,35,5,23,19,0,27,6,20,31,28,29,3,26,0],
     [32,14,32,20,21,19,18,33,30,2,4,31,7,32,18,29,29,3,29,8,17,29,8,27,0],
     [21,18,24,18,5,11,19,2,9,32,8,26,9,4,18,21,32,0,1,23,5,29,13,28,0],
     [10,22,16,16,26,2,20,8,24,24,13,21,11,13,17,13,35,34,9,0,31,28,18,29,0],
     [36,25,8,14,10,31,20,14,2,17,18,16,13,22,16,5,1,32,18,14,19,28,23,30,0],
     [25,29,0,12,31,22,21,20,17,9,23,11,15,31,15,34,3,29,27,28,7,28,28,31,0],
     [14,33,29,9,15,14,22,26,32,1,28,6,17,3,15,26,6,26,36,5,33,27,33,32,0],
     [3,0,22,7,36,5,23,32,10,31,32,1,19,12,14,18,9,23,8,20,21,27,1,34,0],
     [29,3,14,5,20,34,23,1,26,23,0,34,20,21,13,10,12,20,17,34,9,27,6,35,0]] @
    [[18,7,6,3,4,26,24,7,4,16,5,29,22,30,12,2,15,17,26,11,35,26,11,36,0],
     [7,11,35,0,25,17,25,13,19,8,10,24,24,2,12,31,17,14,35,25,23,26,16,0,1],
     [33,14,27,35,8,9,26,19,34,0,15,19,26,11,11,23,20,11,7,3,12,26,21,1,1],
     [22,18,19,33,29,0,27,25,12,30,19,14,28,20,10,15,23,8,16,17,0,26,26,2,1],
     [11,22,11,31,13,29,27,31,27,22,24,9,30,29,9,7,26,5,25,31,25,25,31,3,1],
     [0,26,3,29,34,20,28,0,6,15,29,4,32,1,9,36,28,2,34,8,14,25,36,4,1],
     [26,29,32,26,18,12,29,6,21,7,34,36,33,10,8,28,31,36,5,23,2,25,4,6,1],
     [15,33,24,24,2,4,30,12,36,36,1,32,35,19,7,20,34,33,14,0,28,24,9,7,1],
     [4,0,17,22,23,32,30,18,14,29,6,27,0,29,6,12,0,31,23,14,16,24,14,8,1],
     [30,3,9,20,7,24,31,24,29,21,11,22,2,1,6,4,3,28,32,28,4,24,19,9,1],
     [19,7,1,18,28,15,32,30,7,14,16,17,4,10,5,33,5,25,4,6,30,23,24,10,1],
     [8,11,30,15,12,7,33,36,22,6,21,12,6,19,4,25,8,22,13,20,18,23,29,11,1],
     [34,14,22,13,33,35,33,5,1,36,25,7,8,28,3,17,11,19,22,34,6,23,34,12,1],
     [23,18,14,11,17,27,34,11,16,28,30,2,10,0,3,9,14,16,31,11,32,22,2,14,1],
     [12,22,6,9,1,19,35,17,31,20,35,34,11,9,2,1,17,13,3,26,20,22,7,15,1],
     [1,26,35,6,22,10,36,23,9,13,3,30,13,18,1,30,19,10,12,3,9,22,12,16,1]] @
    [[27,29,27,4,6,2,0,30,24,5,8,25,15,27,0,22,22,7,21,17,34,21,17,17,1],
     [16,33,19,2,27,30,0,36,2,35,12,20,17,36,36,13,25,4,30,31,22,21,22,18,1],
     [5,0,12,0,11,22,1,5,18,27,17,15,19,8,36,5,28,1,2,9,11,21,27,19,1],
     [31,3,4,35,31,13,2,11,33,19,22,10,21,17,35,34,30,35,10,23,36,20,32,20,1],
     [20,7,33,32,15,5,3,17,11,12,27,5,23,26,34,26,33,32,19,0,25,20,0,22,1],
     [9,11,25,30,36,33,3,23,26,4,32,0,25,35,33,18,36,29,28,14,13,20,5,23,1],
     [35,14,17,28,20,25,4,29,4,34,36,32,26,7,33,10,2,27,0,29,1,20,10,24,1],
     [24,18,9,26,4,17,5,35,19,26,4,28,28,16,32,2,5,24,9,6,27,19,15,25,1],
     [13,22,1,24,25,8,6,4,35,18,9,23,30,25,31,31,7,21,18,20,15,19,20,26,1],
     [2,26,30,21,9,0,7,10,13,11,14,18,32,34,30,23,10,18,27,34,3,19,25,27,1],
     [28,29,22,19,30,28,7,16,28,3,19,13,34,6,30,15,13,15,36,11,29,18,30,28,1],
     [17,33,14,17,14,20,8,22,6,33,23,8,36,15,29,7,16,12,8,26,17,18,35,29,1],
     [6,0,7,15,35,11,9,28,21,25,28,3,1,25,28,36,18,9,17,3,6,18,3,31,1],
     [32,3,36,12,19,3,10,34,36,17,33,35,2,34,27,28,21,6,26,17,31,17,8,32,1],
     [21,7,28,10,3,32,10,3,15,10,1,31,4,6,27,20,24,3,35,31,19,17,13,33,1],
     [10,11,20,8,24,23,11,9,30,2,6,26,6,15,26,12,27,0,7,9,8,17,18,34,1]] @
    [[36,14,12,6,8,15,12,15,8,32,10,21,8,24,25,4,30,34,15,23,33,16,23,35,1],
     [25,18,4,4,29,6,13,21,23,24,15,16,10,33,24,33,32,31,24,0,22,16,28,36,1],
     [14,22,33,1,13,35,13,27,1,17,20,11,12,5,24,25,35,28,33,14,10,16,33,0,2],
     [3,26,25,36,33,26,14,33,16,9,25,6,14,14,23,17,1,26,5,29,35,15,1,2,2],
     [29,29,17,34,17,18,15,2,32,1,30,1,16,23,22,9,4,23,14,6,24,15,6,3,2],
     [18,33,9,32,1,10,16,8,10,31,34,33,17,32,21,1,7,20,23,20,12,15,11,4,2],
     [7,0,2,30,22,1,17,14,25,23,2,29,19,4,21,30,9,17,32,34,0,15,16,5,2],
     [33,3,31,27,6,30,17,20,3,16,7,24,21,13,20,22,12,14,4,12,26,14,21,6,2],
     [22,7,23,25,27,21,18,26,18,8,12,19,23,22,19,14,15,11,13,26,14,14,26,7,2],
     [11,11,15,23,11,13,19,32,33,0,17,14,25,31,18,6,18,8,22,3,3,14,31,8,2],
     [0,15,7,21,32,4,20,1,12,30,21,9,27,3,18,35,20,5,31,17,28,13,36,9,2],
     [26,18,36,18,16,33,20,7,27,22,26,4,29,12,17,27,23,2,3,32,16,13,4,11,2],
     [15,22,28,16,0,25,21,13,5,15,31,36,30,21,16,19,26,36,11,9,5,13,9,12,2],
     [4,26,20,14,21,16,22,19,20,7,36,31,32,30,15,11,29,33,20,23,30,12,14,13,2],
     [30,29,12,12,5,8,23,25,35,36,3,27,34,2,15,3,32,30,29,0,19,12,19,14,2],
     [19,33,4,10,26,36,23,31,13,29,8,22,36,11,14,32,34,27,1,15,7,12,24,15,2]] @
    [[8,0,34,7,10,28,24,0,29,21,13,17,1,21,13,24,0,25,10,29,32,11,29,16,2],
     [34,3,26,5,31,19,25,6,7,14,18,12,3,30,12,16,3,22,19,6,21,11,34,17,2],
     [23,7,18,3,15,11,26,12,22,6,23,7,5,2,12,8,6,19,28,20,9,11,2,19,2],
     [12,11,10,1,36,2,27,18,0,36,27,2,7,11,11,0,9,16,0,35,34,10,7,20,2],
     [1,15,2,36,19,31,27,24,15,28,32,34,8,20,10,29,11,13,9,12,23,10,12,21,2],
     [27,18,31,33,3,23,28,30,30,20,0,30,10,29,9,21,14,10,18,26,11,10,17,22,2],
     [16,22,23,31,24,14,29,36,8,13,5,25,12,1,9,13,17,7,27,3,0,10,22,23,2],
     [5,26,15,29,8,6,30,5,24,5,10,20,14,10,8,5,20,4,36,17,25,9,27,24,2],
     [31,29,7,27,29,34,30,11,2,35,14,15,16,19,7,34,22,1,8,32,13,9,32,25,2],
     [20,33,36,24,13,26,31,17,17,27,19,10,18,28,6,26,25,35,16,9,2,9,0,27,2],
     [9,0,29,22,34,17,32,23,32,19,24,5,20,0,6,18,28,32,25,23,27,8,5,28,2],
     [35,3,21,20,18,9,33,29,10,12,29,0,22,9,5,10,31,29,34,0,16,8,10,29,2],
     [24,7,13,18,2,1,34,35,25,4,34,32,23,18,4,2,34,26,6,15,4,8,15,30,2],
     [13,11,5,16,23,29,34,4,4,34,1,28,25,27,3,31,36,23,15,29,29,7,20,31,2],
     [2,15,34,13,7,21,35,10,19,26,6,23,27,36,2,23,2,21,24,6,18,7,25,32,2],
     [28,18,26,11,28,12,36,16,34,18,11,18,29,8,2,15,5,18,33,20,6,7,30,33,2]] @
    [[17,22,18,9,12,4,0,23,12,11,16,13,31,17,1,7,8,15,5,35,31,6,35,34,2],
     [6,26,10,7,33,32,0,29,27,3,21,8,33,26,0,36,10,12,14,12,20,6,3,36,2],
     [32,29,2,5,17,24,1,35,5,33,25,3,35,35,36,27,13,9,23,26,8,6,8,0,3],
     [21,33,31,2,1,16,2,4,21,25,30,35,36,7,36,19,16,6,32,3,34,5,13,1,3],
     [10,0,24,0,22,7,3,10,36,17,35,30,1,17,35,11,19,3,4,18,22,5,18,2,3],
     [36,3,16,35,5,36,3,16,14,10,3,26,3,26,34,3,22,0,13,32,10,5,23,3,3],
     [25,7,8,33,26,27,4,22,29,2,8,21,5,35,33,32,24,34,21,9,36,4,28,4,3],
     [14,11,0,31,10,19,5,28,7,32,12,16,7,7,33,24,27,31,30,23,24,4,33,5,3],
     [3,15,29,28,31,10,6,34,22,24,17,11,9,16,32,16,30,28,2,1,13,4,1,7,3],
     [29,18,21,26,15,2,7,3,1,17,22,6,11,25,31,8,33,25,11,15,1,4,6,8,3],
     [18,22,13,24,36,30,7,9,16,9,27,1,13,34,30,0,36,22,20,29,26,3,11,9,3],
     [7,26,5,22,20,22,8,15,31,1,32,33,14,6,30,29,1,20,29,6,15,3,16,10,3],
     [33,29,34,19,4,14,9,21,9,31,36,28,16,15,29,21,4,17,1,21,3,3,21,11,3],
     [22,33,26,17,25,5,10,27,24,23,4,24,18,24,28,13,7,14,10,35,28,2,26,12,3],
     [11,0,19,15,9,34,10,33,2,16,9,19,20,33,27,5,10,11,19,12,17,2,31,13,3],
     [0,4,11,13,30,25,11,2,18,8,14,14,22,5,27,34,12,8,28,26,5,2,36,14,3]] @
    [[26,7,3,11,14,17,12,8,33,0,19,9,24,14,26,26,15,5,0,4,31,1,4,16,3],
     [15,11,32,8,35,8,13,14,11,30,23,4,26,23,25,18,18,2,9,18,19,1,9,17,3],
     [4,15,24,6,19,0,14,20,26,22,28,36,27,32,24,10,21,36,17,32,7,1,14,18,3],
     [30,18,16,4,3,29,14,26,4,15,33,31,29,4,24,2,24,33,26,9,33,0,19,19,3],
     [19,22,8,2,24,20,15,32,19,7,1,27,31,13,23,31,26,30,35,23,21,0,24,20,3],
     [8,26,0,0,8,12,16,1,35,36,5,22,33,22,22,23,29,27,7,1,10,0,29,21,3],
     [34,29,29,34,28,3,17,7,13,29,10,17,35,31,21,15,32,24,16,15,35,36,33,22,3],
     [23,33,21,32,12,32,17,13,28,21,15,12,0,4,21,7,35,21,25,29,23,36,1,24,3],
     [12,0,14,30,33,23,18,19,6,14,20,7,2,13,20,36,0,19,34,6,12,36,6,25,3],
     [1,4,6,28,17,15,19,25,21,6,25,2,4,22,19,28,3,16,6,21,0,36,11,26,3],
     [27,7,35,25,1,7,20,31,36,35,29,34,5,31,18,20,6,13,15,35,25,35,16,27,3],
     [16,11,27,23,22,35,20,0,15,28,34,29,7,3,18,12,9,10,24,12,14,35,21,28,3],
     [5,15,19,21,6,27,21,6,30,20,2,25,9,12,17,4,12,7,33,26,2,35,26,29,3],
     [31,18,11,19,27,18,22,12,8,13,7,20,11,21,16,33,14,4,5,4,28,34,31,30,3],
     [20,22,3,17,11,10,23,18,23,5,12,15,13,30,15,25,17,1,14,18,16,34,36,31,3],
     [9,26,32,14,32,1,24,24,1,35,16,10,15,2,15,17,20,35,22,32,4,34,4,33,3]] @
    [[35,29,24,12,16,30,24,30,16,27,21,5,17,11,14,9,23,32,31,9,30,33,9,34,3],
     [24,33,16,10,0,22,25,36,31,19,26,0,19,20,13,1,26,29,3,24,18,33,14,35,3],
     [13,0,9,8,21,13,26,5,10,12,31,32,20,29,12,30,28,26,12,1,7,33,19,36,3],
     [2,4,1,6,5,5,27,11,25,4,36,27,22,1,12,22,31,23,21,15,32,32,24,0,4],
     [28,7,30,3,26,33,27,17,3,34,3,23,24,10,11,14,34,20,30,29,20,32,29,1,4],
     [17,11,22,1,10,25,28,23,18,26,8,18,26,19,10,6,0,18,2,7,9,32,34,2,4],
     [6,15,14,36,30,16,29,29,33,18,13,13,28,28,9,35,2,15,11,21,34,31,2,4,4],
     [32,18,6,34,14,8,30,35,11,11,18,8,30,0,9,27,5,12,20,35,22,31,7,5,4],
     [21,22,35,31,35,36,30,4,27,3,23,3,32,9,8,19,8,9,29,12,11,31,12,6,4],
     [10,26,27,29,19,28,31,10,5,33,27,35,33,18,7,11,11,6,1,27,36,30,17,7,4],
     [36,29,19,27,3,20,32,16,20,25,32,30,35,27,6,3,14,3,10,4,25,30,22,8,4],
     [25,33,11,25,24,11,33,22,35,17,0,26,0,0,6,32,16,0,19,18,13,30,27,9,4],
     [14,0,4,23,8,3,34,28,13,10,5,21,2,9,5,24,19,34,27,32,1,30,32,10,4],
     [3,4,33,20,29,31,34,34,28,2,10,16,4,18,4,16,22,31,36,9,27,29,0,12,4],
     [29,7,25,18,13,23,35,3,7,32,14,11,6,27,3,8,25,28,8,24,15,29,5,13,4],
     [18,11,17,16,34,14,36,9,22,24,19,6,8,36,2,0,28,25,17,1,4,29,10,14,4]] @
    [[7,15,9,14,18,6,0,16,0,17,24,1,10,8,2,29,30,22,26,15,29,28,15,15,4],
     [33,18,1,12,2,35,0,22,15,9,29,33,11,17,1,21,33,19,35,29,17,28,20,16,4],
     [22,22,30,9,23,26,1,28,30,1,34,28,13,26,0,13,36,16,7,7,6,28,25,17,4],
     [11,26,22,7,7,18,2,34,8,31,1,24,15,35,36,4,2,14,16,21,31,27,30,18,4],
     [0,30,14,5,28,9,3,3,24,23,6,19,17,7,36,33,4,11,25,35,19,27,35,19,4],
     [26,33,6,3,12,1,4,9,2,16,11,14,19,16,35,25,7,8,34,12,8,27,3,21,4],
     [15,0,36,0,33,29,4,15,17,8,16,9,21,25,34,17,10,5,6,27,33,26,8,22,4],
     [4,4,28,35,16,21,5,21,32,0,21,4,23,34,33,9,13,2,15,4,22,26,13,23,4],
     [30,7,20,33,0,13,6,27,10,30,25,36,24,6,33,1,16,36,23,18,10,26,18,24,4],
     [19,11,12,31,21,4,7,33,25,22,30,31,26,15,32,30,18,33,32,32,35,25,23,25,4],
     [8,15,4,29,5,33,7,2,4,15,35,26,28,24,31,22,21,30,4,10,24,25,28,26,4],
     [34,18,33,26,26,24,8,8,19,7,3,22,30,33,30,14,24,27,13,24,12,25,33,27,4],
     [23,22,25,24,10,16,9,14,34,36,7,17,32,5,30,6,27,24,22,1,1,25,1,29,4],
     [12,26,17,22,31,7,10,20,12,29,12,12,34,14,29,35,29,21,31,15,26,24,6,30,4],
     [1,30,9,20,15,36,10,26,27,21,17,7,36,23,28,27,32,18,3,30,14,24,11,31,4],
     [27,33,1,18,36,27,11,32,5,14,22,2,1,33,27,19,35,15,12,7,3,24,16,32,4]] @
    [[16,0,31,15,20,19,12,1,21,6,27,34,2,5,27,11,1,13,21,21,28,23,21,33,4],
     [5,4,23,13,4,11,13,7,36,35,31,29,4,14,26,3,4,10,30,35,16,23,26,34,4],
     [31,7,15,11,25,2,14,13,14,28,36,24,6,23,25,32,6,7,2,13,5,23,31,35,4],
     [20,11,7,9,9,31,14,19,29,20,4,20,8,32,24,24,9,4,11,27,30,22,36,36,4],
     [9,15,36,6,30,22,15,25,7,13,9,15,10,4,24,16,12,1,20,4,19,22,4,1,5],
     [35,18,28,4,14,14,16,31,22,5,14,10,12,13,23,8,15,35,28,18,7,22,9,2,5],
     [24,22,20,2,35,5,17,0,1,35,18,5,14,22,22,0,18,32,0,33,32,21,14,3,5],
     [13,26,12,0,19,34,17,6,16,27,23,0,16,31,21,29,20,29,9,10,21,21,19,4,5],
     [2,30,4,35,2,26,18,12,31,19,28,32,17,3,21,21,23,26,18,24,9,21,24,5,5],
     [28,33,33,32,23,17,19,18,9,12,33,27,19,12,20,13,26,23,27,1,35,20,29,6,5],
     [17,0,26,30,7,9,20,24,24,4,1,23,21,21,19,5,29,20,36,15,23,20,34,7,5],
     [6,4,18,28,28,0,21,30,2,34,5,18,23,30,18,34,31,17,8,30,11,20,2,9,5],
     [32,7,10,26,12,29,21,36,17,26,10,13,25,2,18,26,34,14,17,7,0,20,7,10,5],
     [21,11,2,24,33,20,22,5,33,18,15,8,27,11,17,18,0,12,26,21,25,19,12,11,5],
     [10,15,31,21,17,12,23,11,11,11,20,3,29,20,16,10,3,9,35,35,13,19,17,12,5],
     [36,18,23,19,1,4,24,17,26,3,25,35,30,29,15,2,6,6,7,13,2,19,22,13,5]] @
    [[25,22,15,17,22,32,24,23,4,33,29,30,32,1,15,31,8,3,16,27,27,18,27,14,5],
     [14,26,7,15,6,24,25,29,19,25,34,25,34,10,14,23,11,0,25,4,16,18,32,15,5],
     [3,30,36,12,27,15,26,35,34,17,2,21,36,19,13,15,14,34,33,18,4,18,0,17,5],
     [29,33,28,10,11,7,27,4,13,10,7,16,1,29,12,7,17,31,5,33,29,17,5,18,5],
     [18,0,21,8,32,35,27,10,28,2,12,11,3,1,12,36,19,28,14,10,18,17,10,19,5],
     [7,4,13,6,16,27,28,16,6,32,16,6,5,10,11,28,22,25,23,24,6,17,15,20,5],
     [33,7,5,4,0,19,29,22,21,24,21,1,7,19,10,20,25,22,32,1,32,16,20,21,5],
     [22,11,34,1,21,10,30,28,36,16,26,33,8,28,9,12,28,19,4,16,20,16,25,22,5],
     [11,15,26,36,4,2,31,34,14,9,31,28,10,0,9,4,31,16,13,30,8,16,30,23,5],
     [0,19,18,34,25,30,31,3,30,1,36,23,12,9,8,33,33,13,22,7,34,15,35,24,5],
     [26,22,10,32,9,22,32,9,8,31,3,19,14,18,7,25,36,10,31,21,22,15,3,26,5],
     [15,26,2,30,30,13,33,15,23,23,8,14,16,27,6,17,2,8,3,36,10,15,8,27,5],
     [4,30,31,27,14,5,34,21,1,16,13,9,18,36,5,9,5,5,12,13,36,14,13,28,5],
     [30,33,23,25,35,33,34,27,16,8,18,4,20,8,5,1,8,2,21,27,24,14,18,29,5],
     [19,0,16,23,19,25,35,33,31,0,23,36,21,17,4,30,10,36,29,4,13,14,23,30,5],
     [8,4,8,21,3,17,36,2,10,30,27,31,23,26,3,22,13,33,1,19,1,14,28,31,5]] @
    [[34,7,0,19,24,8,0,9,25,22,32,26,25,35,2,14,16,30,10,33,26,13,33,32,5],
     [23,11,29,16,8,0,1,15,3,15,0,22,27,7,2,6,19,27,19,10,15,13,1,34,5],
     [12,15,21,14,29,28,1,21,18,7,5,17,29,16,1,35,21,24,28,24,3,13,6,35,5],
     [1,19,13,12,13,20,2,27,33,36,9,12,31,25,0,27,24,21,0,2,29,12,11,36,5],
     [27,22,5,10,34,11,3,33,11,29,14,7,33,34,36,18,27,18,9,16,17,12,16,0,6],
     [16,26,34,7,18,3,4,2,27,21,19,2,35,6,36,10,30,15,18,30,5,12,21,1,6],
     [5,30,26,5,2,32,4,8,5,14,24,34,36,15,35,2,33,12,27,7,31,11,26,2,6],
     [31,33,18,3,23,23,5,14,20,6,29,29,1,25,34,31,35,9,36,21,19,11,31,3,6],
     [20,0,11,1,7,15,6,20,35,35,33,24,3,34,33,23,1,7,8,36,7,11,36,4,6],
     [9,4,3,36,27,6,7,26,13,28,1,20,5,6,33,15,4,4,17,13,33,10,4,6,6],
     [35,7,32,33,11,35,7,32,28,20,6,15,7,15,32,7,7,1,26,27,21,10,9,7,6],
     [24,11,24,31,32,26,8,1,7,13,11,10,9,24,31,36,9,35,34,4,10,10,14,8,6],
     [13,15,16,29,16,18,9,7,22,5,16,5,11,33,30,28,12,32,6,19,35,9,19,9,6],
     [2,19,8,27,0,10,10,13,0,35,20,0,13,5,30,20,15,29,15,33,23,9,24,10,6],
     [28,22,0,25,21,1,11,19,15,27,25,32,14,14,29,12,18,26,24,10,12,9,29,11,6],
     [17,26,29,22,5,30,11,25,30,19,30,27,16,23,28,4,21,23,33,24,0,9,34,12,6]] @
    [[6,30,21,20,26,21,12,31,8,12,35,22,18,32,27,33,23,20,5,2,26,8,2,14,6],
     [32,33,13,18,10,13,13,0,24,4,3,18,20,4,27,25,26,17,14,16,14,8,7,15,6],
     [21,0,6,16,31,4,14,6,2,34,7,13,22,13,26,17,29,14,23,30,2,8,12,16,6],
     [10,4,35,13,15,33,14,12,17,26,12,8,24,22,25,9,32,11,32,7,28,7,17,17,6],
     [36,7,27,11,36,24,15,18,32,18,17,3,26,31,24,1,35,8,4,22,16,7,22,18,6],
     [25,11,19,9,20,16,16,24,10,11,22,35,27,3,24,30,0,6,13,36,4,7,27,19,6],
     [14,15,11,7,4,8,17,30,25,3,27,30,29,12,23,22,3,3,22,13,30,6,32,20,6],
     [3,19,3,5,25,36,17,36,3,33,31,25,31,21,22,14,6,0,31,27,18,6,0,22,6],
     [29,22,32,2,9,28,18,5,19,25,36,20,33,30,21,6,9,34,2,5,7,6,5,23,6],
     [18,26,24,0,30,19,19,11,34,17,4,16,35,2,21,35,11,31,11,19,32,5,10,24,6],
     [7,30,16,35,13,11,20,17,12,10,9,11,0,12,20,27,14,28,20,33,20,5,15,25,6],
     [33,33,8,33,34,2,21,23,27,2,14,6,2,21,19,19,17,25,29,10,9,5,20,26,6],
     [22,0,1,31,18,31,21,29,5,32,18,1,4,30,18,11,20,22,1,25,34,4,25,27,6],
     [11,4,30,28,2,23,22,35,20,24,23,33,5,2,18,3,23,19,10,2,23,4,30,28,6],
     [0,8,22,26,23,14,23,4,36,16,28,28,7,11,17,32,25,16,19,16,11,4,35,29,6],
     [26,11,14,24,7,6,24,10,14,9,33,23,9,20,16,24,28,13,28,30,36,3,3,31,6]] @
    [[15,15,6,22,28,34,24,16,29,1,1,19,11,29,15,16,31,10,0,8,25,3,8,32,6],
     [4,19,35,19,12,26,25,22,7,31,5,14,13,1,15,8,34,7,9,22,13,3,13,33,6],
     [30,22,27,17,33,17,26,28,22,23,10,9,15,10,14,0,0,5,18,36,1,3,18,34,6],
     [19,26,19,15,17,9,27,34,0,16,15,4,17,19,13,29,2,2,27,13,27,2,23,35,6],
     [8,30,11,13,1,1,28,3,16,8,20,36,18,28,12,21,5,36,35,27,15,2,28,36,6],
     [34,33,3,11,22,29,28,9,31,0,25,31,20,0,12,13,8,33,7,5,4,2,33,0,7],
     [23,0,33,8,6,21,29,15,9,30,29,26,22,9,11,5,11,30,16,19,29,1,1,2,7],
     [12,4,25,6,27,12,30,21,24,22,34,21,24,18,10,34,13,27,25,33,17,1,6,3,7],
     [1,8,17,4,11,4,31,27,2,15,2,17,26,27,9,26,16,24,34,10,6,1,11,4,7],
     [27,11,9,2,32,32,31,33,17,7,7,12,28,36,8,18,19,21,6,25,31,0,16,5,7],
     [16,15,1,0,16,24,32,2,33,36,11,7,30,8,8,10,22,18,15,2,20,0,21,6,7],
     [5,19,30,34,36,15,33,8,11,29,16,2,32,17,7,2,25,15,24,16,8,0,26,7,7],
     [31,22,22,32,20,7,34,14,26,21,21,34,33,26,6,31,27,12,33,30,33,36,30,8,7],
     [20,26,14,30,4,36,34,20,4,14,26,29,35,35,5,23,30,9,5,8,22,36,35,9,7],
     [9,30,6,28,25,27,35,26,19,6,31,24,0,8,5,15,33,6,14,22,10,36,3,11,7],
     [35,33,35,25,9,19,36,32,34,35,35,19,2,17,4,7,36,3,23,36,35,35,8,12,7]] @
    [[24,0,28,23,30,10,0,2,13,28,3,15,4,26,3,36,1,1,32,13,24,35,13,13,7],
     [13,4,20,21,14,2,1,8,28,20,8,10,6,35,2,28,4,35,3,28,12,35,18,14,7],
     [2,8,12,19,35,30,1,14,6,13,13,5,8,7,2,20,7,32,12,5,1,35,23,15,7],
     [28,11,4,17,19,22,2,20,21,5,18,0,10,16,1,12,10,29,21,19,26,34,28,16,7],
     [17,15,33,14,3,14,3,26,36,34,22,32,11,25,0,4,13,26,30,33,14,34,33,17,7],
     [6,19,25,12,24,5,4,32,14,27,27,27,13,34,36,32,15,23,2,11,3,34,1,19,7],
     [32,22,17,10,8,34,4,1,30,19,32,22,15,6,36,24,18,20,11,25,28,33,6,20,7],
     [21,26,9,8,29,25,5,7,8,12,0,18,17,15,35,16,21,17,20,2,17,33,11,21,7],
     [10,30,1,6,13,17,6,13,23,4,5,13,19,24,34,8,24,14,29,16,5,33,16,22,7],
     [36,33,30,3,34,8,7,19,1,34,9,8,21,33,33,0,27,11,1,31,30,32,21,23,7],
     [25,0,23,1,18,0,8,25,16,26,14,3,23,5,33,29,29,8,10,8,19,32,26,24,7],
     [14,4,15,36,1,29,8,31,31,18,19,35,24,14,32,21,32,5,19,22,7,32,31,25,7],
     [3,8,7,34,22,20,9,0,10,11,24,30,26,23,31,13,35,2,28,36,32,31,36,26,7],
     [29,11,36,31,6,12,10,6,25,3,29,25,28,32,30,5,1,0,0,14,21,31,4,28,7],
     [18,15,28,29,27,3,11,12,3,33,33,20,30,4,30,34,3,34,8,28,9,31,9,29,7],
     [7,19,20,27,11,32,11,18,18,25,1,16,32,13,29,26,6,31,17,5,35,30,14,30,7]]"

subsection \<open>Integrity\<close>

lemma BASE37_POS11_ok: "holds_rows 37 19 (256 ^ 11) BASE37_POS11"
  unfolding BASE37_POS11_def
  by (rule holds_rowsI [of 37 37 309485009821345068724781056 "256 ^ 11" _ "[9,13,21,1,8,2,24,27,10,0,11,14,16,7,5,3,25,0,0]"], simp, simp, simp, code_simp+)

lemma BASE37_POS12_ok: "holds_rows 37 20 (256 ^ 12) BASE37_POS12"
  unfolding BASE37_POS12_def
  by (rule holds_rowsI [of 37 37 79228162514264337593543950336 "256 ^ 12" _ "[10,23,28,33,23,12,17,11,13,0,6,34,13,18,36,26,20,25,4,0]"], simp, simp, simp, code_simp+)

lemma BASE37_POS13_ok: "holds_rows 37 22 (256 ^ 13) BASE37_POS13"
  unfolding BASE37_POS13_def
  by (rule holds_rowsI [of 37 37 20282409603651670423947251286016 "256 ^ 13" _ "[7,0,3,25,16,18,36,12,3,18,21,13,12,5,19,26,15,31,16,32,0,0]"], simp, simp, simp, code_simp+)

lemma BASE37_POS14_ok: "holds_rows 37 24 (256 ^ 14) BASE37_POS14"
  unfolding BASE37_POS14_def
  by (rule holds_rowsI [of 37 37 5192296858534827628530496329220096 "256 ^ 14" _ "[16,11,29,19,14,24,19,31,6,6,25,35,20,33,16,17,27,15,21,20,2,6,0,0]"], simp, simp, simp, code_simp+)

lemma BASE37_POS15_ok: "holds_rows 37 25 (256 ^ 15) BASE37_POS15"
  unfolding BASE37_POS15_def
  by (rule holds_rowsI [of 37 37 1329227995784915872903807060280344576 "256 ^ 15" _ "[26,3,29,34,20,28,0,6,15,29,4,32,1,9,36,28,2,34,8,14,25,36,4,1,0]"], simp, simp, simp, code_simp+)

end
