(* ===== verification/Lookup_Tables.thy ===== *)
theory Lookup_Tables
  imports
    Wire
    Table_Base29_Low Table_Base29_High Table_Base31_Low Table_Base31_High
    Table_Base37_Low Table_Base37_High
begin

text \<open>
  The constant tables of \<open>cbits/lookup_tables.c\<close>: those of bases 29, 31 and 37 are the ones of
  the file, those of the other bases are a parameter \<open>other\<close>. The tables of the file provide the
  digit lookup that the wire labels rely on.
\<close>

subsection \<open>The tables of the file\<close>

definition BASE29 :: "int list list list" where
  "BASE29 = [BASE29_POS0, BASE29_POS1, BASE29_POS2, BASE29_POS3, BASE29_POS4, BASE29_POS5,
     BASE29_POS6, BASE29_POS7, BASE29_POS8, BASE29_POS9, BASE29_POS10, BASE29_POS11,
     BASE29_POS12, BASE29_POS13, BASE29_POS14, BASE29_POS15]"

definition BASE31 :: "int list list list" where
  "BASE31 = [BASE31_POS0, BASE31_POS1, BASE31_POS2, BASE31_POS3, BASE31_POS4, BASE31_POS5,
     BASE31_POS6, BASE31_POS7, BASE31_POS8, BASE31_POS9, BASE31_POS10, BASE31_POS11,
     BASE31_POS12, BASE31_POS13, BASE31_POS14, BASE31_POS15]"

definition BASE37 :: "int list list list" where
  "BASE37 = [BASE37_POS0, BASE37_POS1, BASE37_POS2, BASE37_POS3, BASE37_POS4, BASE37_POS5,
     BASE37_POS6, BASE37_POS7, BASE37_POS8, BASE37_POS9, BASE37_POS10, BASE37_POS11,
     BASE37_POS12, BASE37_POS13, BASE37_POS14, BASE37_POS15]"

definition file_rom :: "rom \<Rightarrow> rom" where
  "file_rom other b p =
    (if b = 29 then BASE29 ! p else if b = 31 then BASE31 ! p else if b = 37 then BASE37 ! p
     else other b p)"

subsection \<open>Integrity\<close>

lemma all_less_16:
  "(\<forall>p<16. P p) \<longleftrightarrow> P 0 \<and> P 1 \<and> P 2 \<and> P 3 \<and> P 4 \<and> P 5 \<and> P 6 \<and> P 7 \<and> P 8 \<and> P 9 \<and> P 10 \<and>
     P 11 \<and> P 12 \<and> P 13 \<and> P 14 \<and> P (15 :: nat)"
  by (simp add: numeral_eq_Suc All_less_Suc) blast

lemma ndigits_29: "map_of NDIGITS_BASE 29 = Some [2, 4, 5, 7, 9, 10, 12, 14, 15, 17, 19, 20, 22, 24, 25, 27]"
  by code_simp

lemma ndigits_31: "map_of NDIGITS_BASE 31 = Some [2, 4, 5, 7, 9, 10, 12, 13, 15, 17, 18, 20, 21, 23, 25, 26]"
  by code_simp

lemma ndigits_37: "map_of NDIGITS_BASE 37 = Some [2, 4, 5, 7, 8, 10, 11, 13, 14, 16, 17, 19, 20, 22, 24, 25]"
  by code_simp

lemmas BASE29_ok = BASE29_POS0_ok BASE29_POS1_ok BASE29_POS2_ok BASE29_POS3_ok BASE29_POS4_ok
  BASE29_POS5_ok BASE29_POS6_ok BASE29_POS7_ok BASE29_POS8_ok BASE29_POS9_ok BASE29_POS10_ok
  BASE29_POS11_ok BASE29_POS12_ok BASE29_POS13_ok BASE29_POS14_ok BASE29_POS15_ok

lemmas BASE31_ok = BASE31_POS0_ok BASE31_POS1_ok BASE31_POS2_ok BASE31_POS3_ok BASE31_POS4_ok
  BASE31_POS5_ok BASE31_POS6_ok BASE31_POS7_ok BASE31_POS8_ok BASE31_POS9_ok BASE31_POS10_ok
  BASE31_POS11_ok BASE31_POS12_ok BASE31_POS13_ok BASE31_POS14_ok BASE31_POS15_ok

lemmas BASE37_ok = BASE37_POS0_ok BASE37_POS1_ok BASE37_POS2_ok BASE37_POS3_ok BASE37_POS4_ok
  BASE37_POS5_ok BASE37_POS6_ok BASE37_POS7_ok BASE37_POS8_ok BASE37_POS9_ok BASE37_POS10_ok
  BASE37_POS11_ok BASE37_POS12_ok BASE37_POS13_ok BASE37_POS14_ok BASE37_POS15_ok

lemma BASE29_tables: "\<forall>p<16. table_ok 29 p (BASE29 ! p)"
  unfolding all_less_16 by (simp add: table_ok_def BASE29_def ndigits_def ndigits_29 BASE29_ok [simplified])

lemma BASE31_tables: "\<forall>p<16. table_ok 31 p (BASE31 ! p)"
  unfolding all_less_16 by (simp add: table_ok_def BASE31_def ndigits_def ndigits_31 BASE31_ok [simplified])

lemma BASE37_tables: "\<forall>p<16. table_ok 37 p (BASE37 ! p)"
  unfolding all_less_16 by (simp add: table_ok_def BASE37_def ndigits_def ndigits_37 BASE37_ok [simplified])

lemma file_rom_ok:
  assumes "q \<in> {29, 31, 37 :: u16}" and "p < 16"
  shows "table_ok (unat q) p (file_rom other (unat q) p)"
  using assms BASE29_tables BASE31_tables BASE37_tables by (auto simp: file_rom_def)

text \<open>
  C3. The tables of bases 29, 31 and 37, as they stand in the file: at every position, the row
  of byte \<open>x\<close> that the foreign interface returns holds the digits of \<open>x * 256 ^ pos\<close>, read
  within the bounds of the table.
\<close>

theorem lookup_digits_correct:
  assumes "q \<in> {29, 31, 37}" and "pos < 16"
  shows "\<exists>ds. lookup_digits_mod_at_position (file_rom other) x q pos = Inr (map of_nat ds) \<and>
     is_digits (unat q) ds \<and> dval (unat q) ds = unat x * 256 ^ pos"
proof -
  have q: "5 \<le> unat q" "unat q \<le> 113" using assms(1) by auto
  let ?n = "ndigits (unat q) pos"
  have "unat x \<le> 255" using unsigned_less [of x, where ?'a = nat] by simp
  then have "unat x * 256 ^ pos \<le> 255 * 256 ^ pos" by (rule mult_le_mono1)
  also have "\<dots> < unat q ^ ?n" by (rule NDIGITS_entry(4) [OF q assms(2)])
  finally have "dval (unat q) (digits (unat q) ?n (unat x * 256 ^ pos)) = unat x * 256 ^ pos"
    using q by (simp add: dval_digits)
  then show ?thesis
    using lookup_digits_ok [where rom = "file_rom other", OF file_rom_ok [OF assms] q assms(2), of x] q
    by (intro exI [of _ "digits (unat q) ?n (unat x * 256 ^ pos)"]) simp
qed

theorem lookup_digits_correct_witness:
  "\<exists>ds. lookup_digits_mod_at_position (file_rom (\<lambda>_ _. [])) 200 31 15 = Inr (map of_nat ds) \<and>
     is_digits 31 ds \<and> dval 31 ds = 200 * 256 ^ 15"
  using lookup_digits_correct [of 31 15 "\<lambda>_ _. []" 200] by simp

subsection \<open>The interface, provided by the tables of the file\<close>

interpretation base29: digit_lookup "lookup_digits_mod_at_position (file_rom other)" 29 "ndigits 29" for other
  using tables_digit_lookup [of 29 "file_rom other"] file_rom_ok [of 29] by simp

interpretation base31: digit_lookup "lookup_digits_mod_at_position (file_rom other)" 31 "ndigits 31" for other
  using tables_digit_lookup [of 31 "file_rom other"] file_rom_ok [of 31] by simp

interpretation base37: digit_lookup "lookup_digits_mod_at_position (file_rom other)" 37 "ndigits 37" for other
  using tables_digit_lookup [of 37 "file_rom other"] file_rom_ok [of 37] by simp


text \<open>At these bases the fast unpacking of a block takes its digits, whatever the other tables hold.\<close>

lemma from_block_lookup_file:
  "digits_per_u128 29 = Inr n \<Longrightarrow>
     from_block_lookup (lookup_digits_mod_at_position (file_rom other)) inp 29 = Inr (map of_nat (digits 29 n (unat inp)))"
  "digits_per_u128 31 = Inr n \<Longrightarrow>
     from_block_lookup (lookup_digits_mod_at_position (file_rom other)) inp 31 = Inr (map of_nat (digits 31 n (unat inp)))"
  "digits_per_u128 37 = Inr n \<Longrightarrow>
     from_block_lookup (lookup_digits_mod_at_position (file_rom other)) inp 37 = Inr (map of_nat (digits 37 n (unat inp)))"
  using base29.from_block_lookup_digits base31.from_block_lookup_digits base37.from_block_lookup_digits by simp_all

end
