(* ===== verification/Wire_Blocks.thy ===== *)
theory Wire_Blocks
  imports Lookup_Tables
begin

text \<open>
  Blocks and wire labels (\<open>WireLabel::from_block\<close>, \<open>as_block\<close>), over the tables of
  \<open>cbits/lookup_tables.c\<close>: the tables of bases 29, 31 and 37 are the ones of the file, the
  others an argument that is assumed to hold the digits where it is read.
\<close>

lemma regular_file:
  assumes "q \<noteq> 8192" and "q \<noteq> 32768"
    and "24 \<le> q \<Longrightarrow> q \<le> 113 \<Longrightarrow> is_power_of_2 q = Inr False \<Longrightarrow> q \<notin> {29, 31, 37} \<Longrightarrow> tables_for other (unat q)"
  shows "regular_modulus (file_rom other) q"
proof -
  have "tables_for (file_rom other) (unat q)" if q: "24 \<le> q" "q \<le> 113" "is_power_of_2 q = Inr False"
  proof (cases "q \<in> {29, 31, 37}")
    case True
    then show ?thesis using file_rom_ok [OF True] by (simp add: tables_for_def list_all_iff)
  next
    case False
    then have "unat q \<notin> {29, 31, 37}" by (simp add: word_unat_eq_iff)
    then have "file_rom other (unat q) = other (unat q)" by (simp add: fun_eq_iff file_rom_def)
    then show ?thesis using assms(3) [OF q False] by (simp add: tables_for_def)
  qed
  then show ?thesis using assms(1,2) by (simp add: regular_modulus_def)
qed

text \<open>
  C8. Unpacking: for every modulus from 2 up, 8192 and 32768 apart, the three methods of
  \<open>WireModQ::from_block\<close> (splitting the bits, unranking, the tables of the foreign interface)
  return the same digits as the plain conversion \<open>as_base_q_u128\<close>. The tables of bases 29, 31 and
  37 are those of the C file; the tables \<open>other\<close> of the other bases from 24 to 113 that are no power
  of two are assumed to hold the digits.
\<close>

theorem from_block_is_base_q:
  assumes "2 \<le> q" and "q \<noteq> 8192" and "q \<noteq> 32768"
    and "24 \<le> q \<Longrightarrow> q \<le> 113 \<Longrightarrow> is_power_of_2 q = Inr False \<Longrightarrow> q \<notin> {29, 31, 37} \<Longrightarrow> tables_for other (unat q)"
  shows "\<exists>ds. WireModQ_from_block (lookup_digits_mod_at_position (file_rom other)) inp q = Inr \<lparr>mq_q = q, mq_ds = ds\<rparr> \<and>
     as_base_q_u128 inp q = Inr ds \<and> digits_below q ds"
proof -
  have q: "2 \<le> unat q" using assms(1) by (simp add: word_le_nat_alt)
  have reg: "regular_modulus (file_rom other) q" using assms(2-4) by (rule regular_file)
  obtain n where n: "digits_per_u128 q = Inr n" using digits_per_u128_width [OF q] by blast
  have "0 \<notin> set (replicate n q)" using q by auto
  from as_mixed_radix_digits [OF this]
  have "as_base_q_u128 inp q = Inr (map of_nat (digits (unat q) n (unat inp)))"
    by (simp add: as_base_q_u128_def n as_base_q_def mdigits_replicate)
  with from_block_digits [OF q reg n] digits_below_digits [of q n] q show ?thesis by simp
qed

theorem from_block_is_base_q_witness:
  "\<exists>ds. WireModQ_from_block (lookup_digits_mod_at_position (file_rom (\<lambda>_ _. []))) 123456789012345678901234567890 31 =
       Inr \<lparr>mq_q = 31, mq_ds = ds\<rparr> \<and>
     as_base_q_u128 123456789012345678901234567890 31 = Inr ds \<and> digits_below 31 ds"
  using from_block_is_base_q [of 31 "\<lambda>_ _. []" 123456789012345678901234567890] by simp

text \<open>
  C9. Packing a well-formed label into a block and unpacking it is the identity, for the three
  representations and for every modulus except 8192 and 32768, over the same tables.
\<close>

theorem block_roundtrip:
  assumes "wf_wire w" and "wire_modulus w \<noteq> 8192" and "wire_modulus w \<noteq> 32768"
    and "24 \<le> wire_modulus w \<Longrightarrow> wire_modulus w \<le> 113 \<Longrightarrow> is_power_of_2 (wire_modulus w) = Inr False \<Longrightarrow>
      wire_modulus w \<notin> {29, 31, 37} \<Longrightarrow> tables_for other (unat (wire_modulus w))"
  shows "\<exists>b. as_block w = Inr b \<and>
     AllWire_from_block (lookup_digits_mod_at_position (file_rom other)) b (wire_modulus w) = Inr w"
proof (cases w)
  case (Mod2 x)
  then show ?thesis by (simp add: wire_ops AllWire_from_block_def WireMod2_from_block_def)
next
  case (Mod3 x)
  let ?b = "push_bit 64 (ucast (m3_msb x)) OR ucast (m3_lsb x) :: u128"
  have "ucast ?b = m3_lsb x" "ucast (drop_bit 64 ?b) = m3_msb x"
    by (rule bit_word_eqI, auto simp: bit_simps dest: bit_imp_le_length)+
  then show ?thesis using assms(1) Mod3
    by (simp add: wire_ops AllWire_from_block_def WireMod3_from_block_def  wf_wire_def Let_def)
next
  case (ModN x)
  have wf: "4 \<le> mq_q x" "digits_per_u128 (mq_q x) = Inr (length (mq_ds x))" "digits_below (mq_q x) (mq_ds x)"
    using assms(1) ModN by (simp_all add: wf_wire_def)
  have q: "2 \<le> unat (mq_q x)" "mq_q x \<noteq> 2" "mq_q x \<noteq> 3" using wf(1) by (auto simp: word_le_nat_alt)
  note v = from_base_q_value [OF q(1) wf(2,3)]
  have "digits (unat (mq_q x)) (length (mq_ds x)) (wval (mq_q x) (mq_ds x)) = map unat (mq_ds x)"
    using digits_dval [of "unat (mq_q x)" "map unat (mq_ds x)"] wf(3) by (simp add: wval_def digits_below_iff)
  moreover have "regular_modulus (file_rom other) (mq_q x)"
    by (rule regular_file) (use assms(2-4) ModN in simp_all)
  ultimately have "WireModQ_from_block (lookup_digits_mod_at_position (file_rom other)) (of_nat (wval (mq_q x) (mq_ds x))) (mq_q x) = Inr x"
    using from_block_digits [OF q(1) _ wf(2)] v(2) by (simp add: unat_of_nat_small)
  with v(1) q ModN show ?thesis by (simp add: wire_ops AllWire_from_block_def)
qed

theorem block_roundtrip_witness:
  "\<exists>b. as_block (ModN \<lparr>mq_q = 29, mq_ds = replicate 25 28\<rparr>) = Inr b \<and>
     AllWire_from_block (lookup_digits_mod_at_position (file_rom (\<lambda>_ _. []))) b 29 =
       Inr (ModN \<lparr>mq_q = 29, mq_ds = replicate 25 28\<rparr>)"
  using block_roundtrip [of "ModN \<lparr>mq_q = 29, mq_ds = replicate 25 28\<rparr>" "\<lambda>_ _. []"]
  by (simp add: wf_wire_def digits_per_u128_def digits_below_def list_all_iff)

end
