(* ===== verification/Crt.thy ===== *)
theory Crt
  imports Radix "HOL-Library.Signed_Division"
begin

text \<open>
  Residue numbers of the garbling library (src/fancy-garbling/src/util.rs): the primes it supports,
  the factoring of a modulus into them, the residues of a number and the way back, which inverts
  modulo each prime with the extended Euclidean algorithm. The \<open>i128\<close> values are integers whose
  range is checked after every operation, as under the workspace's dev and test profiles.
\<close>

subsection \<open>The code\<close>

definition PRIMES :: "u16 list" where
  "PRIMES = [
    2, 3, 5, 7, 11, 13, 17, 19, 23, 29, 31, 37, 41, 43, 47, 53, 59, 61, 67, 71, 73, 79, 83, 89, 97,
    101, 103, 107, 109]"

fun factor_loop :: "u16 list \<Rightarrow> u128 \<Rightarrow> u16 list \<Rightarrow> u16 list \<times> u128" where
  "factor_loop [] x fs = (fs, x)"
| "factor_loop (p # ps) x fs =
     (let q = ucast p in if x mod q = 0 then factor_loop ps (x div q) (fs @ [p]) else factor_loop ps x fs)"

definition factor :: "u128 \<Rightarrow> u16 list res" where
  "factor inp = (case factor_loop PRIMES inp [] of (fs, x) \<Rightarrow> if x \<noteq> 1 then Inl Panic else Inr fs)"

definition crt :: "u128 \<Rightarrow> u16 list \<Rightarrow> u16 list res" where
  "crt x ps = (if 0 \<in> set ps then Inl Panic else Inr (map (\<lambda>p. ucast (x mod ucast p)) ps))"

definition i128 :: "int \<Rightarrow> bool" where
  "i128 i \<longleftrightarrow> - (2 ^ 127) \<le> i \<and> i < 2 ^ 127"

function inv_loop :: "int \<Rightarrow> int \<Rightarrow> int \<Rightarrow> int \<Rightarrow> int res" where
  "inv_loop a b x0 x1 =
     (if a > 1
      then if b = 0 then Inl Panic
        else (let q = a sdiv b; m = q * x0; x = x1 - m in
          if i128 m \<and> i128 x then inv_loop b (a smod b) x x0 else Inl Panic)
      else Inr x1)"
  by pat_completeness auto

termination
proof (relation "measure (\<lambda>(_, b, _, _). nat \<bar>b\<bar>)")
  fix a b x0 x1 q m x :: int
  assume "\<not> b = 0"
  then have "\<bar>sgn a\<bar> * (\<bar>a\<bar> mod \<bar>b\<bar>) < \<bar>b\<bar>" by (cases "a = 0") (simp_all add: abs_sgn_eq)
  then show "((b, a smod b, x, x0), a, b, x0, x1) \<in> measure (\<lambda>(_, b, _, _). nat \<bar>b\<bar>)"
    using \<open>\<not> b = 0\<close> by (simp add: signed_modulo_int_def abs_mult)
qed simp

definition inv_mod :: "int \<Rightarrow> int \<Rightarrow> int res" where
  "inv_mod inp_a inp_b =
     (if inp_b = 1 then Inr 1
      else res_bind (inv_loop inp_a inp_b 0 1) (\<lambda>x1.
        if x1 < 0 then (if i128 (x1 + inp_b) then Inr (x1 + inp_b) else Inl Panic) else Inr x1))"

declare inv_loop.simps [simp del]

fun product_i128 :: "u16 list \<Rightarrow> int \<Rightarrow> int res" where
  "product_i128 [] acc = Inr acc"
| "product_i128 (x # xs) acc = (if i128 (uint x * acc) then product_i128 xs (uint x * acc) else Inl Panic)"

fun crt_inv_loop :: "int \<Rightarrow> (u16 \<times> u16) list \<Rightarrow> int \<Rightarrow> int res" where
  "crt_inv_loop M [] ret = Inr ret"
| "crt_inv_loop M ((p, a) # rs) ret =
     (if p = 0 then Inl Panic
      else let q = M sdiv uint p in
        res_bind (inv_mod q (uint p)) (\<lambda>v. let t = uint a * v; u = t * q in
          if i128 t \<and> i128 u \<and> i128 (ret + u) \<and> M \<noteq> 0 then crt_inv_loop M rs ((ret + u) smod M) else Inl Panic))"

definition crt_inv :: "u16 list \<Rightarrow> u16 list \<Rightarrow> u128 res" where
  "crt_inv xs ps = res_bind (product_i128 ps 1) (\<lambda>M.
     res_bind (crt_inv_loop M (zip ps xs) 0) (\<lambda>ret. Inr (word_of_int ret)))"

definition crt_factor :: "u128 \<Rightarrow> u128 \<Rightarrow> u16 list res" where
  "crt_factor x q = res_bind (factor q) (\<lambda>ps. crt x ps)"

definition crt_inv_factor :: "u16 list \<Rightarrow> u128 \<Rightarrow> u128 res" where
  "crt_inv_factor xs q = res_bind (factor q) (\<lambda>ps. crt_inv xs ps)"

definition product_u128 :: "u16 list \<Rightarrow> u128 res" where
  "product_u128 xs = foldM_res (\<lambda>acc x. checked_mul acc (ucast x)) 1 xs"

definition modulus_with_nprimes :: "nat \<Rightarrow> u128 res" where
  "modulus_with_nprimes n = (if n \<le> length PRIMES then product_u128 (take n PRIMES) else Inl Panic)"

text \<open>The loop of \<open>base_primes_with_width\<close>, and whether it left the product wide enough.\<close>

fun primes_loop :: "nat \<Rightarrow> u16 list \<Rightarrow> u128 \<Rightarrow> u16 list \<Rightarrow> (u16 list \<times> u128) res" where
  "primes_loop nbits [] acc ps = Inr (ps, acc)"
| "primes_loop nbits (p # rest) acc ps =
     res_bind (checked_mul acc (ucast p)) (\<lambda>acc.
       if 128 \<le> nbits then Inl Panic
       else if drop_bit nbits acc > 0 then Inr (ps @ [p], acc) else primes_loop nbits rest acc (ps @ [p]))"

definition base_primes_with_width :: "nat \<Rightarrow> u16 list \<Rightarrow> u16 list res" where
  "base_primes_with_width nbits primes = res_bind (primes_loop nbits primes 1 []) (\<lambda>(ps, acc).
     if 128 \<le> nbits then Inl Panic else if drop_bit nbits acc > 0 then Inr ps else Inl Assertion)"

definition primes_with_width :: "nat \<Rightarrow> u16 list res" where
  "primes_with_width n = base_primes_with_width n PRIMES"

definition base_modulus_with_width :: "nat \<Rightarrow> u16 list \<Rightarrow> u128 res" where
  "base_modulus_with_width nbits primes = res_bind (base_primes_with_width nbits primes) product_u128"

definition modulus_with_width :: "nat \<Rightarrow> u128 res" where
  "modulus_with_width n = base_modulus_with_width n PRIMES"

text \<open>
  The random factors of a composite modulus: the draws are an argument, one for each of the first 25
  primes; the closure of \<open>take_while\<close> keeps the product and stops where it would overflow.
\<close>

fun usable_factors_loop :: "(u16 \<times> bool) list \<Rightarrow> u128 \<Rightarrow> u16 list" where
  "usable_factors_loop [] x = []"
| "usable_factors_loop ((q, drawn) # rest) x =
     (if drawn then (case checked_mul x (ucast q) of Inl _ \<Rightarrow> [] | Inr y \<Rightarrow> q # usable_factors_loop rest y)
      else usable_factors_loop rest x)"

definition gen_usable_factors :: "bool list \<Rightarrow> u16 list" where
  "gen_usable_factors draws = usable_factors_loop (zip (take 25 PRIMES) draws) 1"

definition gen_usable_composite_modulus :: "bool list \<Rightarrow> u128 res" where
  "gen_usable_composite_modulus draws = product_u128 (gen_usable_factors draws)"

subsection \<open>The inverse\<close>

lemma positive_sdiv: "0 \<le> a \<Longrightarrow> 0 < b \<Longrightarrow> a sdiv b = a div b" "0 \<le> a \<Longrightarrow> 0 < b \<Longrightarrow> a smod b = a mod b" for a b :: int
  by (cases "a = 0"; simp add: signed_divide_int_def signed_modulo_int_def)+

text \<open>
  The loop keeps \<open>a\<close> and \<open>b\<close> coprime and the coefficients \<open>x1\<close> and \<open>x0\<close>, which have opposite
  signs, congruent to them: \<open>A * x1 = a\<close> and \<open>A * x0 = b\<close> modulo \<open>B\<close>, with
  \<open>\<bar>x0\<bar> * a + \<bar>x1\<bar> * b = B\<close>.
\<close>

definition inv_inv :: "int \<Rightarrow> int \<Rightarrow> int \<Rightarrow> int \<Rightarrow> int \<Rightarrow> int \<Rightarrow> bool" where
  "inv_inv A B a b x0 x1 \<longleftrightarrow> 0 < a \<and> 0 \<le> b \<and> coprime a b \<and>
     B dvd A * x1 - a \<and> B dvd A * x0 - b \<and> x0 * x1 \<le> 0 \<and> \<bar>x0\<bar> * a + \<bar>x1\<bar> * b = B \<and> \<bar>x1\<bar> < B"

lemma inv_inv_step:
  assumes inv: "inv_inv A B a b x0 x1" and a: "1 < a"
  shows "0 < b" and "inv_inv A B b (a mod b) (x1 - (a div b) * x0) x0"
    and "\<bar>(a div b) * x0\<bar> \<le> B" and "\<bar>x1 - (a div b) * x0\<bar> \<le> B"
proof -
  let ?q = "a div b" and ?x = "x1 - (a div b) * x0"
  show b: "0 < b"
  proof (rule ccontr)
    assume "\<not> 0 < b"
    then have "b = 0" using inv by (simp add: inv_inv_def)
    then show False using inv a by (simp add: inv_inv_def)
  qed
  have q: "0 \<le> ?q" using a b by (simp add: pos_imp_zdiv_nonneg_iff)
  have abs: "\<bar>?x\<bar> = \<bar>x1\<bar> + ?q * \<bar>x0\<bar>"
  proof -
    have "x0 * x1 \<le> 0" using inv by (simp add: inv_inv_def)
    then consider "0 \<le> x0" "x1 \<le> 0" | "x0 \<le> 0" "0 \<le> x1" by (auto simp: mult_le_0_iff)
    then show ?thesis
    proof cases
      case 1
      then have "0 \<le> ?q * x0" using q by simp
      then show ?thesis using 1 by simp
    next
      case 2
      then have "?q * x0 \<le> 0" using q by (simp add: mult_nonneg_nonpos)
      then show ?thesis using 2 by simp
    qed
  qed
  have sum: "\<bar>?x\<bar> * b + \<bar>x0\<bar> * (a mod b) = B"
  proof -
    have "\<bar>?x\<bar> * b + \<bar>x0\<bar> * (a mod b) = \<bar>x1\<bar> * b + \<bar>x0\<bar> * (?q * b + a mod b)"
      unfolding abs by (simp only: distrib_left distrib_right mult_ac add_ac)
    then show ?thesis using inv by (simp add: inv_inv_def)
  qed
  have x: "\<bar>?x\<bar> \<le> \<bar>?x\<bar> * b" using b by (simp add: mult_le_cancel_left1)
  moreover have "0 \<le> \<bar>x0\<bar> * (a mod b)" using b by simp
  ultimately show le: "\<bar>?x\<bar> \<le> B" using sum by linarith
  show "\<bar>?q * x0\<bar> \<le> B" using le abs q by (simp add: abs_mult)
  have "2 * \<bar>x0\<bar> \<le> \<bar>x0\<bar> * a" using a mult_left_mono [of 2 a "\<bar>x0\<bar>"] by (simp add: mult.commute)
  moreover have "\<bar>x0\<bar> * a \<le> B" using inv b by (auto simp: inv_inv_def)
  moreover have "0 < B" using inv by (auto simp: inv_inv_def)
  ultimately have small: "\<bar>x0\<bar> < B" by linarith
  have "B dvd A * ?x - a mod b"
  proof -
    have "A * ?x - a mod b = (A * x1 - a) - ?q * (A * x0 - b)"
      using minus_div_mult_eq_mod [of a b] by (simp add: algebra_simps)
    then show ?thesis using inv by (simp add: inv_inv_def)
  qed
  moreover have "coprime b (a mod b)" using inv b by (simp add: inv_inv_def coprime_commute)
  moreover have "?x * x0 \<le> 0"
  proof -
    have "?x * x0 = x0 * x1 - ?q * (x0 * x0)" by (simp add: algebra_simps)
    moreover have "0 \<le> ?q * (x0 * x0)" using q by simp
    ultimately show ?thesis using inv by (simp add: inv_inv_def)
  qed
  ultimately show "inv_inv A B b (a mod b) ?x x0"
    using inv b sum small by (simp add: inv_inv_def)
qed

lemma inv_loop_result:
  assumes "inv_inv A B a b x0 x1" and "B < 2 ^ 127"
  shows "\<exists>v. inv_loop a b x0 x1 = Inr v \<and> B dvd A * v - 1 \<and> \<bar>v\<bar> < B"
  using assms(1)
proof (induction a b x0 x1 rule: inv_loop.induct)
  case (1 a b x0 x1)
  show ?case
  proof (cases "1 < a")
    case True
    note step = inv_inv_step [OF 1(2) True]
    have "i128 ((a div b) * x0)" "i128 (x1 - (a div b) * x0)"
      using step(3,4) assms(2) by (simp_all add: i128_def abs_le_iff)
    then show ?thesis
      using True 1(1) [OF True _ refl refl refl] step
      by (subst inv_loop.simps) (simp add: positive_sdiv)
  next
    case False
    then have "a = 1" using 1(2) by (simp add: inv_inv_def)
    then show ?thesis using 1(2) False by (subst inv_loop.simps) (simp add: inv_inv_def)
  qed
qed

lemma inv_mod_correct:
  assumes "0 < a" and "1 < b" and "coprime a b" and "b < 2 ^ 127"
  shows "\<exists>v. inv_mod a b = Inr v \<and> 0 \<le> v \<and> v < b \<and> (a * v) mod b = 1"
proof -
  have "inv_inv a b a b 0 1" using assms by (simp add: inv_inv_def)
  then obtain v where v: "inv_loop a b 0 1 = Inr v" "b dvd a * v - 1" "\<bar>v\<bar> < b"
    using inv_loop_result assms(4) by blast
  let ?v = "if v < 0 then v + b else v"
  have "b dvd a * ?v - 1" using v(2) by (auto simp: distrib_left dvd_add_left_iff algebra_simps)
  then have "(a * ?v) mod b = 1" using assms(2) by (simp add: mod_eq_dvd_iff [symmetric])
  moreover have "inv_mod a b = Inr ?v" using v assms by (auto simp: inv_mod_def i128_def)
  moreover have "0 \<le> ?v" "?v < b" using v(3) by auto
  ultimately show ?thesis by blast
qed

subsection \<open>The residues\<close>

abbreviation modulus :: "u16 list \<Rightarrow> int" where
  "modulus ps \<equiv> prod_list (map uint ps)"

abbreviation coprimes :: "u16 list \<Rightarrow> bool" where
  "coprimes ps \<equiv> sorted_wrt coprime (map uint ps)"

lemma modulus_positive: "0 \<notin> set ps \<Longrightarrow> 0 < modulus ps"
  by (induction ps) (auto simp: word_neq_0_conv word_less_def)

lemma product_i128: "0 \<notin> set ps \<Longrightarrow> 0 < acc \<Longrightarrow> modulus ps * acc < 2 ^ 127 \<Longrightarrow> product_i128 ps acc = Inr (modulus ps * acc)"
proof (induction ps arbitrary: acc)
  case (Cons p ps)
  then have p: "0 < uint p" by (auto simp: word_neq_0_conv word_less_def)
  have m: "0 < modulus ps" using Cons.prems(1) by (simp add: modulus_positive)
  have pos: "0 < uint p * acc" using p Cons.prems(2) by simp
  have less: "modulus ps * (uint p * acc) < 2 ^ 127" using Cons.prems(3) by (simp add: ac_simps)
  have "1 * (uint p * acc) \<le> modulus ps * (uint p * acc)" using m pos by (intro mult_right_mono) simp_all
  then have "i128 (uint p * acc)" unfolding i128_def using less pos by linarith
  then show ?case using Cons.IH [OF _ pos less] Cons.prems(1) by (simp add: ac_simps)
qed simp

lemma coprime_modulus: "(\<And>q. q \<in> set ps \<Longrightarrow> coprime z (uint q)) \<Longrightarrow> coprime z (modulus ps)"
  by (induction ps) simp_all

lemma modulus_dvd: "coprimes ps \<Longrightarrow> (\<And>p. p \<in> set ps \<Longrightarrow> uint p dvd z) \<Longrightarrow> modulus ps dvd z"
proof (induction ps)
  case (Cons p ps)
  have "coprime (uint p) (modulus ps)" by (rule coprime_modulus) (use Cons.prems(1) in simp)
  moreover have "modulus ps dvd z" using Cons by simp
  ultimately show ?case using Cons.prems(2) [of p] by (simp add: divides_mult)
qed simp

lemma uint_dvd_modulus: "p \<in> set ps \<Longrightarrow> uint p dvd modulus ps"
  by (induction ps) auto

text \<open>The loop: the residues done are right, and the other primes divide the result.\<close>

definition residues :: "int \<Rightarrow> (u16 \<times> u16) list \<Rightarrow> (u16 \<times> u16) list \<Rightarrow> int \<Rightarrow> bool" where
  "residues M ds rs ret \<longleftrightarrow> 0 \<le> ret \<and> ret < M \<and>
     (\<forall>(p, a) \<in> set ds. ret mod uint p = uint a mod uint p) \<and> (\<forall>(p, a) \<in> set rs. uint p dvd ret)"

definition in_range :: "int \<Rightarrow> int \<Rightarrow> int \<Rightarrow> bool" where
  "in_range M p a \<longleftrightarrow> (case inv_mod (M div p) p of Inl _ \<Rightarrow> False | Inr v \<Rightarrow> a * v * (M div p) + M \<le> 2 ^ 127)"

lemma crt_inv_step:
  assumes all: "coprimes (map fst (ds @ (p, a) # rs))" and large: "1 < uint p" "0 \<notin> set (map fst (ds @ (p, a) # rs))"
    and M: "M = modulus (map fst (ds @ (p, a) # rs))" and range: "in_range M (uint p) (uint a)" and res: "residues M ds ((p, a) # rs) ret"
  shows "\<exists>ret'. crt_inv_loop M ((p, a) # rs) ret = crt_inv_loop M rs ret' \<and> residues M (ds @ [(p, a)]) rs ret'"
proof -
  let ?q = "modulus (map fst ds) * modulus (map fst rs)"
  have Mq: "M = uint p * ?q" by (simp add: M ac_simps)
  then have q: "M div uint p = ?q" using large(1) by simp
  have "0 < modulus (map fst ds)" "0 < modulus (map fst rs)" by (rule modulus_positive, use large(2) in simp)+
  then have q0: "0 < ?q" by (rule mult_pos_pos)
  have "coprime (uint p) (modulus (map fst ds))"
    by (rule coprime_modulus) (use all in \<open>auto simp: sorted_wrt_append coprime_commute\<close>)
  moreover have "coprime (uint p) (modulus (map fst rs))"
    by (rule coprime_modulus) (use all in \<open>auto simp: sorted_wrt_append\<close>)
  ultimately have cop: "coprime ?q (uint p)" by (simp add: coprime_commute)
  have "uint p < 2 ^ 127" using uint_lt2p [of p] by simp
  then obtain v where v: "inv_mod ?q (uint p) = Inr v" "0 \<le> v" "v < uint p" "(?q * v) mod uint p = 1"
    using inv_mod_correct [OF q0 large(1) cop] by blast
  let ?t = "uint a * v" and ?u = "uint a * v * ?q"
  have range: "?u + M \<le> 2 ^ 127" using range v(1) q by (simp add: in_range_def)
  have ret: "0 \<le> ret" "ret < M" using res by (simp_all add: residues_def)
  have pos: "0 \<le> ?t" "0 \<le> ?u" using v(2) q0 by simp_all
  have "?t * 1 \<le> ?t * ?q" using pos(1) q0 by (intro mult_left_mono) simp_all
  then have ok: "i128 ?t" "i128 ?u" "i128 (ret + ?u)" unfolding i128_def using pos ret range by linarith+
  let ?ret = "(ret + ?u) mod M"
  have M0: "0 < M" using ret by simp
  have "crt_inv_loop M ((p, a) # rs) ret = crt_inv_loop M rs ?ret"
    using large(1) M0 ret pos v(1) ok by (auto simp: positive_sdiv q Let_def)
  moreover have "residues M (ds @ [(p, a)]) rs ?ret"
  proof -
    have low: "?ret mod uint r = (ret + ?u) mod uint r" if "uint r dvd M" for r :: u16
      using that by (simp add: mod_mod_cancel)
    have dvd: "uint r dvd M" if "r \<in> set (map fst (ds @ (p, a) # rs))" for r
      unfolding M using that by (rule uint_dvd_modulus)
    have others: "uint r dvd ?u" if "r \<in> set (map fst ds) \<union> set (map fst rs)" for r
    proof -
      have "uint r dvd modulus (map fst ds) \<or> uint r dvd modulus (map fst rs)" using that uint_dvd_modulus by blast
      then have "uint r dvd ?q" using dvd_mult dvd_mult2 by blast
      then show ?thesis by (rule dvd_mult)
    qed
    have "?ret mod uint r = uint b mod uint r" if b: "(r, b) \<in> set ds" for r b
    proof -
      have "r \<in> set (map fst ds)" using b by force
      then have r: "uint r dvd M" "uint r dvd ?u" using dvd others by simp_all
      obtain k where k: "?u = uint r * k" using r(2) by (rule dvdE)
      have "?ret mod uint r = ret mod uint r" using low [OF r(1)] unfolding k by (simp only: mod_mult_self2)
      then show ?thesis using res b by (auto simp: residues_def)
    qed
    moreover have "?ret mod uint p = uint a mod uint p"
    proof -
      have "uint p dvd ret" using res by (simp add: residues_def)
      then obtain k where k: "ret = uint p * k" by (rule dvdE)
      have "uint p dvd M" using dvd by simp
      then have "?ret mod uint p = (uint p * k + ?u) mod uint p" using low k by simp
      also have "\<dots> = ?u mod uint p" by simp
      also have "?u mod uint p = (uint a * (?q * v)) mod uint p" by (simp only: mult_ac)
      also have "\<dots> = (uint a * ((?q * v) mod uint p)) mod uint p" by (simp only: mod_mult_right_eq)
      finally have "?ret mod uint p = (uint a * ((?q * v) mod uint p)) mod uint p" .
      then show ?thesis using v(4) by simp
    qed
    moreover have "uint r dvd ?ret" if b: "(r, b) \<in> set rs" for r b
    proof -
      have r: "r \<in> set (map fst rs)" using b by force
      have "uint r dvd ret" using res b by (auto simp: residues_def)
      moreover have "uint r dvd ?u" using others r by blast
      moreover have "uint r dvd M" using dvd r by simp
      ultimately show ?thesis by (simp add: dvd_mod)
    qed
    ultimately show ?thesis using M0 by (auto simp: residues_def)
  qed
  ultimately show ?thesis by blast
qed

lemma crt_inv_loop_result:
  assumes "coprimes (map fst (ds @ rs))" and "\<forall>p \<in> set (map fst (ds @ rs)). 1 < uint p" and "M = modulus (map fst (ds @ rs))"
    and "\<forall>(p, a) \<in> set rs. in_range M (uint p) (uint a)" and "residues M ds rs ret"
  shows "\<exists>ret'. crt_inv_loop M rs ret = Inr ret' \<and> residues M (ds @ rs) [] ret'"
  using assms
proof (induction rs arbitrary: ds ret)
  case (Cons r rs)
  obtain p a where r: "r = (p, a)" by fastforce
  have "0 \<notin> set (map fst (ds @ (p, a) # rs))" using Cons.prems(2) r by force
  then obtain ret' where ret': "crt_inv_loop M ((p, a) # rs) ret = crt_inv_loop M rs ret'" "residues M (ds @ [(p, a)]) rs ret'"
    using crt_inv_step [of ds p a rs M ret] Cons.prems r by auto
  then show ?case using Cons.IH [of "ds @ [(p, a)]" ret'] Cons.prems r by simp
qed simp

lemma crt_inv_result:
  assumes "length xs = length ps" and "coprimes ps" and "\<forall>p \<in> set ps. 1 < uint p" and "modulus ps < 2 ^ 127"
    and "\<forall>(p, a) \<in> set (zip ps xs). in_range (modulus ps) (uint p) (uint a)"
  shows "\<exists>x. crt_inv xs ps = Inr x \<and> uint x < modulus ps \<and> (\<forall>(p, a) \<in> set (zip ps xs). uint x mod uint p = uint a mod uint p)"
proof -
  have nz: "0 \<notin> set ps" using assms(3) by force
  have fst: "map fst (zip ps xs) = ps" using assms(1) by simp
  have "residues (modulus ps) [] (zip ps xs) 0" using modulus_positive [OF nz] by (auto simp: residues_def)
  then obtain ret where ret: "crt_inv_loop (modulus ps) (zip ps xs) 0 = Inr ret" "residues (modulus ps) (zip ps xs) [] ret"
    using crt_inv_loop_result [of "[]" "zip ps xs" "modulus ps" 0] assms fst by auto
  have bounds: "0 \<le> ret" "ret < modulus ps" using ret(2) by (simp_all add: residues_def)
  moreover have "(2 :: int) ^ 127 < 2 ^ 128" by simp
  ultimately have "uint (word_of_int ret :: u128) = ret" using assms(4) by (simp add: uint_word_of_int_eq take_bit_int_eq_self)
  then show ?thesis using ret bounds product_i128 [OF nz, of 1] assms(4) by (auto simp: crt_inv_def residues_def)
qed

lemma crt_residues: "0 \<notin> set ps \<Longrightarrow> crt x ps = Inr (map (\<lambda>p. ucast (x mod ucast p)) ps)"
  by (simp add: crt_def)

lemma uint_crt_residue: "0 < p \<Longrightarrow> uint (ucast (x mod ucast p) :: u16) = uint x mod uint p" for x :: u128 and p :: u16
proof -
  assume p: "0 < p"
  have "uint (ucast p :: u128) = uint p" by (simp add: unsigned_ucast_eq take_bit_int_eq_self uint_lt2p [of p, THEN less_trans])
  then have "uint (x mod ucast p) = uint x mod uint p" by (simp add: uint_mod)
  moreover have "uint x mod uint p < uint p" using p by (simp add: word_less_def)
  then have "uint x mod uint p < 2 ^ 16" using uint_lt2p [of p] by simp
  moreover have "0 \<le> uint x mod uint p" using p by (simp add: word_less_def)
  ultimately show ?thesis by (simp add: unsigned_ucast_eq take_bit_int_eq_self)
qed

lemma crt_roundtrip_in_range:
  assumes "coprimes ps" and "\<forall>p \<in> set ps. 1 < uint p" and "modulus ps < 2 ^ 127" and "uint x < modulus ps"
    and "\<forall>p \<in> set ps. in_range (modulus ps) (uint p) (uint x mod uint p)"
  shows "\<exists>xs. crt x ps = Inr xs \<and> crt_inv xs ps = Inr x"
proof -
  have nz: "0 \<notin> set ps" using assms(2) by force
  let ?xs = "map (\<lambda>p. ucast (x mod ucast p)) ps :: u16 list"
  have zip: "zip ps ?xs = map (\<lambda>p. (p, ucast (x mod ucast p))) ps" by (simp add: zip_map2 zip_same_conv_map)
  have res: "uint (ucast (x mod ucast p) :: u16) = uint x mod uint p" if "p \<in> set ps" for p
    by (rule uint_crt_residue) (use that nz in \<open>auto simp: word_greater_zero_iff\<close>)
  have "\<forall>(p, a) \<in> set (zip ps ?xs). in_range (modulus ps) (uint p) (uint a)"
    unfolding zip using assms(5) res by auto
  then obtain y where y: "crt_inv ?xs ps = Inr y" "uint y < modulus ps" "\<forall>(p, a) \<in> set (zip ps ?xs). uint y mod uint p = uint a mod uint p"
    using crt_inv_result [of ?xs ps] assms(1-3) by auto
  have "uint p dvd uint y - uint x" if "p \<in> set ps" for p
    using y(3) that res unfolding zip by (auto simp: mod_eq_dvd_iff [symmetric])
  then have "modulus ps dvd uint y - uint x" using assms(1) by (simp add: modulus_dvd)
  then have "uint y mod modulus ps = uint x mod modulus ps" by (simp add: mod_eq_dvd_iff)
  then have "uint y = uint x" using y(2) assms(4) by simp
  then have "y = x" by (simp add: word_uint_eq_iff)
  then show ?thesis using y(1) crt_residues [OF nz, of x] by simp
qed

lemma in_range_product:
  assumes "1 < p" and "0 \<le> a" and "a < p" and "p dvd M" and "0 < M" and "coprime (M div p) p" and "p < 2 ^ 127" and "p * M \<le> 2 ^ 127"
  shows "in_range M p a"
proof -
  obtain q where q: "M = p * q" using assms(4) by (rule dvdE)
  then have Mq: "M div p = q" and q0: "0 < q" using assms(1,5) by (auto simp: zero_less_mult_iff)
  then obtain v where v: "inv_mod q p = Inr v" "0 \<le> v" "v < p"
    using inv_mod_correct [of q p] assms by auto
  have "a * v \<le> (p - 1) * (p - 1)" using assms(1-3) v(2,3) by (intro mult_mono) simp_all
  also have "(p - 1) * (p - 1) \<le> p * p - p" using assms(1) by (simp add: algebra_simps)
  finally have "a * v * q \<le> (p * p - p) * q" using q0 by (intro mult_right_mono) simp_all
  also have "(p * p - p) * q = p * M - M" by (simp add: q algebra_simps)
  finally show ?thesis using assms(8) v(1) by (simp add: in_range_def Mq)
qed

lemma coprime_quotient:
  assumes "coprimes ps" and "p \<in> set ps" and "\<forall>p \<in> set ps. 1 < uint p"
  shows "coprime (modulus ps div uint p) (uint p)" and "0 < modulus ps div uint p"
proof -
  obtain ds rs where ps: "ps = ds @ p # rs" using assms(2) by (meson split_list)
  have p: "1 < uint p" using assms(2,3) by blast
  have "modulus ps = uint p * (modulus ds * modulus rs)" by (simp add: ps ac_simps)
  then have q: "modulus ps div uint p = modulus ds * modulus rs" using p by simp
  have "coprime (uint p) (modulus ds)"
    by (rule coprime_modulus) (use assms(1) in \<open>auto simp: ps sorted_wrt_append coprime_commute\<close>)
  moreover have "coprime (uint p) (modulus rs)"
    by (rule coprime_modulus) (use assms(1) in \<open>auto simp: ps sorted_wrt_append\<close>)
  ultimately show "coprime (modulus ps div uint p) (uint p)" by (simp add: q coprime_commute)
  have "0 \<notin> set ps" using assms(3) by force
  then have "0 < modulus ds" "0 < modulus rs" by (simp_all add: ps modulus_positive)
  then show "0 < modulus ps div uint p" by (simp add: q)
qed

lemma in_range_mono:
  assumes "coprimes ps" and "p \<in> set ps" and "\<forall>p \<in> set ps. 1 < uint p" and "in_range (modulus ps) (uint p) b" and "a \<le> b"
  shows "in_range (modulus ps) (uint p) a"
proof -
  let ?q = "modulus ps div uint p"
  note q = coprime_quotient [OF assms(1-3)]
  have "1 < uint p" "uint p < 2 ^ 127" using assms(2,3) uint_lt2p [of p] by simp_all
  then obtain v where v: "inv_mod ?q (uint p) = Inr v" "0 \<le> v" using inv_mod_correct [OF q(2) _ q(1)] by blast
  have "a * (v * ?q) \<le> b * (v * ?q)" using assms(5) v(2) q(2) by (intro mult_right_mono) simp_all
  then show ?thesis using assms(4) v(1) by (simp add: in_range_def mult.assoc)
qed

end
