(* ===== verification/Crt_Correct.thy ===== *)
theory Crt_Correct
  imports Crt
begin

text \<open>
  The residue numbers over the primes of the library: the range of the intermediate values, the
  factoring of moduli, the moduli of a given width and the randomly drawn ones.
\<close>

subsection \<open>The primes of the library\<close>

definition primes_int :: "int list" where
  "primes_int = [
    2, 3, 5, 7, 11, 13, 17, 19, 23, 29, 31, 37, 41, 43, 47, 53, 59, 61, 67, 71, 73, 79, 83, 89, 97,
    101, 103, 107, 109]"

lemma uint_PRIMES: "map uint PRIMES = primes_int"
  by (simp add: PRIMES_def primes_int_def)

lemma length_PRIMES: "length PRIMES = 29"
  by (simp add: PRIMES_def)

lemma coprimes_PRIMES: "coprimes PRIMES"
  unfolding uint_PRIMES by code_simp

lemma large_PRIMES: "\<forall>p \<in> set PRIMES. 1 < uint p"
  by (simp add: PRIMES_def)

lemma coprimes_take: "coprimes (take n PRIMES)"
  using coprimes_PRIMES sorted_wrt_take by (metis take_map)

text \<open>
  The products stay in range: with up to 24 primes because they are below the largest prime times the
  modulus, with 25 primes because of the values of the 25 inverses.
\<close>

fun all_in_range :: "int \<Rightarrow> (int \<times> int) list \<Rightarrow> bool" where
  "all_in_range M [] \<longleftrightarrow> True"
| "all_in_range M ((p, w) # ps) \<longleftrightarrow> 0 \<le> w \<and> w < p \<and> (M div p * w) mod p = 1 \<and> (p - 1) * w * (M div p) + M \<le> 2 ^ 127 \<and>
    all_in_range M ps"

lemma all_in_rangeD: "all_in_range M ps \<Longrightarrow> p \<in> fst ` set ps \<Longrightarrow>
    \<exists>w. 0 \<le> w \<and> w < p \<and> (M div p * w) mod p = 1 \<and> (p - 1) * w * (M div p) + M \<le> 2 ^ 127"
  by (induction M ps rule: all_in_range.induct) auto

lemma prod_list_take_le:
  fixes xs :: "int list"
  assumes "n \<le> m" and "\<forall>x \<in> set xs. 0 < x"
  shows "prod_list (take n xs) \<le> prod_list (take m xs)"
proof -
  have positive: "(\<And>y. y \<in> set ys \<Longrightarrow> 0 < y) \<Longrightarrow> 0 < prod_list ys" for ys :: "int list" by (induction ys) simp_all
  have "take m xs = take n xs @ take (m - n) (drop n xs)" using assms(1) by (metis le_add_diff_inverse take_add)
  moreover have "0 < prod_list (take n xs)" using assms(2) by (intro positive) (meson in_set_takeD)
  moreover have "0 < prod_list (take (m - n) (drop n xs))"
    using assms(2) by (intro positive) (meson in_set_takeD in_set_dropD)
  ultimately show ?thesis by simp
qed

lemma primes_int_bounds: "\<forall>p \<in> set primes_int. 0 < p \<and> p \<le> 109"
  by (simp add: primes_int_def)

definition inverses_25 :: "(int \<times> int) list" where
  "inverses_25 = [
    (2, 1), (3, 2), (5, 4), (7, 4), (11, 4), (13, 9), (17, 9), (19, 7), (23, 12), (29, 27), (31,
    14), (37, 28), (41, 21), (43, 20), (47, 22), (53, 22), (59, 4), (61, 35), (67, 61), (71, 7),
    (73, 50), (79, 11), (83, 53), (89, 30), (97, 52)]"

lemma prefix_25:
  "prod_list (take 25 primes_int) = 2305567963945518424753102147331756070"
  "take 25 primes_int = map fst inverses_25"
  by (simp_all add: primes_int_def inverses_25_def)

lemma prefix_25_in_range: "all_in_range 2305567963945518424753102147331756070 inverses_25"
  by code_simp

lemma inverse_unique:
  fixes q v w p :: int
  assumes "(q * v) mod p = 1" and "(q * w) mod p = 1" and "0 \<le> v" "v < p" "0 \<le> w" "w < p"
  shows "v = w"
proof -
  have "v mod p = (v * (q * w)) mod p" using assms(2) by (metis mod_mult_right_eq mult.right_neutral)
  also have "\<dots> = (w * (q * v)) mod p" by (simp add: ac_simps)
  also have "\<dots> = w mod p" using assms(1) by (metis mod_mult_right_eq mult.right_neutral)
  finally show ?thesis using assms(3-6) by simp
qed

lemma in_range_by_inverse:
  assumes "coprimes ps" and "p \<in> set ps" and "\<forall>p \<in> set ps. 1 < uint p"
    and "0 \<le> w" "w < uint p" "(modulus ps div uint p * w) mod uint p = 1"
    and "(uint p - 1) * w * (modulus ps div uint p) + modulus ps \<le> 2 ^ 127"
  shows "in_range (modulus ps) (uint p) (uint p - 1)"
proof -
  let ?q = "modulus ps div uint p"
  note q = coprime_quotient [OF assms(1-3)]
  have "1 < uint p" "uint p < 2 ^ 127" using assms(2,3) uint_lt2p [of p] by simp_all
  then obtain v where v: "inv_mod ?q (uint p) = Inr v" "0 \<le> v" "v < uint p" "(?q * v) mod uint p = 1"
    using inv_mod_correct [OF q(2) _ q(1)] by blast
  then show ?thesis using inverse_unique [OF v(4) assms(6) v(2,3) assms(4,5)] assms(7) by (simp add: in_range_def)
qed

text \<open>
  The products stay in range for every selection of the first 25 primes: when all are selected because
  of the values of the 25 inverses, otherwise because the product is at most half of that.
\<close>

definition usable :: "u16 list \<Rightarrow> bool" where
  "usable ps \<longleftrightarrow> coprimes ps \<and> (\<forall>p \<in> set ps. 1 < uint p) \<and> modulus ps < 2 ^ 127 \<and>
     (\<forall>p \<in> set ps. in_range (modulus ps) (uint p) (uint p - 1))"

definition selected :: "bool list \<Rightarrow> u16 list" where
  "selected draws = map fst (filter snd (zip (take 25 PRIMES) draws))"

lemma modulus_25: "modulus (take 25 PRIMES) = 2305567963945518424753102147331756070"
  using prefix_25(1) uint_PRIMES by (metis take_map)

lemma usable_25: "usable (take 25 PRIMES)"
proof -
  let ?ps = "take 25 PRIMES"
  have large: "\<forall>p \<in> set ?ps. 1 < uint p" using large_PRIMES by (meson in_set_takeD)
  have "in_range (modulus ?ps) (uint p) (uint p - 1)" if p: "p \<in> set ?ps" for p
  proof -
    have "uint p \<in> set (take 25 primes_int)" using p unfolding uint_PRIMES [symmetric] take_map by simp
    then have "uint p \<in> fst ` set inverses_25" by (simp add: prefix_25(2))
    then show ?thesis
      using all_in_rangeD [OF prefix_25_in_range] in_range_by_inverse [OF coprimes_take p large] unfolding modulus_25 by blast
  qed
  then show ?thesis using coprimes_take large by (simp add: usable_def modulus_25)
qed

lemma modulus_split:
  "modulus (map fst zs) = modulus (map fst (filter snd zs)) * modulus (map fst (filter (\<lambda>z. \<not> snd z) zs))"
  by (induction zs) simp_all

lemma modulus_ge_2: "qs \<noteq> [] \<Longrightarrow> \<forall>p \<in> set qs. 1 < uint p \<Longrightarrow> 2 \<le> modulus qs"
proof (induction qs)
  case (Cons q qs)
  have "0 \<notin> set qs" using Cons.prems(2) by force
  then have "0 < modulus qs" by (rule modulus_positive)
  then have "2 * 1 \<le> uint q * modulus qs" using Cons.prems(2) by (intro mult_mono) simp_all
  then show ?case by simp
qed simp

lemma selected_coprimes: "coprimes (selected draws)"
proof -
  let ?zs = "zip (take 25 PRIMES) draws"
  have "map fst ?zs = take (min 25 (length draws)) PRIMES" by (simp add: map_fst_zip_take take_map length_PRIMES min.commute)
  then have "coprimes (map fst ?zs)" using coprimes_take by simp
  then show ?thesis unfolding selected_def sorted_wrt_map by (rule sorted_wrt_filter)
qed

lemma selected_subset: "set (selected draws) \<subseteq> set (take 25 PRIMES)"
  by (auto simp: selected_def dest: set_zip_leftD)

lemma selected_half:
  assumes "length draws = 25" and "\<not> list_all id draws"
  shows "2 * modulus (selected draws) \<le> 2305567963945518424753102147331756070"
proof -
  let ?zs = "zip (take 25 PRIMES) draws" and ?qs = "map fst (filter (\<lambda>z. \<not> snd z) (zip (take 25 PRIMES) draws))"
  have length: "length (take 25 PRIMES) = length draws" using assms(1) by (simp add: length_PRIMES)
  have "map fst ?zs = take 25 PRIMES" using length by (rule map_fst_zip)
  then have total: "modulus (selected draws) * modulus ?qs = 2305567963945518424753102147331756070"
    using modulus_split [of ?zs] modulus_25 unfolding selected_def by simp
  obtain i where "i < length draws" "\<not> draws ! i" using assms(2) by (auto simp: list_all_length)
  then have i: "i < length ?zs" "?zs ! i = (take 25 PRIMES ! i, False)" using length by simp_all
  then have "(take 25 PRIMES ! i, False) \<in> set ?zs" using nth_mem [OF i(1)] by (simp only:)
  then have "?qs \<noteq> []" unfolding map_is_Nil_conv filter_empty_conv by (metis snd_conv)
  moreover have "\<forall>p \<in> set ?qs. 1 < uint p" using large_PRIMES by (auto dest!: set_zip_leftD in_set_takeD)
  ultimately have two: "2 \<le> modulus ?qs" by (rule modulus_ge_2)
  have "0 \<notin> set (selected draws)" using selected_subset large_PRIMES in_set_takeD by force
  then have "0 < modulus (selected draws)" by (rule modulus_positive)
  then have "modulus (selected draws) * 2 \<le> modulus (selected draws) * modulus ?qs" using two by (intro mult_left_mono) simp_all
  then show ?thesis using total by simp
qed

lemma selected_usable:
  assumes "length draws = 25"
  shows "usable (selected draws)"
proof (cases "list_all id draws")
  case True
  then have "draws = replicate 25 True" using assms by (metis (full_types) id_apply list_all_iff replicate_eqI)
  moreover have "filter snd (zip xs (replicate n True)) = zip xs (replicate n True)" for xs :: "u16 list" and n
    by (auto simp: filter_id_conv set_zip)
  ultimately have "selected draws = take 25 PRIMES" by (simp add: selected_def length_PRIMES)
  then show ?thesis using usable_25 by simp
next
  case False
  let ?ps = "selected draws" and ?m = "modulus (selected draws)"
  have m: "2 * ?m \<le> 2305567963945518424753102147331756070" using assms False by (rule selected_half)
  have large: "\<forall>p \<in> set ?ps. 1 < uint p" using selected_subset large_PRIMES in_set_takeD by fast
  have "0 \<notin> set ?ps" using large by force
  then have pos: "0 < ?m" by (rule modulus_positive)
  have "in_range ?m (uint p) (uint p - 1)" if p: "p \<in> set ?ps" for p
  proof -
    note q = coprime_quotient [OF selected_coprimes p large]
    have p1: "1 < uint p" using large p by blast
    have "uint p \<in> set primes_int"
      using p selected_subset [of draws] in_set_takeD [of p 25 PRIMES] unfolding uint_PRIMES [symmetric] by auto
    then have p109: "uint p \<le> 109" using primes_int_bounds by blast
    have "uint p * ?m \<le> 109 * ?m" using p109 pos by (intro mult_right_mono) simp_all
    then have "uint p * ?m \<le> 2 ^ 127" using m by simp
    then show ?thesis
      by (intro in_range_product) (use p1 p109 pos uint_dvd_modulus [OF p] q(1) in simp_all)
  qed
  then show ?thesis using selected_coprimes large m by (simp add: usable_def)
qed

lemma prefix_selected:
  assumes "n \<le> 25"
  shows "take n PRIMES = selected (replicate n True @ replicate (25 - n) False)"
proof -
  have *: "filter snd (zip xs (replicate k b)) = (if b then zip xs (replicate k b) else [])" for xs :: "u16 list" and k b
    by (auto simp: filter_id_conv filter_empty_conv set_zip)
  have "take 25 PRIMES = take n PRIMES @ take (25 - n) (drop n PRIMES)" using assms by (metis le_add_diff_inverse take_add)
  moreover have "length (take n PRIMES) = length (replicate n True)" using assms by (simp add: length_PRIMES)
  ultimately have "zip (take 25 PRIMES) (replicate n True @ replicate (25 - n) False) =
      zip (take n PRIMES) (replicate n True) @ zip (take (25 - n) (drop n PRIMES)) (replicate (25 - n) False)"
    by (simp only: zip_append)
  then show ?thesis using assms by (simp add: selected_def * length_PRIMES)
qed

lemma prefix_usable: "n \<le> 25 \<Longrightarrow> usable (take n PRIMES)"
  using selected_usable prefix_selected by simp

lemma crt_usable:
  assumes "usable ps" and "uint x < modulus ps"
  shows "\<exists>xs. crt x ps = Inr xs \<and> crt_inv xs ps = Inr x"
proof (rule crt_roundtrip_in_range)
  have cop: "coprimes ps" and large: "\<forall>p \<in> set ps. 1 < uint p" using assms(1) by (auto simp: usable_def)
  show "\<forall>p \<in> set ps. in_range (modulus ps) (uint p) (uint x mod uint p)"
  proof
    fix p assume p: "p \<in> set ps"
    then have "0 < uint p" using large by force
    then have "uint x mod uint p \<le> uint p - 1" by simp
    moreover have "in_range (modulus ps) (uint p) (uint p - 1)" using assms(1) p by (simp add: usable_def)
    ultimately show "in_range (modulus ps) (uint p) (uint x mod uint p)" using in_range_mono [OF cop p large] by blast
  qed
qed (use assms in \<open>simp_all add: usable_def\<close>)

lemma crt_inv_residues:
  assumes "usable ps" and "list_all2 (<) xs ps"
  shows "\<exists>x. crt_inv xs ps = Inr x \<and> uint x < modulus ps \<and> crt x ps = Inr xs"
proof -
  have cop: "coprimes ps" and large: "\<forall>p \<in> set ps. 1 < uint p" and small: "modulus ps < 2 ^ 127"
    using assms(1) by (auto simp: usable_def)
  have length: "length xs = length ps" using assms(2) by (rule list_all2_lengthD)
  have less: "xs ! i < ps ! i" if "i < length ps" for i using assms(2) length that by (simp add: list_all2_conv_all_nth)
  have "in_range (modulus ps) (uint p) (uint a)" if pa: "(p, a) \<in> set (zip ps xs)" for p a
  proof -
    have p: "p \<in> set ps" using pa by (rule set_zip_leftD)
    obtain i where "i < length ps" "ps ! i = p" "xs ! i = a" using pa by (metis in_set_zip fst_conv snd_conv)
    then have "uint a \<le> uint p - 1" using less by (auto simp: word_less_def)
    moreover have "in_range (modulus ps) (uint p) (uint p - 1)" using assms(1) p by (simp add: usable_def)
    ultimately show ?thesis using in_range_mono [OF cop p large] by blast
  qed
  then obtain x where x: "crt_inv xs ps = Inr x" "uint x < modulus ps"
      "\<forall>(p, a) \<in> set (zip ps xs). uint x mod uint p = uint a mod uint p"
    using crt_inv_result [OF length cop large small] by blast
  have "map (\<lambda>p. ucast (x mod ucast p)) ps = xs"
  proof (rule nth_equalityI)
    fix i assume "i < length (map (\<lambda>p. ucast (x mod ucast p)) ps :: u16 list)"
    then have i: "i < length ps" by simp
    then have p: "1 < uint (ps ! i)" using large nth_mem by blast
    have "(ps ! i, xs ! i) \<in> set (zip ps xs)" using i length by (metis in_set_zip fst_conv snd_conv)
    then have "uint x mod uint (ps ! i) = uint (xs ! i) mod uint (ps ! i)" using x(3) by blast
    also have "\<dots> = uint (xs ! i)" using less [OF i] by (simp add: word_less_def)
    finally have "uint (ucast (x mod ucast (ps ! i)) :: u16) = uint (xs ! i)"
      using p by (subst uint_crt_residue) (simp_all add: word_less_def)
    then show "map (\<lambda>p. ucast (x mod ucast p)) ps ! i = xs ! i" using i by (simp add: word_uint_eq_iff)
  qed (simp add: length)
  moreover have "0 \<notin> set ps" using large by force
  ultimately show ?thesis using x(1,2) crt_residues by auto
qed

lemma product_i128_overflow: "product_i128 (take 26 PRIMES) 1 = Inl Panic"
  by (simp add: PRIMES_def i128_def)

lemma product_26: "modulus_with_nprimes 26 = Inr 232862364358497360900063316880507363070"
  by (simp add: modulus_with_nprimes_def product_u128_def PRIMES_def checked_mul_def)

subsection \<open>Factors\<close>

lemma factor_loop_filter:
  assumes "coprimes ps" and "\<forall>p \<in> set ps. 1 < uint p"
  shows "fst (factor_loop ps x fs) = fs @ filter (\<lambda>p. uint p dvd uint x) ps \<and>
    uint (snd (factor_loop ps x fs)) * modulus (filter (\<lambda>p. uint p dvd uint x) ps) = uint x"
  using assms
proof (induction ps arbitrary: x fs)
  case (Cons p ps)
  have cast: "uint (ucast p :: u128) = uint p" by (simp add: unsigned_ucast_eq take_bit_int_eq_self uint_lt2p [of p, THEN less_trans])
  have p: "1 < uint p" using Cons.prems(2) by simp
  have "x mod ucast p = 0 \<longleftrightarrow> uint (x mod ucast p) = 0" by (simp add: word_uint_eq_iff)
  then have dvd: "x mod ucast p = 0 \<longleftrightarrow> uint p dvd uint x" by (simp add: uint_mod cast dvd_eq_mod_eq_0)
  show ?case
  proof (cases "uint p dvd uint x")
    case True
    then obtain k where k: "uint x = uint p * k" by (rule dvdE)
    have quot: "uint (x div ucast p) = k" using k p by (simp add: uint_div cast)
    have "uint r dvd k \<longleftrightarrow> uint r dvd uint x" if "r \<in> set ps" for r
    proof -
      have "coprime (uint p) (uint r)" using that Cons.prems(1) by simp
      then have "coprime (uint r) (uint p)" by (rule coprime_imp_coprime) simp_all
      then show ?thesis by (simp add: k coprime_dvd_mult_right_iff)
    qed
    then have "filter (\<lambda>r. uint r dvd k) ps = filter (\<lambda>r. uint r dvd uint x) ps" by (auto intro: filter_cong)
    then show ?thesis using Cons.IH [of "x div ucast p" "fs @ [p]"] Cons.prems True dvd k quot
      by (simp add: Let_def ac_simps)
  next
    case False
    then show ?thesis using Cons.IH [of x fs] Cons.prems dvd by (simp add: Let_def)
  qed
qed simp

lemma factor_exact:
  "factor q = (let fs = filter (\<lambda>p. uint p dvd uint q) PRIMES in if modulus fs = uint q then Inr fs else Inl Panic)"
proof -
  let ?fs = "filter (\<lambda>p. uint p dvd uint q) PRIMES"
  obtain x where loop: "factor_loop PRIMES q [] = (?fs, x)" and x: "uint x * modulus ?fs = uint q"
    using factor_loop_filter [OF coprimes_PRIMES large_PRIMES, of q "[]"] by (metis append_Nil eq_fst_iff snd_conv)
  have "0 \<notin> set ?fs" using large_PRIMES by force
  then have "0 < modulus ?fs" by (rule modulus_positive)
  then have "x = 1 \<longleftrightarrow> modulus ?fs = uint q" using x by (auto simp: word_uint_eq_iff)
  then show ?thesis by (simp add: factor_def loop Let_def)
qed

subsection \<open>Moduli of a given width\<close>

lemma checked_mul_u16:
  fixes acc :: u128 and p :: u16
  assumes "uint acc * uint p < 2 ^ 128"
  shows "checked_mul acc (ucast p) = Inr (acc * ucast p)" and "uint (acc * ucast p) = uint acc * uint p"
proof -
  have cast: "uint (ucast p :: u128) = uint p" by (simp add: unsigned_ucast_eq take_bit_int_eq_self uint_lt2p [of p, THEN less_trans])
  then have "int (unat acc * unat (ucast p :: u128)) = uint acc * uint p" by simp
  then have "int (unat acc * unat (ucast p :: u128)) < int (2 ^ 128)" using assms by simp
  then have "unat acc * unat (ucast p :: u128) < 2 ^ 128" by (simp only: of_nat_less_iff)
  then show "checked_mul acc (ucast p) = Inr (acc * ucast p)" by (simp add: checked_mul_def)
  show "uint (acc * ucast p) = uint acc * uint p" using assms by (simp add: uint_word_ariths cast)
qed

lemma product_exact:
  fixes acc :: u128
  assumes "0 \<notin> set ps" and "0 < uint acc" and "uint acc * modulus ps < 2 ^ 128"
  shows "foldM_res (\<lambda>acc x. checked_mul acc (ucast x)) acc ps = Inr (word_of_int (uint acc * modulus ps))"
  using assms
proof (induction ps arbitrary: acc)
  case (Cons p ps)
  have m: "0 < modulus ps" using Cons.prems(1) by (simp add: modulus_positive)
  have p: "0 < uint p" using Cons.prems(1) by (auto simp: word_neq_0_conv word_less_def)
  have le: "uint acc * uint p \<le> uint acc * uint p * modulus ps" using m p Cons.prems(2) by simp
  then have "uint acc * uint p < 2 ^ 128" using Cons.prems(3) by (simp add: mult.assoc)
  note mul = checked_mul_u16 [OF this]
  show ?case using Cons.IH [of "acc * ucast p"] Cons.prems p mul by (simp add: mult.assoc)
qed simp

lemma wide_iff: "0 < drop_bit n w \<longleftrightarrow> 2 ^ n \<le> uint w" for w :: u128
proof -
  have "uint (drop_bit n w) = uint w div 2 ^ n"
    by (subst unsigned_drop_bit_eq) (simp add: drop_bit_eq_div take_bit_int_eq_self uint_lt2p [of w, simplified])
  moreover have "0 < drop_bit n w \<longleftrightarrow> 0 < uint (drop_bit n w)" by (simp add: word_less_def)
  ultimately have "0 < drop_bit n w \<longleftrightarrow> 0 < uint w div 2 ^ n" by simp
  then show ?thesis by (simp add: pos_imp_zdiv_pos_iff)
qed

text \<open>The loop stops after the least number of primes that makes the product wide enough.\<close>

definition least_width :: "nat \<Rightarrow> u16 list \<Rightarrow> int \<Rightarrow> nat \<Rightarrow> bool" where
  "least_width nbits ps m k \<longleftrightarrow> 0 < k \<and> k \<le> length ps \<and> 2 ^ nbits \<le> m * modulus (take k ps) \<and>
     (\<forall>j. 0 < j \<and> j < k \<longrightarrow> m * modulus (take j ps) < 2 ^ nbits)"

lemma primes_loop_least:
  assumes "nbits < 128" and "0 \<notin> set ps" and "0 < uint acc" and "least_width nbits ps (uint acc) k"
    and "uint acc * modulus (take k ps) < 2 ^ 128"
  shows "primes_loop nbits ps acc qs = Inr (qs @ take k ps, word_of_int (uint acc * modulus (take k ps)))"
  using assms(2-5)
proof (induction ps arbitrary: acc qs k)
  case Nil
  then show ?case by (simp add: least_width_def)
next
  case (Cons p ps)
  obtain k' where k: "k = Suc k'" using Cons.prems(3) by (cases k) (auto simp: least_width_def)
  have "0 \<notin> set (take k' ps)" using Cons.prems(1) by (meson in_set_takeD list.set_intros(2))
  then have m: "0 < modulus (take k' ps)" by (rule modulus_positive)
  have p: "0 < uint p" using Cons.prems(1) by (auto simp: word_neq_0_conv word_less_def)
  have "uint acc * uint p \<le> uint acc * uint p * modulus (take k' ps)" using m p Cons.prems(2) by simp
  then have "uint acc * uint p < 2 ^ 128" using Cons.prems(4) by (simp add: k mult.assoc)
  note mul = checked_mul_u16 [OF this]
  have least: "uint acc * modulus (take j (p # ps)) < 2 ^ nbits" if "0 < j \<and> j < k" for j
    using Cons.prems(3) that unfolding least_width_def by blast
  show ?case
  proof (cases "2 ^ nbits \<le> uint acc * uint p")
    case True
    have "k' = 0"
    proof (rule ccontr)
      assume "k' \<noteq> 0"
      then have "uint acc * modulus (take (Suc 0) (p # ps)) < 2 ^ nbits" using k by (intro least) simp
      then show False using True by simp
    qed
    then show ?thesis using True assms(1) mul by (simp add: wide_iff k word_of_int_uint [symmetric] del: word_of_int_uint)
  next
    case False
    have "k' \<noteq> 0" using Cons.prems(3) False k by (auto simp: least_width_def)
    moreover have "uint acc * uint p * modulus (take j ps) < 2 ^ nbits" if "j < k'" for j
    proof -
      have "uint acc * modulus (take (Suc j) (p # ps)) < 2 ^ nbits" using that k by (intro least) simp
      then show ?thesis by (simp add: mult.assoc)
    qed
    ultimately have "least_width nbits ps (uint (acc * ucast p)) k'"
      using Cons.prems(3) unfolding mul(2) by (simp add: least_width_def k mult.assoc)
    then show ?thesis
      using Cons.IH [of "acc * ucast p" k' "qs @ [p]"] Cons.prems p False assms(1) mul by (simp add: wide_iff k mult.assoc)
  qed
qed

lemma prefix_nonzero: "0 \<notin> set (take n PRIMES)"
proof
  assume "0 \<in> set (take n PRIMES)"
  then have "1 < uint (0 :: u16)" using large_PRIMES by (meson in_set_takeD)
  then show False by simp
qed

lemma prefix_26: "modulus (take 26 PRIMES) = 232862364358497360900063316880507363070"
  by (simp add: PRIMES_def)

lemma modulus_mono: "n \<le> m \<Longrightarrow> modulus (take n PRIMES) \<le> modulus (take m PRIMES)"
proof -
  assume "n \<le> m"
  then have "prod_list (take n primes_int) \<le> prod_list (take m primes_int)"
    by (rule prod_list_take_le) (use primes_int_bounds in blast)
  then show ?thesis unfolding uint_PRIMES [symmetric] take_map by simp
qed

lemma least_width_exists:
  assumes "0 < n" and "n \<le> 29" and "2 ^ nbits \<le> modulus (take n PRIMES)"
  shows "\<exists>k \<le> n. least_width nbits PRIMES 1 k"
proof -
  let ?P = "\<lambda>k. 0 < k \<and> 2 ^ nbits \<le> modulus (take k PRIMES)"
  have P: "?P n" using assms by simp
  have "least_width nbits PRIMES 1 (LEAST k. ?P k)"
    using LeastI [of ?P, OF P] Least_le [of ?P, OF P] not_less_Least [of _ ?P] assms(2)
    unfolding least_width_def length_PRIMES by (auto simp: not_le)
  then show ?thesis using Least_le [of ?P, OF P] by blast
qed

lemma distinct_PRIMES: "distinct PRIMES"
proof -
  have "distinct primes_int" by (simp add: primes_int_def)
  then show ?thesis unfolding uint_PRIMES [symmetric] distinct_map by (rule conjunct1)
qed

lemma coprime_PRIMES:
  assumes "p \<in> set PRIMES" and "q \<in> set PRIMES" and "p \<noteq> q"
  shows "coprime (uint p) (uint q)"
proof -
  obtain i j where ij: "i < length PRIMES" "PRIMES ! i = p" "j < length PRIMES" "PRIMES ! j = q"
    using assms(1,2) by (metis in_set_conv_nth)
  have less: "coprime (uint (PRIMES ! k)) (uint (PRIMES ! l))" if "k < l" "l < length PRIMES" for k l
    using sorted_wrt_nth_less [OF coprimes_PRIMES, of k l] that by simp
  consider "i < j" | "j < i" using ij assms(3) by (metis linorder_neqE_nat)
  then show ?thesis
  proof cases
    case 1
    then show ?thesis using less [of i j] ij by simp
  next
    case 2
    then have "coprime (uint q) (uint p)" using less [of j i] ij by simp
    then show ?thesis by (rule coprime_imp_coprime)
  qed
qed

lemma factor_selection:
  assumes "uint Q = modulus ps" and "filter (\<lambda>p. p \<in> set ps) PRIMES = ps"
  shows "factor Q = Inr ps"
proof -
  have sub: "set ps \<subseteq> set PRIMES" using assms(2) by (metis filter_is_subset)
  have "uint p dvd uint Q \<longleftrightarrow> p \<in> set ps" if p: "p \<in> set PRIMES" for p
  proof
    assume "p \<in> set ps"
    then show "uint p dvd uint Q" unfolding assms(1) by (rule uint_dvd_modulus)
  next
    assume dvd: "uint p dvd uint Q"
    show "p \<in> set ps"
    proof (rule ccontr)
      assume no: "p \<notin> set ps"
      have "coprime (uint p) (modulus ps)"
        by (rule coprime_modulus) (use no sub p coprime_PRIMES in blast)
      then have "is_unit (uint p)" using dvd unfolding assms(1) by (metis coprime_common_divisor dvd_refl)
      then show False using large_PRIMES p by force
    qed
  qed
  then have "filter (\<lambda>p. uint p dvd uint Q) PRIMES = ps" using assms(2) by (metis (mono_tags, lifting) filter_cong)
  then show ?thesis using assms(1) by (simp add: factor_exact)
qed

lemma filter_fst_selected:
  "distinct (map fst zs) \<Longrightarrow> filter (\<lambda>p. p \<in> fst ` {z \<in> set zs. snd z}) (map fst zs) = map fst (filter snd zs)"
proof (induction zs)
  case (Cons z zs)
  let ?D = "\<lambda>zs. fst ` {z \<in> set zs. snd z}"
  have z: "fst z \<notin> ?D zs" using Cons.prems by auto
  have D: "?D (z # zs) = (if snd z then insert (fst z) (?D zs) else ?D zs)" by auto
  have "filter (\<lambda>p. p \<in> ?D (z # zs)) (map fst zs) = filter (\<lambda>p. p \<in> ?D zs) (map fst zs)"
  proof (rule filter_cong [OF refl])
    fix p assume "p \<in> set (map fst zs)"
    then have "p \<noteq> fst z" using Cons.prems by (metis distinct.simps(2) list.map(2))
    then show "p \<in> ?D (z # zs) \<longleftrightarrow> p \<in> ?D zs" unfolding D by simp
  qed
  also have "\<dots> = map fst (filter snd zs)" using Cons by simp
  finally have tail: "filter (\<lambda>p. p \<in> ?D (z # zs)) (map fst zs) = map fst (filter snd zs)" .
  have head: "fst z \<in> ?D (z # zs) \<longleftrightarrow> snd z" unfolding D using z by simp
  show ?case unfolding list.map filter.simps tail head by simp
qed simp

lemma selected_filter:
  assumes "length draws = 25"
  shows "filter (\<lambda>p. p \<in> set (selected draws)) PRIMES = selected draws"
proof -
  let ?zs = "zip (take 25 PRIMES) draws"
  have fst: "map fst ?zs = take 25 PRIMES" using assms by (intro map_fst_zip) (simp add: length_PRIMES)
  have "distinct (map fst ?zs)" unfolding fst using distinct_PRIMES by (rule distinct_take)
  then have "filter (\<lambda>p. p \<in> set (selected draws)) (take 25 PRIMES) = selected draws"
    using filter_fst_selected [of ?zs] unfolding fst by (simp add: selected_def)
  moreover have "filter (\<lambda>p. p \<in> set (selected draws)) (drop 25 PRIMES) = []"
  proof -
    have "set (take 25 PRIMES) \<inter> set (drop 25 PRIMES) = {}"
      using distinct_PRIMES by (rule set_take_disj_set_drop_if_distinct) simp
    then show ?thesis using selected_subset [of draws] by (auto simp: filter_empty_conv)
  qed
  ultimately have "filter (\<lambda>p. p \<in> set (selected draws)) (take 25 PRIMES @ drop 25 PRIMES) = selected draws"
    unfolding filter_append by simp
  then show ?thesis by simp
qed

lemma factor_prefix:
  assumes "uint Q = modulus (take k PRIMES)"
  shows "factor Q = Inr (take k PRIMES)"
proof (rule factor_selection [OF assms])
  have "set (take k PRIMES) \<inter> set (drop k PRIMES) = {}"
    using distinct_PRIMES by (rule set_take_disj_set_drop_if_distinct) simp
  then have "filter (\<lambda>p. p \<in> set (take k PRIMES)) (take k PRIMES @ drop k PRIMES) = take k PRIMES"
    unfolding filter_append by (auto simp: filter_empty_conv filter_id_conv simp del: append_take_drop_id)
  then show "filter (\<lambda>p. p \<in> set (take k PRIMES)) PRIMES = take k PRIMES" by simp
qed

lemma width_modulus:
  assumes "nbits < 128" and "least_width nbits PRIMES 1 k" and "k \<le> 26"
  shows "primes_with_width nbits = Inr (take k PRIMES)"
    and "\<exists>Q. modulus_with_width nbits = Inr Q \<and> uint Q = modulus (take k PRIMES) \<and> 2 ^ nbits \<le> uint Q"
proof -
  let ?m = "modulus (take k PRIMES)"
  have m: "?m < 2 ^ 128" using modulus_mono [OF assms(3)] unfolding prefix_26 by simp
  have pos: "0 < ?m" using prefix_nonzero by (rule modulus_positive)
  have wide: "2 ^ nbits \<le> ?m" using assms(2) by (simp add: least_width_def)
  have uint: "uint (word_of_int ?m :: u128) = ?m" using m pos by (simp add: uint_word_of_int_eq take_bit_int_eq_self)
  have "0 \<notin> set PRIMES" using prefix_nonzero [of "length PRIMES"] by simp
  then have "primes_loop nbits PRIMES 1 [] = Inr (take k PRIMES, word_of_int ?m)"
    using primes_loop_least [of nbits PRIMES 1 k "[]"] assms m by simp
  then show base: "primes_with_width nbits = Inr (take k PRIMES)"
    using assms(1) wide uint by (simp add: primes_with_width_def base_primes_with_width_def wide_iff)
  have "product_u128 (take k PRIMES) = Inr (word_of_int ?m)"
    using product_exact [OF prefix_nonzero, of 1 k] m by (simp add: product_u128_def)
  then have "modulus_with_width nbits = Inr (word_of_int ?m)"
    using base by (simp add: modulus_with_width_def base_modulus_with_width_def primes_with_width_def)
  then show "\<exists>Q. modulus_with_width nbits = Inr Q \<and> uint Q = ?m \<and> 2 ^ nbits \<le> uint Q" using uint wide by simp
qed

lemma crt_width_roundtrip:
  assumes "nbits \<le> 120"
  shows "\<exists>Q ps. modulus_with_width nbits = Inr Q \<and> 2 ^ nbits \<le> uint Q \<and>
    primes_with_width nbits = Inr ps \<and> factor Q = Inr ps \<and>
    (\<forall>x. uint x < uint Q \<longrightarrow> (\<exists>xs. crt_factor x Q = Inr xs \<and> crt_inv_factor xs Q = Inr x)) \<and>
    (\<forall>xs. list_all2 (<) xs ps \<longrightarrow> (\<exists>x. crt_inv_factor xs Q = Inr x \<and> uint x < uint Q \<and> crt_factor x Q = Inr xs))"
proof -
  have "(2 :: int) ^ nbits \<le> 2 ^ 120" using assms by (intro power_increasing) simp_all
  also have "\<dots> \<le> 2305567963945518424753102147331756070" by simp
  also have "\<dots> = modulus (take 25 PRIMES)" by (rule modulus_25 [symmetric])
  finally have "2 ^ nbits \<le> modulus (take 25 PRIMES)" .
  then obtain k where k: "k \<le> 25" "least_width nbits PRIMES 1 k" using least_width_exists [of 25 nbits] by auto
  then have width: "nbits < 128" "k \<le> 26" using assms by simp_all
  obtain Q where Q: "modulus_with_width nbits = Inr Q" "uint Q = modulus (take k PRIMES)" "2 ^ nbits \<le> uint Q"
    using width_modulus(2) [OF width(1) k(2) width(2)] by blast
  have ps: "primes_with_width nbits = Inr (take k PRIMES)" "factor Q = Inr (take k PRIMES)"
    using width_modulus(1) [OF width(1) k(2) width(2)] factor_prefix [OF Q(2)] by simp_all
  have "\<exists>xs. crt_factor x Q = Inr xs \<and> crt_inv_factor xs Q = Inr x" if "uint x < uint Q" for x
    using crt_usable [OF prefix_usable [OF k(1)]] that Q(2) ps(2) by (simp add: crt_factor_def crt_inv_factor_def)
  moreover have "\<exists>x. crt_inv_factor xs Q = Inr x \<and> uint x < uint Q \<and> crt_factor x Q = Inr xs"
    if "list_all2 (<) xs (take k PRIMES)" for xs
    using crt_inv_residues [OF prefix_usable [OF k(1)] that] Q(2) ps(2) by (simp add: crt_factor_def crt_inv_factor_def)
  ultimately show ?thesis using Q ps by blast
qed

text \<open>The check against overflow in \<open>gen_usable_factors\<close> never stops the selection.\<close>

lemma usable_factors_loop_all:
  assumes "0 \<notin> fst ` set zs" and "0 < uint x" and "uint x * modulus (map fst (filter snd zs)) < 2 ^ 128"
  shows "usable_factors_loop zs x = map fst (filter snd zs)"
  using assms
proof (induction zs arbitrary: x)
  case (Cons z zs)
  obtain q d where z: "z = (q, d)" by fastforce
  show ?case
  proof (cases d)
    case True
    have "0 \<notin> set (map fst (filter snd zs))" using Cons.prems(1) by auto
    then have m: "0 < modulus (map fst (filter snd zs))" by (rule modulus_positive)
    have q: "0 < uint q" using Cons.prems(1) by (auto simp: z word_neq_0_conv word_less_def)
    have "uint x * uint q \<le> uint x * uint q * modulus (map fst (filter snd zs))" using m q Cons.prems(2) by simp
    then have "uint x * uint q < 2 ^ 128" using Cons.prems(3) True by (simp add: z mult.assoc)
    note mul = checked_mul_u16 [OF this]
    show ?thesis using Cons.IH [of "x * ucast q"] Cons.prems q mul True by (simp add: z mult.assoc)
  next
    case False
    then show ?thesis using Cons by (simp add: z)
  qed
qed simp

lemma usable_factors_selected:
  assumes "length draws = 25"
  shows "gen_usable_factors draws = selected draws"
    and "gen_usable_composite_modulus draws = Inr (word_of_int (modulus (selected draws)))"
    and "uint (word_of_int (modulus (selected draws)) :: u128) = modulus (selected draws)"
proof -
  have small: "modulus (selected draws) < 2 ^ 127" and large: "\<forall>p \<in> set (selected draws). 1 < uint p"
    using selected_usable [OF assms] by (auto simp: usable_def)
  then have m: "modulus (selected draws) < 2 ^ 128" by simp
  have nz: "0 \<notin> set (selected draws)" using large by force
  have "0 \<notin> fst ` set (zip (take 25 PRIMES) draws)" using prefix_nonzero by (auto dest: set_zip_leftD)
  then show sel: "gen_usable_factors draws = selected draws"
    using usable_factors_loop_all [of "zip (take 25 PRIMES) draws" 1] m by (simp add: gen_usable_factors_def selected_def)
  show "gen_usable_composite_modulus draws = Inr (word_of_int (modulus (selected draws)))"
    using product_exact [OF nz, of 1] m by (simp add: gen_usable_composite_modulus_def sel product_u128_def)
  show "uint (word_of_int (modulus (selected draws)) :: u128) = modulus (selected draws)"
    using m modulus_positive [OF nz] by (simp add: uint_word_of_int_eq take_bit_int_eq_self)
qed

text \<open>
  Every composite modulus that \<open>gen_usable_composite_modulus\<close> can draw is the product of exactly
  the drawn ones of the first 25 primes (the check against overflow never cuts the selection short),
  \<open>factor\<close> returns these primes, and \<open>crt_factor\<close> and \<open>crt_inv_factor\<close> are inverse between the
  numbers below it and the lists of reduced residues.
\<close>

theorem crt_drawn_moduli:
  assumes "length draws = 25"
  shows "\<exists>Q. gen_usable_composite_modulus draws = Inr Q \<and>
    factor Q = Inr (map fst (filter snd (zip (take 25 PRIMES) draws))) \<and>
    (\<forall>x. uint x < uint Q \<longrightarrow> (\<exists>xs. crt_factor x Q = Inr xs \<and> crt_inv_factor xs Q = Inr x)) \<and>
    (\<forall>xs. list_all2 (<) xs (map fst (filter snd (zip (take 25 PRIMES) draws))) \<longrightarrow>
      (\<exists>x. crt_inv_factor xs Q = Inr x \<and> uint x < uint Q \<and> crt_factor x Q = Inr xs))"
proof -
  let ?ps = "selected draws" and ?Q = "word_of_int (modulus (selected draws)) :: u128"
  note Q = usable_factors_selected(2,3) [OF assms]
  note u = selected_usable [OF assms]
  have ps: "factor ?Q = Inr ?ps" using Q(2) selected_filter [OF assms] by (rule factor_selection)
  have "\<exists>xs. crt_factor x ?Q = Inr xs \<and> crt_inv_factor xs ?Q = Inr x" if "uint x < uint ?Q" for x
    using crt_usable [OF u] that unfolding Q(2) by (simp add: crt_factor_def crt_inv_factor_def ps)
  moreover have "\<exists>x. crt_inv_factor xs ?Q = Inr x \<and> uint x < uint ?Q \<and> crt_factor x ?Q = Inr xs"
    if "list_all2 (<) xs ?ps" for xs
    using crt_inv_residues [OF u that] unfolding Q(2) by (simp add: crt_factor_def crt_inv_factor_def ps)
  ultimately show ?thesis using Q(1) ps unfolding selected_def by blast
qed

theorem crt_drawn_moduli_witness:
  "\<exists>Q. gen_usable_composite_modulus (replicate 25 True) = Inr Q \<and>
    (\<forall>x. uint x < uint Q \<longrightarrow> (\<exists>xs. crt_factor x Q = Inr xs \<and> crt_inv_factor xs Q = Inr x))"
  using crt_drawn_moduli [of "replicate 25 True"] by auto

lemma crt_width_overflow:
  assumes "120 < nbits" and "nbits < 128"
  shows "\<exists>Q ps. modulus_with_width nbits = Inr Q \<and> 2 ^ nbits \<le> uint Q \<and>
    primes_with_width nbits = Inr ps \<and> factor Q = Inr ps \<and>
    (\<forall>x. \<exists>xs. crt_factor x Q = Inr xs) \<and> (\<forall>xs. crt_inv_factor xs Q = Inl Panic)"
proof -
  have "(2 :: int) ^ nbits \<le> 2 ^ 127" using assms by (intro power_increasing) simp_all
  also have "\<dots> \<le> modulus (take 26 PRIMES)" unfolding prefix_26 by simp
  finally obtain k where k: "k \<le> 26" "least_width nbits PRIMES 1 k" using least_width_exists [of 26 nbits] by auto
  obtain Q where Q: "modulus_with_width nbits = Inr Q" "uint Q = modulus (take k PRIMES)" "2 ^ nbits \<le> uint Q"
    using width_modulus(2) [OF assms(2) k(2,1)] by blast
  have "k = 26"
  proof (rule ccontr)
    assume "k \<noteq> 26"
    then have "modulus (take k PRIMES) \<le> modulus (take 25 PRIMES)" using k(1) by (intro modulus_mono) simp
    also have "\<dots> = 2305567963945518424753102147331756070" by (rule modulus_25)
    also have "\<dots> < 2 ^ 121" by simp
    also have "(2 :: int) ^ 121 \<le> 2 ^ nbits" using assms(1) by (intro power_increasing) simp_all
    finally show False using Q(2,3) by simp
  qed
  then have ps: "primes_with_width nbits = Inr (take 26 PRIMES)" "factor Q = Inr (take 26 PRIMES)"
    using width_modulus(1) [OF assms(2) k(2,1)] factor_prefix [OF Q(2)] by simp_all
  then have "crt_inv_factor xs Q = Inl Panic" "\<exists>ys. crt_factor x Q = Inr ys" for xs x
    using crt_residues [OF prefix_nonzero] by (simp_all add: crt_inv_factor_def crt_factor_def crt_inv_def product_i128_overflow)
  then show ?thesis using Q ps by blast
qed

text \<open>
  C6. For every width below 128 bits, \<open>modulus_with_width\<close> returns a modulus of at least that many
  bits, \<open>primes_with_width\<close> its factors, and \<open>factor\<close> the same primes. Up to 120 bits the residues
  modulo it and the numbers below it correspond one to one: \<open>crt_inv_factor\<close> inverts \<open>crt_factor\<close>
  on every number below the modulus, \<open>crt_factor\<close> inverts \<open>crt_inv_factor\<close> on every list of reduced
  residues, and none of the \<open>i128\<close> values overflows. From 121 to 127 bits \<open>crt_factor\<close> still returns
  residues, but \<open>crt_inv_factor\<close> panics on every list: the product of the 26 primes does not fit \<open>i128\<close>.
\<close>

theorem crt_widths:
  assumes "nbits < 128"
  shows "\<exists>Q ps. modulus_with_width nbits = Inr Q \<and> 2 ^ nbits \<le> uint Q \<and>
    primes_with_width nbits = Inr ps \<and> factor Q = Inr ps \<and>
    (if nbits \<le> 120
     then (\<forall>x. uint x < uint Q \<longrightarrow> (\<exists>xs. crt_factor x Q = Inr xs \<and> crt_inv_factor xs Q = Inr x)) \<and>
       (\<forall>xs. list_all2 (<) xs ps \<longrightarrow> (\<exists>x. crt_inv_factor xs Q = Inr x \<and> uint x < uint Q \<and> crt_factor x Q = Inr xs))
     else (\<forall>x. \<exists>xs. crt_factor x Q = Inr xs) \<and> (\<forall>xs. crt_inv_factor xs Q = Inl Panic))"
proof (cases "nbits \<le> 120")
  case True
  then show ?thesis unfolding if_P [OF True] by (rule crt_width_roundtrip)
next
  case False
  then show ?thesis unfolding if_not_P [OF False] by (intro crt_width_overflow) (use assms in simp_all)
qed

theorem crt_widths_witness:
  "(\<exists>Q xs. modulus_with_width 64 = Inr Q \<and> crt_factor 18446744073709551615 Q = Inr xs \<and>
     crt_inv_factor xs Q = Inr 18446744073709551615) \<and>
   (\<exists>Q. modulus_with_width 127 = Inr Q \<and> (\<forall>xs. crt_inv_factor xs Q = Inl Panic))"
proof
  obtain Q where Q: "modulus_with_width 64 = Inr Q" "2 ^ 64 \<le> uint Q"
      "\<forall>x. uint x < uint Q \<longrightarrow> (\<exists>xs. crt_factor x Q = Inr xs \<and> crt_inv_factor xs Q = Inr x)"
    using crt_widths [of 64] by auto
  have "uint (18446744073709551615 :: u128) < uint Q" using Q(2) by simp
  then show "\<exists>Q xs. modulus_with_width 64 = Inr Q \<and> crt_factor 18446744073709551615 Q = Inr xs \<and>
     crt_inv_factor xs Q = Inr 18446744073709551615" using Q by blast
  show "\<exists>Q. modulus_with_width 127 = Inr Q \<and> (\<forall>xs. crt_inv_factor xs Q = Inl Panic)"
    using crt_widths [of 127] by auto
qed

end
