(* ===== verification/Finite_Ring.thy ===== *)
theory Finite_Ring
  imports Prelude
begin

text \<open>
  Little-endian words, and the exponentiations of the trait FiniteRing
  (src/scuttlebutt/src/ring.rs), over any commutative ring: the square-and-multiply loop of
  \<open>pow_var_time\<close> and the constant-time ladder of \<open>pow_bounded\<close>.
\<close>

subsection \<open>Little-endian words\<close>

text \<open>\<open>u64::to_le_bytes\<close> and \<open>u64::from_le_bytes\<close> of the standard library.\<close>

definition u64_to_le_bytes :: "u64 \<Rightarrow> u8 list" where
  "u64_to_le_bytes w = map (\<lambda>i. ucast (drop_bit (8 * i) w)) [0..<8]"

definition u64_from_le_bytes :: "u8 list \<Rightarrow> u64" where
  "u64_from_le_bytes bs = foldr (\<lambda>b acc. ucast b OR push_bit 8 acc) bs 0"

lemma length_u64_to_le_bytes [simp]: "length (u64_to_le_bytes w) = 8"
  by (simp add: u64_to_le_bytes_def)

lemma bit_u64_from_le_bytes:
  "k < 64 \<Longrightarrow> bit (u64_from_le_bytes bs) k \<longleftrightarrow> k div 8 < length bs \<and> bit (bs ! (k div 8)) (k mod 8)"
proof (induction bs arbitrary: k)
  case (Cons b bs)
  show ?case
  proof (cases "k < 8")
    case True
    then show ?thesis
      by (simp add: u64_from_le_bytes_def bit_simps)
  next
    case False
    then obtain j where j: "k = 8 + j" by (metis add_diff_inverse_nat)
    with Cons.prems have "j < 64" by simp
    from Cons.IH [OF this] j Cons.prems show ?thesis
      by (simp add: u64_from_le_bytes_def bit_simps div_add_self1) (auto dest: bit_imp_le_length)
  qed
qed (simp add: u64_from_le_bytes_def)

lemma u64_from_to_le_bytes [simp]: "u64_from_le_bytes (u64_to_le_bytes w) = w"
proof (rule bit_word_eqI)
  fix k assume "k < LENGTH(64)"
  then show "bit (u64_from_le_bytes (u64_to_le_bytes w)) k = bit w k"
    by (simp add: bit_u64_from_le_bytes u64_to_le_bytes_def bit_simps less_mult_imp_div_less)
qed

lemma u64_to_from_le_bytes: "length bs = 8 \<Longrightarrow> u64_to_le_bytes (u64_from_le_bytes bs) = bs"
proof (rule nth_equalityI)
  fix i assume len: "length bs = 8" and "i < length (u64_to_le_bytes (u64_from_le_bytes bs))"
  then have i: "i < 8" by simp
  show "u64_to_le_bytes (u64_from_le_bytes bs) ! i = bs ! i"
  proof (rule byte_eqI)
    fix k :: nat assume k: "k < 8"
    with i have "8 * i + k < 64" by simp
    with i k len show "bit (u64_to_le_bytes (u64_from_le_bytes bs) ! i) k = bit (bs ! i) k"
      by (simp add: u64_to_le_bytes_def bit_simps bit_u64_from_le_bytes)
  qed
qed simp

subsection \<open>Exponentiation\<close>

function pow_loop :: "'a :: comm_ring_1 \<Rightarrow> 'a \<Rightarrow> u128 \<Rightarrow> 'a" where
  "pow_loop acc b n =
     (if n = 0 then acc
      else pow_loop (if n AND 1 = 1 then b * acc else acc) (b * b) (drop_bit 1 n))"
  by pat_completeness auto

lemma halved_less: "n \<noteq> 0 \<Longrightarrow> unat (drop_bit 1 n :: u128) < unat n"
  by (simp add: drop_bit_eq_div unat_div word_greater_zero_iff unat_gt_0)

termination pow_loop
  by (relation "measure (\<lambda>(_, _, n). unat n)") (simp_all add: halved_less [simplified])

definition pow_var_time :: "'a :: comm_ring_1 \<Rightarrow> u128 \<Rightarrow> 'a" where
  "pow_var_time x n = pow_loop 1 x n"

declare pow_loop.simps [simp del]

lemma pow_loop_power: "pow_loop acc b n = acc * b ^ unat n"
proof (induction acc b n rule: pow_loop.induct)
  case (1 acc b n)
  show ?case
  proof (cases "n = 0")
    case False
    have bit: "n AND 1 = (if odd (unat n) then 1 else 0)"
      using bit_unsigned_iff [where 'a = nat, of n 0] by (simp add: and_one_eq mod2_eq_if bit_0)
    have split: "unat n = 2 * unat (drop_bit 1 n) + (if odd (unat n) then 1 else 0)"
      by (simp add: drop_bit_eq_div unat_div)
    have "b ^ unat n = (b * b) ^ unat (drop_bit 1 n) * (if odd (unat n) then b else 1)"
      by (subst split) (simp add: power_add power_mult power2_eq_square)
    with False 1 show ?thesis
      by (subst pow_loop.simps) (simp add: bit mult_ac)
  qed (subst pow_loop.simps, simp)
qed

text \<open>The ladder: \<open>r1 = r0 * x\<close> throughout, and \<open>r0\<close> is \<open>x\<close> to the bits seen.\<close>

definition pow_step :: "u128 \<Rightarrow> 'a :: comm_ring_1 \<times> 'a \<Rightarrow> nat \<Rightarrow> 'a \<times> 'a" where
  "pow_step n = (\<lambda>(r0, r1) i.
     let operand = (if n AND push_bit i 1 \<noteq> 0 then r1 else r0) in (r0 * operand, r1 * operand))"

definition pow_bounded :: "'a :: comm_ring_1 \<Rightarrow> u128 \<Rightarrow> nat \<Rightarrow> 'a res" where
  "pow_bounded x n bound =
     res_bind (require Assertion (bound \<le> 128)) (\<lambda>_.
     res_bind (require Assertion ((if bound \<noteq> 128 then drop_bit bound n else 0) = 0)) (\<lambda>_.
       Inr (fst (foldl (pow_step n) (1, x) (rev [0..<bound])))))"

definition pow :: "'a :: comm_ring_1 \<Rightarrow> u128 \<Rightarrow> 'a res" where
  "pow x n = pow_bounded x n 128"

lemma test_bit_and: "(n :: u128) AND push_bit i 1 \<noteq> 0 \<longleftrightarrow> bit n i"
proof
  assume "bit n i"
  then have "bit (n AND push_bit i 1) i"
    by (simp add: bit_simps) (auto dest: bit_imp_le_length)
  then show "n AND push_bit i 1 \<noteq> 0" by auto
next
  assume "n AND push_bit i 1 \<noteq> 0"
  then obtain k where "bit (n AND push_bit i 1) k" by (auto simp: bit_eq_iff)
  then show "bit n i" by (simp add: bit_simps) (auto simp: bit_1_iff le_antisym)
qed

lemma pow_step_bit:
  "pow_step n (r0, r1) i = (if bit n i then (r0 * r1, r1 * r1) else (r0 * r0, r1 * r0))"
  by (simp add: pow_step_def test_bit_and del: push_bit_of_1)

lemma pow_ladder:
  "foldl (pow_step n) (1, x) (rev [i..<i + k])
   = (x ^ (unat n div 2 ^ i mod 2 ^ k), x * x ^ (unat n div 2 ^ i mod 2 ^ k))"
proof (induction k arbitrary: i)
  case (Suc k)
  let ?m = "unat n div 2 ^ i"
  have shift: "unat n div 2 ^ Suc i = ?m div 2" by (metis div_mult2_eq power_Suc2)
  have IH: "foldl (pow_step n) (1, x) (rev [Suc i..<i + Suc k])
      = (x ^ (?m div 2 mod 2 ^ k), x * x ^ (?m div 2 mod 2 ^ k))"
    using Suc [of "Suc i"] by (simp only: shift add_Suc_right add_Suc)
  have bit: "bit n i \<longleftrightarrow> odd ?m"
    using bit_unsigned_iff [where 'a = nat, of n i]
    by (simp add: bit_iff_odd_drop_bit [of "unat n"] drop_bit_eq_div)
  have m: "?m mod 2 ^ Suc k = 2 * (?m div 2 mod 2 ^ k) + of_bool (odd ?m)"
    by (simp add: mod_mult2_eq mod2_eq_if)
  have "rev [i..<i + Suc k] = rev [Suc i..<i + Suc k] @ [i]"
    by (simp add: upt_rec [of i] del: upt_Suc)
  then have step: "foldl (pow_step n) (1, x) (rev [i..<i + Suc k])
      = pow_step n (foldl (pow_step n) (1, x) (rev [Suc i..<i + Suc k])) i"
    by (simp only: foldl_append foldl.simps)
  show ?case
    unfolding step IH pow_step_bit bit m
    by (simp add: power_add power_mult power2_eq_square power_mult_distrib mult_ac)
qed simp

lemma pow_var_time_power: "pow_var_time x n = x ^ unat n"
  by (simp add: pow_var_time_def pow_loop_power)

lemma pow_bounded_power:
  "bound \<le> 128 \<Longrightarrow> unat n < 2 ^ bound \<Longrightarrow> pow_bounded x n bound = Inr (x ^ unat n)"
proof -
  assume b: "bound \<le> 128" and n: "unat n < 2 ^ bound"
  have "drop_bit bound n = 0"
    using n by (simp only: word_unat_eq_iff unat_drop_bit_eq) (simp add: drop_bit_eq_div)
  with b n show ?thesis
    using pow_ladder [of n x 0 bound] by (simp add: pow_bounded_def)
qed

lemma pow_bounded_large:
  "bound \<le> 128 \<Longrightarrow> \<not> unat n < 2 ^ bound \<Longrightarrow> pow_bounded x n bound = Inl Assertion"
proof -
  assume b: "bound \<le> 128" and n: "\<not> unat n < 2 ^ bound"
  have "bound \<noteq> 128" using n unsigned_less [where 'a = nat, of n] by auto
  moreover have "drop_bit bound n \<noteq> 0"
    using n by (simp only: word_unat_eq_iff unat_drop_bit_eq) (simp add: drop_bit_eq_div div_eq_0_iff)
  ultimately show ?thesis using b by (simp add: pow_bounded_def)
qed

text \<open>
  C32. The exponentiations agree: the square-and-multiply loop terminates with \<open>x ^ n\<close> for every
  exponent, and the constant-time ladder has the same value when the exponent is below \<open>2 ^ bound\<close>
  and fails its assertion otherwise, also for \<open>n = 2 ^ bound\<close>, which its documentation admits.
\<close>

theorem exponentiations_agree:
  "pow_var_time x n = x ^ unat n \<and>
   pow x n = Inr (pow_var_time x n) \<and>
   pow_bounded x n bound =
     (if bound \<le> 128 \<and> unat n < 2 ^ bound then Inr (pow_var_time x n) else Inl Assertion)"
proof -
  have "unat n < 2 ^ 128" using unsigned_less [where 'a = nat, of n] by simp
  then have "pow x n = Inr (x ^ unat n)" unfolding pow_def by (rule pow_bounded_power [OF order_refl])
  moreover have "\<not> bound \<le> 128 \<Longrightarrow> pow_bounded x n bound = Inl Assertion"
    by (simp add: pow_bounded_def)
  ultimately show ?thesis
    using pow_bounded_power [of bound n x] pow_bounded_large [of bound n x]
    by (cases "bound \<le> 128"; cases "unat n < 2 ^ bound") (simp_all add: pow_var_time_power)
qed

end
