(* ===== verification/Prime61.thy ===== *)
theory Prime61
  imports Finite_Ring
begin

text \<open>
  2^61 - 1 is prime, so the integers modulo it are a field: Fermat's little theorem for moduli
  without proper divisors, and a certificate in the style of Pocklington with the base 37, the
  generator that f61p.rs names, for the factors 61, 151, 331 and 1321 of 2^61 - 2.
\<close>

definition is_prime :: "nat \<Rightarrow> bool" where
  "is_prime q \<longleftrightarrow> 1 < q \<and> (\<forall>d. d dvd q \<longrightarrow> d = 1 \<or> d = q)"

lemma is_prime_coprime: "is_prime q \<Longrightarrow> \<not> q dvd n \<Longrightarrow> coprime q n"
  unfolding is_prime_def coprime_iff_gcd_eq_1 by (metis gcd_dvd1 gcd_dvd2)

lemma is_prime_dvd_mult: "is_prime q \<Longrightarrow> q dvd a * b \<Longrightarrow> q dvd a \<or> q dvd b"
  using is_prime_coprime coprime_dvd_mult_right_iff by blast

lemma is_prime_binomial: "is_prime q \<Longrightarrow> 0 < k \<Longrightarrow> k < q \<Longrightarrow> q dvd (q choose k)"
proof -
  assume q: "is_prime q" and k: "0 < k" "k < q"
  have "k * (q choose k) = q * (q - 1 choose (k - 1))"
    using k by (simp add: times_binomial_minus1_eq)
  then have "q dvd k * (q choose k)" by simp
  moreover have "\<not> q dvd k" using k by (auto dest: dvd_imp_le)
  ultimately show ?thesis using q is_prime_dvd_mult by blast
qed

text \<open>Fermat's little theorem.\<close>

lemma is_prime_add_power:
  assumes q: "is_prime q"
  shows "(a + 1) ^ q mod q = (a ^ q + 1) mod q"
proof -
  obtain r where r: "q = Suc r" using q by (cases q) (auto simp: is_prime_def)
  have "(a + 1) ^ q = (\<Sum>k\<le>q. (q choose k) * a ^ k)"
    using binomial [of a 1 q] by simp
  also have "\<dots> = 1 + (\<Sum>k=1..<q. (q choose k) * a ^ k) + a ^ q"
  proof -
    have "{..q} = insert 0 (insert q {1..<q})" by (auto simp: r)
    then show ?thesis by (simp add: r)
  qed
  finally have eq: "(a + 1) ^ q = (\<Sum>k=1..<q. (q choose k) * a ^ k) + (a ^ q + 1)" by simp
  have "q dvd (\<Sum>k=1..<q. (q choose k) * a ^ k)"
    by (rule dvd_sum) (simp add: is_prime_binomial [OF q])
  then show ?thesis
    unfolding eq by (metis add_0 mod_0_imp_dvd dvd_imp_mod_0 mod_add_left_eq)
qed

lemma fermat_mod: "is_prime q \<Longrightarrow> a ^ q mod q = a mod q"
proof (induction a)
  case 0
  then have "0 < q" by (simp add: is_prime_def)
  then show ?case by (simp add: zero_power)
next
  case (Suc a)
  have "(a + 1) ^ q mod q = (a ^ q mod q + 1) mod q"
    by (simp only: is_prime_add_power [OF Suc.prems] mod_add_left_eq)
  also have "\<dots> = (a + 1) mod q"
    by (simp only: Suc.IH [OF Suc.prems] mod_add_left_eq)
  finally show ?case by simp
qed

lemma fermat_little:
  assumes q: "is_prime q" and a: "\<not> q dvd a"
  shows "a ^ (q - 1) mod q = 1"
proof -
  obtain r where r: "q = Suc r" using q by (cases q) (auto simp: is_prime_def)
  have "a * a ^ r mod q = a * 1 mod q" using fermat_mod [OF q, of a] by (simp add: r)
  then have "(int a * int (a ^ r)) mod int q = (int a * 1) mod int q"
    by (metis mult.right_neutral of_nat_mod of_nat_mult)
  then have "int q dvd int a * (int (a ^ r) - 1)"
    by (simp add: mod_eq_dvd_iff right_diff_distrib)
  moreover have "coprime (int q) (int a)" using is_prime_coprime [OF q a] by simp
  ultimately have "int q dvd int (a ^ r) - 1" by (simp add: coprime_dvd_mult_right_iff)
  then have "int (a ^ r) mod int q = 1 mod int q" by (simp add: mod_eq_dvd_iff)
  then have "a ^ r mod q = 1 mod q" by (metis of_nat_1 of_nat_eq_iff of_nat_mod)
  with q show ?thesis by (simp add: r is_prime_def)
qed

subsection \<open>The certificate\<close>

text \<open>
  Powers modulo 2^61 - 1 by squaring, from the bits of the exponent, the highest first.
\<close>

definition bits_step :: "int \<Rightarrow> int \<Rightarrow> int \<Rightarrow> int \<Rightarrow> int" where
  "bits_step m a r b = (if b = 0 then r * r mod m else a * (r * r mod m) mod m)"

definition bits_power :: "int \<Rightarrow> int \<Rightarrow> int list \<Rightarrow> int" where
  "bits_power m a bs = foldl (bits_step m a) 1 bs"

definition bits_value :: "int list \<Rightarrow> nat" where
  "bits_value bs = foldl (\<lambda>e b. 2 * e + (if b = 0 then 0 else 1)) 0 bs"

lemma bits_power_eq: "1 < m \<Longrightarrow> bits_power m a bs = a ^ bits_value bs mod m"
proof (induction bs rule: rev_induct)
  case Nil
  then show ?case by (simp add: bits_power_def bits_value_def)
next
  case (snoc b bs)
  let ?r = "bits_power m a bs" and ?e = "bits_value bs"
  have "?r * ?r mod m = a ^ (2 * ?e) mod m"
    by (simp add: snoc mod_mult_eq power_mult power2_eq_square power_mult_distrib)
  then show ?case
    by (simp add: bits_power_def bits_value_def bits_step_def foldl_append)
      (simp add: bits_step_def mod_mult_right_eq bits_power_def bits_value_def)
qed

text \<open>The four powers of 37, with their inverses after subtracting 1.\<close>

definition bits_61 :: "int list" where
  "bits_61 =
    [1,0,0,0,0,1,1,0,0,1,0,0,1,0,1,1,1,0,0,0,1,0,1,0,0,1,1,1,1,1,0,1,1,1,1,0,0,1,1,0
     ,1,1,0,1,0,0,0,1,1,1,0,1,0,1,1,0]"

lemma power_37_61: "(37 :: int) ^ 37800705069076950 mod 2305843009213693951 = 35184372088832"
proof -
  have "bits_value bits_61 = 37800705069076950"
    by (simp add: bits_value_def bits_61_def)
  moreover have "bits_power 2305843009213693951 37 bits_61 = 35184372088832"
    by code_simp
  ultimately show ?thesis
    using bits_power_eq [of "2305843009213693951" 37 bits_61] by (simp only: rel_simps)
qed

definition bits_151 :: "int list" where
  "bits_151 =
    [1,1,0,1,1,0,0,1,0,0,0,0,0,0,0,1,1,0,1,1,0,0,1,0,0,0,0,0,0,0,1,1,0,1,1,0,0,1,0,0
     ,0,0,0,0,0,1,1,0,1,1,0,0,1,0]"

lemma power_37_151: "(37 :: int) ^ 15270483504726450 mod 2305843009213693951 = 1433721343585656393"
proof -
  have "bits_value bits_151 = 15270483504726450"
    by (simp add: bits_value_def bits_151_def)
  moreover have "bits_power 2305843009213693951 37 bits_151 = 1433721343585656393"
    by code_simp
  ultimately show ?thesis
    using bits_power_eq [of "2305843009213693951" 37 bits_151] by (simp only: rel_simps)
qed

definition bits_331 :: "int list" where
  "bits_331 =
    [1,1,0,0,0,1,0,1,1,1,1,1,1,1,1,0,0,1,1,1,0,1,0,0,0,0,0,0,0,0,1,1,0,0,0,1,0,1,1,1
     ,1,1,1,1,1,0,0,1,1,1,0,1,0]"

lemma power_37_331: "(37 :: int) ^ 6966293079195450 mod 2305843009213693951 = 185945230422323302"
proof -
  have "bits_value bits_331 = 6966293079195450"
    by (simp add: bits_value_def bits_331_def)
  moreover have "bits_power 2305843009213693951 37 bits_331 = 185945230422323302"
    by code_simp
  ultimately show ?thesis
    using bits_power_eq [of "2305843009213693951" 37 bits_331] by (simp only: rel_simps)
qed

definition bits_1321 :: "int list" where
  "bits_1321 =
    [1,1,0,0,0,1,1,0,0,1,1,1,0,0,0,1,1,0,0,0,1,1,1,1,1,1,1,1,1,1,0,0,1,1,1,0,0,1,1,0
     ,0,0,1,1,1,0,0,1,1,1,0]"

lemma power_37_1321: "(37 :: int) ^ 1745528394559950 mod 2305843009213693951 = 30210013857155493"
proof -
  have "bits_value bits_1321 = 1745528394559950"
    by (simp add: bits_value_def bits_1321_def)
  moreover have "bits_power 2305843009213693951 37 bits_1321 = 30210013857155493"
    by code_simp
  ultimately show ?thesis
    using bits_power_eq [of "2305843009213693951" 37 bits_1321] by (simp only: rel_simps)
qed

lemma power_37_full: "(37 :: int) ^ 2305843009213693950 mod 2305843009213693951 = 1"
proof -
  have "(35184372088832 :: int) ^ 61 mod 2305843009213693951 = 1"
  proof -
    have "bits_value [1,1,1,1,0,1] = 61"
      by (simp add: bits_value_def)
    moreover have "bits_power 2305843009213693951 35184372088832 [1,1,1,1,0,1] = 1"
      by code_simp
    ultimately show ?thesis
      using bits_power_eq [of "2305843009213693951" "35184372088832" "[1,1,1,1,0,1]"] by (simp only: rel_simps)
  qed
  moreover have "(2305843009213693950 :: nat) = 37800705069076950 * 61" by simp
  ultimately show ?thesis
    by (simp only: power_mult power_mod [of "37 ^ 37800705069076950", symmetric] power_37_61)
qed

definition factor_data :: "(nat \<times> int \<times> int) list" where
  "factor_data = [(61, 35184372088832, 329365932848850065),
    (151, 1433721343585656393, 68233547637592170),
    (331, 185945230422323302, 1960352316127796739),
    (1321, 30210013857155493, 2165998172066445805)]"

lemma factor_data_inverse:
  "\<forall>(r, v, s) \<in> set factor_data. (v - 1) * s mod 2305843009213693951 = 1"
  by (simp add: factor_data_def)

lemma factor_data_power:
  "\<forall>(r, v, s) \<in> set factor_data. r dvd 2305843009213693950 \<and>
     37 ^ (2305843009213693950 div r) mod 2305843009213693951 = v"
  by (simp add: factor_data_def power_37_61 power_37_151 power_37_331 power_37_1321 del: power_numeral)

text \<open>
  A prime divisor of 2^61 - 1 is 1 modulo each of the four factors: otherwise its Fermat exponent
  and the factor have no common divisor, so the power of 37 with exponent (2^61 - 2) / r is 1
  modulo it, and the inverse below shows that it is not.
\<close>

lemma power_one_coprime:
  assumes "c ^ r mod q = (1::nat)" and "c ^ n mod q = 1" and "coprime r n" and "0 < r"
  shows "c mod q = 1"
proof -
  have one: "c ^ (k * j) mod q = 1" if "c ^ k mod q = 1" for k j
  proof -
    have "1 mod q = 1" using that by (metis mod_mod_trivial)
    then show ?thesis by (metis that power_mod power_mult power_one)
  qed
  obtain u v where uv: "r * u = n * v + 1"
    using bezout_nat [of r n] assms(3,4) by (auto simp: coprime_iff_gcd_eq_1)
  have "c ^ (n * v + 1) mod q = c * (c ^ (n * v) mod q) mod q"
    by (simp add: mod_mult_right_eq)
  also have "\<dots> = c mod q" using one [OF assms(2)] by simp
  finally show ?thesis using one [OF assms(1), of u] uv by simp
qed

subsection \<open>The prime\<close>

definition p61 :: nat where "p61 = 2 ^ 61 - 1"

lemma least_prime_divisor:
  assumes n: "1 < n" and "\<not> is_prime n"
  shows "\<exists>q. is_prime q \<and> q dvd n \<and> q * q \<le> n"
proof -
  define q where "q = (LEAST d. 1 < d \<and> d dvd n)"
  have "1 < n \<and> n dvd n" using n by simp
  then have q: "1 < q \<and> q dvd n" unfolding q_def by (rule LeastI)
  have least: "q \<le> d" if "1 < d" "d dvd n" for d
    unfolding q_def using conjI [OF that] by (rule Least_le)
  have "is_prime q"
    unfolding is_prime_def
  proof (intro conjI allI impI)
    fix d assume d: "d dvd q"
    then have "d \<noteq> 0" "d \<le> q" using q by (auto dest: dvd_imp_le intro!: Nat.gr0I)
    moreover have "d dvd n" using d q by (blast intro: dvd_trans)
    ultimately show "d = 1 \<or> d = q" using least [of d] by linarith
  qed (use q in simp)
  moreover have "q * q \<le> n"
  proof -
    obtain k where k: "n = q * k" using q by (auto elim: dvdE)
    have "k \<noteq> 1" using assms(2) \<open>is_prime q\<close> k by auto
    moreover have "k \<noteq> 0" using k n by (intro notI) simp
    ultimately have "1 < k" by simp
    then have "q \<le> k" using k by (intro least) simp_all
    with k show ?thesis by simp
  qed
  ultimately show ?thesis using q by blast
qed

lemma small_primes: "\<forall>(r, v, s) \<in> set factor_data. is_prime r"
proof -
  have *: "is_prime r" if r: "1 < r" "r < 37 * 37" and none: "\<forall>d \<in> set [2..<37]. \<not> d dvd r" for r :: nat
  proof (rule ccontr)
    assume "\<not> is_prime r"
    with r(1) obtain q where q: "is_prime q" "q dvd r" "q * q \<le> r"
      using least_prime_divisor by blast
    have "q < 37"
    proof (rule ccontr)
      assume "\<not> q < 37"
      then have "37 * 37 \<le> q * q" by (intro mult_le_mono) simp_all
      with q(3) r(2) show False by simp
    qed
    moreover have "2 \<le> q" using q(1) by (simp add: is_prime_def)
    ultimately have "q \<in> set [2..<37]" by (simp only: set_upt) simp
    with none q(2) show False by blast
  qed
  have "is_prime 61" "is_prime 151" "is_prime 331" "is_prime 1321"
    by (rule *, simp, simp, simp add: upt_rec)+
  then show ?thesis by (simp add: factor_data_def)
qed

lemma coprime_small: "coprime (61::nat) 151" "coprime (61 * 151 :: nat) 331" "coprime (61 * 151 * 331 :: nat) 1321"
proof -
  have "is_prime 151" "is_prime 331" "is_prime 1321"
    using small_primes by (simp_all add: factor_data_def)
  from this [THEN is_prime_coprime]
  have "coprime 151 (61::nat)" "coprime 331 (61 * 151 :: nat)" "coprime 1321 (61 * 151 * 331 :: nat)"
    by simp_all
  then show "coprime (61::nat) 151" "coprime (61 * 151 :: nat) 331" "coprime (61 * 151 * 331 :: nat) 1321"
    by (simp_all only: coprime_commute)
qed

lemma certified_factor:
  fixes c :: nat and m v s :: int
  assumes q: "is_prime q" and qm: "int q dvd m" and r: "is_prime r"
    and pow: "int c ^ r mod m = 1" and v: "int c mod m = v" and s: "(v - 1) * s mod m = 1"
  shows "r dvd q - 1"
proof (rule ccontr)
  assume no: "\<not> r dvd q - 1"
  have q1: "1 < q" using q by (simp add: is_prime_def)
  have down: "x mod int q = 1" if "x mod m = 1" for x
  proof -
    have "x mod int q = 1 mod int q" using that qm by (metis mod_mod_cancel)
    with q1 show ?thesis by simp
  qed
  have "int (c ^ r mod q) = int 1"
    using down [OF pow] by (simp only: of_nat_mod of_nat_power of_nat_1)
  then have cr: "c ^ r mod q = 1" by (simp only: of_nat_eq_iff)
  have "\<not> q dvd c"
  proof
    assume "q dvd c"
    moreover have "0 < r" using r by (simp add: is_prime_def)
    ultimately have "q dvd c ^ r" by (metis dvd_power dvd_trans)
    with cr show False by simp
  qed
  with q have "c ^ (q - 1) mod q = 1" by (rule fermat_little)
  moreover have "0 < r" using r by (simp add: is_prime_def)
  ultimately have "c mod q = 1"
    using cr is_prime_coprime [OF r no] by (intro power_one_coprime [of c r q "q - 1"])
  then have "int (c mod q) = int 1" by (simp only:)
  then have "int c mod int q = 1" by (simp only: of_nat_mod of_nat_1)
  moreover have "int c mod int q = v mod int q" using v qm by (metis mod_mod_cancel)
  ultimately have "v mod int q = 1 mod int q" using q1 by simp
  then have "int q dvd v - 1" by (simp only: mod_eq_dvd_iff)
  then have "int q dvd (v - 1) * s" by simp
  with down [OF s] show False by simp
qed

lemma prime_divisor_large:
  assumes q: "is_prime q" and dvd: "q dvd p61"
  shows "61 * 151 * 331 * 1321 dvd q - 1"
proof -
  have M: "(2305843009213693951 :: int) = int p61" by (simp add: p61_def)
  have qM: "int q dvd 2305843009213693951" using dvd by (simp only: M of_nat_dvd_iff)
  have cert: "r dvd q - 1" if mem: "(r, v, s) \<in> set factor_data" for r v s
  proof -
    define e where "e = (2305843009213693950 :: nat) div r"
    have D: "r dvd 2305843009213693950 \<and> 37 ^ (2305843009213693950 div r) mod 2305843009213693951 = v"
      using bspec [OF factor_data_power mem] by (simp only: prod.case)
    have s: "(v - 1) * s mod 2305843009213693951 = 1"
      using bspec [OF factor_data_inverse mem] by (simp only: prod.case)
    have v: "37 ^ e mod 2305843009213693951 = v"
      unfolding e_def by (rule conjunct2 [OF D])
    have e: "e * r = 2305843009213693950"
      unfolding e_def by (rule dvd_div_mult_self [OF conjunct1 [OF D]])
    have "int (37 ^ e) ^ r mod 2305843009213693951 = 1"
      using power_37_full by (simp only: of_nat_power power_mult [symmetric] e of_nat_numeral)
    moreover have "int (37 ^ e) mod 2305843009213693951 = v"
      using v by (simp only: of_nat_power of_nat_numeral)
    moreover have "is_prime r" using small_primes mem by blast
    ultimately show ?thesis using certified_factor [OF q qM] s by blast
  qed
  have "\<forall>(r, v, s) \<in> set factor_data. r dvd q - 1" using cert by blast
  then have "61 dvd q - 1" "151 dvd q - 1" "331 dvd q - 1" "1321 dvd q - 1"
    by (simp_all add: factor_data_def)
  with coprime_small show ?thesis by (meson divides_mult)
qed

lemma is_prime_p61: "is_prime p61"
proof (rule ccontr)
  assume no: "\<not> is_prime p61"
  moreover have "1 < p61" by (simp add: p61_def)
  ultimately obtain q where q: "is_prime q" "q dvd p61" "q * q \<le> p61"
    using least_prime_divisor by blast
  then have "61 * 151 * 331 * 1321 \<le> q - 1"
    using prime_divisor_large [OF q(1,2)] by (auto simp: is_prime_def dest: dvd_imp_le)
  then have "(4027518961::nat) * 4027518961 \<le> q * q" by (intro mult_le_mono) simp_all
  with q(3) show False by (simp add: p61_def)
qed

end
