(* ===== verification/F61p.thy ===== *)
theory F61p
  imports Prime61
begin

text \<open>
  The prime field of the Mersenne prime 2^61 - 1 (src/scuttlebutt/src/field/f61p.rs): the
  reductions of a wide product, the operations on the 64-bit representation, the summation that
  reduces once, and the convolution that multiplies polynomials. The type \<open>F61p\<close> holds the
  representations below the modulus; its ring operations are the ones of the code.
\<close>

subsection \<open>Reduction\<close>

definition MODULUS :: u64 where
  "MODULUS = push_bit 61 1 - 1"

definition reduce :: "u128 \<Rightarrow> u64" where
  "reduce k =
     (let i = (k AND ucast MODULUS) + drop_bit 61 k;
          flag = (if i < ucast MODULUS then 1 else 0);
          operand = (flag - 1) AND ucast MODULUS
      in ucast (i - operand))"

definition full_reduce :: "u128 \<Rightarrow> u64" where
  "full_reduce k =
     (let i = (k AND ucast MODULUS) + drop_bit 61 k;
          j = (i AND ucast MODULUS) + drop_bit 61 i;
          flag = (if j < ucast MODULUS then 1 else 0);
          operand = (flag - 1) AND ucast MODULUS
      in ucast (j - operand))"

lemma MODULUS_mask: "MODULUS = mask 61"
  by (simp add: MODULUS_def mask_eq_decr_exp push_bit_eq_mult)

lemma ucast_MODULUS: "(ucast MODULUS :: u128) = mask 61"
  by (rule bit_word_eqI) (auto simp: MODULUS_mask bit_simps)

lemma unat_MODULUS: "unat MODULUS = p61" "unat (mask 61 :: u128) = p61"
  by (simp_all add: MODULUS_def p61_def mask_eq_decr_exp)

text \<open>One folding step: the low 61 bits plus the rest.\<close>

definition fold61 :: "nat \<Rightarrow> nat" where
  "fold61 k = k mod 2 ^ 61 + k div 2 ^ 61"

lemma fold61_split: "k = fold61 k + (k div 2 ^ 61) * p61"
proof -
  have "(k div 2 ^ 61) * 2 ^ 61 = k div 2 ^ 61 + (k div 2 ^ 61) * p61"
    by (simp add: p61_def)
  then show ?thesis
    using div_mult_mod_eq [of k "2 ^ 61"] by (simp only: fold61_def)
qed

lemma fold61_mod: "fold61 k mod p61 = k mod p61"
  by (metis fold61_split mod_mult_self1)

lemma fold61_word:
  fixes k :: u128
  shows "(k AND mask 61) + drop_bit 61 k = of_nat (fold61 (unat k))"
proof -
  have "k AND mask 61 = of_nat (unat k mod 2 ^ 61)"
    by (simp only: take_bit_eq_mask [symmetric] take_bit_eq_mod word_arith_nat_mod) simp
  moreover have "drop_bit 61 k = of_nat (unat k div 2 ^ 61)"
    by (simp only: drop_bit_eq_div word_arith_nat_div) simp
  ultimately show ?thesis by (simp only: fold61_def of_nat_add)
qed

lemma fold61_less: "k < 2 ^ 128 \<Longrightarrow> fold61 k < 2 ^ 61 + 2 ^ 67"
  by (simp add: fold61_def add_less_le_mono less_mult_imp_div_less less_imp_le)

lemma select_modulus:
  fixes i :: u128
  shows "(((if i < mask 61 then 1 else 0) - 1) AND mask 61) = (if i < mask 61 then 0 else mask 61 :: u128)"
proof -
  have "(0 - 1 :: u128) AND mask 61 = mask 61"
    by (rule bit_word_eqI) (simp add: bit_simps diff_0)
  then show ?thesis
    by (cases "i < mask 61") (simp_all only: if_True if_False diff_self and_zero_eq zero_and_eq)
qed

lemma ucast_of_nat_64: "(ucast (of_nat n :: u128) :: u64) = of_nat n"
  by (rule bit_word_eqI) (simp add: bit_simps)

lemma of_nat_minus_p61: "p61 \<le> n \<Longrightarrow> (of_nat n :: u128) - mask 61 = of_nat (n - p61)"
  by (simp add: of_nat_diff p61_def mask_eq_decr_exp)

lemma reduce_nat:
  "reduce k = (let i = fold61 (unat k) in of_nat (if i < p61 then i else i - p61))"
proof -
  let ?i = "fold61 (unat k)"
  have lt: "unat k < 2 ^ 128" using unsigned_less [of k] by simp
  have small: "?i < 2 ^ LENGTH(128)" using fold61_less [OF lt] by simp
  have less: "(of_nat ?i :: u128) < mask 61 \<longleftrightarrow> ?i < p61"
    by (simp add: word_less_nat_alt unat_of_nat_small [OF small] unat_MODULUS)
  show ?thesis
  proof (cases "?i < p61")
    case True
    then show ?thesis
      unfolding reduce_def Let_def ucast_MODULUS fold61_word select_modulus less
      by (simp add: ucast_of_nat_64)
  next
    case False
    then have "(of_nat ?i :: u128) - mask 61 = of_nat (?i - p61)"
      by (intro of_nat_minus_p61) simp
    with False show ?thesis
      unfolding reduce_def Let_def ucast_MODULUS fold61_word select_modulus less
      by (simp only: ucast_of_nat_64 if_False)
  qed
qed

text \<open>
  One folding step brings a product below twice the modulus, so the single subtraction reduces
  it; the bound is exact, \<open>2 ^ 122 - 1\<close> is the first value left unreduced.
\<close>

lemma mod_p61_step: "i < 2 * p61 \<Longrightarrow> (if i < p61 then i else i - p61) = i mod p61"
  by (simp add: mod_if)

lemma fold61_product: "k < 2 ^ 122 - 1 \<Longrightarrow> fold61 k < 2 * p61"
proof -
  assume k: "k < 2 ^ 122 - 1"
  have r: "k mod 2 ^ 61 \<le> p61" by (simp add: p61_def less_Suc_eq_le [symmetric])
  have "k div 2 ^ 61 < 2 ^ 61" using k by (intro less_mult_imp_div_less) simp
  then have "k div 2 ^ 61 \<le> p61" by (simp add: p61_def)
  show ?thesis
  proof (cases "k div 2 ^ 61 = p61 \<and> k mod 2 ^ 61 = p61")
    case True
    then have "k = p61 * 2 ^ 61 + p61" by (metis div_mult_mod_eq)
    with k show ?thesis by (simp add: p61_def)
  next
    case False
    with r \<open>k div 2 ^ 61 \<le> p61\<close> show ?thesis by (auto simp: fold61_def)
  qed
qed

lemma unat_of_nat_p61: "n \<le> p61 \<Longrightarrow> unat (of_nat n :: u64) = n"
  by (rule unat_of_nat_small) (simp add: p61_def)

lemma reduce_mod: "unat k < 2 ^ 122 - 1 \<Longrightarrow> unat (reduce k) = unat k mod p61"
  using fold61_product [of "unat k"]
  by (simp only: reduce_nat Let_def mod_p61_step fold61_mod)
    (simp add: unat_of_nat_p61 p61_def less_imp_le)

lemma fold61_twice: "k < 2 ^ 128 \<Longrightarrow> fold61 (fold61 k) < 2 * p61"
proof -
  assume "k < 2 ^ 128"
  then have "fold61 k < 2 ^ 61 + 2 ^ 67" by (rule fold61_less)
  then have "fold61 k div 2 ^ 61 < 65" by (intro less_mult_imp_div_less) simp
  moreover have "fold61 k mod 2 ^ 61 < 2 ^ 61" by simp
  ultimately show ?thesis by (simp add: fold61_def [of "fold61 k"] p61_def)
qed

lemma full_reduce_mod: "unat (full_reduce k) = unat k mod p61"
proof -
  let ?i = "fold61 (unat k)" and ?j = "fold61 (fold61 (unat k))"
  have lt: "unat k < 2 ^ 128" using unsigned_less [of k] by simp
  have small: "?i < 2 ^ LENGTH(128)" using fold61_less [OF lt] by simp
  have j: "?j < 2 * p61" by (rule fold61_twice [OF lt])
  then have small_j: "?j < 2 ^ LENGTH(128)" by (simp add: p61_def)
  have less: "(of_nat ?j :: u128) < mask 61 \<longleftrightarrow> ?j < p61"
    by (simp add: word_less_nat_alt unat_of_nat_small [OF small_j] unat_MODULUS)
  have "full_reduce k = of_nat (if ?j < p61 then ?j else ?j - p61)"
  proof (cases "?j < p61")
    case True
    then show ?thesis
      unfolding full_reduce_def Let_def ucast_MODULUS fold61_word unat_of_nat_small [OF small]
        select_modulus less
      by (simp add: ucast_of_nat_64)
  next
    case False
    then have "(of_nat ?j :: u128) - mask 61 = of_nat (?j - p61)"
      by (intro of_nat_minus_p61) simp
    with False show ?thesis
      unfolding full_reduce_def Let_def ucast_MODULUS fold61_word unat_of_nat_small [OF small]
        select_modulus less
      by (simp only: ucast_of_nat_64 if_False)
  qed
  then show ?thesis
    using j by (simp only: mod_p61_step fold61_mod) (simp add: unat_of_nat_p61 p61_def less_imp_le)
qed

subsection \<open>The operations on representations\<close>

definition f61_add_assign :: "u64 \<Rightarrow> u64 \<Rightarrow> u64" where
  "f61_add_assign a b = reduce (ucast a + ucast b)"

definition f61_sub_assign :: "u64 \<Rightarrow> u64 \<Rightarrow> u64" where
  "f61_sub_assign a b = reduce ((ucast a + ucast MODULUS) - ucast b)"

definition f61_mul_assign :: "u64 \<Rightarrow> u64 \<Rightarrow> u64" where
  "f61_mul_assign a b = reduce (ucast a * ucast b)"

definition f61_neg :: "u64 \<Rightarrow> u64" where
  "f61_neg a = f61_sub_assign 0 a"

text \<open>
  The same bodies under the overflow checks of the dev profile: every \<open>+\<close>, \<open>-\<close> and \<open>*\<close> on \<open>u128\<close>
  panics when its result does not fit; \<open>wrapping_sub\<close>, the masks and the shifts do not. The functions
  above are what the bodies compute with wrapping operators, as in the release profile.
\<close>

definition reduce_checked :: "u128 \<Rightarrow> u64 res" where
  "reduce_checked k =
     res_bind (checked_add (k AND ucast MODULUS) (drop_bit 61 k)) (\<lambda>i.
     let flag = (if i < ucast MODULUS then 1 else 0);
         operand = (flag - 1) AND ucast MODULUS in
     res_bind (checked_sub i operand) (\<lambda>r. Inr (ucast r)))"

definition full_reduce_checked :: "u128 \<Rightarrow> u64 res" where
  "full_reduce_checked k =
     res_bind (checked_add (k AND ucast MODULUS) (drop_bit 61 k)) (\<lambda>i.
     res_bind (checked_add (i AND ucast MODULUS) (drop_bit 61 i)) (\<lambda>j.
     let flag = (if j < ucast MODULUS then 1 else 0);
         operand = (flag - 1) AND ucast MODULUS in
     res_bind (checked_sub j operand) (\<lambda>r. Inr (ucast r))))"

definition f61_add_checked :: "u64 \<Rightarrow> u64 \<Rightarrow> u64 res" where
  "f61_add_checked a b = res_bind (checked_add (ucast a) (ucast b)) reduce_checked"

definition f61_sub_checked :: "u64 \<Rightarrow> u64 \<Rightarrow> u64 res" where
  "f61_sub_checked a b =
     res_bind (checked_add (ucast a) (ucast MODULUS)) (\<lambda>a. res_bind (checked_sub a (ucast b)) reduce_checked)"

definition f61_mul_checked :: "u64 \<Rightarrow> u64 \<Rightarrow> u64 res" where
  "f61_mul_checked a b = res_bind (checked_mul (ucast a) (ucast b)) reduce_checked"

definition f61_neg_checked :: "u64 \<Rightarrow> u64 res" where
  "f61_neg_checked a = f61_sub_checked 0 a"

lemma fold_checked: "checked_add (k AND ucast MODULUS) (drop_bit 61 k) = Inr ((k AND ucast MODULUS) + drop_bit 61 k)"
  for k :: u128
proof -
  have lt: "unat k < 2 ^ 128" using unsigned_less [of k] by simp
  have "unat (k AND ucast MODULUS) = unat k mod 2 ^ 61"
    by (simp only: ucast_MODULUS take_bit_eq_mask [symmetric] unsigned_take_bit_eq) (simp only: take_bit_eq_mod)
  moreover have "unat (drop_bit 61 k) = unat k div 2 ^ 61"
    by (simp only: unat_drop_bit_eq) (simp only: drop_bit_eq_div)
  ultimately show ?thesis using fold61_less [OF lt] by (simp add: checked_add_def fold61_def)
qed

lemma select_checked:
  fixes i :: u128
  shows "checked_sub i (((if i < ucast MODULUS then 1 else 0) - 1) AND ucast MODULUS) =
    Inr (i - (((if i < ucast MODULUS then 1 else 0) - 1) AND ucast MODULUS))"
  unfolding ucast_MODULUS select_modulus by (simp add: checked_sub_def not_less)

lemma reduce_no_overflow: "reduce_checked k = Inr (reduce k)" "full_reduce_checked k = Inr (full_reduce k)"
  by (simp_all only: reduce_checked_def full_reduce_checked_def reduce_def full_reduce_def fold_checked
      res_bind.simps Let_def select_checked)

lemma less_MODULUS: "w < MODULUS \<longleftrightarrow> unat w < p61"
  by (simp add: word_less_nat_alt unat_MODULUS)

lemma p61_bounds: "0 < p61" "1 < p61" "p61 < 2 ^ 61"
  by (simp_all add: p61_def)

lemma unat_u64_less: "unat (w :: u64) < 2 ^ 64"
  using unsigned_less [where 'a = nat, of w] by simp

lemma unat_ucast_u64: "unat (ucast (w :: u64) :: u128) = unat w"
  using unat_u64_less [of w] by (simp add: unsigned_ucast_eq take_bit_nat_eq_self_iff)

lemma ucast_u64_of_nat: "(ucast (w :: u64) :: u128) = of_nat (unat w)"
proof -
  have "unat (of_nat (unat w) :: u128) = unat w"
    by (rule unat_of_nat_small) (use unat_u64_less [of w] in simp)
  then show ?thesis by (simp only: word_unat_eq_iff unat_ucast_u64)
qed

lemma reduce_of_nat: "n < 2 ^ 122 - 1 \<Longrightarrow> unat (reduce (of_nat n)) = n mod p61"
  using reduce_mod [of "of_nat n"] by (simp add: unat_of_nat_small)

lemma f61_add_assign_mod:
  "a < MODULUS \<Longrightarrow> b < MODULUS \<Longrightarrow> unat (f61_add_assign a b) = (unat a + unat b) mod p61"
  unfolding f61_add_assign_def less_MODULUS ucast_u64_of_nat of_nat_add [symmetric]
  by (rule reduce_of_nat) (simp add: p61_def)

lemma f61_sub_assign_mod:
  "a < MODULUS \<Longrightarrow> b < MODULUS \<Longrightarrow> unat (f61_sub_assign a b) = (unat a + p61 - unat b) mod p61"
proof -
  assume "a < MODULUS" "b < MODULUS"
  then have ab: "unat a < p61" "unat b < p61" by (simp_all only: less_MODULUS)
  then have "(of_nat (unat a) + of_nat p61) - of_nat (unat b) = (of_nat (unat a + p61 - unat b) :: u128)"
    by (simp add: of_nat_diff)
  then show ?thesis
    unfolding f61_sub_assign_def ucast_u64_of_nat unat_MODULUS
    using ab by (simp only:) (rule reduce_of_nat, simp add: p61_def)
qed

lemma mult_less_product: "a < p61 \<Longrightarrow> b < p61 \<Longrightarrow> a * b < 2 ^ 122 - 1"
proof -
  assume "a < p61" "b < p61"
  then have "a * b \<le> (p61 - 1) * (p61 - 1)" by (intro mult_le_mono) simp_all
  then show ?thesis by (simp add: p61_def)
qed

lemma f61_mul_assign_mod:
  "a < MODULUS \<Longrightarrow> b < MODULUS \<Longrightarrow> unat (f61_mul_assign a b) = unat a * unat b mod p61"
  unfolding f61_mul_assign_def less_MODULUS ucast_u64_of_nat of_nat_mult [symmetric]
  by (rule reduce_of_nat) (rule mult_less_product)

lemma f61_no_overflow:
  assumes "a < MODULUS" and "b < MODULUS"
  shows "f61_add_checked a b = Inr (f61_add_assign a b)" "f61_sub_checked a b = Inr (f61_sub_assign a b)"
    "f61_mul_checked a b = Inr (f61_mul_assign a b)" "f61_neg_checked a = Inr (f61_neg a)"
proof -
  have ab: "unat a < p61" "unat b < p61" using assms by (simp_all only: less_MODULUS)
  have sub: "f61_sub_checked u v = Inr (f61_sub_assign u v)" if "unat u < p61" "unat v < p61" for u v
  proof -
    have sum: "unat (ucast u + ucast MODULUS :: u128) = unat u + p61"
      using that by (subst unat_word_ariths(1)) (simp add: unat_ucast_u64 unat_MODULUS p61_def)
    then have "(ucast v :: u128) \<le> ucast u + ucast MODULUS"
      using that by (simp add: word_le_nat_alt unat_ucast_u64)
    moreover have "unat u + p61 < 2 ^ 128" using that by (simp add: p61_def)
    ultimately show ?thesis
      by (simp add: f61_sub_checked_def f61_sub_assign_def checked_add_def checked_sub_def reduce_no_overflow
          unat_ucast_u64 unat_MODULUS)
  qed
  show "f61_sub_checked a b = Inr (f61_sub_assign a b)" using ab by (rule sub)
  show "f61_neg_checked a = Inr (f61_neg a)" using ab(1) by (simp add: f61_neg_checked_def f61_neg_def sub p61_bounds)
  have "unat a + unat b < 2 ^ 128" using ab by (simp add: p61_def)
  then show "f61_add_checked a b = Inr (f61_add_assign a b)"
    by (simp add: f61_add_checked_def f61_add_assign_def checked_add_def reduce_no_overflow unat_ucast_u64)
  have "unat a * unat b < 2 ^ 128" using mult_less_product [OF ab] by simp
  then show "f61_mul_checked a b = Inr (f61_mul_assign a b)"
    by (simp add: f61_mul_checked_def f61_mul_assign_def checked_mul_def reduce_no_overflow unat_ucast_u64)
qed

lemma less_MODULUS_mod: "unat r = n mod p61 \<Longrightarrow> r < MODULUS"
  by (simp add: less_MODULUS p61_bounds)

subsection \<open>The field\<close>

typedef F61p = "{w :: u64. w < MODULUS}"
  by (rule exI [of _ 0]) (simp add: less_MODULUS p61_bounds)

setup_lifting type_definition_F61p

text \<open>The value of an element, an integer below the modulus.\<close>

definition val61 :: "F61p \<Rightarrow> int" where
  "val61 x = int (unat (Rep_F61p x))"

lemma Rep_less [simp]: "Rep_F61p x < MODULUS"
  using Rep_F61p [of x] by simp

lemma val61_inject: "val61 x = val61 y \<longleftrightarrow> x = y"
  by (simp only: val61_def of_nat_eq_iff word_unat_eq_iff [symmetric] Rep_F61p_inject)

lemma Rep_F61p_less: "unat (Rep_F61p x) < p61"
  using Rep_F61p [of x] by (simp add: less_MODULUS)

lemma val61_range: "0 \<le> val61 x" "val61 x < int p61"
  using Rep_F61p_less [of x] by (simp_all only: val61_def of_nat_less_iff of_nat_0_le_iff)

lemma val61_mod [simp]: "val61 x mod int p61 = val61 x"
  using val61_range [of x] by simp

instantiation F61p :: comm_ring_1
begin

lift_definition zero_F61p :: F61p is 0 by (simp add: less_MODULUS p61_bounds)
lift_definition one_F61p :: F61p is 1 by (simp add: less_MODULUS p61_def)
lift_definition plus_F61p :: "F61p \<Rightarrow> F61p \<Rightarrow> F61p" is f61_add_assign
  by (rule less_MODULUS_mod) (rule f61_add_assign_mod)
lift_definition minus_F61p :: "F61p \<Rightarrow> F61p \<Rightarrow> F61p" is f61_sub_assign
  by (rule less_MODULUS_mod) (rule f61_sub_assign_mod)
lift_definition times_F61p :: "F61p \<Rightarrow> F61p \<Rightarrow> F61p" is f61_mul_assign
  by (rule less_MODULUS_mod) (rule f61_mul_assign_mod)
lift_definition uminus_F61p :: "F61p \<Rightarrow> F61p" is f61_neg
  unfolding f61_neg_def
  by (rule less_MODULUS_mod, rule f61_sub_assign_mod) (simp_all add: less_MODULUS p61_bounds)

lemma val61_0 [simp]: "val61 0 = 0"
  by (simp add: val61_def zero_F61p.rep_eq)

lemma val61_1 [simp]: "val61 1 = 1"
  by (simp add: val61_def one_F61p.rep_eq)

lemma val61_add: "val61 (x + y) = (val61 x + val61 y) mod int p61"
  unfolding val61_def plus_F61p.rep_eq
  by (simp only: f61_add_assign_mod Rep_less of_nat_mod of_nat_add)

lemma val61_diff: "val61 (x - y) = (val61 x - val61 y) mod int p61"
proof -
  have "int (unat (Rep_F61p x) + p61 - unat (Rep_F61p y)) = val61 x - val61 y + int p61"
    using Rep_F61p_less [of y] unfolding val61_def by (subst of_nat_diff) (simp_all only: of_nat_add)
  then show ?thesis
    unfolding val61_def minus_F61p.rep_eq
    by (simp only: f61_sub_assign_mod Rep_less of_nat_mod mod_add_self2)
qed

lemma val61_uminus: "val61 (- x) = (- val61 x) mod int p61"
proof -
  have "- x = 0 - x" by transfer (simp add: f61_neg_def)
  then show ?thesis by (simp add: val61_diff)
qed

lemma val61_mult: "val61 (x * y) = val61 x * val61 y mod int p61"
  unfolding val61_def times_F61p.rep_eq
  by (simp only: f61_mul_assign_mod Rep_less of_nat_mod of_nat_mult)

lemmas val61_ops = val61_add val61_diff val61_uminus val61_mult

instance
proof
  note vals = val61_inject [symmetric] val61_ops
  fix a b c :: F61p
  show "a * b * c = a * (b * c)" by (simp add: vals mod_simps mult.assoc)
  show "a * b = b * a" by (simp add: vals mult.commute)
  show "1 * a = a" by (simp add: vals)
  show "a + b + c = a + (b + c)" by (simp add: vals mod_simps add.assoc)
  show "a + b = b + a" by (simp add: vals add.commute)
  show "0 + a = a" by (simp add: vals)
  show "- a + a = 0" by (simp add: vals mod_simps)
  show "a - b = a + - b" by (simp add: vals mod_simps)
  show "(a + b) * c = a * c + b * c" by (simp add: vals mod_simps distrib_right)
  show "(0 :: F61p) \<noteq> 1" by (simp add: vals)
qed

end

lemma one_mod_p61 [simp]: "1 mod int p61 = 1"
  by (simp add: p61_def)

lemma val61_power: "val61 (x ^ n) = val61 x ^ n mod int p61"
  by (induction n) (simp_all add: val61_mult mod_mult_right_eq p61_bounds)

text \<open>Inversion: \<open>inverse\<close> panics on zero and raises to the power \<open>MODULUS - 2\<close>.\<close>

definition f61_inverse :: "F61p \<Rightarrow> F61p res" where
  "f61_inverse x = (if x = 0 then Inl Panic else Inr (pow_var_time x (ucast MODULUS - 2)))"

definition f61_div_assign :: "F61p \<Rightarrow> F61p \<Rightarrow> F61p res" where
  "f61_div_assign x y = res_bind (f61_inverse y) (\<lambda>z. Inr (x * z))"

lemma power_p61: "x \<noteq> 0 \<Longrightarrow> x ^ (p61 - 2) * x = (1 :: F61p)"
proof -
  assume x: "x \<noteq> 0"
  have pos: "0 < unat (Rep_F61p x)"
  proof (rule gr0I)
    assume "unat (Rep_F61p x) = 0"
    then have "val61 x = 0" by (simp only: val61_def of_nat_0)
    then have "val61 x = val61 0" by simp
    with x show False by (simp only: val61_inject)
  qed
  have "\<not> p61 dvd unat (Rep_F61p x)"
    using pos Rep_F61p_less [of x] by (auto dest: dvd_imp_le)
  then have "unat (Rep_F61p x) ^ (p61 - 1) mod p61 = 1"
    using fermat_little [OF is_prime_p61] by blast
  then have "int (unat (Rep_F61p x) ^ (p61 - 1) mod p61) = int 1" by (simp only:)
  then have "val61 (x ^ (p61 - 1)) = 1"
    unfolding val61_power by (simp only: val61_def of_nat_mod of_nat_power of_nat_1)
  then have "x ^ (p61 - 1) = 1" by (simp add: val61_inject [symmetric])
  moreover have "p61 - 1 = Suc (p61 - 2)" by (simp add: p61_def)
  ultimately show ?thesis by (simp add: mult.commute)
qed

lemma unat_MODULUS_minus_2: "unat (ucast MODULUS - 2 :: u128) = p61 - 2"
  by (simp add: MODULUS_def p61_def)

lemma pow_var_time_inverse: "x \<noteq> 0 \<Longrightarrow> pow_var_time x (ucast MODULUS - 2) * x = (1 :: F61p)"
  using power_p61 by (simp only: pow_var_time_power unat_MODULUS_minus_2)

instantiation F61p :: field
begin

definition inverse_F61p :: "F61p \<Rightarrow> F61p" where
  "inverse_F61p x = (if x = 0 then 0 else pow_var_time x (ucast MODULUS - 2))"

definition divide_F61p :: "F61p \<Rightarrow> F61p \<Rightarrow> F61p" where
  "divide_F61p x y = x * inverse y"

instance
proof
  fix a b :: F61p
  show "a \<noteq> 0 \<Longrightarrow> inverse a * a = 1" by (simp add: inverse_F61p_def pow_var_time_inverse)
  show "a div b = a * inverse b" by (simp only: divide_F61p_def)
  show "inverse (0 :: F61p) = 0" by (simp add: inverse_F61p_def)
qed

end

subsection \<open>Sum\<close>

definition f61_sum :: "F61p list \<Rightarrow> u64 res" where
  "f61_sum xs =
     res_bind (foldM_res (\<lambda>out e. checked_add out (ucast (Rep_F61p e))) 0 xs) (\<lambda>out. Inr (reduce out))"

text \<open>An accumulator that never overflows holds the sum.\<close>

lemma checked_sum:
  fixes s :: "'a :: len word"
  assumes "unat s + (\<Sum>x\<leftarrow>xs. unat (h x)) < 2 ^ LENGTH('a)"
  shows "foldM_res (\<lambda>s x. checked_add s (h x)) s xs = Inr (of_nat (unat s + (\<Sum>x\<leftarrow>xs. unat (h x))))"
  using assms
proof (induction xs arbitrary: s)
  case (Cons x xs)
  have less: "unat s + unat (h x) < 2 ^ LENGTH('a)" using Cons.prems by simp
  then have add: "checked_add s (h x) = Inr (s + h x)" by (simp only: checked_add_def if_True)
  have "unat (s + h x) = unat s + unat (h x)"
    using less by (simp only: unat_word_ariths mod_less)
  then show ?case
    using Cons.IH [of "s + h x"] Cons.prems by (simp add: add add.assoc)
qed simp

lemma sum_list_Rep_le: "(\<Sum>x\<leftarrow>xs. unat (Rep_F61p x)) \<le> length xs * (p61 - 1)"
proof (induction xs)
  case (Cons x xs)
  then show ?case using Rep_F61p_less [of x] by simp
qed simp

lemma val61_sum_list: "val61 (sum_list xs) = (\<Sum>x\<leftarrow>xs. val61 x) mod int p61"
  by (induction xs) (simp_all add: val61_add mod_add_right_eq p61_bounds)

lemma int_sum_list_Rep: "int (\<Sum>x\<leftarrow>xs. unat (Rep_F61p x)) = (\<Sum>x\<leftarrow>xs. val61 x)"
  by (induction xs) (simp_all add: val61_def)

lemma f61_sum_reduce:
  assumes "(\<Sum>x\<leftarrow>xs. unat (Rep_F61p x)) < 2 ^ 128"
  shows "f61_sum xs = Inr (reduce (of_nat (\<Sum>x\<leftarrow>xs. unat (Rep_F61p x))))"
  unfolding f61_sum_def using assms by (subst checked_sum) (simp_all add: unat_ucast_u64)


subsection \<open>Conversions and serialization\<close>

text \<open>Building an element out of a word that is already reduced, as \<open>F61p(raw)\<close> does.\<close>

lift_definition F61p_raw :: "u64 \<Rightarrow> F61p" is "\<lambda>w. if w < MODULUS then w else 0"
  by (simp add: less_MODULUS p61_bounds)

definition f61_to_bytes :: "F61p \<Rightarrow> u8 list" where
  "f61_to_bytes x = u64_to_le_bytes (Rep_F61p x)"

definition f61_from_bytes :: "u8 list \<Rightarrow> F61p res" where
  "f61_from_bytes bs =
     (let raw = u64_from_le_bytes bs in if raw < MODULUS then Inr (F61p_raw raw) else Inl Err)"

definition f61_from_uniform_bytes :: "u8 list \<Rightarrow> F61p" where
  "f61_from_uniform_bytes bs = F61p_raw (reduce (ucast (u64_from_le_bytes (take 8 bs))))"

definition f61_try_from :: "u128 \<Rightarrow> F61p res" where
  "f61_try_from v = (if v < ucast MODULUS then Inr (F61p_raw (ucast v)) else Inl Err)"

definition u128_from_f61 :: "F61p \<Rightarrow> u128" where
  "u128_from_f61 x = ucast (Rep_F61p x)"

lemma F61p_raw_Rep [simp]: "F61p_raw (Rep_F61p x) = x"
  by transfer simp

lemma Rep_F61p_raw: "w < MODULUS \<Longrightarrow> Rep_F61p (F61p_raw w) = w"
  by (simp add: F61p_raw.rep_eq)

text \<open>
  C12. The 64-bit representation of F61p: \<open>reduce\<close> is the remainder modulo 2^61 - 1 for every
  value below 2^122 - 1, which includes every sum, difference and product of two reduced
  elements, and the bound is exact; \<open>full_reduce\<close> is the remainder for every 128-bit value.
\<close>

theorem reduce_correct:
  "(unat k < 2 ^ 122 - 1 \<longrightarrow> unat (reduce k) = unat k mod unat MODULUS) \<and>
   reduce (2 ^ 122 - 1) = MODULUS \<and>
   unat (full_reduce k) = unat k mod unat MODULUS"
proof (intro conjI impI)
  show "unat (reduce k) = unat k mod unat MODULUS" if "unat k < 2 ^ 122 - 1"
    using reduce_mod [OF that] by (simp only: unat_MODULUS)
  have "(2 ^ 122 - 1 :: u128) = of_nat (2 ^ 122 - 1)" by simp
  then have "unat (2 ^ 122 - 1 :: u128) = 2 ^ 122 - 1" by (simp only: unat_of_nat_small) simp
  then show "reduce (2 ^ 122 - 1) = MODULUS"
    by (simp only: reduce_nat Let_def fold61_def) (simp add: p61_def MODULUS_def)
  show "unat (full_reduce k) = unat k mod unat MODULUS"
    by (simp only: full_reduce_mod unat_MODULUS)
qed

theorem reduce_correct_witness:
  "unat (reduce 6917529027641081859) = (6917529027641081859 :: nat) mod unat MODULUS"
  using reduce_correct [of 6917529027641081859] by simp

text \<open>
  C13. On representations below the modulus the operations of the code pass every overflow check on
  \<open>u128\<close>, return representations below the modulus, and compute the sum, the difference, the product
  and the negation modulo 2^61 - 1. The two reductions never overflow, on any argument.
\<close>

theorem f61_operations:
  "a < MODULUS \<Longrightarrow> b < MODULUS \<Longrightarrow>
   f61_add_checked a b = Inr (f61_add_assign a b) \<and> f61_sub_checked a b = Inr (f61_sub_assign a b) \<and>
   f61_mul_checked a b = Inr (f61_mul_assign a b) \<and> f61_neg_checked a = Inr (f61_neg a) \<and>
   reduce_checked k = Inr (reduce k) \<and> full_reduce_checked k = Inr (full_reduce k) \<and>
   f61_add_assign a b < MODULUS \<and> f61_sub_assign a b < MODULUS \<and>
   f61_mul_assign a b < MODULUS \<and> f61_neg a < MODULUS \<and>
   int (unat (f61_add_assign a b)) = (int (unat a) + int (unat b)) mod (2 ^ 61 - 1) \<and>
   int (unat (f61_sub_assign a b)) = (int (unat a) - int (unat b)) mod (2 ^ 61 - 1) \<and>
   int (unat (f61_mul_assign a b)) = (int (unat a) * int (unat b)) mod (2 ^ 61 - 1) \<and>
   int (unat (f61_neg a)) = (- int (unat a)) mod (2 ^ 61 - 1)"
proof -
  assume ab: "a < MODULUS" "b < MODULUS"
  note checks = f61_no_overflow [OF ab] reduce_no_overflow
  obtain x y where xy: "a = Rep_F61p x" "b = Rep_F61p y"
    using ab by (metis Abs_F61p_inverse mem_Collect_eq)
  have p: "(2 ^ 61 - 1 :: int) = int p61" by (simp add: p61_def)
  show ?thesis
    unfolding xy p plus_F61p.rep_eq [symmetric] minus_F61p.rep_eq [symmetric]
      times_F61p.rep_eq [symmetric] uminus_F61p.rep_eq [symmetric] val61_def [symmetric]
    by (intro conjI Rep_less val61_ops checks [unfolded xy plus_F61p.rep_eq [symmetric] minus_F61p.rep_eq [symmetric]
      times_F61p.rep_eq [symmetric] uminus_F61p.rep_eq [symmetric]])
qed

theorem f61_operations_witness:
  "f61_mul_checked (MODULUS - 1) (MODULUS - 1) = Inr (f61_mul_assign (MODULUS - 1) (MODULUS - 1)) \<and>
   f61_mul_assign (MODULUS - 1) (MODULUS - 1) < MODULUS \<and>
   int (unat (f61_mul_assign (MODULUS - 1) (MODULUS - 1)))
     = (int (unat (MODULUS - 1)) * int (unat (MODULUS - 1))) mod (2 ^ 61 - 1)"
proof -
  have "MODULUS - 1 < MODULUS" by (simp add: MODULUS_def)
  from f61_operations [OF this this] show ?thesis by blast
qed

text \<open>
  C14. Inversion by exponentiation is the inverse of the field of 2^61 - 1 elements: it panics
  exactly on zero, and otherwise returns an element whose product with the argument is one.
\<close>

theorem f61_inverse_correct:
  "(f61_inverse x = Inl Panic \<longleftrightarrow> x = 0) \<and>
   (x \<noteq> 0 \<longrightarrow> (\<exists>y. f61_inverse x = Inr y \<and> y * x = 1 \<and> y = inverse x \<and> f61_div_assign 1 x = Inr y))"
  by (simp add: f61_inverse_def f61_div_assign_def pow_var_time_inverse inverse_F61p_def)

theorem f61_inverse_witness: "\<exists>y. f61_inverse (1 + 1) = Inr y \<and> y * (1 + 1) = 1"
proof -
  have "val61 (1 + 1) = 2" by (simp only: val61_add val61_1) (simp add: p61_def)
  then have "(1 + 1 :: F61p) \<noteq> 0" by (metis val61_0 zero_neq_numeral)
  with f61_inverse_correct [of "1 + 1"] show ?thesis by blast
qed

text \<open>
  C15. The summation reduces once, at the end. For up to 2^61 elements the result is the reduced
  sum. For 2^63 elements, which the comment in the code admits, the result is not reduced.
\<close>

theorem f61_sum_bounds:
  "(length xs \<le> 2 ^ 61 \<longrightarrow>
     (\<exists>r. f61_sum xs = Inr r \<and> r < MODULUS \<and> F61p_raw r = sum_list xs)) \<and>
   f61_sum (replicate (2 ^ 63) (- 1)) = Inr 6917529027641081849 \<and>
   \<not> (6917529027641081849 :: u64) < MODULUS"
proof (intro conjI impI)
  let ?n = "\<Sum>x\<leftarrow>xs. unat (Rep_F61p x)"
  assume "length xs \<le> 2 ^ 61"
  then have "?n \<le> 2 ^ 61 * (p61 - 1)"
    using sum_list_Rep_le [of xs] by (meson mult_le_mono1 order_trans)
  then have n: "?n < 2 ^ 122 - 1" by (simp add: p61_def)
  then have "f61_sum xs = Inr (reduce (of_nat ?n))" by (intro f61_sum_reduce) simp
  moreover have r: "unat (reduce (of_nat ?n)) = ?n mod p61" by (rule reduce_of_nat [OF n])
  moreover from r have "reduce (of_nat ?n) < MODULUS" by (rule less_MODULUS_mod)
  moreover from r this have "val61 (F61p_raw (reduce (of_nat ?n))) = val61 (sum_list xs)"
    by (simp only: val61_def Rep_F61p_raw val61_sum_list [unfolded val61_def] of_nat_mod)
      (simp only: int_sum_list_Rep val61_def)
  ultimately show "\<exists>r. f61_sum xs = Inr r \<and> r < MODULUS \<and> F61p_raw r = sum_list xs"
    by (metis val61_inject)
next
  have v: "unat (Rep_F61p (- 1)) = p61 - 1"
  proof -
    have "val61 (- 1) = int (p61 - 1)" by (simp add: val61_uminus p61_def)
    then show ?thesis by (simp only: val61_def of_nat_eq_iff)
  qed
  have n: "(\<Sum>x\<leftarrow>replicate (2 ^ 63) (- 1). unat (Rep_F61p x)) = 2 ^ 63 * (p61 - 1)"
    by (simp only: map_replicate sum_list_replicate v) simp
  have "unat (of_nat (2 ^ 63 * (p61 - 1)) :: u128) = 2 ^ 63 * (p61 - 1)"
    by (rule unat_of_nat_small) (simp add: p61_def)
  then have "reduce (of_nat (2 ^ 63 * (p61 - 1))) = 6917529027641081849"
    by (simp only: reduce_nat Let_def fold61_def) (simp add: p61_def)
  then show "f61_sum (replicate (2 ^ 63) (- 1)) = Inr 6917529027641081849"
    using f61_sum_reduce [of "replicate (2 ^ 63) (- 1)"] unfolding n by (simp add: p61_def)
  show "\<not> (6917529027641081849 :: u64) < MODULUS" by (simp add: MODULUS_def)
qed

theorem f61_sum_bounds_witness: "\<exists>r. f61_sum [- 1, 1] = Inr r \<and> r < MODULUS \<and> F61p_raw r = sum_list [- 1, 1]"
  using f61_sum_bounds [of "[- 1, 1]"] by simp

text \<open>
  C16. Serialization is canonical: an element is read back from its bytes, eight bytes are
  accepted exactly when their value is below the modulus, and what is accepted writes the same
  bytes; the conversions from and to 128-bit values agree; and \<open>from_uniform_bytes\<close> is the
  little-endian value of the first eight bytes modulo 2^61 - 1.
\<close>

theorem f61_serialization:
  "f61_from_bytes (f61_to_bytes x) = Inr x \<and>
   f61_try_from (u128_from_f61 x) = Inr x \<and>
   val61 (f61_from_uniform_bytes us) = int (unat (u64_from_le_bytes (take 8 us))) mod (2 ^ 61 - 1) \<and>
   (length bs = 8 \<longrightarrow>
     (f61_from_bytes bs = Inr y \<longleftrightarrow> f61_to_bytes y = bs))"
proof (intro conjI impI)
  show "f61_from_bytes (f61_to_bytes x) = Inr x" by (simp add: f61_from_bytes_def f61_to_bytes_def)
  have "u128_from_f61 x < ucast MODULUS"
    using Rep_F61p_less [of x] by (simp add: u128_from_f61_def word_less_nat_alt unat_ucast_u64 unat_MODULUS)
  moreover have "(ucast (u128_from_f61 x) :: u64) = Rep_F61p x"
    unfolding u128_from_f61_def by (rule bit_word_eqI) (auto simp: bit_simps)
  ultimately show "f61_try_from (u128_from_f61 x) = Inr x" by (simp add: f61_try_from_def)
  let ?w = "u64_from_le_bytes (take 8 us)"
  have "unat ?w < 2 ^ 122 - 1" using unat_u64_less [of ?w] by simp
  then have r: "unat (reduce (ucast ?w)) = unat ?w mod p61" unfolding ucast_u64_of_nat by (rule reduce_of_nat)
  have "(2 ^ 61 - 1 :: int) = int p61" by (simp add: p61_def)
  then show "val61 (f61_from_uniform_bytes us) = int (unat ?w) mod (2 ^ 61 - 1)"
    by (simp only: f61_from_uniform_bytes_def val61_def Rep_F61p_raw [OF less_MODULUS_mod [OF r]] r of_nat_mod)
  assume "length bs = 8"
  then show "f61_from_bytes bs = Inr y \<longleftrightarrow> f61_to_bytes y = bs"
    by (auto simp: f61_from_bytes_def f61_to_bytes_def Let_def Rep_F61p_raw u64_to_from_le_bytes
        split: if_splits)
qed

theorem f61_serialization_witness: "f61_from_bytes (replicate 8 0) = Inr 0 \<longleftrightarrow> f61_to_bytes 0 = replicate 8 0"
  using f61_serialization [of 0 "[]" "replicate 8 0" 0] by simp

end
