(* ===== verification/Convolve.thy ===== *)
theory Convolve
  imports F61p
begin

text \<open>
  The products of polynomials: the default method of the trait Convolve
  (src/scuttlebutt/src/field/convolve.rs) over any ring, and its override for F61p
  (f61p.rs), which adds up the 128-bit products of a coefficient and reduces once.
\<close>

subsection \<open>The default method\<close>

definition convolve_row :: "'a :: comm_ring_1 list \<Rightarrow> 'a list \<Rightarrow> 'a list \<Rightarrow> nat \<Rightarrow> 'a list" where
  "convolve_row xs ys zs i =
     foldl (\<lambda>zs j. zs[i + j + 1 := zs ! (i + j + 1) + xs ! i * ys ! j]) zs [0..<length ys]"

definition convolve ::
  "'a :: comm_ring_1 list \<Rightarrow> 'a \<Rightarrow> 'a list \<Rightarrow> 'a \<Rightarrow> 'a list \<Rightarrow> ('a \<times> 'a list) res" where
  "convolve zs x0 xs y0 ys =
     res_bind (require Assertion (length zs = length xs + length ys)) (\<lambda>_.
       let z0 = x0 * y0;
           zs = foldl (\<lambda>zs i. zs[i := x0 * ys ! i]) zs [0..<length ys];
           zs = foldl (\<lambda>zs i. zs[i := zs ! i + y0 * xs ! i]) zs [0..<length xs];
           zs = foldl (convolve_row xs ys) zs [0..<length xs]
       in Inr (z0, zs))"

subsection \<open>The method of F61p\<close>

lift_definition full_reduced :: "u128 \<Rightarrow> F61p" is full_reduce
  by (rule less_MODULUS_mod) (rule full_reduce_mod)

definition rlmul :: "F61p \<Rightarrow> F61p \<Rightarrow> u128" where
  "rlmul x y = ucast (Rep_F61p x) * ucast (Rep_F61p y)"

text \<open>The innermost loop: products of the coefficients whose degrees add up to \<open>k + 1\<close>.\<close>

definition add_products :: "F61p list \<Rightarrow> F61p list \<Rightarrow> nat \<Rightarrow> u128 \<Rightarrow> nat list \<Rightarrow> u128 res" where
  "add_products xs ys k =
     foldM_res (\<lambda>t i. let j = k - i - 1 in checked_add t (rlmul (xs ! i) (ys ! j)))"

text \<open>
  One pass of each of the three loops over the degrees: both constant terms contribute, only
  \<open>y0\<close> does, none does.
\<close>

definition low_degree :: "F61p \<Rightarrow> F61p list \<Rightarrow> F61p \<Rightarrow> F61p list \<Rightarrow> F61p list \<Rightarrow> nat \<Rightarrow> F61p list res" where
  "low_degree x0 xs y0 ys zs k =
     res_bind (checked_add (rlmul x0 (ys ! k)) (rlmul (xs ! k) y0)) (\<lambda>t.
     res_bind (add_products xs ys k t [0..<k]) (\<lambda>t.
     Inr (zs[k := full_reduced t])))"

definition middle_degree :: "F61p list \<Rightarrow> F61p \<Rightarrow> F61p list \<Rightarrow> F61p list \<Rightarrow> nat \<Rightarrow> F61p list res" where
  "middle_degree xs y0 ys zs k =
     res_bind (add_products xs ys k (rlmul (xs ! k) y0) [k - length ys..<k]) (\<lambda>t.
     Inr (zs[k := full_reduced t]))"

definition high_degree :: "F61p list \<Rightarrow> F61p list \<Rightarrow> F61p list \<Rightarrow> nat \<Rightarrow> F61p list res" where
  "high_degree xs ys zs k =
     res_bind (add_products xs ys k 0 [k - length ys..<length xs]) (\<lambda>t.
     Inr (zs[k := full_reduced t]))"

definition f61_convolve_ordered ::
  "F61p list \<Rightarrow> F61p \<Rightarrow> F61p list \<Rightarrow> F61p \<Rightarrow> F61p list \<Rightarrow> (F61p \<times> F61p list) res" where
  "f61_convolve_ordered zs x0 xs y0 ys =
     (let x_deg = length xs; y_deg = length ys; z_deg = x_deg + y_deg in
      res_bind (require Assertion (length zs = z_deg)) (\<lambda>_.
      res_bind (require Assertion (y_deg \<le> x_deg)) (\<lambda>_.
        let z0 = x0 * y0 in
        if y_deg = 0 then Inr (z0, foldl (\<lambda>zs i. zs[i := xs ! i * y0]) zs [0..<x_deg])
        else
          res_bind (foldM_res (low_degree x0 xs y0 ys) zs [0..<y_deg]) (\<lambda>zs.
          res_bind (foldM_res (middle_degree xs y0 ys) zs [y_deg..<x_deg]) (\<lambda>zs.
          res_bind (foldM_res (high_degree xs ys) zs [x_deg..<z_deg - 1]) (\<lambda>zs.
          Inr (z0, zs[z_deg - 1 := xs ! (x_deg - 1) * ys ! (y_deg - 1)])))))))"

definition f61_convolve ::
  "F61p list \<Rightarrow> F61p \<Rightarrow> F61p list \<Rightarrow> F61p \<Rightarrow> F61p list \<Rightarrow> (F61p \<times> F61p list) res" where
  "f61_convolve zs x0 xs y0 ys =
     (if length xs < length ys then f61_convolve_ordered zs y0 ys x0 xs
      else f61_convolve_ordered zs x0 xs y0 ys)"

subsection \<open>The specification\<close>

text \<open>
  The coefficient of degree \<open>k + 1\<close> of the product of the polynomials with constant terms
  \<open>x0\<close>, \<open>y0\<close> and coefficients \<open>xs\<close>, \<open>ys\<close>.
\<close>

definition coeff :: "'a :: comm_ring_1 list \<Rightarrow> nat \<Rightarrow> 'a" where
  "coeff p i = (if i < length p then p ! i else 0)"

definition product_coeff :: "'a :: comm_ring_1 list \<Rightarrow> 'a list \<Rightarrow> nat \<Rightarrow> 'a" where
  "product_coeff p q k = (\<Sum>i\<le>k. coeff p i * coeff q (k - i))"

definition product_tail :: "'a :: comm_ring_1 \<Rightarrow> 'a list \<Rightarrow> 'a \<Rightarrow> 'a list \<Rightarrow> 'a list" where
  "product_tail x0 xs y0 ys =
     map (\<lambda>k. product_coeff (x0 # xs) (y0 # ys) (Suc k)) [0..<length xs + length ys]"

lemma coeff_Cons [simp]: "coeff (x # p) 0 = x" "coeff (x # p) (Suc i) = coeff p i"
  by (simp_all add: coeff_def)

lemma product_coeff_Cons:
  "product_coeff (x0 # xs) (y0 # ys) (Suc k)
   = x0 * coeff ys k + coeff xs k * y0 + (\<Sum>i<k. coeff xs i * coeff ys (k - i - 1))"
proof -
  have "product_coeff (x0 # xs) (y0 # ys) (Suc k)
      = x0 * coeff ys k + (\<Sum>i\<le>k. coeff xs i * coeff (y0 # ys) (k - i))"
    unfolding product_coeff_def by (subst sum.atMost_Suc_shift) simp
  also have "(\<Sum>i\<le>k. coeff xs i * coeff (y0 # ys) (k - i))
      = (\<Sum>i<k. coeff xs i * coeff (y0 # ys) (k - i)) + coeff xs k * y0"
    by (simp add: lessThan_Suc_atMost [symmetric])
  also have "(\<Sum>i<k. coeff xs i * coeff (y0 # ys) (k - i)) = (\<Sum>i<k. coeff xs i * coeff ys (k - i - 1))"
  proof (rule sum.cong)
    fix i assume "i \<in> {..<k}"
    then have "k - i = Suc (k - i - 1)" by auto
    then show "coeff xs i * coeff (y0 # ys) (k - i) = coeff xs i * coeff ys (k - i - 1)"
      by (metis coeff_Cons(2))
  qed simp
  finally show ?thesis by (simp add: add.assoc add.commute [of "coeff xs k * y0"])
qed

lemma product_coeff_commute: "product_coeff p q k = product_coeff q p k"
  unfolding product_coeff_def
  by (rule sum.reindex_bij_witness [of _ "\<lambda>i. k - i" "\<lambda>i. k - i"]) (simp_all add: mult.commute)

subsection \<open>The default method computes the product\<close>

lemma length_foldl_update [simp]:
  "(\<And>zs i. length (f zs i) = length zs) \<Longrightarrow> length (foldl f zs is) = length zs"
  by (induction "is" arbitrary: zs) simp_all

lemma nth_foldl_write:
  "k < length zs \<Longrightarrow> foldl (\<lambda>zs i. zs[i := v i]) zs [a..<b] ! k = (if a \<le> k \<and> k < b then v k else zs ! k)"
  by (induction b) (auto simp: nth_list_update less_Suc_eq)

lemma nth_foldl_add:
  "k < length zs \<Longrightarrow> distinct is \<Longrightarrow>
   foldl (\<lambda>zs i. zs[g i := zs ! g i + v i]) zs is ! k = zs ! k + (\<Sum>i\<leftarrow>is. if g i = k then v i else 0)"
  by (induction "is" arbitrary: zs) (auto simp: nth_list_update add.assoc)


lemma sum_list_upt: "(\<Sum>i\<leftarrow>[a..<b]. f i) = (\<Sum>i=a..<b. f i :: 'a :: comm_monoid_add)"
  by (simp add: interv_sum_list_conv_sum_set_nat)

text \<open>The inner loop over \<open>j\<close> adds at most one product to a coefficient.\<close>

lemma length_convolve_row [simp]: "length (convolve_row xs ys zs i) = length zs"
  by (simp add: convolve_row_def)

lemma inner_loop:
  assumes k: "k < length zs" and bound: "i + length ys < length zs"
  shows "convolve_row xs ys zs i ! k
    = zs ! k + (if i < k then xs ! i * coeff ys (k - i - 1) else 0)"
proof -
  have "(\<Sum>j\<leftarrow>[0..<length ys]. if i + j + 1 = k then xs ! i * ys ! j else 0)
      = (\<Sum>j\<in>{0..<length ys}. if j = k - i - 1 \<and> i < k then xs ! i * ys ! j else 0)"
    unfolding sum_list_upt by (rule sum.cong) auto
  also have "\<dots> = (if i < k then xs ! i * coeff ys (k - i - 1) else 0)"
    by (auto simp: coeff_def sum.delta)
  finally show ?thesis
    using nth_foldl_add [OF k, of "[0..<length ys]" "\<lambda>j. i + j + 1" "\<lambda>j. xs ! i * ys ! j"]
    by (simp add: convolve_row_def)
qed

lemma outer_loop:
  assumes "n \<le> length xs" and "length zs = length xs + length ys" and k: "k < length zs"
  shows "foldl (convolve_row xs ys) zs [0..<n] ! k
    = zs ! k + (\<Sum>i\<in>{..<n}. if i < k then xs ! i * coeff ys (k - i - 1) else 0)"
  using assms(1)
proof (induction n)
  case (Suc n)
  then have "n + length ys < length zs" using assms(2) by simp
  with Suc k show ?case by (simp add: inner_loop add.assoc)
qed simp

lemma convolve_product:
  "convolve (replicate (length xs + length ys) 0) x0 xs y0 ys
   = Inr (x0 * y0, product_tail x0 xs y0 ys)"
proof -
  let ?n = "length xs + length ys"
  let ?zs1 = "foldl (\<lambda>zs i. zs[i := x0 * ys ! i]) (replicate ?n 0) [0..<length ys]"
  let ?zs2 = "foldl (\<lambda>zs i. zs[i := zs ! i + y0 * xs ! i]) ?zs1 [0..<length xs]"
  let ?zs3 = "foldl (convolve_row xs ys) ?zs2 [0..<length xs]"
  have "?zs3 = product_tail x0 xs y0 ys"
  proof (rule nth_equalityI)
    fix k assume "k < length ?zs3"
    then have k: "k < ?n" by simp
    have "?zs1 ! k = x0 * coeff ys k"
      using k by (simp add: nth_foldl_write coeff_def)
    moreover have "?zs2 ! k = ?zs1 ! k + coeff xs k * y0"
      using nth_foldl_add [of k ?zs1 "[0..<length xs]" "\<lambda>i. i" "\<lambda>i. y0 * xs ! i"] k
      by (simp add: sum_list_upt sum.delta' coeff_def mult.commute)
    moreover have "?zs3 ! k = ?zs2 ! k + (\<Sum>i\<in>{..<length xs}. if i < k then xs ! i * coeff ys (k - i - 1) else 0)"
      using k by (intro outer_loop) simp_all
    moreover have "(\<Sum>i\<in>{..<length xs}. if i < k then xs ! i * coeff ys (k - i - 1) else 0)
        = (\<Sum>i<k. coeff xs i * coeff ys (k - i - 1))"
      by (rule sum.mono_neutral_cong) (auto simp: coeff_def)
    ultimately show "?zs3 ! k = product_tail x0 xs y0 ys ! k"
      using k by (simp add: product_tail_def product_coeff_Cons)
  qed (simp add: product_tail_def)
  then show ?thesis by (simp add: convolve_def Let_def)
qed

subsection \<open>The method of F61p computes the same product\<close>

lemma val61_full_reduced: "val61 (full_reduced t) = int (unat t) mod int p61"
  unfolding val61_def full_reduced.rep_eq by (simp only: full_reduce_mod of_nat_mod)

lemma unat_rlmul: "unat (rlmul x y) = unat (Rep_F61p x) * unat (Rep_F61p y)"
proof -
  have "unat (Rep_F61p x) * unat (Rep_F61p y) < 2 ^ 122 - 1"
    by (rule mult_less_product [OF Rep_F61p_less Rep_F61p_less])
  then have "unat (Rep_F61p x) * unat (Rep_F61p y) < 2 ^ LENGTH(128)" by simp
  then show ?thesis
    unfolding rlmul_def ucast_u64_of_nat of_nat_mult [symmetric] by (rule unat_of_nat_small)
qed

definition product_bound :: nat where
  "product_bound = (p61 - 1) * (p61 - 1)"

lemma unat_rlmul_le: "unat (rlmul x y) \<le> product_bound"
  using Rep_F61p_less [of x] Rep_F61p_less [of y]
  unfolding unat_rlmul product_bound_def by (intro mult_le_mono) simp_all

lemma full_reduced_rlmul: "full_reduced (rlmul x y) = x * y"
  unfolding val61_inject [symmetric] val61_full_reduced val61_mult unat_rlmul
  by (simp only: val61_def of_nat_mult)

lemma full_reduced_add:
  assumes "unat s + unat t < 2 ^ 128"
  shows "full_reduced (s + t) = full_reduced s + full_reduced t"
proof -
  have "unat (s + t) = unat s + unat t"
    using assms by (simp add: unat_word_ariths)
  then show ?thesis
    unfolding val61_inject [symmetric] val61_add val61_full_reduced by (simp add: mod_add_eq)
qed

text \<open>
  A coefficient adds at most 64 products, which stay below 2^128.
\<close>

lemma add_rlmul:
  assumes "unat t \<le> c * product_bound" and "c < 64"
  shows "checked_add t (rlmul x y) = Inr (t + rlmul x y) \<and>
    unat (t + rlmul x y) \<le> Suc c * product_bound \<and>
    full_reduced (t + rlmul x y) = full_reduced t + x * y"
proof -
  have "unat t + unat (rlmul x y) \<le> Suc c * product_bound"
    using assms(1) unat_rlmul_le [of x y] by simp
  moreover have "Suc c * product_bound \<le> 64 * product_bound"
    using assms(2) by (intro mult_le_mono1) simp
  moreover have "64 * product_bound < 2 ^ 128" by (simp add: product_bound_def p61_def)
  ultimately have "unat t + unat (rlmul x y) < 2 ^ 128" by (meson le_less_trans)
  then have less: "unat t + unat (rlmul x y) < 2 ^ LENGTH(128)" by simp
  then have "unat (t + rlmul x y) = unat t + unat (rlmul x y)"
    by (simp only: unat_word_ariths mod_less)
  then show ?thesis
    using less full_reduced_add [of t "rlmul x y"] \<open>_ \<le> Suc c * product_bound\<close>
    by (simp add: checked_add_def full_reduced_rlmul)
qed

lemma add_products_sum:
  assumes "unat t \<le> c * product_bound" and "c + length is \<le> 64"
  shows "\<exists>t'. add_products xs ys k t is = Inr t' \<and>
    full_reduced t' = full_reduced t + (\<Sum>i\<leftarrow>is. xs ! i * ys ! (k - i - 1))"
  using assms
proof (induction "is" arbitrary: t c)
  case (Cons i "is")
  let ?t = "t + rlmul (xs ! i) (ys ! (k - i - 1))"
  have step: "checked_add t (rlmul (xs ! i) (ys ! (k - i - 1))) = Inr ?t"
      "unat ?t \<le> Suc c * product_bound"
      "full_reduced ?t = full_reduced t + xs ! i * ys ! (k - i - 1)"
    using add_rlmul [of t c "xs ! i" "ys ! (k - i - 1)"] Cons.prems by simp_all
  moreover obtain t' where "add_products xs ys k ?t is = Inr t'"
      "full_reduced t' = full_reduced ?t + (\<Sum>i\<leftarrow>is. xs ! i * ys ! (k - i - 1))"
    using Cons.IH [OF step(2)] Cons.prems(2) by auto
  ultimately show ?case by (simp add: add_products_def Let_def add.assoc)
qed (simp add: add_products_def)

lemma write_loop:
  assumes "\<And>zs k. k \<in> set ks \<Longrightarrow> body zs k = Inr (zs[k := v k])"
  shows "foldM_res body zs ks = Inr (foldl (\<lambda>zs k. zs[k := v k]) zs ks)"
  using assms by (induction ks arbitrary: zs) simp_all

lemma sum_window:
  fixes f :: "nat \<Rightarrow> 'a :: comm_monoid_add"
  assumes "\<And>i. i < k \<Longrightarrow> i < a \<or> b \<le> i \<Longrightarrow> f i = 0" and "b \<le> k"
  shows "(\<Sum>i\<leftarrow>[a..<b]. f i) = (\<Sum>i<k. f i)"
  unfolding sum_list_upt using assms by (intro sum.mono_neutral_left) auto

lemma window_products:
  assumes "length ys \<le> length xs" and "a = k - length ys" and "b = min k (length xs)"
  shows "(\<Sum>i\<leftarrow>[a..<b]. xs ! i * ys ! (k - i - 1)) = (\<Sum>i<k. coeff xs i * coeff ys (k - i - 1))"
proof -
  have "(\<Sum>i\<leftarrow>[a..<b]. xs ! i * ys ! (k - i - 1)) = (\<Sum>i\<leftarrow>[a..<b]. coeff xs i * coeff ys (k - i - 1))"
    unfolding sum_list_upt using assms by (intro sum.cong) (auto simp: coeff_def)
  also have "\<dots> = (\<Sum>i<k. coeff xs i * coeff ys (k - i - 1))"
    using assms by (intro sum_window) (auto simp: coeff_def)
  finally show ?thesis .
qed

lemma low_degree_coeff:
  assumes le: "length ys \<le> length xs" and k: "k < length ys" "k < 63"
  shows "low_degree x0 xs y0 ys zs k = Inr (zs[k := product_coeff (x0 # xs) (y0 # ys) (Suc k)])"
proof -
  have one: "unat (rlmul x0 (ys ! k)) \<le> 1 * product_bound" using unat_rlmul_le by simp
  let ?t = "rlmul x0 (ys ! k) + rlmul (xs ! k) y0"
  have t: "checked_add (rlmul x0 (ys ! k)) (rlmul (xs ! k) y0) = Inr ?t"
      "unat ?t \<le> 2 * product_bound" "full_reduced ?t = x0 * ys ! k + xs ! k * y0"
    using add_rlmul [OF one, of "xs ! k" y0] by (simp_all add: full_reduced_rlmul)
  have "2 + length [0..<k] \<le> 64" using k by simp
  from add_products_sum [OF t(2) this] obtain t' where "add_products xs ys k ?t [0..<k] = Inr t'"
      "full_reduced t' = full_reduced ?t + (\<Sum>i\<leftarrow>[0..<k]. xs ! i * ys ! (k - i - 1))"
    by blast
  with t k le window_products [OF le, of 0 k k] show ?thesis
    by (simp add: low_degree_def product_coeff_Cons) (simp add: coeff_def)
qed

lemma middle_degree_coeff:
  assumes le: "length ys \<le> length xs" and short: "length ys < 64"
    and k: "length ys \<le> k" "k < length xs"
  shows "middle_degree xs y0 ys zs k = Inr (zs[k := product_coeff (x0 # xs) (y0 # ys) (Suc k)])"
proof -
  have one: "unat (rlmul (xs ! k) y0) \<le> 1 * product_bound" using unat_rlmul_le by simp
  have "1 + length [k - length ys..<k] \<le> 64" using k short by simp
  from add_products_sum [OF one this] obtain t'
    where "add_products xs ys k (rlmul (xs ! k) y0) [k - length ys..<k] = Inr t'"
      "full_reduced t' = full_reduced (rlmul (xs ! k) y0)
        + (\<Sum>i\<leftarrow>[k - length ys..<k]. xs ! i * ys ! (k - i - 1))"
    by blast
  with k window_products [OF le, of "k - length ys" k k] show ?thesis
    by (simp add: middle_degree_def product_coeff_Cons full_reduced_rlmul) (simp add: coeff_def)
qed

lemma high_degree_coeff:
  assumes le: "length ys \<le> length xs" and short: "length ys < 64" and k: "length xs \<le> k"
  shows "high_degree xs ys zs k = Inr (zs[k := product_coeff (x0 # xs) (y0 # ys) (Suc k)])"
proof -
  have none: "unat (0 :: u128) \<le> 0 * product_bound" by simp
  have "0 + length [k - length ys..<length xs] \<le> 64" using k short by simp
  from add_products_sum [OF none this] obtain t'
    where "add_products xs ys k 0 [k - length ys..<length xs] = Inr t'"
      "full_reduced t' = full_reduced 0
        + (\<Sum>i\<leftarrow>[k - length ys..<length xs]. xs ! i * ys ! (k - i - 1))"
    by blast
  moreover have "full_reduced 0 = 0"
    by (simp add: val61_inject [symmetric] val61_full_reduced)
  ultimately show ?thesis
    using k le window_products [OF le refl min_absorb2 [OF k, symmetric]]
    by (simp add: high_degree_def product_coeff_Cons) (simp add: coeff_def)
qed

lemma highest_coeff:
  assumes le: "length ys \<le> length xs" and ne: "ys \<noteq> []"
  shows "xs ! (length xs - 1) * ys ! (length ys - 1)
    = product_coeff (x0 # xs) (y0 # ys) (Suc (length xs + length ys - 1))"
proof -
  let ?x = "length xs" and ?y = "length ys"
  have y: "0 < ?y" using ne by simp
  with le have x: "0 < ?x" by linarith
  have "[?x + ?y - 1 - ?y..<?x] = [?x - 1]" using x by (cases ?x) simp_all
  then have "(\<Sum>i\<leftarrow>[?x + ?y - 1 - ?y..<?x]. xs ! i * ys ! (?x + ?y - 1 - i - 1)) = xs ! (?x - 1) * ys ! (?y - 1)"
    using x y by simp
  moreover have "?x = min (?x + ?y - 1) ?x"
    by (rule min_absorb2 [symmetric]) (use y in linarith)
  moreover have "\<not> ?x + ?y - 1 < ?y" "\<not> ?x + ?y - 1 < ?x"
    using x y by linarith+
  then have "coeff ys (?x + ?y - 1) = 0" "coeff xs (?x + ?y - 1) = 0"
    by (simp_all only: coeff_def if_False)
  ultimately show ?thesis
    using window_products [OF le refl, of "?x" "?x + ?y - 1"] by (simp add: product_coeff_Cons)
qed

lemma f61_convolve_ordered_product:
  assumes le: "length ys \<le> length xs" and short: "length ys < 64"
    and len: "length zs = length xs + length ys"
  shows "f61_convolve_ordered zs x0 xs y0 ys = Inr (x0 * y0, product_tail x0 xs y0 ys)"
proof (cases "ys = []")
  case True
  have "foldl (\<lambda>zs i. zs[i := xs ! i * y0]) zs [0..<length xs] = product_tail x0 xs y0 ys"
    using len True
    by (intro nth_equalityI)
      (simp_all add: product_tail_def product_coeff_Cons nth_foldl_write, simp_all add: coeff_def)
  with True len show ?thesis by (simp add: f61_convolve_ordered_def Let_def)
next
  case False
  let ?x = "length xs" and ?y = "length ys"
  let ?v = "\<lambda>k. product_coeff (x0 # xs) (y0 # ys) (Suc k)"
  let ?fill = "foldl (\<lambda>zs k. zs[k := ?v k])"
  have low: "foldM_res (low_degree x0 xs y0 ys) zs [0..<?y] = Inr (?fill zs [0..<?y])" for zs
    by (rule write_loop, rule low_degree_coeff [OF le]) (use short in auto)
  have middle: "foldM_res (middle_degree xs y0 ys) zs [?y..<?x] = Inr (?fill zs [?y..<?x])" for zs
    by (rule write_loop, rule middle_degree_coeff [OF le short]) auto
  have high: "foldM_res (high_degree xs ys) zs [?x..<?x + ?y - 1] = Inr (?fill zs [?x..<?x + ?y - 1])" for zs
    by (rule write_loop, rule high_degree_coeff [OF le short]) auto
  have "f61_convolve_ordered zs x0 xs y0 ys = Inr (x0 * y0,
      (?fill (?fill (?fill zs [0..<?y]) [?y..<?x]) [?x..<?x + ?y - 1])
        [?x + ?y - 1 := ?v (?x + ?y - 1)])"
    unfolding f61_convolve_ordered_def Let_def
    using False le len low middle high highest_coeff [OF le False, of x0 y0] by simp
  also have "(?fill (?fill (?fill zs [0..<?y]) [?y..<?x]) [?x..<?x + ?y - 1])
      [?x + ?y - 1 := ?v (?x + ?y - 1)] = product_tail x0 xs y0 ys"
    using len False
    by (intro nth_equalityI) (auto simp: product_tail_def nth_list_update nth_foldl_write)
  finally show ?thesis .
qed

lemma product_tail_commute: "product_tail y0 ys x0 xs = product_tail x0 xs y0 ys"
  by (simp add: product_tail_def product_coeff_commute [of "y0 # ys"] add.commute)

lemma f61_convolve_product:
  assumes "min (length xs) (length ys) < 64" and "length zs = length xs + length ys"
  shows "f61_convolve zs x0 xs y0 ys = Inr (x0 * y0, product_tail x0 xs y0 ys)"
  using assms f61_convolve_ordered_product [of xs ys zs y0 x0] f61_convolve_ordered_product [of ys xs zs x0 y0]
  by (auto simp: f61_convolve_def product_tail_commute mult.commute split: if_splits)

text \<open>
  With 64 or more coefficients on both sides a coefficient adds up to 65 products, more than an
  accumulator of 128 bits can hold.
\<close>

lemma checked_sum_overflow:
  fixes s :: "'a :: len word"
  assumes "2 ^ LENGTH('a) \<le> unat s + (\<Sum>x\<leftarrow>xs. unat (h x))"
  shows "foldM_res (\<lambda>s x. checked_add s (h x)) s xs = Inl Panic"
  using assms
proof (induction xs arbitrary: s)
  case Nil
  then show ?case using unsigned_less [where 'a = nat, of s] by simp
next
  case (Cons x xs)
  show ?case
  proof (cases "unat s + unat (h x) < 2 ^ LENGTH('a)")
    case True
    then have "unat (s + h x) = unat s + unat (h x)" by (simp only: unat_word_ariths mod_less)
    with True Cons show ?thesis by (simp add: checked_add_def add.assoc)
  qed (simp add: checked_add_def)
qed

lemma Rep_minus_one: "unat (Rep_F61p (- 1)) = p61 - 1"
proof -
  have "val61 (- 1) = int (p61 - 1)" by (simp add: val61_uminus p61_def)
  then show ?thesis by (simp only: val61_def of_nat_eq_iff)
qed

lemma low_degree_overflow:
  defines "m \<equiv> replicate 64 (- 1 :: F61p)"
  shows "low_degree (- 1) m (- 1) m zs 63 = Inl Panic"
proof -
  have r: "unat (rlmul (- 1) (- 1)) = product_bound"
    by (simp only: unat_rlmul Rep_minus_one product_bound_def)
  have m: "m ! i = - 1" if "i < 64" for i using that by (simp add: m_def)
  have one: "unat (rlmul (- 1) (- 1)) \<le> 1 * product_bound" using unat_rlmul_le by simp
  let ?t = "rlmul (- 1) (- 1) + rlmul (- 1) (- 1)"
  have "2 * product_bound < 2 ^ LENGTH(128)" by (simp add: product_bound_def p61_def)
  then have t: "checked_add (rlmul (- 1) (- 1)) (rlmul (- 1) (- 1)) = Inr ?t" "unat ?t = 2 * product_bound"
    by (simp_all add: checked_add_def unat_word_ariths r)
  have "(\<Sum>i\<leftarrow>[0..<63]. unat (rlmul (m ! i) (m ! (63 - i - 1)))) = (\<Sum>i\<leftarrow>[0..<63]. product_bound)"
    unfolding sum_list_upt by (rule sum.cong) (simp_all add: m r)
  also have "\<dots> = 63 * product_bound" by (simp only: sum_list_upt) simp
  finally have "2 ^ LENGTH(128) \<le> unat ?t + (\<Sum>i\<leftarrow>[0..<63]. unat (rlmul (m ! i) (m ! (63 - i - 1))))"
    by (simp only: t) (simp add: product_bound_def p61_def)
  from checked_sum_overflow [OF this] show ?thesis
    by (simp add: low_degree_def add_products_def Let_def m t)
qed

lemma f61_convolve_overflow:
  defines "m \<equiv> replicate 64 (- 1 :: F61p)"
  shows "f61_convolve (replicate 128 0) (- 1) m (- 1) m = Inl Panic"
proof -
  let ?v = "\<lambda>k. product_coeff (- 1 # m) (- 1 # m) (Suc k)"
  have "foldM_res (low_degree (- 1) m (- 1) m) zs [0..<63] = Inr (foldl (\<lambda>zs k. zs[k := ?v k]) zs [0..<63])" for zs
    by (rule write_loop, rule low_degree_coeff) (auto simp: m_def)
  moreover have "[0..<64] = [0..<63] @ [63]"
  proof -
    have "(64 :: nat) = Suc 63" by simp
    then show ?thesis by (simp only: upt_Suc_append le0)
  qed
  ultimately have "foldM_res (low_degree (- 1) m (- 1) m) zs [0..<64] = Inl Panic" for zs
    using low_degree_overflow by (simp only: foldM_res_append) (simp add: m_def)
  then show ?thesis
    by (simp add: f61_convolve_def f61_convolve_ordered_def Let_def m_def)
qed

text \<open>
  C17. Over a cleared output both convolutions return the coefficients of the product of the two
  polynomials: the default method for every input, and the override of F61p, which defers the
  reductions, whenever one factor has fewer than 64 coefficients after its constant. From 64 on
  the 128-bit accumulator can overflow.
\<close>

theorem convolve_equivalent:
  "convolve (replicate (length xs + length ys) 0) x0 xs y0 ys = Inr (x0 * y0, product_tail x0 xs y0 ys) \<and>
   (min (length xs) (length ys) < 64 \<longrightarrow>
      f61_convolve (replicate (length xs + length ys) 0) x0 xs y0 ys
        = convolve (replicate (length xs + length ys) 0) x0 xs y0 ys) \<and>
   f61_convolve (replicate 128 0) (- 1) (replicate 64 (- 1)) (- 1) (replicate 64 (- 1)) = Inl Panic"
  by (simp add: convolve_product f61_convolve_product f61_convolve_overflow)

theorem convolve_equivalent_witness:
  "f61_convolve [0, 0] 1 [1] 1 [1] = convolve [0, 0] 1 [1] 1 [1]"
  using convolve_equivalent [of "[1]" "[1]" 1 1] by (simp add: numeral_2_eq_2)

end
