(* ===== verification/F2.thy ===== *)
theory F2
  imports Finite_Ring
begin

text \<open>
  The field of two elements (src/scuttlebutt/src/field/f2.rs): its operations on bytes holding 0
  or 1, its canonical bytes, and the stateful serializer and deserializer that pack a sequence
  of elements into 64-bit words.
\<close>

subsection \<open>The operations on representations\<close>

definition f2_add_assign :: "u8 \<Rightarrow> u8 \<Rightarrow> u8" where
  "f2_add_assign a b = a XOR b"

definition f2_sub_assign :: "u8 \<Rightarrow> u8 \<Rightarrow> u8" where
  "f2_sub_assign a b = f2_add_assign a b"

definition f2_mul_assign :: "u8 \<Rightarrow> u8 \<Rightarrow> u8" where
  "f2_mul_assign a b = a AND b"

definition f2_neg :: "u8 \<Rightarrow> u8" where
  "f2_neg a = f2_sub_assign 0 a"

subsection \<open>The field\<close>

typedef F2 = "{x :: u8. x = 0 \<or> x = 1}"
  by auto

setup_lifting type_definition_F2

instantiation F2 :: field
begin

lift_definition zero_F2 :: F2 is 0 by simp
lift_definition one_F2 :: F2 is 1 by simp
lift_definition plus_F2 :: "F2 \<Rightarrow> F2 \<Rightarrow> F2" is f2_add_assign by (auto simp: f2_add_assign_def)
lift_definition minus_F2 :: "F2 \<Rightarrow> F2 \<Rightarrow> F2" is f2_sub_assign
  by (auto simp: f2_sub_assign_def f2_add_assign_def)
lift_definition times_F2 :: "F2 \<Rightarrow> F2 \<Rightarrow> F2" is f2_mul_assign by (auto simp: f2_mul_assign_def)
lift_definition uminus_F2 :: "F2 \<Rightarrow> F2" is f2_neg
  by (auto simp: f2_neg_def f2_sub_assign_def f2_add_assign_def)
lift_definition inverse_F2 :: "F2 \<Rightarrow> F2" is "\<lambda>x. x" by simp

definition divide_F2 :: "F2 \<Rightarrow> F2 \<Rightarrow> F2" where
  "divide_F2 x y = x * inverse y"

instance
proof
  fix a b c :: F2
  show "a * b * c = a * (b * c)" by transfer (auto simp: f2_mul_assign_def)
  show "a * b = b * a" by transfer (auto simp: f2_mul_assign_def)
  show "1 * a = a" by transfer (auto simp: f2_mul_assign_def)
  show "a + b + c = a + (b + c)" by transfer (auto simp: f2_add_assign_def)
  show "a + b = b + a" by transfer (auto simp: f2_add_assign_def)
  show "0 + a = a" by transfer (auto simp: f2_add_assign_def)
  show "- a + a = 0" by transfer (auto simp: f2_add_assign_def f2_neg_def f2_sub_assign_def)
  show "a - b = a + - b" by transfer (auto simp: f2_add_assign_def f2_neg_def f2_sub_assign_def)
  show "(a + b) * c = a * c + b * c" by transfer (auto simp: f2_mul_assign_def f2_add_assign_def)
  show "(0 :: F2) \<noteq> 1" by transfer simp
  show "a \<noteq> 0 \<Longrightarrow> inverse a * a = 1" by transfer (auto simp: f2_mul_assign_def)
  show "a div b = a * inverse b" by (rule divide_F2_def)
  show "inverse (0 :: F2) = 0" by transfer simp
qed

end

lemma F2_cases [case_names zero one]: "(x = 0 \<Longrightarrow> P) \<Longrightarrow> (x = (1 :: F2) \<Longrightarrow> P) \<Longrightarrow> P"
  by transfer auto

lemma F2_neq_zero [simp]: "x \<noteq> 0 \<longleftrightarrow> x = (1 :: F2)"
  by (cases x rule: F2_cases) simp_all

lemma F2_add_self [simp]: "x + x = (0 :: F2)"
  by transfer (auto simp: f2_add_assign_def)

lemma F2_minus [simp]: "- x = (x :: F2)"
  by transfer (auto simp: f2_neg_def f2_sub_assign_def f2_add_assign_def)

definition f2_inverse :: "F2 \<Rightarrow> F2 res" where
  "f2_inverse x = (if x = 0 then Inl Assertion else Inr 1)"

definition F2_of_bool :: "bool \<Rightarrow> F2" where
  "F2_of_bool b = (if b then 1 else 0)"

definition bool_of_F2 :: "F2 \<Rightarrow> bool" where
  "bool_of_F2 x \<longleftrightarrow> Rep_F2 x \<noteq> 0"

lemma bool_of_F2_simps [simp]: "\<not> bool_of_F2 0" "bool_of_F2 1"
  by (simp_all add: bool_of_F2_def zero_F2.rep_eq one_F2.rep_eq)

lemma bool_of_F2_iff: "bool_of_F2 x \<longleftrightarrow> x = 1"
  by (cases x rule: F2_cases) simp_all

lemma bool_of_F2_of_bool [simp]: "bool_of_F2 (F2_of_bool b) = b"
  by (simp add: F2_of_bool_def)

lemma F2_of_bool_of_F2 [simp]: "F2_of_bool (bool_of_F2 x) = x"
  by (cases x rule: F2_cases) (simp_all add: F2_of_bool_def)

subsection \<open>Bytes\<close>

definition f2_to_bytes :: "F2 \<Rightarrow> u8 list" where
  "f2_to_bytes x = [Rep_F2 x]"

definition f2_from_bytes :: "u8 list \<Rightarrow> F2 res" where
  "f2_from_bytes bs = (if hd bs < 2 then Inr (F2_of_bool (hd bs \<noteq> 0)) else Inl Err)"

subsection \<open>The bit serializer\<close>

record bit_buffer =
  current_word :: u64
  num_bits :: nat

definition serialized_size :: "nat \<Rightarrow> nat" where
  "serialized_size n = (n div 64 + (if n mod 64 = 0 then 0 else 1)) * 8"

definition f2_ser_new :: bit_buffer where
  "f2_ser_new = \<lparr>current_word = 0, num_bits = 0\<rparr>"

definition f2_ser_write :: "bit_buffer \<times> u8 list \<Rightarrow> F2 \<Rightarrow> bit_buffer \<times> u8 list" where
  "f2_ser_write = (\<lambda>(s, dst) fe.
     let w = current_word s OR push_bit (num_bits s) (ucast (Rep_F2 fe)); n = num_bits s + 1 in
     if n = 64 then (\<lparr>current_word = 0, num_bits = 0\<rparr>, dst @ u64_to_le_bytes w)
     else (\<lparr>current_word = w, num_bits = n\<rparr>, dst))"

definition f2_ser_finish :: "bit_buffer \<times> u8 list \<Rightarrow> u8 list" where
  "f2_ser_finish = (\<lambda>(s, dst). if num_bits s > 0 then dst @ u64_to_le_bytes (current_word s) else dst)"

definition f2_serialize :: "F2 list \<Rightarrow> u8 list" where
  "f2_serialize xs = f2_ser_finish (foldl f2_ser_write (f2_ser_new, []) xs)"

definition f2_de_new :: bit_buffer where
  "f2_de_new = \<lparr>current_word = 0, num_bits = 64\<rparr>"

definition f2_de_read :: "bit_buffer \<times> u8 list \<Rightarrow> (F2 \<times> bit_buffer \<times> u8 list) res" where
  "f2_de_read = (\<lambda>(s, src).
     res_bind (if num_bits s = 64
        then if length src < 8 then Inl Err
          else Inr (\<lparr>current_word = u64_from_le_bytes (take 8 src), num_bits = 0\<rparr>, drop 8 src)
        else Inr (s, src)) (\<lambda>(s, src).
     Inr (F2_of_bool (current_word s AND push_bit (num_bits s) 1 \<noteq> 0),
          s\<lparr>num_bits := num_bits s + 1\<rparr>, src)))"

fun f2_de_reads :: "nat \<Rightarrow> bit_buffer \<times> u8 list \<Rightarrow> F2 list res" where
  "f2_de_reads 0 s = Inr []"
| "f2_de_reads (Suc n) s =
     res_bind (f2_de_read s) (\<lambda>(x, s). res_bind (f2_de_reads n s) (\<lambda>xs. Inr (x # xs)))"

definition f2_deserialize :: "nat \<Rightarrow> u8 list \<Rightarrow> F2 list res" where
  "f2_deserialize n bs = f2_de_reads n (f2_de_new, bs)"

text \<open>
  After any number of elements, the bytes hold the bits of the full words, and the buffer the
  remaining bits.
\<close>

definition ser_inv :: "F2 list \<Rightarrow> bit_buffer \<times> u8 list \<Rightarrow> bool" where
  "ser_inv xs = (\<lambda>(s, dst).
     length dst = 8 * (length xs div 64) \<and> num_bits s = length xs mod 64 \<and>
     (\<forall>k < 64 * (length xs div 64). buf_bit dst k = bool_of_F2 (xs ! k)) \<and>
     (\<forall>k < 64. bit (current_word s) k \<longleftrightarrow>
        k < num_bits s \<and> bool_of_F2 (xs ! (64 * (length xs div 64) + k))))"

lemma bit_Rep_F2: "k < 64 \<Longrightarrow> bit (push_bit n (ucast (Rep_F2 x)) :: u64) k \<longleftrightarrow> k = n \<and> bool_of_F2 x"
  by (cases x rule: F2_cases)
    (auto simp: bit_simps zero_F2.rep_eq one_F2.rep_eq bit_1_iff)

lemma buf_bit_append:
  "buf_bit (a @ b) k = (if k < 8 * length a then buf_bit a k else buf_bit b (k - 8 * length a))"
proof (cases "k < 8 * length a")
  case False
  then obtain j where j: "k = 8 * length a + j" by (metis le_add_diff_inverse not_less)
  then have "k div 8 = length a + j div 8" "k mod 8 = j mod 8" by simp_all
  with j show ?thesis by (simp add: buf_bit_def nth_append)
qed (auto simp: buf_bit_def nth_append less_mult_imp_div_less mult.commute)

lemma buf_bit_le_bytes: "k < 64 \<Longrightarrow> buf_bit (u64_to_le_bytes w) k = bit w k"
  by (simp add: buf_bit_def u64_to_le_bytes_def bit_simps less_mult_imp_div_less)

lemma ser_inv_write: "ser_inv xs (s, dst) \<Longrightarrow> ser_inv (xs @ [x]) (f2_ser_write (s, dst) x)"
proof -
  assume inv: "ser_inv xs (s, dst)"
  let ?n = "length xs" and ?w = "current_word s OR push_bit (num_bits s) (ucast (Rep_F2 x))"
  let ?q = "?n div 64" and ?r = "?n mod 64"
  have n: "?n = 64 * ?q + ?r" by simp
  have w: "bit ?w k \<longleftrightarrow> k \<le> ?r \<and> bool_of_F2 ((xs @ [x]) ! (64 * ?q + k))" if "k < 64" for k
  proof -
    consider "k < ?r" | "k = ?r" | "?r < k" by linarith
    then show ?thesis
    proof cases
      case 1
      with n have "64 * ?q + k < ?n" by linarith
      with 1 inv that show ?thesis by (simp add: ser_inv_def bit_or_iff bit_Rep_F2 nth_append)
    next
      case 2
      then have "(xs @ [x]) ! (64 * ?q + k) = x" using n by (metis nth_append_length)
      with 2 inv that show ?thesis by (simp add: ser_inv_def bit_or_iff bit_Rep_F2)
    qed (use inv that in \<open>simp add: ser_inv_def bit_or_iff bit_Rep_F2\<close>)
  qed
  have old: "bool_of_F2 ((xs @ [x]) ! k) = buf_bit dst k" if "k < 64 * ?q" for k
    using inv that n by (auto simp: ser_inv_def nth_append)
  show ?thesis
  proof (cases "?r = 63")
    case True
    then have q: "Suc ?n div 64 = Suc ?q" "Suc ?n mod 64 = 0" by (simp_all add: div_Suc mod_Suc)
    have "buf_bit (dst @ u64_to_le_bytes ?w) k = bool_of_F2 ((xs @ [x]) ! k)" if k: "k < 64 * Suc ?q" for k
    proof (cases "k < 64 * ?q")
      case False
      then obtain j where j: "k = 64 * ?q + j" by (metis le_add_diff_inverse not_less)
      with k have "j < 64" by simp
      with j w [of j] inv True show ?thesis
        by (simp add: buf_bit_append ser_inv_def buf_bit_le_bytes)
    qed (use old inv in \<open>simp add: buf_bit_append ser_inv_def\<close>)
    with True inv q show ?thesis
      by (simp add: ser_inv_def f2_ser_write_def Let_def)
  next
    case False
    then have "Suc ?n div 64 = ?q" "Suc ?n mod 64 = Suc ?r" by (auto simp: div_Suc mod_Suc)
    with False inv w old show ?thesis
      by (simp add: ser_inv_def f2_ser_write_def Let_def less_Suc_eq_le)
  qed
qed

lemma ser_inv_foldl: "ser_inv xs (foldl f2_ser_write (f2_ser_new, []) xs)"
proof (induction xs rule: rev_induct)
  case Nil
  then show ?case by (simp add: ser_inv_def f2_ser_new_def)
next
  case (snoc x xs)
  then show ?case by (metis foldl_append foldl_Cons foldl_Nil ser_inv_write prod.collapse)
qed

lemma f2_serialize_bits:
  "length (f2_serialize xs) = serialized_size (length xs)"
  "k < length xs \<Longrightarrow> buf_bit (f2_serialize xs) k = bool_of_F2 (xs ! k)"
proof -
  obtain s dst where eq: "foldl f2_ser_write (f2_ser_new, []) xs = (s, dst)" by fastforce
  then have inv: "ser_inv xs (s, dst)" by (metis ser_inv_foldl)
  then show "length (f2_serialize xs) = serialized_size (length xs)"
    by (auto simp: f2_serialize_def f2_ser_finish_def eq serialized_size_def ser_inv_def)
  assume k: "k < length xs"
  show "buf_bit (f2_serialize xs) k = bool_of_F2 (xs ! k)"
  proof (cases "k < 64 * (length xs div 64)")
    case True
    with inv show ?thesis
      by (auto simp: f2_serialize_def f2_ser_finish_def eq ser_inv_def buf_bit_append)
  next
    case False
    then obtain j where j: "k = 64 * (length xs div 64) + j" by (metis le_add_diff_inverse not_less)
    moreover have "length xs = 64 * (length xs div 64) + length xs mod 64" by simp
    ultimately have "j < length xs mod 64" using k by linarith
    with j inv show ?thesis
      by (simp add: f2_serialize_def f2_ser_finish_def eq ser_inv_def buf_bit_append buf_bit_le_bytes)
  qed
qed

lemma test_bit_u64: "(w :: u64) AND push_bit i 1 \<noteq> 0 \<longleftrightarrow> bit w i"
proof
  assume "bit w i"
  then have "bit (w AND push_bit i 1) i"
    by (simp add: bit_simps) (auto dest: bit_imp_le_length)
  then show "w AND push_bit i 1 \<noteq> 0" by auto
next
  assume "w AND push_bit i 1 \<noteq> 0"
  then obtain k where "bit (w AND push_bit i 1) k" by (auto simp: bit_eq_iff)
  then show "bit w i" by (simp add: bit_simps) (auto simp: bit_1_iff le_antisym)
qed

lemma bit_from_le_bytes_buf: "length bs = 8 \<Longrightarrow> k < 64 \<Longrightarrow> bit (u64_from_le_bytes bs) k = buf_bit bs k"
  by (simp add: bit_u64_from_le_bytes buf_bit_def less_mult_imp_div_less)

lemma buf_bit_take: "k < 8 * n \<Longrightarrow> buf_bit (take n bs) k = buf_bit bs k"
  by (simp add: buf_bit_def less_mult_imp_div_less mult.commute)

lemma buf_bit_drop: "n \<le> length bs \<Longrightarrow> buf_bit (drop n bs) k = buf_bit bs (8 * n + k)"
  by (simp add: buf_bit_def add.commute)

lemma f2_de_reads_bits:
  assumes "num_bits s \<le> 64" and "num_bits s + n \<le> 64 + 8 * length src" and "8 dvd length src"
  shows "f2_de_reads n (s, src) = Inr (map (\<lambda>k.
      F2_of_bool (if num_bits s + k < 64 then bit (current_word s) (num_bits s + k)
        else buf_bit src (num_bits s + k - 64))) [0..<n])"
  using assms
proof (induction n arbitrary: s src)
  case (Suc n)
  have shift: "map f [0..<Suc n] = f 0 # map (\<lambda>k. f (Suc k)) [0..<n]" for f :: "nat \<Rightarrow> F2"
    by (simp add: upt_conv_Cons map_Suc_upt [symmetric] del: upt_Suc)
  show ?case
  proof (cases "num_bits s = 64")
    case True
    with Suc.prems have len: "8 \<le> length src" by (auto dest: dvd_imp_le)
    let ?w = "u64_from_le_bytes (take 8 src)"
    let ?s = "\<lparr>current_word = ?w, num_bits = 1\<rparr>"
    have w: "bit ?w k = buf_bit src k" if "k < 64" for k
      using that len by (simp add: bit_from_le_bytes_buf buf_bit_take)
    have "f2_de_reads n (?s, drop 8 src) = Inr (map (\<lambda>k.
      F2_of_bool (if 1 + k < 64 then bit ?w (1 + k) else buf_bit (drop 8 src) (1 + k - 64))) [0..<n])"
      using Suc.IH [of ?s "drop 8 src"] Suc.prems True len by (simp add: dvd_diff_nat)
    also have "\<dots> = Inr (map (\<lambda>k. F2_of_bool (buf_bit src (Suc k))) [0..<n])"
      using len by (auto simp: w buf_bit_drop)
    finally show ?thesis
      using True len
      by (simp add: f2_de_read_def test_bit_u64 [of _ 0, simplified] shift w del: upt_Suc)
  next
    case False
    with Suc.prems have "num_bits s < 64" by simp
    with Suc.IH [of "s\<lparr>num_bits := num_bits s + 1\<rparr>" src] Suc.prems show ?thesis
      by (simp add: f2_de_read_def test_bit_u64 shift del: upt_Suc push_bit_of_1)
  qed
qed simp

lemma dvd_serialized_size: "8 dvd serialized_size n"
  by (simp add: serialized_size_def)

lemma serialized_size_covers: "n \<le> 8 * serialized_size n"
proof -
  have div: "64 * (n div 64) + n mod 64 = n" by simp
  show ?thesis
  proof (cases "n mod 64 = 0")
    case True
    with div have "64 * (n div 64) = n" by simp
    with True show ?thesis by (simp add: serialized_size_def)
  next
    case False
    have "n \<le> 64 * (n div 64) + 64" using div mod_less_divisor [of 64 n] by linarith
    with False show ?thesis by (simp add: serialized_size_def)
  qed
qed

lemma f2_deserialize_bits:
  "length bs = serialized_size n \<Longrightarrow>
   f2_deserialize n bs = Inr (map (\<lambda>k. F2_of_bool (buf_bit bs k)) [0..<n])"
  using serialized_size_covers [of n] dvd_serialized_size [of n]
  by (simp add: f2_deserialize_def f2_de_reads_bits f2_de_new_def)

lemma f2_deserialize_serialize [simp]: "f2_deserialize (length xs) (f2_serialize xs) = Inr xs"
proof -
  have "map (\<lambda>k. F2_of_bool (buf_bit (f2_serialize xs) k)) [0..<length xs] = map (\<lambda>k. xs ! k) [0..<length xs]"
    by (rule map_cong) (simp_all add: f2_serialize_bits)
  then show ?thesis
    by (simp only: f2_deserialize_bits f2_serialize_bits map_nth)
qed

text \<open>
  C18. The bit serializer: a sequence of elements of GF(2) is packed into exactly
  \<open>serialized_size\<close> bytes, element \<open>k\<close> in bit \<open>k\<close>, and the stateful reader returns the sequence
  from these bytes; one element is read back from its canonical byte.
\<close>

theorem f2_serialize_roundtrip:
  "f2_deserialize (length xs) (f2_serialize xs) = Inr xs \<and>
   length (f2_serialize xs) = serialized_size (length xs) \<and>
   (\<forall>k < length xs. buf_bit (f2_serialize xs) k = bool_of_F2 (xs ! k)) \<and>
   f2_from_bytes (f2_to_bytes x) = Inr x"
proof (intro conjI)
  show "f2_from_bytes (f2_to_bytes x) = Inr x"
    by (cases x rule: F2_cases)
      (simp_all add: f2_from_bytes_def f2_to_bytes_def F2_of_bool_def zero_F2.rep_eq one_F2.rep_eq)
qed (simp_all add: f2_serialize_bits)

theorem f2_serialize_roundtrip_witness:
  "buf_bit (f2_serialize [1, 0, 1]) 2 = bool_of_F2 ([1, 0, 1] ! 2)"
  using f2_serialize_roundtrip [of "[1, 0, 1]"] by simp

end
