(* ===== verification/Channel.thy ===== *)
theory Channel
  imports F2 F61p
begin

text \<open>
  The byte channel between a prover and a verifier (src/scuttlebutt/src/channel.rs), protocol
  code as functions from a state and a channel, and the rules to reason about the two parties
  side by side: each one reads exactly what the other one writes.

  A channel is what the peer has sent and has not been read yet, and what has been written. Reads
  beyond the end of the input are the I/O error of \<open>read_exact\<close>; \<open>flush\<close> has no effect, since
  written bytes count as sent.
\<close>

record chan =
  inbox :: "u8 list"
  outbox :: "u8 list"

type_synonym ('s, 'a) proc = "'s \<Rightarrow> chan \<Rightarrow> 'a res \<times> 's \<times> chan"

subsection \<open>Protocol code\<close>

definition p_return :: "'a \<Rightarrow> ('s, 'a) proc" where
  "p_return x = (\<lambda>s c. (Inr x, s, c))"

definition p_fail :: "failure \<Rightarrow> ('s, 'a) proc" where
  "p_fail e = (\<lambda>s c. (Inl e, s, c))"

definition p_bind :: "('s, 'a) proc \<Rightarrow> ('a \<Rightarrow> ('s, 'b) proc) \<Rightarrow> ('s, 'b) proc" where
  "p_bind m f = (\<lambda>s c. case m s c of
     (Inl e, s', c') \<Rightarrow> (Inl e, s', c')
   | (Inr x, s', c') \<Rightarrow> f x s' c')"

definition p_get :: "('s, 's) proc" where
  "p_get = (\<lambda>s c. (Inr s, s, c))"

definition p_put :: "'s \<Rightarrow> ('s, unit) proc" where
  "p_put s' = (\<lambda>s c. (Inr (), s', c))"

definition p_require :: "failure \<Rightarrow> bool \<Rightarrow> ('s, unit) proc" where
  "p_require e b = (if b then p_return () else p_fail e)"

fun p_mapM :: "('a \<Rightarrow> ('s, 'b) proc) \<Rightarrow> 'a list \<Rightarrow> ('s, 'b list) proc" where
  "p_mapM f [] = p_return []"
| "p_mapM f (x # xs) =
     p_bind (f x) (\<lambda>y. p_bind (p_mapM f xs) (\<lambda>ys. p_return (y # ys)))"

text \<open>A part of the state: \<open>get\<close> reads it, \<open>put\<close> stores it back.\<close>

definition p_zoom :: "('s \<Rightarrow> 't) \<Rightarrow> ('t \<Rightarrow> 's \<Rightarrow> 's) \<Rightarrow> ('t, 'a) proc \<Rightarrow> ('s, 'a) proc" where
  "p_zoom get put m = (\<lambda>s c. case m (get s) c of (r, t, c') \<Rightarrow> (r, put t s, c'))"

subsection \<open>Reading and writing\<close>

definition read_bytes :: "nat \<Rightarrow> ('s, u8 list) proc" where
  "read_bytes n = (\<lambda>s c.
     if length (inbox c) < n then (Inl Err, s, c)
     else (Inr (take n (inbox c)), s, c\<lparr>inbox := drop n (inbox c)\<rparr>))"

definition write_bytes :: "u8 list \<Rightarrow> ('s, unit) proc" where
  "write_bytes bs = (\<lambda>s c. (Inr (), s, c\<lparr>outbox := outbox c @ bs\<rparr>))"

definition flush :: "('s, unit) proc" where
  "flush = p_return ()"

text \<open>Blocks are their sixteen bytes.\<close>

definition read_block :: "('s, u8 list) proc" where
  "read_block = read_bytes 16"

definition write_block :: "u8 list \<Rightarrow> ('s, unit) proc" where
  "write_block b = write_bytes b"

text \<open>
  The serialization of one type of elements: the number of bytes of an element, its bytes, the
  reader of one element, and the sequence serializer and deserializer with the size they use.
\<close>

record 'a codec =
  byte_len :: nat
  to_bytes :: "'a \<Rightarrow> u8 list"
  from_bytes :: "u8 list \<Rightarrow> 'a res"
  seq_size :: "nat \<Rightarrow> nat"
  seq_write :: "'a list \<Rightarrow> u8 list"
  seq_read :: "nat \<Rightarrow> u8 list \<Rightarrow> 'a list res"

definition read_serializable :: "'a codec \<Rightarrow> ('s, 'a) proc" where
  "read_serializable C = p_bind (read_bytes (byte_len C)) (\<lambda>buf.
     case from_bytes C buf of Inl _ \<Rightarrow> p_fail Err | Inr x \<Rightarrow> p_return x)"

definition write_serializable :: "'a codec \<Rightarrow> 'a \<Rightarrow> ('s, unit) proc" where
  "write_serializable C x = write_bytes (to_bytes C x)"

definition read_serializable_seq :: "'a codec \<Rightarrow> nat \<Rightarrow> ('s, 'a list) proc" where
  "read_serializable_seq C n = p_bind (read_bytes (seq_size C n)) (\<lambda>buf.
     case seq_read C n buf of Inl e \<Rightarrow> p_fail e | Inr xs \<Rightarrow> p_return xs)"

definition write_serializable_seq :: "'a codec \<Rightarrow> 'a list \<Rightarrow> ('s, unit) proc" where
  "write_serializable_seq C xs = write_bytes (seq_write C xs)"

text \<open>
  The serializers of serialization.rs that go element by element
  (\<open>ByteElementSerializer\<close> and \<open>ByteElementDeserializer\<close>).
\<close>

definition byte_element_write :: "('a \<Rightarrow> u8 list) \<Rightarrow> 'a list \<Rightarrow> u8 list" where
  "byte_element_write tb xs = foldl (\<lambda>dst x. dst @ tb x) [] xs"

fun byte_element_read :: "nat \<Rightarrow> (u8 list \<Rightarrow> 'a res) \<Rightarrow> nat \<Rightarrow> u8 list \<Rightarrow> 'a list res" where
  "byte_element_read len fb 0 src = Inr []"
| "byte_element_read len fb (Suc n) src =
     (if length src < len then Inl Err
      else case fb (take len src) of
        Inl _ \<Rightarrow> Inl Err
      | Inr x \<Rightarrow> res_bind (byte_element_read len fb n (drop len src)) (\<lambda>xs. Inr (x # xs)))"

definition byte_element_codec :: "nat \<Rightarrow> ('a \<Rightarrow> u8 list) \<Rightarrow> (u8 list \<Rightarrow> 'a res) \<Rightarrow> 'a codec" where
  "byte_element_codec len tb fb =
     \<lparr>byte_len = len, to_bytes = tb, from_bytes = fb, seq_size = (\<lambda>n. len * n),
      seq_write = byte_element_write tb, seq_read = byte_element_read len fb\<rparr>"

subsection \<open>Codecs as an interface\<close>

locale serializable =
  fixes C :: "'a codec"
  assumes length_to_bytes: "length (to_bytes C x) = byte_len C"
    and from_to_bytes: "from_bytes C (to_bytes C x) = Inr x"
    and length_seq_write: "length (seq_write C xs) = seq_size C (length xs)"
    and seq_read_write: "seq_read C (length xs) (seq_write C xs) = Inr xs"

lemma byte_element_write_concat: "byte_element_write tb xs = concat (map tb xs)"
proof -
  have "foldl (\<lambda>dst x. dst @ tb x) dst xs = dst @ concat (map tb xs)" for dst
    by (induction xs arbitrary: dst) simp_all
  then show ?thesis by (simp add: byte_element_write_def)
qed

lemma byte_element_serializable:
  assumes len: "\<And>x. length (tb x) = len" and rt: "\<And>x. fb (tb x) = Inr x"
  shows "serializable (byte_element_codec len tb fb)"
proof
  fix xs :: "'a list"
  show "length (seq_write (byte_element_codec len tb fb) xs) = seq_size (byte_element_codec len tb fb) (length xs)"
    by (induction xs) (simp_all add: byte_element_codec_def byte_element_write_concat len)
  show "seq_read (byte_element_codec len tb fb) (length xs) (seq_write (byte_element_codec len tb fb) xs) = Inr xs"
    by (induction xs) (simp_all add: byte_element_codec_def byte_element_write_concat len rt)
qed (simp_all add: byte_element_codec_def len rt)

subsection \<open>Runs\<close>

text \<open>
  \<open>runs P s i o r s'\<close>: from state \<open>s\<close>, \<open>P\<close> consumes exactly the bytes \<open>i\<close>, writes
  the bytes \<open>o\<close>, and ends with the result \<open>r\<close> in state \<open>s'\<close>, whatever follows in the input.
\<close>

definition runs :: "('s, 'a) proc \<Rightarrow> 's \<Rightarrow> u8 list \<Rightarrow> u8 list \<Rightarrow> 'a res \<Rightarrow> 's \<Rightarrow> bool" where
  "runs P s i out r s' \<longleftrightarrow>
     (\<forall>ib ob. P s \<lparr>inbox = i @ ib, outbox = ob\<rparr> = (r, s', \<lparr>inbox = ib, outbox = ob @ out\<rparr>))"

text \<open>Execution of protocol code on a channel whose input starts with the bytes read next.\<close>

named_theorems exec

lemma exec_read_bytes [exec]:
  "length bs = n \<Longrightarrow>
   read_bytes n s \<lparr>inbox = bs @ ib, outbox = ob\<rparr> = (Inr bs, s, \<lparr>inbox = ib, outbox = ob\<rparr>)"
  by (auto simp: read_bytes_def)

lemma exec_write_bytes [exec]:
  "write_bytes bs s \<lparr>inbox = ib, outbox = ob\<rparr> = (Inr (), s, \<lparr>inbox = ib, outbox = ob @ bs\<rparr>)"
  by (simp add: write_bytes_def)

lemma exec_flush [exec]: "flush s c = (Inr (), s, c)"
  by (simp add: flush_def p_return_def)

lemmas [exec] = p_bind_def p_return_def p_fail_def p_get_def p_put_def read_block_def write_block_def

named_theorems runs_intros

lemma runs_return [runs_intros]: "runs (p_return x) s [] [] (Inr x) s"
  by (simp add: runs_def p_return_def)

lemma runs_fail: "runs (p_fail e) s [] [] (Inl e) s"
  by (simp add: runs_def p_fail_def)

lemma runs_get [runs_intros]: "runs p_get s [] [] (Inr s) s"
  by (simp add: runs_def p_get_def)

lemma runs_put [runs_intros]: "runs (p_put s') s [] [] (Inr ()) s'"
  by (simp add: runs_def p_put_def)

lemma runs_flush [runs_intros]: "runs flush s [] [] (Inr ()) s"
  by (simp add: flush_def runs_return)

lemma runs_write_bytes [runs_intros]: "runs (write_bytes bs) s [] bs (Inr ()) s"
  by (simp add: runs_def write_bytes_def)

lemma runs_read_bytes: "length bs = n \<Longrightarrow> runs (read_bytes n) s bs [] (Inr bs) s"
  by (auto simp: runs_def read_bytes_def)

lemma runs_bind:
  "runs m s i1 o1 (Inr x) s1 \<Longrightarrow> runs (f x) s1 i2 o2 r s2 \<Longrightarrow>
   runs (p_bind m f) s (i1 @ i2) (o1 @ o2) r s2"
  by (simp add: runs_def p_bind_def)

lemma runs_bind_silent:
  "runs m s i out (Inr x) s1 \<Longrightarrow> runs (f x) s1 [] [] r s2 \<Longrightarrow> runs (p_bind m f) s i out r s2"
  using runs_bind [of m s i out x s1 f "[]" "[]"] by simp

lemma runs_bind_fail: "runs m s i out (Inl e) s1 \<Longrightarrow> runs (p_bind m f) s i out (Inl e) s1"
  by (simp add: runs_def p_bind_def)

lemma runs_zoom:
  "runs m (get s) i out r t \<Longrightarrow> runs (p_zoom get put m) s i out r (put t s)"
  by (simp add: runs_def p_zoom_def)

lemma runs_require: "b \<Longrightarrow> runs (p_require e b) s [] [] (Inr ()) s"
  by (simp add: p_require_def runs_return)

text \<open>
  Two parties side by side: there are messages with which both runs are complete, and the
  results and final states satisfy \<open>R\<close>.
\<close>

definition joint ::
  "('s, 'a) proc \<Rightarrow> ('t, 'b) proc \<Rightarrow> 's \<Rightarrow> 't \<Rightarrow> ('a \<Rightarrow> 's \<Rightarrow> 'b \<Rightarrow> 't \<Rightarrow> bool) \<Rightarrow> bool" where
  "joint P V s t R \<longleftrightarrow>
     (\<exists>pm vm a s' b t'. runs P s vm pm (Inr a) s' \<and> runs V t pm vm (Inr b) t' \<and> R a s' b t')"

lemma jointI:
  "runs P s vm pm (Inr a) s' \<Longrightarrow> runs V t pm vm (Inr b) t' \<Longrightarrow> R a s' b t' \<Longrightarrow> joint P V s t R"
  unfolding joint_def by blast

lemma jointE:
  assumes "joint P V s t R"
  obtains pm vm a s' b t' where "runs P s vm pm (Inr a) s'" "runs V t pm vm (Inr b) t'" "R a s' b t'"
  using assms unfolding joint_def by blast

lemma joint_bind:
  assumes "joint P V s t Q"
    and "\<And>a s' b t'. Q a s' b t' \<Longrightarrow> joint (f a) (g b) s' t' R"
  shows "joint (p_bind P f) (p_bind V g) s t R"
proof -
  obtain pm vm a s' b t' where 1: "runs P s vm pm (Inr a) s'" "runs V t pm vm (Inr b) t'" "Q a s' b t'"
    using assms(1) by (rule jointE)
  obtain pm2 vm2 a2 s2 b2 t2 where "runs (f a) s' vm2 pm2 (Inr a2) s2"
      "runs (g b) t' pm2 vm2 (Inr b2) t2" "R a2 s2 b2 t2"
    using assms(2) [OF 1(3)] by (rule jointE)
  with 1 show ?thesis by (intro jointI) (rule runs_bind, assumption+)+
qed

lemma joint_mono: "joint P V s t Q \<Longrightarrow> (\<And>a s' b t'. Q a s' b t' \<Longrightarrow> R a s' b t') \<Longrightarrow> joint P V s t R"
  unfolding joint_def by blast

lemma joint_return: "R a s b t \<Longrightarrow> joint (p_return a) (p_return b) s t R"
  by (rule jointI) (rule runs_return)+

text \<open>Steps of one party alone, which send and receive nothing.\<close>

lemma joint_left:
  assumes "runs P s [] [] (Inr a) s'" and "joint (f a) V s' t R"
  shows "joint (p_bind P f) V s t R"
proof -
  obtain pm vm a2 s2 b t' where "runs (f a) s' vm pm (Inr a2) s2" "runs V t pm vm (Inr b) t'" "R a2 s2 b t'"
    using assms(2) by (rule jointE)
  then show ?thesis
    using runs_bind [OF assms(1)] by (intro jointI [of _ _ vm pm _ s2]) simp_all
qed

lemma joint_right:
  assumes "runs V t [] [] (Inr b) t'" and "joint P (g b) s t' R"
  shows "joint P (p_bind V g) s t R"
proof -
  obtain pm vm a s' b2 t2 where "runs P s vm pm (Inr a) s'" "runs (g b) t' pm vm (Inr b2) t2" "R a s' b2 t2"
    using assms(2) by (rule jointE)
  then show ?thesis
    using runs_bind [OF assms(1)] by (intro jointI [of _ _ vm pm _ s' _ _ _ t2]) simp_all
qed

lemma joint_map_left:
  assumes "joint P V s t Q" and "\<And>a s' b t'. Q a s' b t' \<Longrightarrow> R (h a) s' b t'"
  shows "joint (p_bind P (\<lambda>a. p_return (h a))) V s t R"
proof -
  obtain pm vm a s' b t' where "runs P s vm pm (Inr a) s'" "runs V t pm vm (Inr b) t'" "Q a s' b t'"
    using assms(1) by (rule jointE)
  then show ?thesis
    by (intro jointI [OF runs_bind_silent [OF _ runs_return]]) (auto intro: assms(2))
qed

lemma joint_map_right:
  assumes "joint P V s t Q" and "\<And>a s' b t'. Q a s' b t' \<Longrightarrow> R a s' (h b) t'"
  shows "joint P (p_bind V (\<lambda>b. p_return (h b))) s t R"
proof -
  obtain pm vm a s' b t' where "runs P s vm pm (Inr a) s'" "runs V t pm vm (Inr b) t'" "Q a s' b t'"
    using assms(1) by (rule jointE)
  then show ?thesis
    by (intro jointI [OF _ runs_bind_silent [OF _ runs_return]]) (auto intro: assms(2))
qed

text \<open>Steps of both parties that neither send nor receive.\<close>

definition silent ::
  "('s, 'a) proc \<Rightarrow> ('t, 'b) proc \<Rightarrow> 's \<Rightarrow> 't \<Rightarrow> ('a \<Rightarrow> 's \<Rightarrow> 'b \<Rightarrow> 't \<Rightarrow> bool) \<Rightarrow> bool" where
  "silent P V s t R \<longleftrightarrow>
     (\<exists>a s' b t'. runs P s [] [] (Inr a) s' \<and> runs V t [] [] (Inr b) t' \<and> R a s' b t')"

lemma silentI:
  "runs P s [] [] (Inr a) s' \<Longrightarrow> runs V t [] [] (Inr b) t' \<Longrightarrow> R a s' b t' \<Longrightarrow> silent P V s t R"
  unfolding silent_def by blast

lemma silentE:
  assumes "silent P V s t R"
  obtains a s' b t' where "runs P s [] [] (Inr a) s'" "runs V t [] [] (Inr b) t'" "R a s' b t'"
  using assms unfolding silent_def by blast

lemma joint_silent: "silent P V s t R \<Longrightarrow> joint P V s t R"
  unfolding silent_def joint_def by blast

lemma silent_return: "R a s b t \<Longrightarrow> silent (p_return a) (p_return b) s t R"
  by (rule silentI) (rule runs_return)+

lemma silent_bind:
  assumes "silent P V s t Q"
    and "\<And>a s' b t'. Q a s' b t' \<Longrightarrow> silent (f a) (g b) s' t' R"
  shows "silent (p_bind P f) (p_bind V g) s t R"
proof -
  obtain a s' b t' where 1: "runs P s [] [] (Inr a) s'" "runs V t [] [] (Inr b) t'" "Q a s' b t'"
    using assms(1) by (rule silentE)
  obtain a2 s2 b2 t2 where "runs (f a) s' [] [] (Inr a2) s2" "runs (g b) t' [] [] (Inr b2) t2" "R a2 s2 b2 t2"
    using assms(2) [OF 1(3)] by (rule silentE)
  with 1 show ?thesis by (intro silentI [OF runs_bind_silent runs_bind_silent])
qed

text \<open>A message: one party writes what the other one reads.\<close>

lemma joint_send:
  assumes "runs W s [] m (Inr ()) s" and "runs D t m [] (Inr x) t" and "joint (f ()) (g x) s t R"
  shows "joint (p_bind W f) (p_bind D g) s t R"
proof (rule joint_bind [where Q = "\<lambda>_ s' y t'. s' = s \<and> y = x \<and> t' = t"])
  show "joint W D s t (\<lambda>_ s' y t'. s' = s \<and> y = x \<and> t' = t)"
    using assms(1,2) by (rule jointI) simp
qed (use assms(3) in simp)

lemma joint_receive:
  assumes "runs D s m [] (Inr x) s" and "runs W t [] m (Inr ()) t" and "joint (f x) (g ()) s t R"
  shows "joint (p_bind D f) (p_bind W g) s t R"
proof (rule joint_bind [where Q = "\<lambda>y s' _ t'. s' = s \<and> y = x \<and> t' = t"])
  show "joint D W s t (\<lambda>y s' _ t'. s' = s \<and> y = x \<and> t' = t)"
    using assms(1,2) by (rule jointI) simp
qed (use assms(3) in simp)

lemma joint_mapM:
  assumes "list_all2 A xs ys" and "I s t"
    and "\<And>x y s t. A x y \<Longrightarrow> I s t \<Longrightarrow> joint (f x) (g y) s t (\<lambda>a s' b t'. B x y a b \<and> I s' t')"
  shows "joint (p_mapM f xs) (p_mapM g ys) s t (\<lambda>as s' bs t'.
    length as = length xs \<and> length bs = length xs \<and>
    (\<forall>i < length xs. B (xs ! i) (ys ! i) (as ! i) (bs ! i)) \<and> I s' t')"
  using assms(1,2)
proof (induction xs ys arbitrary: s t rule: list_all2_induct)
  case Nil
  then show ?case by (simp add: joint_return)
next
  case (Cons x xs y ys)
  show ?case
    unfolding p_mapM.simps
  proof (rule joint_bind [OF assms(3) [OF Cons.hyps(1) Cons.prems]], elim conjE, rule joint_bind, rule Cons.IH)
    fix a b as s2 bs t2
    assume B: "B x y a b"
      and "length as = length xs \<and> length bs = length xs \<and>
        (\<forall>i < length xs. B (xs ! i) (ys ! i) (as ! i) (bs ! i)) \<and> I s2 t2"
    then show "joint (p_return (a # as)) (p_return (b # bs)) s2 t2 (\<lambda>as s' bs t'.
        length as = length (x # xs) \<and> length bs = length (x # xs) \<and>
        (\<forall>i < length (x # xs). B ((x # xs) ! i) ((y # ys) ! i) (as ! i) (bs ! i)) \<and> I s' t')"
      by (intro joint_return) (auto simp: nth_Cons split: nat.split)
  qed
qed

lemma joint_zoom:
  assumes "joint P V (get s) (get' t) R"
  shows "joint (p_zoom get put P) (p_zoom get' put' V) s t
    (\<lambda>a s' b t'. \<exists>u v. s' = put u s \<and> t' = put' v t \<and> R a u b v)"
proof -
  obtain pm vm a u b v where "runs P (get s) vm pm (Inr a) u" "runs V (get' t) pm vm (Inr b) v" "R a u b v"
    using assms by (rule jointE)
  then show ?thesis
    by (intro jointI [of _ _ vm pm a "put u s" _ _ b "put' v t"]) (auto intro: runs_zoom)
qed

text \<open>Reading and writing through a codec that keeps the laws.\<close>

context serializable
begin

lemma exec_write:
  "write_serializable C x s \<lparr>inbox = ib, outbox = ob\<rparr> = (Inr (), s, \<lparr>inbox = ib, outbox = ob @ to_bytes C x\<rparr>)"
  by (simp add: write_serializable_def exec)

lemma exec_read:
  "read_serializable C s \<lparr>inbox = to_bytes C x @ ib, outbox = ob\<rparr> = (Inr x, s, \<lparr>inbox = ib, outbox = ob\<rparr>)"
  by (simp add: read_serializable_def exec length_to_bytes from_to_bytes)

lemma runs_write: "runs (write_serializable C x) s [] (to_bytes C x) (Inr ()) s"
  by (simp add: write_serializable_def runs_write_bytes)

lemma runs_read: "runs (read_serializable C) s (to_bytes C x) [] (Inr x) s"
  unfolding read_serializable_def
  by (rule runs_bind_silent [OF runs_read_bytes [OF length_to_bytes]])
    (simp add: from_to_bytes runs_return)

lemma runs_write_seq: "runs (write_serializable_seq C xs) s [] (seq_write C xs) (Inr ()) s"
  by (simp add: write_serializable_seq_def runs_write_bytes)

lemma runs_read_seq: "runs (read_serializable_seq C (length xs)) s (seq_write C xs) [] (Inr xs) s"
  unfolding read_serializable_seq_def
  by (rule runs_bind_silent [OF runs_read_bytes [OF length_seq_write]])
    (simp add: seq_read_write runs_return)

lemma joint_write_read:
  "joint (f ()) (g x) s t R \<Longrightarrow>
   joint (p_bind (write_serializable C x) f) (p_bind (read_serializable C) g) s t R"
  by (rule joint_send [OF runs_write runs_read])

lemma joint_read_write:
  "joint (f x) (g ()) s t R \<Longrightarrow>
   joint (p_bind (read_serializable C) f) (p_bind (write_serializable C x) g) s t R"
  by (rule joint_receive [OF runs_read runs_write])

lemma joint_write_read_seq:
  "length xs = n \<Longrightarrow> joint (f ()) (g xs) s t R \<Longrightarrow>
   joint (p_bind (write_serializable_seq C xs) f) (p_bind (read_serializable_seq C n) g) s t R"
  by clarify (rule joint_send [OF runs_write_seq runs_read_seq])

end

lemma joint_block:
  "length b = 16 \<Longrightarrow> joint (f b) (g ()) s t R \<Longrightarrow>
   joint (p_bind read_block f) (p_bind (write_block b) g) s t R"
  unfolding read_block_def write_block_def
  by (rule joint_receive [OF runs_read_bytes runs_write_bytes])

subsection \<open>The codecs of the fields\<close>

definition F2_codec :: "F2 codec" where
  "F2_codec = \<lparr>byte_len = 1, to_bytes = f2_to_bytes, from_bytes = f2_from_bytes,
     seq_size = serialized_size, seq_write = f2_serialize, seq_read = f2_deserialize\<rparr>"

interpretation F2_codec: serializable F2_codec
proof
  fix x and xs :: "F2 list"
  show "length (to_bytes F2_codec x) = byte_len F2_codec"
    by (simp add: F2_codec_def f2_to_bytes_def)
  show "from_bytes F2_codec (to_bytes F2_codec x) = Inr x"
    by (cases x rule: F2_cases)
      (simp_all add: F2_codec_def f2_from_bytes_def f2_to_bytes_def F2_of_bool_def zero_F2.rep_eq one_F2.rep_eq)
qed (simp_all add: F2_codec_def f2_serialize_bits)

definition F61p_codec :: "F61p codec" where
  "F61p_codec = byte_element_codec 8 f61_to_bytes f61_from_bytes"

interpretation F61p_codec: serializable F61p_codec
  unfolding F61p_codec_def
proof (rule byte_element_serializable)
  fix x
  show "length (f61_to_bytes x) = 8" by (simp add: f61_to_bytes_def)
  show "f61_from_bytes (f61_to_bytes x) = Inr x" by (simp add: f61_to_bytes_def f61_from_bytes_def)
qed

end
