(* ===== verification/HomCom.thy ===== *)
theory HomCom
  imports Channel
begin

text \<open>
  The homomorphic commitments of src/diet-mac-and-cheese/src/homcom.rs: the prover and the
  verifier over a finite field with its prime field, whose MACs satisfy m = k + Delta x.

  The subfield VOLE that feeds both parties is the functionality behind the traits SVoleSender
  and SVoleReceiver: the batches that it will deliver are part of the state, and a call of
  \<open>send\<close> or \<open>receive\<close> appends the next one to the vector, or fails when there is none. Random
  draws are arguments, or functions of a seed (AesRng) and of hashed bytes (blake3).
\<close>

subsection \<open>The field\<close>

record ('p, 'f) field_impl =
  prime_codec :: "'p codec"
  field_codec :: "'f codec"
  smul :: "'p \<Rightarrow> 'f \<Rightarrow> 'f"
  degree :: nat
  form_superfield :: "'p list \<Rightarrow> 'f"
  fe_random :: "u8 list \<Rightarrow> nat \<Rightarrow> 'f"
  blake3 :: "u8 list \<Rightarrow> u8 list"

definition make_x_i :: "('p :: comm_ring_1, 'f) field_impl \<Rightarrow> nat \<Rightarrow> 'f" where
  "make_x_i F i = form_superfield F ((replicate (degree F) 0)[i := 1])"

subsection \<open>MACs\<close>

datatype ('p, 'f) mac_prover = MacProver (mac_value: 'p) (prover_mac: 'f)

datatype 'f mac_verifier = MacVerifier (verifier_mac: 'f)

definition default_prover :: "('p :: comm_ring_1, 'f :: comm_ring_1) mac_prover" where
  "default_prover = MacProver 0 0"

definition default_verifier :: "'f :: comm_ring_1 mac_verifier" where
  "default_verifier = MacVerifier 0"

definition select_prover ::
  "('p, 'f) mac_prover \<Rightarrow> ('p, 'f) mac_prover \<Rightarrow> bool \<Rightarrow> ('p, 'f) mac_prover" where
  "select_prover a b choice =
     MacProver (if choice then mac_value b else mac_value a) (if choice then prover_mac b else prover_mac a)"

definition select_verifier :: "'f mac_verifier \<Rightarrow> 'f mac_verifier \<Rightarrow> bool \<Rightarrow> 'f mac_verifier" where
  "select_verifier a b choice = MacVerifier (if choice then verifier_mac b else verifier_mac a)"

subsection \<open>The states\<close>

record fcom_stats =
  num_voles_used :: nat
  num_vole_extensions_performed :: nat

text \<open>The part that the prover and the verifier have in common; \<open>voles\<close> is a stack.\<close>

record 'v fcom =
  svole :: "'v list list"
  voles :: "'v list"
  stats :: fcom_stats

type_synonym ('p, 'f) fcom_prover = "('p \<times> 'f) fcom"

record 'f fcom_verifier = "'f fcom" +
  delta :: 'f

definition no_stats :: fcom_stats where
  "no_stats = \<lparr>num_voles_used = 0, num_vole_extensions_performed = 0\<rparr>"

definition count_vole :: "(('v, 'z) fcom_scheme, unit) proc" where
  "count_vole = p_bind p_get (\<lambda>s. p_put (s\<lparr>stats := (stats s)
     \<lparr>num_voles_used := num_voles_used (stats s) + 1\<rparr>\<rparr>))"

definition count_extension :: "(('v, 'z) fcom_scheme, unit) proc" where
  "count_extension = p_bind p_get (\<lambda>s. p_put (s\<lparr>stats := (stats s)
     \<lparr>num_vole_extensions_performed := num_vole_extensions_performed (stats s) + 1\<rparr>\<rparr>))"

definition svole_extend :: "(('v, 'z) fcom_scheme, unit) proc" where
  "svole_extend = p_bind p_get (\<lambda>s. case svole s of
     [] \<Rightarrow> p_fail Err
   | b # bs \<Rightarrow> p_put (s\<lparr>svole := bs, voles := voles s @ b\<rparr>))"

definition pop_vole :: "(('v, 'z) fcom_scheme, 'v option) proc" where
  "pop_vole = p_bind p_get (\<lambda>s.
     if voles s = [] then p_return None
     else p_bind (p_put (s\<lparr>voles := butlast (voles s)\<rparr>)) (\<lambda>_. p_return (Some (last (voles s)))))"

text \<open>\<open>random\<close>: the next VOLE, after one extension when the stack is empty.\<close>

definition next_vole :: "(('v, 'z) fcom_scheme, 'v) proc" where
  "next_vole =
     p_bind count_vole (\<lambda>_.
     p_bind pop_vole (\<lambda>e. case e of
       Some e \<Rightarrow> p_return e
     | None \<Rightarrow>
         p_bind count_extension (\<lambda>_.
         p_bind svole_extend (\<lambda>_.
         p_bind pop_vole (\<lambda>e. case e of
           Some e \<Rightarrow> p_return e
         | None \<Rightarrow> p_fail Err)))))"

definition prover_random :: "(('p, 'f) fcom_prover, ('p, 'f) mac_prover) proc" where
  "prover_random = p_bind next_vole (\<lambda>e. p_return (MacProver (fst e) (snd e)))"

definition verifier_random :: "('f fcom_verifier, 'f mac_verifier) proc" where
  "verifier_random = p_bind next_vole (\<lambda>e. p_return (MacVerifier e))"

function voles_reserve :: "nat \<Rightarrow> (('v, 'z) fcom_scheme, unit) proc" where
  "voles_reserve n s c =
     (if length (voles s) < n then
        case p_bind count_extension (\<lambda>_. svole_extend) s c of
          (Inl e, s', c') \<Rightarrow> (Inl e, s', c')
        | (Inr _, s', c') \<Rightarrow> voles_reserve n s' c'
      else (Inr (), s, c))"
  by pat_completeness auto

lemma extend_steps:
  "p_bind count_extension (\<lambda>_. svole_extend) s c =
     (let st = (stats s)\<lparr>num_vole_extensions_performed := num_vole_extensions_performed (stats s) + 1\<rparr>
      in case svole s of
        [] \<Rightarrow> (Inl Err, s\<lparr>stats := st\<rparr>, c)
      | b # bs \<Rightarrow> (Inr (), s\<lparr>stats := st, svole := bs, voles := voles s @ b\<rparr>, c))"
  by (simp add: p_bind_def count_extension_def svole_extend_def p_get_def p_put_def p_fail_def
      Let_def split: list.split)

termination voles_reserve
  by (relation "measure (\<lambda>(n, s, c). length (svole s))")
    (auto simp: extend_steps Let_def split: list.splits)

declare voles_reserve.simps [simp del]

definition voles_available :: "('v, 'z) fcom_scheme \<Rightarrow> nat" where
  "voles_available s = length (voles s)"

definition voles_clear :: "('v, 'z) fcom_scheme \<Rightarrow> ('v, 'z) fcom_scheme" where
  "voles_clear s = s\<lparr>voles := []\<rparr>"

definition clear_stats :: "('v, 'z) fcom_scheme \<Rightarrow> ('v, 'z) fcom_scheme" where
  "clear_stats s = s\<lparr>stats := no_stats\<rparr>"

subsection \<open>Inputs\<close>

definition prover_input_low_level ::
  "('p :: comm_ring_1, 'f) field_impl \<Rightarrow> 'p list \<Rightarrow> 'f list \<Rightarrow> (('p, 'f) fcom_prover, 'f list) proc" where
  "prover_input_low_level F x out =
     p_bind (p_mapM (\<lambda>x_i. p_bind prover_random (\<lambda>r. p_return (prover_mac r, x_i - mac_value r))) x) (\<lambda>rs.
     p_bind (write_serializable_seq (prime_codec F) (map snd rs)) (\<lambda>_.
     p_return (out @ map fst rs)))"

definition prover_input ::
  "('p :: comm_ring_1, 'f) field_impl \<Rightarrow> 'p list \<Rightarrow> (('p, 'f) fcom_prover, 'f list) proc" where
  "prover_input F x = prover_input_low_level F x []"

definition prover_input1 ::
  "('p :: comm_ring_1, 'f) field_impl \<Rightarrow> 'p \<Rightarrow> (('p, 'f) fcom_prover, 'f) proc" where
  "prover_input1 F x =
     p_bind prover_random (\<lambda>r.
     p_bind (write_serializable (prime_codec F) (x - mac_value r)) (\<lambda>_.
     p_return (prover_mac r)))"

definition verifier_input_low_level ::
  "('p, 'f :: comm_ring_1) field_impl \<Rightarrow> nat \<Rightarrow> 'f mac_verifier list \<Rightarrow> ('f fcom_verifier, 'f mac_verifier list) proc" where
  "verifier_input_low_level F num out =
     p_bind (p_require Assertion (out = [])) (\<lambda>_.
     p_bind (p_mapM (\<lambda>_. verifier_random) [0..<num]) (\<lambda>rs.
     p_bind (read_serializable_seq (prime_codec F) num) (\<lambda>corrections.
     p_bind p_get (\<lambda>s.
     p_return (map (\<lambda>(o_i, c_i). MacVerifier (verifier_mac o_i - smul F c_i (delta s)))
       (zip rs corrections))))))"

definition verifier_input ::
  "('p, 'f :: comm_ring_1) field_impl \<Rightarrow> nat \<Rightarrow> ('f fcom_verifier, 'f mac_verifier list) proc" where
  "verifier_input F num = verifier_input_low_level F num []"

definition verifier_input1 ::
  "('p, 'f :: comm_ring_1) field_impl \<Rightarrow> ('f fcom_verifier, 'f mac_verifier) proc" where
  "verifier_input1 F =
     p_bind verifier_random (\<lambda>r.
     p_bind (read_serializable (prime_codec F)) (\<lambda>y.
     p_bind p_get (\<lambda>s.
     p_return (MacVerifier (verifier_mac r - smul F y (delta s))))))"

subsection \<open>Affine operations\<close>

definition prover_affine_add_cst ::
  "'p :: comm_ring_1 \<Rightarrow> ('p, 'f) mac_prover \<Rightarrow> ('p, 'f) mac_prover" where
  "prover_affine_add_cst cst x = MacProver (cst + mac_value x) (prover_mac x)"

definition prover_affine_mult_cst ::
  "('p :: comm_ring_1, 'f) field_impl \<Rightarrow> 'p \<Rightarrow> ('p, 'f) mac_prover \<Rightarrow> ('p, 'f) mac_prover" where
  "prover_affine_mult_cst F cst x = MacProver (cst * mac_value x) (smul F cst (prover_mac x))"

definition prover_add ::
  "('p :: comm_ring_1, 'f :: comm_ring_1) mac_prover \<Rightarrow> ('p, 'f) mac_prover \<Rightarrow> ('p, 'f) mac_prover" where
  "prover_add a b = MacProver (mac_value a + mac_value b) (prover_mac a + prover_mac b)"

definition prover_neg ::
  "('p :: comm_ring_1, 'f :: comm_ring_1) mac_prover \<Rightarrow> ('p, 'f) mac_prover" where
  "prover_neg a = MacProver (- mac_value a) (- prover_mac a)"

definition prover_sub ::
  "('p :: comm_ring_1, 'f :: comm_ring_1) mac_prover \<Rightarrow> ('p, 'f) mac_prover \<Rightarrow> ('p, 'f) mac_prover" where
  "prover_sub a b = MacProver (mac_value a - mac_value b) (prover_mac a - prover_mac b)"

definition verifier_affine_add_cst ::
  "('p, 'f :: comm_ring_1) field_impl \<Rightarrow> 'f \<Rightarrow> 'p \<Rightarrow> 'f mac_verifier \<Rightarrow> 'f mac_verifier" where
  "verifier_affine_add_cst F d cst x_mac = MacVerifier (verifier_mac x_mac - smul F cst d)"

definition verifier_affine_mult_cst ::
  "('p, 'f) field_impl \<Rightarrow> 'p \<Rightarrow> 'f mac_verifier \<Rightarrow> 'f mac_verifier" where
  "verifier_affine_mult_cst F cst x_mac = MacVerifier (smul F cst (verifier_mac x_mac))"

definition verifier_add :: "'f :: comm_ring_1 mac_verifier \<Rightarrow> 'f mac_verifier \<Rightarrow> 'f mac_verifier" where
  "verifier_add a b = MacVerifier (verifier_mac a + verifier_mac b)"

definition verifier_neg :: "'f :: comm_ring_1 mac_verifier \<Rightarrow> 'f mac_verifier" where
  "verifier_neg a = MacVerifier (- verifier_mac a)"

definition verifier_sub :: "'f :: comm_ring_1 mac_verifier \<Rightarrow> 'f mac_verifier \<Rightarrow> 'f mac_verifier" where
  "verifier_sub a b = MacVerifier (verifier_mac a - verifier_mac b)"

subsection \<open>Checking zeros and opening\<close>

text \<open>The challenges: one draw for every MAC, from the generator seeded with \<open>seed\<close>.\<close>

definition challenges :: "('p, 'f) field_impl \<Rightarrow> u8 list \<Rightarrow> nat \<Rightarrow> 'f list" where
  "challenges F seed n = map (fe_random F seed) [0..<n]"

definition combine :: "'f :: comm_ring_1 list \<Rightarrow> 'f list \<Rightarrow> 'f" where
  "combine chis ms = foldl (\<lambda>m (chi, x). m + chi * x) 0 (zip chis ms)"

definition prover_check_zero ::
  "('p :: comm_ring_1, 'f :: comm_ring_1) field_impl \<Rightarrow> ('p, 'f) mac_prover list \<Rightarrow> (('p, 'f) fcom_prover, unit) proc" where
  "prover_check_zero F x_mac_batch =
     p_bind read_block (\<lambda>seed.
     let b = foldl (\<lambda>b x. b \<and> mac_value x = 0) True x_mac_batch;
         m = combine (challenges F seed (length x_mac_batch)) (map prover_mac x_mac_batch) in
     p_bind (write_serializable (field_codec F) m) (\<lambda>_.
     p_bind flush (\<lambda>_.
     if b then p_return () else p_fail Err)))"

definition verifier_check_zero ::
  "('p, 'f :: comm_ring_1) field_impl \<Rightarrow> u8 list \<Rightarrow> 'f mac_verifier list \<Rightarrow> ('f fcom_verifier, unit) proc" where
  "verifier_check_zero F seed key_batch =
     p_bind (write_block seed) (\<lambda>_.
     p_bind flush (\<lambda>_.
     let key_chi = combine (challenges F seed (length key_batch)) (map verifier_mac key_batch) in
     p_bind (read_serializable (field_codec F)) (\<lambda>m.
     if key_chi = m then p_return () else p_fail Err)))"

definition prover_open ::
  "('p :: comm_ring_1, 'f :: comm_ring_1) field_impl \<Rightarrow> ('p, 'f) mac_prover list \<Rightarrow> (('p, 'f) fcom_prover, unit) proc" where
  "prover_open F batch =
     p_bind (p_mapM (\<lambda>x. write_serializable (prime_codec F) (mac_value x)) batch) (\<lambda>_.
     let seed = blake3 F (concat (map (\<lambda>x. to_bytes (prime_codec F) (mac_value x)) batch));
         m = combine (challenges F seed (length batch)) (map prover_mac batch) in
     p_bind (write_serializable (field_codec F) m) (\<lambda>_.
     p_bind flush (\<lambda>_. p_return ())))"

definition verifier_open ::
  "('p :: comm_ring_1, 'f :: comm_ring_1) field_impl \<Rightarrow> 'f mac_verifier list \<Rightarrow> ('f fcom_verifier, 'p list) proc" where
  "verifier_open F keys =
     p_bind (p_mapM (\<lambda>_. read_serializable (prime_codec F)) keys) (\<lambda>out.
     let seed = blake3 F (concat (map (to_bytes (prime_codec F)) out));
         chis = challenges F seed (length keys);
         key_chi = combine chis (map verifier_mac keys);
         x_chi = foldl (\<lambda>x_chi (chi, x). x_chi + smul F x chi) 0 (zip chis out) in
     p_bind (read_serializable (field_codec F)) (\<lambda>m.
     p_bind (p_require Assertion (length out = length keys)) (\<lambda>_.
     p_bind p_get (\<lambda>s.
     if key_chi + delta s * x_chi = m then p_return out else p_fail Err))))"

subsection \<open>Checking multiplications\<close>

type_synonym ('p, 'f) prover_triple = "('p, 'f) mac_prover \<times> ('p, 'f) mac_prover \<times> ('p, 'f) mac_prover"

type_synonym 'f verifier_triple = "'f mac_verifier \<times> 'f mac_verifier \<times> 'f mac_verifier"

fun p_foldM :: "('b \<Rightarrow> 'a \<Rightarrow> ('s, 'b) proc) \<Rightarrow> 'b \<Rightarrow> 'a list \<Rightarrow> ('s, 'b) proc" where
  "p_foldM f acc [] = p_return acc"
| "p_foldM f acc (x # xs) = p_bind (f acc x) (\<lambda>acc. p_foldM f acc xs)"

definition prover_a0 :: "('p, 'f :: comm_ring_1) field_impl \<Rightarrow> ('p, 'f) prover_triple \<Rightarrow> 'f" where
  "prover_a0 F = (\<lambda>(x, y, z). prover_mac x * prover_mac y)"

definition prover_a1 :: "('p, 'f :: comm_ring_1) field_impl \<Rightarrow> ('p, 'f) prover_triple \<Rightarrow> 'f" where
  "prover_a1 F = (\<lambda>(x, y, z).
     smul F (mac_value y) (prover_mac x) + smul F (mac_value x) (prover_mac y) - prover_mac z)"

definition verifier_b :: "'f :: comm_ring_1 \<Rightarrow> 'f verifier_triple \<Rightarrow> 'f" where
  "verifier_b d = (\<lambda>(x, y, z). verifier_mac x * verifier_mac y + d * verifier_mac z)"

text \<open>The mask: \<open>VOPE(1)\<close> of the source.\<close>

definition prover_vope_step ::
  "('p :: comm_ring_1, 'f :: comm_ring_1) field_impl \<Rightarrow> 'f \<times> 'f \<Rightarrow> nat \<Rightarrow> (('p, 'f) fcom_prover, 'f \<times> 'f) proc" where
  "prover_vope_step F = (\<lambda>(m, m_mac) i.
     p_bind prover_random (\<lambda>r.
     let x_i = make_x_i F i in
     p_return (m + smul F (mac_value r) x_i, m_mac + prover_mac r * x_i)))"

definition prover_vope ::
  "('p :: comm_ring_1, 'f :: comm_ring_1) field_impl \<Rightarrow> (('p, 'f) fcom_prover, 'f \<times> 'f) proc" where
  "prover_vope F = p_foldM (prover_vope_step F) (0, 0) [0..<degree F]"

definition verifier_vope_step ::
  "('p :: comm_ring_1, 'f :: comm_ring_1) field_impl \<Rightarrow> 'f \<Rightarrow> nat \<Rightarrow> ('f fcom_verifier, 'f) proc" where
  "verifier_vope_step F = (\<lambda>m_mac i.
     p_bind verifier_random (\<lambda>r.
     let x_i = make_x_i F i in
     p_return (m_mac + verifier_mac r * x_i)))"

definition verifier_vope ::
  "('p :: comm_ring_1, 'f :: comm_ring_1) field_impl \<Rightarrow> ('f fcom_verifier, 'f) proc" where
  "verifier_vope F = p_foldM (verifier_vope_step F) 0 [0..<degree F]"

definition prover_check_multiply ::
  "('p :: comm_ring_1, 'f :: comm_ring_1) field_impl \<Rightarrow> ('p, 'f) prover_triple list \<Rightarrow> (('p, 'f) fcom_prover, unit) proc" where
  "prover_check_multiply F triples =
     p_bind (read_serializable (field_codec F)) (\<lambda>chi.
     let (sum_a0, sum_a1, chi_power) = foldl (\<lambda>(sum_a0, sum_a1, chi_power) t.
           (sum_a0 + prover_a0 F t * chi_power, sum_a1 + prover_a1 F t * chi_power, chi_power * chi))
           (0, 0, chi) triples in
     p_bind (prover_vope F) (\<lambda>(mask, mask_mac).
     p_bind (write_serializable (field_codec F) (sum_a0 + mask_mac)) (\<lambda>_.
     p_bind (write_serializable (field_codec F) (sum_a1 + mask)) (\<lambda>_.
     p_bind flush (\<lambda>_. p_return ())))))"

definition verifier_check_multiply ::
  "('p :: comm_ring_1, 'f :: comm_ring_1) field_impl \<Rightarrow> 'f \<Rightarrow> 'f verifier_triple list \<Rightarrow> ('f fcom_verifier, unit) proc" where
  "verifier_check_multiply F chi triples =
     p_bind (write_serializable (field_codec F) chi) (\<lambda>_.
     p_bind flush (\<lambda>_.
     p_bind p_get (\<lambda>s.
     let (sum_b, power_chi) = foldl (\<lambda>(sum_b, power_chi) t.
           (sum_b + verifier_b (delta s) t * power_chi, power_chi * chi)) (0, chi) triples in
     p_bind (verifier_vope F) (\<lambda>mask_mac.
     p_bind (read_serializable (field_codec F)) (\<lambda>u.
     p_bind (read_serializable (field_codec F)) (\<lambda>v.
     if sum_b + mask_mac = u + (- delta s) * v then p_return () else p_fail Err))))))"

subsection \<open>Pushing multiplications for a later check\<close>

record 'f mult_prover =
  sum_a0 :: 'f
  sum_a1 :: 'f
  chi_power :: 'f
  prover_chi :: 'f
  prover_cnt :: nat

record 'f mult_verifier =
  sum_b :: 'f
  power_chi :: 'f
  verifier_chi :: 'f
  verifier_cnt :: nat

definition mult_prover_init ::
  "('p, 'f :: comm_ring_1) field_impl \<Rightarrow> ('s, 'f mult_prover) proc" where
  "mult_prover_init F =
     p_bind flush (\<lambda>_.
     p_bind (read_serializable (field_codec F)) (\<lambda>chi.
     p_return \<lparr>sum_a0 = 0, sum_a1 = 0, chi_power = chi, prover_chi = chi, prover_cnt = 0\<rparr>))"

definition mult_verifier_init ::
  "('p, 'f :: comm_ring_1) field_impl \<Rightarrow> 'f \<Rightarrow> ('s, 'f mult_verifier) proc" where
  "mult_verifier_init F chi =
     p_bind (write_serializable (field_codec F) chi) (\<lambda>_.
     p_bind flush (\<lambda>_.
     p_return \<lparr>sum_b = 0, power_chi = chi, verifier_chi = chi, verifier_cnt = 0\<rparr>))"

definition mult_prover_reset :: "'f :: comm_ring_1 mult_prover \<Rightarrow> 'f mult_prover" where
  "mult_prover_reset q = q\<lparr>sum_a0 := 0, sum_a1 := 0, chi_power := prover_chi q, prover_cnt := 0\<rparr>"

definition mult_verifier_reset :: "'f :: comm_ring_1 mult_verifier \<Rightarrow> 'f mult_verifier" where
  "mult_verifier_reset q = q\<lparr>sum_b := 0, power_chi := verifier_chi q, verifier_cnt := 0\<rparr>"

definition mult_prover_drop :: "'f mult_prover \<Rightarrow> unit res" where
  "mult_prover_drop q = require Panic (prover_cnt q = 0)"

definition mult_verifier_drop :: "'f mult_verifier \<Rightarrow> unit res" where
  "mult_verifier_drop q = require Panic (verifier_cnt q = 0)"

definition prover_push ::
  "('p, 'f :: comm_ring_1) field_impl \<Rightarrow> 'f mult_prover \<Rightarrow> ('p, 'f) prover_triple \<Rightarrow> 'f mult_prover" where
  "prover_push F q t =
     q\<lparr>sum_a0 := sum_a0 q + prover_a0 F t * chi_power q,
       sum_a1 := sum_a1 q + prover_a1 F t * chi_power q,
       chi_power := chi_power q * prover_chi q,
       prover_cnt := prover_cnt q + 1\<rparr>"

definition verifier_push ::
  "'f :: comm_ring_1 \<Rightarrow> 'f mult_verifier \<Rightarrow> 'f verifier_triple \<Rightarrow> 'f mult_verifier" where
  "verifier_push d q t =
     q\<lparr>sum_b := sum_b q + verifier_b d t * power_chi q,
       power_chi := power_chi q * verifier_chi q,
       verifier_cnt := verifier_cnt q + 1\<rparr>"

text \<open>The state of a check under way is kept beside the commitments.\<close>

definition prover_finalize ::
  "('p :: comm_ring_1, 'f :: comm_ring_1) field_impl \<Rightarrow> (('p, 'f) fcom_prover \<times> 'f mult_prover, nat) proc" where
  "prover_finalize F =
     p_bind (p_zoom fst (\<lambda>a s. (a, snd s)) (prover_vope F)) (\<lambda>(mask, mask_mac).
     p_bind p_get (\<lambda>(s, q).
     p_bind (write_serializable (field_codec F) (sum_a0 q + mask_mac)) (\<lambda>_.
     p_bind (write_serializable (field_codec F) (sum_a1 q + mask)) (\<lambda>_.
     p_bind flush (\<lambda>_.
     p_bind (p_put (s, mult_prover_reset q)) (\<lambda>_.
     p_return (prover_cnt q)))))))"

definition verifier_finalize ::
  "('p :: comm_ring_1, 'f :: comm_ring_1) field_impl \<Rightarrow> ('f fcom_verifier \<times> 'f mult_verifier, nat) proc" where
  "verifier_finalize F =
     p_bind (p_zoom fst (\<lambda>a s. (a, snd s)) (verifier_vope F)) (\<lambda>mask_mac.
     p_bind (read_serializable (field_codec F)) (\<lambda>u.
     p_bind (read_serializable (field_codec F)) (\<lambda>v.
     p_bind p_get (\<lambda>(s, q).
     p_bind (p_put (s, mult_verifier_reset q)) (\<lambda>_.
     if sum_b q + mask_mac = u + (- delta s) * v then p_return (verifier_cnt q) else p_fail Err)))))"

end
