(* ===== verification/Roots.thy ===== *)
theory Roots
  imports Main
begin

text \<open>
  Polynomials over an integral domain, as lists of coefficients from the constant on, and the
  bound on the number of their roots.
\<close>

fun horner :: "'a :: comm_ring_1 list \<Rightarrow> 'a \<Rightarrow> 'a" where
  "horner [] x = 0"
| "horner (c # cs) x = c + x * horner cs x"

lemma horner_sum: "horner cs x = (\<Sum>i<length cs. cs ! i * x ^ i)"
proof (induction cs)
  case (Cons c cs)
  have "x * (\<Sum>i<length cs. cs ! i * x ^ i) = (\<Sum>i<length cs. cs ! i * x ^ Suc i)"
    by (simp add: sum_distrib_left mult.left_commute)
  then show ?case using Cons by (simp add: sum.lessThan_Suc_shift del: sum.lessThan_Suc)
qed simp

text \<open>Division by \<open>x - r\<close>.\<close>

fun quotient :: "'a :: comm_ring_1 list \<Rightarrow> 'a \<Rightarrow> 'a list" where
  "quotient [] r = []"
| "quotient [c] r = []"
| "quotient (c # cs) r = horner cs r # quotient cs r"

lemma horner_quotient: "horner cs x = horner cs r + (x - r) * horner (quotient cs r) x"
proof (induction cs r rule: quotient.induct)
  case (3 c v cs r)
  define A B q where "A = horner (v # cs) x" and "B = horner (v # cs) r" and "q = quotient (v # cs) r"
  have eqs: "horner (c # v # cs) x = c + x * A" "horner (c # v # cs) r = c + r * B"
      "quotient (c # v # cs) r = B # q"
    by (simp_all only: A_def B_def q_def horner.simps quotient.simps)
  have A: "A = B + (x - r) * horner q x" using 3 by (simp only: A_def B_def q_def)
  have "c + x * A = c + r * B + (x - r) * (B + x * horner q x)"
    unfolding A by (simp add: algebra_simps)
  then show ?case by (simp only: eqs horner.simps(2) [of B q])
qed simp_all

lemma length_quotient: "length (quotient cs r) = length cs - 1"
  by (induction cs r rule: quotient.induct) simp_all

lemma quotient_zero: "set (quotient cs r) \<subseteq> {0} \<Longrightarrow> horner cs r = 0 \<Longrightarrow> set cs \<subseteq> {0}"
  by (induction cs r rule: quotient.induct) auto

lemma horner_roots:
  fixes cs :: "'a :: idom list"
  assumes "\<not> set cs \<subseteq> {0}"
  shows "finite {x. horner cs x = 0} \<and> card {x. horner cs x = 0} < length cs"
  using assms
proof (induction "length cs" arbitrary: cs rule: less_induct)
  case less
  show ?case
  proof (cases "\<exists>r. horner cs r = 0")
    case False
    then show ?thesis using less.prems by (cases cs) auto
  next
    case True
    then obtain r where r: "horner cs r = 0" by blast
    let ?q = "quotient cs r"
    have q: "\<not> set ?q \<subseteq> {0}" using less.prems r quotient_zero by blast
    then have "0 < length ?q" by (cases ?q) auto
    then have len: "length ?q < length cs" "Suc (length ?q) \<le> length cs"
      by (simp_all add: length_quotient)
    have roots: "{x. horner cs x = 0} = insert r {x. horner ?q x = 0}"
      using horner_quotient [of cs _ r] r by auto
    from less.hyps [OF len(1) q] len(2) show ?thesis
      unfolding roots using card_insert_le_m1 [of _ "{x. horner ?q x = 0}" r]
      by (auto intro: le_less_trans [OF card_insert_le_m1])
  qed
qed

end
