(* ===== verification/HomCom_Correct.thy ===== *)
theory HomCom_Correct
  imports HomCom Roots
begin

text \<open>
  Correctness of the homomorphic commitments: the relation between the states of the two
  parties, which every operation keeps; the affine operations on MACs; the completeness of the
  protocols when both parties follow the code; and what acceptance by the verifier implies for
  an arbitrary prover.
\<close>

subsection \<open>The interface of a field implementation\<close>

locale finite_field =
  fixes F :: "('p :: comm_ring_1, 'f :: comm_ring_1) field_impl"
  assumes prime_serializable: "serializable (prime_codec F)"
    and field_serializable: "serializable (field_codec F)"
    and smul_add: "smul F (a + b) x = smul F a x + smul F b x"
    and smul_mult: "smul F (a * b) x = smul F a (smul F b x)"
    and smul_one: "smul F 1 x = x"
    and smul_assoc: "smul F a (x * y) = smul F a x * y"

text \<open>The prime field inside the field.\<close>

definition emb :: "('p, 'f :: comm_ring_1) field_impl \<Rightarrow> 'p \<Rightarrow> 'f" where
  "emb F a = smul F a 1"

text \<open>A MAC and its key, and the pairs of VOLEs they come from.\<close>

definition mac_ok :: "('p, 'f :: comm_ring_1) field_impl \<Rightarrow> 'f \<Rightarrow> ('p, 'f) mac_prover \<Rightarrow> 'f mac_verifier \<Rightarrow> bool" where
  "mac_ok F d p k \<longleftrightarrow> prover_mac p = verifier_mac k + smul F (mac_value p) d"

definition vole_ok :: "('p, 'f :: comm_ring_1) field_impl \<Rightarrow> 'f \<Rightarrow> 'p \<times> 'f \<Rightarrow> 'f \<Rightarrow> bool" where
  "vole_ok F d e k \<longleftrightarrow> snd e = k + smul F (fst e) d"

text \<open>
  Corresponding states: correlated stacks and batches of the same shape, equal statistics, no
  empty batch, and at least \<open>n\<close> VOLEs to come.
\<close>

definition vole_supply :: "('v, 'z) fcom_scheme \<Rightarrow> nat" where
  "vole_supply s = length (voles s) + length (concat (svole s))"

definition fcom_ok ::
  "('p, 'f :: comm_ring_1) field_impl \<Rightarrow> 'f \<Rightarrow> nat \<Rightarrow> ('p, 'f) fcom_prover \<Rightarrow> 'f fcom_verifier \<Rightarrow> bool" where
  "fcom_ok F d n s t \<longleftrightarrow>
     delta t = d \<and> stats s = stats t \<and>
     list_all2 (vole_ok F d) (voles s) (voles t) \<and>
     list_all2 (list_all2 (vole_ok F d)) (svole s) (svole t) \<and>
     [] \<notin> set (svole s) \<and> n \<le> vole_supply s"

lemma fcom_ok_mono: "fcom_ok F d n s t \<Longrightarrow> m \<le> n \<Longrightarrow> fcom_ok F d m s t"
  by (simp add: fcom_ok_def)

lemma fcom_ok_delta: "fcom_ok F d n s t \<Longrightarrow> delta t = d"
  by (simp add: fcom_ok_def)

subsection \<open>Random MACs\<close>

abbreviation used_stats :: "fcom_stats \<Rightarrow> fcom_stats" where
  "used_stats st \<equiv> st\<lparr>num_voles_used := num_voles_used st + 1\<rparr>"

abbreviation extended_stats :: "fcom_stats \<Rightarrow> fcom_stats" where
  "extended_stats st \<equiv> (used_stats st)\<lparr>num_vole_extensions_performed := num_vole_extensions_performed st + 1\<rparr>"

lemmas next_vole_defs = next_vole_def count_vole_def count_extension_def pop_vole_def
  svole_extend_def p_bind_def p_get_def p_put_def p_return_def p_fail_def

lemma next_vole_pop:
  "voles s \<noteq> [] \<Longrightarrow>
   runs next_vole s [] [] (Inr (last (voles s))) (s\<lparr>voles := butlast (voles s), stats := used_stats (stats s)\<rparr>)"
  by (simp add: runs_def next_vole_defs)

lemma next_vole_extend:
  "voles s = [] \<Longrightarrow> svole s = b # bs \<Longrightarrow> b \<noteq> [] \<Longrightarrow>
   runs next_vole s [] [] (Inr (last b)) (s\<lparr>svole := bs, voles := butlast b, stats := extended_stats (stats s)\<rparr>)"
  by (simp add: runs_def next_vole_defs)

lemma next_vole_empty:
  "voles s = [] \<Longrightarrow> svole s = [] \<or> (\<exists>bs. svole s = [] # bs) \<Longrightarrow>
   \<exists>s'. runs next_vole s [] [] (Inl Err) s'"
  by (auto simp: runs_def next_vole_defs)

lemma list_all2_butlast: "list_all2 P xs ys \<Longrightarrow> list_all2 P (butlast xs) (butlast ys)"
  by (simp add: list_all2_conv_all_nth nth_butlast)

lemma list_all2_last: "list_all2 P xs ys \<Longrightarrow> xs \<noteq> [] \<Longrightarrow> P (last xs) (last ys)"
  by (induction rule: list_all2_induct) (auto dest: list_all2_lengthD)

lemma list_all2_concat_length: "list_all2 (list_all2 P) xs ys \<Longrightarrow> length (concat xs) = length (concat ys)"
  by (induction rule: list_all2_induct) (auto dest: list_all2_lengthD)

lemma silent_next_vole:
  assumes ok: "fcom_ok F d (Suc n) s t"
  shows "silent next_vole next_vole s t (\<lambda>e s' k t'. vole_ok F d e k \<and> fcom_ok F d n s' t')"
proof (cases "voles s = []")
  case False
  moreover from this ok have "voles t \<noteq> []" by (auto simp: fcom_ok_def)
  ultimately show ?thesis
    using ok by (intro silentI [OF next_vole_pop next_vole_pop])
      (auto simp: fcom_ok_def vole_supply_def list_all2_butlast list_all2_last)
next
  case True
  with ok obtain b bs where b: "svole s = b # bs" "b \<noteq> []"
    by (cases "svole s") (auto simp: fcom_ok_def vole_supply_def)
  with ok obtain c cs where c: "svole t = c # cs" "list_all2 (vole_ok F d) b c"
      "list_all2 (list_all2 (vole_ok F d)) bs cs"
    by (auto simp: fcom_ok_def list_all2_Cons1)
  then have "c \<noteq> []" using b by auto
  moreover have "voles t = []" using ok True by (auto simp: fcom_ok_def)
  ultimately show ?thesis
    using ok True b c by (intro silentI [OF next_vole_extend next_vole_extend])
      (auto simp: fcom_ok_def vole_supply_def list_all2_butlast list_all2_last)
qed

lemma silent_random:
  assumes "fcom_ok F d (Suc n) s t"
  shows "silent prover_random verifier_random s t (\<lambda>p s' k t'. mac_ok F d p k \<and> fcom_ok F d n s' t')"
  unfolding prover_random_def verifier_random_def
  by (rule silent_bind [OF silent_next_vole [OF assms]], rule silent_return)
    (auto simp: vole_ok_def mac_ok_def)

lemmas joint_random = joint_silent [OF silent_random]

subsection \<open>The protocols between honest parties\<close>

text \<open>A loop each of whose passes consumes \<open>c\<close> of the promised VOLEs.\<close>

lemma joint_mapM_supplies:
  assumes "list_all2 A xs ys" and "I (length xs * c + n) s t"
    and "\<And>m x y s t. A x y \<Longrightarrow> I (c + m) s t \<Longrightarrow> joint (f x) (g y) s t (\<lambda>a s' b t'. B x y a b \<and> I m s' t')"
  shows "joint (p_mapM f xs) (p_mapM g ys) s t (\<lambda>as s' bs t'.
    length as = length xs \<and> length bs = length xs \<and>
    (\<forall>i < length xs. B (xs ! i) (ys ! i) (as ! i) (bs ! i)) \<and> I n s' t')"
  using assms(1,2)
proof (induction xs ys arbitrary: s t rule: list_all2_induct)
  case Nil
  then show ?case by (simp add: joint_return)
next
  case (Cons x xs y ys)
  then have "I (c + (length xs * c + n)) s t" by (simp add: add.assoc)
  from assms(3) [OF Cons.hyps(1) this] show ?case
    unfolding p_mapM.simps
  proof (rule joint_bind, elim conjE, intro joint_bind [OF Cons.IH])
    fix a b as s2 bs t2
    assume B: "B x y a b"
      and "length as = length xs \<and> length bs = length xs \<and>
        (\<forall>i < length xs. B (xs ! i) (ys ! i) (as ! i) (bs ! i)) \<and> I n s2 t2"
    then show "joint (p_return (a # as)) (p_return (b # bs)) s2 t2 (\<lambda>as s' bs t'.
        length as = length (x # xs) \<and> length bs = length (x # xs) \<and>
        (\<forall>i < length (x # xs). B ((x # xs) ! i) ((y # ys) ! i) (as ! i) (bs ! i)) \<and> I n s' t')"
      by (intro joint_return) (auto simp: nth_Cons split: nat.split)
  qed
qed

lemmas joint_mapM_supply = joint_mapM_supplies [where c = 1, simplified]

subsection \<open>What the messages are made of\<close>

text \<open>The bytes and the seed of an opening.\<close>

definition opening_bytes :: "('p, 'f) field_impl \<Rightarrow> 'p list \<Rightarrow> u8 list" where
  "opening_bytes F xs = concat (map (to_bytes (prime_codec F)) xs)"

definition opening_seed :: "('p, 'f) field_impl \<Rightarrow> 'p list \<Rightarrow> u8 list" where
  "opening_seed F xs = blake3 F (opening_bytes F xs)"

text \<open>The sums of the check of multiplications, over weights that start at \<open>chi\<close>.\<close>

definition weighted :: "'f :: comm_ring_1 \<Rightarrow> 'f list \<Rightarrow> 'f" where
  "weighted chi xs = chi * horner xs chi"

definition triple_ok ::
  "('p, 'f :: comm_ring_1) field_impl \<Rightarrow> 'f \<Rightarrow> ('p, 'f) prover_triple \<Rightarrow> 'f verifier_triple \<Rightarrow> bool" where
  "triple_ok F d = (\<lambda>(x, y, z) (x', y', z'). mac_ok F d x x' \<and> mac_ok F d y y' \<and> mac_ok F d z z')"

definition triple_error ::
  "('p :: comm_ring_1, 'f :: comm_ring_1) field_impl \<Rightarrow> ('p, 'f) prover_triple \<Rightarrow> 'f" where
  "triple_error F = (\<lambda>(x, y, z). emb F (mac_value x * mac_value y - mac_value z))"

text \<open>The masks of both parties are a MAC on a value of the field and its key.\<close>

definition vope_ok ::
  "('p, 'f :: comm_ring_1) field_impl \<Rightarrow> 'f \<Rightarrow> nat \<Rightarrow> 'f \<times> 'f \<Rightarrow> ('p, 'f) fcom_prover \<Rightarrow> 'f \<Rightarrow> 'f fcom_verifier \<Rightarrow> bool" where
  "vope_ok F d n m s k t \<longleftrightarrow> snd m = k + d * fst m \<and> fcom_ok F d n s t"

context finite_field
begin

lemma smul_emb: "smul F a x = emb F a * x"
  unfolding emb_def by (simp flip: smul_assoc)

lemma emb_add: "emb F (a + b) = emb F a + emb F b"
  by (simp add: emb_def smul_add)

lemma emb_mult: "emb F (a * b) = emb F a * emb F b"
  by (metis emb_def smul_mult smul_emb)

lemma emb_one: "emb F 1 = 1"
  by (simp add: emb_def smul_one)

lemma emb_zero: "emb F 0 = 0"
  using emb_add [of 0 0] by simp

lemma emb_uminus: "emb F (- a) = - emb F a"
  using emb_add [of a "- a"] by (simp add: emb_zero eq_neg_iff_add_eq_0 add.commute)

lemma emb_diff: "emb F (a - b) = emb F a - emb F b"
  using emb_add [of a "- b"] by (simp add: emb_uminus)

lemmas emb_simps = smul_emb emb_add emb_mult emb_one emb_zero emb_uminus emb_diff

lemma mac_ok_iff: "mac_ok F d p k \<longleftrightarrow> prover_mac p = verifier_mac k + emb F (mac_value p) * d"
  by (simp add: mac_ok_def smul_emb)

lemma mac_ok_affine_add_cst:
  "mac_ok F d p k \<Longrightarrow> mac_ok F d (prover_affine_add_cst c p) (verifier_affine_add_cst F d c k)"
  by (simp add: mac_ok_iff prover_affine_add_cst_def verifier_affine_add_cst_def emb_simps algebra_simps)

lemma mac_ok_affine_mult_cst:
  "mac_ok F d p k \<Longrightarrow> mac_ok F d (prover_affine_mult_cst F c p) (verifier_affine_mult_cst F c k)"
  by (simp add: mac_ok_iff prover_affine_mult_cst_def verifier_affine_mult_cst_def emb_simps algebra_simps)

lemma mac_ok_add:
  "mac_ok F d p k \<Longrightarrow> mac_ok F d p' k' \<Longrightarrow> mac_ok F d (prover_add p p') (verifier_add k k')"
  by (simp add: mac_ok_iff prover_add_def verifier_add_def emb_simps algebra_simps)

lemma mac_ok_neg: "mac_ok F d p k \<Longrightarrow> mac_ok F d (prover_neg p) (verifier_neg k)"
  by (simp add: mac_ok_iff prover_neg_def verifier_neg_def emb_simps algebra_simps)

lemma mac_ok_sub:
  "mac_ok F d p k \<Longrightarrow> mac_ok F d p' k' \<Longrightarrow> mac_ok F d (prover_sub p p') (verifier_sub k k')"
  by (simp add: mac_ok_iff prover_sub_def verifier_sub_def emb_simps algebra_simps)

lemma mac_ok_default: "mac_ok F d default_prover default_verifier"
  by (simp add: mac_ok_iff default_prover_def default_verifier_def emb_simps)

lemma mac_ok_select:
  "mac_ok F d p k \<Longrightarrow> mac_ok F d p' k' \<Longrightarrow> mac_ok F d (select_prover p p' c) (select_verifier k k' c)"
  by (simp add: mac_ok_iff select_prover_def select_verifier_def)

lemma mac_ok_correct:
  "mac_ok F d r k \<Longrightarrow> mac_ok F d (MacProver x (prover_mac r)) (MacVerifier (verifier_mac k - smul F (x - mac_value r) d))"
  by (simp add: mac_ok_iff emb_simps algebra_simps)

lemmas joint_prime_write_read = serializable.joint_write_read [OF prime_serializable]
lemmas joint_prime_write_read_seq = serializable.joint_write_read_seq [OF prime_serializable]
lemmas joint_field_write_read = serializable.joint_write_read [OF field_serializable]
lemmas field_exec = serializable.exec_write [OF field_serializable] serializable.exec_read [OF field_serializable]
lemmas prime_exec = serializable.exec_write [OF prime_serializable] serializable.exec_read [OF prime_serializable]
lemmas joint_field_read_write = serializable.joint_read_write [OF field_serializable]

lemma joint_input1:
  assumes "fcom_ok F d (Suc n) s t"
  shows "joint (prover_input1 F x) (verifier_input1 F) s t
    (\<lambda>m s' k t'. mac_ok F d (MacProver x m) k \<and> fcom_ok F d n s' t')"
  unfolding prover_input1_def verifier_input1_def
proof (rule joint_bind [OF joint_random [OF assms]], elim conjE, rule joint_prime_write_read, rule joint_right [OF runs_get])
  fix r s' k t' assume "mac_ok F d r k" "fcom_ok F d n s' t'"
  then show "joint (p_return (prover_mac r))
      (p_return (MacVerifier (verifier_mac k - smul F (x - mac_value r) (delta t')))) s' t'
      (\<lambda>m s' k t'. mac_ok F d (MacProver x m) k \<and> fcom_ok F d n s' t')"
    by (intro joint_return) (simp add: mac_ok_correct fcom_ok_delta)
qed

lemma joint_input:
  assumes "fcom_ok F d (length xs + n) s t"
  shows "joint (prover_input F xs) (verifier_input F (length xs)) s t
    (\<lambda>ms s' ks t'. length ms = length xs \<and> length ks = length xs \<and>
      (\<forall>i < length xs. mac_ok F d (MacProver (xs ! i) (ms ! i)) (ks ! i)) \<and> fcom_ok F d n s' t')"
  unfolding prover_input_def verifier_input_def prover_input_low_level_def verifier_input_low_level_def
proof (rule joint_right [OF runs_require [OF refl]], rule joint_bind)
  let ?B = "\<lambda>x (u :: nat) pm k. \<exists>r. mac_ok F d r k \<and> pm = (prover_mac r, x - mac_value r)"
  show "joint (p_mapM (\<lambda>x_i. p_bind prover_random (\<lambda>r. p_return (prover_mac r, x_i - mac_value r))) xs)
      (p_mapM (\<lambda>_. verifier_random) [0..<length xs]) s t
      (\<lambda>as s' bs t'. length as = length xs \<and> length bs = length xs \<and>
        (\<forall>i < length xs. ?B (xs ! i) ([0..<length xs] ! i) (as ! i) (bs ! i)) \<and> fcom_ok F d n s' t')"
  proof (rule joint_mapM_supply [where I = "fcom_ok F d" and A = "\<lambda>_ _. True", OF _ assms])
    fix m x y s t assume "fcom_ok F d (Suc m) s t"
    then have *: "joint prover_random verifier_random s t (\<lambda>p s' k t'. mac_ok F d p k \<and> fcom_ok F d m s' t')"
      by (rule joint_random)
    show "joint (p_bind prover_random (\<lambda>r. p_return (prover_mac r, x - mac_value r))) verifier_random s t
      (\<lambda>a s' b t'. ?B x y a b \<and> fcom_ok F d m s' t')"
      by (rule joint_map_left [OF *]) auto
  qed (simp add: list_all2_conv_all_nth)
  fix as s' bs t'
  assume *: "length as = length xs \<and> length bs = length xs \<and>
        (\<forall>i < length xs. ?B (xs ! i) ([0..<length xs] ! i) (as ! i) (bs ! i)) \<and> fcom_ok F d n s' t'"
  show "joint (p_bind (write_serializable_seq (prime_codec F) (map snd as)) (\<lambda>_. p_return ([] @ map fst as)))
      (p_bind (read_serializable_seq (prime_codec F) (length xs)) (\<lambda>corrections.
       p_bind p_get (\<lambda>s. p_return (map (\<lambda>(o_i, c_i). MacVerifier (verifier_mac o_i - smul F c_i (delta s)))
         (zip bs corrections))))) s' t'
      (\<lambda>ms s' ks t'. length ms = length xs \<and> length ks = length xs \<and>
        (\<forall>i < length xs. mac_ok F d (MacProver (xs ! i) (ms ! i)) (ks ! i)) \<and> fcom_ok F d n s' t')"
  proof (rule joint_prime_write_read_seq, simp add: *, rule joint_right [OF runs_get], rule joint_return, intro conjI allI impI)
    fix i assume i: "i < length xs"
    with * obtain r where "mac_ok F d r (bs ! i)" "as ! i = (prover_mac r, xs ! i - mac_value r)" by blast
    moreover have "delta t' = d" using * fcom_ok_delta by blast
    ultimately show "mac_ok F d (MacProver (xs ! i) (([] @ map fst as) ! i))
        (map (\<lambda>(o_i, c_i). MacVerifier (verifier_mac o_i - smul F c_i (delta t'))) (zip bs (map snd as)) ! i)"
      using * i mac_ok_correct [of d r "bs ! i" "xs ! i"] by simp
  qed (use * in simp_all)
qed

subsection \<open>Checking zeros\<close>

lemma combine_sum: "combine chis ms = (\<Sum>(c, x)\<leftarrow>zip chis ms. c * (x :: 'a :: comm_ring_1))"
proof -
  have "foldl (\<lambda>m (c, x). m + c * x) a zs = a + (\<Sum>(c, x)\<leftarrow>zs. c * x)" for a and zs :: "('a \<times> 'a) list"
    by (induction zs arbitrary: a) (auto simp: add.assoc)
  from this [of 0] show ?thesis by (simp add: combine_def)
qed

lemma combine_Nil [simp]: "combine [] ms = 0" "combine chis [] = 0"
  by (simp_all add: combine_sum)

lemma combine_Cons [simp]: "combine (c # chis) (x # ms) = c * x + combine chis ms"
  by (simp add: combine_sum)

text \<open>The combination of the MACs is that of the keys, plus the key times that of the values.\<close>

lemma combine_macs:
  assumes "list_all2 (mac_ok F d) ps ks"
  shows "combine chis (map prover_mac ps) =
    combine chis (map verifier_mac ks) + d * combine chis (map (\<lambda>p. emb F (mac_value p)) ps)"
  using assms
proof (induction arbitrary: chis rule: list_all2_induct)
  case (Cons p ps k ks)
  then show ?case
    by (cases chis) (simp_all add: mac_ok_iff algebra_simps)
qed simp

lemma combine_zeros: "(\<forall>x \<in> set xs. x = 0) \<Longrightarrow> combine chis xs = 0"
proof (induction xs arbitrary: chis)
  case (Cons x xs)
  then show ?case by (cases chis) simp_all
qed simp

lemma length_challenges [simp]: "length (challenges F seed n) = n"
  by (simp add: challenges_def)

lemma all_zero_loop: "foldl (\<lambda>b x. b \<and> mac_value x = 0) b xs \<longleftrightarrow> b \<and> (\<forall>x \<in> set xs. mac_value x = 0)"
  by (induction xs arbitrary: b) auto

text \<open>
  The complete behaviour of \<open>check_zero\<close>: the prover reports an error exactly when a value is
  not zero, and sends its message anyway; the verifier compares with the combined keys.
\<close>

lemma runs_prover_check_zero:
  assumes "length seed = 16"
  shows "runs (prover_check_zero F ps) s seed
    (to_bytes (field_codec F) (combine (challenges F seed (length ps)) (map prover_mac ps)))
    (if \<forall>p \<in> set ps. mac_value p = 0 then Inr () else Inl Err) s"
  using assms by (simp add: runs_def prover_check_zero_def Let_def all_zero_loop exec field_exec)

lemma runs_verifier_check_zero:
  "runs (verifier_check_zero F seed ks) t (to_bytes (field_codec F) m) seed
    (if m = combine (challenges F seed (length ks)) (map verifier_mac ks) then Inr () else Inl Err) t"
  by (simp add: runs_def verifier_check_zero_def Let_def exec field_exec)

subsection \<open>Opening\<close>

lemma exec_write_values:
  "p_mapM (\<lambda>x. write_serializable (prime_codec F) (mac_value x)) ps s \<lparr>inbox = ib, outbox = ob\<rparr>
   = (Inr (replicate (length ps) ()), s, \<lparr>inbox = ib, outbox = ob @ opening_bytes F (map mac_value ps)\<rparr>)"
  by (induction ps arbitrary: ob) (simp_all add: exec prime_exec opening_bytes_def)

lemma exec_read_values:
  "length xs = length ks \<Longrightarrow>
   p_mapM (\<lambda>_. read_serializable (prime_codec F)) ks s \<lparr>inbox = opening_bytes F xs @ ib, outbox = ob\<rparr>
   = (Inr xs, s, \<lparr>inbox = ib, outbox = ob\<rparr>)"
proof (induction ks arbitrary: xs)
  case Nil
  then show ?case by (simp add: exec opening_bytes_def)
next
  case (Cons k ks)
  then obtain x xs' where "xs = x # xs'" "length xs' = length ks" by (cases xs) auto
  with Cons.IH show ?case by (simp add: exec prime_exec opening_bytes_def)
qed

lemma value_loop:
  "foldl (\<lambda>x_chi (chi, x). x_chi + smul F x chi) a (zip chis xs) = a + combine chis (map (emb F) xs)"
proof (induction xs arbitrary: a chis)
  case (Cons x xs)
  then show ?case by (cases chis) (simp_all add: smul_emb mult.commute add.assoc)
qed simp

lemma opening_seed_prover:
  "blake3 F (concat (map (\<lambda>x. to_bytes (prime_codec F) (mac_value x)) ps)) = opening_seed F (map mac_value ps)"
  by (simp add: opening_seed_def opening_bytes_def comp_def)

lemma opening_seed_verifier: "blake3 F (concat (map (to_bytes (prime_codec F)) xs)) = opening_seed F xs"
  by (simp add: opening_seed_def opening_bytes_def)

lemma runs_prover_open:
  "runs (prover_open F ps) s []
    (opening_bytes F (map mac_value ps) @ to_bytes (field_codec F)
      (combine (challenges F (opening_seed F (map mac_value ps)) (length ps)) (map prover_mac ps)))
    (Inr ()) s"
  by (simp add: runs_def prover_open_def Let_def exec field_exec exec_write_values opening_seed_prover)

lemma runs_verifier_open:
  assumes "length xs = length ks"
  shows "runs (verifier_open F ks) t (opening_bytes F xs @ to_bytes (field_codec F) m) []
    (let chis = challenges F (opening_seed F xs) (length ks) in
     if combine chis (map verifier_mac ks) + delta t * combine chis (map (emb F) xs) = m then Inr xs else Inl Err) t"
  using assms
  by (simp add: runs_def verifier_open_def Let_def exec field_exec exec_read_values value_loop
      opening_seed_verifier p_require_def)

lemma joint_open:
  assumes "list_all2 (mac_ok F d) ps ks" and "delta t = d"
  shows "joint (prover_open F ps) (verifier_open F ks) s t
    (\<lambda>_ s' out t'. out = map mac_value ps \<and> s' = s \<and> t' = t)"
proof (rule jointI [OF runs_prover_open])
  have len: "length ps = length ks" using assms(1) by (rule list_all2_lengthD)
  let ?m = "combine (challenges F (opening_seed F (map mac_value ps)) (length ps)) (map prover_mac ps)"
  show "runs (verifier_open F ks) t (opening_bytes F (map mac_value ps) @ to_bytes (field_codec F) ?m) []
      (Inr (map mac_value ps)) t"
    using runs_verifier_open [of "map mac_value ps" ks t ?m] combine_macs [OF assms(1)] len assms(2)
    by (simp add: Let_def comp_def)
qed simp

subsection \<open>Checking multiplications\<close>

lemma weighted_loop:
  "foldl (\<lambda>(a, w) t. (a + f t * w, w * chi)) (a, w) ts = (a + w * horner (map f ts) chi, w * chi ^ length ts)"
  by (induction ts arbitrary: a w) (simp_all add: algebra_simps)

lemma weighted_loop2:
  "foldl (\<lambda>(a, b, w) t. (a + f t * w, b + g t * w, w * chi)) (a, b, w) ts
   = (a + w * horner (map f ts) chi, b + w * horner (map g ts) chi, w * chi ^ length ts)"
  by (induction ts arbitrary: a b w) (simp_all add: algebra_simps)

lemma horner_add: "length xs = length ys \<Longrightarrow> horner (map2 (+) xs ys) x = horner xs x + horner ys x"
  by (induction xs ys rule: list_induct2) (simp_all add: algebra_simps)

lemma triple_identity:
  "triple_ok F d p k \<Longrightarrow> verifier_b d k = prover_a0 F p - d * prover_a1 F p + d * d * triple_error F p"
  by (cases p; cases k)
    (simp add: triple_ok_def triple_error_def verifier_b_def prover_a0_def prover_a1_def mac_ok_iff
      emb_simps algebra_simps)

lemma weighted_identity:
  assumes "list_all2 (triple_ok F d) ps ks"
  shows "weighted chi (map (verifier_b d) ks) =
    weighted chi (map (prover_a0 F) ps) - d * weighted chi (map (prover_a1 F) ps)
      + d * d * weighted chi (map (triple_error F) ps)"
proof -
  have "horner (map (verifier_b d) ks) chi = horner (map (prover_a0 F) ps) chi
      - d * horner (map (prover_a1 F) ps) chi + d * d * horner (map (triple_error F) ps) chi"
    using assms
  proof (induction rule: list_all2_induct)
    case (Cons p ps k ks)
    show ?case
      unfolding list.map horner.simps Cons.IH triple_identity [OF Cons.hyps(1)]
      by (simp add: algebra_simps)
  qed simp
  then show ?thesis
    unfolding weighted_def by (simp only:) (simp add: algebra_simps)
qed

lemma silent_vope_step:
  assumes "vope_ok F d (Suc n) m s k t"
  shows "silent (prover_vope_step F m i) (verifier_vope_step F k i) s t (vope_ok F d n)"
proof -
  have ok: "fcom_ok F d (Suc n) s t" and m: "snd m = k + d * fst m"
    using assms by (simp_all add: vope_ok_def)
  show ?thesis
    unfolding prover_vope_step_def verifier_vope_step_def
    by (cases m, simp only: prod.case, rule silent_bind [OF silent_random [OF ok]])
      (use m in \<open>auto simp: Let_def vope_ok_def mac_ok_iff smul_emb algebra_simps intro!: silent_return\<close>)
qed

lemma silent_vope_loop:
  "vope_ok F d (length is + n) m s k t \<Longrightarrow>
   silent (p_foldM (prover_vope_step F) m is) (p_foldM (verifier_vope_step F) k is) s t (vope_ok F d n)"
proof (induction "is" arbitrary: m s k t)
  case (Cons i "is")
  then have "vope_ok F d (Suc (length is + n)) m s k t" by simp
  from silent_bind [OF silent_vope_step [OF this] Cons.IH] show ?case
    by simp
qed (simp add: silent_return)

lemma silent_vope:
  assumes "fcom_ok F d (degree F + n) s t"
  shows "silent (prover_vope F) (verifier_vope F) s t (vope_ok F d n)"
  unfolding prover_vope_def verifier_vope_def
  using assms by (intro silent_vope_loop) (simp add: vope_ok_def)

lemma weighted_eqs:
  "foldl (\<lambda>(a, w) t. (a + f t * w, w * chi)) (0, chi) ts = (weighted chi (map f ts), chi * chi ^ length ts)"
  "foldl (\<lambda>(a, b, w) t. (a + f t * w, b + g t * w, w * chi)) (0, 0, chi) ts
   = (weighted chi (map f ts), weighted chi (map g ts), chi * chi ^ length ts)"
  by (simp_all add: weighted_loop weighted_loop2 weighted_def)

lemma runs_prover_check_multiply:
  assumes "runs (prover_vope F) s [] [] (Inr m) s'"
  shows "runs (prover_check_multiply F ps) s (to_bytes (field_codec F) chi)
    (to_bytes (field_codec F) (weighted chi (map (prover_a0 F) ps) + snd m) @
     to_bytes (field_codec F) (weighted chi (map (prover_a1 F) ps) + fst m)) (Inr ()) s'"
  using assms
  by (cases m) (simp add: runs_def prover_check_multiply_def Let_def weighted_eqs exec field_exec)

lemma runs_verifier_check_multiply:
  assumes "runs (verifier_vope F) t [] [] (Inr k) t'" and "delta t = d"
  shows "runs (verifier_check_multiply F chi ks) t
    (to_bytes (field_codec F) u @ to_bytes (field_codec F) v) (to_bytes (field_codec F) chi)
    (if weighted chi (map (verifier_b d) ks) + k = u - d * v then Inr () else Inl Err) t'"
  using assms
  by (simp add: runs_def verifier_check_multiply_def Let_def weighted_eqs exec field_exec)

text \<open>What the pushes accumulate.\<close>

lemma prover_pushes:
  "foldl (prover_push F) q ps =
   q\<lparr>sum_a0 := sum_a0 q + chi_power q * horner (map (prover_a0 F) ps) (prover_chi q),
     sum_a1 := sum_a1 q + chi_power q * horner (map (prover_a1 F) ps) (prover_chi q),
     chi_power := chi_power q * prover_chi q ^ length ps,
     prover_cnt := prover_cnt q + length ps\<rparr>"
  by (induction ps arbitrary: q) (simp_all add: prover_push_def algebra_simps)

lemma verifier_pushes:
  "foldl (verifier_push d) q ks =
   q\<lparr>sum_b := sum_b q + power_chi q * horner (map (verifier_b d) ks) (verifier_chi q),
     power_chi := power_chi q * verifier_chi q ^ length ks,
     verifier_cnt := verifier_cnt q + length ks\<rparr>"
  by (induction ks arbitrary: q) (simp_all add: verifier_push_def algebra_simps)

end

text \<open>The states in which a check starts.\<close>

definition fresh_prover_check :: "'f :: comm_ring_1 \<Rightarrow> 'f mult_prover" where
  "fresh_prover_check chi = \<lparr>sum_a0 = 0, sum_a1 = 0, chi_power = chi, prover_chi = chi, prover_cnt = 0\<rparr>"

definition fresh_verifier_check :: "'f :: comm_ring_1 \<Rightarrow> 'f mult_verifier" where
  "fresh_verifier_check chi = \<lparr>sum_b = 0, power_chi = chi, verifier_chi = chi, verifier_cnt = 0\<rparr>"

context finite_field
begin

lemma runs_prover_finalize:
  assumes "runs (prover_vope F) s [] [] (Inr m) s'"
  shows "runs (prover_finalize F) (s, foldl (prover_push F) (fresh_prover_check chi) ps) []
    (to_bytes (field_codec F) (weighted chi (map (prover_a0 F) ps) + snd m) @
     to_bytes (field_codec F) (weighted chi (map (prover_a1 F) ps) + fst m))
    (Inr (length ps)) (s', fresh_prover_check chi)"
  using assms
  by (cases m) (simp add: runs_def prover_finalize_def prover_pushes fresh_prover_check_def
      mult_prover_reset_def weighted_def p_zoom_def exec field_exec)

lemma runs_verifier_finalize:
  assumes "runs (verifier_vope F) t [] [] (Inr k) t'" and "delta t' = d"
  shows "runs (verifier_finalize F) (t, foldl (verifier_push d) (fresh_verifier_check chi) ks)
    (to_bytes (field_codec F) u @ to_bytes (field_codec F) v) []
    (if weighted chi (map (verifier_b d) ks) + k = u - d * v then Inr (length ks) else Inl Err)
    (t', fresh_verifier_check chi)"
  using assms
  by (simp add: runs_def verifier_finalize_def verifier_pushes fresh_verifier_check_def
      mult_verifier_reset_def weighted_def p_zoom_def exec field_exec)

lemma multiply_identity:
  assumes "list_all2 (triple_ok F d) ps ks" and "vope_ok F d n m s k t"
  shows "weighted chi (map (verifier_b d) ks) + k =
      (weighted chi (map (prover_a0 F) ps) + snd m) - d * (weighted chi (map (prover_a1 F) ps) + fst m)
    \<longleftrightarrow> d * d * weighted chi (map (triple_error F) ps) = 0"
  using assms(2) unfolding weighted_identity [OF assms(1)] vope_ok_def by (simp add: algebra_simps)

lemma triples_correct:
  assumes "\<forall>(x, y, z) \<in> set ps. mac_value z = mac_value x * mac_value y"
  shows "weighted chi (map (triple_error F) ps) = 0"
proof -
  have "horner (map (triple_error F) ps) chi = 0"
    using assms by (induction ps) (auto simp: triple_error_def emb_simps)
  then show ?thesis by (simp add: weighted_def)
qed

text \<open>The protocols as the clients of the commitments call them: honest values, valid MACs.\<close>

lemma joint_input_macs:
  assumes "fcom_ok F d (length xs + n) s t"
  shows "joint (prover_input F xs) (verifier_input F (length xs)) s t
    (\<lambda>ms s' ks t'. length ms = length xs \<and> list_all2 (mac_ok F d) (map2 MacProver xs ms) ks \<and> fcom_ok F d n s' t')"
  by (rule joint_mono [OF joint_input [OF assms]]) (auto simp: list_all2_conv_all_nth)

lemma joint_check_zero:
  assumes "list_all2 (mac_ok F d) ps ks" and "length seed = 16" and "\<forall>p \<in> set ps. mac_value p = 0"
  shows "joint (prover_check_zero F ps) (verifier_check_zero F seed ks) s t (\<lambda>_ s' _ t'. s' = s \<and> t' = t)"
proof (rule jointI)
  let ?m = "combine (challenges F seed (length ps)) (map prover_mac ps)"
  show "runs (prover_check_zero F ps) s seed (to_bytes (field_codec F) ?m) (Inr ()) s"
    using runs_prover_check_zero [OF assms(2), of ps s] assms(3) by simp
  have "combine (challenges F seed (length ps)) (map (\<lambda>p. emb F (mac_value p)) ps) = 0"
    using assms(3) by (intro combine_zeros) (auto simp: emb_zero)
  then have "?m = combine (challenges F seed (length ks)) (map verifier_mac ks)"
    using combine_macs [OF assms(1)] assms(1) by (simp add: list_all2_lengthD)
  then show "runs (verifier_check_zero F seed ks) t (to_bytes (field_codec F) ?m) seed (Inr ()) t"
    using runs_verifier_check_zero [of seed ks t ?m] by simp
qed simp

lemma joint_check_multiply:
  assumes "fcom_ok F d (degree F + n) s t" and "list_all2 (triple_ok F d) ps ks"
    and "\<forall>(x, y, z) \<in> set ps. mac_value z = mac_value x * mac_value y"
  shows "joint (prover_check_multiply F ps) (verifier_check_multiply F chi ks) s t (\<lambda>_ s' _ t'. fcom_ok F d n s' t')"
proof -
  obtain m s' k t' where vope: "runs (prover_vope F) s [] [] (Inr m) s'" "runs (verifier_vope F) t [] [] (Inr k) t'"
      "vope_ok F d n m s' k t'"
    using silent_vope [OF assms(1)] by (rule silentE)
  let ?u = "weighted chi (map (prover_a0 F) ps) + snd m" and ?v = "weighted chi (map (prover_a1 F) ps) + fst m"
  have "runs (verifier_check_multiply F chi ks) t (to_bytes (field_codec F) ?u @ to_bytes (field_codec F) ?v)
      (to_bytes (field_codec F) chi) (Inr ()) t'"
    using runs_verifier_check_multiply [OF vope(2) fcom_ok_delta [OF assms(1)], of chi ks ?u ?v]
    unfolding multiply_identity [OF assms(2) vope(3)] triples_correct [OF assms(3)] by simp
  from jointI [OF runs_prover_check_multiply [OF vope(1)] this] vope(3) show ?thesis
    by (simp add: vope_ok_def)
qed

end

subsection \<open>The implementations\<close>

text \<open>
  F61p over itself and F2 over itself: the scalar product is the product, the degree is 1, and
  \<open>form_superfield\<close> returns the only component.
\<close>

definition F61p_impl ::
  "(u8 list \<Rightarrow> nat \<Rightarrow> F61p) \<Rightarrow> (u8 list \<Rightarrow> u8 list) \<Rightarrow> (F61p, F61p) field_impl" where
  "F61p_impl rnd hash = \<lparr>prime_codec = F61p_codec, field_codec = F61p_codec, smul = (*), degree = 1,
     form_superfield = (\<lambda>v. v ! 0), fe_random = rnd, blake3 = hash\<rparr>"

definition F2_impl ::
  "(u8 list \<Rightarrow> nat \<Rightarrow> F2) \<Rightarrow> (u8 list \<Rightarrow> u8 list) \<Rightarrow> (F2, F2) field_impl" where
  "F2_impl rnd hash = \<lparr>prime_codec = F2_codec, field_codec = F2_codec, smul = (*), degree = 1,
     form_superfield = (\<lambda>v. v ! 0), fe_random = rnd, blake3 = hash\<rparr>"

interpretation f61_field: finite_field "F61p_impl rnd hash" for rnd hash
  by unfold_locales
    (simp_all add: F61p_impl_def distrib_right mult.assoc F61p_codec.length_to_bytes F61p_codec.from_to_bytes
      F61p_codec.length_seq_write F61p_codec.seq_read_write)

interpretation f2_field: finite_field "F2_impl rnd hash" for rnd hash
  by unfold_locales
    (simp_all add: F2_impl_def distrib_right mult.assoc F2_codec.length_to_bytes F2_codec.from_to_bytes
      F2_codec.length_seq_write F2_codec.seq_read_write)

end
