(* ===== verification/HomCom_Properties.thy ===== *)
theory HomCom_Properties
  imports HomCom_Correct
begin

text \<open>
  The properties of the homomorphic commitments, over every field implementation that keeps the
  laws of the interface, with witnesses over F61p.
\<close>

lemma runs_unique: "runs P s i out r s' \<Longrightarrow> runs P s i out' r' s'' \<Longrightarrow> r = r' \<and> out = out' \<and> s' = s''"
  unfolding runs_def by (metis (no_types, lifting) Pair_inject append_Nil chan.ext_inject)

text \<open>A pair of states of F61p with five VOLEs, for the witnesses.\<close>

definition demo_prover :: "(F61p, F61p) fcom_prover" where
  "demo_prover = \<lparr>svole = [[(1, 3), (0, 2)]], voles = [(0, 1), (1, 2), (0, 5)], stats = no_stats\<rparr>"

definition demo_verifier :: "F61p fcom_verifier" where
  "demo_verifier = \<lparr>svole = [[2, 2]], voles = [1, 1, 5], stats = no_stats, delta = 1\<rparr>"

abbreviation demo_field :: "(F61p, F61p) field_impl" where
  "demo_field \<equiv> F61p_impl (\<lambda>seed i. 1) (\<lambda>bs. bs)"

lemma demo_ok: "n \<le> 5 \<Longrightarrow> fcom_ok demo_field 1 n demo_prover demo_verifier"
  by (simp add: fcom_ok_def demo_prover_def demo_verifier_def vole_ok_def F61p_impl_def vole_supply_def)

lemma demo_macs:
  "mac_ok demo_field 1 (MacProver 0 7) (MacVerifier 7)" "mac_ok demo_field 1 (MacProver 2 9) (MacVerifier 7)"
  by (simp_all add: mac_ok_def F61p_impl_def)

text \<open>
  C24. The MAC relation m = k + Delta x is kept by every operation on MACs: adding and
  multiplying by constants, adding, negating, subtracting and selecting, on the two sides
  separately; the value of the result is the operation on the values.
\<close>

theorem mac_operations:
  assumes "finite_field F" and "mac_ok F d p k" and "mac_ok F d p' k'"
  shows "mac_ok F d (prover_affine_add_cst c p) (verifier_affine_add_cst F d c k) \<and>
    mac_ok F d (prover_affine_mult_cst F c p) (verifier_affine_mult_cst F c k) \<and>
    mac_ok F d (prover_add p p') (verifier_add k k') \<and>
    mac_ok F d (prover_neg p) (verifier_neg k) \<and>
    mac_ok F d (prover_sub p p') (verifier_sub k k') \<and>
    mac_ok F d (select_prover p p' b) (select_verifier k k' b) \<and>
    mac_ok F d default_prover default_verifier \<and>
    mac_value (prover_affine_add_cst c p) = c + mac_value p \<and>
    mac_value (prover_affine_mult_cst F c p) = c * mac_value p \<and>
    mac_value (prover_add p p') = mac_value p + mac_value p' \<and>
    mac_value (prover_neg p) = - mac_value p \<and>
    mac_value (prover_sub p p') = mac_value p - mac_value p' \<and>
    mac_value (select_prover p p' b) = (if b then mac_value p' else mac_value p)"
  using assms
  by (simp add: finite_field.mac_ok_affine_add_cst finite_field.mac_ok_affine_mult_cst finite_field.mac_ok_add
      finite_field.mac_ok_neg finite_field.mac_ok_sub finite_field.mac_ok_select finite_field.mac_ok_default)
    (simp add: prover_affine_add_cst_def prover_affine_mult_cst_def prover_add_def prover_neg_def
      prover_sub_def select_prover_def)

theorem mac_operations_witness:
  "mac_ok demo_field 1 (prover_sub (MacProver 0 7) (MacProver 2 9)) (verifier_sub (MacVerifier 7) (MacVerifier 7))"
  using mac_operations [OF f61_field.finite_field_axioms demo_macs] by blast

text \<open>
  C25. Random MACs and inputs: from corresponding states with enough VOLEs left, the two parties
  finish \<open>random\<close>, \<open>input1\<close> and \<open>input\<close>, each reading what the other one writes; the prover's
  MACs are valid for its inputs under the keys of the verifier, and the states correspond again.
\<close>

theorem input_correct:
  assumes "finite_field F"
  shows "(fcom_ok F d (Suc n) s t \<longrightarrow>
      joint prover_random verifier_random s t (\<lambda>p s' k t'. mac_ok F d p k \<and> fcom_ok F d n s' t')) \<and>
    (fcom_ok F d (Suc n) s t \<longrightarrow>
      joint (prover_input1 F x) (verifier_input1 F) s t
        (\<lambda>m s' k t'. mac_ok F d (MacProver x m) k \<and> fcom_ok F d n s' t')) \<and>
    (fcom_ok F d (length xs + n) s t \<longrightarrow>
      joint (prover_input F xs) (verifier_input F (length xs)) s t
        (\<lambda>ms s' ks t'. length ms = length xs \<and> length ks = length xs \<and>
          (\<forall>i < length xs. mac_ok F d (MacProver (xs ! i) (ms ! i)) (ks ! i)) \<and> fcom_ok F d n s' t'))"
  using joint_random finite_field.joint_input1 [OF assms] finite_field.joint_input [OF assms] by blast

theorem input_correct_witness:
  "joint (prover_input demo_field [5, 6]) (verifier_input demo_field 2) demo_prover demo_verifier
    (\<lambda>ms s' ks t'. length ms = 2 \<and> length ks = 2 \<and>
      (\<forall>i < 2. mac_ok demo_field 1 (MacProver ([5, 6] ! i) (ms ! i)) (ks ! i)) \<and> fcom_ok demo_field 1 3 s' t')"
  using input_correct [OF f61_field.finite_field_axioms, of "\<lambda>seed i. 1" "\<lambda>bs. bs" 1 3 demo_prover demo_verifier 0 "[5, 6]"]
    demo_ok [of 5]
  by (simp add: numeral_2_eq_2 eval_nat_numeral)

text \<open>
  C26. \<open>check_zero\<close>, completely: whatever the values are, the prover writes the combination of
  its MACs and fails exactly when a value is not zero; on that message the verifier accepts
  exactly when Delta times the combined values is zero, which includes every honest run.
\<close>

theorem check_zero_exact:
  assumes "finite_field F" and "list_all2 (mac_ok F d) ps ks" and "length seed = 16"
  shows "\<exists>m. runs (prover_check_zero F ps) s seed m
      (if \<forall>p \<in> set ps. mac_value p = 0 then Inr () else Inl Err) s \<and>
    runs (verifier_check_zero F seed ks) t m seed
      (if d * combine (challenges F seed (length ps)) (map (\<lambda>p. emb F (mac_value p)) ps) = 0
       then Inr () else Inl Err) t \<and>
    ((\<forall>p \<in> set ps. mac_value p = 0) \<longrightarrow>
       joint (prover_check_zero F ps) (verifier_check_zero F seed ks) s t (\<lambda>_ s' _ t'. s' = s \<and> t' = t))"
proof -
  let ?chis = "challenges F seed (length ps)"
  let ?m = "combine ?chis (map prover_mac ps)"
  let ?x = "combine ?chis (map (\<lambda>p. emb F (mac_value p)) ps)"
  have len: "length ks = length ps" using assms(2) by (simp add: list_all2_lengthD)
  have P: "runs (prover_check_zero F ps) s seed (to_bytes (field_codec F) ?m)
      (if \<forall>p \<in> set ps. mac_value p = 0 then Inr () else Inl Err) s"
    by (rule finite_field.runs_prover_check_zero [OF assms(1,3)])
  have "?m = combine ?chis (map verifier_mac ks) \<longleftrightarrow> d * ?x = 0"
    using finite_field.combine_macs [OF assms(1,2), of ?chis] by simp
  then have V: "runs (verifier_check_zero F seed ks) t (to_bytes (field_codec F) ?m) seed
      (if d * ?x = 0 then Inr () else Inl Err) t"
    using finite_field.runs_verifier_check_zero [OF assms(1), of seed ks t ?m] len by simp
  have zero: "?x = 0" if "\<forall>p \<in> set ps. mac_value p = 0"
    using that finite_field.emb_zero [OF assms(1)] by (intro finite_field.combine_zeros [OF assms(1)]) auto
  have "joint (prover_check_zero F ps) (verifier_check_zero F seed ks) s t (\<lambda>_ s' _ t'. s' = s \<and> t' = t)"
    if "\<forall>p \<in> set ps. mac_value p = 0"
    using P V zero [OF that] that by (intro jointI) simp_all
  with P V show ?thesis by blast
qed

theorem check_zero_exact_witness:
  "joint (prover_check_zero demo_field [MacProver 0 7]) (verifier_check_zero demo_field (replicate 16 0) [MacVerifier 7])
     demo_prover demo_verifier (\<lambda>_ s' _ t'. s' = demo_prover \<and> t' = demo_verifier)"
proof -
  have "list_all2 (mac_ok demo_field 1) [MacProver 0 7] [MacVerifier 7]" by (simp add: demo_macs)
  from check_zero_exact [OF f61_field.finite_field_axioms this, of "replicate 16 0"] show ?thesis by simp blast
qed

text \<open>
  C27. Opening: from valid MACs the verifier ends with exactly the prover's values. For claimed
  values \<open>xs\<close> of any origin and any final message \<open>m\<close>, the verifier accepts exactly when the
  combination of the MACs, corrected by Delta times the combined differences, is \<open>m\<close>.
\<close>

theorem open_correct:
  assumes "finite_field F" and "list_all2 (mac_ok F (delta t)) ps ks" and "length xs = length ps"
  shows "joint (prover_open F ps) (verifier_open F ks) s t
      (\<lambda>_ s' out t'. out = map mac_value ps \<and> s' = s \<and> t' = t) \<and>
    (let chis = challenges F (opening_seed F xs) (length ps) in
     runs (verifier_open F ks) t (opening_bytes F xs @ to_bytes (field_codec F) m) []
       (if combine chis (map prover_mac ps)
           + delta t * (combine chis (map (emb F) xs) - combine chis (map (\<lambda>p. emb F (mac_value p)) ps)) = m
        then Inr xs else Inl Err) t)"
proof -
  have len: "length ks = length ps" using assms(2) by (simp add: list_all2_lengthD)
  show ?thesis
    using finite_field.joint_open [OF assms(1,2) refl, of s]
      finite_field.runs_verifier_open [OF assms(1), of xs ks t m] assms(3) len
      finite_field.combine_macs [OF assms(1,2)]
    by (simp add: Let_def algebra_simps)
qed

theorem open_correct_witness:
  "joint (prover_open demo_field [MacProver 2 9]) (verifier_open demo_field [MacVerifier 7]) demo_prover demo_verifier
     (\<lambda>_ s' out t'. out = [2] \<and> s' = demo_prover \<and> t' = demo_verifier)"
proof -
  have "list_all2 (mac_ok demo_field (delta demo_verifier)) [MacProver 2 9] [MacVerifier 7]"
    by (simp add: demo_macs demo_verifier_def)
  from open_correct [OF f61_field.finite_field_axioms this, of "[2]"] show ?thesis by simp
qed

text \<open>
  C28. The batched check of multiplications: the two parties finish \<open>quicksilver_check_multiply\<close>
  on the prover's own messages, and the verifier accepts exactly when Delta squared times the
  weighted sum of the errors x y - z is zero; for correct triples it always accepts.
\<close>

theorem check_multiply_exact:
  assumes "finite_field F" and "fcom_ok F d (degree F + n) s t" and "list_all2 (triple_ok F d) ps ks"
  shows "\<exists>out s' t'. runs (prover_check_multiply F ps) s (to_bytes (field_codec F) chi) out (Inr ()) s' \<and>
      runs (verifier_check_multiply F chi ks) t out (to_bytes (field_codec F) chi)
        (if d * d * weighted chi (map (triple_error F) ps) = 0 then Inr () else Inl Err) t' \<and>
      fcom_ok F d n s' t' \<and>
      ((\<forall>(x, y, z) \<in> set ps. mac_value z = mac_value x * mac_value y) \<longrightarrow>
        joint (prover_check_multiply F ps) (verifier_check_multiply F chi ks) s t
          (\<lambda>_ s' _ t'. fcom_ok F d n s' t'))"
proof -
  obtain m s' k t' where vope: "runs (prover_vope F) s [] [] (Inr m) s'" "runs (verifier_vope F) t [] [] (Inr k) t'"
      "vope_ok F d n m s' k t'"
    using finite_field.silent_vope [OF assms(1,2)] by (rule silentE)
  have P: "runs (prover_check_multiply F ps) s (to_bytes (field_codec F) chi)
      (to_bytes (field_codec F) (weighted chi (map (prover_a0 F) ps) + snd m) @
       to_bytes (field_codec F) (weighted chi (map (prover_a1 F) ps) + fst m)) (Inr ()) s'"
    by (rule finite_field.runs_prover_check_multiply [OF assms(1) vope(1)])
  have V: "runs (verifier_check_multiply F chi ks) t
      (to_bytes (field_codec F) (weighted chi (map (prover_a0 F) ps) + snd m) @
       to_bytes (field_codec F) (weighted chi (map (prover_a1 F) ps) + fst m)) (to_bytes (field_codec F) chi)
      (if d * d * weighted chi (map (triple_error F) ps) = 0 then Inr () else Inl Err) t'"
    using finite_field.runs_verifier_check_multiply [OF assms(1) vope(2) fcom_ok_delta [OF assms(2)],
        of chi ks "weighted chi (map (prover_a0 F) ps) + snd m" "weighted chi (map (prover_a1 F) ps) + fst m"]
    unfolding finite_field.multiply_identity [OF assms(1,3) vope(3)] .
  have ok: "fcom_ok F d n s' t'" using vope(3) by (simp add: vope_ok_def)
  have "joint (prover_check_multiply F ps) (verifier_check_multiply F chi ks) s t (\<lambda>_ s' _ t'. fcom_ok F d n s' t')"
    if "\<forall>(x, y, z) \<in> set ps. mac_value z = mac_value x * mac_value y"
    using P V ok finite_field.triples_correct [OF assms(1) that, of chi] by (intro jointI) simp_all
  with P V ok show ?thesis by blast
qed

lemma demo_triple: "list_all2 (triple_ok demo_field 1)
    [(MacProver 2 9, MacProver 2 9, MacProver (2 * 2) (7 + 2 * 2))] [(MacVerifier 7, MacVerifier 7, MacVerifier 7)]"
  using demo_macs(2) by (simp add: triple_ok_def mac_ok_def F61p_impl_def)

theorem check_multiply_exact_witness:
  "joint (prover_check_multiply demo_field [(MacProver 2 9, MacProver 2 9, MacProver (2 * 2) (7 + 2 * 2))])
     (verifier_check_multiply demo_field 3 [(MacVerifier 7, MacVerifier 7, MacVerifier 7)])
     demo_prover demo_verifier (\<lambda>_ s' _ t'. fcom_ok demo_field 1 4 s' t')"
proof -
  have "fcom_ok demo_field 1 (degree demo_field + 4) demo_prover demo_verifier"
    using demo_ok [of 5] by (simp add: F61p_impl_def)
  from check_multiply_exact [OF f61_field.finite_field_axioms this demo_triple, of 3] show ?thesis
    by (elim exE conjE) simp
qed

text \<open>
  C29. Deferring: pushing triples one by one on a fresh state and finalizing sends the same bytes
  and reaches the same verdict as the batched check with the same challenge, returns the number
  of pushed triples, and leaves both states as freshly initialized, also when the verifier
  rejects; a state dropped before that panics.
\<close>

theorem push_finalize_equals_check:
  assumes "finite_field F" and "fcom_ok F d (degree F + n) s t"
  shows "\<exists>s' t'. fcom_ok F d n s' t' \<and>
    (\<exists>out. runs (prover_check_multiply F ps) s (to_bytes (field_codec F) chi) out (Inr ()) s' \<and>
       runs (prover_finalize F) (s, foldl (prover_push F) (fresh_prover_check chi) ps) [] out
         (Inr (length ps)) (s', fresh_prover_check chi)) \<and>
    (\<forall>u v. \<exists>ok.
       runs (verifier_check_multiply F chi ks) t (to_bytes (field_codec F) u @ to_bytes (field_codec F) v)
         (to_bytes (field_codec F) chi) (if ok then Inr () else Inl Err) t' \<and>
       runs (verifier_finalize F) (t, foldl (verifier_push d) (fresh_verifier_check chi) ks)
         (to_bytes (field_codec F) u @ to_bytes (field_codec F) v) []
         (if ok then Inr (length ks) else Inl Err) (t', fresh_verifier_check chi)) \<and>
    (mult_prover_drop (foldl (prover_push F) (fresh_prover_check chi) ps) = Inl Panic \<longleftrightarrow> ps \<noteq> []) \<and>
    (mult_verifier_drop (foldl (verifier_push d) (fresh_verifier_check chi) ks) = Inl Panic \<longleftrightarrow> ks \<noteq> [])"
proof -
  obtain m s' k t' where vope: "runs (prover_vope F) s [] [] (Inr m) s'" "runs (verifier_vope F) t [] [] (Inr k) t'"
      "vope_ok F d n m s' k t'"
    using finite_field.silent_vope [OF assms] by (rule silentE)
  then have ok: "fcom_ok F d n s' t'" and delta: "delta t = d" "delta t' = d"
    using fcom_ok_delta [OF assms(2)] fcom_ok_delta by (auto simp: vope_ok_def)
  show ?thesis
  proof (intro exI conjI allI)
    show "fcom_ok F d n s' t'" by (rule ok)
    show "runs (prover_check_multiply F ps) s (to_bytes (field_codec F) chi)
        (to_bytes (field_codec F) (weighted chi (map (prover_a0 F) ps) + snd m) @
         to_bytes (field_codec F) (weighted chi (map (prover_a1 F) ps) + fst m)) (Inr ()) s'"
      by (rule finite_field.runs_prover_check_multiply [OF assms(1) vope(1)])
    show "runs (prover_finalize F) (s, foldl (prover_push F) (fresh_prover_check chi) ps) []
        (to_bytes (field_codec F) (weighted chi (map (prover_a0 F) ps) + snd m) @
         to_bytes (field_codec F) (weighted chi (map (prover_a1 F) ps) + fst m))
        (Inr (length ps)) (s', fresh_prover_check chi)"
      by (rule finite_field.runs_prover_finalize [OF assms(1) vope(1)])
    fix u v
    show "runs (verifier_check_multiply F chi ks) t (to_bytes (field_codec F) u @ to_bytes (field_codec F) v)
        (to_bytes (field_codec F) chi)
        (if weighted chi (map (verifier_b d) ks) + k = u - d * v then Inr () else Inl Err) t'"
      by (rule finite_field.runs_verifier_check_multiply [OF assms(1) vope(2) delta(1)])
    show "runs (verifier_finalize F) (t, foldl (verifier_push d) (fresh_verifier_check chi) ks)
        (to_bytes (field_codec F) u @ to_bytes (field_codec F) v) []
        (if weighted chi (map (verifier_b d) ks) + k = u - d * v then Inr (length ks) else Inl Err)
        (t', fresh_verifier_check chi)"
      by (rule finite_field.runs_verifier_finalize [OF assms(1) vope(2) delta(2)])
  next
    show "mult_prover_drop (foldl (prover_push F) (fresh_prover_check chi) ps) = Inl Panic \<longleftrightarrow> ps \<noteq> []"
      by (simp add: mult_prover_drop_def finite_field.prover_pushes [OF assms(1)] fresh_prover_check_def require_def)
    show "mult_verifier_drop (foldl (verifier_push d) (fresh_verifier_check chi) ks) = Inl Panic \<longleftrightarrow> ks \<noteq> []"
      by (simp add: mult_verifier_drop_def finite_field.verifier_pushes [OF assms(1)] fresh_verifier_check_def require_def)
  qed
qed

theorem push_finalize_equals_check_witness:
  "mult_prover_drop (foldl (prover_push demo_field) (fresh_prover_check 3)
     [(MacProver 2 9, MacProver 2 9, MacProver 4 11)]) = Inl Panic"
proof -
  have "fcom_ok demo_field 1 (degree demo_field + 4) demo_prover demo_verifier"
    using demo_ok [of 5] by (simp add: F61p_impl_def)
  from push_finalize_equals_check [OF f61_field.finite_field_axioms this] show ?thesis by blast
qed

text \<open>
  What acceptance implies for a prover that sends arbitrary messages. Its view is fixed: the
  MACs and the VOLEs do not depend on the key, and for every key there are the states and keys
  of the verifier that correspond to them.
\<close>

lemma runs_if_Inr: "runs P s i out (if c then Inr x else Inl e) s' \<Longrightarrow> runs P s i out (Inr y) s'' \<Longrightarrow> c"
  using runs_unique [of P s i out "if c then Inr x else Inl e" s' out "Inr y" s'']
  by (cases c) simp_all

text \<open>
  C30. Soundness of the multiplication check: if the weighted errors do not vanish, then at most
  two keys let the verifier accept, whatever the two final messages are; and if some triple is
  wrong, then the weighted errors vanish for at most as many challenges as there are triples.
\<close>

theorem check_multiply_sound:
  fixes F :: "('p :: comm_ring_1, 'f :: idom) field_impl"
  assumes "finite_field F" and "\<forall>d. fcom_ok F d (degree F + n) s (t d)" and "\<forall>d. list_all2 (triple_ok F d) ps (ks d)"
  shows "(weighted chi (map (triple_error F) ps) \<noteq> 0 \<longrightarrow>
      card {d. \<exists>t'. runs (verifier_check_multiply F chi (ks d)) (t d)
        (to_bytes (field_codec F) u @ to_bytes (field_codec F) v) (to_bytes (field_codec F) chi) (Inr ()) t'} \<le> 2) \<and>
    ((\<exists>p \<in> set ps. triple_error F p \<noteq> 0) \<longrightarrow>
      card {chi. weighted chi (map (triple_error F) ps) = 0} \<le> length ps)"
proof (intro conjI impI)
  let ?S = "weighted chi (map (triple_error F) ps)"
  assume S: "?S \<noteq> 0"
  obtain m s1 where prover: "runs (prover_vope F) s [] [] (Inr m) s1"
    using finite_field.silent_vope [OF assms(1) spec [OF assms(2)]] by (blast elim: silentE)
  let ?A = "weighted chi (map (prover_a0 F) ps) + snd m" and ?B = "weighted chi (map (prover_a1 F) ps) + fst m"
  let ?roots = "{d. horner [?A - u, v - ?B, ?S] d = 0}"
  have sub: "{d. \<exists>t'. runs (verifier_check_multiply F chi (ks d)) (t d)
      (to_bytes (field_codec F) u @ to_bytes (field_codec F) v) (to_bytes (field_codec F) chi) (Inr ()) t'} \<subseteq> ?roots"
  proof (safe)
    fix d t'
    assume acc: "runs (verifier_check_multiply F chi (ks d)) (t d)
      (to_bytes (field_codec F) u @ to_bytes (field_codec F) v) (to_bytes (field_codec F) chi) (Inr ()) t'"
    obtain m' s' k t1 where vope: "runs (prover_vope F) s [] [] (Inr m') s'"
        "runs (verifier_vope F) (t d) [] [] (Inr k) t1" "vope_ok F d n m' s' k t1"
      using finite_field.silent_vope [OF assms(1) spec [OF assms(2), of d]] by (rule silentE)
    with prover have m: "m' = m" by (metis runs_unique sum.inject(2))
    have "weighted chi (map (verifier_b d) (ks d)) + k = u - d * v"
      using runs_if_Inr [OF finite_field.runs_verifier_check_multiply [OF assms(1) vope(2)
          fcom_ok_delta [OF spec [OF assms(2), of d]]] acc] .
    moreover have "k = snd m - d * fst m" using vope(3) by (simp add: vope_ok_def m)
    ultimately show "horner [?A - u, v - ?B, ?S] d = 0"
      unfolding finite_field.weighted_identity [OF assms(1) spec [OF assms(3), of d]]
      by (simp add: algebra_simps)
  qed
  have roots: "finite ?roots \<and> card ?roots < length [?A - u, v - ?B, ?S]"
    by (rule horner_roots) (use S in auto)
  from card_mono [OF conjunct1 [OF roots] sub] conjunct2 [OF roots] show "card {d. \<exists>t'. runs (verifier_check_multiply F chi (ks d)) (t d)
      (to_bytes (field_codec F) u @ to_bytes (field_codec F) v) (to_bytes (field_codec F) chi) (Inr ()) t'} \<le> 2"
    by simp
next
  assume "\<exists>p \<in> set ps. triple_error F p \<noteq> 0"
  then have "\<not> set (0 # map (triple_error F) ps) \<subseteq> {0}" by auto
  from horner_roots [OF this] show "card {chi. weighted chi (map (triple_error F) ps) = 0} \<le> length ps"
    by (simp add: weighted_def)
qed

text \<open>The verifiers that correspond to \<open>demo_prover\<close>, for every key.\<close>

definition demo_verifiers :: "F61p \<Rightarrow> F61p fcom_verifier" where
  "demo_verifiers d = \<lparr>svole = [[3 - d, 2]], voles = [1, 2 - d, 5], stats = no_stats, delta = d\<rparr>"

lemma demo_verifiers_ok: "n \<le> 5 \<Longrightarrow> fcom_ok demo_field d n demo_prover (demo_verifiers d)"
  by (simp add: fcom_ok_def demo_prover_def demo_verifiers_def vole_ok_def F61p_impl_def vole_supply_def)

definition demo_wrong :: "(F61p, F61p) prover_triple list" where
  "demo_wrong = [(MacProver 1 9, MacProver 1 9, MacProver 0 7)]"

theorem check_multiply_sound_witness:
  "card {chi. weighted chi (map (triple_error demo_field) demo_wrong) = 0} \<le> length demo_wrong"
proof -
  have 1: "\<forall>d. fcom_ok demo_field d (degree demo_field + 4) demo_prover (demo_verifiers d)"
    using demo_verifiers_ok [of 5] by (simp add: F61p_impl_def)
  have 2: "\<forall>d. list_all2 (triple_ok demo_field d) demo_wrong
      [(MacVerifier (9 - d), MacVerifier (9 - d), MacVerifier 7)]"
    by (simp add: demo_wrong_def triple_ok_def mac_ok_def F61p_impl_def)
  have "\<exists>p \<in> set demo_wrong. triple_error demo_field p \<noteq> 0"
    by (simp add: demo_wrong_def triple_error_def emb_def F61p_impl_def)
  from mp [OF conjunct2 [OF check_multiply_sound [OF f61_field.finite_field_axioms 1 2]] this]
  show ?thesis .
qed

text \<open>
  C31. Binding: at most one key accepts the opening of values other than the committed ones, and
  at most one key accepts a zero check of values other than zero, unless the challenges combine
  the differences, respectively the values, to zero.
\<close>

theorem openings_binding:
  fixes F :: "('p :: comm_ring_1, 'f :: idom) field_impl"
  assumes "finite_field F" and "\<forall>d. list_all2 (mac_ok F d) ps (ks d)" and "\<forall>d. delta (t d) = d"
    and "length xs = length ps"
  shows "(combine (challenges F (opening_seed F xs) (length ps)) (map (emb F) xs)
        \<noteq> combine (challenges F (opening_seed F xs) (length ps)) (map (\<lambda>p. emb F (mac_value p)) ps) \<longrightarrow>
      runs (verifier_open F (ks d)) (t d) (opening_bytes F xs @ to_bytes (field_codec F) m) [] (Inr xs) t1 \<longrightarrow>
      runs (verifier_open F (ks d')) (t d') (opening_bytes F xs @ to_bytes (field_codec F) m) [] (Inr xs) t2 \<longrightarrow>
      d = d') \<and>
    (combine (challenges F seed (length ps)) (map (\<lambda>p. emb F (mac_value p)) ps) \<noteq> 0 \<longrightarrow>
      runs (verifier_check_zero F seed (ks d)) (t d) (to_bytes (field_codec F) m) seed (Inr ()) t1 \<longrightarrow>
      runs (verifier_check_zero F seed (ks d')) (t d') (to_bytes (field_codec F) m) seed (Inr ()) t2 \<longrightarrow>
      d = d')"
proof (intro conjI impI)
  let ?chis = "challenges F (opening_seed F xs) (length ps)"
  have len: "length (ks e) = length ps" for e
    using list_all2_lengthD [OF spec [OF assms(2), of e]] by simp
  assume ne: "combine ?chis (map (emb F) xs) \<noteq> combine ?chis (map (\<lambda>p. emb F (mac_value p)) ps)"
    and acc: "runs (verifier_open F (ks d)) (t d) (opening_bytes F xs @ to_bytes (field_codec F) m) [] (Inr xs) t1"
      "runs (verifier_open F (ks d')) (t d') (opening_bytes F xs @ to_bytes (field_codec F) m) [] (Inr xs) t2"
  have "m = combine ?chis (map prover_mac ps)
      + e * (combine ?chis (map (emb F) xs) - combine ?chis (map (\<lambda>p. emb F (mac_value p)) ps))"
    if "runs (verifier_open F (ks e)) (t e) (opening_bytes F xs @ to_bytes (field_codec F) m) [] (Inr xs) t'" for e t'
  proof -
    have "combine ?chis (map verifier_mac (ks e)) + delta (t e) * combine ?chis (map (emb F) xs) = m"
      using runs_if_Inr [OF finite_field.runs_verifier_open [OF assms(1), of xs "ks e" "t e" m, unfolded Let_def] that]
        assms(4) len [of e] by simp
    then show ?thesis
      using finite_field.combine_macs [OF assms(1) spec [OF assms(2), of e]] assms(3)
      by (simp add: algebra_simps)
  qed
  from this [OF acc(1)] this [OF acc(2)] ne show "d = d'" by simp
next
  let ?chis = "challenges F seed (length ps)"
  have len: "length (ks e) = length ps" for e
    using list_all2_lengthD [OF spec [OF assms(2), of e]] by simp
  assume ne: "combine ?chis (map (\<lambda>p. emb F (mac_value p)) ps) \<noteq> 0"
    and acc: "runs (verifier_check_zero F seed (ks d)) (t d) (to_bytes (field_codec F) m) seed (Inr ()) t1"
      "runs (verifier_check_zero F seed (ks d')) (t d') (to_bytes (field_codec F) m) seed (Inr ()) t2"
  have "m = combine ?chis (map prover_mac ps) - e * combine ?chis (map (\<lambda>p. emb F (mac_value p)) ps)"
    if "runs (verifier_check_zero F seed (ks e)) (t e) (to_bytes (field_codec F) m) seed (Inr ()) t'" for e t'
    using runs_if_Inr [OF finite_field.runs_verifier_check_zero [OF assms(1), of seed "ks e" "t e" m] that]
      len [of e] finite_field.combine_macs [OF assms(1) spec [OF assms(2), of e]]
    by simp
  from this [OF acc(1)] this [OF acc(2)] ne show "d = d'" by simp
qed

theorem openings_binding_witness:
  "runs (verifier_check_zero demo_field (replicate 16 0) [MacVerifier (9 - 3)]) (demo_verifiers 3)
     (to_bytes (field_codec demo_field) 6) (replicate 16 0) (Inr ()) (demo_verifiers 3) \<and>
   \<not> runs (verifier_check_zero demo_field (replicate 16 0) [MacVerifier (9 - 5)]) (demo_verifiers 5)
     (to_bytes (field_codec demo_field) 6) (replicate 16 0) (Inr ()) (demo_verifiers 5)"
  (is "?accepted \<and> \<not> ?accepted_too")
proof -
  have 1: "\<forall>d. list_all2 (mac_ok demo_field d) [MacProver 1 9] [MacVerifier (9 - d)]"
    by (simp add: mac_ok_def F61p_impl_def)
  have 2: "\<forall>d. delta (demo_verifiers d) = d" by (simp add: demo_verifiers_def)
  have "combine (challenges demo_field (replicate 16 0) (length [MacProver 1 9 :: (F61p, F61p) mac_prover]))
      (map (\<lambda>p. emb demo_field (mac_value p)) [MacProver 1 9]) \<noteq> 0"
    by (simp add: challenges_def F61p_impl_def emb_def combine_def)
  from mp [OF conjunct2 [OF openings_binding [OF f61_field.finite_field_axioms 1 2, of "[1]"]] this]
  have binding: "?accepted \<longrightarrow> ?accepted_too \<longrightarrow> (3 :: F61p) = 5" by simp
  have eq: "(6 :: F61p) = combine (challenges demo_field (replicate 16 0) (length [MacVerifier (9 - 3) :: F61p mac_verifier]))
      (map verifier_mac [MacVerifier (9 - 3)])"
    by (simp add: challenges_def F61p_impl_def combine_def)
  have acc: ?accepted
    using f61_field.runs_verifier_check_zero [of "\<lambda>seed i. 1" "\<lambda>bs. bs" "replicate 16 0" "[MacVerifier (9 - 3)]"
        "demo_verifiers 3" 6]
    unfolding if_P [OF eq] .
  have "(3 :: F61p) \<noteq> 5"
  proof
    assume "(3 :: F61p) = 5"
    then have "(5 :: F61p) - 3 = 0" by simp
    then have "(1 + 1 :: F61p) = 0" by simp
    moreover have "val61 (1 + 1) = 2" by (simp only: val61_add val61_1) (simp add: p61_def)
    ultimately show False by simp
  qed
  with acc binding show ?thesis by blast
qed

text \<open>
  Reserving VOLEs terminates: when the extensions that are left suffice, it appends whole
  batches, as few as possible, until at least \<open>n\<close> VOLEs are available, and counts each
  extension; otherwise it returns the error of the first extension that fails.
\<close>

theorem voles_reserve_terminates:
  "(n \<le> vole_supply s \<longrightarrow>
     (\<exists>k \<le> length (svole s).
        voles_reserve n s c = (Inr (), s\<lparr>svole := drop k (svole s), voles := voles s @ concat (take k (svole s)),
          stats := (stats s)\<lparr>num_vole_extensions_performed := num_vole_extensions_performed (stats s) + k\<rparr>\<rparr>, c) \<and>
        n \<le> length (voles s @ concat (take k (svole s))) \<and>
        (\<forall>j < k. length (voles s @ concat (take j (svole s))) < n))) \<and>
   (vole_supply s < n \<longrightarrow> (\<exists>s'. voles_reserve n s c = (Inl Err, s', c)))"
proof (induction "svole s" arbitrary: s)
  case Nil
  then show ?case
    by (subst (1 2) voles_reserve.simps) (auto simp: extend_steps vole_supply_def Let_def)
next
  case (Cons b bs)
  show ?case
  proof (cases "length (voles s) < n")
    case False
    then show ?thesis
      by (subst (1 2) voles_reserve.simps) (auto simp: vole_supply_def intro!: exI [of _ 0])
  next
    case True
    let ?s = "s\<lparr>stats := (stats s)\<lparr>num_vole_extensions_performed := num_vole_extensions_performed (stats s) + 1\<rparr>,
      svole := bs, voles := voles s @ b\<rparr>"
    have step: "voles_reserve n s c = voles_reserve n ?s c"
      using True Cons.hyps(2) [symmetric] by (subst voles_reserve.simps) (simp add: extend_steps Let_def)
    have sup: "vole_supply ?s = vole_supply s" by (simp add: vole_supply_def Cons.hyps(2) [symmetric])
    have IH: "bs = svole ?s" by simp
    have up: "(\<forall>j < Suc k. length (voles s @ concat (take j (svole s))) < n) \<longleftrightarrow>
        (\<forall>j < k. length (voles ?s @ concat (take j (svole ?s))) < n)" for k
      using True by (simp add: All_less_Suc2 Cons.hyps(2) [symmetric])
    show ?thesis
    proof (intro conjI impI)
      assume "n \<le> vole_supply s"
      then obtain k where "k \<le> length bs" "voles_reserve n ?s c = (Inr (), ?s\<lparr>svole := drop k (svole ?s),
          voles := voles ?s @ concat (take k (svole ?s)), stats := (stats ?s)\<lparr>num_vole_extensions_performed
            := num_vole_extensions_performed (stats ?s) + k\<rparr>\<rparr>, c)"
          "n \<le> length (voles ?s @ concat (take k (svole ?s)))"
          "\<forall>j < k. length (voles ?s @ concat (take j (svole ?s))) < n"
        using Cons.hyps(1) [OF IH] sup by auto
      then show "\<exists>k \<le> length (svole s). voles_reserve n s c = (Inr (), s\<lparr>svole := drop k (svole s),
          voles := voles s @ concat (take k (svole s)), stats := (stats s)\<lparr>num_vole_extensions_performed
            := num_vole_extensions_performed (stats s) + k\<rparr>\<rparr>, c) \<and>
          n \<le> length (voles s @ concat (take k (svole s))) \<and>
          (\<forall>j < k. length (voles s @ concat (take j (svole s))) < n)"
        by (intro exI [of _ "Suc k"]) (simp only: up step, simp add: Cons.hyps(2) [symmetric])
    next
      assume "vole_supply s < n"
      with Cons.hyps(1) [OF IH] sup show "\<exists>s'. voles_reserve n s c = (Inl Err, s', c)"
        unfolding step by simp
    qed
  qed
qed

theorem voles_reserve_terminates_witness:
  "\<exists>s'. voles_reserve 6 demo_prover \<lparr>inbox = [], outbox = []\<rparr> = (Inl Err, s', \<lparr>inbox = [], outbox = []\<rparr>)"
  using voles_reserve_terminates [of 6 demo_prover "\<lparr>inbox = [], outbox = []\<rparr>"] by (simp add: vole_supply_def demo_prover_def)

end
