(* ===== verification/Edabits.thy ===== *)
theory Edabits
  imports HomCom
begin

text \<open>
  The building blocks of src/diet-mac-and-cheese/src/edabits.rs: bits and their values in a field,
  the shuffle, the addition of committed bits with carry, the conversion of a committed bit to
  the field, and the generation of random edaBits and daBits. The state of a party are its two
  commitment schemes, one over F2 (with MACs in F40b) and one over the prime field.
\<close>

subsection \<open>Data\<close>

record ('g, 'e) edabits_prover =
  ep_bits :: "(F2, 'g) mac_prover list"
  ep_value :: "('e, 'e) mac_prover"

record ('g, 'e) edabits_verifier =
  ev_bits :: "'g mac_verifier list"
  ev_value :: "'e mac_verifier"

record ('g, 'e) dabit_prover =
  dp_bit :: "(F2, 'g) mac_prover"
  dp_value :: "('e, 'e) mac_prover"

record ('g, 'e) dabit_verifier =
  dv_bit :: "'g mac_verifier"
  dv_value :: "'e mac_verifier"

record ('a, 'b) conv_state =
  fcom_f2 :: 'a
  fcom_fe :: 'b

type_synonym ('g, 'e) prover_conv = "((F2, 'g) fcom_prover, ('e, 'e) fcom_prover) conv_state"
type_synonym ('g, 'e) verifier_conv = "('g fcom_verifier, 'e fcom_verifier) conv_state"

text \<open>
  The two fields and what the code calls of them: the bits of an element of the prime field and
  their number, the draws of bits and of bounded numbers from a seeded generator. A bounded draw
  may depend on the bounds of the draws before it.
\<close>

record ('g, 'e) conv_impl =
  impl_f2 :: "(F2, 'g) field_impl"
  impl_fe :: "('e, 'e) field_impl"
  bit_decomposition :: "'e \<Rightarrow> bool list"
  number_of_bits :: nat
  f2_random :: "u8 list \<Rightarrow> nat \<Rightarrow> F2"
  gen_range :: "u8 list \<Rightarrow> nat list \<Rightarrow> nat \<Rightarrow> nat"

definition on_f2 :: "('a, 'x) proc \<Rightarrow> (('a, 'b) conv_state, 'x) proc" where
  "on_f2 = p_zoom fcom_f2 (\<lambda>a s. s\<lparr>fcom_f2 := a\<rparr>)"

definition on_fe :: "('b, 'x) proc \<Rightarrow> (('a, 'b) conv_state, 'x) proc" where
  "on_fe = p_zoom fcom_fe (\<lambda>b s. s\<lparr>fcom_fe := b\<rparr>)"

definition p_lift :: "'a res \<Rightarrow> ('s, 'a) proc" where
  "p_lift r = (case r of Inl e \<Rightarrow> p_fail e | Inr x \<Rightarrow> p_return x)"

subsection \<open>Bits in the field\<close>

definition f2_to_fe :: "F2 \<Rightarrow> 'e :: comm_ring_1" where
  "f2_to_fe b = (let choice = (b = 0) in if choice then 0 else 1)"

definition convert_bits_to_field :: "F2 list \<Rightarrow> 'e :: comm_ring_1" where
  "convert_bits_to_field v = foldl (\<lambda>res b. (res + res) + f2_to_fe b) 0 (rev v)"

definition convert_bits_to_field_mac :: "(F2, 'g) mac_prover list \<Rightarrow> 'e :: comm_ring_1" where
  "convert_bits_to_field_mac v = foldl (\<lambda>res b. (res + res) + f2_to_fe (mac_value b)) 0 (rev v)"

definition power_two :: "nat \<Rightarrow> 'e :: comm_ring_1" where
  "power_two m = ((\<lambda>res. res + res) ^^ m) 1"

subsection \<open>The shuffle\<close>

definition vec_swap :: "nat \<Rightarrow> nat \<Rightarrow> 'a list \<Rightarrow> 'a list res" where
  "vec_swap a b v = (if a < length v \<and> b < length v then Inr (v[a := v ! b, b := v ! a]) else Inl Panic)"

text \<open>The loop from \<open>i\<close> down to 1; \<open>h\<close> are the bounds of the draws so far.\<close>

fun permutation_loop :: "(nat list \<Rightarrow> nat \<Rightarrow> nat) \<Rightarrow> nat \<Rightarrow> nat list \<Rightarrow> 'a list \<Rightarrow> (nat list \<times> 'a list) res" where
  "permutation_loop draw 0 h v = Inr (h, v)"
| "permutation_loop draw (Suc i) h v =
     (let idx = draw h (Suc i) in
      res_bind (vec_swap idx (Suc i) v) (\<lambda>v. permutation_loop draw i (h @ [Suc i]) v))"

definition generate_permutation ::
  "(nat list \<Rightarrow> nat \<Rightarrow> nat) \<Rightarrow> nat list \<Rightarrow> 'a list \<Rightarrow> (nat list \<times> 'a list) res" where
  "generate_permutation draw h v =
     (let size = length v in if size = 0 then Inr (h, v) else permutation_loop draw (size - 1) h v)"

subsection \<open>Random edaBits, daBits and triples\<close>

definition random_edabits_prover ::
  "('g :: comm_ring_1, 'e :: comm_ring_1) conv_impl \<Rightarrow> nat \<Rightarrow> nat \<Rightarrow>
   (('g, 'e) prover_conv, ('g, 'e) edabits_prover list) proc" where
  "random_edabits_prover K bitsize num =
     p_bind (p_mapM (\<lambda>_. p_mapM (\<lambda>_. on_f2 prover_random) [0..<bitsize]) [0..<num]) (\<lambda>aux_bits.
     let aux_r_m = map (\<lambda>bits. convert_bits_to_field (map mac_value bits)) aux_bits in
     p_bind (on_fe (prover_input (impl_fe K) aux_r_m)) (\<lambda>aux_r_m_mac.
     p_return (map (\<lambda>(bits, r_m, mac). \<lparr>ep_bits = bits, ep_value = MacProver r_m mac\<rparr>)
       (zip aux_bits (zip aux_r_m aux_r_m_mac)))))"

definition random_edabits_verifier ::
  "('g :: comm_ring_1, 'e :: comm_ring_1) conv_impl \<Rightarrow> nat \<Rightarrow> nat \<Rightarrow>
   (('g, 'e) verifier_conv, ('g, 'e) edabits_verifier list) proc" where
  "random_edabits_verifier K bit_size num =
     p_bind (p_mapM (\<lambda>_. p_mapM (\<lambda>_. on_f2 verifier_random) [0..<bit_size]) [0..<num]) (\<lambda>aux_bits.
     p_bind (on_fe (verifier_input (impl_fe K) num)) (\<lambda>aux_r_m_mac.
     p_return (map (\<lambda>(bits, mac). \<lparr>ev_bits = bits, ev_value = mac\<rparr>) (zip aux_bits aux_r_m_mac))))"

definition prover_random_dabits ::
  "('g :: comm_ring_1, 'e :: comm_ring_1) conv_impl \<Rightarrow> nat \<Rightarrow>
   (('g, 'e) prover_conv, ('g, 'e) dabit_prover list) proc" where
  "prover_random_dabits K num =
     p_bind (p_mapM (\<lambda>_. on_f2 prover_random) [0..<num]) (\<lambda>b_batch.
     let b_m_batch = map (\<lambda>b. f2_to_fe (mac_value b)) b_batch in
     p_bind (on_fe (prover_input (impl_fe K) b_m_batch)) (\<lambda>b_m_mac_batch.
     p_return (map (\<lambda>(b, b_m, mac). \<lparr>dp_bit = b, dp_value = MacProver b_m mac\<rparr>)
       (zip b_batch (zip b_m_batch b_m_mac_batch)))))"

definition verifier_random_dabits ::
  "('g :: comm_ring_1, 'e :: comm_ring_1) conv_impl \<Rightarrow> nat \<Rightarrow>
   (('g, 'e) verifier_conv, ('g, 'e) dabit_verifier list) proc" where
  "verifier_random_dabits K num =
     p_bind (p_mapM (\<lambda>_. on_f2 verifier_random) [0..<num]) (\<lambda>b_mac_batch.
     p_bind (on_fe (verifier_input (impl_fe K) num)) (\<lambda>b_m_mac_batch.
     p_return (map (\<lambda>(b, mac). \<lparr>dv_bit = b, dv_value = mac\<rparr>) (zip b_mac_batch b_m_mac_batch))))"

definition prover_random_triples ::
  "('g :: comm_ring_1, 'e) conv_impl \<Rightarrow> nat \<Rightarrow> (F2, 'g) prover_triple list \<Rightarrow>
   (('g, 'e) prover_conv, (F2, 'g) prover_triple list) proc" where
  "prover_random_triples K num out =
     p_bind (p_mapM (\<lambda>_. p_bind (on_f2 prover_random) (\<lambda>x. p_bind (on_f2 prover_random) (\<lambda>y.
       p_return (x, y)))) [0..<num]) (\<lambda>pairs.
     let zs = map (\<lambda>(x, y). mac_value x * mac_value y) pairs in
     p_bind (on_f2 (prover_input_low_level (impl_f2 K) zs [])) (\<lambda>zs_mac.
     p_bind flush (\<lambda>_.
     p_return (out @ map (\<lambda>((x, y), z). (x, y, z)) (zip pairs (map2 MacProver zs zs_mac))))))"

definition verifier_random_triples ::
  "('g :: comm_ring_1, 'e) conv_impl \<Rightarrow> nat \<Rightarrow> 'g verifier_triple list \<Rightarrow>
   (('g, 'e) verifier_conv, 'g verifier_triple list) proc" where
  "verifier_random_triples K num out =
     p_bind (p_mapM (\<lambda>_. p_bind (on_f2 verifier_random) (\<lambda>x. p_bind (on_f2 verifier_random) (\<lambda>y.
       p_return (x, y)))) [0..<num]) (\<lambda>pairs.
     p_bind (on_f2 (verifier_input_low_level (impl_f2 K) num [])) (\<lambda>zs.
     p_return (out @ map (\<lambda>((x, y), z). (x, y, z)) (zip pairs zs))))"

definition prover_input_edabits ::
  "('g :: comm_ring_1, 'e :: comm_ring_1) conv_impl \<Rightarrow> (F2, 'g) mac_prover list list \<Rightarrow>
   (('g, 'e) prover_conv, ('g, 'e) edabits_prover list) proc" where
  "prover_input_edabits K aux_bits =
     p_bind (p_require Panic (aux_bits \<noteq> [])) (\<lambda>_.
     p_mapM (\<lambda>bits.
       let r_m = convert_bits_to_field (map mac_value bits) in
       p_bind (on_fe (prover_input (impl_fe K) [r_m])) (\<lambda>r_m_mac.
       p_return \<lparr>ep_bits = bits, ep_value = MacProver r_m (r_m_mac ! 0)\<rparr>)) aux_bits)"

definition verifier_input_edabits ::
  "('g :: comm_ring_1, 'e :: comm_ring_1) conv_impl \<Rightarrow> 'g mac_verifier list list \<Rightarrow>
   (('g, 'e) verifier_conv, ('g, 'e) edabits_verifier list) proc" where
  "verifier_input_edabits K aux_bits =
     p_bind (p_require Panic (aux_bits \<noteq> [])) (\<lambda>_.
     p_mapM (\<lambda>bits.
       p_bind (on_fe (verifier_input (impl_fe K) 1)) (\<lambda>r_m_mac.
       p_return \<lparr>ev_bits = bits, ev_value = r_m_mac ! 0\<rparr>)) aux_bits)"

subsection \<open>From a bit to the field\<close>

definition prover_convert_bit_2_field ::
  "('g :: comm_ring_1, 'e :: comm_ring_1) conv_impl \<Rightarrow> ('g, 'e) dabit_prover list \<Rightarrow> (F2, 'g) mac_prover list \<Rightarrow>
   (('g, 'e) prover_conv, ('e, 'e) mac_prover list) proc" where
  "prover_convert_bit_2_field K r_batch x_batch =
     p_bind (p_require Assertion (length r_batch = length x_batch)) (\<lambda>_.
     let c_batch = map (\<lambda>(r, x). prover_add (dp_bit r) x) (zip r_batch x_batch) in
     p_bind (on_f2 (prover_open (impl_f2 K) c_batch)) (\<lambda>_.
     p_return (map (\<lambda>(r, c).
       let c_m = f2_to_fe (mac_value c);
           choice = (mac_value c = 1);
           x = prover_neg (dp_value r);
           beq = prover_affine_add_cst c_m x;
           bneq = prover_affine_add_cst c_m (dp_value r) in
       select_prover bneq beq choice) (zip r_batch c_batch))))"

text \<open>The verifier compares the lengths with \<open>debug_assert!\<close>, which the dev and test profiles check.\<close>

definition verifier_convert_bit_2_field ::
  "('g :: comm_ring_1, 'e :: comm_ring_1) conv_impl \<Rightarrow> ('g, 'e) dabit_verifier list \<Rightarrow> 'g mac_verifier list \<Rightarrow>
   (('g, 'e) verifier_conv, 'e mac_verifier list) proc" where
  "verifier_convert_bit_2_field K r_batch x_batch =
     p_bind (p_require Assertion (length r_batch = length x_batch)) (\<lambda>_.
     let r_mac_plus_x_mac = map (\<lambda>(r, x). verifier_add (dv_bit r) x) (zip r_batch x_batch) in
     p_bind (on_f2 (verifier_open (impl_f2 K) r_mac_plus_x_mac)) (\<lambda>c_batch.
     p_bind p_get (\<lambda>s.
     p_return (map (\<lambda>(r, c).
       let c_m = f2_to_fe c;
           choice = (c = 1);
           x_mac = verifier_neg (dv_value r);
           beq = verifier_affine_add_cst (impl_fe K) (delta (fcom_fe s)) c_m x_mac;
           bneq = verifier_affine_add_cst (impl_fe K) (delta (fcom_fe s)) c_m (dv_value r) in
       select_verifier bneq beq choice) (zip r_batch c_batch)))))"

subsection \<open>Adding committed bits\<close>

text \<open>
  One of the \<open>m\<close> rounds over the whole batch: the carries, the triples for the check and the
  bits of the sums so far are the state of the loop.
\<close>

type_synonym 'g prover_adder = "(F2, 'g) mac_prover list \<times> (F2, 'g) prover_triple list \<times> (F2, 'g) mac_prover list list"
type_synonym 'g verifier_adder = "'g mac_verifier list \<times> 'g verifier_triple list \<times> 'g mac_verifier list list"

definition prover_adder_round ::
  "(F2, 'g :: comm_ring_1) field_impl \<Rightarrow> nat \<Rightarrow> (F2, 'g) mac_prover list list \<Rightarrow> (F2, 'g) mac_prover list list \<Rightarrow>
   'g prover_adder \<Rightarrow> nat \<Rightarrow> ((F2, 'g) fcom_prover, 'g prover_adder) proc" where
  "prover_adder_round G m xs ys = (\<lambda>(ci, triples, z_batch) i.
     p_bind (p_require Assertion (list_all (\<lambda>x. length x = m) xs \<and> list_all (\<lambda>y. length y = m) ys)) (\<lambda>_.
     let and1 = map2 (\<lambda>x c. prover_add (x ! i) c) xs ci;
         and2 = map2 (\<lambda>y c. prover_add (y ! i) c) ys ci;
         and_res_batch = map2 (\<lambda>a b. mac_value a * mac_value b) and1 and2;
         z_batch = map2 (\<lambda>zs z. zs @ [z]) z_batch (map2 (\<lambda>a y. prover_add a (y ! i)) and1 ys) in
     p_bind (prover_input_low_level G and_res_batch []) (\<lambda>and_res_mac_batch.
     let ands = map2 MacProver and_res_batch and_res_mac_batch in
     p_return (map2 prover_add ci ands, triples @ zip and1 (zip and2 ands), z_batch))))"

definition prover_adder ::
  "(F2, 'g :: comm_ring_1) field_impl \<Rightarrow> F2 list \<Rightarrow> (F2, 'g) mac_prover list list \<Rightarrow> (F2, 'g) mac_prover list list \<Rightarrow>
   ((F2, 'g) fcom_prover, ((F2, 'g) mac_prover list \<times> (F2, 'g) mac_prover) list) proc" where
  "prover_adder G c0 xs ys =
     (let num = length xs; m = length (xs ! 0) in
      p_bind (prover_input G c0) (\<lambda>ci_mac_batch.
      p_bind (p_foldM (prover_adder_round G m xs ys) (map2 MacProver c0 ci_mac_batch, [], replicate num []) [0..<m])
        (\<lambda>(ci, triples, z_batch).
      p_bind flush (\<lambda>_.
      p_bind (prover_check_multiply G triples) (\<lambda>_.
      p_return (zip z_batch ci))))))"

definition prover_bit_add_carry ::
  "(F2, 'g :: comm_ring_1) field_impl \<Rightarrow> (F2, 'g) mac_prover list list \<Rightarrow> (F2, 'g) mac_prover list list \<Rightarrow>
   ((F2, 'g) fcom_prover, ((F2, 'g) mac_prover list \<times> (F2, 'g) mac_prover) list) proc" where
  "prover_bit_add_carry G xs ys =
     p_bind (p_require Err (length xs = length ys)) (\<lambda>_.
     p_bind (p_require Panic (xs \<noteq> [])) (\<lambda>_.
     prover_adder G (replicate (length xs) 0) xs ys))"

definition verifier_adder_round ::
  "(F2, 'g :: comm_ring_1) field_impl \<Rightarrow> nat \<Rightarrow> 'g mac_verifier list list \<Rightarrow> 'g mac_verifier list list \<Rightarrow>
   'g verifier_adder \<Rightarrow> nat \<Rightarrow> ('g fcom_verifier, 'g verifier_adder) proc" where
  "verifier_adder_round G m xs ys = (\<lambda>(ci, triples, z_batch) i.
     p_bind (p_require Assertion (list_all (\<lambda>x. length x = m) xs \<and> list_all (\<lambda>y. length y = m) ys)) (\<lambda>_.
     let and1 = map2 (\<lambda>x c. verifier_add (x ! i) c) xs ci;
         and2 = map2 (\<lambda>y c. verifier_add (y ! i) c) ys ci;
         z_batch = map2 (\<lambda>zs z. zs @ [z]) z_batch (map2 (\<lambda>a y. verifier_add a (y ! i)) and1 ys) in
     p_bind (verifier_input_low_level G (length xs) []) (\<lambda>and_res_mac_batch.
     p_return (map2 verifier_add ci and_res_mac_batch, triples @ zip and1 (zip and2 and_res_mac_batch), z_batch))))"

definition verifier_bit_add_carry ::
  "(F2, 'g :: comm_ring_1) field_impl \<Rightarrow> 'g \<Rightarrow> 'g mac_verifier list list \<Rightarrow> 'g mac_verifier list list \<Rightarrow>
   ('g fcom_verifier, ('g mac_verifier list \<times> 'g mac_verifier) list) proc" where
  "verifier_bit_add_carry G chi xs ys =
     p_bind (p_require Err (length xs = length ys)) (\<lambda>_.
     p_bind (p_require Panic (xs \<noteq> [])) (\<lambda>_.
     let num = length xs; m = length (xs ! 0) in
     p_bind (verifier_input G num) (\<lambda>ci_batch.
     p_bind (p_foldM (verifier_adder_round G m xs ys) (ci_batch, [], replicate num []) [0..<m])
       (\<lambda>(ci, triples, z_batch).
     p_bind (verifier_check_multiply G chi triples) (\<lambda>_.
     p_return (zip z_batch ci))))))"

end
