(* ===== verification/Conversion.thy ===== *)
theory Conversion
  imports Edabits
begin

text \<open>
  The checks of src/diet-mac-and-cheese/src/edabits.rs: fdabit, the check of random daBits; the
  conversion of a batch of edaBits by cut and choose; its parameters and the estimate of the VOLEs it
  takes.

  The draws of a party are arguments: the prover's random bits, and the verifier's seeds and
  challenges. The timings that \<open>conv\<close> keeps are left out, and so is the variant with bucket channels,
  whose body is commented out in the code: it returns after the openings.
\<close>

subsection \<open>Checking daBits\<close>

definition FDABIT_SECURITY_PARAMETER :: nat where
  "FDABIT_SECURITY_PARAMETER = 38"

text \<open>\<open>usize\<close> has 64 bits.\<close>

fun bit_length :: "nat \<Rightarrow> nat" where
  "bit_length n = (if n = 0 then 0 else Suc (bit_length (n div 2)))"

declare bit_length.simps [simp del]

definition leading_zeros :: "nat \<Rightarrow> nat" where
  "leading_zeros n = 64 - bit_length n"

definition log2_floor :: "nat \<Rightarrow> nat" where
  "log2_floor x = 64 - 1 - leading_zeros x"

definition fdabit_gamma :: "nat \<Rightarrow> nat" where
  "fdabit_gamma n = 64 - leading_zeros (n + 1) - 1 + 1"

definition check_parameters :: "('g, 'e) conv_impl \<Rightarrow> nat \<Rightarrow> nat \<Rightarrow> unit res" where
  "check_parameters K n gamma =
     (if number_of_bits K - 1 \<le> log2_floor (n + 1) + gamma then Inl Err else Inr ())"

text \<open>Step 3: the matrix of challenge bits, row by row.\<close>

definition challenge_bits :: "('g, 'e) conv_impl \<Rightarrow> u8 list \<Rightarrow> nat \<Rightarrow> nat \<Rightarrow> F2 list list" where
  "challenge_bits K seed s n = map (\<lambda>k. map (\<lambda>i. f2_random K seed (k * n + i)) [0..<n]) [0..<s]"

text \<open>Steps 4, 6 and 7 on the MACs of the prover, and on the keys of the verifier.\<close>

definition prover_fdabit_r ::
  "(F2, 'g :: comm_ring_1) field_impl \<Rightarrow> ('g, 'e) dabit_prover list \<Rightarrow> F2 list \<Rightarrow> (F2, 'g) mac_prover \<Rightarrow> (F2, 'g) mac_prover" where
  "prover_fdabit_r G dabits ek c1 =
     foldl (\<lambda>r (b, d). prover_add r (prover_affine_mult_cst G b (dp_bit d))) c1 (zip ek dabits)"

definition prover_fdabit_tau ::
  "('e :: comm_ring_1, 'e) field_impl \<Rightarrow> ('g, 'e) dabit_prover list \<Rightarrow> F2 list \<Rightarrow> ('e, 'e) mac_prover list \<Rightarrow> ('e, 'e) mac_prover" where
  "prover_fdabit_tau E dabits ek cs =
     (let r_prime = foldl (\<lambda>r (b, d). prover_add r (prover_affine_mult_cst E (f2_to_fe b) (dp_value d)))
        (MacProver 0 0) (zip ek dabits) in
      fst (foldl (\<lambda>(tau, twos) c. (prover_add tau (prover_affine_mult_cst E twos c), twos + twos)) (r_prime, 1) cs))"

definition verifier_fdabit_r ::
  "(F2, 'g :: comm_ring_1) field_impl \<Rightarrow> ('g, 'e) dabit_verifier list \<Rightarrow> F2 list \<Rightarrow> 'g mac_verifier \<Rightarrow> 'g mac_verifier" where
  "verifier_fdabit_r G dabits ek c1 =
     foldl (\<lambda>r (b, d). verifier_add r (verifier_affine_mult_cst G b (dv_bit d))) c1 (zip ek dabits)"

definition verifier_fdabit_tau ::
  "('e :: comm_ring_1, 'e) field_impl \<Rightarrow> ('g, 'e) dabit_verifier list \<Rightarrow> F2 list \<Rightarrow> 'e mac_verifier list \<Rightarrow> 'e mac_verifier" where
  "verifier_fdabit_tau E dabits ek cs =
     (let r_prime = foldl (\<lambda>r (b, d). verifier_add r (verifier_affine_mult_cst E (f2_to_fe b) (dv_value d)))
        (MacVerifier 0) (zip ek dabits) in
      fst (foldl (\<lambda>(tau, twos) c. (verifier_add tau (verifier_affine_mult_cst E twos c), twos + twos)) (r_prime, 1) cs))"

text \<open>Step 2: the factors of the triples.\<close>

definition prover_one_minus :: "('e :: comm_ring_1, 'e) field_impl \<Rightarrow> ('e, 'e) mac_prover \<Rightarrow> ('e, 'e) mac_prover" where
  "prover_one_minus E c = prover_affine_add_cst 1 (prover_affine_mult_cst E (- 1) c)"

definition verifier_one_minus :: "('e :: comm_ring_1, 'e) field_impl \<Rightarrow> 'e \<Rightarrow> 'e mac_verifier \<Rightarrow> 'e mac_verifier" where
  "verifier_one_minus E d c = verifier_affine_add_cst E d 1 (verifier_affine_mult_cst E (- 1) c)"

definition parity_ok :: "('g, 'e) conv_impl \<Rightarrow> F2 \<Rightarrow> 'e \<Rightarrow> bool" where
  "parity_ok K r tau \<longleftrightarrow> (r = 1) = bit_decomposition K tau ! 0"

text \<open>Steps 3 to 8, on the MACs of the masks and the triples of step 2.\<close>

definition prover_fdabit_open ::
  "('g :: comm_ring_1, 'e :: comm_ring_1) conv_impl \<Rightarrow> ('g, 'e) dabit_prover list \<Rightarrow> ('e, 'e) mac_prover list list \<Rightarrow>
   (F2, 'g) mac_prover list \<Rightarrow> ('e, 'e) prover_triple list \<Rightarrow> (('g, 'e) prover_conv, unit) proc" where
  "prover_fdabit_open K dabits c_batch c1_batch triples =
     p_bind flush (\<lambda>_.
     p_bind read_block (\<lambda>seed.
     let e = challenge_bits K seed FDABIT_SECURITY_PARAMETER (length dabits);
         r_batch = map2 (prover_fdabit_r (impl_f2 K) dabits) e c1_batch in
     p_bind (on_f2 (prover_open (impl_f2 K) r_batch)) (\<lambda>_.
     let tau_batch = map2 (prover_fdabit_tau (impl_fe K) dabits) e c_batch in
     p_bind (on_fe (prover_open (impl_fe K) tau_batch)) (\<lambda>_.
     let res = list_all2 (parity_ok K) (map mac_value r_batch) (map mac_value tau_batch) in
     p_bind (on_fe (prover_check_multiply (impl_fe K) triples)) (\<lambda>_.
     if res then p_return () else p_fail Err)))))"

definition verifier_fdabit_open ::
  "('g :: comm_ring_1, 'e :: comm_ring_1) conv_impl \<Rightarrow> u8 list \<Rightarrow> 'e \<Rightarrow> ('g, 'e) dabit_verifier list \<Rightarrow>
   'e mac_verifier list list \<Rightarrow> 'g mac_verifier list \<Rightarrow> 'e verifier_triple list \<Rightarrow> (('g, 'e) verifier_conv, unit) proc" where
  "verifier_fdabit_open K seed chi dabits c_m_mac c1_mac triples =
     p_bind (write_block seed) (\<lambda>_.
     p_bind flush (\<lambda>_.
     let e = challenge_bits K seed FDABIT_SECURITY_PARAMETER (length dabits);
         r_mac_batch = map2 (verifier_fdabit_r (impl_f2 K) dabits) e c1_mac in
     p_bind (on_f2 (verifier_open (impl_f2 K) r_mac_batch)) (\<lambda>r_batch.
     let tau_mac_batch = map2 (verifier_fdabit_tau (impl_fe K) dabits) e c_m_mac in
     p_bind (on_fe (verifier_open (impl_fe K) tau_mac_batch)) (\<lambda>tau_batch.
     let res = list_all2 (parity_ok K) r_batch tau_batch in
     p_bind (on_fe (verifier_check_multiply (impl_fe K) chi triples)) (\<lambda>_.
     if res then p_return () else p_fail Err)))))"

text \<open>The steps of the prover after its draws: \<open>c_m\<close> are the masks in the field and \<open>c1\<close> in F2.\<close>

definition prover_fdabit_steps ::
  "('g :: comm_ring_1, 'e :: comm_ring_1) conv_impl \<Rightarrow> 'e list list \<Rightarrow> F2 list \<Rightarrow> ('g, 'e) dabit_prover list \<Rightarrow>
   (('g, 'e) prover_conv, unit) proc" where
  "prover_fdabit_steps K c_m c1 dabits =
     p_bind (p_mapM (\<lambda>ck. on_fe (prover_input (impl_fe K) ck)) c_m) (\<lambda>c_m_mac.
     p_bind (on_f2 (prover_input (impl_f2 K) c1)) (\<lambda>c1_mac.
     let c_batch = map2 (map2 MacProver) c_m c_m_mac;
         andl_batch = concat c_batch;
         one_minus_ci_batch = map (prover_one_minus (impl_fe K)) andl_batch;
         and_res_batch = map2 (\<lambda>a b. mac_value a * mac_value b) andl_batch one_minus_ci_batch in
     p_bind (on_fe (prover_input (impl_fe K) and_res_batch)) (\<lambda>and_res_mac_batch.
     let triples = zip andl_batch (zip one_minus_ci_batch (map2 MacProver and_res_batch and_res_mac_batch)) in
     prover_fdabit_open K dabits c_batch (map2 MacProver c1 c1_mac) triples)))"

definition prover_fdabit ::
  "('g :: comm_ring_1, 'e :: comm_ring_1) conv_impl \<Rightarrow> (nat \<Rightarrow> nat \<Rightarrow> F2) \<Rightarrow> ('g, 'e) dabit_prover list \<Rightarrow>
   (('g, 'e) prover_conv, unit) proc" where
  "prover_fdabit K draws dabits =
     (let s = FDABIT_SECURITY_PARAMETER; n = length dabits; gamma = fdabit_gamma n in
      p_bind (p_lift (check_parameters K n gamma)) (\<lambda>_.
      p_bind (p_require Assertion (list_all (\<lambda>d.
        mac_value (dp_bit d) = 0 \<and> mac_value (dp_value d) = 0 \<or>
        mac_value (dp_bit d) = 1 \<and> mac_value (dp_value d) = 1) dabits)) (\<lambda>_.
      let c_m = map (\<lambda>k. map (\<lambda>i. f2_to_fe (draws k i)) [0..<gamma]) [0..<s];
          c1 = map (\<lambda>ck. if ck ! 0 = 0 then 0 else 1) c_m in
      prover_fdabit_steps K c_m c1 dabits)))"

definition verifier_fdabit ::
  "('g :: comm_ring_1, 'e :: comm_ring_1) conv_impl \<Rightarrow> u8 list \<Rightarrow> 'e \<Rightarrow> ('g, 'e) dabit_verifier list \<Rightarrow>
   (('g, 'e) verifier_conv, unit) proc" where
  "verifier_fdabit K seed chi dabits =
     (let s = FDABIT_SECURITY_PARAMETER; n = length dabits; gamma = fdabit_gamma n in
      p_bind (p_lift (check_parameters K n gamma)) (\<lambda>_.
      p_bind (p_mapM (\<lambda>_. on_fe (verifier_input (impl_fe K) gamma)) [0..<s]) (\<lambda>c_m_mac.
      p_bind (on_f2 (verifier_input (impl_f2 K) s)) (\<lambda>c1_mac.
      p_bind p_get (\<lambda>st.
      let andl_mac_batch = concat c_m_mac;
          one_minus_ci_mac_batch = map (verifier_one_minus (impl_fe K) (delta (fcom_fe st))) andl_mac_batch in
      p_bind (on_fe (verifier_input (impl_fe K) (gamma * s))) (\<lambda>and_res_mac_batch.
      let triples = zip andl_mac_batch (zip one_minus_ci_mac_batch and_res_mac_batch) in
      verifier_fdabit_open K seed chi dabits c_m_mac c1_mac triples))))))"

subsection \<open>Converting one window\<close>

text \<open>What follows the addition: the carries in the field, and the check of the values.\<close>

definition prover_conv_checks ::
  "('g :: comm_ring_1, 'e :: comm_ring_1) conv_impl \<Rightarrow> ('g, 'e) edabits_prover list \<Rightarrow> ('g, 'e) edabits_prover list \<Rightarrow>
   ('g, 'e) dabit_prover list \<Rightarrow> ((F2, 'g) mac_prover list \<times> (F2, 'g) mac_prover) list \<Rightarrow> (('g, 'e) prover_conv, unit) proc" where
  "prover_conv_checks K edabits r dabits e_batch =
     (let nb_bits = length (ep_bits (edabits ! 0)); G = impl_f2 K; E = impl_fe K in
      p_bind (prover_convert_bit_2_field K dabits (map snd e_batch)) (\<lambda>e_m_batch.
      let e_prime_batch = map (\<lambda>(c, r, e_m). prover_add (prover_add (ep_value c) (ep_value r))
            (prover_affine_mult_cst E (- power_two nb_bits) e_m)) (zip edabits (zip r e_m_batch));
          ei_batch = concat (map fst e_batch) in
      p_bind (on_f2 (prover_open G ei_batch)) (\<lambda>_.
      let e_prime_minus_sum_batch = map (\<lambda>(i, e_prime).
            prover_affine_add_cst (- convert_bits_to_field_mac (take nb_bits (drop (i * nb_bits) ei_batch))) e_prime)
            (enumerate 0 e_prime_batch) in
      on_fe (prover_check_zero E e_prime_minus_sum_batch))))"

definition prover_conv_loop ::
  "('g :: comm_ring_1, 'e :: comm_ring_1) conv_impl \<Rightarrow> ('g, 'e) edabits_prover list \<Rightarrow> ('g, 'e) edabits_prover list \<Rightarrow>
   ('g, 'e) dabit_prover list \<Rightarrow> (('g, 'e) prover_conv, unit) proc" where
  "prover_conv_loop K edabits r dabits =
     p_bind (p_require Panic (edabits \<noteq> [])) (\<lambda>_.
     p_bind (on_f2 (prover_bit_add_carry (impl_f2 K) (map ep_bits edabits) (map ep_bits r))) (\<lambda>e_batch.
     prover_conv_checks K edabits r dabits e_batch))"

definition verifier_conv_loop ::
  "('g :: comm_ring_1, 'e :: comm_ring_1) conv_impl \<Rightarrow> 'g \<Rightarrow> u8 list \<Rightarrow> ('g, 'e) edabits_verifier list \<Rightarrow>
   ('g, 'e) edabits_verifier list \<Rightarrow> ('g, 'e) dabit_verifier list \<Rightarrow> (('g, 'e) verifier_conv, unit) proc" where
  "verifier_conv_loop K chi seed edabits r dabits =
     p_bind (p_require Panic (edabits \<noteq> [])) (\<lambda>_.
     let nb_bits = length (ev_bits (edabits ! 0)); G = impl_f2 K; E = impl_fe K in
     p_bind (on_f2 (verifier_bit_add_carry G chi (map ev_bits edabits) (map ev_bits r))) (\<lambda>e_batch.
     p_bind (verifier_convert_bit_2_field K dabits (map snd e_batch)) (\<lambda>e_m_batch.
     let e_prime_mac_batch = map (\<lambda>(c, r, e_m). verifier_add (verifier_add (ev_value c) (ev_value r))
           (verifier_affine_mult_cst E (- power_two nb_bits) e_m)) (zip edabits (zip r e_m_batch));
         ei_mac_batch = concat (map fst e_batch) in
     p_bind (on_f2 (verifier_open G ei_mac_batch)) (\<lambda>ei_batch.
     p_bind p_get (\<lambda>st.
     let e_prime_minus_sum_batch = map (\<lambda>(i, e_prime).
           verifier_affine_add_cst E (delta (fcom_fe st))
             (- convert_bits_to_field (take nb_bits (drop (i * nb_bits) ei_batch))) e_prime)
           (enumerate 0 e_prime_mac_batch) in
     on_fe (verifier_check_zero E seed e_prime_minus_sum_batch))))))"


subsection \<open>Cut and choose\<close>

text \<open>The draws of the verifier, one challenge and one seed for every bucket.\<close>

record ('g, 'e) conv_coins =
  fdabit_seed :: "u8 list"
  fdabit_chi :: 'e
  shuffle_seed :: "u8 list"
  bucket_chi :: "nat \<Rightarrow> 'g"
  bucket_seed :: "nat \<Rightarrow> u8 list"

text \<open>\<open>conv\<close> of the prover, over the handling of one window.\<close>

definition prover_conv_with ::
  "(('g, 'e) edabits_prover list \<Rightarrow> ('g, 'e) edabits_prover list \<Rightarrow> ('g, 'e) dabit_prover list \<Rightarrow> (('g, 'e) prover_conv, unit) proc) \<Rightarrow>
   ('g :: comm_ring_1, 'e :: comm_ring_1) conv_impl \<Rightarrow> (nat \<Rightarrow> nat \<Rightarrow> F2) \<Rightarrow> nat \<Rightarrow> nat \<Rightarrow>
   ('g, 'e) edabits_prover list \<Rightarrow> (('g, 'e) prover_conv, unit) proc" where
  "prover_conv_with loop K draws num_bucket num_cut edabits =
     (let n = length edabits in
      if n = 0 then p_return ()
      else
        let nb_bits = length (ep_bits (edabits ! 0));
            nb_random_edabits = n * num_bucket + num_cut;
            nb_random_dabits = n * num_bucket;
            base = n * num_bucket in
        p_bind (random_edabits_prover K nb_bits nb_random_edabits) (\<lambda>r.
        p_bind (prover_random_dabits K nb_random_dabits) (\<lambda>dabits.
        p_bind (prover_fdabit K draws dabits) (\<lambda>_.
        p_bind read_block (\<lambda>seed.
        p_bind (p_lift (generate_permutation (gen_range K seed) [] r)) (\<lambda>(h, r).
        p_bind (p_lift (generate_permutation (gen_range K seed) h dabits)) (\<lambda>(_, dabits).
        p_bind (p_mapM (\<lambda>i. let a = r ! (base + i) in
          p_bind (on_f2 (prover_open (impl_f2 K) (ep_bits a))) (\<lambda>_.
          on_fe (prover_open (impl_fe K) [ep_value a]))) [0..<num_cut]) (\<lambda>_.
        p_bind (p_mapM (\<lambda>j. let idx_base = j * n in
          loop edabits (take n (drop idx_base r)) (take n (drop idx_base dabits))) [0..<num_bucket]) (\<lambda>_.
        p_return ())))))))))"

definition prover_conv ::
  "('g :: comm_ring_1, 'e :: comm_ring_1) conv_impl \<Rightarrow> (nat \<Rightarrow> nat \<Rightarrow> F2) \<Rightarrow> nat \<Rightarrow> nat \<Rightarrow>
   ('g, 'e) edabits_prover list \<Rightarrow> (('g, 'e) prover_conv, unit) proc" where
  "prover_conv K = prover_conv_with (prover_conv_loop K) K"

definition verifier_conv ::
  "('g :: comm_ring_1, 'e :: comm_ring_1) conv_impl \<Rightarrow> ('g, 'e) conv_coins \<Rightarrow> nat \<Rightarrow> nat \<Rightarrow>
   ('g, 'e) edabits_verifier list \<Rightarrow> (('g, 'e) verifier_conv, unit) proc" where
  "verifier_conv K coins num_bucket num_cut edabits =
     (let n = length edabits in
      if n = 0 then p_return ()
      else
        let nb_bits = length (ev_bits (edabits ! 0));
            nb_random_edabits = n * num_bucket + num_cut;
            nb_random_dabits = n * num_bucket;
            base = n * num_bucket;
            seed = shuffle_seed coins in
        p_bind (random_edabits_verifier K nb_bits nb_random_edabits) (\<lambda>r.
        p_bind (verifier_random_dabits K nb_random_dabits) (\<lambda>dabits.
        p_bind (verifier_fdabit K (fdabit_seed coins) (fdabit_chi coins) dabits) (\<lambda>_.
        p_bind (write_block seed) (\<lambda>_.
        p_bind flush (\<lambda>_.
        p_bind (p_lift (generate_permutation (gen_range K seed) [] r)) (\<lambda>(h, r).
        p_bind (p_lift (generate_permutation (gen_range K seed) h dabits)) (\<lambda>(_, dabits).
        p_bind (p_mapM (\<lambda>i. let a_mac = r ! (base + i) in
          p_bind (on_f2 (verifier_open (impl_f2 K) (ev_bits a_mac))) (\<lambda>a_vec.
          p_bind (on_fe (verifier_open (impl_fe K) [ev_value a_mac])) (\<lambda>a_m.
          if convert_bits_to_field a_vec \<noteq> a_m ! 0 then p_fail Err else p_return ()))) [0..<num_cut]) (\<lambda>_.
        p_bind (p_mapM (\<lambda>j. let idx_base = j * n in
          verifier_conv_loop K (bucket_chi coins j) (bucket_seed coins j) edabits
            (take n (drop idx_base r)) (take n (drop idx_base dabits))) [0..<num_bucket]) (\<lambda>_.
        p_return ()))))))))))"

definition select_best_cut_and_choose_parameters :: "nat \<Rightarrow> (nat \<times> nat) res" where
  "select_best_cut_and_choose_parameters num_conversions =
     res_bind (require Assertion (1024 \<le> num_conversions)) (\<lambda>_.
     let num_buckets = (if num_conversions < 10322 then 5 else if num_conversions < 1048576 then 4 else 3) in
     Inr (num_buckets, num_buckets))"

definition prover_verify_conversions ::
  "('g :: comm_ring_1, 'e :: comm_ring_1) conv_impl \<Rightarrow> (nat \<Rightarrow> nat \<Rightarrow> F2) \<Rightarrow>
   ('g, 'e) edabits_prover list \<Rightarrow> (('g, 'e) prover_conv, unit) proc" where
  "prover_verify_conversions K draws edabits =
     p_bind (p_lift (select_best_cut_and_choose_parameters (length edabits))) (\<lambda>(num_buckets, num_cut).
     prover_conv K draws num_buckets num_cut edabits)"

definition verifier_verify_conversions ::
  "('g :: comm_ring_1, 'e :: comm_ring_1) conv_impl \<Rightarrow> ('g, 'e) conv_coins \<Rightarrow>
   ('g, 'e) edabits_verifier list \<Rightarrow> (('g, 'e) verifier_conv, unit) proc" where
  "verifier_verify_conversions K coins edabits =
     p_bind (p_lift (select_best_cut_and_choose_parameters (length edabits))) (\<lambda>(num_buckets, num_cut).
     verifier_conv K coins num_buckets num_cut edabits)"

definition estimate_voles_impl :: "('g, 'e) conv_impl \<Rightarrow> nat \<Rightarrow> nat \<Rightarrow> (nat \<times> nat) res" where
  "estimate_voles_impl K n k =
     (if n = 0 then Inr (0, 0)
      else res_bind (select_best_cut_and_choose_parameters n) (\<lambda>(num_buckets, num_cut).
        let num_random_edabits = n * num_buckets + num_cut;
            num_random_dabits = n * num_buckets;
            num_voles_2 = num_random_edabits * k;
            num_voles_p = num_random_edabits;
            num_voles_2 = num_voles_2 + num_random_dabits;
            num_voles_p = num_voles_p + num_random_dabits;
            gamma = 64 - leading_zeros (num_random_dabits + 1);
            num_voles_2 = num_voles_2 + FDABIT_SECURITY_PARAMETER;
            num_voles_p = num_voles_p + (2 * FDABIT_SECURITY_PARAMETER * gamma + degree (impl_fe K));
            num_voles_2 = num_voles_2 + num_buckets * (n + n * k + degree (impl_f2 K)) in
        Inr (num_voles_2, num_voles_p)))"

end
