(* ===== verification/Edabits_Correct.thy ===== *)
theory Edabits_Correct
  imports Edabits HomCom_Correct "HOL-Library.Multiset"
begin

text \<open>
  Correctness of the building blocks of the conversions between honest parties: values of bit
  lists, the shuffle, the ripple-carry addition for any carry in, and the conversion of bits.
\<close>

subsection \<open>Values of bits\<close>

definition f2_nat :: "F2 \<Rightarrow> nat" where
  "f2_nat b = (if b = 0 then 0 else 1)"

primrec bits_nat :: "F2 list \<Rightarrow> nat" where
  "bits_nat [] = 0"
| "bits_nat (b # bs) = f2_nat b + 2 * bits_nat bs"

lemma f2_nat_simps [simp]: "f2_nat 0 = 0" "f2_nat 1 = 1"
  by (simp_all add: f2_nat_def)

lemma f2_to_fe_nat: "f2_to_fe b = of_nat (f2_nat b)"
  by (simp add: f2_to_fe_def f2_nat_def)

lemma f2_nat_le: "f2_nat b \<le> 1"
  by (simp add: f2_nat_def)

lemma bits_nat_append: "bits_nat (bs @ [b]) = bits_nat bs + 2 ^ length bs * f2_nat b"
  by (induction bs) simp_all

lemma bits_nat_less: "bits_nat bs < 2 ^ length bs"
proof (induction bs)
  case (Cons b bs)
  then show ?case using f2_nat_le [of b] by simp
qed simp

lemma convert_bits_nat: "convert_bits_to_field bs = of_nat (bits_nat bs)"
proof (induction bs)
  case (Cons b bs)
  then show ?case by (simp add: convert_bits_to_field_def f2_to_fe_nat)
qed (simp add: convert_bits_to_field_def)

lemma convert_bits_mac: "convert_bits_to_field_mac v = convert_bits_to_field (map mac_value v)"
  by (simp add: convert_bits_to_field_def convert_bits_to_field_mac_def foldl_map rev_map)

lemma power_two_power: "power_two m = 2 ^ m"
  by (induction m) (simp_all add: power_two_def)

text \<open>The full adder.\<close>

lemma full_adder:
  "f2_nat (x + c + y) + 2 * f2_nat (c + (x + c) * (y + c)) = f2_nat x + f2_nat y + f2_nat c"
  by (cases x rule: F2_cases; cases y rule: F2_cases; cases c rule: F2_cases) simp_all

subsection \<open>The shuffle\<close>

lemma mset_vec_swap: "vec_swap a b v = Inr w \<Longrightarrow> mset w = mset v"
  by (auto simp: vec_swap_def mset_swap split: if_splits)

lemma length_vec_swap: "vec_swap a b v = Inr w \<Longrightarrow> length w = length v"
  by (auto simp: vec_swap_def split: if_splits)

text \<open>
  Draws within their bounds never fail; the result is a rearrangement that does not depend on
  the elements.
\<close>

lemma permutation_loop_total:
  assumes "\<And>h i. 0 < i \<Longrightarrow> draw h i < i" and "i < length v"
  shows "\<exists>h' w. permutation_loop draw i h v = Inr (h', w) \<and> mset w = mset v"
  using assms(2)
proof (induction i arbitrary: h v)
  case (Suc i)
  have d: "draw h (Suc i) < length v" using assms(1) [of "Suc i" h] Suc.prems by simp
  let ?v = "v[draw h (Suc i) := v ! Suc i, Suc i := v ! draw h (Suc i)]"
  have "vec_swap (draw h (Suc i)) (Suc i) v = Inr ?v"
    using d Suc.prems by (simp add: vec_swap_def)
  moreover have "mset ?v = mset v" using d Suc.prems by (simp add: mset_swap)
  moreover obtain h' w where "permutation_loop draw i (h @ [Suc i]) ?v = Inr (h', w)" "mset w = mset ?v"
    using Suc.IH [of ?v "h @ [Suc i]"] Suc.prems by auto
  ultimately show ?case by (simp add: Let_def)
qed auto

lemma permutation_loop_all2:
  assumes "list_all2 R v v'"
  shows "rel_sum (=) (rel_prod (=) (list_all2 R)) (permutation_loop draw i h v) (permutation_loop draw i h v')"
  using assms
proof (induction i arbitrary: h v v')
  case (Suc i)
  have len: "length v = length v'" using Suc.prems by (rule list_all2_lengthD)
  show ?case
  proof (cases "draw h (Suc i) < length v \<and> Suc i < length v")
    case True
    then have "list_all2 R (v[draw h (Suc i) := v ! Suc i, Suc i := v ! draw h (Suc i)])
        (v'[draw h (Suc i) := v' ! Suc i, Suc i := v' ! draw h (Suc i)])"
      using Suc.prems by (intro list_all2_update_cong) (auto simp: list_all2_conv_all_nth)
    from Suc.IH [OF this] True len show ?thesis by (simp add: vec_swap_def Let_def)
  next
    case False
    then have "vec_swap (draw h (Suc i)) (Suc i) v = Inl Panic" "vec_swap (draw h (Suc i)) (Suc i) v' = Inl Panic"
      using len by (auto simp: vec_swap_def)
    then show ?thesis by (simp add: Let_def)
  qed
qed simp

text \<open>Where the elements go: never to where they were.\<close>

lemma permutation_loop_above:
  "permutation_loop draw i h v = Inr (h', w) \<Longrightarrow> i < k \<Longrightarrow> (\<And>h i. 0 < i \<Longrightarrow> draw h i < i) \<Longrightarrow> w ! k = v ! k"
proof (induction i arbitrary: h v)
  case (Suc i)
  from Suc.prems(1) obtain u where u: "vec_swap (draw h (Suc i)) (Suc i) v = Inr u"
      "permutation_loop draw i (h @ [Suc i]) u = Inr (h', w)"
    by (auto simp: Let_def res_bind_Inr_iff)
  have "draw h (Suc i) \<noteq> k" using Suc.prems(2) Suc.prems(3) [of "Suc i" h] by simp
  with u(1) Suc.prems(2) have "u ! k = v ! k" by (auto simp: vec_swap_def split: if_splits)
  with Suc.IH [OF u(2) _ Suc.prems(3)] Suc.prems(2) show ?case by simp
qed simp

lemma permutation_loop_deranges:
  assumes "permutation_loop draw i h v = Inr (h', w)" and "distinct v" and "k \<le> i" and "0 < i" and "i < length v"
    and draw: "\<And>h i. 0 < i \<Longrightarrow> draw h i < i"
  shows "w ! k \<noteq> v ! k"
  using assms(1-5)
proof (induction i arbitrary: h v)
  case (Suc i)
  let ?idx = "draw h (Suc i)"
  obtain u where u: "vec_swap ?idx (Suc i) v = Inr u" "permutation_loop draw i (h @ [Suc i]) u = Inr (h', w)"
    using Suc.prems(1) by (auto simp: Let_def res_bind_Inr_iff)
  have idx: "?idx < Suc i" using draw [of "Suc i" h] by simp
  have u_def: "u = v[?idx := v ! Suc i, Suc i := v ! ?idx]"
    using u(1) by (auto simp: vec_swap_def split: if_splits)
  have mset: "mset u = mset v" using u(1) by (rule mset_vec_swap)
  then have dist: "distinct u" and len: "length u = length v"
    using Suc.prems(2) by (metis mset_eq_imp_distinct_iff, metis size_mset)
  obtain h2 w2 where "permutation_loop draw i (h @ [Suc i]) u = Inr (h2, w2)" "mset w2 = mset u"
    using permutation_loop_total [of draw i u "h @ [Suc i]"] draw Suc.prems(5) len by auto
  with u(2) have w: "mset w = mset u" by simp
  then have dist_w: "distinct w" and len_w: "length w = length v"
    using dist len by (metis mset_eq_imp_distinct_iff, metis size_mset)
  have top: "w ! Suc i = v ! ?idx"
    using permutation_loop_above [OF u(2) lessI draw] Suc.prems(5) by (simp add: u_def)
  consider "k = Suc i" | "k = ?idx" | "k \<le> i" "k \<noteq> ?idx"
    using Suc.prems(3) by (auto simp: le_Suc_eq)
  then show ?case
  proof cases
    case 1
    then show ?thesis
      using top idx Suc.prems(2,5) by (auto simp: nth_eq_iff_index_eq)
  next
    case 2
    then have "w ! k \<noteq> w ! Suc i"
      using dist_w idx Suc.prems(5) len_w by (simp add: nth_eq_iff_index_eq)
    with top 2 show ?thesis by simp
  next
    case 3
    then have "0 < i" using idx by (cases i) auto
    from Suc.IH [OF u(2) dist 3(1) this] Suc.prems(5) len have "w ! k \<noteq> u ! k" by simp
    with 3 show ?thesis by (simp add: u_def)
  qed
qed simp

lemma permutation_total:
  assumes "\<And>h i. 0 < i \<Longrightarrow> draw h i < i"
  shows "\<exists>h' w. generate_permutation draw h v = Inr (h', w) \<and> mset w = mset v"
  using permutation_loop_total [of draw "length v - 1" v h] assms
  by (cases v) (auto simp: generate_permutation_def Let_def)

lemma permutation_all2:
  assumes "list_all2 R v v'" and "generate_permutation draw h v = Inr (h', w)"
  shows "\<exists>w'. generate_permutation draw h v' = Inr (h', w') \<and> list_all2 R w w'"
proof (cases "v = []")
  case False
  moreover from this have "v' \<noteq> []" using assms(1) by auto
  ultimately show ?thesis
    using permutation_loop_all2 [OF assms(1), of draw "length v - 1" h] assms(2) list_all2_lengthD [OF assms(1)]
    by (auto simp: generate_permutation_def Let_def rel_sum.simps)
qed (use assms in \<open>simp add: generate_permutation_def\<close>)

text \<open>
  C33. The shuffle: with draws within their bounds it ends without a panic in a rearrangement of
  the vector that depends on the draws alone, so that both parties rearrange their edaBits in the
  same way from one seed. As the draws exclude the current position, no element keeps its
  place (a cyclic permutation of Sattolo's kind, where the comment in the code names the method
  of Fisher and Yates, which has all permutations).
\<close>

theorem generate_permutation_deranges:
  assumes "\<And>h i. 0 < i \<Longrightarrow> draw h i < i"
  shows "\<exists>h' w. generate_permutation draw h v = Inr (h', w) \<and> mset w = mset v \<and>
    (distinct v \<and> 1 < length v \<longrightarrow> (\<forall>k < length v. w ! k \<noteq> v ! k)) \<and>
    (\<forall>R v'. list_all2 R v v' \<longrightarrow> (\<exists>w'. generate_permutation draw h v' = Inr (h', w') \<and> list_all2 R w w'))"
proof -
  obtain h' w where w: "generate_permutation draw h v = Inr (h', w)" "mset w = mset v"
    using permutation_total [of draw h v, OF assms] by blast
  moreover have "w ! k \<noteq> v ! k" if "distinct v" "1 < length v" "k < length v" for k
  proof (rule permutation_loop_deranges [OF _ that(1)])
    have "v \<noteq> []" using that by auto
    then show "permutation_loop draw (length v - 1) h v = Inr (h', w)"
      using w(1) by (simp add: generate_permutation_def Let_def)
  qed (use that assms in auto)
  ultimately show ?thesis using permutation_all2 by blast
qed

theorem generate_permutation_deranges_witness:
  "\<exists>h' w. generate_permutation (\<lambda>h i. i - 1) [] [10, 20, 30 :: nat] = Inr (h', w) \<and> mset w = {#10, 20, 30#} \<and>
    w ! 0 \<noteq> 10"
proof -
  have "0 < i \<Longrightarrow> (\<lambda>h i. i - 1) h i < i" for h :: "nat list" and i :: nat by simp
  from generate_permutation_deranges [OF this, of "[]" "[10, 20, 30 :: nat]"] show ?thesis
    by fastforce
qed

end
