(* ===== verification/Adder_Correct.thy ===== *)
theory Adder_Correct
  imports Edabits_Correct
begin

text \<open>
  The addition of committed bits between honest parties, for any bits that the prover commits to
  as the carries in: the result and the carry out are MACs on the sum of the two numbers and the
  carry in.
\<close>

lemma map2_all2:
  assumes "list_all2 R xs xs'" and "list_all2 S ys ys'" and "\<And>x x' y y'. R x x' \<Longrightarrow> S y y' \<Longrightarrow> Q (f x y) (g x' y')"
  shows "list_all2 Q (map2 f xs ys) (map2 g xs' ys')"
  using assms by (auto simp: list_all2_conv_all_nth)

lemma zip_all2: "list_all2 R xs xs' \<Longrightarrow> list_all2 S ys ys' \<Longrightarrow> list_all2 (rel_prod R S) (zip xs ys) (zip xs' ys')"
  by (auto simp: list_all2_conv_all_nth)

lemma joint_foldM:
  assumes "J 0 a s b t" and "\<And>i a s b t. i < n \<Longrightarrow> J i a s b t \<Longrightarrow> joint (f a i) (g b i) s t (J (Suc i))"
  shows "joint (p_foldM f a [0..<n]) (p_foldM g b [0..<n]) s t (J n)"
proof -
  have "J i a s b t \<Longrightarrow> i \<le> n \<Longrightarrow> joint (p_foldM f a [i..<n]) (p_foldM g b [i..<n]) s t (J n)" for i a s b t
  proof (induction "n - i" arbitrary: i a s b t)
    case 0
    then show ?case by (simp add: joint_return)
  next
    case (Suc k)
    then have "i < n" by simp
    then have "[i..<n] = i # [Suc i..<n]" by (simp add: upt_rec)
    moreover have "joint (f a i) (g b i) s t (J (Suc i))" using Suc.prems \<open>i < n\<close> by (intro assms(2)) simp_all
    ultimately show ?case
      using Suc.hyps(2) \<open>i < n\<close> by (auto intro!: joint_bind [OF _ Suc.hyps(1)])
  qed
  with assms(1) show ?thesis by simp
qed

text \<open>Bits with carry in \<open>c0\<close>, after \<open>i\<close> rounds.\<close>

definition adder_values ::
  "F2 list \<Rightarrow> (F2, 'g) mac_prover list list \<Rightarrow> (F2, 'g) mac_prover list list \<Rightarrow> nat \<Rightarrow>
   ((F2, 'g) mac_prover list \<times> (F2, 'g) mac_prover) list \<Rightarrow> bool" where
  "adder_values c0 xs ys i res \<longleftrightarrow> length res = length xs \<and>
     (\<forall>j < length xs. length (fst (res ! j)) = i \<and>
       bits_nat (map mac_value (fst (res ! j))) + 2 ^ i * f2_nat (mac_value (snd (res ! j)))
       = bits_nat (map mac_value (take i (xs ! j))) + bits_nat (map mac_value (take i (ys ! j))) + f2_nat (c0 ! j))"

definition sums_ok ::
  "(F2, 'g :: comm_ring_1) field_impl \<Rightarrow> 'g \<Rightarrow> (F2, 'g) mac_prover list \<times> (F2, 'g) mac_prover \<Rightarrow>
   'g mac_verifier list \<times> 'g mac_verifier \<Rightarrow> bool" where
  "sums_ok G d = rel_prod (list_all2 (mac_ok G d)) (mac_ok G d)"

definition adder_ok ::
  "(F2, 'g :: comm_ring_1) field_impl \<Rightarrow> 'g \<Rightarrow> F2 list \<Rightarrow> (F2, 'g) mac_prover list list \<Rightarrow> (F2, 'g) mac_prover list list \<Rightarrow>
   nat \<Rightarrow> nat \<Rightarrow> 'g prover_adder \<Rightarrow> (F2, 'g) fcom_prover \<Rightarrow> 'g verifier_adder \<Rightarrow> 'g fcom_verifier \<Rightarrow> bool" where
  "adder_ok G d c0 xs ys n i = (\<lambda>(ci, triples, zs) s (ci', triples', zs') t.
     length ci = length xs \<and> length zs = length xs \<and>
     list_all2 (mac_ok G d) ci ci' \<and> list_all2 (list_all2 (mac_ok G d)) zs zs' \<and>
     list_all2 (triple_ok G d) triples triples' \<and>
     (\<forall>(x, y, z) \<in> set triples. mac_value z = mac_value x * mac_value y) \<and>
     adder_values c0 xs ys i (zip zs ci) \<and> fcom_ok G d n s t)"

lemma adder_values_step:
  assumes "adder_values c0 xs ys i (zip zs ci)" and "length ci = length xs" and "length zs = length xs"
    and "length ys = length xs" and "\<And>x. x \<in> set xs \<Longrightarrow> i < length x" and "\<And>y. y \<in> set ys \<Longrightarrow> i < length y"
    and "length zs2 = length xs" and "length ci2 = length xs"
    and "\<And>j. j < length xs \<Longrightarrow> \<exists>z. zs2 ! j = zs ! j @ [z] \<and>
      mac_value z = mac_value (xs ! j ! i) + mac_value (ci ! j) + mac_value (ys ! j ! i)"
    and "\<And>j. j < length xs \<Longrightarrow> mac_value (ci2 ! j) = mac_value (ci ! j)
      + (mac_value (xs ! j ! i) + mac_value (ci ! j)) * (mac_value (ys ! j ! i) + mac_value (ci ! j))"
  shows "adder_values c0 xs ys (Suc i) (zip zs2 ci2)"
  unfolding adder_values_def
proof (intro conjI allI impI)
  show "length (zip zs2 ci2) = length xs" using assms(7,8) by simp
  fix j assume j: "j < length xs"
  let ?x = "mac_value (xs ! j ! i)" and ?y = "mac_value (ys ! j ! i)" and ?c = "mac_value (ci ! j)"
  obtain z where z: "zs2 ! j = zs ! j @ [z]" "mac_value z = ?x + ?c + ?y"
    using assms(9) [OF j] by blast
  have old: "length (zs ! j) = i"
    "bits_nat (map mac_value (zs ! j)) + 2 ^ i * f2_nat ?c
     = bits_nat (map mac_value (take i (xs ! j))) + bits_nat (map mac_value (take i (ys ! j))) + f2_nat (c0 ! j)"
    using assms(1-3) j by (auto simp: adder_values_def)
  show "length (fst (zip zs2 ci2 ! j)) = Suc i" using j z(1) old(1) assms(7,8) by simp
  have "i < length (xs ! j)" "i < length (ys ! j)" using assms(4,5,6) j by simp_all
  then have take: "map mac_value (take (Suc i) (xs ! j)) = map mac_value (take i (xs ! j)) @ [?x]"
      "map mac_value (take (Suc i) (ys ! j)) = map mac_value (take i (ys ! j)) @ [?y]"
      "length (take i (xs ! j)) = i" "length (take i (ys ! j)) = i"
    by (simp_all add: take_Suc_conv_app_nth)
  have "2 ^ i * f2_nat (?x + ?c + ?y) + 2 ^ Suc i * f2_nat (?c + (?x + ?c) * (?y + ?c))
      = 2 ^ i * (f2_nat ?x + f2_nat ?y + f2_nat ?c)"
    by (simp only: full_adder [symmetric]) (simp add: algebra_simps)
  with old(2) show "bits_nat (map mac_value (fst (zip zs2 ci2 ! j))) + 2 ^ Suc i * f2_nat (mac_value (snd (zip zs2 ci2 ! j)))
      = bits_nat (map mac_value (take (Suc i) (xs ! j))) + bits_nat (map mac_value (take (Suc i) (ys ! j))) + f2_nat (c0 ! j)"
    using j assms(7,8,10) z take by (simp add: bits_nat_append old(1) algebra_simps)
qed


text \<open>The shape of a batch: \<open>m\<close> bits in every entry.\<close>

definition batch_ok ::
  "(F2, 'g :: comm_ring_1) field_impl \<Rightarrow> 'g \<Rightarrow> nat \<Rightarrow> nat \<Rightarrow> (F2, 'g) mac_prover list list \<Rightarrow> 'g mac_verifier list list \<Rightarrow> bool" where
  "batch_ok G d num m xs xs' \<longleftrightarrow> list_all2 (list_all2 (mac_ok G d)) xs xs' \<and> length xs = num \<and> (\<forall>x \<in> set xs. length x = m)"

lemma batch_ok_lengths:
  assumes "batch_ok G d num m xs xs'"
  shows "length xs = num" "length xs' = num" "list_all (\<lambda>x. length x = m) xs" "list_all (\<lambda>x. length x = m) xs'"
  using assms by (auto simp: batch_ok_def list_all_length all_set_conv_all_nth list_all2_conv_all_nth)

lemma batch_ok_column:
  assumes "batch_ok G d num m xs xs'" and "i < m"
  shows "list_all2 (\<lambda>x x'. mac_ok G d (x ! i) (x' ! i)) xs xs'"
  using assms by (auto simp: batch_ok_def list_all2_conv_all_nth)

lemma joint_adder_round:
  fixes G :: "(F2, 'g :: comm_ring_1) field_impl"
  assumes G: "finite_field G" and ok: "adder_ok G d c0 xs ys (num + n) i st s st' t"
    and xs: "batch_ok G d num m xs xs'" and ys: "batch_ok G d num m ys ys'" and i: "i < m"
  shows "joint (prover_adder_round G m xs ys st i) (verifier_adder_round G m xs' ys' st' i) s t
    (adder_ok G d c0 xs ys n (Suc i))"
proof -
  obtain ci triples zs where st: "st = (ci, triples, zs)" by (cases st) auto
  obtain ci' triples' zs' where st': "st' = (ci', triples', zs')" by (cases st') auto
  note len = batch_ok_lengths [OF xs] batch_ok_lengths [OF ys]
  have old: "length ci = num" "length zs = num" "list_all2 (mac_ok G d) ci ci'"
      "list_all2 (list_all2 (mac_ok G d)) zs zs'" "list_all2 (triple_ok G d) triples triples'"
      "\<forall>(x, y, z) \<in> set triples. mac_value z = mac_value x * mac_value y"
      "adder_values c0 xs ys i (zip zs ci)" "fcom_ok G d (num + n) s t"
    using ok len by (simp_all add: adder_ok_def st st')
  let ?and1 = "map2 (\<lambda>x c. prover_add (x ! i) c) xs ci" and ?and1' = "map2 (\<lambda>x c. verifier_add (x ! i) c) xs' ci'"
  let ?and2 = "map2 (\<lambda>y c. prover_add (y ! i) c) ys ci" and ?and2' = "map2 (\<lambda>y c. verifier_add (y ! i) c) ys' ci'"
  let ?res = "map2 (\<lambda>a b. mac_value a * mac_value b) ?and1 ?and2"
  let ?z = "map2 (\<lambda>a y. prover_add a (y ! i)) ?and1 ys" and ?z' = "map2 (\<lambda>a y. verifier_add a (y ! i)) ?and1' ys'"
  have and1: "list_all2 (mac_ok G d) ?and1 ?and1'"
    by (rule map2_all2 [OF batch_ok_column [OF xs i] old(3)]) (rule finite_field.mac_ok_add [OF G])
  have and2: "list_all2 (mac_ok G d) ?and2 ?and2'"
    by (rule map2_all2 [OF batch_ok_column [OF ys i] old(3)]) (rule finite_field.mac_ok_add [OF G])
  have z: "list_all2 (mac_ok G d) ?z ?z'"
    by (rule map2_all2 [OF and1 batch_ok_column [OF ys i]]) (rule finite_field.mac_ok_add [OF G])
  have lres: "length ?res = num" using len old by simp
  have "fcom_ok G d (length ?res + n) s t" using old(8) lres by simp
  from finite_field.joint_input_macs [OF G this]
  have inp: "joint (prover_input_low_level G ?res []) (verifier_input_low_level G (length xs') []) s t
      (\<lambda>ms s' ks t'. length ms = length ?res \<and> list_all2 (mac_ok G d) (map2 MacProver ?res ms) ks \<and> fcom_ok G d n s' t')"
    using len lres by (simp add: prover_input_def verifier_input_def)
  show ?thesis
    unfolding st st' prover_adder_round_def verifier_adder_round_def prod.case Let_def
  proof (rule joint_left [OF runs_require], use len in simp, rule joint_right [OF runs_require], use len in simp,
      rule joint_bind [OF inp], elim conjE, rule joint_return)
    fix ms s2 ks t2
    assume ms: "length ms = length ?res" "list_all2 (mac_ok G d) (map2 MacProver ?res ms) ks" "fcom_ok G d n s2 t2"
    let ?ands = "map2 MacProver ?res ms"
    have lands: "length ?ands = num" using ms(1) lres by simp
    have product: "mac_value (?ands ! j) = (mac_value (xs ! j ! i) + mac_value (ci ! j)) * (mac_value (ys ! j ! i) + mac_value (ci ! j))"
      if "j < num" for j
      using that len old ms(1) by (simp add: prover_add_def)
    have sums: "adder_values c0 xs ys (Suc i) (zip (map2 (\<lambda>zs z. zs @ [z]) zs ?z) (map2 prover_add ci ?ands))"
    proof (rule adder_values_step [OF old(7)])
      fix j assume "j < length xs"
      then have j: "j < num" using len by simp
      show "\<exists>z. map2 (\<lambda>zs z. zs @ [z]) zs ?z ! j = zs ! j @ [z] \<and>
          mac_value z = mac_value (xs ! j ! i) + mac_value (ci ! j) + mac_value (ys ! j ! i)"
        using j len old by (simp add: prover_add_def)
      show "mac_value (map2 prover_add ci ?ands ! j) = mac_value (ci ! j)
          + (mac_value (xs ! j ! i) + mac_value (ci ! j)) * (mac_value (ys ! j ! i) + mac_value (ci ! j))"
        using product [OF j] j old(1) lands by (simp add: prover_add_def)
    qed (use xs ys len old lands i in \<open>auto simp: batch_ok_def\<close>)
    have carries: "list_all2 (mac_ok G d) (map2 prover_add ci ?ands) (map2 verifier_add ci' ks)"
      by (rule map2_all2 [OF old(3) ms(2)]) (rule finite_field.mac_ok_add [OF G])
    have bits: "list_all2 (list_all2 (mac_ok G d)) (map2 (\<lambda>zs z. zs @ [z]) zs ?z) (map2 (\<lambda>zs z. zs @ [z]) zs' ?z')"
      by (rule map2_all2 [OF old(4) z]) (auto intro: list_all2_appendI)
    have triples: "list_all2 (triple_ok G d) (triples @ zip ?and1 (zip ?and2 ?ands)) (triples' @ zip ?and1' (zip ?and2' ks))"
      using zip_all2 [OF and1 zip_all2 [OF and2 ms(2)]]
      by (intro list_all2_appendI [OF old(5)], elim list_all2_mono) (auto simp: triple_ok_def)
    have products: "\<forall>(x, y, z) \<in> set (zip ?and1 (zip ?and2 ?ands)). mac_value z = mac_value x * mac_value y"
      using len old lands by (auto simp: set_zip prover_add_def)
    show "adder_ok G d c0 xs ys n (Suc i)
        (map2 prover_add ci ?ands, triples @ zip ?and1 (zip ?and2 ?ands), map2 (\<lambda>zs z. zs @ [z]) zs ?z) s2
        (map2 verifier_add ci' ks, triples' @ zip ?and1' (zip ?and2' ks), map2 (\<lambda>zs z. zs @ [z]) zs' ?z') t2"
      unfolding adder_ok_def prod.case
      using carries bits triples sums ms(3) products old(6) len old(1,2) lands by auto
  qed
qed


lemma adder_values_all:
  "adder_values c0 xs ys m res \<Longrightarrow> batch_ok G d num m xs xs' \<Longrightarrow> batch_ok G d num m ys ys' \<Longrightarrow> j < num \<Longrightarrow>
   length (fst (res ! j)) = m \<and>
   bits_nat (map mac_value (fst (res ! j))) + 2 ^ m * f2_nat (mac_value (snd (res ! j)))
   = bits_nat (map mac_value (xs ! j)) + bits_nat (map mac_value (ys ! j)) + f2_nat (c0 ! j)"
  by (auto simp: adder_values_def batch_ok_def)

text \<open>The VOLEs that an addition of \<open>num\<close> numbers of \<open>m\<close> bits takes.\<close>

abbreviation adder_voles :: "(F2, 'g) field_impl \<Rightarrow> nat \<Rightarrow> nat \<Rightarrow> nat" where
  "adder_voles G num m \<equiv> num + num * m + degree G"

lemma joint_adder:
  fixes G :: "(F2, 'g :: comm_ring_1) field_impl"
  assumes G: "finite_field G" and ok: "fcom_ok G d (adder_voles G num m + n) s t"
    and xs: "batch_ok G d num m xs xs'" and ys: "batch_ok G d num m ys ys'" and c0: "length c0 = num" and num: "0 < num"
  shows "joint (prover_adder G c0 xs ys) (verifier_bit_add_carry G chi xs' ys') s t (\<lambda>res s' res' t'.
    list_all2 (sums_ok G d) res res' \<and> adder_values c0 xs ys m res \<and> fcom_ok G d n s' t')"
proof -
  note len = batch_ok_lengths [OF xs] batch_ok_lengths [OF ys]
  have m: "length (xs ! 0) = m" "length (xs' ! 0) = m" "xs' \<noteq> []"
    using len num by (auto simp: list_all_length)
  let ?n = "degree G + n"
  let ?J = "\<lambda>i. adder_ok G d c0 xs ys ((m - i) * num + ?n) i"
  have inp: "joint (prover_input G c0) (verifier_input G (length xs')) s t
      (\<lambda>ms s' ks t'. length ms = length c0 \<and> list_all2 (mac_ok G d) (map2 MacProver c0 ms) ks \<and>
        fcom_ok G d (m * num + ?n) s' t')"
    using finite_field.joint_input_macs [OF G, of d c0 "m * num + ?n" s t] ok c0 len
    by (simp add: ac_simps)
  have loop: "joint (p_foldM (prover_adder_round G m xs ys) (map2 MacProver c0 ms, [], replicate num []) [0..<m])
      (p_foldM (verifier_adder_round G m xs' ys') (ks, [], replicate num []) [0..<m]) s2 t2 (?J m)"
    if ms: "length ms = length c0" "list_all2 (mac_ok G d) (map2 MacProver c0 ms) ks" "fcom_ok G d (m * num + ?n) s2 t2"
    for ms ks s2 t2
  proof (rule joint_foldM [where J = ?J])
    show "?J 0 (map2 MacProver c0 ms, [], replicate num []) s2 (ks, [], replicate num []) t2"
      using ms c0 len by (auto simp: adder_ok_def adder_values_def list_all2_conv_all_nth)
    fix i a b s t assume i: "i < m" and J: "?J i a s b t"
    then have "(m - i) * num = num + (m - Suc i) * num"
      by (metis Suc_diff_Suc mult_Suc)
    with J have "adder_ok G d c0 xs ys (num + ((m - Suc i) * num + ?n)) i a s b t" by (simp add: add.assoc)
    from joint_adder_round [OF G this xs ys i]
    show "joint (prover_adder_round G m xs ys a i) (verifier_adder_round G m xs' ys' b i) s t (?J (Suc i))" .
  qed
  show ?thesis
    unfolding prover_adder_def verifier_bit_add_carry_def Let_def m(1,2)
  proof (rule joint_right [OF runs_require], use len in simp, rule joint_right [OF runs_require], use m in simp,
      rule joint_bind [OF inp], elim conjE)
    fix ms s2 ks t2
    assume ms: "length ms = length c0" "list_all2 (mac_ok G d) (map2 MacProver c0 ms) ks"
      "fcom_ok G d (m * num + ?n) s2 t2"
    show "joint
        (p_bind (p_foldM (prover_adder_round G m xs ys) (map2 MacProver c0 ms, [], replicate (length xs) []) [0..<m])
          (\<lambda>(ci, triples, z_batch). p_bind flush (\<lambda>_. p_bind (prover_check_multiply G triples) (\<lambda>_. p_return (zip z_batch ci)))))
        (p_bind (p_foldM (verifier_adder_round G m xs' ys') (ks, [], replicate (length xs') []) [0..<m])
          (\<lambda>(ci, triples, z_batch). p_bind (verifier_check_multiply G chi triples) (\<lambda>_. p_return (zip z_batch ci))))
        s2 t2 (\<lambda>res s' res' t'. list_all2 (sums_ok G d) res res' \<and> adder_values c0 xs ys m res \<and> fcom_ok G d n s' t')"
      unfolding len(1,2)
    proof (rule joint_bind [OF loop [OF ms]])
      fix a s3 b t3 assume J: "?J m a s3 b t3"
      obtain ci triples zs where a: "a = (ci, triples, zs)" by (cases a) auto
      obtain ci' triples' zs' where b: "b = (ci', triples', zs')" by (cases b) auto
      from J have ok: "list_all2 (mac_ok G d) ci ci'" "list_all2 (list_all2 (mac_ok G d)) zs zs'"
          "list_all2 (triple_ok G d) triples triples'" "\<forall>(x, y, z) \<in> set triples. mac_value z = mac_value x * mac_value y"
          "adder_values c0 xs ys m (zip zs ci)" "fcom_ok G d ?n s3 t3"
        by (simp_all add: adder_ok_def a b)
      have "joint (p_bind (prover_check_multiply G triples) (\<lambda>_. p_return (zip zs ci)))
          (p_bind (verifier_check_multiply G chi triples') (\<lambda>_. p_return (zip zs' ci'))) s3 t3
          (\<lambda>res s' res' t'. list_all2 (sums_ok G d) res res' \<and> adder_values c0 xs ys m res \<and> fcom_ok G d n s' t')"
        by (rule joint_bind [OF finite_field.joint_check_multiply [OF G ok(6,3,4)]], rule joint_return)
          (use ok(5) zip_all2 [OF ok(2,1)] in \<open>simp add: sums_ok_def\<close>)
      then show "joint
          (case a of (ci, triples, z_batch) \<Rightarrow>
            p_bind flush (\<lambda>_. p_bind (prover_check_multiply G triples) (\<lambda>_. p_return (zip z_batch ci))))
          (case b of (ci, triples, z_batch) \<Rightarrow>
            p_bind (verifier_check_multiply G chi triples) (\<lambda>_. p_return (zip z_batch ci))) s3 t3
          (\<lambda>res s' res' t'. list_all2 (sums_ok G d) res res' \<and> adder_values c0 xs ys m res \<and> fcom_ok G d n s' t')"
        unfolding a b prod.case by (rule joint_left [OF runs_flush])
    qed
  qed
qed

lemma joint_bit_add_carry:
  fixes G :: "(F2, 'a :: comm_ring_1) field_impl"
  assumes "finite_field G" and "fcom_ok G d (adder_voles G num m + n) s t"
    and xs: "batch_ok G d num m xs xs'" and ys: "batch_ok G d num m ys ys'" and num: "0 < num"
  shows "joint (prover_bit_add_carry G xs ys) (verifier_bit_add_carry G chi xs' ys') s t (\<lambda>res s' res' t'.
    list_all2 (sums_ok G d) res res' \<and> adder_values (replicate num 0) xs ys m res \<and> fcom_ok G d n s' t')"
  unfolding prover_bit_add_carry_def
proof (rule joint_left [OF runs_require], use batch_ok_lengths [OF xs] batch_ok_lengths [OF ys] in simp,
    rule joint_left [OF runs_require])
  show "xs \<noteq> []" using batch_ok_lengths [OF xs] num by auto
  show "joint (prover_adder G (replicate (length xs) 0) xs ys) (verifier_bit_add_carry G chi xs' ys') s t
    (\<lambda>res s' res' t'. list_all2 (sums_ok G d) res res' \<and> adder_values (replicate num 0) xs ys m res \<and> fcom_ok G d n s' t')"
    using joint_adder [OF assms(1-4) _ num, of "replicate num 0"] batch_ok_lengths [OF xs] by simp
qed

end
