(* ===== verification/Conversion_Correct.thy ===== *)
theory Conversion_Correct
  imports Conversion Adder_Correct
begin

text \<open>
  The conversion check between parties that follow the code, and a prover that deviates in the
  carries it commits to: what the verifier accepts, and that the VOLEs of the estimate suffice.
\<close>

subsection \<open>The interface of the two fields\<close>

text \<open>
  The prime field multiplies its own elements, the first bit of a small number is its parity,
  and bounded draws are within their bounds.
\<close>

locale conv_fields =
  fixes K :: "('g :: comm_ring_1, 'e :: comm_ring_1) conv_impl"
  assumes f2_field: "finite_field (impl_f2 K)"
    and fe_field: "finite_field (impl_fe K)"
    and smul_fe: "smul (impl_fe K) a x = a * x"
    and parity: "k < 2 ^ (number_of_bits K - 1) \<Longrightarrow> bit_decomposition K (of_nat k) ! 0 = odd k"
    and draw_less: "0 < i \<Longrightarrow> gen_range K seed h i < i"

definition conv_ok ::
  "('g :: comm_ring_1, 'e :: comm_ring_1) conv_impl \<Rightarrow> 'g \<Rightarrow> 'e \<Rightarrow> nat \<Rightarrow> nat \<Rightarrow> ('g, 'e) prover_conv \<Rightarrow> ('g, 'e) verifier_conv \<Rightarrow> bool" where
  "conv_ok K d2 de m n s t \<longleftrightarrow>
     fcom_ok (impl_f2 K) d2 m (fcom_f2 s) (fcom_f2 t) \<and> fcom_ok (impl_fe K) de n (fcom_fe s) (fcom_fe t)"

text \<open>Corresponding edaBits and daBits, and their values.\<close>

definition edabit_ok ::
  "('g :: comm_ring_1, 'e :: comm_ring_1) conv_impl \<Rightarrow> 'g \<Rightarrow> 'e \<Rightarrow> nat \<Rightarrow> ('g, 'e) edabits_prover \<Rightarrow> ('g, 'e) edabits_verifier \<Rightarrow> bool" where
  "edabit_ok K d2 de m x y \<longleftrightarrow> length (ep_bits x) = m \<and>
     list_all2 (mac_ok (impl_f2 K) d2) (ep_bits x) (ev_bits y) \<and> mac_ok (impl_fe K) de (ep_value x) (ev_value y)"

definition edabit_number :: "('g, 'e) edabits_prover \<Rightarrow> nat" where
  "edabit_number x = bits_nat (map mac_value (ep_bits x))"

definition edabit_correct :: "('g, 'e :: comm_ring_1) edabits_prover \<Rightarrow> bool" where
  "edabit_correct x \<longleftrightarrow> mac_value (ep_value x) = of_nat (edabit_number x)"

definition dabit_ok ::
  "('g :: comm_ring_1, 'e :: comm_ring_1) conv_impl \<Rightarrow> 'g \<Rightarrow> 'e \<Rightarrow> ('g, 'e) dabit_prover \<Rightarrow> ('g, 'e) dabit_verifier \<Rightarrow> bool" where
  "dabit_ok K d2 de x y \<longleftrightarrow>
     mac_ok (impl_f2 K) d2 (dp_bit x) (dv_bit y) \<and> mac_ok (impl_fe K) de (dp_value x) (dv_value y)"

definition dabit_correct :: "('g, 'e :: comm_ring_1) dabit_prover \<Rightarrow> bool" where
  "dabit_correct x \<longleftrightarrow> mac_value (dp_value x) = of_nat (f2_nat (mac_value (dp_bit x)))"

subsection \<open>Steps on one of the two schemes\<close>

lemma joint_on_f2:
  assumes "joint P V (fcom_f2 s) (fcom_f2 t) (\<lambda>a s' b t'. Q a b \<and> fcom_ok (impl_f2 K) d2 k s' t')"
    and "conv_ok K d2 de m n s t"
  shows "joint (on_f2 P) (on_f2 V) s t (\<lambda>a s' b t'. Q a b \<and> conv_ok K d2 de k n s' t')"
  unfolding on_f2_def
  by (rule joint_mono [OF joint_zoom [where get = fcom_f2 and get' = fcom_f2, OF assms(1)]]) (use assms(2) in \<open>auto simp: conv_ok_def\<close>)

lemma joint_on_fe:
  assumes "joint P V (fcom_fe s) (fcom_fe t) (\<lambda>a s' b t'. Q a b \<and> fcom_ok (impl_fe K) de k s' t')"
    and "conv_ok K d2 de m n s t"
  shows "joint (on_fe P) (on_fe V) s t (\<lambda>a s' b t'. Q a b \<and> conv_ok K d2 de m k s' t')"
  unfolding on_fe_def
  by (rule joint_mono [OF joint_zoom [where get = fcom_fe and get' = fcom_fe, OF assms(1)]]) (use assms(2) in \<open>auto simp: conv_ok_def\<close>)

lemma runs_lift: "runs (p_lift (Inr x)) s [] [] (Inr x) s"
  by (simp add: p_lift_def runs_return)

context conv_fields
begin

lemma conv_ok_deltas: "conv_ok K d2 de m n s t \<Longrightarrow> delta (fcom_f2 t) = d2 \<and> delta (fcom_fe t) = de"
  by (auto simp: conv_ok_def dest: fcom_ok_delta)

lemma joint_f2_random:
  "conv_ok K d2 de (Suc m) n s t \<Longrightarrow>
   joint (on_f2 prover_random) (on_f2 verifier_random) s t
     (\<lambda>p s' k t'. mac_ok (impl_f2 K) d2 p k \<and> conv_ok K d2 de m n s' t')"
  by (rule joint_on_f2 [OF joint_random]) (auto simp: conv_ok_def)

lemma joint_f2_input:
  "conv_ok K d2 de (length xs + m) n s t \<Longrightarrow>
   joint (on_f2 (prover_input (impl_f2 K) xs)) (on_f2 (verifier_input (impl_f2 K) (length xs))) s t
     (\<lambda>ms s' ks t'. (length ms = length xs \<and> list_all2 (mac_ok (impl_f2 K) d2) (map2 MacProver xs ms) ks) \<and>
        conv_ok K d2 de m n s' t')"
  by (rule joint_on_f2 [OF joint_mono [OF finite_field.joint_input_macs [OF f2_field]]]) (auto simp: conv_ok_def)

lemma joint_fe_input:
  "conv_ok K d2 de m (length xs + n) s t \<Longrightarrow>
   joint (on_fe (prover_input (impl_fe K) xs)) (on_fe (verifier_input (impl_fe K) (length xs))) s t
     (\<lambda>ms s' ks t'. (length ms = length xs \<and> list_all2 (mac_ok (impl_fe K) de) (map2 MacProver xs ms) ks) \<and>
        conv_ok K d2 de m n s' t')"
  by (rule joint_on_fe [OF joint_mono [OF finite_field.joint_input_macs [OF fe_field]]]) (auto simp: conv_ok_def)

lemma joint_f2_open:
  "list_all2 (mac_ok (impl_f2 K) d2) ps ks \<Longrightarrow> conv_ok K d2 de m n s t \<Longrightarrow>
   joint (on_f2 (prover_open (impl_f2 K) ps)) (on_f2 (verifier_open (impl_f2 K) ks)) s t
     (\<lambda>_ s' out t'. out = map mac_value ps \<and> conv_ok K d2 de m n s' t')"
  by (rule joint_on_f2 [OF joint_mono [OF finite_field.joint_open [OF f2_field]]])
    (auto simp: conv_ok_def fcom_ok_delta)

lemma joint_fe_open:
  "list_all2 (mac_ok (impl_fe K) de) ps ks \<Longrightarrow> conv_ok K d2 de m n s t \<Longrightarrow>
   joint (on_fe (prover_open (impl_fe K) ps)) (on_fe (verifier_open (impl_fe K) ks)) s t
     (\<lambda>_ s' out t'. out = map mac_value ps \<and> conv_ok K d2 de m n s' t')"
  by (rule joint_on_fe [OF joint_mono [OF finite_field.joint_open [OF fe_field]]])
    (auto simp: conv_ok_def fcom_ok_delta)

lemma joint_fe_check_zero:
  "list_all2 (mac_ok (impl_fe K) de) ps ks \<Longrightarrow> length seed = 16 \<Longrightarrow> \<forall>p \<in> set ps. mac_value p = 0 \<Longrightarrow>
   conv_ok K d2 de m n s t \<Longrightarrow>
   joint (on_fe (prover_check_zero (impl_fe K) ps)) (on_fe (verifier_check_zero (impl_fe K) seed ks)) s t
     (\<lambda>_ s' _ t'. True \<and> conv_ok K d2 de m n s' t')"
  by (rule joint_on_fe [OF joint_mono [OF finite_field.joint_check_zero [OF fe_field]]]) (auto simp: conv_ok_def)

lemma joint_fe_check_multiply:
  "conv_ok K d2 de m (degree (impl_fe K) + n) s t \<Longrightarrow> list_all2 (triple_ok (impl_fe K) de) ps ks \<Longrightarrow>
   \<forall>(x, y, z) \<in> set ps. mac_value z = mac_value x * mac_value y \<Longrightarrow>
   joint (on_fe (prover_check_multiply (impl_fe K) ps)) (on_fe (verifier_check_multiply (impl_fe K) chi ks)) s t
     (\<lambda>_ s' _ t'. True \<and> conv_ok K d2 de m n s' t')"
  by (rule joint_on_fe [OF joint_mono [OF finite_field.joint_check_multiply [OF fe_field]]]) (auto simp: conv_ok_def)

subsection \<open>Random edaBits and daBits\<close>

lemma joint_f2_randoms:
  assumes "conv_ok K d2 de (num + m) n s t"
  shows "joint (p_mapM (\<lambda>_. on_f2 prover_random) [0..<num]) (p_mapM (\<lambda>_. on_f2 verifier_random) [0..<num]) s t
    (\<lambda>ps s' ks t'. (length ps = num \<and> list_all2 (mac_ok (impl_f2 K) d2) ps ks) \<and> conv_ok K d2 de m n s' t')"
proof -
  have "joint (p_mapM (\<lambda>_. on_f2 prover_random) [0..<num]) (p_mapM (\<lambda>_. on_f2 verifier_random) [0..<num]) s t
    (\<lambda>ps s' ks t'. length ps = length [0..<num] \<and> length ks = length [0..<num] \<and>
      (\<forall>i < length [0..<num]. mac_ok (impl_f2 K) d2 (ps ! i) (ks ! i)) \<and> conv_ok K d2 de m n s' t')"
    by (rule joint_mapM_supply [where A = "\<lambda>_ _. True" and I = "\<lambda>k. conv_ok K d2 de k n"])
      (use assms joint_f2_random in \<open>auto simp: list_all2_conv_all_nth\<close>)
  then show ?thesis by (rule joint_mono) (auto simp: list_all2_conv_all_nth)
qed

lemma joint_random_edabits:
  assumes "conv_ok K d2 de (num * b + m) (num + n) s t"
  shows "joint (random_edabits_prover K b num) (random_edabits_verifier K b num) s t
    (\<lambda>rs s' ks t'. list_all2 (edabit_ok K d2 de b) rs ks \<and> length rs = num \<and> (\<forall>r \<in> set rs. edabit_correct r) \<and>
       conv_ok K d2 de m n s' t')"
proof -
  let ?bits = "\<lambda>ps ks. length ps = b \<and> list_all2 (mac_ok (impl_f2 K) d2) ps ks"
  have "joint (p_mapM (\<lambda>_. p_mapM (\<lambda>_. on_f2 prover_random) [0..<b]) [0..<num])
      (p_mapM (\<lambda>_. p_mapM (\<lambda>_. on_f2 verifier_random) [0..<b]) [0..<num]) s t
      (\<lambda>ps s' ks t'. length ps = length [0..<num] \<and> length ks = length [0..<num] \<and>
        (\<forall>i < length [0..<num]. ?bits (ps ! i) (ks ! i)) \<and> conv_ok K d2 de m (num + n) s' t')"
    by (rule joint_mapM_supplies [where A = "\<lambda>_ _. True" and c = b and I = "\<lambda>k. conv_ok K d2 de k (num + n)"])
      (use assms joint_f2_randoms in \<open>auto simp: list_all2_conv_all_nth\<close>)
  then show ?thesis
    unfolding random_edabits_prover_def random_edabits_verifier_def Let_def
  proof (rule joint_bind, elim conjE)
    fix ps s2 ks t2
    assume ps: "length ps = length [0..<num]" "length ks = length [0..<num]"
      "\<forall>i < length [0..<num]. ?bits (ps ! i) (ks ! i)" "conv_ok K d2 de m (num + n) s2 t2"
    let ?vs = "map (\<lambda>bits. convert_bits_to_field (map mac_value bits)) ps :: 'e list"
    have v: "length ?vs = num" using ps(1) by simp
    have "conv_ok K d2 de m (length ?vs + n) s2 t2" using ps(4) v by simp
    from joint_fe_input [OF this]
    show "joint (p_bind (on_fe (prover_input (impl_fe K) ?vs)) (\<lambda>aux_r_m_mac.
            p_return (map (\<lambda>(bits, r_m, mac). \<lparr>ep_bits = bits, ep_value = MacProver r_m mac\<rparr>) (zip ps (zip ?vs aux_r_m_mac)))))
          (p_bind (on_fe (verifier_input (impl_fe K) num)) (\<lambda>aux_r_m_mac.
            p_return (map (\<lambda>(bits, mac). \<lparr>ev_bits = bits, ev_value = mac\<rparr>) (zip ks aux_r_m_mac)))) s2 t2
        (\<lambda>rs s' ks t'. list_all2 (edabit_ok K d2 de b) rs ks \<and> length rs = num \<and> (\<forall>r \<in> set rs. edabit_correct r) \<and>
          conv_ok K d2 de m n s' t')"
      unfolding v
    proof (rule joint_bind, elim conjE, intro joint_return conjI)
      fix ms s3 ls t3
      assume ms: "length ms = num" "list_all2 (mac_ok (impl_fe K) de) (map2 MacProver ?vs ms) ls" "conv_ok K d2 de m n s3 t3"
      let ?rs = "map (\<lambda>(bits, r_m, mac). \<lparr>ep_bits = bits, ep_value = MacProver r_m mac\<rparr>) (zip ps (zip ?vs ms))"
      show "list_all2 (edabit_ok K d2 de b) ?rs (map (\<lambda>(bits, mac). \<lparr>ev_bits = bits, ev_value = mac\<rparr>) (zip ks ls))"
        using ps ms(1,2) by (auto simp: list_all2_conv_all_nth edabit_ok_def)
      show "length ?rs = num" using ps(1) ms(1) by simp
      show "\<forall>r \<in> set ?rs. edabit_correct r"
        using ps(1) ms(1) by (auto simp: set_zip edabit_correct_def edabit_number_def convert_bits_nat)
      show "conv_ok K d2 de m n s3 t3" by (rule ms(3))
    qed
  qed
qed

lemma joint_random_dabits:
  assumes "conv_ok K d2 de (num + m) (num + n) s t"
  shows "joint (prover_random_dabits K num) (verifier_random_dabits K num) s t
    (\<lambda>rs s' ks t'. list_all2 (dabit_ok K d2 de) rs ks \<and> length rs = num \<and> (\<forall>r \<in> set rs. dabit_correct r) \<and>
       conv_ok K d2 de m n s' t')"
  unfolding prover_random_dabits_def verifier_random_dabits_def Let_def
proof (rule joint_bind [OF joint_f2_randoms [OF assms]], elim conjE)
  fix ps s2 ks t2
  assume ps: "length ps = num" "list_all2 (mac_ok (impl_f2 K) d2) ps ks" "conv_ok K d2 de m (num + n) s2 t2"
  let ?vs = "map (\<lambda>b. f2_to_fe (mac_value b)) ps :: 'e list"
  have v: "length ?vs = num" using ps(1) by simp
  have "conv_ok K d2 de m (length ?vs + n) s2 t2" using ps(3) v by simp
  from joint_fe_input [OF this]
  show "joint (p_bind (on_fe (prover_input (impl_fe K) ?vs)) (\<lambda>b_m_mac_batch.
          p_return (map (\<lambda>(b, b_m, mac). \<lparr>dp_bit = b, dp_value = MacProver b_m mac\<rparr>) (zip ps (zip ?vs b_m_mac_batch)))))
        (p_bind (on_fe (verifier_input (impl_fe K) num)) (\<lambda>b_m_mac_batch.
          p_return (map (\<lambda>(b, mac). \<lparr>dv_bit = b, dv_value = mac\<rparr>) (zip ks b_m_mac_batch)))) s2 t2
      (\<lambda>rs s' ks t'. list_all2 (dabit_ok K d2 de) rs ks \<and> length rs = num \<and> (\<forall>r \<in> set rs. dabit_correct r) \<and>
        conv_ok K d2 de m n s' t')"
    unfolding v
  proof (rule joint_bind, elim conjE, intro joint_return conjI)
    fix ms s3 ls t3
    assume ms: "length ms = num" "list_all2 (mac_ok (impl_fe K) de) (map2 MacProver ?vs ms) ls" "conv_ok K d2 de m n s3 t3"
    let ?rs = "map (\<lambda>(b, b_m, mac). \<lparr>dp_bit = b, dp_value = MacProver b_m mac\<rparr>) (zip ps (zip ?vs ms))"
    show "list_all2 (dabit_ok K d2 de) ?rs (map (\<lambda>(b, mac). \<lparr>dv_bit = b, dv_value = mac\<rparr>) (zip ks ls))"
      using ps ms(1,2) by (auto simp: list_all2_conv_all_nth dabit_ok_def)
    show "length ?rs = num" using ps(1) ms(1) by simp
    show "\<forall>r \<in> set ?rs. dabit_correct r"
      using ps(1) ms(1) by (auto simp: set_zip dabit_correct_def f2_to_fe_nat)
    show "conv_ok K d2 de m n s3 t3" by (rule ms(3))
  qed
qed


subsection \<open>Converting bits\<close>

lemma converted_bit:
  assumes "r = of_nat (f2_nat b)"
  shows "(if b + x = 1 then f2_to_fe (b + x) + - r else f2_to_fe (b + x) + r) = (of_nat (f2_nat x) :: 'e)"
  using assms by (cases b rule: F2_cases; cases x rule: F2_cases) (simp_all add: f2_to_fe_nat)

lemma joint_convert_bits:
  assumes ok: "conv_ok K d2 de m n s t" and rs: "list_all2 (dabit_ok K d2 de) rs rs'" "\<forall>r \<in> set rs. dabit_correct r"
    and xs: "list_all2 (mac_ok (impl_f2 K) d2) xs xs'" "length xs = length rs"
  shows "joint (prover_convert_bit_2_field K rs xs) (verifier_convert_bit_2_field K rs' xs') s t
    (\<lambda>ys s' ks t'. (list_all2 (mac_ok (impl_fe K) de) ys ks \<and> map mac_value ys = map (\<lambda>x. of_nat (f2_nat (mac_value x))) xs) \<and>
       conv_ok K d2 de m n s' t')"
proof -
  have len: "length rs' = length rs" "length xs' = length rs"
    using rs(1) xs by (simp_all add: list_all2_lengthD [symmetric])
  let ?c = "map (\<lambda>(r, x). prover_add (dp_bit r) x) (zip rs xs)"
  let ?c' = "map (\<lambda>(r, x). verifier_add (dv_bit r) x) (zip rs' xs')"
  have c: "list_all2 (mac_ok (impl_f2 K) d2) ?c ?c'"
    using rs(1) xs(1) by (auto simp: list_all2_conv_all_nth dabit_ok_def intro!: finite_field.mac_ok_add [OF f2_field])
  show ?thesis
    unfolding prover_convert_bit_2_field_def verifier_convert_bit_2_field_def Let_def
  proof (rule joint_left [OF runs_require], simp add: xs, rule joint_right [OF runs_require], simp add: len,
      rule joint_bind [OF joint_f2_open [OF c ok]], elim conjE, rule joint_right [OF runs_get], intro joint_return conjI)
    fix s2 out t2 assume out: "out = map mac_value ?c" and ok2: "conv_ok K d2 de m n s2 t2"
    let ?ys = "map (\<lambda>(r, c). select_prover (prover_affine_add_cst (f2_to_fe (mac_value c)) (dp_value r))
        (prover_affine_add_cst (f2_to_fe (mac_value c)) (prover_neg (dp_value r))) (mac_value c = 1)) (zip rs ?c)"
    show "list_all2 (mac_ok (impl_fe K) de) ?ys
        (map (\<lambda>(r, c). select_verifier
            (verifier_affine_add_cst (impl_fe K) (delta (fcom_fe t2)) (f2_to_fe c) (dv_value r))
            (verifier_affine_add_cst (impl_fe K) (delta (fcom_fe t2)) (f2_to_fe c) (verifier_neg (dv_value r))) (c = 1))
          (zip rs' out))"
      using rs(1) len xs(2) conv_ok_deltas [OF ok2]
      by (auto simp: list_all2_conv_all_nth dabit_ok_def out intro!: finite_field.mac_ok_select [OF fe_field]
          finite_field.mac_ok_affine_add_cst [OF fe_field] finite_field.mac_ok_neg [OF fe_field])
    show "map mac_value ?ys = map (\<lambda>x. of_nat (f2_nat (mac_value x))) xs"
    proof (rule nth_equalityI)
      fix i assume "i < length (map mac_value ?ys)"
      then have i: "i < length rs" "i < length xs" using xs(2) by simp_all
      then have "dabit_correct (rs ! i)" using rs(2) by simp
      from converted_bit [OF this [unfolded dabit_correct_def], of "mac_value (xs ! i)"] i
      show "map mac_value ?ys ! i = map (\<lambda>x. of_nat (f2_nat (mac_value x))) xs ! i"
        by (simp add: select_prover_def prover_affine_add_cst_def prover_neg_def prover_add_def split: if_splits)
    qed (simp add: xs)
    show "conv_ok K d2 de m n s2 t2" by (rule ok2)
  qed
qed


subsection \<open>Converting one window\<close>

lemma concat_slice:
  "i < length zs \<Longrightarrow> (\<And>z. z \<in> set zs \<Longrightarrow> length z = k) \<Longrightarrow> take k (drop (i * k) (concat zs)) = zs ! i"
proof (induction zs arbitrary: i)
  case (Cons z zs)
  then show ?case by (cases i) simp_all
qed simp

lemma concat_all2: "list_all2 (list_all2 R) xs ys \<Longrightarrow> list_all2 R (concat xs) (concat ys)"
  by (induction rule: list_all2_induct) (auto intro: list_all2_appendI)

text \<open>
  The sums of the values and of the bits agree exactly when the value of an edaBit exceeds its
  number by the carry in.
\<close>

lemma window_identity:
  assumes "bits_nat z + 2 ^ m * f2_nat c = X + Y + k" and "x = of_nat (X + k)" and "y = of_nat Y"
  shows "- convert_bits_to_field z + (x + y + - power_two m * of_nat (f2_nat c)) = (0 :: 'e)"
proof -
  have "(of_nat (bits_nat z) :: 'e) + 2 ^ m * of_nat (f2_nat c) = of_nat X + of_nat Y + of_nat k"
    using arg_cong [OF assms(1), of "of_nat :: nat \<Rightarrow> 'e"] by simp
  then show ?thesis
    by (simp add: convert_bits_nat power_two_power assms(2,3) algebra_simps)
qed

lemma joint_conv_checks:
  assumes ok: "conv_ok K d2 de m n s t" and seed: "length seed = 16" and num: "length es = num" "0 < num"
    and es: "list_all2 (edabit_ok K d2 de b) es es'"
    and carry: "length c0 = num" "\<And>j. j < num \<Longrightarrow> mac_value (ep_value (es ! j)) = of_nat (edabit_number (es ! j) + f2_nat (c0 ! j))"
    and rs: "list_all2 (edabit_ok K d2 de b) rs rs'" "length rs = num" "\<forall>r \<in> set rs. edabit_correct r"
    and ds: "list_all2 (dabit_ok K d2 de) ds ds'" "length ds = num" "\<forall>d \<in> set ds. dabit_correct d"
    and res: "list_all2 (sums_ok (impl_f2 K) d2) res res'" "adder_values c0 (map ep_bits es) (map ep_bits rs) b res"
  shows "joint (prover_conv_checks K es rs ds res)
    (p_bind (verifier_convert_bit_2_field K ds' (map snd res')) (\<lambda>e_m_batch.
     let e_prime_mac_batch = map (\<lambda>(c, r, e_m). verifier_add (verifier_add (ev_value c) (ev_value r))
           (verifier_affine_mult_cst (impl_fe K) (- power_two b) e_m)) (zip es' (zip rs' e_m_batch));
         ei_mac_batch = concat (map fst res') in
     p_bind (on_f2 (verifier_open (impl_f2 K) ei_mac_batch)) (\<lambda>ei_batch.
     p_bind p_get (\<lambda>st.
     let e_prime_minus_sum_batch = map (\<lambda>(i, e_prime).
           verifier_affine_add_cst (impl_fe K) (delta (fcom_fe st))
             (- convert_bits_to_field (take b (drop (i * b) ei_batch))) e_prime)
           (enumerate 0 e_prime_mac_batch) in
     on_fe (verifier_check_zero (impl_fe K) seed e_prime_minus_sum_batch))))) s t
    (\<lambda>_ s' _ t'. True \<and> conv_ok K d2 de m n s' t')"
proof -
  have b: "length (ep_bits (es ! 0)) = b" using es num by (auto simp: list_all2_conv_all_nth edabit_ok_def)
  have len: "length es' = num" "length rs' = num" "length ds' = num" "length res = num" "length res' = num"
    using es rs ds res num by (auto simp: adder_values_def dest: list_all2_lengthD)
  have carries: "list_all2 (mac_ok (impl_f2 K) d2) (map snd res) (map snd res')"
    using res(1) by (auto simp: list_all2_conv_all_nth sums_ok_def rel_prod_sel)
  have bits: "list_all2 (mac_ok (impl_f2 K) d2) (concat (map fst res)) (concat (map fst res'))"
    using res(1) by (intro concat_all2) (auto simp: list_all2_conv_all_nth sums_ok_def rel_prod_sel)
  have conv: "length (map snd res) = length ds" using len ds by simp
  show ?thesis
    unfolding prover_conv_checks_def Let_def b
  proof (rule joint_bind [OF joint_convert_bits [OF ok ds(1,3) carries conv]], elim conjE,
      rule joint_bind, rule joint_f2_open [OF bits], assumption, elim conjE, rule joint_right [OF runs_get])
    fix ys s2 ks t2 u s3 out t3
    assume ys: "list_all2 (mac_ok (impl_fe K) de) ys ks"
        "map mac_value ys = map (\<lambda>x. of_nat (f2_nat (mac_value x))) (map snd res)"
      and out: "out = map mac_value (concat (map fst res))" and ok3: "conv_ok K d2 de m n s3 t3"
    have "length ys = num" using arg_cong [OF ys(2), of length] len by simp
    with ys(1) have lys: "length ys = num" "length ks = num" by (simp_all add: list_all2_lengthD [symmetric])
    have ylast: "mac_value (ys ! j) = of_nat (f2_nat (mac_value (snd (res ! j))))" if "j < num" for j
      using arg_cong [OF ys(2), of "\<lambda>l. l ! j"] that lys len by simp
    let ?ps = "map (\<lambda>(i, e_prime). prover_affine_add_cst
        (- convert_bits_to_field_mac (take b (drop (i * b) (concat (map fst res))))) e_prime)
        (enumerate 0 (map (\<lambda>(c, r, e_m). prover_add (prover_add (ep_value c) (ep_value r))
          (prover_affine_mult_cst (impl_fe K) (- power_two b) e_m)) (zip es (zip rs ys))))"
    have "\<forall>z \<in> set (map fst res). length z = b"
      using res(2) num(1) len(4) by (simp add: adder_values_def all_set_conv_all_nth)
    then have slice: "take b (drop (j * b) (concat (map fst res))) = fst (res ! j)" if "j < num" for j
      using concat_slice [of j "map fst res" b] that len by auto
    have "mac_value p = 0" if "p \<in> set ?ps" for p
    proof -
      from that obtain j where j: "j < num" "p = ?ps ! j"
        using num rs lys by (auto simp: in_set_conv_nth)
      let ?X = "edabit_number (es ! j)" and ?Y = "edabit_number (rs ! j)"
      have "bits_nat (map mac_value (fst (res ! j))) + 2 ^ b * f2_nat (mac_value (snd (res ! j))) = ?X + ?Y + f2_nat (c0 ! j)"
      proof -
        have "length (ep_bits (es ! j)) = b" "length (ep_bits (rs ! j)) = b"
          using es rs num j(1) by (auto simp: list_all2_conv_all_nth edabit_ok_def)
        then show ?thesis using res(2) j(1) num rs(2) by (simp add: adder_values_def edabit_number_def)
      qed
      moreover have "mac_value (ep_value (rs ! j)) = of_nat ?Y"
        using rs j(1) by (simp add: edabit_correct_def)
      ultimately have "- convert_bits_to_field (map mac_value (fst (res ! j)))
          + (mac_value (ep_value (es ! j)) + mac_value (ep_value (rs ! j))
             + - power_two b * of_nat (f2_nat (mac_value (snd (res ! j))))) = 0"
        using carry(2) [OF j(1)] by (intro window_identity) simp_all
      with j slice [OF j(1)] ylast [OF j(1)] num rs lys show ?thesis
        by (simp add: nth_enumerate_eq prover_affine_add_cst_def prover_add_def prover_affine_mult_cst_def
            convert_bits_mac)
    qed
    then have zero: "\<forall>p \<in> set ?ps. mac_value p = 0" by blast
    have macs: "list_all2 (mac_ok (impl_fe K) de) ?ps
        (map (\<lambda>(i, e_prime). verifier_affine_add_cst (impl_fe K) (delta (fcom_fe t3))
             (- convert_bits_to_field (take b (drop (i * b) out))) e_prime)
           (enumerate 0 (map (\<lambda>(c, r, e_m). verifier_add (verifier_add (ev_value c) (ev_value r))
           (verifier_affine_mult_cst (impl_fe K) (- power_two b) e_m)) (zip es' (zip rs' ks)))))"
      using es rs ys(1) len lys num conv_ok_deltas [OF ok3]
      by (auto simp: list_all2_conv_all_nth nth_enumerate_eq edabit_ok_def out convert_bits_mac take_map drop_map
          intro!: finite_field.mac_ok_affine_add_cst [OF fe_field] finite_field.mac_ok_add [OF fe_field]
            finite_field.mac_ok_affine_mult_cst [OF fe_field])
    from joint_fe_check_zero [OF macs seed zero ok3]
    show "joint (on_fe (prover_check_zero (impl_fe K) ?ps))
        (on_fe (verifier_check_zero (impl_fe K) seed
          (map (\<lambda>(i, e_prime). verifier_affine_add_cst (impl_fe K) (delta (fcom_fe t3))
             (- convert_bits_to_field (take b (drop (i * b) out))) e_prime)
           (enumerate 0 (map (\<lambda>(c, r, e_m). verifier_add (verifier_add (ev_value c) (ev_value r))
           (verifier_affine_mult_cst (impl_fe K) (- power_two b) e_m)) (zip es' (zip rs' ks))))))) s3 t3
        (\<lambda>_ s' _ t'. True \<and> conv_ok K d2 de m n s' t')" .
  qed
qed


text \<open>
  One window, for any way \<open>P\<close> of the prover to add the bits that leaves it with MACs on the sums
  with carries in \<open>c0\<close>.
\<close>

lemma joint_window:
  assumes ok: "conv_ok K d2 de (adder_voles (impl_f2 K) num b + m) n s t" and seed: "length seed = 16"
    and num: "length es = num" "0 < num" and es: "list_all2 (edabit_ok K d2 de b) es es'"
    and carry: "length c0 = num" "\<And>j. j < num \<Longrightarrow> mac_value (ep_value (es ! j)) = of_nat (edabit_number (es ! j) + f2_nat (c0 ! j))"
    and rs: "list_all2 (edabit_ok K d2 de b) rs rs'" "length rs = num" "\<forall>r \<in> set rs. edabit_correct r"
    and ds: "list_all2 (dabit_ok K d2 de) ds ds'" "length ds = num" "\<forall>d \<in> set ds. dabit_correct d"
    and P: "\<And>s t xs' ys'. fcom_ok (impl_f2 K) d2 (adder_voles (impl_f2 K) num b + m) s t \<Longrightarrow>
      batch_ok (impl_f2 K) d2 num b (map ep_bits es) xs' \<Longrightarrow> batch_ok (impl_f2 K) d2 num b (map ep_bits rs) ys' \<Longrightarrow>
      joint P (verifier_bit_add_carry (impl_f2 K) chi xs' ys') s t (\<lambda>res s' res' t'.
        list_all2 (sums_ok (impl_f2 K) d2) res res' \<and> adder_values c0 (map ep_bits es) (map ep_bits rs) b res \<and>
        fcom_ok (impl_f2 K) d2 m s' t')"
  shows "joint (p_bind (on_f2 P) (prover_conv_checks K es rs ds)) (verifier_conv_loop K chi seed es' rs' ds') s t
    (\<lambda>_ s' _ t'. True \<and> conv_ok K d2 de m n s' t')"
proof -
  have batch: "batch_ok (impl_f2 K) d2 num b (map ep_bits xs) (map ev_bits xs')"
    if "list_all2 (edabit_ok K d2 de b) xs xs'" "length xs = num" for xs xs'
    using that by (auto simp: batch_ok_def list_all2_conv_all_nth edabit_ok_def all_set_conv_all_nth)
  have b: "length (ev_bits (es' ! 0)) = b" "es' \<noteq> []"
    using es num by (auto simp: list_all2_conv_all_nth edabit_ok_def)
  have "joint P (verifier_bit_add_carry (impl_f2 K) chi (map ev_bits es') (map ev_bits rs')) (fcom_f2 s) (fcom_f2 t)
      (\<lambda>res s' res' t'. (list_all2 (sums_ok (impl_f2 K) d2) res res' \<and>
        adder_values c0 (map ep_bits es) (map ep_bits rs) b res) \<and> fcom_ok (impl_f2 K) d2 m s' t')"
    using P [OF _ batch [OF es num(1)] batch [OF rs(1,2)]] ok by (simp add: conv_ok_def)
  from joint_on_f2 [OF this ok] show ?thesis
    unfolding verifier_conv_loop_def Let_def b(1)
    by (intro joint_right [OF runs_require [OF b(2)]] joint_bind, assumption)
      (elim conjE, rule joint_conv_checks [unfolded Let_def, OF _ seed num es carry rs ds])
qed

lemma joint_conv_loop:
  assumes ok: "conv_ok K d2 de (adder_voles (impl_f2 K) num b + m) n s t" and seed: "length seed = 16"
    and num: "length es = num" "0 < num" and es: "list_all2 (edabit_ok K d2 de b) es es'" "\<forall>e \<in> set es. edabit_correct e"
    and rs: "list_all2 (edabit_ok K d2 de b) rs rs'" "length rs = num" "\<forall>r \<in> set rs. edabit_correct r"
    and ds: "list_all2 (dabit_ok K d2 de) ds ds'" "length ds = num" "\<forall>d \<in> set ds. dabit_correct d"
  shows "joint (prover_conv_loop K es rs ds) (verifier_conv_loop K chi seed es' rs' ds') s t
    (\<lambda>_ s' _ t'. True \<and> conv_ok K d2 de m n s' t')"
  unfolding prover_conv_loop_def
proof (rule joint_left [OF runs_require], use num in fastforce, rule joint_window [OF ok seed num es(1) _ _ rs ds, of "replicate num 0"])
  fix j assume "j < num"
  then show "mac_value (ep_value (es ! j)) = of_nat (edabit_number (es ! j) + f2_nat (replicate num 0 ! j))"
    using es(2) num by (auto simp: edabit_correct_def)
next
  fix s t xs' ys'
  assume "fcom_ok (impl_f2 K) d2 (adder_voles (impl_f2 K) num b + m) s t"
    "batch_ok (impl_f2 K) d2 num b (map ep_bits es) xs'" "batch_ok (impl_f2 K) d2 num b (map ep_bits rs) ys'"
  from joint_bit_add_carry [OF f2_field this num(2)]
  show "joint (prover_bit_add_carry (impl_f2 K) (map ep_bits es) (map ep_bits rs))
      (verifier_bit_add_carry (impl_f2 K) chi xs' ys') s t (\<lambda>res s' res' t'.
        list_all2 (sums_ok (impl_f2 K) d2) res res' \<and> adder_values (replicate num 0) (map ep_bits es) (map ep_bits rs) b res \<and>
        fcom_ok (impl_f2 K) d2 m s' t')" .
qed simp

end

end
