(* ===== verification/Fdabit_Correct.thy ===== *)
theory Fdabit_Correct
  imports Conversion_Correct
begin

text \<open>
  The check of daBits: both parties finish it with an accepting verdict when the opened bits
  are the parities of the opened field elements, whatever masks the prover commits to; with
  the masks of the code and correct daBits they are.
\<close>

subsection \<open>Values and MACs of the masked sums\<close>

lemma fdabit_r_value:
  "mac_value (prover_fdabit_r G ds ek c) = mac_value c + (\<Sum>(b, d)\<leftarrow>zip ek ds. b * mac_value (dp_bit d))"
proof -
  have "mac_value (foldl (\<lambda>r (b, d). prover_add r (prover_affine_mult_cst G b (dp_bit d))) c zs)
      = mac_value c + (\<Sum>(b, d)\<leftarrow>zs. b * mac_value (dp_bit d))" for zs
    by (induction zs arbitrary: c) (auto simp: prover_add_def prover_affine_mult_cst_def add.assoc)
  then show ?thesis by (simp add: prover_fdabit_r_def)
qed

lemma prover_twos_value:
  "mac_value (fst (foldl (\<lambda>(tau, twos) c. (prover_add tau (prover_affine_mult_cst E twos c), twos + twos)) (tau, w) cs))
   = mac_value tau + w * horner (map mac_value cs) 2"
  by (induction cs arbitrary: tau w) (simp_all add: prover_add_def prover_affine_mult_cst_def algebra_simps)

lemma fdabit_tau_value:
  "mac_value (prover_fdabit_tau E ds ek cs)
   = (\<Sum>(b, d)\<leftarrow>zip ek ds. f2_to_fe b * mac_value (dp_value d)) + horner (map mac_value cs) 2"
proof -
  have "mac_value (foldl (\<lambda>r (b, d). prover_add r (prover_affine_mult_cst E (f2_to_fe b) (dp_value d))) c zs)
      = mac_value c + (\<Sum>(b, d)\<leftarrow>zs. f2_to_fe b * mac_value (dp_value d))" for zs c
    by (induction zs arbitrary: c) (auto simp: prover_add_def prover_affine_mult_cst_def add.assoc)
  from this [of "MacProver 0 0" "zip ek ds"] show ?thesis
    unfolding prover_fdabit_tau_def Let_def prover_twos_value by simp
qed

text \<open>The conditions under which the verdict is positive.\<close>

definition masks_ok :: "nat \<Rightarrow> 'e list list \<Rightarrow> F2 list \<Rightarrow> bool" where
  "masks_ok gamma c_m c1 \<longleftrightarrow> length c_m = FDABIT_SECURITY_PARAMETER \<and> (\<forall>ck \<in> set c_m. length ck = gamma) \<and>
     length c1 = FDABIT_SECURITY_PARAMETER"

definition parities_ok ::
  "('g :: comm_ring_1, 'e :: comm_ring_1) conv_impl \<Rightarrow> u8 list \<Rightarrow> 'e list list \<Rightarrow> F2 list \<Rightarrow> ('g, 'e) dabit_prover list \<Rightarrow> bool" where
  "parities_ok K seed c_m c1 ds \<longleftrightarrow> (\<forall>k < FDABIT_SECURITY_PARAMETER.
     let ek = challenge_bits K seed FDABIT_SECURITY_PARAMETER (length ds) ! k in
     parity_ok K (c1 ! k + (\<Sum>(b, d)\<leftarrow>zip ek ds. b * mac_value (dp_bit d)))
       ((\<Sum>(b, d)\<leftarrow>zip ek ds. f2_to_fe b * mac_value (dp_value d)) + horner (c_m ! k) 2))"

context conv_fields
begin

lemma fdabit_r_macs:
  assumes "list_all2 (dabit_ok K d2 de) ds ds'" and "mac_ok (impl_f2 K) d2 c c'"
  shows "mac_ok (impl_f2 K) d2 (prover_fdabit_r (impl_f2 K) ds ek c) (verifier_fdabit_r (impl_f2 K) ds' ek c')"
proof -
  have "mac_ok (impl_f2 K) d2 (foldl (\<lambda>r (b, d). prover_add r (prover_affine_mult_cst (impl_f2 K) b (dp_bit d))) c (zip ek ds))
      (foldl (\<lambda>r (b, d). verifier_add r (verifier_affine_mult_cst (impl_f2 K) b (dv_bit d))) c' (zip ek ds'))"
    using assms
  proof (induction arbitrary: ek c c' rule: list_all2_induct)
    case (Cons d ds d' ds')
    then show ?case
      by (cases ek) (auto simp: dabit_ok_def intro!: Cons.IH finite_field.mac_ok_add [OF f2_field]
          finite_field.mac_ok_affine_mult_cst [OF f2_field])
  qed simp
  then show ?thesis by (simp add: prover_fdabit_r_def verifier_fdabit_r_def)
qed

lemma twos_macs:
  assumes "list_all2 (mac_ok (impl_fe K) de) cs cs'" and "mac_ok (impl_fe K) de tau tau'"
  shows "mac_ok (impl_fe K) de
    (fst (foldl (\<lambda>(tau, twos) c. (prover_add tau (prover_affine_mult_cst (impl_fe K) twos c), twos + twos)) (tau, w) cs))
    (fst (foldl (\<lambda>(tau, twos) c. (verifier_add tau (verifier_affine_mult_cst (impl_fe K) twos c), twos + twos)) (tau', w) cs'))"
  using assms
proof (induction arbitrary: tau tau' w rule: list_all2_induct)
  case (Cons c cs c' cs')
  then show ?case
    by (simp add: finite_field.mac_ok_add [OF fe_field] finite_field.mac_ok_affine_mult_cst [OF fe_field])
qed simp

lemma fdabit_tau_macs:
  assumes "list_all2 (dabit_ok K d2 de) ds ds'" and "list_all2 (mac_ok (impl_fe K) de) cs cs'"
  shows "mac_ok (impl_fe K) de (prover_fdabit_tau (impl_fe K) ds ek cs) (verifier_fdabit_tau (impl_fe K) ds' ek cs')"
proof -
  have "mac_ok (impl_fe K) de
      (foldl (\<lambda>r (b, d). prover_add r (prover_affine_mult_cst (impl_fe K) (f2_to_fe b) (dp_value d))) c (zip ek ds))
      (foldl (\<lambda>r (b, d). verifier_add r (verifier_affine_mult_cst (impl_fe K) (f2_to_fe b) (dv_value d))) c' (zip ek ds'))"
    if "mac_ok (impl_fe K) de c c'" for c c'
    using assms(1) that
  proof (induction arbitrary: ek c c' rule: list_all2_induct)
    case (Cons d ds d' ds')
    then show ?case
      by (cases ek) (auto simp: dabit_ok_def intro!: Cons.IH finite_field.mac_ok_add [OF fe_field]
          finite_field.mac_ok_affine_mult_cst [OF fe_field])
  qed simp
  from twos_macs [OF assms(2) this] show ?thesis
    unfolding prover_fdabit_tau_def verifier_fdabit_tau_def Let_def
    by (simp add: mac_ok_def smul_fe)
qed

lemma one_minus_macs:
  "mac_ok (impl_fe K) de c c' \<Longrightarrow> mac_ok (impl_fe K) de (prover_one_minus (impl_fe K) c) (verifier_one_minus (impl_fe K) de c')"
  unfolding prover_one_minus_def verifier_one_minus_def
  by (intro finite_field.mac_ok_affine_add_cst [OF fe_field] finite_field.mac_ok_affine_mult_cst [OF fe_field])

lemma joint_masks:
  assumes "conv_ok K d2 de m (length c_m * gamma + n) s t" and "\<forall>ck \<in> set c_m. length ck = gamma"
  shows "joint (p_mapM (\<lambda>ck. on_fe (prover_input (impl_fe K) ck)) c_m)
    (p_mapM (\<lambda>_. on_fe (verifier_input (impl_fe K) gamma)) [0..<length c_m]) s t
    (\<lambda>ms s' ks t'. list_all2 (list_all2 (mac_ok (impl_fe K) de)) (map2 (map2 MacProver) c_m ms) ks \<and>
      map (map mac_value) (map2 (map2 MacProver) c_m ms) = c_m \<and> conv_ok K d2 de m n s' t')"
proof -
  let ?B = "\<lambda>ck (i :: nat) ms ks. length ms = length ck \<and> list_all2 (mac_ok (impl_fe K) de) (map2 MacProver ck ms) ks"
  have "joint (p_mapM (\<lambda>ck. on_fe (prover_input (impl_fe K) ck)) c_m)
      (p_mapM (\<lambda>_. on_fe (verifier_input (impl_fe K) gamma)) [0..<length c_m]) s t
      (\<lambda>ms s' ks t'. length ms = length c_m \<and> length ks = length c_m \<and>
        (\<forall>i < length c_m. ?B (c_m ! i) ([0..<length c_m] ! i) (ms ! i) (ks ! i)) \<and> conv_ok K d2 de m n s' t')"
    by (rule joint_mapM_supplies [where A = "\<lambda>ck _. length ck = gamma" and c = gamma and I = "conv_ok K d2 de m"])
      (use assms joint_fe_input in \<open>auto simp: list_all2_conv_all_nth\<close>)
  then show ?thesis
    by (rule joint_mono) (auto simp: list_all2_conv_all_nth intro!: nth_equalityI)
qed


text \<open>Step 2: the triples are products, whatever the masks are.\<close>

lemma masks_triples:
  assumes "list_all2 (mac_ok (impl_fe K) de) cs cs'"
    and "list_all2 (mac_ok (impl_fe K) de)
      (map2 MacProver (map2 (\<lambda>a b. mac_value a * mac_value b) cs (map (prover_one_minus (impl_fe K)) cs)) ms) ks"
    and "length ms = length cs"
  shows "list_all2 (triple_ok (impl_fe K) de)
      (zip cs (zip (map (prover_one_minus (impl_fe K)) cs)
        (map2 MacProver (map2 (\<lambda>a b. mac_value a * mac_value b) cs (map (prover_one_minus (impl_fe K)) cs)) ms)))
      (zip cs' (zip (map (verifier_one_minus (impl_fe K) de) cs') ks))"
    and "\<forall>(x, y, z) \<in> set (zip cs (zip (map (prover_one_minus (impl_fe K)) cs)
        (map2 MacProver (map2 (\<lambda>a b. mac_value a * mac_value b) cs (map (prover_one_minus (impl_fe K)) cs)) ms))).
      mac_value z = mac_value x * mac_value y"
proof -
  show "list_all2 (triple_ok (impl_fe K) de)
      (zip cs (zip (map (prover_one_minus (impl_fe K)) cs)
        (map2 MacProver (map2 (\<lambda>a b. mac_value a * mac_value b) cs (map (prover_one_minus (impl_fe K)) cs)) ms)))
      (zip cs' (zip (map (verifier_one_minus (impl_fe K) de) cs') ks))"
    using assms one_minus_macs by (auto simp: list_all2_conv_all_nth triple_ok_def)
  show "\<forall>(x, y, z) \<in> set (zip cs (zip (map (prover_one_minus (impl_fe K)) cs)
        (map2 MacProver (map2 (\<lambda>a b. mac_value a * mac_value b) cs (map (prover_one_minus (impl_fe K)) cs)) ms))).
      mac_value z = mac_value x * mac_value y"
    using assms(3) by (auto simp: set_zip)
qed

lemma parities_opened:
  assumes "parities_ok K seed c_m c1 ds" and "masks_ok gamma c_m c1" and "map (map mac_value) cs = c_m" and "map mac_value rs = c1"
  defines "e \<equiv> challenge_bits K seed FDABIT_SECURITY_PARAMETER (length ds)"
  shows "list_all2 (parity_ok K) (map mac_value (map2 (prover_fdabit_r G ds) e rs))
    (map mac_value (map2 (prover_fdabit_tau E ds) e cs))"
proof -
  have len: "length cs = FDABIT_SECURITY_PARAMETER" "length rs = FDABIT_SECURITY_PARAMETER" "length e = FDABIT_SECURITY_PARAMETER"
    using assms(2) assms(3,4) [symmetric] by (auto simp: masks_ok_def e_def challenge_bits_def)
  have "map mac_value (cs ! k) = c_m ! k" "mac_value (rs ! k) = c1 ! k" if "k < FDABIT_SECURITY_PARAMETER" for k
    using that len assms(3,4) by auto
  with len assms(1) show ?thesis
    by (simp add: list_all2_conv_all_nth fdabit_r_value fdabit_tau_value parities_ok_def Let_def e_def)
qed

abbreviation fdabit_voles :: "nat \<Rightarrow> nat" where
  "fdabit_voles gamma \<equiv> 2 * FDABIT_SECURITY_PARAMETER * gamma + degree (impl_fe K)"

lemma joint_fdabit_open:
  assumes ok: "conv_ok K d2 de m (degree (impl_fe K) + n) s t"
    and ds: "list_all2 (dabit_ok K d2 de) ds ds'" and seed: "length seed = 16"
    and cs: "list_all2 (list_all2 (mac_ok (impl_fe K) de)) cs cs'" and rs: "list_all2 (mac_ok (impl_f2 K) d2) rs rs'"
    and triples: "list_all2 (triple_ok (impl_fe K) de) ps ks" "\<forall>(x, y, z) \<in> set ps. mac_value z = mac_value x * mac_value y"
    and par: "list_all2 (parity_ok K)
      (map mac_value (map2 (prover_fdabit_r (impl_f2 K) ds) (challenge_bits K seed FDABIT_SECURITY_PARAMETER (length ds)) rs))
      (map mac_value (map2 (prover_fdabit_tau (impl_fe K) ds) (challenge_bits K seed FDABIT_SECURITY_PARAMETER (length ds)) cs))"
  shows "joint (prover_fdabit_open K ds cs rs ps) (verifier_fdabit_open K seed chi ds' cs' rs' ks) s t
    (\<lambda>_ s' _ t'. conv_ok K d2 de m n s' t')"
proof -
  let ?e = "challenge_bits K seed FDABIT_SECURITY_PARAMETER (length ds)"
  have len: "length ds' = length ds" using ds by (simp add: list_all2_lengthD)
  have r: "list_all2 (mac_ok (impl_f2 K) d2) (map2 (prover_fdabit_r (impl_f2 K) ds) ?e rs) (map2 (verifier_fdabit_r (impl_f2 K) ds') ?e rs')"
    by (rule map2_all2 [where R = "(=)", OF _ rs]) (auto simp: list.rel_eq intro: fdabit_r_macs [OF ds])
  have tau: "list_all2 (mac_ok (impl_fe K) de) (map2 (prover_fdabit_tau (impl_fe K) ds) ?e cs) (map2 (verifier_fdabit_tau (impl_fe K) ds') ?e cs')"
    by (rule map2_all2 [where R = "(=)", OF _ cs]) (auto simp: list.rel_eq intro: fdabit_tau_macs [OF ds])
  show ?thesis
    unfolding prover_fdabit_open_def verifier_fdabit_open_def Let_def len
  proof (rule joint_left [OF runs_flush], rule joint_block [OF seed], rule joint_right [OF runs_flush],
      rule joint_bind [OF joint_f2_open [OF r ok]], elim conjE, rule joint_bind, rule joint_fe_open [OF tau], assumption, elim conjE,
      rule joint_bind, rule joint_fe_check_multiply [OF _ triples], assumption, elim conjE)
    fix s3 t3 r_batch tau_batch
    assume out: "r_batch = map mac_value (map2 (prover_fdabit_r (impl_f2 K) ds) ?e rs)"
      "tau_batch = map mac_value (map2 (prover_fdabit_tau (impl_fe K) ds) ?e cs)" and ok3: "conv_ok K d2 de m n s3 t3"
    show "joint
      (if list_all2 (parity_ok K) (map mac_value (map2 (prover_fdabit_r (impl_f2 K) ds) ?e rs))
          (map mac_value (map2 (prover_fdabit_tau (impl_fe K) ds) ?e cs)) then p_return () else p_fail Err)
      (if list_all2 (parity_ok K) r_batch tau_batch then p_return () else p_fail Err) s3 t3 (\<lambda>_ s' _ t'. conv_ok K d2 de m n s' t')"
      unfolding out if_P [OF par] using ok3 by (rule joint_return)
  qed
qed

lemma joint_fdabit_steps:
  assumes ok: "conv_ok K d2 de (FDABIT_SECURITY_PARAMETER + m) (fdabit_voles gamma + n) s t"
    and ds: "list_all2 (dabit_ok K d2 de) ds ds'" and masks: "masks_ok gamma c_m c1"
    and gamma: "gamma = fdabit_gamma (length ds)" and param: "check_parameters K (length ds) gamma = Inr ()"
    and seed: "length seed = 16" and par: "parities_ok K seed c_m c1 ds"
  shows "joint (prover_fdabit_steps K c_m c1 ds) (verifier_fdabit K seed chi ds') s t (\<lambda>_ s' _ t'. conv_ok K d2 de m n s' t')"
proof -
  let ?S = FDABIT_SECURITY_PARAMETER and ?G = "impl_f2 K" and ?E = "impl_fe K"
  have len: "length ds' = length ds" using ds by (simp add: list_all2_lengthD)
  have c_m: "length c_m = ?S" "\<forall>ck \<in> set c_m. length ck = gamma" and c1: "length c1 = ?S"
    using masks by (simp_all add: masks_ok_def)
  have "fdabit_voles gamma + n = length c_m * gamma + (?S * gamma + (degree ?E + n))"
    by (simp add: c_m(1) mult_2 add_mult_distrib)
  with ok have ok1: "conv_ok K d2 de (?S + m) (length c_m * gamma + (?S * gamma + (degree ?E + n))) s t" by simp
  show ?thesis
    unfolding prover_fdabit_steps_def verifier_fdabit_def Let_def len gamma [symmetric] param
  proof (rule joint_right [OF runs_lift], rule joint_bind [OF joint_masks [OF ok1 c_m(2), unfolded c_m(1)]], elim conjE)
    fix ms :: "'e list list" and s1 ks t1
    let ?cs = "map2 (map2 MacProver) c_m ms"
    let ?res = "map2 (\<lambda>a b. mac_value a * mac_value b) (concat ?cs) (map (prover_one_minus ?E) (concat ?cs))"
    assume cs: "list_all2 (list_all2 (mac_ok ?E de)) ?cs ks" "map (map mac_value) ?cs = c_m"
      and ok2: "conv_ok K d2 de (?S + m) (?S * gamma + (degree ?E + n)) s1 t1"
    have flat: "list_all2 (mac_ok ?E de) (concat ?cs) (concat ks)" by (rule concat_all2 [OF cs(1)])
    have "length (concat ?cs) = sum_list (map length (map (map mac_value) ?cs))"
      by (simp add: length_concat comp_def)
    also have "\<dots> = sum_list (map (\<lambda>_. gamma) c_m)"
      unfolding cs(2) using c_m(2) by (intro arg_cong [where f = sum_list] map_cong) simp_all
    finally have lflat: "length (concat ?cs) = gamma * ?S" by (simp add: sum_list_triv c_m(1) mult.commute)
    have lres: "length ?res = gamma * ?S" using lflat by simp
    have ok2': "conv_ok K d2 de (length c1 + m) (length ?res + (degree ?E + n)) s1 t1"
      using ok2 c1 lres by (simp only: mult.commute [of gamma])
    have inp: "joint (on_fe (prover_input ?E ?res)) (on_fe (verifier_input ?E (gamma * ?S))) s t
        (\<lambda>ns s' os t'. (length ns = gamma * ?S \<and> list_all2 (mac_ok ?E de) (map2 MacProver ?res ns) os) \<and>
          conv_ok K d2 de m (degree ?E + n) s' t')"
      if "conv_ok K d2 de m (length ?res + (degree ?E + n)) s t" for s t
      using joint_fe_input [OF that] unfolding lres .
    show "joint
        (p_bind (on_f2 (prover_input ?G c1)) (\<lambda>c1_mac.
         p_bind (on_fe (prover_input ?E ?res)) (\<lambda>and_res_mac_batch.
         prover_fdabit_open K ds ?cs (map2 MacProver c1 c1_mac)
           (zip (concat ?cs) (zip (map (prover_one_minus ?E) (concat ?cs)) (map2 MacProver ?res and_res_mac_batch))))))
        (p_bind (on_f2 (verifier_input ?G ?S)) (\<lambda>c1_mac. p_bind p_get (\<lambda>st.
         p_bind (on_fe (verifier_input ?E (gamma * ?S))) (\<lambda>and_res_mac_batch.
         verifier_fdabit_open K seed chi ds' ks c1_mac
           (zip (concat ks) (zip (map (verifier_one_minus ?E (delta (fcom_fe st))) (concat ks)) and_res_mac_batch))))))
        s1 t1 (\<lambda>_ s' _ t'. conv_ok K d2 de m n s' t')"
    proof (rule joint_bind [OF joint_f2_input [OF ok2', unfolded c1]], elim conjE, rule joint_right [OF runs_get],
        rule joint_bind, erule inp, elim conjE)
      fix c1_mac :: "'g list" and s2 ls t2 and ns :: "'e list" and s3 os t3
      assume rs: "length c1_mac = ?S" "list_all2 (mac_ok ?G d2) (map2 MacProver c1 c1_mac) ls"
        and ok2: "conv_ok K d2 de m (length ?res + (degree ?E + n)) s2 t2"
        and ns: "length ns = gamma * ?S" "list_all2 (mac_ok ?E de) (map2 MacProver ?res ns) os"
        and ok3: "conv_ok K d2 de m (degree ?E + n) s3 t3"
      have delta: "delta (fcom_fe t2) = de" using conv_ok_deltas [OF ok2] by simp
      have "map mac_value (map2 MacProver c1 c1_mac) = c1" using rs(1) c1 by (auto intro: nth_equalityI)
      note par' = parities_opened [OF par masks cs(2) this]
      have lns: "length ns = length (concat ?cs)" using ns(1) lflat by simp
      show "joint (prover_fdabit_open K ds ?cs (map2 MacProver c1 c1_mac)
            (zip (concat ?cs) (zip (map (prover_one_minus ?E) (concat ?cs)) (map2 MacProver ?res ns))))
          (verifier_fdabit_open K seed chi ds' ks ls
            (zip (concat ks) (zip (map (verifier_one_minus ?E (delta (fcom_fe t2))) (concat ks)) os)))
          s3 t3 (\<lambda>_ s' _ t'. conv_ok K d2 de m n s' t')"
        unfolding delta
        by (rule joint_fdabit_open [OF ok3 ds seed cs(1) rs(2) masks_triples [OF flat ns(2) lns] par'])
    qed
  qed
qed

end

subsection \<open>Honest masks\<close>

lemma F2_of_nat: "(of_nat n :: F2) = (if odd n then 1 else 0)"
  by (induction n) simp_all

lemma F2_of_f2_nat: "of_nat (f2_nat b) = b"
  by (cases b rule: F2_cases) simp_all

lemma horner_bits: "horner (map f2_to_fe bs) 2 = of_nat (bits_nat bs)"
  by (induction bs) (simp_all add: f2_to_fe_nat)

definition masked_count :: "F2 list \<Rightarrow> ('g, 'e) dabit_prover list \<Rightarrow> nat" where
  "masked_count ek ds = (\<Sum>(b, d)\<leftarrow>zip ek ds. f2_nat b * f2_nat (mac_value (dp_bit d)))"

lemma masked_count_le: "masked_count ek ds \<le> length ds"
proof -
  have "(\<Sum>(b, d)\<leftarrow>zs. f2_nat b * f2_nat (mac_value (dp_bit d))) \<le> length zs"
    for zs :: "(F2 \<times> ('g, 'e) dabit_prover) list"
  proof (induction zs)
    case (Cons z zs)
    have "f2_nat (fst z) * f2_nat (mac_value (dp_bit (snd z))) \<le> 1" by (simp add: f2_nat_def)
    with Cons show ?case by (simp add: case_prod_unfold)
  qed simp
  from this [of "zip ek ds"] show ?thesis by (simp add: masked_count_def)
qed

lemma masked_bits: "(\<Sum>(b, d)\<leftarrow>zip ek ds. b * mac_value (dp_bit d)) = (of_nat (masked_count ek ds) :: F2)"
proof -
  have "(\<Sum>(b, d)\<leftarrow>zs. b * mac_value (dp_bit d))
      = (of_nat (\<Sum>(b, d)\<leftarrow>zs. f2_nat b * f2_nat (mac_value (dp_bit d))) :: F2)" for zs :: "(F2 \<times> ('g, 'e) dabit_prover) list"
    by (induction zs) (simp_all add: case_prod_unfold F2_of_f2_nat)
  then show ?thesis by (simp add: masked_count_def)
qed

lemma masked_values:
  assumes "\<forall>d \<in> set ds. dabit_correct d"
  shows "(\<Sum>(b, d)\<leftarrow>zip ek ds. f2_to_fe b * mac_value (dp_value d)) = (of_nat (masked_count ek ds) :: 'e :: comm_ring_1)"
proof -
  have "(\<Sum>(b, d)\<leftarrow>zs. f2_to_fe b * mac_value (dp_value d))
      = (of_nat (\<Sum>(b, d)\<leftarrow>zs. f2_nat b * f2_nat (mac_value (dp_bit d))) :: 'e)"
    if "\<forall>(b, d) \<in> set zs. dabit_correct d" for zs :: "(F2 \<times> ('g, 'e) dabit_prover) list"
    using that by (induction zs) (auto simp: dabit_correct_def f2_to_fe_nat)
  then show ?thesis using assms by (auto simp: masked_count_def dest: set_zip_rightD)
qed

lemma less_bit_length: "n < 2 ^ bit_length n"
proof (induction n rule: bit_length.induct)
  case (1 n)
  then show ?case by (cases "n = 0") (auto simp: bit_length.simps [of n])
qed

lemma bit_length_le: "n < 2 ^ k \<Longrightarrow> bit_length n \<le> k"
proof (induction n arbitrary: k rule: bit_length.induct)
  case (1 n)
  show ?case
  proof (cases "n = 0")
    case False
    with 1(2) obtain j where k: "k = Suc j" by (cases k) auto
    with 1(1) [of j] 1(2) False show ?thesis by (simp add: bit_length.simps [of n])
  qed (simp add: bit_length.simps)
qed

lemma fdabit_gamma_bits:
  assumes "n + 1 < 2 ^ 64"
  shows "fdabit_gamma n = bit_length (n + 1)" "log2_floor (n + 1) = bit_length (n + 1) - 1" "0 < bit_length (n + 1)"
    "64 - leading_zeros (n + 1) = bit_length (n + 1)"
proof -
  have "bit_length (n + 1) \<le> 64" using assms by (rule bit_length_le)
  moreover show "0 < bit_length (n + 1)" by (simp add: bit_length.simps [of "Suc n"])
  ultimately show "fdabit_gamma n = bit_length (n + 1)" "log2_floor (n + 1) = bit_length (n + 1) - 1"
    "64 - leading_zeros (n + 1) = bit_length (n + 1)"
    by (simp_all add: fdabit_gamma_def log2_floor_def leading_zeros_def)
qed

lemma fdabit_no_wrap:
  assumes n: "n + 1 < 2 ^ 64" and param: "check_parameters K n (fdabit_gamma n) = Inr ()" and "S \<le> n" and "B < 2 ^ fdabit_gamma n"
  shows "S + B < 2 ^ (number_of_bits K - 1)"
proof -
  let ?g = "bit_length (n + 1)"
  note g = fdabit_gamma_bits [OF n]
  have room: "?g - 1 + ?g < number_of_bits K - 1"
    using param g by (simp add: check_parameters_def split: if_splits)
  have B: "B < 2 ^ ?g" using assms(4) g by simp
  show ?thesis
  proof (cases "n = 0")
    case True
    with assms(3) have "S = 0" by simp
    moreover have "(2 :: nat) ^ ?g \<le> 2 ^ (number_of_bits K - 1)" using room by (intro power_increasing) simp_all
    from less_le_trans [OF B this] have "B < 2 ^ (number_of_bits K - 1)" .
    ultimately show ?thesis by simp
  next
    case False
    then have "1 < ?g" by (simp add: bit_length.simps [of "Suc n"] bit_length.simps [of "Suc n div 2"])
    with room have "Suc ?g \<le> number_of_bits K - 1" by simp
    then have "(2 :: nat) ^ Suc ?g \<le> 2 ^ (number_of_bits K - 1)" by (intro power_increasing) simp_all
    moreover have "n + 1 < 2 ^ ?g" by (rule less_bit_length)
    ultimately show ?thesis using B assms(3) by simp
  qed
qed

context conv_fields
begin

lemma honest_parities:
  fixes draws :: "nat \<Rightarrow> nat \<Rightarrow> F2"
  assumes ds: "\<forall>d \<in> set ds. dabit_correct d" and n: "length ds + 1 < 2 ^ 64"
    and param: "check_parameters K (length ds) (fdabit_gamma (length ds)) = Inr ()"
  defines "c_m \<equiv> map (\<lambda>k. map (\<lambda>i. f2_to_fe (draws k i)) [0..<fdabit_gamma (length ds)]) [0..<FDABIT_SECURITY_PARAMETER]"
  shows "parities_ok K seed c_m (map (\<lambda>ck. if ck ! 0 = 0 then 0 else 1) c_m) ds"
  unfolding parities_ok_def Let_def
proof (intro allI impI)
  fix k assume k: "k < FDABIT_SECURITY_PARAMETER"
  let ?g = "fdabit_gamma (length ds)"
  let ?bs = "map (draws k) [0..<?g]" and ?e = "challenge_bits K seed FDABIT_SECURITY_PARAMETER (length ds) ! k"
  have g: "0 < ?g" using fdabit_gamma_bits [OF n] by simp
  have ck: "c_m ! k = map f2_to_fe ?bs" using k by (simp add: c_m_def)
  then have c1: "map (\<lambda>ck. if ck ! 0 = 0 then 0 else 1) c_m ! k = (of_nat (f2_nat (draws k 0)) :: F2)"
    using k g by (simp add: c_m_def F2_of_f2_nat f2_to_fe_def Let_def F2_neq_zero)
  have "odd (bits_nat ?bs) = odd (f2_nat (draws k 0))"
    using g by (simp add: upt_conv_Cons)
  then have "odd (masked_count ?e ds + bits_nat ?bs) = odd (f2_nat (draws k 0) + masked_count ?e ds)" by auto
  moreover have "masked_count ?e ds + bits_nat ?bs < 2 ^ (number_of_bits K - 1)"
    using fdabit_no_wrap [OF n param masked_count_le] bits_nat_less [of ?bs] by simp
  ultimately have "bit_decomposition K (of_nat (masked_count ?e ds + bits_nat ?bs)) ! 0
      = odd (f2_nat (draws k 0) + masked_count ?e ds)"
    by (simp only: parity)
  moreover have "((of_nat (f2_nat (draws k 0) + masked_count ?e ds) :: F2) = 1) = odd (f2_nat (draws k 0) + masked_count ?e ds)"
    by (simp only: F2_of_nat) simp
  ultimately show "parity_ok K
      (map (\<lambda>ck. if ck ! 0 = 0 then 0 else 1) c_m ! k + (\<Sum>(b, d)\<leftarrow>zip ?e ds. b * mac_value (dp_bit d)))
      ((\<Sum>(b, d)\<leftarrow>zip ?e ds. f2_to_fe b * mac_value (dp_value d)) + horner (c_m ! k) 2)"
    unfolding parity_ok_def c1 masked_bits masked_values [OF ds] ck horner_bits
    by (simp only: of_nat_add)
qed

lemma joint_fdabit:
  assumes ok: "conv_ok K d2 de (FDABIT_SECURITY_PARAMETER + m) (fdabit_voles (fdabit_gamma (length ds)) + n) s t"
    and ds: "list_all2 (dabit_ok K d2 de) ds ds'" "\<forall>d \<in> set ds. dabit_correct d" and len: "length ds + 1 < 2 ^ 64"
    and param: "check_parameters K (length ds) (fdabit_gamma (length ds)) = Inr ()" and seed: "length seed = 16"
  shows "joint (prover_fdabit K draws ds) (verifier_fdabit K seed chi ds') s t (\<lambda>_ s' _ t'. conv_ok K d2 de m n s' t')"
proof -
  let ?c_m = "map (\<lambda>k. map (\<lambda>i. f2_to_fe (draws k i)) [0..<fdabit_gamma (length ds)]) [0..<FDABIT_SECURITY_PARAMETER] :: 'e list list"
  have masks: "masks_ok (fdabit_gamma (length ds)) ?c_m (map (\<lambda>ck. if ck ! 0 = 0 then 0 else 1) ?c_m)"
    by (auto simp: masks_ok_def)
  have "mac_value (dp_bit d) = 0 \<and> mac_value (dp_value d) = 0 \<or> mac_value (dp_bit d) = 1 \<and> mac_value (dp_value d) = 1"
    if "d \<in> set ds" for d
    using ds(2) that by (cases "mac_value (dp_bit d)" rule: F2_cases) (auto simp: dabit_correct_def)
  then have faultless: "list_all (\<lambda>d. mac_value (dp_bit d) = 0 \<and> mac_value (dp_value d) = 0 \<or>
      mac_value (dp_bit d) = 1 \<and> mac_value (dp_value d) = 1) ds"
    by (simp add: list_all_iff)
  show ?thesis
    unfolding prover_fdabit_def Let_def param
    by (rule joint_left [OF runs_lift], rule joint_left [OF runs_require [OF faultless]],
        rule joint_fdabit_steps [OF ok ds(1) masks refl param seed honest_parities [OF ds(2) len param]])
qed

end

end
