(* ===== verification/Cut_Choose_Correct.thy ===== *)
theory Cut_Choose_Correct
  imports Fdabit_Correct
begin

text \<open>
  The whole conversion check between honest parties, over the way in which the prover handles a
  window, with the number of VOLEs of the estimate.
\<close>

lemma p_bind_return: "p_bind P p_return = P"
  by (simp add: p_bind_def p_return_def fun_eq_iff split: prod.split sum.split)

definition coins_ok :: "('g, 'e) conv_coins \<Rightarrow> bool" where
  "coins_ok coins \<longleftrightarrow> length (fdabit_seed coins) = 16 \<and> length (shuffle_seed coins) = 16 \<and>
     (\<forall>j. length (bucket_seed coins j) = 16)"

text \<open>What is asked of the handling of a window: it works with any correct random edaBits and daBits.\<close>

definition window_ok ::
  "('g :: comm_ring_1, 'e :: comm_ring_1) conv_impl \<Rightarrow> nat \<Rightarrow> 'g \<Rightarrow> 'e \<Rightarrow> nat \<Rightarrow> nat \<Rightarrow>
   (('g, 'e) edabits_prover list \<Rightarrow> ('g, 'e) edabits_prover list \<Rightarrow> ('g, 'e) dabit_prover list \<Rightarrow> (('g, 'e) prover_conv, unit) proc) \<Rightarrow>
   ('g, 'e) conv_coins \<Rightarrow> ('g, 'e) edabits_prover list \<Rightarrow> ('g, 'e) edabits_verifier list \<Rightarrow> bool" where
  "window_ok K n d2 de num b loop coins es es' \<longleftrightarrow> (\<forall>s t rs rs' ds ds' m j.
     conv_ok K d2 de (adder_voles (impl_f2 K) num b + m) n s t \<longrightarrow>
     list_all2 (edabit_ok K d2 de b) rs rs' \<longrightarrow> length rs = num \<longrightarrow> (\<forall>r \<in> set rs. edabit_correct r) \<longrightarrow>
     list_all2 (dabit_ok K d2 de) ds ds' \<longrightarrow> length ds = num \<longrightarrow> (\<forall>d \<in> set ds. dabit_correct d) \<longrightarrow>
     joint (loop es rs ds) (verifier_conv_loop K (bucket_chi coins j) (bucket_seed coins j) es' rs' ds') s t
       (\<lambda>_ s' _ t'. True \<and> conv_ok K d2 de m n s' t'))"

context conv_fields
begin

text \<open>Step 5: the openings.\<close>

lemma joint_cut:
  assumes ok: "conv_ok K d2 de m n s t"
    and rs: "list_all2 (edabit_ok K d2 de b) rs rs'" "\<forall>r \<in> set rs. edabit_correct r" "base + num \<le> length rs"
  shows "joint
    (p_mapM (\<lambda>i. p_bind (on_f2 (prover_open (impl_f2 K) (ep_bits (rs ! (base + i))))) (\<lambda>_.
       on_fe (prover_open (impl_fe K) [ep_value (rs ! (base + i))]))) [0..<num])
    (p_mapM (\<lambda>i. p_bind (on_f2 (verifier_open (impl_f2 K) (ev_bits (rs' ! (base + i))))) (\<lambda>a_vec.
       p_bind (on_fe (verifier_open (impl_fe K) [ev_value (rs' ! (base + i))])) (\<lambda>a_m.
       if convert_bits_to_field a_vec \<noteq> a_m ! 0 then p_fail Err else p_return ()))) [0..<num]) s t
    (\<lambda>_ s' _ t'. conv_ok K d2 de m n s' t')"
proof -
  have one: "joint (p_bind (on_f2 (prover_open (impl_f2 K) (ep_bits (rs ! (base + i))))) (\<lambda>_.
       on_fe (prover_open (impl_fe K) [ep_value (rs ! (base + i))])))
    (p_bind (on_f2 (verifier_open (impl_f2 K) (ev_bits (rs' ! (base + i))))) (\<lambda>a_vec.
       p_bind (on_fe (verifier_open (impl_fe K) [ev_value (rs' ! (base + i))])) (\<lambda>a_m.
       if convert_bits_to_field a_vec \<noteq> a_m ! 0 then p_fail Err else p_return ()))) s t
    (\<lambda>_ s' _ t'. True \<and> conv_ok K d2 de k n s' t')"
    if ok: "conv_ok K d2 de (0 + k) n s t" and i: "i < num" for i k s t
  proof -
    let ?r = "rs ! (base + i)" and ?r' = "rs' ! (base + i)"
    have "edabit_ok K d2 de b ?r ?r'" using rs(1,3) i by (auto intro: list_all2_nthD)
    then have r: "list_all2 (mac_ok (impl_f2 K) d2) (ep_bits ?r) (ev_bits ?r')"
        "list_all2 (mac_ok (impl_fe K) de) [ep_value ?r] [ev_value ?r']" "edabit_correct ?r"
      using rs(2,3) i by (simp_all add: edabit_ok_def)
    have ok': "conv_ok K d2 de k n s t" using ok by simp
    show ?thesis
    proof (rule joint_bind [OF joint_f2_open [OF r(1) ok']], elim conjE)
      fix a s2 out t2
      assume out: "out = map mac_value (ep_bits ?r)" and ok2: "conv_ok K d2 de k n s2 t2"
      have "joint (p_bind (on_fe (prover_open (impl_fe K) [ep_value ?r])) (\<lambda>u. p_return u))
          (p_bind (on_fe (verifier_open (impl_fe K) [ev_value ?r'])) (\<lambda>a_m.
            if convert_bits_to_field out \<noteq> a_m ! 0 then p_fail Err else p_return ())) s2 t2
          (\<lambda>_ s' _ t'. True \<and> conv_ok K d2 de k n s' t')"
        using r(3) by (intro joint_bind [OF joint_fe_open [OF r(2) ok2]])
          (auto simp: out edabit_correct_def edabit_number_def convert_bits_nat intro: joint_return)
      then show "joint (on_fe (prover_open (impl_fe K) [ep_value ?r]))
          (p_bind (on_fe (verifier_open (impl_fe K) [ev_value ?r'])) (\<lambda>a_m.
            if convert_bits_to_field out \<noteq> a_m ! 0 then p_fail Err else p_return ())) s2 t2
          (\<lambda>_ s' _ t'. True \<and> conv_ok K d2 de k n s' t')" by (simp add: p_bind_return)
    qed
  qed
  show ?thesis
    by (rule joint_mono [OF joint_mapM_supplies [where A = "\<lambda>i j. i = j \<and> i < num" and c = 0
        and I = "\<lambda>k. conv_ok K d2 de k n" and n = m and B = "\<lambda>_ _ _ _. True"]])
      (use ok one in \<open>auto simp: list_all2_conv_all_nth\<close>)
qed

text \<open>Step 6: the windows.\<close>

lemma joint_windows:
  assumes ok: "conv_ok K d2 de (buckets * adder_voles (impl_f2 K) num b + m) n s t"
    and loop: "window_ok K n d2 de num b loop coins es es'"
    and rs: "list_all2 (edabit_ok K d2 de b) rs rs'" "\<forall>r \<in> set rs. edabit_correct r" "num * buckets \<le> length rs"
    and ds: "list_all2 (dabit_ok K d2 de) ds ds'" "\<forall>d \<in> set ds. dabit_correct d" "num * buckets \<le> length ds"
  shows "joint
    (p_mapM (\<lambda>j. loop es (take num (drop (j * num) rs)) (take num (drop (j * num) ds))) [0..<buckets])
    (p_mapM (\<lambda>j. verifier_conv_loop K (bucket_chi coins j) (bucket_seed coins j) es'
       (take num (drop (j * num) rs')) (take num (drop (j * num) ds'))) [0..<buckets]) s t
    (\<lambda>_ s' _ t'. conv_ok K d2 de m n s' t')"
proof -
  have one: "joint (loop es (take num (drop (j * num) rs)) (take num (drop (j * num) ds)))
      (verifier_conv_loop K (bucket_chi coins j) (bucket_seed coins j) es'
       (take num (drop (j * num) rs')) (take num (drop (j * num) ds'))) s t
      (\<lambda>_ s' _ t'. True \<and> conv_ok K d2 de k n s' t')"
    if ok: "conv_ok K d2 de (adder_voles (impl_f2 K) num b + k) n s t" and j: "j < buckets" for j k s t
  proof -
    have "num * Suc j \<le> num * buckets" using j by (intro mult_le_mono2) simp
    then have fits: "j * num + num \<le> length rs" "j * num + num \<le> length ds"
      using rs(3) ds(3) by (simp_all add: algebra_simps)
    have "list_all2 (edabit_ok K d2 de b) (take num (drop (j * num) rs)) (take num (drop (j * num) rs'))"
      "length (take num (drop (j * num) rs)) = num" "\<forall>r \<in> set (take num (drop (j * num) rs)). edabit_correct r"
      using rs fits by (auto intro: list_all2_takeI list_all2_dropI dest!: in_set_takeD in_set_dropD)
    moreover have "list_all2 (dabit_ok K d2 de) (take num (drop (j * num) ds)) (take num (drop (j * num) ds'))"
      "length (take num (drop (j * num) ds)) = num" "\<forall>d \<in> set (take num (drop (j * num) ds)). dabit_correct d"
      using ds fits by (auto intro: list_all2_takeI list_all2_dropI dest!: in_set_takeD in_set_dropD)
    ultimately show ?thesis using loop ok unfolding window_ok_def by blast
  qed
  show ?thesis
    by (rule joint_mono [OF joint_mapM_supplies [where A = "\<lambda>i j. i = j \<and> i < buckets"
        and c = "adder_voles (impl_f2 K) num b" and I = "\<lambda>k. conv_ok K d2 de k n" and n = m and B = "\<lambda>_ _ _ _. True"]])
      (use ok one in \<open>auto simp: list_all2_conv_all_nth\<close>)
qed

text \<open>Step 4: both parties shuffle alike.\<close>

lemma shuffled:
  assumes "list_all2 R v v'"
  obtains h' w w' where "generate_permutation (gen_range K seed) h v = Inr (h', w)"
    "generate_permutation (gen_range K seed) h v' = Inr (h', w')" "list_all2 R w w'" "set w = set v" "length w = length v"
proof -
  obtain h' w where w: "generate_permutation (gen_range K seed) h v = Inr (h', w)" "mset w = mset v"
    using permutation_total [of "gen_range K seed" h v] draw_less by blast
  moreover obtain w' where "generate_permutation (gen_range K seed) h v' = Inr (h', w')" "list_all2 R w w'"
    using permutation_all2 [OF assms w(1)] by blast
  ultimately show ?thesis
    using that mset_eq_setD [OF w(2)] mset_eq_length [OF w(2)] by blast
qed

abbreviation conv_f2_voles :: "nat \<Rightarrow> nat \<Rightarrow> nat \<Rightarrow> nat \<Rightarrow> nat" where
  "conv_f2_voles num b buckets cuts \<equiv> (num * buckets + cuts) * b + num * buckets + FDABIT_SECURITY_PARAMETER
     + buckets * adder_voles (impl_f2 K) num b"

abbreviation conv_fe_voles :: "nat \<Rightarrow> nat \<Rightarrow> nat \<Rightarrow> nat" where
  "conv_fe_voles num buckets cuts \<equiv> num * buckets + cuts + num * buckets + fdabit_voles (fdabit_gamma (num * buckets))"

lemma joint_conv_with:
  assumes ok: "conv_ok K d2 de (conv_f2_voles num b buckets cuts + m) (conv_fe_voles num buckets cuts + n) s t"
    and coins: "coins_ok coins" and num: "length es = num" "0 < num"
    and es: "list_all2 (edabit_ok K d2 de b) es es'"
    and len: "num * buckets + 1 < 2 ^ 64"
    and param: "check_parameters K (num * buckets) (fdabit_gamma (num * buckets)) = Inr ()"
    and loop: "window_ok K n d2 de num b loop coins es es'"
  shows "joint (prover_conv_with loop K draws buckets cuts es) (verifier_conv K coins buckets cuts es') s t
    (\<lambda>_ s' _ t'. conv_ok K d2 de m n s' t')"
proof -
  let ?N = "num * buckets + cuts" and ?D = "num * buckets"
  have b: "length (ep_bits (es ! 0)) = b" "length (ev_bits (es' ! 0)) = b" and num': "length es' = num" "(num = 0) = False"
    using es num by (auto simp: list_all2_conv_all_nth edabit_ok_def)
  let ?m2 = "buckets * adder_voles (impl_f2 K) num b + m"
  have ok1: "conv_ok K d2 de (?N * b + (?D + (FDABIT_SECURITY_PARAMETER + ?m2))) (?N + (?D + (fdabit_voles (fdabit_gamma ?D) + n))) s t"
    using ok by (simp only: add.assoc)
  show ?thesis
    unfolding prover_conv_with_def verifier_conv_def Let_def num num' b if_False
  proof (rule joint_bind [OF joint_random_edabits [OF ok1]], elim conjE, rule joint_bind, erule joint_random_dabits, elim conjE)
    fix rs s1 rs' t1 ds s2 ds' t2
    assume rs: "list_all2 (edabit_ok K d2 de b) rs rs'" "length rs = ?N" "\<forall>r \<in> set rs. edabit_correct r"
      and ds: "list_all2 (dabit_ok K d2 de) ds ds'" "length ds = ?D" "\<forall>d \<in> set ds. dabit_correct d"
      and ok2: "conv_ok K d2 de (FDABIT_SECURITY_PARAMETER + ?m2) (fdabit_voles (fdabit_gamma ?D) + n) s2 t2"
    obtain h w w' where w: "generate_permutation (gen_range K (shuffle_seed coins)) [] rs = Inr (h, w)"
        "generate_permutation (gen_range K (shuffle_seed coins)) [] rs' = Inr (h, w')"
        "list_all2 (edabit_ok K d2 de b) w w'" "set w = set rs" "length w = length rs"
      by (rule shuffled [OF rs(1)])
    obtain h2 v v' where v: "generate_permutation (gen_range K (shuffle_seed coins)) h ds = Inr (h2, v)"
        "generate_permutation (gen_range K (shuffle_seed coins)) h ds' = Inr (h2, v')"
        "list_all2 (dabit_ok K d2 de) v v'" "set v = set ds" "length v = length ds"
      by (rule shuffled [OF ds(1)])
    have w': "\<forall>r \<in> set w. edabit_correct r" "?D + cuts \<le> length w" "?D \<le> length w"
      and v': "\<forall>d \<in> set v. dabit_correct d" "?D \<le> length v"
      using rs(2,3) ds(2,3) w(4,5) v(4,5) by simp_all
    have fd: "joint (prover_fdabit K draws ds) (verifier_fdabit K (fdabit_seed coins) (fdabit_chi coins) ds') s2 t2
        (\<lambda>_ s' _ t'. conv_ok K d2 de ?m2 n s' t')"
      using joint_fdabit [of d2 de ?m2 ds n s2 t2 ds'] ok2 ds len param coins by (simp add: coins_ok_def)
    have seed: "length (shuffle_seed coins) = 16" using coins by (simp add: coins_ok_def)
    show "joint
        (p_bind (prover_fdabit K draws ds) (\<lambda>_. p_bind read_block (\<lambda>seed.
         p_bind (p_lift (generate_permutation (gen_range K seed) [] rs)) (\<lambda>(h, r).
         p_bind (p_lift (generate_permutation (gen_range K seed) h ds)) (\<lambda>(_, dabits).
         p_bind (p_mapM (\<lambda>i. p_bind (on_f2 (prover_open (impl_f2 K) (ep_bits (r ! (?D + i))))) (\<lambda>_.
           on_fe (prover_open (impl_fe K) [ep_value (r ! (?D + i))]))) [0..<cuts]) (\<lambda>_.
         p_bind (p_mapM (\<lambda>j. loop es (take num (drop (j * num) r)) (take num (drop (j * num) dabits))) [0..<buckets]) (\<lambda>_.
         p_return ())))))))
        (p_bind (verifier_fdabit K (fdabit_seed coins) (fdabit_chi coins) ds') (\<lambda>_.
         p_bind (write_block (shuffle_seed coins)) (\<lambda>_. p_bind flush (\<lambda>_.
         p_bind (p_lift (generate_permutation (gen_range K (shuffle_seed coins)) [] rs')) (\<lambda>(h, r).
         p_bind (p_lift (generate_permutation (gen_range K (shuffle_seed coins)) h ds')) (\<lambda>(_, dabits).
         p_bind (p_mapM (\<lambda>i. p_bind (on_f2 (verifier_open (impl_f2 K) (ev_bits (r ! (?D + i))))) (\<lambda>a_vec.
           p_bind (on_fe (verifier_open (impl_fe K) [ev_value (r ! (?D + i))])) (\<lambda>a_m.
           if convert_bits_to_field a_vec \<noteq> a_m ! 0 then p_fail Err else p_return ()))) [0..<cuts]) (\<lambda>_.
         p_bind (p_mapM (\<lambda>j. verifier_conv_loop K (bucket_chi coins j) (bucket_seed coins j) es'
            (take num (drop (j * num) r)) (take num (drop (j * num) dabits))) [0..<buckets]) (\<lambda>_.
         p_return ())))))))) s2 t2 (\<lambda>_ s' _ t'. conv_ok K d2 de m n s' t')"
    proof (rule joint_bind [OF fd], rule joint_block [OF seed], rule joint_right [OF runs_flush], unfold w v prod.case,
        rule joint_left [OF runs_lift], unfold prod.case v, rule joint_left [OF runs_lift], unfold prod.case,
        rule joint_right [OF runs_lift], unfold prod.case v, rule joint_right [OF runs_lift], unfold prod.case)
      fix s3 t3 assume ok3: "conv_ok K d2 de ?m2 n s3 t3"
      show "joint
          (p_bind (p_mapM (\<lambda>i. p_bind (on_f2 (prover_open (impl_f2 K) (ep_bits (w ! (?D + i))))) (\<lambda>_.
             on_fe (prover_open (impl_fe K) [ep_value (w ! (?D + i))]))) [0..<cuts]) (\<lambda>_.
           p_bind (p_mapM (\<lambda>j. loop es (take num (drop (j * num) w)) (take num (drop (j * num) v))) [0..<buckets]) (\<lambda>_.
           p_return ())))
          (p_bind (p_mapM (\<lambda>i. p_bind (on_f2 (verifier_open (impl_f2 K) (ev_bits (w' ! (?D + i))))) (\<lambda>a_vec.
             p_bind (on_fe (verifier_open (impl_fe K) [ev_value (w' ! (?D + i))])) (\<lambda>a_m.
             if convert_bits_to_field a_vec \<noteq> a_m ! 0 then p_fail Err else p_return ()))) [0..<cuts]) (\<lambda>_.
           p_bind (p_mapM (\<lambda>j. verifier_conv_loop K (bucket_chi coins j) (bucket_seed coins j) es'
              (take num (drop (j * num) w')) (take num (drop (j * num) v'))) [0..<buckets]) (\<lambda>_.
           p_return ()))) s3 t3 (\<lambda>_ s' _ t'. conv_ok K d2 de m n s' t')"
        by (rule joint_bind [OF joint_cut [OF ok3 w(3) w'(1,2)]], rule joint_bind,
            erule joint_windows [OF _ loop w(3) w'(1,3) v(3) v'], erule joint_return)
    qed
  qed
qed

end

end
