(* ===== verification/Conversion_Properties.thy ===== *)
theory Conversion_Properties
  imports Cut_Choose_Correct
begin

text \<open>
  The properties of the conversions, over all pairs of fields that keep the laws of the
  interface, with witnesses over F2 and F61p.
\<close>

subsection \<open>The fields of the code\<close>

text \<open>\<open>standard_bit_decomposition\<close> of field.rs at 61 bits.\<close>

definition f61_bit_decomposition :: "F61p \<Rightarrow> bool list" where
  "f61_bit_decomposition x = map (\<lambda>i. u128_from_f61 x AND push_bit i 1 \<noteq> 0) [0..<61]"

definition F61p_conv ::
  "(F2, 'g) field_impl \<Rightarrow> (u8 list \<Rightarrow> nat \<Rightarrow> F61p) \<Rightarrow> (u8 list \<Rightarrow> u8 list) \<Rightarrow> (u8 list \<Rightarrow> nat \<Rightarrow> F2) \<Rightarrow>
   (u8 list \<Rightarrow> nat list \<Rightarrow> nat \<Rightarrow> nat) \<Rightarrow> ('g, F61p) conv_impl" where
  "F61p_conv G rnd hash bits g = \<lparr>impl_f2 = G, impl_fe = F61p_impl rnd hash,
     bit_decomposition = f61_bit_decomposition, number_of_bits = 61, f2_random = bits,
     gen_range = (\<lambda>seed h i. g seed h i mod i)\<rparr>"

lemma Rep_F61p_of_nat: "unat (Rep_F61p (of_nat k)) = k mod p61"
proof -
  have "val61 (of_nat k) = int k mod int p61"
    by (induction k) (simp_all add: val61_0 val61_add val61_1 mod_simps add.commute)
  then show ?thesis unfolding val61_def by (simp only: of_nat_mod [symmetric] of_nat_eq_iff)
qed

lemma f61_first_bit: "f61_bit_decomposition x ! 0 = odd (unat (Rep_F61p x))"
proof -
  have "bit (u128_from_f61 x) 0 = bit (Rep_F61p x) 0"
    by (simp add: u128_from_f61_def bit_unsigned_iff)
  also have "\<dots> = odd (unat (Rep_F61p x))"
    using bit_unsigned_iff [where 'a = nat, of "Rep_F61p x" 0] by (simp add: bit_0)
  finally show ?thesis by (simp add: f61_bit_decomposition_def test_bit_and del: push_bit_of_1)
qed

lemma f61_parity: "k < 2 ^ 60 \<Longrightarrow> f61_bit_decomposition (of_nat k) ! 0 = odd k"
  by (simp add: f61_first_bit Rep_F61p_of_nat p61_def)

lemma F61p_conv_fields:
  assumes "finite_field G"
  shows "conv_fields (F61p_conv G rnd hash bits g)"
proof (rule conv_fields.intro)
  show "finite_field (impl_f2 (F61p_conv G rnd hash bits g))"
    "finite_field (impl_fe (F61p_conv G rnd hash bits g))"
    using assms f61_field.finite_field_axioms by (simp_all add: F61p_conv_def)
qed (simp_all add: F61p_conv_def F61p_impl_def f61_parity)

interpretation conv_f2_f61: conv_fields "F61p_conv (F2_impl rnd2 hash2) rnd hash bits g" for rnd2 hash2 rnd hash bits g
  by (rule F61p_conv_fields [OF f2_field.finite_field_axioms])


subsection \<open>States for the witnesses\<close>

definition idle_prover :: "nat \<Rightarrow> ('p :: zero, 'f :: zero) fcom_prover" where
  "idle_prover N = \<lparr>svole = [], voles = replicate N (0, 0), stats = no_stats\<rparr>"

definition idle_verifier :: "nat \<Rightarrow> 'f :: zero \<Rightarrow> 'f fcom_verifier" where
  "idle_verifier N d = \<lparr>svole = [], voles = replicate N 0, stats = no_stats, delta = d\<rparr>"

lemma idle_ok:
  assumes "finite_field F" and "m \<le> N"
  shows "fcom_ok F d m (idle_prover N) (idle_verifier N d)"
proof -
  have "vole_ok F d (0, 0) 0"
    using finite_field.emb_zero [OF assms(1)] finite_field.smul_emb [OF assms(1), of 0 d] by (simp add: vole_ok_def)
  then have "list_all2 (vole_ok F d) (replicate N (0, 0)) (replicate N 0)"
    by (simp add: list_all2_conv_all_nth)
  then show ?thesis
    using assms(2) by (simp add: fcom_ok_def idle_prover_def idle_verifier_def vole_supply_def)
qed

abbreviation demo_f2 :: "(F2, F2) field_impl" where
  "demo_f2 \<equiv> F2_impl (\<lambda>seed i. 1) (\<lambda>bs. bs)"

abbreviation demo_conv :: "(F2, F61p) conv_impl" where
  "demo_conv \<equiv> F61p_conv demo_f2 (\<lambda>seed i. 1) (\<lambda>bs. bs) (\<lambda>seed i. 1) (\<lambda>seed h i. 0)"

definition idle_conv_prover :: "nat \<Rightarrow> (F2, F61p) prover_conv" where
  "idle_conv_prover N = \<lparr>fcom_f2 = idle_prover N, fcom_fe = idle_prover N\<rparr>"

definition idle_conv_verifier :: "nat \<Rightarrow> (F2, F61p) verifier_conv" where
  "idle_conv_verifier N = \<lparr>fcom_f2 = idle_verifier N 1, fcom_fe = idle_verifier N 1\<rparr>"

lemma idle_conv_ok: "m \<le> N \<Longrightarrow> n \<le> N \<Longrightarrow> conv_ok demo_conv 1 1 m n (idle_conv_prover N) (idle_conv_verifier N)"
  by (simp add: conv_ok_def idle_conv_prover_def idle_conv_verifier_def F61p_conv_def
      idle_ok [OF f2_field.finite_field_axioms] idle_ok [OF f61_field.finite_field_axioms])

subsection \<open>Properties\<close>

text \<open>
  C34. The addition with carry of committed bits: from corresponding states with
  \<open>num + num m + degree\<close> VOLEs the two parties finish \<open>bit_add_carry\<close>; for every pair of numbers
  the \<open>m\<close> bits and the carry of the result are committed consistently and are the sum. The same
  holds for a prover that commits to other carries in, which are then added to the sum: the
  verifier's side of the protocol does not depend on them.
\<close>

theorem bit_add_carry_correct:
  fixes G :: "(F2, 'g :: comm_ring_1) field_impl"
  assumes "finite_field G" and "fcom_ok G d (num + num * m + degree G + n) s t" and "0 < num" and "length c0 = num"
    and "batch_ok G d num m xs xs'" and "batch_ok G d num m ys ys'"
  shows "joint (prover_bit_add_carry G xs ys) (verifier_bit_add_carry G chi xs' ys') s t (\<lambda>res s' res' t'.
      list_all2 (sums_ok G d) res res' \<and> length res = num \<and> fcom_ok G d n s' t' \<and>
      (\<forall>j < num. length (fst (res ! j)) = m \<and>
        bits_nat (map mac_value (fst (res ! j))) + 2 ^ m * f2_nat (mac_value (snd (res ! j)))
        = bits_nat (map mac_value (xs ! j)) + bits_nat (map mac_value (ys ! j)))) \<and>
    joint (prover_adder G c0 xs ys) (verifier_bit_add_carry G chi xs' ys') s t (\<lambda>res s' res' t'.
      list_all2 (sums_ok G d) res res' \<and> length res = num \<and> fcom_ok G d n s' t' \<and>
      (\<forall>j < num. length (fst (res ! j)) = m \<and>
        bits_nat (map mac_value (fst (res ! j))) + 2 ^ m * f2_nat (mac_value (snd (res ! j)))
        = bits_nat (map mac_value (xs ! j)) + bits_nat (map mac_value (ys ! j)) + f2_nat (c0 ! j)))"
proof (intro conjI)
  have len: "length res = num" if "adder_values c0 xs ys m res" for c0 and res :: "((F2, 'g) mac_prover list \<times> (F2, 'g) mac_prover) list"
    using that assms(5) by (simp add: adder_values_def batch_ok_def)
  note sums = adder_values_all [OF _ assms(5,6)]
  show "joint (prover_bit_add_carry G xs ys) (verifier_bit_add_carry G chi xs' ys') s t (\<lambda>res s' res' t'.
      list_all2 (sums_ok G d) res res' \<and> length res = num \<and> fcom_ok G d n s' t' \<and>
      (\<forall>j < num. length (fst (res ! j)) = m \<and>
        bits_nat (map mac_value (fst (res ! j))) + 2 ^ m * f2_nat (mac_value (snd (res ! j)))
        = bits_nat (map mac_value (xs ! j)) + bits_nat (map mac_value (ys ! j))))"
    by (rule joint_mono [OF joint_bit_add_carry [OF assms(1,2,5,6,3)]]) (use len sums in fastforce)
  show "joint (prover_adder G c0 xs ys) (verifier_bit_add_carry G chi xs' ys') s t (\<lambda>res s' res' t'.
      list_all2 (sums_ok G d) res res' \<and> length res = num \<and> fcom_ok G d n s' t' \<and>
      (\<forall>j < num. length (fst (res ! j)) = m \<and>
        bits_nat (map mac_value (fst (res ! j))) + 2 ^ m * f2_nat (mac_value (snd (res ! j)))
        = bits_nat (map mac_value (xs ! j)) + bits_nat (map mac_value (ys ! j)) + f2_nat (c0 ! j)))"
    by (rule joint_mono [OF joint_adder [OF assms(1,2,5,6,4,3)]]) (use len sums in blast)
qed

theorem bit_add_carry_correct_witness:
  "joint (prover_bit_add_carry demo_f2 [[MacProver 1 1]] [[MacProver 1 1]])
     (verifier_bit_add_carry demo_f2 1 [[MacVerifier 0]] [[MacVerifier 0]]) (idle_prover 3) (idle_verifier 3 1)
     (\<lambda>res s' res' t'. length res = 1 \<and> length (fst (res ! 0)) = 1 \<and>
       bits_nat (map mac_value (fst (res ! 0))) + 2 * f2_nat (mac_value (snd (res ! 0))) = 2)"
proof -
  have ok: "fcom_ok demo_f2 1 (1 + 1 * 1 + degree demo_f2 + 0) (idle_prover 3) (idle_verifier 3 1)"
    by (rule idle_ok [OF f2_field.finite_field_axioms]) (simp add: F2_impl_def)
  have batch: "batch_ok demo_f2 1 1 1 [[MacProver 1 1]] [[MacVerifier 0]]"
    by (simp add: batch_ok_def mac_ok_def F2_impl_def)
  have carry: "length [0 :: F2] = 1" by simp
  from conjunct1 [OF bit_add_carry_correct [OF f2_field.finite_field_axioms ok zero_less_one carry batch batch]]
  show ?thesis by (rule joint_mono) simp_all
qed


text \<open>
  C35. The check of random daBits is complete: two parties that follow the code finish it, for
  every choice of the prover's masks and of the verifier's seed and challenge, when the daBits are
  correct and their number passes the check of the parameters. It takes 38 VOLEs over F2 and
  \<open>2 * 38 * gamma + degree\<close> over the prime field.
\<close>

theorem fdabit_complete:
  assumes "conv_fields K" and "length ds + 1 < 2 ^ 64"
    and "check_parameters K (length ds) (fdabit_gamma (length ds)) = Inr ()"
    and "conv_ok K d2 de (FDABIT_SECURITY_PARAMETER + m)
      (2 * FDABIT_SECURITY_PARAMETER * fdabit_gamma (length ds) + degree (impl_fe K) + n) s t"
    and "list_all2 (dabit_ok K d2 de) ds ds'" and "\<forall>d \<in> set ds. dabit_correct d" and "length seed = 16"
  shows "joint (prover_fdabit K draws ds) (verifier_fdabit K seed chi ds') s t
    (\<lambda>_ s' _ t'. conv_ok K d2 de m n s' t')"
  by (rule conv_fields.joint_fdabit [OF assms(1,4,5,6,2,3,7)])

definition demo_dabit :: "(F2, F61p) dabit_prover" where
  "demo_dabit = \<lparr>dp_bit = MacProver 1 1, dp_value = MacProver 1 1\<rparr>"

definition zero_dabit_key :: "(F2, F61p) dabit_verifier" where
  "zero_dabit_key = \<lparr>dv_bit = MacVerifier 0, dv_value = MacVerifier 0\<rparr>"

lemma demo_dabit_ok: "dabit_ok demo_conv 1 1 demo_dabit zero_dabit_key" "dabit_correct demo_dabit"
  by (simp_all add: dabit_ok_def dabit_correct_def demo_dabit_def zero_dabit_key_def mac_ok_def F61p_conv_def
      F2_impl_def F61p_impl_def)

lemma gamma_two: "fdabit_gamma 2 = 2" "check_parameters (F61p_conv G rnd hash bits g) 2 2 = Inr ()"
  by (simp_all add: fdabit_gamma_def check_parameters_def log2_floor_def leading_zeros_def bit_length.simps F61p_conv_def)

lemma demo_degree: "degree (impl_f2 demo_conv) = 1" "degree (impl_fe demo_conv) = 1"
  by (simp_all add: F61p_conv_def F2_impl_def F61p_impl_def)

theorem fdabit_complete_witness:
  "joint (prover_fdabit demo_conv (\<lambda>k i. 1) [demo_dabit, demo_dabit])
     (verifier_fdabit demo_conv (replicate 16 0) 1 [zero_dabit_key, zero_dabit_key])
     (idle_conv_prover 200) (idle_conv_verifier 200) (\<lambda>_ s' _ t'. conv_ok demo_conv 1 1 0 0 s' t')"
proof -
  let ?ds = "[demo_dabit, demo_dabit]"
  have len: "length ?ds = 2" by simp
  have ok: "conv_ok demo_conv 1 1 (FDABIT_SECURITY_PARAMETER + 0)
      (2 * FDABIT_SECURITY_PARAMETER * fdabit_gamma (length ?ds) + degree (impl_fe demo_conv) + 0)
      (idle_conv_prover 200) (idle_conv_verifier 200)"
    unfolding len gamma_two demo_degree FDABIT_SECURITY_PARAMETER_def by (rule idle_conv_ok) simp_all
  show ?thesis
    by (rule fdabit_complete [OF F61p_conv_fields [OF f2_field.finite_field_axioms] _ _ ok])
      (simp_all only: len gamma_two, simp_all add: demo_dabit_ok)
qed

subsection \<open>The conversion check\<close>

lemma select_parameters:
  assumes "1024 \<le> k"
  obtains buckets where "select_best_cut_and_choose_parameters k = Inr (buckets, buckets)" "buckets \<le> 5"
  using assms that by (auto simp: select_best_cut_and_choose_parameters_def require_def Let_def split: if_splits)

lemma parameters_fit:
  assumes "D + 1 < 2 ^ h" and "h \<le> 64" and "2 * h < number_of_bits K"
  shows "D + 1 < 2 ^ 64" "check_parameters K D (fdabit_gamma D) = Inr ()"
proof -
  have "(2 :: nat) ^ h \<le> 2 ^ 64" using assms(2) by (intro power_increasing) simp_all
  with assms(1) show D: "D + 1 < 2 ^ 64" by simp
  have "bit_length (D + 1) \<le> h" using assms(1) by (rule bit_length_le)
  then show "check_parameters K D (fdabit_gamma D) = Inr ()"
    using assms(3) fdabit_gamma_bits [OF D] by (simp add: check_parameters_def)
qed

lemma estimate_parts:
  assumes "select_best_cut_and_choose_parameters num = Inr (buckets, cuts)" and "0 < num"
    and "num * buckets + 1 < 2 ^ 64" and "estimate_voles_impl K num b = Inr (v2, ve)"
  shows "v2 = (num * buckets + cuts) * b + num * buckets + FDABIT_SECURITY_PARAMETER + buckets * adder_voles (impl_f2 K) num b"
    and "ve = num * buckets + cuts + num * buckets
      + (2 * FDABIT_SECURITY_PARAMETER * fdabit_gamma (num * buckets) + degree (impl_fe K))"
  using assms fdabit_gamma_bits [OF assms(3)] by (auto simp: estimate_voles_impl_def Let_def)

text \<open>
  The whole check, for a prover that handles the windows in any way that works with correct
  random edaBits and daBits.
\<close>

lemma joint_verify_with:
  assumes K: "conv_fields K" and voles: "estimate_voles_impl K (length es) b = Inr (v2, ve)"
    and ok: "conv_ok K d2 de (v2 + m) (ve + n) s t"
    and size: "1024 \<le> length es" "5 * length es + 1 < 2 ^ h" "h \<le> 64" "2 * h < number_of_bits K"
    and es: "list_all2 (edabit_ok K d2 de b) es es'" and coins: "coins_ok coins"
    and loop: "window_ok K n d2 de (length es) b loop coins es es'"
  shows "joint (p_bind (p_lift (select_best_cut_and_choose_parameters (length es)))
      (\<lambda>(num_buckets, num_cut). prover_conv_with loop K draws num_buckets num_cut es))
    (verifier_verify_conversions K coins es') s t (\<lambda>_ s' _ t'. conv_ok K d2 de m n s' t')"
proof -
  obtain buckets where sel: "select_best_cut_and_choose_parameters (length es) = Inr (buckets, buckets)" "buckets \<le> 5"
    using size(1) by (rule select_parameters)
  have len: "length es' = length es" using es by (simp add: list_all2_lengthD)
  have "length es * buckets \<le> length es * 5" using sel(2) by simp
  then have D: "length es * buckets + 1 < 2 ^ h" using size(2) by linarith
  note fit = parameters_fit [OF D size(3,4)]
  have pos: "0 < length es" using size(1) by linarith
  note v = estimate_parts [OF sel(1) pos fit(1) voles]
  show ?thesis
    unfolding verifier_verify_conversions_def len sel(1)
    by (rule joint_left [OF runs_lift], rule joint_right [OF runs_lift], unfold prod.case,
        rule conv_fields.joint_conv_with [OF K ok [unfolded v] coins refl pos es fit loop])
qed

lemma joint_verify_conversions:
  assumes "conv_fields K" and "estimate_voles_impl K (length es) b = Inr (v2, ve)"
    and "conv_ok K d2 de (v2 + m) (ve + n) s t"
    and "1024 \<le> length es" and "5 * length es + 1 < 2 ^ h" and "h \<le> 64" and "2 * h < number_of_bits K"
    and "list_all2 (edabit_ok K d2 de b) es es'" and "\<forall>e \<in> set es. edabit_correct e" and "coins_ok coins"
  shows "joint (prover_verify_conversions K draws es) (verifier_verify_conversions K coins es') s t
    (\<lambda>_ s' _ t'. conv_ok K d2 de m n s' t')"
proof -
  have pos: "0 < length es" using assms(4) by linarith
  have "window_ok K n d2 de (length es) b (prover_conv_loop K) coins es es'"
    unfolding window_ok_def
    using conv_fields.joint_conv_loop [OF assms(1) _ _ refl pos assms(8,9)] assms(10) by (simp add: coins_ok_def)
  from joint_verify_with [OF assms(1-8,10) this] show ?thesis
    by (simp add: prover_verify_conversions_def prover_conv_def)
qed

text \<open>
  C36. The conversion check is complete and the estimate of its VOLEs is exact: two parties that
  follow the code finish \<open>verify_conversions\<close> on at least 1024 correct edaBits, for all draws of
  the prover and all coins of the verifier, with no more VOLEs than \<open>estimate_voles\<close> counts. The
  number of edaBits is limited by half the bits of the field (for F61p, \<open>h = 30\<close>) and by the
  width of \<open>usize\<close>.
\<close>

theorem verify_conversions_complete:
  assumes "conv_fields K" and "estimate_voles_impl K (length es) b = Inr (v2, ve)"
    and "conv_ok K d2 de (v2 + m) (ve + n) s t"
    and "1024 \<le> length es" and "5 * length es + 1 < 2 ^ h" and "h \<le> 64" and "2 * h < number_of_bits K"
    and "list_all2 (edabit_ok K d2 de b) es es'" and "\<forall>e \<in> set es. edabit_correct e" and "coins_ok coins"
  shows "joint (prover_verify_conversions K draws es) (verifier_verify_conversions K coins es') s t
    (\<lambda>_ s' _ t'. conv_ok K d2 de m n s' t')"
  using assms by (rule joint_verify_conversions)

definition demo_edabit :: "nat \<Rightarrow> (F2, F61p) edabits_prover" where
  "demo_edabit k = \<lparr>ep_bits = [MacProver 1 1], ep_value = MacProver (of_nat k) (of_nat k)\<rparr>"

definition zero_edabit_key :: "(F2, F61p) edabits_verifier" where
  "zero_edabit_key = \<lparr>ev_bits = [MacVerifier 0], ev_value = MacVerifier 0\<rparr>"

definition zero_coins :: "(F2, F61p) conv_coins" where
  "zero_coins = \<lparr>fdabit_seed = replicate 16 0, fdabit_chi = 1, shuffle_seed = replicate 16 0,
     bucket_chi = (\<lambda>j. 1), bucket_seed = (\<lambda>j. replicate 16 0)\<rparr>"

lemma zero_coins_ok: "coins_ok zero_coins"
  by (simp add: coins_ok_def zero_coins_def)

lemma demo_edabit_ok:
  "edabit_ok demo_conv 1 1 1 (demo_edabit k) zero_edabit_key" "edabit_number (demo_edabit k) = 1"
  "edabit_correct (demo_edabit 1)"
  by (simp_all add: edabit_ok_def edabit_correct_def edabit_number_def demo_edabit_def zero_edabit_key_def mac_ok_def
      F61p_conv_def F2_impl_def F61p_impl_def)

lemma bit_length_5121: "bit_length 5121 = 13"
  by (simp add: bit_length.simps)

lemma demo_estimate: "estimate_voles_impl demo_conv 1024 1 = Inr (20528, 11234)"
proof -
  have "leading_zeros (5120 + 1) = 51" by (simp add: leading_zeros_def bit_length_5121)
  moreover have "select_best_cut_and_choose_parameters 1024 = Inr (5, 5)"
    by (simp add: select_best_cut_and_choose_parameters_def require_def Let_def)
  ultimately show ?thesis
    by (simp add: estimate_voles_impl_def Let_def FDABIT_SECURITY_PARAMETER_def demo_degree)
qed

lemma list_all2_replicate: "R x y \<Longrightarrow> list_all2 R (replicate k x) (replicate k y)"
  by (simp add: list_all2_conv_all_nth)

lemma all_replicate: "P x \<Longrightarrow> \<forall>e \<in> set (replicate k x). P e"
  by simp

lemma demo_size: "5 * 1024 + 1 < (2 :: nat) ^ 30" "(1024 :: nat) \<le> 1024" "(30 :: nat) \<le> 64"
  "2 * 30 < number_of_bits demo_conv"
  by (simp_all add: F61p_conv_def)

theorem verify_conversions_complete_witness:
  "joint (prover_verify_conversions demo_conv (\<lambda>k i. 1) (replicate 1024 (demo_edabit 1)))
     (verifier_verify_conversions demo_conv zero_coins (replicate 1024 zero_edabit_key))
     (idle_conv_prover 20528) (idle_conv_verifier 20528) (\<lambda>_ s' _ t'. conv_ok demo_conv 1 1 0 0 s' t')"
proof -
  have ok: "conv_ok demo_conv 1 1 (20528 + 0) (11234 + 0) (idle_conv_prover 20528) (idle_conv_verifier 20528)"
    by (rule idle_conv_ok) simp_all
  have es: "list_all2 (edabit_ok demo_conv 1 1 1) (replicate 1024 (demo_edabit 1)) (replicate 1024 zero_edabit_key)"
    by (rule list_all2_replicate) (rule demo_edabit_ok(1))
  have cor: "\<forall>e \<in> set (replicate 1024 (demo_edabit 1)). edabit_correct e"
    by (rule all_replicate) (rule demo_edabit_ok(3))
  show ?thesis
    by (rule verify_conversions_complete [OF F61p_conv_fields [OF f2_field.finite_field_axioms], where es = "replicate 1024 (demo_edabit 1)",
          unfolded length_replicate, OF demo_estimate ok demo_size(2,1,3,4) es cor zero_coins_ok])
qed

end
