(* ===== verification/Conversion_Deviations.thy ===== *)
theory Conversion_Deviations
  imports Conversion_Properties
begin

text \<open>
  Provers that do not follow the code. The verifier of the conversion check leaves two of the
  prover's inputs unconstrained: the carries into the additions, and the masks of the check of
  daBits. Both runs below end with a verifier that accepts, although the prover's data are wrong.
\<close>

subsection \<open>Carries\<close>

text \<open>A window with carries of the prover's choice; the code has zeros here.\<close>

definition carry_conv_loop ::
  "('g :: comm_ring_1, 'e :: comm_ring_1) conv_impl \<Rightarrow> F2 list \<Rightarrow> ('g, 'e) edabits_prover list \<Rightarrow> ('g, 'e) edabits_prover list \<Rightarrow>
   ('g, 'e) dabit_prover list \<Rightarrow> (('g, 'e) prover_conv, unit) proc" where
  "carry_conv_loop K c0 edabits r dabits =
     p_bind (on_f2 (prover_adder (impl_f2 K) c0 (map ep_bits edabits) (map ep_bits r))) (\<lambda>e_batch.
     prover_conv_checks K edabits r dabits e_batch)"

definition carry_verify_conversions ::
  "('g :: comm_ring_1, 'e :: comm_ring_1) conv_impl \<Rightarrow> F2 list \<Rightarrow> (nat \<Rightarrow> nat \<Rightarrow> F2) \<Rightarrow>
   ('g, 'e) edabits_prover list \<Rightarrow> (('g, 'e) prover_conv, unit) proc" where
  "carry_verify_conversions K c0 draws edabits =
     p_bind (p_lift (select_best_cut_and_choose_parameters (length edabits))) (\<lambda>(num_buckets, num_cut).
     prover_conv_with (carry_conv_loop K c0) K draws num_buckets num_cut edabits)"

text \<open>
  The prover of the code is the one with zero carries.
\<close>

lemma carry_conv_loop_zero:
  assumes "es \<noteq> []" and "length rs = length es"
  shows "carry_conv_loop K (replicate (length es) 0) es rs ds = prover_conv_loop K es rs ds"
  using assms
  by (simp add: fun_eq_iff carry_conv_loop_def prover_conv_loop_def prover_bit_add_carry_def p_require_def p_bind_def p_return_def)

text \<open>
  C37. The carries into the additions of the conversion check are commitments of the prover that
  nothing constrains: whenever the value of every edaBit is its number plus a carry bit of the
  prover's choice, a prover that commits to these carries is accepted by \<open>verify_conversions\<close>, for
  all coins of the verifier. The edaBits with carry 1 are wrong, their value exceeds the number
  that their bits represent.
\<close>

theorem carry_in_accepted:
  assumes "conv_fields K" and "estimate_voles_impl K (length es) b = Inr (v2, ve)"
    and "conv_ok K d2 de (v2 + m) (ve + n) s t"
    and "1024 \<le> length es" and "5 * length es + 1 < 2 ^ h" and "h \<le> 64" and "2 * h < number_of_bits K"
    and "list_all2 (edabit_ok K d2 de b) es es'" and "coins_ok coins" and "length c0 = length es"
    and "\<And>j. j < length es \<Longrightarrow> mac_value (ep_value (es ! j)) = of_nat (edabit_number (es ! j) + f2_nat (c0 ! j))"
  shows "joint (carry_verify_conversions K c0 draws es) (verifier_verify_conversions K coins es') s t
      (\<lambda>_ s' _ t'. conv_ok K d2 de m n s' t') \<and>
    (\<forall>j < length es. c0 ! j = 1 \<longrightarrow> \<not> edabit_correct (es ! j))"
proof (intro conjI allI impI)
  have pos: "0 < length es" using assms(4) by linarith
  have "window_ok K n d2 de (length es) b (carry_conv_loop K c0) coins es es'"
    unfolding window_ok_def carry_conv_loop_def
  proof (intro allI impI conv_fields.joint_window [OF assms(1) _ _ refl pos assms(8,10,11)])
    fix s t xs' ys' and rs :: "('a, 'b) edabits_prover list" and m
    assume "fcom_ok (impl_f2 K) d2 (adder_voles (impl_f2 K) (length es) b + m) s t"
      "batch_ok (impl_f2 K) d2 (length es) b (map ep_bits es) xs'" "batch_ok (impl_f2 K) d2 (length es) b (map ep_bits rs) ys'"
    from joint_adder [OF conv_fields.f2_field [OF assms(1)] this assms(10) pos]
    show "joint (prover_adder (impl_f2 K) c0 (map ep_bits es) (map ep_bits rs)) (verifier_bit_add_carry (impl_f2 K) chi xs' ys') s t
        (\<lambda>res s' res' t'. list_all2 (sums_ok (impl_f2 K) d2) res res' \<and>
          adder_values c0 (map ep_bits es) (map ep_bits rs) b res \<and> fcom_ok (impl_f2 K) d2 m s' t')" for chi .
  qed (use assms(9) in \<open>simp_all add: coins_ok_def\<close>)
  from joint_verify_with [OF assms(1-9) this]
  show "joint (carry_verify_conversions K c0 draws es) (verifier_verify_conversions K coins es') s t
      (\<lambda>_ s' _ t'. conv_ok K d2 de m n s' t')"
    by (simp add: carry_verify_conversions_def)
  fix j assume "j < length es" "c0 ! j = 1"
  then show "\<not> edabit_correct (es ! j)"
    using assms(11) by (simp add: edabit_correct_def)
qed

theorem carry_in_accepted_witness:
  "joint (carry_verify_conversions demo_conv (replicate 1024 1) (\<lambda>k i. 1) (replicate 1024 (demo_edabit 2)))
     (verifier_verify_conversions demo_conv zero_coins (replicate 1024 zero_edabit_key))
     (idle_conv_prover 20528) (idle_conv_verifier 20528) (\<lambda>_ s' _ t'. conv_ok demo_conv 1 1 0 0 s' t') \<and>
   \<not> edabit_correct (demo_edabit 2)"
proof -
  have ok: "conv_ok demo_conv 1 1 (20528 + 0) (11234 + 0) (idle_conv_prover 20528) (idle_conv_verifier 20528)"
    by (rule idle_conv_ok) simp_all
  have es: "list_all2 (edabit_ok demo_conv 1 1 1) (replicate 1024 (demo_edabit 2)) (replicate 1024 zero_edabit_key)"
    by (rule list_all2_replicate) (rule demo_edabit_ok(1))
  have len: "length (replicate 1024 (1 :: F2)) = 1024" by (rule length_replicate)
  have val: "mac_value (ep_value (replicate 1024 (demo_edabit 2) ! j))
      = of_nat (edabit_number (replicate 1024 (demo_edabit 2) ! j) + f2_nat (replicate 1024 1 ! j))" if "j < 1024" for j
    unfolding nth_replicate [OF that] demo_edabit_ok(2) by (simp add: demo_edabit_def)
  note accepted = carry_in_accepted [OF F61p_conv_fields [OF f2_field.finite_field_axioms], where es = "replicate 1024 (demo_edabit 2)",
          unfolded length_replicate, OF demo_estimate ok demo_size(2,1,3,4) es zero_coins_ok len val]
  moreover have "\<not> edabit_correct (demo_edabit 2)"
    using conjunct2 [OF accepted, rule_format, of 0] by (simp only: nth_replicate zero_less_numeral simp_thms)
  ultimately show ?thesis by blast
qed

subsection \<open>Masks\<close>

text \<open>The masks \<open>-1, 0, 0, \<dots>\<close> instead of bits.\<close>

definition borrow_masks :: "nat \<Rightarrow> 'e :: comm_ring_1 list list" where
  "borrow_masks gamma = replicate FDABIT_SECURITY_PARAMETER (- 1 # replicate (gamma - 1) 0)"

lemma horner_zeros: "horner (replicate k 0) x = (0 :: 'e :: comm_ring_1)"
  by (induction k) simp_all

lemma zero_sum:
  assumes "\<And>d. d \<in> set ds \<Longrightarrow> f d = 0"
  shows "(\<Sum>(b, d)\<leftarrow>zip ek ds. g b * f d) = (0 :: 'r :: comm_ring_1)"
  using assms
proof (induction ds arbitrary: ek)
  case (Cons d ds)
  then show ?case by (cases ek) simp_all
qed simp

lemma one_fault_sum:
  assumes "\<And>i. i < length ds \<Longrightarrow> mac_value (dp_value (ds ! i)) = (if i = j then 1 else 0)"
  shows "(\<Sum>(b, d)\<leftarrow>zip ek ds. f2_to_fe b * mac_value (dp_value d)) \<in> {0, 1 :: 'e :: comm_ring_1}"
  using assms
proof (induction ds arbitrary: ek j)
  case (Cons d ds)
  have rest: "mac_value (dp_value (ds ! i)) = (if Suc i = j then 1 else 0)" if "i < length ds" for i
    using Cons.prems [of "Suc i"] that by simp
  show ?case
  proof (cases ek)
    case (Cons b bs)
    show ?thesis
    proof (cases j)
      case 0
      have "(\<Sum>(b, d)\<leftarrow>zip bs ds. f2_to_fe b * mac_value (dp_value d)) = (0 :: 'e)"
        using rest 0 by (intro zero_sum) (auto simp: in_set_conv_nth)
      then show ?thesis
        using Cons Cons.prems [of 0] 0 by (cases b rule: F2_cases) (simp_all add: f2_to_fe_nat)
    next
      case (Suc k)
      have "(\<Sum>(b, d)\<leftarrow>zip bs ds. f2_to_fe b * mac_value (dp_value d)) \<in> {0, 1 :: 'e}"
        using rest by (intro Cons.IH [of k]) (simp add: Suc)
      then show ?thesis using Cons Cons.prems [of 0] Suc by simp
    qed
  qed simp
qed simp

lemma borrow_parities:
  fixes K :: "('g :: comm_ring_1, 'e :: comm_ring_1) conv_impl"
  assumes K: "conv_fields K" and minus: "\<not> bit_decomposition K (- 1) ! 0"
    and ds: "\<And>i. i < length ds \<Longrightarrow> mac_value (dp_bit (ds ! i)) = 0 \<and> mac_value (dp_value (ds ! i)) = (if i = j then 1 else 0)"
  shows "parities_ok K seed (borrow_masks gamma) (replicate FDABIT_SECURITY_PARAMETER 0) ds"
  unfolding parities_ok_def Let_def
proof (intro allI impI)
  fix k assume k: "k < FDABIT_SECURITY_PARAMETER"
  let ?e = "challenge_bits K seed FDABIT_SECURITY_PARAMETER (length ds) ! k"
  have "\<not> bit_decomposition K 0 ! 0"
    using conv_fields.parity [OF K, of 0] by simp
  moreover have "(\<Sum>(b, d)\<leftarrow>zip ?e ds. f2_to_fe b * mac_value (dp_value d)) + horner (borrow_masks gamma ! k) 2 \<in> {0, - 1 :: 'e}"
    using one_fault_sum [of ds j ?e] ds k by (auto simp: borrow_masks_def horner_zeros)
  moreover have "(\<Sum>(b, d)\<leftarrow>zip ?e ds. b * mac_value (dp_bit d)) = (0 :: F2)"
    using ds by (intro zero_sum) (auto simp: in_set_conv_nth)
  ultimately show "parity_ok K
      (replicate FDABIT_SECURITY_PARAMETER 0 ! k + (\<Sum>(b, d)\<leftarrow>zip ?e ds. b * mac_value (dp_bit d)))
      ((\<Sum>(b, d)\<leftarrow>zip ?e ds. f2_to_fe b * mac_value (dp_value d)) + horner (borrow_masks gamma ! k) 2)"
    using k minus by (auto simp: parity_ok_def)
qed

text \<open>
  C38. The masks of the check of daBits need not be bits: the verifier checks that the products
  \<open>c * (1 - c)\<close> are what the prover committed to, but not that they are zero. With the mask \<open>-1\<close>
  a prover whose bits are all 0 and whose values are 0 except for one that is 1 is accepted for
  every seed and challenge, in fields where \<open>-1\<close> is even.
\<close>

theorem masks_unchecked:
  assumes "conv_fields K" and "\<not> bit_decomposition K (- 1) ! 0" and "length ds + 1 < 2 ^ 64"
    and "check_parameters K (length ds) (fdabit_gamma (length ds)) = Inr ()"
    and "conv_ok K d2 de (FDABIT_SECURITY_PARAMETER + m)
      (2 * FDABIT_SECURITY_PARAMETER * fdabit_gamma (length ds) + degree (impl_fe K) + n) s t"
    and "list_all2 (dabit_ok K d2 de) ds ds'" and "length seed = 16" and "j < length ds"
    and "\<And>i. i < length ds \<Longrightarrow> mac_value (dp_bit (ds ! i)) = 0 \<and> mac_value (dp_value (ds ! i)) = (if i = j then 1 else 0)"
  shows "joint (prover_fdabit_steps K (borrow_masks (fdabit_gamma (length ds))) (replicate FDABIT_SECURITY_PARAMETER 0) ds)
      (verifier_fdabit K seed chi ds') s t (\<lambda>_ s' _ t'. conv_ok K d2 de m n s' t') \<and>
    \<not> dabit_correct (ds ! j)"
proof
  have "0 < fdabit_gamma (length ds)" using fdabit_gamma_bits [OF assms(3)] by simp
  then have masks: "masks_ok (fdabit_gamma (length ds)) (borrow_masks (fdabit_gamma (length ds))) (replicate FDABIT_SECURITY_PARAMETER 0)"
    by (auto simp: masks_ok_def borrow_masks_def)
  show "joint (prover_fdabit_steps K (borrow_masks (fdabit_gamma (length ds))) (replicate FDABIT_SECURITY_PARAMETER 0) ds)
      (verifier_fdabit K seed chi ds') s t (\<lambda>_ s' _ t'. conv_ok K d2 de m n s' t')"
    by (rule conv_fields.joint_fdabit_steps [OF assms(1,5,6) masks refl assms(4,7) borrow_parities [OF assms(1,2,9)]])
  show "\<not> dabit_correct (ds ! j)" using assms(9) [OF assms(8)] by (simp add: dabit_correct_def)
qed

definition wrong_dabit :: "(F2, F61p) dabit_prover" where
  "wrong_dabit = \<lparr>dp_bit = MacProver 0 0, dp_value = MacProver 1 1\<rparr>"

lemma f61_minus_one_even: "\<not> f61_bit_decomposition (- 1) ! 0"
proof -
  have "int (unat (Rep_F61p (- 1))) = int (p61 - 1)"
    unfolding val61_def [symmetric] by (simp add: val61_uminus p61_def)
  then have "unat (Rep_F61p (- 1)) = p61 - 1" by (simp only: of_nat_eq_iff)
  then show ?thesis by (simp add: f61_first_bit p61_def)
qed

theorem masks_unchecked_witness:
  "joint (prover_fdabit_steps demo_conv (borrow_masks 2) (replicate FDABIT_SECURITY_PARAMETER 0) [wrong_dabit, \<lparr>dp_bit = MacProver 0 0, dp_value = MacProver 0 0\<rparr>])
     (verifier_fdabit demo_conv (replicate 16 0) 1 [zero_dabit_key, zero_dabit_key])
     (idle_conv_prover 200) (idle_conv_verifier 200) (\<lambda>_ s' _ t'. conv_ok demo_conv 1 1 0 0 s' t') \<and>
   \<not> dabit_correct wrong_dabit"
proof -
  let ?zero = "\<lparr>dp_bit = MacProver 0 0, dp_value = MacProver 0 0\<rparr> :: (F2, F61p) dabit_prover"
  let ?ds = "[wrong_dabit, ?zero]"
  have len: "length ?ds = 2" by simp
  have ok: "conv_ok demo_conv 1 1 (FDABIT_SECURITY_PARAMETER + 0)
      (2 * FDABIT_SECURITY_PARAMETER * fdabit_gamma (length ?ds) + degree (impl_fe demo_conv) + 0)
      (idle_conv_prover 200) (idle_conv_verifier 200)"
    unfolding len gamma_two demo_degree FDABIT_SECURITY_PARAMETER_def by (rule idle_conv_ok) simp_all
  have even: "\<not> bit_decomposition demo_conv (- 1) ! 0" using f61_minus_one_even by (simp add: F61p_conv_def)
  have size: "length ?ds + 1 < 2 ^ 64" "check_parameters demo_conv (length ?ds) (fdabit_gamma (length ?ds)) = Inr ()" "0 < length ?ds"
    by (simp_all only: len gamma_two) simp_all
  have macs: "list_all2 (dabit_ok demo_conv 1 1) ?ds [zero_dabit_key, zero_dabit_key]"
    by (simp add: dabit_ok_def wrong_dabit_def zero_dabit_key_def mac_ok_def F61p_conv_def F2_impl_def F61p_impl_def)
  have faults: "mac_value (dp_bit (?ds ! i)) = 0 \<and> mac_value (dp_value (?ds ! i)) = (if i = 0 then 1 else 0)" if "i < length ?ds" for i
    using that by (cases i) (simp_all add: wrong_dabit_def)
  have seed: "length (replicate 16 (0 :: u8)) = 16" by simp
  from masks_unchecked [OF F61p_conv_fields [OF f2_field.finite_field_axioms] even size(1,2) ok macs seed size(3) faults]
  show ?thesis unfolding len gamma_two by simp
qed

end
