(* ===== verification/Fixed_Point.thy ===== *)
theory Fixed_Point
  imports Conversion
begin

text \<open>
  Two protocols of src/diet-mac-and-cheese/src/edabits.rs on top of the conversions: random edaBits
  of all bits of a field element, and the check of fixed-point multiplications with its estimate;
  and the random fixed-point triples of src/diet-mac-and-cheese/src/trunc.rs. Random draws are
  arguments.
\<close>

subsection \<open>Bits of a random element\<close>

definition bits_of_element :: "('g, 'e) conv_impl \<Rightarrow> 'e \<Rightarrow> F2 list" where
  "bits_of_element K x = map F2_of_bool (bit_decomposition K x)"

definition prover_random_edabits_b2a ::
  "('g :: comm_ring_1, 'e :: comm_ring_1) conv_impl \<Rightarrow> 'e list \<Rightarrow> (('g, 'e) prover_conv, ('g, 'e) edabits_prover list) proc" where
  "prover_random_edabits_b2a K aux_r_m =
     p_bind (on_fe (prover_input (impl_fe K) aux_r_m)) (\<lambda>aux_r_m_mac.
     p_bind (p_mapM (\<lambda>r_m.
       let bits = bits_of_element K r_m in
       p_bind (p_require Assertion (r_m = convert_bits_to_field bits)) (\<lambda>_.
       p_mapM (\<lambda>bit. p_bind (on_f2 (prover_input1 (impl_f2 K) bit)) (\<lambda>bit_mac.
         p_return (MacProver bit bit_mac))) bits)) aux_r_m) (\<lambda>aux_bits.
     p_return (map (\<lambda>(bits, r_m, mac). \<lparr>ep_bits = bits, ep_value = MacProver r_m mac\<rparr>)
       (zip aux_bits (zip aux_r_m aux_r_m_mac)))))"

definition verifier_random_edabits_b2a ::
  "('g :: comm_ring_1, 'e :: comm_ring_1) conv_impl \<Rightarrow> nat \<Rightarrow> nat \<Rightarrow> (('g, 'e) verifier_conv, ('g, 'e) edabits_verifier list) proc" where
  "verifier_random_edabits_b2a K nb_bits num =
     p_bind (on_fe (verifier_input (impl_fe K) num)) (\<lambda>aux_r_m_mac.
     p_bind (p_mapM (\<lambda>_. p_mapM (\<lambda>_. on_f2 (verifier_input1 (impl_f2 K))) [0..<nb_bits]) [0..<num]) (\<lambda>aux_bits.
     p_return (map (\<lambda>(bits, mac). \<lparr>ev_bits = bits, ev_value = mac\<rparr>) (zip aux_bits aux_r_m_mac))))"

subsection \<open>Fixed-point multiplication\<close>

definition two_to_the :: "nat \<Rightarrow> 'e :: comm_ring_1" where
  "two_to_the f = ((\<lambda>res. res * (1 + 1)) ^^ f) 1"

text \<open>
  One triple \<open>(x, y, z_h)\<close>: the product is committed to with its bits, and split into the low and
  the high part.
\<close>

definition prover_fpm_tuple ::
  "('g :: comm_ring_1, 'e :: comm_ring_1) conv_impl \<Rightarrow> nat \<Rightarrow> nat \<Rightarrow> ('e, 'e) prover_triple \<Rightarrow>
   (('g, 'e) prover_conv, ('e, 'e) prover_triple \<times> ('g, 'e) edabits_prover \<times> ('g, 'e) edabits_prover \<times> ('e, 'e) mac_prover) proc" where
  "prover_fpm_tuple K k f = (\<lambda>(x, y, z_h).
     let E = impl_fe K; bit_size = k + 2 * f; z_val = mac_value x * mac_value y in
     p_bind (on_fe (prover_input1 E z_val)) (\<lambda>z_mac.
     let z = MacProver z_val z_mac;
         z_l = prover_sub z (prover_affine_mult_cst E (two_to_the f) z_h);
         z_bits = take bit_size (bits_of_element K z_val) in
     p_bind (on_f2 (prover_input (impl_f2 K) z_bits)) (\<lambda>z_bits_macs.
     let bits = map2 MacProver z_bits z_bits_macs in
     p_return ((x, y, z), \<lparr>ep_bits = take f bits, ep_value = z_l\<rparr>, \<lparr>ep_bits = drop f bits, ep_value = z_h\<rparr>,
       prover_sub (prover_sub z z_l) (prover_affine_mult_cst E (two_to_the f) z_h)))))"

definition verifier_fpm_tuple ::
  "('g :: comm_ring_1, 'e :: comm_ring_1) conv_impl \<Rightarrow> nat \<Rightarrow> nat \<Rightarrow> 'e verifier_triple \<Rightarrow>
   (('g, 'e) verifier_conv, 'e verifier_triple \<times> ('g, 'e) edabits_verifier \<times> ('g, 'e) edabits_verifier \<times> 'e mac_verifier) proc" where
  "verifier_fpm_tuple K k f = (\<lambda>(x, y, z_h).
     let E = impl_fe K; bit_size = k + 2 * f in
     p_bind (on_fe (verifier_input1 E)) (\<lambda>z.
     let z_l = verifier_sub z (verifier_affine_mult_cst E (two_to_the f) z_h) in
     p_bind (on_f2 (verifier_input (impl_f2 K) bit_size)) (\<lambda>z_bits.
     p_return ((x, y, z), \<lparr>ev_bits = take f z_bits, ev_value = z_l\<rparr>, \<lparr>ev_bits = drop f z_bits, ev_value = z_h\<rparr>,
       verifier_sub (verifier_sub z z_l) (verifier_affine_mult_cst E (two_to_the f) z_h)))))"

text \<open>The two conversion checks draw anew.\<close>

definition prover_verify_fp_mult ::
  "('g :: comm_ring_1, 'e :: comm_ring_1) conv_impl \<Rightarrow> (nat \<Rightarrow> nat \<Rightarrow> F2) \<Rightarrow> (nat \<Rightarrow> nat \<Rightarrow> F2) \<Rightarrow>
   ('e, 'e) prover_triple list \<Rightarrow> nat \<Rightarrow> nat \<Rightarrow> (('g, 'e) prover_conv, unit) proc" where
  "prover_verify_fp_mult K draws_low draws_high fpm_tuples k f =
     (if fpm_tuples = [] then p_return ()
      else
        p_bind (p_require Assertion (1024 \<le> length fpm_tuples)) (\<lambda>_.
        p_bind (p_mapM (prover_fpm_tuple K k f) fpm_tuples) (\<lambda>parts.
        p_bind flush (\<lambda>_.
        p_bind (on_fe (prover_check_multiply (impl_fe K) (map (\<lambda>(t, l, h, z). t) parts))) (\<lambda>_.
        p_bind (prover_verify_conversions K draws_low (map (\<lambda>(t, l, h, z). l) parts)) (\<lambda>_.
        p_bind (prover_verify_conversions K draws_high (map (\<lambda>(t, l, h, z). h) parts)) (\<lambda>_.
        on_fe (prover_check_zero (impl_fe K) (map (\<lambda>(t, l, h, z). z) parts)))))))))"

record ('g, 'e) fpm_coins =
  fpm_chi :: 'e
  low_coins :: "('g, 'e) conv_coins"
  high_coins :: "('g, 'e) conv_coins"
  zero_seed :: "u8 list"

definition verifier_verify_fp_mult ::
  "('g :: comm_ring_1, 'e :: comm_ring_1) conv_impl \<Rightarrow> ('g, 'e) fpm_coins \<Rightarrow>
   'e verifier_triple list \<Rightarrow> nat \<Rightarrow> nat \<Rightarrow> (('g, 'e) verifier_conv, unit) proc" where
  "verifier_verify_fp_mult K coins fpm_tuples k f =
     (if fpm_tuples = [] then p_return ()
      else
        p_bind (p_require Assertion (1024 \<le> length fpm_tuples)) (\<lambda>_.
        p_bind (p_mapM (verifier_fpm_tuple K k f) fpm_tuples) (\<lambda>parts.
        p_bind (on_fe (verifier_check_multiply (impl_fe K) (fpm_chi coins) (map (\<lambda>(t, l, h, z). t) parts))) (\<lambda>_.
        p_bind (verifier_verify_conversions K (low_coins coins) (map (\<lambda>(t, l, h, z). l) parts)) (\<lambda>_.
        p_bind (verifier_verify_conversions K (high_coins coins) (map (\<lambda>(t, l, h, z). h) parts)) (\<lambda>_.
        on_fe (verifier_check_zero (impl_fe K) (zero_seed coins) (map (\<lambda>(t, l, h, z). z) parts))))))))"

definition fpm_estimate_voles :: "('g, 'e) conv_impl \<Rightarrow> nat \<Rightarrow> nat \<Rightarrow> nat \<Rightarrow> (nat \<times> nat) res" where
  "fpm_estimate_voles K n k f =
     res_bind (estimate_voles_impl K n (k + f)) (\<lambda>(n2_a, np_a).
     res_bind (estimate_voles_impl K n f) (\<lambda>(n2_b, np_b).
     Inr (n2_a + n2_b + n * (k + 2 * f), np_a + np_b + n + 1)))"

subsection \<open>Random triples\<close>

text \<open>
  The arithmetic of one draw on \<open>u128\<close>: the shift, the subtraction, the remainder by zero and the
  product panic when they leave the type.
\<close>

definition fpm_draw :: "nat \<Rightarrow> nat \<Rightarrow> u128 \<Rightarrow> u128 \<Rightarrow> (u128 \<times> u128 \<times> u128) res" where
  "fpm_draw k f a b =
     res_bind (require Panic (k div 2 + f < 128 \<and> f < 128)) (\<lambda>_.
     let bound = push_bit (k div 2 + f) 1 - 1 in
     res_bind (require Panic (bound \<noteq> 0)) (\<lambda>_.
     let x = a mod bound; y = b mod bound in
     res_bind (checked_mul x y) (\<lambda>p. Inr (x, y, drop_bit f p))))"

text \<open>\<open>Result::unwrap\<close>: an error value becomes a panic.\<close>

fun unwrap :: "'a res \<Rightarrow> 'a res" where
  "unwrap (Inl e) = Inl Panic"
| "unwrap (Inr x) = Inr x"

definition random_fpm_triple_prover ::
  "('e :: comm_ring_1, 'e) field_impl \<Rightarrow> (u128 \<Rightarrow> 'e res) \<Rightarrow> nat \<Rightarrow> nat \<Rightarrow> u128 \<times> u128 \<Rightarrow>
   (('e, 'e) fcom_prover, ('e, 'e) prover_triple) proc" where
  "random_fpm_triple_prover E try_from k f = (\<lambda>(a, b).
     p_bind (p_lift (fpm_draw k f a b)) (\<lambda>(x, y, z).
     p_bind (p_lift (unwrap (try_from x))) (\<lambda>x_val.
     p_bind (p_lift (unwrap (try_from y))) (\<lambda>y_val.
     p_bind (p_lift (unwrap (try_from z))) (\<lambda>z_val.
     p_bind (prover_input1 E x_val) (\<lambda>x_mac.
     p_bind (prover_input1 E y_val) (\<lambda>y_mac.
     p_bind (prover_input1 E z_val) (\<lambda>z_mac.
     p_return (MacProver x_val x_mac, MacProver y_val y_mac, MacProver z_val z_mac)))))))))"

definition random_fpm_triples_prover ::
  "('e :: comm_ring_1, 'e) field_impl \<Rightarrow> (u128 \<Rightarrow> 'e res) \<Rightarrow> nat \<Rightarrow> nat \<Rightarrow> (u128 \<times> u128) list \<Rightarrow>
   (('e, 'e) fcom_prover, ('e, 'e) prover_triple list) proc" where
  "random_fpm_triples_prover E try_from k f draws = p_mapM (random_fpm_triple_prover E try_from k f) draws"

definition random_fpm_triples_verifier ::
  "('e :: comm_ring_1, 'e) field_impl \<Rightarrow> nat \<Rightarrow> ('e fcom_verifier, 'e verifier_triple list) proc" where
  "random_fpm_triples_verifier E num =
     p_mapM (\<lambda>_. p_bind (verifier_input1 E) (\<lambda>x_mac. p_bind (verifier_input1 E) (\<lambda>y_mac.
       p_bind (verifier_input1 E) (\<lambda>z_mac. p_return (x_mac, y_mac, z_mac))))) [0..<num]"

end
