(* ===== verification/Fixed_Point_Correct.thy ===== *)
theory Fixed_Point_Correct
  imports Fixed_Point Conversion_Properties
begin

text \<open>
  Random edaBits of all bits of an element, and the check of fixed-point multiplications, between
  parties that follow the code, with the VOLEs of the estimate.
\<close>

subsection \<open>The bits of an element\<close>

locale fpm_fields = conv_fields K for K :: "('g :: comm_ring_1, 'e :: comm_ring_1) conv_impl" +
  assumes bits_length: "length (bit_decomposition K x) = number_of_bits K"
    and bits_value: "of_nat (horner_sum of_bool 2 (bit_decomposition K x)) = x"
    and bits_small: "j < 2 ^ (number_of_bits K - 1) \<Longrightarrow> bit_decomposition K (of_nat j) = map (bit j) [0..<number_of_bits K]"
    and degree_fe: "degree (impl_fe K) = 1"

lemma bits_nat_of_bool: "bits_nat (map F2_of_bool bs) = horner_sum of_bool 2 bs"
  by (induction bs) (simp_all add: F2_of_bool_def)

lemma horner_sum_bits: "horner_sum of_bool 2 (map (bit (j :: nat)) [a..<b]) = take_bit (b - a) (drop_bit a j)"
proof -
  have "map (bit j) [a..<b] = map (bit (drop_bit a j)) [0..<b - a]"
    by (auto intro!: nth_equalityI simp: bit_drop_bit_eq)
  then show ?thesis by (simp only: horner_sum_bit_eq_take_bit)
qed

lemma two_to_the_power: "two_to_the f = (2 ^ f :: 'e :: comm_ring_1)"
proof -
  have "((\<lambda>res. res * (1 + 1)) ^^ f) x = x * 2 ^ f" for x :: 'e
    by (induction f) (simp_all add: mult.assoc)
  then show ?thesis by (simp add: two_to_the_def)
qed

text \<open>Corresponding parts of one triple.\<close>

definition fpm_tuple_ok :: "nat \<Rightarrow> nat \<Rightarrow> ('e :: comm_ring_1, 'e) prover_triple \<Rightarrow> bool" where
  "fpm_tuple_ok k f = (\<lambda>(x, y, z_h). \<exists>a b. mac_value x = of_nat a \<and> mac_value y = of_nat b \<and>
     a * b < 2 ^ (k + 2 * f) \<and> mac_value z_h = of_nat (a * b div 2 ^ f))"

definition fpm_parts_ok ::
  "('g :: comm_ring_1, 'e :: comm_ring_1) conv_impl \<Rightarrow> 'g \<Rightarrow> 'e \<Rightarrow> nat \<Rightarrow> nat \<Rightarrow>
   ('e, 'e) prover_triple \<times> ('g, 'e) edabits_prover \<times> ('g, 'e) edabits_prover \<times> ('e, 'e) mac_prover \<Rightarrow>
   'e verifier_triple \<times> ('g, 'e) edabits_verifier \<times> ('g, 'e) edabits_verifier \<times> 'e mac_verifier \<Rightarrow> bool" where
  "fpm_parts_ok K d2 de k f = (\<lambda>(t, l, h, z) (t', l', h', z').
     triple_ok (impl_fe K) de t t' \<and> (case t of (x, y, p) \<Rightarrow> mac_value p = mac_value x * mac_value y) \<and>
     edabit_ok K d2 de f l l' \<and> edabit_correct l \<and> edabit_ok K d2 de (k + f) h h' \<and> edabit_correct h \<and>
     mac_ok (impl_fe K) de z z' \<and> mac_value z = 0)"

context fpm_fields
begin

lemma joint_fe_input1:
  "conv_ok K d2 de m (Suc n) s t \<Longrightarrow>
   joint (on_fe (prover_input1 (impl_fe K) x)) (on_fe (verifier_input1 (impl_fe K))) s t
     (\<lambda>a s' b t'. mac_ok (impl_fe K) de (MacProver x a) b \<and> conv_ok K d2 de m n s' t')"
  by (rule joint_on_fe [OF finite_field.joint_input1 [OF fe_field]]) (auto simp: conv_ok_def)

lemma joint_f2_input1:
  "conv_ok K d2 de (Suc m) n s t \<Longrightarrow>
   joint (on_f2 (prover_input1 (impl_f2 K) x)) (on_f2 (verifier_input1 (impl_f2 K))) s t
     (\<lambda>a s' b t'. mac_ok (impl_f2 K) d2 (MacProver x a) b \<and> conv_ok K d2 de m n s' t')"
  by (rule joint_on_f2 [OF finite_field.joint_input1 [OF f2_field]]) (auto simp: conv_ok_def)

lemma joint_fpm_tuple:
  assumes ok: "conv_ok K d2 de (k + 2 * f + m) (Suc n) s t" and size: "k + 2 * f < number_of_bits K"
    and tr: "triple_ok (impl_fe K) de tr tr'" "fpm_tuple_ok k f tr"
  shows "joint (prover_fpm_tuple K k f tr) (verifier_fpm_tuple K k f tr') s t
    (\<lambda>p s' v t'. fpm_parts_ok K d2 de k f p v \<and> conv_ok K d2 de m n s' t')"
proof -
  obtain x y h where t: "tr = (x, y, h)" by (cases tr) auto
  obtain x' y' h' where t': "tr' = (x', y', h')" by (cases tr') auto
  obtain a b where ab: "mac_value x = of_nat a" "mac_value y = of_nat b" "a * b < 2 ^ (k + 2 * f)"
      "mac_value h = of_nat (a * b div 2 ^ f)"
    using tr(2) by (auto simp: fpm_tuple_ok_def t)
  have macs: "mac_ok (impl_fe K) de x x'" "mac_ok (impl_fe K) de y y'" "mac_ok (impl_fe K) de h h'"
    using tr(1) by (simp_all add: triple_ok_def t t')
  let ?E = "impl_fe K" and ?v = "mac_value x * mac_value y"
  let ?bits = "take (k + 2 * f) (bits_of_element K ?v)"
  have "(2 :: nat) ^ (k + 2 * f) \<le> 2 ^ (number_of_bits K - 1)" using size by (intro power_increasing) simp_all
  with ab(3) have "a * b < 2 ^ (number_of_bits K - 1)" by linarith
  from bits_small [OF this] have bits: "?bits = map F2_of_bool (map (bit (a * b)) [0..<k + 2 * f])"
    using size by (simp add: ab(1,2) bits_of_element_def take_map)
  have len: "length ?bits = k + 2 * f" unfolding bits by simp
  have low: "bits_nat (take f ?bits) = a * b mod 2 ^ f"
    unfolding bits take_map bits_nat_of_bool by (simp add: horner_sum_bits take_bit_eq_mod)
  have "a * b div 2 ^ f < 2 ^ (k + f)"
    using ab(3) by (simp add: less_mult_imp_div_less power_add mult_2 mult.assoc [symmetric])
  then have high: "bits_nat (drop f ?bits) = a * b div 2 ^ f"
    unfolding bits drop_map bits_nat_of_bool
    by (simp add: horner_sum_bits drop_bit_eq_div take_bit_eq_mod mult_2)
  show ?thesis
    unfolding t t' prover_fpm_tuple_def verifier_fpm_tuple_def prod.case Let_def
  proof (rule joint_bind [OF joint_fe_input1 [OF ok]], elim conjE)
    fix zm s2 z' t2
    assume z: "mac_ok ?E de (MacProver ?v zm) z'" and ok2: "conv_ok K d2 de (k + 2 * f + m) n s2 t2"
    let ?z = "MacProver ?v zm"
    let ?l = "prover_sub ?z (prover_affine_mult_cst ?E (two_to_the f) h)"
    let ?l' = "verifier_sub z' (verifier_affine_mult_cst ?E (two_to_the f) h')"
    have l: "mac_ok ?E de ?l ?l'"
      by (intro finite_field.mac_ok_sub [OF fe_field] finite_field.mac_ok_affine_mult_cst [OF fe_field] z macs(3))
    have zero: "mac_ok ?E de (prover_sub (prover_sub ?z ?l) (prover_affine_mult_cst ?E (two_to_the f) h))
        (verifier_sub (verifier_sub z' ?l') (verifier_affine_mult_cst ?E (two_to_the f) h'))"
      by (intro finite_field.mac_ok_sub [OF fe_field] finite_field.mac_ok_affine_mult_cst [OF fe_field] z l macs(3))
    have "of_nat (a * b mod 2 ^ f + 2 ^ f * (a * b div 2 ^ f)) = (of_nat (a * b) :: 'e)"
      by (simp only: mod_mult_div_eq)
    then have "of_nat (a * b mod 2 ^ f) + 2 ^ f * of_nat (a * b div 2 ^ f) = (of_nat a * of_nat b :: 'e)"
      by (simp only: of_nat_add of_nat_mult of_nat_power of_nat_numeral)
    then have lval: "mac_value ?l = of_nat (a * b mod 2 ^ f)"
      by (simp add: prover_sub_def prover_affine_mult_cst_def two_to_the_power ab algebra_simps)
    have "conv_ok K d2 de (length ?bits + m) n s2 t2" using ok2 len by simp
    note inp = joint_f2_input [OF this, unfolded len]
    show "joint
       (p_bind (on_f2 (prover_input (impl_f2 K) ?bits)) (\<lambda>z_bits_macs.
        p_return ((x, y, ?z), \<lparr>ep_bits = take f (map2 MacProver ?bits z_bits_macs), ep_value = ?l\<rparr>,
          \<lparr>ep_bits = drop f (map2 MacProver ?bits z_bits_macs), ep_value = h\<rparr>,
          prover_sub (prover_sub ?z ?l) (prover_affine_mult_cst ?E (two_to_the f) h))))
       (p_bind (on_f2 (verifier_input (impl_f2 K) (k + 2 * f))) (\<lambda>z_bits.
        p_return ((x', y', z'), \<lparr>ev_bits = take f z_bits, ev_value = ?l'\<rparr>, \<lparr>ev_bits = drop f z_bits, ev_value = h'\<rparr>,
          verifier_sub (verifier_sub z' ?l') (verifier_affine_mult_cst ?E (two_to_the f) h')))) s2 t2
       (\<lambda>p s' v t'. fpm_parts_ok K d2 de k f p v \<and> conv_ok K d2 de m n s' t')"
    proof (rule joint_bind [OF inp], elim conjE, intro joint_return conjI)
      fix ms :: "'g list" and s3 ks t3
      assume ms: "length ms = k + 2 * f" "list_all2 (mac_ok (impl_f2 K) d2) (map2 MacProver ?bits ms) ks"
        and ok3: "conv_ok K d2 de m n s3 t3"
      let ?ps = "map2 MacProver ?bits ms"
      have vals: "map mac_value ?ps = ?bits" using ms(1) len by (auto intro: nth_equalityI)
      have lps: "length ?ps = k + 2 * f" using ms(1) len by simp
      show "conv_ok K d2 de m n s3 t3" by (rule ok3)
      have "edabit_ok K d2 de f \<lparr>ep_bits = take f ?ps, ep_value = ?l\<rparr> \<lparr>ev_bits = take f ks, ev_value = ?l'\<rparr>"
        "edabit_ok K d2 de (k + f) \<lparr>ep_bits = drop f ?ps, ep_value = h\<rparr> \<lparr>ev_bits = drop f ks, ev_value = h'\<rparr>"
        using l macs(3) lps list_all2_takeI [OF ms(2), of f] list_all2_dropI [OF ms(2), of f]
        by (simp_all add: edabit_ok_def)
      moreover have "edabit_correct \<lparr>ep_bits = take f ?ps, ep_value = ?l\<rparr>"
        "edabit_correct \<lparr>ep_bits = drop f ?ps, ep_value = h\<rparr>"
        using lval ab(4) by (simp_all only: edabit_correct_def edabit_number_def edabits_prover.simps
            take_map [symmetric] drop_map [symmetric] vals low high)
      moreover have "triple_ok ?E de (x, y, ?z) (x', y', z')" using macs z by (simp add: triple_ok_def)
      moreover have "mac_value (prover_sub (prover_sub ?z ?l) (prover_affine_mult_cst ?E (two_to_the f) h)) = 0"
        by (simp add: prover_sub_def prover_affine_mult_cst_def)
      ultimately show "fpm_parts_ok K d2 de k f
          ((x, y, ?z), \<lparr>ep_bits = take f ?ps, ep_value = ?l\<rparr>, \<lparr>ep_bits = drop f ?ps, ep_value = h\<rparr>,
            prover_sub (prover_sub ?z ?l) (prover_affine_mult_cst ?E (two_to_the f) h))
          ((x', y', z'), \<lparr>ev_bits = take f ks, ev_value = ?l'\<rparr>, \<lparr>ev_bits = drop f ks, ev_value = h'\<rparr>,
            verifier_sub (verifier_sub z' ?l') (verifier_affine_mult_cst ?E (two_to_the f) h'))"
        using zero unfolding fpm_parts_ok_def prod.case by simp
    qed
  qed
qed

text \<open>All bits of random elements.\<close>

lemma joint_random_edabits_b2a:
  assumes ok: "conv_ok K d2 de (length xs * number_of_bits K + m) (length xs + n) s t"
  shows "joint (prover_random_edabits_b2a K xs) (verifier_random_edabits_b2a K (number_of_bits K) (length xs)) s t
    (\<lambda>rs s' ks t'. list_all2 (edabit_ok K d2 de (number_of_bits K)) rs ks \<and> (\<forall>r \<in> set rs. edabit_correct r) \<and>
       map (\<lambda>r. mac_value (ep_value r)) rs = xs \<and> conv_ok K d2 de m n s' t')"
proof -
  let ?b = "number_of_bits K"
  have bits: "length (bits_of_element K x) = ?b" "convert_bits_to_field (bits_of_element K x) = x"
      "of_nat (bits_nat (bits_of_element K x)) = x" for x
    using bits_value [of x] by (simp_all add: bits_of_element_def bits_length bits_nat_of_bool convert_bits_nat)
  let ?macs = "\<lambda>x ps ks. map mac_value ps = bits_of_element K x \<and> list_all2 (mac_ok (impl_f2 K) d2) ps ks"
  have one: "joint (let bits = bits_of_element K x in
        p_bind (p_require Assertion (x = convert_bits_to_field bits)) (\<lambda>_.
        p_mapM (\<lambda>bit. p_bind (on_f2 (prover_input1 (impl_f2 K) bit)) (\<lambda>bit_mac. p_return (MacProver bit bit_mac))) bits))
      (p_mapM (\<lambda>_. on_f2 (verifier_input1 (impl_f2 K))) [0..<?b]) s t
      (\<lambda>ps s' ks t'. ?macs x ps ks \<and> conv_ok K d2 de j n s' t')"
    if ok: "conv_ok K d2 de (?b + j) n s t" for x s t j
    unfolding Let_def
  proof (rule joint_left [OF runs_require], simp add: bits)
    have "joint (p_mapM (\<lambda>bit. p_bind (on_f2 (prover_input1 (impl_f2 K) bit)) (\<lambda>bit_mac. p_return (MacProver bit bit_mac))) (bits_of_element K x))
        (p_mapM (\<lambda>_. on_f2 (verifier_input1 (impl_f2 K))) [0..<?b]) s t
        (\<lambda>ps s' ks t'. length ps = length (bits_of_element K x) \<and> length ks = length (bits_of_element K x) \<and>
          (\<forall>i < length (bits_of_element K x). mac_value (ps ! i) = bits_of_element K x ! i \<and> mac_ok (impl_f2 K) d2 (ps ! i) (ks ! i)) \<and>
          conv_ok K d2 de j n s' t')"
    proof (rule joint_mapM_supply [where A = "\<lambda>_ _. True" and I = "\<lambda>i. conv_ok K d2 de i n"
        and B = "\<lambda>x _ p k. mac_value p = x \<and> mac_ok (impl_f2 K) d2 p k"])
      fix i y and z :: nat and s t assume "conv_ok K d2 de (Suc i) n s t"
      from joint_f2_input1 [OF this]
      show "joint (p_bind (on_f2 (prover_input1 (impl_f2 K) y)) (\<lambda>bit_mac. p_return (MacProver y bit_mac)))
          (on_f2 (verifier_input1 (impl_f2 K))) s t
          (\<lambda>p s' k t'. (mac_value p = y \<and> mac_ok (impl_f2 K) d2 p k) \<and> conv_ok K d2 de i n s' t')"
        by (rule joint_map_left) simp
    qed (use ok bits in \<open>simp_all add: list_all2_conv_all_nth\<close>)
    then show "joint (p_mapM (\<lambda>bit. p_bind (on_f2 (prover_input1 (impl_f2 K) bit)) (\<lambda>bit_mac. p_return (MacProver bit bit_mac))) (bits_of_element K x))
        (p_mapM (\<lambda>_. on_f2 (verifier_input1 (impl_f2 K))) [0..<?b]) s t (\<lambda>ps s' ks t'. ?macs x ps ks \<and> conv_ok K d2 de j n s' t')"
      by (rule joint_mono) (auto simp: list_all2_conv_all_nth intro!: nth_equalityI)
  qed
  show ?thesis
    unfolding prover_random_edabits_b2a_def verifier_random_edabits_b2a_def
  proof (rule joint_bind [OF joint_fe_input [OF ok]], elim conjE, rule joint_bind [OF joint_mapM_supplies
        [where A = "\<lambda>_ _. True" and c = ?b and I = "\<lambda>i. conv_ok K d2 de i n" and n = m and B = "\<lambda>x _. ?macs x"]])
    fix ms :: "'e list" and s2 ls t2
    assume ok2: "conv_ok K d2 de (length xs * ?b + m) n s2 t2"
    show "conv_ok K d2 de (length xs * ?b + m) n s2 t2" by (rule ok2)
    show "list_all2 (\<lambda>_ _. True) xs [0..<length xs]" by (simp add: list_all2_conv_all_nth)
  next
    fix ms :: "'e list" and s2 ls t2 ps s3 ks t3
    assume ms: "length ms = length xs" "list_all2 (mac_ok (impl_fe K) de) (map2 MacProver xs ms) ls"
      and "length ps = length xs \<and> length ks = length xs \<and> (\<forall>i < length xs. ?macs (xs ! i) (ps ! i) (ks ! i)) \<and> conv_ok K d2 de m n s3 t3"
    then have ps: "length ps = length xs" "length ks = length xs" "\<And>i. i < length xs \<Longrightarrow> ?macs (xs ! i) (ps ! i) (ks ! i)"
      and ok3: "conv_ok K d2 de m n s3 t3" by blast+
    let ?rs = "map (\<lambda>(bits, r_m, mac). \<lparr>ep_bits = bits, ep_value = MacProver r_m mac\<rparr>) (zip ps (zip xs ms))"
    have "length (ps ! i) = ?b" if "i < length xs" for i
      using ps(3) [OF that] bits(1) by (metis length_map)
    then have "list_all2 (edabit_ok K d2 de ?b) ?rs (map (\<lambda>(bits, mac). \<lparr>ev_bits = bits, ev_value = mac\<rparr>) (zip ks ls))"
      using ms ps by (auto simp: list_all2_conv_all_nth edabit_ok_def)
    moreover have "\<forall>r \<in> set ?rs. edabit_correct r"
      using ms(1) ps bits(3) by (auto simp: set_zip edabit_correct_def edabit_number_def)
    moreover have "map (\<lambda>r. mac_value (ep_value r)) ?rs = xs"
      using ms(1) ps(1) by (auto intro: nth_equalityI)
    ultimately show "joint (p_return ?rs) (p_return (map (\<lambda>(bits, mac). \<lparr>ev_bits = bits, ev_value = mac\<rparr>) (zip ks ls))) s3 t3
        (\<lambda>rs s' ks t'. list_all2 (edabit_ok K d2 de ?b) rs ks \<and> (\<forall>r \<in> set rs. edabit_correct r) \<and>
          map (\<lambda>r. mac_value (ep_value r)) rs = xs \<and> conv_ok K d2 de m n s' t')"
      using ok3 by (intro joint_return) blast
  qed (use one in blast)
qed

lemma joint_verify_fp_mult:
  assumes voles: "fpm_estimate_voles K (length ts) k f = Inr (v2, ve)"
    and ok: "conv_ok K d2 de (v2 + m) (ve + n) s t"
    and size: "1024 \<le> length ts" "5 * length ts + 1 < 2 ^ h" "h \<le> 64" "2 * h < number_of_bits K"
    and bits: "k + 2 * f < number_of_bits K"
    and ts: "list_all2 (triple_ok (impl_fe K) de) ts ts'" "\<forall>t \<in> set ts. fpm_tuple_ok k f t"
    and coins: "coins_ok (low_coins coins)" "coins_ok (high_coins coins)" "length (zero_seed coins) = 16"
  shows "joint (prover_verify_fp_mult K draws_low draws_high ts k f) (verifier_verify_fp_mult K coins ts' k f) s t
    (\<lambda>_ s' _ t'. True \<and> conv_ok K d2 de m n s' t')"
proof -
  let ?N = "length ts" and ?b = "k + 2 * f"
  obtain a2 ae b2 be where est: "estimate_voles_impl K ?N (k + f) = Inr (a2, ae)" "estimate_voles_impl K ?N f = Inr (b2, be)"
      and v: "v2 = a2 + b2 + ?N * ?b" "ve = ae + be + ?N + 1"
    using voles by (auto simp: fpm_estimate_voles_def res_bind_Inr_iff)
  have len: "length ts' = ?N" using ts(1) by (simp add: list_all2_lengthD)
  have ne: "ts \<noteq> []" "ts' \<noteq> []" using size(1) len by auto
  have "v2 + m = (?N * 1 + 0) * ?b + (b2 + (a2 + m))" "ve + n = (?N * 1 + 0) + (degree (impl_fe K) + (be + (ae + n)))"
    by (simp_all add: v degree_fe)
  with ok have ok1: "conv_ok K d2 de ((?N * 1 + 0) * ?b + (b2 + (a2 + m))) ((?N * 1 + 0) + (degree (impl_fe K) + (be + (ae + n)))) s t"
    by simp
  have loop: "joint (p_mapM (prover_fpm_tuple K k f) ts) (p_mapM (verifier_fpm_tuple K k f) ts') s t
      (\<lambda>ps s' vs t'. length ps = ?N \<and> length vs = ?N \<and> (\<forall>i < ?N. fpm_parts_ok K d2 de k f (ps ! i) (vs ! i)) \<and>
        conv_ok K d2 de (0 * ?b + (b2 + (a2 + m))) (0 + (degree (impl_fe K) + (be + (ae + n)))) s' t')"
  proof (rule joint_mapM_supplies [where A = "\<lambda>t t'. triple_ok (impl_fe K) de t t' \<and> fpm_tuple_ok k f t" and c = 1
        and I = "\<lambda>j. conv_ok K d2 de (j * ?b + (b2 + (a2 + m))) (j + (degree (impl_fe K) + (be + (ae + n))))"
        and B = "\<lambda>_ _. fpm_parts_ok K d2 de k f", OF _ ok1])
    show "list_all2 (\<lambda>t t'. triple_ok (impl_fe K) de t t' \<and> fpm_tuple_ok k f t) ts ts'"
      using ts by (auto simp: list_all2_conv_all_nth)
    fix j x y s t
    assume xy: "triple_ok (impl_fe K) de x y \<and> fpm_tuple_ok k f x"
      and "conv_ok K d2 de ((1 + j) * ?b + (b2 + (a2 + m))) (1 + j + (degree (impl_fe K) + (be + (ae + n)))) s t"
    then have "conv_ok K d2 de (k + 2 * f + (j * ?b + (b2 + (a2 + m)))) (Suc (j + (degree (impl_fe K) + (be + (ae + n))))) s t"
      by (simp add: add.assoc)
    from joint_fpm_tuple [OF this bits conjunct1 [OF xy] conjunct2 [OF xy]]
    show "joint (prover_fpm_tuple K k f x) (verifier_fpm_tuple K k f y) s t (\<lambda>p s' v t'. fpm_parts_ok K d2 de k f p v \<and>
        conv_ok K d2 de (j * ?b + (b2 + (a2 + m))) (j + (degree (impl_fe K) + (be + (ae + n)))) s' t')" .
  qed
  show ?thesis
    unfolding prover_verify_fp_mult_def verifier_verify_fp_mult_def len if_not_P [OF ne(1)] if_not_P [OF ne(2)]
  proof (rule joint_left [OF runs_require [OF size(1)]], rule joint_right [OF runs_require [OF size(1)]],
      rule joint_bind [OF loop], elim conjE, rule joint_left [OF runs_flush])
    fix ps s2 vs t2
    assume lens: "length ps = ?N" "length vs = ?N" and parts: "\<forall>i < ?N. fpm_parts_ok K d2 de k f (ps ! i) (vs ! i)"
      and ok2: "conv_ok K d2 de (0 * ?b + (b2 + (a2 + m))) (0 + (degree (impl_fe K) + (be + (ae + n)))) s2 t2"
    let ?t = "\<lambda>(t, l, h, z). t" and ?l = "\<lambda>(t, l, h, z). l" and ?h = "\<lambda>(t, l, h, z). h" and ?z = "\<lambda>(t, l, h, z). z"
    have all: "list_all2 (fpm_parts_ok K d2 de k f) ps vs" using parts lens by (simp add: list_all2_conv_all_nth)
    have triples: "list_all2 (triple_ok (impl_fe K) de) (map ?t ps) (map ?t vs)"
      and lows: "list_all2 (edabit_ok K d2 de f) (map ?l ps) (map ?l vs)"
      and highs: "list_all2 (edabit_ok K d2 de (k + f)) (map ?h ps) (map ?h vs)"
      and zeros: "list_all2 (mac_ok (impl_fe K) de) (map ?z ps) (map ?z vs)"
      using all unfolding list.rel_map by (auto elim!: list_all2_mono simp: fpm_parts_ok_def)
    have fst_ok: "\<exists>q. fpm_parts_ok K d2 de k f p q" if "p \<in> set ps" for p
      using parts lens that by (metis in_set_conv_nth)
    have products: "\<forall>(x, y, z) \<in> set (map ?t ps). mac_value z = mac_value x * mac_value y"
      and low: "\<forall>e \<in> set (map ?l ps). edabit_correct e" and high: "\<forall>e \<in> set (map ?h ps). edabit_correct e"
      and zero: "\<forall>p \<in> set (map ?z ps). mac_value p = 0"
      using fst_ok by (fastforce simp: fpm_parts_ok_def)+
    have len': "length (map ?l ps) = ?N" "length (map ?h ps) = ?N" using lens by simp_all
    have ok2': "conv_ok K d2 de (b2 + (a2 + m)) (degree (impl_fe K) + (be + (ae + n))) s2 t2" using ok2 by simp
    note convert = joint_verify_conversions [OF conv_fields_axioms]
    show "joint
        (p_bind (on_fe (prover_check_multiply (impl_fe K) (map ?t ps))) (\<lambda>_.
         p_bind (prover_verify_conversions K draws_low (map ?l ps)) (\<lambda>_.
         p_bind (prover_verify_conversions K draws_high (map ?h ps)) (\<lambda>_.
         on_fe (prover_check_zero (impl_fe K) (map ?z ps))))))
        (p_bind (on_fe (verifier_check_multiply (impl_fe K) (fpm_chi coins) (map ?t vs))) (\<lambda>_.
         p_bind (verifier_verify_conversions K (low_coins coins) (map ?l vs)) (\<lambda>_.
         p_bind (verifier_verify_conversions K (high_coins coins) (map ?h vs)) (\<lambda>_.
         on_fe (verifier_check_zero (impl_fe K) (zero_seed coins) (map ?z vs)))))) s2 t2
        (\<lambda>_ s' _ t'. True \<and> conv_ok K d2 de m n s' t')"
    proof (rule joint_bind [OF joint_fe_check_multiply [OF ok2' triples products]], elim conjE)
      fix s3 t3 assume ok3: "conv_ok K d2 de (b2 + (a2 + m)) (be + (ae + n)) s3 t3"
      note l = convert [where es = "map ?l ps" and es' = "map ?l vs" and h = h, unfolded len'(1), OF est(2) ok3 size lows low coins(1)]
      note h = convert [where es = "map ?h ps" and es' = "map ?h vs" and h = h, unfolded len'(2), OF est(1) _ size highs high coins(2)]
      show "joint
          (p_bind (prover_verify_conversions K draws_low (map ?l ps)) (\<lambda>_.
           p_bind (prover_verify_conversions K draws_high (map ?h ps)) (\<lambda>_.
           on_fe (prover_check_zero (impl_fe K) (map ?z ps)))))
          (p_bind (verifier_verify_conversions K (low_coins coins) (map ?l vs)) (\<lambda>_.
           p_bind (verifier_verify_conversions K (high_coins coins) (map ?h vs)) (\<lambda>_.
           on_fe (verifier_check_zero (impl_fe K) (zero_seed coins) (map ?z vs))))) s3 t3
          (\<lambda>_ s' _ t'. True \<and> conv_ok K d2 de m n s' t')"
        by (rule joint_bind [OF l], rule joint_bind, erule h, erule joint_fe_check_zero [OF zeros coins(3) zero])
    qed
  qed
qed

end

end
