(* ===== verification/Fixed_Point_Properties.thy ===== *)
theory Fixed_Point_Properties
  imports Fixed_Point_Correct
begin

text \<open>
  The properties of the fixed-point multiplications, with witnesses over F2 and F61p.
\<close>

subsection \<open>The fields of the code\<close>

lemma f61_bits: "f61_bit_decomposition x = map (bit (unat (Rep_F61p x))) [0..<61]"
proof -
  have "(u128_from_f61 x AND push_bit i 1 \<noteq> 0) = bit (unat (Rep_F61p x)) i" if "i < 61" for i
  proof -
    have "bit (u128_from_f61 x) i = bit (Rep_F61p x) i"
      using that by (simp add: u128_from_f61_def bit_unsigned_iff)
    also have "\<dots> = bit (unat (Rep_F61p x)) i"
      using that bit_unsigned_iff [where 'a = nat, of "Rep_F61p x" i] by simp
    finally show ?thesis using that by (simp add: test_bit_and del: push_bit_of_1)
  qed
  then show ?thesis by (simp add: f61_bit_decomposition_def)
qed

lemma unat_Rep_F61p_less: "unat (Rep_F61p x) < p61"
  using val61_range(2) [of x] unfolding val61_def by (simp only: of_nat_less_iff)

lemma of_nat_Rep_F61p: "of_nat (unat (Rep_F61p x)) = x"
proof -
  have "unat (Rep_F61p (of_nat (unat (Rep_F61p x)))) = unat (Rep_F61p x)"
    by (simp only: Rep_F61p_of_nat) (simp add: unat_Rep_F61p_less)
  then show ?thesis by (simp only: val61_inject [symmetric] val61_def)
qed

lemma F61p_fpm_fields:
  assumes "finite_field G"
  shows "fpm_fields (F61p_conv G rnd hash bits g)"
proof (rule fpm_fields.intro [OF F61p_conv_fields [OF assms]], rule fpm_fields_axioms.intro)
  let ?K = "F61p_conv G rnd hash bits g"
  show "length (bit_decomposition ?K x) = number_of_bits ?K" for x
    by (simp add: F61p_conv_def f61_bits)
  show "of_nat (horner_sum of_bool 2 (bit_decomposition ?K x)) = x" for x
  proof -
    have "unat (Rep_F61p x) < 2 ^ 61" using unat_Rep_F61p_less [of x] by (simp add: p61_def)
    then have "take_bit 61 (unat (Rep_F61p x)) = unat (Rep_F61p x)" by (simp add: take_bit_nat_eq_self)
    then show ?thesis
      unfolding F61p_conv_def conv_impl.simps f61_bits horner_sum_bit_eq_take_bit by (simp only: of_nat_Rep_F61p)
  qed
  show "bit_decomposition ?K (of_nat j) = map (bit j) [0..<number_of_bits ?K]" if "j < 2 ^ (number_of_bits ?K - 1)" for j
  proof -
    have "unat (Rep_F61p (of_nat j)) = j" using that by (simp add: F61p_conv_def Rep_F61p_of_nat p61_def)
    then show ?thesis unfolding F61p_conv_def conv_impl.simps f61_bits by simp
  qed
  show "degree (impl_fe ?K) = 1" by (simp add: F61p_conv_def F61p_impl_def)
qed

interpretation fpm_f2_f61: fpm_fields "F61p_conv (F2_impl rnd2 hash2) rnd hash bits g" for rnd2 hash2 rnd hash bits g
  by (rule F61p_fpm_fields [OF f2_field.finite_field_axioms])

subsection \<open>Properties\<close>

text \<open>
  C39. The check of fixed-point multiplications is complete and its estimate of the VOLEs suffices:
  on at least 1024 triples of consistent commitments to numbers \<open>a\<close>, \<open>b\<close> and the truncated product
  \<open>a * b div 2 ^ f\<close>, with products below \<open>2 ^ (k + 2 * f)\<close>, two parties that follow the code
  finish \<open>verify_fp_mult\<close> for all draws and coins.
\<close>

theorem verify_fp_mult_complete:
  assumes "fpm_fields K" and "fpm_estimate_voles K (length ts) k f = Inr (v2, ve)"
    and "conv_ok K d2 de (v2 + m) (ve + n) s t"
    and "1024 \<le> length ts" and "5 * length ts + 1 < 2 ^ h" and "h \<le> 64" and "2 * h < number_of_bits K"
    and "k + 2 * f < number_of_bits K"
    and "list_all2 (triple_ok (impl_fe K) de) ts ts'" and "\<forall>t \<in> set ts. fpm_tuple_ok k f t"
    and "coins_ok (low_coins coins)" and "coins_ok (high_coins coins)" and "length (zero_seed coins) = 16"
  shows "joint (prover_verify_fp_mult K draws_low draws_high ts k f) (verifier_verify_fp_mult K coins ts' k f) s t
    (\<lambda>_ s' _ t'. conv_ok K d2 de m n s' t')"
  by (rule joint_mono [OF fpm_fields.joint_verify_fp_mult [OF assms]]) simp

definition demo_tuple :: "(F61p, F61p) prover_triple" where
  "demo_tuple = (MacProver 3 3, MacProver 2 2, MacProver 3 3)"

definition zero_keys :: "F61p verifier_triple" where
  "zero_keys = (MacVerifier 0, MacVerifier 0, MacVerifier 0)"

definition zero_fpm_coins :: "(F2, F61p) fpm_coins" where
  "zero_fpm_coins = \<lparr>fpm_chi = 1, low_coins = zero_coins, high_coins = zero_coins, zero_seed = replicate 16 0\<rparr>"

lemma demo_tuple_ok: "triple_ok (impl_fe demo_conv) 1 demo_tuple zero_keys" "fpm_tuple_ok 1 1 demo_tuple"
proof -
  show "triple_ok (impl_fe demo_conv) 1 demo_tuple zero_keys"
    by (simp add: triple_ok_def demo_tuple_def zero_keys_def mac_ok_def F61p_conv_def F61p_impl_def)
  have "mac_value (fst demo_tuple) = of_nat 3 \<and> mac_value (fst (snd demo_tuple)) = of_nat 2 \<and>
      (3 :: nat) * 2 < 2 ^ (1 + 2 * 1) \<and> mac_value (snd (snd demo_tuple)) = of_nat (3 * 2 div 2 ^ 1)"
    by (simp add: demo_tuple_def)
  then show "fpm_tuple_ok 1 1 demo_tuple" unfolding fpm_tuple_ok_def case_prod_unfold by blast
qed

lemma demo_fpm_estimate: "fpm_estimate_voles demo_conv 1024 1 1 = Inr (54373, 23493)"
proof -
  have "leading_zeros (5120 + 1) = 51" by (simp add: leading_zeros_def bit_length_5121)
  moreover have "select_best_cut_and_choose_parameters 1024 = Inr (5, 5)"
    by (simp add: select_best_cut_and_choose_parameters_def require_def Let_def)
  ultimately have "estimate_voles_impl demo_conv 1024 2 = Inr (30773, 11234)"
    by (simp add: estimate_voles_impl_def Let_def FDABIT_SECURITY_PARAMETER_def demo_degree)
  then have "estimate_voles_impl demo_conv 1024 (1 + 1) = Inr (30773, 11234)" by (simp only: one_add_one)
  then show ?thesis unfolding fpm_estimate_voles_def demo_estimate by simp
qed

theorem verify_fp_mult_complete_witness:
  "joint (prover_verify_fp_mult demo_conv (\<lambda>k i. 1) (\<lambda>k i. 1) (replicate 1024 demo_tuple) 1 1)
     (verifier_verify_fp_mult demo_conv zero_fpm_coins (replicate 1024 zero_keys) 1 1)
     (idle_conv_prover 60000) (idle_conv_verifier 60000) (\<lambda>_ s' _ t'. conv_ok demo_conv 1 1 0 0 s' t')"
proof -
  have ok: "conv_ok demo_conv 1 1 (54373 + 0) (23493 + 0) (idle_conv_prover 60000) (idle_conv_verifier 60000)"
    by (rule idle_conv_ok) simp_all
  have ts: "list_all2 (triple_ok (impl_fe demo_conv) 1) (replicate 1024 demo_tuple) (replicate 1024 zero_keys)"
    by (rule list_all2_replicate) (rule demo_tuple_ok)
  have vals: "\<forall>t \<in> set (replicate 1024 demo_tuple). fpm_tuple_ok 1 1 t"
    by (rule all_replicate) (rule demo_tuple_ok)
  have bits: "1 + 2 * 1 < number_of_bits demo_conv" by (simp add: F61p_conv_def)
  have coins: "coins_ok (low_coins zero_fpm_coins)" "coins_ok (high_coins zero_fpm_coins)" "length (zero_seed zero_fpm_coins) = 16"
    using zero_coins_ok by (simp_all add: zero_fpm_coins_def)
  show ?thesis
    by (rule verify_fp_mult_complete [OF F61p_fpm_fields [OF f2_field.finite_field_axioms], where ts = "replicate 1024 demo_tuple",
          unfolded length_replicate, OF demo_fpm_estimate ok demo_size(2,1,3,4) bits ts vals coins])
qed

subsection \<open>Random triples\<close>

lemma fpm_draw_correct:
  assumes "0 < k div 2 + f" and "k + 2 * f < 128"
  obtains x y z where "fpm_draw k f a b = Inr (x, y, z)" "unat x * unat y < 2 ^ (k + 2 * f)"
    "unat z = unat x * unat y div 2 ^ f" "unat x < 2 ^ (k + 2 * f)" "unat y < 2 ^ (k + 2 * f)" "unat z < 2 ^ (k + 2 * f)"
proof -
  let ?w = "k div 2 + f"
  have w: "0 < ?w" "?w + ?w \<le> k + 2 * f" "?w < 128" "f < 128" using assms by auto
  define bound :: u128 where "bound = push_bit ?w 1 - 1"
  have "(2 :: nat) ^ ?w < 2 ^ 128" using w(3) by (intro power_strict_increasing) simp_all
  then have "unat (of_nat (2 ^ ?w) :: u128) = 2 ^ ?w" by (intro unat_of_nat_small) simp
  then have "unat (push_bit ?w 1 :: u128) = 2 ^ ?w" by (simp add: push_bit_eq_mult)
  moreover have "(1 :: u128) \<le> push_bit ?w 1" unfolding word_le_nat_alt calculation by simp
  ultimately have bound: "unat bound = 2 ^ ?w - 1" by (simp add: bound_def unat_sub)
  have "(1 :: nat) < 2 ^ ?w" using w(1) by (simp only: one_less_power)
  with bound have pos: "0 < unat bound" "bound \<noteq> 0" by auto
  have less: "unat (a mod bound) < 2 ^ ?w" for a
    using mod_less_divisor [OF pos(1), of "unat a"] bound by (simp add: unat_mod_distrib)
  let ?x = "a mod bound" and ?y = "b mod bound"
  have "unat ?x * unat ?y < 2 ^ ?w * 2 ^ ?w" by (intro mult_strict_mono less) simp_all
  also have "\<dots> \<le> 2 ^ (k + 2 * f)" unfolding power_add [symmetric] using w by (intro power_increasing) simp_all
  finally have product: "unat ?x * unat ?y < 2 ^ (k + 2 * f)" .
  have "(2 :: nat) ^ (k + 2 * f) < 2 ^ 128" using assms(2) by (intro power_strict_increasing) simp_all
  with product have fits: "unat ?x * unat ?y < 2 ^ 128" by (rule less_trans)
  then have up: "unat (?x * ?y) = unat ?x * unat ?y" by (simp add: unat_mult_lem [THEN iffD1])
  have "(2 :: nat) ^ ?w \<le> 2 ^ (k + 2 * f)" using w by (intro power_increasing) simp_all
  with less have single: "unat (a mod bound) < 2 ^ (k + 2 * f)" for a by (rule less_le_trans)
  have z: "unat (drop_bit f (?x * ?y)) = unat ?x * unat ?y div 2 ^ f"
    unfolding unat_drop_bit_eq up by (simp only: drop_bit_eq_div)
  then have "unat (drop_bit f (?x * ?y)) \<le> unat ?x * unat ?y" by simp
  from this product have "unat (drop_bit f (?x * ?y)) < 2 ^ (k + 2 * f)" by (rule le_less_trans)
  moreover have "fpm_draw k f a b = Inr (?x, ?y, drop_bit f (?x * ?y))"
    using w pos fits unfolding fpm_draw_def bound_def [symmetric]
    by (simp add: require_def Let_def checked_mul_def)
  ultimately show ?thesis using that product z single by blast
qed

text \<open>
  C40. Random triples are triples that the check accepts: for \<open>k + 2 * f\<close> below the width of
  \<open>u128\<close>, and not both zero bits, the two generators finish without panic or overflow, for all
  draws, with consistent commitments to \<open>a\<close>, \<open>b\<close> and \<open>a * b div 2 ^ f\<close>, where
  \<open>a * b < 2 ^ (k + 2 * f)\<close>. The conversion of \<open>u128\<close> to the field is that of numbers that fit.
\<close>

theorem random_fpm_triples_correct:
  assumes "finite_field E" and "fcom_ok E d (length draws * 3 + n) s t"
    and "0 < k div 2 + f" and "k + 2 * f < 128"
    and "\<And>x. unat x < 2 ^ (k + 2 * f) \<Longrightarrow> try_from x = Inr (of_nat (unat x))"
  shows "joint (random_fpm_triples_prover E try_from k f draws) (random_fpm_triples_verifier E (length draws)) s t
    (\<lambda>ts s' ts' t'. list_all2 (triple_ok E d) ts ts' \<and> length ts = length draws \<and> (\<forall>t \<in> set ts. fpm_tuple_ok k f t) \<and>
       fcom_ok E d n s' t')"
proof -
  have one: "joint (random_fpm_triple_prover E try_from k f draw)
      (p_bind (verifier_input1 E) (\<lambda>x_mac. p_bind (verifier_input1 E) (\<lambda>y_mac.
       p_bind (verifier_input1 E) (\<lambda>z_mac. p_return (x_mac, y_mac, z_mac))))) s t
      (\<lambda>p s' v t'. (triple_ok E d p v \<and> fpm_tuple_ok k f p) \<and> fcom_ok E d j s' t')"
    if ok: "fcom_ok E d (3 + j) s t" for draw j s t
  proof -
    obtain a b where draw: "draw = (a, b)" by (cases draw) auto
    obtain x y z where xyz: "fpm_draw k f a b = Inr (x, y, z)" "unat x * unat y < 2 ^ (k + 2 * f)"
        "unat z = unat x * unat y div 2 ^ f" "unat x < 2 ^ (k + 2 * f)" "unat y < 2 ^ (k + 2 * f)" "unat z < 2 ^ (k + 2 * f)"
      by (rule fpm_draw_correct [OF assms(3,4)])
    have vals: "fpm_tuple_ok k f (MacProver (of_nat (unat x)) xm, MacProver (of_nat (unat y)) ym, MacProver (of_nat (unat z)) zm)"
      for xm ym zm
      unfolding fpm_tuple_ok_def prod.case mac_prover.sel using xyz(2,3) by metis
    have ok3: "fcom_ok E d (Suc (Suc (Suc j))) s t" using ok by (simp add: numeral_3_eq_3)
    note input1 = finite_field.joint_input1 [OF assms(1)]
    show ?thesis
      unfolding random_fpm_triple_prover_def draw prod.case xyz(1) assms(5) [OF xyz(4)] assms(5) [OF xyz(5)] assms(5) [OF xyz(6)] unwrap.simps
      by (rule joint_left [OF runs_lift], unfold prod.case assms(5) [OF xyz(4)] unwrap.simps, rule joint_left [OF runs_lift],
          unfold assms(5) [OF xyz(5)] unwrap.simps, rule joint_left [OF runs_lift],
          unfold assms(5) [OF xyz(6)] unwrap.simps, rule joint_left [OF runs_lift],
          rule joint_bind [OF input1 [OF ok3]], elim conjE, rule joint_bind, erule input1, elim conjE, rule joint_bind, erule input1,
          elim conjE, rule joint_return) (unfold triple_ok_def prod.case, blast intro: vals)
  qed
  have "joint (random_fpm_triples_prover E try_from k f draws) (random_fpm_triples_verifier E (length draws)) s t
    (\<lambda>ts s' ts' t'. length ts = length draws \<and> length ts' = length draws \<and>
      (\<forall>i < length draws. triple_ok E d (ts ! i) (ts' ! i) \<and> fpm_tuple_ok k f (ts ! i)) \<and> fcom_ok E d n s' t')"
    unfolding random_fpm_triples_prover_def random_fpm_triples_verifier_def
    by (rule joint_mapM_supplies [where A = "\<lambda>_ _. True" and c = 3 and I = "fcom_ok E d" and n = n
          and B = "\<lambda>_ _ p v. triple_ok E d p v \<and> fpm_tuple_ok k f p"])
      (use assms(2) one in \<open>auto simp: list_all2_conv_all_nth\<close>)
  then show ?thesis
    by (rule joint_mono) (auto simp: list_all2_conv_all_nth all_set_conv_all_nth)
qed

theorem random_fpm_triples_correct_witness:
  "joint (random_fpm_triples_prover (F61p_impl (\<lambda>seed i. 1) (\<lambda>bs. bs)) f61_try_from 8 4 [(5, 7), (- 1, 0)])
     (random_fpm_triples_verifier (F61p_impl (\<lambda>seed i. 1) (\<lambda>bs. bs)) 2) (idle_prover 6) (idle_verifier 6 1)
     (\<lambda>ts s' ts' t'. length ts = 2)"
proof -
  let ?E = "F61p_impl (\<lambda>seed i. 1) (\<lambda>bs. bs)"
  have ok: "fcom_ok ?E 1 (length [(5 :: u128, 7 :: u128), (- 1, 0)] * 3 + 0) (idle_prover 6) (idle_verifier 6 1)"
    by (rule idle_ok [OF f61_field.finite_field_axioms]) simp
  have conv61: "f61_try_from x = Inr (of_nat (unat x))" if "unat x < 2 ^ (8 + 2 * 4)" for x
  proof -
    have small: "unat x < p61" using that by (simp add: p61_def)
    have "unat (ucast x :: u64) = unat x mod 2 ^ 64" using unat_of_nat [of "unat x", where 'a = 64] by simp
    also have "\<dots> = unat x" using small by (simp add: p61_def)
    finally have low: "unat (ucast x :: u64) = unat x" .
    then have "(ucast x :: u64) < MODULUS" using small unfolding less_MODULUS by simp
    from Rep_F61p_raw [OF this] have "unat (Rep_F61p (F61p_raw (ucast x))) = unat x" using low by (simp only:)
    with of_nat_Rep_F61p [of "F61p_raw (ucast x)"] have "of_nat (unat x) = F61p_raw (ucast x)" by (simp only:)
    moreover have "x < ucast MODULUS"
      using small by (simp add: word_less_nat_alt unat_ucast_u64 unat_MODULUS)
    ultimately show ?thesis unfolding f61_try_from_def by (simp only: if_True)
  qed
  have pos: "0 < 8 div 2 + (4 :: nat)" "8 + 2 * 4 < (128 :: nat)" by simp_all
  have two: "length [(5 :: u128, 7 :: u128), (- 1, 0)] = 2" by simp
  from random_fpm_triples_correct [OF f61_field.finite_field_axioms ok pos conv61, unfolded two]
  show ?thesis by (rule joint_mono) simp_all
qed

end
