(* ===== verification/Carryless.thy ===== *)
theory Carryless
  imports Prelude
begin

text \<open>
  Polynomials over GF(2) as words: carry-less multiplication, linear maps and their bases, and the
  locale of a reduction modulo a polynomial, with the laws of the ring that it gives.
\<close>

unbundle bit_operations_syntax

subsection \<open>Linear maps\<close>

definition xor_linear :: "('a :: len word \<Rightarrow> 'b :: len word) \<Rightarrow> bool" where
  "xor_linear f \<longleftrightarrow> (\<forall>x y. f (x XOR y) = f x XOR f y)"

lemma xor_linear_zero: "xor_linear f \<Longrightarrow> f 0 = 0"
  unfolding xor_linear_def by (metis xor_self_eq)

lemma xor_linearD: "xor_linear f \<Longrightarrow> f (x XOR y) = f x XOR f y"
  by (simp add: xor_linear_def)

lemma bit_two_power: "bit (2 ^ k :: 'a :: len word) j \<longleftrightarrow> j = k \<and> k < LENGTH('a)"
  by (auto simp: bit_exp_iff)

lemma take_bit_step:
  fixes x :: "'a :: len word"
  shows "take_bit (Suc n) x = take_bit n x XOR (if bit x n then 2 ^ n else 0)"
  by (rule bit_word_eqI) (auto simp: bit_take_bit_iff bit_xor_iff bit_two_power less_Suc_eq dest: bit_imp_le_length)

lemma basis_induct [consumes 1, case_names zero power xor]:
  fixes x :: "'a :: len word"
  assumes "take_bit n x = x" and "P 0" and "\<And>k. k < n \<Longrightarrow> P (2 ^ k)"
    and "\<And>x y. P x \<Longrightarrow> P y \<Longrightarrow> P (x XOR y)"
  shows "P x"
proof -
  have "P (take_bit m x)" if "m \<le> n" for m
    using that
  proof (induction m)
    case (Suc m)
    then show ?case using assms(2-4) by (auto simp: take_bit_step)
  qed (simp add: assms(2))
  from this [of n] show ?thesis using assms(1) by simp
qed

lemma linear_basis:
  fixes f g :: "'a :: len word \<Rightarrow> 'b :: len word"
  assumes "xor_linear f" and "xor_linear g" and "\<And>k. k < n \<Longrightarrow> f (2 ^ k) = g (2 ^ k)" and "take_bit n x = x"
  shows "f x = g x"
  using assms(4)
proof (induction x rule: basis_induct)
  case zero then show ?case using assms(1,2) by (simp add: xor_linear_zero)
next
  case (power k) then show ?case by (rule assms(3))
next
  case (xor x y) then show ?case using assms(1,2) by (simp add: xor_linearD)
qed

lemma take_bit_xor_closed: "take_bit n x = x \<Longrightarrow> take_bit n y = y \<Longrightarrow> take_bit n (x XOR y) = (x XOR y :: 'a :: len word)"
  by simp

lemma take_bit_mono:
  assumes "take_bit i x = (x :: 'a :: len word)" and "i \<le> j"
  shows "take_bit j x = x"
proof (rule bit_word_eqI)
  fix k assume "k < LENGTH('a)"
  have "bit x k \<Longrightarrow> k < i" using assms(1) by (metis bit_take_bit_iff)
  then show "bit (take_bit j x) k = bit x k" using assms(2) by (auto simp: bit_take_bit_iff)
qed

lemma take_bit_two_power: "k < n \<Longrightarrow> take_bit n (2 ^ k :: 'a :: len word) = 2 ^ k"
  by (rule bit_word_eqI) (auto simp: bit_take_bit_iff bit_two_power)

lemma linear_closed:
  fixes f :: "'a :: len word \<Rightarrow> 'b :: len word"
  assumes "xor_linear f" and "\<And>k. k < n \<Longrightarrow> take_bit m (f (2 ^ k)) = f (2 ^ k)" and "take_bit n x = x"
  shows "take_bit m (f x) = f x"
  using assms(3)
  by (induction x rule: basis_induct) (simp_all add: assms(1,2) xor_linear_zero xor_linearD)

lemma xor_linear_compose: "xor_linear f \<Longrightarrow> xor_linear g \<Longrightarrow> xor_linear (\<lambda>x. f (g x))"
  by (simp add: xor_linear_def)

lemma xor_linear_xor: "xor_linear f \<Longrightarrow> xor_linear g \<Longrightarrow> xor_linear (\<lambda>x. f x XOR g x)"
  by (simp add: xor_linear_def ac_simps)

lemma xor_linear_shifts:
  "xor_linear (push_bit k)" "xor_linear (drop_bit k)" "xor_linear (take_bit k)" "xor_linear (\<lambda>x. x AND w)" "xor_linear (\<lambda>x. w AND x)"
  by (simp_all add: xor_linear_def push_bit_xor drop_bit_xor take_bit_xor bit.conj_xor_distrib bit.conj_xor_distrib2)

lemma xor_linear_ucast: "xor_linear (ucast :: 'a :: len word \<Rightarrow> 'b :: len word)"
  unfolding xor_linear_def by (intro allI bit_word_eqI) (auto simp: bit_xor_iff bit_ucast_iff)

lemma xor_linear_id: "xor_linear (\<lambda>x. x)"
  by (simp add: xor_linear_def)

lemma xor_linear_funpow:
  fixes f :: "'a :: len word \<Rightarrow> 'a word"
  shows "xor_linear f \<Longrightarrow> xor_linear (f ^^ k)"
  by (induction k) (auto simp: xor_linear_def)

lemma xor_linear_maps:
  "xor_linear f \<Longrightarrow> xor_linear (\<lambda>x. push_bit k (f x))" "xor_linear f \<Longrightarrow> xor_linear (\<lambda>x. drop_bit k (f x))"
  "xor_linear f \<Longrightarrow> xor_linear (\<lambda>x. f x AND w)" "xor_linear f \<Longrightarrow> xor_linear (\<lambda>x. w AND f x)"
  "xor_linear f \<Longrightarrow> xor_linear (\<lambda>x. ucast (f x))"
  by (simp_all add: xor_linear_def push_bit_xor drop_bit_xor bit.conj_xor_distrib bit.conj_xor_distrib2
      xor_linearD [OF xor_linear_ucast])

lemmas xor_linear_intros = xor_linear_xor xor_linear_maps xor_linear_id

subsection \<open>Carry-less multiplication\<close>

text \<open>The product of the low lanes, as the instruction computes it.\<close>

definition clmul :: "u64 \<Rightarrow> u64 \<Rightarrow> u128" where
  "clmul a b = foldl (\<lambda>z i. if bit a i then z XOR push_bit i (ucast b) else z) 0 [0..<64]"

definition clmul_upto :: "nat \<Rightarrow> u64 \<Rightarrow> u64 \<Rightarrow> u128" where
  "clmul_upto n a b = foldl (\<lambda>z i. if bit a i then z XOR push_bit i (ucast b) else z) 0 [0..<n]"

lemma clmul_upto_Suc: "clmul_upto (Suc n) a b = clmul_upto n a b XOR (if bit a n then push_bit n (ucast b) else 0)"
  by (simp add: clmul_upto_def)

lemma clmul_upto_0: "clmul_upto 0 a b = 0"
  by (simp add: clmul_upto_def)

lemma clmul_left: "xor_linear (\<lambda>a. clmul a b)"
proof -
  have "clmul_upto n (x XOR y) b = clmul_upto n x b XOR clmul_upto n y b" for n x y
    by (induction n) (simp_all add: clmul_upto_Suc clmul_upto_0 bit_xor_iff ac_simps)
  then show ?thesis by (simp add: xor_linear_def clmul_def clmul_upto_def)
qed

lemma clmul_right: "xor_linear (\<lambda>b. clmul a b)"
proof -
  have "clmul_upto n a (x XOR y) = clmul_upto n a x XOR clmul_upto n a y" for n x y
    by (induction n) (simp_all add: clmul_upto_Suc clmul_upto_0 push_bit_xor xor_linearD [OF xor_linear_ucast] ac_simps)
  then show ?thesis by (simp add: xor_linear_def clmul_def clmul_upto_def)
qed

lemma clmul_power: "k < 64 \<Longrightarrow> clmul (2 ^ k) b = push_bit k (ucast b)"
proof -
  assume k: "k < 64"
  have "clmul_upto n (2 ^ k) b = (if k < n then push_bit k (ucast b) else 0)" if "n \<le> 64" for n
    using that k by (induction n) (auto simp: clmul_upto_Suc clmul_upto_0 bit_two_power less_Suc_eq)
  from this [of 64] show ?thesis using k by (simp add: clmul_def clmul_upto_def)
qed

lemma ucast_power: "k < 64 \<Longrightarrow> (ucast (2 ^ k :: u64) :: u128) = 2 ^ k"
  by (rule bit_word_eqI) (auto simp: bit_ucast_iff bit_two_power)

lemma push_bit_power: "push_bit i (2 ^ j :: 'a :: len word) = 2 ^ (i + j)"
  by (simp add: push_bit_eq_mult power_add)

lemma take_bit_64: "take_bit 64 (x :: u64) = x"
  by (rule take_bit_word_eq_self) simp

lemma clmul_commute: "clmul a b = clmul b a"
proof (rule linear_basis [OF clmul_left clmul_right _ take_bit_64])
  fix i :: nat assume i: "i < 64"
  show "clmul (2 ^ i) b = clmul b (2 ^ i)"
    by (rule linear_basis [OF clmul_right clmul_left _ take_bit_64])
      (simp add: clmul_power i ucast_power push_bit_power add.commute)
qed

lemma clmul_one: "clmul 1 b = ucast b"
  using clmul_power [of 0 b] by simp

subsection \<open>Reduction modulo a polynomial\<close>

lemma funpow_moves: "(f ^^ j) (f ((f ^^ k) x)) = f ((f ^^ k) ((f ^^ j) x))"
proof -
  have "(f ^^ j) ((f ^^ Suc k) x) = (f ^^ Suc k) ((f ^^ j) x)"
    by (metis add.commute comp_apply funpow_add)
  then show ?thesis by simp
qed

text \<open>Multiplication by the indeterminate.\<close>

definition times_x :: "nat \<Rightarrow> u64 \<Rightarrow> u64 \<Rightarrow> u64" where
  "times_x n m r = (let s = push_bit 1 r in if s AND 2 ^ n \<noteq> 0 then s XOR m else s)"

lemma and_two_power: "(w AND 2 ^ n \<noteq> 0) = bit (w :: 'a :: len word) n"
proof
  assume "w AND 2 ^ n \<noteq> 0"
  then obtain j where "bit (w AND 2 ^ n) j" by (metis bit_eqI bit_0_eq bot_apply bot_bool_def)
  then show "bit w n" by (auto simp: bit_and_iff bit_two_power)
next
  assume "bit w n"
  then have "bit (w AND 2 ^ n) n" by (auto simp: bit_and_iff bit_two_power dest: bit_imp_le_length)
  then show "w AND 2 ^ n \<noteq> 0" by auto
qed

lemma double_xor: "(x XOR y) * 2 = (x * 2 XOR y * 2 :: 'a :: len word)"
  unfolding mult.commute [of _ 2] by (rule bit_word_eqI) (auto simp: bit_double_iff bit_xor_iff)

text \<open>The product of two elements: the one of the polynomials, reduced.\<close>

definition clmul_reduced :: "(u128 \<Rightarrow> u64) \<Rightarrow> u64 \<Rightarrow> u64 \<Rightarrow> u64" where
  "clmul_reduced red a b = red (clmul a b)"

text \<open>The same on integers, and the powers of the indeterminate from one on.\<close>

definition istep :: "nat \<Rightarrow> int \<Rightarrow> int \<Rightarrow> int" where
  "istep n m r = (let s = 2 * r in if bit s n then s XOR m else s)"

primrec ipowers :: "nat \<Rightarrow> int \<Rightarrow> nat \<Rightarrow> int \<Rightarrow> int list" where
  "ipowers n m 0 r = []"
| "ipowers n m (Suc c) r = r # ipowers n m c (istep n m r)"

locale binary_modulus =
  fixes n :: nat and m :: u64
  assumes degree: "0 < n" "n < 64"
    and modulus: "bit m n" "take_bit (Suc n) m = m"
begin

abbreviation step :: "u64 \<Rightarrow> u64" where
  "step \<equiv> times_x n m"

abbreviation fits :: "u64 \<Rightarrow> bool" where
  "fits a \<equiv> take_bit n a = a"

lemma step_bits: "step r = 2 * r XOR (if bit r (n - 1) then m else 0)"
proof -
  have double: "push_bit 1 r = 2 * r" by (simp add: mult.commute)
  have "bit (2 * r) n = bit r (n - 1)" using degree by (simp add: bit_double_iff)
  then show ?thesis unfolding times_x_def Let_def and_two_power double by simp
qed

lemma step_linear: "xor_linear step"
  by (auto simp: xor_linear_def step_bits bit_xor_iff double_xor ac_simps)

lemma step_fits: "fits r \<Longrightarrow> fits (step r)"
proof (rule bit_word_eqI)
  fix j assume r: "fits r" and j: "j < LENGTH(64)"
  have high: "\<not> bit r k" if "n \<le> k" for k
    using r that by (metis bit_take_bit_iff not_less)
  have "bit m j \<Longrightarrow> j \<le> n" using modulus(2) by (metis bit_take_bit_iff less_Suc_eq_le)
  then show "bit (take_bit n (step r)) j = bit (step r) j"
    using high [of "j - 1"] degree modulus(1) j
    by (cases "j < n"; cases "j = n") (auto simp: bit_take_bit_iff step_bits bit_xor_iff bit_double_iff)
qed

lemma step_power: "Suc k < n \<Longrightarrow> step (2 ^ k) = 2 ^ Suc k"
  using degree by (auto simp: step_bits bit_two_power)

lemma one_fits: "fits 1"
  using take_bit_two_power [of 0 n] degree by simp

lemma funpow_fits: "fits b \<Longrightarrow> fits ((step ^^ i) b)"
  by (induction i) (simp_all add: step_fits)

lemma step_one: "i < n \<Longrightarrow> (step ^^ i) 1 = 2 ^ i"
  by (induction i) (simp_all only: funpow.simps comp_apply id_apply power_0 step_power Suc_lessD)

lemma uint_step: "fits r \<Longrightarrow> uint (step r) = istep n (uint m) (uint r)"
proof -
  assume r: "fits r"
  have low: "bit r k \<Longrightarrow> k < n" for k using r by (metis bit_take_bit_iff)
  have "uint (2 * r) = 2 * uint r"
  proof (rule bit_eqI)
    fix j
    show "bit (uint (2 * r)) j = bit (2 * uint r) j"
      using low [of "j - 1"] degree by (auto simp: bit_uint_iff bit_double_iff)
  qed
  moreover have "bit (2 * uint r) n = bit r (n - 1)"
    using degree low by (auto simp: bit_double_iff bit_uint_iff)
  ultimately show ?thesis by (simp add: istep_def step_bits unsigned_xor_eq)
qed

lemma ipowers: "fits r \<Longrightarrow> ipowers n (uint m) c (uint r) = map (\<lambda>k. uint ((step ^^ k) r)) [0..<c]"
proof (induction c arbitrary: r)
  case (Suc c)
  have "ipowers n (uint m) c (istep n (uint m) (uint r)) = map (\<lambda>k. uint ((step ^^ Suc k) r)) [0..<c]"
    using Suc.IH [of "step r"] Suc.prems by (simp add: step_fits uint_step funpow_Suc_right del: funpow.simps)
  then show ?case by (simp add: upt_conv_Cons map_Suc_upt [symmetric] del: upt_Suc)
qed simp

end

text \<open>
  A reduction to \<open>n\<close> bits: linear, the identity on its range, and compatible with multiplication
  by the indeterminate on products of two elements.
\<close>

locale polynomial_reduction = binary_modulus +
  fixes red :: "u128 \<Rightarrow> u64"
  assumes linear: "xor_linear red"
    and small: "\<And>k. k < n \<Longrightarrow> red (2 ^ k) = 2 ^ k"
    and shifted: "\<And>k. k < 2 * n - 2 \<Longrightarrow> red (2 ^ Suc k) = times_x n m (red (2 ^ k))"

text \<open>A linear map is one when the table of its values on the powers is the right one.\<close>

context binary_modulus
begin

lemma reduction_by_table:
  assumes lin: "xor_linear red"
    and table: "map (\<lambda>k. uint (red (2 ^ k))) [0..<2 * n - 1] = ipowers n (uint m) (2 * n - 1) 1"
  shows "polynomial_reduction n m red"
proof -
  have "map (\<lambda>k. uint (red (2 ^ k))) [0..<2 * n - 1] = map (\<lambda>k. uint ((step ^^ k) 1)) [0..<2 * n - 1]"
    using table ipowers [OF one_fits, of "2 * n - 1"] by simp
  then have red: "k < 2 * n - 1 \<Longrightarrow> red (2 ^ k) = (step ^^ k) 1" for k
    by (auto simp: word_uint_eq_iff)
  show ?thesis
  proof
    show "red (2 ^ k) = 2 ^ k" if "k < n" for k using that red [of k] by (simp add: step_one)
    show "red (2 ^ Suc k) = step (red (2 ^ k))" if "k < 2 * n - 2" for k
      using that red [of k] red [of "Suc k"] by simp
  qed (rule lin)
qed

end

context polynomial_reduction
begin

abbreviation times :: "u64 \<Rightarrow> u64 \<Rightarrow> u64" where
  "times \<equiv> clmul_reduced red"

lemmas times_def = clmul_reduced_def [of red]

lemma red_power_fits: "k < 2 * n - 1 \<Longrightarrow> fits (red (2 ^ k))"
proof (induction k)
  case 0
  then show ?case using small [of 0] degree take_bit_two_power [of 0 n] by simp
next
  case (Suc k)
  then show ?case using shifted [of k] step_fits by simp
qed

lemma red_fits: "take_bit (2 * n - 1) x = x \<Longrightarrow> fits (red x)"
  by (rule linear_closed [OF linear red_power_fits])

lemma red_id: "fits b \<Longrightarrow> red (ucast b) = b"
  by (rule linear_basis [OF xor_linear_compose [OF linear xor_linear_ucast] xor_linear_id])
    (use degree in \<open>simp_all add: ucast_power small\<close>)

lemma red_step: "take_bit (2 * n - 2) x = x \<Longrightarrow> red (push_bit 1 x) = step (red x)"
  by (rule linear_basis [OF xor_linear_compose [OF linear xor_linear_shifts(1)] xor_linear_compose [OF step_linear linear]])
    (simp_all only: push_bit_power plus_1_eq_Suc shifted)

lemma red_push_power:
  "i < n \<Longrightarrow> j < n \<Longrightarrow> red (2 ^ (i + j)) = (step ^^ i) (2 ^ j)"
proof (induction i)
  case (Suc i)
  then show ?case using shifted [of "i + j"] by simp
qed (simp add: small)

text \<open>Multiplication by a power of the indeterminate.\<close>

lemma times_power: "i < n \<Longrightarrow> fits b \<Longrightarrow> times (2 ^ i) b = (step ^^ i) b"
proof (rule linear_basis [where f = "times (2 ^ i)" and g = "step ^^ i" and n = n])
  assume i: "i < n"
  show "xor_linear (times (2 ^ i))" unfolding times_def by (rule xor_linear_compose [OF linear clmul_right])
  show "xor_linear (step ^^ i)" by (rule xor_linear_funpow [OF step_linear])
  fix j assume "j < n"
  then show "times (2 ^ i) (2 ^ j) = (step ^^ i) (2 ^ j)"
    using i degree by (simp add: times_def clmul_power ucast_power push_bit_power red_push_power)
qed

lemma times_left: "xor_linear (\<lambda>a. times a b)"
  unfolding times_def by (rule xor_linear_compose [OF linear clmul_left])

lemma times_right: "xor_linear (times a)"
  unfolding times_def by (rule xor_linear_compose [OF linear clmul_right])

lemma times_commute: "times a b = times b a"
  by (simp add: times_def clmul_commute)

lemma times_fits:
  assumes "fits a" and "fits b"
  shows "fits (times a b)"
  by (rule linear_closed [OF times_left _ assms(1)]) (simp add: times_power assms(2) funpow_fits)

lemma times_one: "fits b \<Longrightarrow> times 1 b = b"
  using times_power [of 0 b] degree by simp

text \<open>The indeterminate moves out of a factor, also over the top bit.\<close>

lemma step_top: "step (2 ^ (n - 1)) = 2 ^ n XOR m"
proof -
  have "Suc (n - 1) = n" using degree by simp
  then show ?thesis using degree by (simp add: step_bits bit_two_power less_imp_diff_less flip: power_Suc)
qed

lemma times_step: "fits a \<Longrightarrow> fits b \<Longrightarrow> times (step a) b = step (times a b)"
proof (rule linear_basis [of _ _ n, OF xor_linear_compose [OF times_left step_linear] xor_linear_compose [OF step_linear times_left]])
  fix k assume b: "fits b" and k: "k < n"
  show "times (step (2 ^ k)) b = step (times (2 ^ k) b)"
  proof (cases "Suc k < n")
    case True
    then show ?thesis using b k by (simp only: step_power times_power funpow.simps comp_apply)
  next
    case False
    with k have top: "k = n - 1" by simp
    let ?l = "step (2 ^ (n - 1))"
    have l: "fits ?l" using step_fits take_bit_two_power [of "n - 1" n] degree by simp
    have "times ?l b = step ((step ^^ (n - 1)) b)"
    proof (rule linear_basis [OF times_right xor_linear_compose [OF step_linear xor_linear_funpow [OF step_linear]] _ b])
      fix j assume j: "j < n"
      have "times ?l (2 ^ j) = (step ^^ j) (step ((step ^^ (n - 1)) 1))"
        using j l degree by (simp add: times_commute [of _ "2 ^ j"] times_power step_one)
      also have "\<dots> = step ((step ^^ (n - 1)) ((step ^^ j) 1))"
        by (rule funpow_moves)
      also have "(step ^^ j) 1 = 2 ^ j"
        by (rule step_one [OF j])
      finally show "times ?l (2 ^ j) = step ((step ^^ (n - 1)) (2 ^ j))" .
    qed
    then show ?thesis using b degree by (simp add: top times_power)
  qed
qed

lemma times_funpow: "fits a \<Longrightarrow> fits b \<Longrightarrow> times ((step ^^ i) a) b = (step ^^ i) (times a b)"
  by (induction i) (simp_all add: times_step funpow_fits)

lemma times_assoc:
  assumes "fits a" and "fits b" and "fits c"
  shows "times (times a b) c = times a (times b c)"
  by (rule linear_basis [OF xor_linear_compose [OF times_left times_left] times_left _ assms(1)])
    (simp add: times_power times_funpow times_fits assms)

text \<open>The reduction is the remainder modulo the polynomial.\<close>

lemma clmul_double: "take_bit 63 q = q \<Longrightarrow> clmul (push_bit 1 q) m = push_bit 1 (clmul q m)"
proof (rule linear_basis [where n = 63 and f = "\<lambda>q. clmul (push_bit 1 q) m" and g = "\<lambda>q. push_bit 1 (clmul q m)"])
  show "xor_linear (\<lambda>q. clmul (push_bit 1 q) m)" by (rule xor_linear_compose [OF clmul_left xor_linear_shifts(1)])
  show "xor_linear (\<lambda>q. push_bit 1 (clmul q m))" by (rule xor_linear_maps(1) [OF clmul_left])
  fix k :: nat assume "k < 63"
  then show "clmul (push_bit 1 (2 ^ k)) m = push_bit 1 (clmul (2 ^ k) m)"
    by (simp only: push_bit_power clmul_power push_bit_push_bit)
qed

lemma ucast_step: "fits r \<Longrightarrow> ucast (step r) = (push_bit 1 (ucast r) XOR (if bit r (n - 1) then ucast m else 0) :: u128)"
proof -
  assume r: "fits r"
  have "bit r 63 \<Longrightarrow> 63 < n" using r by (metis bit_take_bit_iff)
  with degree have top: "\<not> bit r 63" by auto
  have "ucast (2 * r) = (push_bit 1 (ucast r) :: u128)"
  proof (rule bit_word_eqI)
    fix j assume "j < LENGTH(128)"
    have "bit r (j - 1) \<Longrightarrow> j - 1 < 63" using top bit_imp_le_length [of r "j - 1"] by (cases "j - 1 = 63") auto
    then show "bit (ucast (2 * r) :: u128) j = bit (push_bit 1 (ucast r) :: u128) j"
      using \<open>j < LENGTH(128)\<close> unfolding bit_push_bit_iff bit_ucast_iff bit_double_iff by auto
  qed
  then show ?thesis by (simp add: step_bits xor_linearD [OF xor_linear_ucast])
qed

lemma power_remainder:
  "k < 2 * n - 1 \<Longrightarrow> \<exists>q. take_bit (Suc k - n) q = q \<and> 2 ^ k = clmul q m XOR ucast (red (2 ^ k))"
proof (induction k)
  case 0
  then show ?case using degree small [of 0] by (intro exI [of _ 0]) (simp add: xor_linear_zero [OF clmul_left])
next
  case (Suc k)
  show ?case
  proof (cases "Suc k < n")
    case True
    then show ?thesis
      using degree by (intro exI [of _ 0]) (simp only: small ucast_power xor_linear_zero [OF clmul_left], simp)
  next
    case False
    from Suc obtain q where q: "take_bit (Suc k - n) q = q" "2 ^ k = clmul q m XOR ucast (red (2 ^ k))" by auto
    let ?r = "red (2 ^ k)" and ?q = "push_bit 1 q XOR (if bit (red (2 ^ k)) (n - 1) then 1 else 0)"
    have "k < 2 * n - 1" "k < 2 * n - 2" using Suc.prems by simp_all
    note r = red_power_fits [OF this(1)] shifted [OF this(2)]
    have small_q: "take_bit 63 q = q"
      by (rule take_bit_mono [OF q(1)]) (use Suc.prems degree in simp)
    have "2 ^ Suc k = push_bit 1 (clmul q m XOR ucast ?r)"
      unfolding q(2) [symmetric] by (simp only: push_bit_power plus_1_eq_Suc)
    also have "\<dots> = clmul (push_bit 1 q) m XOR push_bit 1 (ucast ?r)"
      by (simp only: push_bit_xor clmul_double [OF small_q])
    also have "\<dots> = clmul ?q m XOR ucast (step ?r)"
      by (simp only: ucast_step [OF r(1)] xor_linearD [OF clmul_left]) (simp add: clmul_one ac_simps xor_linear_zero [OF clmul_left])
    finally have "2 ^ Suc k = clmul ?q m XOR ucast (red (2 ^ Suc k))" unfolding r(2) .
    moreover have "take_bit (Suc (Suc k) - n) ?q = ?q"
    proof -
      have len: "Suc (Suc k) - n = Suc (Suc k - n)" using False by simp
      have "take_bit (Suc (Suc k - n)) (push_bit 1 q) = push_bit 1 (take_bit (Suc k - n) q)"
        by (simp only: take_bit_push_bit) simp
      then have "take_bit (Suc (Suc k - n)) (push_bit 1 q) = push_bit 1 q" by (simp only: q(1))
      moreover have "take_bit (Suc (Suc k - n)) (1 :: u64) = 1" by simp
      ultimately show ?thesis unfolding len take_bit_xor by (simp only: split: if_split) simp
    qed
    ultimately show ?thesis by blast
  qed
qed

lemma red_remainder:
  assumes "take_bit (2 * n - 1) x = x"
  shows "\<exists>q. take_bit (n - 1) q = q \<and> x = clmul q m XOR ucast (red x)"
  using assms
proof (induction x rule: basis_induct)
  case zero
  then show ?case using xor_linear_zero [OF clmul_left] xor_linear_zero [OF linear] by (intro exI [of _ 0]) simp
next
  case (power k)
  then obtain q where q: "take_bit (Suc k - n) q = q" "2 ^ k = clmul q m XOR ucast (red (2 ^ k))"
    using power_remainder by blast
  moreover have "take_bit (n - 1) q = q" by (rule take_bit_mono [OF q(1)]) (use power in simp)
  ultimately show ?case by blast
next
  case (xor x y)
  then obtain p q where "take_bit (n - 1) p = p" "x = clmul p m XOR ucast (red x)"
      "take_bit (n - 1) q = q" "y = clmul q m XOR ucast (red y)" by blast
  then have pq: "take_bit (n - 1) (p XOR q) = p XOR q"
    and xy: "x XOR y = (clmul p m XOR ucast (red x)) XOR (clmul q m XOR ucast (red y))" by (simp_all add: take_bit_xor)
  have "(clmul p m XOR ucast (red x)) XOR (clmul q m XOR ucast (red y)) = clmul (p XOR q) m XOR ucast (red (x XOR y))"
    by (simp only: xor_linearD [OF clmul_left] xor_linearD [OF linear] xor_linearD [OF xor_linear_ucast] ac_simps)
  with pq trans [OF xy] show ?case by blast
qed

end

end
