(* ===== verification/Carryless_Scalar.thy ===== *)
theory Carryless_Scalar
  imports Carryless
begin

text \<open>
  The scalar implementation of the carry-less multiplication
  (\<open>carryless_mul\<close> in src/vectoreyes/src/generated/implementation.rs): integer products of the bits
  of one residue modulo 4, so that the carries stay within the holes, and the high half from the
  reversed operands. Its value is the product of the polynomials.
\<close>

unbundle bit_operations_syntax

subsection \<open>The code\<close>

definition bmul64 :: "u64 \<Rightarrow> u64 \<Rightarrow> u64" where
  "bmul64 x y =
     (let x0 = x AND 0x1111111111111111; x1 = x AND 0x2222222222222222;
          x2 = x AND 0x4444444444444444; x3 = x AND 0x8888888888888888;
          y0 = y AND 0x1111111111111111; y1 = y AND 0x2222222222222222;
          y2 = y AND 0x4444444444444444; y3 = y AND 0x8888888888888888;
          z0 = (x0 * y0) XOR (x1 * y3) XOR (x2 * y2) XOR (x3 * y1);
          z1 = (x0 * y1) XOR (x1 * y0) XOR (x2 * y3) XOR (x3 * y2);
          z2 = (x0 * y2) XOR (x1 * y1) XOR (x2 * y0) XOR (x3 * y3);
          z3 = (x0 * y3) XOR (x1 * y2) XOR (x2 * y1) XOR (x3 * y0);
          z0 = z0 AND 0x1111111111111111; z1 = z1 AND 0x2222222222222222;
          z2 = z2 AND 0x4444444444444444; z3 = z3 AND 0x8888888888888888 in
      z0 OR z1 OR z2 OR z3)"

definition rev64 :: "u64 \<Rightarrow> u64" where
  "rev64 x =
     (let x = push_bit 1 (x AND 0x5555555555555555) OR (drop_bit 1 x AND 0x5555555555555555);
          x = push_bit 2 (x AND 0x3333333333333333) OR (drop_bit 2 x AND 0x3333333333333333);
          x = push_bit 4 (x AND 0x0f0f0f0f0f0f0f0f) OR (drop_bit 4 x AND 0x0f0f0f0f0f0f0f0f);
          x = push_bit 8 (x AND 0x00ff00ff00ff00ff) OR (drop_bit 8 x AND 0x00ff00ff00ff00ff);
          x = push_bit 16 (x AND 0xffff0000ffff) OR (drop_bit 16 x AND 0xffff0000ffff) in
      push_bit 32 x OR drop_bit 32 x)"

definition carryless_mul :: "bool \<Rightarrow> bool \<Rightarrow> u64 \<times> u64 \<Rightarrow> u64 \<times> u64 \<Rightarrow> u64 \<times> u64" where
  "carryless_mul hi_other hi_self self other =
     (let x = (if hi_self then snd self else fst self); y = (if hi_other then snd other else fst other) in
      (bmul64 x y, drop_bit 1 (rev64 (bmul64 (rev64 x) (rev64 y)))))"

subsection \<open>Masks\<close>

definition residue_mask :: "nat \<Rightarrow> u64" where
  "residue_mask i = push_bit i 0x1111111111111111"

lemma all_bits: "list_all P [0..<64] \<Longrightarrow> k < 64 \<Longrightarrow> P k"
  by (auto simp only: list_all_iff set_upt atLeastLessThan_iff)

lemma int_mask: "k < 64 \<Longrightarrow> bit (0x1111111111111111 :: int) k \<longleftrightarrow> k mod 4 = 0"
  by (rule all_bits, code_simp)

lemma bit_residue_mask: "i < 4 \<Longrightarrow> bit (residue_mask i) k \<longleftrightarrow> k < 64 \<and> k mod 4 = i"
proof -
  assume i: "i < 4"
  have lit: "bit (0x1111111111111111 :: u64) j \<longleftrightarrow> j < 64 \<and> j mod 4 = 0" for j
    using int_mask [of j] unfolding bit_numeral_word_iff by auto
  have "i \<le> k \<and> (k - i) mod 4 = 0 \<longleftrightarrow> k mod 4 = i" using i by presburger
  then show ?thesis unfolding residue_mask_def bit_push_bit_iff lit by auto
qed

lemma residue_masks:
  "0x1111111111111111 = residue_mask 0" "0x2222222222222222 = residue_mask 1"
  "0x4444444444444444 = residue_mask 2" "0x8888888888888888 = residue_mask 3"
  by (simp_all add: residue_mask_def)

subsection \<open>Coefficients\<close>

text \<open>The coefficient of the product as a number, before it is taken modulo 2.\<close>

definition coefficient :: "u64 \<Rightarrow> u64 \<Rightarrow> nat \<Rightarrow> nat" where
  "coefficient x y k = (\<Sum>s<64. of_bool (s \<le> k \<and> bit x s \<and> bit y (k - s)))"

definition class_coefficient :: "u64 \<Rightarrow> u64 \<Rightarrow> nat \<Rightarrow> nat \<Rightarrow> nat" where
  "class_coefficient x y i k = (\<Sum>p<16. of_bool (4 * p + i \<le> k \<and> bit x (4 * p + i) \<and> bit y (k - (4 * p + i))))"

lemma sum_by_residue: "(\<Sum>s<4 * n. f s) = (\<Sum>i<4. \<Sum>p<n. f (4 * p + i))" for n :: nat and f :: "nat \<Rightarrow> 'a :: comm_monoid_add"
proof (induction n)
  case (Suc n)
  have "(\<Sum>s<4 * Suc n. f s) = (\<Sum>s<4 * n. f s) + (f (4 * n) + f (4 * n + 1) + f (4 * n + 2) + f (4 * n + 3))"
    by (simp add: numeral_eq_Suc ac_simps)
  also have "\<dots> = (\<Sum>i<4. \<Sum>p<Suc n. f (4 * p + i))"
    unfolding Suc by (simp add: numeral_eq_Suc ac_simps)
  finally show ?case .
qed simp

lemma coefficient_by_class: "coefficient x y k = (\<Sum>i<4. class_coefficient x y i k)"
proof -
  have "(64 :: nat) = 4 * 16" by simp
  then show ?thesis unfolding coefficient_def class_coefficient_def by (simp only: sum_by_residue)
qed

lemma bit_clmul: "k < 128 \<Longrightarrow> bit (clmul x y) k \<longleftrightarrow> odd (coefficient x y k)"
proof -
  assume k: "k < 128"
  have "bit (clmul_upto n x y) k \<longleftrightarrow> odd (\<Sum>s<n. of_bool (s \<le> k \<and> bit x s \<and> bit y (k - s)) :: nat)" for n
    by (induction n) (use k in \<open>auto simp: clmul_upto_0 clmul_upto_Suc bit_xor_iff bit_push_bit_iff bit_ucast_iff\<close>)
  from this [of 64] show ?thesis by (simp add: coefficient_def clmul_def clmul_upto_def)
qed

subsection \<open>Products of one residue\<close>

lemma uint_sum: "uint (w :: u64) = (\<Sum>s<64. of_bool (bit w s) * 2 ^ s)"
proof -
  have "uint w = take_bit 64 (uint w)" by (simp only: unsigned_take_bit_eq [symmetric] take_bit_64)
  also have "\<dots> = (\<Sum>s = 0..<64. push_bit s (of_bool (bit (uint w) s)))" by (rule take_bit_sum)
  also have "\<dots> = (\<Sum>s<64. of_bool (bit w s) * 2 ^ s)"
    by (rule sum.cong) (auto simp: push_bit_eq_mult bit_uint_iff)
  finally show ?thesis .
qed

definition residue_bit :: "u64 \<Rightarrow> nat \<Rightarrow> nat \<Rightarrow> int" where
  "residue_bit x i p = of_bool (p < 16 \<and> bit x (4 * p + i))"

lemma uint_residue: "i < 4 \<Longrightarrow> uint (x AND residue_mask i) = 2 ^ i * (\<Sum>p\<le>15. residue_bit x i p * 16 ^ p)"
proof -
  assume i: "i < 4"
  let ?w = "x AND residue_mask i"
  have len: "(64 :: nat) = 4 * 16" by simp
  have "uint ?w = (\<Sum>j<4. \<Sum>p<16. of_bool (bit ?w (4 * p + j)) * 2 ^ (4 * p + j))"
    unfolding uint_sum len by (rule sum_by_residue)
  also have "\<dots> = (\<Sum>j<4. if j = i then \<Sum>p<16. residue_bit x i p * (2 ^ i * 16 ^ p) else 0)"
  proof (rule sum.cong [OF refl])
    fix j :: nat assume "j \<in> {..<4}"
    then have "bit ?w (4 * p + j) \<longleftrightarrow> j = i \<and> bit x (4 * p + j)" if "p < 16" for p
      using that i by (auto simp: bit_and_iff bit_residue_mask)
    then show "(\<Sum>p<16. of_bool (bit ?w (4 * p + j)) * 2 ^ (4 * p + j))
        = (if j = i then \<Sum>p<16. residue_bit x i p * (2 ^ i * 16 ^ p) else (0 :: int))"
      by (auto intro!: sum.cong simp: residue_bit_def power_add power_mult)
  qed
  also have "\<dots> = (\<Sum>p<16. residue_bit x i p * (2 ^ i * 16 ^ p))" using i by (simp add: sum.delta)
  also have "\<dots> = 2 ^ i * (\<Sum>p\<le>15. residue_bit x i p * 16 ^ p)"
    unfolding sum_distrib_left by (rule sum.cong) (auto simp: ac_simps)
  finally show ?thesis .
qed

text \<open>In base 16, a digit below 16 does not carry.\<close>

lemma odd_digit:
  fixes c :: "nat \<Rightarrow> int"
  assumes "k \<le> n" and "\<And>r. r < k \<Longrightarrow> 0 \<le> c r \<and> c r \<le> 15"
  shows "bit (\<Sum>r\<le>n. c r * 16 ^ r) (4 * k) \<longleftrightarrow> odd (c k)"
proof -
  have low: "0 \<le> (\<Sum>r<j. c r * 16 ^ r) \<and> (\<Sum>r<j. c r * 16 ^ r) < 16 ^ j" if "j \<le> k" for j
    using that
  proof (induction j)
    case (Suc j)
    then have "0 \<le> c j" "c j \<le> 15" using assms(2) [of j] by simp_all
    then have c: "0 \<le> c j * 16 ^ j" "c j * 16 ^ j \<le> 15 * 16 ^ j" by simp_all
    have "0 \<le> (\<Sum>r<j. c r * 16 ^ r) \<and> (\<Sum>r<j. c r * 16 ^ r) < 16 ^ j" using Suc by simp
    with c show ?case unfolding sum.lessThan_Suc power_Suc by linarith
  qed simp
  have "{..n} = {..<k} \<union> {k..n}" "{..<k} \<inter> {k..n} = {}" using assms(1) by auto
  then have "(\<Sum>r\<le>n. c r * 16 ^ r) = (\<Sum>r<k. c r * 16 ^ r) + (\<Sum>r = k..n. c r * 16 ^ r)"
    by (simp add: sum.union_disjoint)
  also have "(\<Sum>r = k..n. c r * 16 ^ r) = c k * 16 ^ k + (\<Sum>r = Suc k..n. c r * 16 ^ r)"
    using assms(1) by (rule sum.atLeast_Suc_atMost)
  also have "(\<Sum>r = Suc k..n. c r * 16 ^ r) = 16 ^ k * (2 * (\<Sum>r = Suc k..n. c r * (8 * 16 ^ (r - Suc k))))"
    unfolding sum_distrib_left
  proof (rule sum.cong [OF refl])
    fix r assume "r \<in> {Suc k..n}"
    then have "r = k + Suc (r - Suc k)" by simp
    then have "(16 :: int) ^ r = 16 ^ k * 16 ^ Suc (r - Suc k)" by (metis power_add)
    then show "c r * 16 ^ r = 16 ^ k * (2 * (c r * (8 * 16 ^ (r - Suc k))))" by simp
  qed
  finally have "(\<Sum>r\<le>n. c r * 16 ^ r)
      = (\<Sum>r<k. c r * 16 ^ r) + 16 ^ k * (c k + 2 * (\<Sum>r = Suc k..n. c r * (8 * 16 ^ (r - Suc k))))"
    (is "_ = ?low + 16 ^ k * (c k + 2 * ?rest)") by (simp add: algebra_simps)
  moreover have "?low div 16 ^ k = 0" using low [of k] by simp
  ultimately have "(\<Sum>r\<le>n. c r * 16 ^ r) div 16 ^ k = c k + 2 * ?rest" by simp
  moreover have "(2 :: int) ^ (4 * k) = 16 ^ k" by (simp add: power_mult)
  ultimately show ?thesis by (simp add: bit_iff_odd)
qed

lemma bit_residue_product:
  assumes i: "i < 4" and j: "j < 4" and t: "t < 64" and r: "(i + j) mod 4 = t mod 4"
  shows "bit ((x AND residue_mask i) * (y AND residue_mask j)) t \<longleftrightarrow> odd (class_coefficient x y i t)"
proof -
  let ?c = "\<lambda>r. \<Sum>p\<le>r. residue_bit x i p * residue_bit y j (r - p)"
  have "uint (x AND residue_mask i) * uint (y AND residue_mask j)
      = 2 ^ (i + j) * ((\<Sum>p\<le>15. residue_bit x i p * 16 ^ p) * (\<Sum>q\<le>15. residue_bit y j q * 16 ^ q))"
    by (simp add: uint_residue i j power_add)
  also have "(\<Sum>p\<le>15. residue_bit x i p * 16 ^ p) * (\<Sum>q\<le>15. residue_bit y j q * 16 ^ q) = (\<Sum>r\<le>15 + 15. ?c r * 16 ^ r)"
    by (rule polynomial_product) (simp_all add: residue_bit_def)
  finally have prod: "uint (x AND residue_mask i) * uint (y AND residue_mask j) = push_bit (i + j) (\<Sum>r\<le>30. ?c r * 16 ^ r)"
    by (simp add: push_bit_eq_mult mult.commute)
  have "bit ((x AND residue_mask i) * (y AND residue_mask j)) t
      \<longleftrightarrow> bit (uint (x AND residue_mask i) * uint (y AND residue_mask j)) t"
  proof -
    have "uint (a * b) = take_bit 64 (uint a * uint b)" for a b :: u64 by (simp add: uint_word_ariths take_bit_eq_mod)
    moreover have "bit a t \<longleftrightarrow> bit (uint a) t" for a :: u64 using t by (simp add: bit_uint_iff)
    ultimately show ?thesis using t by (simp only: bit_take_bit_iff simp_thms)
  qed
  then have bit: "bit ((x AND residue_mask i) * (y AND residue_mask j)) t
      \<longleftrightarrow> i + j \<le> t \<and> bit (\<Sum>r\<le>30. ?c r * 16 ^ r) (t - (i + j))"
    unfolding prod by (simp add: bit_push_bit_iff)
  show ?thesis
  proof (cases "i + j \<le> t")
    case False
    then have "4 dvd i + j - t" using r by (metis mod_eq_dvd_iff_nat nat_le_linear)
    then obtain q where "i + j - t = 4 * q" by (rule dvdE)
    with False have "i + j = t + 4 * q" "q \<noteq> 0" by simp_all
    then have "t < i" using j by (cases q) simp_all
    then have "\<not> 4 * p + i \<le> t" for p by simp
    then have "class_coefficient x y i t = 0" by (simp add: class_coefficient_def)
    then show ?thesis using bit False by simp
  next
    case True
    then obtain k where k: "t = 4 * k + (i + j)" using r by (metis le_add_diff_inverse2 mod_eq_dvd_iff_nat dvdE)
    with t have k15: "k \<le> 15" by simp
    have "0 \<le> ?c q \<and> ?c q \<le> 15" if "q < k" for q
    proof -
      have "?c q \<le> (\<Sum>p\<le>q. 1)" by (rule sum_mono) (simp add: residue_bit_def)
      then show ?thesis using that k15 by (simp add: residue_bit_def sum_nonneg)
    qed
    then have "bit (\<Sum>r\<le>30. ?c r * 16 ^ r) (4 * k) \<longleftrightarrow> odd (?c k)" using k15 by (intro odd_digit) simp_all
    moreover have "?c k = int (class_coefficient x y i t)"
    proof -
      have "int (class_coefficient x y i t) = (\<Sum>p<16. if p \<le> k then residue_bit x i p * residue_bit y j (k - p) else 0)"
        unfolding class_coefficient_def of_nat_sum
      proof (rule sum.cong [OF refl])
        fix p :: nat assume p: "p \<in> {..<16}"
        have "4 * p + i \<le> t \<longleftrightarrow> p \<le> k" using k j by linarith
        moreover have "p \<le> k \<Longrightarrow> t - (4 * p + i) = 4 * (k - p) + j" using k by simp
        ultimately show "int (of_bool (4 * p + i \<le> t \<and> bit x (4 * p + i) \<and> bit y (t - (4 * p + i))))
            = (if p \<le> k then residue_bit x i p * residue_bit y j (k - p) else 0)"
          using p k15 by (auto simp: residue_bit_def)
      qed
      also have "\<dots> = ?c k" unfolding sum.inter_restrict [symmetric, OF finite_lessThan]
        by (rule sum.mono_neutral_cong) (use k15 in auto)
      finally show ?thesis by simp
    qed
    ultimately show ?thesis using bit True k by simp
  qed
qed

lemma bit_bmul64: "t < 64 \<Longrightarrow> bit (bmul64 x y) t \<longleftrightarrow> odd (coefficient x y t)"
proof -
  assume t: "t < 64"
  have sum: "coefficient x y t = class_coefficient x y 0 t + class_coefficient x y 1 t + class_coefficient x y 2 t + class_coefficient x y 3 t"
    by (simp add: coefficient_by_class numeral_eq_Suc)
  have masks: "bit (residue_mask r) t \<longleftrightarrow> t mod 4 = r" if "r < 4" for r
    using that t by (simp add: bit_residue_mask)
  have product: "bit ((x AND residue_mask i) * (y AND residue_mask j)) t \<longleftrightarrow> odd (class_coefficient x y i t)"
    if "i < 4" "j < 4" "(i + j) mod 4 = t mod 4" for i j
    using bit_residue_product [OF that(1,2) t that(3)] .
  consider "t mod 4 = 0" | "t mod 4 = 1" | "t mod 4 = 2" | "t mod 4 = 3" by linarith
  then show ?thesis
    by cases (simp_all add: bmul64_def Let_def residue_masks bit_or_iff bit_and_iff bit_xor_iff masks product sum, argo+)
qed

subsection \<open>The reversal\<close>

definition swap_index :: "nat \<Rightarrow> nat \<Rightarrow> nat" where
  "swap_index s k = (if odd (k div s) then k - s else k + s)"

lemma swap_stage:
  assumes mask: "\<And>k. k < 64 \<Longrightarrow> bit m k \<longleftrightarrow> even (k div s)" and k: "k < 64" and s: "0 < s"
  shows "bit (push_bit s (x AND m) OR (drop_bit s x AND m)) k \<longleftrightarrow> bit (x :: u64) (swap_index s k)"
proof (cases "odd (k div s)")
  case True
  then have "s \<le> k" using s by (metis div_less even_zero not_le)
  then have "even ((k - s) div s)" using True s by (simp add: le_div_geq)
  then show ?thesis
    using True k \<open>s \<le> k\<close> mask [OF k] mask [of "k - s"]
    by (auto simp: swap_index_def bit_or_iff bit_and_iff bit_push_bit_iff bit_drop_bit_eq)
next
  case False
  have "\<not> even ((k - s) div s)" if "s \<le> k" using that False s by (simp add: le_div_geq)
  moreover have "k - s < 64" using k by simp
  ultimately show ?thesis
    using False k mask [OF k] mask [of "k - s"]
    by (auto simp: swap_index_def bit_or_iff bit_and_iff bit_push_bit_iff bit_drop_bit_eq add.commute)
qed

lemma stage_tables:
  "list_all (\<lambda>k. bit (0x5555555555555555 :: int) k \<longleftrightarrow> even (k div 1)) [0..<64]"
  "list_all (\<lambda>k. bit (0x3333333333333333 :: int) k \<longleftrightarrow> even (k div 2)) [0..<64]"
  "list_all (\<lambda>k. bit (0x0f0f0f0f0f0f0f0f :: int) k \<longleftrightarrow> even (k div 4)) [0..<64]"
  "list_all (\<lambda>k. bit (0x00ff00ff00ff00ff :: int) k \<longleftrightarrow> even (k div 8)) [0..<64]"
  "list_all (\<lambda>k. bit (0xffff0000ffff :: int) k \<longleftrightarrow> even (k div 16)) [0..<64]"
  by code_simp+

lemma numeral_stage:
  assumes "list_all (\<lambda>k. bit (numeral m :: int) k \<longleftrightarrow> even (k div s)) [0..<64]" and "k < 64" and "0 < s"
  shows "bit (push_bit s (x AND numeral m) OR (drop_bit s x AND numeral m)) k \<longleftrightarrow> bit (x :: u64) (swap_index s k)"
proof (rule swap_stage [OF _ assms(2,3)])
  show "bit (numeral m :: u64) j \<longleftrightarrow> even (j div s)" if "j < 64" for j
    using all_bits [OF assms(1) that] that unfolding bit_numeral_word_iff by auto
qed

definition half_index :: "nat \<Rightarrow> nat" where
  "half_index k = (if k < 32 then k + 32 else k - 32)"

lemma swap_index_less:
  assumes "k < s * (2 * c)" and "0 < s"
  shows "swap_index s k < s * (2 * c)"
proof (cases "odd (k div s)")
  case False
  have "k div s < 2 * c" using assms(1) by (simp add: less_mult_imp_div_less mult.commute)
  then have "k div s + 2 \<le> 2 * c" using False by (auto elim!: evenE)
  then have "s * (k div s + 2) \<le> s * (2 * c)" by (rule mult_le_mono2)
  moreover have "k < s * (k div s) + s" using assms(2) mult_div_mod_eq [of s k] mod_less_divisor [of s k] by linarith
  ultimately show ?thesis using False by (simp add: swap_index_def)
qed (use assms in \<open>simp add: swap_index_def less_imp_diff_less\<close>)

lemma index_bounds:
  "k < 64 \<Longrightarrow> half_index k < 64" "k < 64 \<Longrightarrow> swap_index 16 k < 64" "k < 64 \<Longrightarrow> swap_index 8 k < 64"
  "k < 64 \<Longrightarrow> swap_index 4 k < 64" "k < 64 \<Longrightarrow> swap_index 2 k < 64"
  using swap_index_less [of k 16 2] swap_index_less [of k 8 4] swap_index_less [of k 4 8] swap_index_less [of k 2 16]
  by (simp_all add: half_index_def less_imp_diff_less)

lemma bit_indices:
  "[0..<64] = [0, 1, 2, 3, 4, 5, 6, 7, 8, 9, 10, 11, 12, 13, 14, 15, 16, 17, 18, 19, 20, 21, 22, 23, 24, 25, 26,
    27, 28, 29, 30, 31, 32, 33, 34, 35, 36, 37, 38, 39, 40, 41, 42, 43, 44, 45, 46, 47, 48, 49, 50, 51,
    52, 53, 54, 55, 56, 57, 58, 59, 60, 61, 62, 63]"
  by (simp add: upt_rec)

lemma reversed_index:
  "list_all (\<lambda>k. swap_index 1 (swap_index 2 (swap_index 4 (swap_index 8 (swap_index 16 (half_index k))))) = 63 - k) [0..<64]"
  unfolding bit_indices by (simp add: swap_index_def half_index_def)

lemma bit_rev64: "k < 64 \<Longrightarrow> bit (rev64 x) k \<longleftrightarrow> bit x (63 - k)"
proof -
  assume k: "k < 64"
  have top: "bit (push_bit 32 w OR drop_bit 32 w) k \<longleftrightarrow> bit w (half_index k)" for w :: u64
    using k by (auto simp: half_index_def bit_or_iff bit_push_bit_iff bit_drop_bit_eq add.commute dest: bit_imp_le_length)
  define a b c d e where "a = half_index k" and "b = swap_index 16 a" and "c = swap_index 8 b" and "d = swap_index 4 c" and "e = swap_index 2 d"
  have j: "a < 64" "b < 64" "c < 64" "d < 64" "e < 64"
    unfolding a_def b_def c_def d_def e_def using k by (simp_all only: index_bounds)
  have last: "swap_index 1 e = 63 - k"
    unfolding a_def b_def c_def d_def e_def by (rule all_bits [OF reversed_index k])
  note stages = numeral_stage [OF stage_tables(5) j(1)] numeral_stage [OF stage_tables(4) j(2)]
    numeral_stage [OF stage_tables(3) j(3)] numeral_stage [OF stage_tables(2) j(4)] numeral_stage [OF stage_tables(1) j(5)]
  note stages = stages [unfolded b_def [symmetric] c_def [symmetric] d_def [symmetric] e_def [symmetric] last]
  show ?thesis
    unfolding rev64_def Let_def top a_def [symmetric] by (simp only: stages zero_less_numeral zero_less_one)
qed

subsection \<open>The product\<close>

lemma bit_high: "k < 63 \<Longrightarrow> bit (drop_bit 1 (rev64 (bmul64 (rev64 x) (rev64 y)))) k \<longleftrightarrow> bit (clmul x y) (64 + k)"
proof -
  assume k: "k < 63"
  have "coefficient (rev64 x) (rev64 y) (62 - k) = (\<Sum>s<64. of_bool (s \<le> 62 - k \<and> bit x (63 - s) \<and> bit y (k + 1 + s)))"
    unfolding coefficient_def
  proof (rule sum.cong [OF refl])
    fix s :: nat assume s: "s \<in> {..<64}"
    have "s \<le> 62 - k \<Longrightarrow> 63 - (62 - k - s) = k + 1 + s" using k by simp
    then show "of_bool (s \<le> 62 - k \<and> bit (rev64 x) s \<and> bit (rev64 y) (62 - k - s))
        = (of_bool (s \<le> 62 - k \<and> bit x (63 - s) \<and> bit y (k + 1 + s)) :: nat)"
      using s by (auto simp: bit_rev64)
  qed
  also have "\<dots> = (\<Sum>s<64. of_bool (63 - s \<le> 62 - k \<and> bit x (63 - (63 - s)) \<and> bit y (k + 1 + (63 - s))))"
    using sum.nat_diff_reindex [of "\<lambda>s. of_bool (s \<le> 62 - k \<and> bit x (63 - s) \<and> bit y (k + 1 + s)) :: nat" 64]
    by (simp del: of_bool_eq_iff sum_of_bool_eq)
  also have "\<dots> = coefficient x y (64 + k)"
    unfolding coefficient_def
  proof (rule sum.cong [OF refl])
    fix s :: nat assume s: "s \<in> {..<64}"
    have "k + 1 + (63 - s) = 64 + k - s" using s by auto
    moreover have "bit y (64 + k - s) \<Longrightarrow> 63 - s \<le> 62 - k" using s k by (auto dest!: bit_imp_le_length)
    ultimately show "of_bool (63 - s \<le> 62 - k \<and> bit x (63 - (63 - s)) \<and> bit y (k + 1 + (63 - s)))
        = (of_bool (s \<le> 64 + k \<and> bit x s \<and> bit y (64 + k - s)) :: nat)"
      using s by auto
  qed
  finally show ?thesis
    using k by (simp add: bit_drop_bit_eq bit_rev64 bit_bmul64 bit_clmul)
qed

lemma clmul_top: "\<not> bit (clmul x y) 127"
proof -
  have "coefficient x y 127 = 0"
    unfolding coefficient_def by (auto dest!: bit_imp_le_length)
  then show ?thesis by (simp add: bit_clmul)
qed

lemma bmul64_low: "bmul64 x y = ucast (clmul x y)"
  by (rule bit_word_eqI) (simp add: bit_ucast_iff bit_bmul64 bit_clmul)

lemma bmul64_high: "drop_bit 1 (rev64 (bmul64 (rev64 x) (rev64 y))) = ucast (drop_bit 64 (clmul x y))"
proof (rule bit_word_eqI)
  fix k assume "k < LENGTH(64)"
  then consider "k < 63" | "k = 63" by fastforce
  then show "bit (drop_bit 1 (rev64 (bmul64 (rev64 x) (rev64 y)))) k = bit (ucast (drop_bit 64 (clmul x y)) :: u64) k"
  proof cases
    case 1 then show ?thesis using bit_high [OF 1] by (simp add: bit_ucast_iff bit_drop_bit_eq)
  next
    case 2 then show ?thesis using clmul_top by (auto simp: bit_ucast_iff bit_drop_bit_eq dest: bit_imp_le_length)
  qed
qed

text \<open>The operands in the low lanes, and the two lanes of the product joined.\<close>

definition join_lanes :: "u64 \<Rightarrow> u64 \<Rightarrow> u128" where
  "join_lanes l u = ucast l OR push_bit 64 (ucast u)"

lemma join_halves: "join_lanes (ucast p) (ucast (drop_bit 64 p)) = p"
  unfolding join_lanes_def
  by (rule bit_word_eqI) (auto simp: bit_or_iff bit_push_bit_iff bit_ucast_iff bit_drop_bit_eq)

definition mul_assign :: "(u128 \<Rightarrow> u64) \<Rightarrow> u64 \<Rightarrow> u64 \<Rightarrow> u64" where
  "mul_assign red a b = (let product = carryless_mul False False (a, 0) (b, 0) in
     red (join_lanes (fst product) (snd product)))"

lemma mul_assign: "mul_assign red a b = clmul_reduced red a b"
  unfolding mul_assign_def carryless_mul_def Let_def bmul64_high
  by (simp only: if_False fst_conv snd_conv bmul64_low join_halves clmul_reduced_def)

text \<open>
  C19. The scalar carry-less multiplication returns the two halves of the product of the
  polynomials, for all operands and both choices of their lanes: the products of the bits of one
  residue do not carry into each other, and the reversed operands give the high half.
\<close>

theorem carryless_mul_product:
  "carryless_mul hi_other hi_self a b =
     (let p = clmul (if hi_self then snd a else fst a) (if hi_other then snd b else fst b) in (ucast p, ucast (drop_bit 64 p)))"
  unfolding carryless_mul_def Let_def bmul64_high unfolding bmul64_low ..

end
