(* ===== verification/Binary_Reductions.thy ===== *)
theory Binary_Reductions
  imports Carryless_Scalar
begin

text \<open>
  The reductions of src/scuttlebutt/src/field/small_binary_fields.rs for the fields of 2 ^ 40,
  2 ^ 45, 2 ^ 56 and 2 ^ 63 elements, the vectored one, and the polynomials they reduce by. A
  \<open>U64x2\<close> is a 128-bit word, lane 0 low. Each reduction is linear, so that its values on the
  powers of the indeterminate, evaluated on integers, make it an instance of the locale
  \<open>polynomial_reduction\<close>.
\<close>

unbundle bit_operations_syntax

subsection \<open>The code\<close>

abbreviation (input) lane :: "nat \<Rightarrow> u128 \<Rightarrow> u64" where
  "lane i x \<equiv> ucast (drop_bit (64 * i) x)"

definition reduce_f63b :: "u128 \<Rightarrow> u64" where
  "reduce_f63b product =
     (let lower = lane 0 product; upper = lane 1 product;
          reduced = lower XOR drop_bit 63 lower XOR push_bit 1 upper XOR (drop_bit 62 lower AND 0b10) XOR push_bit 2 upper in
      reduced AND (push_bit 63 1 - 1))"

definition reduce_f40b :: "u128 \<Rightarrow> u64" where
  "reduce_f40b product =
     (let r_lower = lane 0 product; the_upper = lane 1 product;
          upper_mask = 0xffff; lower_mask = 0xFFFFFFFFFF;
          t = push_bit 24 (the_upper AND upper_mask) OR drop_bit 40 r_lower;
          r_upper = t XOR drop_bit 35 t XOR drop_bit 36 t XOR drop_bit 37 t;
          r_lower = r_lower XOR push_bit 5 r_upper XOR push_bit 4 r_upper XOR push_bit 3 r_upper XOR push_bit 0 r_upper in
      lower_mask AND r_lower)"

text \<open>The vectored reduction, for each pair of lanes on its own.\<close>

definition reduce_vectored_lane :: "u64 \<Rightarrow> u64 \<Rightarrow> u64" where
  "reduce_vectored_lane upper lower =
     (let shr_63 = drop_bit 63 lower;
          unmasked = lower XOR shr_63 XOR push_bit 1 upper XOR push_bit 1 shr_63 XOR push_bit 2 upper in
      drop_bit 1 (push_bit 1 unmasked))"

definition reduce_vectored_f63b :: "(u64 \<times> u64) list \<Rightarrow> (u64 \<times> u64) list \<Rightarrow> (u64 \<times> u64) list" where
  "reduce_vectored_f63b uppers lowers =
     map2 (\<lambda>(u0, u1) (l0, l1). (reduce_vectored_lane u0 l0, reduce_vectored_lane u1 l1)) uppers lowers"

text \<open>The default of the trait: the lanes are unpacked and reduced one by one.\<close>

definition reduce_vectored_default :: "(u128 \<Rightarrow> u64) \<Rightarrow> (u64 \<times> u64) list \<Rightarrow> (u64 \<times> u64) list \<Rightarrow> (u64 \<times> u64) list" where
  "reduce_vectored_default red uppers lowers =
     map2 (\<lambda>(u0, u1) (l0, l1). (red (join_lanes l0 u0), red (join_lanes l1 u1))) uppers lowers"

definition reduce_f56b :: "u128 \<Rightarrow> u64" where
  "reduce_f56b x = ucast (
        (drop_bit 0 x AND 0b0000000011111111111111111111111111111111111111111111111111111111)
        XOR (drop_bit 48 x AND 0b0000000011111111111111111111111111111111111111111111111100000000)
        XOR (drop_bit 53 x AND 0b0000011111111111111111111111111111111111111111111111111111000)
        XOR (drop_bit 54 x AND 0b000011111111111111111111111111111111111111111111111111111100)
        XOR (drop_bit 56 x AND 0b0011111111111111111111111111111111111111111111111111111111)
        XOR (drop_bit 96 x AND 0b111111111100000000)
        XOR (drop_bit 101 x AND 0b0000011111000)
        XOR (drop_bit 102 x AND 0b000011111100)
        XOR (drop_bit 104 x AND 0b0011111111)
        XOR (drop_bit 106 x AND 0b11111000)
        XOR (drop_bit 107 x AND 0b0000100)
        XOR (drop_bit 108 x AND 0b111100)
        XOR (drop_bit 109 x AND 0b00111)
        XOR (drop_bit 110 x AND 0b0011)
        XOR (drop_bit 112 x AND 0b11))"

definition reduce_f45b :: "u128 \<Rightarrow> u64" where
  "reduce_f45b wide_product = ucast (
        (drop_bit 0 wide_product AND 0b0000000000000000000111111111111111111111111111111111111111111111)
        XOR (drop_bit 17 wide_product AND 0b0000000000000000000111111111111111110000000000000000000000000000)
        XOR (drop_bit 28 wide_product AND 0b0000000000000000000111111111111111111111111111100000000000000000)
        XOR (drop_bit 34 wide_product AND 0b0000000000000000000000000000001111111111111111100000000000)
        XOR (drop_bit 45 wide_product AND 0b00111111111111111110000000000011111111111111111)
        XOR (drop_bit 51 wide_product AND 0b11111111111111111111111111111100000000000)
        XOR (drop_bit 56 wide_product AND 0b111111111111111111100000000000000000)
        XOR (drop_bit 62 wide_product AND 0b110000000000000000011111111111)
        XOR (drop_bit 73 wide_product AND 0b0011111111111111111)
        XOR (drop_bit 79 wide_product AND 0b1100000000000)
        XOR (drop_bit 90 wide_product AND 0b11))"

text \<open>The polynomials, as the constant and the coefficients from the first on.\<close>

definition polynomial_modulus_f63b :: "bool \<times> bool list" where
  "polynomial_modulus_f63b = (True, (replicate 63 False)[63 - 1 := True, 1 - 1 := True])"

definition polynomial_modulus_f40b :: "bool \<times> bool list" where
  "polynomial_modulus_f40b = (True, (replicate 40 False)[40 - 1 := True, 5 - 1 := True, 4 - 1 := True, 3 - 1 := True])"

definition polynomial_modulus_f56b :: "bool \<times> bool list" where
  "polynomial_modulus_f56b = (True, (replicate 56 False)[56 - 1 := True, 8 - 1 := True, 3 - 1 := True, 2 - 1 := True])"

definition polynomial_modulus_f45b :: "bool \<times> bool list" where
  "polynomial_modulus_f45b = (True, (replicate 128 False)[45 - 1 := True, 28 - 1 := True, 17 - 1 := True, 11 - 1 := True])"

definition polynomial_word :: "bool \<times> bool list \<Rightarrow> u64" where
  "polynomial_word = (\<lambda>(c, cs). horner_sum of_bool 2 (c # cs))"

lemma modulus_f40b: "polynomial_word polynomial_modulus_f40b = 0x10000000039"
  by (simp add: polynomial_word_def polynomial_modulus_f40b_def numeral_eq_Suc)

lemma modulus_f45b: "polynomial_word polynomial_modulus_f45b = 0x200010020801"
  by (simp add: polynomial_word_def polynomial_modulus_f45b_def numeral_eq_Suc)

lemma modulus_f56b: "polynomial_word polynomial_modulus_f56b = 0x10000000000010d"
  by (simp add: polynomial_word_def polynomial_modulus_f56b_def numeral_eq_Suc)

lemma modulus_f63b: "polynomial_word polynomial_modulus_f63b = 0x8000000000000003"
  by (simp add: polynomial_word_def polynomial_modulus_f63b_def numeral_eq_Suc)

subsection \<open>Reductions on integers\<close>

lemma uint_drop: "uint (drop_bit k w :: 'a :: len word) = drop_bit k (uint w)"
  by (rule bit_eqI) (auto simp: bit_uint_iff bit_drop_bit_eq dest: bit_imp_le_length)

lemma uint_push: "uint (push_bit k w :: 'a :: len word) = take_bit LENGTH('a) (push_bit k (uint w))"
  by (rule bit_eqI) (auto simp: bit_uint_iff bit_push_bit_iff bit_take_bit_iff)

lemma uint_cast: "uint (ucast (w :: 'a :: len word) :: 'b :: len word) = take_bit LENGTH('b) (uint w)"
  by (rule bit_eqI) (auto simp: bit_uint_iff bit_ucast_iff bit_take_bit_iff dest: bit_imp_le_length)

lemma uint_power_128: "k < 128 \<Longrightarrow> uint (2 ^ k :: u128) = 2 ^ k"
  by (rule bit_eqI) (auto simp: bit_uint_iff bit_two_power bit_exp_iff)

lemmas uint_ops = unsigned_xor_eq unsigned_and_eq unsigned_or_eq uint_drop uint_push uint_cast

lemma table_by_integers:
  assumes "\<And>x. uint (red x) = f (uint x)" and "c \<le> 128" and "map (\<lambda>k. f (2 ^ k)) [0..<c] = ps"
  shows "map (\<lambda>k. uint (red (2 ^ k :: u128))) [0..<c] = ps"
proof -
  have "map (\<lambda>k. uint (red (2 ^ k :: u128))) [0..<c] = map (\<lambda>k. f (2 ^ k)) [0..<c]"
    by (rule map_cong) (use assms(2) in \<open>simp_all add: assms(1) uint_power_128\<close>)
  then show ?thesis using assms(3) by simp
qed

lemmas linear_ops = xor_linear_xor xor_linear_id xor_linear_maps

subsection \<open>F40b\<close>

definition f40b_int :: "int \<Rightarrow> int" where
  "f40b_int x = (let r_lower = take_bit 64 (drop_bit (64 * 0) x); the_upper = take_bit 64 (drop_bit (64 * 1) x);
     t = take_bit 64 (push_bit 24 (the_upper AND 0xffff)) OR drop_bit 40 r_lower;
     r_upper = t XOR drop_bit 35 t XOR drop_bit 36 t XOR drop_bit 37 t;
     r_lower = r_lower XOR take_bit 64 (push_bit 5 r_upper) XOR take_bit 64 (push_bit 4 r_upper)
       XOR take_bit 64 (push_bit 3 r_upper) XOR take_bit 64 (push_bit 0 r_upper) in
     0xFFFFFFFFFF AND r_lower)"

lemma f40b_int: "uint (reduce_f40b x) = f40b_int (uint x)"
proof -
  have literals: "LENGTH(64) = 64" "uint (0xffff :: u64) = 0xffff" "uint (0xFFFFFFFFFF :: u64) = 0xFFFFFFFFFF" by simp_all
  show ?thesis unfolding reduce_f40b_def f40b_int_def Let_def uint_ops literals by (rule refl)
qed

lemma f40b_table: "map (\<lambda>k. f40b_int (2 ^ k)) [0..<79] = ipowers 40 0x10000000039 79 1"
  by code_simp

lemma f40b_linear: "xor_linear reduce_f40b"
proof -
  have disjoint: "push_bit 24 a OR drop_bit 40 b = push_bit 24 a XOR drop_bit 40 b" for a b :: u64
    by (rule bit_word_eqI) (auto simp: bit_or_iff bit_xor_iff bit_push_bit_iff bit_drop_bit_eq dest: bit_imp_le_length)
  show ?thesis unfolding reduce_f40b_def Let_def disjoint by (intro linear_ops)
qed

interpretation f40b: polynomial_reduction 40 "0x10000000039" reduce_f40b
proof (rule binary_modulus.reduction_by_table [OF _ f40b_linear])
  show "binary_modulus 40 0x10000000039" by unfold_locales simp_all
  show "map (\<lambda>k. uint (reduce_f40b (2 ^ k))) [0..<2 * 40 - 1] = ipowers 40 (uint (0x10000000039 :: u64)) (2 * 40 - 1) 1"
    using table_by_integers [OF f40b_int _ f40b_table] by simp
qed

subsection \<open>F45b\<close>

definition f45b_int :: "int \<Rightarrow> int" where
  "f45b_int x = take_bit 64 (
        (drop_bit 0 x AND 0b0000000000000000000111111111111111111111111111111111111111111111)
        XOR (drop_bit 17 x AND 0b0000000000000000000111111111111111110000000000000000000000000000)
        XOR (drop_bit 28 x AND 0b0000000000000000000111111111111111111111111111100000000000000000)
        XOR (drop_bit 34 x AND 0b0000000000000000000000000000001111111111111111100000000000)
        XOR (drop_bit 45 x AND 0b00111111111111111110000000000011111111111111111)
        XOR (drop_bit 51 x AND 0b11111111111111111111111111111100000000000)
        XOR (drop_bit 56 x AND 0b111111111111111111100000000000000000)
        XOR (drop_bit 62 x AND 0b110000000000000000011111111111)
        XOR (drop_bit 73 x AND 0b0011111111111111111)
        XOR (drop_bit 79 x AND 0b1100000000000)
        XOR (drop_bit 90 x AND 0b11))"

lemma f45b_int: "uint (reduce_f45b x) = f45b_int (uint x)"
  unfolding reduce_f45b_def f45b_int_def by (simp only: uint_ops) simp

lemma f45b_table: "map (\<lambda>k. f45b_int (2 ^ k)) [0..<89] = ipowers 45 0x200010020801 89 1"
  by code_simp

lemma f45b_linear: "xor_linear reduce_f45b"
  unfolding reduce_f45b_def by (intro linear_ops)

interpretation f45b: polynomial_reduction 45 "0x200010020801" reduce_f45b
proof (rule binary_modulus.reduction_by_table [OF _ f45b_linear])
  show "binary_modulus 45 0x200010020801" by unfold_locales simp_all
  show "map (\<lambda>k. uint (reduce_f45b (2 ^ k))) [0..<2 * 45 - 1] = ipowers 45 (uint (0x200010020801 :: u64)) (2 * 45 - 1) 1"
    using table_by_integers [OF f45b_int _ f45b_table] by simp
qed

subsection \<open>F56b\<close>

definition f56b_int :: "int \<Rightarrow> int" where
  "f56b_int x = take_bit 64 (
        (drop_bit 0 x AND 0b0000000011111111111111111111111111111111111111111111111111111111)
        XOR (drop_bit 48 x AND 0b0000000011111111111111111111111111111111111111111111111100000000)
        XOR (drop_bit 53 x AND 0b0000011111111111111111111111111111111111111111111111111111000)
        XOR (drop_bit 54 x AND 0b000011111111111111111111111111111111111111111111111111111100)
        XOR (drop_bit 56 x AND 0b0011111111111111111111111111111111111111111111111111111111)
        XOR (drop_bit 96 x AND 0b111111111100000000)
        XOR (drop_bit 101 x AND 0b0000011111000)
        XOR (drop_bit 102 x AND 0b000011111100)
        XOR (drop_bit 104 x AND 0b0011111111)
        XOR (drop_bit 106 x AND 0b11111000)
        XOR (drop_bit 107 x AND 0b0000100)
        XOR (drop_bit 108 x AND 0b111100)
        XOR (drop_bit 109 x AND 0b00111)
        XOR (drop_bit 110 x AND 0b0011)
        XOR (drop_bit 112 x AND 0b11))"

lemma f56b_int: "uint (reduce_f56b x) = f56b_int (uint x)"
  unfolding reduce_f56b_def f56b_int_def by (simp only: uint_ops) simp

lemma f56b_table: "map (\<lambda>k. f56b_int (2 ^ k)) [0..<111] = ipowers 56 0x10000000000010d 111 1"
  by code_simp

lemma f56b_linear: "xor_linear reduce_f56b"
  unfolding reduce_f56b_def by (intro linear_ops)

interpretation f56b: polynomial_reduction 56 "0x10000000000010d" reduce_f56b
proof (rule binary_modulus.reduction_by_table [OF _ f56b_linear])
  show "binary_modulus 56 0x10000000000010d" by unfold_locales simp_all
  show "map (\<lambda>k. uint (reduce_f56b (2 ^ k))) [0..<2 * 56 - 1] = ipowers 56 (uint (0x10000000000010d :: u64)) (2 * 56 - 1) 1"
    using table_by_integers [OF f56b_int _ f56b_table] by simp
qed

subsection \<open>F63b\<close>

definition f63b_int :: "int \<Rightarrow> int" where
  "f63b_int x = (let lower = take_bit 64 (drop_bit (64 * 0) x); upper = take_bit 64 (drop_bit (64 * 1) x);
     reduced = lower XOR drop_bit 63 lower XOR take_bit 64 (push_bit 1 upper) XOR (drop_bit 62 lower AND 0b10)
       XOR take_bit 64 (push_bit 2 upper) in
     reduced AND 0x7FFFFFFFFFFFFFFF)"

lemma f63b_int: "uint (reduce_f63b x) = f63b_int (uint x)"
proof -
  have literals: "LENGTH(64) = 64" "uint (0b10 :: u64) = 0b10" "uint (push_bit 63 1 - 1 :: u64) = 0x7FFFFFFFFFFFFFFF" by simp_all
  show ?thesis unfolding reduce_f63b_def f63b_int_def Let_def uint_ops literals by (rule refl)
qed

lemma f63b_table: "map (\<lambda>k. f63b_int (2 ^ k)) [0..<125] = ipowers 63 0x8000000000000003 125 1"
  by code_simp

lemma f63b_linear: "xor_linear reduce_f63b"
  unfolding reduce_f63b_def Let_def by (intro linear_ops)

interpretation f63b: polynomial_reduction 63 "0x8000000000000003" reduce_f63b
proof (rule binary_modulus.reduction_by_table [OF _ f63b_linear])
  show "binary_modulus 63 0x8000000000000003" by unfold_locales simp_all
  show "map (\<lambda>k. uint (reduce_f63b (2 ^ k))) [0..<2 * 63 - 1] = ipowers 63 (uint (0x8000000000000003 :: u64)) (2 * 63 - 1) 1"
    using table_by_integers [OF f63b_int _ f63b_table] by simp
qed

subsection \<open>The vectored reduction\<close>

lemma lane_join: "lane 0 (join_lanes l u) = l" "lane 1 (join_lanes l u) = u"
  unfolding join_lanes_def
  by (intro bit_word_eqI; auto simp: bit_ucast_iff bit_drop_bit_eq bit_or_iff bit_push_bit_iff dest: bit_imp_le_length)+

lemma bit_of_top: "drop_bit 62 w AND 0b10 = push_bit 1 (drop_bit 63 w :: u64)"
proof (rule bit_word_eqI)
  fix k assume "k < LENGTH(64)"
  moreover have "bit (0b10 :: u64) k \<longleftrightarrow> k = 1" using bit_two_power [where 'a = 64, of 1 k] by simp
  ultimately show "bit (drop_bit 62 w AND 0b10) k = bit (push_bit 1 (drop_bit 63 w)) k"
    by (auto simp: bit_and_iff bit_drop_bit_eq bit_push_bit_iff simp del: push_bit_Suc dest: bit_imp_le_length)
qed

lemma reduce_vectored_lane: "reduce_vectored_lane u l = reduce_f63b (join_lanes l u)"
proof -
  have "drop_bit 1 (push_bit 1 w) = w AND (push_bit 63 1 - 1)" for w :: u64
  proof -
    have "drop_bit 1 (push_bit 1 w) = take_bit 63 w"
      by (rule bit_word_eqI) (auto simp: bit_drop_bit_eq bit_push_bit_iff bit_take_bit_iff simp del: push_bit_Suc dest: bit_imp_le_length)
    then show ?thesis by (simp add: take_bit_eq_mask mask_eq_exp_minus_1)
  qed
  then show ?thesis
    unfolding reduce_vectored_lane_def reduce_f63b_def Let_def lane_join bit_of_top by (simp only: ac_simps)
qed

end
