(* ===== verification/Binary_Field.thy ===== *)
theory Binary_Field
  imports Carryless Channel
begin

text \<open>
  What the macro \<open>small_binary_field\<close> of src/scuttlebutt/src/field/small_binary_fields.rs defines
  for every field, over its number of bits and its reduction; the locale of a reduction by an
  irreducible polynomial, with a certificate of irreducibility that evaluates; and its rules for
  the type of the elements.
\<close>

unbundle bit_operations_syntax

subsection \<open>Elements\<close>

definition fb_from_lower_bits :: "nat \<Rightarrow> u64 \<Rightarrow> u64" where
  "fb_from_lower_bits n x = x AND (push_bit n 1 - 1)"

definition fb_add_assign :: "u64 \<Rightarrow> u64 \<Rightarrow> u64" where
  "fb_add_assign a b = a XOR b"

definition fb_sub_assign :: "u64 \<Rightarrow> u64 \<Rightarrow> u64" where
  "fb_sub_assign a b = fb_add_assign a b"

definition fb_neg :: "u64 \<Rightarrow> u64" where
  "fb_neg a = fb_sub_assign 0 a"

lemmas fb_ops = fb_add_assign_def fb_sub_assign_def fb_neg_def

definition byte_repr_len :: "nat \<Rightarrow> nat" where
  "byte_repr_len n = (7 + n) div 8"

definition fb_from_bytes :: "nat \<Rightarrow> u8 list \<Rightarrow> u64 res" where
  "fb_from_bytes n bs =
     (let buf = bs @ replicate (8 - byte_repr_len n) 0; raw = u64_from_le_bytes buf in
      if drop_bit n raw = 0 then Inr raw else Inl Err)"

definition fb_to_bytes :: "nat \<Rightarrow> u64 \<Rightarrow> u8 list" where
  "fb_to_bytes n x = take (byte_repr_len n) (u64_to_le_bytes x)"

definition fb_decompose :: "nat \<Rightarrow> u64 \<Rightarrow> F2 list" where
  "fb_decompose n x = map (\<lambda>shift. F2_of_bool (drop_bit shift x AND 1 \<noteq> 0)) [0..<n]"

definition fb_form_superfield :: "F2 list \<Rightarrow> u64" where
  "fb_form_superfield components = foldl (\<lambda>out x. push_bit 1 out OR ucast (Rep_F2 x)) 0 (rev components)"

definition f2_mul_fb :: "F2 \<Rightarrow> u64 \<Rightarrow> u64" where
  "f2_mul_fb a x = NOT (ucast (Rep_F2 a) - 1) AND x"

definition fb_inverse :: "nat \<Rightarrow> 'a :: comm_ring_1 \<Rightarrow> 'a res" where
  "fb_inverse n x = (if x = 0 then Inl Panic else Inr (pow_var_time x (push_bit n 1 - 2)))"

lemma fb_from_lower_bits: "fb_from_lower_bits n x = take_bit n x"
  by (simp add: fb_from_lower_bits_def take_bit_eq_mask mask_eq_exp_minus_1 push_bit_eq_mult)

lemma f2_mul_fb: "f2_mul_fb a x = (if a = 1 then x else 0)"
  by (cases a rule: F2_cases) (simp_all add: f2_mul_fb_def zero_F2.rep_eq one_F2.rep_eq)

lemma fb_form_superfield_Nil: "fb_form_superfield [] = 0"
  by (simp add: fb_form_superfield_def)

lemma fb_form_superfield_Cons:
  "fb_form_superfield (x # xs) = push_bit 1 (fb_form_superfield xs) OR ucast (Rep_F2 x)"
  by (simp add: fb_form_superfield_def)

lemma bit_fb_form_superfield:
  "k < 64 \<Longrightarrow> bit (fb_form_superfield xs) k \<longleftrightarrow> k < length xs \<and> xs ! k = 1"
proof (induction xs arbitrary: k)
  case (Cons x xs)
  then show ?case
    using bit_Rep_F2 [of k 0 x] Cons.IH [of "k - 1"]
    by (cases k) (auto simp: fb_form_superfield_Cons bit_or_iff bit_push_bit_iff bool_of_F2_iff simp del: push_bit_Suc)
qed (simp add: fb_form_superfield_Nil)

lemma fb_form_superfield_fits: "take_bit (length xs) (fb_form_superfield xs) = fb_form_superfield xs"
  by (rule bit_word_eqI) (auto simp: bit_take_bit_iff bit_fb_form_superfield)

lemma nth_fb_decompose: "k < n \<Longrightarrow> fb_decompose n x ! k = F2_of_bool (bit x k)"
  using test_bit_u64 [of x k] by (simp add: fb_decompose_def and_one_eq bit_iff_odd_drop_bit mod2_eq_if)

lemma fb_form_decompose: "take_bit n x = x \<Longrightarrow> fb_form_superfield (fb_decompose n x) = x"
proof (rule bit_word_eqI)
  fix k assume x: "take_bit n x = x" and "k < LENGTH(64)"
  moreover have "bit x k \<Longrightarrow> k < n" using x by (metis bit_take_bit_iff)
  moreover have "length (fb_decompose n x) = n" by (simp add: fb_decompose_def)
  ultimately show "bit (fb_form_superfield (fb_decompose n x)) k = bit x k"
    by (auto simp: bit_fb_form_superfield nth_fb_decompose F2_of_bool_def split: if_splits)
qed

lemma fb_decompose_form: "length xs \<le> 64 \<Longrightarrow> fb_decompose (length xs) (fb_form_superfield xs) = xs"
proof (rule nth_equalityI)
  fix k assume n: "length xs \<le> 64" and "k < length (fb_decompose (length xs) (fb_form_superfield xs))"
  then have k: "k < length xs" by (simp add: fb_decompose_def)
  with n show "fb_decompose (length xs) (fb_form_superfield xs) ! k = xs ! k"
    by (cases "xs ! k" rule: F2_cases) (simp_all add: nth_fb_decompose bit_fb_form_superfield F2_of_bool_def)
qed (simp add: fb_decompose_def)

subsection \<open>Bytes\<close>

lemma length_fb_to_bytes: "n \<le> 64 \<Longrightarrow> length (fb_to_bytes n x) = byte_repr_len n"
  by (simp add: fb_to_bytes_def byte_repr_len_def)

lemma bit_fb_padded:
  assumes "n \<le> 64" and "length bs = byte_repr_len n" and "k < 64"
  shows "bit (u64_from_le_bytes (bs @ replicate (8 - byte_repr_len n) 0)) k \<longleftrightarrow> k div 8 < length bs \<and> bit (bs ! (k div 8)) (k mod 8)"
  using assms by (auto simp: bit_u64_from_le_bytes nth_append byte_repr_len_def)

lemma fb_from_to_bytes:
  assumes "n \<le> 64" and "take_bit n x = x"
  shows "fb_from_bytes n (fb_to_bytes n x) = Inr x"
proof -
  let ?w = "u64_from_le_bytes (fb_to_bytes n x @ replicate (8 - byte_repr_len n) 0)"
  have low: "bit x k \<Longrightarrow> k < n" for k using assms(2) by (metis bit_take_bit_iff)
  have "?w = x"
  proof (rule bit_word_eqI)
    fix k assume "k < LENGTH(64)"
    then have k: "k < 64" by simp
    have "k < n \<Longrightarrow> k div 8 < byte_repr_len n" by (simp add: byte_repr_len_def less_mult_imp_div_less)
    then show "bit ?w k = bit x k"
      using low [of k] k bit_fb_padded [OF assms(1) length_fb_to_bytes [OF assms(1)] k] length_fb_to_bytes [OF assms(1), of x]
      by (auto simp: fb_to_bytes_def u64_to_le_bytes_def bit_simps less_mult_imp_div_less)
  qed
  moreover have "drop_bit n x = 0"
    by (rule bit_word_eqI) (use low in \<open>auto simp: bit_drop_bit_eq\<close>)
  ultimately show ?thesis by (simp add: fb_from_bytes_def)
qed

lemma fb_from_bytes_fits: "fb_from_bytes n bs = Inr x \<Longrightarrow> take_bit n x = x"
proof -
  assume "fb_from_bytes n bs = Inr x"
  then have "drop_bit n x = 0" by (auto simp: fb_from_bytes_def Let_def split: if_splits)
  then show ?thesis using bits_ident [of n x] by simp
qed

lemma fb_to_from_bytes:
  assumes "n \<le> 64" and "length bs = byte_repr_len n" and "fb_from_bytes n bs = Inr x"
  shows "fb_to_bytes n x = bs"
proof -
  let ?buf = "bs @ replicate (8 - byte_repr_len n) 0"
  have "length ?buf = 8" using assms(1,2) by (auto simp: byte_repr_len_def)
  moreover have "x = u64_from_le_bytes ?buf"
    using assms(3) by (auto simp: fb_from_bytes_def Let_def split: if_splits)
  ultimately show ?thesis using assms(2) by (simp add: fb_to_bytes_def u64_to_from_le_bytes)
qed

subsection \<open>Squares and their certificate\<close>

text \<open>
  Tables of a linear map on integers: \<open>ilin\<close> applies one, \<open>isquares\<close> is the one of the squares
  of the powers of the indeterminate.
\<close>

primrec isquares :: "nat \<Rightarrow> int \<Rightarrow> nat \<Rightarrow> int \<Rightarrow> int list" where
  "isquares n m 0 r = []"
| "isquares n m (Suc c) r = r # isquares n m c (istep n m (istep n m r))"

fun ilin :: "int list \<Rightarrow> int \<Rightarrow> int" where
  "ilin [] y = 0"
| "ilin (t # ts) y = (if odd y then t XOR ilin ts (y div 2) else ilin ts (y div 2))"

primrec iterate_lin :: "nat \<Rightarrow> int list \<Rightarrow> int \<Rightarrow> int" where
  "iterate_lin 0 ts y = y"
| "iterate_lin (Suc k) ts y = iterate_lin k ts (ilin ts y)"

text \<open>A power of the indeterminate, from the table of squares and the bits of the exponent.\<close>

primrec generator_power :: "nat \<Rightarrow> int \<Rightarrow> int list \<Rightarrow> nat \<Rightarrow> int \<Rightarrow> int" where
  "generator_power n m sq 0 e = 1"
| "generator_power n m sq (Suc c) e =
     (let y = ilin sq (generator_power n m sq c (e div 2)) in if odd e then istep n m y else y)"

text \<open>
  The polynomial divides \<open>x ^ 2 ^ n - x\<close>, and \<open>L\<close> inverts \<open>a * a + a\<close> up to the constant term.
\<close>

definition irreducible_by :: "nat \<Rightarrow> int \<Rightarrow> int list \<Rightarrow> bool" where
  "irreducible_by n m L \<longleftrightarrow> (let sq = isquares n m n 1 in
     iterate_lin n sq 2 = 2 \<and>
     map (\<lambda>(s, k). ilin L (s XOR 2 ^ k)) (zip sq [0..<n]) = 0 # map (\<lambda>k. 2 ^ k) [1..<n])"

lemma ilin_zero [simp]: "ilin ts 0 = 0"
  by (induction ts) simp_all

lemma int_xor_div: "(x XOR y) div 2 = (x div 2 XOR y div 2 :: int)"
  using drop_bit_xor [of 1 x y] by (simp add: drop_bit_eq_div)

lemma ilin_xor: "ilin ts (x XOR y) = ilin ts x XOR ilin ts y"
proof (induction ts arbitrary: x y)
  case (Cons t ts)
  have "odd (x XOR y) \<longleftrightarrow> odd x \<noteq> odd y" using bit_xor_iff [of x y 0] by (simp add: bit_0)
  then show ?case by (auto simp: int_xor_div Cons ac_simps)
qed simp

lemma ilin_power: "j < length ts \<Longrightarrow> ilin ts (2 ^ j) = ts ! j"
proof (induction ts arbitrary: j)
  case (Cons t ts)
  then show ?case by (cases j) simp_all
qed simp

lemma uint_power: "k < 64 \<Longrightarrow> uint (2 ^ k :: u64) = 2 ^ k"
  by (rule bit_eqI) (auto simp: bit_uint_iff bit_two_power bit_exp_iff)

lemma power_and_one: "(2 ^ k AND 1 :: u64) = (if k = 0 then 1 else 0)"
  by (rule bit_word_eqI) (auto simp: bit_and_iff bit_two_power bit_1_iff)

lemma ilin_table:
  fixes f :: "u64 \<Rightarrow> u64"
  assumes "xor_linear f" and "length ts \<le> 64" and "\<And>k. k < length ts \<Longrightarrow> ts ! k = uint (f (2 ^ k))" and "take_bit (length ts) y = y"
  shows "ilin ts (uint y) = uint (f y)"
  using assms(4)
proof (induction y rule: basis_induct)
  case zero then show ?case by (simp add: xor_linear_zero [OF assms(1)])
next
  case (power k)
  have "uint (2 ^ k :: u64) = 2 ^ k" using power assms(2) by (simp add: uint_power)
  then show ?case using power assms(3) by (simp add: ilin_power)
next
  case (xor x y)
  then show ?case by (simp add: unsigned_xor_eq ilin_xor xor_linearD [OF assms(1)])
qed

subsection \<open>Reduction by an irreducible polynomial\<close>

locale binary_field = polynomial_reduction +
  fixes L :: "int list"
  assumes irreducible: "irreducible_by n (uint m) L"
begin

abbreviation sq :: "u64 \<Rightarrow> u64" where
  "sq a \<equiv> times a a"

lemma isquares: "fits r \<Longrightarrow> isquares n (uint m) c (uint r) = map (\<lambda>k. uint ((step ^^ (2 * k)) r)) [0..<c]"
proof (induction c arbitrary: r)
  case (Suc c)
  have "isquares n (uint m) c (istep n (uint m) (istep n (uint m) (uint r)))
      = map (\<lambda>k. uint ((step ^^ (2 * k)) (step (step r)))) [0..<c]"
    using Suc.IH [of "step (step r)"] Suc.prems by (simp add: step_fits uint_step)
  also have "\<dots> = map (\<lambda>k. uint ((step ^^ (2 * Suc k)) r)) [0..<c]"
    by (simp add: funpow_Suc_right del: funpow.simps)
  finally show ?case by (simp add: upt_conv_Cons map_Suc_upt [symmetric] del: upt_Suc)
qed simp

lemma sq_power: "k < n \<Longrightarrow> sq (2 ^ k) = (step ^^ (2 * k)) 1"
  using step_one [of k] funpow_fits [of 1] take_bit_two_power [of k n] times_power [of k "2 ^ k"]
  by (metis comp_apply funpow_add mult_2)

lemma sq_linear: "xor_linear sq"
proof -
  have "sq (x XOR y) = sq x XOR sq y" for x y
    by (simp add: xor_linearD [OF times_left] xor_linearD [OF times_right] times_commute [of y x] ac_simps bit.xor_left_self)
  then show ?thesis by (simp add: xor_linear_def)
qed

lemma times_sum: "times (a XOR b) c = times a c XOR times b c"
  by (rule xor_linearD [OF times_left])

lemma sq_fits: "fits a \<Longrightarrow> fits (sq a)"
  by (rule times_fits)

lemma squares: "isquares n (uint m) n 1 = map (\<lambda>k. uint (sq (2 ^ k))) [0..<n]"
  using isquares [OF one_fits, of n] by (simp add: sq_power)

lemma uint_sq: "fits a \<Longrightarrow> ilin (isquares n (uint m) n 1) (uint a) = uint (sq a)"
  using ilin_table [OF sq_linear, of "isquares n (uint m) n 1" a] degree by (simp add: squares)

lemma uint_frobenius: "fits a \<Longrightarrow> iterate_lin k (isquares n (uint m) n 1) (uint a) = uint ((sq ^^ k) a)"
proof (induction k arbitrary: a)
  case (Suc k)
  then show ?case by (simp add: uint_sq sq_fits funpow_Suc_right del: funpow.simps)
qed simp

lemma frobenius_fits: "fits a \<Longrightarrow> fits ((sq ^^ k) a)"
  by (induction k) (simp_all add: sq_fits)

lemma frobenius_times: "fits a \<Longrightarrow> fits b \<Longrightarrow> (sq ^^ k) (times a b) = times ((sq ^^ k) a) ((sq ^^ k) b)"
proof (induction k)
  case (Suc k)
  define x y where "x = (sq ^^ k) a" and "y = (sq ^^ k) b"
  have xy: "fits x" "fits y" using Suc.prems by (simp_all add: x_def y_def frobenius_fits)
  have "sq (times x y) = times x (times y (times x y))" by (rule times_assoc) (simp_all add: xy times_fits)
  also have "times y (times x y) = times x (sq y)"
    unfolding times_commute [of x y] times_commute [of x "sq y"] by (rule times_assoc [symmetric]) (simp_all add: xy)
  also have "times x (times x (sq y)) = times (sq x) (sq y)" by (rule times_assoc [symmetric]) (simp_all add: xy times_fits)
  finally have "sq (times x y) = times (sq x) (sq y)" .
  then show ?case using Suc by (simp add: x_def y_def)
qed simp

text \<open>Every element is a root of \<open>x ^ 2 ^ n - x\<close>, and the idempotents are 0 and 1.\<close>

lemma cycle: "1 < n \<Longrightarrow> (sq ^^ n) 2 = 2"
proof -
  assume n: "1 < n"
  have two: "fits 2" using take_bit_two_power [of 1 n] n by simp
  have "uint ((sq ^^ n) 2) = uint (2 :: u64)"
    using irreducible uint_frobenius [OF two, of n] by (simp add: irreducible_by_def Let_def)
  then show ?thesis by (simp only: word_uint_eq_iff)
qed

lemma frobenius_id: "1 < n \<Longrightarrow> fits a \<Longrightarrow> (sq ^^ n) a = a"
proof (rule linear_basis [OF xor_linear_funpow [OF sq_linear] xor_linear_id])
  fix k assume n: "1 < n" and "k < n"
  then show "(sq ^^ n) (2 ^ k) = 2 ^ k"
  proof (induction k)
    case 0
    have "(sq ^^ j) 1 = 1" for j by (induction j) (simp_all add: times_one [OF one_fits])
    then show ?case by simp
  next
    case (Suc k)
    have "2 ^ Suc k = times 2 (2 ^ k)"
      using Suc.prems(2) times_power [OF n take_bit_two_power [of k n]] step_power [of k] by simp
    moreover have "fits 2" "fits (2 ^ k)"
      using take_bit_two_power [of 1 n] take_bit_two_power [of k n] Suc.prems by simp_all
    ultimately show ?case using Suc n by (simp add: frobenius_times cycle)
  qed
qed

lemma idempotent: "fits a \<Longrightarrow> sq a = a \<Longrightarrow> a = 0 \<or> a = 1"
proof -
  assume a: "fits a" "sq a = a"
  define g :: "u64 \<Rightarrow> u64" where "g y = word_of_int (ilin L (uint y))" for y
  have g: "xor_linear g"
    by (simp add: xor_linear_def g_def unsigned_xor_eq ilin_xor) (auto intro!: bit_word_eqI simp: bit_xor_iff bit_word_of_int_iff)
  have "g (sq a XOR a) = a XOR (a AND 1)"
  proof (rule linear_basis [OF _ _ _ a(1)])
    show "xor_linear (\<lambda>a. g (sq a XOR a))" by (rule xor_linear_compose [OF g xor_linear_xor [OF sq_linear xor_linear_id]])
    show "xor_linear (\<lambda>a. a XOR (a AND 1))" by (rule xor_linear_xor [OF xor_linear_id xor_linear_shifts(4)])
    fix k assume k: "k < n"
    have "map (\<lambda>(s, k). ilin L (s XOR 2 ^ k)) (zip (map (\<lambda>k. uint (sq (2 ^ k))) [0..<n]) [0..<n]) ! k
        = (0 # map (\<lambda>k. 2 ^ k) [1..<n]) ! k"
      using irreducible by (simp add: irreducible_by_def Let_def squares)
    then have "ilin L (uint (sq (2 ^ k)) XOR 2 ^ k) = (if k = 0 then 0 else 2 ^ k)"
      using k by (cases k) simp_all
    moreover have "k < 64" using k degree by simp
    ultimately have "g (sq (2 ^ k) XOR 2 ^ k) = (if k = 0 then 0 else 2 ^ k)"
      by (simp add: g_def unsigned_xor_eq uint_power)
    then show "g (sq (2 ^ k) XOR 2 ^ k) = 2 ^ k XOR (2 ^ k AND 1)"
      by (simp add: power_and_one)
  qed
  moreover have "g 0 = 0" by (simp add: g_def)
  ultimately have "a XOR (a AND 1) = 0" using a(2) by simp
  then have "a = a AND 1" by (metis bit.xor_left_self xor.right_neutral)
  then show ?thesis by (metis and_one_eq mod2_eq_if)
qed

end

subsection \<open>The type of the elements\<close>

definition generates :: "'a :: comm_ring_1 \<Rightarrow> bool" where
  "generates g \<longleftrightarrow> (\<forall>x. x \<noteq> 0 \<longrightarrow> (\<exists>k. x = g ^ k))"

locale binary_field_type = binary_field +
  fixes rep :: "'a :: comm_ring_1 \<Rightarrow> u64"
  assumes rep_inject: "rep x = rep y \<longleftrightarrow> x = y" and rep_fits: "take_bit n (rep x) = rep x"
    and rep_zero: "rep 0 = 0" and rep_one: "rep 1 = 1"
    and rep_times: "rep (x * y) = clmul_reduced red (rep x) (rep y)"
    and rep_onto: "take_bit n w = w \<Longrightarrow> \<exists>x. rep x = w"
    and large: "1 < n"
begin

lemma rep_frobenius: "rep (x ^ 2 ^ k) = (sq ^^ k) (rep x)"
proof (induction k)
  case (Suc k)
  have "x ^ 2 ^ Suc k = x ^ 2 ^ k * x ^ 2 ^ k" by (metis mult_2 power_Suc power_add)
  with Suc show ?case by (simp only: rep_times funpow.simps comp_apply)
qed simp

lemma fermat: "(x :: 'a) ^ 2 ^ n = x"
  using rep_frobenius [of x n] frobenius_id [OF large rep_fits] by (simp add: rep_inject)

lemma idempotents: "(x :: 'a) * x = x \<Longrightarrow> x = 0 \<or> x = 1"
  using idempotent [OF rep_fits, of x] rep_times [of x x] by (metis rep_inject rep_one rep_zero)

lemma order_one: "(x :: 'a) \<noteq> 0 \<Longrightarrow> x ^ (2 ^ n - 1) = 1"
proof -
  assume x: "x \<noteq> (0 :: 'a)"
  let ?e = "x ^ (2 ^ n - 1)"
  have "(2 :: nat) ^ 1 < 2 ^ n" using large by (simp only: power_strict_increasing_iff)
  then have exps: "Suc (2 ^ n - 1) = (2 :: nat) ^ n" "(2 ^ n - 1) + (2 ^ n - 1) = (2 :: nat) ^ n + (2 ^ n - 2)" "2 ^ n - 1 = Suc ((2 :: nat) ^ n - 2)"
    by simp_all
  have ex: "?e * x = x" by (metis exps(1) fermat power_Suc2)
  have "?e * ?e = x ^ 2 ^ n * x ^ (2 ^ n - 2)" by (metis exps(2) power_add)
  also have "\<dots> = ?e" by (metis exps(3) fermat power_Suc)
  finally have "?e = 0 \<or> ?e = 1" by (rule idempotents)
  then show ?thesis using ex x by auto
qed

lemma unat_exponent: "unat (push_bit n 1 - 2 :: u128) = 2 ^ n - 2"
proof -
  have n: "(2 :: nat) ^ n < 2 ^ 128" by (rule power_strict_increasing) (use degree in simp_all)
  have "(2 :: nat) ^ 1 < 2 ^ n" by (rule power_strict_increasing) (use large in simp_all)
  then have "push_bit n 1 - 2 = (of_nat (2 ^ n - 2) :: u128)"
    by (simp add: of_nat_diff push_bit_eq_mult)
  then show ?thesis using n by (simp add: unat_of_nat less_imp_diff_less)
qed

lemma inverse: "(x :: 'a) \<noteq> 0 \<Longrightarrow> pow_var_time x (push_bit n 1 - 2) * x = 1"
proof -
  assume x: "x \<noteq> (0 :: 'a)"
  have "(2 :: nat) ^ 1 < 2 ^ n" using large by (simp only: power_strict_increasing_iff)
  then have "Suc (2 ^ n - 2) = (2 :: nat) ^ n - 1" by simp
  then show ?thesis using order_one [OF x] by (metis pow_var_time_power power_Suc2 unat_exponent)
qed

lemma fb_inverse:
  "if x = (0 :: 'a) then fb_inverse n x = Inl Panic else \<exists>v. fb_inverse n x = Inr v \<and> v * x = 1"
  using inverse by (simp add: fb_inverse_def)

text \<open>Powers of the indeterminate, from the table of squares.\<close>

lemma rep_generator:
  assumes g: "rep g = 2"
  shows "e < 2 ^ c \<Longrightarrow> uint (rep (g ^ e)) = generator_power n (uint m) (isquares n (uint m) n 1) c (int e)"
proof (induction c arbitrary: e)
  case 0
  then show ?case by (simp add: rep_one)
next
  case (Suc c)
  let ?y = "g ^ (e div 2)"
  have half: "int (e div 2) = int e div 2" by (simp add: zdiv_int)
  have "e div 2 < 2 ^ c" using Suc.prems by (simp add: less_mult_imp_div_less mult.commute)
  then have y: "ilin (isquares n (uint m) n 1) (generator_power n (uint m) (isquares n (uint m) n 1) c (int e div 2)) = uint (rep (?y * ?y))"
    using Suc.IH [of "e div 2"] uint_sq [OF rep_fits, of ?y] by (simp add: rep_times half)
  have double: "rep (g * z) = step (rep z)" for z
    using times_power [OF large rep_fits, of z] by (simp add: rep_times g)
  have "g ^ e = (if odd e then g * (?y * ?y) else ?y * ?y)"
  proof -
    have "e = e div 2 + e div 2 + e mod 2" by presburger
    then have "g ^ e = ?y * ?y * g ^ (e mod 2)" by (metis power_add)
    then show ?thesis by (auto simp: mod2_eq_if mult_ac)
  qed
  then show ?case using uint_step [OF rep_fits, of "?y * ?y"] by (auto simp: y double Let_def)
qed

text \<open>The number of elements, and what the powers of one of them reach.\<close>

lemma finite_type: "finite (UNIV :: 'a set)" and card_type: "card (UNIV :: 'a set) = 2 ^ n"
proof -
  have "bij_betw rep UNIV {w. fits w}"
    unfolding bij_betw_def inj_on_def using rep_inject rep_fits rep_onto by (auto simp: image_iff) (metis rep_onto)
  moreover have "bij_betw unat {w :: u64. fits w} {..<2 ^ n}"
    unfolding bij_betw_def
  proof
    show "inj_on unat {w :: u64. fits w}" by (rule inj_onI) (simp add: word_unat_eq_iff)
    have n: "(2 :: nat) ^ n < 2 ^ 64" by (rule power_strict_increasing) (use degree in simp_all)
    have "unat w < 2 ^ n" if "fits w" for w :: u64
      using that by (metis take_bit_nat_less_exp unsigned_take_bit_eq)
    moreover have "\<exists>w :: u64. fits w \<and> unat w = j" if "j < 2 ^ n" for j
    proof (intro exI conjI)
      show j: "unat (of_nat j :: u64) = j" using that n by (simp add: unat_of_nat)
      have "unat (take_bit n (of_nat j :: u64)) = unat (of_nat j :: u64)"
        using that by (simp only: unsigned_take_bit_eq j take_bit_nat_eq_self)
      then show "fits (of_nat j)" by (simp only: word_unat_eq_iff)
    qed
    ultimately show "unat ` {w :: u64. fits w} = {..<2 ^ n}" by (auto simp: image_iff)
  qed
  ultimately have b: "bij_betw (unat \<circ> rep) UNIV {..<2 ^ n}" by (rule bij_betw_trans)
  show "finite (UNIV :: 'a set)" using bij_betw_finite [OF b] by simp
  show "card (UNIV :: 'a set) = 2 ^ n" using bij_betw_same_card [OF b] by simp
qed

lemma powers_of_order:
  assumes "(g :: 'a) ^ d = 1" and "0 < d" and "d < 2 ^ n - 1"
  shows "\<not> generates g"
proof
  assume "generates g"
  have "x \<in> (\<lambda>k. g ^ k) ` {..<d}" if x: "x \<noteq> 0" for x
  proof -
    obtain k where k: "x = g ^ k" using \<open>generates g\<close> x by (auto simp: generates_def)
    have "g ^ k = g ^ (d * (k div d) + k mod d)" by simp
    also have "\<dots> = g ^ (k mod d)" unfolding power_add power_mult assms(1) by simp
    finally show ?thesis using k assms(2) by auto
  qed
  then have "UNIV - {0} \<subseteq> (\<lambda>k. g ^ k) ` {..<d}" by auto
  then have "card (UNIV - {0 :: 'a}) \<le> d"
    by (metis card_image_le card_lessThan card_mono finite_imageI finite_lessThan le_trans)
  then show False using finite_type card_type assms(3) by (simp add: card_Diff_subset)
qed

lemma full_order_generates:
  assumes g: "(g :: 'a) \<noteq> 0" and order: "\<And>k. 0 < k \<Longrightarrow> k < 2 ^ n - 1 \<Longrightarrow> g ^ k \<noteq> 1"
  shows "generates g"
proof -
  have nz: "g ^ k \<noteq> 0" for k
  proof
    assume "g ^ k = 0"
    then have "g ^ (k * (2 ^ n - 1)) = 0 ^ (2 ^ n - 1)" by (simp only: power_mult)
    moreover have "g ^ (k * (2 ^ n - 1)) = 1" by (simp only: power_mult mult.commute [of k] order_one [OF g] power_one)
    moreover have "(2 :: nat) ^ 1 < 2 ^ n" by (rule power_strict_increasing) (use large in simp_all)
    ultimately show False by (simp add: zero_power)
  qed
  have "inj_on (\<lambda>k. g ^ k) {..<2 ^ n - 1}"
  proof (rule linorder_inj_onI)
    fix i j :: nat assume ij: "i < j" "i \<in> {..<2 ^ n - 1}" "j \<in> {..<2 ^ n - 1}"
    show "g ^ i \<noteq> g ^ j"
    proof
      assume eq: "g ^ i = g ^ j"
      have "g ^ i * g ^ (2 ^ n - 1 - i) = g ^ (2 ^ n - 1)" using ij by (simp flip: power_add)
      then have "g ^ j * g ^ (2 ^ n - 1 - i) = 1" using order_one [OF g] eq by simp
      moreover have "j + (2 ^ n - 1 - i) = (2 ^ n - 1) + (j - i)" using ij by simp
      ultimately have "g ^ ((2 ^ n - 1) + (j - i)) = 1" by (metis power_add)
      then have "g ^ (j - i) = 1" by (simp only: power_add order_one [OF g] mult_1)
      then show False using order [of "j - i"] ij by (auto intro: less_imp_diff_less)
    qed
  qed auto
  then have "card ((\<lambda>k. g ^ k) ` {..<2 ^ n - 1}) = 2 ^ n - 1" by (simp add: card_image)
  moreover have "card (UNIV - {0 :: 'a}) = 2 ^ n - 1" using finite_type card_type by (simp add: card_Diff_subset)
  moreover have "(\<lambda>k. g ^ k) ` {..<2 ^ n - 1} \<subseteq> UNIV - {0}" using nz by auto
  ultimately have "(\<lambda>k. g ^ k) ` {..<2 ^ n - 1} = UNIV - {0}"
    using finite_type by (metis card_subset_eq finite_Diff)
  then show ?thesis unfolding generates_def by (metis Diff_iff UNIV_I imageE singletonD)
qed

end

end
