(* ===== verification/Small_Binary_Fields.thy ===== *)
theory Small_Binary_Fields
  imports Binary_Reductions Binary_Field
begin

text \<open>
  The four fields that src/scuttlebutt/src/field/small_binary_fields.rs declares with its macro:
  the certificates that their polynomials are irreducible, the types of their elements with the
  operations of the code as a ring, and the rules of \<open>Binary_Field\<close> for each.
\<close>

unbundle bit_operations_syntax

subsection \<open>Certificates\<close>

text \<open>Maps that invert \<open>a * a + a\<close> up to the constant term, on the powers of the indeterminate.\<close>

definition f40b_roots :: "int list" where
  "f40b_roots = [
    26385567436, 50562593990, 50562593988, 59615755820, 50562593984, 733344722154, 59615755812, 467513320642,
    50562594000, 884250785816, 733344722122, 692442043594, 59615755876, 734372360218, 467513320514,
    55241153460, 50562594256, 687194898458, 884250786328, 59882109840, 733344721098, 825769624264,
    692442045642, 874136436284, 59615751780, 413484360486, 734372352026, 54790284752, 467513336898,
    443398019622, 55241186228, 445612558886, 50562528720, 708076215214, 687194767386, 0, 884250524184,
    119282005456, 59882634128, 609638448010]"

definition f45b_roots :: "int list" where
  "f45b_roots = [
    0, 27909298394278, 27909298394276, 3982398036452, 27909298394272, 3965219085772, 3982398036460,
    8599303945688, 27909298394288, 22172043629200, 3965219085804, 25621397720764, 3982398036396,
    22176338923908, 8599303945560, 18525790514836, 27909298394544, 20911730211392, 22172043628688,
    32754214455824, 3965219084780, 1014144568256, 25621397718716, 13526791808354, 3982398032300,
    28343450091236, 22176338932100, 159057912660, 8599303929176, 2861478754552, 18525790482068, 4711949104380,
    27909298329008, 22485556916260, 20911730342464, 4724784518496, 22172043890832, 4119845378476,
    32754214980112, 268437504, 3965218036204, 6559218519620, 1014142471104, 14608108446772, 25621393524412]"

definition f56b_roots :: "int list" where
  "f56b_roots = [
    63026970944677030, 9373146689579682, 9373146689579680, 63435068606937890, 9373146689579684,
    17635487848078256, 63435068606937898, 17653114399301392, 9373146689579700, 55384411717882618,
    17635487848078224, 8984879290986788, 63435068606937962, 1652354027018084, 17653114399301520,
    9002502610466292, 9373146689579956, 71695226051284638, 55384411717882106, 54061990779699422,
    17635487848079248, 63031371941619306, 8984879290988836, 63027181128792570, 63435068606933866,
    10659553181103936, 1652354027026276, 70766386311440426, 17653114399317904, 536870948, 9002502610433524,
    16437378226363636, 9373146689645492, 8698935399245668, 71695226051415710, 71677629567255454,
    55384411718144250, 9100561218674276, 54061990780223710, 55331394634551546, 17635487849127824,
    55694433735370318, 63031371943716458, 63131565820557818, 8984879286794532, 55714328559756906,
    63027181137181178, 64177738283286778, 63435068623711082, 9627519304257124, 10659553214658368,
    67530570588828894, 1652353959917412, 0, 70766386445658154, 25373930617160336]"

definition f63b_roots :: "int list" where
  "f63b_roots = [
    0, 4295033108, 4295033110, 281573778068338, 4295033106, 68719739424, 281573778068346, 1425478225574842,
    4295033090, 282656111007066, 68719739392, 4398048610304, 281573778068282, 72925220707661528,
    1425478225574714, 1391161469992840160, 4295032834, 281487878590810, 282656111007578, 73752135002443234,
    68719740416, 5930933348277562, 4398048608256, 19475061249768250, 281573778064186, 72903230468806360,
    72925220707653336, 1688614476020426970, 1425478225591098, 1372214200212377818, 1391161469992872928,
    8920212067414365154, 4294967298, 281560893100640, 281487878459738, 1425508290280120, 282656110745434,
    286109265632058, 73752135001918946, 1391160924532059106, 68720788992, 73754402744912866, 5930933346180410,
    19202283564726272, 4398052802560, 1687189169660679136, 19475061241379642, 8920071325631042528,
    281573761286970, 1708009748639202, 72903230435251928, 1388909056000208354, 72925220774762200,
    28213880863881216, 1688614476154644698, 8884323930574672090, 1425478494026554, 1172466936203017018,
    1372214199675506906, 8308690496560212960, 1391161468919131104, 4611686018427387904, 8920212069561848802]"

lemma f40b_irreducible: "irreducible_by 40 0x10000000039 f40b_roots"
  by code_simp

lemma f45b_irreducible: "irreducible_by 45 0x200010020801 f45b_roots"
  by code_simp

lemma f56b_irreducible: "irreducible_by 56 0x10000000000010d f56b_roots"
  by code_simp

lemma f63b_irreducible: "irreducible_by 63 0x8000000000000003 f63b_roots"
  by code_simp

interpretation f40b: binary_field 40 "0x10000000039" reduce_f40b f40b_roots
  by unfold_locales (use f40b_irreducible in simp)

interpretation f45b: binary_field 45 "0x200010020801" reduce_f45b f45b_roots
  by unfold_locales (use f45b_irreducible in simp)

interpretation f56b: binary_field 56 "0x10000000000010d" reduce_f56b f56b_roots
  by unfold_locales (use f56b_irreducible in simp)

interpretation f63b: binary_field 63 "0x8000000000000003" reduce_f63b f63b_roots
  by unfold_locales (use f63b_irreducible in simp)

lemma fits_zero: "take_bit n (0 :: u64) = 0"
  by simp

subsection \<open>F40b\<close>

typedef F40b = "{w :: u64. take_bit 40 w = w}"
  by (auto intro: fits_zero)

setup_lifting type_definition_F40b

instantiation F40b :: comm_ring_1
begin

lift_definition zero_F40b :: F40b is 0 by simp
lift_definition one_F40b :: F40b is 1 by (rule f40b.one_fits)
lift_definition plus_F40b :: "F40b \<Rightarrow> F40b \<Rightarrow> F40b" is fb_add_assign by (simp add: fb_ops)
lift_definition minus_F40b :: "F40b \<Rightarrow> F40b \<Rightarrow> F40b" is fb_sub_assign by (simp add: fb_ops)
lift_definition uminus_F40b :: "F40b \<Rightarrow> F40b" is fb_neg by (simp add: fb_ops)
lift_definition times_F40b :: "F40b \<Rightarrow> F40b \<Rightarrow> F40b" is "mul_assign reduce_f40b"
  unfolding mul_assign by (rule f40b.times_fits)

instance
proof
  fix a b c :: F40b
  show "a * b * c = a * (b * c)" by transfer (unfold mul_assign, rule f40b.times_assoc)
  show "a * b = b * a" by transfer (unfold mul_assign, rule f40b.times_commute)
  show "1 * a = a" by transfer (unfold mul_assign, rule f40b.times_one)
  show "(a + b) * c = a * c + b * c" by transfer (simp only: mul_assign fb_ops f40b.times_sum)
  show "a + b + c = a + (b + c)" by transfer (simp only: fb_ops xor.assoc)
  show "a + b = b + a" by transfer (simp only: fb_ops xor.commute)
  show "0 + a = a" by transfer (simp only: fb_ops xor.left_neutral)
  show "- a + a = 0" by transfer (simp only: fb_ops xor.left_neutral xor_self_eq)
  show "a - b = a + - b" by transfer (simp only: fb_ops xor.left_neutral)
  show "(0 :: F40b) \<noteq> 1" by transfer simp
qed

end

interpretation f40b: binary_field_type 40 "0x10000000039" reduce_f40b f40b_roots Rep_F40b
  by unfold_locales
    (use Rep_F40b Abs_F40b_inverse in \<open>auto simp: Rep_F40b_inject zero_F40b.rep_eq one_F40b.rep_eq times_F40b.rep_eq mul_assign\<close>)

definition F40b_GENERATOR :: F40b where
  "F40b_GENERATOR = Abs_F40b 0b10"

lemma Rep_F40b_GENERATOR: "Rep_F40b F40b_GENERATOR = 2"
  by (simp add: F40b_GENERATOR_def Abs_F40b_inverse)

subsection \<open>F45b\<close>

typedef F45b = "{w :: u64. take_bit 45 w = w}"
  by (auto intro: fits_zero)

setup_lifting type_definition_F45b

instantiation F45b :: comm_ring_1
begin

lift_definition zero_F45b :: F45b is 0 by simp
lift_definition one_F45b :: F45b is 1 by (rule f45b.one_fits)
lift_definition plus_F45b :: "F45b \<Rightarrow> F45b \<Rightarrow> F45b" is fb_add_assign by (simp add: fb_ops)
lift_definition minus_F45b :: "F45b \<Rightarrow> F45b \<Rightarrow> F45b" is fb_sub_assign by (simp add: fb_ops)
lift_definition uminus_F45b :: "F45b \<Rightarrow> F45b" is fb_neg by (simp add: fb_ops)
lift_definition times_F45b :: "F45b \<Rightarrow> F45b \<Rightarrow> F45b" is "mul_assign reduce_f45b"
  unfolding mul_assign by (rule f45b.times_fits)

instance
proof
  fix a b c :: F45b
  show "a * b * c = a * (b * c)" by transfer (unfold mul_assign, rule f45b.times_assoc)
  show "a * b = b * a" by transfer (unfold mul_assign, rule f45b.times_commute)
  show "1 * a = a" by transfer (unfold mul_assign, rule f45b.times_one)
  show "(a + b) * c = a * c + b * c" by transfer (simp only: mul_assign fb_ops f45b.times_sum)
  show "a + b + c = a + (b + c)" by transfer (simp only: fb_ops xor.assoc)
  show "a + b = b + a" by transfer (simp only: fb_ops xor.commute)
  show "0 + a = a" by transfer (simp only: fb_ops xor.left_neutral)
  show "- a + a = 0" by transfer (simp only: fb_ops xor.left_neutral xor_self_eq)
  show "a - b = a + - b" by transfer (simp only: fb_ops xor.left_neutral)
  show "(0 :: F45b) \<noteq> 1" by transfer simp
qed

end

interpretation f45b: binary_field_type 45 "0x200010020801" reduce_f45b f45b_roots Rep_F45b
  by unfold_locales
    (use Rep_F45b Abs_F45b_inverse in \<open>auto simp: Rep_F45b_inject zero_F45b.rep_eq one_F45b.rep_eq times_F45b.rep_eq mul_assign\<close>)

definition F45b_GENERATOR :: F45b where
  "F45b_GENERATOR = Abs_F45b 0b10"

lemma Rep_F45b_GENERATOR: "Rep_F45b F45b_GENERATOR = 2"
  by (simp add: F45b_GENERATOR_def Abs_F45b_inverse)

subsection \<open>F56b\<close>

typedef F56b = "{w :: u64. take_bit 56 w = w}"
  by (auto intro: fits_zero)

setup_lifting type_definition_F56b

instantiation F56b :: comm_ring_1
begin

lift_definition zero_F56b :: F56b is 0 by simp
lift_definition one_F56b :: F56b is 1 by (rule f56b.one_fits)
lift_definition plus_F56b :: "F56b \<Rightarrow> F56b \<Rightarrow> F56b" is fb_add_assign by (simp add: fb_ops)
lift_definition minus_F56b :: "F56b \<Rightarrow> F56b \<Rightarrow> F56b" is fb_sub_assign by (simp add: fb_ops)
lift_definition uminus_F56b :: "F56b \<Rightarrow> F56b" is fb_neg by (simp add: fb_ops)
lift_definition times_F56b :: "F56b \<Rightarrow> F56b \<Rightarrow> F56b" is "mul_assign reduce_f56b"
  unfolding mul_assign by (rule f56b.times_fits)

instance
proof
  fix a b c :: F56b
  show "a * b * c = a * (b * c)" by transfer (unfold mul_assign, rule f56b.times_assoc)
  show "a * b = b * a" by transfer (unfold mul_assign, rule f56b.times_commute)
  show "1 * a = a" by transfer (unfold mul_assign, rule f56b.times_one)
  show "(a + b) * c = a * c + b * c" by transfer (simp only: mul_assign fb_ops f56b.times_sum)
  show "a + b + c = a + (b + c)" by transfer (simp only: fb_ops xor.assoc)
  show "a + b = b + a" by transfer (simp only: fb_ops xor.commute)
  show "0 + a = a" by transfer (simp only: fb_ops xor.left_neutral)
  show "- a + a = 0" by transfer (simp only: fb_ops xor.left_neutral xor_self_eq)
  show "a - b = a + - b" by transfer (simp only: fb_ops xor.left_neutral)
  show "(0 :: F56b) \<noteq> 1" by transfer simp
qed

end

interpretation f56b: binary_field_type 56 "0x10000000000010d" reduce_f56b f56b_roots Rep_F56b
  by unfold_locales
    (use Rep_F56b Abs_F56b_inverse in \<open>auto simp: Rep_F56b_inject zero_F56b.rep_eq one_F56b.rep_eq times_F56b.rep_eq mul_assign\<close>)

definition F56b_GENERATOR :: F56b where
  "F56b_GENERATOR = Abs_F56b 0b10"

lemma Rep_F56b_GENERATOR: "Rep_F56b F56b_GENERATOR = 2"
  by (simp add: F56b_GENERATOR_def Abs_F56b_inverse)

subsection \<open>F63b\<close>

typedef F63b = "{w :: u64. take_bit 63 w = w}"
  by (auto intro: fits_zero)

setup_lifting type_definition_F63b

instantiation F63b :: comm_ring_1
begin

lift_definition zero_F63b :: F63b is 0 by simp
lift_definition one_F63b :: F63b is 1 by (rule f63b.one_fits)
lift_definition plus_F63b :: "F63b \<Rightarrow> F63b \<Rightarrow> F63b" is fb_add_assign by (simp add: fb_ops)
lift_definition minus_F63b :: "F63b \<Rightarrow> F63b \<Rightarrow> F63b" is fb_sub_assign by (simp add: fb_ops)
lift_definition uminus_F63b :: "F63b \<Rightarrow> F63b" is fb_neg by (simp add: fb_ops)
lift_definition times_F63b :: "F63b \<Rightarrow> F63b \<Rightarrow> F63b" is "mul_assign reduce_f63b"
  unfolding mul_assign by (rule f63b.times_fits)

instance
proof
  fix a b c :: F63b
  show "a * b * c = a * (b * c)" by transfer (unfold mul_assign, rule f63b.times_assoc)
  show "a * b = b * a" by transfer (unfold mul_assign, rule f63b.times_commute)
  show "1 * a = a" by transfer (unfold mul_assign, rule f63b.times_one)
  show "(a + b) * c = a * c + b * c" by transfer (simp only: mul_assign fb_ops f63b.times_sum)
  show "a + b + c = a + (b + c)" by transfer (simp only: fb_ops xor.assoc)
  show "a + b = b + a" by transfer (simp only: fb_ops xor.commute)
  show "0 + a = a" by transfer (simp only: fb_ops xor.left_neutral)
  show "- a + a = 0" by transfer (simp only: fb_ops xor.left_neutral xor_self_eq)
  show "a - b = a + - b" by transfer (simp only: fb_ops xor.left_neutral)
  show "(0 :: F63b) \<noteq> 1" by transfer simp
qed

end

interpretation f63b: binary_field_type 63 "0x8000000000000003" reduce_f63b f63b_roots Rep_F63b
  by unfold_locales
    (use Rep_F63b Abs_F63b_inverse in \<open>auto simp: Rep_F63b_inject zero_F63b.rep_eq one_F63b.rep_eq times_F63b.rep_eq mul_assign\<close>)

definition F63b_GENERATOR :: F63b where
  "F63b_GENERATOR = Abs_F63b 0b10"

lemma Rep_F63b_GENERATOR: "Rep_F63b F63b_GENERATOR = 2"
  by (simp add: F63b_GENERATOR_def Abs_F63b_inverse)

end
