(* ===== verification/Binary_Generators.thy ===== *)
theory Binary_Generators
  imports Small_Binary_Fields
begin

text \<open>
  The constant \<open>GENERATOR\<close> of the four fields: the orders of the indeterminate, from the prime
  factors of the order of the multiplicative group and the tables of squares.
\<close>

subsection \<open>Primes by trial division\<close>

fun no_divisor :: "nat \<Rightarrow> int \<Rightarrow> int \<Rightarrow> bool" where
  "no_divisor 0 d n = True"
| "no_divisor (Suc k) d n = (n mod d \<noteq> 0 \<and> no_divisor k (d + 2) n)"

lemma no_divisorD: "no_divisor k d n \<Longrightarrow> j < k \<Longrightarrow> \<not> d + 2 * int j dvd n"
proof (induction k d n arbitrary: j rule: no_divisor.induct)
  case (2 k d n)
  then show ?case
  proof (cases j)
    case (Suc i)
    then have "\<not> d + 2 + 2 * int i dvd n" using 2 by simp
    then show ?thesis using Suc by (simp add: algebra_simps)
  qed (auto simp: dvd_eq_mod_eq_0)
qed simp

lemma prime_by_trial:
  assumes "1 < n" and "odd n" and "n < (2 * k + 3) * (2 * k + 3)" and "int n = m" and "no_divisor k 3 m"
  shows "is_prime n"
proof (rule ccontr)
  assume "\<not> is_prime n"
  then obtain q where q: "is_prime q" "q dvd n" "q * q \<le> n" using least_prime_divisor assms(1) by blast
  have "odd q" using q(2) assms(2) by (meson dvd_trans)
  moreover have "1 < q" using q(1) by (simp add: is_prime_def)
  ultimately obtain i where "q = 2 * i + 1" "0 < i" by (auto elim: oddE)
  then have "q = 2 * (i - 1) + 3" by simp
  then obtain j where j: "q = 2 * j + 3" by blast
  have "j < k"
  proof (rule ccontr)
    assume "\<not> j < k"
    then have "(2 * k + 3) * (2 * k + 3) \<le> q * q" unfolding j by (intro mult_le_mono) simp_all
    then show False using q(3) assms(3) by simp
  qed
  then have "\<not> 3 + 2 * int j dvd int n" using no_divisorD [OF assms(5)] assms(4) by blast
  moreover have "3 + 2 * int j = int q" by (simp add: j)
  ultimately show False using q(2) by simp
qed

subsection \<open>Orders from prime factors\<close>

lemma prime_factor_of_product:
  "c dvd prod_list qs \<Longrightarrow> 1 < c \<Longrightarrow> \<forall>q \<in> set qs. is_prime q \<Longrightarrow> \<exists>q \<in> set qs. q dvd c"
proof (induction qs)
  case (Cons q qs)
  show ?case
  proof (cases "q dvd c")
    case False
    then have "coprime c q" using is_prime_coprime [of q c] Cons.prems(3) by (simp add: coprime_commute)
    then have "c dvd prod_list qs" using Cons.prems(1) by (simp add: coprime_dvd_mult_right_iff)
    then show ?thesis using Cons.IH Cons.prems(2,3) by auto
  qed simp
qed simp

lemma power_one_gcd:
  fixes g :: "'a :: comm_ring_1"
  assumes "g ^ a = 1" and "g ^ b = 1" and "0 < a"
  shows "g ^ gcd a b = 1"
proof -
  obtain u v where uv: "a * u = b * v + gcd a b" using bezout_nat [of a b] assms(3) by auto
  have "g ^ (a * u) = g ^ (b * v) * g ^ gcd a b" by (simp only: uv power_add)
  then show ?thesis using assms(1,2) by (simp add: power_mult)
qed

lemma full_order:
  fixes g :: "'a :: comm_ring_1"
  assumes "g ^ prod_list qs = 1" and "\<forall>q \<in> set qs. is_prime q \<and> g ^ (prod_list qs div q) \<noteq> 1"
    and "0 < k" and "k < prod_list qs"
  shows "g ^ k \<noteq> 1"
proof
  let ?n = "prod_list qs"
  assume "g ^ k = 1"
  then have g: "g ^ gcd k ?n = 1" using power_one_gcd assms(1,3) by blast
  let ?d = "gcd k ?n"
  obtain c where c: "?n = ?d * c" using gcd_dvd2 by (rule dvdE)
  have "?d \<le> k" using assms(3) by (simp add: dvd_imp_le)
  then have "?d < ?n" using assms(4) by simp
  then have "1 < c" using c by (metis less_one linorder_neqE_nat mult.right_neutral mult_0_right nat_less_le not_less_zero)
  moreover have "c dvd ?n" using c by (metis dvd_triv_right)
  ultimately obtain q where q: "q \<in> set qs" "q dvd c"
    using prime_factor_of_product assms(2) by blast
  then obtain e where "c = q * e" by (auto elim: dvdE)
  then have "?n = q * (?d * e)" using c by (metis mult.left_commute)
  moreover have "0 < q" using q(1) assms(2) by (auto simp: is_prime_def)
  ultimately have "?n div q = ?d * e" by (metis nonzero_mult_div_cancel_left less_numeral_extra(3))
  then have "g ^ (?n div q) = 1" by (simp add: power_mult g)
  then show False using assms(2) q(1) by blast
qed

subsection \<open>Generators from tables\<close>

fun no_smaller_order :: "nat \<Rightarrow> int \<Rightarrow> int list \<Rightarrow> int list \<Rightarrow> bool" where
  "no_smaller_order n m sq [] = True"
| "no_smaller_order n m sq (q # qs) =
     (generator_power n m sq n ((2 ^ n - 1) div q) \<noteq> 1 \<and> no_smaller_order n m sq qs)"

lemma no_smaller_orderD: "no_smaller_order n m sq qs \<Longrightarrow> q \<in> set qs \<Longrightarrow> generator_power n m sq n ((2 ^ n - 1) div q) \<noteq> 1"
  by (induction qs) auto

context binary_field_type
begin

lemma generates_by_factors:
  assumes g: "rep g = 2" and qs: "prod_list qs = 2 ^ n - 1" "list_all is_prime qs"
    and table: "no_smaller_order n (uint m) (isquares n (uint m) n 1) (map int qs)"
  shows "generates g"
proof (rule full_order_generates)
  show nz: "g \<noteq> 0" using g rep_zero by auto
  fix k :: nat assume k: "0 < k" "k < 2 ^ n - 1"
  have "g ^ (prod_list qs div q) \<noteq> 1" if "q \<in> set qs" for q
  proof -
    have "int ((2 ^ n - 1) div q) = (2 ^ n - 1) div int q" by (simp add: zdiv_int of_nat_diff)
    then have "uint (rep (g ^ ((2 ^ n - 1) div q))) \<noteq> 1"
      using no_smaller_orderD [OF table, of "int q"] that rep_generator [OF g, of "(2 ^ n - 1) div q" n]
      by (simp add: le_less_trans [OF div_le_dividend])
    then show ?thesis using qs(1) by (auto simp: rep_one)
  qed
  moreover have "g ^ prod_list qs = 1" using order_one [OF nz] qs(1) by simp
  ultimately show "g ^ k \<noteq> 1" using full_order [of g qs k] qs k by (auto simp: list_all_iff)
qed

end

lemma prime_3: "is_prime 3"
  by (rule prime_by_trial [where k = 0 and m = 3], simp, simp, simp, simp, code_simp)

lemma prime_5: "is_prime 5"
  by (rule prime_by_trial [where k = 0 and m = 5], simp, simp, simp, simp, code_simp)

lemma prime_7: "is_prime 7"
  by (rule prime_by_trial [where k = 0 and m = 7], simp, simp, simp, simp, code_simp)

lemma prime_11: "is_prime 11"
  by (rule prime_by_trial [where k = 1 and m = 11], simp, simp, simp, simp, code_simp)

lemma prime_17: "is_prime 17"
  by (rule prime_by_trial [where k = 1 and m = 17], simp, simp, simp, simp, code_simp)

lemma prime_29: "is_prime 29"
  by (rule prime_by_trial [where k = 2 and m = 29], simp, simp, simp, simp, code_simp)

lemma prime_31: "is_prime 31"
  by (rule prime_by_trial [where k = 2 and m = 31], simp, simp, simp, simp, code_simp)

lemma prime_41: "is_prime 41"
  by (rule prime_by_trial [where k = 2 and m = 41], simp, simp, simp, simp, code_simp)

lemma prime_43: "is_prime 43"
  by (rule prime_by_trial [where k = 2 and m = 43], simp, simp, simp, simp, code_simp)

lemma prime_73: "is_prime 73"
  by (rule prime_by_trial [where k = 3 and m = 73], simp, simp, simp, simp, code_simp)

lemma prime_113: "is_prime 113"
  by (rule prime_by_trial [where k = 4 and m = 113], simp, simp, simp, simp, code_simp)

lemma prime_127: "is_prime 127"
  by (rule prime_by_trial [where k = 5 and m = 127], simp, simp, simp, simp, code_simp)

lemma prime_337: "is_prime 337"
  by (rule prime_by_trial [where k = 8 and m = 337], simp, simp, simp, simp, code_simp)

lemmas primes = prime_3 prime_5 prime_7 prime_11 prime_17 prime_29 prime_31 prime_41 prime_43 prime_73 prime_113 prime_127 prime_337

lemma prime_61681: "is_prime 61681"
  by (rule prime_by_trial [where k = 123 and m = 61681], simp, simp, simp, simp, code_simp)

lemma prime_92737: "is_prime 92737"
  by (rule prime_by_trial [where k = 151 and m = 92737], simp, simp, simp, simp, code_simp)

lemma prime_649657: "is_prime 649657"
  by (rule prime_by_trial [where k = 402 and m = 649657], simp, simp, simp, simp, code_simp)

lemma f40b_generates: "generates F40b_GENERATOR"
proof (rule f40b.generates_by_factors [OF Rep_F40b_GENERATOR])
  show "prod_list [3, 5, 5, 11, 17, 31, 41, 61681] = (2 :: nat) ^ 40 - 1" by simp
  show "list_all is_prime [3, 5, 5, 11, 17, 31, 41, 61681]" by (simp add: primes prime_61681)
  have "no_smaller_order 40 0x10000000039 (isquares 40 0x10000000039 40 1) [3, 5, 5, 11, 17, 31, 41, 61681]" by code_simp
  then show "no_smaller_order 40 (uint (0x10000000039 :: u64)) (isquares 40 (uint (0x10000000039 :: u64)) 40 1) (map int [3, 5, 5, 11, 17, 31, 41, 61681])" by simp
qed

lemma f63b_generates: "generates F63b_GENERATOR"
proof (rule f63b.generates_by_factors [OF Rep_F63b_GENERATOR])
  show "prod_list [7, 7, 73, 127, 337, 92737, 649657] = (2 :: nat) ^ 63 - 1" by simp
  show "list_all is_prime [7, 7, 73, 127, 337, 92737, 649657]" by (simp add: primes prime_92737 prime_649657)
  have "no_smaller_order 63 0x8000000000000003 (isquares 63 0x8000000000000003 63 1) [7, 7, 73, 127, 337, 92737, 649657]" by code_simp
  then show "no_smaller_order 63 (uint (0x8000000000000003 :: u64)) (isquares 63 (uint (0x8000000000000003 :: u64)) 63 1) (map int [7, 7, 73, 127, 337, 92737, 649657])" by simp
qed

lemma f45b_order: "F45b_GENERATOR ^ 5026338869833 = 1"
proof -
  have "generator_power 45 0x200010020801 (isquares 45 0x200010020801 45 1) 45 5026338869833 = 1" by code_simp
  then have "uint (Rep_F45b (F45b_GENERATOR ^ 5026338869833)) = uint (1 :: u64)"
    using f45b.rep_generator [OF Rep_F45b_GENERATOR, of 5026338869833 45] by simp
  then show ?thesis by (simp only: word_uint_eq_iff [symmetric] f45b.rep_one [symmetric] f45b.rep_inject)
qed

lemma f45b_generates: "\<not> generates F45b_GENERATOR"
  by (rule f45b.powers_of_order [OF f45b_order]) simp_all

end
