(* ===== verification/Binary_Mac.thy ===== *)
theory Binary_Mac
  imports Small_Binary_Fields HomCom_Correct
begin

text \<open>
  The field of 2 ^ 40 elements as the field of the keys over F2, as mac-and-cheese uses it for
  its commitments to bits: its division, its bytes, its vectors over F2, and the interface of
  \<open>HomCom_Correct\<close> interpreted on it.
\<close>

unbundle bit_operations_syntax

subsection \<open>Division\<close>

text \<open>The inverse of the code, extended to zero as the type class asks.\<close>

instantiation F40b :: field
begin

definition inverse_F40b :: "F40b \<Rightarrow> F40b" where
  "inverse_F40b x = (case fb_inverse 40 x of Inl _ \<Rightarrow> 0 | Inr y \<Rightarrow> y)"

definition divide_F40b :: "F40b \<Rightarrow> F40b \<Rightarrow> F40b" where
  "divide_F40b x y = x * inverse y"

instance
proof
  fix a b :: F40b
  show "a \<noteq> 0 \<Longrightarrow> inverse a * a = 1" using f40b.inverse by (simp add: inverse_F40b_def fb_inverse_def)
  show "a div b = a * inverse b" by (rule divide_F40b_def)
  show "inverse (0 :: F40b) = 0" by (simp add: inverse_F40b_def fb_inverse_def)
qed

end

subsection \<open>Bytes\<close>

definition f40b_to_bytes :: "F40b \<Rightarrow> u8 list" where
  "f40b_to_bytes x = fb_to_bytes 40 (Rep_F40b x)"

definition f40b_from_bytes :: "u8 list \<Rightarrow> F40b res" where
  "f40b_from_bytes bs = res_bind (fb_from_bytes 40 bs) (\<lambda>raw. Inr (Abs_F40b raw))"

lemma f40b_from_to_bytes: "f40b_from_bytes (f40b_to_bytes x) = Inr x"
  using f40b.rep_fits [of x] by (simp add: f40b_from_bytes_def f40b_to_bytes_def fb_from_to_bytes Rep_F40b_inverse)

definition F40b_codec :: "F40b codec" where
  "F40b_codec = byte_element_codec (byte_repr_len 40) f40b_to_bytes f40b_from_bytes"

interpretation F40b_codec: serializable F40b_codec
  unfolding F40b_codec_def
proof (rule byte_element_serializable)
  show "length (f40b_to_bytes x) = byte_repr_len 40" for x by (simp add: f40b_to_bytes_def length_fb_to_bytes)
qed (rule f40b_from_to_bytes)

subsection \<open>Vectors over F2\<close>

definition f40b_smul :: "F2 \<Rightarrow> F40b \<Rightarrow> F40b" where
  "f40b_smul a x = Abs_F40b (f2_mul_fb a (Rep_F40b x))"

definition f40b_form_superfield :: "F2 list \<Rightarrow> F40b" where
  "f40b_form_superfield components = Abs_F40b (fb_form_superfield components)"

lemma f40b_smul: "f40b_smul a x = (if a = 1 then x else 0)"
  by (simp add: f40b_smul_def f2_mul_fb Rep_F40b_inverse zero_F40b_def)

lemma f40b_double: "x + x = (0 :: F40b)"
  by transfer (simp only: fb_ops xor_self_eq)

definition F40b_impl ::
  "(u8 list \<Rightarrow> nat \<Rightarrow> F40b) \<Rightarrow> (u8 list \<Rightarrow> u8 list) \<Rightarrow> (F2, F40b) field_impl" where
  "F40b_impl rnd hash = \<lparr>prime_codec = F2_codec, field_codec = F40b_codec, smul = f40b_smul, degree = 40,
     form_superfield = f40b_form_superfield, fe_random = rnd, blake3 = hash\<rparr>"

interpretation f40b_field: finite_field "F40b_impl rnd hash" for rnd hash
proof
  fix a b :: F2 and x y :: F40b
  let ?F = "F40b_impl rnd hash"
  show "smul ?F (a + b) x = smul ?F a x + smul ?F b x"
    by (cases a rule: F2_cases; cases b rule: F2_cases) (simp_all add: F40b_impl_def f40b_smul f40b_double)
  show "smul ?F (a * b) x = smul ?F a (smul ?F b x)"
    by (cases a rule: F2_cases; cases b rule: F2_cases) (simp_all add: F40b_impl_def f40b_smul)
  show "smul ?F 1 x = x" by (simp add: F40b_impl_def f40b_smul)
  show "smul ?F a (x * y) = smul ?F a x * y" by (simp add: F40b_impl_def f40b_smul)
qed (simp_all add: F40b_impl_def F2_codec.length_to_bytes F2_codec.from_to_bytes F2_codec.length_seq_write
      F2_codec.seq_read_write F40b_codec.length_to_bytes F40b_codec.from_to_bytes F40b_codec.length_seq_write F40b_codec.seq_read_write)

text \<open>The powers that mask the multiplication check are the powers of the generator.\<close>

lemma make_x_i_power: "i < 40 \<Longrightarrow> make_x_i (F40b_impl rnd hash) i = F40b_GENERATOR ^ i"
proof -
  assume i: "i < 40"
  have rep: "Rep_F40b (F40b_GENERATOR ^ k) = 2 ^ k" if "k < 40" for k
    using that
  proof (induction k)
    case (Suc k)
    then have "Rep_F40b (F40b_GENERATOR ^ Suc k) = clmul_reduced reduce_f40b 2 (2 ^ k)"
      by (simp add: times_F40b.rep_eq Rep_F40b_GENERATOR mul_assign)
    also have "\<dots> = times_x 40 0x10000000039 (2 ^ k)"
      using f40b.times_power [of 1 "2 ^ k"] take_bit_two_power [of k 40] Suc.prems by simp
    also have "\<dots> = 2 ^ Suc k" by (rule f40b.step_power [OF Suc.prems])
    finally show ?case .
  qed (simp add: one_F40b.rep_eq)
  have "fb_form_superfield ((replicate 40 0)[i := 1]) = 2 ^ i"
    by (rule bit_word_eqI) (use i in \<open>auto simp: bit_fb_form_superfield bit_two_power nth_list_update\<close>)
  then have "make_x_i (F40b_impl rnd hash) i = Abs_F40b (Rep_F40b (F40b_GENERATOR ^ i))"
    by (simp add: make_x_i_def F40b_impl_def f40b_form_superfield_def rep [OF i])
  then show ?thesis by (simp add: Rep_F40b_inverse)
qed

end
