(* ===== verification/Binary_Properties.thy ===== *)
theory Binary_Properties
  imports Binary_Generators Binary_Mac Conversion_Properties
begin

text \<open>
  The properties of the small binary fields, and the conversions with the field of 2 ^ 40
  elements for the keys of the bits.
\<close>

unbundle bit_operations_syntax

subsection \<open>The conversions with keys in F40b\<close>

interpretation conv_f40_f61: conv_fields "F61p_conv (F40b_impl rnd2 hash2) rnd hash bits g" for rnd2 hash2 rnd hash bits g
  by (rule F61p_conv_fields [OF f40b_field.finite_field_axioms])

subsection \<open>Properties\<close>

text \<open>
  What a reduction promises: on the products of two elements its value fits \<open>n\<close> bits and is the
  remainder modulo the polynomial.
\<close>

definition reduces_modulo :: "nat \<Rightarrow> bool \<times> bool list \<Rightarrow> (u128 \<Rightarrow> u64) \<Rightarrow> bool" where
  "reduces_modulo n p red \<longleftrightarrow> (\<forall>x. take_bit (2 * n - 1) x = x \<longrightarrow>
     take_bit n (red x) = red x \<and> (\<exists>q. take_bit (n - 1) q = q \<and> x = clmul q (polynomial_word p) XOR ucast (red x)))"

lemma reduces_moduloI:
  assumes "polynomial_reduction n (polynomial_word p) red"
  shows "reduces_modulo n p red"
  unfolding reduces_modulo_def
  using polynomial_reduction.red_fits [OF assms] polynomial_reduction.red_remainder [OF assms] by blast

text \<open>
  C20. The four reductions of the small binary fields are remainders: on every product of two
  elements, which has at most \<open>2 * n - 1\<close> bits, the shifts and masks of \<open>reduce\<close> return the
  remainder of the division by the polynomial that \<open>polynomial_modulus\<close> lists.
\<close>

theorem reductions_are_remainders:
  "reduces_modulo 40 polynomial_modulus_f40b reduce_f40b \<and>
   reduces_modulo 45 polynomial_modulus_f45b reduce_f45b \<and>
   reduces_modulo 56 polynomial_modulus_f56b reduce_f56b \<and>
   reduces_modulo 63 polynomial_modulus_f63b reduce_f63b"
  by (intro conjI reduces_moduloI; unfold modulus_f40b modulus_f45b modulus_f56b modulus_f63b)
    (rule f40b.polynomial_reduction_axioms f45b.polynomial_reduction_axioms
       f56b.polynomial_reduction_axioms f63b.polynomial_reduction_axioms)+

text \<open>
  C21. The reduction of F63b over vectors of lanes, which works on the lanes of two registers at
  once, has the values of the default method, which unpacks the lanes and reduces one by one.
\<close>

theorem vectored_reduction_default:
  "reduce_vectored_f63b uppers lowers = reduce_vectored_default reduce_f63b uppers lowers"
  unfolding reduce_vectored_f63b_def reduce_vectored_default_def reduce_vectored_lane ..

text \<open>
  C22. The four types are fields with the operations of the code, and \<open>inverse\<close> is total apart
  from zero: it panics exactly there, and the exponentiation by \<open>2 ^ n - 2\<close> inverts every other
  element, so that the polynomials are irreducible.
\<close>

theorem small_fields_inverse:
  fixes w :: F40b and x :: F45b and y :: F56b and z :: F63b
  shows "(if w = 0 then fb_inverse 40 w = Inl Panic else \<exists>v. fb_inverse 40 w = Inr v \<and> v * w = 1) \<and>
    (if x = 0 then fb_inverse 45 x = Inl Panic else \<exists>v. fb_inverse 45 x = Inr v \<and> v * x = 1) \<and>
    (if y = 0 then fb_inverse 56 y = Inl Panic else \<exists>v. fb_inverse 56 y = Inr v \<and> v * y = 1) \<and>
    (if z = 0 then fb_inverse 63 z = Inl Panic else \<exists>v. fb_inverse 63 z = Inr v \<and> v * z = 1)"
  by (intro conjI f40b.fb_inverse f45b.fb_inverse f56b.fb_inverse f63b.fb_inverse)

text \<open>
  C23. The constant \<open>GENERATOR\<close>: in F40b and F63b every nonzero element is a power of it, as the
  trait \<open>FiniteField\<close> says. In F45b it is not a generator: its order divides
  \<open>(2 ^ 45 - 1) / 7\<close>, so that six sevenths of the group are out of its reach.
\<close>

theorem generators:
  "generates F40b_GENERATOR \<and> generates F63b_GENERATOR \<and>
   F45b_GENERATOR ^ ((2 ^ 45 - 1) div 7) = 1 \<and> \<not> generates F45b_GENERATOR"
  using f40b_generates f63b_generates f45b_order f45b_generates by simp

text \<open>
  Elements as bytes and as vectors over F2, for every width up to 63: the bytes of an element
  are read back as the element, every sequence of bytes that is accepted is the one of its
  element, and the coefficients of an element form the element again.
\<close>

theorem binary_field_encodings:
  assumes "n \<le> 63" and "take_bit n x = x" and "length bs = byte_repr_len n" and "length cs = n"
  shows "fb_from_bytes n (fb_to_bytes n x) = Inr x \<and>
    (case fb_from_bytes n bs of Inl _ \<Rightarrow> True | Inr y \<Rightarrow> take_bit n y = y \<and> fb_to_bytes n y = bs) \<and>
    fb_form_superfield (fb_decompose n x) = x \<and> fb_decompose n (fb_form_superfield cs) = cs"
proof -
  have n: "n \<le> 64" using assms(1) by simp
  then have "fb_decompose n (fb_form_superfield cs) = cs" using fb_decompose_form [of cs] assms(4) by simp
  with n show ?thesis
    using fb_from_to_bytes [OF n assms(2)] fb_to_from_bytes [OF n assms(3)] fb_from_bytes_fits [of n bs] fb_form_decompose [OF assms(2)]
    by (simp split: sum.split)
qed

theorem binary_field_encodings_witness:
  "fb_from_bytes 40 (fb_to_bytes 40 0xFFFFFFFFFF) = Inr 0xFFFFFFFFFF"
  using binary_field_encodings [of 40 "0xFFFFFFFFFF" "replicate 5 0" "replicate 40 0"] by (simp add: byte_repr_len_def)

end
