(* ===== verification/Spec2Isabelle.thy ===== *)
theory Spec2Isabelle
  imports Ocelot_Utils Wire_Blocks Crt_Correct Convolve HomCom_Properties Conversion_Deviations Fixed_Point_Properties Binary_Properties
begin

text \<open>
  Verification of edaBitGenMPC: the bit-matrix transpose of ocelot, the digit arithmetic of the
  garbling library, the fields of scuttlebutt, and the homomorphic commitments and the conversions of
  edaBits of mac-and-cheese.

  The program. The repository is a fork of the swanky libraries. Its C code is a bit-matrix
  transpose with SSE instructions (src/ocelot/cbits/transpose.c) and a generated file of lookup
  tables for writing a 128-bit block in base q (base_conversion/cbits/lookup_tables.c of
  src/fancy-garbling). Rust code calls both: src/ocelot/src/utils.rs transposes the matrices of
  the oblivious-transfer extensions, and src/fancy-garbling/src/wire.rs makes wire labels, which
  are lists of digits modulo q, out of blocks. The protocols of src/diet-mac-and-cheese commit to
  field elements with MACs from a subfield VOLE, over the fields and the byte channel of
  src/scuttlebutt.

  The theories.

  Prelude: the collections of simplification rules, and facts on lists, words and sums that the
  components share.

  Transpose_Registers, Transpose, Transpose_Correct: the SSE registers and intrinsics, sse_trans
  of transpose.c loop by loop with every access checked against the buffers, and the proof that it
  transposes. Ocelot_Utils: the wrappers of utils.rs for both targets and the portable transpose
  (C1 and C2, and that the input length is not checked), and the packing of booleans into bytes.

  Digits: the mathematics of digit lists, and the executable check of one lookup table
  (holds_rows), in sixteen blocks of sixteen rows. Base_Conversion: the digit counts and the two
  functions of lookup_tables.c with the Rust functions of base_conversion/src/lib.rs, over a
  parameter for the contents of the tables, with the exact values of the 109 digit counts. Radix: the
  number conversions of util.rs (C4 and C5). Crt: the residue numbers of util.rs, with the i128 values
  as integers whose range is checked after every operation, the correctness of the extended Euclidean
  algorithm (inv) and the loop of crt_inv. Crt_Correct: over the primes of the library, the range of
  every intermediate value, the moduli of a given width and the randomly drawn ones (C6).

  Unrank: the table of powers of npaths_tab.rs and _unrank of wire.rs. Wire: the three
  representations of wire labels and the enum over them (C7, C10 and C11). Table_Base29_Low to
  Table_Base37_High: the tables of bases 29, 31 and 37 as they stand in the C file, each checked
  against holds_rows. Lookup_Tables: the file's memory with these tables, the correctness of the
  lookup (C3), and the interpretations that carry the wire labels over to them. Wire_Blocks: packing
  and unpacking of labels over these tables (C8 and C9).

  Finite_Ring: little-endian words and the exponentiations of ring.rs (C32). Prime61: a
  certificate that 2^61 - 1 is prime. F61p: the field of that order, f61p.rs, on 64-bit words with
  the reductions of the code, and its instances of comm_ring_1 and field (C12 to C16); each operation
  is stated twice, with wrapping operators (the value) and with the overflow checks of the dev profile,
  and C13 shows that the checks never fire. Convolve:
  the default convolution and the one of F61p with delayed reduction (C17). F2: the field of two
  elements of f2.rs with its bit serializers (C18).

  Carryless: polynomials over GF(2) as words, the linear maps of words and their bases, and the
  locale polynomial_reduction of a linear map that reduces modulo a polynomial, with the laws of a
  ring that follow. Carryless_Scalar: the scalar carryless_mul of vectoreyes, by integer products
  with holes, is the product of polynomials (C19). Binary_Reductions: the reductions of
  small_binary_fields.rs for F40b, F45b, F56b and F63b as they stand, each an interpretation of that
  locale by a table of its values on the powers of the indeterminate. Binary_Field: the operations
  that the macro small_binary_field defines, the locale binary_field of an irreducible polynomial with
  an executable certificate, and binary_field_type for the type of the elements.
  Small_Binary_Fields: the four certificates, the four types as rings. Binary_Generators: orders of
  elements from the prime factors of the order of the group. Binary_Mac: F40b as the field of the keys
  over F2, interpreted as a finite_field. Binary_Properties: the reductions are remainders, the
  vectored one equals the default, the four types are fields, and what GENERATOR generates (C20 to
  C23); and the conversions interpreted with keys in F40b.

  Channel: the byte channel, protocol code as state-passing functions that may fail, and the
  locale serializable for the element codecs. Its rules run two parties side by side: joint says
  what both return and leave behind when each reads what the other writes. HomCom: the prover and
  the verifier of homcom.rs, generic in the field (the record field_impl). HomCom_Correct: the
  locale finite_field, the contract of a field, interpreted for F61p, F2 and F40b; the MAC relation, the
  invariant fcom_ok of the two states, and one rule for every operation. Roots: the number of
  roots of a polynomial. HomCom_Properties: what the commitments promise (C24 to C31),
  completeness as runs of both parties, soundness as a bound on what a verifier accepts from an
  arbitrary peer.

  Edabits: the shuffle, random edaBits, daBits and triples, the conversion of a bit to the field and
  the addition with carry of edabits.rs, for both parties, over two commitment schemes (the record
  conv_state for ProverConv and VerifierConv, conv_impl for what the code calls of the two fields).
  Conversion: the check of daBits (fdabit), the handling of one window (conv_loop), cut and choose
  (conv), its parameters and the estimate of the VOLEs. Edabits_Correct: the shuffle (C33) and the
  numbers that bits represent. Adder_Correct, Conversion_Correct, Fdabit_Correct,
  Cut_Choose_Correct: one rule for every step of the two parties, in the locale conv_fields, the
  contract of the two fields, interpreted for F61p with keys of the bits in F2 and in F40b; the invariant conv_ok counts the VOLEs
  left. Conversion_Properties: the addition, the check of daBits and the whole conversion check
  finish and accept, with the VOLEs of the estimate (C34 to C36). Conversion_Deviations: two provers
  that deviate from the code and are accepted with wrong data (C37 and C38), because the verifier
  constrains neither the carries into the additions nor the masks of the check of daBits.

  Fixed_Point: random edaBits of all bits of an element (random_edabits_b2a), the check of
  fixed-point multiplications (verify_fp_mult) of edabits.rs, and the random triples of trunc.rs.
  Fixed_Point_Correct: their rules, in the locale fpm_fields, which extends conv_fields by the bits
  of an element. Fixed_Point_Properties: the check is complete with the VOLEs of its estimate, and
  random triples are triples that it accepts (C39 and C40).

  Words have the width of the source: bytes are 8 word, u16 digits 16 word, field elements of F61p
  64 word, blocks and u128 values 128 word. Lengths and counters (usize) are nat. A panic, an
  overflow that the debug build traps, an I/O error and an access outside a buffer are values of an
  error type; loops that the code bounds are structural recursions, and the two loops that it does
  not bound (pow_loop, voles_reserve) have a termination proof.

  Abstractions. The subfield VOLE below the commitments is the functionality of the traits
  SVoleSender and SVoleReceiver: the batches that it will deliver are part of the state, and the
  invariant says that those of the two parties are correlated. Random draws are arguments; AesRng
  and blake3 are parameters, about which nothing is assumed. A channel is the bytes that the peer
  has sent; written bytes count as sent, so flush has no effect. The two parties run on the bytes
  that the other one writes in the whole run, as two threads would.

  In the conversions the field of the keys of the bits, F40b in the code, is any field that keeps the
  laws of finite_field over F2; the division of F40b is extended to zero, where the code panics. Bounded draws of the shuffle are a function of the seed and of the bounds drawn before, within
  their bounds. The sharing of a commitment scheme between several converters (Rc) is not visible:
  the state of a party is the pair of its schemes. The timings of conv are left out, and so is its
  variant with bucket channels, whose body is commented out in the code.

  Not modelled. Of util.rs the tweaks, generate_deltas and the random blocks, primes and moduli other
  than the composite ones. The constructors over the sVOLE setup of edabits.rs. The fields F64b and F128b. The
  tables of the other 106 bases are data of the same shape and are a parameter; what is proved for a base assumes only that its tables pass the same check. The hash functions of
  wire.rs use fixed-key AES of another crate and the processor; random generators and the network
  layers are input and output. The garbler, the oblivious-transfer extensions and the sVOLE
  protocol rest on AES and are left out, as are the drivers and benchmarks.
\<close>

end
